(* ===== verification/Prelude.thy ===== *)
theory Prelude
  imports Main "HOL-Library.List_Lexorder" "HOL-Library.Char_ord" "HOL-Library.AList"
    "HOL-Library.Sublist"
begin

text \<open>
  Shared material of the development: the theorem collections, tables as lists of rows
  (a lookup by key, an update of the rows with a key), ordered key lists
  (Python's \<open>sorted\<close> on strings is the lexicographic order of
  \<^verbatim>\<open>HOL-Library.List_Lexorder\<close>) and type synonyms for the texts and
  instants the program stores.
\<close>

section \<open>Collections\<close>

named_theorems prog_simps "how the program combinators run from a state"
named_theorems guar_intros "introduction rules for guarantees of programs"
named_theorems table_simps "lookups in updated tables"

section \<open>Names and instants\<close>

text \<open>
  Identifiers, keys and codes are ASCII texts. An instant is the integer the
  fixed-width text \<^verbatim>\<open>%Y-%m-%dT%H:%M:%SZ\<close> stands for; the source
  compares those texts, whose order is the order of the instants.
\<close>

type_synonym ident = string
type_synonym instant = int

section \<open>Tables: lists of rows with a key\<close>

definition row_with :: "('r \<Rightarrow> 'k) \<Rightarrow> 'r list \<Rightarrow> 'k \<Rightarrow> 'r option" where
  "row_with key rows k = find (\<lambda>r. key r = k) rows"

definition rows_updated :: "('r \<Rightarrow> bool) \<Rightarrow> ('r \<Rightarrow> 'r) \<Rightarrow> 'r list \<Rightarrow> 'r list" where
  "rows_updated p f rows = map (\<lambda>r. if p r then f r else r) rows"

lemma row_with_Nil [simp]: "row_with key [] k = None"
  by (simp add: row_with_def)

lemma row_with_Cons [simp]:
  "row_with key (r # rows) k = (if key r = k then Some r else row_with key rows k)"
  by (simp add: row_with_def)

lemma row_with_append:
  "row_with key (rows @ rows') k =
     (case row_with key rows k of None \<Rightarrow> row_with key rows' k | Some r \<Rightarrow> Some r)"
  by (induction rows) auto

lemma row_with_SomeD: "row_with key rows k = Some r \<Longrightarrow> r \<in> set rows \<and> key r = k"
  by (induction rows) (auto split: if_splits)

lemma row_with_key: "row_with key rows k = Some r \<Longrightarrow> key r = k"
  by (blast dest: row_with_SomeD)

lemma row_with_None_iff: "row_with key rows k = None \<longleftrightarrow> k \<notin> key ` set rows"
  by (induction rows) auto

lemma row_with_updated:
  assumes "\<And>r. p r \<Longrightarrow> key (f r) = key r"
  shows "row_with key (rows_updated p f rows) k =
     map_option (\<lambda>r. if p r then f r else r) (row_with key rows k)"
  using assms by (induction rows) (auto simp: rows_updated_def)

lemma rows_updated_keys:
  assumes "\<And>r. p r \<Longrightarrow> key (f r) = key r"
  shows "map key (rows_updated p f rows) = map key rows"
  using assms by (induction rows) (auto simp: rows_updated_def)

lemma rows_updated_id: "(\<And>r. r \<in> set rows \<Longrightarrow> \<not> p r) \<Longrightarrow> rows_updated p f rows = rows"
  by (induction rows) (auto simp: rows_updated_def)

lemma length_rows_updated [simp]: "length (rows_updated p f rows) = length rows"
  by (simp add: rows_updated_def)

lemma row_with_in_distinct:
  "distinct (map key rows) \<Longrightarrow> r \<in> set rows \<Longrightarrow> row_with key rows (key r) = Some r"
  by (induction rows) (auto simp: rev_image_eqI)

lemma row_with_filter:
  assumes "distinct (map key rows)"
  shows "row_with key (filter p rows) k =
     (case row_with key rows k of None \<Rightarrow> None | Some r \<Rightarrow> if p r then Some r else None)"
  using assms
proof (induction rows)
  case Nil
  then show ?case by simp
next
  case (Cons r rows)
  have "key r = k \<Longrightarrow> row_with key rows k = None"
    using Cons.prems by (auto simp: row_with_None_iff)
  with Cons show ?case by auto
qed

section \<open>Ordered keys\<close>

definition sorted_keys :: "('k::linorder) list \<Rightarrow> 'k list" where
  "sorted_keys ks = sort (remdups ks)"

lemma set_sorted_keys [simp]: "set (sorted_keys ks) = set ks"
  by (simp add: sorted_keys_def)

lemma distinct_sorted_keys [simp]: "distinct (sorted_keys ks)"
  by (simp add: sorted_keys_def)

lemma sorted_sorted_keys [simp]: "sorted (sorted_keys ks)"
  by (simp add: sorted_keys_def)

lemma sorted_keys_Nil [simp]: "sorted_keys [] = []"
  by (simp add: sorted_keys_def)

lemma sorted_keys_singleton [simp]: "sorted_keys [k] = [k]"
  by (simp add: sorted_keys_def)

section \<open>Python truthiness of texts\<close>

text \<open>\<open>x or default\<close> on an optional text: \<^verbatim>\<open>None\<close> and the empty text are falsy.\<close>

fun text_or :: "string option \<Rightarrow> string \<Rightarrow> string" where
  "text_or None d = d"
| "text_or (Some t) d = (if t = '''' then d else t)"

lemma text_or_nonempty: "d \<noteq> '''' \<Longrightarrow> text_or t d \<noteq> ''''"
  by (cases t) auto

end
