(* ===== verification/Payload.thy ===== *)
theory Payload
  imports Prelude
begin

text \<open>
  Payload validation (\<^verbatim>\<open>bc250_llm_mode/operations/validation.py\<close>): what
  may be persisted in the operation tables. A Python text is the list of its code points;
  a JSON value is a tree. Sanitizing rejects secret-like keys, bounds depth, key count and
  text length, and measures the canonical encoding in UTF-8 bytes.
\<close>

section \<open>Values\<close>

type_synonym pystr = "nat list"

definition cps :: "string \<Rightarrow> pystr" where
  "cps s = map of_char s"

text \<open>
  \<open>JFloat\<close> carries the decimal text \<^verbatim>\<open>repr\<close> gives a float, which is what
  the encoder writes; \<open>JOther\<close> is any Python object that is no JSON value, with its
  type's name. Keys are the texts \<^verbatim>\<open>str(key)\<close> returns.
\<close>

datatype json =
    JNull
  | JBool bool
  | JInt int
  | JFloat string
  | JStr pystr
  | JList "json list"
  | JObj "(string \<times> json) list"
  | JOther string

definition jstr :: "string \<Rightarrow> json" where
  "jstr s = JStr (cps s)"

fun jopt :: "string option \<Rightarrow> json" where
  "jopt None = JNull"
| "jopt (Some s) = jstr s"

text \<open>Python's \<open>value or {}\<close>: a falsy value is replaced by the empty object.\<close>

fun falsy :: "json \<Rightarrow> bool" where
  "falsy JNull = True"
| "falsy (JBool b) = (\<not> b)"
| "falsy (JInt n) = (n = 0)"
| "falsy (JFloat t) = (t = ''0.0'' \<or> t = ''-0.0'')"
| "falsy (JStr s) = (s = [])"
| "falsy (JList xs) = (xs = [])"
| "falsy (JObj kvs) = (kvs = [])"
| "falsy (JOther t) = False"

definition or_empty :: "json \<Rightarrow> json" where
  "or_empty v = (if falsy v then JObj [] else v)"

section \<open>Limits\<close>

definition SECRET_NAME_MARKERS :: "string list" where
  "SECRET_NAME_MARKERS =
    [''token'', ''secret'', ''password'', ''passwd'', ''api_key'', ''apikey'',
     ''authorization'', ''cookie'', ''credential'', ''private_key'']"

definition MAX_DEPTH :: nat where "MAX_DEPTH = 8"
definition MAX_KEYS_PER_OBJECT :: nat where "MAX_KEYS_PER_OBJECT = 64"
definition MAX_STRING_CHARS :: nat where "MAX_STRING_CHARS = 4096"

definition TRUNCATION_MARKER :: pystr where
  "TRUNCATION_MARKER = 8230 # cps ''[truncated]''"

definition REQUEST_MAX_BYTES :: nat where "REQUEST_MAX_BYTES = 64 * 1024"
definition EVENT_DETAIL_MAX_BYTES :: nat where "EVENT_DETAIL_MAX_BYTES = 16 * 1024"
definition SUMMARY_MAX_CHARS :: nat where "SUMMARY_MAX_CHARS = 512"

definition EVENT_LEVELS :: "string list" where
  "EVENT_LEVELS = [''debug'', ''info'', ''warn'', ''error'']"

lemmas payload_limits =
  MAX_DEPTH_def MAX_KEYS_PER_OBJECT_def MAX_STRING_CHARS_def
  REQUEST_MAX_BYTES_def EVENT_DETAIL_MAX_BYTES_def SUMMARY_MAX_CHARS_def

section \<open>Secret-like keys\<close>

definition ascii_lower :: "char \<Rightarrow> char" where
  "ascii_lower c = (if CHR ''A'' \<le> c \<and> c \<le> CHR ''Z'' then char_of (of_char c + 32 :: nat) else c)"

fun contains :: "string \<Rightarrow> string \<Rightarrow> bool" where
  "contains needle [] = (needle = [])"
| "contains needle (c # hay) = (prefix needle (c # hay) \<or> contains needle hay)"

lemma contains_iff_sublist: "contains needle hay \<longleftrightarrow> sublist needle hay"
  by (induction hay) (auto simp: sublist_Cons_right)

datatype payload_error =
    SecretKey string
  | TooDeep
  | TooManyKeys nat
  | Unsupported string
  | TooLarge nat
  | SurrogateText

definition secret_like :: "string \<Rightarrow> bool" where
  "secret_like key = list_ex (\<lambda>marker. contains marker (map ascii_lower key)) SECRET_NAME_MARKERS"

section \<open>Cleaning\<close>

text \<open>
  The cleaned object is a Python dict filled in insertion order: a later entry under an
  already used key replaces the value and keeps the position.
\<close>

definition truncated :: "pystr \<Rightarrow> pystr" where
  "truncated s =
    (if length s > MAX_STRING_CHARS
     then take (MAX_STRING_CHARS - length TRUNCATION_MARKER) s @ TRUNCATION_MARKER
     else s)"

fun sanitize_tree :: "nat \<Rightarrow> json \<Rightarrow> payload_error + json"
and sanitize_items :: "nat \<Rightarrow> (string \<times> json) list \<Rightarrow> (string \<times> json) list
      \<Rightarrow> payload_error + (string \<times> json) list"
and sanitize_elems :: "nat \<Rightarrow> json list \<Rightarrow> payload_error + json list" where
  "sanitize_tree depth v =
    (if depth > MAX_DEPTH then Inl TooDeep
     else case v of
       JObj kvs \<Rightarrow>
         (if length kvs > MAX_KEYS_PER_OBJECT then Inl (TooManyKeys (length kvs))
          else case sanitize_items depth kvs [] of Inl e \<Rightarrow> Inl e | Inr kvs' \<Rightarrow> Inr (JObj kvs'))
     | JList xs \<Rightarrow>
         (case sanitize_elems depth xs of Inl e \<Rightarrow> Inl e | Inr xs' \<Rightarrow> Inr (JList xs'))
     | JStr s \<Rightarrow> Inr (JStr (truncated s))
     | JOther t \<Rightarrow> Inl (Unsupported t)
     | _ \<Rightarrow> Inr v)"
| "sanitize_items depth [] acc = Inr acc"
| "sanitize_items depth ((k, v) # kvs) acc =
    (if secret_like k then Inl (SecretKey k)
     else case sanitize_tree (Suc depth) v of
       Inl e \<Rightarrow> Inl e
     | Inr v' \<Rightarrow> sanitize_items depth kvs (AList.update k v' acc))"
| "sanitize_elems depth [] = Inr []"
| "sanitize_elems depth (v # vs) =
    (case sanitize_tree (Suc depth) v of
       Inl e \<Rightarrow> Inl e
     | Inr v' \<Rightarrow> (case sanitize_elems depth vs of Inl e \<Rightarrow> Inl e | Inr vs' \<Rightarrow> Inr (v' # vs')))"

declare sanitize_tree.simps [simp del]

section \<open>The canonical encoding and its size\<close>

fun digits :: "nat \<Rightarrow> pystr" where
  "digits n = (if n < 10 then [48 + n] else digits (n div 10) @ [48 + n mod 10])"

declare digits.simps [simp del]

definition dumps_int :: "int \<Rightarrow> pystr" where
  "dumps_int n = (if n < 0 then 45 # digits (nat (- n)) else digits (nat n))"

definition hex_digit :: "nat \<Rightarrow> nat" where
  "hex_digit n = (if n < 10 then 48 + n else 87 + n)"

definition escape_cp :: "nat \<Rightarrow> pystr" where
  "escape_cp c =
    (if c = 34 then [92, 34]
     else if c = 92 then [92, 92]
     else if c = 10 then cps [CHR 0x5C, CHR ''n'']
     else if c = 13 then cps [CHR 0x5C, CHR ''r'']
     else if c = 9 then cps [CHR 0x5C, CHR ''t'']
     else if c = 8 then cps [CHR 0x5C, CHR ''b'']
     else if c = 12 then cps [CHR 0x5C, CHR ''f'']
     else if c < 32 then cps [CHR 0x5C, CHR ''u'', CHR ''0'', CHR ''0''] @ [hex_digit (c div 16), hex_digit (c mod 16)]
     else [c])"

definition dumps_text :: "pystr \<Rightarrow> pystr" where
  "dumps_text s = 34 # concat (map escape_cp s) @ [34]"

fun joined :: "nat \<Rightarrow> pystr list \<Rightarrow> pystr" where
  "joined sep [] = []"
| "joined sep [t] = t"
| "joined sep (t # ts) = t @ sep # joined sep ts"

text \<open>
  \<open>json.dumps(value, sort_keys=True, separators=(",", ":"), ensure_ascii=False)\<close>. Cleaned
  values hold no \<open>JOther\<close>, for which the encoder would raise.
\<close>

fun canonical_dumps :: "json \<Rightarrow> pystr" where
  "canonical_dumps JNull = cps ''null''"
| "canonical_dumps (JBool b) = cps (if b then ''true'' else ''false'')"
| "canonical_dumps (JInt n) = dumps_int n"
| "canonical_dumps (JFloat t) = cps t"
| "canonical_dumps (JStr s) = dumps_text s"
| "canonical_dumps (JList xs) = 91 # joined 44 (map canonical_dumps xs) @ [93]"
| "canonical_dumps (JObj kvs) =
     123 # joined 44 (map snd (sort_key fst
       (map (\<lambda>(k, v). (k, dumps_text (cps k) @ 58 # canonical_dumps v)) kvs))) @ [125]"
| "canonical_dumps (JOther t) = []"

definition utf8_width :: "nat \<Rightarrow> nat" where
  "utf8_width c = (if c < 128 then 1 else if c < 2048 then 2 else if c < 65536 then 3 else 4)"

definition surrogate :: "nat \<Rightarrow> bool" where
  "surrogate c \<longleftrightarrow> 55296 \<le> c \<and> c \<le> 57343"

definition utf8_size :: "pystr \<Rightarrow> nat" where
  "utf8_size s = sum_list (map utf8_width s)"

text \<open>
  \<^verbatim>\<open>_Budget.check\<close>: a lone surrogate has no UTF-8 encoding and raises; an
  encoding over the budget is refused.
\<close>

definition budget_check :: "nat \<Rightarrow> pystr \<Rightarrow> payload_error + pystr" where
  "budget_check max_bytes encoded =
    (if list_ex surrogate encoded then Inl SurrogateText
     else if utf8_size encoded > max_bytes then Inl (TooLarge (utf8_size encoded))
     else Inr encoded)"

text \<open>
  The tables store the encoded text and every reader decodes it; the model keeps the
  cleaned value whose encoding passed the budget.
\<close>

definition sanitize_payload :: "nat \<Rightarrow> json \<Rightarrow> payload_error + json" where
  "sanitize_payload max_bytes v =
    (case sanitize_tree 0 v of
       Inl e \<Rightarrow> Inl e
     | Inr cleaned \<Rightarrow>
         (case budget_check max_bytes (canonical_dumps cleaned) of
            Inl e \<Rightarrow> Inl e
          | Inr _ \<Rightarrow> Inr cleaned))"

definition sanitize_summary :: "string option \<Rightarrow> string option" where
  "sanitize_summary summary = map_option (take SUMMARY_MAX_CHARS) summary"

section \<open>What cleaning guarantees\<close>

fun clean_at :: "nat \<Rightarrow> json \<Rightarrow> bool" where
  "clean_at d (JObj kvs) \<longleftrightarrow> d \<le> MAX_DEPTH \<and> length kvs \<le> MAX_KEYS_PER_OBJECT \<and>
     distinct (map fst kvs) \<and>
     list_all (\<lambda>(k, v). \<not> secret_like k \<and> clean_at (Suc d) v) kvs"
| "clean_at d (JList xs) \<longleftrightarrow> d \<le> MAX_DEPTH \<and> list_all (clean_at (Suc d)) xs"
| "clean_at d (JStr s) \<longleftrightarrow> d \<le> MAX_DEPTH \<and> length s \<le> MAX_STRING_CHARS"
| "clean_at d (JOther t) \<longleftrightarrow> False"
| "clean_at d v \<longleftrightarrow> d \<le> MAX_DEPTH"

fun mentions_secret :: "json \<Rightarrow> bool" where
  "mentions_secret (JObj kvs) \<longleftrightarrow> list_ex (\<lambda>(k, v). secret_like k \<or> mentions_secret v) kvs"
| "mentions_secret (JList xs) \<longleftrightarrow> list_ex mentions_secret xs"
| "mentions_secret v \<longleftrightarrow> False"

lemma truncated_length: "length (truncated s) \<le> MAX_STRING_CHARS"
  by (simp add: truncated_def payload_limits TRUNCATION_MARKER_def cps_def)

lemma truncated_id: "length s \<le> MAX_STRING_CHARS \<Longrightarrow> truncated s = s"
  by (simp add: truncated_def)

lemma length_alist_update: "length (AList.update k v xs) \<le> Suc (length xs)"
  by (induction xs) auto

lemma set_alist_update: "set (AList.update k v xs) \<subseteq> insert (k, v) (set xs)"
  by (induction xs) auto

lemma sanitize_clean:
  "sanitize_tree d v = Inr w \<Longrightarrow> clean_at d w"
  "sanitize_items d kvs acc = Inr r \<Longrightarrow> distinct (map fst acc) \<Longrightarrow>
     list_all (\<lambda>(k, v). \<not> secret_like k \<and> clean_at (Suc d) v) acc \<Longrightarrow>
     distinct (map fst r) \<and> length r \<le> length acc + length kvs \<and>
     list_all (\<lambda>(k, v). \<not> secret_like k \<and> clean_at (Suc d) v) r"
  "sanitize_elems d xs = Inr ys \<Longrightarrow> list_all (clean_at (Suc d)) ys"
proof (induction d v and d kvs acc and d xs arbitrary: w and r and ys
    rule: sanitize_tree_sanitize_items_sanitize_elems.induct)
  case (1 d v)
  then show ?case
    by (cases v)
      (fastforce simp: sanitize_tree.simps [of d] truncated_length not_less
        split: if_splits sum.splits)+
next
  case (3 d k v kvs acc)
  from "3.prems" obtain v' where k: "\<not> secret_like k" and v: "sanitize_tree (Suc d) v = Inr v'"
    and r: "sanitize_items d kvs (AList.update k v' acc) = Inr r"
    by (auto split: if_splits sum.splits)
  have "list_all (\<lambda>(k, v). \<not> secret_like k \<and> clean_at (Suc d) v) (AList.update k v' acc)"
    using "3.IH"(1) [OF k v] k "3.prems"(3) set_alist_update [of k v' acc]
    by (fastforce simp: list_all_iff)
  with "3.IH"(2) [OF k v r] "3.prems"(2) length_alist_update [of k v' acc]
  show ?case by (simp add: distinct_update)
qed (auto split: sum.splits)

lemma sanitize_stable:
  "clean_at d v \<Longrightarrow> sanitize_tree d v = Inr v"
  "list_all (\<lambda>(k, v). \<not> secret_like k \<and> clean_at (Suc d) v) kvs \<Longrightarrow>
     distinct (map fst (acc @ kvs)) \<Longrightarrow> sanitize_items d kvs acc = Inr (acc @ kvs)"
  "list_all (clean_at (Suc d)) xs \<Longrightarrow> sanitize_elems d xs = Inr xs"
proof (induction d v and d kvs acc and d xs
    rule: sanitize_tree_sanitize_items_sanitize_elems.induct)
  case (1 d v)
  then show ?case
    by (cases v) (auto simp: sanitize_tree.simps [of d] truncated_id)
next
  case (3 d k v kvs acc)
  then have "k \<notin> fst ` set acc" by auto
  then have "AList.update k v acc = acc @ [(k, v)]"
    by (induction acc) auto
  with 3 show ?case by auto
qed auto

lemma sanitize_no_secret:
  "sanitize_tree d v = Inr w \<Longrightarrow> \<not> mentions_secret v"
  "sanitize_items d kvs acc = Inr r \<Longrightarrow> \<not> list_ex (\<lambda>(k, v). secret_like k \<or> mentions_secret v) kvs"
  "sanitize_elems d xs = Inr ys \<Longrightarrow> \<not> list_ex mentions_secret xs"
proof (induction d v and d kvs acc and d xs arbitrary: w and r and ys
    rule: sanitize_tree_sanitize_items_sanitize_elems.induct)
  case (1 d v)
  then show ?case
    by (cases v) (auto simp: sanitize_tree.simps [of d] split: if_splits sum.splits)
qed (fastforce split: if_splits sum.splits)+

lemma sanitize_payload_Inr:
  assumes "sanitize_payload m v = Inr w"
  shows "clean_at 0 w" "\<not> mentions_secret v" "utf8_size (canonical_dumps w) \<le> m"
    "sanitize_payload m w = Inr w"
  using assms sanitize_stable(1) [of 0 w]
  by (auto simp: sanitize_payload_def budget_check_def dest: sanitize_clean(1) sanitize_no_secret(1)
      split: sum.splits if_splits)

end
