(* ===== verification/Op_Model.thy ===== *)
theory Op_Model
  imports Payload
begin

text \<open>
  The operation domain model (\<^verbatim>\<open>operations/model.py\<close>) and the pure recovery
  and progress policies (\<^verbatim>\<open>operations/recovery.py\<close>,
  \<^verbatim>\<open>operations/progress.py\<close>): operation types, the closed state machines of
  operations and steps with their frozen transition tables, the typed records, the
  exceptions, the classification of an interrupted step and the progress throttle.
\<close>

section \<open>Enumerations\<close>

datatype op_type =
    MODEL_ACTIVATE | MODEL_ACQUIRE | MODEL_IMPORT | MODEL_REMOVE | MODEL_CONVERT
  | RUNTIME_UPDATE | RUNTIME_ROLLBACK | BACKUP_CREATE | BACKUP_RESTORE
  | PROFILE_CALIBRATE | STORAGE_CLEANUP | APPLICATION_UPDATE | INTEGRATION_SETUP

datatype op_state =
    QUEUED | PREPARING | RUNNING | VERIFYING | COMMITTING | CANCEL_REQUESTED
  | ROLLING_BACK | PAUSED
  | SUCCEEDED | CANCELLED | FAILED_SAFE | FAILED_ROLLED_BACK | RECOVERY_REQUIRED

datatype step_state =
    S_PENDING | S_RUNNING | S_CHECKPOINTED | S_VERIFIED | S_COMPENSATING
  | S_COMPENSATED | S_FAILED

fun state_value :: "op_state \<Rightarrow> string" where
  "state_value QUEUED = ''QUEUED''"
| "state_value PREPARING = ''PREPARING''"
| "state_value RUNNING = ''RUNNING''"
| "state_value VERIFYING = ''VERIFYING''"
| "state_value COMMITTING = ''COMMITTING''"
| "state_value CANCEL_REQUESTED = ''CANCEL_REQUESTED''"
| "state_value ROLLING_BACK = ''ROLLING_BACK''"
| "state_value PAUSED = ''PAUSED''"
| "state_value SUCCEEDED = ''SUCCEEDED''"
| "state_value CANCELLED = ''CANCELLED''"
| "state_value FAILED_SAFE = ''FAILED_SAFE''"
| "state_value FAILED_ROLLED_BACK = ''FAILED_ROLLED_BACK''"
| "state_value RECOVERY_REQUIRED = ''RECOVERY_REQUIRED''"

fun step_state_value :: "step_state \<Rightarrow> string" where
  "step_state_value S_PENDING = ''PENDING''"
| "step_state_value S_RUNNING = ''RUNNING''"
| "step_state_value S_CHECKPOINTED = ''CHECKPOINTED''"
| "step_state_value S_VERIFIED = ''VERIFIED''"
| "step_state_value S_COMPENSATING = ''COMPENSATING''"
| "step_state_value S_COMPENSATED = ''COMPENSATED''"
| "step_state_value S_FAILED = ''FAILED''"

fun type_value :: "op_type \<Rightarrow> string" where
  "type_value MODEL_ACTIVATE = ''MODEL_ACTIVATE''"
| "type_value MODEL_ACQUIRE = ''MODEL_ACQUIRE''"
| "type_value MODEL_IMPORT = ''MODEL_IMPORT''"
| "type_value MODEL_REMOVE = ''MODEL_REMOVE''"
| "type_value MODEL_CONVERT = ''MODEL_CONVERT''"
| "type_value RUNTIME_UPDATE = ''RUNTIME_UPDATE''"
| "type_value RUNTIME_ROLLBACK = ''RUNTIME_ROLLBACK''"
| "type_value BACKUP_CREATE = ''BACKUP_CREATE''"
| "type_value BACKUP_RESTORE = ''BACKUP_RESTORE''"
| "type_value PROFILE_CALIBRATE = ''PROFILE_CALIBRATE''"
| "type_value STORAGE_CLEANUP = ''STORAGE_CLEANUP''"
| "type_value APPLICATION_UPDATE = ''APPLICATION_UPDATE''"
| "type_value INTEGRATION_SETUP = ''INTEGRATION_SETUP''"

section \<open>Transition tables\<close>

definition TERMINAL_STATES :: "op_state set" where
  "TERMINAL_STATES = {SUCCEEDED, CANCELLED, FAILED_SAFE, FAILED_ROLLED_BACK, RECOVERY_REQUIRED}"

fun TRANSITIONS :: "op_state \<Rightarrow> op_state set" where
  "TRANSITIONS QUEUED = {PREPARING, CANCEL_REQUESTED, CANCELLED, PAUSED, FAILED_SAFE}"
| "TRANSITIONS PREPARING = {RUNNING, ROLLING_BACK, CANCEL_REQUESTED, PAUSED, FAILED_SAFE}"
| "TRANSITIONS RUNNING = {VERIFYING, COMMITTING, ROLLING_BACK, CANCEL_REQUESTED, PAUSED,
     FAILED_SAFE, FAILED_ROLLED_BACK, RECOVERY_REQUIRED}"
| "TRANSITIONS VERIFYING = {COMMITTING, ROLLING_BACK, CANCEL_REQUESTED, PAUSED,
     FAILED_SAFE, FAILED_ROLLED_BACK, RECOVERY_REQUIRED}"
| "TRANSITIONS COMMITTING = {VERIFYING, ROLLING_BACK, SUCCEEDED, FAILED_SAFE,
     FAILED_ROLLED_BACK, RECOVERY_REQUIRED}"
| "TRANSITIONS CANCEL_REQUESTED = {ROLLING_BACK, CANCELLED}"
| "TRANSITIONS ROLLING_BACK = {CANCELLED, FAILED_ROLLED_BACK, RECOVERY_REQUIRED}"
| "TRANSITIONS PAUSED = {PREPARING, RUNNING, VERIFYING, CANCEL_REQUESTED, CANCELLED, FAILED_SAFE}"
| "TRANSITIONS _ = {}"

fun STEP_TRANSITIONS :: "step_state \<Rightarrow> step_state set" where
  "STEP_TRANSITIONS S_PENDING = {S_RUNNING}"
| "STEP_TRANSITIONS S_RUNNING = {S_CHECKPOINTED, S_FAILED, S_COMPENSATING, S_RUNNING}"
| "STEP_TRANSITIONS S_CHECKPOINTED = {S_VERIFIED, S_FAILED, S_COMPENSATING}"
| "STEP_TRANSITIONS S_VERIFIED = {S_COMPENSATING, S_FAILED}"
| "STEP_TRANSITIONS S_COMPENSATING = {S_COMPENSATED, S_FAILED}"
| "STEP_TRANSITIONS S_COMPENSATED = {}"
| "STEP_TRANSITIONS S_FAILED = {}"

definition is_terminal :: "op_state \<Rightarrow> bool" where
  "is_terminal st \<longleftrightarrow> st \<in> TERMINAL_STATES"

definition can_transition :: "op_state \<Rightarrow> op_state \<Rightarrow> bool" where
  "can_transition current target =
    (if current = target then False else target \<in> TRANSITIONS current)"

definition can_step_transition :: "step_state \<Rightarrow> step_state \<Rightarrow> bool" where
  "can_step_transition current target \<longleftrightarrow> current = target \<or> target \<in> STEP_TRANSITIONS current"

lemma is_terminal_simps [simp]:
  "is_terminal SUCCEEDED" "is_terminal CANCELLED" "is_terminal FAILED_SAFE"
  "is_terminal FAILED_ROLLED_BACK" "is_terminal RECOVERY_REQUIRED"
  "\<not> is_terminal QUEUED" "\<not> is_terminal PREPARING" "\<not> is_terminal RUNNING"
  "\<not> is_terminal VERIFYING" "\<not> is_terminal COMMITTING" "\<not> is_terminal CANCEL_REQUESTED"
  "\<not> is_terminal ROLLING_BACK" "\<not> is_terminal PAUSED"
  by (simp_all add: is_terminal_def TERMINAL_STATES_def)

lemma terminal_no_transition: "is_terminal a \<Longrightarrow> TRANSITIONS a = {}"
  by (cases a) auto

lemma can_transition_terminal: "is_terminal a \<Longrightarrow> \<not> can_transition a b"
  by (simp add: can_transition_def terminal_no_transition)

lemma transitions_irrefl: "a \<notin> TRANSITIONS a"
  by (cases a) auto

lemma can_transition_iff: "can_transition a b \<longleftrightarrow> b \<in> TRANSITIONS a"
  using transitions_irrefl by (auto simp: can_transition_def)

section \<open>Records\<close>

text \<open>A row of the table \<^verbatim>\<open>operations\<close> (\<^verbatim>\<open>OperationRecord\<close>).\<close>

record op_row =
  o_id :: ident
  o_type :: op_type
  o_request_version :: int
  o_recovery_policy_version :: int
  o_request_json :: json
  o_state :: op_state
  o_state_revision :: int
  o_progress_phase :: "string option"
  o_progress_current :: int
  o_progress_total :: "int option"
  o_progress_unit :: "string option"
  o_progress_summary :: "string option"
  o_surface :: string
  o_cancel_requested_at :: "instant option"
  o_result_code :: "string option"
  o_result_detail :: "json option"
  o_error_code :: "string option"
  o_error_detail :: "json option"
  o_parent_operation_id :: "ident option"
  o_created_at :: instant
  o_started_at :: "instant option"
  o_updated_at :: instant
  o_finished_at :: "instant option"
  o_dismissed_at :: "instant option"

definition op_active :: "op_row \<Rightarrow> bool" where
  "op_active r \<longleftrightarrow> o_state r \<notin> TERMINAL_STATES"

text \<open>A row of \<^verbatim>\<open>operation_steps\<close> (\<^verbatim>\<open>OperationStepRecord\<close>).\<close>

record step_row =
  s_operation_id :: ident
  s_key :: ident
  s_sequence :: int
  s_implementation_version :: int
  s_state :: step_state
  s_attempts :: int
  s_input_json :: "json option"
  s_output_json :: "json option"
  s_external_effect_id :: "ident option"
  s_failure_code :: "string option"
  s_failure_detail :: "json option"
  s_started_at :: "instant option"
  s_checkpointed_at :: "instant option"
  s_finished_at :: "instant option"

record event_row =
  e_cursor :: int
  e_operation_id :: ident
  e_ts :: instant
  e_level :: string
  e_code :: "string option"
  e_summary :: string
  e_detail :: "json option"
  e_progress :: "json option"

record lease_row =
  l_resource_key :: ident
  l_operation_id :: ident
  l_owner :: ident
  l_lease_revision :: int
  l_acquired_at :: instant
  l_heartbeat_at :: instant
  l_expires_at :: instant

section \<open>Exceptions\<close>

text \<open>
  Why an \<^verbatim>\<open>OperationConflict\<close> or a \<^verbatim>\<open>LostLease\<close> was raised: the
  source writes a sentence, the model keeps the cause.
\<close>

datatype conflict =
    NoSuchOperation ident
  | NoSuchStep ident ident
  | CannotCreate ident
  | CannotAddStep ident ident
  | StaleTransition ident
  | StaleCancellation ident
  | StaleProgress ident
  | ProgressBackwards ident
  | StaleStep ident ident
  | StepNotPending ident
  | ReclaimNotRunning ident
  | LostFence ident
  | LeaseActivelyHeld ident
  | RecoveryBarrier ident
  | AcquisitionRefused ident
  | StaleLeaseOwner ident
  | NoLease ident
  | NotExpired ident
  | WorkerLockHeld
  | NoWorkerLock
  | WorkerLockLost

datatype lost_lease =
    ReclaimRequiresRunning ident ident
  | CheckpointExpectedRunning ident ident step_state
  | VerifyExpectedCheckpointed ident ident step_state
  | ExpectedCommitting ident op_state
  | PulseLost conflict

text \<open>
  \<open>StepFailed\<close> is what a step callable raises: the exception's class name and the
  attributes the engine reads (\<^verbatim>\<open>code\<close>, \<^verbatim>\<open>retryable\<close>,
  \<^verbatim>\<open>requires_recovery\<close>). \<open>ProcessDeath\<close> is a \<^verbatim>\<open>BaseException\<close>
  no handler of the program catches. \<open>OutOfFuel\<close> belongs to the model: a loop that
  used up its fuel.
\<close>

datatype exn =
    InvalidTransition string
  | OperationConflict conflict
  | OperationValidationError string
  | PayloadRejected payload_error
  | WorkflowRegistryError string
  | WorkflowVersionUnavailable
  | LostLease lost_lease
  | CancellationObserved
  | ProfileBusy
  | DatabaseError string
  | StepFailed string "string option" bool bool
  | WorkerStartRefused
  | AssertionError
  | KeyError
  | ProcessDeath
  | OutOfFuel

definition is_exception :: "exn \<Rightarrow> bool" where
  "is_exception e \<longleftrightarrow> e \<noteq> ProcessDeath \<and> e \<noteq> OutOfFuel"

fun exn_code :: "exn \<Rightarrow> string option" where
  "exn_code (StepFailed cls code retryable recovery) = code"
| "exn_code WorkerStartRefused = Some ''WORKER_ALREADY_RUNNING''"
| "exn_code _ = None"

fun exn_retryable :: "exn \<Rightarrow> bool" where
  "exn_retryable (StepFailed cls code retryable recovery) = retryable"
| "exn_retryable _ = False"

fun exn_requires_recovery :: "exn \<Rightarrow> bool" where
  "exn_requires_recovery (StepFailed cls code retryable recovery) = recovery"
| "exn_requires_recovery _ = False"

fun exn_class :: "exn \<Rightarrow> string" where
  "exn_class (InvalidTransition m) = ''InvalidTransition''"
| "exn_class (OperationConflict c) = ''OperationConflict''"
| "exn_class (OperationValidationError m) = ''OperationValidationError''"
| "exn_class (PayloadRejected SurrogateText) = ''UnicodeEncodeError''"
| "exn_class (PayloadRejected p) = ''OperationValidationError''"
| "exn_class (WorkflowRegistryError m) = ''WorkflowRegistryError''"
| "exn_class WorkflowVersionUnavailable = ''WorkflowVersionUnavailable''"
| "exn_class (LostLease l) = ''LostLease''"
| "exn_class CancellationObserved = ''CancellationObserved''"
| "exn_class ProfileBusy = ''ProfileBusy''"
| "exn_class (DatabaseError m) = ''OperationalError''"
| "exn_class (StepFailed cls code retryable recovery) = cls"
| "exn_class WorkerStartRefused = ''WorkerStartRefused''"
| "exn_class AssertionError = ''AssertionError''"
| "exn_class KeyError = ''KeyError''"
| "exn_class ProcessDeath = ''SystemExit''"
| "exn_class OutOfFuel = ''''"

definition assert_transition :: "op_state \<Rightarrow> op_state \<Rightarrow> exn + unit" where
  "assert_transition current target =
    (if \<not> can_transition current target
     then Inl (InvalidTransition (''operation transition '' @ state_value current @ '' -> ''
                @ state_value target @ '' is not allowed''))
     else Inr ())"

definition assert_step_transition :: "step_state \<Rightarrow> step_state \<Rightarrow> exn + unit" where
  "assert_step_transition current target =
    (if current \<noteq> target \<and> target \<notin> STEP_TRANSITIONS current
     then Inl (InvalidTransition (''step transition '' @ step_state_value current @ '' -> ''
                @ step_state_value target @ '' is not allowed''))
     else Inr ())"

text \<open>
  A decoded typed request is the object of its fields; anything else is no dataclass
  instance and is refused.
\<close>

fun as_request_dict :: "json \<Rightarrow> exn + json" where
  "as_request_dict (JObj kvs) = Inr (JObj kvs)"
| "as_request_dict v = Inl (OperationValidationError ''decoded requests must be frozen dataclasses'')"

definition known_request_version :: "op_type \<Rightarrow> int" where
  "known_request_version t = 1"

text \<open>\<^verbatim>\<open>sanitize_request\<close> of \<^verbatim>\<open>validation.py\<close>.\<close>

definition sanitize_request :: "op_type \<Rightarrow> int \<Rightarrow> json \<Rightarrow> exn + json" where
  "sanitize_request t version request =
    (if version < 1 then Inl (OperationValidationError ''request_version must be a positive integer'')
     else if version \<noteq> known_request_version t
       then Inl (OperationValidationError ''unknown request_version'')
     else case request of
       JObj kvs \<Rightarrow>
         (case sanitize_payload REQUEST_MAX_BYTES request of
            Inl e \<Rightarrow> Inl (PayloadRejected e) | Inr v \<Rightarrow> Inr v)
     | _ \<Rightarrow> Inl (OperationValidationError ''request must be a JSON object''))"

section \<open>Recovery decisions\<close>

datatype recovery_class =
    ABSENT | COMPLETE | PARTIALLY_RESUMABLE | DISCARDABLE | REVERTIBLE | UNCERTAIN_MANUAL

datatype recovery_action =
    EXECUTE | VERIFY | RESUME | DISCARD_AND_RETRY | ROLL_BACK | PAUSE | REQUIRE_RECOVERY

fun class_value :: "recovery_class \<Rightarrow> string" where
  "class_value ABSENT = ''ABSENT''"
| "class_value COMPLETE = ''COMPLETE''"
| "class_value PARTIALLY_RESUMABLE = ''PARTIALLY_RESUMABLE''"
| "class_value DISCARDABLE = ''DISCARDABLE''"
| "class_value REVERTIBLE = ''REVERTIBLE''"
| "class_value UNCERTAIN_MANUAL = ''UNCERTAIN_MANUAL''"

fun action_value :: "recovery_action \<Rightarrow> string" where
  "action_value EXECUTE = ''EXECUTE''"
| "action_value VERIFY = ''VERIFY''"
| "action_value RESUME = ''RESUME''"
| "action_value DISCARD_AND_RETRY = ''DISCARD_AND_RETRY''"
| "action_value ROLL_BACK = ''ROLL_BACK''"
| "action_value PAUSE = ''PAUSE''"
| "action_value REQUIRE_RECOVERY = ''REQUIRE_RECOVERY''"

record recovery_decision =
  d_classification :: recovery_class
  d_reason_code :: string
  d_action :: recovery_action

fun default_action :: "recovery_class \<Rightarrow> op_state \<Rightarrow> recovery_action option" where
  "default_action ABSENT RUNNING = Some EXECUTE"
| "default_action COMPLETE RUNNING = Some VERIFY"
| "default_action PARTIALLY_RESUMABLE RUNNING = Some RESUME"
| "default_action DISCARDABLE RUNNING = Some DISCARD_AND_RETRY"
| "default_action REVERTIBLE RUNNING = Some ROLL_BACK"
| "default_action _ _ = None"

definition decide_recovery :: "recovery_class \<Rightarrow> op_state \<Rightarrow> bool \<Rightarrow> bool \<Rightarrow> recovery_decision" where
  "decide_recovery classification operation_state safe_if_uncertain auto_recovery_allowed =
    (if classification = UNCERTAIN_MANUAL then
       (if safe_if_uncertain
        then \<lparr>d_classification = classification, d_reason_code = ''UNCERTAIN_BUT_QUIESCENT'', d_action = PAUSE\<rparr>
        else \<lparr>d_classification = classification, d_reason_code = ''UNCERTAIN_UNSAFE'', d_action = REQUIRE_RECOVERY\<rparr>)
     else case default_action classification operation_state of
       None \<Rightarrow>
         \<lparr>d_classification = classification, d_reason_code = ''NO_AUTOMATIC_ACTION'',
          d_action = (if auto_recovery_allowed then PAUSE else REQUIRE_RECOVERY)\<rparr>
     | Some action \<Rightarrow>
         (if \<not> auto_recovery_allowed \<and> action \<in> {EXECUTE, RESUME, DISCARD_AND_RETRY}
          then \<lparr>d_classification = classification, d_reason_code = ''AUTO_RECOVERY_DISALLOWED'', d_action = PAUSE\<rparr>
          else \<lparr>d_classification = classification,
                d_reason_code = ''CLASSIFIED_'' @ class_value classification, d_action = action\<rparr>))"

section \<open>Progress throttle\<close>

record progress_policy =
  min_interval_ticks :: int
  min_delta :: int

definition default_policy :: progress_policy where
  "default_policy = \<lparr>min_interval_ticks = 4, min_delta = 1\<rparr>"

definition should_emit :: "progress_policy \<Rightarrow> string option \<Rightarrow> int \<Rightarrow> string option \<Rightarrow> int \<Rightarrow> int \<Rightarrow> bool" where
  "should_emit p phase current last_phase last_current ticks_since_last_write =
    (if phase \<noteq> last_phase then True
     else let delta = current - last_current in
       if delta \<le> 0 then False
       else ticks_since_last_write \<ge> min_interval_ticks p \<and> delta \<ge> min_delta p)"

lemma should_emit_monotone:
  "should_emit p phase current (Some ph) prev ticks \<Longrightarrow> phase = Some ph \<Longrightarrow> prev < current"
  by (auto simp: should_emit_def Let_def split: if_splits)

end
