(* ===== verification/Store.thy ===== *)
theory Store
  imports Op_Model
begin

text \<open>
  The database, the rest of the system and programs over it. A program takes the system
  state and returns a value or an exception together with the new state. One SQLite unit
  of work (\<^verbatim>\<open>unit_of_work.py\<close>) runs a program on the tables as the other
  processes have left them, keeps its writes when it returns, and restores the tables when
  it raises or the commit fails.
\<close>

section \<open>Tables\<close>

text \<open>The row of \<^verbatim>\<open>worker_locks\<close>; its token is fixed, so there is at most one.\<close>

record lock_row =
  k_owner :: ident
  k_lease_revision :: int
  k_acquired_at :: instant
  k_heartbeat_at :: instant
  k_expires_at :: instant

record db =
  operations :: "op_row list"
  operation_steps :: "step_row list"
  operation_events :: "event_row list"
  operation_leases :: "lease_row list"
  worker_lock :: "lock_row option"
  next_cursor :: int

definition empty_db :: db where
  "empty_db = \<lparr>operations = [], operation_steps = [], operation_events = [],
     operation_leases = [], worker_lock = None, next_cursor = 1\<rparr>"

section \<open>System state and programs\<close>

text \<open>
  One cell per pulse closure the engine has made: its tick counter and what it last wrote.
\<close>

record pulse_cell =
  p_ticks :: int
  p_last_phase :: "string option"
  p_last_current :: int
  p_last_tick :: int

text \<open>
  A call of a step callable, in the order made, with the tables at that moment. The log is
  an observation of the model: no program reads it.
\<close>

datatype call_kind = CallProbe | CallExecute | CallVerify | CallCompensate
  | CallVerifyRestoration | CallProbeRestoration | CallFinalizer

record call =
  c_kind :: call_kind
  c_operation :: ident
  c_step :: ident
  c_effect_id :: ident
  c_db :: db

text \<open>
  \<open>world\<close> is everything outside the database: files, processes, services. The counters
  say how often the injected clock and identifier factory were read and how many units of
  work were opened.
\<close>

record 'w sys =
  db :: db
  world :: 'w
  clock_reads :: nat
  uuid_reads :: nat
  units :: nat
  pulses :: "pulse_cell list"
  calls :: "call list"

type_synonym ('w, 'a) prog = "'w sys \<Rightarrow> (exn + 'a) \<times> 'w sys"

text \<open>
  The environment of a process. \<open>e_open\<close> gives the tables the n-th unit of work finds,
  which other processes may have changed since, or the exception that opening it raises
  (a busy profile, a locked database); \<open>e_commit\<close> is the exception the n-th commit
  raises, if it does.
\<close>

record env =
  e_clock :: "nat \<Rightarrow> instant"
  e_uuid :: "nat \<Rightarrow> ident"
  e_open :: "bool \<Rightarrow> nat \<Rightarrow> db \<Rightarrow> exn + db"
  e_commit :: "nat \<Rightarrow> exn option"

section \<open>Combinators\<close>

definition ret :: "'a \<Rightarrow> ('w, 'a) prog" where
  "ret x s = (Inr x, s)"

definition throw :: "exn \<Rightarrow> ('w, 'a) prog" where
  "throw e s = (Inl e, s)"

definition bind :: "('w, 'a) prog \<Rightarrow> ('a \<Rightarrow> ('w, 'b) prog) \<Rightarrow> ('w, 'b) prog" where
  "bind m f s = (case m s of (Inl e, s') \<Rightarrow> (Inl e, s') | (Inr x, s') \<Rightarrow> f x s')"

definition andthen :: "('w, 'a) prog \<Rightarrow> ('w, 'b) prog \<Rightarrow> ('w, 'b) prog" where
  "andthen m n = bind m (\<lambda>_. n)"

text \<open>
  \<open>handle\<close> is \<^verbatim>\<open>try/except\<close> with the clauses as one partial function: an
  exception for which it is undefined propagates.
\<close>

definition handle :: "('w, 'a) prog \<Rightarrow> (exn \<Rightarrow> ('w, 'a) prog option) \<Rightarrow> ('w, 'a) prog" where
  "handle m h s = (case m s of
     (Inl e, s') \<Rightarrow> (case h e of None \<Rightarrow> (Inl e, s') | Some n \<Rightarrow> n s')
   | (Inr x, s') \<Rightarrow> (Inr x, s'))"

definition lift :: "exn + 'a \<Rightarrow> ('w, 'a) prog" where
  "lift r s = (r, s)"

definition reads :: "('w sys \<Rightarrow> 'a) \<Rightarrow> ('w, 'a) prog" where
  "reads f s = (Inr (f s), s)"

definition read_db :: "(db \<Rightarrow> 'a) \<Rightarrow> ('w, 'a) prog" where
  "read_db f s = (Inr (f (db s)), s)"

definition write_db :: "(db \<Rightarrow> db) \<Rightarrow> ('w, unit) prog" where
  "write_db f s = (Inr (), s\<lparr>db := f (db s)\<rparr>)"

definition clock :: "env \<Rightarrow> ('w, instant) prog" where
  "clock v s = (Inr (e_clock v (clock_reads s)), s\<lparr>clock_reads := Suc (clock_reads s)\<rparr>)"

definition uuid_factory :: "env \<Rightarrow> ('w, ident) prog" where
  "uuid_factory v s = (Inr (e_uuid v (uuid_reads s)), s\<lparr>uuid_reads := Suc (uuid_reads s)\<rparr>)"

fun foreach :: "'a list \<Rightarrow> ('a \<Rightarrow> ('w, unit) prog) \<Rightarrow> ('w, unit) prog" where
  "foreach [] f = ret ()"
| "foreach (x # xs) f = andthen (f x) (foreach xs f)"

definition only_if :: "bool \<Rightarrow> ('w, unit) prog \<Rightarrow> ('w, unit) prog" where
  "only_if b m = (if b then m else ret ())"

text \<open>\<^verbatim>\<open>assert x is not None\<close> on the result of a read.\<close>

fun assert_some :: "'a option \<Rightarrow> ('w, 'a) prog" where
  "assert_some None = throw AssertionError"
| "assert_some (Some x) = ret x"

section \<open>Units of work\<close>

definition unit_of_work :: "env \<Rightarrow> bool \<Rightarrow> ('w, 'a) prog \<Rightarrow> ('w, 'a) prog" where
  "unit_of_work v w body s =
    (let n = units s; s0 = s\<lparr>units := Suc n\<rparr> in
     case e_open v w n (db s) of
       Inl e \<Rightarrow> (Inl e, s0)
     | Inr d \<Rightarrow>
         (case body (s0\<lparr>db := d\<rparr>) of
            (Inl e, s1) \<Rightarrow> (Inl e, s1\<lparr>db := d\<rparr>)
          | (Inr x, s1) \<Rightarrow>
              (case e_commit v n of
                 Some e \<Rightarrow> (Inl e, s1\<lparr>db := d\<rparr>)
               | None \<Rightarrow> (Inr x, s1))))"

definition begin_unit :: "env \<Rightarrow> ('w, 'a) prog \<Rightarrow> ('w, 'a) prog" where
  "begin_unit v body = unit_of_work v True body"

definition read_unit :: "env \<Rightarrow> ('w, 'a) prog \<Rightarrow> ('w, 'a) prog" where
  "read_unit v body = unit_of_work v False body"

section \<open>Running programs\<close>

lemma ret_run [prog_simps]: "ret x s = (Inr x, s)"
  by (simp add: ret_def)

lemma throw_run [prog_simps]: "throw e s = (Inl e, s)"
  by (simp add: throw_def)

lemma lift_run [prog_simps]: "lift r s = (r, s)"
  by (simp add: lift_def)

lemma bind_run [prog_simps]:
  "bind m f s = (case m s of (Inl e, s') \<Rightarrow> (Inl e, s') | (Inr x, s') \<Rightarrow> f x s')"
  by (simp add: bind_def)

lemma andthen_run [prog_simps]:
  "andthen m n s = (case m s of (Inl e, s') \<Rightarrow> (Inl e, s') | (Inr x, s') \<Rightarrow> n s')"
  by (simp add: andthen_def bind_def)

lemmas run_simps = reads_def read_db_def write_db_def clock_def uuid_factory_def handle_def
  only_if_def begin_unit_def read_unit_def unit_of_work_def Let_def

lemma bind_ret [simp]: "bind (ret x) f = f x"
  by (rule ext) (simp add: prog_simps)

lemma bind_throw [simp]: "bind (throw e) f = throw e"
  by (rule ext) (simp add: prog_simps)

lemma bind_assoc: "bind (bind m f) g = bind m (\<lambda>x. bind (f x) g)"
  by (rule ext) (auto simp: bind_def split: prod.splits sum.splits)

section \<open>What a program can return\<close>

definition yields :: "('a \<Rightarrow> bool) \<Rightarrow> ('w, 'a) prog \<Rightarrow> bool" where
  "yields P m \<longleftrightarrow> (\<forall>s x s'. m s = (Inr x, s') \<longrightarrow> P x)"

lemma yieldsI: "(\<And>s x s'. m s = (Inr x, s') \<Longrightarrow> P x) \<Longrightarrow> yields P m"
  by (auto simp: yields_def)

lemma yieldsD: "yields P m \<Longrightarrow> m s = (Inr x, s') \<Longrightarrow> P x"
  by (auto simp: yields_def)

lemma yields_ret: "P x \<Longrightarrow> yields P (ret x)"
  by (simp add: yields_def prog_simps)

lemma yields_throw: "yields P (throw e)"
  by (simp add: yields_def prog_simps)

lemma yields_read_db: "(\<And>d. P (f d)) \<Longrightarrow> yields P (read_db f)"
  by (simp add: yields_def read_db_def)

lemma yields_bind: "(\<And>x. yields P (f x)) \<Longrightarrow> yields P (bind m f)"
  by (fastforce simp: yields_def bind_def split: prod.splits sum.splits)

lemma yields_bind2: "yields Q m \<Longrightarrow> (\<And>x. Q x \<Longrightarrow> yields P (f x)) \<Longrightarrow> yields P (bind m f)"
  by (fastforce simp: yields_def bind_def split: prod.splits sum.splits)

lemma yields_if:
  "(b \<Longrightarrow> yields P m) \<Longrightarrow> (\<not> b \<Longrightarrow> yields P n) \<Longrightarrow> yields P (if b then m else n)"
  by simp

lemma yields_andthen: "yields P n \<Longrightarrow> yields P (andthen m n)"
  by (simp add: andthen_def yields_bind)

lemma yields_unit: "yields P body \<Longrightarrow> yields P (unit_of_work v w body)"
  by (fastforce simp: yields_def unit_of_work_def Let_def split: prod.splits sum.splits option.splits)

lemma yields_handle:
  "yields P m \<Longrightarrow> (\<And>e n. h e = Some n \<Longrightarrow> yields P n) \<Longrightarrow> yields P (handle m h)"
  by (fastforce simp: yields_def handle_def split: prod.splits sum.splits option.splits)

section \<open>Guarantees\<close>

text \<open>
  \<open>guar R m\<close>: whatever \<open>m\<close> returns or raises, the system after it stands in
  relation \<open>R\<close> to the system before it. For a reflexive and transitive relation
  guarantees compose along the control structure (\<open>flow\<close>). A promise about the tables also
  allows every change outside them and the call log, and survives a rollback; it is the
  interface between a relation and the programs over the tables that keep it.
\<close>

definition guar :: "('w sys \<Rightarrow> 'w sys \<Rightarrow> bool) \<Rightarrow> ('w, 'a) prog \<Rightarrow> bool" where
  "guar R m \<longleftrightarrow> (\<forall>s. R s (snd (m s)))"

definition env_keeps :: "('w sys \<Rightarrow> 'w sys \<Rightarrow> bool) \<Rightarrow> env \<Rightarrow> bool" where
  "env_keeps R v \<longleftrightarrow> (\<forall>w n s d. e_open v w n (db s) = Inr d \<longrightarrow> R s (s\<lparr>db := d\<rparr>))"

text \<open>A relation on the tables, and a relation that bounds what is added to the call log.\<close>

definition on_db :: "(db \<Rightarrow> db \<Rightarrow> bool) \<Rightarrow> 'w sys \<Rightarrow> 'w sys \<Rightarrow> bool" where
  "on_db R s s' \<longleftrightarrow> R (db s) (db s')"

definition logs_only :: "(call \<Rightarrow> bool) \<Rightarrow> 'w sys \<Rightarrow> 'w sys \<Rightarrow> bool" where
  "logs_only P s s' \<longleftrightarrow> (\<exists>cs. calls s' = calls s @ cs \<and> list_all P cs)"

lemma guarD: "guar R m \<Longrightarrow> m s = (r, s') \<Longrightarrow> R s s'"
  by (metis guar_def snd_conv)

lemma guarI: "(\<And>s r s'. m s = (r, s') \<Longrightarrow> R s s') \<Longrightarrow> guar R m"
  by (metis guar_def prod.collapse)

text \<open>Whatever the relation is about, it composes along the control structure of a program.\<close>

locale flow =
  fixes R :: "'w sys \<Rightarrow> 'w sys \<Rightarrow> bool"
  assumes refl_R: "R s s"
    and trans_R: "R s s' \<Longrightarrow> R s' s'' \<Longrightarrow> R s s''"
begin

lemma guar_ret [guar_intros]: "guar R (ret x)"
  by (simp add: guar_def prog_simps refl_R)

lemma guar_throw [guar_intros]: "guar R (throw e)"
  by (simp add: guar_def prog_simps refl_R)

lemma guar_lift [guar_intros]: "guar R (lift r)"
  by (simp add: guar_def prog_simps refl_R)

lemma guar_reads [guar_intros]: "guar R (reads f)"
  by (simp add: guar_def reads_def refl_R)

lemma guar_read_db [guar_intros]: "guar R (read_db f)"
  by (simp add: guar_def read_db_def refl_R)

lemma guar_assert_some [guar_intros]: "guar R (assert_some x)"
  by (cases x) (auto intro: guar_intros)

lemma guar_bind [guar_intros]:
  assumes "guar R m" and "\<And>x. guar R (f x)"
  shows "guar R (bind m f)"
proof (rule guarI)
  fix s r s'
  assume "bind m f s = (r, s')"
  then show "R s s'"
    using guarD [OF assms(1)] guarD [OF assms(2)]
    by (fastforce simp: bind_def intro: trans_R split: prod.splits sum.splits)
qed

lemma guar_bind_yields:
  assumes "guar R m" and "yields P m" and "\<And>x. P x \<Longrightarrow> guar R (f x)"
  shows "guar R (bind m f)"
proof (rule guarI)
  fix s r s'
  assume "bind m f s = (r, s')"
  then show "R s s'"
    using guarD [OF assms(1)] guarD [OF assms(3)] yieldsD [OF assms(2)]
    by (fastforce simp: bind_def intro: trans_R split: prod.splits sum.splits)
qed

lemma guar_andthen [guar_intros]: "guar R m \<Longrightarrow> guar R n \<Longrightarrow> guar R (andthen m n)"
  by (simp add: andthen_def guar_bind)

lemma guar_handle:
  assumes "guar R m" and "\<And>e n. h e = Some n \<Longrightarrow> guar R n"
  shows "guar R (handle m h)"
proof (rule guarI)
  fix s r s'
  assume "handle m h s = (r, s')"
  then show "R s s'"
    using guarD [OF assms(1)] guarD [OF assms(2)]
    by (fastforce simp: handle_def intro: trans_R split: prod.splits sum.splits option.splits)
qed

lemma guar_handle_conflict [guar_intros]:
  "guar R m \<Longrightarrow> (\<And>c. guar R (n c)) \<Longrightarrow>
    guar R (handle m (\<lambda>e. case e of OperationConflict c \<Rightarrow> Some (n c) | _ \<Rightarrow> None))"
  by (rule guar_handle) (auto split: exn.splits)

lemma guar_handle_lost [guar_intros]:
  "guar R m \<Longrightarrow> (\<And>l. guar R (n l)) \<Longrightarrow>
    guar R (handle m (\<lambda>e. case e of LostLease l \<Rightarrow> Some (n l) | _ \<Rightarrow> None))"
  by (rule guar_handle) (auto split: exn.splits)

lemma guar_handle_busy [guar_intros]:
  "guar R m \<Longrightarrow> guar R n \<Longrightarrow>
    guar R (handle m (\<lambda>e. case e of ProfileBusy \<Rightarrow> Some n | _ \<Rightarrow> None))"
  by (rule guar_handle) (auto split: exn.splits)

lemma guar_handle_exception [guar_intros]:
  "guar R m \<Longrightarrow> (\<And>e. guar R (n e)) \<Longrightarrow>
    guar R (handle m (\<lambda>e. if is_exception e then Some (n e) else None))"
  by (rule guar_handle) (auto split: if_splits)

lemma guar_only_if [guar_intros]: "(b \<Longrightarrow> guar R m) \<Longrightarrow> guar R (only_if b m)"
  by (simp add: only_if_def guar_ret)

lemma guar_foreach [guar_intros]: "(\<And>x. x \<in> set xs \<Longrightarrow> guar R (f x)) \<Longrightarrow> guar R (foreach xs f)"
  by (induction xs) (auto intro: guar_intros)

lemma guar_if [guar_intros]:
  "(b \<Longrightarrow> guar R m) \<Longrightarrow> (\<not> b \<Longrightarrow> guar R n) \<Longrightarrow> guar R (if b then m else n)"
  by simp

lemma guar_case_option [guar_intros]:
  "(x = None \<Longrightarrow> guar R m) \<Longrightarrow> (\<And>y. x = Some y \<Longrightarrow> guar R (f y)) \<Longrightarrow>
    guar R (case x of None \<Rightarrow> m | Some y \<Rightarrow> f y)"
  by (cases x) auto

lemma guar_case_sum [guar_intros]:
  "(\<And>e. x = Inl e \<Longrightarrow> guar R (f e)) \<Longrightarrow> (\<And>y. x = Inr y \<Longrightarrow> guar R (g y)) \<Longrightarrow>
    guar R (case x of Inl e \<Rightarrow> f e | Inr y \<Rightarrow> g y)"
  by (cases x) auto

lemma guar_case_prod [guar_intros]:
  "(\<And>a b. x = (a, b) \<Longrightarrow> guar R (f a b)) \<Longrightarrow> guar R (case x of (a, b) \<Rightarrow> f a b)"
  by (cases x) auto

lemma guar_let [guar_intros]: "(\<And>x. guar R (f x)) \<Longrightarrow> guar R (let x = t in f x)"
  by (simp add: Let_def)

end

locale promise =
  fixes R :: "'w sys \<Rightarrow> 'w sys \<Rightarrow> bool"
  assumes R_frame: "db s' = db s \<Longrightarrow> calls s' = calls s \<Longrightarrow> R s s'"
    and R_trans: "R s s' \<Longrightarrow> R s' s'' \<Longrightarrow> R s s''"
    and R_rollback: "R s s' \<Longrightarrow> R s (s'\<lparr>db := db s\<rparr>)"
begin

lemma R_refl: "R s s"
  by (simp add: R_frame)

end

sublocale promise \<subseteq> flow R
  by unfold_locales (auto intro: R_refl R_trans)

context promise
begin

lemma guar_clock [guar_intros]: "guar R (clock v)"
  by (simp add: guar_def clock_def R_frame)

lemma guar_uuid [guar_intros]: "guar R (uuid_factory v)"
  by (simp add: guar_def uuid_factory_def R_frame)

lemma guar_write_db: "(\<And>s. R s (s\<lparr>db := f (db s)\<rparr>)) \<Longrightarrow> guar R (write_db f)"
  by (simp add: guar_def write_db_def)

lemma guar_unit [guar_intros]:
  assumes "env_keeps R v" and "guar R body"
  shows "guar R (unit_of_work v w body)"
proof (rule guarI)
  fix s r s'
  assume run: "unit_of_work v w body s = (r, s')"
  let ?s0 = "s\<lparr>units := Suc (units s)\<rparr>"
  have s0: "R s ?s0" by (simp add: R_frame)
  show "R s s'"
  proof (cases "e_open v w (units s) (db s)")
    case (Inl e)
    with run s0 show ?thesis by (auto simp: unit_of_work_def Let_def)
  next
    case (Inr d)
    let ?s1 = "?s0\<lparr>db := d\<rparr>"
    have "R ?s0 ?s1" using assms(1) Inr by (auto simp: env_keeps_def)
    with s0 have s1: "R s ?s1" by (rule R_trans)
    obtain q s2 where body: "body ?s1 = (q, s2)" by (cases "body ?s1")
    have "R ?s1 s2" using guarD [OF assms(2) body] .
    with s1 R_rollback [OF this] have "R s s2" "R s (s2\<lparr>db := d\<rparr>)"
      by (auto intro: R_trans)
    with run Inr body show ?thesis
      by (auto simp: unit_of_work_def Let_def split: sum.splits option.splits)
  qed
qed

lemma guar_begin [guar_intros]: "env_keeps R v \<Longrightarrow> guar R body \<Longrightarrow> guar R (begin_unit v body)"
  by (simp add: begin_unit_def guar_unit)

lemma guar_read_unit [guar_intros]: "env_keeps R v \<Longrightarrow> guar R body \<Longrightarrow> guar R (read_unit v body)"
  by (simp add: read_unit_def guar_unit)

end

end
