(* ===== verification/Operation_Repository.thy ===== *)
theory Operation_Repository
  imports Store "HOL-Library.Product_Lexorder"
begin

text \<open>
  The operation and event repositories of \<^verbatim>\<open>operations/repositories.py\<close>. No
  program here commits: a caller runs it inside a unit of work. An \<^verbatim>\<open>UPDATE\<close>
  is a conditional rewrite of the matching rows together with its row count.
\<close>

section \<open>Reads\<close>

definition op_lookup :: "db \<Rightarrow> ident \<Rightarrow> op_row option" where
  "op_lookup d oid = row_with o_id (operations d) oid"

definition get_op :: "ident \<Rightarrow> ('w, op_row option) prog" where
  "get_op oid = read_db (\<lambda>d. op_lookup d oid)"

definition require_known :: "ident \<Rightarrow> ('w, unit) prog" where
  "require_known oid = bind (get_op oid) (\<lambda>r.
     case r of None \<Rightarrow> throw (OperationConflict (NoSuchOperation oid)) | Some _ \<Rightarrow> ret ())"

definition require_op :: "ident \<Rightarrow> ('w, op_row) prog" where
  "require_op oid = bind (get_op oid) (\<lambda>r.
     case r of None \<Rightarrow> throw (OperationConflict (NoSuchOperation oid)) | Some row \<Rightarrow> ret row)"

definition list_active :: "('w, op_row list) prog" where
  "list_active = read_db (\<lambda>d.
     sort_key (\<lambda>r. (o_created_at r, o_id r))
       (filter (\<lambda>r. o_finished_at r = None) (operations d)))"

definition list_recent :: "int \<Rightarrow> ('w, op_row list) prog" where
  "list_recent limit = read_db (\<lambda>d.
     take (nat (max 1 limit))
       (rev (sort_key (\<lambda>r. (the (o_finished_at r), o_id r))
         (filter (\<lambda>r. o_finished_at r \<noteq> None) (operations d)))))"

definition list_children :: "ident \<Rightarrow> op_type option \<Rightarrow> int \<Rightarrow> ('w, op_row list) prog" where
  "list_children parent kind limit = read_db (\<lambda>d.
     take (nat (max 1 (min limit 200)))
       (rev (sort_key (\<lambda>r. (o_created_at r, o_id r))
         (filter (\<lambda>r. o_parent_operation_id r = Some parent \<and>
             (case kind of None \<Rightarrow> True | Some t \<Rightarrow> o_type r = t)) (operations d)))))"

datatype scope = ScopeAll | ScopeActive | ScopeRecent

definition window_clause :: "scope \<Rightarrow> op_type option \<Rightarrow> bool \<Rightarrow> op_row \<Rightarrow> bool" where
  "window_clause scope kind include_dismissed r \<longleftrightarrow>
     (case scope of ScopeActive \<Rightarrow> o_finished_at r = None
        | ScopeRecent \<Rightarrow> o_finished_at r \<noteq> None | ScopeAll \<Rightarrow> True) \<and>
     (case kind of None \<Rightarrow> True | Some t \<Rightarrow> o_type r = t) \<and>
     (include_dismissed \<or> o_dismissed_at r = None)"

definition list_window :: "scope \<Rightarrow> op_type option \<Rightarrow> bool \<Rightarrow> int \<Rightarrow> int \<Rightarrow> ('w, op_row list) prog" where
  "list_window scope kind include_dismissed limit offset = read_db (\<lambda>d.
     let rows = sort_key (\<lambda>r. (o_created_at r, o_id r))
                  (filter (window_clause scope kind include_dismissed) (operations d));
         ordered = (if scope = ScopeActive then rows else rev rows)
     in take (nat (max 1 limit)) (drop (nat (max 0 offset)) ordered))"

definition count_window :: "scope \<Rightarrow> op_type option \<Rightarrow> bool \<Rightarrow> ('w, int) prog" where
  "count_window scope kind include_dismissed = read_db (\<lambda>d.
     int (length (filter (window_clause scope kind include_dismissed) (operations d))))"

section \<open>Writes\<close>

text \<open>\<^verbatim>\<open>UPDATE operations SET .. WHERE ..\<close>, returning \<^verbatim>\<open>rowcount\<close>.\<close>

definition update_ops :: "(op_row \<Rightarrow> bool) \<Rightarrow> (op_row \<Rightarrow> op_row) \<Rightarrow> ('w, nat) prog" where
  "update_ops p f =
     bind (read_db (\<lambda>d. length (filter p (operations d)))) (\<lambda>n.
     andthen (write_db (\<lambda>d. d\<lparr>operations := rows_updated p f (operations d)\<rparr>))
     (ret n))"

definition sanitized :: "nat \<Rightarrow> json \<Rightarrow> ('w, json) prog" where
  "sanitized max_bytes v = (case sanitize_payload max_bytes v of
     Inl e \<Rightarrow> throw (PayloadRejected e) | Inr w \<Rightarrow> ret w)"

definition sanitized_opt :: "nat \<Rightarrow> json option \<Rightarrow> ('w, json option) prog" where
  "sanitized_opt max_bytes v = (case v of
     None \<Rightarrow> ret None
   | Some x \<Rightarrow> bind (sanitized max_bytes x) (\<lambda>w. ret (Some w)))"

text \<open>The \<^verbatim>\<open>INSERT\<close> of an event under the next autoincremented cursor.\<close>

definition insert_event :: "(int \<Rightarrow> event_row) \<Rightarrow> ('w, int) prog" where
  "insert_event row_at =
     bind (read_db next_cursor) (\<lambda>cursor.
     andthen (write_db (\<lambda>d. d\<lparr>
         operation_events := operation_events d @ [row_at cursor],
         next_cursor := next_cursor d + 1\<rparr>))
     (ret cursor))"

text \<open>\<^verbatim>\<open>EventRepository.append\<close>: level, code, summary, detail, progress.\<close>

definition append_event :: "env \<Rightarrow> ident \<Rightarrow> string \<Rightarrow> string option \<Rightarrow> string \<Rightarrow>
    json option \<Rightarrow> json option \<Rightarrow> ('w, int) prog" where
  "append_event v oid level code summary detail progress =
     andthen (require_known oid)
     (if level \<notin> set EVENT_LEVELS then throw (OperationValidationError ''unknown event level'')
      else
        bind (sanitized_opt EVENT_DETAIL_MAX_BYTES detail) (\<lambda>detail_json.
        bind (sanitized_opt EVENT_DETAIL_MAX_BYTES progress) (\<lambda>progress_json.
        bind (clock v) (\<lambda>ts.
        insert_event (\<lambda>cursor.
          \<lparr>e_cursor = cursor, e_operation_id = oid, e_ts = ts, e_level = level,
           e_code = code, e_summary = take SUMMARY_MAX_CHARS summary,
           e_detail = detail_json, e_progress = progress_json\<rparr>)))))"

definition list_after :: "ident \<Rightarrow> int \<Rightarrow> int \<Rightarrow> ('w, event_row list) prog" where
  "list_after oid after_cursor limit = read_db (\<lambda>d.
     take (nat (max 1 limit))
       (sort_key e_cursor
         (filter (\<lambda>e. e_operation_id e = oid \<and> e_cursor e > after_cursor) (operation_events d))))"

definition insert_op :: "op_row \<Rightarrow> ('w, unit) prog" where
  "insert_op row = bind (get_op (o_id row)) (\<lambda>r.
     case r of
       Some _ \<Rightarrow> throw (OperationConflict (CannotCreate (o_id row)))
     | None \<Rightarrow> write_db (\<lambda>d. d\<lparr>operations := operations d @ [row]\<rparr>))"

definition queued_row :: "ident \<Rightarrow> op_type \<Rightarrow> int \<Rightarrow> int \<Rightarrow> json \<Rightarrow> string \<Rightarrow> ident option \<Rightarrow> instant \<Rightarrow> op_row" where
  "queued_row oid t request_version recovery_policy_version request surface parent now =
     \<lparr>o_id = oid, o_type = t, o_request_version = request_version,
      o_recovery_policy_version = recovery_policy_version, o_request_json = request,
      o_state = QUEUED, o_state_revision = 1, o_progress_phase = None,
      o_progress_current = 0, o_progress_total = None, o_progress_unit = None,
      o_progress_summary = None, o_surface = surface, o_cancel_requested_at = None,
      o_result_code = None, o_result_detail = None, o_error_code = None,
      o_error_detail = None, o_parent_operation_id = parent, o_created_at = now,
      o_started_at = None, o_updated_at = now, o_finished_at = None, o_dismissed_at = None\<rparr>"

definition create_op :: "env \<Rightarrow> op_type \<Rightarrow> json \<Rightarrow> int \<Rightarrow> int \<Rightarrow> string \<Rightarrow> ident option \<Rightarrow>
    ident option \<Rightarrow> ('w, op_row) prog" where
  "create_op v t request request_version recovery_policy_version surface operation_id parent =
     bind (clock v) (\<lambda>now.
     bind (lift (sanitize_request t request_version request)) (\<lambda>sanitized_request.
     bind (case operation_id of
             Some oid \<Rightarrow> if oid = '''' then uuid_factory v else ret oid
           | None \<Rightarrow> uuid_factory v) (\<lambda>oid.
     andthen (case parent of None \<Rightarrow> ret () | Some p \<Rightarrow> require_known p)
     (andthen (insert_op (queued_row oid t request_version recovery_policy_version
                 sanitized_request surface parent now))
     (andthen (append_event v oid ''info'' (Some ''OPERATION_QUEUED'')
                 (''operation '' @ type_value t @ '' queued'')
                 (Some (JObj [(''surface'', jstr surface)])) None)
     (bind (get_op oid) assert_some))))))"

definition set_dismissed :: "env \<Rightarrow> ident \<Rightarrow> bool \<Rightarrow> ('w, op_row) prog" where
  "set_dismissed v oid dismissed =
     bind (require_op oid) (\<lambda>record.
     if \<not> is_terminal (o_state record)
     then throw (InvalidTransition (''only terminal operations can be dismissed; '' @ oid @ '' is ''
            @ state_value (o_state record)))
     else
       bind (if dismissed then bind (clock v) (\<lambda>t. ret (Some t)) else ret None) (\<lambda>wanted.
       if o_dismissed_at record = wanted then ret record
       else
         bind (clock v) (\<lambda>now.
         andthen (update_ops (\<lambda>r. o_id r = oid)
                    (\<lambda>r. r\<lparr>o_dismissed_at := wanted, o_updated_at := now\<rparr>))
         (andthen (append_event v oid ''info''
                    (Some (if dismissed then ''OPERATION_DISMISSED'' else ''OPERATION_RESTORED''))
                    (if dismissed then ''hidden from default views; audit history retained''
                     else ''restored to default views'') None None)
         (bind (get_op oid) assert_some)))))"

text \<open>The optional arguments of \<^verbatim>\<open>compare_and_transition\<close>.\<close>

record transition_args =
  t_level :: string
  t_code :: "string option"
  t_summary :: "string option"
  t_detail :: "json option"
  t_result_code :: "string option"
  t_result_detail :: "json option"
  t_error_code :: "string option"
  t_error_detail :: "json option"

definition plain_transition :: transition_args where
  "plain_transition = \<lparr>t_level = ''info'', t_code = None, t_summary = None, t_detail = None,
     t_result_code = None, t_result_detail = None, t_error_code = None, t_error_detail = None\<rparr>"

text \<open>\<^verbatim>\<open>column = ?\<close> only when a value was given.\<close>

definition given :: "'a option \<Rightarrow> 'a option \<Rightarrow> 'a option" where
  "given new old = (case new of None \<Rightarrow> old | Some x \<Rightarrow> Some x)"

definition transitioned :: "op_state \<Rightarrow> instant \<Rightarrow> bool \<Rightarrow> string option \<Rightarrow> json option \<Rightarrow>
    string option \<Rightarrow> json option \<Rightarrow> op_row \<Rightarrow> op_row" where
  "transitioned target now unstarted result_code result_detail error_code error_detail r =
     r\<lparr>o_state := target,
       o_state_revision := o_state_revision r + 1,
       o_updated_at := now,
       o_started_at := (if unstarted \<and> \<not> is_terminal target
                        then (case o_started_at r of None \<Rightarrow> Some now | Some t \<Rightarrow> Some t)
                        else o_started_at r),
       o_finished_at := (if is_terminal target then Some now else o_finished_at r),
       o_result_code := given result_code (o_result_code r),
       o_result_detail := given result_detail (o_result_detail r),
       o_error_code := given error_code (o_error_code r),
       o_error_detail := given error_detail (o_error_detail r)\<rparr>"

definition compare_and_transition :: "env \<Rightarrow> ident \<Rightarrow> op_state \<Rightarrow> int \<Rightarrow> op_state \<Rightarrow>
    transition_args \<Rightarrow> ('w, op_row) prog" where
  "compare_and_transition v oid expected_state expected_revision target a =
     bind (require_op oid) (\<lambda>current.
     andthen (lift (assert_transition expected_state target))
     (bind (clock v) (\<lambda>now.
     bind (sanitized_opt EVENT_DETAIL_MAX_BYTES (t_result_detail a)) (\<lambda>result_detail.
     bind (sanitized_opt EVENT_DETAIL_MAX_BYTES (t_error_detail a)) (\<lambda>error_detail.
     bind (update_ops
             (\<lambda>r. o_id r = oid \<and> o_state r = expected_state \<and> o_state_revision r = expected_revision)
             (transitioned target now (o_started_at current = None)
                (t_result_code a) result_detail (t_error_code a) error_detail)) (\<lambda>rowcount.
     if rowcount \<noteq> 1 then throw (OperationConflict (StaleTransition oid))
     else
       andthen (append_event v oid (t_level a)
                  (Some (text_or (t_code a) (''STATE_'' @ state_value target)))
                  (text_or (t_summary a)
                     (''OperationState.'' @ state_value expected_state @ '' -> OperationState.'' @ state_value target))
                  (t_detail a) None)
       (bind (get_op oid) assert_some)))))))"

definition request_cancel :: "env \<Rightarrow> ident \<Rightarrow> int option \<Rightarrow> ('w, op_row) prog" where
  "request_cancel v oid expected_revision =
     bind (require_op oid) (\<lambda>current.
     if o_state current \<in> {CANCEL_REQUESTED, CANCELLED} then ret current
     else if o_state current \<in> {COMMITTING, ROLLING_BACK}
     then throw (InvalidTransition (''cancellation refused inside critical section ''
            @ state_value (o_state current)
            @ ''; it will be resolved to a terminal state before cancellation can be considered''))
     else if is_terminal (o_state current)
     then throw (InvalidTransition (''cannot cancel terminal operation in ''
            @ state_value (o_state current)))
     else
       bind (clock v) (\<lambda>now.
       bind (update_ops
               (\<lambda>r. o_id r = oid \<and> o_state r = o_state current \<and>
                  o_state_revision r = (case expected_revision of
                     Some n \<Rightarrow> n | None \<Rightarrow> o_state_revision current))
               (\<lambda>r. r\<lparr>o_state := CANCEL_REQUESTED, o_cancel_requested_at := Some now,
                  o_state_revision := o_state_revision r + 1, o_updated_at := now\<rparr>)) (\<lambda>rowcount.
       if rowcount \<noteq> 1 then throw (OperationConflict (StaleCancellation oid))
       else
         andthen (append_event v oid ''info'' (Some ''CANCEL_REQUESTED'')
                    ''cancellation requested; honoring at next safe point'' None None)
         (bind (get_op oid) assert_some))))"

definition update_progress :: "env \<Rightarrow> ident \<Rightarrow> string \<Rightarrow> int \<Rightarrow> int option \<Rightarrow> string option \<Rightarrow>
    string option \<Rightarrow> ('w, op_row) prog" where
  "update_progress v oid phase current tot unit summary =
     bind (require_op oid) (\<lambda>record.
     if Some phase = o_progress_phase record \<and> current < o_progress_current record
     then throw (OperationConflict (ProgressBackwards oid))
     else
       bind (clock v) (\<lambda>now.
       bind (update_ops
               (\<lambda>r. o_id r = oid \<and> o_state r = o_state record \<and>
                  o_state_revision r = o_state_revision record)
               (\<lambda>r. r\<lparr>o_progress_phase := Some phase, o_progress_current := current,
                  o_progress_total := tot, o_progress_unit := sanitize_summary unit,
                  o_progress_summary := sanitize_summary summary,
                  o_state_revision := o_state_revision r + 1, o_updated_at := now\<rparr>)) (\<lambda>rowcount.
       if rowcount \<noteq> 1 then throw (OperationConflict (StaleProgress oid))
       else bind (get_op oid) assert_some)))"

definition terminal_level :: "op_state \<Rightarrow> string" where
  "terminal_level terminal =
    (if terminal \<in> {CANCELLED, FAILED_ROLLED_BACK} then ''warn''
     else if terminal = RECOVERY_REQUIRED then ''error'' else ''info'')"

definition record_terminal_result :: "env \<Rightarrow> ident \<Rightarrow> op_state \<Rightarrow> string option \<Rightarrow> json option \<Rightarrow>
    string option \<Rightarrow> json option \<Rightarrow> string option \<Rightarrow> ('w, op_row) prog" where
  "record_terminal_result v oid terminal result_code result_detail error_code error_detail event_summary =
     bind (require_op oid) (\<lambda>record.
     if \<not> is_terminal terminal
     then throw (InvalidTransition (state_value terminal @ '' is not a terminal state''))
     else
       compare_and_transition v oid (o_state record) (o_state_revision record) terminal
         \<lparr>t_level = terminal_level terminal,
          t_code = Some (''OPERATION_'' @ state_value terminal),
          t_summary = Some (text_or event_summary (''operation reached '' @ state_value terminal)),
          t_detail = None,
          t_result_code = result_code, t_result_detail = result_detail,
          t_error_code = error_code, t_error_detail = error_detail\<rparr>)"

end
