(* ===== verification/Step_Repository.thy ===== *)
theory Step_Repository
  imports Operation_Repository
begin

text \<open>
  The step repository of \<^verbatim>\<open>operations/repositories.py\<close>: steps are added once,
  move along the step table by compare-and-swap on their state, and keep their input,
  output and external-effect identifier.
\<close>

section \<open>Reads\<close>

definition step_key_of :: "step_row \<Rightarrow> ident \<times> ident" where
  "step_key_of r = (s_operation_id r, s_key r)"

definition step_lookup :: "db \<Rightarrow> ident \<Rightarrow> ident \<Rightarrow> step_row option" where
  "step_lookup d oid key = row_with step_key_of (operation_steps d) (oid, key)"

definition get_step :: "ident \<Rightarrow> ident \<Rightarrow> ('w, step_row option) prog" where
  "get_step oid key = read_db (\<lambda>d. step_lookup d oid key)"

definition require_step :: "ident \<Rightarrow> ident \<Rightarrow> ('w, step_row) prog" where
  "require_step oid key = bind (get_step oid key) (\<lambda>r.
     case r of None \<Rightarrow> throw (OperationConflict (NoSuchStep oid key)) | Some row \<Rightarrow> ret row)"

definition steps_of :: "db \<Rightarrow> ident \<Rightarrow> step_row list" where
  "steps_of d oid = sort_key s_sequence (filter (\<lambda>r. s_operation_id r = oid) (operation_steps d))"

definition list_steps :: "ident \<Rightarrow> ('w, step_row list) prog" where
  "list_steps oid = read_db (\<lambda>d. steps_of d oid)"

section \<open>Adding steps\<close>

definition pending_row :: "ident \<Rightarrow> ident \<Rightarrow> int \<Rightarrow> int \<Rightarrow> json option \<Rightarrow> step_row" where
  "pending_row oid key sequence version input =
     \<lparr>s_operation_id = oid, s_key = key, s_sequence = sequence,
      s_implementation_version = version, s_state = S_PENDING, s_attempts = 0,
      s_input_json = input, s_output_json = None, s_external_effect_id = None,
      s_failure_code = None, s_failure_detail = None, s_started_at = None,
      s_checkpointed_at = None, s_finished_at = None\<rparr>"

text \<open>
  The insert violates a uniqueness constraint when the operation already has the key or
  the sequence number.
\<close>

definition insert_step :: "step_row \<Rightarrow> ('w, unit) prog" where
  "insert_step row = bind (read_db operation_steps) (\<lambda>rows.
     if list_ex (\<lambda>r. s_operation_id r = s_operation_id row \<and>
            (s_key r = s_key row \<or> s_sequence r = s_sequence row)) rows
     then throw (OperationConflict (CannotAddStep (s_operation_id row) (s_key row)))
     else write_db (\<lambda>d. d\<lparr>operation_steps := operation_steps d @ [row]\<rparr>))"

definition add_one_step :: "ident \<Rightarrow> (ident \<rightharpoonup> json) \<Rightarrow> (ident \<times> int) \<times> int \<Rightarrow> ('w, unit) prog" where
  "add_one_step oid inputs item =
     (let key = fst (fst item); sequence = snd (fst item); version = snd item in
      bind (case inputs key of
              None \<Rightarrow> ret None
            | Some x \<Rightarrow> bind (sanitized REQUEST_MAX_BYTES x) (\<lambda>w. ret (Some w))) (\<lambda>input_json.
      insert_step (pending_row oid key sequence version input_json)))"

definition add_steps :: "env \<Rightarrow> ident \<Rightarrow> (ident \<times> int) list \<Rightarrow> int list \<Rightarrow> (ident \<rightharpoonup> json) \<Rightarrow>
    ('w, step_row list) prog" where
  "add_steps v oid steps versions inputs =
     andthen (require_known oid)
     (if length versions \<noteq> length steps
      then throw (OperationValidationError ''one implementation version per step is required'')
      else if list_ex (\<lambda>n. n < 1) versions
      then throw (OperationValidationError ''implementation versions must be >= 1'')
      else
        andthen (foreach (sort_key (\<lambda>item. snd (fst item)) (zip steps versions))
                   (add_one_step oid inputs))
        (bind (list_steps oid) (\<lambda>rows.
          ret (filter (\<lambda>r. s_key r \<in> fst ` set steps) rows))))"

section \<open>Step transitions\<close>

definition update_steps :: "(step_row \<Rightarrow> bool) \<Rightarrow> (step_row \<Rightarrow> step_row) \<Rightarrow> ('w, nat) prog" where
  "update_steps p f =
     bind (read_db (\<lambda>d. length (filter p (operation_steps d)))) (\<lambda>n.
     andthen (write_db (\<lambda>d. d\<lparr>operation_steps := rows_updated p f (operation_steps d)\<rparr>))
     (ret n))"

text \<open>\<open>extra\<close> is the effect of the additional \<^verbatim>\<open>SET\<close> clauses.\<close>

definition cas_step :: "ident \<Rightarrow> ident \<Rightarrow> step_state \<Rightarrow> step_state \<Rightarrow> (step_row \<Rightarrow> step_row) \<Rightarrow>
    ('w, step_row) prog" where
  "cas_step oid key expected target extra =
     andthen (lift (assert_step_transition expected target))
     (bind (update_steps (\<lambda>r. step_key_of r = (oid, key) \<and> s_state r = expected)
              (\<lambda>r. (extra r)\<lparr>s_state := target\<rparr>)) (\<lambda>rowcount.
      if rowcount \<noteq> 1 then throw (OperationConflict (StaleStep oid key))
      else require_step oid key))"

definition started :: "instant \<Rightarrow> ident option \<Rightarrow> json option \<Rightarrow> step_row \<Rightarrow> step_row" where
  "started now effect_id input r =
     r\<lparr>s_attempts := s_attempts r + 1,
       s_started_at := (case s_started_at r of None \<Rightarrow> Some now | Some t \<Rightarrow> Some t),
       s_external_effect_id := given effect_id (s_external_effect_id r),
       s_input_json := given input (s_input_json r)\<rparr>"

definition start_step :: "env \<Rightarrow> ident \<Rightarrow> ident \<Rightarrow> ident option \<Rightarrow> bool \<Rightarrow> json option \<Rightarrow>
    ('w, step_row) prog" where
  "start_step v oid key external_effect_id reclaim input_payload =
     bind (require_step oid key) (\<lambda>step.
     if reclaim \<and> s_state step \<noteq> S_RUNNING
     then throw (OperationConflict (ReclaimNotRunning key))
     else
       bind (clock v) (\<lambda>now.
       bind (sanitized_opt REQUEST_MAX_BYTES input_payload) (\<lambda>input_json.
       cas_step oid key (if reclaim then S_RUNNING else S_PENDING) S_RUNNING
         (started now external_effect_id input_json))))"

definition checkpoint_step :: "env \<Rightarrow> ident \<Rightarrow> ident \<Rightarrow> json option \<Rightarrow> ('w, step_row) prog" where
  "checkpoint_step v oid key output =
     bind (clock v) (\<lambda>now.
     bind (sanitized_opt REQUEST_MAX_BYTES output) (\<lambda>output_json.
     cas_step oid key S_RUNNING S_CHECKPOINTED
       (\<lambda>r. r\<lparr>s_checkpointed_at := Some now, s_output_json := given output_json (s_output_json r)\<rparr>)))"

definition verify_step :: "ident \<Rightarrow> ident \<Rightarrow> ('w, step_row) prog" where
  "verify_step oid key = cas_step oid key S_CHECKPOINTED S_VERIFIED (\<lambda>r. r)"

definition fail_step :: "env \<Rightarrow> ident \<Rightarrow> ident \<Rightarrow> step_state \<Rightarrow> string \<Rightarrow> json option \<Rightarrow>
    ('w, step_row) prog" where
  "fail_step v oid key expected code detail =
     bind (sanitized_opt EVENT_DETAIL_MAX_BYTES detail) (\<lambda>detail_json.
     bind (clock v) (\<lambda>now.
     cas_step oid key expected S_FAILED
       (\<lambda>r. r\<lparr>s_failure_code := Some code, s_failure_detail := detail_json,
              s_finished_at := Some now\<rparr>)))"

definition begin_compensation :: "ident \<Rightarrow> ident \<Rightarrow> step_state \<Rightarrow> ('w, step_row) prog" where
  "begin_compensation oid key expected = cas_step oid key expected S_COMPENSATING (\<lambda>r. r)"

definition complete_compensation :: "env \<Rightarrow> ident \<Rightarrow> ident \<Rightarrow> ('w, step_row) prog" where
  "complete_compensation v oid key =
     bind (clock v) (\<lambda>now.
     cas_step oid key S_COMPENSATING S_COMPENSATED (\<lambda>r. r\<lparr>s_finished_at := Some now\<rparr>))"

end
