(* ===== verification/Lease_Repository.thy ===== *)
theory Lease_Repository
  imports Operation_Repository
begin

text \<open>
  Resource leases and the worker-host lock of \<^verbatim>\<open>operations/repositories.py\<close>:
  at most one lease per resource, a revision per generation, expiry, and the
  \<^verbatim>\<open>RECOVERY_REQUIRED\<close> barrier that no takeover passes.
\<close>

definition DEFAULT_LEASE_TTL_SECONDS :: int where
  "DEFAULT_LEASE_TTL_SECONDS = 60"

definition advance :: "instant \<Rightarrow> int \<Rightarrow> instant" where
  "advance timestamp seconds = timestamp + seconds"

section \<open>Reads\<close>

definition lease_lookup :: "db \<Rightarrow> ident \<Rightarrow> lease_row option" where
  "lease_lookup d key = row_with l_resource_key (operation_leases d) key"

definition get_lease :: "ident \<Rightarrow> ('w, lease_row option) prog" where
  "get_lease key = read_db (\<lambda>d. lease_lookup d key)"

definition owns :: "db \<Rightarrow> ident \<Rightarrow> ident \<Rightarrow> ident \<Rightarrow> int \<Rightarrow> instant \<Rightarrow> bool" where
  "owns d key oid owner revision now = (case lease_lookup d key of
     None \<Rightarrow> False
   | Some l \<Rightarrow> l_operation_id l = oid \<and> l_owner l = owner \<and>
       l_lease_revision l = revision \<and> \<not> l_expires_at l \<le> now)"

definition assert_owned :: "ident \<Rightarrow> ident \<Rightarrow> ident \<Rightarrow> int \<Rightarrow> instant \<Rightarrow> ('w, unit) prog" where
  "assert_owned key oid owner revision now =
     bind (read_db (\<lambda>d. owns d key oid owner revision now)) (\<lambda>ok.
     if ok then ret () else throw (OperationConflict (LostFence key)))"

definition list_expired :: "instant \<Rightarrow> int \<Rightarrow> ('w, lease_row list) prog" where
  "list_expired now limit =
     (if max 0 limit = 0 then ret []
      else read_db (\<lambda>d. take (nat limit) (sort_key l_resource_key
             (filter (\<lambda>l. l_expires_at l \<le> now) (operation_leases d)))))"

text \<open>The state of the operation that owns the lease on a resource: an inner join.\<close>

definition owning_operation_state :: "db \<Rightarrow> ident \<Rightarrow> op_state option" where
  "owning_operation_state d key = (case lease_lookup d key of
     None \<Rightarrow> None
   | Some l \<Rightarrow> map_option o_state (op_lookup d (l_operation_id l)))"

definition leases_of :: "db \<Rightarrow> ident \<Rightarrow> lease_row list" where
  "leases_of d oid = sort_key l_resource_key
     (filter (\<lambda>l. l_operation_id l = oid) (operation_leases d))"

definition leases_for_operation :: "ident \<Rightarrow> ('w, lease_row list) prog" where
  "leases_for_operation oid = read_db (\<lambda>d. leases_of d oid)"

definition occupant :: "db \<Rightarrow> instant \<Rightarrow> ident \<Rightarrow> ident option" where
  "occupant d now key = (case lease_lookup d key of
     None \<Rightarrow> None
   | Some l \<Rightarrow>
       (if l_expires_at l \<le> now \<and> owning_operation_state d key \<noteq> Some RECOVERY_REQUIRED
        then None else Some (l_operation_id l)))"

definition availability :: "env \<Rightarrow> ident list \<Rightarrow> ('w, (ident \<times> ident option) list) prog" where
  "availability v keys =
     bind (clock v) (\<lambda>now.
     read_db (\<lambda>d. map (\<lambda>key. (key, occupant d now key)) (sorted_keys keys)))"

section \<open>Acquiring, renewing, releasing\<close>

text \<open>
  \<^verbatim>\<open>INSERT .. ON CONFLICT(resource_key) DO UPDATE .. WHERE expires_at <= now\<close>. A
  takeover keeps \<^verbatim>\<open>acquired_at\<close> and begins a new revision.
\<close>

definition fresh_lease :: "ident \<Rightarrow> ident \<Rightarrow> ident \<Rightarrow> instant \<Rightarrow> instant \<Rightarrow> lease_row" where
  "fresh_lease key oid owner now expires =
     \<lparr>l_resource_key = key, l_operation_id = oid, l_owner = owner, l_lease_revision = 1,
      l_acquired_at = now, l_heartbeat_at = now, l_expires_at = expires\<rparr>"

definition taken_over :: "ident \<Rightarrow> ident \<Rightarrow> instant \<Rightarrow> instant \<Rightarrow> lease_row \<Rightarrow> lease_row" where
  "taken_over oid owner now expires l =
     l\<lparr>l_operation_id := oid, l_owner := owner,
       l_lease_revision := l_lease_revision l + 1,
       l_heartbeat_at := now, l_expires_at := expires\<rparr>"

definition upsert_lease :: "ident \<Rightarrow> ident \<Rightarrow> ident \<Rightarrow> instant \<Rightarrow> instant \<Rightarrow> ('w, nat) prog" where
  "upsert_lease key oid owner now expires =
     bind (get_lease key) (\<lambda>existing.
     case existing of
       None \<Rightarrow>
         andthen (write_db (\<lambda>d. d\<lparr>operation_leases :=
             operation_leases d @ [fresh_lease key oid owner now expires]\<rparr>))
         (ret 1)
     | Some l \<Rightarrow>
         if l_expires_at l \<le> now then
           andthen (write_db (\<lambda>d. d\<lparr>operation_leases :=
               rows_updated (\<lambda>r. l_resource_key r = key) (taken_over oid owner now expires)
                 (operation_leases d)\<rparr>))
           (ret 1)
         else ret 0)"

definition acquire :: "env \<Rightarrow> ident \<Rightarrow> ident \<Rightarrow> ident \<Rightarrow> int \<Rightarrow> ('w, lease_row) prog" where
  "acquire v key oid owner ttl =
     andthen (require_known oid)
     (bind (clock v) (\<lambda>now.
      bind (get_lease key) (\<lambda>existing.
      if (case existing of None \<Rightarrow> False | Some l \<Rightarrow> l_expires_at l > now)
      then throw (OperationConflict (LeaseActivelyHeld key))
      else
        bind (read_db (\<lambda>d. owning_operation_state d key)) (\<lambda>state.
        if existing \<noteq> None \<and> state = Some RECOVERY_REQUIRED
        then throw (OperationConflict (RecoveryBarrier key))
        else
          bind (upsert_lease key oid owner now (advance now ttl)) (\<lambda>rowcount.
          if rowcount \<noteq> 1 then throw (OperationConflict (AcquisitionRefused key))
          else bind (get_lease key) assert_some)))))"

text \<open>
  A held dict is an association list from resource keys to lease revisions;
  \<^verbatim>\<open>sorted(held)\<close> walks its keys in order.
\<close>

type_synonym held = "(ident \<times> int) list"

definition held_revision :: "held \<Rightarrow> ident \<Rightarrow> int" where
  "held_revision held key = (case map_of held key of None \<Rightarrow> 0 | Some n \<Rightarrow> n)"

definition held_keys :: "held \<Rightarrow> ident list" where
  "held_keys held = sorted_keys (map fst held)"

fun acquire_each :: "env \<Rightarrow> ident list \<Rightarrow> ident \<Rightarrow> ident \<Rightarrow> int \<Rightarrow> held \<Rightarrow> held \<Rightarrow> ('w, held) prog" where
  "acquire_each v [] oid owner ttl held acquired = ret acquired"
| "acquire_each v (key # keys) oid owner ttl held acquired =
     (if key \<in> fst ` set held then acquire_each v keys oid owner ttl held acquired
      else
        bind (acquire v key oid owner ttl) (\<lambda>lease.
        acquire_each v keys oid owner ttl held
          (acquired @ [(key, l_lease_revision lease)])))"

definition acquire_many :: "env \<Rightarrow> ident list \<Rightarrow> ident \<Rightarrow> ident \<Rightarrow> int \<Rightarrow> held \<Rightarrow> ('w, held) prog" where
  "acquire_many v keys oid owner ttl held =
     bind (clock v) (\<lambda>now.
     andthen (foreach (held_keys held) (\<lambda>key.
       assert_owned key oid owner (held_revision held key) now))
     (acquire_each v (sorted_keys keys) oid owner ttl held []))"

definition lease_matches :: "ident \<Rightarrow> ident \<Rightarrow> int \<Rightarrow> lease_row \<Rightarrow> bool" where
  "lease_matches key owner revision l \<longleftrightarrow>
     l_resource_key l = key \<and> l_owner l = owner \<and> l_lease_revision l = revision"

definition heartbeat :: "env \<Rightarrow> ident \<Rightarrow> ident \<Rightarrow> int \<Rightarrow> int \<Rightarrow> ('w, lease_row) prog" where
  "heartbeat v key owner expected_revision ttl =
     bind (clock v) (\<lambda>now.
     bind (read_db (\<lambda>d. length (filter (lease_matches key owner expected_revision)
             (operation_leases d)))) (\<lambda>rowcount.
     andthen (write_db (\<lambda>d. d\<lparr>operation_leases :=
         rows_updated (lease_matches key owner expected_revision)
           (\<lambda>l. l\<lparr>l_heartbeat_at := now, l_expires_at := advance now ttl\<rparr>)
           (operation_leases d)\<rparr>))
     (if rowcount \<noteq> 1 then throw (OperationConflict (StaleLeaseOwner key))
      else bind (get_lease key) assert_some)))"

definition release :: "ident \<Rightarrow> ident \<Rightarrow> int \<Rightarrow> ('w, unit) prog" where
  "release key owner expected_revision =
     bind (read_db (\<lambda>d. length (filter (lease_matches key owner expected_revision)
             (operation_leases d)))) (\<lambda>rowcount.
     andthen (write_db (\<lambda>d. d\<lparr>operation_leases :=
         filter (\<lambda>l. \<not> lease_matches key owner expected_revision l) (operation_leases d)\<rparr>))
     (if rowcount \<noteq> 1 then throw (OperationConflict (StaleLeaseOwner key)) else ret ()))"

definition takeover :: "env \<Rightarrow> ident \<Rightarrow> ident \<Rightarrow> ident \<Rightarrow> int \<Rightarrow> ('w, lease_row) prog" where
  "takeover v key oid new_owner ttl =
     bind (clock v) (\<lambda>now.
     bind (get_lease key) (\<lambda>lease.
     case lease of
       None \<Rightarrow> throw (OperationConflict (NoLease key))
     | Some l \<Rightarrow>
         if l_expires_at l > now then throw (OperationConflict (NotExpired key))
         else acquire v key oid new_owner ttl))"

section \<open>The worker-host lock\<close>

definition get_lock :: "('w, lock_row option) prog" where
  "get_lock = read_db worker_lock"

definition require_lock :: "('w, lock_row) prog" where
  "require_lock = bind get_lock (\<lambda>row.
     case row of None \<Rightarrow> throw (OperationConflict NoWorkerLock) | Some k \<Rightarrow> ret k)"

definition acquire_lock :: "env \<Rightarrow> ident \<Rightarrow> int \<Rightarrow> ('w, lock_row) prog" where
  "acquire_lock v owner ttl =
     bind (clock v) (\<lambda>now.
     bind get_lock (\<lambda>existing.
     if (case existing of None \<Rightarrow> True | Some k \<Rightarrow> k_expires_at k \<le> now) then
       andthen (write_db (\<lambda>d. d\<lparr>worker_lock := Some
           \<lparr>k_owner = owner,
            k_lease_revision = (case existing of None \<Rightarrow> 1 | Some k \<Rightarrow> k_lease_revision k + 1),
            k_acquired_at = now, k_heartbeat_at = now, k_expires_at = advance now ttl\<rparr>\<rparr>))
       require_lock
     else throw (OperationConflict WorkerLockHeld)))"

definition lock_matches :: "ident \<Rightarrow> int \<Rightarrow> lock_row option \<Rightarrow> bool" where
  "lock_matches owner revision row = (case row of
     None \<Rightarrow> False | Some k \<Rightarrow> k_owner k = owner \<and> k_lease_revision k = revision)"

definition heartbeat_lock :: "env \<Rightarrow> ident \<Rightarrow> int \<Rightarrow> int \<Rightarrow> ('w, lock_row) prog" where
  "heartbeat_lock v owner expected_revision ttl =
     bind (clock v) (\<lambda>now.
     bind get_lock (\<lambda>row.
     if lock_matches owner expected_revision row then
       andthen (write_db (\<lambda>d. d\<lparr>worker_lock := map_option (\<lambda>k.
           k\<lparr>k_heartbeat_at := now, k_expires_at := advance now ttl,
             k_lease_revision := k_lease_revision k + 1\<rparr>) (worker_lock d)\<rparr>))
       require_lock
     else throw (OperationConflict WorkerLockLost)))"

definition release_lock :: "ident \<Rightarrow> int \<Rightarrow> ('w, unit) prog" where
  "release_lock owner expected_revision =
     write_db (\<lambda>d. if lock_matches owner expected_revision (worker_lock d)
       then d\<lparr>worker_lock := None\<rparr> else d)"

end
