(* ===== verification/Workflow.thy ===== *)
theory Workflow
  imports Step_Repository Lease_Repository
begin

text \<open>
  Workflow contracts, the exact-version registry and the enqueue service
  (\<^verbatim>\<open>operations/workflow.py\<close>). A workflow is an immutable declaration; its
  callables are programs of the adapters that register it, hence parameters here.
\<close>

section \<open>Declarations\<close>

record pulse_args =
  a_phase :: "string option"
  a_current :: "int option"
  a_total :: "int option"
  a_unit :: "string option"
  a_summary :: "string option"
  a_cancellation_safe :: bool

record 'w effect_ctx =
  x_operation_id :: ident
  x_step_key :: ident
  x_external_effect_id :: ident
  x_inputs :: json
  x_prior_outputs :: "ident \<rightharpoonup> json"
  x_request :: json
  x_pulse :: "pulse_args \<Rightarrow> ('w, unit) prog"
  x_worker_id :: ident
  x_lease_revisions :: held

record probe_result =
  pr_classification :: recovery_class
  pr_reason_code :: string
  pr_output :: "json option"

record terminal_decision =
  td_state :: op_state
  td_result_code :: string
  td_detail :: json
  td_summary :: string

definition make_terminal_decision :: "op_state \<Rightarrow> string \<Rightarrow> json \<Rightarrow> string \<Rightarrow> exn + terminal_decision" where
  "make_terminal_decision state code detail summary =
    (if state \<notin> {SUCCEEDED, FAILED_SAFE}
     then Inl (OperationValidationError ''terminal decisions are closed to SUCCEEDED / FAILED_SAFE'')
     else Inr \<lparr>td_state = state, td_result_code = code, td_detail = detail, td_summary = summary\<rparr>)"

definition default_terminal_decision :: "json \<Rightarrow> (ident \<rightharpoonup> json) \<Rightarrow> exn + terminal_decision" where
  "default_terminal_decision request verified_outputs =
     make_terminal_decision SUCCEEDED ''ALL_STEPS_VERIFIED'' (JObj [])
       ''all steps verified; operation succeeded''"

record 'w step_def =
  sd_key :: ident
  sd_phase :: string
  sd_sequence :: int
  sd_derive_input :: "json \<Rightarrow> (ident \<rightharpoonup> json) \<Rightarrow> exn + json"
  sd_probe :: "'w effect_ctx \<Rightarrow> ('w, probe_result) prog"
  sd_execute :: "'w effect_ctx \<Rightarrow> ('w, json) prog"
  sd_verify :: "'w effect_ctx \<Rightarrow> ('w, json) prog"
  sd_implementation_version :: int
  sd_resources :: "ident list"
  sd_externally_visible :: bool
  sd_critical :: bool
  sd_effect_disposition :: string
  sd_compensate :: "('w effect_ctx \<Rightarrow> ('w, json) prog) option"
  sd_verify_restoration :: "('w effect_ctx \<Rightarrow> ('w, json) prog) option"
  sd_probe_restoration :: "('w effect_ctx \<Rightarrow> ('w, probe_result) prog) option"
  sd_safe_if_uncertain :: bool

definition check_step_def :: "'w step_def \<Rightarrow> exn + unit" where
  "check_step_def step =
    (if sd_implementation_version step < 1
     then Inl (WorkflowRegistryError ''implementation_version must be >= 1'')
     else if sd_effect_disposition step \<notin> {''NONE'', ''HIDDEN_DURABLE'', ''FORWARD_ONLY'', ''REVERSIBLE''}
     then Inl (WorkflowRegistryError ''effect_disposition not allowed'')
     else Inr ())"

record 'w workflow_def =
  wf_type :: op_type
  wf_request_version :: int
  wf_recovery_policy_version :: int
  wf_decode_request :: "json \<Rightarrow> exn + json"
  wf_steps :: "'w step_def list"
  wf_terminal_decision :: "json \<Rightarrow> (ident \<rightharpoonup> json) \<Rightarrow> exn + terminal_decision"
  wf_preflight :: "json \<Rightarrow> ('w, unit) prog"
  wf_cancel_finalizer :: "(json \<Rightarrow> ident \<Rightarrow> ('w, json) prog) option"
  wf_phase_scoped_resources :: bool
  wf_recovery_barrier_resources :: "ident list"

text \<open>\<^verbatim>\<open>WorkflowDefinition.__post_init__\<close>: sequences number the steps from one, keys are distinct.\<close>

fun check_steps :: "int \<Rightarrow> ident list \<Rightarrow> 'w step_def list \<Rightarrow> exn + unit" where
  "check_steps position seen [] = Inr ()"
| "check_steps position seen (step # steps) =
    (if sd_sequence step \<noteq> position
     then Inl (WorkflowRegistryError ''sequence is not the declaration order'')
     else if sd_key step \<in> set seen
     then Inl (WorkflowRegistryError ''duplicate step key'')
     else check_steps (position + 1) (sd_key step # seen) steps)"

definition check_workflow :: "'w workflow_def \<Rightarrow> exn + unit" where
  "check_workflow w = check_steps 1 [] (wf_steps w)"

section \<open>Resources\<close>

fun resources_for_steps :: "'w step_def list \<Rightarrow> ident \<Rightarrow> exn + ident list" where
  "resources_for_steps [] key = Inl (WorkflowRegistryError ''no such step'')"
| "resources_for_steps (step # steps) key =
    (if sd_key step = key then Inr (sd_resources step) else resources_for_steps steps key)"

definition resources_for :: "'w workflow_def \<Rightarrow> ident \<Rightarrow> exn + ident list" where
  "resources_for w key = resources_for_steps (wf_steps w) key"

definition add_missing :: "ident list \<Rightarrow> ident list \<Rightarrow> ident list" where
  "add_missing ordered keys =
     foldl (\<lambda>acc key. if key \<in> set acc then acc else acc @ [key]) ordered keys"

definition all_resources :: "'w workflow_def \<Rightarrow> ident list" where
  "all_resources w = foldl (\<lambda>ordered step. add_missing ordered (sort (sd_resources step))) [] (wf_steps w)"

definition initial_resources :: "'w workflow_def \<Rightarrow> ident list" where
  "initial_resources w =
    (if \<not> wf_phase_scoped_resources w then all_resources w
     else case wf_steps w of [] \<Rightarrow> [] | step # _ \<Rightarrow> sorted_keys (sd_resources step))"

definition barrier_resources :: "'w workflow_def \<Rightarrow> ident list" where
  "barrier_resources w =
    (if \<not> wf_phase_scoped_resources w then []
     else sorted_keys (wf_recovery_barrier_resources w))"

definition resources_pending_from :: "'w workflow_def \<Rightarrow> ident \<Rightarrow> exn + ident list" where
  "resources_pending_from w key =
    (case dropWhile (\<lambda>step. sd_key step \<noteq> key) (wf_steps w) of
       [] \<Rightarrow> Inl (WorkflowRegistryError ''no such step'')
     | steps \<Rightarrow> Inr (foldl (\<lambda>ordered step. add_missing ordered (sort (sd_resources step))) [] steps))"

section \<open>Registry\<close>

record 'w registry =
  r_workflows :: "'w workflow_def list"
  r_frozen :: bool

definition empty_registry :: "'w registry" where
  "empty_registry = \<lparr>r_workflows = [], r_frozen = False\<rparr>"

definition workflow_key :: "'w workflow_def \<Rightarrow> op_type \<times> int \<times> int" where
  "workflow_key w = (wf_type w, wf_request_version w, wf_recovery_policy_version w)"

definition register :: "'w registry \<Rightarrow> 'w workflow_def \<Rightarrow> exn + 'w registry" where
  "register reg w =
    (if r_frozen reg then Inl (WorkflowRegistryError ''registry is frozen'')
     else if workflow_key w \<in> workflow_key ` set (r_workflows reg)
     then Inl (WorkflowRegistryError ''workflow already registered'')
     else Inr (reg\<lparr>r_workflows := r_workflows reg @ [w]\<rparr>))"

definition freeze :: "'w registry \<Rightarrow> 'w registry" where
  "freeze reg = reg\<lparr>r_frozen := True\<rparr>"

definition lookup_workflow :: "'w registry \<Rightarrow> op_type \<Rightarrow> int \<Rightarrow> int \<Rightarrow> exn + 'w workflow_def" where
  "lookup_workflow reg t request_version recovery_policy_version =
    (case row_with workflow_key (r_workflows reg) (t, request_version, recovery_policy_version) of
       None \<Rightarrow> Inl WorkflowVersionUnavailable
     | Some w \<Rightarrow> Inr w)"

definition definition_for_type :: "'w registry \<Rightarrow> op_type \<Rightarrow> exn + 'w workflow_def" where
  "definition_for_type reg t =
    (case filter (\<lambda>w. wf_type w = t) (r_workflows reg) of
       [w] \<Rightarrow> Inr w
     | _ \<Rightarrow> Inl WorkflowVersionUnavailable)"

section \<open>Enqueue\<close>

fun derive_inputs :: "json \<Rightarrow> 'w step_def list \<Rightarrow> exn + (ident \<rightharpoonup> json)" where
  "derive_inputs decoded [] = Inr Map.empty"
| "derive_inputs decoded (step # steps) =
    (case sd_derive_input step decoded Map.empty of
       Inl e \<Rightarrow> Inl e
     | Inr x \<Rightarrow>
         (case derive_inputs decoded steps of
            Inl e \<Rightarrow> Inl e
          | Inr m \<Rightarrow> Inr (if sd_key step \<in> dom m then m else m(sd_key step \<mapsto> x))))"

definition enqueue :: "env \<Rightarrow> 'w registry \<Rightarrow> op_type \<Rightarrow> json \<Rightarrow> string \<Rightarrow> ident option \<Rightarrow>
    ident option \<Rightarrow> ('w, op_row) prog" where
  "enqueue v reg t payload surface operation_id parent =
     bind (lift (definition_for_type reg t)) (\<lambda>w.
     bind (lift (wf_decode_request w payload)) (\<lambda>decoded.
     bind (lift (as_request_dict decoded)) (\<lambda>request.
     begin_unit v (
       bind (create_op v t request (wf_request_version w) (wf_recovery_policy_version w)
               surface operation_id parent) (\<lambda>record.
       bind (lift (derive_inputs decoded (wf_steps w))) (\<lambda>inputs.
       andthen (bind (add_steps v (o_id record)
                   (map (\<lambda>step. (sd_key step, sd_sequence step)) (wf_steps w))
                   (map sd_implementation_version (wf_steps w)) inputs) (\<lambda>_. ret ()))
       (ret record)))))))"

end
