(* ===== verification/Engine.thy ===== *)
theory Engine
  imports Workflow
begin

text \<open>
  The single-operation executor (\<^verbatim>\<open>operations/engine.py\<close>): claim, step
  protocol, recovery of interrupted steps, failure classification, compensation,
  cancellation, pause and completion. Every owner-sensitive unit of work fences the held
  leases first. Step callables run between units of work.
\<close>

section \<open>The engine object and its outcomes\<close>

datatype outcome_kind =
    COMPLETED | SKIPPED_BUSY | SKIPPED_TERMINAL | SKIPPED_PAUSED | PAUSED_OUTCOME
  | LOST_LEASE | RECOVERY_REQUIRED_OUTCOME | WORKFLOW_VERSION_UNAVAILABLE
  | NO_SUCH_OPERATION | FAILED_RETRYABLE

record outcome =
  oc_kind :: outcome_kind
  oc_operation_id :: ident
  oc_reason_code :: "string option"
  oc_detail :: json

definition outcome_of :: "outcome_kind \<Rightarrow> ident \<Rightarrow> string option \<Rightarrow> outcome" where
  "outcome_of kind oid reason =
     \<lparr>oc_kind = kind, oc_operation_id = oid, oc_reason_code = reason, oc_detail = JObj []\<rparr>"

text \<open>
  \<open>en_crash\<close> is the crash hook and \<open>en_profile_busy\<close> says whether the profile lock
  is refused. \<open>en_fuel\<close> bounds the two unbounded loops of the engine.
\<close>

record 'w engine =
  en_env :: env
  en_registry :: "'w registry"
  en_worker_id :: ident
  en_ttl :: int
  en_shutdown :: "'w sys \<Rightarrow> bool"
  en_on_lease_acquired :: "(ident \<Rightarrow> ('w, unit) prog) option"
  en_crash :: "ident \<Rightarrow> string \<Rightarrow> ('w, unit) prog"
  en_terminal_observer :: "(ident \<Rightarrow> ('w, unit) prog) option"
  en_profile_busy :: "bool \<Rightarrow> 'w sys \<Rightarrow> bool"
  en_fuel :: nat

type_synonym 'w advanced = "outcome + 'w step_def list"

section \<open>Infrastructure\<close>

definition in_unit :: "'w engine \<Rightarrow> ('w, 'a) prog \<Rightarrow> ('w, 'a) prog" where
  "in_unit g body = begin_unit (en_env g) body"

definition event :: "'w engine \<Rightarrow> ident \<Rightarrow> string \<Rightarrow> string \<Rightarrow> json option \<Rightarrow> json option \<Rightarrow> ('w, unit) prog" where
  "event g oid code summary detail progress =
     bind (append_event (en_env g) oid ''info'' (Some code) summary detail progress) (\<lambda>_. ret ())"

definition fence :: "'w engine \<Rightarrow> ident \<Rightarrow> held \<Rightarrow> ('w, unit) prog" where
  "fence g oid held =
     bind (clock (en_env g)) (\<lambda>now.
     foreach (held_keys held) (\<lambda>key.
       assert_owned key oid (en_worker_id g) (held_revision held key) now))"

text \<open>\<^verbatim>\<open>for key in sorted(held): leases.release(..)\<close>\<close>

definition release_all :: "'w engine \<Rightarrow> held \<Rightarrow> ('w, unit) prog" where
  "release_all g held =
     foreach (held_keys held) (\<lambda>key. release key (en_worker_id g) (held_revision held key))"

text \<open>Every call of a step callable is logged with the tables at that moment.\<close>

definition log_call :: "call_kind \<Rightarrow> 'w effect_ctx \<Rightarrow> ('w, unit) prog" where
  "log_call kind ctx s = (Inr (), s\<lparr>calls := calls s @
     [\<lparr>c_kind = kind, c_operation = x_operation_id ctx, c_step = x_step_key ctx,
       c_effect_id = x_external_effect_id ctx, c_db = db s\<rparr>]\<rparr>)"

definition call_step :: "call_kind \<Rightarrow> ('w effect_ctx \<Rightarrow> ('w, 'a) prog) \<Rightarrow> 'w effect_ctx \<Rightarrow> ('w, 'a) prog" where
  "call_step kind f ctx = andthen (log_call kind ctx) (f ctx)"

definition row_inputs :: "step_row \<Rightarrow> json" where
  "row_inputs row = (case s_input_json row of None \<Rightarrow> JObj [] | Some v \<Rightarrow> v)"

definition with_output :: "'w effect_ctx \<Rightarrow> ident \<Rightarrow> json \<Rightarrow> 'w effect_ctx" where
  "with_output ctx key output = ctx\<lparr>x_prior_outputs := (x_prior_outputs ctx)(key \<mapsto> output)\<rparr>"

definition default_pulse :: "pulse_args \<Rightarrow> ('w, unit) prog" where
  "default_pulse a = ret ()"

text \<open>The context rebuilt from a durable row, with the do-nothing pulse.\<close>

definition row_ctx :: "'w engine \<Rightarrow> ident \<Rightarrow> step_row \<Rightarrow> ident \<Rightarrow> (ident \<rightharpoonup> json) \<Rightarrow> json \<Rightarrow> held \<Rightarrow> 'w effect_ctx" where
  "row_ctx g oid row key prior decoded held =
     \<lparr>x_operation_id = oid, x_step_key = key,
      x_external_effect_id = (case s_external_effect_id row of None \<Rightarrow> '''' | Some i \<Rightarrow> i),
      x_inputs = row_inputs row, x_prior_outputs = prior, x_request = decoded,
      x_pulse = default_pulse, x_worker_id = en_worker_id g, x_lease_revisions = held\<rparr>"

definition collected_outputs :: "step_row list \<Rightarrow> (ident \<rightharpoonup> json)" where
  "collected_outputs rows = map_of (rev
     (concat (map (\<lambda>r. case s_output_json r of None \<Rightarrow> [] | Some v \<Rightarrow> [(s_key r, v)]) rows)))"

definition prior_outputs :: "'w engine \<Rightarrow> ident \<Rightarrow> ('w, ident \<rightharpoonup> json) prog" where
  "prior_outputs g oid = in_unit g (bind (list_steps oid) (\<lambda>rows. ret (collected_outputs rows)))"

section \<open>Pulse\<close>

definition pulse_cell_at :: "nat \<Rightarrow> 'w sys \<Rightarrow> pulse_cell" where
  "pulse_cell_at i s = pulses s ! i"

definition update_cell :: "nat \<Rightarrow> (pulse_cell \<Rightarrow> pulse_cell) \<Rightarrow> ('w, unit) prog" where
  "update_cell i f s = (Inr (), s\<lparr>pulses := (pulses s)[i := f (pulses s ! i)]\<rparr>)"

definition new_pulse :: "('w, nat) prog" where
  "new_pulse s = (Inr (length (pulses s)), s\<lparr>pulses := pulses s @
     [\<lparr>p_ticks = 0, p_last_phase = None, p_last_current = 0, p_last_tick = 0\<rparr>]\<rparr>)"

definition pulse_progress :: "'w engine \<Rightarrow> ident \<Rightarrow> nat \<Rightarrow> op_row \<Rightarrow> pulse_args \<Rightarrow> ('w, unit) prog" where
  "pulse_progress g oid cell record a =
     andthen (update_cell cell (\<lambda>c. c\<lparr>p_ticks := p_ticks c + 1\<rparr>))
     (bind (reads (pulse_cell_at cell)) (\<lambda>c.
      let current = (case a_current a of None \<Rightarrow> 0 | Some n \<Rightarrow> n) in
      only_if (should_emit default_policy (a_phase a) current (p_last_phase c) (p_last_current c)
               (p_ticks c - p_last_tick c))
        (andthen (bind (update_progress (en_env g) oid
                    (text_or (a_phase a) (text_or (o_progress_phase record) ''running''))
                    current (a_total a) (a_unit a) (a_summary a)) (\<lambda>_. ret ()))
         (update_cell cell (\<lambda>c. c\<lparr>p_last_phase := a_phase a, p_last_current := current,
            p_last_tick := p_ticks c\<rparr>)))))"

definition pulse :: "'w engine \<Rightarrow> ident \<Rightarrow> held \<Rightarrow> nat \<Rightarrow> pulse_args \<Rightarrow> ('w, unit) prog" where
  "pulse g oid held cell a =
     handle
       (bind (in_unit g (
          bind (require_op oid) (\<lambda>record.
          andthen (fence g oid held)
          (andthen (foreach (held_keys held) (\<lambda>key.
             bind (heartbeat (en_env g) key (en_worker_id g) (held_revision held key) (en_ttl g)) (\<lambda>_. ret ())))
          (andthen (only_if (a_phase a \<noteq> None \<or> a_current a \<noteq> None)
             (pulse_progress g oid cell record a))
          (ret record)))))) (\<lambda>record.
        if a_cancellation_safe a \<and> o_cancel_requested_at record \<noteq> None \<and>
             o_state record = CANCEL_REQUESTED
        then throw CancellationObserved
        else ret ()))
       (\<lambda>e. case e of OperationConflict c \<Rightarrow> Some (throw (LostLease (PulseLost c))) | _ \<Rightarrow> None)"

definition make_pulse :: "'w engine \<Rightarrow> ident \<Rightarrow> held \<Rightarrow> ('w, pulse_args \<Rightarrow> ('w, unit) prog) prog" where
  "make_pulse g oid held = bind new_pulse (\<lambda>cell. ret (pulse g oid held cell))"

section \<open>Terminal writes\<close>

definition field_text :: "string \<Rightarrow> string option \<Rightarrow> string \<times> json" where
  "field_text key v = (key, jopt v)"

definition fail_safe :: "'w engine \<Rightarrow> ident \<Rightarrow> held \<Rightarrow> string \<Rightarrow> exn \<Rightarrow> ('w, outcome) prog" where
  "fail_safe g oid held label err =
     andthen (in_unit g (
       andthen (bind (require_op oid) (\<lambda>_. ret ()))
       (andthen (fence g oid held)
       (let stable_code = text_or (exn_code err) ''STEP_FAILED_SAFE'' in
        andthen (bind (record_terminal_result (en_env g) oid FAILED_SAFE None None (Some stable_code)
            (Some (JObj [(''step'', jstr label), (''code'', jstr stable_code),
               (''retryable'', JBool (exn_retryable err)),
               (''exception_class'', jstr (exn_class err)), (''probe'', jstr ''absent'')]))
            (Some (''failed safely at '' @ label @ '' ('' @ stable_code @ '')''))) (\<lambda>_. ret ()))
        (release_all g held)))))
     (ret (outcome_of COMPLETED oid (Some ''FAILED_SAFE'')))"

definition pause_op :: "'w engine \<Rightarrow> ident \<Rightarrow> held \<Rightarrow> string \<Rightarrow> ('w, outcome) prog" where
  "pause_op g oid held reason =
     andthen (in_unit g (
       bind (require_op oid) (\<lambda>record.
       andthen (fence g oid held)
       (andthen (bind (compare_and_transition (en_env g) oid (o_state record) (o_state_revision record)
            PAUSED (plain_transition\<lparr>t_code := Some ''OPERATION_PAUSED'',
              t_summary := Some (''paused safely: '' @ reason)\<rparr>)) (\<lambda>_. ret ()))
       (release_all g held)))))
     (ret (outcome_of PAUSED_OUTCOME oid (Some reason)))"

definition enter_rollback :: "'w engine \<Rightarrow> ident \<Rightarrow> held \<Rightarrow> string \<Rightarrow> string \<Rightarrow> ('w, unit) prog" where
  "enter_rollback g oid held level summary =
     in_unit g (
       bind (require_op oid) (\<lambda>record.
       andthen (fence g oid held)
       (bind (compare_and_transition (en_env g) oid (o_state record) (o_state_revision record)
            ROLLING_BACK (plain_transition\<lparr>t_level := level, t_code := Some ''ROLLBACK_STARTED'',
              t_summary := Some summary\<rparr>)) (\<lambda>_. ret ()))))"

definition require_recovery :: "'w engine \<Rightarrow> ident \<Rightarrow> held \<Rightarrow> string \<Rightarrow> json \<Rightarrow> string \<Rightarrow> ('w, outcome) prog" where
  "require_recovery g oid held code detail summary =
     andthen (in_unit g (
       andthen (bind (require_op oid) (\<lambda>_. ret ()))
       (andthen (fence g oid held)
       (bind (record_terminal_result (en_env g) oid RECOVERY_REQUIRED None None (Some code)
            (Some detail) (Some summary)) (\<lambda>_. ret ())))))
     (ret (outcome_of RECOVERY_REQUIRED_OUTCOME oid (Some code)))"

section \<open>Compensation\<close>

definition compensable_row :: "'w step_def \<Rightarrow> step_row \<Rightarrow> bool" where
  "compensable_row step row \<longleftrightarrow>
     sd_compensate step \<noteq> None \<and>
     sd_effect_disposition step \<noteq> ''FORWARD_ONLY'' \<and>
     (sd_externally_visible step \<or> sd_critical step) \<and>
     s_state row \<in> {S_RUNNING, S_CHECKPOINTED, S_VERIFIED, S_COMPENSATING}"

fun compensable_pairs :: "(ident \<rightharpoonup> step_row) \<Rightarrow> 'w step_def list \<Rightarrow> ('w step_def \<times> step_row) list" where
  "compensable_pairs rows [] = []"
| "compensable_pairs rows (step # steps) =
    (case rows (sd_key step) of
       None \<Rightarrow> compensable_pairs rows steps
     | Some row \<Rightarrow>
         (if compensable_row step row then (step, row) # compensable_pairs rows steps
          else compensable_pairs rows steps))"

definition rows_by_key :: "step_row list \<Rightarrow> (ident \<rightharpoonup> step_row)" where
  "rows_by_key rows = map_of (rev (map (\<lambda>r. (s_key r, r)) rows))"

definition durable_compensation_set :: "'w engine \<Rightarrow> ident \<Rightarrow> 'w workflow_def \<Rightarrow>
    ('w, ('w step_def \<times> step_row) list) prog" where
  "durable_compensation_set g oid w =
     bind (in_unit g (list_steps oid)) (\<lambda>rows.
     ret (compensable_pairs (rows_by_key rows) (wf_steps w)))"

text \<open>
  The failing step itself (\<^verbatim>\<open>also\<close>): it joins the set, whatever its visibility,
  when it can be compensated and its row shows that work began.
\<close>

definition also_pairs :: "ident \<Rightarrow> 'w step_def list \<Rightarrow> ('w step_def \<times> step_row) list \<Rightarrow>
    ('w, ('w step_def \<times> step_row) list) prog" where
  "also_pairs oid also compensable =
     read_db (\<lambda>d. concat (map (\<lambda>step.
       if sd_key step \<in> (sd_key \<circ> fst) ` set compensable \<or> sd_compensate step = None then []
       else case step_lookup d oid (sd_key step) of
         None \<Rightarrow> []
       | Some row \<Rightarrow>
           (if s_state row \<in> {S_RUNNING, S_CHECKPOINTED, S_VERIFIED, S_COMPENSATING}
            then [(step, row)] else [])) also))"

definition compensation_set :: "'w engine \<Rightarrow> ident \<Rightarrow> 'w workflow_def \<Rightarrow> 'w step_def list \<Rightarrow>
    ('w, ('w step_def \<times> step_row) list) prog" where
  "compensation_set g oid w also =
     bind (durable_compensation_set g oid w) (\<lambda>compensable.
     if also = [] then ret compensable
     else bind (in_unit g (also_pairs oid also compensable)) (\<lambda>extra. ret (compensable @ extra)))"

text \<open>What one pass over a compensable step reports.\<close>

datatype compensated = Compensated | Uncertain | Failed string

definition comp_checkpoint :: "'w engine \<Rightarrow> ident \<Rightarrow> held \<Rightarrow> ident \<Rightarrow> string \<Rightarrow> ('w, unit) prog" where
  "comp_checkpoint g oid held key summary =
     in_unit g (
       andthen (bind (require_op oid) (\<lambda>_. ret ()))
       (andthen (fence g oid held)
       (andthen (bind (complete_compensation (en_env g) oid key) (\<lambda>_. ret ()))
       (event g oid ''COMPENSATION_COMPLETED'' summary None None))))"

definition comp_effect :: "'w engine \<Rightarrow> ident \<Rightarrow> held \<Rightarrow> 'w step_def \<Rightarrow> 'w effect_ctx \<Rightarrow> ('w, compensated) prog" where
  "comp_effect g oid held step ctx =
     andthen (case sd_compensate step of
        None \<Rightarrow> throw AssertionError
      | Some f \<Rightarrow> bind (call_step CallCompensate f ctx) (\<lambda>_. ret ()))
     (andthen (en_crash g (sd_key step) ''after_compensation_effect'')
     (andthen (case sd_verify_restoration step of
        None \<Rightarrow> ret ()
      | Some f \<Rightarrow> bind (call_step CallVerifyRestoration f ctx) (\<lambda>_. ret ()))
     (andthen (en_crash g (sd_key step) ''before_compensation_checkpoint'')
     (andthen (comp_checkpoint g oid held (sd_key step) (''compensated '' @ sd_key step))
     (ret Compensated)))))"

definition comp_reclaim :: "'w engine \<Rightarrow> ident \<Rightarrow> held \<Rightarrow> 'w step_def \<Rightarrow> 'w effect_ctx \<Rightarrow> ('w, compensated) prog" where
  "comp_reclaim g oid held step ctx =
     andthen (in_unit g (
        andthen (bind (require_op oid) (\<lambda>_. ret ()))
        (andthen (fence g oid held)
        (event g oid ''COMPENSATION_RECLAIMED''
          (''resuming compensation of '' @ sd_key step) None None))))
     (comp_effect g oid held step ctx)"

definition compensate_step :: "'w engine \<Rightarrow> ident \<Rightarrow> held \<Rightarrow> (ident \<rightharpoonup> json) \<Rightarrow> json \<Rightarrow>
    'w step_def \<Rightarrow> step_row \<Rightarrow> ('w, compensated) prog" where
  "compensate_step g oid held prior decoded step row =
     (let ctx = row_ctx g oid row (sd_key step) prior decoded held in
      if sd_compensate step = None then throw AssertionError
      else if s_state row = S_COMPENSATING then
        andthen (en_crash g (sd_key step) ''before_probe_restoration'')
        (case sd_probe_restoration step of
           None \<Rightarrow> comp_reclaim g oid held step ctx
         | Some probe \<Rightarrow>
             bind (call_step CallProbeRestoration probe ctx) (\<lambda>result.
             if pr_classification result = UNCERTAIN_MANUAL then ret Uncertain
             else if pr_classification result = COMPLETE then
               andthen (comp_checkpoint g oid held (sd_key step)
                 (''restoration already proven for '' @ sd_key step @ ''; checkpointed''))
               (ret Compensated)
             else comp_reclaim g oid held step ctx))
      else
        andthen (in_unit g (
           andthen (bind (require_op oid) (\<lambda>_. ret ()))
           (andthen (fence g oid held)
           (andthen (bind (begin_compensation oid (sd_key step) (s_state row)) (\<lambda>_. ret ()))
           (event g oid ''COMPENSATION_STARTED'' (''compensating '' @ sd_key step) None None)))))
        (comp_effect g oid held step ctx))"

text \<open>\<^verbatim>\<open>except Exception\<close> around each step: the pass goes on with the next one.\<close>

definition compensate_caught :: "'w engine \<Rightarrow> ident \<Rightarrow> held \<Rightarrow> (ident \<rightharpoonup> json) \<Rightarrow> json \<Rightarrow>
    'w step_def \<Rightarrow> step_row \<Rightarrow> ('w, compensated) prog" where
  "compensate_caught g oid held prior decoded step row =
     handle (compensate_step g oid held prior decoded step row)
       (\<lambda>e. if is_exception e then Some (ret (Failed (exn_class e))) else None)"

fun compensate_each :: "'w engine \<Rightarrow> ident \<Rightarrow> held \<Rightarrow> (ident \<rightharpoonup> json) \<Rightarrow> json \<Rightarrow>
    ('w step_def \<times> step_row) list \<Rightarrow> string list \<Rightarrow> ('w, string list \<times> bool) prog" where
  "compensate_each g oid held prior decoded [] failures = ret (failures, False)"
| "compensate_each g oid held prior decoded ((step, row) # pairs) failures =
     bind (compensate_caught g oid held prior decoded step row) (\<lambda>result.
     case result of
       Compensated \<Rightarrow> compensate_each g oid held prior decoded pairs failures
     | Failed cls \<Rightarrow> compensate_each g oid held prior decoded pairs (failures @ [cls])
     | Uncertain \<Rightarrow> ret (failures, True))"

definition compensation_terminal :: "string list \<Rightarrow> bool \<Rightarrow> bool \<Rightarrow> op_state" where
  "compensation_terminal failures uncertain cancelled =
    (if failures \<noteq> [] \<or> uncertain then RECOVERY_REQUIRED
     else if cancelled then CANCELLED else FAILED_ROLLED_BACK)"

definition finalize_compensation :: "'w engine \<Rightarrow> ident \<Rightarrow> held \<Rightarrow> string \<Rightarrow> bool \<Rightarrow> string option \<Rightarrow>
    string list \<Rightarrow> bool \<Rightarrow> ('w, outcome) prog" where
  "finalize_compensation g oid held reason cancelled exception_class failures uncertain =
     (let terminal = compensation_terminal failures uncertain cancelled in
      andthen (in_unit g (
        andthen (bind (require_op oid) (\<lambda>_. ret ()))
        (andthen (fence g oid held)
        (andthen (en_crash g ''operation'' ''before_terminal_transition'')
        (andthen (bind (record_terminal_result (en_env g) oid terminal
             (if terminal \<noteq> RECOVERY_REQUIRED then Some reason else None) None
             (if terminal = RECOVERY_REQUIRED then Some reason else None)
             (Some (JObj ((''compensation_failures'', JList (map jstr failures)) #
                (case exception_class of
                   None \<Rightarrow> []
                 | Some cls \<Rightarrow> if cls = '''' then [] else [(''exception_class'', jstr cls)]))))
             (Some (''operation reached '' @ state_value terminal))) (\<lambda>_. ret ()))
        (only_if (terminal \<noteq> RECOVERY_REQUIRED) (release_all g held)))))))
      (ret (outcome_of
         (if terminal = RECOVERY_REQUIRED then RECOVERY_REQUIRED_OUTCOME else COMPLETED) oid
         (Some (state_value terminal)))))"

definition compensate_and_finalize :: "'w engine \<Rightarrow> ident \<Rightarrow> 'w workflow_def \<Rightarrow> json \<Rightarrow> held \<Rightarrow>
    string \<Rightarrow> bool \<Rightarrow> string option \<Rightarrow> 'w step_def list \<Rightarrow> ('w, outcome) prog" where
  "compensate_and_finalize g oid w decoded held reason cancelled exception_class also =
     bind (compensation_set g oid w also) (\<lambda>compensable.
     bind (prior_outputs g oid) (\<lambda>prior.
     bind (compensate_each g oid held prior decoded (rev compensable) []) (\<lambda>(failures, uncertain).
     finalize_compensation g oid held reason cancelled exception_class failures uncertain)))"

section \<open>Cancellation\<close>

definition retained_bytes :: "json \<Rightarrow> int" where
  "retained_bytes v = (case or_empty v of
     JObj kvs \<Rightarrow> (case map_of kvs ''retained_bytes'' of Some (JInt n) \<Rightarrow> n | _ \<Rightarrow> 0)
   | _ \<Rightarrow> 0)"

definition finalizer_cancel :: "'w engine \<Rightarrow> ident \<Rightarrow> json \<Rightarrow> held \<Rightarrow>
    (json \<Rightarrow> ident \<Rightarrow> ('w, json) prog) \<Rightarrow> ('w, outcome) prog" where
  "finalizer_cancel g oid decoded held finalizer =
     bind (in_unit g (
       andthen (bind (require_op oid) (\<lambda>_. ret ()))
       (andthen (fence g oid held)
       (bind (finalizer decoded oid) (\<lambda>retained.
        let n = retained_bytes retained;
            code = (if n \<noteq> 0 then ''CANCELLED_PARTIAL_RETAINED'' else ''CANCELLED_NO_EFFECT'') in
        andthen (bind (record_terminal_result (en_env g) oid CANCELLED (Some code)
             (if n \<noteq> 0 then Some (JObj [(''retained_bytes'', JInt n)]) else None)
             None None (Some ''cancelled at a safe point'')) (\<lambda>_. ret ()))
        (andthen (release_all g held)
        (ret code))))))) (\<lambda>code.
     ret (outcome_of COMPLETED oid (Some code)))"

definition honor_cancellation :: "'w engine \<Rightarrow> ident \<Rightarrow> 'w workflow_def \<Rightarrow> json \<Rightarrow> held \<Rightarrow> ('w, outcome) prog" where
  "honor_cancellation g oid w decoded held =
     (case wf_cancel_finalizer w of
        Some finalizer \<Rightarrow> finalizer_cancel g oid decoded held finalizer
      | None \<Rightarrow>
          bind (durable_compensation_set g oid w) (\<lambda>effected.
          if effected \<noteq> []
          then compensate_and_finalize g oid w decoded held ''CANCELLED_AFTER_COMPENSATION''
                 True None []
          else
            andthen (in_unit g (
              andthen (bind (require_op oid) (\<lambda>_. ret ()))
              (andthen (fence g oid held)
              (andthen (bind (record_terminal_result (en_env g) oid CANCELLED
                   (Some ''CANCELLED_NO_EFFECT'') None None None
                   (Some ''cancelled with no externally visible mutation'')) (\<lambda>_. ret ()))
              (release_all g held)))))
            (ret (outcome_of COMPLETED oid (Some ''CANCELLED'')))))"

end
