(* ===== verification/Executor.thy ===== *)
theory Executor
  imports Engine
begin

text \<open>
  The second half of \<^verbatim>\<open>operations/engine.py\<close>: the step protocol (intent, effect,
  checkpoint, verification), failure classification, recovery of interrupted steps, the
  claim and the orchestration loop.
\<close>

section \<open>Step protocol\<close>

fun running_target :: "op_state \<Rightarrow> op_state option" where
  "running_target QUEUED = Some PREPARING"
| "running_target PREPARING = Some RUNNING"
| "running_target _ = None"

text \<open>One unit of work per move; the fuel bounds the \<^verbatim>\<open>while True\<close>.\<close>

fun ensure_running :: "'w engine \<Rightarrow> nat \<Rightarrow> ident \<Rightarrow> held \<Rightarrow> ('w, unit) prog" where
  "ensure_running g 0 oid held = throw OutOfFuel"
| "ensure_running g (Suc n) oid held =
     bind (in_unit g (
       bind (require_op oid) (\<lambda>record.
       andthen (fence g oid held)
       (case running_target (o_state record) of
          None \<Rightarrow> ret True
        | Some target \<Rightarrow>
            bind (compare_and_transition (en_env g) oid (o_state record) (o_state_revision record)
               target plain_transition) (\<lambda>_. ret False))))) (\<lambda>stop.
     if stop then ret () else ensure_running g n oid held)"

definition int_text :: "int \<Rightarrow> string" where
  "int_text n = map char_of (dumps_int n)"

text \<open>
  The durable effect id and input of an interrupted attempt, if it left any:
  \<^verbatim>\<open>if reclaim and row.external_effect_id\<close>.
\<close>

definition resumed_intent :: "bool \<Rightarrow> step_row \<Rightarrow> ident option \<times> json option" where
  "resumed_intent reclaim row =
    (case s_external_effect_id row of
       Some i \<Rightarrow> if reclaim \<and> i \<noteq> '''' then (Some i, s_input_json row) else (None, None)
     | None \<Rightarrow> (None, None))"

definition read_intent :: "'w engine \<Rightarrow> ident \<Rightarrow> 'w step_def \<Rightarrow> held \<Rightarrow> bool \<Rightarrow>
    ('w, ident option \<times> json option) prog" where
  "read_intent g oid step held reclaim =
     in_unit g (
       andthen (fence g oid held)
       (bind (require_step oid (sd_key step)) (\<lambda>row.
        if reclaim \<and> s_state row \<noteq> S_RUNNING
        then throw (LostLease (ReclaimRequiresRunning oid (sd_key step)))
        else if \<not> reclaim \<and> s_state row \<noteq> S_PENDING
        then throw (OperationConflict (StepNotPending (sd_key step)))
        else ret (resumed_intent reclaim row))))"

definition write_intent :: "'w engine \<Rightarrow> ident \<Rightarrow> 'w step_def \<Rightarrow> held \<Rightarrow> bool \<Rightarrow> ident \<Rightarrow> json \<Rightarrow>
    ('w, unit) prog" where
  "write_intent g oid step held reclaim effect_id inputs =
     in_unit g (
       andthen (fence g oid held)
       (bind (start_step (en_env g) oid (sd_key step) (Some effect_id) reclaim (Some inputs)) (\<lambda>row.
        event g oid (if reclaim then ''STEP_RECLAIMED'' else ''STEP_STARTED'')
          (''step '' @ sd_key step @ '' '' @ (if reclaim then ''reclaimed'' else ''started'')
             @ '' (attempt '' @ int_text (s_attempts row) @ '')'')
          (Some (JObj [(''external_effect_id'', jstr effect_id), (''phase'', jstr (sd_phase step))]))
          None)))"

definition intent_transaction :: "'w engine \<Rightarrow> ident \<Rightarrow> 'w step_def \<Rightarrow> json \<Rightarrow> held \<Rightarrow> bool \<Rightarrow>
    (ident \<rightharpoonup> json) \<Rightarrow> ('w, 'w effect_ctx) prog" where
  "intent_transaction g oid step decoded held reclaim prior =
     andthen (ensure_running g (en_fuel g) oid held)
     (andthen (en_crash g (sd_key step) ''before_step_start'')
     (bind (read_intent g oid step held reclaim) (\<lambda>(stored_id, stored_inputs).
      bind (case stored_id of None \<Rightarrow> uuid_factory (en_env g) | Some i \<Rightarrow> ret i) (\<lambda>effect_id.
      bind (case stored_inputs of
              None \<Rightarrow> lift (sd_derive_input step decoded prior)
            | Some x \<Rightarrow> ret x) (\<lambda>inputs.
      andthen (write_intent g oid step held reclaim effect_id inputs)
      (bind (make_pulse g oid held) (\<lambda>pulse.
       ret \<lparr>x_operation_id = oid, x_step_key = sd_key step, x_external_effect_id = effect_id,
            x_inputs = inputs, x_prior_outputs = prior, x_request = decoded,
            x_pulse = pulse, x_worker_id = en_worker_id g, x_lease_revisions = held\<rparr>)))))))"

definition checkpoint_transaction :: "'w engine \<Rightarrow> ident \<Rightarrow> 'w step_def \<Rightarrow> held \<Rightarrow> json \<Rightarrow> bool \<Rightarrow>
    ('w, unit) prog" where
  "checkpoint_transaction g oid step held output recovered =
     in_unit g (
       andthen (bind (require_op oid) (\<lambda>_. ret ()))
       (andthen (fence g oid held)
       (bind (require_step oid (sd_key step)) (\<lambda>row.
        if s_state row \<noteq> S_RUNNING
        then throw (LostLease (CheckpointExpectedRunning oid (sd_key step) (s_state row)))
        else
          bind (checkpoint_step (en_env g) oid (sd_key step) (Some output)) (\<lambda>checked.
          event g oid ''STEP_CHECKPOINTED''
            (''step '' @ sd_key step @ '' checkpointed''
               @ (if recovered then '' from recovery evidence'' else ''''))
            (Some (JObj [(''output'', case s_output_json checked of None \<Rightarrow> JNull | Some x \<Rightarrow> x)]))
            (Some (JObj [(''phase'', jstr (sd_phase step)), (''current'', JInt (sd_sequence step))])))))))"

definition verify_transaction :: "'w engine \<Rightarrow> ident \<Rightarrow> 'w step_def \<Rightarrow> held \<Rightarrow> ('w, unit) prog" where
  "verify_transaction g oid step held =
     in_unit g (
       andthen (bind (require_op oid) (\<lambda>_. ret ()))
       (andthen (fence g oid held)
       (bind (require_step oid (sd_key step)) (\<lambda>row.
        if s_state row \<noteq> S_CHECKPOINTED
        then throw (LostLease (VerifyExpectedCheckpointed oid (sd_key step) (s_state row)))
        else
          andthen (bind (verify_step oid (sd_key step)) (\<lambda>_. ret ()))
          (event g oid ''STEP_VERIFIED'' (''step '' @ sd_key step @ '' postcondition verified'')
             None None)))))"

section \<open>Critical section\<close>

definition enter_critical :: "'w engine \<Rightarrow> ident \<Rightarrow> held \<Rightarrow> ('w, bool) prog" where
  "enter_critical g oid held =
     in_unit g (
       bind (require_op oid) (\<lambda>record.
       andthen (fence g oid held)
       (if o_state record = COMMITTING then ret True
        else if o_state record = CANCEL_REQUESTED then ret False
        else
          bind (compare_and_transition (en_env g) oid (o_state record) (o_state_revision record)
             COMMITTING (plain_transition\<lparr>t_code := Some ''ENTERING_CRITICAL'',
               t_summary := Some ''critical step begins; cancellation deferred''\<rparr>)) (\<lambda>_.
          ret True))))"

definition exit_critical :: "'w engine \<Rightarrow> ident \<Rightarrow> held \<Rightarrow> ('w, unit) prog" where
  "exit_critical g oid held =
     in_unit g (
       bind (require_op oid) (\<lambda>record.
       andthen (fence g oid held)
       (if o_state record \<noteq> COMMITTING
        then throw (LostLease (ExpectedCommitting oid (o_state record)))
        else
          bind (compare_and_transition (en_env g) oid COMMITTING (o_state_revision record)
             VERIFYING (plain_transition\<lparr>t_code := Some ''CRITICAL_STEP_RESOLVED'',
               t_summary := Some ''critical step verified; leaving critical section''\<rparr>)) (\<lambda>_.
          ret ()))))"

section \<open>Failure classification\<close>

definition classification_probe :: "'w step_def \<Rightarrow> 'w effect_ctx \<Rightarrow> ('w, probe_result) prog" where
  "classification_probe step ctx =
     handle (call_step CallProbe (sd_probe step) ctx)
       (\<lambda>e. if is_exception e
            then Some (ret \<lparr>pr_classification = UNCERTAIN_MANUAL,
                           pr_reason_code = ''PROBE_UNAVAILABLE'', pr_output = None\<rparr>)
            else None)"

text \<open>The chain of corrections to \<^verbatim>\<open>mutation_happened\<close>.\<close>

definition mutation_happened :: "recovery_class \<Rightarrow> bool \<Rightarrow> 'w step_def \<Rightarrow> 'w workflow_def \<Rightarrow> bool" where
  "mutation_happened classification durable_pairs step w =
    (let m0 = (classification \<notin> {ABSENT, DISCARDABLE} \<or> durable_pairs);
         m1 = (if sd_effect_disposition step = ''FORWARD_ONLY'' then False else m0);
         m2 = (if m1 \<and> wf_cancel_finalizer w \<noteq> None then False else m1);
         m3 = (if m2 \<and> \<not> durable_pairs \<and>
                  (sd_compensate step = None \<or> sd_effect_disposition step = ''FORWARD_ONLY'')
               then False else m2)
     in m3)"

definition ascii_upper :: "char \<Rightarrow> char" where
  "ascii_upper c = (if CHR ''a'' \<le> c \<and> c \<le> CHR ''z'' then char_of (of_char c - 32 :: nat) else c)"

definition handle_failure :: "'w engine \<Rightarrow> ident \<Rightarrow> 'w workflow_def \<Rightarrow> 'w step_def \<Rightarrow> 'w effect_ctx \<Rightarrow>
    held \<Rightarrow> exn \<Rightarrow> ('w, outcome) prog" where
  "handle_failure g oid w step ctx held err =
     bind (classification_probe step ctx) (\<lambda>probe.
     if exn_requires_recovery err then
       (let code = text_or (exn_code err) ''RECOVERY_REQUIRED'' in
        require_recovery g oid held code
          (JObj [(''step'', jstr (sd_key step)), (''code'', jstr code),
             (''exception_class'', jstr (exn_class err)),
             (''probe'', jstr (pr_reason_code probe))])
          (''forward-only state at '' @ sd_key step @ '' requires recovery ('' @ code @ '')''))
     else
       bind (durable_compensation_set g oid w) (\<lambda>pairs.
       let durable = (filter (\<lambda>(s, r). sd_key s \<noteq> sd_key step) pairs \<noteq> []) in
       if mutation_happened (pr_classification probe) durable step w then
         andthen (enter_rollback g oid held ''warn''
            (''failure at '' @ sd_key step @ ''; compensating''))
         (compensate_and_finalize g oid w (x_request ctx) held
            (''FAILED_AT_'' @ map ascii_upper (sd_key step)) False (Some (exn_class err)) [step])
       else fail_safe g oid held (sd_key step) err))"

section \<open>Effects\<close>

text \<open>The \<^verbatim>\<open>except\<close> clauses around an effect.\<close>

definition effect_handler :: "'w engine \<Rightarrow> ident \<Rightarrow> 'w workflow_def \<Rightarrow> json \<Rightarrow> held \<Rightarrow> 'w step_def \<Rightarrow>
    'w effect_ctx \<Rightarrow> exn \<Rightarrow> ('w, outcome) prog option" where
  "effect_handler g oid w decoded held step ctx e =
    (case e of
       LostLease l \<Rightarrow> None
     | CancellationObserved \<Rightarrow> Some (honor_cancellation g oid w decoded held)
     | _ \<Rightarrow> if is_exception e then Some (handle_failure g oid w step ctx held e) else None)"

text \<open>
  The guarded block: execute, sanitize, checkpoint; then, with the checkpointed output in
  the context, verify and record the verification. The handlers see the context as it was
  when the exception was raised. \<open>hooks\<close> says whether the crash points of a first
  attempt are passed.
\<close>

definition effect_part :: "'w engine \<Rightarrow> ident \<Rightarrow> held \<Rightarrow> 'w step_def \<Rightarrow> 'w effect_ctx \<Rightarrow> bool \<Rightarrow>
    ('w, json) prog" where
  "effect_part g oid held step ctx hooks =
     bind (call_step CallExecute (sd_execute step) ctx) (\<lambda>output.
     andthen (only_if hooks (en_crash g (sd_key step) ''before_step_checkpoint''))
     (bind (sanitized REQUEST_MAX_BYTES (or_empty output)) (\<lambda>merged.
      andthen (checkpoint_transaction g oid step held merged False)
      (ret merged))))"

definition verification_part :: "'w engine \<Rightarrow> ident \<Rightarrow> held \<Rightarrow> 'w step_def \<Rightarrow> 'w effect_ctx \<Rightarrow> bool \<Rightarrow>
    ('w, unit) prog" where
  "verification_part g oid held step ctx hooks =
     andthen (only_if hooks (en_crash g (sd_key step) ''after_step_checkpoint''))
     (andthen (only_if hooks (en_crash g (sd_key step) ''before_step_verification''))
     (andthen (bind (call_step CallVerify (sd_verify step) ctx) (\<lambda>_. ret ()))
     (andthen (only_if hooks (en_crash g (sd_key step) ''after_step_verification''))
     (andthen (verify_transaction g oid step held)
     (only_if (sd_critical step) (exit_critical g oid held))))))"

definition guarded :: "(exn \<Rightarrow> ('w, outcome) prog option) \<Rightarrow> ('w, 'a) prog \<Rightarrow> ('w, outcome + 'a) prog" where
  "guarded handler m =
     handle (bind m (\<lambda>x. ret (Inr x)))
       (\<lambda>e. map_option (\<lambda>n. bind n (\<lambda>out. ret (Inl out))) (handler e))"

definition attempt_effect :: "'w engine \<Rightarrow> ident \<Rightarrow> 'w workflow_def \<Rightarrow> json \<Rightarrow> held \<Rightarrow> 'w step_def \<Rightarrow>
    'w effect_ctx \<Rightarrow> bool \<Rightarrow> 'w step_def list \<Rightarrow> ('w, 'w advanced) prog" where
  "attempt_effect g oid w decoded held step ctx hooks effected =
     bind (guarded (effect_handler g oid w decoded held step ctx)
             (effect_part g oid held step ctx hooks)) (\<lambda>r1.
     case r1 of
       Inl out \<Rightarrow> ret (Inl out)
     | Inr merged \<Rightarrow>
         (let ctx' = with_output ctx (sd_key step) merged in
          bind (guarded (effect_handler g oid w decoded held step ctx')
                  (verification_part g oid held step ctx' hooks)) (\<lambda>r2.
          case r2 of
            Inl out \<Rightarrow> ret (Inl out)
          | Inr _ \<Rightarrow> ret (Inr (if sd_externally_visible step then effected @ [step] else effected)))))"

text \<open>
  A critical effect first enters the critical section; when a durable cancellation won
  that race it is honoured and the effect is not run.
\<close>

definition execute_effect :: "'w engine \<Rightarrow> ident \<Rightarrow> 'w workflow_def \<Rightarrow> json \<Rightarrow> held \<Rightarrow> 'w step_def \<Rightarrow>
    'w effect_ctx \<Rightarrow> bool \<Rightarrow> 'w step_def list \<Rightarrow> ('w, 'w advanced) prog" where
  "execute_effect g oid w decoded held step ctx hooks effected =
     bind (if sd_critical step then enter_critical g oid held else ret True) (\<lambda>go.
     if \<not> go then bind (honor_cancellation g oid w decoded held) (\<lambda>out. ret (Inl out))
     else attempt_effect g oid w decoded held step ctx hooks effected)"

section \<open>Recovery of an interrupted step\<close>

definition recovered_step :: "'w engine \<Rightarrow> ident \<Rightarrow> held \<Rightarrow> 'w step_def \<Rightarrow> 'w effect_ctx \<Rightarrow>
    probe_result \<Rightarrow> 'w step_def list \<Rightarrow> ('w, 'w advanced) prog" where
  "recovered_step g oid held step ctx probe effected =
     (let recovered = (case pr_output probe of None \<Rightarrow> JObj [] | Some x \<Rightarrow> or_empty x) in
      andthen (checkpoint_transaction g oid step held recovered True)
      (andthen (bind (call_step CallVerify (sd_verify step)
                  (with_output ctx (sd_key step) recovered)) (\<lambda>_. ret ()))
      (andthen (verify_transaction g oid step held)
      (ret (Inr (if sd_externally_visible step then effected @ [step] else effected))))))"

definition apply_recovery_decision :: "'w engine \<Rightarrow> ident \<Rightarrow> 'w workflow_def \<Rightarrow> json \<Rightarrow> 'w step_def \<Rightarrow>
    'w effect_ctx \<Rightarrow> probe_result \<Rightarrow> recovery_decision \<Rightarrow> held \<Rightarrow> 'w step_def list \<Rightarrow>
    ('w, 'w advanced) prog" where
  "apply_recovery_decision g oid w decoded step ctx probe decision held effected =
    (case d_action decision of
       VERIFY \<Rightarrow> recovered_step g oid held step ctx probe effected
     | EXECUTE \<Rightarrow> execute_effect g oid w decoded held step ctx False effected
     | RESUME \<Rightarrow> execute_effect g oid w decoded held step ctx False effected
     | DISCARD_AND_RETRY \<Rightarrow> execute_effect g oid w decoded held step ctx False effected
     | ROLL_BACK \<Rightarrow>
         andthen (enter_rollback g oid held ''info'' (''revertible interruption of '' @ sd_key step))
         (bind (compensate_and_finalize g oid w decoded held ''REVERTIBLE_INTERRUPTION'' False None [])
            (\<lambda>out. ret (Inl out)))
     | PAUSE \<Rightarrow> bind (pause_op g oid held (d_reason_code decision)) (\<lambda>out. ret (Inl out))
     | REQUIRE_RECOVERY \<Rightarrow>
         bind (require_recovery g oid held (d_reason_code decision)
            (JObj [(''step'', jstr (sd_key step)),
               (''classification'', jstr (class_value (d_classification decision))),
               (''probe'', jstr (pr_reason_code probe))])
            (''uncertain external state at '' @ sd_key step @ '': '' @ pr_reason_code probe
               @ ''; barrier held'')) (\<lambda>out. ret (Inl out)))"

definition reclaim_step :: "'w engine \<Rightarrow> ident \<Rightarrow> 'w workflow_def \<Rightarrow> json \<Rightarrow> 'w step_def \<Rightarrow>
    'w effect_ctx \<Rightarrow> held \<Rightarrow> 'w step_def list \<Rightarrow> ('w, 'w advanced) prog" where
  "reclaim_step g oid w decoded step ctx held effected =
     andthen (en_crash g (sd_key step) ''before_probe'')
     (bind (call_step CallProbe (sd_probe step) ctx) (\<lambda>probe.
      andthen (en_crash g (sd_key step) ''after_probe'')
      (let decision = decide_recovery (pr_classification probe) RUNNING (sd_safe_if_uncertain step) True in
       andthen (in_unit g (
          andthen (bind (require_op oid) (\<lambda>_. ret ()))
          (andthen (fence g oid held)
          (event g oid ''RECOVERY_DECISION''
            (sd_key step @ '': '' @ pr_reason_code probe @ '' -> '' @ action_value (d_action decision))
            (Some (JObj [(''classification'', jstr (class_value (d_classification decision)))])) None))))
       (apply_recovery_decision g oid w decoded step ctx probe decision held effected))))"

definition advance_step :: "'w engine \<Rightarrow> ident \<Rightarrow> 'w workflow_def \<Rightarrow> json \<Rightarrow> 'w step_def \<Rightarrow> step_row \<Rightarrow>
    held \<Rightarrow> 'w step_def list \<Rightarrow> ('w, 'w advanced) prog" where
  "advance_step g oid w decoded step row held effected =
     bind (prior_outputs g oid) (\<lambda>prior.
     if s_state row = S_VERIFIED then ret (Inr effected)
     else if s_state row = S_CHECKPOINTED then
       andthen (bind (call_step CallVerify (sd_verify step)
                  (row_ctx g oid row (sd_key step) prior decoded held)) (\<lambda>_. ret ()))
       (andthen (verify_transaction g oid step held)
       (ret (Inr effected)))
     else
       (let reclaim = (s_state row = S_RUNNING) in
        bind (intent_transaction g oid step decoded held reclaim prior) (\<lambda>ctx.
        if reclaim then reclaim_step g oid w decoded step ctx held effected
        else
          andthen (en_crash g (sd_key step) ''after_step_start'')
          (execute_effect g oid w decoded held step ctx True effected))))"

section \<open>Completion\<close>

definition complete :: "'w engine \<Rightarrow> ident \<Rightarrow> 'w workflow_def \<Rightarrow> json \<Rightarrow> held \<Rightarrow> ('w, outcome) prog" where
  "complete g oid w decoded held =
     bind (prior_outputs g oid) (\<lambda>verified.
     bind (lift (wf_terminal_decision w decoded verified)) (\<lambda>decision.
     let terminal = td_state decision;
         summary = (if td_summary decision = '''' then ''operation reached '' @ state_value terminal
                    else td_summary decision) in
     andthen (in_unit g (
       bind (require_op oid) (\<lambda>record.
       andthen (fence g oid held)
       (andthen (only_if (o_state record \<noteq> COMMITTING)
          (andthen (bind (compare_and_transition (en_env g) oid (o_state record) (o_state_revision record)
               COMMITTING (plain_transition\<lparr>t_code := Some ''ENTERING_COMMIT'',
                 t_summary := Some ''all steps verified; entering critical section''\<rparr>)) (\<lambda>_. ret ()))
           (bind (require_op oid) (\<lambda>_. ret ()))))
       (andthen (bind (record_terminal_result (en_env g) oid terminal (Some (td_result_code decision))
            (if falsy (td_detail decision) then None else Some (td_detail decision))
            None None (Some summary)) (\<lambda>_. ret ()))
       (release_all g held))))))
     (ret (outcome_of COMPLETED oid
        (Some (if terminal = SUCCEEDED \<and> td_result_code decision = ''ALL_STEPS_VERIFIED''
               then ''SUCCEEDED''
               else if td_result_code decision = '''' then state_value terminal
               else td_result_code decision))))))"

section \<open>Claim\<close>

definition park_unavailable :: "'w engine \<Rightarrow> ident \<Rightarrow> ('w, unit) prog" where
  "park_unavailable g oid =
     in_unit g (
       bind (require_op oid) (\<lambda>current.
       bind (compare_and_transition (en_env g) oid (o_state current) (o_state_revision current)
          PAUSED (plain_transition\<lparr>t_code := Some ''WORKFLOW_VERSION_UNAVAILABLE'',
            t_summary := Some ''no executor for this durable version''\<rparr>)) (\<lambda>_. ret ())))"

definition skip_outcome :: "ident \<Rightarrow> op_state \<Rightarrow> outcome option" where
  "skip_outcome oid state =
    (if state \<in> {SUCCEEDED, CANCELLED, FAILED_SAFE, FAILED_ROLLED_BACK}
     then Some (outcome_of SKIPPED_TERMINAL oid (Some (state_value state)))
     else if state = RECOVERY_REQUIRED
     then Some (outcome_of SKIPPED_TERMINAL oid (Some ''RECOVERY_REQUIRED_BARRIER''))
     else if state = PAUSED then Some (outcome_of SKIPPED_PAUSED oid None)
     else None)"

definition desired_resources :: "'w workflow_def \<Rightarrow> op_state \<Rightarrow> ident list" where
  "desired_resources w state = sorted_keys
     (initial_resources w @ (if state = ROLLING_BACK then barrier_resources w else []))"

definition busy_outcome :: "ident \<Rightarrow> ident list \<Rightarrow> outcome" where
  "busy_outcome oid resources =
     (outcome_of SKIPPED_BUSY oid (Some ''RESOURCE_HELD''))
       \<lparr>oc_detail := (if resources = [] then JObj []
                     else JObj [(''resources'', JList (map jstr resources))])\<rparr>"

definition foreign_keys :: "ident \<Rightarrow> (ident \<times> ident option) list \<Rightarrow> ident list" where
  "foreign_keys oid occupancy = map fst
     (filter (\<lambda>(key, holder). holder \<noteq> None \<and> holder \<noteq> Some oid) occupancy)"

text \<open>
  The \<^verbatim>\<open>except OperationConflict\<close> stands inside the \<^verbatim>\<open>with\<close> block, so
  the unit of work ends normally after a conflict.
\<close>

definition claim_leases :: "'w engine \<Rightarrow> ident \<Rightarrow> 'w workflow_def \<Rightarrow> op_state \<Rightarrow>
    ('w, outcome + held) prog" where
  "claim_leases g oid w state =
     in_unit g (
       bind (handle
          (bind (availability (en_env g) (all_resources w)) (\<lambda>occupancy.
           let foreign = foreign_keys oid occupancy in
           if foreign \<noteq> [] then ret (Inl (busy_outcome oid (sort foreign)))
           else bind (acquire_many (en_env g) (desired_resources w state) oid (en_worker_id g)
                        (en_ttl g) []) (\<lambda>acquired. ret (Inr acquired))))
          (\<lambda>e. case e of OperationConflict c \<Rightarrow> Some (ret (Inl (busy_outcome oid []))) | _ \<Rightarrow> None))
       (\<lambda>r. case r of
          Inl out \<Rightarrow> ret (Inl out)
        | Inr acquired \<Rightarrow>
            (let keys = filter (\<lambda>key. key \<in> fst ` set acquired) (all_resources w) in
             andthen (case en_on_lease_acquired g of
                None \<Rightarrow> ret () | Some f \<Rightarrow> foreach keys f)
             (ret (Inr (map (\<lambda>key. (key, held_revision acquired key)) keys))))))"

type_synonym 'w claimed = "outcome + ('w workflow_def \<times> json \<times> held)"

definition claim_workflow :: "'w engine \<Rightarrow> ident \<Rightarrow> 'w workflow_def \<Rightarrow> op_row \<Rightarrow> ('w, 'w claimed) prog" where
  "claim_workflow g oid w record =
    (case skip_outcome oid (o_state record) of
       Some out \<Rightarrow> ret (Inl out)
     | None \<Rightarrow>
         bind (lift (wf_decode_request w (o_request_json record))) (\<lambda>decoded.
         bind (claim_leases g oid w (o_state record)) (\<lambda>r.
         case r of
           Inl out \<Rightarrow> ret (Inl out)
         | Inr held \<Rightarrow>
             handle (andthen (wf_preflight w decoded) (ret (Inr (w, decoded, held))))
               (\<lambda>e. if is_exception e
                    then Some (bind (fail_safe g oid held ''preflight'' e) (\<lambda>out. ret (Inl out)))
                    else None))))"

definition claim :: "'w engine \<Rightarrow> ident \<Rightarrow> ('w, 'w claimed) prog" where
  "claim g oid =
     bind (in_unit g (get_op oid)) (\<lambda>found.
     case found of
       None \<Rightarrow> ret (Inl (outcome_of NO_SUCH_OPERATION oid None))
     | Some record \<Rightarrow>
         (case lookup_workflow (en_registry g) (o_type record) (o_request_version record)
                 (o_recovery_policy_version record) of
            Inl e \<Rightarrow>
              (if o_state record \<in> {QUEUED, PREPARING} then
                 andthen (park_unavailable g oid)
                 (ret (Inl (outcome_of WORKFLOW_VERSION_UNAVAILABLE oid None)))
               else ret (Inl (outcome_of WORKFLOW_VERSION_UNAVAILABLE oid
                      (Some ''REQUIRES_NEWER_APPLICATION''))))
          | Inr w \<Rightarrow> claim_workflow g oid w record))"

section \<open>Orchestration\<close>

fun next_pending :: "(ident \<rightharpoonup> step_row) \<Rightarrow> 'w step_def list \<Rightarrow> exn + ('w step_def \<times> step_row) option" where
  "next_pending rows [] = Inr None"
| "next_pending rows (step # steps) =
    (case rows (sd_key step) of
       None \<Rightarrow> Inl KeyError
     | Some row \<Rightarrow>
         (if s_state row \<noteq> S_VERIFIED then Inr (Some (step, row)) else next_pending rows steps))"

definition safe_to_cancel :: "'w step_def \<Rightarrow> step_row \<Rightarrow> op_row \<Rightarrow> bool" where
  "safe_to_cancel step row operation \<longleftrightarrow>
     \<not> ((sd_critical step \<and> s_state row = S_RUNNING) \<or> o_state operation = COMMITTING)"

definition missing_resources :: "'w step_def \<Rightarrow> held \<Rightarrow> ident list" where
  "missing_resources step held = filter (\<lambda>key. key \<notin> fst ` set held) (sd_resources step)"

text \<open>The leases a step still needs, or the outcome of the pause after a conflict.\<close>

definition acquire_missing :: "'w engine \<Rightarrow> ident \<Rightarrow> 'w step_def \<Rightarrow> held \<Rightarrow> ('w, outcome + held) prog" where
  "acquire_missing g oid step held =
    (let missing = missing_resources step held;
         paused = (\<lambda>h e. case e of OperationConflict c \<Rightarrow>
             Some (bind (pause_op g oid h ''RESOURCE_CONFLICT'') (\<lambda>out. ret (Inl out)))
           | _ \<Rightarrow> None) in
     if missing = [] then ret (Inr held)
     else
       bind (handle
          (bind (in_unit g (
             andthen (bind (require_op oid) (\<lambda>_. ret ()))
             (acquire_many (en_env g) missing oid (en_worker_id g) (en_ttl g) held))) (\<lambda>acquired.
           ret (Inr acquired)))
          (paused held)) (\<lambda>r.
       case r of
         Inl out \<Rightarrow> ret (Inl out)
       | Inr acquired \<Rightarrow>
           handle
             (andthen (case en_on_lease_acquired g of
                None \<Rightarrow> ret () | Some f \<Rightarrow> foreach (held_keys acquired) f)
              (ret (Inr (held @ acquired))))
             (paused (held @ acquired))))"

definition pending_step :: "'w engine \<Rightarrow> ident \<Rightarrow> 'w workflow_def \<Rightarrow> json \<Rightarrow> op_row \<Rightarrow> 'w step_def \<Rightarrow>
    step_row \<Rightarrow> held \<Rightarrow> 'w step_def list \<Rightarrow> ('w, outcome + (held \<times> 'w step_def list)) prog" where
  "pending_step g oid w decoded operation step row held effected =
    (if o_cancel_requested_at operation \<noteq> None \<and> o_state operation = CANCEL_REQUESTED \<and>
        safe_to_cancel step row operation
     then bind (honor_cancellation g oid w decoded held) (\<lambda>out. ret (Inl out))
     else
       bind (reads (en_shutdown g)) (\<lambda>shutdown.
       if shutdown \<and> o_state operation \<in> {RUNNING, PREPARING, VERIFYING}
       then bind (pause_op g oid held ''SHUTDOWN_REQUESTED'') (\<lambda>out. ret (Inl out))
       else
         bind (acquire_missing g oid step held) (\<lambda>r.
         case r of
           Inl out \<Rightarrow> ret (Inl out)
         | Inr held' \<Rightarrow>
             bind (advance_step g oid w decoded step row held' effected) (\<lambda>result.
             case result of
               Inl out \<Rightarrow> ret (Inl out)
             | Inr effected' \<Rightarrow> ret (Inr (held', effected'))))))"

text \<open>The \<^verbatim>\<open>while True\<close> of \<^verbatim>\<open>_execute\<close>, one unit of fuel per turn.\<close>

fun run_steps :: "'w engine \<Rightarrow> nat \<Rightarrow> ident \<Rightarrow> 'w workflow_def \<Rightarrow> json \<Rightarrow> held \<Rightarrow> 'w step_def list \<Rightarrow>
    ('w, outcome) prog" where
  "run_steps g 0 oid w decoded held effected = throw OutOfFuel"
| "run_steps g (Suc n) oid w decoded held effected =
     bind (in_unit g (
       bind (require_op oid) (\<lambda>operation.
       andthen (fence g oid held)
       (bind (list_steps oid) (\<lambda>rows. ret (operation, rows)))))) (\<lambda>(operation, rows).
     bind (lift (next_pending (rows_by_key rows) (wf_steps w))) (\<lambda>pending.
     case pending of
       None \<Rightarrow> complete g oid w decoded held
     | Some (step, row) \<Rightarrow>
         bind (pending_step g oid w decoded operation step row held effected) (\<lambda>r.
         case r of
           Inl out \<Rightarrow> ret out
         | Inr (held', effected') \<Rightarrow> run_steps g n oid w decoded held' effected')))"

definition execute :: "'w engine \<Rightarrow> ident \<Rightarrow> ('w, outcome) prog" where
  "execute g oid =
     bind (claim g oid) (\<lambda>claimed.
     case claimed of
       Inl out \<Rightarrow> ret out
     | Inr (w, decoded, held) \<Rightarrow>
         bind (in_unit g (bind (require_op oid) (\<lambda>r. ret (o_state r)))) (\<lambda>state_now.
         if state_now = ROLLING_BACK
         then compensate_and_finalize g oid w decoded held ''RESUMED_ROLLBACK'' False None []
         else run_steps g (en_fuel g) oid w decoded held []))"

definition execute_with_profile_access :: "'w engine \<Rightarrow> ident \<Rightarrow> ('w, outcome) prog" where
  "execute_with_profile_access g oid =
     bind (handle (execute g oid)
        (\<lambda>e. case e of LostLease l \<Rightarrow> Some (ret (outcome_of LOST_LEASE oid (Some ''LOST_LEASE'')))
           | _ \<Rightarrow> None)) (\<lambda>out.
     andthen (case en_terminal_observer g of
        None \<Rightarrow> ret ()
      | Some f \<Rightarrow> handle (f oid) (\<lambda>e. if is_exception e then Some (ret ()) else None))
     (ret out))"

definition execute_one :: "'w engine \<Rightarrow> ident \<Rightarrow> ('w, outcome) prog" where
  "execute_one g oid =
     bind (read_unit (en_env g) (get_op oid)) (\<lambda>row.
     let restore = (case row of None \<Rightarrow> False | Some r \<Rightarrow> o_type r = BACKUP_RESTORE) in
     handle
       (bind (reads (en_profile_busy g restore)) (\<lambda>busy.
        if busy then throw ProfileBusy else execute_with_profile_access g oid))
       (\<lambda>e. case e of ProfileBusy \<Rightarrow> Some (ret (outcome_of SKIPPED_BUSY oid (Some ''PROFILE_BUSY'')))
          | _ \<Rightarrow> None))"

end
