(* ===== verification/Store_Contract.thy ===== *)
theory Store_Contract
  imports Workflow
begin

text \<open>
  The interface between the repositories and every promise about the tables. The locale
  lists the row-level writes the repositories perform, each with the condition under which
  it is performed; a relation that survives them is kept by every repository operation,
  and by every program built from those.
\<close>

definition same_identity :: "(step_row \<Rightarrow> step_row) \<Rightarrow> bool" where
  "same_identity f \<longleftrightarrow> (\<forall>r. s_operation_id (f r) = s_operation_id r \<and> s_key (f r) = s_key r \<and>
     s_sequence (f r) = s_sequence r)"

locale operation_writes = promise R for R :: "'w sys \<Rightarrow> 'w sys \<Rightarrow> bool" +
  assumes transition_write: "can_transition st target \<Longrightarrow>
      R s (s\<lparr>db := (db s)\<lparr>operations := rows_updated
        (\<lambda>r. o_id r = oid \<and> o_state r = st \<and> o_state_revision r = rvn)
        (transitioned target now unstarted rc rd ec ed) (operations (db s))\<rparr>\<rparr>)"
    and cancel_write: "can_transition st CANCEL_REQUESTED \<Longrightarrow>
      R s (s\<lparr>db := (db s)\<lparr>operations := rows_updated
        (\<lambda>r. o_id r = oid \<and> o_state r = st \<and> o_state_revision r = rvn)
        (\<lambda>r. r\<lparr>o_state := CANCEL_REQUESTED, o_cancel_requested_at := Some now,
           o_state_revision := o_state_revision r + 1, o_updated_at := now\<rparr>) (operations (db s))\<rparr>\<rparr>)"
    and progress_write: "
      R s (s\<lparr>db := (db s)\<lparr>operations := rows_updated
        (\<lambda>r. o_id r = oid \<and> o_state r = st \<and> o_state_revision r = rvn)
        (\<lambda>r. r\<lparr>o_progress_phase := ph, o_progress_current := cur, o_progress_total := tot,
           o_progress_unit := un, o_progress_summary := summ,
           o_state_revision := o_state_revision r + 1, o_updated_at := now\<rparr>) (operations (db s))\<rparr>\<rparr>)"
    and dismiss_write: "
      R s (s\<lparr>db := (db s)\<lparr>operations := rows_updated (\<lambda>r. o_id r = oid)
        (\<lambda>r. r\<lparr>o_dismissed_at := wanted, o_updated_at := now\<rparr>) (operations (db s))\<rparr>\<rparr>)"
    and insert_op_write: "op_lookup (db s) (o_id row) = None \<Longrightarrow> o_state row = QUEUED \<Longrightarrow>
      R s (s\<lparr>db := (db s)\<lparr>operations := operations (db s) @ [row]\<rparr>\<rparr>)"
    and event_write: "e_cursor ev = next_cursor (db s) \<Longrightarrow>
      R s (s\<lparr>db := (db s)\<lparr>operation_events := operation_events (db s) @ [ev],
        next_cursor := next_cursor (db s) + 1\<rparr>\<rparr>)"
    and fresh_lease_write: "lease_lookup (db s) key = None \<Longrightarrow>
      R s (s\<lparr>db := (db s)\<lparr>operation_leases :=
        operation_leases (db s) @ [fresh_lease key oid owner now expires]\<rparr>\<rparr>)"
    and takeover_write: "
      R s (s\<lparr>db := (db s)\<lparr>operation_leases := rows_updated (\<lambda>r. l_resource_key r = key)
        (taken_over oid owner now expires) (operation_leases (db s))\<rparr>\<rparr>)"
    and heartbeat_write: "
      R s (s\<lparr>db := (db s)\<lparr>operation_leases := rows_updated (lease_matches key owner rvn)
        (\<lambda>l. l\<lparr>l_heartbeat_at := now, l_expires_at := expires\<rparr>) (operation_leases (db s))\<rparr>\<rparr>)"
    and release_write: "
      R s (s\<lparr>db := (db s)\<lparr>operation_leases :=
        filter (\<lambda>l. \<not> lease_matches key owner rvn l) (operation_leases (db s))\<rparr>\<rparr>)"
    and lock_write: "R s (s\<lparr>db := (db s)\<lparr>worker_lock := lock\<rparr>\<rparr>)"
    and other_call_logged: "c_kind c \<noteq> CallExecute \<Longrightarrow> R s (s\<lparr>calls := calls s @ [c]\<rparr>)"

locale store_writes = operation_writes R for R :: "'w sys \<Rightarrow> 'w sys \<Rightarrow> bool" +
  assumes insert_step_write: "
      \<not> list_ex (\<lambda>r. s_operation_id r = s_operation_id srow \<and>
          (s_key r = s_key srow \<or> s_sequence r = s_sequence srow)) (operation_steps (db s)) \<Longrightarrow>
      s_state srow = S_PENDING \<Longrightarrow>
      R s (s\<lparr>db := (db s)\<lparr>operation_steps := operation_steps (db s) @ [srow]\<rparr>\<rparr>)"
    and step_write: "can_step_transition expected starget \<Longrightarrow> same_identity extra \<Longrightarrow>
      R s (s\<lparr>db := (db s)\<lparr>operation_steps := rows_updated
        (\<lambda>r. step_key_of r = (oid, key) \<and> s_state r = expected)
        (\<lambda>r. (extra r)\<lparr>s_state := starget\<rparr>) (operation_steps (db s))\<rparr>\<rparr>)"

text \<open>A promise that says nothing of the call of an effect, beyond that of any other call.\<close>

locale execution_writes = store_writes R for R :: "'w sys \<Rightarrow> 'w sys \<Rightarrow> bool" +
  assumes execute_logged: "c_kind c = CallExecute \<Longrightarrow> R s (s\<lparr>calls := calls s @ [c]\<rparr>)"

text \<open>The operation, event, lease and lock repositories write no step row.\<close>

context operation_writes
begin

section \<open>Repository operations keep the promise\<close>

lemma guar_bind_lift: "(\<And>x. r = Inr x \<Longrightarrow> guar R (f x)) \<Longrightarrow> guar R (bind (lift r) f)"
  by (cases r) (auto simp: guar_def prog_simps R_refl)

lemma guar_andthen_lift: "(\<And>x. r = Inr x \<Longrightarrow> guar R m) \<Longrightarrow> guar R (andthen (lift r) m)"
  by (simp add: andthen_def guar_bind_lift)

lemma guar_get_op [guar_intros]: "guar R (get_op oid)"
  by (simp add: get_op_def guar_read_db)

lemma guar_require_known [guar_intros]: "guar R (require_known oid)"
  unfolding require_known_def by (intro guar_intros)

lemma guar_require_op [guar_intros]: "guar R (require_op oid)"
  unfolding require_op_def by (intro guar_intros)

lemma guar_sanitized [guar_intros]: "guar R (sanitized n x)"
  unfolding sanitized_def by (intro guar_intros)

lemma guar_sanitized_opt [guar_intros]: "guar R (sanitized_opt n x)"
  unfolding sanitized_opt_def by (intro guar_intros)

lemma guar_update_ops:
  assumes "\<And>s. R s (s\<lparr>db := (db s)\<lparr>operations := rows_updated p f (operations (db s))\<rparr>\<rparr>)"
  shows "guar R (update_ops p f)"
  unfolding update_ops_def by (intro guar_intros guar_write_db assms)

lemma guar_insert_event: "(\<And>c. e_cursor (row_at c) = c) \<Longrightarrow> guar R (insert_event row_at)"
  by (auto simp: insert_event_def guar_def prog_simps read_db_def write_db_def
      intro: event_write)

lemma guar_append_event [guar_intros]:
  "guar R (append_event v oid level code summary detail progress)"
  unfolding append_event_def by (intro guar_intros guar_insert_event) simp

lemma guar_insert_op: "o_state row = QUEUED \<Longrightarrow> guar R (insert_op row)"
  by (auto simp: insert_op_def guar_def prog_simps get_op_def read_db_def write_db_def R_refl
      intro: insert_op_write split: option.splits)

lemma guar_create_op [guar_intros]:
  "guar R (create_op v t request rv rpv surface oid parent)"
  unfolding create_op_def by (intro guar_intros guar_insert_op) (simp add: queued_row_def)

lemma guar_set_dismissed [guar_intros]: "guar R (set_dismissed v oid dismissed)"
  unfolding set_dismissed_def by (intro guar_intros guar_update_ops dismiss_write)

lemma guar_compare_and_transition [guar_intros]:
  "guar R (compare_and_transition v oid expected rvn target a)"
  unfolding compare_and_transition_def
  by (intro guar_bind guar_andthen_lift guar_require_op guar_clock guar_sanitized_opt
      guar_update_ops transition_write guar_intros)
    (simp add: assert_transition_def split: if_splits)

lemma guar_request_cancel [guar_intros]: "guar R (request_cancel v oid rvn)"
proof -
  have can: "st \<notin> {CANCEL_REQUESTED, CANCELLED} \<Longrightarrow> st \<notin> {COMMITTING, ROLLING_BACK} \<Longrightarrow>
      \<not> is_terminal st \<Longrightarrow> can_transition st CANCEL_REQUESTED" for st
    by (cases st) (auto simp: can_transition_def)
  show ?thesis
    unfolding request_cancel_def
    by (intro guar_bind guar_if guar_require_op guar_clock guar_update_ops cancel_write can
        guar_intros)
qed

lemma guar_update_progress [guar_intros]:
  "guar R (update_progress v oid phase current tot un summ)"
  unfolding update_progress_def by (intro guar_intros guar_update_ops progress_write)

lemma guar_record_terminal_result [guar_intros]:
  "guar R (record_terminal_result v oid terminal rc rd ec ed es)"
  unfolding record_terminal_result_def by (intro guar_intros)

lemma guar_get_step [guar_intros]: "guar R (get_step oid key)"
  by (simp add: get_step_def guar_read_db)

lemma guar_require_step [guar_intros]: "guar R (require_step oid key)"
  unfolding require_step_def by (intro guar_intros)

lemma guar_list_steps [guar_intros]: "guar R (list_steps oid)"
  by (simp add: list_steps_def guar_read_db)

lemma guar_get_lease [guar_intros]: "guar R (get_lease key)"
  by (simp add: get_lease_def guar_read_db)

lemma guar_assert_owned [guar_intros]: "guar R (assert_owned key oid owner rvn now)"
  unfolding assert_owned_def by (intro guar_intros)

lemma guar_upsert_lease [guar_intros]: "guar R (upsert_lease key oid owner now expires)"
  by (auto simp: upsert_lease_def guar_def prog_simps get_lease_def read_db_def
      write_db_def R_refl intro: fresh_lease_write takeover_write split: option.splits)

lemma guar_acquire [guar_intros]: "guar R (acquire v key oid owner ttl)"
  unfolding acquire_def by (intro guar_bind guar_andthen guar_if guar_intros)

lemma guar_acquire_each [guar_intros]: "guar R (acquire_each v keys oid owner ttl held acquired)"
  by (induction keys arbitrary: acquired) (auto intro!: guar_intros)

lemma guar_acquire_many [guar_intros]: "guar R (acquire_many v keys oid owner ttl held)"
  unfolding acquire_many_def by (intro guar_intros)

lemma guar_availability [guar_intros]: "guar R (availability v keys)"
  unfolding availability_def by (intro guar_intros)

lemma guar_leases_for_operation [guar_intros]: "guar R (leases_for_operation oid)"
  by (simp add: leases_for_operation_def guar_read_db)

lemma guar_heartbeat [guar_intros]: "guar R (heartbeat v key owner rvn ttl)"
  unfolding heartbeat_def by (intro guar_intros guar_write_db heartbeat_write)

lemma guar_release [guar_intros]: "guar R (release key owner rvn)"
  unfolding release_def by (intro guar_intros guar_write_db release_write)

lemma guar_takeover [guar_intros]: "guar R (takeover v key oid owner ttl)"
  unfolding takeover_def by (intro guar_intros)

lemma guar_get_lock [guar_intros]: "guar R get_lock"
  by (simp add: get_lock_def guar_read_db)

lemma guar_require_lock [guar_intros]: "guar R require_lock"
  unfolding require_lock_def by (intro guar_intros)

lemma guar_acquire_lock [guar_intros]: "guar R (acquire_lock v owner ttl)"
  unfolding acquire_lock_def by (intro guar_intros guar_write_db lock_write)

lemma guar_heartbeat_lock [guar_intros]: "guar R (heartbeat_lock v owner rvn ttl)"
  unfolding heartbeat_lock_def by (intro guar_intros guar_write_db lock_write)

lemma guar_release_lock [guar_intros]: "guar R (release_lock owner rvn)"
  unfolding release_lock_def
  by (rule guar_write_db) (simp add: lock_write R_refl)

end

context store_writes
begin

section \<open>The step repository keeps the promise\<close>

lemma guar_insert_step: "s_state row = S_PENDING \<Longrightarrow> guar R (insert_step row)"
  by (auto simp: insert_step_def guar_def prog_simps read_db_def write_db_def R_refl
      intro: insert_step_write)

lemma guar_add_one_step [guar_intros]: "guar R (add_one_step oid inputs item)"
  unfolding add_one_step_def Let_def
  by (intro guar_bind guar_insert_step guar_intros) (simp add: pending_row_def)

lemma guar_add_steps [guar_intros]: "guar R (add_steps v oid steps versions inputs)"
  unfolding add_steps_def by (intro guar_intros)

lemma guar_cas_step:
  assumes "same_identity extra"
  shows "guar R (cas_step oid key expected target extra)"
proof -
  have "guar R (update_steps (\<lambda>r. step_key_of r = (oid, key) \<and> s_state r = expected)
      (\<lambda>r. (extra r)\<lparr>s_state := target\<rparr>))" if "can_step_transition expected target"
    unfolding update_steps_def
    by (intro guar_intros guar_write_db step_write that assms)
  then show ?thesis
    unfolding cas_step_def
    by (intro guar_andthen_lift guar_bind guar_intros)
      (auto simp: assert_step_transition_def can_step_transition_def split: if_splits)
qed

lemma guar_start_step [guar_intros]: "guar R (start_step v oid key eid reclaim input)"
  unfolding start_step_def
  by (intro guar_intros guar_cas_step) (simp add: same_identity_def started_def)

lemma guar_checkpoint_step [guar_intros]: "guar R (checkpoint_step v oid key output)"
  unfolding checkpoint_step_def
  by (intro guar_intros guar_cas_step) (simp add: same_identity_def)

lemma guar_verify_step [guar_intros]: "guar R (verify_step oid key)"
  unfolding verify_step_def by (intro guar_cas_step) (simp add: same_identity_def)

lemma guar_fail_step [guar_intros]: "guar R (fail_step v oid key expected code detail)"
  unfolding fail_step_def
  by (intro guar_intros guar_cas_step) (simp add: same_identity_def)

lemma guar_begin_compensation [guar_intros]: "guar R (begin_compensation oid key expected)"
  unfolding begin_compensation_def by (intro guar_cas_step) (simp add: same_identity_def)

lemma guar_complete_compensation [guar_intros]: "guar R (complete_compensation v oid key)"
  unfolding complete_compensation_def
  by (intro guar_intros guar_cas_step) (simp add: same_identity_def)

lemma guar_enqueue [guar_intros]:
  "env_keeps R v \<Longrightarrow> guar R (enqueue v reg t payload surface oid parent)"
  unfolding enqueue_def by (intro guar_intros)

end

end
