(* ===== verification/Engine_Promise.thy ===== *)
theory Engine_Promise
  imports Executor Store_Contract
begin

text \<open>
  Every program of the engine keeps a promise about the tables that the row-level writes of
  the repositories, the other processes and the adapters' callables keep. The client proof
  is done once, inside the locale of the store contract.
\<close>

section \<open>Well-behaved surroundings\<close>

definition ctx_keeps :: "('w sys \<Rightarrow> 'w sys \<Rightarrow> bool) \<Rightarrow> 'w effect_ctx \<Rightarrow> bool" where
  "ctx_keeps R ctx \<longleftrightarrow> (\<forall>a. guar R (x_pulse ctx a))"

definition step_keeps :: "('w sys \<Rightarrow> 'w sys \<Rightarrow> bool) \<Rightarrow> 'w step_def \<Rightarrow> bool" where
  "step_keeps R st \<longleftrightarrow> (\<forall>ctx. ctx_keeps R ctx \<longrightarrow>
     guar R (sd_probe st ctx) \<and> guar R (sd_execute st ctx) \<and> guar R (sd_verify st ctx) \<and>
     (\<forall>f. sd_compensate st = Some f \<longrightarrow> guar R (f ctx)) \<and>
     (\<forall>f. sd_verify_restoration st = Some f \<longrightarrow> guar R (f ctx)) \<and>
     (\<forall>f. sd_probe_restoration st = Some f \<longrightarrow> guar R (f ctx)))"

definition workflow_keeps :: "('w sys \<Rightarrow> 'w sys \<Rightarrow> bool) \<Rightarrow> 'w workflow_def \<Rightarrow> bool" where
  "workflow_keeps R w \<longleftrightarrow> (\<forall>st \<in> set (wf_steps w). step_keeps R st) \<and>
     (\<forall>r. guar R (wf_preflight w r)) \<and>
     (\<forall>f r i. wf_cancel_finalizer w = Some f \<longrightarrow> guar R (f r i))"

definition engine_keeps :: "('w sys \<Rightarrow> 'w sys \<Rightarrow> bool) \<Rightarrow> 'w engine \<Rightarrow> bool" where
  "engine_keeps R g \<longleftrightarrow> env_keeps R (en_env g) \<and>
     (\<forall>k p. guar R (en_crash g k p)) \<and>
     (\<forall>f k. en_on_lease_acquired g = Some f \<longrightarrow> guar R (f k)) \<and>
     (\<forall>f k. en_terminal_observer g = Some f \<longrightarrow> guar R (f k)) \<and>
     (\<forall>w \<in> set (r_workflows (en_registry g)). workflow_keeps R w)"

lemma compensable_pairs_steps: "(st, r) \<in> set (compensable_pairs rows steps) \<Longrightarrow> st \<in> set steps"
  by (induction steps) (auto split: option.splits if_splits)

lemma next_pending_steps:
  "next_pending rows steps = Inr (Some (st, r)) \<Longrightarrow> st \<in> set steps"
  by (induction steps) (auto split: option.splits if_splits)

lemma lookup_workflow_registered:
  "lookup_workflow reg t n m = Inr w \<Longrightarrow> w \<in> set (r_workflows reg)"
  by (auto simp: lookup_workflow_def dest: row_with_SomeD split: option.splits)

fun claimed_by :: "('w workflow_def \<Rightarrow> bool) \<Rightarrow> 'w claimed \<Rightarrow> bool" where
  "claimed_by P (Inl out) = True"
| "claimed_by P (Inr (w, decoded, held)) = P w"

definition registered :: "'w engine \<Rightarrow> 'w workflow_def \<Rightarrow> bool" where
  "registered g w \<longleftrightarrow> w \<in> set (r_workflows (en_registry g))"

lemma registered_workflow_keeps: "engine_keeps R g \<Longrightarrow> registered g w \<Longrightarrow> workflow_keeps R w"
  by (simp add: engine_keeps_def registered_def)

text \<open>Advancing any step of the workflow keeps the promise.\<close>

definition advances :: "('w sys \<Rightarrow> 'w sys \<Rightarrow> bool) \<Rightarrow> 'w engine \<Rightarrow> ident \<Rightarrow> 'w workflow_def \<Rightarrow> bool" where
  "advances R g oid w \<longleftrightarrow> (\<forall>st \<in> set (wf_steps w). \<forall>decoded row held effected.
     guar R (advance_step g oid w decoded st row held effected))"

context operation_writes
begin

section \<open>Infrastructure\<close>

lemma guar_in_unit [guar_intros]: "engine_keeps R g \<Longrightarrow> guar R body \<Longrightarrow> guar R (in_unit g body)"
  by (simp add: in_unit_def engine_keeps_def guar_begin)

lemma guar_crash [guar_intros]: "engine_keeps R g \<Longrightarrow> guar R (en_crash g k p)"
  by (simp add: engine_keeps_def)

lemma guar_event [guar_intros]: "guar R (event g oid code summary detail progress)"
  unfolding event_def by (intro guar_intros)

lemma guar_fence [guar_intros]: "guar R (fence g oid held)"
  unfolding fence_def by (intro guar_intros)

lemma guar_release_all [guar_intros]: "guar R (release_all g held)"
  unfolding release_all_def by (intro guar_intros)

lemma guar_log_call: "kind \<noteq> CallExecute \<Longrightarrow> guar R (log_call kind ctx)"
  by (simp add: guar_def log_call_def other_call_logged)

lemma guar_call_step: "kind \<noteq> CallExecute \<Longrightarrow> guar R (f ctx) \<Longrightarrow> guar R (call_step kind f ctx)"
  unfolding call_step_def by (intro guar_intros guar_log_call)

lemma guar_prior_outputs [guar_intros]: "engine_keeps R g \<Longrightarrow> guar R (prior_outputs g oid)"
  unfolding prior_outputs_def by (intro guar_intros)

lemma guar_update_cell [guar_intros]: "guar R (update_cell i f)"
  by (simp add: guar_def update_cell_def R_frame)

lemma guar_new_pulse [guar_intros]: "guar R new_pulse"
  by (simp add: guar_def new_pulse_def R_frame)

lemma guar_pulse: "engine_keeps R g \<Longrightarrow> guar R (pulse g oid held cell a)"
  unfolding pulse_def pulse_progress_def by (intro guar_intros)

lemma guar_make_pulse [guar_intros]: "guar R (make_pulse g oid held)"
  unfolding make_pulse_def by (intro guar_intros)

lemma yields_make_pulse:
  "engine_keeps R g \<Longrightarrow> yields (\<lambda>p. \<forall>a. guar R (p a)) (make_pulse g oid held)"
  unfolding make_pulse_def by (intro yields_bind yields_ret) (simp add: guar_pulse)

lemma row_ctx_keeps [intro, simp]: "ctx_keeps R (row_ctx g oid row key prior decoded held)"
  by (simp add: ctx_keeps_def row_ctx_def default_pulse_def guar_ret)

lemma with_output_keeps [intro, simp]: "ctx_keeps R ctx \<Longrightarrow> ctx_keeps R (with_output ctx key x)"
  by (simp add: ctx_keeps_def with_output_def)

section \<open>Programs that write no step row\<close>

lemma guar_fail_safe [guar_intros]: "engine_keeps R g \<Longrightarrow> guar R (fail_safe g oid held label e)"
  unfolding fail_safe_def by (intro guar_intros)

lemma guar_pause_op [guar_intros]: "engine_keeps R g \<Longrightarrow> guar R (pause_op g oid held reason)"
  unfolding pause_op_def by (intro guar_intros)

lemma guar_enter_rollback [guar_intros]:
  "engine_keeps R g \<Longrightarrow> guar R (enter_rollback g oid held level summary)"
  unfolding enter_rollback_def by (intro guar_intros)

lemma guar_require_recovery [guar_intros]:
  "engine_keeps R g \<Longrightarrow> guar R (require_recovery g oid held code detail summary)"
  unfolding require_recovery_def by (intro guar_intros)

lemma guar_durable_compensation_set [guar_intros]:
  "engine_keeps R g \<Longrightarrow> guar R (durable_compensation_set g oid w)"
  unfolding durable_compensation_set_def by (intro guar_intros)

lemma yields_durable_compensation_set:
  "yields (\<lambda>pairs. \<forall>(st, r) \<in> set pairs. st \<in> set (wf_steps w)) (durable_compensation_set g oid w)"
  unfolding durable_compensation_set_def
  by (intro yields_bind yields_ret) (auto dest: compensable_pairs_steps)

lemma guar_also_pairs [guar_intros]: "guar R (also_pairs oid also pairs)"
  unfolding also_pairs_def by (intro guar_intros)

lemma yields_also_pairs:
  "yields (\<lambda>pairs. \<forall>(st, r) \<in> set pairs. st \<in> set also) (also_pairs oid also c)"
  unfolding also_pairs_def
  by (intro yields_read_db) (auto split: if_splits option.splits)

lemma guar_compensation_set [guar_intros]:
  "engine_keeps R g \<Longrightarrow> guar R (compensation_set g oid w also)"
  unfolding compensation_set_def by (intro guar_intros)

lemma yields_compensation_set:
  "yields (\<lambda>pairs. \<forall>(st, r) \<in> set pairs. st \<in> set (wf_steps w) \<union> set also)
     (compensation_set g oid w also)"
proof -
  let ?P = "\<lambda>pairs. \<forall>(st, r) \<in> set pairs. st \<in> set (wf_steps w) \<union> set also"
  have "yields ?P (bind (in_unit g (also_pairs oid also c)) (\<lambda>extra. ret (c @ extra)))"
    if c: "\<forall>(st, r) \<in> set c. st \<in> set (wf_steps w)" for c
  proof (rule yields_bind2)
    show "yields (\<lambda>pairs. \<forall>(st, r) \<in> set pairs. st \<in> set also)
       (in_unit g (also_pairs oid also c))"
      unfolding in_unit_def begin_unit_def by (rule yields_unit [OF yields_also_pairs])
  next
    fix extra :: "('a step_def \<times> step_row) list"
    assume "\<forall>(st, r) \<in> set extra. st \<in> set also"
    with c show "yields ?P (ret (c @ extra))" by (intro yields_ret) auto
  qed
  moreover have "yields ?P (ret c)"
    if "\<forall>(st, r) \<in> set c. st \<in> set (wf_steps w)" for c
    using that by (intro yields_ret) auto
  ultimately show ?thesis
    unfolding compensation_set_def
    by (intro yields_bind2 [OF yields_durable_compensation_set] yields_if)
qed

lemma guar_finalize_compensation [guar_intros]:
  "engine_keeps R g \<Longrightarrow>
    guar R (finalize_compensation g oid held reason cancelled cls failures uncertain)"
  unfolding finalize_compensation_def Let_def by (intro guar_intros)

lemma workflow_step_keeps: "workflow_keeps R w \<Longrightarrow> st \<in> set (wf_steps w) \<Longrightarrow> step_keeps R st"
  by (simp add: workflow_keeps_def)

lemma guar_ensure_running [guar_intros]:
  "engine_keeps R g \<Longrightarrow> guar R (ensure_running g n oid held)"
  by (induction n) (auto intro!: guar_intros)

lemma guar_read_intent [guar_intros]:
  "engine_keeps R g \<Longrightarrow> guar R (read_intent g oid st held reclaim)"
  unfolding read_intent_def by (intro guar_intros)

lemma yields_intent_transaction:
  "engine_keeps R g \<Longrightarrow> yields (ctx_keeps R) (intent_transaction g oid st decoded held reclaim prior)"
  unfolding intent_transaction_def split_def
  by (intro yields_andthen yields_bind yields_bind2 [OF yields_make_pulse yields_ret])
    (auto simp: ctx_keeps_def)

lemma guar_enter_critical [guar_intros]: "engine_keeps R g \<Longrightarrow> guar R (enter_critical g oid held)"
  unfolding enter_critical_def by (intro guar_intros)

lemma guar_exit_critical [guar_intros]: "engine_keeps R g \<Longrightarrow> guar R (exit_critical g oid held)"
  unfolding exit_critical_def by (intro guar_intros)

lemma guar_guarded:
  assumes "guar R m" and "\<And>e n. handler e = Some n \<Longrightarrow> guar R n"
  shows "guar R (guarded handler m)"
  unfolding guarded_def using assms by (intro guar_handle guar_intros) (auto intro: guar_intros)

lemma guar_complete [guar_intros]: "engine_keeps R g \<Longrightarrow> guar R (complete g oid w decoded held)"
  unfolding complete_def Let_def by (intro guar_intros)

lemma guar_park [guar_intros]: "engine_keeps R g \<Longrightarrow> guar R (park_unavailable g oid)"
  unfolding park_unavailable_def by (intro guar_intros)

lemma guar_on_lease:
  "engine_keeps R g \<Longrightarrow>
    guar R (case en_on_lease_acquired g of None \<Rightarrow> ret () | Some f \<Rightarrow> foreach keys f)"
  by (intro guar_intros) (simp add: engine_keeps_def)

lemma guar_claim_leases [guar_intros]: "engine_keeps R g \<Longrightarrow> guar R (claim_leases g oid w state)"
  unfolding claim_leases_def Let_def
  by (intro guar_in_unit guar_bind guar_handle_conflict guar_availability guar_if guar_ret
      guar_acquire_many guar_case_sum guar_andthen guar_on_lease)

lemma guar_claim_workflow [guar_intros]:
  assumes "engine_keeps R g" "workflow_keeps R w"
  shows "guar R (claim_workflow g oid w record)"
proof -
  have "guar R (wf_preflight w r)" for r
    using assms(2) by (simp add: workflow_keeps_def)
  with assms(1) show ?thesis
    unfolding claim_workflow_def by (intro guar_intros)
qed

lemma registered_keeps:
  "engine_keeps R g \<Longrightarrow> lookup_workflow (en_registry g) t n m = Inr w \<Longrightarrow> workflow_keeps R w"
  by (auto simp: engine_keeps_def dest: lookup_workflow_registered)

lemma guar_claim [guar_intros]: "engine_keeps R g \<Longrightarrow> guar R (claim g oid)"
  unfolding claim_def
  by (intro guar_bind guar_in_unit guar_get_op guar_case_option guar_case_sum guar_ret guar_if
      guar_andthen guar_park guar_claim_workflow) (auto dest: registered_keeps)

lemma yields_outcome: "yields (claimed_by P) (bind m (\<lambda>out. ret (Inl out)))"
  by (intro yields_bind yields_ret) simp

lemma yields_claim_workflow:
  assumes "P w"
  shows "yields (claimed_by P) (claim_workflow g oid w record)"
proof -
  have pre: "yields (claimed_by P) (handle (andthen (wf_preflight w decoded) (ret (Inr (w, decoded, held))))
       (\<lambda>e. if is_exception e
            then Some (bind (fail_safe g oid held ''preflight'' e) (\<lambda>out. ret (Inl out)))
            else None))" for decoded held
    by (intro yields_handle yields_andthen yields_ret)
      (auto intro: yields_outcome simp: assms split: if_splits)
  have "yields (claimed_by P) (case r of Inl out \<Rightarrow> ret (Inl out) | Inr held \<Rightarrow>
      handle (andthen (wf_preflight w decoded) (ret (Inr (w, decoded, held))))
       (\<lambda>e. if is_exception e
            then Some (bind (fail_safe g oid held ''preflight'' e) (\<lambda>out. ret (Inl out)))
            else None))" for r decoded
    using pre by (cases r) (auto intro: yields_ret)
  then show ?thesis
    unfolding claim_workflow_def
    by (cases "skip_outcome oid (o_state record)") (auto intro!: yields_bind yields_ret)
qed

lemma yields_claim:
  "yields (claimed_by (registered g)) (claim g oid)"
proof -
  have "yields (claimed_by (registered g))
      (case lookup_workflow (en_registry g) (o_type rec) (o_request_version rec)
                 (o_recovery_policy_version rec) of
            Inl e \<Rightarrow>
              (if o_state rec \<in> {QUEUED, PREPARING} then
                 andthen (park_unavailable g oid)
                 (ret (Inl (outcome_of WORKFLOW_VERSION_UNAVAILABLE oid None)))
               else ret (Inl (outcome_of WORKFLOW_VERSION_UNAVAILABLE oid
                      (Some ''REQUIRES_NEWER_APPLICATION''))))
          | Inr w \<Rightarrow> claim_workflow g oid w rec)" for rec
    using lookup_workflow_registered [of "en_registry g"]
    by (cases "lookup_workflow (en_registry g) (o_type rec) (o_request_version rec)
                 (o_recovery_policy_version rec)")
      (auto intro!: yields_claim_workflow yields_andthen yields_ret simp: registered_def)
  then show ?thesis
    unfolding claim_def by (auto intro!: yields_bind yields_ret split: option.split)
qed

lemma guar_acquire_missing [guar_intros]:
  "engine_keeps R g \<Longrightarrow> guar R (acquire_missing g oid st held)"
  unfolding acquire_missing_def Let_def
  by (intro guar_if guar_bind guar_handle_conflict guar_in_unit guar_andthen guar_require_op
      guar_acquire_many guar_pause_op guar_case_sum guar_ret guar_on_lease)

end

context store_writes
begin

section \<open>Compensation and the step protocol\<close>

lemma guar_comp_checkpoint [guar_intros]:
  "engine_keeps R g \<Longrightarrow> guar R (comp_checkpoint g oid held key summary)"
  unfolding comp_checkpoint_def by (intro guar_intros)

lemma guar_comp_effect [guar_intros]:
  "engine_keeps R g \<Longrightarrow> step_keeps R st \<Longrightarrow> ctx_keeps R ctx \<Longrightarrow>
    guar R (comp_effect g oid held st ctx)"
  unfolding comp_effect_def
  by (intro guar_intros guar_call_step) (auto simp: step_keeps_def)

lemma guar_comp_reclaim [guar_intros]:
  "engine_keeps R g \<Longrightarrow> step_keeps R st \<Longrightarrow> ctx_keeps R ctx \<Longrightarrow>
    guar R (comp_reclaim g oid held st ctx)"
  unfolding comp_reclaim_def by (intro guar_intros)

lemma guar_compensate_step [guar_intros]:
  "engine_keeps R g \<Longrightarrow> step_keeps R st \<Longrightarrow>
    guar R (compensate_step g oid held prior decoded st row)"
  unfolding compensate_step_def Let_def
  by (intro guar_intros guar_call_step row_ctx_keeps) (auto simp: step_keeps_def)

lemma guar_compensate_caught [guar_intros]:
  "engine_keeps R g \<Longrightarrow> step_keeps R st \<Longrightarrow>
    guar R (compensate_caught g oid held prior decoded st row)"
  unfolding compensate_caught_def by (intro guar_intros)

lemma guar_compensate_each:
  assumes "engine_keeps R g"
  shows "\<forall>(st, r) \<in> set pairs. step_keeps R st \<Longrightarrow>
    guar R (compensate_each g oid held prior decoded pairs failures)"
proof (induction pairs arbitrary: failures)
  case Nil
  show ?case by (simp add: guar_ret)
next
  case (Cons p pairs)
  obtain st r where p: "p = (st, r)" by (cases p)
  have "guar R (case result of
       Compensated \<Rightarrow> compensate_each g oid held prior decoded pairs failures
     | Failed cls \<Rightarrow> compensate_each g oid held prior decoded pairs (failures @ [cls])
     | Uncertain \<Rightarrow> ret (failures, True))" for result
    using Cons by (cases result) (auto intro: guar_ret)
  with Cons.prems p assms show ?case
    by (auto intro!: guar_bind guar_compensate_caught)
qed

lemma guar_compensate_and_finalize:
  assumes "engine_keeps R g" and "workflow_keeps R w" and "\<forall>st \<in> set also. step_keeps R st"
  shows "guar R (compensate_and_finalize g oid w decoded held reason cancelled cls also)"
  unfolding compensate_and_finalize_def
proof (rule guar_bind_yields [OF guar_compensation_set [OF assms(1)] yields_compensation_set])
  fix pairs :: "('w step_def \<times> step_row) list"
  assume "\<forall>(st, r) \<in> set pairs. st \<in> set (wf_steps w) \<union> set also"
  then have "\<forall>(st, r) \<in> set (rev pairs). step_keeps R st"
    using assms(2,3) by (auto dest: workflow_step_keeps)
  then show "guar R (bind (prior_outputs g oid) (\<lambda>prior.
     bind (compensate_each g oid held prior decoded (rev pairs) []) (\<lambda>(failures, uncertain).
     finalize_compensation g oid held reason cancelled cls failures uncertain)))"
    by (intro guar_bind guar_prior_outputs guar_compensate_each guar_case_prod
        guar_finalize_compensation assms(1))
qed

lemma guar_honor_cancellation [guar_intros]:
  assumes "engine_keeps R g" and "workflow_keeps R w"
  shows "guar R (honor_cancellation g oid w decoded held)"
proof -
  have "guar R (f r i)" if "wf_cancel_finalizer w = Some f" for f r i
    using assms(2) that by (simp add: workflow_keeps_def)
  then show ?thesis
    unfolding honor_cancellation_def finalizer_cancel_def Let_def
    by (intro guar_intros guar_compensate_and_finalize assms) auto
qed

lemma guar_write_intent [guar_intros]:
  "engine_keeps R g \<Longrightarrow> guar R (write_intent g oid st held reclaim eid inputs)"
  unfolding write_intent_def by (intro guar_intros)

lemma guar_intent_transaction [guar_intros]:
  "engine_keeps R g \<Longrightarrow> guar R (intent_transaction g oid st decoded held reclaim prior)"
  unfolding intent_transaction_def by (intro guar_intros)

lemma guar_checkpoint_transaction [guar_intros]:
  "engine_keeps R g \<Longrightarrow> guar R (checkpoint_transaction g oid st held x recovered)"
  unfolding checkpoint_transaction_def by (intro guar_intros)

lemma guar_verify_transaction [guar_intros]:
  "engine_keeps R g \<Longrightarrow> guar R (verify_transaction g oid st held)"
  unfolding verify_transaction_def by (intro guar_intros)

lemma guar_handle_failure:
  assumes "engine_keeps R g" "workflow_keeps R w" "step_keeps R st" "ctx_keeps R ctx"
  shows "guar R (handle_failure g oid w st ctx held e)"
  using assms unfolding handle_failure_def classification_probe_def Let_def
  by (intro guar_intros guar_compensate_and_finalize guar_call_step) (auto simp: step_keeps_def)

lemma guar_effect_handler:
  assumes "engine_keeps R g" "workflow_keeps R w" "step_keeps R st" "ctx_keeps R ctx"
    and "effect_handler g oid w decoded held st ctx e = Some n"
  shows "guar R n"
  using assms
  by (auto simp: effect_handler_def intro: guar_handle_failure guar_honor_cancellation
      split: exn.splits if_splits)

lemma guar_verification_part [guar_intros]:
  "engine_keeps R g \<Longrightarrow> step_keeps R st \<Longrightarrow> ctx_keeps R ctx \<Longrightarrow>
    guar R (verification_part g oid held st ctx hooks)"
  unfolding verification_part_def by (intro guar_intros guar_call_step) (auto simp: step_keeps_def)

lemma guar_recovered_step [guar_intros]:
  assumes "engine_keeps R g" "step_keeps R st" "ctx_keeps R ctx"
  shows "guar R (recovered_step g oid held st ctx probe effected)"
  using assms unfolding recovered_step_def Let_def
  by (intro guar_intros guar_call_step) (auto simp: step_keeps_def)

section \<open>Orchestration, given that steps advance\<close>

lemma guar_pending_step [guar_intros]:
  assumes "engine_keeps R g" "workflow_keeps R w" "advances R g oid w" "st \<in> set (wf_steps w)"
  shows "guar R (pending_step g oid w decoded operation st row held effected)"
proof -
  have "guar R (advance_step g oid w decoded st row h e)" for h e
    using assms by (simp add: advances_def)
  with assms show ?thesis unfolding pending_step_def by (intro guar_intros)
qed

lemma guar_run_steps [guar_intros]:
  assumes "engine_keeps R g" "workflow_keeps R w" "advances R g oid w"
  shows "guar R (run_steps g n oid w decoded held effected)"
proof (induction n arbitrary: held effected)
  case 0
  show ?case by (simp add: guar_throw)
next
  case (Suc n)
  have pending: "guar R (bind (pending_step g oid w decoded operation st row held effected) (\<lambda>r.
         case r of
           Inl out \<Rightarrow> ret out
         | Inr (held', effected') \<Rightarrow> run_steps g n oid w decoded held' effected'))"
    if "st \<in> set (wf_steps w)" for operation st row
    by (intro guar_bind guar_pending_step guar_case_sum guar_case_prod guar_ret Suc assms that)
  have turn: "guar R (bind (lift (next_pending (rows_by_key rows) (wf_steps w))) (\<lambda>pending.
     case pending of
       None \<Rightarrow> complete g oid w decoded held
     | Some (step, row) \<Rightarrow>
         bind (pending_step g oid w decoded operation step row held effected) (\<lambda>r.
         case r of
           Inl out \<Rightarrow> ret out
         | Inr (held', effected') \<Rightarrow> run_steps g n oid w decoded held' effected')))" for operation rows
    by (rule guar_bind_lift)
      (auto intro!: pending guar_complete assms dest: next_pending_steps split: option.splits)
  show ?case
    unfolding run_steps.simps
    by (rule guar_bind)
      (auto intro!: guar_in_unit guar_bind guar_require_op guar_andthen guar_fence guar_list_steps
        guar_ret turn assms)
qed

lemma guar_execute [guar_intros]:
  assumes "engine_keeps R g" "\<And>w. registered g w \<Longrightarrow> advances R g oid w"
  shows "guar R (execute g oid)"
  unfolding execute_def
proof (rule guar_bind_yields [OF guar_claim yields_claim, OF assms(1)])
  fix c :: "'w claimed"
  assume c: "claimed_by (registered g) c"
  show "guar R (case c of
       Inl out \<Rightarrow> ret out
     | Inr (w, decoded, held) \<Rightarrow>
         bind (in_unit g (bind (require_op oid) (\<lambda>r. ret (o_state r)))) (\<lambda>state_now.
         if state_now = ROLLING_BACK
         then compensate_and_finalize g oid w decoded held ''RESUMED_ROLLBACK'' False None []
         else run_steps g (en_fuel g) oid w decoded held []))"
    using c assms registered_workflow_keeps [OF assms(1)]
    by (cases "(P :: 'w workflow_def \<Rightarrow> bool, c)" rule: claimed_by.cases)
      (auto intro!: guar_intros guar_compensate_and_finalize)
qed

lemma guar_execute_one:
  assumes "engine_keeps R g" "\<And>w. registered g w \<Longrightarrow> advances R g oid w"
  shows "guar R (execute_one g oid)"
proof -
  have "guar R (f k)" if "en_terminal_observer g = Some f" for f k
    using assms(1) that by (simp add: engine_keeps_def)
  moreover have "env_keeps R (en_env g)"
    using assms(1) by (simp add: engine_keeps_def)
  ultimately show ?thesis
    unfolding execute_one_def execute_with_profile_access_def Let_def
    by (intro guar_intros assms) auto
qed

end

context execution_writes
begin

section \<open>Effects\<close>

lemma guar_call_any: "guar R (f ctx) \<Longrightarrow> guar R (call_step kind f ctx)"
proof -
  have "guar R (log_call kind ctx)"
    by (cases "kind = CallExecute") (auto simp: guar_def log_call_def execute_logged other_call_logged)
  then show "guar R (f ctx) \<Longrightarrow> guar R (call_step kind f ctx)"
    unfolding call_step_def by (intro guar_intros)
qed

lemma guar_effect_part [guar_intros]:
  "engine_keeps R g \<Longrightarrow> step_keeps R st \<Longrightarrow> ctx_keeps R ctx \<Longrightarrow>
    guar R (effect_part g oid held st ctx hooks)"
  unfolding effect_part_def by (intro guar_intros guar_call_any) (auto simp: step_keeps_def)

lemma guar_attempt_effect [guar_intros]:
  assumes "engine_keeps R g" "workflow_keeps R w" "step_keeps R st" "ctx_keeps R ctx"
  shows "guar R (attempt_effect g oid w decoded held st ctx hooks effected)"
  using assms unfolding attempt_effect_def Let_def
  by (intro guar_bind guar_guarded guar_effect_part guar_verification_part guar_case_sum guar_ret
      with_output_keeps) (auto elim!: guar_effect_handler [rotated 4])

lemma guar_execute_effect [guar_intros]:
  assumes "engine_keeps R g" "workflow_keeps R w" "step_keeps R st" "ctx_keeps R ctx"
  shows "guar R (execute_effect g oid w decoded held st ctx hooks effected)"
  using assms unfolding execute_effect_def by (intro guar_intros)

lemma guar_apply_recovery_decision [guar_intros]:
  assumes "engine_keeps R g" "workflow_keeps R w" "step_keeps R st" "ctx_keeps R ctx"
  shows "guar R (apply_recovery_decision g oid w decoded st ctx probe decision held effected)"
  unfolding apply_recovery_decision_def
  by (cases "d_action decision")
    (auto intro!: guar_intros guar_compensate_and_finalize simp: assms)

lemma guar_reclaim_step [guar_intros]:
  assumes "engine_keeps R g" "workflow_keeps R w" "step_keeps R st" "ctx_keeps R ctx"
  shows "guar R (reclaim_step g oid w decoded st ctx held effected)"
  using assms unfolding reclaim_step_def Let_def
  by (intro guar_intros guar_call_step) (auto simp: step_keeps_def)

lemma guar_advance_step [guar_intros]:
  assumes "engine_keeps R g" "workflow_keeps R w" "step_keeps R st"
  shows "guar R (advance_step g oid w decoded st row held effected)"
  unfolding advance_step_def Let_def
  by (intro guar_bind [OF guar_prior_outputs] guar_if guar_andthen guar_bind guar_ret
      guar_verify_transaction guar_call_step
      guar_bind_yields [OF guar_intent_transaction yields_intent_transaction]
      guar_reclaim_step guar_execute_effect guar_crash assms)
    (use assms in \<open>auto simp: step_keeps_def\<close>)

lemma advances_all: "engine_keeps R g \<Longrightarrow> workflow_keeps R w \<Longrightarrow> advances R g oid w"
  unfolding advances_def by (auto intro!: guar_advance_step dest: workflow_step_keeps)

lemma guar_execution [guar_intros]: "engine_keeps R g \<Longrightarrow> guar R (execute_one g oid)"
  by (intro guar_execute_one advances_all registered_workflow_keeps)

end

end
