(* ===== verification/Command_Service.thy ===== *)
theory Command_Service
  imports Executor
begin

text \<open>
  The control plane (\<^verbatim>\<open>operations/command_service.py\<close>): cancel, resume, retry,
  recover, dismiss and detach over any durable operation, each with a typed result. The
  sentences of \<^verbatim>\<open>reason\<close> are left out; the stable code stays.
\<close>

datatype command_outcome = ACCEPTED | REFUSED | DETACHED | DRIVEN | NOOP

fun command_outcome_value :: "command_outcome \<Rightarrow> string" where
  "command_outcome_value ACCEPTED = ''ACCEPTED''"
| "command_outcome_value REFUSED = ''REFUSED''"
| "command_outcome_value DETACHED = ''DETACHED''"
| "command_outcome_value DRIVEN = ''DRIVEN''"
| "command_outcome_value NOOP = ''NOOP''"

text \<open>The entries of \<^verbatim>\<open>detail\<close> are fields.\<close>

record command_result =
  cr_action :: string
  cr_operation_id :: ident
  cr_outcome :: command_outcome
  cr_state :: "op_state option"
  cr_code :: "string option"
  cr_at :: "instant option"
  cr_rearmed_state :: "op_state option"
  cr_engine_outcome :: "outcome_kind option"
  cr_result_code :: "string option"
  cr_error_code :: "string option"
  cr_parent :: "ident option"
  cr_pid :: "int option"

definition result_of :: "string \<Rightarrow> ident \<Rightarrow> command_outcome \<Rightarrow> op_state \<Rightarrow> string option \<Rightarrow> command_result" where
  "result_of action oid oc state code =
     \<lparr>cr_action = action, cr_operation_id = oid, cr_outcome = oc, cr_state = Some state,
      cr_code = code, cr_at = None, cr_rearmed_state = None, cr_engine_outcome = None,
      cr_result_code = None, cr_error_code = None, cr_parent = None, cr_pid = None\<rparr>"

definition result_ok :: "command_result \<Rightarrow> bool" where
  "result_ok r \<longleftrightarrow> cr_outcome r \<in> {ACCEPTED, DETACHED, DRIVEN, NOOP}"

definition reason_code :: "command_result \<Rightarrow> string" where
  "reason_code r = text_or (cr_code r) (command_outcome_value (cr_outcome r))"

definition exit_code :: "command_result \<Rightarrow> int" where
  "exit_code r =
    (if result_ok r then 0
     else if reason_code r = ''RECOVERY_BARRIER_MANUAL'' \<or> cr_state r = Some RECOVERY_REQUIRED
     then 78 else 1)"

definition DETACHABLE_KINDS :: "op_type set" where
  "DETACHABLE_KINDS = {MODEL_ACTIVATE, MODEL_ACQUIRE, MODEL_IMPORT, RUNTIME_UPDATE, RUNTIME_ROLLBACK}"

text \<open>
  \<open>cs_engine\<close> is what the engine factory returns; \<open>cs_registry\<close> is the registry of the
  enqueue service, if one was composed; \<open>cs_spawn\<close> starts the helper process.
\<close>

record 'w command_service =
  cs_env :: env
  cs_engine :: "'w engine"
  cs_registry :: "'w registry option"
  cs_worker_profile_dir :: "string option"
  cs_spawn :: "string list \<Rightarrow> ('w, int) prog"

definition refusal_code :: "exn \<Rightarrow> string" where
  "refusal_code e = (case e of
     InvalidTransition text \<Rightarrow>
       (if contains ''critical section'' text then ''CRITICAL_SECTION''
        else if contains ''terminal'' text then ''ALREADY_TERMINAL''
        else ''INVALID_TRANSITION'')
   | OperationConflict c \<Rightarrow> ''STALE_REVISION''
   | _ \<Rightarrow> ''REFUSED'')"

section \<open>Cancel\<close>

definition refused_as :: "exn \<Rightarrow> bool" where
  "refused_as e = (case e of InvalidTransition t \<Rightarrow> True | OperationConflict c \<Rightarrow> True | _ \<Rightarrow> False)"

definition cancel :: "'w command_service \<Rightarrow> ident \<Rightarrow> int option \<Rightarrow> ('w, command_result) prog" where
  "cancel cs oid expected_revision =
     begin_unit (cs_env cs) (
       bind (require_op oid) (\<lambda>record.
       if o_state record \<in> TERMINAL_STATES
       then ret (result_of ''cancel'' oid NOOP (o_state record) (Some ''ALREADY_TERMINAL''))
       else if o_state record = CANCEL_REQUESTED
       then ret (result_of ''cancel'' oid NOOP (o_state record) (Some ''ALREADY_CANCEL_REQUESTED''))
       else
         handle
           (bind (request_cancel (cs_env cs) oid expected_revision) (\<lambda>updated.
            ret ((result_of ''cancel'' oid ACCEPTED (o_state updated) None)
                   \<lparr>cr_at := o_cancel_requested_at updated\<rparr>)))
           (\<lambda>e. if refused_as e
                then Some (bind (require_op oid) (\<lambda>r.
                  ret (result_of ''cancel'' oid REFUSED (o_state r) (Some (refusal_code e)))))
                else None)))"

section \<open>Resume, retry, recover\<close>

definition require_read :: "'w command_service \<Rightarrow> ident \<Rightarrow> ('w, op_row) prog" where
  "require_read cs oid = read_unit (cs_env cs) (require_op oid)"

definition driven :: "'w command_service \<Rightarrow> string \<Rightarrow> ident \<Rightarrow> op_state option \<Rightarrow> ('w, command_result) prog" where
  "driven cs action oid rearmed =
     bind (execute_one (cs_engine cs) oid) (\<lambda>out.
     bind (require_read cs oid) (\<lambda>final.
     ret ((result_of action oid DRIVEN (o_state final) None)
            \<lparr>cr_rearmed_state := rearmed, cr_engine_outcome := Some (oc_kind out),
             cr_result_code := o_result_code final, cr_error_code := o_error_code final\<rparr>)))"

definition rearm :: "'w command_service \<Rightarrow> ident \<Rightarrow> ('w, command_result + op_state) prog" where
  "rearm cs oid =
     begin_unit (cs_env cs) (
       bind (require_op oid) (\<lambda>record.
       if o_state record \<notin> {PAUSED, QUEUED}
       then ret (Inl (result_of ''resume'' oid REFUSED (o_state record) (Some ''NOT_RESUMABLE'')))
       else if o_state record = PAUSED then
         bind (compare_and_transition (cs_env cs) oid PAUSED (o_state_revision record) PREPARING
            (plain_transition\<lparr>t_code := Some ''OPERATION_RESUMED'',
              t_summary := Some ''paused work re-armed by operator command''\<rparr>)) (\<lambda>updated.
         ret (Inr (o_state updated)))
       else ret (Inr (o_state record))))"

definition resume :: "'w command_service \<Rightarrow> ident \<Rightarrow> ('w, command_result) prog" where
  "resume cs oid =
     bind (rearm cs oid) (\<lambda>r.
     case r of
       Inl refused \<Rightarrow> ret refused
     | Inr state_after \<Rightarrow> driven cs ''resume'' oid (Some state_after))"

definition retry :: "'w command_service \<Rightarrow> ident \<Rightarrow> ('w, command_result) prog" where
  "retry cs oid =
    (case cs_registry cs of
       None \<Rightarrow> throw (StepFailed ''RuntimeError'' None False False)
     | Some reg \<Rightarrow>
         bind (read_unit (cs_env cs) (get_op oid)) (\<lambda>found.
         case found of
           None \<Rightarrow> throw KeyError
         | Some record \<Rightarrow>
             if o_state record \<notin> {FAILED_SAFE, FAILED_ROLLED_BACK, CANCELLED}
             then ret (result_of ''retry'' oid REFUSED (o_state record) (Some ''NOT_RETRYABLE''))
             else
               bind (enqueue (cs_env cs) reg (o_type record) (o_request_json record)
                       (''retry:'' @ o_surface record) None (Some (o_id record))) (\<lambda>new.
               ret ((result_of ''retry'' (o_id new) ACCEPTED (o_state new) None)
                      \<lparr>cr_parent := Some (o_id record)\<rparr>))))"

definition recover :: "'w command_service \<Rightarrow> ident \<Rightarrow> bool \<Rightarrow> ('w, command_result) prog" where
  "recover cs oid confirm =
     bind (read_unit (cs_env cs) (
       bind (require_op oid) (\<lambda>record.
       bind (leases_for_operation oid) (\<lambda>leases. ret (record, leases))))) (\<lambda>(record, leases).
     bind (clock (cs_env cs)) (\<lambda>now.
     let all_expired = list_all (\<lambda>l. l_expires_at l \<le> now) leases in
     if o_state record = RECOVERY_REQUIRED
     then ret (result_of ''recover'' oid REFUSED (o_state record) (Some ''RECOVERY_BARRIER_MANUAL''))
     else if op_active record \<and> \<not> all_expired
     then ret (result_of ''recover'' oid REFUSED (o_state record) (Some ''LEASE_HELD''))
     else if \<not> confirm
     then ret (result_of ''recover'' oid REFUSED (o_state record) (Some ''CONFIRMATION_REQUIRED''))
     else if \<not> op_active record
     then ret (result_of ''recover'' oid NOOP (o_state record) (Some ''ALREADY_TERMINAL''))
     else driven cs ''recover'' oid None))"

section \<open>Dismiss, detach\<close>

definition dismiss :: "'w command_service \<Rightarrow> ident \<Rightarrow> bool \<Rightarrow> ('w, command_result) prog" where
  "dismiss cs oid restore =
     begin_unit (cs_env cs) (
       handle
         (bind (set_dismissed (cs_env cs) oid (\<not> restore)) (\<lambda>updated.
          ret ((result_of ''dismiss'' oid ACCEPTED (o_state updated) None)
                 \<lparr>cr_at := o_dismissed_at updated\<rparr>)))
         (\<lambda>e. case e of
            InvalidTransition t \<Rightarrow>
              Some (bind (require_op oid) (\<lambda>current.
                ret (result_of ''dismiss'' oid REFUSED (o_state current) (Some ''NOT_TERMINAL''))))
          | _ \<Rightarrow> None))"

definition spawn_args :: "'w command_service \<Rightarrow> string list" where
  "spawn_args cs = (case cs_worker_profile_dir cs of None \<Rightarrow> [] | Some dir \<Rightarrow> [''--profile'', dir])"

definition detach :: "'w command_service \<Rightarrow> ident \<Rightarrow> ('w, command_result) prog" where
  "detach cs oid =
     bind (require_read cs oid) (\<lambda>record.
     if o_type record \<notin> DETACHABLE_KINDS
     then ret (result_of ''detach'' oid REFUSED (o_state record) (Some ''NOT_DETACHABLE''))
     else if o_state record \<noteq> QUEUED
     then ret (result_of ''detach'' oid REFUSED (o_state record) (Some ''NOT_QUEUED''))
     else
       andthen (bind (begin_unit (cs_env cs) (append_event (cs_env cs) oid ''info''
            (Some ''WORKER_HANDOFF'') ''operator requested detached execution''
            (Some (JObj [(''entry'', jstr ''bc250_llm_mode.worker_main'')])) None)) (\<lambda>_. ret ()))
       (bind (handle (bind (cs_spawn cs (spawn_args cs)) (\<lambda>pid. ret (Some pid)))
                (\<lambda>e. if is_exception e then Some (ret None) else None)) (\<lambda>spawned.
        case spawned of
          None \<Rightarrow> ret (result_of ''detach'' oid REFUSED QUEUED (Some ''WORKER_SPAWN_FAILED''))
        | Some pid \<Rightarrow>
            if pid \<le> 0
            then ret (result_of ''detach'' oid REFUSED QUEUED (Some ''WORKER_SPAWN_FAILED''))
            else ret ((result_of ''detach'' oid DETACHED QUEUED None)\<lparr>cr_pid := Some pid\<rparr>))))"

end
