(* ===== verification/Worker.thy ===== *)
theory Worker
  imports Executor
begin

text \<open>
  Who runs operations: the bounded worker (\<^verbatim>\<open>operations/worker.py\<close>) and the
  profile-scoped worker host (\<^verbatim>\<open>operations/worker_host.py\<close>) with its
  single-instance lock, its takeover of abandoned work, its restart policy and its idle
  exit.
\<close>

section \<open>Worker\<close>

text \<open>The shutdown event and the wake primitive are read from the world.\<close>

record 'w worker =
  wk_engine :: "'w engine"
  wk_shutdown :: "'w sys \<Rightarrow> bool"
  wk_wait_for_wake :: "('w, unit) prog"

definition oldest_queued :: "op_row list \<Rightarrow> ident option" where
  "oldest_queued rows = map_option o_id (find (\<lambda>r. o_state r = QUEUED) rows)"

definition claim_operation :: "'w worker \<Rightarrow> ('w, ident option) prog" where
  "claim_operation wk = in_unit (wk_engine wk) (bind list_active (\<lambda>rows. ret (oldest_queued rows)))"

definition worker_run_once :: "'w worker \<Rightarrow> ('w, outcome option) prog" where
  "worker_run_once wk =
     bind (reads (wk_shutdown wk)) (\<lambda>stop.
     if stop then andthen (wk_wait_for_wake wk) (ret None)
     else
       bind (claim_operation wk) (\<lambda>found.
       case found of
         None \<Rightarrow> andthen (wk_wait_for_wake wk) (ret None)
       | Some oid \<Rightarrow> bind (execute_one (wk_engine wk) oid) (\<lambda>out. ret (Some out))))"

text \<open>
  \<open>max_operations\<close> bounds the runs when given; without it the fuel does, which stands
  for a loop that may run as long as operations are queued.
\<close>

fun run_until_idle :: "'w worker \<Rightarrow> nat \<Rightarrow> nat option \<Rightarrow> nat \<Rightarrow> outcome list \<Rightarrow> ('w, outcome list) prog" where
  "run_until_idle wk 0 max_operations runs collected = throw OutOfFuel"
| "run_until_idle wk (Suc n) max_operations runs collected =
     bind (reads (wk_shutdown wk)) (\<lambda>stop.
     if stop \<or> (case max_operations of None \<Rightarrow> False | Some m \<Rightarrow> \<not> runs < m)
     then ret collected
     else
       bind (worker_run_once wk) (\<lambda>r.
       case r of
         None \<Rightarrow> ret collected
       | Some out \<Rightarrow> run_until_idle wk n max_operations (runs + 1) (collected @ [out])))"

section \<open>Worker host\<close>

record host_policy =
  hp_lease_ttl_seconds :: int
  hp_quiet_period_seconds :: int
  hp_max_consecutive_failures :: int
  hp_resume_abandoned :: bool

definition default_host_policy :: host_policy where
  "default_host_policy = \<lparr>hp_lease_ttl_seconds = 60, hp_quiet_period_seconds = 15,
     hp_max_consecutive_failures = 2, hp_resume_abandoned = True\<rparr>"

text \<open>
  \<open>h_monotonic\<close> reads the injected monotonic clock in whole ticks; \<open>h_waiter\<close> waits at
  most the given time and says whether it was woken. The engine is the one
  \<^verbatim>\<open>_make_engine\<close> builds.
\<close>

record 'w host =
  h_env :: env
  h_engine :: "'w engine"
  h_policy :: host_policy
  h_worker_id :: ident
  h_monotonic :: "('w, int) prog"
  h_waiter :: "int \<Rightarrow> ('w, bool) prog"

text \<open>The mutable fields of the host object.\<close>

record host_state =
  hs_shutdown :: bool
  hs_lock_revision :: "int option"
  hs_claims :: int
  hs_resumes :: int
  hs_failures :: int
  hs_pauses :: int
  hs_idle_exits :: int

definition fresh_host :: host_state where
  "fresh_host = \<lparr>hs_shutdown = False, hs_lock_revision = None, hs_claims = 0, hs_resumes = 0,
     hs_failures = 0, hs_pauses = 0, hs_idle_exits = 0\<rparr>"

definition ACTIVE_WORK_STATES :: "op_state set" where
  "ACTIVE_WORK_STATES = {PREPARING, RUNNING, VERIFYING}"

definition acquire_profile_lock :: "'w host \<Rightarrow> host_state \<Rightarrow> ('w, host_state) prog" where
  "acquire_profile_lock h hs =
     begin_unit (h_env h) (
       bind get_lock (\<lambda>existing.
       bind (case existing of
               None \<Rightarrow> ret False
             | Some k \<Rightarrow> bind (clock (h_env h)) (\<lambda>now. ret (k_expires_at k > now))) (\<lambda>held.
       if held then throw WorkerStartRefused
       else
         bind (handle (acquire_lock (h_env h) (h_worker_id h) (hp_lease_ttl_seconds (h_policy h)))
                 (\<lambda>e. if is_exception e then Some (throw WorkerStartRefused) else None)) (\<lambda>lock.
         ret (hs\<lparr>hs_lock_revision := Some (k_lease_revision lock)\<rparr>)))))"

definition heartbeat_profile_lock :: "'w host \<Rightarrow> host_state \<Rightarrow> ('w, host_state) prog" where
  "heartbeat_profile_lock h hs =
    (case hs_lock_revision hs of
       None \<Rightarrow> ret hs
     | Some n \<Rightarrow>
         handle
           (begin_unit (h_env h) (
             bind (heartbeat_lock (h_env h) (h_worker_id h) n (hp_lease_ttl_seconds (h_policy h))) (\<lambda>lock.
             ret (hs\<lparr>hs_lock_revision := Some (k_lease_revision lock)\<rparr>))))
           (\<lambda>e. if is_exception e then Some (ret (hs\<lparr>hs_shutdown := True\<rparr>)) else None))"

definition release_profile_lock :: "'w host \<Rightarrow> host_state \<Rightarrow> ('w, host_state) prog" where
  "release_profile_lock h hs =
    (case hs_lock_revision hs of
       None \<Rightarrow> ret hs
     | Some n \<Rightarrow>
         andthen (handle (begin_unit (h_env h) (release_lock (h_worker_id h) n))
                    (\<lambda>e. if is_exception e then Some (ret ()) else None))
         (ret (hs\<lparr>hs_lock_revision := None\<rparr>)))"

definition abandoned :: "db \<Rightarrow> instant \<Rightarrow> op_row \<Rightarrow> bool" where
  "abandoned d now r \<longleftrightarrow> o_state r \<in> ACTIVE_WORK_STATES \<and>
     leases_of d (o_id r) \<noteq> [] \<and> list_all (\<lambda>l. l_expires_at l \<le> now) (leases_of d (o_id r))"

definition next_work :: "'w host \<Rightarrow> ('w, (ident \<times> bool) option) prog" where
  "next_work h =
     begin_unit (h_env h) (
       bind (clock (h_env h)) (\<lambda>now.
       bind list_active (\<lambda>rows.
       case oldest_queued rows of
         Some oid \<Rightarrow> ret (Some (oid, False))
       | None \<Rightarrow>
           if \<not> hp_resume_abandoned (h_policy h) then ret None
           else
             bind list_active (\<lambda>rows'.
             read_db (\<lambda>d. map_option (\<lambda>r. (o_id r, True)) (find (abandoned d now) rows'))))))"

definition host_heartbeat :: "'w host \<Rightarrow> host_state \<Rightarrow> ident \<Rightarrow> ('w, host_state) prog" where
  "host_heartbeat h hs oid =
     bind (heartbeat_profile_lock h hs) (\<lambda>hs'.
     andthen (handle
        (begin_unit (h_env h) (
          bind (leases_for_operation oid) (\<lambda>leases.
          foreach leases (\<lambda>l. only_if (l_owner l = h_worker_id h)
            (bind (heartbeat (h_env h) (l_resource_key l) (h_worker_id h) (l_lease_revision l)
                     (hp_lease_ttl_seconds (h_policy h))) (\<lambda>_. ret ()))))))
        (\<lambda>e. if is_exception e then Some (ret ()) else None))
     (ret hs'))"

text \<open>Returns whether the pause counter moved: the counter is raised inside the guarded block.\<close>

definition pause_operation :: "'w host \<Rightarrow> ident \<Rightarrow> ('w, bool) prog" where
  "pause_operation h oid =
     handle
       (begin_unit (h_env h) (
         bind (require_op oid) (\<lambda>record.
         if o_state record \<notin> TERMINAL_STATES then
           bind (compare_and_transition (h_env h) oid (o_state record) (o_state_revision record)
              PAUSED (plain_transition\<lparr>t_code := Some ''WORKER_PAUSE_AFTER_FAILURES'',
                t_summary := Some (''paused after '' @ map char_of (dumps_int
                    (hp_max_consecutive_failures (h_policy h))) @ '' consecutive worker failures'')\<rparr>))
             (\<lambda>_. ret True)
         else ret False)))
       (\<lambda>e. if is_exception e then Some (ret False) else None)"

definition count_failure :: "'w host \<Rightarrow> host_state \<Rightarrow> ident \<Rightarrow> ('w, host_state) prog" where
  "count_failure h hs oid =
    (let hs1 = hs\<lparr>hs_failures := hs_failures hs + 1\<rparr> in
     if hs_failures hs1 \<ge> hp_max_consecutive_failures (h_policy h) then
       bind (pause_operation h oid) (\<lambda>paused.
       ret (hs1\<lparr>hs_pauses := hs_pauses hs1 + (if paused then 1 else 0) + 1, hs_failures := 0\<rparr>))
     else ret hs1)"

definition host_run_once :: "'w host \<Rightarrow> host_state \<Rightarrow> ('w, outcome option \<times> host_state) prog" where
  "host_run_once h hs =
     bind (next_work h) (\<lambda>work.
     case work of
       None \<Rightarrow> ret (None, hs)
     | Some (oid, resumed) \<Rightarrow>
         (let hs1 = (if resumed then hs\<lparr>hs_resumes := hs_resumes hs + 1\<rparr>
                     else hs\<lparr>hs_claims := hs_claims hs + 1\<rparr>) in
          bind (host_heartbeat h hs1 oid) (\<lambda>hs2.
          bind (handle (bind (execute_one (h_engine h) oid) (\<lambda>out. ret (Some out)))
                  (\<lambda>e. if is_exception e then Some (ret None) else None)) (\<lambda>r.
          case r of
            None \<Rightarrow>
              bind (count_failure h hs2 oid) (\<lambda>hs3.
              ret (Some (outcome_of FAILED_RETRYABLE oid (Some ''WORKER_RESTART_POLICY'')), hs3))
          | Some out \<Rightarrow>
              ret (Some out,
                if oc_kind out \<noteq> FAILED_RETRYABLE then hs2\<lparr>hs_failures := 0\<rparr> else hs2)))))"

text \<open>The main loop; \<open>idle_since\<close> is the local variable of the same name.\<close>

fun host_loop :: "'w host \<Rightarrow> nat \<Rightarrow> int option \<Rightarrow> host_state \<Rightarrow> ('w, host_state) prog" where
  "host_loop h 0 idle_since hs = throw OutOfFuel"
| "host_loop h (Suc n) idle_since hs =
    (if hs_shutdown hs then ret hs
     else
       bind (host_run_once h hs) (\<lambda>(r, hs1).
       if hs_shutdown hs1 then ret hs1
       else case r of
         Some out \<Rightarrow> host_loop h n None hs1
       | None \<Rightarrow>
           bind (h_monotonic h) (\<lambda>now.
           let since = (case idle_since of None \<Rightarrow> now | Some t \<Rightarrow> t);
               remaining = hp_quiet_period_seconds (h_policy h) - (now - since) in
           if remaining \<le> 0 then ret (hs1\<lparr>hs_idle_exits := hs_idle_exits hs1 + 1\<rparr>)
           else
             bind (h_waiter h (min remaining (hp_lease_ttl_seconds (h_policy h)))) (\<lambda>woke.
             host_loop h n (if woke then None else Some since) hs1))))"

text \<open>
  \<^verbatim>\<open>start\<close>: the lock is released whether the loop returns or raises.
\<close>

definition host_start :: "'w host \<Rightarrow> nat \<Rightarrow> host_state \<Rightarrow> ('w, host_state) prog" where
  "host_start h fuel hs =
     bind (acquire_profile_lock h hs) (\<lambda>hs1.
     bind (handle (bind (host_loop h fuel None hs1) (\<lambda>hs2. ret (Inr hs2)))
             (\<lambda>e. Some (ret (Inl e)))) (\<lambda>r.
     case r of
       Inl e \<Rightarrow> andthen (bind (release_profile_lock h hs1) (\<lambda>_. ret ())) (throw e)
     | Inr hs2 \<Rightarrow> release_profile_lock h hs2))"

end
