(* ===== verification/Surface_Promise.thy ===== *)
theory Surface_Promise
  imports Engine_Promise Command_Service Worker
begin

text \<open>
  The operator commands, the worker and the worker host keep every promise the engine
  keeps: each changes the tables through the repositories only.
\<close>

definition service_keeps :: "('w sys \<Rightarrow> 'w sys \<Rightarrow> bool) \<Rightarrow> 'w command_service \<Rightarrow> bool" where
  "service_keeps R cs \<longleftrightarrow> env_keeps R (cs_env cs) \<and> engine_keeps R (cs_engine cs) \<and>
     (\<forall>args. guar R (cs_spawn cs args))"

definition worker_keeps :: "('w sys \<Rightarrow> 'w sys \<Rightarrow> bool) \<Rightarrow> 'w worker \<Rightarrow> bool" where
  "worker_keeps R wk \<longleftrightarrow> engine_keeps R (wk_engine wk) \<and> guar R (wk_wait_for_wake wk)"

definition host_keeps :: "('w sys \<Rightarrow> 'w sys \<Rightarrow> bool) \<Rightarrow> 'w host \<Rightarrow> bool" where
  "host_keeps R h \<longleftrightarrow> env_keeps R (h_env h) \<and> engine_keeps R (h_engine h) \<and>
     guar R (h_monotonic h) \<and> (\<forall>t. guar R (h_waiter h t))"

context promise
begin

lemma guar_handle_refused [guar_intros]:
  "guar R m \<Longrightarrow> (\<And>e. guar R (n e)) \<Longrightarrow>
    guar R (handle m (\<lambda>e. if refused_as e then Some (n e) else None))"
  by (rule guar_handle) (auto split: if_splits)

lemma guar_handle_invalid [guar_intros]:
  "guar R m \<Longrightarrow> guar R n \<Longrightarrow>
    guar R (handle m (\<lambda>e. case e of InvalidTransition t \<Rightarrow> Some n | _ \<Rightarrow> None))"
  by (rule guar_handle) (auto split: exn.splits)

lemma guar_handle_any [guar_intros]:
  "guar R m \<Longrightarrow> (\<And>e. guar R (n e)) \<Longrightarrow> guar R (handle m (\<lambda>e. Some (n e)))"
  by (rule guar_handle) auto

end

context execution_writes
begin

section \<open>Commands\<close>

lemma service_env: "service_keeps R cs \<Longrightarrow> env_keeps R (cs_env cs)"
  by (simp add: service_keeps_def)

lemma service_engine: "service_keeps R cs \<Longrightarrow> engine_keeps R (cs_engine cs)"
  by (simp add: service_keeps_def)

lemma guar_cancel [guar_intros]: "service_keeps R cs \<Longrightarrow> guar R (cancel cs oid rvn)"
  unfolding cancel_def by (intro guar_intros service_env)

lemma guar_require_read [guar_intros]: "service_keeps R cs \<Longrightarrow> guar R (require_read cs oid)"
  unfolding require_read_def by (intro guar_intros service_env)

lemma guar_driven [guar_intros]: "service_keeps R cs \<Longrightarrow> guar R (driven cs action oid rearmed)"
  unfolding driven_def by (intro guar_bind guar_execution guar_require_read guar_ret service_engine)

lemma guar_rearm [guar_intros]: "service_keeps R cs \<Longrightarrow> guar R (rearm cs oid)"
  unfolding rearm_def by (intro guar_intros service_env)

lemma guar_resume [guar_intros]: "service_keeps R cs \<Longrightarrow> guar R (resume cs oid)"
  unfolding resume_def by (intro guar_intros)

lemma guar_retry [guar_intros]: "service_keeps R cs \<Longrightarrow> guar R (retry cs oid)"
  unfolding retry_def by (intro guar_intros service_env)

lemma guar_recover [guar_intros]: "service_keeps R cs \<Longrightarrow> guar R (recover cs oid confirm)"
  unfolding recover_def Let_def by (intro guar_intros service_env)

lemma guar_dismiss [guar_intros]: "service_keeps R cs \<Longrightarrow> guar R (dismiss cs oid restore)"
  unfolding dismiss_def by (intro guar_intros service_env)

lemma service_spawn: "service_keeps R cs \<Longrightarrow> guar R (cs_spawn cs args)"
  unfolding service_keeps_def by blast

lemma guar_detach [guar_intros]: "service_keeps R cs \<Longrightarrow> guar R (detach cs oid)"
  unfolding detach_def by (intro guar_intros service_env service_spawn)

section \<open>Worker and host\<close>

lemma guar_list_active [guar_intros]: "guar R list_active"
  by (simp add: list_active_def guar_read_db)

lemma guar_worker_run_once [guar_intros]: "worker_keeps R wk \<Longrightarrow> guar R (worker_run_once wk)"
  unfolding worker_run_once_def claim_operation_def
  by (intro guar_intros) (simp_all add: worker_keeps_def)

lemma guar_run_until_idle [guar_intros]:
  "worker_keeps R wk \<Longrightarrow> guar R (run_until_idle wk n m runs collected)"
proof (induction n arbitrary: runs collected)
  case 0
  show ?case by (simp add: guar_throw)
next
  case (Suc n)
  then show ?case unfolding run_until_idle.simps by (intro guar_intros)
qed

lemma host_env: "host_keeps R h \<Longrightarrow> env_keeps R (h_env h)"
  by (simp add: host_keeps_def)

lemma guar_acquire_profile_lock [guar_intros]:
  "host_keeps R h \<Longrightarrow> guar R (acquire_profile_lock h hs)"
  unfolding acquire_profile_lock_def by (intro guar_intros host_env)

lemma guar_heartbeat_profile_lock [guar_intros]:
  "host_keeps R h \<Longrightarrow> guar R (heartbeat_profile_lock h hs)"
  unfolding heartbeat_profile_lock_def by (intro guar_intros host_env)

lemma guar_release_profile_lock [guar_intros]:
  "host_keeps R h \<Longrightarrow> guar R (release_profile_lock h hs)"
  unfolding release_profile_lock_def by (intro guar_intros host_env)

lemma guar_next_work [guar_intros]: "host_keeps R h \<Longrightarrow> guar R (next_work h)"
  unfolding next_work_def by (intro guar_intros host_env)

lemma guar_host_heartbeat [guar_intros]: "host_keeps R h \<Longrightarrow> guar R (host_heartbeat h hs oid)"
  unfolding host_heartbeat_def by (intro guar_intros host_env)

lemma guar_pause_operation [guar_intros]: "host_keeps R h \<Longrightarrow> guar R (pause_operation h oid)"
  unfolding pause_operation_def by (intro guar_intros host_env)

lemma guar_host_run_once [guar_intros]:
  assumes "host_keeps R h"
  shows "guar R (host_run_once h hs)"
proof -
  have "engine_keeps R (h_engine h)" using assms by (simp add: host_keeps_def)
  with assms show ?thesis
    unfolding host_run_once_def count_failure_def Let_def by (intro guar_intros)
qed

lemma guar_host_loop [guar_intros]:
  assumes "host_keeps R h"
  shows "guar R (host_loop h n idle hs)"
proof (induction n arbitrary: idle hs)
  case 0
  show ?case by (simp add: guar_throw)
next
  case (Suc n)
  have "guar R (h_monotonic h)" and "guar R (h_waiter h t)" for t
    using assms by (simp_all add: host_keeps_def)
  with assms Suc show ?case unfolding host_loop.simps Let_def by (intro guar_intros)
qed

lemma guar_host_start [guar_intros]: "host_keeps R h \<Longrightarrow> guar R (host_start h n hs)"
  unfolding host_start_def by (intro guar_intros)

end

end
