(* ===== verification/Promises.thy ===== *)
theory Promises
  imports Surface_Promise
begin

text \<open>
  The promises themselves: how operation rows evolve, that primary keys stay unique, that
  the event history only grows, and how step rows evolve. Each is an interpretation of the
  store contract, whose client lemmas then hold for the whole engine.
\<close>

section \<open>Promises about the tables alone\<close>

lemma promise_on_db:
  assumes "\<And>d. D d d" and "\<And>d d' d''. D d d' \<Longrightarrow> D d' d'' \<Longrightarrow> D d d''"
  shows "promise (on_db D)"
  using assms by unfold_locales (auto simp: on_db_def)

lemma on_db_write: "D (db s) d' \<Longrightarrow> on_db D s (s\<lparr>db := d'\<rparr>)"
  by (simp add: on_db_def)

lemma on_db_log: "D (db s) (db s) \<Longrightarrow> on_db D s (s\<lparr>calls := cs\<rparr>)"
  by (simp add: on_db_def)

locale table_contract =
  fixes D :: "db \<Rightarrow> db \<Rightarrow> bool"
  assumes D_refl: "D d d"
    and D_trans: "D d d' \<Longrightarrow> D d' d'' \<Longrightarrow> D d d''"
    and D_transition: "can_transition st target \<Longrightarrow>
      D d (d\<lparr>operations := rows_updated
        (\<lambda>r. o_id r = oid \<and> o_state r = st \<and> o_state_revision r = rvn)
        (transitioned target now unstarted rc rd ec ed) (operations d)\<rparr>)"
    and D_cancel: "can_transition st CANCEL_REQUESTED \<Longrightarrow>
      D d (d\<lparr>operations := rows_updated
        (\<lambda>r. o_id r = oid \<and> o_state r = st \<and> o_state_revision r = rvn)
        (\<lambda>r. r\<lparr>o_state := CANCEL_REQUESTED, o_cancel_requested_at := Some now,
           o_state_revision := o_state_revision r + 1, o_updated_at := now\<rparr>) (operations d)\<rparr>)"
    and D_progress: "
      D d (d\<lparr>operations := rows_updated
        (\<lambda>r. o_id r = oid \<and> o_state r = st \<and> o_state_revision r = rvn)
        (\<lambda>r. r\<lparr>o_progress_phase := ph, o_progress_current := cur, o_progress_total := tot,
           o_progress_unit := un, o_progress_summary := summ,
           o_state_revision := o_state_revision r + 1, o_updated_at := now\<rparr>) (operations d)\<rparr>)"
    and D_dismiss: "
      D d (d\<lparr>operations := rows_updated (\<lambda>r. o_id r = oid)
        (\<lambda>r. r\<lparr>o_dismissed_at := wanted, o_updated_at := now\<rparr>) (operations d)\<rparr>)"
    and D_insert_op: "op_lookup d (o_id row) = None \<Longrightarrow> o_state row = QUEUED \<Longrightarrow>
      D d (d\<lparr>operations := operations d @ [row]\<rparr>)"
    and D_event: "e_cursor ev = next_cursor d \<Longrightarrow>
      D d (d\<lparr>operation_events := operation_events d @ [ev], next_cursor := next_cursor d + 1\<rparr>)"
    and D_insert_step: "
      \<not> list_ex (\<lambda>r. s_operation_id r = s_operation_id srow \<and>
          (s_key r = s_key srow \<or> s_sequence r = s_sequence srow)) (operation_steps d) \<Longrightarrow>
      s_state srow = S_PENDING \<Longrightarrow>
      D d (d\<lparr>operation_steps := operation_steps d @ [srow]\<rparr>)"
    and D_step: "can_step_transition expected starget \<Longrightarrow> same_identity extra \<Longrightarrow>
      D d (d\<lparr>operation_steps := rows_updated
        (\<lambda>r. step_key_of r = (oid, key) \<and> s_state r = expected)
        (\<lambda>r. (extra r)\<lparr>s_state := starget\<rparr>) (operation_steps d)\<rparr>)"
    and D_fresh_lease: "lease_lookup d key = None \<Longrightarrow>
      D d (d\<lparr>operation_leases := operation_leases d @ [fresh_lease key oid owner now expires]\<rparr>)"
    and D_takeover: "
      D d (d\<lparr>operation_leases := rows_updated (\<lambda>r. l_resource_key r = key)
        (taken_over oid owner now expires) (operation_leases d)\<rparr>)"
    and D_heartbeat: "
      D d (d\<lparr>operation_leases := rows_updated (lease_matches key owner rvn)
        (\<lambda>l. l\<lparr>l_heartbeat_at := now, l_expires_at := expires\<rparr>) (operation_leases d)\<rparr>)"
    and D_release: "
      D d (d\<lparr>operation_leases := filter (\<lambda>l. \<not> lease_matches key owner rvn l) (operation_leases d)\<rparr>)"
    and D_lock: "D d (d\<lparr>worker_lock := lock\<rparr>)"

sublocale table_contract \<subseteq> execution_writes "on_db D"
proof (intro execution_writes.intro store_writes.intro operation_writes.intro
    operation_writes_axioms.intro store_writes_axioms.intro execution_writes_axioms.intro)
  show "promise (on_db D)" by (rule promise_on_db) (fact D_refl, erule (1) D_trans)
qed (rule on_db_write, erule D_transition, rule on_db_write, erule D_cancel,
    rule on_db_write, rule D_progress, rule on_db_write, rule D_dismiss,
    rule on_db_write, erule (1) D_insert_op, rule on_db_write, erule D_event,
    rule on_db_write, erule D_fresh_lease, rule on_db_write, rule D_takeover,
    rule on_db_write, rule D_heartbeat, rule on_db_write, rule D_release,
    rule on_db_write, rule D_lock, rule on_db_log, rule D_refl,
    rule on_db_write, erule (1) D_insert_step, rule on_db_write, erule (1) D_step,
    rule on_db_log, rule D_refl)

section \<open>Rows evolve along the table\<close>

definition op_moves :: "(op_state \<times> op_state) set" where
  "op_moves = {(a, b). can_transition a b}"

definition step_moves :: "(step_state \<times> step_state) set" where
  "step_moves = {(a, b). can_step_transition a b}"

lemma op_moves_terminal: "(a, b) \<in> op_moves\<^sup>* \<Longrightarrow> is_terminal a \<Longrightarrow> b = a"
  by (induction rule: rtrancl_induct) (auto simp: op_moves_def can_transition_terminal)

definition same_request :: "op_row \<Rightarrow> op_row \<Rightarrow> bool" where
  "same_request r r' \<longleftrightarrow> o_id r' = o_id r \<and> o_type r' = o_type r \<and>
     o_request_version r' = o_request_version r \<and>
     o_recovery_policy_version r' = o_recovery_policy_version r \<and>
     o_request_json r' = o_request_json r \<and> o_surface r' = o_surface r \<and>
     o_parent_operation_id r' = o_parent_operation_id r \<and> o_created_at r' = o_created_at r"

definition same_result :: "op_row \<Rightarrow> op_row \<Rightarrow> bool" where
  "same_result r r' \<longleftrightarrow> o_state r' = o_state r \<and> o_result_code r' = o_result_code r \<and>
     o_result_detail r' = o_result_detail r \<and> o_error_code r' = o_error_code r \<and>
     o_error_detail r' = o_error_detail r \<and> o_finished_at r' = o_finished_at r"

text \<open>A cancellation request is on record only in the states that follow one.\<close>

definition cancel_recorded :: "op_row \<Rightarrow> bool" where
  "cancel_recorded r \<longleftrightarrow> (o_cancel_requested_at r \<noteq> None \<longrightarrow>
     o_state r \<in> {CANCEL_REQUESTED, ROLLING_BACK, CANCELLED, FAILED_ROLLED_BACK, RECOVERY_REQUIRED})"

definition finish_recorded :: "op_row \<Rightarrow> bool" where
  "finish_recorded r \<longleftrightarrow> (o_finished_at r \<noteq> None \<longleftrightarrow> is_terminal (o_state r))"

definition row_evolves :: "op_row \<Rightarrow> op_row \<Rightarrow> bool" where
  "row_evolves r r' \<longleftrightarrow> same_request r r' \<and>
     (o_state r, o_state r') \<in> op_moves\<^sup>* \<and>
     o_state_revision r \<le> o_state_revision r' \<and>
     (o_state_revision r' = o_state_revision r \<longrightarrow> same_result r r') \<and>
     (is_terminal (o_state r) \<longrightarrow> same_result r r') \<and>
     (finish_recorded r \<longrightarrow> finish_recorded r') \<and>
     (cancel_recorded r \<longrightarrow> cancel_recorded r' \<and>
        (o_cancel_requested_at r \<noteq> None \<longrightarrow> o_cancel_requested_at r' = o_cancel_requested_at r))"

lemma row_evolves_refl [simp, intro]: "row_evolves r r"
  by (simp add: row_evolves_def same_request_def same_result_def)

lemma row_evolves_trans: "row_evolves r r' \<Longrightarrow> row_evolves r' r'' \<Longrightarrow> row_evolves r r''"
  by (auto simp: row_evolves_def same_request_def same_result_def intro: rtrancl_trans)

definition lifecycle :: "db \<Rightarrow> db \<Rightarrow> bool" where
  "lifecycle d d' \<longleftrightarrow> (\<forall>oid r. op_lookup d oid = Some r \<longrightarrow>
     (\<exists>r'. op_lookup d' oid = Some r' \<and> row_evolves r r'))"

lemma lifecycle_same_ops: "operations d' = operations d \<Longrightarrow> lifecycle d d'"
  by (auto simp: lifecycle_def op_lookup_def)

lemma lifecycle_update:
  assumes "\<And>r. p r \<Longrightarrow> o_id (f r) = o_id r" and "\<And>r. p r \<Longrightarrow> row_evolves r (f r)"
  shows "lifecycle d (d\<lparr>operations := rows_updated p f (operations d)\<rparr>)"
  using assms by (auto simp: lifecycle_def op_lookup_def row_with_updated)

lemma transitioned_id [simp]: "o_id (transitioned target now unstarted rc rd ec ed r) = o_id r"
  by (simp add: transitioned_def)

lemma transitioned_evolves:
  assumes "can_transition (o_state r) target"
  shows "row_evolves r (transitioned target now unstarted rc rd ec ed r)"
proof -
  have "(o_state r, target) \<in> op_moves\<^sup>*"
    using assms by (auto simp: op_moves_def)
  moreover have "\<not> is_terminal (o_state r)"
    using assms can_transition_terminal by blast
  moreover have "cancel_recorded r \<Longrightarrow> o_cancel_requested_at r \<noteq> None \<Longrightarrow>
      target \<in> {CANCEL_REQUESTED, ROLLING_BACK, CANCELLED, FAILED_ROLLED_BACK, RECOVERY_REQUIRED}"
    using assms by (auto simp: cancel_recorded_def can_transition_iff)
  ultimately show ?thesis
    by (auto simp: row_evolves_def transitioned_def same_request_def finish_recorded_def
        cancel_recorded_def)
qed

lemma cancel_evolves:
  assumes "can_transition (o_state r) CANCEL_REQUESTED"
  shows "row_evolves r (r\<lparr>o_state := CANCEL_REQUESTED, o_cancel_requested_at := Some now,
     o_state_revision := o_state_revision r + 1, o_updated_at := now\<rparr>)"
proof -
  have "(o_state r, CANCEL_REQUESTED) \<in> op_moves\<^sup>*"
    using assms by (auto simp: op_moves_def)
  moreover have "\<not> is_terminal (o_state r)"
    using assms can_transition_terminal by blast
  moreover have "cancel_recorded r \<Longrightarrow> o_cancel_requested_at r = None"
    using assms by (auto simp: cancel_recorded_def can_transition_iff)
  ultimately show ?thesis
    by (auto simp: row_evolves_def same_request_def finish_recorded_def cancel_recorded_def)
qed

interpretation life: table_contract lifecycle
proof (unfold_locales, goal_cases)
  case (2 d d' d'')
  then show ?case by (meson lifecycle_def row_evolves_trans)
next
  case (3 st target d oid rvn now unstarted rc rd ec ed)
  then show ?case
    by (intro lifecycle_update) (auto intro: transitioned_evolves)
next
  case (4 st d oid rvn now)
  then show ?case by (intro lifecycle_update) (auto intro: cancel_evolves)
next
  case (5 d oid st rvn ph cur tot un summ now)
  show ?case
    by (intro lifecycle_update)
      (auto simp: row_evolves_def same_request_def same_result_def finish_recorded_def
        cancel_recorded_def)
next
  case (6 d oid wanted now)
  show ?case
    by (intro lifecycle_update)
      (auto simp: row_evolves_def same_request_def same_result_def finish_recorded_def
        cancel_recorded_def)
next
  case (7 d row)
  then show ?case by (auto simp: lifecycle_def op_lookup_def row_with_append)
qed (auto intro: lifecycle_same_ops)

section \<open>Keys stay unique\<close>

definition keys_ok :: "db \<Rightarrow> bool" where
  "keys_ok d \<longleftrightarrow> distinct (map o_id (operations d)) \<and>
     distinct (map step_key_of (operation_steps d)) \<and>
     distinct (map (\<lambda>r. (s_operation_id r, s_sequence r)) (operation_steps d)) \<and>
     distinct (map l_resource_key (operation_leases d)) \<and>
     sorted_wrt (<) (map e_cursor (operation_events d)) \<and>
     list_all (\<lambda>e. e_cursor e < next_cursor d) (operation_events d)"

definition keys_kept :: "db \<Rightarrow> db \<Rightarrow> bool" where
  "keys_kept d d' \<longleftrightarrow> (keys_ok d \<longrightarrow> keys_ok d')"

lemma keys_ops_update:
  "(\<And>r. p r \<Longrightarrow> o_id (f r) = o_id r) \<Longrightarrow>
    keys_kept d (d\<lparr>operations := rows_updated p f (operations d)\<rparr>)"
  by (auto simp: keys_kept_def keys_ok_def rows_updated_keys)

lemma keys_steps_update:
  "same_identity f \<Longrightarrow>
    keys_kept d (d\<lparr>operation_steps := rows_updated p (\<lambda>r. (f r)\<lparr>s_state := st\<rparr>) (operation_steps d)\<rparr>)"
  by (auto simp: keys_kept_def keys_ok_def rows_updated_keys same_identity_def step_key_of_def)

lemma keys_leases_update:
  "(\<And>l. p l \<Longrightarrow> l_resource_key (f l) = l_resource_key l) \<Longrightarrow>
    keys_kept d (d\<lparr>operation_leases := rows_updated p f (operation_leases d)\<rparr>)"
  by (auto simp: keys_kept_def keys_ok_def rows_updated_keys)

interpretation keys: table_contract keys_kept
proof (unfold_locales, goal_cases)
  case 1
  show ?case by (simp add: keys_kept_def)
next
  case (2 d d' d'')
  then show ?case by (simp add: keys_kept_def)
next
  case (7 d row)
  then show ?case
    by (auto simp: keys_kept_def keys_ok_def op_lookup_def row_with_None_iff)
next
  case (8 ev d)
  then show ?case
    by (fastforce simp: keys_kept_def keys_ok_def sorted_wrt_append list_all_iff)
next
  case (9 srow d)
  then show ?case
    by (auto simp: keys_kept_def keys_ok_def step_key_of_def list_ex_iff)
next
  case (10 expected starget extra d oid key)
  then show ?case by (intro keys_steps_update)
next
  case (11 d key oid owner now expires)
  then show ?case
    by (auto simp: keys_kept_def keys_ok_def lease_lookup_def row_with_None_iff fresh_lease_def)
next
  case (14 d key owner rvn)
  show ?case by (auto simp: keys_kept_def keys_ok_def distinct_map_filter)
next
  case (15 d lock)
  show ?case by (simp add: keys_kept_def keys_ok_def)
qed (auto intro!: keys_ops_update keys_leases_update simp: taken_over_def)

section \<open>The event history only grows\<close>

definition history_grows :: "db \<Rightarrow> db \<Rightarrow> bool" where
  "history_grows d d' \<longleftrightarrow> prefix (operation_events d) (operation_events d')"

interpretation history: table_contract history_grows
  by unfold_locales (auto simp: history_grows_def)

section \<open>Step rows evolve along the step table\<close>

definition steps_evolve :: "db \<Rightarrow> db \<Rightarrow> bool" where
  "steps_evolve d d' \<longleftrightarrow> (\<forall>oid key r. step_lookup d oid key = Some r \<longrightarrow>
     (\<exists>r'. step_lookup d' oid key = Some r' \<and> (s_state r, s_state r') \<in> step_moves\<^sup>* \<and>
        s_sequence r' = s_sequence r))"

lemma steps_evolve_same: "operation_steps d' = operation_steps d \<Longrightarrow> steps_evolve d d'"
  by (auto simp: steps_evolve_def step_lookup_def)

interpretation step_life: table_contract steps_evolve
proof (unfold_locales, goal_cases)
  case (2 d d' d'')
  then show ?case by (fastforce simp: steps_evolve_def intro: rtrancl_trans)
next
  case (9 srow d)
  then show ?case by (auto simp: steps_evolve_def step_lookup_def row_with_append)
next
  case (10 expected starget extra d oid key)
  have "(expected, starget) \<in> step_moves\<^sup>*"
    using 10(1) by (auto simp: step_moves_def)
  with 10(2) show ?case
    by (auto simp: steps_evolve_def step_lookup_def row_with_updated same_identity_def step_key_of_def)
qed (auto intro: steps_evolve_same)

end
