(* ===== verification/Repository_Facts.thy ===== *)
theory Repository_Facts
  imports Promises
begin

text \<open>
  How the single repository operations run: the rows they read, the one conditional write
  they make, and what they leave alone when they raise.
\<close>

text \<open>No other process writes and no commit fails.\<close>

definition quiet :: "env \<Rightarrow> bool" where
  "quiet v \<longleftrightarrow> (\<forall>w n d. e_open v w n d = Inr d) \<and> (\<forall>n. e_commit v n = None)"

section \<open>Inversion of the combinators\<close>

lemma bind_InrE:
  assumes "bind m f s = (Inr y, s')"
  obtains x s1 where "m s = (Inr x, s1)" and "f x s1 = (Inr y, s')"
  using assms by (auto simp: bind_run split: prod.splits sum.splits)

lemma andthen_InrE:
  assumes "andthen m n s = (Inr y, s')"
  obtains x s1 where "m s = (Inr x, s1)" and "n s1 = (Inr y, s')"
  using assms by (auto simp: andthen_run split: prod.splits sum.splits)

lemma require_op_run: "require_op oid s =
    (case op_lookup (db s) oid of None \<Rightarrow> (Inl (OperationConflict (NoSuchOperation oid)), s)
     | Some r \<Rightarrow> (Inr r, s))"
  by (simp add: require_op_def prog_simps get_op_def read_db_def split: option.splits)

lemma require_known_run: "require_known oid s =
    (case op_lookup (db s) oid of None \<Rightarrow> (Inl (OperationConflict (NoSuchOperation oid)), s)
     | Some r \<Rightarrow> (Inr (), s))"
  by (simp add: require_known_def prog_simps get_op_def read_db_def split: option.splits)

lemma get_op_run: "get_op oid s = (Inr (op_lookup (db s) oid), s)"
  by (simp add: get_op_def read_db_def)

lemma clock_run: "clock v s = (Inr (e_clock v (clock_reads s)), s\<lparr>clock_reads := Suc (clock_reads s)\<rparr>)"
  by (simp add: clock_def)

lemma sanitized_run:
  "sanitized n x s = (case sanitize_payload n x of Inl e \<Rightarrow> (Inl (PayloadRejected e), s) | Inr w \<Rightarrow> (Inr w, s))"
  by (simp add: sanitized_def prog_simps split: sum.splits)

lemma sanitized_opt_state: "sanitized_opt n x s = (r, s') \<Longrightarrow> s' = s"
  by (auto simp: sanitized_opt_def sanitized_run prog_simps split: option.splits sum.splits)

lemma assert_some_Inr: "assert_some x s = (Inr y, s') \<longleftrightarrow> x = Some y \<and> s' = s"
  by (cases x) (auto simp: prog_simps)

definition with_event :: "event_row \<Rightarrow> db \<Rightarrow> db" where
  "with_event e d = d\<lparr>operation_events := operation_events d @ [e], next_cursor := next_cursor d + 1\<rparr>"

lemma with_event_simps [simp]:
  "operations (with_event e d) = operations d"
  "operation_steps (with_event e d) = operation_steps d"
  "operation_leases (with_event e d) = operation_leases d"
  "worker_lock (with_event e d) = worker_lock d"
  "operation_events (with_event e d) = operation_events d @ [e]"
  "op_lookup (with_event e d) oid = op_lookup d oid"
  "step_lookup (with_event e d) oid key = step_lookup d oid key"
  "lease_lookup (with_event e d) key = lease_lookup d key"
  by (simp_all add: with_event_def op_lookup_def step_lookup_def lease_lookup_def)

lemma insert_event_Inr:
  "insert_event row_at s = (Inr c, s') \<Longrightarrow> db s' = with_event (row_at (next_cursor (db s))) (db s)"
  by (auto simp: insert_event_def prog_simps read_db_def write_db_def with_event_def)

lemma append_event_Inr:
  assumes "append_event v oid level code summary detail progress s = (Inr c, s')"
  shows "\<exists>e. e_operation_id e = oid \<and> e_code e = code \<and> e_cursor e = next_cursor (db s) \<and>
     db s' = with_event e (db s)"
proof -
  from assms have run: "(bind (sanitized_opt EVENT_DETAIL_MAX_BYTES detail) (\<lambda>detail_json.
        bind (sanitized_opt EVENT_DETAIL_MAX_BYTES progress) (\<lambda>progress_json.
        bind (clock v) (\<lambda>ts.
        insert_event (\<lambda>cursor.
          \<lparr>e_cursor = cursor, e_operation_id = oid, e_ts = ts, e_level = level,
           e_code = code, e_summary = take SUMMARY_MAX_CHARS summary,
           e_detail = detail_json, e_progress = progress_json\<rparr>))))) s = (Inr c, s')"
    by (auto simp: append_event_def andthen_run require_known_run throw_run
        split: option.splits if_splits)
  then show ?thesis
    by - (erule bind_InrE, erule bind_InrE, erule bind_InrE, drule insert_event_Inr, rule exI,
        auto dest!: sanitized_opt_state simp: clock_run)
qed

lemma op_lookup_rows: "op_lookup (d\<lparr>operations := rs\<rparr>) oid = row_with o_id rs oid"
  by (simp add: op_lookup_def)

lemma keys_ok_op: "keys_ok d \<Longrightarrow> r \<in> set (operations d) \<Longrightarrow> op_lookup d (o_id r) = Some r"
  by (simp add: keys_ok_def op_lookup_def row_with_in_distinct)

lemma op_lookup_key: "op_lookup d i = Some r \<Longrightarrow> o_id r = i"
  by (auto simp: op_lookup_def dest: row_with_key)

lemma no_matching_rows:
  assumes "keys_ok d" and "op_lookup d oid = Some row" and "\<not> p row"
  shows "filter (\<lambda>r. o_id r = oid \<and> p r) (operations d) = []"
  using assms keys_ok_op [OF assms(1)] by (fastforce simp: filter_empty_conv)

lemma update_ops_run:
  "update_ops p f s = (Inr (length (filter p (operations (db s)))),
     s\<lparr>db := (db s)\<lparr>operations := rows_updated p f (operations (db s))\<rparr>\<rparr>)"
  by (simp add: update_ops_def prog_simps read_db_def write_db_def)

text \<open>A conditional update that hit exactly one row rewrote the row it asked for.\<close>

lemma matched_row:
  assumes "keys_ok d" and "length (filter (\<lambda>r. o_id r = oid \<and> p r) (operations d)) = 1"
    and "\<And>r. o_id (f r) = o_id r"
  obtains row where "op_lookup d oid = Some row" and "p row"
    and "op_lookup (d\<lparr>operations := rows_updated (\<lambda>r. o_id r = oid \<and> p r) f (operations d)\<rparr>) oid
      = Some (f row)"
    and "\<And>i. i \<noteq> oid \<Longrightarrow>
      op_lookup (d\<lparr>operations := rows_updated (\<lambda>r. o_id r = oid \<and> p r) f (operations d)\<rparr>) i
      = op_lookup d i"
proof -
  let ?d' = "d\<lparr>operations := rows_updated (\<lambda>r. o_id r = oid \<and> p r) f (operations d)\<rparr>"
  from assms(2) obtain row where "row \<in> set (filter (\<lambda>r. o_id r = oid \<and> p r) (operations d))"
    by (cases "filter (\<lambda>r. o_id r = oid \<and> p r) (operations d)") auto
  then have row: "row \<in> set (operations d)" "o_id row = oid" "p row" by auto
  then have look: "op_lookup d oid = Some row"
    using keys_ok_op [OF assms(1) row(1)] by simp
  have new: "op_lookup ?d' i = map_option (\<lambda>r. if o_id r = oid \<and> p r then f r else r) (op_lookup d i)" for i
    unfolding op_lookup_rows unfolding op_lookup_def
    by (rule row_with_updated) (simp add: assms(3))
  have other: "op_lookup ?d' i = op_lookup d i" if "i \<noteq> oid" for i
    using that op_lookup_key [of d i] unfolding new by (cases "op_lookup d i") auto
  show ?thesis
    by (rule that [OF look row(3)]) (simp add: new look row, erule other)
qed

lemma one_matching_row:
  assumes "keys_ok d" and "op_lookup d oid = Some row" and "p row"
  shows "length (filter (\<lambda>r. o_id r = oid \<and> p r) (operations d)) = 1"
proof -
  have row: "row \<in> set (operations d)" "o_id row = oid"
    using assms(2) by (auto simp: op_lookup_def dest: row_with_SomeD)
  have "distinct (map o_id (operations d))" using assms(1) by (simp add: keys_ok_def)
  then have "length (filter (\<lambda>r. o_id r = oid \<and> p r) rows) = (if row \<in> set rows then 1 else 0)"
    if "set rows \<subseteq> set (operations d)" "distinct (map o_id rows)" for rows
    using that row assms(3)
  proof (induction rows)
    case (Cons r rows)
    have "r = row" if "o_id r = oid"
      using Cons.prems that keys_ok_op [OF assms(1), of r] assms(2) by auto
    with Cons show ?case by (auto simp: rev_image_eqI)
  qed simp
  with row assms(1) show ?thesis by (simp add: keys_ok_def)
qed

text \<open>A plain event of a known operation is always appended.\<close>

lemma append_event_run:
  assumes "op_lookup (db s) oid = Some row" and "level \<in> set EVENT_LEVELS"
  shows "append_event v oid level code summary None None s =
     (Inr (next_cursor (db s)), s\<lparr>clock_reads := Suc (clock_reads s),
        db := with_event \<lparr>e_cursor = next_cursor (db s), e_operation_id = oid,
           e_ts = e_clock v (clock_reads s), e_level = level, e_code = code,
           e_summary = take SUMMARY_MAX_CHARS summary, e_detail = None, e_progress = None\<rparr> (db s)\<rparr>)"
  using assms
  by (simp add: append_event_def andthen_run require_known_run sanitized_opt_def bind_run ret_run
      clock_run insert_event_def read_db_def write_db_def with_event_def)

lemma level_info [simp]: "''info'' \<in> set EVENT_LEVELS"
  by (simp add: EVENT_LEVELS_def)

section \<open>Compare-and-transition\<close>

lemma transition_Inr:
  fixes s :: "'w sys"
  assumes "keys_ok (db s)"
    and "compare_and_transition v oid st n target a s = (Inr row', s')"
  shows "\<exists>row e. op_lookup (db s) oid = Some row \<and> o_state row = st \<and> o_state_revision row = n \<and>
     can_transition st target \<and>
     op_lookup (db s') oid = Some row' \<and> o_state row' = target \<and> o_state_revision row' = n + 1 \<and>
     same_request row row' \<and>
     (is_terminal target \<longrightarrow> o_finished_at row' \<noteq> None) \<and>
     (\<forall>i. i \<noteq> oid \<longrightarrow> op_lookup (db s') i = op_lookup (db s) i) \<and>
     operation_steps (db s') = operation_steps (db s) \<and>
     operation_leases (db s') = operation_leases (db s) \<and>
     operation_events (db s') = operation_events (db s) @ [e] \<and> e_operation_id e = oid"
proof -
  let ?p = "\<lambda>r. o_state r = st \<and> o_state_revision r = n"
  define tail :: "op_row \<Rightarrow> instant \<Rightarrow> json option \<Rightarrow> json option \<Rightarrow> ('w, op_row) prog" where
    "tail = (\<lambda>current now rd ed. bind (update_ops (\<lambda>r. o_id r = oid \<and> ?p r)
             (transitioned target now (o_started_at current = None)
                (t_result_code a) rd (t_error_code a) ed)) (\<lambda>rowcount.
       if rowcount \<noteq> 1 then throw (OperationConflict (StaleTransition oid))
       else andthen (append_event v oid (t_level a)
                  (Some (text_or (t_code a) (''STATE_'' @ state_value target)))
                  (text_or (t_summary a)
                     (''OperationState.'' @ state_value st @ '' -> OperationState.'' @ state_value target))
                  (t_detail a) None)
             (bind (get_op oid) assert_some)))"
  have "compare_and_transition v oid st n target a s = bind (require_op oid) (\<lambda>current.
      andthen (lift (assert_transition st target)) (bind (clock v) (\<lambda>now.
      bind (sanitized_opt EVENT_DETAIL_MAX_BYTES (t_result_detail a)) (\<lambda>rd.
      bind (sanitized_opt EVENT_DETAIL_MAX_BYTES (t_error_detail a)) (\<lambda>ed.
      tail current now rd ed))))) s"
    by (simp add: compare_and_transition_def tail_def)
  with assms(2) have "\<exists>current now rd ed s1. tail current now rd ed s1 = (Inr row', s') \<and>
      can_transition st target \<and> db s1 = db s"
    by - (auto simp: bind_run andthen_run require_op_run lift_run assert_transition_def clock_run
        dest!: sanitized_opt_state split: option.splits if_splits prod.splits sum.splits,
        (rule exI)+, rule conjI, assumption, simp)
  then obtain current now rd ed s1 where
    can: "can_transition st target" and s1: "db s1 = db s" and
    run: "tail current now rd ed s1 = (Inr row', s')" by blast
  let ?f = "transitioned target now (o_started_at current = None) (t_result_code a) rd (t_error_code a) ed"
  let ?d = "(db s)\<lparr>operations := rows_updated (\<lambda>r. o_id r = oid \<and> ?p r) ?f (operations (db s))\<rparr>"
  from run s1 have one: "length (filter (\<lambda>r. o_id r = oid \<and> ?p r) (operations (db s))) = 1"
    by (auto simp: tail_def bind_run update_ops_run throw_run split: if_splits)
  with run s1 obtain c s2 where
    ev: "append_event v oid (t_level a)
        (Some (text_or (t_code a) (''STATE_'' @ state_value target)))
        (text_or (t_summary a)
           (''OperationState.'' @ state_value st @ '' -> OperationState.'' @ state_value target))
        (t_detail a) None (s1\<lparr>db := ?d\<rparr>) = (Inr c, s2)"
    and last: "bind (get_op oid) assert_some s2 = (Inr row', s')"
    by (auto simp: tail_def bind_run update_ops_run elim!: andthen_InrE)
  obtain e where e: "e_operation_id e = oid" "db s2 = with_event e ?d"
    using append_event_Inr [OF ev] by auto
  obtain row where row: "op_lookup (db s) oid = Some row" "?p row"
    "op_lookup ?d oid = Some (?f row)" "\<And>i. i \<noteq> oid \<Longrightarrow> op_lookup ?d i = op_lookup (db s) i"
    by (rule matched_row [OF assms(1) one, of ?f]) auto
  have fin: "row' = ?f row" "db s' = with_event e ?d"
    using last e(2) row(3) by (auto simp: bind_run get_op_run ret_run)
  show ?thesis
    by (rule exI [of _ row], rule exI [of _ e])
      (use can row e(1) in \<open>auto simp: fin transitioned_def same_request_def\<close>)
qed

text \<open>
  A transition that succeeds found the row in the expected state at the expected
  revision, the table allows the move, the row carries the target state and the next
  revision, its identity and request are as before, every other operation is untouched and
  exactly one event of this operation was appended.
\<close>

theorem transition_success:
  fixes s :: "'w sys"
  assumes "keys_ok (db s)"
    and "compare_and_transition v oid st n target a s = (Inr row', s')"
  shows "\<exists>row e. op_lookup (db s) oid = Some row \<and> o_state row = st \<and> o_state_revision row = n \<and>
     can_transition st target \<and>
     op_lookup (db s') oid = Some row' \<and> o_state row' = target \<and> o_state_revision row' = n + 1 \<and>
     same_request row row' \<and>
     (is_terminal target \<longrightarrow> o_finished_at row' \<noteq> None) \<and>
     (\<forall>i. i \<noteq> oid \<longrightarrow> op_lookup (db s') i = op_lookup (db s) i) \<and>
     operation_steps (db s') = operation_steps (db s) \<and>
     operation_leases (db s') = operation_leases (db s) \<and>
     operation_events (db s') = operation_events (db s) @ [e] \<and> e_operation_id e = oid"
  using transition_Inr [OF assms] .

text \<open>
  A transition requested from a state or a revision the row is no longer in raises and
  writes nothing, whatever its arguments.
\<close>

theorem stale_transition_writes_nothing:
  assumes "keys_ok (db s)" and "op_lookup (db s) oid = Some row"
    and "o_state row \<noteq> st \<or> o_state_revision row \<noteq> n"
  shows "\<exists>e s'. compare_and_transition v oid st n target a s = (Inl e, s') \<and> db s' = db s"
proof -
  let ?p = "\<lambda>r. o_state r = st \<and> o_state_revision r = n"
  have none: "filter (\<lambda>r. o_id r = oid \<and> ?p r) (operations (db s)) = []"
    using assms by (intro no_matching_rows [where row = row]) auto
  then have same: "rows_updated (\<lambda>r. o_id r = oid \<and> ?p r) f (operations (db s)) = operations (db s)" for f
    by (intro rows_updated_id) (auto simp: filter_empty_conv)
  show ?thesis
    using assms(2) none
    by (auto simp: compare_and_transition_def bind_run andthen_run require_op_run lift_run clock_run
        update_ops_run throw_run same assert_transition_def
        dest!: sanitized_opt_state split: prod.splits sum.splits)
qed

section \<open>Cancellation requests\<close>

definition cancelled_row :: "instant \<Rightarrow> op_row \<Rightarrow> op_row" where
  "cancelled_row now r = r\<lparr>o_state := CANCEL_REQUESTED, o_cancel_requested_at := Some now,
     o_state_revision := o_state_revision r + 1, o_updated_at := now\<rparr>"

text \<open>
  A cancellation request is idempotent once one is recorded, is refused inside the
  critical section and on any other finished operation with the code the command service
  reports, and is refused when the caller expected another revision; a refusal writes
  nothing.
\<close>

theorem cancel_refusals:
  assumes "keys_ok (db s)" and "op_lookup (db s) oid = Some row"
  shows "(o_state row \<in> {CANCEL_REQUESTED, CANCELLED} \<longrightarrow> request_cancel v oid expected s = (Inr row, s)) \<and>
    (o_state row \<in> {COMMITTING, ROLLING_BACK} \<longrightarrow>
       (\<exists>e. request_cancel v oid expected s = (Inl e, s) \<and> refusal_code e = ''CRITICAL_SECTION'')) \<and>
    (o_state row \<in> {SUCCEEDED, FAILED_SAFE, FAILED_ROLLED_BACK, RECOVERY_REQUIRED} \<longrightarrow>
       (\<exists>e. request_cancel v oid expected s = (Inl e, s) \<and> refusal_code e = ''ALREADY_TERMINAL'')) \<and>
    (o_state row \<in> {QUEUED, PREPARING, RUNNING, VERIFYING, PAUSED} \<longrightarrow>
       expected \<noteq> None \<longrightarrow> expected \<noteq> Some (o_state_revision row) \<longrightarrow>
       (\<exists>s'. request_cancel v oid expected s = (Inl (OperationConflict (StaleCancellation oid)), s') \<and>
          db s' = db s))"
proof (intro conjI impI)
  assume st: "o_state row \<in> {COMMITTING, ROLLING_BACK}"
  then show "\<exists>e. request_cancel v oid expected s = (Inl e, s) \<and> refusal_code e = ''CRITICAL_SECTION''"
    using assms(2)
    by (auto simp: request_cancel_def bind_run require_op_run throw_run refusal_code_def)
next
  assume st: "o_state row \<in> {SUCCEEDED, FAILED_SAFE, FAILED_ROLLED_BACK, RECOVERY_REQUIRED}"
  then show "\<exists>e. request_cancel v oid expected s = (Inl e, s) \<and> refusal_code e = ''ALREADY_TERMINAL''"
    using assms(2)
    by (auto simp: request_cancel_def bind_run require_op_run throw_run refusal_code_def)
next
  assume st: "o_state row \<in> {QUEUED, PREPARING, RUNNING, VERIFYING, PAUSED}"
    and "expected \<noteq> None" and stale: "expected \<noteq> Some (o_state_revision row)"
  then obtain n where n: "expected = Some n" "n \<noteq> o_state_revision row" by auto
  have none: "filter (\<lambda>r. o_id r = oid \<and> o_state r = o_state row \<and> o_state_revision r = n)
      (operations (db s)) = []"
    using assms n by (intro no_matching_rows [where row = row]) auto
  then have same: "rows_updated (\<lambda>r. o_id r = oid \<and> o_state r = o_state row \<and> o_state_revision r = n)
      f (operations (db s)) = operations (db s)" for f
    by (intro rows_updated_id) (auto simp: filter_empty_conv)
  from st show "\<exists>s'. request_cancel v oid expected s =
      (Inl (OperationConflict (StaleCancellation oid)), s') \<and> db s' = db s"
    using assms(2) none n
    by (auto simp: request_cancel_def bind_run require_op_run throw_run clock_run update_ops_run same)
qed (use assms in \<open>auto simp: request_cancel_def bind_run require_op_run ret_run\<close>)

section \<open>Progress\<close>

lemma update_progress_cases:
  assumes "keys_ok (db s)" and "op_lookup (db s) oid = Some row"
  shows "(Some phase = o_progress_phase row \<and> current < o_progress_current row \<longrightarrow>
       update_progress v oid phase current tot unit summary s =
         (Inl (OperationConflict (ProgressBackwards oid)), s)) \<and>
    (\<not> (Some phase = o_progress_phase row \<and> current < o_progress_current row) \<longrightarrow>
       (\<exists>row' s'. update_progress v oid phase current tot unit summary s = (Inr row', s') \<and>
          op_lookup (db s') oid = Some row' \<and> o_state row' = o_state row \<and>
          o_state_revision row' = o_state_revision row + 1 \<and>
          o_progress_phase row' = Some phase \<and> o_progress_current row' = current \<and>
          same_request row row' \<and> operation_events (db s') = operation_events (db s)))"
proof -
  let ?p = "\<lambda>r. o_state r = o_state row \<and> o_state_revision r = o_state_revision row"
  let ?f = "\<lambda>now r. r\<lparr>o_progress_phase := Some phase, o_progress_current := current,
     o_progress_total := tot, o_progress_unit := sanitize_summary unit,
     o_progress_summary := sanitize_summary summary,
     o_state_revision := o_state_revision r + 1, o_updated_at := now\<rparr>"
  have one: "length (filter (\<lambda>r. o_id r = oid \<and> ?p r) (operations (db s))) = 1"
    by (rule one_matching_row [OF assms]) simp
  have new: "op_lookup ((db s)\<lparr>operations := rows_updated (\<lambda>r. o_id r = oid \<and> ?p r) (?f now)
      (operations (db s))\<rparr>) oid = Some (?f now row)" for now
    by (rule matched_row [OF assms(1) one, of "?f now"]) (use assms(2) in simp_all)
  show ?thesis
    using assms(2)
    by (auto simp: update_progress_def bind_run andthen_run require_op_run throw_run clock_run
        update_ops_run one new get_op_run ret_run same_request_def simp del: One_nat_def)
qed

text \<open>
  Progress never runs backwards within a phase: an accepted update keeps the state,
  moves to the next revision and, when the phase stays, to no smaller value; a smaller
  value in the same phase is refused without a write.
\<close>

theorem progress_monotone:
  assumes "keys_ok (db s)" and "op_lookup (db s) oid = Some row"
  shows "(Some phase = o_progress_phase row \<and> current < o_progress_current row \<longrightarrow>
       update_progress v oid phase current tot unit summary s =
         (Inl (OperationConflict (ProgressBackwards oid)), s)) \<and>
    (\<not> (Some phase = o_progress_phase row \<and> current < o_progress_current row) \<longrightarrow>
       (\<exists>row' s'. update_progress v oid phase current tot unit summary s = (Inr row', s') \<and>
          op_lookup (db s') oid = Some row' \<and> o_state row' = o_state row \<and>
          o_state_revision row' = o_state_revision row + 1 \<and>
          o_progress_phase row' = Some phase \<and> o_progress_current row' = current \<and>
          same_request row row' \<and> operation_events (db s') = operation_events (db s)))"
  using update_progress_cases [OF assms] .

section \<open>Dismissal\<close>

text \<open>
  Dismissing an operation that was dismissed at another instant is no no-op: the
  timestamp is replaced and a second event is appended.
\<close>

theorem dismissing_again_writes:
  assumes "keys_ok (db s)" and "op_lookup (db s) oid = Some row" and "is_terminal (o_state row)"
    and "o_dismissed_at row = Some t" and "t \<noteq> e_clock v (clock_reads s)"
  shows "\<exists>row' s' e. set_dismissed v oid True s = (Inr row', s') \<and>
     o_dismissed_at row' = Some (e_clock v (clock_reads s)) \<and>
     operation_events (db s') = operation_events (db s) @ [e] \<and>
     e_code e = Some ''OPERATION_DISMISSED''"
proof -
  let ?f = "\<lambda>now r. r\<lparr>o_dismissed_at := Some (e_clock v (clock_reads s)), o_updated_at := now\<rparr>"
  have one: "length (filter (\<lambda>r. o_id r = oid \<and> True) (operations (db s))) = 1"
    by (rule one_matching_row [OF assms(1,2)]) simp
  have new: "op_lookup ((db s)\<lparr>operations := rows_updated (\<lambda>r. o_id r = oid) (?f now)
      (operations (db s))\<rparr>) oid = Some (?f now row)" for now
    using assms(2) matched_row [OF assms(1) one, of "?f now"] by simp
  show ?thesis
    using assms(2-)
    by (auto simp: set_dismissed_def bind_run andthen_run require_op_run clock_run ret_run
        update_ops_run new get_op_run append_event_run)
qed

end
