(* ===== verification/Lease_Facts.thy ===== *)
theory Lease_Facts
  imports Repository_Facts Worker
begin

text \<open>
  The exclusion arguments: a live lease or a recovery barrier is never taken, a takeover
  begins a generation that fences the old owner out, renewal and release are the owner's
  alone, and a profile has at most one live worker host.
\<close>

section \<open>How the lease operations run\<close>

lemma get_lease_run: "get_lease key s = (Inr (lease_lookup (db s) key), s)"
  by (simp add: get_lease_def read_db_def)

lemma lease_lookup_key: "lease_lookup d key = Some l \<Longrightarrow> l_resource_key l = key"
  by (auto simp: lease_lookup_def dest: row_with_key)

definition lease_free :: "db \<Rightarrow> ident \<Rightarrow> instant \<Rightarrow> bool" where
  "lease_free d key now \<longleftrightarrow> (case lease_lookup d key of None \<Rightarrow> True
     | Some l \<Rightarrow> l_expires_at l \<le> now \<and> owning_operation_state d key \<noteq> Some RECOVERY_REQUIRED)"

definition next_lease :: "db \<Rightarrow> ident \<Rightarrow> ident \<Rightarrow> ident \<Rightarrow> instant \<Rightarrow> int \<Rightarrow> lease_row" where
  "next_lease d key oid owner now ttl = (case lease_lookup d key of
     None \<Rightarrow> fresh_lease key oid owner now (now + ttl)
   | Some l \<Rightarrow> taken_over oid owner now (now + ttl) l)"

definition with_lease :: "ident \<Rightarrow> ident \<Rightarrow> ident \<Rightarrow> instant \<Rightarrow> int \<Rightarrow> db \<Rightarrow> db" where
  "with_lease key oid owner now ttl d = d\<lparr>operation_leases := (case lease_lookup d key of
     None \<Rightarrow> operation_leases d @ [fresh_lease key oid owner now (now + ttl)]
   | Some l \<Rightarrow> rows_updated (\<lambda>r. l_resource_key r = key) (taken_over oid owner now (now + ttl))
                (operation_leases d))\<rparr>"

lemma with_lease_lookup:
  "lease_lookup (with_lease key oid owner now ttl d) k =
     (if k = key then Some (next_lease d key oid owner now ttl) else lease_lookup d k)"
proof (cases "lease_lookup d key")
  case None
  then show ?thesis
    by (auto simp: with_lease_def next_lease_def lease_lookup_def row_with_append fresh_lease_def
        split: option.splits)
next
  case (Some l)
  let ?f = "taken_over oid owner now (now + ttl)"
  have "lease_lookup (with_lease key oid owner now ttl d) k =
      row_with l_resource_key (rows_updated (\<lambda>r. l_resource_key r = key) ?f (operation_leases d)) k"
    unfolding lease_lookup_def [of "with_lease key oid owner now ttl d"] by (simp add: with_lease_def Some)
  also have "\<dots> = map_option (\<lambda>r. if l_resource_key r = key then ?f r else r) (lease_lookup d k)"
    unfolding lease_lookup_def by (rule row_with_updated) (simp add: taken_over_def)
  also have "\<dots> = (if k = key then Some (next_lease d key oid owner now ttl) else lease_lookup d k)"
    using Some lease_lookup_key [OF Some]
    by (cases "lease_lookup d k") (auto simp: next_lease_def dest: lease_lookup_key)
  finally show ?thesis .
qed

lemma with_lease_simps [simp]:
  "operations (with_lease key oid owner now ttl d) = operations d"
  "operation_steps (with_lease key oid owner now ttl d) = operation_steps d"
  "operation_events (with_lease key oid owner now ttl d) = operation_events d"
  "op_lookup (with_lease key oid owner now ttl d) i = op_lookup d i"
  "step_lookup (with_lease key oid owner now ttl d) i k = step_lookup d i k"
  by (simp_all add: with_lease_def op_lookup_def step_lookup_def)

text \<open>The whole behaviour of \<open>acquire\<close>, branch by branch.\<close>

lemma acquire_run:
  assumes "op_lookup (db s) oid = Some row"
  shows "acquire v key oid owner ttl s =
    (let now = e_clock v (clock_reads s); s1 = s\<lparr>clock_reads := Suc (clock_reads s)\<rparr> in
     case lease_lookup (db s) key of
       None \<Rightarrow> (Inr (next_lease (db s) key oid owner now ttl),
                 s1\<lparr>db := with_lease key oid owner now ttl (db s)\<rparr>)
     | Some l \<Rightarrow>
         if l_expires_at l > now then (Inl (OperationConflict (LeaseActivelyHeld key)), s1)
         else if owning_operation_state (db s) key = Some RECOVERY_REQUIRED
         then (Inl (OperationConflict (RecoveryBarrier key)), s1)
         else (Inr (next_lease (db s) key oid owner now ttl),
                 s1\<lparr>db := with_lease key oid owner now ttl (db s)\<rparr>))"
proof -
  let ?now = "e_clock v (clock_reads s)"
  have "lease_lookup ((db s)\<lparr>operation_leases := operation_leases (db s) @
      [fresh_lease key oid owner ?now (?now + ttl)]\<rparr>) key = Some (next_lease (db s) key oid owner ?now ttl)"
    if "lease_lookup (db s) key = None"
    using with_lease_lookup [of key oid owner ?now ttl "db s" key] that by (simp add: with_lease_def)
  moreover have "lease_lookup ((db s)\<lparr>operation_leases := rows_updated (\<lambda>r. l_resource_key r = key)
      (taken_over oid owner ?now (?now + ttl)) (operation_leases (db s))\<rparr>) key =
      Some (next_lease (db s) key oid owner ?now ttl)"
    if "lease_lookup (db s) key = Some l" for l
    using with_lease_lookup [of key oid owner ?now ttl "db s" key] that by (simp add: with_lease_def)
  ultimately show ?thesis
    using assms
    by (auto simp: acquire_def bind_run andthen_run require_known_run clock_run get_lease_run
        read_db_def throw_run upsert_lease_def write_db_def ret_run advance_def with_lease_def
        Let_def split: option.splits)
qed

lemma acquire_Inr:
  assumes "acquire v key oid owner ttl s = (Inr lease, s')"
  shows "lease_free (db s) key (e_clock v (clock_reads s))"
    "lease = next_lease (db s) key oid owner (e_clock v (clock_reads s)) ttl"
    "s' = s\<lparr>clock_reads := Suc (clock_reads s),
            db := with_lease key oid owner (e_clock v (clock_reads s)) ttl (db s)\<rparr>"
proof -
  obtain row where "op_lookup (db s) oid = Some row"
    using assms by (auto simp: acquire_def andthen_run require_known_run split: option.splits)
  with assms show "lease_free (db s) key (e_clock v (clock_reads s))"
    "lease = next_lease (db s) key oid owner (e_clock v (clock_reads s)) ttl"
    "s' = s\<lparr>clock_reads := Suc (clock_reads s),
            db := with_lease key oid owner (e_clock v (clock_reads s)) ttl (db s)\<rparr>"
    by (auto simp: acquire_run Let_def lease_free_def split: option.splits if_splits)
qed

lemma next_lease_simps [simp]:
  "l_operation_id (next_lease d key oid owner now ttl) = oid"
  "l_owner (next_lease d key oid owner now ttl) = owner"
  "l_expires_at (next_lease d key oid owner now ttl) = now + ttl"
  "l_lease_revision (next_lease d key oid owner now ttl) =
     (case lease_lookup d key of None \<Rightarrow> 1 | Some l \<Rightarrow> l_lease_revision l + 1)"
  by (simp_all add: next_lease_def fresh_lease_def taken_over_def split: option.split)

section \<open>Exclusion\<close>

text \<open>
  A lease is acquired only when the resource was free: no lease, or an expired one whose
  operation is not behind the \<^verbatim>\<open>RECOVERY_REQUIRED\<close> barrier. The caller then owns it
  under a new revision until the time to live is over, and no other lease changed.
\<close>

theorem acquire_takes_only_free_resources:
  assumes "acquire v key oid owner ttl s = (Inr lease, s')"
  shows "lease_free (db s) key (e_clock v (clock_reads s)) \<and>
    lease_lookup (db s') key = Some lease \<and>
    (\<forall>t < e_clock v (clock_reads s) + ttl. owns (db s') key oid owner (l_lease_revision lease) t) \<and>
    (\<forall>l. lease_lookup (db s) key = Some l \<longrightarrow> l_lease_revision lease = l_lease_revision l + 1) \<and>
    (\<forall>k. k \<noteq> key \<longrightarrow> lease_lookup (db s') k = lease_lookup (db s) k)"
  using acquire_Inr [OF assms]
  by (auto simp: with_lease_lookup owns_def split: option.split)

text \<open>
  A live lease and the recovery barrier stop every acquisition: the attempt raises the
  matching conflict and no table changes.
\<close>

theorem acquire_refused_when_held:
  assumes "op_lookup (db s) oid = Some row" and "lease_lookup (db s) key = Some l"
    and "\<not> lease_free (db s) key (e_clock v (clock_reads s))"
  shows "\<exists>c s'. acquire v key oid owner ttl s = (Inl (OperationConflict c), s') \<and> db s' = db s \<and>
    c = (if l_expires_at l > e_clock v (clock_reads s) then LeaseActivelyHeld key
         else RecoveryBarrier key)"
  using assms by (auto simp: acquire_run Let_def lease_free_def)

text \<open>
  After a takeover the previous owner never passes the fence again, at any instant: the
  lease belongs to a later generation.
\<close>

theorem takeover_fences_out_previous_owner:
  assumes "owns (db s) key oid0 owner0 revision0 t0"
    and "acquire v key oid owner ttl s = (Inr lease, s')"
  shows "\<not> owns (db s') key oid0 owner0 revision0 t"
  using acquire_Inr [OF assms(2)] assms(1)
  by (auto simp: owns_def with_lease_lookup split: option.splits)

section \<open>Renewal and release\<close>

lemma keys_ok_lease:
  "keys_ok d \<Longrightarrow> l \<in> set (operation_leases d) \<Longrightarrow> lease_lookup d (l_resource_key l) = Some l"
  by (simp add: keys_ok_def lease_lookup_def row_with_in_distinct)

lemma matched_lease:
  assumes "keys_ok d" and "length (filter (lease_matches key owner rvn) (operation_leases d)) = 1"
  shows "\<exists>l. lease_lookup d key = Some l \<and> l_owner l = owner \<and> l_lease_revision l = rvn"
proof -
  from assms(2) obtain l where "l \<in> set (filter (lease_matches key owner rvn) (operation_leases d))"
    by (cases "filter (lease_matches key owner rvn) (operation_leases d)") auto
  with keys_ok_lease [OF assms(1), of l] show ?thesis by (auto simp: lease_matches_def)
qed

lemma one_matching_lease:
  assumes "keys_ok d" and "lease_lookup d key = Some l" and "l_owner l = owner" and "l_lease_revision l = n"
  shows "length (filter (lease_matches key owner n) (operation_leases d)) = 1"
proof -
  have mem: "l \<in> set (operation_leases d)" "l_resource_key l = key"
    using assms(2) by (auto simp: lease_lookup_def dest: row_with_SomeD)
  have dist: "distinct (map l_resource_key (operation_leases d))"
    using assms(1) by (simp add: keys_ok_def)
  have "filter (lease_matches key owner n) (operation_leases d) = filter (\<lambda>x. x = l) (operation_leases d)"
  proof (rule filter_cong)
    fix x assume "x \<in> set (operation_leases d)"
    with dist mem have "l_resource_key x = key \<Longrightarrow> x = l" by (auto simp: distinct_map inj_on_def)
    with mem(2) assms(3,4) show "lease_matches key owner n x = (x = l)" by (auto simp: lease_matches_def)
  qed simp
  moreover have "length (filter (\<lambda>x. x = l) rows) = (if l \<in> set rows then 1 else 0)"
    if "distinct rows" for rows
    using that by (induction rows) auto
  ultimately show ?thesis using dist mem by (simp add: distinct_map)
qed

lemma lease_lookup_filter:
  assumes "keys_ok d"
  shows "lease_lookup (d\<lparr>operation_leases := filter p (operation_leases d)\<rparr>) k =
     (case lease_lookup d k of None \<Rightarrow> None | Some l \<Rightarrow> if p l then Some l else None)"
  using assms by (simp add: lease_lookup_def keys_ok_def row_with_filter)

lemma lease_lookup_updated:
  assumes "\<And>l. l_resource_key (f l) = l_resource_key l"
  shows "lease_lookup (d\<lparr>operation_leases := rows_updated p f (operation_leases d)\<rparr>) k =
     map_option (\<lambda>l. if p l then f l else l) (lease_lookup d k)"
  using row_with_updated [of p l_resource_key f "operation_leases d" k] assms
  by (simp add: lease_lookup_def)

text \<open>
  A heartbeat that succeeds was sent by the owner of the current revision; it moves the
  expiry to a full time to live from the clock and changes no other lease.
\<close>

theorem heartbeat_renews_own_lease:
  assumes "keys_ok (db s)" and "heartbeat v key owner rvn ttl s = (Inr lease, s')"
  shows "\<exists>l. lease_lookup (db s) key = Some l \<and> l_owner l = owner \<and> l_lease_revision l = rvn \<and>
     lease = l\<lparr>l_heartbeat_at := e_clock v (clock_reads s),
               l_expires_at := e_clock v (clock_reads s) + ttl\<rparr> \<and>
     lease_lookup (db s') key = Some lease \<and>
     (\<forall>k. k \<noteq> key \<longrightarrow> lease_lookup (db s') k = lease_lookup (db s) k)"
proof -
  let ?f = "\<lambda>l. l\<lparr>l_heartbeat_at := e_clock v (clock_reads s),
     l_expires_at := e_clock v (clock_reads s) + ttl\<rparr>"
  let ?d = "(db s)\<lparr>operation_leases := rows_updated (lease_matches key owner rvn) ?f
     (operation_leases (db s))\<rparr>"
  have one: "length (filter (lease_matches key owner rvn) (operation_leases (db s))) = 1"
    and d: "db s' = ?d" and lease: "lease_lookup ?d key = Some lease"
    using assms(2)
    by (auto simp: heartbeat_def bind_run andthen_run clock_run read_db_def write_db_def throw_run
        get_lease_run ret_run advance_def assert_some_Inr split: if_splits)
  have new: "lease_lookup ?d k = map_option (\<lambda>l. if lease_matches key owner rvn l then ?f l else l)
      (lease_lookup (db s) k)" for k
    by (rule lease_lookup_updated) simp
  obtain l where l: "lease_lookup (db s) key = Some l" "l_owner l = owner" "l_lease_revision l = rvn"
    using matched_lease [OF assms(1) one] by blast
  have other: "lease_lookup ?d k = lease_lookup (db s) k" if "k \<noteq> key" for k
    using that unfolding new
    by (cases "lease_lookup (db s) k") (auto simp: lease_matches_def dest: lease_lookup_key)
  have "lease = ?f l"
    using lease l lease_lookup_key [OF l(1)] by (simp add: new lease_matches_def)
  with l lease other show ?thesis unfolding d by blast
qed

lemma heartbeat_own:
  fixes s :: "'w sys"
  assumes "keys_ok (db s)" and "lease_lookup (db s) key = Some l" and "l_owner l = owner"
    and "l_lease_revision l = rvn"
  shows "\<exists>lease s'. heartbeat v key owner rvn ttl s = (Inr lease, s') \<and> keys_ok (db s') \<and>
     operations (db s') = operations (db s) \<and> pulses s' = pulses s \<and>
     (\<forall>k. k \<noteq> key \<longrightarrow> lease_lookup (db s') k = lease_lookup (db s) k)"
proof -
  let ?f = "\<lambda>l. l\<lparr>l_heartbeat_at := e_clock v (clock_reads s),
     l_expires_at := e_clock v (clock_reads s) + ttl\<rparr>"
  let ?d = "(db s)\<lparr>operation_leases := rows_updated (lease_matches key owner rvn) ?f
     (operation_leases (db s))\<rparr>"
  let ?s = "s\<lparr>clock_reads := Suc (clock_reads s), db := ?d\<rparr>"
  have new: "lease_lookup ?d k = map_option (\<lambda>l. if lease_matches key owner rvn l then ?f l else l)
      (lease_lookup (db s) k)" for k
    by (rule lease_lookup_updated) simp
  have other: "lease_lookup ?d k = lease_lookup (db s) k" if "k \<noteq> key" for k
    using that unfolding new
    by (cases "lease_lookup (db s) k") (auto simp: lease_matches_def dest: lease_lookup_key)
  have mine: "lease_lookup ?d key = Some (?f l)"
    using new [of key] assms(2-4) lease_lookup_key [OF assms(2)] by (simp add: lease_matches_def)
  have run: "heartbeat v key owner rvn ttl s = (Inr (?f l), ?s)"
    using one_matching_lease [OF assms] mine
    by (simp add: heartbeat_def bind_run andthen_run clock_run read_db_def write_db_def
        get_lease_run ret_run advance_def)
  have "on_db keys_kept s ?s"
    using keys.guar_heartbeat [of v key owner rvn ttl] run unfolding guar_def by (metis snd_conv)
  with assms(1) have "keys_ok ?d" by (simp add: on_db_def keys_kept_def)
  with run other show ?thesis by (intro exI [of _ "?f l"] exI [of _ ?s]) simp
qed

lemma release_Inr:
  assumes "keys_ok (db s)" and "release key owner rvn s = (Inr (), s')"
  shows "(\<exists>l. lease_lookup (db s) key = Some l \<and> l_owner l = owner \<and> l_lease_revision l = rvn) \<and>
     lease_lookup (db s') key = None \<and>
     (\<forall>k. k \<noteq> key \<longrightarrow> lease_lookup (db s') k = lease_lookup (db s) k) \<and>
     operations (db s') = operations (db s) \<and> operation_steps (db s') = operation_steps (db s) \<and>
     keys_ok (db s')"
proof -
  let ?d = "(db s)\<lparr>operation_leases :=
     filter (\<lambda>l. \<not> lease_matches key owner rvn l) (operation_leases (db s))\<rparr>"
  have one: "length (filter (lease_matches key owner rvn) (operation_leases (db s))) = 1"
    and d: "db s' = ?d"
    using assms(2)
    by (auto simp: release_def bind_run andthen_run read_db_def write_db_def throw_run ret_run
        split: if_splits)
  obtain l where l: "lease_lookup (db s) key = Some l" "l_owner l = owner" "l_lease_revision l = rvn"
    using matched_lease [OF assms(1) one] by blast
  have "lease_lookup ?d key = None"
    using l lease_lookup_key [OF l(1)]
    by (simp add: lease_lookup_filter [OF assms(1)] lease_matches_def)
  moreover have "lease_lookup ?d k = lease_lookup (db s) k" if "k \<noteq> key" for k
    using that unfolding lease_lookup_filter [OF assms(1)]
    by (cases "lease_lookup (db s) k") (auto simp: lease_matches_def dest: lease_lookup_key)
  moreover have "keys_ok ?d"
    using keys.D_release [of "db s" key owner rvn] assms(1) by (simp add: keys_kept_def)
  moreover have "operations ?d = operations (db s)" "operation_steps ?d = operation_steps (db s)"
    by simp_all
  ultimately show ?thesis using l unfolding d by blast
qed

text \<open>
  A release that succeeds was made by the owner of the current revision; the resource is
  free afterwards and no other lease changed.
\<close>

theorem release_frees_own_lease:
  assumes "keys_ok (db s)" and "release key owner rvn s = (Inr (), s')"
  shows "(\<exists>l. lease_lookup (db s) key = Some l \<and> l_owner l = owner \<and> l_lease_revision l = rvn) \<and>
     lease_lookup (db s') key = None \<and>
     (\<forall>k. k \<noteq> key \<longrightarrow> lease_lookup (db s') k = lease_lookup (db s) k)"
  using release_Inr [OF assms] by blast

section \<open>Units of work\<close>

lemma unit_Inl:
  assumes "begin_unit v body s = (Inl e, s')"
  shows "db s' = db s \<or> e_open v True (units s) (db s) = Inr (db s')"
  using assms
  by (auto simp: begin_unit_def unit_of_work_def Let_def split: sum.splits prod.splits option.splits)

lemma assert_owned_run:
  "assert_owned key oid owner rvn now s =
     (if owns (db s) key oid owner rvn now then (Inr (), s) else (Inl (OperationConflict (LostFence key)), s))"
  by (simp add: assert_owned_def bind_run read_db_def ret_run throw_run)

lemma foreach_owned_db:
  "foreach ks (\<lambda>k. assert_owned k oid owner (rvn k) now) s = (Inr u, s') \<Longrightarrow> s' = s"
  by (induction ks) (auto simp: ret_run assert_owned_run elim!: andthen_InrE split: if_splits)

section \<open>Several leases at once\<close>

definition leased_to :: "ident \<Rightarrow> ident \<Rightarrow> db \<Rightarrow> ident \<times> int \<Rightarrow> bool" where
  "leased_to oid owner d kn \<longleftrightarrow> (\<exists>l. lease_lookup d (fst kn) = Some l \<and> l_operation_id l = oid \<and>
     l_owner l = owner \<and> l_lease_revision l = snd kn)"

lemma acquire_each_Inr:
  assumes "acquire_each v keys oid owner ttl held acquired s = (Inr out, s')" and "distinct keys"
  shows "\<exists>new. out = acquired @ new \<and> map fst new = filter (\<lambda>k. k \<notin> fst ` set held) keys \<and>
     list_all (leased_to oid owner (db s')) new \<and>
     (\<forall>k. k \<notin> fst ` set new \<longrightarrow> lease_lookup (db s') k = lease_lookup (db s) k)"
  using assms
proof (induction keys arbitrary: acquired s)
  case Nil
  then show ?case by (simp add: ret_run)
next
  case (Cons key keys)
  show ?case
  proof (cases "key \<in> fst ` set held")
    case True
    with Cons.prems Cons.IH [of acquired s] show ?thesis by simp
  next
    case False
    with Cons.prems obtain lease s1 where a: "acquire v key oid owner ttl s = (Inr lease, s1)"
      and rest: "acquire_each v keys oid owner ttl held (acquired @ [(key, l_lease_revision lease)]) s1 = (Inr out, s')"
      by (auto elim: bind_InrE)
    from Cons.IH [OF rest] Cons.prems(2) obtain new where new: "out = acquired @ (key, l_lease_revision lease) # new"
      "map fst new = filter (\<lambda>k. k \<notin> fst ` set held) keys" "list_all (leased_to oid owner (db s')) new"
      "\<forall>k. k \<notin> fst ` set new \<longrightarrow> lease_lookup (db s') k = lease_lookup (db s1) k" by auto
    have "key \<notin> set (map fst new)" using Cons.prems(2) unfolding new(2) by simp
    then have mine: "lease_lookup (db s') key = lease_lookup (db s1) key" using new(4) by simp
    have d1: "lease_lookup (db s1) k = (if k = key then Some lease else lease_lookup (db s) k)" for k
      using acquire_Inr [OF a] by (simp add: with_lease_lookup)
    have "leased_to oid owner (db s') (key, l_lease_revision lease)"
      using mine d1 [of key] acquire_Inr(2) [OF a] by (simp add: leased_to_def)
    with new d1 False show ?thesis
      by (intro exI [of _ "(key, l_lease_revision lease) # new"]) simp
  qed
qed

text \<open>
  Acquiring several resources in one unit of work is all or none: either every requested
  resource that was not already held is leased to the caller under the revision returned, in
  key order, and no other lease changed, or the unit raised and the tables are as before.
\<close>

theorem acquire_many_is_all_or_none:
  assumes "quiet v" and "begin_unit v (acquire_many v keys oid owner ttl held) s = (r, s')"
  shows "case r of Inl e \<Rightarrow> db s' = db s
    | Inr acquired \<Rightarrow> map fst acquired = filter (\<lambda>k. k \<notin> fst ` set held) (sorted_keys keys) \<and>
        list_all (leased_to oid owner (db s')) acquired \<and>
        (\<forall>k. k \<notin> fst ` set acquired \<longrightarrow> lease_lookup (db s') k = lease_lookup (db s) k)"
proof (cases r)
  case (Inl e)
  with assms unit_Inl [of v "acquire_many v keys oid owner ttl held" s e s'] show ?thesis
    by (auto simp: quiet_def)
next
  case (Inr acquired)
  with assms obtain s1 :: "'a sys" and u where asserted:
    "foreach (held_keys held) (\<lambda>key. assert_owned key oid owner (held_revision held key) (e_clock v (clock_reads s)))
       (s\<lparr>units := Suc (units s), clock_reads := Suc (clock_reads s)\<rparr>) = (Inr u, s1)"
    and each: "acquire_each v (sorted_keys keys) oid owner ttl held [] s1 = (Inr acquired, s')"
    by (auto simp: quiet_def begin_unit_def unit_of_work_def Let_def acquire_many_def bind_run clock_run
        split: prod.splits sum.splits elim!: andthen_InrE)
  have "db s1 = db s" using foreach_owned_db [OF asserted] by simp
  with acquire_each_Inr [OF each] Inr show ?thesis by auto
qed

section \<open>The worker-host lock\<close>

lemma get_lock_run: "get_lock s = (Inr (worker_lock (db s)), s)"
  by (simp add: get_lock_def read_db_def)

text \<open>
  While a profile's lock is live, starting another worker host is refused and nothing is
  written; a host that starts holds the lock afterwards, under a revision later than any
  the previous holder had.
\<close>

theorem one_live_host_per_profile:
  assumes "e_open (h_env h) True (units s) (db s) = Inr (db s)"
  shows "(\<forall>k. worker_lock (db s) = Some k \<longrightarrow> k_expires_at k > e_clock (h_env h) (clock_reads s) \<longrightarrow>
       (\<exists>s'. acquire_profile_lock h hs s = (Inl WorkerStartRefused, s') \<and> db s' = db s)) \<and>
    (\<forall>hs' s'. acquire_profile_lock h hs s = (Inr hs', s') \<longrightarrow>
       (\<exists>k. worker_lock (db s') = Some k \<and> k_owner k = h_worker_id h \<and>
          hs_lock_revision hs' = Some (k_lease_revision k) \<and>
          (\<forall>k0. worker_lock (db s) = Some k0 \<longrightarrow> k_lease_revision k = k_lease_revision k0 + 1)))"
proof (intro conjI allI impI)
  fix k assume "worker_lock (db s) = Some k" "k_expires_at k > e_clock (h_env h) (clock_reads s)"
  with assms show "\<exists>s'. acquire_profile_lock h hs s = (Inl WorkerStartRefused, s') \<and> db s' = db s"
    by (simp add: acquire_profile_lock_def begin_unit_def unit_of_work_def Let_def bind_run
        get_lock_run clock_run ret_run throw_run)
next
  fix hs' s' assume run: "acquire_profile_lock h hs s = (Inr hs', s')"
  show "\<exists>k. worker_lock (db s') = Some k \<and> k_owner k = h_worker_id h \<and>
      hs_lock_revision hs' = Some (k_lease_revision k) \<and>
      (\<forall>k0. worker_lock (db s) = Some k0 \<longrightarrow> k_lease_revision k = k_lease_revision k0 + 1)"
    using run assms
    by (cases "worker_lock (db s)")
      (auto simp: acquire_profile_lock_def begin_unit_def unit_of_work_def Let_def bind_run
        andthen_run get_lock_run clock_run ret_run throw_run handle_def acquire_lock_def
        require_lock_def write_db_def is_exception_def split: if_splits option.splits)
qed

end
