(* ===== verification/Call_Log.thy ===== *)
theory Call_Log
  imports Promises
begin

text \<open>
  What the log of external calls shows: an effect is called only after its intent is
  durable (the step row is \<^verbatim>\<open>RUNNING\<close> under the very effect identifier the
  callable receives), and the paths that cancel or compensate call no effect at all.
\<close>

section \<open>Relations\<close>

definition steps_same :: "ident \<Rightarrow> db \<Rightarrow> db \<Rightarrow> bool" where
  "steps_same oid d d' \<longleftrightarrow> (\<forall>key. step_lookup d' oid key = step_lookup d oid key)"

definition intent_row :: "db \<Rightarrow> ident \<Rightarrow> ident \<Rightarrow> ident \<Rightarrow> bool" where
  "intent_row d oid key effect_id \<longleftrightarrow> (\<exists>r. step_lookup d oid key = Some r \<and>
     s_state r = S_RUNNING \<and> s_external_effect_id r = Some effect_id)"

definition intent_recorded :: "call \<Rightarrow> bool" where
  "intent_recorded c \<longleftrightarrow> (c_kind c = CallExecute \<longrightarrow>
     intent_row (c_db c) (c_operation c) (c_step c) (c_effect_id c))"

definition no_effect_call :: "call \<Rightarrow> bool" where
  "no_effect_call c \<longleftrightarrow> c_kind c \<noteq> CallExecute"

definition sound_log :: "(call \<Rightarrow> bool) \<Rightarrow> 'w sys \<Rightarrow> 'w sys \<Rightarrow> bool" where
  "sound_log P s s' \<longleftrightarrow> (keys_ok (db s) \<longrightarrow> keys_ok (db s') \<and> logs_only P s s')"

lemma logs_only_refl: "calls s' = calls s \<Longrightarrow> logs_only P s s'"
  by (simp add: logs_only_def)

lemma logs_only_trans: "logs_only P s s' \<Longrightarrow> logs_only P s' s'' \<Longrightarrow> logs_only P s s''"
  by (auto simp: logs_only_def)

lemma promise_sound_log: "promise (sound_log P)"
  by unfold_locales (auto simp: sound_log_def logs_only_def)

lemma sound_log_write: "keys_kept (db s) d' \<Longrightarrow> sound_log P s (s\<lparr>db := d'\<rparr>)"
  by (auto simp: sound_log_def keys_kept_def logs_only_refl)

lemma sound_log_call: "P c \<Longrightarrow> sound_log P s (s\<lparr>calls := calls s @ [c]\<rparr>)"
  by (simp add: sound_log_def logs_only_def)

lemma store_writes_sound_log:
  assumes "\<And>c. c_kind c \<noteq> CallExecute \<Longrightarrow> P c"
  shows "store_writes (sound_log P)"
proof (intro store_writes.intro operation_writes.intro
    operation_writes_axioms.intro store_writes_axioms.intro promise_sound_log)
qed (rule sound_log_write, erule keys.D_transition, rule sound_log_write, erule keys.D_cancel,
    rule sound_log_write, rule keys.D_progress, rule sound_log_write, rule keys.D_dismiss,
    rule sound_log_write, erule (1) keys.D_insert_op, rule sound_log_write, erule keys.D_event,
    rule sound_log_write, erule keys.D_fresh_lease, rule sound_log_write, rule keys.D_takeover,
    rule sound_log_write, rule keys.D_heartbeat, rule sound_log_write, rule keys.D_release,
    rule sound_log_write, rule keys.D_lock, rule sound_log_call, erule assms,
    rule sound_log_write, erule (1) keys.D_insert_step, rule sound_log_write, erule (1) keys.D_step)

interpretation rows: operation_writes "on_db (steps_same oid)" for oid
proof (intro operation_writes.intro operation_writes_axioms.intro)
  show "promise (on_db (steps_same oid))"
    by (rule promise_on_db) (simp_all add: steps_same_def)
qed (simp_all add: on_db_def steps_same_def step_lookup_def)

interpretation intent: store_writes "sound_log intent_recorded"
  by (rule store_writes_sound_log) (simp add: intent_recorded_def)

interpretation effectless: store_writes "sound_log no_effect_call"
  by (rule store_writes_sound_log) (simp add: no_effect_call_def)

section \<open>What the intent transaction leaves behind\<close>

definition ensures :: "('w sys \<Rightarrow> bool) \<Rightarrow> ('w, 'a) prog \<Rightarrow> ('a \<Rightarrow> 'w sys \<Rightarrow> bool) \<Rightarrow> bool" where
  "ensures P m Q \<longleftrightarrow> (\<forall>s x s'. P s \<longrightarrow> m s = (Inr x, s') \<longrightarrow> Q x s')"

lemma ensures_bind:
  "ensures P m A \<Longrightarrow> (\<And>x. ensures (A x) (f x) Q) \<Longrightarrow> ensures P (bind m f) Q"
  by (fastforce simp: ensures_def bind_def split: prod.splits sum.splits)

lemma ensures_andthen: "ensures P m (\<lambda>_. A) \<Longrightarrow> ensures A n Q \<Longrightarrow> ensures P (andthen m n) Q"
  by (simp add: andthen_def ensures_bind)

lemma ensures_ret: "(\<And>s. P s \<Longrightarrow> Q x s) \<Longrightarrow> ensures P (ret x) Q"
  by (simp add: ensures_def prog_simps)

lemma ensures_throw: "ensures P (throw e) Q"
  by (simp add: ensures_def prog_simps)

lemma ensures_guar: "guar R m \<Longrightarrow> (\<And>s s'. A s \<Longrightarrow> R s s' \<Longrightarrow> A s') \<Longrightarrow> ensures A m (\<lambda>_. A)"
  by (auto simp: ensures_def dest: guarD)

lemma ensures_unit:
  assumes "env_keeps R v" and "\<And>s s'. P s \<Longrightarrow> R s s' \<Longrightarrow> P s'"
    and "\<And>s n. P s \<Longrightarrow> P (s\<lparr>units := n\<rparr>)" and "ensures P body Q"
  shows "ensures P (begin_unit v body) Q"
  unfolding ensures_def
proof (intro allI impI)
  fix s x s'
  assume P: "P s" and run: "begin_unit v body s = (Inr x, s')"
  let ?s0 = "s\<lparr>units := Suc (units s)\<rparr>"
  from run obtain d where d: "e_open v True (units s) (db s) = Inr d"
    by (cases "e_open v True (units s) (db s)") (auto simp: begin_unit_def unit_of_work_def Let_def)
  with run have body: "body (?s0\<lparr>db := d\<rparr>) = (Inr x, s')"
    by (auto simp: begin_unit_def unit_of_work_def Let_def split: prod.splits sum.splits option.splits)
  have "P (?s0\<lparr>db := d\<rparr>)"
    using assms(2) [of ?s0 "?s0\<lparr>db := d\<rparr>"] assms(1,3) P d
    by (auto simp: env_keeps_def)
  with assms(4) body show "Q x s'" by (auto simp: ensures_def)
qed

definition ready :: "'w effect_ctx \<Rightarrow> 'w sys \<Rightarrow> bool" where
  "ready ctx s \<longleftrightarrow> keys_ok (db s) \<and>
     intent_row (db s) (x_operation_id ctx) (x_step_key ctx) (x_external_effect_id ctx)"

lemma ready_kept:
  "ready ctx s \<Longrightarrow> on_db (steps_same (x_operation_id ctx)) s s' \<Longrightarrow> on_db keys_kept s s' \<Longrightarrow> ready ctx s'"
  by (simp add: ready_def intent_row_def on_db_def steps_same_def keys_kept_def)

lemma cas_step_ensures:
  assumes "same_identity extra"
  shows "ensures (\<lambda>s. keys_ok (db s)) (cas_step oid key expected target extra)
     (\<lambda>r s. keys_ok (db s) \<and> step_lookup (db s) oid key = Some r \<and>
        (\<exists>r0. r = (extra r0)\<lparr>s_state := target\<rparr>))"
  unfolding ensures_def
proof (intro allI impI)
  fix s :: "'w sys" and r s'
  let ?p = "\<lambda>r. step_key_of r = (oid, key) \<and> s_state r = expected"
  let ?f = "\<lambda>r. (extra r)\<lparr>s_state := target\<rparr>"
  let ?rows = "operation_steps (db s)"
  assume keys: "keys_ok (db s)" and run: "cas_step oid key expected target extra s = (Inr r, s')"
  have count: "length (filter ?p ?rows) = 1"
    and db': "db s' = (db s)\<lparr>operation_steps := rows_updated ?p ?f ?rows\<rparr>"
    and look: "step_lookup (db s') oid key = Some r"
    using run
    by (auto simp: cas_step_def prog_simps update_steps_def read_db_def write_db_def
        require_step_def get_step_def assert_step_transition_def
        split: if_splits option.splits)
  from count obtain r0 where "r0 \<in> set (filter ?p ?rows)"
    by (cases "filter ?p ?rows") auto
  then have r0: "r0 \<in> set ?rows" "step_key_of r0 = (oid, key)" "?p r0" by auto
  have "row_with step_key_of ?rows (oid, key) = Some r0"
    using keys row_with_in_distinct [OF _ r0(1), of step_key_of] r0(2) by (simp add: keys_ok_def)
  then have "r = ?f r0"
    using look r0(3) assms
    by (simp add: db' step_lookup_def row_with_updated step_key_of_def same_identity_def)
  moreover have "keys_ok (db s')"
    using keys keys_steps_update [OF assms, of "db s" ?p target] by (simp add: db' keys_kept_def)
  ultimately show "keys_ok (db s') \<and> step_lookup (db s') oid key = Some r \<and> (\<exists>r0. r = ?f r0)"
    using look by blast
qed

lemma sound_log_keys: "sound_log P s s' \<Longrightarrow> keys_ok (db s) \<Longrightarrow> keys_ok (db s')"
  by (simp add: sound_log_def)

lemma engine_env: "engine_keeps R g \<Longrightarrow> env_keeps R (en_env g)"
  by (simp add: engine_keeps_def)

abbreviation row_started :: "ident \<Rightarrow> ident \<Rightarrow> ident \<Rightarrow> 'w sys \<Rightarrow> bool" where
  "row_started oid key eid s \<equiv> keys_ok (db s) \<and> intent_row (db s) oid key eid"

lemma row_started_kept:
  "row_started oid key eid s \<Longrightarrow> on_db (steps_same oid) s s' \<Longrightarrow> sound_log P s s' \<Longrightarrow>
    row_started oid key eid s'"
  by (simp add: intent_row_def on_db_def steps_same_def sound_log_def)

lemma row_started_stable:
  assumes "guar (on_db (steps_same oid)) m" and "guar (sound_log P) m"
  shows "ensures (row_started oid key eid) m (\<lambda>_. row_started oid key eid)"
  unfolding ensures_def
  by (metis assms guarD row_started_kept)

lemma ensures_keys: "guar (sound_log P) m \<Longrightarrow> ensures (\<lambda>s. keys_ok (db s)) m (\<lambda>_ s. keys_ok (db s))"
  unfolding ensures_def by (metis guarD sound_log_keys)

lemma ensures_weaken: "ensures P m Q \<Longrightarrow> (\<And>x s. Q x s \<Longrightarrow> Q' x s) \<Longrightarrow> ensures P m Q'"
  by (auto simp: ensures_def)

lemma start_step_ensures:
  "ensures (\<lambda>s. keys_ok (db s)) (start_step v oid key (Some eid) reclaim input)
     (\<lambda>_. row_started oid key eid)"
proof -
  have cas: "ensures (\<lambda>s. keys_ok (db s)) (cas_step oid key e S_RUNNING (started now (Some eid) i))
     (\<lambda>_. row_started oid key eid)" for e now i
    by (rule ensures_weaken [OF cas_step_ensures])
      (auto simp: same_identity_def started_def intent_row_def given_def)
  note k = ensures_keys [where P = intent_recorded]
  show ?thesis
    unfolding start_step_def
    by (intro ensures_bind [OF k] ensures_throw) (auto intro!: ensures_bind [OF k]
        ensures_throw cas intent.guar_require_step intent.guar_clock intent.guar_sanitized_opt)
qed

lemma write_intent_ensures:
  assumes "engine_keeps (sound_log P) g"
  shows "ensures (\<lambda>s. keys_ok (db s)) (write_intent g oid step held reclaim eid inputs)
     (\<lambda>_. row_started oid (sd_key step) eid)"
  unfolding write_intent_def in_unit_def
proof (rule ensures_unit [OF engine_env [OF assms]])
  have ev: "ensures (row_started oid (sd_key step) eid) (event g oid code summary detail progress)
      (\<lambda>_. row_started oid (sd_key step) eid)" for code summary detail progress
    by (rule row_started_stable [OF rows.guar_event intent.guar_event])
  show "ensures (\<lambda>s. keys_ok (db s)) (andthen (fence g oid held)
       (bind (start_step (en_env g) oid (sd_key step) (Some eid) reclaim (Some inputs)) (\<lambda>row.
        event g oid (if reclaim then ''STEP_RECLAIMED'' else ''STEP_STARTED'')
          (''step '' @ sd_key step @ '' '' @ (if reclaim then ''reclaimed'' else ''started'')
             @ '' (attempt '' @ int_text (s_attempts row) @ '')'')
          (Some (JObj [(''external_effect_id'', jstr eid), (''phase'', jstr (sd_phase step))]))
          None))) (\<lambda>_. row_started oid (sd_key step) eid)"
    by (intro ensures_andthen [OF ensures_keys [OF intent.guar_fence]]
        ensures_bind [OF start_step_ensures] ev)
qed (auto dest: sound_log_keys)

lemma ensures_pure: "ensures P (lift r) (\<lambda>_. P)"
  by (simp add: ensures_def prog_simps)

lemma intent_transaction_ensures:
  assumes "engine_keeps (sound_log intent_recorded) g"
  shows "ensures (\<lambda>s. keys_ok (db s)) (intent_transaction g oid step decoded held reclaim prior)
     (\<lambda>ctx s. x_operation_id ctx = oid \<and> ready ctx s)"
proof -
  note k = ensures_keys [where P = intent_recorded]
  have p: "ensures (row_started oid (sd_key step) eid) (make_pulse g oid held)
      (\<lambda>_. row_started oid (sd_key step) eid)" for eid
    by (rule row_started_stable [OF rows.guar_make_pulse intent.guar_make_pulse])
  show ?thesis
    unfolding intent_transaction_def split_def
    by (rule ensures_andthen [OF k] ensures_andthen [OF write_intent_ensures [OF assms]]
        ensures_bind [OF p] ensures_bind [OF k] ensures_ret
        intent.guar_ensure_running intent.guar_crash intent.guar_read_intent
        intent.guar_uuid intent.guar_lift intent.guar_ret intent.guar_case_option assms)+
      (auto intro!: guar_intros simp: ready_def)
qed

section \<open>Guarantees from a state\<close>

definition guar_from :: "('w sys \<Rightarrow> bool) \<Rightarrow> ('w sys \<Rightarrow> 'w sys \<Rightarrow> bool) \<Rightarrow> ('w, 'a) prog \<Rightarrow> bool" where
  "guar_from A R m \<longleftrightarrow> (\<forall>s. A s \<longrightarrow> R s (snd (m s)))"

lemma from_guar: "guar R m \<Longrightarrow> guar_from A R m"
  by (simp add: guar_def guar_from_def)

lemma guar_of_keys: "guar_from (\<lambda>s. keys_ok (db s)) (sound_log P) m \<Longrightarrow> guar (sound_log P) m"
  by (simp add: guar_def guar_from_def sound_log_def)

context promise
begin

lemma from_bind:
  assumes "guar_from A R m" and "ensures A m B" and "\<And>x. guar_from (B x) R (f x)"
  shows "guar_from A R (bind m f)"
  unfolding guar_from_def
proof (intro allI impI)
  fix s assume A: "A s"
  obtain r s' where m: "m s = (r, s')" by (cases "m s")
  have 1: "R s s'" using assms(1) A m by (fastforce simp: guar_from_def)
  show "R s (snd (bind m f s))"
  proof (cases r)
    case (Inl e)
    with m 1 show ?thesis by (simp add: bind_def)
  next
    case (Inr x)
    with assms(2) A m have "B x s'" by (auto simp: ensures_def)
    with assms(3) have "R s' (snd (f x s'))" by (auto simp: guar_from_def)
    with 1 have "R s (snd (f x s'))" by (rule R_trans)
    with m Inr show ?thesis by (simp add: bind_def)
  qed
qed

lemma from_bind_any:
  "guar_from A R m \<Longrightarrow> (\<And>x. guar R (f x)) \<Longrightarrow> guar_from A R (bind m f)"
  by (rule from_bind [where B = "\<lambda>_ _. True"]) (auto simp: ensures_def intro: from_guar)

lemma from_andthen:
  "guar_from A R m \<Longrightarrow> ensures A m (\<lambda>_. B) \<Longrightarrow> guar_from B R n \<Longrightarrow> guar_from A R (andthen m n)"
  unfolding andthen_def by (rule from_bind)

lemma from_andthen_any: "guar_from A R m \<Longrightarrow> guar R n \<Longrightarrow> guar_from A R (andthen m n)"
  unfolding andthen_def by (rule from_bind_any)

lemma from_guarded:
  assumes "guar_from A R m" and "\<And>e n. handler e = Some n \<Longrightarrow> guar R n"
  shows "guar_from A R (guarded handler m)"
  unfolding guar_from_def
proof (intro allI impI)
  fix s assume A: "A s"
  obtain r s' where m: "m s = (r, s')" by (cases "m s")
  have 1: "R s s'" using assms(1) A m by (fastforce simp: guar_from_def)
  have "R s (snd (bind n (\<lambda>out. ret (Inl out)) s'))" if "handler e = Some n" for e n
    using guar_bind [OF assms(2) [OF that] guar_ret] 1 by (auto simp: guar_def intro: R_trans)
  with m 1 show "R s (snd (guarded handler m s))"
    by (auto simp: guarded_def handle_def bind_run ret_run split: sum.splits option.splits)
qed

end

section \<open>Advancing a step logs sound effect calls\<close>

lemma ready_stable:
  assumes "x_operation_id ctx = oid"
    and "guar (on_db (steps_same oid)) m" and "guar (sound_log intent_recorded) m"
  shows "ensures (ready ctx) m (\<lambda>_. ready ctx)"
  using row_started_stable [OF assms(2,3)] assms(1) unfolding ready_def by simp

lemma execute_call_from:
  assumes "guar (sound_log intent_recorded) (f ctx)"
  shows "guar_from (ready ctx) (sound_log intent_recorded) (call_step CallExecute f ctx)"
  unfolding call_step_def
  by (intro intent.from_andthen_any assms)
    (simp add: guar_from_def log_call_def sound_log_call intent_recorded_def ready_def)

lemma attempt_effect_from:
  assumes "engine_keeps (sound_log intent_recorded) g" "workflow_keeps (sound_log intent_recorded) w"
    "step_keeps (sound_log intent_recorded) st" "ctx_keeps (sound_log intent_recorded) ctx"
  shows "guar_from (ready ctx) (sound_log intent_recorded)
     (attempt_effect g oid w decoded held st ctx hooks effected)"
proof -
  have ex: "guar (sound_log intent_recorded) (sd_execute st ctx)"
    using assms(3,4) by (simp add: step_keeps_def)
  have eff: "guar_from (ready ctx) (sound_log intent_recorded) (effect_part g oid held st ctx hooks)"
    unfolding effect_part_def
    by (intro intent.from_bind_any execute_call_from ex) (intro guar_intros assms)
  have ver: "guar (sound_log intent_recorded)
      (guarded (effect_handler g oid w decoded held st (with_output ctx k x))
        (verification_part g oid held st (with_output ctx k x) hooks))" for k x
    by (intro intent.guar_guarded intent.guar_verification_part intent.with_output_keeps assms)
      (rule intent.guar_effect_handler [OF assms(1-3) intent.with_output_keeps [OF assms(4)]])
  show ?thesis
    unfolding attempt_effect_def Let_def
    by (intro intent.from_bind_any intent.from_guarded eff)
      (auto intro!: intent.guar_bind intent.guar_ret ver
        intro: intent.guar_effect_handler [OF assms] split: sum.split)
qed

lemma execute_effect_from:
  assumes "engine_keeps (sound_log intent_recorded) g" "workflow_keeps (sound_log intent_recorded) w"
    "step_keeps (sound_log intent_recorded) st" "ctx_keeps (sound_log intent_recorded) ctx"
    and "engine_keeps (on_db (steps_same oid)) g" and "x_operation_id ctx = oid"
  shows "guar_from (ready ctx) (sound_log intent_recorded)
     (execute_effect g oid w decoded held st ctx hooks effected)"
proof -
  let ?enter = "if sd_critical st then enter_critical g oid held else ret True"
  have log: "guar (sound_log intent_recorded) ?enter"
    by (intro intent.guar_if intent.guar_enter_critical intent.guar_ret assms)
  have same: "guar (on_db (steps_same oid)) ?enter"
    by (intro rows.guar_if rows.guar_enter_critical rows.guar_ret assms)
  have "guar (sound_log intent_recorded)
      (bind (honor_cancellation g oid w decoded held) (\<lambda>out. ret (Inl out)))"
    by (intro intent.guar_bind intent.guar_honor_cancellation intent.guar_ret assms)
  then show ?thesis
    unfolding execute_effect_def
    by (intro intent.from_bind [OF from_guar [OF log] ready_stable [OF assms(6) same log]])
      (auto intro: from_guar attempt_effect_from assms)
qed

lemma apply_decision_from:
  assumes "engine_keeps (sound_log intent_recorded) g" "workflow_keeps (sound_log intent_recorded) w"
    "step_keeps (sound_log intent_recorded) st" "ctx_keeps (sound_log intent_recorded) ctx"
    and "engine_keeps (on_db (steps_same oid)) g" and "x_operation_id ctx = oid"
  shows "guar_from (ready ctx) (sound_log intent_recorded)
     (apply_recovery_decision g oid w decoded st ctx probe decision held effected)"
proof (cases "d_action decision")
  case ROLL_BACK
  then show ?thesis
    unfolding apply_recovery_decision_def
    by (auto intro!: from_guar intent.guar_andthen intent.guar_bind intent.guar_enter_rollback
        intent.guar_compensate_and_finalize intent.guar_ret assms)
qed (auto simp: apply_recovery_decision_def
    intro!: from_guar [OF intent.guar_recovered_step] from_guar [OF intent.guar_bind]
      intent.guar_pause_op intent.guar_require_recovery intent.guar_ret
      execute_effect_from assms)

lemma reclaim_step_from:
  assumes "engine_keeps (sound_log intent_recorded) g" "workflow_keeps (sound_log intent_recorded) w"
    "step_keeps (sound_log intent_recorded) st" "ctx_keeps (sound_log intent_recorded) ctx"
    and "engine_keeps (on_db (steps_same oid)) g" "step_keeps (on_db (steps_same oid)) st"
    "ctx_keeps (on_db (steps_same oid)) ctx" and "x_operation_id ctx = oid"
  shows "guar_from (ready ctx) (sound_log intent_recorded)
     (reclaim_step g oid w decoded st ctx held effected)"
proof -
  have probe: "guar (sound_log intent_recorded) (sd_probe st ctx)"
    "guar (on_db (steps_same oid)) (sd_probe st ctx)"
    using assms by (auto simp: step_keeps_def)
  have crash: "ensures (ready ctx) (en_crash g k p) (\<lambda>_. ready ctx)" for k p
    by (intro ready_stable [OF assms(8)] rows.guar_crash intent.guar_crash assms)
  have call: "ensures (ready ctx) (call_step CallProbe (sd_probe st) ctx) (\<lambda>_. ready ctx)"
    by (intro ready_stable [OF assms(8)] rows.guar_call_step intent.guar_call_step probe) simp_all
  let ?unit = "\<lambda>summary detail. in_unit g (andthen (bind (require_op oid) (\<lambda>_. ret ()))
      (andthen (fence g oid held) (event g oid ''RECOVERY_DECISION'' summary detail None)))"
  have log: "guar (sound_log intent_recorded) (?unit summary detail)" for summary detail
    by (intro guar_intros assms)
  have "guar (on_db (steps_same oid)) (?unit summary detail)" for summary detail
    by (intro guar_intros assms)
  then have unit: "ensures (ready ctx) (?unit summary detail) (\<lambda>_. ready ctx)" for summary detail
    using log by (rule ready_stable [OF assms(8)])
  show ?thesis
    unfolding reclaim_step_def Let_def
    by (intro intent.from_andthen [OF _ crash] intent.from_bind [OF _ call]
        intent.from_andthen [OF _ unit] apply_decision_from
        from_guar [OF intent.guar_crash] from_guar [OF intent.guar_call_step] from_guar [OF log]
        probe assms) simp
qed

lemma ensures_conj: "ensures P m Q \<Longrightarrow> yields A m \<Longrightarrow> ensures P m (\<lambda>x s. A x \<and> Q x s)"
  by (auto simp: ensures_def yields_def)

lemma advance_step_logs:
  assumes "engine_keeps (sound_log intent_recorded) g" "workflow_keeps (sound_log intent_recorded) w"
    "step_keeps (sound_log intent_recorded) st"
    and "engine_keeps (on_db (steps_same oid)) g" "step_keeps (on_db (steps_same oid)) st"
  shows "guar (sound_log intent_recorded) (advance_step g oid w decoded st row held effected)"
proof (rule guar_of_keys)
  let ?I = "sound_log intent_recorded" and ?S = "on_db (steps_same oid)"
  let ?good = "\<lambda>ctx. ctx_keeps ?I ctx \<and> ctx_keeps ?S ctx"
  let ?B = "\<lambda>(ctx :: 'a effect_ctx) s. ?good ctx \<and> x_operation_id ctx = oid \<and> ready ctx s"
  have ctx: "ensures (\<lambda>s. keys_ok (db s)) (intent_transaction g oid st decoded held reclaim prior) ?B"
    for reclaim prior
  proof (rule ensures_conj [OF intent_transaction_ensures [OF assms(1)]])
    show "yields ?good (intent_transaction g oid st decoded held reclaim prior)"
      using intent.yields_intent_transaction [OF assms(1), of oid st decoded held reclaim prior]
        rows.yields_intent_transaction [OF assms(4), of oid st decoded held reclaim prior]
      by (fastforce simp: yields_def)
  qed
  have ver: "guar ?I (sd_verify st (row_ctx g oid row k prior decoded held))" for k prior
    using assms(3) by (simp add: step_keeps_def)
  have run: "guar_from (?B ctx) ?I
      (if s_state row = S_RUNNING then reclaim_step g oid w decoded st ctx held effected
       else andthen (en_crash g (sd_key st) ''after_step_start'')
         (execute_effect g oid w decoded held st ctx True effected))" for ctx
  proof (cases "?good ctx \<and> x_operation_id ctx = oid")
    case True
    then have good: "ctx_keeps ?I ctx" "ctx_keeps ?S ctx" "x_operation_id ctx = oid" by auto
    have crash: "ensures (ready ctx) (en_crash g (sd_key st) ''after_step_start'') (\<lambda>_. ready ctx)"
      by (intro ready_stable [OF good(3)] rows.guar_crash intent.guar_crash assms)
    have "guar_from (ready ctx) ?I (execute_effect g oid w decoded held st ctx True effected)"
      by (rule execute_effect_from [OF assms(1-3) good(1) assms(4) good(3)])
    then have "guar_from (ready ctx) ?I (andthen (en_crash g (sd_key st) ''after_step_start'')
         (execute_effect g oid w decoded held st ctx True effected))"
      by (rule intent.from_andthen [OF from_guar [OF intent.guar_crash [OF assms(1)]] crash])
    moreover have "guar_from (ready ctx) ?I (reclaim_step g oid w decoded st ctx held effected)"
      by (intro reclaim_step_from assms good)
    ultimately show ?thesis by (simp add: guar_from_def)
  qed (auto simp: guar_from_def)
  have intent: "guar_from (\<lambda>s. keys_ok (db s)) ?I
      (bind (intent_transaction g oid st decoded held (s_state row = S_RUNNING) prior) (\<lambda>ctx.
        if s_state row = S_RUNNING then reclaim_step g oid w decoded st ctx held effected
        else andthen (en_crash g (sd_key st) ''after_step_start'')
          (execute_effect g oid w decoded held st ctx True effected)))" for prior
    by (intro intent.from_bind [OF from_guar [OF intent.guar_intent_transaction] ctx run] assms)
  have branch: "guar_from (\<lambda>s. keys_ok (db s)) ?I
     (if s_state row = S_VERIFIED then ret (Inr effected)
      else if s_state row = S_CHECKPOINTED then
        andthen (bind (call_step CallVerify (sd_verify st)
                  (row_ctx g oid row (sd_key st) prior decoded held)) (\<lambda>_. ret ()))
        (andthen (verify_transaction g oid st held) (ret (Inr effected)))
      else bind (intent_transaction g oid st decoded held (s_state row = S_RUNNING) prior) (\<lambda>ctx.
        if s_state row = S_RUNNING then reclaim_step g oid w decoded st ctx held effected
        else andthen (en_crash g (sd_key st) ''after_step_start'')
          (execute_effect g oid w decoded held st ctx True effected)))" for prior
    using intent by (auto intro!: from_guar [OF intent.guar_ret] from_guar [OF intent.guar_andthen]
        intent.guar_bind intent.guar_call_step intent.guar_andthen intent.guar_verify_transaction
        intent.guar_ret ver assms)
  show "guar_from (\<lambda>s. keys_ok (db s)) ?I (advance_step g oid w decoded st row held effected)"
    unfolding advance_step_def Let_def
    by (intro intent.from_bind [OF from_guar [OF intent.guar_prior_outputs]
          ensures_keys [OF intent.guar_prior_outputs] branch] assms)
qed

lemma execute_one_logs:
  assumes "engine_keeps (sound_log intent_recorded) g" "engine_keeps (on_db (steps_same oid)) g"
  shows "guar (sound_log intent_recorded) (execute_one g oid)"
proof (intro intent.guar_execute_one assms(1))
  fix w :: "'a workflow_def"
  assume w: "registered g w"
  then show "advances (sound_log intent_recorded) g oid w"
    unfolding advances_def
    using registered_workflow_keeps [OF assms(1) w] registered_workflow_keeps [OF assms(2) w]
    by (auto intro!: advance_step_logs assms dest: intent.workflow_step_keeps rows.workflow_step_keeps)
qed

end
