(* ===== verification/Engine_Facts.thy ===== *)
theory Engine_Facts
  imports Lease_Facts Call_Log
begin

text \<open>
  The engine's guarantees about a single unit: the fence in front of every owner-sensitive
  write, the barrier that keeps leases, what failure classification does with a step that
  cannot be compensated, and the moves the transition table denies to a cancelled operation.
\<close>

section \<open>Running inside a quiet unit\<close>

definition stopped :: "('w, 'a) prog \<Rightarrow> 'w sys \<Rightarrow> bool" where
  "stopped m s \<longleftrightarrow> (\<exists>e s'. m s = (Inl e, s') \<and> db s' = db s)"

lemma stopped_unit:
  assumes "e_open v True (units s) (db s) = Inr (db s)"
    and "\<exists>e s'. body (s\<lparr>units := Suc (units s)\<rparr>) = (Inl e, s')"
  shows "stopped (begin_unit v body) s"
  using assms
  by (auto simp: stopped_def begin_unit_def unit_of_work_def Let_def split: sum.splits prod.splits)

lemma stopped_andthen: "stopped m s \<Longrightarrow> stopped (andthen m n) s"
  by (auto simp: stopped_def andthen_run)

lemma foreach_owned:
  "(\<forall>k \<in> set ks. owns (db s) k oid owner (rvn k) now) \<Longrightarrow>
     foreach ks (\<lambda>k. assert_owned k oid owner (rvn k) now) s = (Inr (), s)"
  "\<not> (\<forall>k \<in> set ks. owns (db s) k oid owner (rvn k) now) \<Longrightarrow>
     \<exists>k. foreach ks (\<lambda>k. assert_owned k oid owner (rvn k) now) s = (Inl (OperationConflict (LostFence k)), s)"
  by (induction ks) (auto simp: ret_run andthen_run assert_owned_run)

definition fence_holds :: "'w engine \<Rightarrow> ident \<Rightarrow> held \<Rightarrow> db \<Rightarrow> instant \<Rightarrow> bool" where
  "fence_holds g oid held d now \<longleftrightarrow> (\<forall>k \<in> fst ` set held.
     owns d k oid (en_worker_id g) (held_revision held k) now)"

lemma fence_run:
  "fence_holds g oid held (db s) (e_clock (en_env g) (clock_reads s)) \<Longrightarrow>
     fence g oid held s = (Inr (), s\<lparr>clock_reads := Suc (clock_reads s)\<rparr>)"
  "\<not> fence_holds g oid held (db s) (e_clock (en_env g) (clock_reads s)) \<Longrightarrow>
     \<exists>k. fence g oid held s =
       (Inl (OperationConflict (LostFence k)), s\<lparr>clock_reads := Suc (clock_reads s)\<rparr>)"
  using foreach_owned [of "held_keys held" "s\<lparr>clock_reads := Suc (clock_reads s)\<rparr>" oid
      "en_worker_id g" "held_revision held" "e_clock (en_env g) (clock_reads s)"]
  by (auto simp: fence_holds_def fence_def bind_run clock_run held_keys_def)

lemma lost_fence_after_read:
  assumes "\<not> fence_holds g oid held (db s) (e_clock (en_env g) (clock_reads s))"
  shows "\<exists>e s'. bind (require_op oid) (\<lambda>r. andthen (fence g oid held) (m r)) s = (Inl e, s')"
    and "\<exists>e s'. andthen (bind (require_op oid) (\<lambda>_. ret ())) (andthen (fence g oid held) n) s = (Inl e, s')"
    and "\<exists>e s'. andthen (fence g oid held) n s = (Inl e, s')"
  using fence_run(2) [OF assms]
  by (auto simp: bind_run andthen_run require_op_run ret_run split: option.splits)

section \<open>The fence\<close>


section \<open>Moves the table denies\<close>

lemma denied_transition:
  assumes "op_lookup (db s) oid = Some row" and "\<not> can_transition (o_state row) target"
  shows "compare_and_transition v oid (o_state row) n target a s =
    (Inl (InvalidTransition (''operation transition '' @ state_value (o_state row) @ '' -> ''
        @ state_value target @ '' is not allowed'')), s)"
  using assms
  by (simp add: compare_and_transition_def bind_run andthen_run require_op_run lift_run
      assert_transition_def)

lemma denied_terminal:
  assumes "op_lookup (db s) oid = Some row" and "\<not> can_transition (o_state row) terminal"
  shows "\<exists>m. record_terminal_result v oid terminal rc rd ec ed es s = (Inl (InvalidTransition m), s)"
  using assms
  by (auto simp: record_terminal_result_def bind_run require_op_run throw_run denied_transition)

lemma quiet_open: "quiet v \<Longrightarrow> e_open v w n d = Inr d"
  by (simp add: quiet_def)

lemma quiet_commit: "quiet v \<Longrightarrow> e_commit v n = None"
  by (simp add: quiet_def)

lemma quiet_unit_run:
  assumes "quiet v"
  shows "begin_unit v body s = (case body (s\<lparr>units := Suc (units s)\<rparr>) of
      (Inl e, s') \<Rightarrow> (Inl e, s'\<lparr>db := db s\<rparr>) | (Inr x, s') \<Rightarrow> (Inr x, s'))"
  using assms
  by (simp add: begin_unit_def unit_of_work_def Let_def quiet_open quiet_commit
      split: prod.split sum.split)

lemma fence_cases:
  obtains "fence g oid held s = (Inr (), s\<lparr>clock_reads := Suc (clock_reads s)\<rparr>)"
  | k where "fence g oid held s =
      (Inl (OperationConflict (LostFence k)), s\<lparr>clock_reads := Suc (clock_reads s)\<rparr>)"
  using fence_run by metis

lemma stopped_terminal_unit:
  assumes "quiet (en_env g)" and "op_lookup (db s) oid = Some row"
    and "\<not> can_transition (o_state row) terminal"
  shows "stopped (in_unit g (andthen (bind (require_op oid) (\<lambda>_. ret ())) (andthen (fence g oid held)
     (bind (record_terminal_result v oid terminal rc rd ec ed es) rest)))) s"
proof -
  let ?s = "s\<lparr>units := Suc (units s)\<rparr>"
  let ?s1 = "?s\<lparr>clock_reads := Suc (clock_reads ?s)\<rparr>"
  obtain m where "record_terminal_result v oid terminal rc rd ec ed es ?s1 = (Inl (InvalidTransition m), ?s1)"
    using denied_terminal [of ?s1 oid row terminal v rc rd ec ed es] assms(2,3) by auto
  with assms(2) show ?thesis
    unfolding stopped_def in_unit_def quiet_unit_run [OF assms(1)]
    by (cases rule: fence_cases [of g oid held ?s])
      (auto simp: andthen_run bind_run require_op_run ret_run)
qed

lemma stopped_terminal_then:
  assumes "quiet (en_env g)" and "op_lookup (db s) oid = Some row"
    and "\<not> can_transition (o_state row) terminal"
  shows "stopped (in_unit g (andthen (bind (require_op oid) (\<lambda>_. ret ())) (andthen (fence g oid held)
     (andthen (bind (record_terminal_result v oid terminal rc rd ec ed es) (\<lambda>_. ret ())) rest)))) s"
proof -
  have eq: "andthen (bind m (\<lambda>_. ret ())) rest = bind m (\<lambda>_. rest)" for m :: "('a, op_row) prog"
    by (simp add: andthen_def bind_assoc)
  show ?thesis
    unfolding eq by (rule stopped_terminal_unit [OF assms])
qed

text \<open>
  A failure that is classified after a cancellation was accepted has no way out of
  \<^verbatim>\<open>CANCEL_REQUESTED\<close>: the table allows only the rollback and the cancelled
  state, so failing safely, declaring a recovery and pausing each raise and change nothing.
\<close>

theorem cancel_requested_cannot_fail:
  assumes "quiet (en_env g)" and "op_lookup (db s) oid = Some row"
    and "o_state row = CANCEL_REQUESTED"
  shows "stopped (fail_safe g oid held label err) s \<and>
    stopped (require_recovery g oid held code detail summary) s \<and>
    stopped (pause_op g oid held reason) s"
proof (intro conjI)
  have no: "\<not> can_transition (o_state row) FAILED_SAFE" "\<not> can_transition (o_state row) RECOVERY_REQUIRED"
    "\<not> can_transition (o_state row) PAUSED"
    using assms(3) by (simp_all add: can_transition_def)
  show "stopped (fail_safe g oid held label err) s"
    unfolding fail_safe_def Let_def
    by (rule stopped_andthen, rule stopped_terminal_then [OF assms(1,2) no(1)])
  show "stopped (require_recovery g oid held code detail summary) s"
    unfolding require_recovery_def
    by (rule stopped_andthen, rule stopped_terminal_unit [OF assms(1,2) no(2)])
  let ?s = "s\<lparr>units := Suc (units s)\<rparr>"
  have row: "op_lookup (db ?s) oid = Some row" using assms(2) by simp
  have "stopped (in_unit g (bind (require_op oid) (\<lambda>record. andthen (fence g oid held)
      (andthen (bind (compare_and_transition v oid (o_state record) (o_state_revision record) PAUSED a)
         (\<lambda>_. ret ())) rest)))) s" for v a rest
    unfolding stopped_def in_unit_def quiet_unit_run [OF assms(1)]
    using assms(2) no(3)
    by (cases rule: fence_cases [of g oid held ?s])
      (auto simp: andthen_run bind_run require_op_run denied_transition)
  then show "stopped (pause_op g oid held reason) s"
    unfolding pause_op_def by (rule stopped_andthen)
qed


section \<open>Failure classification\<close>

text \<open>
  A failed step that only goes forward, and any failed step of a workflow with a cancel
  finalizer, never starts a rollback: after the probe the operation is either handed to
  recovery, when the error says so, or fails safely.
\<close>

theorem forward_only_failure_never_compensates:
  assumes "sd_effect_disposition step = ''FORWARD_ONLY'' \<or> wf_cancel_finalizer w \<noteq> None"
  shows "handle_failure g oid w step ctx held err =
    bind (classification_probe step ctx) (\<lambda>probe.
      if exn_requires_recovery err
      then (let code = text_or (exn_code err) ''RECOVERY_REQUIRED'' in
        require_recovery g oid held code
          (JObj [(''step'', jstr (sd_key step)), (''code'', jstr code),
             (''exception_class'', jstr (exn_class err)), (''probe'', jstr (pr_reason_code probe))])
          (''forward-only state at '' @ sd_key step @ '' requires recovery ('' @ code @ '')''))
      else bind (durable_compensation_set g oid w) (\<lambda>_. fail_safe g oid held (sd_key step) err))"
proof -
  have "\<not> mutation_happened c d step w" for c d
    using assms by (auto simp: mutation_happened_def Let_def)
  then show ?thesis by (simp add: handle_failure_def Let_def cong: if_cong)
qed

section \<open>The recovery barrier\<close>

lemma quiet_unit_Inr:
  "quiet v \<Longrightarrow> begin_unit v body s = (Inr x, s') \<Longrightarrow> body (s\<lparr>units := Suc (units s)\<rparr>) = (Inr x, s')"
  by (simp add: quiet_unit_run split: prod.splits sum.splits)

lemma fence_db: "fence g oid held s = (r, s') \<Longrightarrow> db s' = db s"
  by (cases rule: fence_cases [of g oid held s]) auto

lemma fenced_write_Inr:
  assumes "quiet (en_env g)"
    and "in_unit g (andthen (bind (require_op oid) (\<lambda>_. ret ())) (andthen (fence g oid held) m)) s = (Inr x, s')"
  obtains s1 where "m s1 = (Inr x, s')" and "db s1 = db s"
proof -
  from quiet_unit_Inr [OF assms(1) assms(2) [unfolded in_unit_def]]
  obtain s0 s1 y where "bind (require_op oid) (\<lambda>_. ret ()) (s\<lparr>units := Suc (units s)\<rparr>) = (Inr y, s0)"
    and "fence g oid held s0 = (Inr (), s1)" and m: "m s1 = (Inr x, s')"
    by (auto elim!: andthen_InrE)
  then have "db s1 = db s"
    by (auto simp: bind_run require_op_run ret_run dest: fence_db split: option.splits)
  with m show ?thesis by (rule that)
qed

lemma require_recovery_Inr:
  fixes s :: "'w sys"
  assumes "quiet (en_env g)" and "require_recovery g oid held code detail summary s = (Inr out, s')"
  obtains s1 :: "'w sys" and row' s2 where "record_terminal_result (en_env g) oid RECOVERY_REQUIRED None None
     (Some code) (Some detail) (Some summary) s1 = (Inr row', s2)" and "db s1 = db s" and "db s' = db s2"
proof -
  from assms(2) obtain u s3 where
    "in_unit g (andthen (bind (require_op oid) (\<lambda>_. ret ())) (andthen (fence g oid held)
       (bind (record_terminal_result (en_env g) oid RECOVERY_REQUIRED None None (Some code)
            (Some detail) (Some summary)) (\<lambda>_. ret ())))) s = (Inr u, s3)" and s3: "s' = s3"
    unfolding require_recovery_def by (auto simp: ret_run elim: andthen_InrE)
  from fenced_write_Inr [OF assms(1) this(1)] obtain s1 where
    "bind (record_terminal_result (en_env g) oid RECOVERY_REQUIRED None None (Some code)
            (Some detail) (Some summary)) (\<lambda>_. ret ()) s1 = (Inr u, s3)" "db s1 = db s" .
  with s3 obtain row' where "record_terminal_result (en_env g) oid RECOVERY_REQUIRED None None
     (Some code) (Some detail) (Some summary) s1 = (Inr row', s')"
    by (auto simp: ret_run elim!: bind_InrE)
  from that [OF this \<open>db s1 = db s\<close> refl] show ?thesis .
qed

lemma terminal_Inr:
  assumes "keys_ok (db s)" and "record_terminal_result v oid terminal rc rd ec ed es s = (Inr row', s')"
  shows "op_lookup (db s') oid = Some row' \<and> o_state row' = terminal \<and> is_terminal terminal \<and>
     operation_leases (db s') = operation_leases (db s) \<and>
     operation_steps (db s') = operation_steps (db s)"
proof -
  obtain row where "is_terminal terminal" and "op_lookup (db s) oid = Some row"
    using assms(2)
    by (auto simp: record_terminal_result_def bind_run require_op_run throw_run
        split: option.splits if_splits)
  moreover obtain a where run: "compare_and_transition v oid (o_state row)
      (o_state_revision row) terminal a s = (Inr row', s')"
    using assms(2) calculation by (simp add: record_terminal_result_def bind_run require_op_run)
  ultimately show ?thesis using transition_Inr [OF assms(1) run] by auto
qed

text \<open>
  The recovery barrier: declaring that an operation requires recovery keeps every lease
  it has, and from then on none of those resources is free at any instant, however long the
  leases have expired.
\<close>

theorem recovery_barrier_keeps_resources:
  fixes s :: "'w sys"
  assumes "keys_ok (db s)" and "quiet (en_env g)"
    and "require_recovery g oid held code detail summary s = (Inr out, s')"
    and "lease_lookup (db s) key = Some l" and "l_operation_id l = oid"
  shows "lease_lookup (db s') key = Some l \<and>
    map_option o_state (op_lookup (db s') oid) = Some RECOVERY_REQUIRED \<and>
    \<not> lease_free (db s') key now"
proof -
  obtain s1 :: "'w sys" and row' s2 where s1: "record_terminal_result (en_env g) oid RECOVERY_REQUIRED
      None None (Some code) (Some detail) (Some summary) s1 = (Inr row', s2)" "db s1 = db s" "db s' = db s2"
    by (rule require_recovery_Inr [OF assms(2,3)])
  have "keys_ok (db s1)" using assms(1) s1(2) by simp
  from terminal_Inr [OF this s1(1)] s1 assms(4,5) show ?thesis
    by (simp add: lease_lookup_def lease_free_def owning_operation_state_def)
qed

lemma release_all_Inr:
  assumes "keys_ok (db s)"
    and "foreach ks (\<lambda>k. release k owner (rvn k)) s = (Inr (), s')"
  shows "(\<forall>k \<in> set ks. lease_lookup (db s') k = None) \<and>
     (\<forall>k. k \<notin> set ks \<longrightarrow> lease_lookup (db s') k = lease_lookup (db s) k) \<and>
     operations (db s') = operations (db s) \<and> keys_ok (db s')"
  using assms
proof (induction ks arbitrary: s)
  case Nil
  then show ?case by (simp add: ret_run)
next
  case (Cons k ks)
  from Cons.prems(2) obtain s1 where k: "release k owner (rvn k) s = (Inr (), s1)"
    and ks: "foreach ks (\<lambda>k. release k owner (rvn k)) s1 = (Inr (), s')"
    by (auto elim: andthen_InrE)
  note step = release_Inr [OF Cons.prems(1) k]
  note rest = Cons.IH [OF _ ks]
  show ?case using step rest by (cases "k \<in> set ks") auto
qed

text \<open>
  A safe failure ends the operation and gives its resources back: the state is
  \<^verbatim>\<open>FAILED_SAFE\<close> and every resource the worker held is free for any other
  operation.
\<close>

theorem safe_failure_releases_resources:
  fixes s :: "'w sys"
  assumes "keys_ok (db s)" and "quiet (en_env g)"
    and "fail_safe g oid held label err s = (Inr out, s')"
  shows "map_option o_state (op_lookup (db s') oid) = Some FAILED_SAFE \<and>
    (\<forall>key \<in> fst ` set held. lease_free (db s') key now) \<and>
    (\<forall>key. key \<notin> fst ` set held \<longrightarrow> lease_lookup (db s') key = lease_lookup (db s) key)"
proof -
  let ?code = "text_or (exn_code err) ''STEP_FAILED_SAFE''"
  let ?terminal = "record_terminal_result (en_env g) oid FAILED_SAFE None None (Some ?code)
     (Some (JObj [(''step'', jstr label), (''code'', jstr ?code),
        (''retryable'', JBool (exn_retryable err)),
        (''exception_class'', jstr (exn_class err)), (''probe'', jstr ''absent'')]))
     (Some (''failed safely at '' @ label @ '' ('' @ ?code @ '')''))"
  from assms(3) obtain u s3 where
    "in_unit g (andthen (bind (require_op oid) (\<lambda>_. ret ())) (andthen (fence g oid held)
       (andthen (bind ?terminal (\<lambda>_. ret ())) (release_all g held)))) s = (Inr u, s3)" and s3: "s' = s3"
    unfolding fail_safe_def Let_def by (auto simp: ret_run elim: andthen_InrE)
  from fenced_write_Inr [OF assms(2) this(1)] obtain s1 where
    "andthen (bind ?terminal (\<lambda>_. ret ())) (release_all g held) s1 = (Inr u, s3)" and s1: "db s1 = db s" .
  then obtain row' s2 where tr: "?terminal s1 = (Inr row', s2)"
    and rel: "release_all g held s2 = (Inr (), s3)"
    by (auto simp: ret_run elim!: andthen_InrE bind_InrE)
  have k1: "keys_ok (db s1)" using assms(1) s1 by simp
  have t: "op_lookup (db s2) oid = Some row'" "o_state row' = FAILED_SAFE"
    "operation_leases (db s2) = operation_leases (db s)"
    using terminal_Inr [OF k1 tr] s1 by auto
  have k2: "keys_ok (db s2)"
    using guarD [OF keys.guar_record_terminal_result tr] k1 by (simp add: on_db_def keys_kept_def)
  from release_all_Inr [OF k2 rel [unfolded release_all_def]] t s3
  show ?thesis
    by (auto simp: lease_free_def op_lookup_def lease_lookup_def held_keys_def)
qed

end
