(* ===== verification/Workflow_Facts.thy ===== *)
theory Workflow_Facts
  imports Repository_Facts
begin

text \<open>
  Declarations and registry: what a checked workflow guarantees, exact-version lookup, the
  union of resources, and what enqueueing writes.
\<close>

section \<open>Declarations\<close>

lemma check_steps_iff:
  "check_steps n seen steps = Inr () \<longleftrightarrow>
     map sd_sequence steps = map (\<lambda>i. n + int i) [0..<length steps] \<and>
     distinct (map sd_key steps) \<and> set (map sd_key steps) \<inter> set seen = {}"
proof (induction steps arbitrary: n seen)
  case (Cons step steps)
  have "map (\<lambda>i. n + int i) [0..<Suc (length steps)] =
      n # map (\<lambda>i. n + 1 + int i) [0..<length steps]"
    by (simp add: map_upt_Suc algebra_simps del: upt_Suc)
  with Cons show ?case by auto
qed simp

text \<open>
  A workflow is accepted exactly when its steps are numbered from one in the order of
  declaration and no step key occurs twice.
\<close>

theorem checked_workflow_is_ordered:
  "check_workflow w = Inr () \<longleftrightarrow>
     map sd_sequence (wf_steps w) = map (\<lambda>i. 1 + int i) [0..<length (wf_steps w)] \<and>
     distinct (map sd_key (wf_steps w))"
  by (simp add: check_workflow_def check_steps_iff)

section \<open>Registry\<close>

text \<open>
  The registry is exact and append-only: a registered workflow is found under its own
  version triple and under no other, earlier registrations keep their meaning, and neither a
  second workflow for the same triple nor any registration after freezing is accepted.
\<close>

theorem registry_is_exact:
  "(register reg w = Inr reg' \<longrightarrow>
      lookup_workflow reg' (wf_type w) (wf_request_version w) (wf_recovery_policy_version w) = Inr w \<and>
      (\<forall>t n m. (t, n, m) \<noteq> workflow_key w \<longrightarrow> lookup_workflow reg' t n m = lookup_workflow reg t n m)) \<and>
   (\<forall>w0. lookup_workflow reg (wf_type w) (wf_request_version w) (wf_recovery_policy_version w) = Inr w0 \<longrightarrow>
      (\<exists>e. register reg w = Inl e)) \<and>
   (\<exists>e. register (freeze reg) w = Inl e)"
proof (intro conjI impI allI)
  assume "register reg w = Inr reg'"
  then have new: "workflow_key w \<notin> workflow_key ` set (r_workflows reg)"
    and reg': "r_workflows reg' = r_workflows reg @ [w]"
    by (auto simp: register_def split: if_splits)
  have none: "row_with workflow_key (r_workflows reg) (workflow_key w) = None"
    using new by (simp add: row_with_None_iff)
  show "lookup_workflow reg' (wf_type w) (wf_request_version w) (wf_recovery_policy_version w) = Inr w"
    using none by (simp add: lookup_workflow_def reg' row_with_append workflow_key_def)
  fix t n m assume "(t, n, m) \<noteq> workflow_key w"
  then show "lookup_workflow reg' t n m = lookup_workflow reg t n m"
    by (auto simp: lookup_workflow_def reg' row_with_append split: option.split)
next
  fix w0 assume "lookup_workflow reg (wf_type w) (wf_request_version w) (wf_recovery_policy_version w) = Inr w0"
  then have "row_with workflow_key (r_workflows reg) (workflow_key w) = Some w0"
    by (auto simp: lookup_workflow_def workflow_key_def split: option.splits)
  then have "workflow_key w \<in> workflow_key ` set (r_workflows reg)"
    by (metis row_with_None_iff option.distinct(1))
  then show "\<exists>e. register reg w = Inl e" by (simp add: register_def)
next
  show "\<exists>e. register (freeze reg) w = Inl e" by (simp add: register_def freeze_def)
qed

section \<open>Resources\<close>

lemma add_missing_set: "set (add_missing ordered keys) = set ordered \<union> set keys"
  by (induction keys arbitrary: ordered) (auto simp: add_missing_def)

lemma add_missing_distinct: "distinct ordered \<Longrightarrow> distinct (add_missing ordered keys)"
  by (induction keys arbitrary: ordered) (auto simp: add_missing_def)

lemma collect_resources:
  "distinct ordered \<Longrightarrow>
     set (foldl (\<lambda>acc step. add_missing acc (sort (sd_resources step))) ordered steps) =
       set ordered \<union> (\<Union>step \<in> set steps. set (sd_resources step)) \<and>
     distinct (foldl (\<lambda>acc step. add_missing acc (sort (sd_resources step))) ordered steps)"
  by (induction steps arbitrary: ordered) (auto simp: add_missing_set add_missing_distinct)

text \<open>
  The resources of a workflow are exactly those its steps declare, each once, and the
  claim never asks for others unless the workflow declares a recovery barrier.
\<close>

theorem workflow_resources:
  "set (all_resources w) = (\<Union>step \<in> set (wf_steps w). set (sd_resources step)) \<and>
   distinct (all_resources w) \<and>
   set (initial_resources w) \<subseteq> set (all_resources w)"
proof -
  have *: "set (all_resources w) = (\<Union>step \<in> set (wf_steps w). set (sd_resources step)) \<and>
      distinct (all_resources w)"
    using collect_resources [of "[]" "wf_steps w"] by (simp add: all_resources_def)
  then show ?thesis
    by (cases "wf_steps w") (auto simp: initial_resources_def)
qed

section \<open>Enqueue\<close>

lemma insert_step_Inr:
  "insert_step row s = (Inr (), s') \<Longrightarrow>
     db s' = (db s)\<lparr>operation_steps := operation_steps (db s) @ [row]\<rparr>"
  by (auto simp: insert_step_def bind_run read_db_def write_db_def throw_run split: if_splits)

lemma add_one_step_Inr:
  assumes "add_one_step oid inputs item s = (Inr (), s')"
  shows "\<exists>x. db s' = (db s)\<lparr>operation_steps := operation_steps (db s) @
     [pending_row oid (fst (fst item)) (snd (fst item)) (snd item) x]\<rparr>"
  using assms
  by (auto simp: add_one_step_def Let_def bind_run ret_run sanitized_run
      dest!: insert_step_Inr split: option.splits sum.splits)

definition declared :: "step_row \<Rightarrow> (ident \<times> int) \<times> int" where
  "declared r = ((s_key r, s_sequence r), s_implementation_version r)"

lemma declared_pending [simp]: "declared (pending_row oid k n v x) = ((k, n), v)"
  by (simp add: declared_def pending_row_def)

lemma pending_row_state [simp]:
  "s_operation_id (pending_row oid k n v x) = oid" "s_state (pending_row oid k n v x) = S_PENDING"
  by (simp_all add: pending_row_def)

lemma add_each_Inr:
  assumes "foreach items (add_one_step oid inputs) s = (Inr (), s')"
  shows "\<exists>rows. db s' = (db s)\<lparr>operation_steps := operation_steps (db s) @ rows\<rparr> \<and>
     map declared rows = items \<and> (\<forall>r \<in> set rows. s_operation_id r = oid \<and> s_state r = S_PENDING)"
  using assms
proof (induction items arbitrary: s)
  case Nil
  then show ?case by (intro exI [of _ "[]"]) (simp add: ret_run)
next
  case (Cons item items)
  then obtain s1 where one: "add_one_step oid inputs item s = (Inr (), s1)"
    and rest: "foreach items (add_one_step oid inputs) s1 = (Inr (), s')"
    by (auto elim: andthen_InrE)
  obtain x where s1: "db s1 = (db s)\<lparr>operation_steps := operation_steps (db s) @
      [pending_row oid (fst (fst item)) (snd (fst item)) (snd item) x]\<rparr>"
    using add_one_step_Inr [OF one] by blast
  obtain rows where "db s' = (db s1)\<lparr>operation_steps := operation_steps (db s1) @ rows\<rparr>"
    "map declared rows = items" "\<forall>r \<in> set rows. s_operation_id r = oid \<and> s_state r = S_PENDING"
    using Cons.IH [OF rest] by blast
  with s1 show ?case
    by (intro exI [of _ "pending_row oid (fst (fst item)) (snd (fst item)) (snd item) x # rows"]) simp
qed

lemma create_op_Inr:
  fixes s :: "'w sys"
  assumes "create_op v t request rv rpv surface opid parent s = (Inr row, s')"
  shows "\<exists>e. op_lookup (db s) (o_id row) = None \<and> o_state row = QUEUED \<and> o_state_revision row = 1 \<and>
     o_type row = t \<and> o_request_version row = rv \<and> o_recovery_policy_version row = rpv \<and>
     o_parent_operation_id row = parent \<and> e_operation_id e = o_id row \<and>
     sanitize_request t rv request = Inr (o_request_json row) \<and>
     db s' = with_event e ((db s)\<lparr>operations := operations (db s) @ [row]\<rparr>)"
proof -
  define tail :: "instant \<Rightarrow> json \<Rightarrow> ident \<Rightarrow> ('w, op_row) prog" where
    "tail = (\<lambda>now r oid. andthen (insert_op (queued_row oid t rv rpv r surface parent now))
     (andthen (append_event v oid ''info'' (Some ''OPERATION_QUEUED'')
                 (''operation '' @ type_value t @ '' queued'')
                 (Some (JObj [(''surface'', jstr surface)])) None)
     (bind (get_op oid) assert_some)))"
  have "create_op v t request rv rpv surface opid parent = bind (clock v) (\<lambda>now.
     bind (lift (sanitize_request t rv request)) (\<lambda>r.
     bind (case opid of
             Some oid \<Rightarrow> if oid = '''' then uuid_factory v else ret oid
           | None \<Rightarrow> uuid_factory v) (\<lambda>oid.
     andthen (case parent of None \<Rightarrow> ret () | Some p \<Rightarrow> require_known p) (tail now r oid))))"
    by (simp add: create_op_def tail_def)
  with assms have "\<exists>now r oid s1. tail now r oid s1 = (Inr row, s') \<and>
      sanitize_request t rv request = Inr r \<and> db s1 = db s"
    by - (auto simp: bind_run andthen_run clock_run lift_run uuid_factory_def ret_run require_known_run
        split: option.splits if_splits sum.splits prod.splits; (rule exI)+, rule conjI, assumption, simp)
  then obtain now r oid s1 where tail: "tail now r oid s1 = (Inr row, s')" and
    req: "sanitize_request t rv request = Inr r" and s1: "db s1 = db s" by blast
  from tail obtain s2 c s3 where
    ins: "insert_op (queued_row oid t rv rpv r surface parent now) s1 = (Inr (), s2)" and
    ev: "append_event v oid ''info'' (Some ''OPERATION_QUEUED'') (''operation '' @ type_value t @ '' queued'')
      (Some (JObj [(''surface'', jstr surface)])) None s2 = (Inr c, s3)" and
    look: "op_lookup (db s3) oid = Some row" "s' = s3"
    by (auto simp: tail_def get_op_run assert_some_Inr elim!: bind_InrE andthen_InrE)
  let ?row = "queued_row oid t rv rpv r surface parent now"
  have none: "op_lookup (db s) oid = None" and s2: "db s2 = (db s)\<lparr>operations := operations (db s) @ [?row]\<rparr>"
    using ins s1
    by (auto simp: insert_op_def bind_run get_op_run throw_run write_db_def queued_row_def
        split: option.splits)
  obtain e where e: "e_operation_id e = oid" "db s3 = with_event e (db s2)"
    using append_event_Inr [OF ev] by blast
  have row: "row = ?row"
    using look(1) none s2 e by (simp add: op_lookup_def row_with_append queued_row_def)
  show ?thesis
    by (rule exI [of _ e]) (use none s2 e look req in \<open>auto simp: row queued_row_def\<close>)
qed

lemma sort_key_of_sorted: "sorted (map f xs) \<Longrightarrow> sort_key f xs = xs"
  by (induction xs) (auto simp: insort_is_Cons)

lemma sort_declared:
  assumes "check_workflow w = Inr ()"
  shows "sort_key (\<lambda>item. snd (fst item))
     (zip (map (\<lambda>st. (sd_key st, sd_sequence st)) (wf_steps w)) (map sd_implementation_version (wf_steps w))) =
     map (\<lambda>st. ((sd_key st, sd_sequence st), sd_implementation_version st)) (wf_steps w)"
proof -
  let ?items = "map (\<lambda>st. ((sd_key st, sd_sequence st), sd_implementation_version st)) (wf_steps w)"
  have "map sd_sequence (wf_steps w) = map (\<lambda>i. 1 + int i) [0..<length (wf_steps w)]"
    using assms by (simp add: check_workflow_def check_steps_iff)
  moreover have "sorted (map (\<lambda>i. 1 + int i) [0..<n])" for n
    by (simp add: sorted_iff_nth_mono)
  ultimately have "sorted (map (\<lambda>item. snd (fst item)) ?items)"
    by (simp add: comp_def)
  then have "sort_key (\<lambda>item. snd (fst item)) ?items = ?items"
    by (rule sort_key_of_sorted)
  moreover have "zip (map (\<lambda>st. (sd_key st, sd_sequence st)) ss) (map sd_implementation_version ss) =
      map (\<lambda>st. ((sd_key st, sd_sequence st), sd_implementation_version st)) ss" for ss :: "'a step_def list"
    by (induction ss) auto
  ultimately show ?thesis by simp
qed

lemma add_steps_Inr:
  assumes "check_workflow w = Inr ()"
    and "add_steps v oid (map (\<lambda>st. (sd_key st, sd_sequence st)) (wf_steps w))
       (map sd_implementation_version (wf_steps w)) inputs s = (Inr out, s')"
  shows "\<exists>rows. db s' = (db s)\<lparr>operation_steps := operation_steps (db s) @ rows\<rparr> \<and>
     map declared rows = map (\<lambda>st. ((sd_key st, sd_sequence st), sd_implementation_version st)) (wf_steps w) \<and>
     (\<forall>r \<in> set rows. s_operation_id r = oid \<and> s_state r = S_PENDING)"
proof -
  from assms(2) obtain s1 where
    "foreach (map (\<lambda>st. ((sd_key st, sd_sequence st), sd_implementation_version st)) (wf_steps w))
       (add_one_step oid inputs) s = (Inr (), s1)" and "db s' = db s1"
    by (auto simp: add_steps_def require_known_run list_steps_def read_db_def ret_run throw_run
        sort_declared [OF assms(1)] split: option.splits if_splits elim!: andthen_InrE bind_InrE)
  with add_each_Inr [OF this(1)] show ?thesis by simp
qed

text \<open>
  Enqueueing writes the whole plan and nothing else: a new operation of the workflow's
  type and versions, queued at revision one under the sanitized request, one pending step
  per declared step in order, and one event; no lease is touched.
\<close>

theorem enqueue_writes_the_plan:
  assumes "quiet v" and "definition_for_type reg t = Inr w" and "check_workflow w = Inr ()"
    and "enqueue v reg t payload surface opid parent s = (Inr row, s')"
  shows "\<exists>rows e. op_lookup (db s) (o_id row) = None \<and>
     operations (db s') = operations (db s) @ [row] \<and>
     o_type row = t \<and> o_state row = QUEUED \<and> o_state_revision row = 1 \<and>
     o_request_version row = wf_request_version w \<and>
     o_recovery_policy_version row = wf_recovery_policy_version w \<and>
     clean_at 0 (o_request_json row) \<and>
     operation_steps (db s') = operation_steps (db s) @ rows \<and>
     map declared rows = map (\<lambda>st. ((sd_key st, sd_sequence st), sd_implementation_version st)) (wf_steps w) \<and>
     (\<forall>r \<in> set rows. s_operation_id r = o_id row \<and> s_state r = S_PENDING) \<and>
     operation_events (db s') = operation_events (db s) @ [e] \<and> e_operation_id e = o_id row \<and>
     operation_leases (db s') = operation_leases (db s)"
proof -
  let ?s = "s\<lparr>units := Suc (units s)\<rparr>"
  from assms(4) obtain decoded request where
    "begin_unit v (bind (create_op v t request (wf_request_version w) (wf_recovery_policy_version w)
               surface opid parent) (\<lambda>record.
       bind (lift (derive_inputs decoded (wf_steps w))) (\<lambda>inputs.
       andthen (bind (add_steps v (o_id record)
                   (map (\<lambda>step. (sd_key step, sd_sequence step)) (wf_steps w))
                   (map sd_implementation_version (wf_steps w)) inputs) (\<lambda>_. ret ()))
       (ret record)))) s = (Inr row, s')"
    by (auto simp: enqueue_def assms(2) lift_run bind_run split: sum.splits)
  then obtain r s1 inputs s2 out where
    c: "create_op v t request (wf_request_version w) (wf_recovery_policy_version w) surface opid parent ?s
        = (Inr row, s1)" and
    a: "add_steps v (o_id row) (map (\<lambda>step. (sd_key step, sd_sequence step)) (wf_steps w))
        (map sd_implementation_version (wf_steps w)) inputs s1 = (Inr out, s')"
    using assms(1)
    by (auto simp: quiet_def begin_unit_def unit_of_work_def Let_def lift_run ret_run
        split: sum.splits prod.splits elim!: bind_InrE andthen_InrE)
  obtain e where row: "op_lookup (db s) (o_id row) = None" "o_state row = QUEUED"
    "o_state_revision row = 1" "o_type row = t" "o_request_version row = wf_request_version w"
    "o_recovery_policy_version row = wf_recovery_policy_version w" "e_operation_id e = o_id row"
    "sanitize_request t (wf_request_version w) request = Inr (o_request_json row)"
    "db s1 = with_event e ((db s)\<lparr>operations := operations (db s) @ [row]\<rparr>)"
    using create_op_Inr [OF c] by auto
  have clean: "clean_at 0 (o_request_json row)"
    using row(8) by (auto simp: sanitize_request_def sanitize_payload_Inr split: if_splits json.splits sum.splits)
  from add_steps_Inr [OF assms(3) a] obtain rows where
    "db s' = (db s1)\<lparr>operation_steps := operation_steps (db s1) @ rows\<rparr>"
    "map declared rows = map (\<lambda>st. ((sd_key st, sd_sequence st), sd_implementation_version st)) (wf_steps w)"
    "\<forall>r \<in> set rows. s_operation_id r = o_id row \<and> s_state r = S_PENDING" by blast
  with row clean show ?thesis
    by (intro exI [of _ rows] exI [of _ e]) simp
qed

end
