(* ===== verification/Model_Facts.thy ===== *)
theory Model_Facts
  imports Op_Model
begin

text \<open>
  The state machines as step relations, with what can be reached in them, the recovery
  decisions and the payload rules.
\<close>

section \<open>The operation machine\<close>

inductive op_step :: "op_state \<Rightarrow> op_state \<Rightarrow> bool" where
  "can_transition a b \<Longrightarrow> op_step a b"

inductive reaches :: "op_state \<Rightarrow> op_state \<Rightarrow> bool" where
  stay: "reaches a a"
| move: "reaches a b \<Longrightarrow> op_step b c \<Longrightarrow> reaches a c"

inductive_cases op_step_terminalE: "op_step a b"

inductive_simps op_step_iff: "op_step a b"

lemma op_step_move: "op_step a b \<longleftrightarrow> b \<in> TRANSITIONS a"
  by (simp add: op_step_iff can_transition_iff)

lemma reaches_step: "op_step a b \<Longrightarrow> reaches a b"
  by (rule move [OF stay])

lemma reaches_trans: "reaches a b \<Longrightarrow> reaches b c \<Longrightarrow> reaches a c"
  by (rotate_tac, induction rule: reaches.induct) (auto intro: move)

text \<open>
  C34 The machine of an operation has no dead end and no way back: a terminal state leads
  nowhere else, and from every other state some terminal state can be reached.
\<close>

theorem machine_ends:
  "(is_terminal a \<longrightarrow> reaches a b \<longrightarrow> b = a) \<and> (\<exists>c. reaches a c \<and> is_terminal c)"
proof (intro conjI impI)
  have "reaches a b \<Longrightarrow> is_terminal a \<Longrightarrow> b = a" for a b
    by (induction rule: reaches.induct) (auto elim: op_step_terminalE dest: can_transition_terminal)
  then show "is_terminal a \<Longrightarrow> reaches a b \<Longrightarrow> b = a" by blast
  have s: "reaches QUEUED CANCELLED" "reaches PREPARING FAILED_SAFE" "reaches RUNNING FAILED_SAFE"
    "reaches VERIFYING FAILED_SAFE" "reaches COMMITTING SUCCEEDED" "reaches CANCEL_REQUESTED CANCELLED"
    "reaches ROLLING_BACK CANCELLED" "reaches PAUSED CANCELLED"
    by (auto intro!: reaches_step simp: op_step_move)
  then show "\<exists>c. reaches a c \<and> is_terminal c"
    using stay [of a] by (cases a) (metis is_terminal_simps)+
qed

lemma reaches_closed:
  assumes "reaches a b" and "a \<in> S" and "\<And>x y. x \<in> S \<Longrightarrow> y \<in> TRANSITIONS x \<Longrightarrow> y \<in> S"
  shows "b \<in> S"
  using assms by (induction rule: reaches.induct) (auto simp: op_step_move)

text \<open>
  An accepted cancellation is never lost: from \<^verbatim>\<open>CANCEL_REQUESTED\<close> every
  reachable state is on the way to a cancelled or rolled-back end, and success cannot be
  reached; success is entered from the critical section alone.
\<close>

theorem cancellation_excludes_success:
  "(reaches CANCEL_REQUESTED b \<longrightarrow>
      b \<in> {CANCEL_REQUESTED, ROLLING_BACK, CANCELLED, FAILED_ROLLED_BACK, RECOVERY_REQUIRED}) \<and>
   (op_step a SUCCEEDED \<longleftrightarrow> a = COMMITTING)"
proof (intro conjI impI)
  assume "reaches CANCEL_REQUESTED b"
  then show "b \<in> {CANCEL_REQUESTED, ROLLING_BACK, CANCELLED, FAILED_ROLLED_BACK, RECOVERY_REQUIRED}"
    by (rule reaches_closed) auto
next
  show "op_step a SUCCEEDED \<longleftrightarrow> a = COMMITTING"
    by (cases a) (simp_all add: op_step_move)
qed

section \<open>Recovery decisions\<close>

text \<open>
  The decision table is total and closed: an uncertain probe never leads to an effect or
  a rollback, an effect runs again only when the probe found nothing, something resumable or
  something to discard in a running operation for which automatic recovery is allowed, and
  only a completed effect is verified without running.
\<close>

theorem decisions_are_safe:
  "(c = UNCERTAIN_MANUAL \<longrightarrow>
      d_action (decide_recovery c st safe auto) = (if safe then PAUSE else REQUIRE_RECOVERY)) \<and>
   (d_action (decide_recovery c st safe auto) \<in> {EXECUTE, RESUME, DISCARD_AND_RETRY} \<longleftrightarrow>
      c \<in> {ABSENT, PARTIALLY_RESUMABLE, DISCARDABLE} \<and> st = RUNNING \<and> auto) \<and>
   (d_action (decide_recovery c st safe auto) = VERIFY \<longleftrightarrow> c = COMPLETE \<and> st = RUNNING) \<and>
   (d_action (decide_recovery c st safe auto) = ROLL_BACK \<longleftrightarrow> c = REVERTIBLE \<and> st = RUNNING)"
  by (cases c; cases st; cases auto; cases safe) (simp_all add: decide_recovery_def)

section \<open>Payloads\<close>

text \<open>
  C33 What is persisted is clean: an accepted payload is within the depth, key-count and
  text-length limits, its canonical encoding is within the byte budget, it contains no
  secret-like key and neither did the original, and it is stable under sanitizing again.
\<close>

theorem persisted_payloads_are_clean:
  assumes "sanitize_payload max_bytes v = Inr w"
  shows "clean_at 0 w \<and> utf8_size (canonical_dumps w) \<le> max_bytes \<and>
    \<not> mentions_secret v \<and> \<not> mentions_secret w \<and> sanitize_payload max_bytes w = Inr w"
  using sanitize_payload_Inr [OF assms] sanitize_payload_Inr(2) [of max_bytes w w] by blast

end
