(* ===== verification/Guarantees.thy ===== *)
theory Guarantees
  imports Engine_Facts Workflow_Facts Model_Facts
begin

text \<open>
  The promises about the tables and the call log, stated for whole runs: of the engine, of
  the operator commands and of the worker host with everything it drives. The hypotheses
  ask of the surroundings (other processes and the adapters' callables) only what the
  program itself promises.
\<close>

section \<open>Rows\<close>

lemma lifecycleD:
  "on_db lifecycle s s' \<Longrightarrow> op_lookup (db s) oid = Some row \<Longrightarrow>
     \<exists>row'. op_lookup (db s') oid = Some row' \<and> row_evolves row row'"
  by (simp add: on_db_def lifecycle_def)

lemma op_moves_reaches: "(a, b) \<in> op_moves\<^sup>* \<Longrightarrow> reaches a b"
  by (induction rule: rtrancl_induct) (auto simp: op_moves_def intro: stay move op_step.intros)

text \<open>
  C5 Whatever the engine does with whichever operation, every operation row keeps its
  identity and request, moves along the transition table, never to a smaller revision, and
  changes its result only together with its revision; terminal rows keep their state,
  result, error and finish time; a finish time is recorded exactly for terminal rows.
\<close>

theorem engine_respects_lifecycle:
  assumes "engine_keeps (on_db lifecycle) g"
    and "execute_one g oid s = (r, s')" and "op_lookup (db s) i = Some row"
  shows "\<exists>row'. op_lookup (db s') i = Some row' \<and> row_evolves row row'"
  using lifecycleD [OF guarD [OF life.guar_execution [OF assms(1)] assms(2)] assms(3)] .

text \<open>
  The operator commands cannot corrupt an operation either: after cancel, resume, retry,
  recover, dismiss and detach, whether they succeed, refuse or raise, every operation row
  has evolved lawfully.
\<close>

theorem commands_respect_lifecycle:
  assumes "service_keeps (on_db lifecycle) cs" and "op_lookup (db s) i = Some row"
    and "s' \<in> {snd (cancel cs oid expected s), snd (resume cs oid s), snd (retry cs oid s),
      snd (recover cs oid confirm s), snd (dismiss cs oid restore s), snd (detach cs oid s)}"
  shows "\<exists>row'. op_lookup (db s') i = Some row' \<and> row_evolves row row'"
proof -
  have "on_db lifecycle s s'"
    using assms(3) life.guar_cancel [OF assms(1)] life.guar_resume [OF assms(1)]
      life.guar_retry [OF assms(1)] life.guar_recover [OF assms(1)]
      life.guar_dismiss [OF assms(1)] life.guar_detach [OF assms(1)]
    by (auto simp: guar_def)
  then show ?thesis using assms(2) by (rule lifecycleD)
qed

text \<open>
  C4 A cancellation that was accepted never ends in success: however long a worker host
  runs, an operation that was \<^verbatim>\<open>CANCEL_REQUESTED\<close> when it started ends
  cancelled, rolled back, behind the recovery barrier, or not yet.
\<close>

theorem accepted_cancellation_never_succeeds:
  assumes "host_keeps (on_db lifecycle) h" and "host_start h n hs s = (r, s')"
    and "op_lookup (db s) i = Some row" and "o_state row = CANCEL_REQUESTED"
  shows "\<exists>row'. op_lookup (db s') i = Some row' \<and>
     o_state row' \<in> {CANCEL_REQUESTED, ROLLING_BACK, CANCELLED, FAILED_ROLLED_BACK, RECOVERY_REQUIRED}"
proof -
  obtain row' where row': "op_lookup (db s') i = Some row'" "row_evolves row row'"
    using lifecycleD [OF guarD [OF life.guar_host_start [OF assms(1)] assms(2)] assms(3)] by blast
  then have "reaches CANCEL_REQUESTED (o_state row')"
    using assms(4) op_moves_reaches by (simp add: row_evolves_def)
  then have "o_state row' \<in> {CANCEL_REQUESTED, ROLLING_BACK, CANCELLED, FAILED_ROLLED_BACK, RECOVERY_REQUIRED}"
    by (rule reaches_closed) auto
  with row'(1) show ?thesis by blast
qed

text \<open>
  C6 The outcome of a finished operation is final: no run of a worker host changes the
  state, result, error or finish time of a terminal operation.
\<close>

theorem terminal_outcome_is_final:
  assumes "host_keeps (on_db lifecycle) h" and "host_start h n hs s = (r, s')"
    and "op_lookup (db s) i = Some row" and "is_terminal (o_state row)"
  shows "\<exists>row'. op_lookup (db s') i = Some row' \<and> same_request row row' \<and> same_result row row'"
  using lifecycleD [OF guarD [OF life.guar_host_start [OF assms(1)] assms(2)] assms(3)] assms(4)
  by (auto simp: row_evolves_def)

lemma step_moves_from_verified:
  "(a, b) \<in> step_moves\<^sup>* \<Longrightarrow> a \<in> {S_VERIFIED, S_COMPENSATING, S_COMPENSATED, S_FAILED} \<Longrightarrow>
     b \<in> {S_VERIFIED, S_COMPENSATING, S_COMPENSATED, S_FAILED}"
  by (induction rule: rtrancl_induct) (auto simp: step_moves_def can_step_transition_def)

text \<open>
  C26 Step rows are never lost and move along the step table; once a step is verified it is
  never pending, running or checkpointed again, so its effect is not started a second time.
\<close>

theorem verified_steps_stay_done:
  assumes "engine_keeps (on_db steps_evolve) g"
    and "execute_one g oid s = (r, s')" and "step_lookup (db s) i key = Some st"
  shows "\<exists>st'. step_lookup (db s') i key = Some st' \<and> (s_state st, s_state st') \<in> step_moves\<^sup>* \<and>
     s_sequence st' = s_sequence st \<and>
     (s_state st = S_VERIFIED \<longrightarrow>
        s_state st' \<in> {S_VERIFIED, S_COMPENSATING, S_COMPENSATED, S_FAILED})"
proof -
  obtain st' where "step_lookup (db s') i key = Some st'" "(s_state st, s_state st') \<in> step_moves\<^sup>*"
    "s_sequence st' = s_sequence st"
    using guarD [OF step_life.guar_execution [OF assms(1)] assms(2)] assms(3)
    unfolding on_db_def steps_evolve_def by blast
  with step_moves_from_verified [of "s_state st" "s_state st'"] show ?thesis by auto
qed

section \<open>Keys and history\<close>

text \<open>
  The tables stay well formed under everything a worker host does: operation ids, step
  keys and sequence numbers within an operation, leases per resource and event cursors are
  unique, and cursors grow.
\<close>

theorem host_keeps_tables_well_formed:
  assumes "host_keeps (on_db keys_kept) h" and "keys_ok (db s)"
  shows "keys_ok (db (snd (host_start h n hs s)))"
  using keys.guar_host_start [OF assms(1), of n hs] assms(2)
  by (simp add: guar_def on_db_def keys_kept_def)

text \<open>
  The event history is append-only: nothing a worker host, the engine under it or the
  repositories do removes, reorders or rewrites an event.
\<close>

theorem history_is_append_only:
  assumes "host_keeps (on_db history_grows) h"
  shows "prefix (operation_events (db s)) (operation_events (db (snd (host_start h n hs s))))"
  using history.guar_host_start [OF assms, of n hs] by (simp add: guar_def on_db_def history_grows_def)

section \<open>Effects\<close>

text \<open>
  C3 Intent before effect: whenever the engine calls the effect of a step, the tables at
  that moment already hold the step's row, running, under exactly the effect identifier the
  callable receives, so that after a crash the interrupted effect can be found and probed.
\<close>

theorem effects_run_under_durable_intent:
  assumes "engine_keeps (sound_log intent_recorded) g"
    and "engine_keeps (on_db (steps_same oid)) g"
    and "keys_ok (db s)" and "execute_one g oid s = (r, s')"
  shows "\<exists>cs. calls s' = calls s @ cs \<and>
     (\<forall>c \<in> set cs. c_kind c = CallExecute \<longrightarrow>
        intent_row (c_db c) (c_operation c) (c_step c) (c_effect_id c))"
  using guarD [OF execute_one_logs [OF assms(1,2)] assms(4)] assms(3)
  by (auto simp: sound_log_def logs_only_def intent_recorded_def list_all_iff)

text \<open>
  Undoing never does: honouring a cancellation, compensating and finalizing a rollback,
  and classifying a failure call no effect at all.
\<close>

theorem undoing_calls_no_effect:
  assumes "engine_keeps (sound_log no_effect_call) g" and "workflow_keeps (sound_log no_effect_call) w"
    and "step \<in> set (wf_steps w)" and "ctx_keeps (sound_log no_effect_call) ctx" and "keys_ok (db s)"
    and "s' \<in> {snd (honor_cancellation g oid w decoded held s),
      snd (compensate_and_finalize g oid w decoded held reason cancelled cls [step] s),
      snd (handle_failure g oid w step ctx held err s)}"
  shows "\<exists>cs. calls s' = calls s @ cs \<and> (\<forall>c \<in> set cs. c_kind c \<noteq> CallExecute)"
proof -
  have st: "step_keeps (sound_log no_effect_call) step"
    using assms(2,3) by (simp add: workflow_keeps_def)
  have "guar (sound_log no_effect_call) (compensate_and_finalize g oid w decoded held reason cancelled cls [step])"
    by (rule effectless.guar_compensate_and_finalize) (use assms st in auto)
  with effectless.guar_honor_cancellation [OF assms(1,2)]
    effectless.guar_handle_failure [OF assms(1,2) st assms(4)]
  have "sound_log no_effect_call s s'" using assms(6) by (auto simp: guar_def)
  with assms(5) show ?thesis
    by (auto simp: sound_log_def logs_only_def no_effect_call_def list_all_iff)
qed

end
