(* ===== verification/Divergences.thy ===== *)
theory Divergences
  imports Engine_Facts
begin

text \<open>
  Behaviours of the engine at the edges that its comments do not announce: an output that
  is accepted for the step table but not for the event it is announced with, a heartbeat
  that takes a restarted counter for a lost lease, and a busy claim that keeps leases.
\<close>

section \<open>Checkpoints\<close>

lemma event_refused:
  assumes "sanitize_payload EVENT_DETAIL_MAX_BYTES detail = Inl e"
  shows "ensures P (event g oid code summary (Some detail) progress) Q"
  using assms
  by (auto simp: ensures_def event_def append_event_def bind_run andthen_run require_known_run
      sanitized_opt_def sanitized_run throw_run split: option.splits if_splits)

text \<open>
  The budgets of a checkpoint disagree: a step output may take 64 KiB and nest eight
  deep, but its checkpoint also writes an event that wraps the output one level deeper in 16
  KiB. When the wrapped output is refused, the checkpoint raises and nothing is recorded,
  although the output itself is acceptable and the effect has already run.
\<close>

theorem unannounceable_output_cannot_be_checkpointed:
  fixes s :: "'w sys"
  assumes "keys_ok (db s)" and "quiet (en_env g)"
    and "sanitize_payload REQUEST_MAX_BYTES output = Inr m"
    and "sanitize_payload EVENT_DETAIL_MAX_BYTES (JObj [(''output'', m)]) = Inl e"
  shows "stopped (checkpoint_transaction g oid step held output recovered :: ('w, unit) prog) s"
proof -
  let ?K = "\<lambda>s :: 'w sys. keys_ok (db s)"
  let ?extra = "\<lambda>now r. r\<lparr>s_checkpointed_at := Some now, s_output_json := given (Some m) (s_output_json r)\<rparr>"
  have tick: "ensures ?K (clock v) (\<lambda>_. ?K)" for v
    by (simp add: ensures_def clock_run)
  have san: "ensures ?K (sanitized_opt REQUEST_MAX_BYTES (Some output)) (\<lambda>x s. x = Some m \<and> ?K s)"
    using assms(3) by (auto simp: ensures_def sanitized_opt_def bind_run sanitized_run ret_run)
  have cas: "ensures (\<lambda>s. x = Some m \<and> ?K s) (cas_step oid (sd_key step) S_RUNNING S_CHECKPOINTED
      (\<lambda>r. r\<lparr>s_checkpointed_at := Some now, s_output_json := given x (s_output_json r)\<rparr>))
      (\<lambda>r s. s_output_json r = Some m)" for x now
    using cas_step_ensures [of "?extra now" oid "sd_key step" S_RUNNING S_CHECKPOINTED]
    by (fastforce simp: ensures_def same_identity_def given_def)
  have checkpoint: "ensures ?K (checkpoint_step (en_env g) oid (sd_key step) (Some output))
      (\<lambda>r s. s_output_json r = Some m)"
    unfolding checkpoint_step_def
    by (rule ensures_bind [OF tick], rule ensures_bind [OF san], rule cas)
  have announce: "ensures (\<lambda>s :: 'w sys. s_output_json r = Some m)
      (event g oid code summary (Some (JObj [(''output'', case s_output_json r of None \<Rightarrow> JNull | Some x \<Rightarrow> x)]))
        progress) (\<lambda>_ _. False)" for r code summary progress
  proof (cases "s_output_json r = Some m")
    case True
    then show ?thesis using event_refused [OF assms(4)] by simp
  qed (simp add: ensures_def)
  have read: "ensures ?K (require_step oid (sd_key step)) (\<lambda>_. ?K)"
    by (auto simp: ensures_def require_step_def bind_run get_step_def read_db_def throw_run ret_run split: option.splits)
  have known: "ensures ?K (bind (require_op oid) (\<lambda>_. ret ())) (\<lambda>_. ?K)"
    by (auto simp: ensures_def bind_run require_op_run ret_run split: option.splits)
  have fence: "ensures ?K (fence g oid held) (\<lambda>_. ?K)"
    by (auto simp: ensures_def dest: fence_db)
  let ?body = "andthen (bind (require_op oid) (\<lambda>_. ret ()))
       (andthen (fence g oid held)
       (bind (require_step oid (sd_key step)) (\<lambda>row.
        if s_state row \<noteq> S_RUNNING
        then throw (LostLease (CheckpointExpectedRunning oid (sd_key step) (s_state row)))
        else
          bind (checkpoint_step (en_env g) oid (sd_key step) (Some output)) (\<lambda>checked.
          event g oid ''STEP_CHECKPOINTED''
            (''step '' @ sd_key step @ '' checkpointed''
               @ (if recovered then '' from recovery evidence'' else ''''))
            (Some (JObj [(''output'', case s_output_json checked of None \<Rightarrow> JNull | Some x \<Rightarrow> x)]))
            (Some (JObj [(''phase'', jstr (sd_phase step)), (''current'', JInt (sd_sequence step))]))))))"
  have "ensures ?K ?body (\<lambda>_ _. False)"
    by (rule ensures_andthen [OF known], rule ensures_andthen [OF fence], rule ensures_bind [OF read])
      (auto intro!: ensures_throw ensures_bind [OF checkpoint] announce)
  then have "\<exists>e s'. ?body (s\<lparr>units := Suc (units s)\<rparr>) = (Inl e, s')"
    using assms(1) by (cases "?body (s\<lparr>units := Suc (units s)\<rparr>)"; cases "fst (?body (s\<lparr>units := Suc (units s)\<rparr>))")
      (auto simp: ensures_def)
  then show ?thesis
    unfolding checkpoint_transaction_def in_unit_def
    by (rule stopped_unit [rotated]) (use assms(2) in \<open>simp add: quiet_def\<close>)
qed

section \<open>Heartbeats\<close>

lemma heartbeats_own:
  fixes s :: "'w sys"
  assumes "keys_ok (db s)" and "distinct ks"
    and "\<forall>k \<in> set ks. \<exists>l. lease_lookup (db s) k = Some l \<and> l_owner l = owner \<and> l_lease_revision l = rvn k"
  shows "\<exists>s'. foreach ks (\<lambda>k. bind (heartbeat v k owner (rvn k) ttl) (\<lambda>_. ret ())) s = (Inr (), s') \<and>
     operations (db s') = operations (db s) \<and> pulses s' = pulses s"
  using assms
proof (induction ks arbitrary: s)
  case Nil
  then show ?case by (simp add: ret_run)
next
  case (Cons k ks)
  then obtain l where l: "lease_lookup (db s) k = Some l" "l_owner l = owner" "l_lease_revision l = rvn k"
    by auto
  obtain lease and s1 :: "'w sys" where s1: "heartbeat v k owner (rvn k) ttl s = (Inr lease, s1)"
    "keys_ok (db s1)" "operations (db s1) = operations (db s)" "pulses s1 = pulses s"
    "\<forall>k'. k' \<noteq> k \<longrightarrow> lease_lookup (db s1) k' = lease_lookup (db s) k'"
    using heartbeat_own [OF Cons.prems(1) l] by blast
  have "\<forall>k' \<in> set ks. \<exists>l. lease_lookup (db s1) k' = Some l \<and> l_owner l = owner \<and> l_lease_revision l = rvn k'"
    using Cons.prems(2,3) s1(5) by auto
  from Cons.IH [OF s1(2) _ this] Cons.prems(2) s1(1,3,4) show ?case
    by (auto simp: andthen_run bind_run ret_run)
qed

text \<open>
  A heartbeat can take progress for a lost lease: a pulse is made with a fresh counter,
  so after a resume it reports a smaller value in the phase the operation is already in, the
  write is refused as running backwards, and the step is told that its lease is lost although
  it holds every one. Nothing of the heartbeat is kept, the renewal included.
\<close>

theorem resumed_pulse_loses_lease:
  fixes s :: "'w sys"
  assumes "keys_ok (db s)" and "quiet (en_env g)" and "op_lookup (db s) oid = Some row"
    and "fence_holds g oid held (db s) (e_clock (en_env g) (clock_reads s))"
    and "o_progress_phase row = Some phase" and "a_phase a = Some phase" and "phase \<noteq> ''''"
    and "(case a_current a of None \<Rightarrow> 0 | Some n \<Rightarrow> n) < o_progress_current row"
    and "cell < length (pulses s)" and "p_last_phase (pulses s ! cell) = None"
  shows "\<exists>s'. pulse g oid held cell a s = (Inl (LostLease (PulseLost (ProgressBackwards oid))), s') \<and>
    db s' = db s"
proof -
  let ?s = "s\<lparr>units := Suc (units s)\<rparr>"
  let ?s1 = "?s\<lparr>clock_reads := Suc (clock_reads s)\<rparr>"
  have fence: "fence g oid held ?s = (Inr (), ?s1)"
    using fence_run(1) [of g oid held ?s] assms(4) by simp
  have "\<forall>k \<in> set (held_keys held). \<exists>l. lease_lookup (db ?s1) k = Some l \<and> l_owner l = en_worker_id g \<and>
      l_lease_revision l = held_revision held k"
    using assms(4) by (auto simp: fence_holds_def owns_def held_keys_def split: option.splits)
  from heartbeats_own [OF _ _ this] assms(1) obtain s2 :: "'w sys" where s2: "foreach (held_keys held) (\<lambda>k.
      bind (heartbeat (en_env g) k (en_worker_id g) (held_revision held k) (en_ttl g)) (\<lambda>_. ret ())) ?s1 = (Inr (), s2)"
    "operations (db s2) = operations (db s)" "pulses s2 = pulses s"
    by (auto simp: held_keys_def)
  have op: "op_lookup (db s2) oid = Some row" using assms(3) s2(2) by (simp add: op_lookup_def)
  have "\<exists>s3. pulse_progress g oid cell row a s2 = (Inl (OperationConflict (ProgressBackwards oid)), s3)"
    using assms(5-10) s2(3) op
    by (auto simp: pulse_progress_def andthen_run bind_run update_cell_def reads_def pulse_cell_at_def
        should_emit_def only_if_def update_progress_def require_op_run throw_run Let_def)
  then show ?thesis
    using assms(3,6) fence s2(1)
    by (auto simp: pulse_def handle_def bind_run in_unit_def quiet_unit_run [OF assms(2)] require_op_run
        andthen_run only_if_def throw_run)
qed

section \<open>Claims\<close>

lemma sorted_keys_cong: "set xs = set ys \<Longrightarrow> sorted_keys xs = sorted_keys ys"
  by (rule sorted_distinct_set_unique) (simp_all add: sorted_keys_def)

text \<open>
  A busy claim is not all or none: when the second of two resources is still leased, live,
  by an earlier run of the same operation, the claim reports the operation busy, but the
  lease taken on the first resource stays, because the conflict is handled inside the unit
  of work, which then commits.
\<close>

theorem busy_claim_keeps_taken_lease:
  fixes s :: "'w sys"
  assumes "quiet (en_env g)" and "op_lookup (db s) oid = Some row"
    and "\<not> wf_phase_scoped_resources w" and "st \<noteq> ROLLING_BACK"
    and "all_resources w = [a, b]" and "a < b"
    and "lease_lookup (db s) a = None" and "lease_lookup (db s) b = Some l"
    and "l_operation_id l = oid" and "\<forall>n. e_clock (en_env g) n < l_expires_at l"
  shows "\<exists>s' l'. claim_leases g oid w st s = (Inr (Inl (busy_outcome oid [])), s') \<and>
    lease_lookup (db s') a = Some l' \<and> l_operation_id l' = oid \<and> l_owner l' = en_worker_id g"
proof -
  have keys: "sorted_keys [a, b] = [a, b]" "sorted_keys (sorted_keys [a, b]) = [a, b]"
    using assms(6) by (auto simp: sorted_keys_def)
  have desired: "desired_resources w st = [a, b]"
    using assms(3-5) keys by (simp add: desired_resources_def initial_resources_def)
  have ne: "a \<noteq> b" "b \<noteq> a" using assms(6) by auto
  have live: "\<not> l_expires_at l \<le> e_clock (en_env g) n" "e_clock (en_env g) n < l_expires_at l" for n
    using assms(10) by (auto simp: not_le)
  let ?s = "s\<lparr>units := Suc (units s)\<rparr>"
  let ?now = "e_clock (en_env g) (Suc (Suc (clock_reads s)))"
  let ?lease = "next_lease (db s) a oid (en_worker_id g) ?now (en_ttl g)"
  let ?d = "with_lease a oid (en_worker_id g) ?now (en_ttl g) (db s)"
  have avail: "availability (en_env g) [a, b] ?s =
      (Inr [(a, None), (b, Some oid)], ?s\<lparr>clock_reads := Suc (clock_reads s)\<rparr>)"
    using assms(7-9) live
    by (simp add: availability_def bind_run clock_run read_db_def keys occupant_def)
  have first: "acquire (en_env g) a oid (en_worker_id g) (en_ttl g) (?s\<lparr>clock_reads := Suc (Suc (clock_reads s))\<rparr>) =
      (Inr ?lease, ?s\<lparr>clock_reads := Suc (Suc (Suc (clock_reads s))), db := ?d\<rparr>)"
    by (subst acquire_run [where row = row]) (simp_all add: assms(2,7) Let_def)
  have second: "acquire (en_env g) b oid (en_worker_id g) (en_ttl g)
        (?s\<lparr>clock_reads := Suc (Suc (Suc (clock_reads s))), db := ?d\<rparr>) =
      (Inl (OperationConflict (LeaseActivelyHeld b)),
       ?s\<lparr>clock_reads := Suc (Suc (Suc (Suc (clock_reads s)))), db := ?d\<rparr>)"
    by (subst acquire_run [where row = row]) (simp_all add: assms(2,8) ne Let_def with_lease_lookup live)
  have "claim_leases g oid w st s = (Inr (Inl (busy_outcome oid [])),
      ?s\<lparr>clock_reads := Suc (Suc (Suc (Suc (clock_reads s)))), db := ?d\<rparr>)"
    using first second
    by (simp add: claim_leases_def in_unit_def quiet_unit_run [OF assms(1)] bind_run handle_def assms(5)
        avail foreign_keys_def desired acquire_many_def clock_run held_keys_def andthen_run ret_run keys
        Let_def)
  then show ?thesis by (simp add: with_lease_lookup)
qed

end
