(* ===== verification/Progress_Reporter.thy ===== *)
theory Progress_Reporter
  imports Repository_Facts
begin

text \<open>
  The progress reporter (\<^verbatim>\<open>operations/progress.py\<close>): throttled progress writes
  that lose to a concurrent writer instead of overwriting it. Its fields are the last phase
  and value it knows of and the ticks since its last write; the repositories it asks its
  factory for are those of the caller's transaction.
\<close>

section \<open>The reporter\<close>

record reporter =
  rp_policy :: progress_policy
  rp_last_phase :: "string option"
  rp_last_current :: int
  rp_ticks :: int

definition new_reporter :: "progress_policy option \<Rightarrow> reporter" where
  "new_reporter policy =
     \<lparr>rp_policy = (case policy of None \<Rightarrow> default_policy | Some p \<Rightarrow> p),
      rp_last_phase = None, rp_last_current = 0, rp_ticks = 0\<rparr>"

definition tick :: "reporter \<Rightarrow> reporter" where
  "tick rp = rp\<lparr>rp_ticks := rp_ticks rp + 1\<rparr>"

definition synced :: "op_row \<Rightarrow> reporter \<Rightarrow> reporter" where
  "synced row rp = rp\<lparr>rp_last_phase := o_progress_phase row, rp_last_current := o_progress_current row\<rparr>"

definition emit :: "env \<Rightarrow> reporter \<Rightarrow> ident \<Rightarrow> string \<Rightarrow> int \<Rightarrow> int option \<Rightarrow> string option \<Rightarrow> string option \<Rightarrow>
    ('w, bool \<times> reporter) prog" where
  "emit v rp oid phase current tot unit summary =
     handle
       (bind (update_progress v oid phase current tot unit summary) (\<lambda>row.
        ret (True, (synced row rp)\<lparr>rp_ticks := 0\<rparr>)))
       (\<lambda>e. case e of
          OperationConflict c \<Rightarrow>
            Some (bind (get_op oid) (\<lambda>refreshed. ret (False,
              case refreshed of None \<Rightarrow> rp | Some row \<Rightarrow> synced row rp)))
        | _ \<Rightarrow> None)"

definition maybe_emit :: "env \<Rightarrow> reporter \<Rightarrow> ident \<Rightarrow> string \<Rightarrow> int \<Rightarrow> int option \<Rightarrow> string option \<Rightarrow>
    string option \<Rightarrow> ('w, bool \<times> reporter) prog" where
  "maybe_emit v rp oid phase current tot unit summary =
    (if \<not> should_emit (rp_policy rp) (Some phase) current (rp_last_phase rp) (rp_last_current rp) (rp_ticks rp)
     then ret (False, rp)
     else
       bind (emit v rp oid phase current tot unit summary) (\<lambda>(emitted, rp').
       ret (emitted, if emitted then rp'\<lparr>rp_ticks := 0\<rparr> else rp')))"

section \<open>Throttled writes\<close>

lemma synced_simps [simp]:
  "rp_last_phase (synced row rp) = o_progress_phase row"
  "rp_last_current (synced row rp) = o_progress_current row"
  "rp_policy (synced row rp) = rp_policy rp"
  by (simp_all add: synced_def)

lemma emit_cases:
  assumes "keys_ok (db s)" and "op_lookup (db s) oid = Some row"
  shows "(\<exists>row' s'. emit v rp oid phase current tot unit summary s =
        (Inr (True, (synced row' rp)\<lparr>rp_ticks := 0\<rparr>), s') \<and>
      op_lookup (db s') oid = Some row' \<and> o_progress_phase row' = Some phase \<and>
      o_progress_current row' = current \<and> o_state_revision row' = o_state_revision row + 1 \<and>
      (Some phase = o_progress_phase row \<longrightarrow> o_progress_current row \<le> current)) \<or>
    (emit v rp oid phase current tot unit summary s = (Inr (False, synced row rp), s) \<and>
      Some phase = o_progress_phase row \<and> current < o_progress_current row)"
  using update_progress_cases [OF assms, of phase current v tot unit summary] assms(2)
  by (auto simp: emit_def handle_def bind_run get_op_run ret_run not_less)

text \<open>
  The reporter throttles and never overwrites: a report that is written is due under the
  policy (a new phase, or progress of at least the minimal size after at least the minimal
  number of ticks), becomes the stored progress at the next revision and resets the ticks; a
  report that is not written leaves every table as it was, and after a refused write the
  reporter knows what is stored. Reporting never raises.
\<close>

theorem reporter_writes_due_progress:
  fixes s :: "'w sys"
  assumes "keys_ok (db s)" and "op_lookup (db s) oid = Some row"
  shows "\<exists>b rp' s'. maybe_emit v rp oid phase current tot unit summary s = (Inr (b, rp'), s') \<and>
    (b \<longrightarrow> (rp_last_phase rp \<noteq> Some phase \<or>
          (rp_last_current rp < current \<and> min_delta (rp_policy rp) \<le> current - rp_last_current rp \<and>
           min_interval_ticks (rp_policy rp) \<le> rp_ticks rp)) \<and>
       (\<exists>row'. op_lookup (db s') oid = Some row' \<and> o_progress_phase row' = Some phase \<and>
          o_progress_current row' = current \<and> o_state_revision row' = o_state_revision row + 1) \<and>
       rp_last_phase rp' = Some phase \<and> rp_last_current rp' = current \<and> rp_ticks rp' = 0) \<and>
    (\<not> b \<longrightarrow> db s' = db s \<and> (rp' = rp \<or> rp' = synced row rp))"
proof (cases "should_emit (rp_policy rp) (Some phase) current (rp_last_phase rp) (rp_last_current rp) (rp_ticks rp)")
  case True
  then have due: "rp_last_phase rp \<noteq> Some phase \<or>
      (rp_last_current rp < current \<and> min_delta (rp_policy rp) \<le> current - rp_last_current rp \<and>
       min_interval_ticks (rp_policy rp) \<le> rp_ticks rp)"
    by (auto simp: should_emit_def Let_def split: if_splits)
  from emit_cases [OF assms, of v rp phase current tot unit summary] show ?thesis
  proof (elim disjE exE conjE)
    fix row' and s' :: "'w sys"
    assume "emit v rp oid phase current tot unit summary s = (Inr (True, (synced row' rp)\<lparr>rp_ticks := 0\<rparr>), s')"
      and "op_lookup (db s') oid = Some row'" "o_progress_phase row' = Some phase"
      "o_progress_current row' = current" "o_state_revision row' = o_state_revision row + 1"
    with True due show ?thesis by (auto simp: maybe_emit_def bind_run ret_run)
  next
    assume "emit v rp oid phase current tot unit summary s = (Inr (False, synced row rp), s)"
    with True have "maybe_emit v rp oid phase current tot unit summary s = (Inr (False, synced row rp), s)"
      by (simp add: maybe_emit_def bind_run ret_run)
    then show ?thesis by (intro exI [of _ False] exI [of _ "synced row rp"] exI [of _ s]) simp
  qed
next
  case False
  then have "maybe_emit v rp oid phase current tot unit summary s = (Inr (False, rp), s)"
    by (simp add: maybe_emit_def ret_run)
  then show ?thesis by (intro exI [of _ False] exI [of _ rp] exI [of _ s]) simp
qed

end
