(* ===== verification/Completion.thy ===== *)
theory Completion
  imports Engine_Facts Workflow_Facts
begin

text \<open>
  Liveness: in calm surroundings (no other writer, no crash, a clock that stays within the
  leases' time to live, callables that return) a queued operation is driven to success in
  one run. The proofs are total-correctness triples over the tables.
\<close>

section \<open>Triples\<close>

definition runs :: "(db \<Rightarrow> bool) \<Rightarrow> ('w, 'a) prog \<Rightarrow> ('a \<Rightarrow> db \<Rightarrow> bool) \<Rightarrow> bool" where
  "runs P m Q \<longleftrightarrow> (\<forall>s. P (db s) \<longrightarrow> (\<exists>x s'. m s = (Inr x, s') \<and> Q x (db s')))"

lemma runs_pre: "runs P m Q \<Longrightarrow> (\<And>d. P' d \<Longrightarrow> P d) \<Longrightarrow> runs P' m Q"
  by (auto simp: runs_def)

lemma runs_post: "runs P m Q \<Longrightarrow> (\<And>x d. Q x d \<Longrightarrow> Q' x d) \<Longrightarrow> runs P m Q'"
  unfolding runs_def by meson

lemma runs_bind:
  assumes "runs P m A" and "\<And>x. runs (A x) (f x) Q"
  shows "runs P (bind m f) Q"
  unfolding runs_def
proof (intro allI impI)
  fix s :: "'a sys" assume "P (db s)"
  then obtain x s1 where m: "m s = (Inr x, s1)" "A x (db s1)"
    using assms(1) by (auto simp: runs_def)
  then obtain y s2 where "f x s1 = (Inr y, s2)" "Q y (db s2)"
    using assms(2) by (force simp: runs_def)
  with m show "\<exists>y s'. bind m f s = (Inr y, s') \<and> Q y (db s')"
    by (simp add: bind_run)
qed

lemma runs_andthen: "runs P m (\<lambda>_. A) \<Longrightarrow> runs A n Q \<Longrightarrow> runs P (andthen m n) Q"
  unfolding andthen_def by (rule runs_bind)

lemma runs_ret: "(\<And>d. P d \<Longrightarrow> Q x d) \<Longrightarrow> runs P (ret x) Q"
  by (simp add: runs_def ret_run)

lemma runs_ignore: "runs P m (\<lambda>_. A) \<Longrightarrow> runs P (bind m (\<lambda>_. ret ())) (\<lambda>_. A)"
  by (rule runs_bind) (auto intro: runs_ret)

lemma runs_read_db: "(\<And>d. P d \<Longrightarrow> Q (f d) d) \<Longrightarrow> runs P (read_db f) Q"
  by (simp add: runs_def read_db_def)

lemma runs_lift: "r = Inr x \<Longrightarrow> (\<And>d. P d \<Longrightarrow> Q x d) \<Longrightarrow> runs P (lift r) Q"
  by (simp add: runs_def lift_run)

lemma runs_if: "(b \<Longrightarrow> runs P m Q) \<Longrightarrow> (\<not> b \<Longrightarrow> runs P n Q) \<Longrightarrow> runs P (if b then m else n) Q"
  by simp

lemma runs_one: "runs P m Q \<Longrightarrow> runs (\<lambda>d. n = (1 :: nat) \<and> P d) (if n \<noteq> 1 then e else m) Q"
  by (auto simp: runs_def)

lemma runs_tick: "runs P (clock v) (\<lambda>_. P)"
  by (simp add: runs_def clock_run)

lemma runs_conj: "(B \<Longrightarrow> runs P m Q) \<Longrightarrow> runs (\<lambda>d. B \<and> P d) m Q"
  by (auto simp: runs_def)

lemma runs_fact: "(\<And>d. P d \<Longrightarrow> B) \<Longrightarrow> (B \<Longrightarrow> runs P m Q) \<Longrightarrow> runs P m Q"
  by (auto simp: runs_def)

lemma runs_ex: "(\<And>y. runs (\<lambda>d. P y d) m Q) \<Longrightarrow> runs (\<lambda>d. \<exists>y. P y d) m Q"
  by (auto simp: runs_def)

lemma runs_unit:
  assumes "quiet v" and "runs P body Q"
  shows "runs P (begin_unit v body) Q"
  unfolding runs_def
proof (intro allI impI)
  fix s :: "'a sys" assume "P (db s)"
  then obtain x s' where "body (s\<lparr>units := Suc (units s)\<rparr>) = (Inr x, s')" "Q x (db s')"
    using assms(2) [unfolded runs_def, rule_format, of "s\<lparr>units := Suc (units s)\<rparr>"] by auto
  then show "\<exists>x s'. begin_unit v body s = (Inr x, s') \<and> Q x (db s')"
    by (simp add: quiet_unit_run [OF assms(1)])
qed

lemma runs_in_unit: "quiet (en_env g) \<Longrightarrow> runs P body Q \<Longrightarrow> runs P (in_unit g body) Q"
  unfolding in_unit_def by (rule runs_unit)

lemma runs_handle: "runs P m Q \<Longrightarrow> runs P (handle m h) Q"
  by (fastforce simp: runs_def handle_def)

lemma runs_call: "runs P (f ctx) Q \<Longrightarrow> runs P (call_step kind f ctx) Q"
  by (simp add: runs_def call_step_def andthen_run log_call_def)

section \<open>Calm surroundings and the situation of an operation\<close>

definition calm :: "'w engine \<Rightarrow> instant \<Rightarrow> instant \<Rightarrow> bool" where
  "calm g t0 t1 \<longleftrightarrow> quiet (en_env g) \<and>
     (\<forall>n. t0 \<le> e_clock (en_env g) n \<and> e_clock (en_env g) n < t1) \<and> t1 \<le> t0 + en_ttl g \<and>
     en_crash g = (\<lambda>_ _. ret ()) \<and> en_on_lease_acquired g = None \<and> en_terminal_observer g = None \<and>
     (\<forall>s. \<not> en_shutdown g s) \<and> (\<forall>b s. \<not> en_profile_busy g b s) \<and> 3 \<le> en_fuel g"

lemma calm_quiet: "calm g t0 t1 \<Longrightarrow> quiet (en_env g)"
  by (simp add: calm_def)

lemma runs_clock: "calm g t0 t1 \<Longrightarrow> runs P (clock (en_env g)) (\<lambda>t d. P d \<and> t0 \<le> t \<and> t < t1)"
  by (simp add: runs_def clock_run calm_def)

text \<open>
  Where an operation stands: its state, the states of its steps and the leases it holds
  until at least \<open>t1\<close>.
\<close>

definition holds :: "'w engine \<Rightarrow> ident \<Rightarrow> instant \<Rightarrow> held \<Rightarrow> db \<Rightarrow> bool" where
  "holds g oid t1 held d \<longleftrightarrow> (\<forall>(k, n) \<in> set held. \<exists>l. lease_lookup d k = Some l \<and>
     l_operation_id l = oid \<and> l_owner l = en_worker_id g \<and> l_lease_revision l = n \<and> t1 \<le> l_expires_at l)"

definition sit :: "'w engine \<Rightarrow> ident \<Rightarrow> instant \<Rightarrow> op_state \<Rightarrow> (ident \<Rightarrow> step_state option) \<Rightarrow> held \<Rightarrow> db \<Rightarrow> bool" where
  "sit g oid t1 st ph held d \<longleftrightarrow> keys_ok d \<and> distinct (map fst held) \<and> holds g oid t1 held d \<and>
     (\<exists>r. op_lookup d oid = Some r \<and> o_state r = st \<and> o_cancel_requested_at r = None) \<and>
     (\<forall>k. map_option s_state (step_lookup d oid k) = ph k)"

abbreviation sit_row :: "'w engine \<Rightarrow> ident \<Rightarrow> instant \<Rightarrow> op_state \<Rightarrow> (ident \<Rightarrow> step_state option) \<Rightarrow> held \<Rightarrow>
    op_row \<Rightarrow> db \<Rightarrow> bool" where
  "sit_row g oid t1 st ph held r d \<equiv> sit g oid t1 st ph held d \<and> op_lookup d oid = Some r \<and>
     o_state r = st \<and> o_cancel_requested_at r = None"

lemma sit_with_event:
  assumes "e_cursor e = next_cursor d" and "sit g oid t1 st ph held d"
  shows "sit g oid t1 st ph held (with_event e d)"
  using assms keys.D_event [OF assms(1)]
  by (simp add: sit_def holds_def keys_kept_def with_event_def [symmetric])

lemma runs_require:
  "runs (sit g oid t1 st ph held) (require_op oid) (\<lambda>r. sit_row g oid t1 st ph held r)"
  by (auto simp: runs_def require_op_run sit_def)

lemma runs_required:
  "runs (sit g oid t1 st ph held) (bind (require_op oid) (\<lambda>_. ret ())) (\<lambda>_. sit g oid t1 st ph held)"
  by (rule runs_bind [OF runs_require]) (auto intro: runs_ret)

lemma held_revision_in: "distinct (map fst held) \<Longrightarrow> (k, n) \<in> set held \<Longrightarrow> held_revision held k = n"
  by (simp add: held_revision_def)

lemma holds_fence:
  assumes "distinct (map fst held)" and "holds g oid t1 held d" and "now < t1"
  shows "fence_holds g oid held d now"
  using assms by (fastforce simp: fence_holds_def holds_def owns_def held_revision_in)

lemma runs_fence:
  assumes "calm g t0 t1" and "\<And>d. P d \<Longrightarrow> distinct (map fst held) \<and> holds g oid t1 held d"
  shows "runs P (fence g oid held) (\<lambda>_. P)"
  unfolding runs_def
proof (intro allI impI)
  fix s :: "'a sys" assume P: "P (db s)"
  have "e_clock (en_env g) (clock_reads s) < t1" using assms(1) by (simp add: calm_def)
  with assms(2) [OF P] have "fence_holds g oid held (db s) (e_clock (en_env g) (clock_reads s))"
    by (blast intro: holds_fence)
  from fence_run(1) [OF this] P show "\<exists>x s'. fence g oid held s = (Inr x, s') \<and> P (db s')" by simp
qed

lemma runs_fence_sit:
  "calm g t0 t1 \<Longrightarrow> runs (sit g oid t1 st ph held) (fence g oid held) (\<lambda>_. sit g oid t1 st ph held)"
  by (rule runs_fence) (auto simp: sit_def)

lemma runs_fence_row:
  "calm g t0 t1 \<Longrightarrow> runs (sit_row g oid t1 st ph held r) (fence g oid held) (\<lambda>_. sit_row g oid t1 st ph held r)"
  by (rule runs_fence) (auto simp: sit_def)

section \<open>Events and transitions\<close>

definition fits :: "nat \<Rightarrow> json \<Rightarrow> bool" where
  "fits n v \<longleftrightarrow> (\<exists>w. sanitize_payload n v = Inr w)"

definition fits_opt :: "nat \<Rightarrow> json option \<Rightarrow> bool" where
  "fits_opt n v \<longleftrightarrow> (\<forall>x. v = Some x \<longrightarrow> fits n x)"

lemma fits_opt_simps [simp]: "fits_opt n None" "fits_opt n (Some x) \<longleftrightarrow> fits n x"
  by (simp_all add: fits_opt_def)

lemma runs_sanitized_opt: "fits_opt n v \<Longrightarrow> runs P (sanitized_opt n v) (\<lambda>_. P)"
  by (cases v) (auto simp: runs_def fits_def sanitized_opt_def sanitized_run bind_run ret_run)

lemma runs_append_event:
  assumes "\<And>d. P d \<Longrightarrow> op_lookup d oid \<noteq> None" and "level \<in> set EVENT_LEVELS"
    and "fits_opt EVENT_DETAIL_MAX_BYTES detail" and "fits_opt EVENT_DETAIL_MAX_BYTES progress"
    and "\<And>d e. P d \<Longrightarrow> e_cursor e = next_cursor d \<Longrightarrow> Q (with_event e d)"
  shows "runs P (append_event v oid level code summary detail progress) (\<lambda>_. Q)"
proof -
  have known: "runs P (require_known oid) (\<lambda>_. P)"
    using assms(1) by (fastforce simp: runs_def require_known_run split: option.split)
  have insert: "runs P (insert_event row_at) (\<lambda>_. Q)" if "\<And>c. e_cursor (row_at c) = c" for row_at
    using assms(5) that
    by (simp add: runs_def insert_event_def bind_run andthen_run read_db_def write_db_def ret_run
        with_event_def [symmetric])
  show ?thesis
    unfolding append_event_def using assms(2)
    by (auto intro!: runs_andthen [OF known] runs_bind [OF runs_sanitized_opt [OF assms(3)]]
        runs_bind [OF runs_sanitized_opt [OF assms(4)]] runs_bind [OF runs_tick] insert)
qed

lemma sit_known: "sit g oid t1 st ph held d \<Longrightarrow> op_lookup d oid \<noteq> None"
  by (auto simp: sit_def)

lemma runs_event:
  assumes "fits_opt EVENT_DETAIL_MAX_BYTES detail" and "fits_opt EVENT_DETAIL_MAX_BYTES progress"
  shows "runs (sit g oid t1 st ph held) (event g oid code summary detail progress)
     (\<lambda>_. sit g oid t1 st ph held)"
  unfolding event_def
  by (intro runs_ignore runs_append_event assms) (simp_all add: sit_known sit_with_event)

lemma sit_transitioned:
  assumes "sit_row g oid t1 st ph held r d" and "can_transition st target"
  shows "sit g oid t1 target ph held (d\<lparr>operations := rows_updated
     (\<lambda>r'. o_id r' = oid \<and> o_state r' = st \<and> o_state_revision r' = o_state_revision r)
     (transitioned target now un rc rd ec ed) (operations d)\<rparr>)"
proof -
  let ?p = "\<lambda>r'. o_state r' = st \<and> o_state_revision r' = o_state_revision r"
  let ?d = "d\<lparr>operations := rows_updated (\<lambda>r'. o_id r' = oid \<and> ?p r')
     (transitioned target now un rc rd ec ed) (operations d)\<rparr>"
  have k: "keys_ok d" using assms(1) by (simp add: sit_def)
  have one: "length (filter (\<lambda>r'. o_id r' = oid \<and> ?p r') (operations d)) = 1"
    by (rule one_matching_row [OF k]) (use assms(1) in auto)
  have "op_lookup ?d oid = Some (transitioned target now un rc rd ec ed r)"
    using assms(1) matched_row [OF k one, of "transitioned target now un rc rd ec ed"] by simp
  moreover have "keys_ok ?d"
    using keys.D_transition [OF assms(2), of d oid "o_state_revision r"] k by (simp add: keys_kept_def)
  ultimately show ?thesis
    using assms(1) by (simp add: sit_def holds_def transitioned_def lease_lookup_def step_lookup_def)
qed

lemma runs_transition:
  fixes g :: "'w engine"
  assumes "calm g t0 t1" and "can_transition st target" and "t_level a \<in> set EVENT_LEVELS"
    and "fits_opt EVENT_DETAIL_MAX_BYTES (t_detail a)"
    and "fits_opt EVENT_DETAIL_MAX_BYTES (t_result_detail a)"
    and "fits_opt EVENT_DETAIL_MAX_BYTES (t_error_detail a)"
  shows "runs (sit_row g oid t1 st ph held r)
     (compare_and_transition (en_env g) oid st (o_state_revision r) target a :: ('w, op_row) prog)
     (\<lambda>_. sit g oid t1 target ph held)"
proof -
  let ?P = "sit_row g oid t1 st ph held r"
  have req: "runs ?P (require_op oid) (\<lambda>c. ?P)" by (auto simp: runs_def require_op_run)
  have chk: "runs ?P (lift (assert_transition st target)) (\<lambda>_. ?P)"
    by (rule runs_lift) (simp_all add: assert_transition_def assms(2))
  have upd: "runs ?P (update_ops (\<lambda>r'. o_id r' = oid \<and> o_state r' = st \<and> o_state_revision r' = o_state_revision r)
      (transitioned target now un rc rd ec ed) :: ('w, nat) prog) (\<lambda>n d. n = 1 \<and> sit g oid t1 target ph held d)"
    for now un rc rd ec ed
    unfolding runs_def
  proof (intro allI impI)
    fix s :: "'w sys" assume P: "?P (db s)"
    have "length (filter (\<lambda>r'. o_id r' = oid \<and> o_state r' = st \<and> o_state_revision r' = o_state_revision r)
        (operations (db s))) = 1"
      by (rule one_matching_row [where row = r]) (use P in \<open>auto simp: sit_def\<close>)
    with sit_transitioned [OF P assms(2), of now un rc rd ec ed]
    show "\<exists>x s'. update_ops (\<lambda>r'. o_id r' = oid \<and> o_state r' = st \<and> o_state_revision r' = o_state_revision r)
        (transitioned target now un rc rd ec ed) s = (Inr x, s') \<and> x = 1 \<and> sit g oid t1 target ph held (db s')"
      by (simp add: update_ops_run)
  qed
  have fin: "runs (sit g oid t1 target ph held) (bind (get_op oid) assert_some) (\<lambda>_. sit g oid t1 target ph held)"
    by (auto simp: runs_def bind_run get_op_run sit_def ret_run)
  have ev: "runs (sit g oid t1 target ph held) (append_event v oid (t_level a) code summary (t_detail a) None)
      (\<lambda>_. sit g oid t1 target ph held)" for v code summary
    by (rule runs_append_event) (simp_all add: sit_known sit_with_event assms)
  show ?thesis
    unfolding compare_and_transition_def
    by (intro runs_bind [OF req] runs_andthen [OF chk] runs_bind [OF runs_tick]
        runs_bind [OF runs_sanitized_opt] runs_bind [OF upd] runs_one runs_andthen [OF ev fin] assms)
qed

section \<open>Steps\<close>

lemma step_lookup_rows: "step_lookup (d\<lparr>operation_steps := rs\<rparr>) oid key = row_with step_key_of rs (oid, key)"
  by (simp add: step_lookup_def)

lemma sit_step:
  assumes "sit g oid t1 st ph held d" and "ph key = Some x"
  obtains r where "step_lookup d oid key = Some r" and "s_state r = x"
proof -
  have "map_option s_state (step_lookup d oid key) = Some x"
    using assms by (simp add: sit_def)
  then show ?thesis using that by auto
qed

lemma sit_step_write:
  assumes "sit g oid t1 st ph held d" and "ph key = Some expected"
    and "can_step_transition expected target" and "same_identity extra"
  defines "p \<equiv> \<lambda>r. step_key_of r = (oid, key) \<and> s_state r = expected"
    and "f \<equiv> \<lambda>r. (extra r)\<lparr>s_state := target\<rparr>"
  shows "length (filter p (operation_steps d)) = 1"
    and "sit g oid t1 st (ph(key \<mapsto> target)) held (d\<lparr>operation_steps := rows_updated p f (operation_steps d)\<rparr>)"
    and "\<exists>r0. step_lookup (d\<lparr>operation_steps := rows_updated p f (operation_steps d)\<rparr>) oid key = Some (f r0)"
proof -
  have k: "keys_ok d" using assms(1) by (simp add: sit_def)
  obtain r0 where r0: "step_lookup d oid key = Some r0" "s_state r0 = expected"
    by (rule sit_step [OF assms(1,2)])
  then have mem: "r0 \<in> set (operation_steps d)" "step_key_of r0 = (oid, key)"
    by (auto simp: step_lookup_def dest: row_with_SomeD)
  have dist: "distinct (map step_key_of (operation_steps d))" using k by (simp add: keys_ok_def)
  have uniq: "r = r0" if "r \<in> set (operation_steps d)" "step_key_of r = (oid, key)" for r
    using dist mem that by (auto simp: distinct_map inj_on_def)
  have "filter p (operation_steps d) = filter (\<lambda>r. r = r0) (operation_steps d)"
    by (rule filter_cong) (auto simp: p_def r0 mem dest: uniq)
  moreover have "length (filter (\<lambda>r. r = r0) rows) = (if r0 \<in> set rows then 1 else 0)"
    if "distinct rows" for rows
    using that by (induction rows) auto
  ultimately show "length (filter p (operation_steps d)) = 1"
    using dist mem by (simp add: distinct_map)
  have fid: "step_key_of (f r) = step_key_of r" for r
    using assms(4) by (simp add: f_def same_identity_def step_key_of_def)
  have look: "step_lookup (d\<lparr>operation_steps := rows_updated p f (operation_steps d)\<rparr>) oid k' =
      map_option (\<lambda>r. if p r then f r else r) (step_lookup d oid k')" for k'
    unfolding step_lookup_rows unfolding step_lookup_def
    by (rule row_with_updated) (rule fid)
  show "\<exists>r0. step_lookup (d\<lparr>operation_steps := rows_updated p f (operation_steps d)\<rparr>) oid key = Some (f r0)"
    unfolding look using r0 mem by (auto simp: p_def)
  have "map_option s_state (step_lookup (d\<lparr>operation_steps := rows_updated p f (operation_steps d)\<rparr>) oid k')
      = (ph(key \<mapsto> target)) k'" for k'
  proof (cases "k' = key")
    case True
    then show ?thesis unfolding look using r0 mem by (simp add: p_def f_def)
  next
    case False
    have "\<not> p r" if "step_lookup d oid k' = Some r" for r
      using that False by (auto simp: p_def step_lookup_def dest: row_with_key)
    with False assms(1) show ?thesis
      unfolding look by (cases "step_lookup d oid k'") (auto simp: sit_def dest: spec [of _ k'])
  qed
  moreover have "keys_ok (d\<lparr>operation_steps := rows_updated p f (operation_steps d)\<rparr>)"
    using k keys.D_step [OF assms(3,4), of d oid key] by (simp add: keys_kept_def p_def f_def)
  ultimately show "sit g oid t1 st (ph(key \<mapsto> target)) held
      (d\<lparr>operation_steps := rows_updated p f (operation_steps d)\<rparr>)"
    using assms(1) by (simp add: sit_def holds_def op_lookup_def lease_lookup_def)
qed

lemma require_step_run: "require_step oid key s = (case step_lookup (db s) oid key of
    None \<Rightarrow> (Inl (OperationConflict (NoSuchStep oid key)), s) | Some r \<Rightarrow> (Inr r, s))"
  by (simp add: require_step_def bind_run get_step_def read_db_def throw_run ret_run split: option.split)

lemma runs_cas_step:
  fixes g :: "'w engine"
  assumes "ph key = Some expected" and "can_step_transition expected target" and "same_identity extra"
  shows "runs (sit g oid t1 st ph held) (cas_step oid key expected target extra :: ('w, step_row) prog)
     (\<lambda>r d. sit g oid t1 st (ph(key \<mapsto> target)) held d \<and> (\<exists>r0. r = (extra r0)\<lparr>s_state := target\<rparr>))"
  unfolding runs_def
proof (intro allI impI)
  fix s :: "'w sys" assume sit: "sit g oid t1 st ph held (db s)"
  note w = sit_step_write [OF sit assms]
  have ok: "\<not> (expected \<noteq> target \<and> target \<notin> STEP_TRANSITIONS expected)"
    using assms(2) by (auto simp: can_step_transition_def)
  from w(3) obtain r0 where look: "step_lookup ((db s)\<lparr>operation_steps := rows_updated
      (\<lambda>r. step_key_of r = (oid, key) \<and> s_state r = expected) (\<lambda>r. (extra r)\<lparr>s_state := target\<rparr>)
      (operation_steps (db s))\<rparr>) oid key = Some ((extra r0)\<lparr>s_state := target\<rparr>)" by blast
  show "\<exists>r s'. cas_step oid key expected target extra s = (Inr r, s') \<and>
      sit g oid t1 st (ph(key \<mapsto> target)) held (db s') \<and> (\<exists>r0. r = (extra r0)\<lparr>s_state := target\<rparr>)"
    using w(1,2) look ok
    by (auto simp: cas_step_def andthen_run bind_run lift_run assert_step_transition_def update_steps_def
        read_db_def write_db_def ret_run require_step_run)
qed

lemma runs_require_step:
  fixes g :: "'w engine"
  assumes "ph key = Some x"
  shows "runs (sit g oid t1 st ph held) (require_step oid key :: ('w, step_row) prog)
     (\<lambda>r d. s_state r = x \<and> sit g oid t1 st ph held d)"
  unfolding runs_def
proof (intro allI impI)
  fix s :: "'w sys" assume sit: "sit g oid t1 st ph held (db s)"
  obtain r where "step_lookup (db s) oid key = Some r" "s_state r = x"
    by (rule sit_step [OF sit assms])
  with sit show "\<exists>r s'. require_step oid key s = (Inr r, s') \<and> s_state r = x \<and>
      sit g oid t1 st ph held (db s')"
    by (simp add: require_step_run)
qed

lemma runs_start_step:
  fixes g :: "'w engine"
  assumes "ph key = Some S_PENDING" and "fits REQUEST_MAX_BYTES inputs"
  shows "runs (sit g oid t1 st ph held)
     (start_step v oid key (Some eid) False (Some inputs) :: ('w, step_row) prog)
     (\<lambda>_. sit g oid t1 st (ph(key \<mapsto> S_RUNNING)) held)"
proof -
  have cas: "runs (sit g oid t1 st ph held)
      (cas_step oid key S_PENDING S_RUNNING (started now (Some eid) i) :: ('w, step_row) prog)
      (\<lambda>_. sit g oid t1 st (ph(key \<mapsto> S_RUNNING)) held)" for now i
    by (rule runs_post [OF runs_cas_step [where ph = ph and key = key, OF assms(1)]])
      (auto simp: can_step_transition_def same_identity_def started_def)
  show ?thesis
    unfolding start_step_def
    by (rule runs_bind [OF runs_require_step [where ph = ph and key = key, OF assms(1)]], rule runs_conj)
      (auto intro!: runs_bind [OF runs_tick] runs_bind [OF runs_sanitized_opt] cas simp: assms(2))
qed

lemma runs_checkpoint_step:
  fixes g :: "'w engine"
  assumes "ph key = Some S_RUNNING" and "sanitize_payload REQUEST_MAX_BYTES x = Inr w"
  shows "runs (sit g oid t1 st ph held) (checkpoint_step v oid key (Some x) :: ('w, step_row) prog)
     (\<lambda>r d. s_output_json r = Some w \<and> sit g oid t1 st (ph(key \<mapsto> S_CHECKPOINTED)) held d)"
proof -
  have san: "runs P (sanitized_opt REQUEST_MAX_BYTES (Some x) :: ('w, json option) prog)
      (\<lambda>y d. y = Some w \<and> P d)" for P
    using assms(2) by (simp add: runs_def sanitized_opt_def bind_run sanitized_run ret_run)
  have cas: "runs (sit g oid t1 st ph held)
      (cas_step oid key S_RUNNING S_CHECKPOINTED (\<lambda>r. r\<lparr>s_checkpointed_at := Some now,
         s_output_json := given (Some w) (s_output_json r)\<rparr>) :: ('w, step_row) prog)
      (\<lambda>r d. s_output_json r = Some w \<and> sit g oid t1 st (ph(key \<mapsto> S_CHECKPOINTED)) held d)" for now
    by (rule runs_post [OF runs_cas_step [where ph = ph and key = key, OF assms(1)]])
      (auto simp: can_step_transition_def same_identity_def given_def)
  show ?thesis
    unfolding checkpoint_step_def
    by (rule runs_bind [OF runs_tick], rule runs_bind [OF san])
      (rule runs_conj, simp add: cas)
qed

lemma runs_verify_step:
  fixes g :: "'w engine"
  assumes "ph key = Some S_CHECKPOINTED"
  shows "runs (sit g oid t1 st ph held) (verify_step oid key :: ('w, step_row) prog)
     (\<lambda>_. sit g oid t1 st (ph(key \<mapsto> S_VERIFIED)) held)"
  unfolding verify_step_def
  by (rule runs_post [OF runs_cas_step [where ph = ph and key = key, OF assms]])
    (auto simp: can_step_transition_def same_identity_def)

section \<open>One step\<close>

definition good_output :: "json \<Rightarrow> bool" where
  "good_output out \<longleftrightarrow> (\<exists>m. sanitize_payload REQUEST_MAX_BYTES (or_empty out) = Inr m \<and>
     fits EVENT_DETAIL_MAX_BYTES (JObj [(''output'', m)]))"

text \<open>What is asked of a step: its callables return, leave the operation where it stands and give persistable values.\<close>

definition step_succeeds :: "'w engine \<Rightarrow> ident \<Rightarrow> instant \<Rightarrow> json \<Rightarrow> 'w step_def \<Rightarrow> bool" where
  "step_succeeds g oid t1 decoded st \<longleftrightarrow>
     (\<forall>prior. \<exists>x. sd_derive_input st decoded prior = Inr x \<and> fits REQUEST_MAX_BYTES x) \<and>
     (\<forall>n. fits EVENT_DETAIL_MAX_BYTES (JObj [(''external_effect_id'', jstr (e_uuid (en_env g) n)),
        (''phase'', jstr (sd_phase st))])) \<and>
     fits EVENT_DETAIL_MAX_BYTES (JObj [(''phase'', jstr (sd_phase st)), (''current'', JInt (sd_sequence st))]) \<and>
     (\<forall>ctx s ph held. runs (sit g oid t1 s ph held) (sd_execute st ctx)
        (\<lambda>out d. good_output out \<and> sit g oid t1 s ph held d)) \<and>
     (\<forall>ctx s ph held. runs (sit g oid t1 s ph held) (sd_verify st ctx) (\<lambda>_. sit g oid t1 s ph held))"

lemma runs_crash: "calm g t0 t1 \<Longrightarrow> runs P (en_crash g k p) (\<lambda>_. P)"
  by (simp add: calm_def runs_def ret_run)

lemma runs_only_if: "runs P m (\<lambda>_. P) \<Longrightarrow> runs P (only_if b m) (\<lambda>_. P)"
  by (simp add: only_if_def runs_ret)

lemma runs_uuid: "runs P (uuid_factory v) (\<lambda>i d. (\<exists>n. i = e_uuid v n) \<and> P d)"
  by (auto simp: runs_def uuid_factory_def)

lemma runs_guarded: "runs P m Q \<Longrightarrow> runs P (guarded h m) (\<lambda>r d. \<exists>x. r = Inr x \<and> Q x d)"
  unfolding guarded_def by (rule runs_handle, erule runs_bind) (auto intro: runs_ret)

fun settled :: "op_state \<Rightarrow> op_state" where
  "settled QUEUED = RUNNING"
| "settled PREPARING = RUNNING"
| "settled st = st"

text \<open>A plain move of the row that was just read.\<close>

definition plain :: "transition_args \<Rightarrow> bool" where
  "plain a \<longleftrightarrow> t_level a \<in> set EVENT_LEVELS \<and> t_detail a = None \<and> t_result_detail a = None \<and>
     t_error_detail a = None"

lemma runs_move:
  fixes g :: "'w engine" and n :: "('w, 'a) prog"
  assumes "calm g t0 t1" and "can_transition st target" and "plain a"
    and "runs (sit g oid t1 target ph held) n Q"
  shows "runs (sit_row g oid t1 st ph held r)
     (bind (compare_and_transition (en_env g) oid (o_state r) (o_state_revision r) target a) (\<lambda>_. n)) Q"
proof (rule runs_fact [where B = "o_state r = st"])
  assume eq: "o_state r = st"
  have "runs (sit_row g oid t1 st ph held r)
     (bind (compare_and_transition (en_env g) oid st (o_state_revision r) target a) (\<lambda>_. n)) Q"
    by (rule runs_bind [OF runs_transition [OF assms(1,2)] assms(4)])
      (use assms(3) in \<open>simp_all add: plain_def\<close>)
  then show "runs (sit_row g oid t1 st ph held r)
     (bind (compare_and_transition (en_env g) oid (o_state r) (o_state_revision r) target a) (\<lambda>_. n)) Q"
    by (simp only: eq)
qed auto

lemma plain_simps [simp]: "plain plain_transition"
  "plain (plain_transition\<lparr>t_code := c, t_summary := x\<rparr>)"
  by (simp_all add: plain_def plain_transition_def)

lemma runs_turn:
  fixes g :: "'w engine"
  assumes "calm g t0 t1" and "running_target st = Some target" and "can_transition st target"
  shows "runs (sit_row g oid t1 st ph held r)
     ((case running_target (o_state r) of None \<Rightarrow> ret True
        | Some target \<Rightarrow> bind (compare_and_transition (en_env g) oid (o_state r) (o_state_revision r)
               target plain_transition) (\<lambda>_. ret False)) :: ('w, bool) prog)
     (\<lambda>stop d. \<not> stop \<and> sit g oid t1 target ph held d)"
proof (rule runs_fact [where B = "o_state r = st"])
  assume "o_state r = st"
  then have rt: "running_target (o_state r) = Some target" using assms(2) by simp
  show ?thesis unfolding rt option.case by (rule runs_move [OF assms(1,3)]) (simp_all add: runs_ret)
qed simp

lemma runs_no_turn:
  fixes g :: "'w engine"
  assumes "running_target st = None"
  shows "runs (sit_row g oid t1 st ph held r)
     ((case running_target (o_state r) of None \<Rightarrow> ret True
        | Some target \<Rightarrow> bind (compare_and_transition (en_env g) oid (o_state r) (o_state_revision r)
               target plain_transition) (\<lambda>_. ret False)) :: ('w, bool) prog)
     (\<lambda>stop d. stop \<and> sit g oid t1 st ph held d)"
proof (rule runs_fact [where B = "o_state r = st"])
  assume "o_state r = st"
  then have rt: "running_target (o_state r) = None" using assms by simp
  show ?thesis unfolding rt option.case by (rule runs_ret) simp
qed simp

lemma runs_ensure_turn:
  fixes g :: "'w engine"
  assumes "calm g t0 t1" and "running_target st = Some target" and "can_transition st target"
    and "runs (sit g oid t1 target ph held) (ensure_running g n oid held) Q"
  shows "runs (sit g oid t1 st ph held) (ensure_running g (Suc n) oid held) Q"
  unfolding ensure_running.simps
  by (rule runs_bind [OF runs_in_unit [OF calm_quiet [OF assms(1)] runs_bind [OF runs_require
        runs_andthen [OF runs_fence_row [OF assms(1)] runs_turn [OF assms(1-3)]]]]], rule runs_conj)
    (simp add: assms(4))

lemma runs_ensure_stop:
  fixes g :: "'w engine"
  assumes "calm g t0 t1" and "running_target st = None"
  shows "runs (sit g oid t1 st ph held) (ensure_running g (Suc n) oid held) (\<lambda>_. sit g oid t1 st ph held)"
  unfolding ensure_running.simps
  by (rule runs_bind [OF runs_in_unit [OF calm_quiet [OF assms(1)] runs_bind [OF runs_require
        runs_andthen [OF runs_fence_row [OF assms(1)] runs_no_turn [OF assms(2)]]]]], rule runs_conj)
    (simp add: runs_ret)

lemma runs_ensure_running:
  assumes "calm g t0 t1" and "st \<in> {QUEUED, PREPARING, RUNNING, VERIFYING}"
  shows "runs (sit g oid t1 st ph held) (ensure_running g (en_fuel g) oid held)
     (\<lambda>_. sit g oid t1 (settled st) ph held)"
proof -
  obtain n where fuel: "en_fuel g = Suc (Suc (Suc n))"
    using assms(1) by (metis calm_def add_2_eq_Suc le_Suc_ex numeral_3_eq_3 plus_nat.simps(2))
  have stop: "runs (sit g oid t1 RUNNING ph held) (ensure_running g (Suc m) oid held)
      (\<lambda>_. sit g oid t1 RUNNING ph held)" for m
    by (rule runs_ensure_stop [OF assms(1)]) simp
  have prep: "runs (sit g oid t1 PREPARING ph held) (ensure_running g (Suc (Suc m)) oid held)
      (\<lambda>_. sit g oid t1 RUNNING ph held)" for m
    by (rule runs_ensure_turn [OF assms(1) _ _ stop]) (auto simp: can_transition_def)
  have queued: "runs (sit g oid t1 QUEUED ph held) (ensure_running g (Suc (Suc (Suc m))) oid held)
      (\<lambda>_. sit g oid t1 RUNNING ph held)" for m
    by (rule runs_ensure_turn [OF assms(1) _ _ prep]) (auto simp: can_transition_def)
  have ver: "runs (sit g oid t1 VERIFYING ph held) (ensure_running g (Suc m) oid held)
      (\<lambda>_. sit g oid t1 VERIFYING ph held)" for m
    by (rule runs_ensure_stop [OF assms(1)]) simp
  show ?thesis
    using assms(2) queued prep stop ver unfolding fuel by auto
qed

section \<open>The step protocol in calm surroundings\<close>

lemma runs_read_intent:
  fixes g :: "'w engine"
  assumes "calm g t0 t1" and "ph (sd_key step) = Some S_PENDING"
  shows "runs (sit g oid t1 st ph held) (read_intent g oid step held False)
     (\<lambda>x d. x = (None, None) \<and> sit g oid t1 st ph held d)"
  unfolding read_intent_def
  by (rule runs_in_unit [OF calm_quiet [OF assms(1)]], rule runs_andthen [OF runs_fence_sit [OF assms(1)]],
      rule runs_bind [OF runs_require_step [where ph = ph and key = "sd_key step", OF assms(2)]],
      rule runs_conj)
    (auto intro!: runs_ret simp: resumed_intent_def split: option.split)

lemma runs_write_intent:
  fixes g :: "'w engine"
  assumes "calm g t0 t1" and "step_succeeds g oid t1 decoded step"
    and "ph (sd_key step) = Some S_PENDING" and "fits REQUEST_MAX_BYTES inputs"
  shows "runs (sit g oid t1 st ph held)
     (write_intent g oid step held False (e_uuid (en_env g) n) inputs)
     (\<lambda>_. sit g oid t1 st (ph(sd_key step \<mapsto> S_RUNNING)) held)"
  unfolding write_intent_def
  by (rule runs_in_unit [OF calm_quiet [OF assms(1)]], rule runs_andthen [OF runs_fence_sit [OF assms(1)]],
      rule runs_bind [OF runs_start_step [where ph = ph and key = "sd_key step", OF assms(3,4)]],
      rule runs_event)
    (use assms(2) in \<open>simp_all add: step_succeeds_def\<close>)

lemma runs_intent:
  fixes g :: "'w engine"
  assumes "calm g t0 t1" and "step_succeeds g oid t1 decoded step"
    and "ph (sd_key step) = Some S_PENDING" and "st \<in> {QUEUED, PREPARING, RUNNING, VERIFYING}"
  shows "runs (sit g oid t1 st ph held) (intent_transaction g oid step decoded held False prior)
     (\<lambda>_. sit g oid t1 (settled st) (ph(sd_key step \<mapsto> S_RUNNING)) held)"
proof -
  let ?S = "sit g oid t1 (settled st)"
  obtain x where x: "sd_derive_input step decoded prior = Inr x" "fits REQUEST_MAX_BYTES x"
    using assms(2) unfolding step_succeeds_def by blast
  have pulse: "runs P (make_pulse g oid held) (\<lambda>_. P)" for P
    by (simp add: runs_def make_pulse_def bind_run new_pulse_def ret_run)
  have tail: "runs (?S (ph(sd_key step \<mapsto> S_RUNNING)) held) (bind (make_pulse g oid held) (\<lambda>p. ret (c p)))
     (\<lambda>_. ?S (ph(sd_key step \<mapsto> S_RUNNING)) held)" for c :: "(pulse_args \<Rightarrow> ('w, unit) prog) \<Rightarrow> 'w effect_ctx"
    by (rule runs_bind [OF pulse], rule runs_ret)
  have rest: "runs (?S ph held) (bind (lift (sd_derive_input step decoded prior)) (\<lambda>inputs.
      andthen (write_intent g oid step held False (e_uuid (en_env g) n) inputs)
        (bind (make_pulse g oid held) (\<lambda>p. ret (c inputs p)))))
     (\<lambda>_. ?S (ph(sd_key step \<mapsto> S_RUNNING)) held)"
    for n and c :: "json \<Rightarrow> (pulse_args \<Rightarrow> ('w, unit) prog) \<Rightarrow> 'w effect_ctx"
    unfolding x(1)
    by (rule runs_bind [OF runs_lift [where Q = "\<lambda>y d. y = x \<and> ?S ph held d"]], rule refl, simp,
        rule runs_conj, simp only:,
        rule runs_andthen [OF runs_write_intent [where ph = ph and step = step, OF assms(1,2,3) x(2)] tail])
  have uuid: "runs (?S ph held) (bind (uuid_factory (en_env g)) (\<lambda>eid.
      bind (lift (sd_derive_input step decoded prior)) (\<lambda>inputs.
      andthen (write_intent g oid step held False eid inputs)
        (bind (make_pulse g oid held) (\<lambda>p. ret (c eid inputs p))))))
     (\<lambda>_. ?S (ph(sd_key step \<mapsto> S_RUNNING)) held)"
    for c :: "ident \<Rightarrow> json \<Rightarrow> (pulse_args \<Rightarrow> ('w, unit) prog) \<Rightarrow> 'w effect_ctx"
  proof (rule runs_bind [OF runs_uuid], rule runs_conj)
    fix eid assume "\<exists>n. eid = e_uuid (en_env g) n"
    then obtain n where n: "eid = e_uuid (en_env g) n" by blast
    show "runs (?S ph held) (bind (lift (sd_derive_input step decoded prior)) (\<lambda>inputs.
      andthen (write_intent g oid step held False eid inputs)
        (bind (make_pulse g oid held) (\<lambda>p. ret (c eid inputs p)))))
     (\<lambda>_. ?S (ph(sd_key step \<mapsto> S_RUNNING)) held)"
      unfolding n by (rule rest)
  qed
  show ?thesis
    unfolding intent_transaction_def
    by (rule runs_andthen [OF runs_ensure_running [OF assms(1,4)]], rule runs_andthen [OF runs_crash [OF assms(1)]],
        rule runs_bind [OF runs_read_intent [where ph = ph and step = step, OF assms(1,3)]], rule runs_conj)
      (simp add: uuid)
qed

lemma runs_checkpoint:
  fixes g :: "'w engine"
  assumes "calm g t0 t1" and "step_succeeds g oid t1 decoded step"
    and "ph (sd_key step) = Some S_RUNNING"
    and "sanitize_payload REQUEST_MAX_BYTES m = Inr m"
    and "fits EVENT_DETAIL_MAX_BYTES (JObj [(''output'', m)])"
  shows "runs (sit g oid t1 st ph held) (checkpoint_transaction g oid step held m recovered)
     (\<lambda>_. sit g oid t1 st (ph(sd_key step \<mapsto> S_CHECKPOINTED)) held)"
proof -
  have ev: "runs (sit g oid t1 st (ph(sd_key step \<mapsto> S_CHECKPOINTED)) held)
      (event g oid ''STEP_CHECKPOINTED'' summary (Some (JObj [(''output'', m)]))
        (Some (JObj [(''phase'', jstr (sd_phase step)), (''current'', JInt (sd_sequence step))])))
      (\<lambda>_. sit g oid t1 st (ph(sd_key step \<mapsto> S_CHECKPOINTED)) held)" for summary
    by (rule runs_event) (use assms(2,5) in \<open>simp_all add: step_succeeds_def\<close>)
  show ?thesis
    unfolding checkpoint_transaction_def
    by (rule runs_in_unit [OF calm_quiet [OF assms(1)]], rule runs_andthen [OF runs_required],
        rule runs_andthen [OF runs_fence_sit [OF assms(1)]],
        rule runs_bind [OF runs_require_step [where ph = ph and key = "sd_key step", OF assms(3)]],
        rule runs_conj, simp only: not_True_eq_False if_False simp_thms,
        rule runs_bind [OF runs_checkpoint_step [where ph = ph and key = "sd_key step", OF assms(3,4)]],
        rule runs_conj)
      (simp add: ev)
qed

lemma runs_verify_transaction:
  fixes g :: "'w engine"
  assumes "calm g t0 t1" and "ph (sd_key step) = Some S_CHECKPOINTED"
  shows "runs (sit g oid t1 st ph held) (verify_transaction g oid step held)
     (\<lambda>_. sit g oid t1 st (ph(sd_key step \<mapsto> S_VERIFIED)) held)"
  unfolding verify_transaction_def
  by (rule runs_in_unit [OF calm_quiet [OF assms(1)]], rule runs_andthen [OF runs_required],
      rule runs_andthen [OF runs_fence_sit [OF assms(1)]],
      rule runs_bind [OF runs_require_step [where ph = ph and key = "sd_key step", OF assms(2)]],
      rule runs_conj, simp only: not_True_eq_False if_False simp_thms,
      rule runs_andthen [OF runs_ignore [OF runs_verify_step [where ph = ph and key = "sd_key step", OF assms(2)]]],
      rule runs_event) simp_all

lemma runs_enter_critical:
  fixes g :: "'w engine"
  assumes "calm g t0 t1" and "st \<in> {RUNNING, VERIFYING}"
  shows "runs (sit g oid t1 st ph held) (enter_critical g oid held)
     (\<lambda>go d. go \<and> sit g oid t1 COMMITTING ph held d)"
proof -
  have can: "can_transition st COMMITTING" using assms(2) by (auto simp: can_transition_def)
  have *: "runs (sit_row g oid t1 st ph held r)
      (if o_state r = COMMITTING then ret True else if o_state r = CANCEL_REQUESTED then ret False
       else bind (compare_and_transition (en_env g) oid (o_state r) (o_state_revision r) COMMITTING
          (plain_transition\<lparr>t_code := c, t_summary := x\<rparr>)) (\<lambda>_. (ret True :: ('w, bool) prog)))
      (\<lambda>go d. go \<and> sit g oid t1 COMMITTING ph held d)" for r c x
  proof (rule runs_fact [where B = "o_state r \<in> {RUNNING, VERIFYING}"])
    assume "o_state r \<in> {RUNNING, VERIFYING}"
    then have "o_state r \<noteq> COMMITTING" "o_state r \<noteq> CANCEL_REQUESTED" by auto
    with runs_move [OF assms(1) can, where n = "ret True :: ('w, bool) prog"
        and Q = "\<lambda>go d. go \<and> sit g oid t1 COMMITTING ph held d"]
    show ?thesis by (simp add: runs_ret)
  qed (use assms(2) in auto)
  show ?thesis
    unfolding enter_critical_def
    by (rule runs_in_unit [OF calm_quiet [OF assms(1)]], rule runs_bind [OF runs_require],
        rule runs_andthen [OF runs_fence_row [OF assms(1)]], rule *)
qed

lemma runs_exit_critical:
  fixes g :: "'w engine"
  assumes "calm g t0 t1"
  shows "runs (sit g oid t1 COMMITTING ph held) (exit_critical g oid held)
     (\<lambda>_. sit g oid t1 VERIFYING ph held)"
proof -
  have can: "can_transition COMMITTING VERIFYING" by (simp add: can_transition_def)
  have *: "runs (sit_row g oid t1 COMMITTING ph held r)
      (if o_state r \<noteq> COMMITTING then throw e
       else bind (compare_and_transition (en_env g) oid COMMITTING (o_state_revision r) VERIFYING
          (plain_transition\<lparr>t_code := c, t_summary := x\<rparr>)) (\<lambda>_. (ret () :: ('w, unit) prog)))
      (\<lambda>_. sit g oid t1 VERIFYING ph held)" for r c x e
  proof (rule runs_fact [where B = "o_state r = COMMITTING"])
    assume "o_state r = COMMITTING"
    with runs_ignore [OF runs_transition [OF assms can,
        of "plain_transition\<lparr>t_code := c, t_summary := x\<rparr>" oid ph held r]]
    show ?thesis by (simp add: plain_transition_def)
  qed simp
  show ?thesis
    unfolding exit_critical_def
    by (rule runs_in_unit [OF calm_quiet [OF assms(1)]], rule runs_bind [OF runs_require],
        rule runs_andthen [OF runs_fence_row [OF assms(1)]], rule *)
qed

definition after_step :: "'w step_def \<Rightarrow> op_state \<Rightarrow> op_state" where
  "after_step step st = (if sd_critical step then VERIFYING else st)"

lemma runs_effect_part:
  fixes g :: "'w engine"
  assumes "calm g t0 t1" and "step_succeeds g oid t1 decoded step"
    and "ph (sd_key step) = Some S_RUNNING"
  shows "runs (sit g oid t1 st ph held) (effect_part g oid held step ctx hooks)
     (\<lambda>_. sit g oid t1 st (ph(sd_key step \<mapsto> S_CHECKPOINTED)) held)"
proof -
  have exec: "runs (sit g oid t1 st ph held) (call_step CallExecute (sd_execute step) ctx)
      (\<lambda>out d. good_output out \<and> sit g oid t1 st ph held d)"
    by (rule runs_call) (use assms(2) in \<open>simp add: step_succeeds_def\<close>)
  have rest: "runs (sit g oid t1 st ph held) (bind (sanitized REQUEST_MAX_BYTES (or_empty out)) (\<lambda>merged.
      andthen (checkpoint_transaction g oid step held merged False) (ret merged)))
      (\<lambda>_. sit g oid t1 st (ph(sd_key step \<mapsto> S_CHECKPOINTED)) held)" if out: "good_output out" for out
  proof -
    obtain m where m: "sanitize_payload REQUEST_MAX_BYTES (or_empty out) = Inr m"
      "fits EVENT_DETAIL_MAX_BYTES (JObj [(''output'', m)])"
      using out by (auto simp: good_output_def)
    have "runs (sit g oid t1 st ph held) (sanitized REQUEST_MAX_BYTES (or_empty out) :: ('w, json) prog)
        (\<lambda>x d. x = m \<and> sit g oid t1 st ph held d)"
      using m(1) by (simp add: runs_def sanitized_run)
    then show ?thesis
      by (rule runs_bind) (rule runs_conj, simp only:,
        rule runs_andthen [OF runs_checkpoint [where ph = ph and step = step, OF assms
          sanitize_payload_Inr(4) [OF m(1)] m(2)]], rule runs_ret)
  qed
  show ?thesis
    unfolding effect_part_def
    by (rule runs_bind [OF exec], rule runs_conj,
        rule runs_andthen [OF runs_only_if [OF runs_crash [OF assms(1)]]], rule rest)
qed

lemma runs_verification_part:
  fixes g :: "'w engine"
  assumes "calm g t0 t1" and "step_succeeds g oid t1 decoded step"
    and "ph (sd_key step) = Some S_CHECKPOINTED" and "sd_critical step \<longrightarrow> st = COMMITTING"
  shows "runs (sit g oid t1 st ph held) (verification_part g oid held step ctx hooks)
     (\<lambda>_. sit g oid t1 (after_step step st) (ph(sd_key step \<mapsto> S_VERIFIED)) held)"
proof -
  have verify: "runs (sit g oid t1 st ph held) (bind (call_step CallVerify (sd_verify step) ctx) (\<lambda>_. ret ()))
      (\<lambda>_. sit g oid t1 st ph held)"
    by (rule runs_ignore, rule runs_call) (use assms(2) in \<open>simp add: step_succeeds_def\<close>)
  have exit: "runs (sit g oid t1 st (ph(sd_key step \<mapsto> S_VERIFIED)) held)
      (only_if (sd_critical step) (exit_critical g oid held))
      (\<lambda>_. sit g oid t1 (after_step step st) (ph(sd_key step \<mapsto> S_VERIFIED)) held)"
    using assms(4) runs_exit_critical [OF assms(1)]
    by (auto simp: only_if_def after_step_def intro: runs_ret)
  show ?thesis
    unfolding verification_part_def
    by (rule runs_andthen [OF runs_only_if [OF runs_crash [OF assms(1)]]],
        rule runs_andthen [OF runs_only_if [OF runs_crash [OF assms(1)]]],
        rule runs_andthen [OF verify],
        rule runs_andthen [OF runs_only_if [OF runs_crash [OF assms(1)]]],
        rule runs_andthen [OF runs_verify_transaction [where ph = ph and step = step, OF assms(1,3)]],
        rule exit)
qed

lemma runs_attempt:
  fixes g :: "'w engine"
  assumes "calm g t0 t1" and "step_succeeds g oid t1 decoded step"
    and "ph (sd_key step) = Some S_RUNNING" and "sd_critical step \<longrightarrow> st = COMMITTING"
  shows "runs (sit g oid t1 st ph held) (attempt_effect g oid w decoded held step ctx hooks effected)
     (\<lambda>r d. (\<exists>x. r = Inr x) \<and> sit g oid t1 (after_step step st) (ph(sd_key step \<mapsto> S_VERIFIED)) held d)"
proof -
  let ?ph = "ph(sd_key step \<mapsto> S_CHECKPOINTED)"
  have ph: "?ph (sd_key step) = Some S_CHECKPOINTED"
    "?ph(sd_key step \<mapsto> S_VERIFIED) = ph(sd_key step \<mapsto> S_VERIFIED)" by simp_all
  note ver = runs_guarded [OF runs_verification_part [where ph = ?ph, OF assms(1,2) ph(1) assms(4)]]
  show ?thesis
    unfolding attempt_effect_def
    by (rule runs_bind [OF runs_guarded [OF runs_effect_part [where ph = ph, OF assms(1-3)]]],
        rule runs_ex, rule runs_conj, simp only: sum.case Let_def,
        rule runs_bind [OF ver], rule runs_ex, rule runs_conj, simp only: sum.case, rule runs_ret)
      (simp add: ph(2))
qed

lemma runs_execute_effect:
  fixes g :: "'w engine"
  assumes "calm g t0 t1" and "step_succeeds g oid t1 decoded step"
    and "ph (sd_key step) = Some S_RUNNING" and "st \<in> {RUNNING, VERIFYING}"
  shows "runs (sit g oid t1 st ph held) (execute_effect g oid w decoded held step ctx hooks effected)
     (\<lambda>r d. (\<exists>x. r = Inr x) \<and> sit g oid t1 (after_step step st) (ph(sd_key step \<mapsto> S_VERIFIED)) held d)"
proof (cases "sd_critical step")
  case True
  have att: "runs (sit g oid t1 COMMITTING ph held) (attempt_effect g oid w decoded held step ctx hooks effected)
     (\<lambda>r d. (\<exists>x. r = Inr x) \<and> sit g oid t1 (after_step step st) (ph(sd_key step \<mapsto> S_VERIFIED)) held d)"
    by (rule runs_post [OF runs_attempt [where ph = ph, OF assms(1-3)]]) (auto simp: after_step_def True)
  show ?thesis
    unfolding execute_effect_def if_P [OF True]
    by (rule runs_bind [OF runs_enter_critical [OF assms(1,4)]], rule runs_conj) (simp add: att)
next
  case False
  then have "execute_effect g oid w decoded held step ctx hooks effected =
      attempt_effect g oid w decoded held step ctx hooks effected"
    by (simp add: execute_effect_def)
  with runs_attempt [where ph = ph, OF assms(1-3)] False show ?thesis by simp
qed

lemma runs_prior_outputs:
  fixes g :: "'w engine"
  assumes "calm g t0 t1"
  shows "runs P (prior_outputs g oid) (\<lambda>_. P)"
  unfolding prior_outputs_def list_steps_def
  by (rule runs_in_unit [OF calm_quiet [OF assms]], rule runs_bind [OF runs_read_db [where Q = "\<lambda>_. P"]])
    (auto intro: runs_ret)

lemma runs_advance:
  fixes g :: "'w engine"
  assumes "calm g t0 t1" and "step_succeeds g oid t1 decoded step"
    and "ph (sd_key step) = Some S_PENDING" and "st \<in> {QUEUED, PREPARING, RUNNING, VERIFYING}"
    and "s_state row = S_PENDING"
  shows "runs (sit g oid t1 st ph held) (advance_step g oid w decoded step row held effected)
     (\<lambda>r d. (\<exists>x. r = Inr x) \<and>
        sit g oid t1 (after_step step (settled st)) (ph(sd_key step \<mapsto> S_VERIFIED)) held d)"
proof -
  let ?ph = "ph(sd_key step \<mapsto> S_RUNNING)"
  have ph: "?ph (sd_key step) = Some S_RUNNING"
    "?ph(sd_key step \<mapsto> S_VERIFIED) = ph(sd_key step \<mapsto> S_VERIFIED)" by simp_all
  have set: "settled st \<in> {RUNNING, VERIFYING}" using assms(4) by auto
  have eff: "runs (sit g oid t1 (settled st) ?ph held)
      (andthen (en_crash g (sd_key step) ''after_step_start'')
        (execute_effect g oid w decoded held step ctx True effected))
     (\<lambda>r d. (\<exists>x. r = Inr x) \<and>
        sit g oid t1 (after_step step (settled st)) (ph(sd_key step \<mapsto> S_VERIFIED)) held d)" for ctx
    using runs_andthen [OF runs_crash [OF assms(1)] runs_execute_effect [where ph = ?ph, OF assms(1,2) ph(1) set]]
    unfolding ph(2) .
  have row: "s_state row \<noteq> S_VERIFIED" "s_state row \<noteq> S_CHECKPOINTED" "s_state row \<noteq> S_RUNNING"
    using assms(5) by auto
  have intent: "runs (sit g oid t1 st ph held) (bind (intent_transaction g oid step decoded held False prior)
      (\<lambda>ctx. andthen (en_crash g (sd_key step) ''after_step_start'')
        (execute_effect g oid w decoded held step ctx True effected)))
     (\<lambda>r d. (\<exists>x. r = Inr x) \<and>
        sit g oid t1 (after_step step (settled st)) (ph(sd_key step \<mapsto> S_VERIFIED)) held d)" for prior
    by (rule runs_bind [OF runs_intent [where ph = ph, OF assms(1-4)] eff])
  show ?thesis
    unfolding advance_step_def Let_def
    by (rule runs_bind [OF runs_prior_outputs [OF assms(1)]]) (simp add: row intent)
qed

end
