(* ===== verification/Liveness.thy ===== *)
theory Liveness
  imports Completion
begin

text \<open>
  The run of a whole operation in calm surroundings: steps, terminal bookkeeping, release of
  the leases, the claim of the resources, and the worker's entry point.
\<close>

section \<open>Completion and release\<close>

text \<open>Where the operation stands once it is terminal, with the resources in \<open>ks\<close> still to give back.\<close>

definition releasing :: "'w engine \<Rightarrow> ident \<Rightarrow> op_state \<Rightarrow> (ident \<Rightarrow> step_state option) \<Rightarrow> held \<Rightarrow>
    ident list \<Rightarrow> db \<Rightarrow> bool" where
  "releasing g oid st ph held ks d \<longleftrightarrow> keys_ok d \<and>
     map_option o_state (op_lookup d oid) = Some st \<and>
     (\<forall>k. map_option s_state (step_lookup d oid k) = ph k) \<and>
     (\<forall>k \<in> fst ` set held. if k \<in> set ks
        then \<exists>l. lease_lookup d k = Some l \<and> l_owner l = en_worker_id g \<and> l_lease_revision l = held_revision held k
        else lease_lookup d k = None)"

lemma runs_release_each:
  fixes g :: "'w engine"
  assumes "set ks \<subseteq> fst ` set held" and "distinct ks"
  shows "runs (releasing g oid st ph held ks)
     (foreach ks (\<lambda>key. release key (en_worker_id g) (held_revision held key)) :: ('w, unit) prog)
     (\<lambda>_. releasing g oid st ph held [])"
  using assms
proof (induction ks)
  case Nil
  then show ?case by (auto intro: runs_ret)
next
  case (Cons k ks)
  have "runs (releasing g oid st ph held (k # ks))
      (release k (en_worker_id g) (held_revision held k) :: ('w, unit) prog)
      (\<lambda>_. releasing g oid st ph held ks)"
    unfolding runs_def
  proof (intro allI impI)
    fix s :: "'w sys" assume r: "releasing g oid st ph held (k # ks) (db s)"
    have mem: "k \<in> fst ` set held" using Cons.prems(1) by simp
    have "if k \<in> set (k # ks)
        then \<exists>l. lease_lookup (db s) k = Some l \<and> l_owner l = en_worker_id g \<and>
          l_lease_revision l = held_revision held k
        else lease_lookup (db s) k = None"
      using r mem unfolding releasing_def by blast
    then obtain l where l: "lease_lookup (db s) k = Some l" "l_owner l = en_worker_id g"
      "l_lease_revision l = held_revision held k" "keys_ok (db s)"
      using r by (auto simp: releasing_def)
    obtain s' where run: "release k (en_worker_id g) (held_revision held k) s = (Inr (), s')"
      using one_matching_lease [OF l(4,1,2,3)]
      by (simp add: release_def bind_run andthen_run read_db_def write_db_def ret_run)
    note out = release_Inr [OF l(4) run]
    have "if a \<in> set ks
        then \<exists>l. lease_lookup (db s') a = Some l \<and> l_owner l = en_worker_id g \<and>
          l_lease_revision l = held_revision held a
        else lease_lookup (db s') a = None" if "a \<in> fst ` set held" for a
    proof (cases "a = k")
      case True
      with out Cons.prems(2) show ?thesis by simp
    next
      case False
      moreover have "if a \<in> set (k # ks)
        then \<exists>l. lease_lookup (db s) a = Some l \<and> l_owner l = en_worker_id g \<and>
          l_lease_revision l = held_revision held a
        else lease_lookup (db s) a = None"
        using r that unfolding releasing_def by blast
      ultimately show ?thesis using out by (auto split: if_splits)
    qed
    with out r have "releasing g oid st ph held ks (db s')"
      by (simp add: releasing_def op_lookup_def step_lookup_def)
    with run show "\<exists>x s'. release k (en_worker_id g) (held_revision held k) s = (Inr x, s') \<and>
        releasing g oid st ph held ks (db s')" by blast
  qed
  with Cons show ?case by (auto intro: runs_andthen)
qed

lemma runs_release_all:
  fixes g :: "'w engine"
  shows "runs (sit g oid t1 st ph held) (release_all g held) (\<lambda>_. releasing g oid st ph held [])"
  unfolding release_all_def
proof (rule runs_pre [OF runs_release_each])
  fix d assume "sit g oid t1 st ph held d"
  then show "releasing g oid st ph held (held_keys held) d"
    by (fastforce simp: sit_def releasing_def holds_def held_keys_def held_revision_in)
qed (simp_all add: held_keys_def)

lemma runs_record_terminal:
  fixes g :: "'w engine"
  assumes "calm g t0 t1" and "can_transition st terminal" and "is_terminal terminal"
    and "fits_opt EVENT_DETAIL_MAX_BYTES rd" and "fits_opt EVENT_DETAIL_MAX_BYTES ed"
  shows "runs (sit g oid t1 st ph held) (record_terminal_result (en_env g) oid terminal rc rd ec ed es :: ('w, op_row) prog)
     (\<lambda>_. sit g oid t1 terminal ph held)"
proof -
  have lvl: "terminal_level terminal \<in> set EVENT_LEVELS"
    by (simp add: terminal_level_def EVENT_LEVELS_def)
  have turn: "runs (sit_row g oid t1 st ph held r)
      ((if \<not> is_terminal terminal then throw e
       else compare_and_transition (en_env g) oid (o_state r) (o_state_revision r) terminal
         \<lparr>t_level = terminal_level terminal, t_code = c, t_summary = x, t_detail = None,
          t_result_code = rc, t_result_detail = rd, t_error_code = ec, t_error_detail = ed\<rparr>) :: ('w, op_row) prog)
      (\<lambda>_. sit g oid t1 terminal ph held)" for r e c x
  proof (rule runs_fact [where B = "o_state r = st"])
    assume eq: "o_state r = st"
    show ?thesis
      unfolding eq using assms(3)
      by (simp, intro runs_pre [OF runs_transition [OF assms(1,2)]]) (simp_all add: lvl assms(4,5) eq)
  qed simp
  show ?thesis
    unfolding record_terminal_result_def by (rule runs_bind [OF runs_require], rule turn)
qed

lemma runs_fail_safe:
  fixes g :: "'w engine"
  assumes "calm g t0 t1" and "can_transition st FAILED_SAFE"
    and "fits EVENT_DETAIL_MAX_BYTES (JObj [(''step'', jstr label),
       (''code'', jstr (text_or (exn_code err) ''STEP_FAILED_SAFE'')), (''retryable'', JBool (exn_retryable err)),
       (''exception_class'', jstr (exn_class err)), (''probe'', jstr ''absent'')])"
  shows "runs (sit g oid t1 st ph held) (fail_safe g oid held label err)
     (\<lambda>_. releasing g oid FAILED_SAFE ph held [])"
  unfolding fail_safe_def Let_def
  by (rule runs_andthen, rule runs_in_unit [OF calm_quiet [OF assms(1)]],
      rule runs_andthen [OF runs_required], rule runs_andthen [OF runs_fence_sit [OF assms(1)]],
      rule runs_andthen [OF runs_ignore [OF runs_record_terminal [OF assms(1,2)]] runs_release_all])
    (simp_all add: assms(3) runs_ret)

lemma runs_require_recovery:
  fixes g :: "'w engine"
  assumes "calm g t0 t1" and "can_transition st RECOVERY_REQUIRED" and "fits EVENT_DETAIL_MAX_BYTES detail"
  shows "runs (sit g oid t1 st ph held) (require_recovery g oid held code detail summary)
     (\<lambda>_. sit g oid t1 RECOVERY_REQUIRED ph held)"
  unfolding require_recovery_def
  by (rule runs_andthen, rule runs_in_unit [OF calm_quiet [OF assms(1)]],
      rule runs_andthen [OF runs_required], rule runs_andthen [OF runs_fence_sit [OF assms(1)]],
      rule runs_ignore [OF runs_record_terminal [OF assms(1,2)]])
    (simp_all add: assms(3) runs_ret)

definition finished :: "'w workflow_def \<Rightarrow> ident \<Rightarrow> held \<Rightarrow> outcome \<Rightarrow> db \<Rightarrow> bool" where
  "finished w oid held out d \<longleftrightarrow> oc_kind out = COMPLETED \<and>
     map_option o_state (op_lookup d oid) = Some SUCCEEDED \<and>
     (\<forall>st \<in> set (wf_steps w). map_option s_state (step_lookup d oid (sd_key st)) = Some S_VERIFIED) \<and>
     (\<forall>k \<in> fst ` set held. lease_lookup d k = None)"

definition decides_success :: "'w workflow_def \<Rightarrow> json \<Rightarrow> bool" where
  "decides_success w decoded \<longleftrightarrow> (\<forall>outs. \<exists>dec. wf_terminal_decision w decoded outs = Inr dec \<and>
     td_state dec = SUCCEEDED \<and> (falsy (td_detail dec) \<or> fits EVENT_DETAIL_MAX_BYTES (td_detail dec)))"

lemma runs_complete:
  fixes g :: "'w engine"
  assumes "calm g t0 t1" and "decides_success w decoded" and "st \<in> {RUNNING, VERIFYING}"
    and "\<forall>x \<in> set (wf_steps w). ph (sd_key x) = Some S_VERIFIED"
  shows "runs (sit g oid t1 st ph held) (complete g oid w decoded held) (finished w oid held)"
proof -
  have can: "can_transition st COMMITTING" using assms(3) by (auto simp: can_transition_def)
  have commit: "runs (sit_row g oid t1 st ph held r)
      (only_if (o_state r \<noteq> COMMITTING)
         (andthen (bind (compare_and_transition (en_env g) oid (o_state r) (o_state_revision r)
              COMMITTING (plain_transition\<lparr>t_code := c, t_summary := x\<rparr>)) (\<lambda>_. ret ()))
          (bind (require_op oid) (\<lambda>_. ret ()))) :: ('w, unit) prog)
      (\<lambda>_. sit g oid t1 COMMITTING ph held)" for r c x
  proof (rule runs_fact [where B = "o_state r \<noteq> COMMITTING"])
    assume ne: "o_state r \<noteq> COMMITTING"
    show ?thesis
      unfolding only_if_def if_P [OF ne]
      by (rule runs_andthen [OF _ runs_required], rule runs_move [OF assms(1) can])
        (simp_all add: runs_ret)
  qed (use assms(3) in auto)
  have tail: "runs (sit g oid t1 SUCCEEDED ph held) (release_all g held)
      (\<lambda>_ d. map_option o_state (op_lookup d oid) = Some SUCCEEDED \<and>
         (\<forall>x \<in> set (wf_steps w). map_option s_state (step_lookup d oid (sd_key x)) = Some S_VERIFIED) \<and>
         (\<forall>k \<in> fst ` set held. lease_lookup d k = None))"
    by (rule runs_post [OF runs_release_all]) (simp add: releasing_def assms(4))
  have rest: "runs (sit g oid t1 st ph held)
      (andthen (in_unit g (bind (require_op oid) (\<lambda>record. andthen (fence g oid held)
        (andthen (only_if (o_state record \<noteq> COMMITTING)
          (andthen (bind (compare_and_transition (en_env g) oid (o_state record) (o_state_revision record)
              COMMITTING (plain_transition\<lparr>t_code := c, t_summary := x\<rparr>)) (\<lambda>_. ret ()))
          (bind (require_op oid) (\<lambda>_. ret ()))))
        (andthen (bind (record_terminal_result (en_env g) oid SUCCEEDED rc rd None None es) (\<lambda>_. ret ()))
         (release_all g held)))))) (ret out)) (finished w oid held)"
    if "fits_opt EVENT_DETAIL_MAX_BYTES rd" "oc_kind out = COMPLETED" for c x rc rd es out
    by (rule runs_andthen, rule runs_in_unit [OF calm_quiet [OF assms(1)]], rule runs_bind [OF runs_require],
        rule runs_andthen [OF runs_fence_row [OF assms(1)]], rule runs_andthen [OF commit],
        rule runs_andthen [OF runs_ignore [OF runs_record_terminal [OF assms(1)]] tail])
      (auto intro!: runs_ret simp: finished_def that can_transition_def)
  have decided: "runs (sit g oid t1 st ph held) (bind (lift (wf_terminal_decision w decoded outs)) f)
      (finished w oid held)"
    if "\<And>dec. td_state dec = SUCCEEDED \<Longrightarrow> falsy (td_detail dec) \<or> fits EVENT_DETAIL_MAX_BYTES (td_detail dec)
       \<Longrightarrow> runs (sit g oid t1 st ph held) (f dec) (finished w oid held)"
    for outs and f :: "terminal_decision \<Rightarrow> ('w, outcome) prog"
  proof -
    obtain dec where dec: "wf_terminal_decision w decoded outs = Inr dec" "td_state dec = SUCCEEDED"
      "falsy (td_detail dec) \<or> fits EVENT_DETAIL_MAX_BYTES (td_detail dec)"
      using assms(2) unfolding decides_success_def by blast
    have "bind (lift (wf_terminal_decision w decoded outs)) f = f dec"
      unfolding dec(1) by (rule ext) (simp add: bind_run lift_run)
    with that [OF dec(2,3)] show ?thesis by simp
  qed
  show ?thesis
    unfolding complete_def Let_def
  proof (rule runs_bind [OF runs_prior_outputs [OF assms(1)]], rule decided)
    fix dec :: terminal_decision and verified
    assume "td_state dec = SUCCEEDED" "falsy (td_detail dec) \<or> fits EVENT_DETAIL_MAX_BYTES (td_detail dec)"
    then show "runs (sit g oid t1 st ph held)
      (andthen (in_unit g (bind (require_op oid) (\<lambda>record. andthen (fence g oid held)
        (andthen (only_if (o_state record \<noteq> COMMITTING)
          (andthen (bind (compare_and_transition (en_env g) oid (o_state record) (o_state_revision record)
              COMMITTING (plain_transition\<lparr>t_code := Some ''ENTERING_COMMIT'',
                t_summary := Some ''all steps verified; entering critical section''\<rparr>)) (\<lambda>_. ret ()))
          (bind (require_op oid) (\<lambda>_. ret ()))))
        (andthen (bind (record_terminal_result (en_env g) oid (td_state dec) (Some (td_result_code dec))
            (if falsy (td_detail dec) then None else Some (td_detail dec)) None None
            (Some (if td_summary dec = '''' then ''operation reached '' @ state_value (td_state dec)
                   else td_summary dec))) (\<lambda>_. ret ()))
         (release_all g held)))))) (ret (outcome_of COMPLETED oid
        (Some (if td_state dec = SUCCEEDED \<and> td_result_code dec = ''ALL_STEPS_VERIFIED''
               then ''SUCCEEDED''
               else if td_result_code dec = '''' then state_value (td_state dec)
               else td_result_code dec))))) (finished w oid held)"
      by (simp only:, intro rest) (auto simp: outcome_of_def)
  qed
qed

section \<open>The run of the steps\<close>

lemma rows_by_key_lookup:
  assumes "keys_ok d"
  shows "rows_by_key (steps_of d oid) k = step_lookup d oid k"
proof -
  let ?rows = "steps_of d oid"
  have dist: "distinct (map step_key_of (operation_steps d))" using assms by (simp add: keys_ok_def)
  then have inj: "inj_on step_key_of (set (operation_steps d))" by (simp add: distinct_map)
  have "distinct (map s_key (filter (\<lambda>r. s_operation_id r = oid) (operation_steps d)))"
    using dist inj
    by (auto simp: distinct_map inj_on_def step_key_of_def intro: distinct_filter)
  then have "distinct (map s_key ?rows)"
    unfolding steps_of_def distinct_map by simp
  then have dmap: "distinct (map fst (rev (map (\<lambda>r. (s_key r, r)) ?rows)))"
    by (simp add: comp_def rev_map [symmetric])
  have "rows_by_key ?rows k = Some r \<longleftrightarrow> step_lookup d oid k = Some r" for r
  proof -
    have "rows_by_key ?rows k = Some r \<longleftrightarrow> (k, r) \<in> set (rev (map (\<lambda>r. (s_key r, r)) ?rows))"
      unfolding rows_by_key_def by (rule map_of_eq_Some_iff [OF dmap])
    also have "\<dots> \<longleftrightarrow> r \<in> set (operation_steps d) \<and> step_key_of r = (oid, k)"
      by (auto simp: steps_of_def step_key_of_def)
    also have "\<dots> \<longleftrightarrow> step_lookup d oid k = Some r"
      using row_with_in_distinct [OF dist, of r] by (auto simp: step_lookup_def dest: row_with_SomeD)
    finally show ?thesis .
  qed
  then show ?thesis
    by (cases "step_lookup d oid k"; cases "rows_by_key ?rows k") auto
qed

lemma next_pending_first:
  assumes "\<And>x. x \<in> set dn \<Longrightarrow> map_option s_state (rows (sd_key x)) = Some S_VERIFIED"
  shows "next_pending rows (dn @ todo) = next_pending rows todo"
  using assms by (induction dn) (force split: option.split)+

text \<open>What the steps of a workflow have reached: the first ones verified, the others pending.\<close>

definition progressed :: "'w step_def list \<Rightarrow> 'w step_def list \<Rightarrow> (ident \<Rightarrow> step_state option) \<Rightarrow> bool" where
  "progressed dn todo ph \<longleftrightarrow> distinct (map sd_key (dn @ todo)) \<and>
     (\<forall>x \<in> set dn. ph (sd_key x) = Some S_VERIFIED) \<and> (\<forall>x \<in> set todo. ph (sd_key x) = Some S_PENDING)"

lemma progressed_step:
  "progressed dn (x # todo) ph \<Longrightarrow> progressed (dn @ [x]) todo (ph(sd_key x \<mapsto> S_VERIFIED))"
  by (auto simp: progressed_def image_iff)

lemma next_pending_progressed:
  assumes "progressed dn todo ph" and "\<And>k. map_option s_state (rows k) = ph k"
  shows "case todo of [] \<Rightarrow> next_pending rows (dn @ todo) = Inr None
    | x # _ \<Rightarrow> \<exists>row. next_pending rows (dn @ todo) = Inr (Some (x, row)) \<and> s_state row = S_PENDING"
proof -
  have "next_pending rows (dn @ todo) = next_pending rows todo"
    using assms by (intro next_pending_first) (simp add: progressed_def)
  moreover have "\<exists>row. rows (sd_key x) = Some row \<and> s_state row = S_PENDING" if "x \<in> set todo" for x
    using assms(2) [of "sd_key x"] assms(1) that by (cases "rows (sd_key x)") (auto simp: progressed_def)
  ultimately show ?thesis by (force split: list.split)
qed

lemma runs_read_turn:
  fixes g :: "'w engine"
  assumes "calm g t0 t1"
  shows "runs (sit g oid t1 st ph held)
     (in_unit g (bind (require_op oid) (\<lambda>operation. andthen (fence g oid held)
       (bind (list_steps oid) (\<lambda>rows. ret (operation, rows))))))
     (\<lambda>(operation, rows) d. (o_cancel_requested_at operation = None \<and>
        (\<forall>k. map_option s_state (rows_by_key rows k) = ph k)) \<and> sit g oid t1 st ph held d)"
proof -
  have rows: "runs (sit_row g oid t1 st ph held r) (list_steps oid)
      (\<lambda>rows d. (o_cancel_requested_at r = None \<and> (\<forall>k. map_option s_state (rows_by_key rows k) = ph k)) \<and>
        sit g oid t1 st ph held d)" for r
    unfolding list_steps_def by (rule runs_read_db) (auto simp: sit_def rows_by_key_lookup)
  show ?thesis
    by (rule runs_in_unit [OF calm_quiet [OF assms]], rule runs_bind [OF runs_require],
        rule runs_andthen [OF runs_fence_row [OF assms]], rule runs_bind [OF rows])
      (auto intro: runs_ret)
qed

lemma runs_pending_step:
  fixes g :: "'w engine"
  assumes "calm g t0 t1" and "step_succeeds g oid t1 decoded step"
    and "ph (sd_key step) = Some S_PENDING" and "st \<in> {QUEUED, PREPARING, RUNNING, VERIFYING}"
    and "s_state row = S_PENDING" and "o_cancel_requested_at operation = None"
    and "set (sd_resources step) \<subseteq> fst ` set held"
  shows "runs (sit g oid t1 st ph held) (pending_step g oid w decoded operation step row held effected)
     (\<lambda>r d. (\<exists>eff. r = Inr (held, eff)) \<and>
        sit g oid t1 (after_step step (settled st)) (ph(sd_key step \<mapsto> S_VERIFIED)) held d)"
proof -
  have up: "runs P (reads (en_shutdown g)) (\<lambda>b d. b = False \<and> P d)" for P
    using assms(1) by (simp add: runs_def reads_def calm_def ex_bool_eq)
  have missing: "missing_resources step held = []"
    using assms(7) by (auto simp: missing_resources_def filter_empty_conv)
  have have_all: "acquire_missing g oid step held = ret (Inr held)"
    by (simp add: acquire_missing_def missing)
  note step = runs_advance [where ph = ph, OF assms(1-5)]
  show ?thesis
    unfolding pending_step_def have_all using assms(6)
    by (auto intro!: runs_bind [OF up] runs_conj runs_bind [OF runs_ret] runs_bind [OF step] runs_ret)
qed

lemma runs_run_steps:
  fixes g :: "'w engine"
  assumes "calm g t0 t1" and "decides_success w decoded"
    and "\<forall>x \<in> set (wf_steps w). step_succeeds g oid t1 decoded x \<and> set (sd_resources x) \<subseteq> fst ` set held"
    and "wf_steps w = dn @ todo" and "progressed dn todo ph" and "length todo < n"
    and "st \<in> {QUEUED, PREPARING, RUNNING, VERIFYING}" and "todo = [] \<longrightarrow> st \<in> {RUNNING, VERIFYING}"
  shows "runs (sit g oid t1 st ph held) (run_steps g n oid w decoded held effected) (finished w oid held)"
  using assms(4-8)
proof (induction n arbitrary: dn todo ph st effected)
  case 0
  then show ?case by simp
next
  case (Suc n)
  have turn: "runs (sit g oid t1 st ph held) (bind (lift (next_pending (rows_by_key rows) (wf_steps w))) (\<lambda>pending.
     case pending of None \<Rightarrow> complete g oid w decoded held
     | Some (step, row) \<Rightarrow>
         bind (pending_step g oid w decoded operation step row held effected) (\<lambda>r.
         case r of Inl out \<Rightarrow> ret out
         | Inr (held', effected') \<Rightarrow> run_steps g n oid w decoded held' effected'))) (finished w oid held)"
    if op: "o_cancel_requested_at operation = None"
      and rows: "\<forall>k. map_option s_state (rows_by_key rows k) = ph k"
    for operation :: op_row and rows
  proof (cases todo)
    case Nil
    have all: "\<forall>x \<in> set (wf_steps w). ph (sd_key x) = Some S_VERIFIED"
      using Suc.prems(1,2) Nil by (simp add: progressed_def)
    have "next_pending (rows_by_key rows) (wf_steps w) = Inr None"
      using next_pending_progressed [OF Suc.prems(2), of "rows_by_key rows"] rows Suc.prems(1) Nil by simp
    then show ?thesis
      using Suc.prems(5) Nil
      by (auto intro!: runs_bind [OF runs_lift [where Q = "\<lambda>x d. x = None \<and> sit g oid t1 st ph held d"]]
          runs_conj runs_complete assms(1,2) all)
  next
    case (Cons x rest)
    let ?ph = "ph(sd_key x \<mapsto> S_VERIFIED)" and ?st = "after_step x (settled st)"
    obtain row where row: "next_pending (rows_by_key rows) (wf_steps w) = Inr (Some (x, row))"
      "s_state row = S_PENDING"
      using next_pending_progressed [OF Suc.prems(2), of "rows_by_key rows"] rows Suc.prems(1) Cons by auto
    have x: "step_succeeds g oid t1 decoded x" "set (sd_resources x) \<subseteq> fst ` set held"
      using assms(3) Suc.prems(1) Cons by auto
    have ph: "ph (sd_key x) = Some S_PENDING" using Suc.prems(2) Cons by (simp add: progressed_def)
    have st: "?st \<in> {RUNNING, VERIFYING}" using Suc.prems(4) by (auto simp: after_step_def)
    have rest: "runs (sit g oid t1 ?st ?ph held) (run_steps g n oid w decoded held eff) (finished w oid held)" for eff
    proof (rule Suc.IH [of "dn @ [x]" rest])
      show "progressed (dn @ [x]) rest ?ph" using Suc.prems(2) Cons by (simp add: progressed_step)
      show "?st \<in> {QUEUED, PREPARING, RUNNING, VERIFYING}" "rest = [] \<longrightarrow> ?st \<in> {RUNNING, VERIFYING}"
        using st by blast+
    qed (use Suc.prems(1,3) Cons in auto)
    have step: "runs (sit g oid t1 st ph held)
       (bind (pending_step g oid w decoded operation x row held effected) (\<lambda>r.
         case r of Inl out \<Rightarrow> ret out
         | Inr (held', effected') \<Rightarrow> run_steps g n oid w decoded held' effected')) (finished w oid held)"
      by (rule runs_bind [OF runs_pending_step [where ph = ph, OF assms(1) x(1) ph Suc.prems(4) row(2) op x(2)]])
        (auto intro!: runs_conj rest)
    show ?thesis
      unfolding row(1)
      by (auto intro!: runs_bind [OF runs_lift [where Q = "\<lambda>y d. y = Some (x, row) \<and> sit g oid t1 st ph held d"]]
          runs_conj step)
  qed
  show ?case
    unfolding run_steps.simps
    by (rule runs_bind [OF runs_read_turn [OF assms(1)]]) (auto split: prod.splits intro!: runs_conj turn)
qed

section \<open>The claim\<close>

definition claimable :: "'w engine \<Rightarrow> ident \<Rightarrow> instant \<Rightarrow> instant \<Rightarrow> op_state \<Rightarrow> (ident \<Rightarrow> step_state option) \<Rightarrow>
    ident list \<Rightarrow> held \<Rightarrow> db \<Rightarrow> bool" where
  "claimable g oid t0 t1 st ph ks held d \<longleftrightarrow> sit g oid t1 st ph held d \<and>
     (\<forall>k \<in> set ks. k \<notin> fst ` set held \<and> lease_free d k t0)"

lemma lease_free_later: "lease_free d k t0 \<Longrightarrow> t0 \<le> t \<Longrightarrow> lease_free d k t"
  by (auto simp: lease_free_def split: option.splits)

lemma lease_free_with_lease:
  "k \<noteq> key \<Longrightarrow> lease_free (with_lease key oid owner now ttl d) k t \<longleftrightarrow> lease_free d k t"
  by (simp add: lease_free_def owning_operation_state_def with_lease_lookup split: option.split)

lemma runs_acquire:
  fixes g :: "'w engine"
  assumes "calm g t0 t1" and "distinct (k # ks)"
  shows "runs (claimable g oid t0 t1 st ph (k # ks) held)
     (acquire (en_env g) k oid (en_worker_id g) (en_ttl g) :: ('w, lease_row) prog)
     (\<lambda>lease. claimable g oid t0 t1 st ph ks (held @ [(k, l_lease_revision lease)]))"
  unfolding runs_def
proof (intro allI impI)
  fix s :: "'w sys" assume c: "claimable g oid t0 t1 st ph (k # ks) held (db s)"
  let ?now = "e_clock (en_env g) (clock_reads s)"
  let ?lease = "next_lease (db s) k oid (en_worker_id g) ?now (en_ttl g)"
  let ?d = "with_lease k oid (en_worker_id g) ?now (en_ttl g) (db s)"
  let ?s = "s\<lparr>clock_reads := Suc (clock_reads s), db := ?d\<rparr>"
  have now: "t0 \<le> ?now" "t1 \<le> ?now + en_ttl g" using assms(1) by (auto simp: calm_def intro: order_trans)
  obtain row where row: "op_lookup (db s) oid = Some row" using c by (auto simp: claimable_def sit_def)
  have "lease_free (db s) k ?now" using c now(1) by (auto simp: claimable_def intro: lease_free_later)
  then have run: "acquire (en_env g) k oid (en_worker_id g) (en_ttl g) s = (Inr ?lease, ?s)"
    by (auto simp: acquire_run [OF row] Let_def lease_free_def split: option.splits)
  have "on_db keys_kept s ?s"
    using keys.guar_acquire [of "en_env g" k oid "en_worker_id g" "en_ttl g"] run
    unfolding guar_def by (metis snd_conv)
  then have keys: "keys_ok ?d" using c by (simp add: on_db_def keys_kept_def claimable_def sit_def)
  have other: "lease_lookup ?d k' = lease_lookup (db s) k'" if "(k', n) \<in> set held" for k' n
    using c that by (force simp: claimable_def with_lease_lookup)
  have old: "holds g oid t1 held (db s)" using c by (simp add: claimable_def sit_def)
  have "holds g oid t1 held ?d"
    unfolding holds_def
  proof (rule ballI, rule prod.case_eq_if [THEN iffD2])
    fix x assume x: "x \<in> set held"
    with old have "\<exists>l. lease_lookup (db s) (fst x) = Some l \<and> l_operation_id l = oid \<and>
        l_owner l = en_worker_id g \<and> l_lease_revision l = snd x \<and> t1 \<le> l_expires_at l"
      by (auto simp: holds_def)
    with other [of "fst x" "snd x"] x show "\<exists>l. lease_lookup ?d (fst x) = Some l \<and> l_operation_id l = oid \<and>
        l_owner l = en_worker_id g \<and> l_lease_revision l = snd x \<and> t1 \<le> l_expires_at l"
      by simp
  qed
  moreover have "lease_lookup ?d k = Some ?lease" by (simp add: with_lease_lookup)
  ultimately have "holds g oid t1 (held @ [(k, l_lease_revision ?lease)]) ?d"
    using now(2) by (simp add: holds_def del: next_lease_simps(4))
  moreover have "\<forall>x \<in> set ks. x \<notin> fst ` set (held @ [(k, l_lease_revision ?lease)]) \<and> lease_free ?d x t0"
    using c assms(2) by (auto simp: claimable_def intro!: lease_free_with_lease [THEN iffD2])
  ultimately have "claimable g oid t0 t1 st ph ks (held @ [(k, l_lease_revision ?lease)]) ?d"
    using c keys by (auto simp: claimable_def sit_def)
  with run show "\<exists>x s'. acquire (en_env g) k oid (en_worker_id g) (en_ttl g) s = (Inr x, s') \<and>
      claimable g oid t0 t1 st ph ks (held @ [(k, l_lease_revision x)]) (db s')" by force
qed

lemma runs_acquire_each:
  fixes g :: "'w engine"
  assumes "calm g t0 t1" and "distinct ks"
  shows "runs (claimable g oid t0 t1 st ph ks acquired)
     (acquire_each (en_env g) ks oid (en_worker_id g) (en_ttl g) [] acquired :: ('w, held) prog)
     (\<lambda>held d. map fst held = map fst acquired @ ks \<and> sit g oid t1 st ph held d)"
  using assms(2)
proof (induction ks arbitrary: acquired)
  case Nil
  then show ?case by (auto intro!: runs_ret simp: claimable_def)
next
  case (Cons k ks)
  have rest: "runs (claimable g oid t0 t1 st ph ks (acquired @ [(k, n)]))
     (acquire_each (en_env g) ks oid (en_worker_id g) (en_ttl g) [] (acquired @ [(k, n)]) :: ('w, held) prog)
     (\<lambda>held d. map fst held = map fst acquired @ k # ks \<and> sit g oid t1 st ph held d)" for n
    using Cons.IH [of "acquired @ [(k, n)]"] Cons.prems by simp
  show ?case
    unfolding acquire_each.simps
    by (simp, rule runs_bind [OF runs_acquire [OF assms(1) Cons.prems] rest])
qed

lemma runs_skip: "runs P m Q \<Longrightarrow> runs P (andthen (ret ()) m) Q"
  by (simp add: andthen_def)

lemma runs_availability:
  fixes g :: "'w engine"
  assumes "calm g t0 t1"
  shows "runs (claimable g oid t0 t1 st ph ks [])
     (availability (en_env g) ks :: ('w, (ident \<times> ident option) list) prog)
     (\<lambda>occupancy d. foreign_keys oid occupancy = [] \<and> claimable g oid t0 t1 st ph ks [] d)"
proof -
  have free: "occupant d now k = None" if "lease_free d k t0" "t0 \<le> now" for d now k
    using lease_free_later [OF that] by (auto simp: occupant_def lease_free_def split: option.splits)
  show ?thesis
    unfolding availability_def
    by (rule runs_bind [OF runs_clock [OF assms]], rule runs_read_db)
      (auto simp: foreign_keys_def filter_empty_conv claimable_def free)
qed

lemma sit_reordered:
  assumes "sit g oid t1 st ph acquired d" and "distinct keys" and "set keys \<subseteq> fst ` set acquired"
  shows "sit g oid t1 st ph (map (\<lambda>key. (key, held_revision acquired key)) keys) d"
proof -
  have dist: "distinct (map fst acquired)" and old: "holds g oid t1 acquired d"
    using assms(1) by (auto simp: sit_def)
  have "(k, held_revision acquired k) \<in> set acquired" if "k \<in> set keys" for k
    using assms(3) that held_revision_in [OF dist] by fastforce
  with old have "holds g oid t1 (map (\<lambda>key. (key, held_revision acquired key)) keys) d"
    by (fastforce simp: holds_def)
  then show ?thesis using assms(1,2) by (simp add: sit_def comp_def)
qed

lemma all_resources_set:
  "set (all_resources w) = (\<Union>x \<in> set (wf_steps w). set (sd_resources x))" "distinct (all_resources w)"
  using collect_resources [of "[]" "wf_steps w"] by (auto simp: all_resources_def)

lemma runs_claim_leases:
  fixes g :: "'w engine"
  assumes "calm g t0 t1" and "\<not> wf_phase_scoped_resources w" and "st \<noteq> ROLLING_BACK"
  shows "runs (claimable g oid t0 t1 st ph (all_resources w) []) (claim_leases g oid w st)
     (\<lambda>r d. \<exists>held. (r = Inr held \<and> fst ` set held = set (all_resources w)) \<and> sit g oid t1 st ph held d)"
proof -
  let ?keys = "sorted_keys (desired_resources w st)"
  have desired: "set ?keys = set (all_resources w)"
    using assms(2,3) by (simp add: desired_resources_def initial_resources_def)
  have acquire: "runs (claimable g oid t0 t1 st ph (all_resources w) [])
     (acquire_many (en_env g) (desired_resources w st) oid (en_worker_id g) (en_ttl g) [] :: ('w, held) prog)
     (\<lambda>acquired d. fst ` set acquired = set (all_resources w) \<and> sit g oid t1 st ph acquired d)"
    unfolding acquire_many_def held_keys_def
  proof (simp only: list.map sorted_keys_Nil foreach.simps, rule runs_bind [OF runs_tick],
      rule runs_skip)
    show "runs (claimable g oid t0 t1 st ph (all_resources w) [])
      (acquire_each (en_env g) ?keys oid (en_worker_id g) (en_ttl g) [] [] :: ('w, held) prog)
      (\<lambda>acquired d. fst ` set acquired = set (all_resources w) \<and> sit g oid t1 st ph acquired d)"
    proof (rule runs_pre [OF runs_post [OF runs_acquire_each [OF assms(1)]]])
      fix acquired :: held and d
      assume "map fst acquired = map fst [] @ ?keys \<and> sit g oid t1 st ph acquired d"
      then show "fst ` set acquired = set (all_resources w) \<and> sit g oid t1 st ph acquired d"
        using desired by (metis append_Nil list.map(1) list.set_map)
    next
      fix d assume "claimable g oid t0 t1 st ph (all_resources w) [] d"
      then show "claimable g oid t0 t1 st ph ?keys [] d"
        using desired by (simp add: claimable_def)
    qed simp
  qed
  have found: "runs (claimable g oid t0 t1 st ph (all_resources w) [])
     (bind (availability (en_env g) (all_resources w)) (\<lambda>occupancy.
        let foreign = foreign_keys oid occupancy in
        if foreign \<noteq> [] then ret (Inl (busy_outcome oid (sort foreign)))
        else bind (acquire_many (en_env g) (desired_resources w st) oid (en_worker_id g)
                        (en_ttl g) []) (\<lambda>acquired. ret (Inr acquired))) :: ('w, outcome + held) prog)
     (\<lambda>r d. \<exists>acquired. (r = Inr acquired \<and> fst ` set acquired = set (all_resources w)) \<and>
        sit g oid t1 st ph acquired d)"
    by (rule runs_bind [OF runs_availability [OF assms(1)]], rule runs_conj, simp, rule runs_bind [OF acquire])
      (auto intro!: runs_ret)
  have rest: "runs (sit g oid t1 st ph acquired)
     (let keys = filter (\<lambda>key. key \<in> fst ` set acquired) (all_resources w) in
             andthen (case en_on_lease_acquired g of
                None \<Rightarrow> ret () | Some f \<Rightarrow> foreach keys f)
             (ret (Inr (map (\<lambda>key. (key, held_revision acquired key)) keys))))
     (\<lambda>r d. \<exists>held. (r = Inr held \<and> fst ` set held = set (all_resources w)) \<and> sit g oid t1 st ph held d)"
    if keys: "fst ` set acquired = set (all_resources w)" for acquired
  proof -
    have all: "filter (\<lambda>key. key \<in> fst ` set acquired) (all_resources w) = all_resources w"
      using keys by simp
    have hook: "en_on_lease_acquired g = None" using assms(1) by (simp add: calm_def)
    have sit: "sit g oid t1 st ph (map (\<lambda>key. (key, held_revision acquired key)) (all_resources w)) d"
      if "sit g oid t1 st ph acquired d" for d
      by (rule sit_reordered [OF that]) (simp_all add: all_resources_set(2) keys)
    show ?thesis
      unfolding all Let_def hook option.case
      by (rule runs_skip, rule runs_ret) (auto dest: sit simp: image_image)
  qed
  show ?thesis
    unfolding claim_leases_def
  proof (rule runs_in_unit [OF calm_quiet [OF assms(1)]], rule runs_bind [OF runs_handle [OF found]],
      rule runs_ex, rule runs_conj)
    fix r :: "outcome + held" and acquired
    assume r: "r = Inr acquired \<and> fst ` set acquired = set (all_resources w)"
    show "runs (sit g oid t1 st ph acquired)
     (case r of Inl out \<Rightarrow> ret (Inl out) | Inr acquired \<Rightarrow>
       (let keys = filter (\<lambda>key. key \<in> fst ` set acquired) (all_resources w) in
             andthen (case en_on_lease_acquired g of
                None \<Rightarrow> ret () | Some f \<Rightarrow> foreach keys f)
             (ret (Inr (map (\<lambda>key. (key, held_revision acquired key)) keys)))))
     (\<lambda>r d. \<exists>held. (r = Inr held \<and> fst ` set held = set (all_resources w)) \<and> sit g oid t1 st ph held d)"
      unfolding r [THEN conjunct1] sum.case by (rule rest [OF r [THEN conjunct2]])
  qed
qed

text \<open>What is asked of a workflow before its first step: it decodes the request and its preflight passes.\<close>

definition admits :: "'w engine \<Rightarrow> ident \<Rightarrow> instant \<Rightarrow> 'w workflow_def \<Rightarrow> json \<Rightarrow> json \<Rightarrow> bool" where
  "admits g oid t1 w request decoded \<longleftrightarrow> wf_decode_request w request = Inr decoded \<and>
     \<not> wf_phase_scoped_resources w \<and>
     (\<forall>st ph held. runs (sit g oid t1 st ph held) (wf_preflight w decoded) (\<lambda>_. sit g oid t1 st ph held))"

lemma runs_claim:
  fixes g :: "'w engine"
  assumes "calm g t0 t1" and "admits g oid t1 w (o_request_json r) decoded" and "o_state r = QUEUED"
    and "lookup_workflow (en_registry g) (o_type r) (o_request_version r) (o_recovery_policy_version r) = Inr w"
  shows "runs (\<lambda>d. claimable g oid t0 t1 QUEUED ph (all_resources w) [] d \<and> op_lookup d oid = Some r) (claim g oid)
     (\<lambda>c d. \<exists>held. (c = Inr (w, decoded, held) \<and> fst ` set held = set (all_resources w)) \<and>
        sit g oid t1 QUEUED ph held d)"
proof -
  let ?P = "\<lambda>d. claimable g oid t0 t1 QUEUED ph (all_resources w) [] d \<and> op_lookup d oid = Some r"
  have scoped: "\<not> wf_phase_scoped_resources w" and decode: "wf_decode_request w (o_request_json r) = Inr decoded"
    using assms(2) by (simp_all add: admits_def)
  have found: "runs ?P (in_unit g (get_op oid)) (\<lambda>x d. x = Some r \<and> ?P d)"
    unfolding get_op_def by (rule runs_in_unit [OF calm_quiet [OF assms(1)]], rule runs_read_db) simp
  have preflight: "runs (sit g oid t1 QUEUED ph held)
      (andthen (wf_preflight w decoded) (ret (Inr (w, decoded, held))))
      (\<lambda>c d. \<exists>held. (c = Inr (w, decoded, held) \<and> fst ` set held = set (all_resources w)) \<and>
        sit g oid t1 QUEUED ph held d)" if "fst ` set held = set (all_resources w)" for held
    using assms(2) by (intro runs_andthen [where A = "sit g oid t1 QUEUED ph held"] runs_ret)
      (auto simp: admits_def that)
  have lifted: "lift (Inr x) = (ret x :: ('w, 'x) prog)" for x :: 'x
    by (rule ext) (simp add: lift_run ret_run)
  have leases: "runs ?P (claim_leases g oid w QUEUED)
     (\<lambda>r d. \<exists>held. (r = Inr held \<and> fst ` set held = set (all_resources w)) \<and> sit g oid t1 QUEUED ph held d)"
    by (rule runs_pre [OF runs_claim_leases [OF assms(1) scoped]]) simp_all
  have workflow: "runs ?P (claim_workflow g oid w r)
     (\<lambda>c d. \<exists>held. (c = Inr (w, decoded, held) \<and> fst ` set held = set (all_resources w)) \<and>
        sit g oid t1 QUEUED ph held d)"
    unfolding claim_workflow_def decode assms(3) lifted
    by (simp add: skip_outcome_def, rule runs_bind [OF leases], rule runs_ex, rule runs_conj)
      (auto intro!: runs_handle preflight [unfolded conj_assoc])
  show ?thesis
    unfolding claim_def
    by (rule runs_bind [OF found], rule runs_conj) (simp add: assms(4) workflow [unfolded conj_assoc])
qed

lemma runs_execute:
  fixes g :: "'w engine"
  assumes "calm g t0 t1" and "admits g oid t1 w (o_request_json r) decoded" and "o_state r = QUEUED"
    and "lookup_workflow (en_registry g) (o_type r) (o_request_version r) (o_recovery_policy_version r) = Inr w"
    and "decides_success w decoded" and "\<forall>x \<in> set (wf_steps w). step_succeeds g oid t1 decoded x"
    and "progressed [] (wf_steps w) ph" and "wf_steps w \<noteq> []" and "length (wf_steps w) < en_fuel g"
  shows "runs (\<lambda>d. claimable g oid t0 t1 QUEUED ph (all_resources w) [] d \<and> op_lookup d oid = Some r) (execute g oid)
     (\<lambda>out d. \<exists>held. finished w oid held out d \<and> fst ` set held = set (all_resources w))"
proof -
  have steps: "runs (sit g oid t1 QUEUED ph held) (run_steps g (en_fuel g) oid w decoded held [])
      (\<lambda>out d. \<exists>held. finished w oid held out d \<and> fst ` set held = set (all_resources w))"
    if keys: "fst ` set held = set (all_resources w)" for held
  proof -
    have all: "\<forall>x \<in> set (wf_steps w). step_succeeds g oid t1 decoded x \<and> set (sd_resources x) \<subseteq> fst ` set held"
      using assms(6) keys all_resources_set(1) [of w] by auto
    show ?thesis
      by (rule runs_post [OF runs_run_steps [OF assms(1,5) all _ assms(7,9)]])
        (use assms(8) keys in auto)
  qed
  have state: "runs (sit g oid t1 QUEUED ph held)
      (in_unit g (bind (require_op oid) (\<lambda>r. ret (o_state r))) :: ('w, op_state) prog)
      (\<lambda>x d. x = QUEUED \<and> sit g oid t1 QUEUED ph held d)" for held
    by (rule runs_in_unit [OF calm_quiet [OF assms(1)]], rule runs_bind [OF runs_require]) (auto intro!: runs_ret)
  show ?thesis
    unfolding execute_def
    by (rule runs_bind [OF runs_claim [OF assms(1-4)]], rule runs_ex, rule runs_conj)
      (auto intro!: runs_bind [OF state] runs_conj steps)
qed

lemma queued_operation_runs:
  fixes g :: "'w engine" and s :: "'w sys"
  assumes "calm g t0 t1" and "keys_ok (db s)" and "op_lookup (db s) oid = Some r"
    and "o_state r = QUEUED" and "o_cancel_requested_at r = None"
    and "lookup_workflow (en_registry g) (o_type r) (o_request_version r) (o_recovery_policy_version r) = Inr w"
    and "check_workflow w = Inr ()" and "admits g oid t1 w (o_request_json r) decoded"
    and "decides_success w decoded" and "wf_steps w \<noteq> []" and "length (wf_steps w) < en_fuel g"
    and "\<forall>x \<in> set (wf_steps w). step_succeeds g oid t1 decoded x \<and>
       map_option s_state (step_lookup (db s) oid (sd_key x)) = Some S_PENDING"
    and "\<forall>k \<in> set (all_resources w). lease_free (db s) k t0"
  shows "\<exists>out s'. execute_one g oid s = (Inr out, s') \<and> oc_kind out = COMPLETED \<and>
     map_option o_state (op_lookup (db s') oid) = Some SUCCEEDED \<and>
     (\<forall>x \<in> set (wf_steps w). map_option s_state (step_lookup (db s') oid (sd_key x)) = Some S_VERIFIED) \<and>
     (\<forall>k \<in> set (all_resources w). lease_lookup (db s') k = None)"
proof -
  let ?ph = "\<lambda>k. map_option s_state (step_lookup (db s) oid k)"
  let ?P = "\<lambda>d. claimable g oid t0 t1 QUEUED ?ph (all_resources w) [] d \<and> op_lookup d oid = Some r"
  let ?Q = "\<lambda>out d. \<exists>held. finished w oid held out d \<and> fst ` set held = set (all_resources w)"
  have start: "?P (db s)"
    using assms(2-5,13) by (auto simp: claimable_def sit_def holds_def)
  have "progressed [] (wf_steps w) ?ph"
    using assms(7,12) by (auto simp: progressed_def check_workflow_def check_steps_iff)
  note run = runs_execute [OF assms(1,8,4,6,9) _ this assms(10,11)]
  have execute: "runs ?P (execute g oid) ?Q"
    by (rule run) (use assms(12) in blast)
  have observer: "en_terminal_observer g = None" and busy: "\<And>b. runs ?P (reads (en_profile_busy g b)) (\<lambda>x d. x = False \<and> ?P d)"
    using assms(1) by (simp_all add: calm_def runs_def reads_def ex_bool_eq)
  have access: "runs ?P (execute_with_profile_access g oid) ?Q"
    unfolding execute_with_profile_access_def observer option.case
    by (rule runs_bind [OF runs_handle [OF execute]], rule runs_skip, rule runs_ret)
  have read: "runs ?P (read_unit (en_env g) (get_op oid) :: ('w, op_row option) prog) (\<lambda>_. ?P)"
    using assms(1) by (auto simp: runs_def read_unit_def get_op_def read_db_def unit_of_work_def calm_def quiet_def)
  have "runs ?P (execute_one g oid) ?Q"
    unfolding execute_one_def Let_def
    by (rule runs_bind [OF read], rule runs_handle, rule runs_bind [OF busy], rule runs_conj) (simp add: access)
  then obtain out s' where "execute_one g oid s = (Inr out, s')" "?Q out (db s')"
    using start unfolding runs_def by blast
  then show ?thesis unfolding finished_def by metis
qed


end
