(* ===== verification/Samples.thy ===== *)
theory Samples
  imports Guarantees Divergences Progress_Reporter Liveness
begin

text \<open>
  A small concrete installation: one registered workflow of one critical step on one
  resource, an engine with a still clock, one operation, a command service and a worker
  host. The witnesses apply the properties to it.
\<close>

section \<open>Objects\<close>

definition sample_env :: env where
  "sample_env = \<lparr>e_clock = (\<lambda>_. 100), e_uuid = (\<lambda>_. ''effect''), e_open = (\<lambda>_ _ d. Inr d),
     e_commit = (\<lambda>_. None)\<rparr>"

definition sample_step :: "'w step_def" where
  "sample_step = \<lparr>sd_key = ''load'', sd_phase = ''loading'', sd_sequence = 1,
     sd_derive_input = (\<lambda>_ _. Inr (JObj [])),
     sd_probe = (\<lambda>_. ret \<lparr>pr_classification = ABSENT, pr_reason_code = ''NOTHING'', pr_output = None\<rparr>),
     sd_execute = (\<lambda>_. ret (JObj [])), sd_verify = (\<lambda>_. ret (JObj [])),
     sd_implementation_version = 1, sd_resources = [''gpu''], sd_externally_visible = False,
     sd_critical = True, sd_effect_disposition = ''NONE'', sd_compensate = None,
     sd_verify_restoration = None, sd_probe_restoration = None, sd_safe_if_uncertain = False\<rparr>"

definition sample_flow :: "'w workflow_def" where
  "sample_flow = \<lparr>wf_type = MODEL_ACTIVATE, wf_request_version = 1, wf_recovery_policy_version = 1,
     wf_decode_request = (\<lambda>r. Inr r), wf_steps = [sample_step],
     wf_terminal_decision = default_terminal_decision, wf_preflight = (\<lambda>_. ret ()),
     wf_cancel_finalizer = None, wf_phase_scoped_resources = False, wf_recovery_barrier_resources = []\<rparr>"

definition sample_registry :: "'w registry" where
  "sample_registry = \<lparr>r_workflows = [sample_flow], r_frozen = True\<rparr>"

definition sample_engine :: "'w engine" where
  "sample_engine = \<lparr>en_env = sample_env, en_registry = sample_registry, en_worker_id = ''w1'', en_ttl = 60,
     en_shutdown = (\<lambda>_. False), en_on_lease_acquired = None, en_crash = (\<lambda>_ _. ret ()),
     en_terminal_observer = None, en_profile_busy = (\<lambda>_ _. False), en_fuel = 8\<rparr>"

definition sample_service :: "'w command_service" where
  "sample_service = \<lparr>cs_env = sample_env, cs_engine = sample_engine, cs_registry = Some sample_registry,
     cs_worker_profile_dir = None, cs_spawn = (\<lambda>_. ret 4711)\<rparr>"

definition sample_host :: "'w host" where
  "sample_host = \<lparr>h_env = sample_env, h_engine = sample_engine, h_policy = default_host_policy,
     h_worker_id = ''w1'', h_monotonic = ret 0, h_waiter = (\<lambda>_. ret False)\<rparr>"

definition sample_op :: op_row where
  "sample_op = \<lparr>o_id = ''op'', o_type = MODEL_ACTIVATE, o_request_version = 1,
     o_recovery_policy_version = 1, o_request_json = JObj [], o_state = QUEUED, o_state_revision = 1,
     o_progress_phase = Some ''loading'', o_progress_current = 5, o_progress_total = None,
     o_progress_unit = None, o_progress_summary = None, o_surface = ''cli'',
     o_cancel_requested_at = None, o_result_code = None, o_result_detail = None, o_error_code = None,
     o_error_detail = None, o_parent_operation_id = None, o_created_at = 90, o_started_at = None,
     o_updated_at = 90, o_finished_at = None, o_dismissed_at = None\<rparr>"

definition sample_lease :: "ident \<Rightarrow> ident \<Rightarrow> instant \<Rightarrow> lease_row" where
  "sample_lease key owner expires = \<lparr>l_resource_key = key, l_operation_id = ''op'', l_owner = owner,
     l_lease_revision = 1, l_acquired_at = 80, l_heartbeat_at = 80, l_expires_at = expires\<rparr>"

definition sample_sys :: "op_row \<Rightarrow> step_row list \<Rightarrow> lease_row list \<Rightarrow> unit sys" where
  "sample_sys r steps leases =
     \<lparr>db = \<lparr>operations = [r], operation_steps = steps, operation_events = [],
        operation_leases = leases, worker_lock = None, next_cursor = 1\<rparr>,
      world = (), clock_reads = 0, uuid_reads = 0, units = 0,
      pulses = [\<lparr>p_ticks = 0, p_last_phase = None, p_last_current = 0, p_last_tick = 0\<rparr>], calls = []\<rparr>"

definition sample_row :: "step_state \<Rightarrow> step_row" where
  "sample_row st = (pending_row ''op'' ''load'' 1 1 None)\<lparr>s_state := st\<rparr>"

definition in_state :: "op_state \<Rightarrow> op_row" where
  "in_state st = sample_op\<lparr>o_state := st\<rparr>"

definition fresh_sys :: "unit sys" where
  "fresh_sys = sample_sys sample_op [sample_row S_PENDING] []"

lemmas sample_objects = sample_env_def sample_step_def sample_flow_def sample_registry_def
  sample_engine_def sample_service_def sample_host_def

lemmas sample_rows = sample_op_def in_state_def sample_lease_def sample_sys_def sample_row_def
  pending_row_def fresh_sys_def

lemmas sample_lookups = op_lookup_def lease_lookup_def step_lookup_def step_key_of_def

text \<open>Evaluation of payload checks.\<close>

lemmas payload_eval = sanitize_payload_def sanitize_tree.simps budget_check_def payload_limits
  secret_like_def SECRET_NAME_MARKERS_def ascii_lower_def less_eq_char_def truncated_def jstr_def cps_def
  utf8_size_def utf8_width_def surrogate_def escape_cp_def dumps_text_def dumps_int_def digits.simps
  TRUNCATION_MARKER_def

section \<open>The sample keeps every promise\<close>

context promise
begin

lemma sample_env_keeps: "env_keeps R sample_env"
  by (simp add: env_keeps_def sample_env_def R_refl)

lemma sample_step_keeps: "step_keeps R sample_step"
  by (simp add: step_keeps_def sample_step_def guar_ret)

lemma sample_flow_keeps: "workflow_keeps R sample_flow"
  using sample_step_keeps by (simp add: workflow_keeps_def sample_flow_def guar_ret)

lemma sample_engine_keeps: "engine_keeps R sample_engine"
  using sample_flow_keeps sample_env_keeps
  by (simp add: engine_keeps_def sample_engine_def sample_registry_def guar_ret)

lemma sample_service_keeps: "service_keeps R sample_service"
  using sample_engine_keeps sample_env_keeps
  by (simp add: service_keeps_def sample_service_def guar_ret)

lemma sample_host_keeps: "host_keeps R sample_host"
  using sample_engine_keeps sample_env_keeps
  by (simp add: host_keeps_def sample_host_def guar_ret)

end

lemma sample_quiet: "quiet sample_env" "quiet (en_env sample_engine)"
  by (simp_all add: quiet_def sample_engine_def sample_env_def)

lemma sample_keys: "keys_ok (db (sample_sys r [sample_row st] []))"
    "keys_ok (db (sample_sys r [sample_row st] [sample_lease k w t]))"
  by (simp_all add: keys_ok_def sample_rows)

lemma sample_op_lookup: "o_id r = ''op'' \<Longrightarrow> op_lookup (db (sample_sys r steps leases)) ''op'' = Some r"
  by (simp add: sample_sys_def op_lookup_def)

lemma sample_lease_simps [simp]:
  "l_operation_id (sample_lease key owner t) = ''op''" "l_owner (sample_lease key owner t) = owner"
  "l_lease_revision (sample_lease key owner t) = 1" "l_expires_at (sample_lease key owner t) = t"
  by (simp_all add: sample_lease_def)

lemma sample_clock [simp]: "e_clock sample_env n = 100"
  by (simp add: sample_env_def)

lemma in_state_simps [simp]: "o_id (in_state st) = ''op''" "o_state (in_state st) = st"
    "o_state_revision (in_state st) = 1"
  by (simp_all add: in_state_def sample_op_def)

lemma sample_op_simps [simp]: "o_id sample_op = ''op''" "o_state sample_op = QUEUED"
    "o_state_revision sample_op = 1"
  by (simp_all add: sample_op_def)

lemma sample_calm: "calm sample_engine 100 130"
  by (simp add: calm_def sample_quiet) (simp add: sample_engine_def)

abbreviation leased_sys :: "instant \<Rightarrow> op_state \<Rightarrow> unit sys" where
  "leased_sys t st \<equiv> sample_sys (in_state st) [sample_row S_RUNNING] [sample_lease ''gpu'' ''w1'' t]"

lemma leased_lookup: "lease_lookup (db (leased_sys t st)) ''gpu'' = Some (sample_lease ''gpu'' ''w1'' t)"
  by (simp add: sample_rows lease_lookup_def)

lemma sample_sit: "sit sample_engine ''op'' 130 st
    (\<lambda>k. map_option s_state (step_lookup (db (leased_sys 130 st)) ''op'' k)) [(''gpu'', 1)] (db (leased_sys 130 st))"
proof -
  have "o_cancel_requested_at (in_state st) = None" by (simp add: in_state_def sample_op_def)
  then show ?thesis
    by (simp add: sit_def holds_def leased_lookup sample_keys sample_op_lookup)
      (simp add: sample_engine_def)
qed

end
