(* ===== verification/Witnesses.thy ===== *)
theory Witnesses
  imports Samples
begin

text \<open>The properties applied to the sample installation, with their hypotheses discharged there.\<close>

section \<open>Whole runs\<close>

theorem engine_respects_lifecycle_witness:
  "\<exists>row'. op_lookup (db (snd (execute_one sample_engine ''op'' fresh_sys))) ''op'' = Some row' \<and>
     row_evolves sample_op row'"
  by (rule engine_respects_lifecycle [where s = fresh_sys and r = "fst (execute_one sample_engine ''op'' fresh_sys)",
        OF life.sample_engine_keeps])
    (simp_all add: fresh_sys_def sample_op_lookup)

theorem commands_respect_lifecycle_witness:
  "\<exists>row'. op_lookup (db (snd (cancel sample_service ''op'' None fresh_sys))) ''op'' = Some row' \<and>
     row_evolves sample_op row'"
  by (rule commands_respect_lifecycle [where s = fresh_sys and cs = sample_service and oid = "''op''" and
        expected = None and confirm = True and restore = False, OF life.sample_service_keeps])
    (simp_all add: fresh_sys_def sample_op_lookup)

abbreviation cancelling_sys :: "unit sys" where
  "cancelling_sys \<equiv> sample_sys (in_state CANCEL_REQUESTED) [sample_row S_PENDING] []"

theorem accepted_cancellation_never_succeeds_witness:
  "\<exists>row'. op_lookup (db (snd (host_start sample_host 9 fresh_host cancelling_sys))) ''op'' = Some row' \<and>
     o_state row' \<in> {CANCEL_REQUESTED, ROLLING_BACK, CANCELLED, FAILED_ROLLED_BACK, RECOVERY_REQUIRED}"
  by (rule accepted_cancellation_never_succeeds [where s = cancelling_sys and row = "in_state CANCEL_REQUESTED" and
        r = "fst (host_start sample_host 9 fresh_host cancelling_sys)", OF life.sample_host_keeps])
    (simp_all add: sample_op_lookup)

abbreviation finished_sys :: "unit sys" where
  "finished_sys \<equiv> sample_sys (in_state SUCCEEDED) [sample_row S_VERIFIED] []"

theorem terminal_outcome_is_final_witness:
  "\<exists>row'. op_lookup (db (snd (host_start sample_host 9 fresh_host finished_sys))) ''op'' = Some row' \<and>
     same_request (in_state SUCCEEDED) row' \<and> same_result (in_state SUCCEEDED) row'"
  by (rule terminal_outcome_is_final [where s = finished_sys and
        r = "fst (host_start sample_host 9 fresh_host finished_sys)", OF life.sample_host_keeps])
    (simp_all add: sample_op_lookup)

abbreviation verified_sys :: "unit sys" where
  "verified_sys \<equiv> sample_sys (in_state RUNNING) [sample_row S_VERIFIED] []"

theorem verified_steps_stay_done_witness:
  "\<exists>st'. step_lookup (db (snd (execute_one sample_engine ''op'' verified_sys))) ''op'' ''load'' = Some st' \<and>
     s_state st' \<in> {S_VERIFIED, S_COMPENSATING, S_COMPENSATED, S_FAILED}"
proof -
  have row: "step_lookup (db verified_sys) ''op'' ''load'' = Some (sample_row S_VERIFIED)"
    "s_state (sample_row S_VERIFIED) = S_VERIFIED"
    by (simp_all add: sample_rows step_lookup_def step_key_of_def)
  from verified_steps_stay_done [OF step_life.sample_engine_keeps surjective_pairing row(1), of "''op''"] row(2)
  show ?thesis by blast
qed

theorem host_keeps_tables_well_formed_witness:
  "keys_ok (db (snd (host_start sample_host 9 fresh_host fresh_sys)))"
  by (rule host_keeps_tables_well_formed [OF keys.sample_host_keeps])
    (simp add: fresh_sys_def sample_keys)

theorem history_is_append_only_witness:
  "prefix (operation_events (db fresh_sys))
     (operation_events (db (snd (host_start sample_host 9 fresh_host fresh_sys))))"
  by (rule history_is_append_only [OF history.sample_host_keeps])

theorem effects_run_under_durable_intent_witness:
  "list_all intent_recorded (calls (snd (execute_one sample_engine ''op'' fresh_sys)))"
proof -
  have keys: "keys_ok (db fresh_sys)" by (simp add: fresh_sys_def sample_keys)
  have none: "calls fresh_sys = []" by (simp add: fresh_sys_def sample_sys_def)
  from effects_run_under_durable_intent [OF intent.sample_engine_keeps rows.sample_engine_keeps keys
      surjective_pairing, of "''op''"] none
  show ?thesis by (simp add: list_all_iff intent_recorded_def)
qed

theorem undoing_calls_no_effect_witness:
  "list_all no_effect_call (calls (snd (honor_cancellation sample_engine ''op'' sample_flow (JObj []) [] cancelling_sys)))"
proof -
  have step: "sample_step \<in> set (wf_steps sample_flow)" by (simp add: sample_flow_def)
  have ctx: "ctx_keeps (sound_log no_effect_call)
      (row_ctx sample_engine ''op'' (sample_row S_RUNNING) ''load'' Map.empty (JObj []) [] :: unit effect_ctx)"
    by (rule effectless.row_ctx_keeps)
  from undoing_calls_no_effect [where s = cancelling_sys and oid = "''op''" and decoded = "JObj []" and held = "[]" and
      s' = "snd (honor_cancellation sample_engine ''op'' sample_flow (JObj []) [] cancelling_sys)" and
      reason = "''R''" and cancelled = True and cls = None and err = KeyError,
      OF effectless.sample_engine_keeps effectless.sample_flow_keeps step ctx sample_keys(1)]
  show ?thesis by (simp add: sample_sys_def list_all_iff no_effect_call_def)
qed

section \<open>Operation rows\<close>

theorem transition_success_witness:
  "\<exists>row' s'. compare_and_transition sample_env ''op'' QUEUED 1 PREPARING plain_transition fresh_sys = (Inr row', s') \<and>
     op_lookup (db s') ''op'' = Some row' \<and> o_state row' = PREPARING \<and> o_state_revision row' = 2"
proof -
  let ?m = "compare_and_transition sample_env ''op'' QUEUED 1 PREPARING plain_transition fresh_sys"
  have "case fst ?m of Inr row \<Rightarrow> True | Inl e \<Rightarrow> False" by code_simp
  then obtain row' s' where run: "?m = (Inr row', s')"
    by (cases ?m; cases "fst ?m") auto
  have "keys_ok (db fresh_sys)" by (simp add: fresh_sys_def sample_keys)
  from transition_success [OF this run] run show ?thesis by auto
qed

theorem stale_transition_writes_nothing_witness:
  "\<exists>e s'. compare_and_transition sample_env ''op'' QUEUED 7 PREPARING plain_transition fresh_sys = (Inl e, s') \<and>
     db s' = db fresh_sys"
  by (rule stale_transition_writes_nothing [where row = sample_op])
    (simp_all add: fresh_sys_def sample_keys sample_op_lookup)

section \<open>Leases\<close>

lemma acquire_expired:
  "\<exists>lease s'. acquire sample_env ''gpu'' ''op'' ''w2'' 60 (leased_sys 90 RUNNING) = (Inr lease, s')"
  by (simp add: acquire_run [where row = "in_state RUNNING"] sample_op_lookup leased_lookup Let_def
      owning_operation_state_def)

theorem takeover_fences_out_previous_owner_witness:
  "\<exists>lease s'. acquire sample_env ''gpu'' ''op'' ''w2'' 60 (leased_sys 90 RUNNING) = (Inr lease, s') \<and>
     \<not> owns (db s') ''gpu'' ''op'' ''w1'' 1 85"
proof -
  obtain lease s' where run: "acquire sample_env ''gpu'' ''op'' ''w2'' 60 (leased_sys 90 RUNNING) = (Inr lease, s')"
    using acquire_expired by blast
  have "owns (db (leased_sys 90 RUNNING)) ''gpu'' ''op'' ''w1'' 1 85"
    by (simp add: owns_def leased_lookup)
  from takeover_fences_out_previous_owner [OF this run] run show ?thesis by blast
qed

theorem acquire_many_is_all_or_none_witness:
  "\<exists>r s'. begin_unit sample_env (acquire_many sample_env [''gpu'', ''disk''] ''op'' ''w1'' 60 []) fresh_sys = (r, s') \<and>
     (case r of Inl e \<Rightarrow> db s' = db fresh_sys | Inr acquired \<Rightarrow> map fst acquired = [''disk'', ''gpu''])"
proof -
  have keys: "sorted_keys [''gpu'', ''disk''] = [''disk'', ''gpu'']" by code_simp
  obtain r s' where run: "begin_unit sample_env (acquire_many sample_env [''gpu'', ''disk''] ''op'' ''w1'' 60 [])
      fresh_sys = (r, s')" by fastforce
  from acquire_many_is_all_or_none [OF sample_quiet(1) run] run show ?thesis
    by (auto simp: keys split: sum.splits)
qed

theorem one_live_host_per_profile_witness:
  "\<exists>s'. acquire_profile_lock sample_host fresh_host
      (fresh_sys\<lparr>db := (db fresh_sys)\<lparr>worker_lock := Some \<lparr>k_owner = ''w2'', k_lease_revision = 1, k_acquired_at = 80,
        k_heartbeat_at = 80, k_expires_at = 130\<rparr>\<rparr>\<rparr>) = (Inl WorkerStartRefused, s')"
  using one_live_host_per_profile [of sample_host "fresh_sys\<lparr>db := (db fresh_sys)\<lparr>worker_lock :=
      Some \<lparr>k_owner = ''w2'', k_lease_revision = 1, k_acquired_at = 80,
        k_heartbeat_at = 80, k_expires_at = 130\<rparr>\<rparr>\<rparr>" fresh_host]
  by (auto simp: sample_host_def sample_env_def)

section \<open>The engine\<close>



definition forward_step :: "unit step_def" where
  "forward_step = sample_step\<lparr>sd_effect_disposition := ''FORWARD_ONLY''\<rparr>"

abbreviation running_sys :: "unit sys" where
  "running_sys \<equiv> leased_sys 130 RUNNING"

theorem recovery_barrier_keeps_resources_witness:
  "\<exists>out s'. require_recovery sample_engine ''op'' [(''gpu'', 1)] ''UNSURE'' (JObj []) ''look'' running_sys = (Inr out, s') \<and>
     lease_lookup (db s') ''gpu'' = Some (sample_lease ''gpu'' ''w1'' 130) \<and> \<not> lease_free (db s') ''gpu'' 500"
proof -
  have "fits EVENT_DETAIL_MAX_BYTES (JObj [])" by (simp add: fits_def payload_eval)
  then obtain out s' where run: "require_recovery sample_engine ''op'' [(''gpu'', 1)] ''UNSURE'' (JObj []) ''look''
      running_sys = (Inr out, s')"
    using runs_require_recovery [OF sample_calm _ _, of RUNNING "JObj []" "''op''"] sample_sit [of RUNNING]
    unfolding runs_def by (fastforce simp: can_transition_def)
  from recovery_barrier_keeps_resources [OF sample_keys(2) sample_quiet(2) run leased_lookup] run
  show ?thesis by auto
qed

section \<open>Edges\<close>

definition deep :: json where
  "deep = JList [JList [JList [JList [JList [JList [JList [JList [JInt 1]]]]]]]]"

theorem resumed_pulse_loses_lease_witness:
  "\<exists>s'. pulse sample_engine ''op'' [(''gpu'', 1)] 0 \<lparr>a_phase = Some ''loading'', a_current = Some 1, a_total = None,
      a_unit = None, a_summary = None, a_cancellation_safe = True\<rparr> running_sys =
    (Inl (LostLease (PulseLost (ProgressBackwards ''op''))), s')"
proof -
  let ?a = "\<lparr>a_phase = Some ''loading'', a_current = Some 1, a_total = None,
      a_unit = None, a_summary = None, a_cancellation_safe = True\<rparr>"
  have "e_clock (en_env sample_engine) n = 100" for n
    by (simp add: sample_engine_def sample_env_def)
  then have own: "fence_holds sample_engine ''op'' [(''gpu'', 1)] (db running_sys)
      (e_clock (en_env sample_engine) (clock_reads running_sys))"
    by (simp add: fence_holds_def owns_def leased_lookup held_revision_def sample_engine_def)
  have row: "o_progress_phase (in_state RUNNING) = Some ''loading''" "o_progress_current (in_state RUNNING) = 5"
    by (simp_all add: in_state_def sample_op_def)
  from resumed_pulse_loses_lease [OF sample_keys(2) sample_quiet(2) sample_op_lookup [OF in_state_simps(1)] own row(1),
      of ?a 0] row(2)
  show ?thesis by (auto simp: sample_sys_def)
qed

definition two_resources :: "unit workflow_def" where
  "two_resources = sample_flow\<lparr>wf_steps := [sample_step\<lparr>sd_resources := [''disk'', ''gpu'']\<rparr>]\<rparr>"

theorem busy_claim_keeps_taken_lease_witness:
  "\<exists>s' l'. claim_leases sample_engine ''op'' two_resources RUNNING running_sys =
      (Inr (Inl (busy_outcome ''op'' [])), s') \<and> lease_lookup (db s') ''disk'' = Some l'"
proof -
  have all: "all_resources two_resources = [''disk'', ''gpu'']" by code_simp
  have less: "''disk'' < (''gpu'' :: string)" by code_simp
  have free: "lease_lookup (db running_sys) ''disk'' = None"
    by (simp add: lease_lookup_def sample_sys_def sample_lease_def)
  have clock: "\<forall>n. e_clock (en_env sample_engine) n < l_expires_at (sample_lease ''gpu'' ''w1'' 130)"
    by (simp add: sample_engine_def)
  have flow: "\<not> wf_phase_scoped_resources two_resources" by (simp add: two_resources_def sample_flow_def)
  from busy_claim_keeps_taken_lease [OF sample_quiet(2) sample_op_lookup [OF in_state_simps(1)] flow _ all less
      free leased_lookup _ clock, of RUNNING]
  show ?thesis by auto
qed

section \<open>Machines, payloads, workflows\<close>

theorem machine_ends_witness:
  "\<not> reaches SUCCEEDED RUNNING \<and> (\<exists>c. reaches PAUSED c \<and> is_terminal c)"
  using machine_ends [of SUCCEEDED RUNNING] machine_ends [of PAUSED RUNNING] by auto

theorem persisted_payloads_are_clean_witness:
  "sanitize_payload REQUEST_MAX_BYTES (JObj [(''model'', jstr ''q4'')]) = Inr (JObj [(''model'', jstr ''q4'')]) \<and>
   clean_at 0 (JObj [(''model'', jstr ''q4'')])"
proof -
  have ok: "sanitize_payload REQUEST_MAX_BYTES (JObj [(''model'', jstr ''q4'')]) = Inr (JObj [(''model'', jstr ''q4'')])"
    by (simp add: payload_eval)
  from persisted_payloads_are_clean [OF ok] ok show ?thesis by blast
qed

lemmas enqueue_eval = lift_run bind_run begin_unit_def unit_of_work_def create_op_def clock_run
  andthen_run ret_run insert_op_def get_op_run write_db_def append_event_def require_known_run EVENT_LEVELS_def
  sanitized_opt_def sanitized_run insert_event_def read_db_def queued_row_def sanitize_request_def
  known_request_version_def add_steps_def list_steps_def add_one_step_def insert_step_def
  op_lookup_def Let_def pending_row_def

abbreviation idle_sys :: "unit sys" where
  "idle_sys \<equiv> sample_sys (in_state SUCCEEDED) [] []"

section \<open>A whole run\<close>


end
