(* ===== verification/Payload_Size.thy ===== *)
theory Payload_Size
  imports Completion "HOL-Library.Multiset"
begin

text \<open>
  A bound on the encoding of a value of ASCII texts, from its texts alone: such values pass
  the byte budget of the payload checks without computing the encoding.
\<close>

definition ascii :: "pystr \<Rightarrow> bool" where
  "ascii s \<longleftrightarrow> list_all (\<lambda>c. c < 128) s"

fun ascii_value :: "json \<Rightarrow> bool" where
  "ascii_value (JStr s) \<longleftrightarrow> ascii s"
| "ascii_value (JList xs) \<longleftrightarrow> list_all ascii_value xs"
| "ascii_value (JObj kvs) \<longleftrightarrow> list_all (\<lambda>(k, v). ascii (cps k) \<and> ascii_value v) kvs"
| "ascii_value (JFloat t) \<longleftrightarrow> False"
| "ascii_value (JOther t) \<longleftrightarrow> False"
| "ascii_value v \<longleftrightarrow> True"

fun size_bound :: "json \<Rightarrow> nat" where
  "size_bound (JStr s) = 2 + 6 * length s"
| "size_bound (JInt n) = length (dumps_int n)"
| "size_bound (JList xs) = 2 + sum_list (map (\<lambda>x. size_bound x + 1) xs)"
| "size_bound (JObj kvs) = 2 + sum_list (map (\<lambda>(k, v). 4 + 6 * length k + size_bound v) kvs)"
| "size_bound v = 5"

lemma ascii_simps [simp]:
  "ascii []" "ascii (c # s) \<longleftrightarrow> c < 128 \<and> ascii s" "ascii (s @ t) \<longleftrightarrow> ascii s \<and> ascii t"
  by (simp_all add: ascii_def)

lemma ascii_digits: "ascii (digits n)"
proof (induction n rule: digits.induct)
  case (1 n)
  then show ?case by (subst digits.simps) auto
qed

lemma ascii_escape: "c < 128 \<Longrightarrow> ascii (escape_cp c) \<and> length (escape_cp c) \<le> 6"
  by (auto simp: escape_cp_def hex_digit_def cps_def)

lemma ascii_text: "ascii s \<Longrightarrow> ascii (dumps_text s) \<and> length (dumps_text s) \<le> 2 + 6 * length s"
proof -
  assume "ascii s"
  then have "ascii (concat (map escape_cp s)) \<and> length (concat (map escape_cp s)) \<le> 6 * length s"
  proof (induction s)
    case (Cons c s)
    with ascii_escape [of c] show ?case by simp
  qed simp
  then show ?thesis by (simp add: dumps_text_def)
qed

lemma ascii_joined: "sep < 128 \<Longrightarrow> list_all ascii ts \<Longrightarrow>
    ascii (joined sep ts) \<and> length (joined sep ts) \<le> sum_list (map (\<lambda>t. length t + 1) ts)"
  by (induction sep ts rule: joined.induct) auto

lemma sum_list_sort_key: "(sum_list (map g (sort_key f xs)) :: nat) = sum_list (map g xs)"
proof -
  have "sum_mset (image_mset g (mset (sort_key f xs))) = sum_mset (image_mset g (mset xs))" by simp
  then have "sum_mset (mset (map g (sort_key f xs))) = sum_mset (mset (map g xs))"
    unfolding mset_map .
  then show ?thesis unfolding sum_mset_sum_list .
qed

lemma ascii_dumps:
  "ascii_value v \<Longrightarrow> ascii (canonical_dumps v) \<and> length (canonical_dumps v) \<le> size_bound v"
proof (induction v)
  case (JInt n)
  then show ?case by (simp add: dumps_int_def ascii_digits)
next
  case (JStr s)
  then show ?case using ascii_text [of s] by simp
next
  case (JList xs)
  have "list_all ascii (map canonical_dumps xs)"
    using JList by (auto simp: list_all_iff)
  moreover have "sum_list (map (\<lambda>t. length t + 1) (map canonical_dumps xs)) \<le> sum_list (map (\<lambda>x. size_bound x + 1) xs)"
    using JList by (auto simp: list_all_iff comp_def intro!: sum_list_mono)
  ultimately show ?case using ascii_joined [of 44 "map canonical_dumps xs"] by simp
next
  case (JObj kvs)
  let ?enc = "\<lambda>(k, v). (k, dumps_text (cps k) @ 58 # canonical_dumps v)"
  let ?parts = "map snd (sort_key fst (map ?enc kvs))"
  have each: "ascii (dumps_text (cps k) @ 58 # canonical_dumps v) \<and>
      length (dumps_text (cps k) @ 58 # canonical_dumps v) + 1 \<le> 4 + 6 * length k + size_bound v"
    if "(k, v) \<in> set kvs" for k v
    using JObj that ascii_text [of "cps k"] by (fastforce simp: list_all_iff cps_def)
  then have "list_all ascii ?parts" by (auto simp: list_all_iff)
  moreover have "sum_list (map (\<lambda>t. length t + 1) ?parts) = sum_list (map (\<lambda>p. length (snd (?enc p)) + 1) kvs)"
    using sum_list_sort_key [of "\<lambda>p. length (snd p) + 1" fst "map ?enc kvs"] by (simp add: comp_def)
  moreover have "\<dots> \<le> sum_list (map (\<lambda>(k, v). 4 + 6 * length k + size_bound v) kvs)"
    using each by (fastforce intro!: sum_list_mono)
  ultimately show ?case using ascii_joined [of 44 ?parts] by simp
qed (simp_all add: cps_def)

lemma ascii_fits_budget: "ascii t \<Longrightarrow> length t \<le> n \<Longrightarrow> budget_check n t = Inr t"
proof -
  assume t: "ascii t" "length t \<le> n"
  then have "\<not> list_ex surrogate t" "utf8_size t = length t"
    by (induction t) (auto simp: surrogate_def utf8_size_def utf8_width_def)
  with t show ?thesis by (simp add: budget_check_def)
qed

lemma fits_ascii:
  assumes "clean_at 0 v" and "ascii_value v" and "size_bound v \<le> n"
  shows "sanitize_payload n v = Inr v" and "fits n v"
  using ascii_dumps [OF assms(2)] assms(3) sanitize_stable(1) [OF assms(1)]
  by (simp_all add: sanitize_payload_def ascii_fits_budget fits_def)

end
