(* ===== verification/Requests.thy ===== *)
theory Requests
  imports Workflow
begin

text \<open>
  What the concrete workflows share: the checks with which a decoder accepts a request from
  the dictionary it was stored as, the field access of dataclass instances and dictionaries,
  and the defaults of a step and a workflow declaration.
\<close>

named_theorems decode_simps "how the checks of a decoder run"

section \<open>Dictionaries\<close>

text \<open>An exception of Python's own, without the attributes the engine reads.\<close>

definition python_error :: "string \<Rightarrow> exn" where
  "python_error cls = StepFailed cls None False False"

definition step_failure :: "string \<Rightarrow> exn" where
  "step_failure code = StepFailed ''StepFailure'' (Some code) False False"

type_synonym fields = "(string \<times> json) list"

definition get_or :: "fields \<Rightarrow> string \<Rightarrow> json \<Rightarrow> json" where
  "get_or kvs k d = (case map_of kvs k of None \<Rightarrow> d | Some v \<Rightarrow> v)"

definition get_field :: "fields \<Rightarrow> string \<Rightarrow> json" where
  "get_field kvs k = get_or kvs k JNull"

text \<open>
  \<open>attr v k\<close> reads a field of a decoded dataclass or a key of a dictionary;
  what is no object has no fields.
\<close>

fun object_fields :: "json \<Rightarrow> fields" where
  "object_fields (JObj kvs) = kvs"
| "object_fields v = []"

definition attr :: "json \<Rightarrow> string \<Rightarrow> json" where
  "attr v k = get_field (object_fields v) k"

text \<open>The items of a list value; what is no list has none.\<close>

fun list_of :: "json \<Rightarrow> json list" where
  "list_of (JList xs) = xs"
| "list_of v = []"

definition output_of :: "(ident \<rightharpoonup> json) \<Rightarrow> ident \<Rightarrow> json" where
  "output_of prior k = (case prior k of None \<Rightarrow> JNull | Some v \<Rightarrow> v)"

definition is_object :: "json \<Rightarrow> bool" where
  "is_object v \<longleftrightarrow> (case v of JObj kvs \<Rightarrow> True | _ \<Rightarrow> False)"

section \<open>Texts\<close>

text \<open>The code points \<^verbatim>\<open>str.strip\<close> removes.\<close>

definition py_space :: "nat \<Rightarrow> bool" where
  "py_space c \<longleftrightarrow> 9 \<le> c \<and> c \<le> 13 \<or> 28 \<le> c \<and> c \<le> 32 \<or> c = 133 \<or> c = 160 \<or> c = 5760 \<or>
     8192 \<le> c \<and> c \<le> 8202 \<or> c = 8232 \<or> c = 8233 \<or> c = 8239 \<or> c = 8287 \<or> c = 12288"

definition blank :: "pystr \<Rightarrow> bool" where
  "blank s = list_all py_space s"

definition py_strip :: "pystr \<Rightarrow> pystr" where
  "py_strip s = rev (dropWhile py_space (rev (dropWhile py_space s)))"

text \<open>
  \<open>py_str\<close> is \<^verbatim>\<open>str(value)\<close>. The text Python gives a list or a dictionary
  is a parameter, because it depends on the Unicode tables.
\<close>

fun py_str :: "(json \<Rightarrow> pystr) \<Rightarrow> json \<Rightarrow> pystr" where
  "py_str shown JNull = cps ''None''"
| "py_str shown (JBool b) = cps (if b then ''True'' else ''False'')"
| "py_str shown (JInt n) = dumps_int n"
| "py_str shown (JFloat t) = cps t"
| "py_str shown (JStr s) = s"
| "py_str shown v = shown v"

text \<open>
  \<open>py_int\<close> is \<^verbatim>\<open>int(value)\<close>; what it makes of a text or a float is a
  parameter. A list, an object or \<^verbatim>\<open>None\<close> raises.
\<close>

fun py_int :: "(json \<Rightarrow> exn + int) \<Rightarrow> json \<Rightarrow> exn + int" where
  "py_int reading (JInt n) = Inr n"
| "py_int reading (JBool b) = Inr (if b then 1 else 0)"
| "py_int reading (JStr s) = reading (JStr s)"
| "py_int reading (JFloat t) = reading (JFloat t)"
| "py_int reading v = Inl (python_error ''TypeError'')"

text \<open>A stable code is an ASCII text; a host that reports anything else breaks its contract.\<close>

fun stable_code :: "json \<Rightarrow> exn + string" where
  "stable_code (JStr s) =
    (if list_all (\<lambda>c. c < 128) s then Inr (map char_of s) else Inl (python_error ''TypeError''))"
| "stable_code v = Inl (python_error ''TypeError'')"

text \<open>A text that is one of some ASCII names.\<close>

definition one_of :: "string list \<Rightarrow> json \<Rightarrow> bool" where
  "one_of names v \<longleftrightarrow> v \<in> set (map jstr names)"

fun text_within :: "nat \<Rightarrow> json \<Rightarrow> bool" where
  "text_within n (JStr s) = (length s \<le> n)"
| "text_within n v = False"

fun short_text :: "nat \<Rightarrow> json \<Rightarrow> bool" where
  "short_text n (JStr s) = (\<not> blank s \<and> length s \<le> n)"
| "short_text n v = False"

fun int_from :: "int \<Rightarrow> json \<Rightarrow> bool" where
  "int_from lo (JInt n) = (lo \<le> n)"
| "int_from lo v = False"

fun int_within :: "int \<Rightarrow> int \<Rightarrow> json \<Rightarrow> bool" where
  "int_within lo hi (JInt n) = (lo \<le> n \<and> n \<le> hi)"
| "int_within lo hi v = False"

definition absent_or :: "(json \<Rightarrow> bool) \<Rightarrow> json \<Rightarrow> bool" where
  "absent_or P v \<longleftrightarrow> v = JNull \<or> P v"

definition alphanumeric :: "nat \<Rightarrow> bool" where
  "alphanumeric c \<longleftrightarrow> 48 \<le> c \<and> c \<le> 57 \<or> 65 \<le> c \<and> c \<le> 90 \<or> 97 \<le> c \<and> c \<le> 122"

definition hex_char :: "nat \<Rightarrow> bool" where
  "hex_char c \<longleftrightarrow> 48 \<le> c \<and> c \<le> 57 \<or> 97 \<le> c \<and> c \<le> 102"

fun sha256_digest :: "json \<Rightarrow> bool" where
  "sha256_digest (JStr s) = (length s = 64 \<and> list_all hex_char s)"
| "sha256_digest v = False"

text \<open>
  \<^verbatim>\<open>str.upper\<close> as far as a comparison with ASCII names can tell: the code points
  whose upper case is ASCII. Every other non-ASCII code point keeps a non-ASCII image.
\<close>

definition upper_cp :: "nat \<Rightarrow> pystr" where
  "upper_cp c =
    (if 97 \<le> c \<and> c \<le> 122 then [c - 32]
     else if c = 305 then cps ''I'' else if c = 383 then cps ''S'' else if c = 223 then cps ''SS''
     else if c = 64256 then cps ''FF'' else if c = 64257 then cps ''FI'' else if c = 64258 then cps ''FL''
     else if c = 64259 then cps ''FFI'' else if c = 64260 then cps ''FFL''
     else if c = 64261 \<or> c = 64262 then cps ''ST''
     else [c])"

definition py_upper :: "pystr \<Rightarrow> pystr" where
  "py_upper s = concat (map upper_cp s)"

text \<open>\<^verbatim>\<open>str(value or "").upper()\<close>.\<close>

definition upper_name :: "(json \<Rightarrow> pystr) \<Rightarrow> json \<Rightarrow> json" where
  "upper_name shown v = JStr (if falsy v then [] else py_upper (py_str shown v))"

definition text_or_empty :: "(json \<Rightarrow> pystr) \<Rightarrow> json \<Rightarrow> json" where
  "text_or_empty shown v = JStr (if falsy v then [] else py_str shown v)"

text \<open>\<^verbatim>\<open>" ".join(value.split())\<close>: the words of a text with one space between them.\<close>

fun words_from :: "pystr \<Rightarrow> pystr \<Rightarrow> pystr list" where
  "words_from w [] = (if w = [] then [] else [rev w])"
| "words_from w (c # s) =
    (if py_space c then (if w = [] then words_from [] s else rev w # words_from [] s)
     else words_from (c # w) s)"

definition spaced_words :: "pystr \<Rightarrow> pystr" where
  "spaced_words s = joined 32 (words_from [] s)"

section \<open>Decoders\<close>

text \<open>
  A decoder is a sequence of checks, each raising the same class of exception, and an object.
  A payload that is no dictionary raises in the first use of it as one.
\<close>

definition requires :: "bool \<Rightarrow> string \<Rightarrow> exn + 'a \<Rightarrow> exn + 'a" where
  "requires b message r = (if b then r else Inl (OperationValidationError message))"

definition closed :: "string list \<Rightarrow> fields \<Rightarrow> exn + 'a \<Rightarrow> exn + 'a" where
  "closed names kvs r = requires (set (map fst kvs) \<subseteq> set names) ''unknown request fields'' r"

definition sum_bind :: "exn + 'a \<Rightarrow> ('a \<Rightarrow> exn + 'b) \<Rightarrow> exn + 'b" where
  "sum_bind r f = (case r of Inl e \<Rightarrow> Inl e | Inr x \<Rightarrow> f x)"

definition on_object :: "json \<Rightarrow> (fields \<Rightarrow> exn + 'a) \<Rightarrow> exn + 'a" where
  "on_object v f = (case v of JObj kvs \<Rightarrow> f kvs | _ \<Rightarrow> Inl (python_error ''AttributeError''))"

lemma requires_Inr [decode_simps]: "requires b m r = Inr x \<longleftrightarrow> b \<and> r = Inr x"
  by (simp add: requires_def)

lemma closed_Inr [decode_simps]: "closed names kvs r = Inr x \<longleftrightarrow> fst ` set kvs \<subseteq> set names \<and> r = Inr x"
  by (simp add: closed_def requires_def)

lemma on_object_Inr [decode_simps]: "on_object v f = Inr x \<longleftrightarrow> (\<exists>kvs. v = JObj kvs \<and> f kvs = Inr x)"
  by (cases v) (auto simp: on_object_def)

lemma sum_bind_Inr [decode_simps]: "sum_bind r f = Inr y \<longleftrightarrow> (\<exists>x. r = Inr x \<and> f x = Inr y)"
  by (cases r) (auto simp: sum_bind_def)

lemma get_or_simps [decode_simps]:
  "get_or ((k, v) # kvs) k' d = (if k' = k then v else get_or kvs k' d)"
  "get_or [] k' d = d"
  by (auto simp: get_or_def)

lemma get_field_simps [decode_simps]:
  "get_field ((k, v) # kvs) k' = (if k' = k then v else get_field kvs k')"
  "get_field [] k' = JNull"
  by (auto simp: get_field_def decode_simps)

section \<open>Dataclasses\<close>

text \<open>
  \<^verbatim>\<open>cls(**output)\<close>: every key is a field, every field without a default is given,
  and the others take their defaults.
\<close>

definition typed_object :: "string list \<Rightarrow> fields \<Rightarrow> json \<Rightarrow> exn + json" where
  "typed_object required defaults v = (case v of
     JObj kvs \<Rightarrow>
       (if set (map fst kvs) \<subseteq> set required \<union> set (map fst defaults) \<and> set required \<subseteq> set (map fst kvs)
        then Inr (JObj (map (\<lambda>k. (k, get_field kvs k)) required @
                        map (\<lambda>(k, d). (k, get_or kvs k d)) defaults))
        else Inl (python_error ''TypeError''))
   | _ \<Rightarrow> Inl (python_error ''TypeError''))"

section \<open>Persisting a decoded request\<close>

text \<open>
  The texts, numbers and flags of a flat object come back from the sanitizer as they were,
  up to the truncation of long texts.
\<close>

fun flat :: "json \<Rightarrow> bool" where
  "flat (JStr s) = True"
| "flat (JInt n) = True"
| "flat (JBool b) = True"
| "flat JNull = True"
| "flat v = False"

fun stored_value :: "json \<Rightarrow> json" where
  "stored_value (JStr s) = JStr (truncated s)"
| "stored_value v = v"

lemma sanitize_flat: "flat v \<Longrightarrow> d \<le> MAX_DEPTH \<Longrightarrow> sanitize_tree d v = Inr (stored_value v)"
  by (cases v) (simp_all add: sanitize_tree.simps)

lemma alist_update_fresh: "k \<notin> fst ` set acc \<Longrightarrow> AList.update k v acc = acc @ [(k, v)]"
  by (induction acc) auto

lemma sanitize_flat_items:
  assumes "sanitize_items d kvs acc = Inr r" and "list_all (\<lambda>(k, v). flat v) kvs"
    and "distinct (map fst (acc @ kvs))" and "Suc d \<le> MAX_DEPTH"
  shows "r = acc @ map (\<lambda>(k, v). (k, stored_value v)) kvs"
  using assms
proof (induction kvs arbitrary: acc)
  case (Cons kv kvs)
  obtain k v where kv: "kv = (k, v)" by (cases kv)
  have v: "sanitize_tree (Suc d) v = Inr (stored_value v)"
    using Cons.prems(2,4) by (simp add: kv sanitize_flat)
  have fresh: "AList.update k (stored_value v) acc = acc @ [(k, stored_value v)]"
    using Cons.prems(3) by (intro alist_update_fresh) (auto simp: kv)
  from Cons.prems(1) have "sanitize_items d kvs (acc @ [(k, stored_value v)]) = Inr r"
    by (simp add: kv v fresh split: if_splits)
  from Cons.IH [OF this] Cons.prems(2-4) show ?case by (simp add: kv)
qed simp

lemma sanitize_flat_object:
  assumes "sanitize_payload m (JObj kvs) = Inr w" and "list_all (\<lambda>(k, v). flat v) kvs"
    and "distinct (map fst kvs)"
  shows "w = JObj (map (\<lambda>(k, v). (k, stored_value v)) kvs)"
  using assms sanitize_flat_items [of 0 kvs "[]"]
  by (auto simp: sanitize_payload_def sanitize_tree.simps MAX_DEPTH_def split: sum.splits if_splits)

lemma stored_value_within: "text_within n v \<Longrightarrow> n \<le> MAX_STRING_CHARS \<Longrightarrow> stored_value v = v"
  by (cases v) (simp_all add: truncated_id)

lemma stored_value_short: "short_text n v \<Longrightarrow> n \<le> MAX_STRING_CHARS \<Longrightarrow> stored_value v = v"
  by (cases v) (simp_all add: truncated_id)

lemma stored_value_int: "int_within lo hi v \<Longrightarrow> stored_value v = v" "int_from lo v \<Longrightarrow> stored_value v = v"
  by (cases v; simp)+

lemma stored_value_absent_or:
  "absent_or P v \<Longrightarrow> (P v \<Longrightarrow> stored_value v = v) \<Longrightarrow> stored_value v = v"
  by (auto simp: absent_or_def)

lemma flat_checked:
  "text_within n v \<Longrightarrow> flat v" "short_text n v \<Longrightarrow> flat v" "int_from lo v \<Longrightarrow> flat v"
  "int_within lo hi v \<Longrightarrow> flat v" "absent_or P v \<Longrightarrow> (P v \<Longrightarrow> flat v) \<Longrightarrow> flat v"
  "one_of names v \<Longrightarrow> flat v"
  by (cases v; auto simp: absent_or_def one_of_def jstr_def)+

section \<open>Declaring steps and workflows\<close>

text \<open>The defaults of \<^verbatim>\<open>StepDefinition\<close> and \<^verbatim>\<open>WorkflowDefinition\<close>.\<close>

definition declared_step :: "ident \<Rightarrow> string \<Rightarrow> int \<Rightarrow> (json \<Rightarrow> (ident \<rightharpoonup> json) \<Rightarrow> exn + json) \<Rightarrow>
    ('w effect_ctx \<Rightarrow> ('w, probe_result) prog) \<Rightarrow> ('w effect_ctx \<Rightarrow> ('w, json) prog) \<Rightarrow>
    ('w effect_ctx \<Rightarrow> ('w, json) prog) \<Rightarrow> ident list \<Rightarrow> 'w step_def" where
  "declared_step key phase position derive probe execute verify resources =
     \<lparr>sd_key = key, sd_phase = phase, sd_sequence = position, sd_derive_input = derive,
      sd_probe = probe, sd_execute = execute, sd_verify = verify, sd_implementation_version = 1,
      sd_resources = resources, sd_externally_visible = False, sd_critical = False,
      sd_effect_disposition = ''REVERSIBLE'', sd_compensate = None,
      sd_verify_restoration = None, sd_probe_restoration = None, sd_safe_if_uncertain = False\<rparr>"

definition declared_workflow :: "op_type \<Rightarrow> (json \<Rightarrow> exn + json) \<Rightarrow> 'w step_def list \<Rightarrow>
    (json \<Rightarrow> (ident \<rightharpoonup> json) \<Rightarrow> exn + terminal_decision) \<Rightarrow> 'w workflow_def" where
  "declared_workflow t decode steps decision =
     \<lparr>wf_type = t, wf_request_version = 1, wf_recovery_policy_version = 1,
      wf_decode_request = decode, wf_steps = steps, wf_terminal_decision = decision,
      wf_preflight = (\<lambda>_. ret ()), wf_cancel_finalizer = None,
      wf_phase_scoped_resources = False, wf_recovery_barrier_resources = []\<rparr>"

definition probed :: "recovery_class \<Rightarrow> string \<Rightarrow> json option \<Rightarrow> probe_result" where
  "probed c reason output = \<lparr>pr_classification = c, pr_reason_code = reason, pr_output = output\<rparr>"

text \<open>A postcondition that must be proven \<^verbatim>\<open>COMPLETE\<close>; \<open>e\<close> is what the workflow raises otherwise.\<close>

definition require_complete :: "exn \<Rightarrow> json \<Rightarrow> probe_result \<Rightarrow> ('w, json) prog" where
  "require_complete e v result =
    (if pr_classification result = COMPLETE then ret v else throw e)"

definition postcondition :: "string \<Rightarrow> ('w, probe_result) prog \<Rightarrow> ('w, json) prog" where
  "postcondition code observe = bind observe (require_complete (step_failure code) (JObj []))"

type_synonym 'w pulse_fn = "pulse_args \<Rightarrow> ('w, unit) prog"

end
