(* ===== verification/Activation.thy ===== *)
theory Activation
  imports Requests
begin

text \<open>
  The activation workflow (\<^verbatim>\<open>operations/activation.py\<close>): the closed request, the
  evidence objects, the host port and the eight steps that switch the running model. The
  host is a parameter: a record of programs, one per method of the port. A candidate and a
  prior snapshot come back from storage without a check of their field types, so both are
  the JSON object of their fields.
\<close>

section \<open>The request\<close>

definition ACTIVATION_RESOURCE :: ident where
  "ACTIVATION_RESOURCE = ''runtime-active''"

definition activation_fields :: "string list" where
  "activation_fields = [''model_alias'', ''context_per_slot'', ''parallel_slots'', ''profile_id'',
     ''expected_runtime_revision'', ''requested_by'']"

definition REQUESTED_BY_VALUES :: "string list" where
  "REQUESTED_BY_VALUES = [''cli'', ''chat'', ''gui'', ''setup'', ''repair'']"

definition decode_activation_request :: "json \<Rightarrow> exn + json" where
  "decode_activation_request payload = on_object payload (\<lambda>kvs.
     let alias = get_field kvs ''model_alias''; context = get_field kvs ''context_per_slot'';
         slots = get_field kvs ''parallel_slots''; profile_id = get_field kvs ''profile_id'';
         revision = get_field kvs ''expected_runtime_revision'';
         requested_by = get_or kvs ''requested_by'' (jstr ''cli'') in
     closed activation_fields kvs
     (requires (short_text 256 alias) ''model_alias must be a short string''
     (requires (absent_or (int_within 512 262144) context) ''context_per_slot out of range''
     (requires (absent_or (int_within 1 8) slots) ''parallel_slots out of range''
     (requires (absent_or (text_within 256) profile_id) ''profile_id must be a short string''
     (requires (absent_or (int_from 1) revision) ''expected_runtime_revision must be a positive integer''
     (requires (one_of REQUESTED_BY_VALUES requested_by) ''requested_by must be one of the known surfaces''
       (Inr (JObj [(''model_alias'', alias), (''context_per_slot'', context), (''parallel_slots'', slots),
          (''profile_id'', profile_id), (''expected_runtime_revision'', revision),
          (''requested_by'', requested_by)])))))))))"

section \<open>Evidence\<close>

definition candidate_required :: "string list" where
  "candidate_required = [''model_alias'', ''canonical_path'', ''quant'', ''display_alias'',
     ''validation_status'', ''provenance_class'', ''byte_size'', ''file_identity'',
     ''content_digest'', ''layout_verdict'', ''context_per_slot'', ''parallel_slots'']"

definition candidate_defaults :: fields where
  "candidate_defaults = [(''settings'', JObj []), (''fit_verdict'', jstr ''''), (''fit_detail'', jstr ''''),
     (''runtime_fingerprint'', jstr ''''), (''component_identity'', jstr ''''),
     (''profile_id'', JNull), (''profile_revision'', JNull), (''profile_fingerprint'', JNull)]"

definition prior_required :: "string list" where
  "prior_required = [''service_state'', ''revision'']"

definition prior_defaults :: fields where
  "prior_defaults = [(''config'', JObj []), (''handoff_fingerprint'', JNull), (''handoff_payload'', JNull),
     (''known_good'', JNull), (''component_identity'', JNull), (''observed_model_alias'', JNull),
     (''observed_context_total'', JNull), (''observed_slots'', JNull), (''inference_verified'', JBool False)]"

definition candidate_from_output :: "json \<Rightarrow> exn + json" where
  "candidate_from_output output = typed_object candidate_required candidate_defaults (or_empty output)"

definition prior_from_output :: "json \<Rightarrow> exn + json" where
  "prior_from_output output = typed_object prior_required prior_defaults (or_empty output)"

record config_evidence =
  ce_revision :: int
  ce_model_alias :: pystr
  ce_context_per_slot :: int
  ce_parallel_slots :: int
  ce_profile_id :: json
  ce_profile_revision :: json
  ce_profile_fingerprint :: json

definition config_json :: "config_evidence \<Rightarrow> json" where
  "config_json e = JObj [(''revision'', JInt (ce_revision e)), (''model_alias'', JStr (ce_model_alias e)),
     (''context_per_slot'', JInt (ce_context_per_slot e)), (''parallel_slots'', JInt (ce_parallel_slots e)),
     (''profile_id'', ce_profile_id e), (''profile_revision'', ce_profile_revision e),
     (''profile_fingerprint'', ce_profile_fingerprint e)]"

record handoff_evidence =
  he_fingerprint :: pystr
  he_config_revision :: int
  he_model_id :: pystr
  he_schema_version :: int

definition handoff_json :: "handoff_evidence \<Rightarrow> json" where
  "handoff_json e = JObj [(''fingerprint'', JStr (he_fingerprint e)),
     (''config_revision'', JInt (he_config_revision e)), (''model_id'', JStr (he_model_id e)),
     (''schema_version'', JInt (he_schema_version e))]"

record restart_evidence =
  re_restarted_now :: bool
  re_was_already_active :: bool

definition restart_json :: "restart_evidence \<Rightarrow> json" where
  "restart_json e = JObj [(''restarted_now'', JBool (re_restarted_now e)),
     (''was_already_active'', JBool (re_was_already_active e))]"

record health_evidence =
  hl_healthy :: bool
  hl_model_alias :: pystr
  hl_context_total :: int
  hl_slots :: int

definition health_json :: "health_evidence \<Rightarrow> json" where
  "health_json e = JObj [(''healthy'', JBool (hl_healthy e)), (''model_alias'', JStr (hl_model_alias e)),
     (''context_total'', JInt (hl_context_total e)), (''slots'', JInt (hl_slots e))]"

record inference_evidence =
  ie_success :: bool
  ie_generated_count :: int
  ie_elapsed_bucket :: pystr

definition inference_json :: "inference_evidence \<Rightarrow> json" where
  "inference_json e = JObj [(''success'', JBool (ie_success e)),
     (''generated_count'', JInt (ie_generated_count e)), (''elapsed_bucket'', JStr (ie_elapsed_bucket e))]"

record known_good_evidence =
  ke_model_alias :: pystr
  ke_context :: int
  ke_slots :: int
  ke_fingerprint :: json
  ke_component_identity :: json
  ke_profile_id :: json
  ke_profile_revision :: json
  ke_profile_fingerprint :: json

definition known_good_json :: "known_good_evidence \<Rightarrow> json" where
  "known_good_json e = JObj [(''model_alias'', JStr (ke_model_alias e)), (''context'', JInt (ke_context e)),
     (''slots'', JInt (ke_slots e)), (''fingerprint'', ke_fingerprint e),
     (''component_identity'', ke_component_identity e), (''profile_id'', ke_profile_id e),
     (''profile_revision'', ke_profile_revision e), (''profile_fingerprint'', ke_profile_fingerprint e)]"

record restoration_evidence =
  rs_restored :: bool
  rs_stage_codes :: "pystr list"
  rs_service_state :: pystr

definition restoration_json :: "restoration_evidence \<Rightarrow> json" where
  "restoration_json e = JObj [(''restored'', JBool (rs_restored e)),
     (''stage_codes'', JList (map JStr (rs_stage_codes e))), (''service_state'', JStr (rs_service_state e))]"

section \<open>The host port\<close>

record 'w activation_host =
  ah_resolve_candidate :: "json \<Rightarrow> 'w pulse_fn \<Rightarrow> ('w, json) prog"
  ah_observe_candidate :: "json \<Rightarrow> json \<Rightarrow> 'w pulse_fn \<Rightarrow> ('w, probe_result) prog"
  ah_capture_prior :: "json \<Rightarrow> ('w, json) prog"
  ah_commit_candidate :: "json \<Rightarrow> json \<Rightarrow> ident \<Rightarrow> ('w, config_evidence) prog"
  ah_observe_config :: "json \<Rightarrow> json \<Rightarrow> json \<Rightarrow> ('w, probe_result) prog"
  ah_publish_candidate :: "json \<Rightarrow> ident \<Rightarrow> ('w, handoff_evidence) prog"
  ah_observe_handoff :: "json \<Rightarrow> json \<Rightarrow> ('w, probe_result) prog"
  ah_restart_candidate :: "json \<Rightarrow> json \<Rightarrow> ident \<Rightarrow> 'w pulse_fn \<Rightarrow> ('w, restart_evidence) prog"
  ah_observe_restart :: "json \<Rightarrow> json \<Rightarrow> 'w pulse_fn \<Rightarrow> ('w, probe_result) prog"
  ah_check_health :: "json \<Rightarrow> 'w pulse_fn \<Rightarrow> ('w, health_evidence) prog"
  ah_check_inference :: "json \<Rightarrow> ('w, inference_evidence) prog"
  ah_promote_known_good :: "json \<Rightarrow> ident \<Rightarrow> ('w, known_good_evidence) prog"
  ah_observe_known_good :: "json \<Rightarrow> json \<Rightarrow> ('w, probe_result) prog"
  ah_restore_prior :: "json \<Rightarrow> json \<Rightarrow> ident \<Rightarrow> 'w pulse_fn \<Rightarrow> ('w, restoration_evidence) prog"
  ah_observe_restoration :: "json \<Rightarrow> json \<Rightarrow> 'w pulse_fn \<Rightarrow> ('w, probe_result) prog"

section \<open>Step callables\<close>

definition candidate_of :: "'w effect_ctx \<Rightarrow> ('w, json) prog" where
  "candidate_of ctx = lift (candidate_from_output (or_empty (output_of (x_prior_outputs ctx) ''resolve_candidate'')))"

definition prior_of :: "'w effect_ctx \<Rightarrow> ('w, json) prog" where
  "prior_of ctx = lift (prior_from_output (or_empty (output_of (x_prior_outputs ctx) ''capture_prior'')))"

definition resolve_execute :: "'w activation_host \<Rightarrow> 'w effect_ctx \<Rightarrow> ('w, json) prog" where
  "resolve_execute h ctx = ah_resolve_candidate h (x_request ctx) (x_pulse ctx)"

definition resolve_probe :: "'w activation_host \<Rightarrow> 'w effect_ctx \<Rightarrow> ('w, probe_result) prog" where
  "resolve_probe h ctx =
    (let output = output_of (x_prior_outputs ctx) ''resolve_candidate'' in
     if falsy output then ret (probed ABSENT ''NO_CANDIDATE_EVIDENCE'' None)
     else bind (lift (candidate_from_output output)) (\<lambda>c.
       ah_observe_candidate h (x_request ctx) c (x_pulse ctx)))"

definition resolve_verify :: "'w activation_host \<Rightarrow> 'w effect_ctx \<Rightarrow> ('w, json) prog" where
  "resolve_verify h ctx = bind (candidate_of ctx) (\<lambda>c.
     postcondition ''ARTIFACT_IDENTITY_CHANGED'' (ah_observe_candidate h (x_request ctx) c (x_pulse ctx)))"

definition capture_execute :: "'w activation_host \<Rightarrow> 'w effect_ctx \<Rightarrow> ('w, json) prog" where
  "capture_execute h ctx = ah_capture_prior h (x_request ctx)"

definition capture_verify :: "'w effect_ctx \<Rightarrow> ('w, json) prog" where
  "capture_verify ctx = bind (prior_of ctx) (\<lambda>p.
     if \<not> one_of [''ACTIVE_VERIFIED'', ''STOPPED''] (attr p ''service_state'')
     then throw (step_failure ''RESTORATION_UNCERTAIN'')
     else if attr p ''service_state'' = jstr ''ACTIVE_VERIFIED'' \<and> falsy (attr p ''inference_verified'')
     then throw (step_failure ''PRIOR_ACTIVE_VERIFIED'')
     else ret (JObj []))"

definition compensate_via_restoration :: "'w activation_host \<Rightarrow> 'w effect_ctx \<Rightarrow> ('w, json) prog" where
  "compensate_via_restoration h ctx = bind (prior_of ctx) (\<lambda>p. bind (candidate_of ctx) (\<lambda>c.
     bind (ah_restore_prior h p c (x_external_effect_id ctx) (x_pulse ctx)) (\<lambda>e.
     ret (restoration_json e))))"

definition probe_restored :: "'w activation_host \<Rightarrow> 'w effect_ctx \<Rightarrow> ('w, probe_result) prog" where
  "probe_restored h ctx = bind (prior_of ctx) (\<lambda>p. bind (candidate_of ctx) (\<lambda>c.
     ah_observe_restoration h p c (x_pulse ctx)))"

definition verify_restored :: "'w activation_host \<Rightarrow> 'w effect_ctx \<Rightarrow> ('w, json) prog" where
  "verify_restored h ctx = postcondition ''RESTORATION_UNCERTAIN'' (probe_restored h ctx)"

definition commit_execute :: "'w activation_host \<Rightarrow> 'w effect_ctx \<Rightarrow> ('w, json) prog" where
  "commit_execute h ctx = bind (candidate_of ctx) (\<lambda>c.
     bind (ah_commit_candidate h (x_request ctx) c (x_external_effect_id ctx)) (\<lambda>e. ret (config_json e)))"

definition commit_probe :: "'w activation_host \<Rightarrow> 'w effect_ctx \<Rightarrow> ('w, probe_result) prog" where
  "commit_probe h ctx = bind (candidate_of ctx) (\<lambda>c. bind (prior_of ctx) (\<lambda>p.
     ah_observe_config h (x_request ctx) c p))"

definition commit_verify :: "'w activation_host \<Rightarrow> 'w effect_ctx \<Rightarrow> ('w, json) prog" where
  "commit_verify h ctx = postcondition ''RUNTIME_REVISION_CONFLICT'' (commit_probe h ctx)"

definition publish_execute :: "'w activation_host \<Rightarrow> 'w effect_ctx \<Rightarrow> ('w, json) prog" where
  "publish_execute h ctx = bind (candidate_of ctx) (\<lambda>c.
     bind (ah_publish_candidate h c (x_external_effect_id ctx)) (\<lambda>e. ret (handoff_json e)))"

definition publish_probe :: "'w activation_host \<Rightarrow> 'w effect_ctx \<Rightarrow> ('w, probe_result) prog" where
  "publish_probe h ctx = bind (candidate_of ctx) (\<lambda>c. bind (prior_of ctx) (\<lambda>p.
     bind (ah_observe_handoff h c p) (\<lambda>handoff.
     if pr_classification handoff \<noteq> COMPLETE then ret handoff
     else bind (ah_observe_restart h c p (x_pulse ctx)) (\<lambda>runtime.
       if pr_classification runtime = COMPLETE \<and> pr_reason_code runtime = ''CANDIDATE_RUNTIME_VERIFIED''
       then ret (probed COMPLETE ''CANDIDATE_HANDOFF_PUBLISHED'' (pr_output handoff))
       else if pr_classification runtime = REVERTIBLE
       then ret (probed REVERTIBLE ''PUBLISHED_RUNTIME_NOT_CANDIDATE'' None)
       else ret (probed UNCERTAIN_MANUAL (pr_reason_code runtime) None)))))"

definition publish_verify :: "'w activation_host \<Rightarrow> 'w effect_ctx \<Rightarrow> ('w, json) prog" where
  "publish_verify h ctx = postcondition ''CANDIDATE_HANDOFF_PUBLISHED''
     (bind (candidate_of ctx) (\<lambda>c. bind (prior_of ctx) (\<lambda>p. ah_observe_handoff h c p)))"

definition restart_execute :: "'w activation_host \<Rightarrow> 'w effect_ctx \<Rightarrow> ('w, json) prog" where
  "restart_execute h ctx = bind (candidate_of ctx) (\<lambda>c.
     bind (ah_observe_candidate h (x_request ctx) c (x_pulse ctx)) (\<lambda>identity.
     if pr_classification identity \<noteq> COMPLETE then throw (step_failure ''ARTIFACT_IDENTITY_CHANGED'')
     else bind (prior_of ctx) (\<lambda>p.
       bind (ah_restart_candidate h c p (x_external_effect_id ctx) (x_pulse ctx)) (\<lambda>e.
       ret (restart_json e)))))"

definition restart_probe :: "'w activation_host \<Rightarrow> 'w effect_ctx \<Rightarrow> ('w, probe_result) prog" where
  "restart_probe h ctx = bind (candidate_of ctx) (\<lambda>c. bind (prior_of ctx) (\<lambda>p.
     ah_observe_restart h c p (x_pulse ctx)))"

definition restart_verify :: "'w activation_host \<Rightarrow> 'w effect_ctx \<Rightarrow> ('w, json) prog" where
  "restart_verify h ctx = postcondition ''CANDIDATE_RUNTIME_VERIFIED'' (restart_probe h ctx)"

definition health_execute :: "'w activation_host \<Rightarrow> 'w effect_ctx \<Rightarrow> ('w, json) prog" where
  "health_execute h ctx = bind (candidate_of ctx) (\<lambda>c. bind (ah_check_health h c (x_pulse ctx)) (\<lambda>e.
     if \<not> hl_healthy e then throw (step_failure ''CANDIDATE_RUNTIME_VERIFIED'')
     else ret (health_json e)))"

definition health_probe :: "'w activation_host \<Rightarrow> 'w effect_ctx \<Rightarrow> ('w, probe_result) prog" where
  "health_probe h ctx = bind (candidate_of ctx) (\<lambda>c. bind (ah_check_health h c (x_pulse ctx)) (\<lambda>e.
     ret (if hl_healthy e then probed COMPLETE ''CANDIDATE_RUNTIME_VERIFIED'' (Some (health_json e))
          else probed REVERTIBLE ''HEALTH_MISMATCH'' None)))"

definition inference_execute :: "'w activation_host \<Rightarrow> 'w effect_ctx \<Rightarrow> ('w, json) prog" where
  "inference_execute h ctx = bind (candidate_of ctx) (\<lambda>c. bind (ah_check_inference h c) (\<lambda>e.
     if \<not> ie_success e then throw (step_failure ''CANDIDATE_INFERENCE_VERIFIED'')
     else ret (inference_json e)))"

definition inference_probe :: "'w activation_host \<Rightarrow> 'w effect_ctx \<Rightarrow> ('w, probe_result) prog" where
  "inference_probe h ctx = bind (candidate_of ctx) (\<lambda>c. bind (ah_check_inference h c) (\<lambda>e.
     ret (if ie_success e then probed COMPLETE ''CANDIDATE_INFERENCE_VERIFIED'' (Some (inference_json e))
          else probed REVERTIBLE ''INFERENCE_FAILED'' None)))"

definition promote_execute :: "'w activation_host \<Rightarrow> 'w effect_ctx \<Rightarrow> ('w, json) prog" where
  "promote_execute h ctx = bind (candidate_of ctx) (\<lambda>c.
     bind (ah_promote_known_good h c (x_external_effect_id ctx)) (\<lambda>e. ret (known_good_json e)))"

definition promote_probe :: "'w activation_host \<Rightarrow> 'w effect_ctx \<Rightarrow> ('w, probe_result) prog" where
  "promote_probe h ctx = bind (candidate_of ctx) (\<lambda>c. bind (prior_of ctx) (\<lambda>p. ah_observe_known_good h c p))"

definition promote_verify :: "'w activation_host \<Rightarrow> 'w effect_ctx \<Rightarrow> ('w, json) prog" where
  "promote_verify h ctx = postcondition ''KNOWN_GOOD_PROMOTED'' (promote_probe h ctx)"

section \<open>The eight steps\<close>

definition activation_input :: "json \<Rightarrow> (ident \<rightharpoonup> json) \<Rightarrow> exn + json" where
  "activation_input request prior = Inr (JObj [(''model_alias'', attr request ''model_alias'')])"

definition activation_step :: "ident \<Rightarrow> string \<Rightarrow> int \<Rightarrow> ('w effect_ctx \<Rightarrow> ('w, probe_result) prog) \<Rightarrow>
    ('w effect_ctx \<Rightarrow> ('w, json) prog) \<Rightarrow> ('w effect_ctx \<Rightarrow> ('w, json) prog) \<Rightarrow> 'w step_def" where
  "activation_step key phase position probe execute verify =
     declared_step key phase position activation_input probe execute verify [ACTIVATION_RESOURCE]"

definition restorable :: "'w activation_host \<Rightarrow> 'w step_def \<Rightarrow> 'w step_def" where
  "restorable h step = step\<lparr>sd_externally_visible := True, sd_critical := True,
     sd_compensate := Some (compensate_via_restoration h),
     sd_verify_restoration := Some (verify_restored h),
     sd_probe_restoration := Some (probe_restored h)\<rparr>"

definition activation_steps :: "'w activation_host \<Rightarrow> 'w step_def list" where
  "activation_steps h =
    [activation_step ''resolve_candidate'' ''prepare'' 1 (resolve_probe h) (resolve_execute h) (resolve_verify h),
     activation_step ''capture_prior'' ''prepare'' 2 (\<lambda>_. ret (probed ABSENT ''NO_SNAPSHOT_EVIDENCE'' None))
       (capture_execute h) capture_verify,
     restorable h (activation_step ''commit_candidate_config'' ''commit-config'' 3 (commit_probe h)
       (commit_execute h) (commit_verify h)),
     restorable h (activation_step ''publish_candidate_handoff'' ''publish'' 4 (publish_probe h)
       (publish_execute h) (publish_verify h)),
     restorable h (activation_step ''restart_candidate'' ''restart'' 5 (restart_probe h)
       (restart_execute h) (restart_verify h)),
     (activation_step ''verify_candidate_health'' ''verify-health'' 6 (health_probe h)
       (health_execute h) (\<lambda>_. ret (JObj [])))\<lparr>sd_critical := True\<rparr>,
     (activation_step ''verify_candidate_inference'' ''verify-inference'' 7 (inference_probe h)
       (inference_execute h) (\<lambda>_. ret (JObj [])))\<lparr>sd_critical := True\<rparr>,
     restorable h (activation_step ''promote_known_good'' ''promote'' 8 (promote_probe h)
       (promote_execute h) (promote_verify h))]"

definition build_activation_workflow :: "'w activation_host \<Rightarrow> 'w workflow_def" where
  "build_activation_workflow h = declared_workflow MODEL_ACTIVATE decode_activation_request
     (activation_steps h) default_terminal_decision"

end
