(* ===== verification/Acquisition.thy ===== *)
theory Acquisition
  imports Requests
begin

text \<open>
  The acquisition and import workflows (\<^verbatim>\<open>operations/acquisition.py\<close>): two closed
  requests, eight shared steps over one host port, and the terminal decision between an
  installed model, a reused one and a quarantined candidate. \<open>shown\<close> and \<open>reading\<close> stand
  for Python's \<^verbatim>\<open>str\<close> on containers and \<^verbatim>\<open>int\<close> on texts and floats.
\<close>

section \<open>Requests\<close>

definition ACQUISITION_RESOURCE :: ident where
  "ACQUISITION_RESOURCE = ''model-storage''"

definition decode_acquire_request :: "(json \<Rightarrow> pystr) \<Rightarrow> json \<Rightarrow> exn + json" where
  "decode_acquire_request shown payload = on_object payload (\<lambda>kvs.
     let model_id = get_field kvs ''model_id''; quantization = get_field kvs ''quantization'';
         fingerprint = get_field kvs ''catalog_entry_fingerprint'' in
     closed [''model_id'', ''quantization'', ''catalog_entry_fingerprint'', ''requested_by''] kvs
     (requires (short_text 128 model_id) ''model_id must be a short string''
     (requires (short_text 128 quantization) ''quantization must be a short string''
       (Inr (JObj [(''model_id'', model_id), (''quantization'', quantization),
          (''catalog_entry_fingerprint'', JStr (if falsy fingerprint then [] else py_str shown fingerprint)),
          (''requested_by'', JStr (py_str shown (get_or kvs ''requested_by'' (jstr ''cli''))))])))))"

fun absolute_path :: "json \<Rightarrow> bool" where
  "absolute_path (JStr s) = (case s of [] \<Rightarrow> False | c # _ \<Rightarrow> c = 47)"
| "absolute_path v = False"

fun malformed_path :: "json \<Rightarrow> bool" where
  "malformed_path (JStr s) = (0 \<in> set s \<or> 1024 < length s)"
| "malformed_path v = False"

fun nonblank_text :: "json \<Rightarrow> bool" where
  "nonblank_text (JStr s) = (\<not> blank s)"
| "nonblank_text v = False"

definition decode_import_request :: "(json \<Rightarrow> pystr) \<Rightarrow> json \<Rightarrow> exn + json" where
  "decode_import_request shown payload = on_object payload (\<lambda>kvs.
     let source_path = get_field kvs ''source_path''; alias = get_field kvs ''alias'';
         display_name = get_field kvs ''display_name''; quantization = get_field kvs ''quantization'' in
     closed [''source_path'', ''alias'', ''display_name'', ''quantization'', ''requested_by''] kvs
     (requires (nonblank_text source_path) ''source_path must be a non-empty string''
     (requires (\<not> malformed_path source_path) ''source_path is malformed''
     (requires (absolute_path source_path) ''source_path must be absolute''
     (requires (absent_or (short_text 128) alias) ''alias must be a short non-empty string''
     (requires (absent_or (text_within 128) display_name) ''display_name too long''
     (requires (absent_or (text_within 128) quantization) ''quantization too long''
       (Inr (JObj [(''source_path'', source_path), (''alias'', alias), (''display_name'', display_name),
          (''quantization'', quantization),
          (''requested_by'', JStr (take 64 (py_str shown (get_or kvs ''requested_by'' (jstr ''cli'')))))])))))))))"

section \<open>Evidence and the host port\<close>

text \<open>
  The host's evidence is the JSON object of the dataclass's fields, as
  \<^verbatim>\<open>_evidence\<close> makes it.
\<close>

definition source_identity :: "json \<Rightarrow> exn + json" where
  "source_identity v = typed_object [''fingerprint'']
     [(''files'', JList []), (''total_bytes'', JInt 0), (''revision'', JNull)] v"

definition validation_evidence :: "json \<Rightarrow> exn + json" where
  "validation_evidence v = typed_object [''verdict'']
     [(''format'', jstr ''GGUF''), (''architecture'', JNull), (''quantization'', JNull),
      (''tensor_count'', JNull), (''layout_verdict'', jstr ''standard''), (''validator_version'', JInt 1),
      (''reason_code'', JNull), (''detail'', JObj [])] v"

record 'w acquisition_host =
  qh_resolve_catalog_source :: "json \<Rightarrow> ('w, json) prog"
  qh_observe_local_source :: "json \<Rightarrow> 'w pulse_fn \<Rightarrow> ('w, json) prog"
  qh_reserve_storage :: "'w effect_ctx \<Rightarrow> json \<Rightarrow> ('w, json) prog"
  qh_observe_reservation :: "'w effect_ctx \<Rightarrow> ('w, probe_result) prog"
  qh_probe_transfer :: "'w effect_ctx \<Rightarrow> ('w, probe_result) prog"
  qh_transfer_catalog :: "'w effect_ctx \<Rightarrow> ('w, json) prog"
  qh_copy_local :: "'w effect_ctx \<Rightarrow> ('w, json) prog"
  qh_probe_candidate :: "'w effect_ctx \<Rightarrow> ('w, probe_result) prog"
  qh_materialize_candidate :: "'w effect_ctx \<Rightarrow> ('w, json) prog"
  qh_hash_and_validate_candidate :: "'w effect_ctx \<Rightarrow> ('w, json) prog"
  qh_probe_publication :: "'w effect_ctx \<Rightarrow> ('w, probe_result) prog"
  qh_publish_or_reuse :: "'w effect_ctx \<Rightarrow> ('w, json) prog"
  qh_quarantine_candidate :: "'w effect_ctx \<Rightarrow> ('w, json) prog"
  qh_probe_registration :: "'w effect_ctx \<Rightarrow> ('w, probe_result) prog"
  qh_register_installation :: "'w effect_ctx \<Rightarrow> ('w, json) prog"
  qh_probe_finalization :: "'w effect_ctx \<Rightarrow> ('w, probe_result) prog"
  qh_finalize_owned_staging :: "'w effect_ctx \<Rightarrow> ('w, json) prog"
  qh_release_on_cancellation :: "json \<Rightarrow> ident \<Rightarrow> ('w, json) prog"
  qh_compensate_acquisition :: "'w effect_ctx \<Rightarrow> ('w, json) prog"
  qh_observe_compensation :: "'w effect_ctx \<Rightarrow> ('w, probe_result) prog"

section \<open>Step callables\<close>

definition wrapped :: "string \<Rightarrow> ('w, json) prog \<Rightarrow> ('w, json) prog" where
  "wrapped name m = bind m (\<lambda>e. ret (JObj [(name, e)]))"

definition identity_matches :: "json \<Rightarrow> json \<Rightarrow> bool" where
  "identity_matches stored fresh \<longleftrightarrow> \<not> falsy stored \<and> attr stored ''fingerprint'' = attr fresh ''fingerprint''"

definition source_probe :: "string \<Rightarrow> string \<Rightarrow> string \<Rightarrow> ('w, json) prog \<Rightarrow> 'w effect_ctx \<Rightarrow> ('w, probe_result) prog" where
  "source_probe changed resolved unresolved observe ctx =
    (let output = or_empty (output_of (x_prior_outputs ctx) ''resolve_source'');
         identity = or_empty (attr output ''source_identity'') in
     bind observe (\<lambda>fresh.
     ret (if \<not> falsy identity \<and> \<not> identity_matches identity fresh then probed REVERTIBLE changed None
          else if \<not> falsy identity then probed COMPLETE resolved (Some output)
          else probed ABSENT unresolved (Some (JObj [(''source_identity'', fresh)])))))"

definition catalog_probe :: "'w acquisition_host \<Rightarrow> 'w effect_ctx \<Rightarrow> ('w, probe_result) prog" where
  "catalog_probe h ctx = source_probe ''SOURCE_CHANGED'' ''SOURCE_RESOLVED'' ''SOURCE_UNRESOLVED''
     (qh_resolve_catalog_source h (x_request ctx)) ctx"

definition local_probe :: "'w acquisition_host \<Rightarrow> 'w effect_ctx \<Rightarrow> ('w, probe_result) prog" where
  "local_probe h ctx = source_probe ''LOCAL_SOURCE_CHANGED'' ''SOURCE_OBSERVED'' ''SOURCE_UNOBSERVED''
     (qh_observe_local_source h (x_request ctx) (x_pulse ctx)) ctx"

definition catalog_execute :: "'w acquisition_host \<Rightarrow> 'w effect_ctx \<Rightarrow> ('w, json) prog" where
  "catalog_execute h ctx = wrapped ''source_identity'' (qh_resolve_catalog_source h (x_request ctx))"

definition local_execute :: "'w acquisition_host \<Rightarrow> 'w effect_ctx \<Rightarrow> ('w, json) prog" where
  "local_execute h ctx = wrapped ''source_identity'' (qh_observe_local_source h (x_request ctx) (x_pulse ctx))"

definition reserve_input :: "json \<Rightarrow> (ident \<rightharpoonup> json) \<Rightarrow> exn + json" where
  "reserve_input request prior = Inr (JObj
     [(''source'', or_empty (attr (or_empty (output_of prior ''resolve_source'')) ''source_identity''))])"

definition reserve_execute :: "'w acquisition_host \<Rightarrow> 'w effect_ctx \<Rightarrow> ('w, json) prog" where
  "reserve_execute h ctx = bind (lift (source_identity (or_empty (attr (x_inputs ctx) ''source'')))) (\<lambda>source.
     bind (qh_reserve_storage h ctx source) (\<lambda>e. ret (JObj [(''preflight'', e), (''reservation'', e)])))"

definition transfer_verify :: "(json \<Rightarrow> exn + int) \<Rightarrow> 'w effect_ctx \<Rightarrow> ('w, json) prog" where
  "transfer_verify reading ctx =
    (let transfer = or_empty (attr (or_empty (output_of (x_prior_outputs ctx) ''transfer_source'')) ''transfer'');
         kvs = object_fields transfer in
     bind (lift (py_int reading (get_or kvs ''bytes_complete'' (JInt (- 1))))) (\<lambda>complete.
     bind (lift (py_int reading (get_or kvs ''total_bytes'' (JInt (- 2))))) (\<lambda>all_bytes.
     if complete \<noteq> all_bytes then throw (step_failure ''PARTIAL_NOT_RESUMABLE'') else ret (JObj []))))"

definition validate_probe :: "'w effect_ctx \<Rightarrow> ('w, probe_result) prog" where
  "validate_probe ctx = ret (if falsy (output_of (x_prior_outputs ctx) ''validate_candidate'')
     then probed ABSENT ''UNVALIDATED'' None else probed COMPLETE ''VALIDATED'' None)"

definition acquire_publish_execute :: "'w acquisition_host \<Rightarrow> 'w effect_ctx \<Rightarrow> ('w, json) prog" where
  "acquire_publish_execute h ctx =
     bind (lift (validation_evidence (or_empty (attr (or_empty (output_of (x_prior_outputs ctx)
        ''validate_candidate'')) ''validation'')))) (\<lambda>validation.
     wrapped ''publication'' (if attr validation ''verdict'' = jstr ''ok'' then qh_publish_or_reuse h ctx
                              else qh_quarantine_candidate h ctx))"

text \<open>\<^verbatim>\<open>_require_complete\<close> as the value of a verify callable returns \<^verbatim>\<open>None\<close>.\<close>

definition observed :: "string \<Rightarrow> ('w effect_ctx \<Rightarrow> ('w, probe_result) prog) \<Rightarrow> 'w effect_ctx \<Rightarrow> ('w, json) prog" where
  "observed code probe ctx = bind (probe ctx) (require_complete (step_failure code) JNull)"

definition verify_compensated :: "'w acquisition_host \<Rightarrow> 'w effect_ctx \<Rightarrow> ('w, json) prog" where
  "verify_compensated h ctx = postcondition ''RECOVERY_PUBLICATION_MISMATCH'' (qh_observe_compensation h ctx)"

section \<open>The terminal decision\<close>

definition decide_acquisition_terminal :: "(ident \<rightharpoonup> json) \<Rightarrow> bool option \<Rightarrow> exn + terminal_decision" where
  "decide_acquisition_terminal verified_outputs quarantined = (case quarantined of
     None \<Rightarrow> Inl (OperationValidationError ''terminal decision requires an explicit quarantine flag'')
   | Some True \<Rightarrow> make_terminal_decision FAILED_SAFE ''ARTIFACT_QUARANTINED'' (JObj [])
       ''candidate failed validation and was quarantined''
   | Some False \<Rightarrow>
      (let registration = or_empty (attr (or_empty (output_of verified_outputs ''register_installation'')) ''registration'');
           publication = or_empty (attr (or_empty (output_of verified_outputs ''publish_artifact'')) ''publication'');
           disposition = (if falsy (attr registration ''disposition'')
             then (if attr publication ''disposition'' = jstr ''quarantined'' then jstr ''quarantined'' else jstr '''')
             else attr registration ''disposition'');
           reused = (disposition = jstr ''reused'') in
       make_terminal_decision SUCCEEDED (if reused then ''MODEL_REUSED'' else ''MODEL_INSTALLED'')
         (JObj [(''artifact_id'', attr registration ''artifact_id''), (''alias'', attr registration ''alias'')])
         (if reused then ''model artifact model_reused'' else ''model artifact model_installed'')))"

definition acquisition_terminal :: "json \<Rightarrow> (ident \<rightharpoonup> json) \<Rightarrow> exn + terminal_decision" where
  "acquisition_terminal request verified_outputs =
    (let registration = or_empty (output_of verified_outputs ''register_installation'');
         publication = or_empty (attr (or_empty (output_of verified_outputs ''publish_artifact'')) ''publication'') in
     decide_acquisition_terminal verified_outputs
       (Some (attr registration ''disposition'' = jstr ''quarantined'' \<or>
              attr publication ''disposition'' = jstr ''quarantined'')))"

section \<open>The eight steps\<close>

definition acquisition_step :: "ident \<Rightarrow> string \<Rightarrow> int \<Rightarrow> string \<Rightarrow> ('w effect_ctx \<Rightarrow> ('w, probe_result) prog) \<Rightarrow>
    ('w effect_ctx \<Rightarrow> ('w, json) prog) \<Rightarrow> ('w effect_ctx \<Rightarrow> ('w, json) prog) \<Rightarrow> 'w step_def" where
  "acquisition_step key phase position disposition probe execute verify =
     (declared_step key phase position reserve_input probe execute verify [ACQUISITION_RESOURCE])
       \<lparr>sd_effect_disposition := disposition\<rparr>"

definition with_compensation :: "'w acquisition_host \<Rightarrow> 'w step_def \<Rightarrow> 'w step_def" where
  "with_compensation h step = step\<lparr>sd_critical := True, sd_compensate := Some (qh_compensate_acquisition h),
     sd_verify_restoration := Some (verify_compensated h),
     sd_probe_restoration := Some (qh_observe_compensation h)\<rparr>"

definition build_steps :: "'w acquisition_host \<Rightarrow> (json \<Rightarrow> exn + int) \<Rightarrow>
    ('w effect_ctx \<Rightarrow> ('w, probe_result) prog) \<Rightarrow> ('w effect_ctx \<Rightarrow> ('w, json) prog) \<Rightarrow>
    ('w effect_ctx \<Rightarrow> ('w, json) prog) \<Rightarrow> ('w effect_ctx \<Rightarrow> ('w, json) prog) \<Rightarrow> 'w step_def list" where
  "build_steps h reading resolve_probe resolve_execute resolve_verify transfer_execute =
    [acquisition_step ''resolve_source'' ''preflight'' 1 ''REVERSIBLE'' resolve_probe resolve_execute resolve_verify,
     acquisition_step ''reserve_storage'' ''preflight'' 2 ''REVERSIBLE'' (qh_observe_reservation h)
       (reserve_execute h) (observed ''STAGING_OWNERSHIP_INVALID'' (qh_observe_reservation h)),
     acquisition_step ''transfer_source'' ''transfer'' 3 ''HIDDEN_DURABLE'' (qh_probe_transfer h)
       transfer_execute (transfer_verify reading),
     acquisition_step ''materialize_candidate'' ''prepare'' 4 ''HIDDEN_DURABLE'' (qh_probe_candidate h)
       (\<lambda>ctx. wrapped ''candidate'' (qh_materialize_candidate h ctx))
       (observed ''CONVERSION_FAILED'' (qh_probe_candidate h)),
     acquisition_step ''validate_candidate'' ''verify'' 5 ''HIDDEN_DURABLE'' validate_probe
       (\<lambda>ctx. wrapped ''validation'' (qh_hash_and_validate_candidate h ctx)) (\<lambda>_. ret (JObj [])),
     with_compensation h (acquisition_step ''publish_artifact'' ''publish'' 6 ''FORWARD_ONLY'' (qh_probe_publication h)
       (acquire_publish_execute h) (observed ''PUBLICATION_IDENTITY_UNCERTAIN'' (qh_probe_publication h))),
     with_compensation h (acquisition_step ''register_installation'' ''register'' 7 ''FORWARD_ONLY''
       (qh_probe_registration h) (\<lambda>ctx. wrapped ''registration'' (qh_register_installation h ctx))
       (observed ''RECOVERY_REGISTRATION_MISMATCH'' (qh_probe_registration h))),
     (acquisition_step ''finalize_staging'' ''cleanup'' 8 ''HIDDEN_DURABLE'' (qh_probe_finalization h)
       (\<lambda>ctx. wrapped ''cleanup'' (qh_finalize_owned_staging h ctx))
       (observed ''CLEANUP_INCOMPLETE'' (qh_probe_finalization h)))\<lparr>sd_critical := True\<rparr>]"

definition build_acquire_workflow :: "(json \<Rightarrow> pystr) \<Rightarrow> (json \<Rightarrow> exn + int) \<Rightarrow> 'w acquisition_host \<Rightarrow> 'w workflow_def" where
  "build_acquire_workflow shown reading h =
     (declared_workflow MODEL_ACQUIRE (decode_acquire_request shown)
       (build_steps h reading (catalog_probe h) (catalog_execute h)
         (\<lambda>ctx. postcondition ''SOURCE_CHANGED'' (catalog_probe h ctx))
         (\<lambda>ctx. wrapped ''transfer'' (qh_transfer_catalog h ctx)))
       acquisition_terminal)
     \<lparr>wf_cancel_finalizer := Some (qh_release_on_cancellation h)\<rparr>"

definition build_import_workflow :: "(json \<Rightarrow> pystr) \<Rightarrow> (json \<Rightarrow> exn + int) \<Rightarrow> 'w acquisition_host \<Rightarrow> 'w workflow_def" where
  "build_import_workflow shown reading h =
     (declared_workflow MODEL_IMPORT (decode_import_request shown)
       (build_steps h reading (local_probe h) (local_execute h)
         (\<lambda>ctx. postcondition ''LOCAL_SOURCE_CHANGED'' (local_probe h ctx))
         (\<lambda>ctx. wrapped ''transfer'' (qh_copy_local h ctx)))
       acquisition_terminal)
     \<lparr>wf_cancel_finalizer := Some (qh_release_on_cancellation h)\<rparr>"

end
