(* ===== verification/Model_Remove.thy ===== *)
theory Model_Remove
  imports Requests
begin

text \<open>
  The removal workflow (\<^verbatim>\<open>operations/model_remove.py\<close>): four forward steps that
  detach an alias and move the bytes nothing refers to into a quarantine.
\<close>

definition REMOVE_RESOURCE :: ident where
  "REMOVE_RESOURCE = ''model-storage''"

definition decode_remove_request :: "(json \<Rightarrow> pystr) \<Rightarrow> json \<Rightarrow> exn + json" where
  "decode_remove_request shown payload = on_object payload (\<lambda>kvs.
     closed [''alias'', ''requested_by''] kvs
     (requires (short_text 128 (get_field kvs ''alias'')) ''alias must be a short non-empty string''
       (Inr (JObj [(''alias'', get_field kvs ''alias''),
          (''requested_by'', JStr (py_str shown (get_or kvs ''requested_by'' (jstr ''cli''))))]))))"

record 'w remove_host =
  rh_resolve_identity :: "json \<Rightarrow> ('w, json) prog"
  rh_probe_identity :: "'w effect_ctx \<Rightarrow> ('w, probe_result) prog"
  rh_detach_alias :: "'w effect_ctx \<Rightarrow> ('w, json) prog"
  rh_probe_detachment :: "'w effect_ctx \<Rightarrow> ('w, probe_result) prog"
  rh_quarantine_bytes :: "'w effect_ctx \<Rightarrow> ('w, json) prog"
  rh_probe_quarantine :: "'w effect_ctx \<Rightarrow> ('w, probe_result) prog"
  rh_record_removal :: "'w effect_ctx \<Rightarrow> ('w, json) prog"
  rh_probe_removal_record :: "'w effect_ctx \<Rightarrow> ('w, probe_result) prog"

definition remove_evidence :: "string \<Rightarrow> ('w, json) prog \<Rightarrow> ('w, json) prog" where
  "remove_evidence name m = bind m (\<lambda>v. ret (JObj [(name, JObj [(''evidence'', v)])]))"

text \<open>\<^verbatim>\<open>_require_complete\<close>, with the value its caller returns.\<close>

definition removal_proven :: "string \<Rightarrow> json \<Rightarrow> ('w, probe_result) prog \<Rightarrow> ('w, json) prog" where
  "removal_proven code v probe =
     bind probe (require_complete (OperationValidationError (''removal precondition not met: '' @ code)) v)"

definition remove_terminal :: "json \<Rightarrow> (ident \<rightharpoonup> json) \<Rightarrow> exn + terminal_decision" where
  "remove_terminal request verified_outputs =
    (let removal = or_empty (attr (or_empty (output_of verified_outputs ''record_removal'')) ''removal'');
         disposition = attr (or_empty (attr removal ''evidence'')) ''disposition'' in
     sum_bind (if falsy disposition then Inr ''MODEL_REMOVED'' else stable_code disposition) (\<lambda>code.
     make_terminal_decision SUCCEEDED code (JObj [(''alias'', attr request ''alias'')])
       ''removed alias; unreferenced bytes quarantined''))"

definition remove_input :: "json \<Rightarrow> (ident \<rightharpoonup> json) \<Rightarrow> exn + json" where
  "remove_input request prior = Inr (JObj [(''alias'', attr request ''alias'')])"

definition remove_step :: "ident \<Rightarrow> string \<Rightarrow> int \<Rightarrow> string \<Rightarrow> ('w effect_ctx \<Rightarrow> ('w, probe_result) prog) \<Rightarrow>
    ('w effect_ctx \<Rightarrow> ('w, json) prog) \<Rightarrow> ('w effect_ctx \<Rightarrow> ('w, json) prog) \<Rightarrow> 'w step_def" where
  "remove_step key phase position disposition probe execute verify =
     (declared_step key phase position remove_input probe execute verify [REMOVE_RESOURCE])
       \<lparr>sd_effect_disposition := disposition\<rparr>"

definition remove_steps :: "'w remove_host \<Rightarrow> 'w step_def list" where
  "remove_steps h =
    [remove_step ''resolve_identity'' ''resolve'' 1 ''REVERSIBLE'' (rh_probe_identity h)
       (\<lambda>ctx. remove_evidence ''identity'' (rh_resolve_identity h (x_request ctx)))
       (\<lambda>ctx. removal_proven ''ALIAS_UNKNOWN'' (JObj []) (rh_probe_identity h ctx)),
     (remove_step ''detach_alias'' ''mutate'' 2 ''HIDDEN_DURABLE'' (rh_probe_detachment h)
       (\<lambda>ctx. remove_evidence ''detachment'' (rh_detach_alias h ctx))
       (\<lambda>ctx. removal_proven ''DETACHMENT_INCOMPLETE'' JNull (rh_probe_detachment h ctx)))
       \<lparr>sd_critical := True\<rparr>,
     (remove_step ''quarantine_bytes'' ''mutate'' 3 ''FORWARD_ONLY'' (rh_probe_quarantine h)
       (\<lambda>ctx. remove_evidence ''quarantine'' (rh_quarantine_bytes h ctx))
       (\<lambda>ctx. removal_proven ''QUARANTINE_INCOMPLETE'' JNull (rh_probe_quarantine h ctx)))
       \<lparr>sd_critical := True\<rparr>,
     remove_step ''record_removal'' ''finalize'' 4 ''HIDDEN_DURABLE'' (rh_probe_removal_record h)
       (\<lambda>ctx. remove_evidence ''removal'' (rh_record_removal h ctx))
       (\<lambda>ctx. removal_proven ''REMOVAL_RECORD_MISSING'' JNull (rh_probe_removal_record h ctx))]"

definition build_remove_workflow :: "(json \<Rightarrow> pystr) \<Rightarrow> 'w remove_host \<Rightarrow> 'w workflow_def" where
  "build_remove_workflow shown h =
     declared_workflow MODEL_REMOVE (decode_remove_request shown) (remove_steps h) remove_terminal"

end
