(* ===== verification/Storage_Cleanup.thy ===== *)
theory Storage_Cleanup
  imports Requests
begin

text \<open>
  The storage cleanup workflow (\<^verbatim>\<open>operations/storage_cleanup.py\<close>): a request for up to
  32 targets bound to a preview digest, and one step per mode over one host port.
\<close>

section \<open>The request\<close>

definition CLEANUP_RESOURCES :: "ident list" where
  "CLEANUP_RESOURCES = [''model-storage'', ''storage-cleanup'']"

definition MAX_TARGETS :: nat where "MAX_TARGETS = 32"

definition MODES :: "string list" where
  "MODES = [''QUARANTINE'', ''RESTORE'', ''PURGE'']"

definition TARGET_KINDS :: "string list" where
  "TARGET_KINDS = [''ABANDONED_STAGING'', ''CLEANUP_QUARANTINE'']"

definition opaque_char :: "nat \<Rightarrow> bool" where
  "opaque_char c \<longleftrightarrow> alphanumeric c \<or> c \<in> set (cps ''._:@+-'')"

fun opaque :: "json \<Rightarrow> bool" where
  "opaque (JStr (c # s)) = (alphanumeric c \<and> list_all opaque_char s \<and> length s \<le> 127)"
| "opaque v = False"

fun count_within :: "int \<Rightarrow> json \<Rightarrow> bool" where
  "count_within hi (JInt n) = (0 \<le> n \<and> n \<le> hi)"
| "count_within hi (JBool b) = True"
| "count_within hi v = False"

definition target_fields :: "string list" where
  "target_fields = [''target_id'', ''kind'', ''relative_name'', ''expected_tree_digest'', ''expected_bytes'',
     ''expected_files'', ''owner_operation_id'', ''quarantine_operation_id'', ''retention_until'']"

definition decode_target :: "(json \<Rightarrow> pystr) \<Rightarrow> json list \<Rightarrow> json \<Rightarrow> exn + json" where
  "decode_target shown seen raw = requires (is_object raw) ''cleanup target must be an object''
    (let kvs = object_fields raw; target_id = get_field kvs ''target_id'';
         kind = text_or_empty shown (get_field kvs ''kind'');
         digest = text_or_empty shown (get_field kvs ''expected_tree_digest'');
         size = get_field kvs ''expected_bytes''; files = get_field kvs ''expected_files'';
         qop = get_field kvs ''quarantine_operation_id''; retention = get_field kvs ''retention_until'' in
     closed target_fields kvs
     (requires (opaque target_id) ''target_id is not a safe opaque identity''
     (requires (target_id \<notin> set seen) ''cleanup target IDs must be unique''
     (requires (one_of TARGET_KINDS kind) ''cleanup target kind is unknown''
     (requires (sha256_digest digest) ''cleanup tree digest is invalid''
     (requires (count_within (2 ^ 50) size) ''cleanup byte count is invalid''
     (requires (count_within 4096 files) ''cleanup file count is invalid''
     (requires (absent_or opaque qop) ''quarantine_operation_id is not a safe opaque identity''
     (requires (absent_or (text_within 32) retention) ''cleanup retention timestamp is invalid''
     (requires (opaque (get_field kvs ''relative_name'')) ''relative_name is not a safe opaque identity''
     (requires (opaque (get_field kvs ''owner_operation_id'')) ''owner_operation_id is not a safe opaque identity''
       (Inr (JObj [(''target_id'', target_id), (''kind'', kind), (''relative_name'', get_field kvs ''relative_name''),
          (''expected_tree_digest'', digest), (''expected_bytes'', size), (''expected_files'', files),
          (''owner_operation_id'', get_field kvs ''owner_operation_id''),
          (''quarantine_operation_id'', qop), (''retention_until'', retention)])))))))))))))"

fun decode_targets :: "(json \<Rightarrow> pystr) \<Rightarrow> json list \<Rightarrow> json list \<Rightarrow> exn + json list" where
  "decode_targets shown seen [] = Inr []"
| "decode_targets shown seen (raw # raws) =
     sum_bind (decode_target shown seen raw) (\<lambda>target.
     sum_bind (decode_targets shown (attr target ''target_id'' # seen) raws) (\<lambda>targets.
     Inr (target # targets)))"

definition cleanup_matches_mode :: "json \<Rightarrow> json \<Rightarrow> bool" where
  "cleanup_matches_mode mode target \<longleftrightarrow>
    (if mode = jstr ''QUARANTINE''
     then attr target ''kind'' = jstr ''ABANDONED_STAGING'' \<and> falsy (attr target ''quarantine_operation_id'')
     else attr target ''kind'' = jstr ''CLEANUP_QUARANTINE'' \<and> \<not> falsy (attr target ''quarantine_operation_id''))"

fun target_list :: "json \<Rightarrow> bool" where
  "target_list (JList xs) = (1 \<le> length xs \<and> length xs \<le> MAX_TARGETS)"
| "target_list v = False"

definition decode_cleanup_request :: "(json \<Rightarrow> pystr) \<Rightarrow> json \<Rightarrow> exn + json" where
  "decode_cleanup_request shown payload = on_object payload (\<lambda>kvs.
     let mode = upper_name shown (get_field kvs ''mode'');
         preview_digest = text_or_empty shown (get_field kvs ''preview_digest'');
         raw_targets = get_field kvs ''targets'';
         requested_by = get_or kvs ''requested_by'' (jstr ''cli'') in
     closed [''mode'', ''targets'', ''preview_digest'', ''requested_by''] kvs
     (requires (one_of MODES mode) ''cleanup mode is unknown''
     (requires (sha256_digest preview_digest) ''cleanup preview digest is invalid''
     (requires (target_list raw_targets) ''cleanup requires 1-32 targets''
     (sum_bind (decode_targets shown [] (list_of raw_targets)) (\<lambda>targets.
     requires (list_all (cleanup_matches_mode mode) targets)
       (if mode = jstr ''QUARANTINE'' then ''quarantine accepts abandoned staging only''
        else ''restore/purge require cleanup receipts'')
     (requires (opaque requested_by) ''requested_by is not a safe opaque identity''
       (Inr (JObj [(''mode'', mode), (''targets'', JList targets), (''preview_digest'', preview_digest),
          (''requested_by'', requested_by)])))))))))"

section \<open>Steps\<close>

record 'w cleanup_host =
  uh_resolve :: "'w effect_ctx \<Rightarrow> ('w, json) prog"
  uh_probe_resolved :: "'w effect_ctx \<Rightarrow> ('w, probe_result) prog"
  uh_apply_mode :: "'w effect_ctx \<Rightarrow> string \<Rightarrow> ('w, json) prog"
  uh_probe_mode :: "'w effect_ctx \<Rightarrow> string \<Rightarrow> ('w, probe_result) prog"
  uh_compensate_mode :: "'w effect_ctx \<Rightarrow> string \<Rightarrow> ('w, json) prog"
  uh_probe_compensation :: "'w effect_ctx \<Rightarrow> string \<Rightarrow> ('w, probe_result) prog"

definition named_result :: "string \<Rightarrow> ('w, json) prog \<Rightarrow> ('w, json) prog" where
  "named_result name m = bind m (\<lambda>v. ret (JObj [(name, v)]))"

definition cleanup_proven :: "string \<Rightarrow> json \<Rightarrow> ('w, probe_result) prog \<Rightarrow> ('w, json) prog" where
  "cleanup_proven code v probe = bind probe (require_complete (OperationValidationError code) v)"

definition mode_input :: "json \<Rightarrow> fields" where
  "mode_input request = [(''mode'', attr request ''mode''),
     (''target_count'', JInt (int (length (list_of (attr request ''targets'')))))]"

definition mode_step :: "'w cleanup_host \<Rightarrow> string \<Rightarrow> int \<Rightarrow> string \<Rightarrow> 'w step_def" where
  "mode_step h mode position disposition =
    (let reversible = (disposition = ''REVERSIBLE'') in
     (declared_step (map ascii_lower mode @ ''_targets'') (map ascii_lower mode) position
       (\<lambda>request prior. Inr (JObj (mode_input request)))
       (\<lambda>ctx. uh_probe_mode h ctx mode)
       (\<lambda>ctx. named_result ''effect'' (uh_apply_mode h ctx mode))
       (\<lambda>ctx. cleanup_proven (mode @ ''_NOT_VERIFIED'') (JObj []) (uh_probe_mode h ctx mode))
       CLEANUP_RESOURCES)
     \<lparr>sd_externally_visible := True, sd_critical := True, sd_effect_disposition := disposition,
      sd_compensate := (if reversible
        then Some (\<lambda>ctx. named_result ''restoration'' (uh_compensate_mode h ctx mode)) else None),
      sd_verify_restoration := (if reversible
        then Some (\<lambda>ctx. cleanup_proven (mode @ ''_RESTORATION_NOT_VERIFIED'') (JObj []) (uh_probe_compensation h ctx mode))
        else None),
      sd_probe_restoration := (if reversible then Some (\<lambda>ctx. uh_probe_compensation h ctx mode) else None)\<rparr>)"

definition cleanup_steps :: "'w cleanup_host \<Rightarrow> 'w step_def list" where
  "cleanup_steps h =
    [declared_step ''resolve_targets'' ''resolve'' 1
       (\<lambda>request prior. Inr (JObj (mode_input request @ [(''preview_digest'', attr request ''preview_digest'')])))
       (uh_probe_resolved h) (\<lambda>ctx. named_result ''resolution'' (uh_resolve h ctx))
       (\<lambda>ctx. cleanup_proven ''CLEANUP_RESOLUTION_NOT_VERIFIED'' JNull (uh_probe_resolved h ctx))
       CLEANUP_RESOURCES,
     mode_step h ''QUARANTINE'' 2 ''REVERSIBLE'',
     mode_step h ''RESTORE'' 3 ''REVERSIBLE'',
     mode_step h ''PURGE'' 4 ''FORWARD_ONLY'']"

fun int_value :: "json \<Rightarrow> int" where
  "int_value (JInt n) = n"
| "int_value (JBool b) = (if b then 1 else 0)"
| "int_value v = 0"

definition count_or_zero :: "(json \<Rightarrow> exn + int) \<Rightarrow> json \<Rightarrow> exn + int" where
  "count_or_zero reading v = (if falsy v then Inr 0 else py_int reading v)"

definition cleanup_terminal :: "(json \<Rightarrow> exn + int) \<Rightarrow> json \<Rightarrow> (ident \<rightharpoonup> json) \<Rightarrow> exn + terminal_decision" where
  "cleanup_terminal reading request outputs =
     sum_bind (stable_code (attr request ''mode'')) (\<lambda>mode.
     let relevant = or_empty (output_of outputs (map ascii_lower mode @ ''_targets''));
         effect = or_empty (attr relevant ''effect'');
         targets = list_of (attr request ''targets'') in
     sum_bind (count_or_zero reading (attr effect ''retained_count'')) (\<lambda>retained.
     sum_bind (count_or_zero reading (attr effect ''completed_count'')) (\<lambda>completed.
     make_terminal_decision SUCCEEDED
       (if mode = ''PURGE'' then (if retained = 0 then ''CLEANUP_PURGED'' else ''CLEANUP_PURGE_PARTIAL'')
        else ''CLEANUP_'' @ mode @ ''D'')
       (JObj [(''mode'', attr request ''mode''), (''target_count'', JInt (int (length targets))),
          (''completed_count'', JInt completed), (''retained_count'', JInt retained),
          (''bytes_selected'', JInt (sum_list (map (\<lambda>t. int_value (attr t ''expected_bytes'')) targets)))])
       (''storage cleanup '' @ map ascii_lower mode @ '' completed''))))"

definition build_storage_cleanup_workflow :: "(json \<Rightarrow> pystr) \<Rightarrow> (json \<Rightarrow> exn + int) \<Rightarrow> 'w cleanup_host \<Rightarrow> 'w workflow_def" where
  "build_storage_cleanup_workflow shown reading h =
     declared_workflow STORAGE_CLEANUP (decode_cleanup_request shown) (cleanup_steps h) (cleanup_terminal reading)"

end
