(* ===== verification/Backup.thy ===== *)
theory Backup
  imports Requests
begin

text \<open>
  The backup workflows (\<^verbatim>\<open>operations/backup.py\<close>): creating an archive in five steps
  and restoring one in six, with the exchange of the profile as the only step that publishes.
\<close>

definition BACKUP_RESOURCE :: ident where
  "BACKUP_RESOURCE = ''profile-backup''"

definition RESTORE_RESOURCE :: ident where
  "RESTORE_RESOURCE = ''profile-restore-staging''"

definition PUBLISH_BARRIER_RESOURCE :: ident where
  "PUBLISH_BARRIER_RESOURCE = ''profile-publication''"

section \<open>Requests\<close>

definition decode_backup_create_request :: "(json \<Rightarrow> pystr) \<Rightarrow> json \<Rightarrow> exn + json" where
  "decode_backup_create_request shown payload = on_object payload (\<lambda>kvs.
     let include_models = get_or kvs ''include_models'' (JBool False);
         include_runtime = get_or kvs ''include_runtime'' (JBool False) in
     closed [''destination_label'', ''include_models'', ''include_runtime'', ''encrypt'', ''requested_by''] kvs
     (requires (short_text 512 (get_field kvs ''destination_label'')) ''destination_label must be a short non-empty string''
     (requires (falsy (get_field kvs ''encrypt'')) ''encryption is not available in this build''
     (requires (falsy include_models \<and> falsy include_runtime) ''INCLUSION_UNAVAILABLE''
       (Inr (JObj [(''destination_label'', get_field kvs ''destination_label''),
          (''include_models'', JBool (\<not> falsy include_models)),
          (''include_runtime'', JBool (\<not> falsy include_runtime)), (''encrypt'', JBool False),
          (''requested_by'', JStr (py_str shown (get_or kvs ''requested_by'' (jstr ''cli''))))]))))))"

definition hex_digit_char :: "nat \<Rightarrow> bool" where
  "hex_digit_char c \<longleftrightarrow> c \<in> set (cps ''0123456789abcdef'')"

fun confirmation_digest :: "json \<Rightarrow> bool" where
  "confirmation_digest (JStr s) = (length s = 64 \<and> list_all hex_digit_char s)"
| "confirmation_digest v = False"

fun backup_identity :: "json \<Rightarrow> bool" where
  "backup_identity (JStr s) = (\<not> blank s)"
| "backup_identity v = False"

definition decode_backup_restore_request :: "(json \<Rightarrow> pystr) \<Rightarrow> json \<Rightarrow> exn + json" where
  "decode_backup_restore_request shown payload = on_object payload (\<lambda>kvs.
     closed [''backup_id'', ''confirmation_digest'', ''requested_by''] kvs
     (requires (backup_identity (get_field kvs ''backup_id'')) ''backup_id must be a non-empty string''
     (requires (confirmation_digest (get_field kvs ''confirmation_digest''))
         ''confirmation_digest must be a full sha256 hex bound to the dry-run result''
       (Inr (JObj [(''backup_id'', get_field kvs ''backup_id''),
          (''confirmation_digest'', get_field kvs ''confirmation_digest''),
          (''requested_by'', JStr (py_str shown (get_or kvs ''requested_by'' (jstr ''cli''))))])))))"

section \<open>Ports\<close>

record 'w backup_create_host =
  bh_snapshot_database :: "'w effect_ctx \<Rightarrow> ('w, json) prog"
  bh_probe_snapshot :: "'w effect_ctx \<Rightarrow> ('w, probe_result) prog"
  bh_inventory_and_stage :: "'w effect_ctx \<Rightarrow> ('w, json) prog"
  bh_probe_staged :: "'w effect_ctx \<Rightarrow> ('w, probe_result) prog"
  bh_publish_archive :: "'w effect_ctx \<Rightarrow> ('w, json) prog"
  bh_probe_published :: "'w effect_ctx \<Rightarrow> ('w, probe_result) prog"
  bh_verify_archive :: "'w effect_ctx \<Rightarrow> ('w, json) prog"
  bh_probe_verified :: "'w effect_ctx \<Rightarrow> ('w, probe_result) prog"
  bh_record_backup :: "'w effect_ctx \<Rightarrow> ('w, json) prog"
  bh_probe_record :: "'w effect_ctx \<Rightarrow> ('w, probe_result) prog"

record 'w backup_restore_host =
  th_validate_source :: "'w effect_ctx \<Rightarrow> ('w, json) prog"
  th_probe_source_valid :: "'w effect_ctx \<Rightarrow> ('w, probe_result) prog"
  th_stage_candidate :: "'w effect_ctx \<Rightarrow> ('w, json) prog"
  th_probe_staged_candidate :: "'w effect_ctx \<Rightarrow> ('w, probe_result) prog"
  th_validate_staged :: "'w effect_ctx \<Rightarrow> ('w, json) prog"
  th_probe_staged_validated :: "'w effect_ctx \<Rightarrow> ('w, probe_result) prog"
  th_publish_exchange :: "'w effect_ctx \<Rightarrow> ('w, json) prog"
  th_probe_restore_published :: "'w effect_ctx \<Rightarrow> ('w, probe_result) prog"
  th_verify_post_restore :: "'w effect_ctx \<Rightarrow> ('w, json) prog"
  th_probe_post_verified :: "'w effect_ctx \<Rightarrow> ('w, probe_result) prog"
  th_promote_or_rollback :: "'w effect_ctx \<Rightarrow> ('w, json) prog"
  th_probe_terminal :: "'w effect_ctx \<Rightarrow> ('w, probe_result) prog"

section \<open>Steps\<close>

definition backup_evidence :: "string \<Rightarrow> ('w effect_ctx \<Rightarrow> ('w, json) prog) \<Rightarrow> 'w effect_ctx \<Rightarrow> ('w, json) prog" where
  "backup_evidence name m ctx = bind (m ctx) (\<lambda>v. ret (JObj [(name, JObj [(''evidence'', v)])]))"

definition backup_proven :: "string \<Rightarrow> ('w effect_ctx \<Rightarrow> ('w, probe_result) prog) \<Rightarrow> 'w effect_ctx \<Rightarrow> ('w, json) prog" where
  "backup_proven code probe ctx =
     bind (probe ctx) (require_complete (OperationValidationError (''backup precondition not met: '' @ code)) JNull)"

definition input_fields :: "string list \<Rightarrow> json \<Rightarrow> (ident \<rightharpoonup> json) \<Rightarrow> exn + json" where
  "input_fields names request prior = Inr (JObj (map (\<lambda>k. (k, attr request k)) names))"

definition backup_step :: "ident \<Rightarrow> string \<Rightarrow> int \<Rightarrow> string list \<Rightarrow> string \<Rightarrow> ident list \<Rightarrow> string \<Rightarrow> string \<Rightarrow>
    ('w effect_ctx \<Rightarrow> ('w, json) prog) \<Rightarrow> ('w effect_ctx \<Rightarrow> ('w, probe_result) prog) \<Rightarrow> 'w step_def" where
  "backup_step key phase position names disposition resources output code execute probe =
     (declared_step key phase position (input_fields names) probe (backup_evidence output execute)
       (backup_proven code probe) resources)\<lparr>sd_effect_disposition := disposition\<rparr>"

definition backup_create_steps :: "'w backup_create_host \<Rightarrow> 'w step_def list" where
  "backup_create_steps h =
    [backup_step ''snapshot_database'' ''snapshot'' 1 [''destination_label''] ''REVERSIBLE'' [BACKUP_RESOURCE]
       ''snapshot'' ''SNAPSHOT_MISSING'' (bh_snapshot_database h) (bh_probe_snapshot h),
     backup_step ''inventory_and_stage'' ''stage'' 2 [''destination_label'', ''include_models'', ''include_runtime'']
       ''REVERSIBLE'' [BACKUP_RESOURCE]
       ''staged'' ''STAGING_INCOMPLETE'' (bh_inventory_and_stage h) (bh_probe_staged h),
     (backup_step ''publish_archive'' ''publish'' 3 [''destination_label''] ''FORWARD_ONLY'' [BACKUP_RESOURCE]
       ''published'' ''PUBLISH_INCOMPLETE'' (bh_publish_archive h) (bh_probe_published h))\<lparr>sd_critical := True\<rparr>,
     backup_step ''verify_archive'' ''verify'' 4 [''destination_label''] ''HIDDEN_DURABLE'' [BACKUP_RESOURCE]
       ''verified'' ''VERIFY_FAILED'' (bh_verify_archive h) (bh_probe_verified h),
     backup_step ''record_backup'' ''finalize'' 5 [''destination_label''] ''HIDDEN_DURABLE'' [BACKUP_RESOURCE]
       ''record'' ''RECORD_MISSING'' (bh_record_backup h) (bh_probe_record h)]"

definition backup_restore_steps :: "'w backup_restore_host \<Rightarrow> 'w step_def list" where
  "backup_restore_steps h =
    [backup_step ''validate_source'' ''validate'' 1 [''backup_id'', ''confirmation_digest''] ''NONE'' [RESTORE_RESOURCE]
       ''source'' ''SOURCE_INVALID'' (th_validate_source h) (th_probe_source_valid h),
     backup_step ''stage_candidate'' ''stage'' 2 [''backup_id''] ''REVERSIBLE'' [RESTORE_RESOURCE]
       ''staged'' ''STAGING_INCOMPLETE'' (th_stage_candidate h) (th_probe_staged_candidate h),
     backup_step ''validate_staged'' ''validate'' 3 [''backup_id''] ''HIDDEN_DURABLE'' [RESTORE_RESOURCE]
       ''staged_validated'' ''STAGED_INVALID'' (th_validate_staged h) (th_probe_staged_validated h),
     (backup_step ''publish_exchange'' ''publish'' 4 [''backup_id''] ''FORWARD_ONLY''
       [RESTORE_RESOURCE, PUBLISH_BARRIER_RESOURCE]
       ''published'' ''PUBLISH_INCOMPLETE'' (th_publish_exchange h) (th_probe_restore_published h))
       \<lparr>sd_critical := True\<rparr>,
     (backup_step ''verify_post_restore'' ''verify'' 5 [''backup_id''] ''HIDDEN_DURABLE''
       [RESTORE_RESOURCE, PUBLISH_BARRIER_RESOURCE]
       ''post_verified'' ''POST_VERIFY_FAILED'' (th_verify_post_restore h) (th_probe_post_verified h))
       \<lparr>sd_critical := True\<rparr>,
     backup_step ''promote_or_rollback'' ''finalize'' 6 [''backup_id''] ''HIDDEN_DURABLE''
       [RESTORE_RESOURCE, PUBLISH_BARRIER_RESOURCE]
       ''terminal'' ''TERMINAL_MISSING'' (th_promote_or_rollback h) (th_probe_terminal h)]"

section \<open>Terminal decisions\<close>

definition reported_disposition :: "(ident \<rightharpoonup> json) \<Rightarrow> ident \<Rightarrow> string \<Rightarrow> string \<Rightarrow> exn + string" where
  "reported_disposition outputs key name fallback =
    (let record = or_empty (attr (or_empty (output_of outputs key)) name);
         disposition = attr (or_empty (attr record ''evidence'')) ''disposition'' in
     if falsy disposition then Inr fallback else stable_code disposition)"

definition backup_terminal :: "json \<Rightarrow> (ident \<rightharpoonup> json) \<Rightarrow> exn + terminal_decision" where
  "backup_terminal request outputs =
     sum_bind (reported_disposition outputs ''record_backup'' ''record'' ''BACKUP_CREATED'') (\<lambda>code.
     make_terminal_decision SUCCEEDED code
       (JObj [(''destination_label'', attr request ''destination_label'')]) ''created backup'')"

definition restore_terminal :: "json \<Rightarrow> (ident \<rightharpoonup> json) \<Rightarrow> exn + terminal_decision" where
  "restore_terminal request outputs =
     sum_bind (reported_disposition outputs ''promote_or_rollback'' ''terminal'' ''RESTORE_PUBLISHED'') (\<lambda>code.
     if code = ''RESTORE_ROLLED_BACK''
     then make_terminal_decision FAILED_SAFE code (JObj [(''backup_id'', attr request ''backup_id'')])
       ''restore verification failed; exchanged back to the prior profile''
     else make_terminal_decision SUCCEEDED code (JObj [(''backup_id'', attr request ''backup_id'')])
       ''restored backup and verified the profile'')"

definition build_backup_create_workflow :: "(json \<Rightarrow> pystr) \<Rightarrow> 'w backup_create_host \<Rightarrow> 'w workflow_def" where
  "build_backup_create_workflow shown h =
     declared_workflow BACKUP_CREATE (decode_backup_create_request shown) (backup_create_steps h) backup_terminal"

definition build_backup_restore_workflow :: "(json \<Rightarrow> pystr) \<Rightarrow> 'w backup_restore_host \<Rightarrow> 'w workflow_def" where
  "build_backup_restore_workflow shown h =
     declared_workflow BACKUP_RESTORE (decode_backup_restore_request shown) (backup_restore_steps h) restore_terminal"

end
