(* ===== verification/Calibration.thy ===== *)
theory Calibration
  imports Requests
begin

text \<open>
  The calibration workflow (\<^verbatim>\<open>operations/calibration.py\<close>): a plan of up to three
  candidates, one measuring step each that is undone by restoring the baseline, and a winner
  that is proposed, never applied. \<open>rate v\<close> is the position of \<^verbatim>\<open>float(v)\<close> in the
  order of the doubles, for a JSON number \<open>v\<close> that is no NaN.
\<close>

definition RUNTIME_RESOURCE :: ident where
  "RUNTIME_RESOURCE = ''runtime-active''"

definition BENCHMARK_RESOURCE :: ident where
  "BENCHMARK_RESOURCE = ''runtime-benchmark''"

definition MAX_CANDIDATES :: nat where "MAX_CANDIDATES = 3"

definition CANDIDATE_POLICIES :: "string list" where
  "CANDIDATE_POLICIES = [''balanced-v1'', ''conservative-v1'']"

section \<open>The request\<close>

fun stripped :: "json \<Rightarrow> json" where
  "stripped (JStr s) = JStr (py_strip s)"
| "stripped v = v"

fun hashable :: "json \<Rightarrow> bool" where
  "hashable (JList xs) = False"
| "hashable (JObj kvs) = False"
| "hashable v = True"

fun is_bool :: "json \<Rightarrow> bool" where
  "is_bool (JBool b) = True"
| "is_bool v = False"

definition decode_calibration_request :: "json \<Rightarrow> exn + json" where
  "decode_calibration_request payload = on_object payload (\<lambda>kvs.
     let profile_id = get_field kvs ''profile_id''; revision = get_field kvs ''expected_profile_revision'';
         model_alias = get_field kvs ''model_alias'';
         policy = get_or kvs ''candidate_policy'' (jstr ''balanced-v1'');
         accept_tight = get_or kvs ''accept_tight'' (JBool False);
         requested_by = get_or kvs ''requested_by'' (jstr ''cli'') in
     closed [''profile_id'', ''expected_profile_revision'', ''model_alias'', ''candidate_policy'',
       ''accept_tight'', ''requested_by''] kvs
     (requires (short_text 64 profile_id) ''profile_id must be a short non-empty string''
     (requires (int_from 1 revision) ''expected_profile_revision must be positive''
     (requires (short_text 128 model_alias) ''model_alias must be a short non-empty string''
     (if \<not> hashable policy then Inl (python_error ''TypeError'') else
      requires (one_of CANDIDATE_POLICIES policy) ''unknown calibration candidate policy''
     (requires (is_bool accept_tight) ''accept_tight must be boolean''
     (requires (short_text 64 requested_by) ''requested_by must be a short non-empty string''
       (Inr (JObj [(''profile_id'', stripped profile_id), (''expected_profile_revision'', revision),
          (''model_alias'', stripped model_alias), (''candidate_policy'', policy),
          (''accept_tight'', accept_tight), (''requested_by'', stripped requested_by)])))))))))"

section \<open>Checkpoints read back\<close>

text \<open>\<^verbatim>\<open>value[key]\<close> raises on a missing key.\<close>

definition item_at :: "fields \<Rightarrow> string \<Rightarrow> exn + json" where
  "item_at kvs k = (case map_of kvs k of None \<Rightarrow> Inl KeyError | Some v \<Rightarrow> Inr v)"

text \<open>
  \<^verbatim>\<open>tuple(dict(item) for item in value.get("candidates", ()))\<close>; the checkpoint is the one
  \<^verbatim>\<open>plan_execute\<close> wrote, a list of objects, and any other shape counts as malformed.
\<close>

fun plan_candidates :: "json \<Rightarrow> exn + json list" where
  "plan_candidates (JList xs) = (if list_all is_object xs then Inr xs else Inl (python_error ''TypeError''))"
| "plan_candidates v = Inl (python_error ''TypeError'')"

record calibration_plan =
  cp_profile_id :: pystr
  cp_profile_revision :: int
  cp_profile_fingerprint :: pystr
  cp_expected_evidence_fingerprint :: pystr
  cp_model_alias :: pystr
  cp_runtime_component_identity :: pystr
  cp_candidates :: "json list"
  cp_model_content_digest :: json
  cp_model_quant :: json

definition plan_of :: "(json \<Rightarrow> pystr) \<Rightarrow> (json \<Rightarrow> exn + int) \<Rightarrow> 'w effect_ctx \<Rightarrow> exn + calibration_plan" where
  "plan_of shown reading ctx = requires (is_object (output_of (x_prior_outputs ctx) ''resolve_plan''))
     ''calibration plan checkpoint is missing''
     (let kvs = object_fields (output_of (x_prior_outputs ctx) ''resolve_plan'') in
      sum_bind (item_at kvs ''profile_id'') (\<lambda>profile_id.
      sum_bind (item_at kvs ''profile_revision'') (\<lambda>revision.
      sum_bind (py_int reading revision) (\<lambda>revision.
      sum_bind (item_at kvs ''profile_fingerprint'') (\<lambda>fingerprint.
      sum_bind (item_at kvs ''expected_evidence_fingerprint'') (\<lambda>evidence.
      sum_bind (item_at kvs ''model_alias'') (\<lambda>alias.
      sum_bind (item_at kvs ''runtime_component_identity'') (\<lambda>component.
      sum_bind (plan_candidates (get_or kvs ''candidates'' (JList []))) (\<lambda>candidates.
      Inr \<lparr>cp_profile_id = py_str shown profile_id, cp_profile_revision = revision,
           cp_profile_fingerprint = py_str shown fingerprint,
           cp_expected_evidence_fingerprint = py_str shown evidence,
           cp_model_alias = py_str shown alias, cp_runtime_component_identity = py_str shown component,
           cp_candidates = candidates, cp_model_content_digest = get_field kvs ''model_content_digest'',
           cp_model_quant = get_field kvs ''model_quant''\<rparr>)))))))))"

record calibration_baseline =
  cb_config :: json
  cb_known_good :: "json option"
  cb_service_active :: bool
  cb_service_verified :: bool

definition baseline_of :: "'w effect_ctx \<Rightarrow> exn + calibration_baseline" where
  "baseline_of ctx = requires (is_object (output_of (x_prior_outputs ctx) ''capture_baseline''))
     ''calibration baseline checkpoint is missing''
     (let value = output_of (x_prior_outputs ctx) ''capture_baseline'';
          config = or_empty (attr value ''config''); known_good = attr value ''known_good'' in
      if \<not> is_object config then Inl (python_error ''TypeError'')
      else Inr \<lparr>cb_config = config, cb_known_good = (if is_object known_good then Some known_good else None),
                cb_service_active = (\<not> falsy (attr value ''service_active'')),
                cb_service_verified = (\<not> falsy (attr value ''service_verified''))\<rparr>)"

section \<open>The winner\<close>

definition measure_key :: "nat \<Rightarrow> ident" where
  "measure_key index = ''measure_candidate_'' @ [char_of (49 + index :: nat)]"

fun numeric :: "json \<Rightarrow> bool" where
  "numeric (JInt n) = True"
| "numeric (JFloat t) = True"
| "numeric (JBool b) = True"
| "numeric v = False"

definition complete_result :: "json \<Rightarrow> bool" where
  "complete_result v \<longleftrightarrow> is_object v \<and> attr v ''status'' = jstr ''COMPLETE'' \<and>
     numeric (attr v ''generation_per_second'')"

definition completed_results :: "(ident \<rightharpoonup> json) \<Rightarrow> json list" where
  "completed_results outputs =
     filter complete_result (map (\<lambda>index. output_of outputs (measure_key index)) [0..<MAX_CANDIDATES])"

text \<open>
  \<^verbatim>\<open>max(completed, key=...)\<close> computes every key once and keeps the first of the
  greatest: the higher rate, then the lower index.
\<close>

definition rank :: "(json \<Rightarrow> int) \<Rightarrow> (json \<Rightarrow> exn + int) \<Rightarrow> json \<Rightarrow> exn + int \<times> int" where
  "rank rate reading item =
     sum_bind (if falsy (attr item ''candidate_index'') then Inr 0 else py_int reading (attr item ''candidate_index''))
       (\<lambda>index. Inr (rate (attr item ''generation_per_second''), - index))"

definition better :: "int \<times> int \<Rightarrow> int \<times> int \<Rightarrow> bool" where
  "better a b \<longleftrightarrow> fst b < fst a \<or> fst a = fst b \<and> snd b < snd a"

fun best :: "(json \<Rightarrow> exn + int \<times> int) \<Rightarrow> json \<Rightarrow> int \<times> int \<Rightarrow> json list \<Rightarrow> exn + json" where
  "best key cand best_key [] = Inr cand"
| "best key cand best_key (x # xs) = sum_bind (key x) (\<lambda>k.
     if better k best_key then best key x k xs else best key cand best_key xs)"

definition winner :: "(json \<Rightarrow> int) \<Rightarrow> (json \<Rightarrow> exn + int) \<Rightarrow> (ident \<rightharpoonup> json) \<Rightarrow> exn + json option" where
  "winner rate reading outputs = (case completed_results outputs of
     [] \<Rightarrow> Inr None
   | x # xs \<Rightarrow> sum_bind (rank rate reading x) (\<lambda>k.
       sum_bind (best (rank rate reading) x k xs) (\<lambda>v. Inr (Some v))))"

section \<open>Steps\<close>

record 'w calibration_host =
  kh_preflight :: "json \<Rightarrow> ('w, unit) prog"
  kh_resolve_plan :: "json \<Rightarrow> ('w, json) prog"
  kh_capture_baseline :: "json \<Rightarrow> calibration_plan \<Rightarrow> ('w, json) prog"
  kh_probe_candidate :: "'w effect_ctx \<Rightarrow> nat \<Rightarrow> ('w, probe_result) prog"
  kh_run_candidate :: "'w effect_ctx \<Rightarrow> nat \<Rightarrow> ('w, json) prog"
  kh_verify_candidate :: "'w effect_ctx \<Rightarrow> nat \<Rightarrow> ('w, json) prog"
  kh_restore_baseline :: "'w effect_ctx \<Rightarrow> ('w, json) prog"
  kh_probe_restoration :: "'w effect_ctx \<Rightarrow> ('w, probe_result) prog"
  kh_verify_restoration :: "'w effect_ctx \<Rightarrow> ('w, json) prog"
  kh_probe_recorded_winner :: "'w effect_ctx \<Rightarrow> ('w, probe_result) prog"
  kh_record_winner :: "'w effect_ctx \<Rightarrow> ('w, json) prog"

text \<open>The Python conversions the workflow is given.\<close>

record conversions =
  py_shown :: "json \<Rightarrow> pystr"
  py_reading :: "json \<Rightarrow> exn + int"
  py_rate :: "json \<Rightarrow> int"

definition the_plan :: "conversions \<Rightarrow> 'w effect_ctx \<Rightarrow> ('w, calibration_plan) prog" where
  "the_plan c ctx = lift (plan_of (py_shown c) (py_reading c) ctx)"

definition plan_verify :: "conversions \<Rightarrow> 'w effect_ctx \<Rightarrow> ('w, json) prog" where
  "plan_verify c ctx = bind (the_plan c ctx) (\<lambda>plan.
     if 1 \<le> length (cp_candidates plan) \<and> length (cp_candidates plan) \<le> MAX_CANDIDATES then ret (JObj [])
     else throw (OperationValidationError ''calibration plan candidate bound violated''))"

definition baseline_execute :: "conversions \<Rightarrow> 'w calibration_host \<Rightarrow> 'w effect_ctx \<Rightarrow> ('w, json) prog" where
  "baseline_execute c h ctx = bind (the_plan c ctx) (\<lambda>plan. kh_capture_baseline h (x_request ctx) plan)"

definition baseline_verify :: "'w effect_ctx \<Rightarrow> ('w, json) prog" where
  "baseline_verify ctx = bind (lift (baseline_of ctx)) (\<lambda>_. ret (JObj []))"

definition candidate_input :: "conversions \<Rightarrow> nat \<Rightarrow> json \<Rightarrow> (ident \<rightharpoonup> json) \<Rightarrow> exn + json" where
  "candidate_input c index request prior =
    (let candidates = list_of (attr (or_empty (output_of prior ''resolve_plan'')) ''candidates'') in
     Inr (JObj [(''candidate_index'', JInt (int index)),
       (''candidate_fingerprint'', if index < length candidates
          then JStr (py_str (py_shown c) (attr (candidates ! index) ''candidate_fingerprint''))
          else jstr ''SKIPPED'')]))"

definition with_checkpoints :: "conversions \<Rightarrow> 'w effect_ctx \<Rightarrow> ('w, 'a) prog \<Rightarrow> ('w, 'a) prog" where
  "with_checkpoints c ctx m = bind (the_plan c ctx) (\<lambda>_. bind (lift (baseline_of ctx)) (\<lambda>_. m))"

definition measure_step :: "conversions \<Rightarrow> 'w calibration_host \<Rightarrow> nat \<Rightarrow> 'w step_def" where
  "measure_step c h index =
     (declared_step (measure_key index) ''running'' (int index + 3) (candidate_input c index)
       (\<lambda>ctx. with_checkpoints c ctx (kh_probe_candidate h ctx index))
       (\<lambda>ctx. with_checkpoints c ctx (kh_run_candidate h ctx index))
       (\<lambda>ctx. kh_verify_candidate h ctx index) [BENCHMARK_RESOURCE, RUNTIME_RESOURCE])
     \<lparr>sd_externally_visible := True, sd_critical := True,
      sd_compensate := Some (kh_restore_baseline h), sd_verify_restoration := Some (kh_verify_restoration h),
      sd_probe_restoration := Some (kh_probe_restoration h)\<rparr>"

definition winner_input :: "conversions \<Rightarrow> json \<Rightarrow> (ident \<rightharpoonup> json) \<Rightarrow> exn + json" where
  "winner_input c request prior = sum_bind (winner (py_rate c) (py_reading c) prior) (\<lambda>w.
     Inr (JObj [(''winner_fingerprint'',
       case w of None \<Rightarrow> JNull | Some v \<Rightarrow> attr (or_empty v) ''candidate_fingerprint'')]))"

definition calibration_steps :: "conversions \<Rightarrow> 'w calibration_host \<Rightarrow> 'w step_def list" where
  "calibration_steps c h =
    [(declared_step ''resolve_plan'' ''preparing'' 1 (\<lambda>_ _. Inr (JObj []))
       (\<lambda>_. ret (probed ABSENT ''PLAN_NOT_CHECKPOINTED'' None)) (\<lambda>ctx. kh_resolve_plan h (x_request ctx))
       (plan_verify c) [BENCHMARK_RESOURCE])\<lparr>sd_effect_disposition := ''NONE'', sd_safe_if_uncertain := True\<rparr>,
     (declared_step ''capture_baseline'' ''preparing'' 2 (\<lambda>_ _. Inr (JObj []))
       (\<lambda>_. ret (probed ABSENT ''BASELINE_NOT_CHECKPOINTED'' None)) (baseline_execute c h)
       baseline_verify [BENCHMARK_RESOURCE, RUNTIME_RESOURCE])
       \<lparr>sd_effect_disposition := ''NONE'', sd_safe_if_uncertain := True\<rparr>] @
    map (measure_step c h) [0..<MAX_CANDIDATES] @
    [(declared_step ''record_winner'' ''committing'' 6 (winner_input c) (kh_probe_recorded_winner h)
       (kh_record_winner h) (\<lambda>_. ret (JObj [])) [BENCHMARK_RESOURCE])
       \<lparr>sd_externally_visible := True, sd_critical := True, sd_effect_disposition := ''HIDDEN_DURABLE'',
        sd_safe_if_uncertain := True\<rparr>]"

definition winner_fields :: "string list" where
  "winner_fields = [''candidate_index'', ''candidate_fingerprint'', ''evidence_fingerprint'',
     ''generation_per_second'', ''prompt_per_second'', ''time_to_first_unit_ms'', ''peak_temperature_c'',
     ''throttling_class'']"

definition calibration_terminal :: "conversions \<Rightarrow> json \<Rightarrow> (ident \<rightharpoonup> json) \<Rightarrow> exn + terminal_decision" where
  "calibration_terminal c request outputs =
     sum_bind (winner (py_rate c) (py_reading c) outputs) (\<lambda>w. case w of
       None \<Rightarrow> make_terminal_decision FAILED_SAFE ''CALIBRATION_NO_COMPLETE_CANDIDATE''
         (JObj [(''completed_candidates'', JInt 0), (''winner'', JNull)])
         ''calibration completed without a usable candidate''
     | Some v \<Rightarrow> make_terminal_decision SUCCEEDED ''CALIBRATION_WINNER_PROPOSED''
         (JObj [(''completed_candidates'', JInt (int (length (filter
                   (\<lambda>index. attr (or_empty (output_of outputs (measure_key index))) ''status'' = jstr ''COMPLETE'')
                   [0..<MAX_CANDIDATES])))),
                (''winner'', JObj (map (\<lambda>k. (k, attr v k)) winner_fields)), (''applied'', JBool False)])
         ''calibration finished; winner is a proposal and was not applied'')"

definition build_calibration_workflow :: "conversions \<Rightarrow> 'w calibration_host \<Rightarrow> 'w workflow_def" where
  "build_calibration_workflow c h =
     (declared_workflow PROFILE_CALIBRATE decode_calibration_request (calibration_steps c h) (calibration_terminal c))
     \<lparr>wf_preflight := kh_preflight h,
      wf_recovery_barrier_resources := [BENCHMARK_RESOURCE, RUNTIME_RESOURCE]\<rparr>"

end
