(* ===== verification/Application_Update.thy ===== *)
theory Application_Update
  imports Requests
begin

text \<open>
  The application update workflow (\<^verbatim>\<open>operations/application_update.py\<close>): a request
  bound to a release set and to the installation it expects, and seven phase-scoped steps
  that stage, publish, migrate and record, with an inverse where one exists.
\<close>

definition UPDATE_RESOURCES :: "ident list" where
  "UPDATE_RESOURCES = [''application-installation'', ''profile-publication'']"

definition UPDATE_MODES :: "string list" where
  "UPDATE_MODES = [''APPLY'', ''ROLLBACK'']"

definition surface_char :: "nat \<Rightarrow> bool" where
  "surface_char c \<longleftrightarrow> alphanumeric c \<or> c \<in> set (cps ''._-'')"

fun surface_name :: "json \<Rightarrow> bool" where
  "surface_name (JStr (c # s)) = (alphanumeric c \<and> list_all surface_char s \<and> length s \<le> 63)"
| "surface_name v = False"

definition decode_application_update_request :: "(json \<Rightarrow> pystr) \<Rightarrow> json \<Rightarrow> exn + json" where
  "decode_application_update_request shown payload = on_object payload (\<lambda>kvs.
     let mode = upper_name shown (get_field kvs ''mode'');
         prior = get_field kvs ''expected_previous_installation_id'';
         generation = get_field kvs ''expected_pointer_generation'';
         surface = get_or kvs ''requested_by'' (jstr ''cli'');
         release = get_field kvs ''release_set_digest'';
         current = get_field kvs ''expected_current_installation_id'' in
     closed [''mode'', ''release_set_digest'', ''expected_current_installation_id'',
       ''expected_previous_installation_id'', ''expected_pointer_generation'', ''preview_digest'',
       ''confirmation_digest'', ''requested_by''] kvs
     (requires (one_of UPDATE_MODES mode) ''application update mode is unknown''
     (requires (absent_or sha256_digest prior) ''expected_previous_installation_id must be lowercase sha256 hex''
     (requires (int_within 0 (2 ^ 63 - 1) generation) ''pointer generation is invalid''
     (requires (surface_name surface) ''requested_by is invalid''
     (requires (sha256_digest release) ''release_set_digest must be lowercase sha256 hex''
     (requires (sha256_digest current) ''expected_current_installation_id must be lowercase sha256 hex''
     (requires (mode = jstr ''ROLLBACK'' \<longrightarrow> release = prior)
         ''rollback release must equal the expected previous installation''
     (requires (release \<noteq> current) ''application update target is already current''
     (requires (sha256_digest (get_field kvs ''preview_digest'')) ''preview_digest must be lowercase sha256 hex''
     (requires (sha256_digest (get_field kvs ''confirmation_digest'')) ''confirmation_digest must be lowercase sha256 hex''
       (Inr (JObj [(''mode'', mode), (''release_set_digest'', release),
          (''expected_current_installation_id'', current), (''expected_previous_installation_id'', prior),
          (''expected_pointer_generation'', generation), (''preview_digest'', get_field kvs ''preview_digest''),
          (''confirmation_digest'', get_field kvs ''confirmation_digest''),
          (''requested_by'', surface)])))))))))))))"

record 'w update_host =
  vh_verify_release :: "'w effect_ctx \<Rightarrow> ('w, json) prog"
  vh_probe_release :: "'w effect_ctx \<Rightarrow> ('w, probe_result) prog"
  vh_stage_candidate :: "'w effect_ctx \<Rightarrow> ('w, json) prog"
  vh_probe_staged :: "'w effect_ctx \<Rightarrow> ('w, probe_result) prog"
  vh_discard_stage :: "'w effect_ctx \<Rightarrow> ('w, json) prog"
  vh_probe_stage_discarded :: "'w effect_ctx \<Rightarrow> ('w, probe_result) prog"
  vh_ensure_backup :: "'w effect_ctx \<Rightarrow> ('w, json) prog"
  vh_probe_backup :: "'w effect_ctx \<Rightarrow> ('w, probe_result) prog"
  vh_publish_pointer :: "'w effect_ctx \<Rightarrow> ('w, json) prog"
  vh_probe_pointer :: "'w effect_ctx \<Rightarrow> ('w, probe_result) prog"
  vh_restore_pointer :: "'w effect_ctx \<Rightarrow> ('w, json) prog"
  vh_probe_pointer_restored :: "'w effect_ctx \<Rightarrow> ('w, probe_result) prog"
  vh_launch_post_update :: "'w effect_ctx \<Rightarrow> ('w, json) prog"
  vh_probe_acknowledgment :: "'w effect_ctx \<Rightarrow> ('w, probe_result) prog"
  vh_restore_profile :: "'w effect_ctx \<Rightarrow> ('w, json) prog"
  vh_probe_profile_restored :: "'w effect_ctx \<Rightarrow> ('w, probe_result) prog"
  vh_verify_health :: "'w effect_ctx \<Rightarrow> ('w, json) prog"
  vh_probe_health :: "'w effect_ctx \<Rightarrow> ('w, probe_result) prog"
  vh_record_installation :: "'w effect_ctx \<Rightarrow> ('w, json) prog"
  vh_probe_recorded :: "'w effect_ctx \<Rightarrow> ('w, probe_result) prog"

section \<open>Steps\<close>

definition update_result :: "string \<Rightarrow> ('w effect_ctx \<Rightarrow> ('w, json) prog) \<Rightarrow> 'w effect_ctx \<Rightarrow> ('w, json) prog" where
  "update_result name m ctx = bind (m ctx) (\<lambda>v. ret (JObj [(name, v)]))"

definition update_proven :: "string \<Rightarrow> ('w effect_ctx \<Rightarrow> ('w, probe_result) prog) \<Rightarrow> 'w effect_ctx \<Rightarrow> ('w, json) prog" where
  "update_proven code probe ctx = bind (probe ctx) (require_complete (OperationValidationError code) (JObj []))"

text \<open>\<^verbatim>\<open>(prior.get(key) or {}).get(name)\<close>.\<close>

definition earlier :: "(ident \<rightharpoonup> json) \<Rightarrow> ident \<Rightarrow> string \<Rightarrow> json" where
  "earlier prior key name = attr (or_empty (output_of prior key)) name"

definition asked :: "json \<Rightarrow> string list \<Rightarrow> fields" where
  "asked request names = map (\<lambda>k. (k, attr request k)) names"

definition update_step :: "ident \<Rightarrow> string \<Rightarrow> int \<Rightarrow> (json \<Rightarrow> (ident \<rightharpoonup> json) \<Rightarrow> fields) \<Rightarrow> string \<Rightarrow> ident list \<Rightarrow>
    string \<Rightarrow> string \<Rightarrow> ('w effect_ctx \<Rightarrow> ('w, json) prog) \<Rightarrow> ('w effect_ctx \<Rightarrow> ('w, probe_result) prog) \<Rightarrow> 'w step_def" where
  "update_step key phase position inputs disposition resources output code execute probe =
     (declared_step key phase position (\<lambda>request prior. Inr (JObj (inputs request prior))) probe
       (update_result output execute) (update_proven code probe) resources)
     \<lparr>sd_effect_disposition := disposition\<rparr>"

definition undone_by :: "string \<Rightarrow> string \<Rightarrow> ('w effect_ctx \<Rightarrow> ('w, json) prog) \<Rightarrow>
    ('w effect_ctx \<Rightarrow> ('w, probe_result) prog) \<Rightarrow> 'w step_def \<Rightarrow> 'w step_def" where
  "undone_by output code undo probe step =
     step\<lparr>sd_compensate := Some (update_result output undo), sd_probe_restoration := Some probe,
          sd_verify_restoration := Some (update_proven code probe)\<rparr>"

definition visibly_critical :: "'w step_def \<Rightarrow> 'w step_def" where
  "visibly_critical step = step\<lparr>sd_externally_visible := True, sd_critical := True\<rparr>"

definition application_update_steps :: "'w update_host \<Rightarrow> 'w step_def list" where
  "application_update_steps h =
    [update_step ''verify_release_set'' ''verify-release'' 1
       (\<lambda>request prior. asked request [''mode'', ''release_set_digest'', ''preview_digest''])
       ''HIDDEN_DURABLE'' [''application-installation''] ''release'' ''RELEASE_NOT_VERIFIED''
       (vh_verify_release h) (vh_probe_release h),
     undone_by ''discard'' ''STAGING_NOT_DISCARDED'' (vh_discard_stage h) (vh_probe_stage_discarded h)
      (update_step ''stage_candidate'' ''stage'' 2
       (\<lambda>request prior. asked request [''release_set_digest''] @
          [(''release'', earlier prior ''verify_release_set'' ''release'')])
       ''REVERSIBLE'' [''application-installation''] ''stage'' ''STAGING_NOT_VERIFIED''
       (vh_stage_candidate h) (vh_probe_staged h)),
     update_step ''verify_profile_backup'' ''backup'' 3
       (\<lambda>request prior. asked request [''release_set_digest''] @
          [(''source_schema'', attr (or_empty (earlier prior ''verify_release_set'' ''release'')) ''source_schema'')])
       ''FORWARD_ONLY'' [''application-installation''] ''backup'' ''VERIFIED_BACKUP_REQUIRED''
       (vh_ensure_backup h) (vh_probe_backup h),
     visibly_critical (undone_by ''restoration'' ''POINTER_ROLLBACK_NOT_VERIFIED''
        (vh_restore_pointer h) (vh_probe_pointer_restored h)
      (update_step ''publish_pointers'' ''publish'' 4
       (\<lambda>request prior. asked request [''mode'', ''release_set_digest'', ''expected_current_installation_id'',
            ''expected_previous_installation_id'', ''expected_pointer_generation''] @
          [(''stage'', earlier prior ''stage_candidate'' ''stage''),
           (''backup'', earlier prior ''verify_profile_backup'' ''backup'')])
       ''REVERSIBLE'' UPDATE_RESOURCES ''publication'' ''POINTER_PUBLICATION_NOT_VERIFIED''
       (vh_publish_pointer h) (vh_probe_pointer h))),
     visibly_critical (undone_by ''profile'' ''PROFILE_RESTORE_FAILED''
        (vh_restore_profile h) (vh_probe_profile_restored h)
      (update_step ''post_update_ack'' ''migrate-and-ack'' 5
       (\<lambda>request prior. asked request [''release_set_digest''] @
          [(''publication'', earlier prior ''publish_pointers'' ''publication''),
           (''backup'', earlier prior ''verify_profile_backup'' ''backup'')])
       ''REVERSIBLE'' UPDATE_RESOURCES ''ack'' ''POST_UPDATE_ACK_INVALID''
       (vh_launch_post_update h) (vh_probe_acknowledgment h))),
     update_step ''verify_application_health'' ''health'' 6
       (\<lambda>request prior. asked request [''release_set_digest''] @
          [(''ack'', earlier prior ''post_update_ack'' ''ack'')])
       ''HIDDEN_DURABLE'' UPDATE_RESOURCES ''health'' ''POST_UPDATE_HEALTH_FAILED''
       (vh_verify_health h) (vh_probe_health h),
     (update_step ''record_installation'' ''record'' 7
       (\<lambda>request prior. asked request [''mode'', ''release_set_digest''] @
          [(''publication'', earlier prior ''publish_pointers'' ''publication''),
           (''ack'', earlier prior ''post_update_ack'' ''ack'')])
       ''HIDDEN_DURABLE'' UPDATE_RESOURCES ''record'' ''INSTALLATION_RECORD_MISSING''
       (vh_record_installation h) (vh_probe_recorded h))\<lparr>sd_critical := True\<rparr>]"

definition update_terminal :: "json \<Rightarrow> (ident \<rightharpoonup> json) \<Rightarrow> exn + terminal_decision" where
  "update_terminal request outputs =
    (let apply_mode = (attr request ''mode'' = jstr ''APPLY'') in
     make_terminal_decision SUCCEEDED
       (if apply_mode then ''APPLICATION_UPDATED'' else ''APPLICATION_ROLLED_BACK'')
       (JObj (asked request [''mode'', ''release_set_digest''] @
          [(''pointer_generation'',
            attr (or_empty (earlier outputs ''record_installation'' ''record'')) ''pointer_generation'')]))
       (if apply_mode then ''application update verified'' else ''application rollback verified''))"

definition build_application_update_workflow :: "(json \<Rightarrow> pystr) \<Rightarrow> 'w update_host \<Rightarrow> 'w workflow_def" where
  "build_application_update_workflow shown h =
     (declared_workflow APPLICATION_UPDATE (decode_application_update_request shown) (application_update_steps h) update_terminal)
     \<lparr>wf_phase_scoped_resources := True, wf_recovery_barrier_resources := UPDATE_RESOURCES\<rparr>"

end
