(* ===== verification/Integration_Setup.thy ===== *)
theory Integration_Setup
  imports Requests
begin

text \<open>
  The connection workflow (\<^verbatim>\<open>operations/integration_setup.py\<close>) and the closed gate
  of model conversion (\<^verbatim>\<open>operations/model_convert.py\<close>). The connection request
  carries the baseline that was observed before any effect, which the inverses restore.
\<close>

section \<open>The connection request\<close>

definition INTEGRATION_RESOURCES :: "ident list" where
  "INTEGRATION_RESOURCES = [''connection-clients'', ''integration-gateway'', ''integration-openwebui'',
     ''integration-sharing'', ''runtime-active'']"

definition CLIENT_KIND_FOR_INTENT :: "(string \<times> string) list" where
  "CLIENT_KIND_FOR_INTENT = [(''OPENWEBUI'', ''openwebui''), (''PHONE_TABLET'', ''pocketpal''),
     (''DESKTOP_APP'', ''openai''), (''DEVELOPER'', ''curl'')]"

definition client_identity :: "pystr \<Rightarrow> bool" where
  "client_identity s \<longleftrightarrow> length s = 32 \<and> list_all hex_char s"

definition public_alias :: "pystr \<Rightarrow> bool" where
  "public_alias s \<longleftrightarrow> 1 \<le> length s \<and> length s \<le> 128 \<and>
     list_all (\<lambda>c. alphanumeric c \<or> c \<in> set (cps ''_.:/+-'')) s"

fun requester :: "pystr \<Rightarrow> bool" where
  "requester [] = False"
| "requester (c # s) = (alphanumeric c \<and> list_all (\<lambda>x. alphanumeric x \<or> x \<in> set (cps ''._-'')) s \<and> length s \<le> 63)"

text \<open>\<^verbatim>\<open>_short\<close>: the words of a text, within the limit and free of control characters.\<close>

fun label_text :: "json \<Rightarrow> pystr" where
  "label_text (JStr s) = spaced_words s"
| "label_text v = []"

definition label_within :: "nat \<Rightarrow> json \<Rightarrow> bool" where
  "label_within n v \<longleftrightarrow> 1 \<le> length (label_text v) \<and> length (label_text v) \<le> n \<and>
     list_all (\<lambda>c. 32 \<le> c) (label_text v)"

definition text_of :: "(json \<Rightarrow> pystr) \<Rightarrow> json \<Rightarrow> string \<Rightarrow> pystr" where
  "text_of shown v fallback = (if falsy v then cps fallback else py_str shown v)"

fun is_flag :: "json \<Rightarrow> bool" where
  "is_flag (JBool b) = True"
| "is_flag v = False"

fun list_up_to :: "nat \<Rightarrow> json \<Rightarrow> bool" where
  "list_up_to n (JList xs) = (length xs \<le> n)"
| "list_up_to n v = False"

definition normalized :: "(json \<Rightarrow> pystr) \<Rightarrow> json \<Rightarrow> pystr list" where
  "normalized shown v = sorted_keys (map (py_str shown) (list_of v))"

definition flag_names :: "string list" where
  "flag_names = [''require_tailnet'', ''baseline_access_enabled'', ''baseline_model_active'',
     ''baseline_openwebui_running'', ''baseline_sharing_enabled'']"

definition setup_fields :: "string list" where
  "setup_fields = [''intent'', ''client_id'', ''client_label'', ''client_kind'', ''webui_client_id'',
     ''public_alias'', ''require_tailnet'', ''baseline_client_ids'', ''baseline_access_enabled'',
     ''baseline_model_active'', ''baseline_gateway_consumers'', ''baseline_openwebui_running'',
     ''baseline_sharing_enabled'', ''requested_by'']"

definition kind_matches :: "pystr \<Rightarrow> pystr \<Rightarrow> bool" where
  "kind_matches intent kind \<longleftrightarrow> (\<exists>p \<in> set CLIENT_KIND_FOR_INTENT. intent = cps (fst p) \<and> kind = cps (snd p))"

definition decode_integration_setup_request :: "(json \<Rightarrow> pystr) \<Rightarrow> json \<Rightarrow> exn + json" where
  "decode_integration_setup_request shown payload = on_object payload (\<lambda>kvs.
     let intent = py_upper (text_of shown (get_field kvs ''intent'') '''');
         client_id = text_of shown (get_field kvs ''client_id'') '''';
         webui_client_id = text_of shown (get_field kvs ''webui_client_id'') '''';
         alias = text_of shown (get_field kvs ''public_alias'') '''';
         consumers = get_field kvs ''baseline_gateway_consumers'';
         client_ids = get_field kvs ''baseline_client_ids'';
         requested_by = text_of shown (get_field kvs ''requested_by'') ''gui'';
         kind = get_field kvs ''client_kind''; label = get_field kvs ''client_label'' in
     closed setup_fields kvs
     (requires (intent \<in> set (map (\<lambda>p. cps (fst p)) CLIENT_KIND_FOR_INTENT)) ''connection intent is unknown''
     (requires (client_identity client_id \<and> client_identity webui_client_id) ''client identities must be generated UUID hex''
     (requires (public_alias alias) ''public model alias is invalid''
     (requires (list_all (\<lambda>k. is_flag (get_field kvs k)) flag_names) ''integration baseline flags must be booleans''
     (requires (list_up_to 3 consumers) ''gateway consumer baseline is invalid''
     (requires (set (normalized shown consumers) \<subseteq> set (map cps [''client'', ''openwebui'', ''sharing'']))
         ''gateway consumer baseline is invalid''
     (requires (list_up_to 32 client_ids) ''client baseline is invalid''
     (requires (list_all (\<lambda>s. client_identity s \<or> s = cps ''legacy-install'') (normalized shown client_ids))
         ''client baseline is invalid''
     (requires (requester requested_by) ''requested_by is invalid''
     (requires (label_within 24 kind) ''client_kind is invalid''
     (requires (kind_matches intent (label_text kind)) ''client kind does not match the connection intent''
     (requires ((intent = cps ''OPENWEBUI'') = (client_id = webui_client_id))
         ''Open WebUI and external clients must use separate identities''
     (requires (label_within 80 label) ''client_label is invalid''
       (Inr (JObj [(''intent'', JStr intent), (''client_id'', JStr client_id),
          (''client_label'', JStr (label_text label)), (''client_kind'', JStr (label_text kind)),
          (''webui_client_id'', JStr webui_client_id), (''public_alias'', JStr alias),
          (''require_tailnet'', get_field kvs ''require_tailnet''),
          (''baseline_client_ids'', JList (map JStr (normalized shown client_ids))),
          (''baseline_access_enabled'', get_field kvs ''baseline_access_enabled''),
          (''baseline_model_active'', get_field kvs ''baseline_model_active''),
          (''baseline_gateway_consumers'', JList (map JStr (normalized shown consumers))),
          (''baseline_openwebui_running'', get_field kvs ''baseline_openwebui_running''),
          (''baseline_sharing_enabled'', get_field kvs ''baseline_sharing_enabled''),
          (''requested_by'', JStr requested_by)]))))))))))))))))"

section \<open>Steps\<close>

record 'w integration_host =
  ih_ensure_clients :: "'w effect_ctx \<Rightarrow> ('w, json) prog"
  ih_probe_clients :: "'w effect_ctx \<Rightarrow> ('w, probe_result) prog"
  ih_remove_created_clients :: "'w effect_ctx \<Rightarrow> ('w, json) prog"
  ih_probe_clients_restored :: "'w effect_ctx \<Rightarrow> ('w, probe_result) prog"
  ih_start_model :: "'w effect_ctx \<Rightarrow> ('w, json) prog"
  ih_probe_model :: "'w effect_ctx \<Rightarrow> ('w, probe_result) prog"
  ih_restore_model :: "'w effect_ctx \<Rightarrow> ('w, json) prog"
  ih_probe_model_restored :: "'w effect_ctx \<Rightarrow> ('w, probe_result) prog"
  ih_start_gateway :: "'w effect_ctx \<Rightarrow> ('w, json) prog"
  ih_probe_gateway :: "'w effect_ctx \<Rightarrow> ('w, probe_result) prog"
  ih_restore_gateway :: "'w effect_ctx \<Rightarrow> ('w, json) prog"
  ih_probe_gateway_restored :: "'w effect_ctx \<Rightarrow> ('w, probe_result) prog"
  ih_start_openwebui :: "'w effect_ctx \<Rightarrow> ('w, json) prog"
  ih_probe_openwebui :: "'w effect_ctx \<Rightarrow> ('w, probe_result) prog"
  ih_restore_openwebui :: "'w effect_ctx \<Rightarrow> ('w, json) prog"
  ih_probe_openwebui_restored :: "'w effect_ctx \<Rightarrow> ('w, probe_result) prog"
  ih_publish_tailnet :: "'w effect_ctx \<Rightarrow> ('w, json) prog"
  ih_probe_tailnet :: "'w effect_ctx \<Rightarrow> ('w, probe_result) prog"
  ih_restore_tailnet :: "'w effect_ctx \<Rightarrow> ('w, json) prog"
  ih_probe_tailnet_restored :: "'w effect_ctx \<Rightarrow> ('w, probe_result) prog"
  ih_verify_client :: "'w effect_ctx \<Rightarrow> ('w, json) prog"
  ih_probe_client_verification :: "'w effect_ctx \<Rightarrow> ('w, probe_result) prog"

definition setup_proven :: "string \<Rightarrow> ('w effect_ctx \<Rightarrow> ('w, probe_result) prog) \<Rightarrow> 'w effect_ctx \<Rightarrow> ('w, json) prog" where
  "setup_proven code probe ctx = bind (probe ctx) (\<lambda>result.
     require_complete (OperationValidationError code)
       (case pr_output result of None \<Rightarrow> JObj [] | Some v \<Rightarrow> or_empty v) result)"

definition setup_step :: "ident \<Rightarrow> string \<Rightarrow> int \<Rightarrow> (string \<times> string) list \<Rightarrow> string \<Rightarrow> string \<Rightarrow>
    ('w effect_ctx \<Rightarrow> ('w, json) prog) \<Rightarrow> ('w effect_ctx \<Rightarrow> ('w, probe_result) prog) \<Rightarrow>
    ('w effect_ctx \<Rightarrow> ('w, json) prog) \<Rightarrow> ('w effect_ctx \<Rightarrow> ('w, probe_result) prog) \<Rightarrow> 'w step_def" where
  "setup_step key phase position inputs code undo_code execute probe undo probe_undone =
     (declared_step key phase position
       (\<lambda>request prior. Inr (JObj (map (\<lambda>(name, source). (name, attr request source)) inputs)))
       probe execute (setup_proven code probe) INTEGRATION_RESOURCES)
     \<lparr>sd_externally_visible := True, sd_compensate := Some undo, sd_probe_restoration := Some probe_undone,
      sd_verify_restoration := Some (setup_proven undo_code probe_undone)\<rparr>"

definition integration_steps :: "'w integration_host \<Rightarrow> 'w step_def list" where
  "integration_steps h =
    [setup_step ''ensure_clients'' ''client'' 1
       [(''client_id'', ''client_id''), (''webui_client_id'', ''webui_client_id''), (''intent'', ''intent''),
        (''baseline_client_ids'', ''baseline_client_ids''), (''baseline_access_enabled'', ''baseline_access_enabled'')]
       ''CLIENT_NOT_READY'' ''CLIENT_RESTORE_FAILED'' (ih_ensure_clients h) (ih_probe_clients h)
       (ih_remove_created_clients h) (ih_probe_clients_restored h),
     setup_step ''start_model'' ''model'' 2
       [(''public_alias'', ''public_alias''), (''baseline_active'', ''baseline_model_active'')]
       ''MODEL_NOT_READY'' ''MODEL_RESTORE_FAILED'' (ih_start_model h) (ih_probe_model h)
       (ih_restore_model h) (ih_probe_model_restored h),
     setup_step ''start_gateway'' ''gateway'' 3
       [(''baseline_consumers'', ''baseline_gateway_consumers'')]
       ''GATEWAY_NOT_READY'' ''GATEWAY_RESTORE_FAILED'' (ih_start_gateway h) (ih_probe_gateway h)
       (ih_restore_gateway h) (ih_probe_gateway_restored h),
     setup_step ''start_openwebui'' ''openwebui'' 4
       [(''baseline_running'', ''baseline_openwebui_running''), (''public_alias'', ''public_alias'')]
       ''OPENWEBUI_NOT_READY'' ''OPENWEBUI_RESTORE_FAILED'' (ih_start_openwebui h) (ih_probe_openwebui h)
       (ih_restore_openwebui h) (ih_probe_openwebui_restored h),
     setup_step ''publish_tailnet'' ''tailnet'' 5
       [(''required'', ''require_tailnet''), (''baseline_enabled'', ''baseline_sharing_enabled'')]
       ''TAILNET_NOT_READY'' ''TAILNET_RESTORE_FAILED'' (ih_publish_tailnet h) (ih_probe_tailnet h)
       (ih_restore_tailnet h) (ih_probe_tailnet_restored h),
     (declared_step ''verify_client'' ''verify'' 6
       (\<lambda>request prior. Inr (JObj (map (\<lambda>k. (k, attr request k))
          [''client_id'', ''public_alias'', ''require_tailnet''])))
       (ih_probe_client_verification h) (ih_verify_client h)
       (setup_proven ''CLIENT_TEST_FAILED'' (ih_probe_client_verification h)) INTEGRATION_RESOURCES)
       \<lparr>sd_effect_disposition := ''HIDDEN_DURABLE''\<rparr>]"

definition integration_terminal :: "json \<Rightarrow> (ident \<rightharpoonup> json) \<Rightarrow> exn + terminal_decision" where
  "integration_terminal request outputs =
    (let verification = or_empty (output_of outputs ''verify_client'') in
     make_terminal_decision SUCCEEDED ''INTEGRATION_READY''
       (JObj (map (\<lambda>k. (k, attr request k)) [''intent'', ''client_id'', ''public_alias''] @
          [(''local_ready'', JBool (\<not> falsy (attr verification ''local_ready''))),
           (''tailnet_ready'', JBool (\<not> falsy (attr verification ''tailnet_ready'')))]))
       ''named client integration verified'')"

definition build_integration_setup_workflow :: "(json \<Rightarrow> pystr) \<Rightarrow> 'w integration_host \<Rightarrow> 'w workflow_def" where
  "build_integration_setup_workflow shown h =
     declared_workflow INTEGRATION_SETUP (decode_integration_setup_request shown) (integration_steps h) integration_terminal"

section \<open>Model conversion\<close>

definition decode_convert_request :: "(json \<Rightarrow> pystr) \<Rightarrow> json \<Rightarrow> exn + json" where
  "decode_convert_request shown payload = on_object payload (\<lambda>kvs.
     closed [''source_alias'', ''target_quantization'', ''requested_by''] kvs
     (requires (short_text 128 (get_field kvs ''source_alias'')) ''source_alias must be a short non-empty string''
     (requires (short_text 128 (get_field kvs ''target_quantization'')) ''target_quantization must be a short non-empty string''
       (Inr (JObj [(''source_alias'', get_field kvs ''source_alias''),
          (''target_quantization'', get_field kvs ''target_quantization''),
          (''requested_by'', JStr (py_str shown (get_or kvs ''requested_by'' (jstr ''cli''))))])))))"

definition converter_available :: bool where
  "converter_available = False"

end
