(* ===== verification/Runtime_Lifecycle.thy ===== *)
theory Runtime_Lifecycle
  imports Requests
begin

text \<open>
  The runtime update and rollback workflows (\<^verbatim>\<open>operations/runtime_lifecycle.py\<close>):
  thirteen steps that build, exchange, restart, verify and promote a runtime, with a branch
  that reuses an active or prepared build, and ten steps that go back to the retained one.
  Evidence objects are the JSON objects of their fields.
\<close>

section \<open>Requests\<close>

definition RUNTIME_ACTIVE_RESOURCE :: ident where
  "RUNTIME_ACTIVE_RESOURCE = ''runtime-active''"

definition RUNTIME_INSTALLATION_RESOURCE :: ident where
  "RUNTIME_INSTALLATION_RESOURCE = ''runtime-installation''"

definition RUNTIME_REQUESTED_BY :: "string list" where
  "RUNTIME_REQUESTED_BY = [''cli'', ''gui'', ''setup'', ''repair'']"

definition ref_char :: "nat \<Rightarrow> bool" where
  "ref_char c \<longleftrightarrow> alphanumeric c \<or> c \<in> set (cps ''._/-'')"

fun source_ref :: "json \<Rightarrow> bool" where
  "source_ref (JStr s) = (1 \<le> length s \<and> length s \<le> 128 \<and> list_all ref_char s)"
| "source_ref v = False"

text \<open>\<^verbatim>\<open>valid_build_id\<close> of \<^verbatim>\<open>runtime_builds.py\<close>.\<close>

definition build_id_text :: "pystr \<Rightarrow> bool" where
  "build_id_text s \<longleftrightarrow>
     take 16 s = cps ''llamacpp:sha256:'' \<and> length s = 80 \<and> list_all hex_char (drop 16 s) \<or>
     take 7 s = cps ''legacy:'' \<and> length s \<le> 128"

fun valid_build_id :: "json \<Rightarrow> bool" where
  "valid_build_id (JStr s) = build_id_text s"
| "valid_build_id v = False"

definition decode_runtime_update_request :: "json \<Rightarrow> exn + json" where
  "decode_runtime_update_request payload = on_object payload (\<lambda>kvs.
     let requested_by = get_or kvs ''requested_by'' (jstr ''cli''); ref = get_field kvs ''requested_ref'';
         expected = get_field kvs ''expected_active_build_id'' in
     closed [''requested_ref'', ''expected_active_build_id'', ''requested_by''] kvs
     (requires (one_of RUNTIME_REQUESTED_BY requested_by) ''requested_by must be one of the known surfaces''
     (requires (absent_or source_ref ref) ''requested_ref must be a short bounded ref string''
     (requires (absent_or valid_build_id expected) ''expected_active_build_id must be a valid build id''
       (Inr (JObj [(''requested_by'', requested_by), (''requested_ref'', ref),
          (''expected_active_build_id'', expected)]))))))"

definition decode_runtime_rollback_request :: "json \<Rightarrow> exn + json" where
  "decode_runtime_rollback_request payload = on_object payload (\<lambda>kvs.
     let requested_by = get_or kvs ''requested_by'' (jstr ''cli'');
         expected = get_field kvs ''expected_active_build_id''; target = get_field kvs ''target_build_id'' in
     closed [''expected_active_build_id'', ''target_build_id'', ''requested_by''] kvs
     (requires (one_of RUNTIME_REQUESTED_BY requested_by) ''requested_by must be one of the known surfaces''
     (requires (valid_build_id expected) ''expected_active_build_id is required and must be a valid build id''
     (requires (valid_build_id target) ''target_build_id is required and must be a valid build id''
       (Inr (JObj [(''expected_active_build_id'', expected), (''target_build_id'', target),
          (''requested_by'', requested_by)]))))))"

section \<open>Evidence\<close>

text \<open>A dataclass: the fields without a default, and the others with theirs.\<close>

type_synonym dataclass = "string list \<times> fields"

definition ResolvedRuntimeSource :: dataclass where
  "ResolvedRuntimeSource = ([''requested_ref'', ''source_commit'', ''resolution''],
     [(''already_active'', JBool False), (''prepared_build_id'', JNull)])"

definition BuildPreflightEvidence :: dataclass where
  "BuildPreflightEvidence = ([''thermal_ok'', ''disk_ok'', ''disk_required_bytes'', ''disk_available_bytes'',
     ''filesystem_same_volume'', ''atomic_exchange_supported'', ''active_runtime_proven''],
     [(''legacy_adoption_used'', JBool False)])"

definition BuildEnvironmentEvidence :: dataclass where
  "BuildEnvironmentEvidence = ([''recipe_version'', ''recipe_digest'', ''cmake_generator''],
     [(''cmake_options'', JList []), (''cmake_targets'', JList []), (''parallelism_policy'', jstr ''''),
      (''container_image_id'', jstr ''''), (''container_image_digest'', jstr ''''), (''toolchain'', JObj []),
      (''target_arch'', jstr ''''), (''build_dir_locator'', jstr ''''), (''source_commit'', jstr '''')])"

definition CandidateBuildEvidence :: dataclass where
  "CandidateBuildEvidence = ([''build_dir_locator''], [(''binaries'', JList [])])"

definition SmokeEvidence :: dataclass where
  "SmokeEvidence = ([''build_id'', ''manifest_digest'', ''smoke_contract_version'', ''binaries_ok'',
     ''tree_id'', ''locator''], [])"

definition RuntimeSnapshot :: dataclass where
  "RuntimeSnapshot = ([''service_state''],
     [(''active_build_id'', JNull), (''active_tree_id'', JNull), (''promoted_build_id'', JNull),
      (''rollback_build_id'', JNull), (''generation'', JNull), (''known_good_component_identity'', JNull),
      (''handoff_fingerprint'', JNull), (''handoff_payload'', JNull), (''invocation_count'', JNull),
      (''invocation_marker'', JNull), (''observed_model_alias'', JNull), (''observed_context_total'', JNull),
      (''observed_slots'', JNull), (''inference_verified'', JBool False), (''target_tree_id'', JNull),
      (''target_locator'', JNull), (''rollback_tree_id'', JNull), (''known_good_payload'', JNull),
      (''installation_only'', JBool False), (''installation_fingerprint'', JNull)])"

definition TreeExchangeEvidence :: dataclass where
  "TreeExchangeEvidence = ([''classification'', ''exchanged_now''],
     [(''skipped'', JBool False), (''active_build_id_after'', jstr ''''), (''prior_tree'', JNull),
      (''target_tree'', JNull)])"

definition RuntimePromotionEvidence :: dataclass where
  "RuntimePromotionEvidence = ([''generation_after'', ''promoted_build_id'', ''rollback_build_id''],
     [(''promoted_tree_id'', JNull), (''rollback_tree_id'', JNull), (''noop'', JBool False)])"

definition RollbackTargetEvidence :: dataclass where
  "RollbackTargetEvidence = ([''target_build_id'', ''current_promoted_build_id'', ''generation'',
     ''target_tree_id'', ''target_locator'', ''manifest_digest'', ''server_binary_digest''], [])"

record identity_evidence =
  id_component_ok :: bool
  id_binary_digest_ok :: bool
  id_model_alias_ok :: bool
  id_context_ok :: bool
  id_slots_ok :: bool
  id_health_ok :: bool
  id_observed_model_alias :: pystr

definition identity_json :: "identity_evidence \<Rightarrow> json" where
  "identity_json e = JObj [(''component_ok'', JBool (id_component_ok e)),
     (''binary_digest_ok'', JBool (id_binary_digest_ok e)), (''model_alias_ok'', JBool (id_model_alias_ok e)),
     (''context_ok'', JBool (id_context_ok e)), (''slots_ok'', JBool (id_slots_ok e)),
     (''health_ok'', JBool (id_health_ok e)), (''observed_model_alias'', JStr (id_observed_model_alias e))]"

record runtime_inference =
  ri_success :: bool
  ri_generated_count :: int
  ri_latency_bucket :: pystr

definition runtime_inference_json :: "runtime_inference \<Rightarrow> json" where
  "runtime_inference_json e = JObj [(''success'', JBool (ri_success e)),
     (''generated_count'', JInt (ri_generated_count e)), (''latency_bucket'', JStr (ri_latency_bucket e))]"

definition construct :: "dataclass \<Rightarrow> json \<Rightarrow> exn + json" where
  "construct c v = typed_object (fst c) (snd c) v"

definition resolve_output :: "'w effect_ctx \<Rightarrow> ident \<Rightarrow> dataclass \<Rightarrow> ('w, json) prog" where
  "resolve_output ctx key c = lift (construct c (or_empty (output_of (x_prior_outputs ctx) key)))"

section \<open>The host port\<close>

record 'w runtime_host =
  lh_resolve_source :: "json \<Rightarrow> ('w, json) prog"
  lh_observe_source_resolution :: "json \<Rightarrow> json \<Rightarrow> ('w, probe_result) prog"
  lh_observe_noop :: "json \<Rightarrow> ('w, bool) prog"
  lh_preflight_build :: "json \<Rightarrow> ('w, json) prog"
  lh_observe_preflight :: "json \<Rightarrow> json \<Rightarrow> ('w, probe_result) prog"
  lh_resolve_rollback_target :: "json \<Rightarrow> ('w, json) prog"
  lh_observe_rollback_target :: "json \<Rightarrow> json \<Rightarrow> ('w, probe_result) prog"
  lh_preflight_rollback :: "json \<Rightarrow> json \<Rightarrow> ('w, json) prog"
  lh_observe_preflight_rollback :: "json \<Rightarrow> json \<Rightarrow> json \<Rightarrow> ('w, probe_result) prog"
  lh_smoke_rollback_target :: "json \<Rightarrow> ('w, json) prog"
  lh_observe_rollback_manifest :: "json \<Rightarrow> ('w, probe_result) prog"
  lh_fetch_exact_commit :: "json \<Rightarrow> json \<Rightarrow> 'w pulse_fn \<Rightarrow> ('w, json) prog"
  lh_probe_checkout :: "json \<Rightarrow> ('w, probe_result) prog"
  lh_configure_build :: "json \<Rightarrow> json \<Rightarrow> 'w pulse_fn \<Rightarrow> ('w, json) prog"
  lh_probe_build_environment :: "json \<Rightarrow> ('w, probe_result) prog"
  lh_compile_candidate :: "json \<Rightarrow> 'w pulse_fn \<Rightarrow> ('w, json) prog"
  lh_probe_compilation :: "json \<Rightarrow> ('w, probe_result) prog"
  lh_smoke_and_register_candidate :: "json \<Rightarrow> json \<Rightarrow> json \<Rightarrow> json \<Rightarrow> ident \<Rightarrow> ('w, json) prog"
  lh_observe_candidate_manifest :: "json \<Rightarrow> ('w, probe_result) prog"
  lh_capture_activation_boundary :: "json \<Rightarrow> json \<Rightarrow> ('w, json) prog"
  lh_verify_activation_boundary :: "json \<Rightarrow> json \<Rightarrow> json \<Rightarrow> ('w, unit) prog"
  lh_exchange_active_tree :: "json \<Rightarrow> json \<Rightarrow> ident \<Rightarrow> string \<Rightarrow> ('w, json) prog"
  lh_probe_exchange :: "json \<Rightarrow> json \<Rightarrow> string \<Rightarrow> ('w, probe_result) prog"
  lh_verify_exchange :: "json \<Rightarrow> json \<Rightarrow> string \<Rightarrow> ('w, unit) prog"
  lh_publish_handoff :: "json \<Rightarrow> json \<Rightarrow> ident \<Rightarrow> string \<Rightarrow> ('w, json) prog"
  lh_observe_handoff :: "json \<Rightarrow> json \<Rightarrow> string \<Rightarrow> ('w, probe_result) prog"
  lh_restart :: "json \<Rightarrow> json \<Rightarrow> ident \<Rightarrow> string \<Rightarrow> ('w, json) prog"
  lh_observe_invocation :: "json \<Rightarrow> json \<Rightarrow> string \<Rightarrow> ('w, probe_result) prog"
  lh_verify_identity :: "json \<Rightarrow> json \<Rightarrow> ('w, unit) prog \<Rightarrow> ('w, identity_evidence) prog"
  lh_verify_inference :: "json \<Rightarrow> ('w, runtime_inference) prog"
  lh_observe_initial_installation :: "json \<Rightarrow> json \<Rightarrow> ('w, probe_result) prog"
  lh_promote :: "json \<Rightarrow> json \<Rightarrow> json option \<Rightarrow> ident \<Rightarrow> string \<Rightarrow> ('w, json) prog"
  lh_observe_promotion :: "json \<Rightarrow> json \<Rightarrow> string \<Rightarrow> ('w, probe_result) prog"
  lh_restore_prior :: "json \<Rightarrow> ident \<Rightarrow> string \<Rightarrow> ('w, json) prog"
  lh_observe_restoration :: "json \<Rightarrow> string \<Rightarrow> ('w, probe_result) prog"
  lh_finalize_trees :: "json \<Rightarrow> json \<Rightarrow> json option \<Rightarrow> json option \<Rightarrow> string \<Rightarrow> ('w, json) prog"
  lh_observe_finalization :: "json \<Rightarrow> json \<Rightarrow> string \<Rightarrow> ('w, probe_result) prog"

section \<open>Branches of an update\<close>

definition resolved_output :: "'w effect_ctx \<Rightarrow> json" where
  "resolved_output ctx = or_empty (output_of (x_prior_outputs ctx) ''resolve_source'')"

definition already_active :: "'w effect_ctx \<Rightarrow> bool" where
  "already_active ctx \<longleftrightarrow> \<not> falsy (attr (resolved_output ctx) ''already_active'')"

definition reuse_active_build :: "'w effect_ctx \<Rightarrow> bool" where
  "reuse_active_build ctx \<longleftrightarrow> already_active ctx \<or> \<not> falsy (attr (resolved_output ctx) ''prepared_build_id'')"

definition installation_only :: "'w effect_ctx \<Rightarrow> bool" where
  "installation_only ctx \<longleftrightarrow>
     attr (or_empty (output_of (x_prior_outputs ctx) ''capture_activation_boundary'')) ''installation_only'' = JBool True"

definition noop_output :: "fields \<Rightarrow> json" where
  "noop_output extra = JObj ((''skipped'', JBool True) # extra)"

definition is_skipped :: "json \<Rightarrow> bool" where
  "is_skipped output \<longleftrightarrow> is_object output \<and> \<not> falsy (attr output ''skipped'')"

definition skipped_step :: "'w effect_ctx \<Rightarrow> ident \<Rightarrow> bool" where
  "skipped_step ctx key \<longleftrightarrow> is_skipped (output_of (x_prior_outputs ctx) key)"

definition smoke_or_none :: "'w effect_ctx \<Rightarrow> ('w, json option) prog" where
  "smoke_or_none ctx =
    (let raw = output_of (x_prior_outputs ctx) ''smoke_candidate'' in
     if is_skipped raw \<or> falsy raw then ret None
     else bind (lift (construct SmokeEvidence raw)) (\<lambda>e. ret (Some e)))"

definition update_snapshot :: "'w effect_ctx \<Rightarrow> ('w, json) prog" where
  "update_snapshot ctx = resolve_output ctx ''capture_activation_boundary'' RuntimeSnapshot"

definition target_build_id :: "'w effect_ctx \<Rightarrow> ('w, json) prog" where
  "target_build_id ctx = bind (smoke_or_none ctx) (\<lambda>smoke. case smoke of
     Some e \<Rightarrow> ret (attr e ''build_id'')
   | None \<Rightarrow>
      (let prepared = attr (resolved_output ctx) ''prepared_build_id'' in
       if \<not> falsy prepared then ret prepared
       else bind (update_snapshot ctx) (\<lambda>snapshot.
         if \<not> falsy (attr snapshot ''active_build_id'') then ret (attr snapshot ''active_build_id'')
         else throw (step_failure ''ACTIVE_RUNTIME_UNPROVEN''))))"

definition with_target :: "'w effect_ctx \<Rightarrow> (json \<Rightarrow> json \<Rightarrow> ('w, 'a) prog) \<Rightarrow> ('w, 'a) prog" where
  "with_target ctx f = bind (update_snapshot ctx) (\<lambda>snapshot. bind (target_build_id ctx) (\<lambda>target. f snapshot target))"

definition noop_probe :: probe_result where
  "noop_probe = probed COMPLETE ''SKIPPED_NOOP_BRANCH'' None"

text \<open>\<^verbatim>\<open>lambda: ctx.pulse(cancellation_safe=False)\<close>\<close>

definition quiet_pulse :: "'w effect_ctx \<Rightarrow> ('w, unit) prog" where
  "quiet_pulse ctx = x_pulse ctx \<lparr>a_phase = None, a_current = None, a_total = None, a_unit = None,
     a_summary = None, a_cancellation_safe = False\<rparr>"

section \<open>The callables of an update\<close>

definition source_execute :: "'w runtime_host \<Rightarrow> 'w effect_ctx \<Rightarrow> ('w, json) prog" where
  "source_execute h ctx = bind (lh_observe_noop h (x_request ctx)) (\<lambda>noop.
     if noop then bind (lh_resolve_source h (x_request ctx)) (\<lambda>r.
       ret (JObj [(''requested_ref'', attr r ''requested_ref''), (''source_commit'', attr r ''source_commit''),
         (''resolution'', attr r ''resolution''), (''already_active'', JBool True), (''prepared_build_id'', JNull)]))
     else lh_resolve_source h (x_request ctx))"

definition runtime_source_probe :: "'w runtime_host \<Rightarrow> 'w effect_ctx \<Rightarrow> ('w, probe_result) prog" where
  "runtime_source_probe h ctx =
    (let output = output_of (x_prior_outputs ctx) ''resolve_source'' in
     if falsy output then ret (probed ABSENT ''NO_RESOLUTION_EVIDENCE'' None)
     else bind (lift (construct ResolvedRuntimeSource output)) (lh_observe_source_resolution h (x_request ctx)))"

definition source_verify :: "'w runtime_host \<Rightarrow> 'w effect_ctx \<Rightarrow> ('w, json) prog" where
  "source_verify h ctx = postcondition ''SOURCE_REF_MOVED''
     (bind (resolve_output ctx ''resolve_source'' ResolvedRuntimeSource) (lh_observe_source_resolution h (x_request ctx)))"

definition unless_reused :: "'w effect_ctx \<Rightarrow> ('w, json) prog \<Rightarrow> ('w, json) prog" where
  "unless_reused ctx m = (if reuse_active_build ctx then ret (noop_output []) else m)"

definition unless_skipped :: "'w effect_ctx \<Rightarrow> ident \<Rightarrow> ('w, json) prog \<Rightarrow> ('w, json) prog" where
  "unless_skipped ctx key m = (if skipped_step ctx key then ret (JObj []) else m)"

text \<open>The probe of a step whose evidence may be skipped, absent or checked.\<close>

definition evidence_probe :: "'w effect_ctx \<Rightarrow> ident \<Rightarrow> string \<Rightarrow> dataclass \<Rightarrow> (json \<Rightarrow> ('w, probe_result) prog) \<Rightarrow>
    ('w, probe_result) prog" where
  "evidence_probe ctx key absent c observe =
    (let output = output_of (x_prior_outputs ctx) key in
     if is_skipped output then ret noop_probe
     else if falsy output then ret (probed ABSENT absent None)
     else bind (lift (construct c output)) observe)"

definition preflight_execute :: "'w runtime_host \<Rightarrow> 'w effect_ctx \<Rightarrow> ('w, json) prog" where
  "preflight_execute h ctx = unless_reused ctx (lh_preflight_build h (x_request ctx))"

definition preflight_probe :: "'w runtime_host \<Rightarrow> 'w effect_ctx \<Rightarrow> ('w, probe_result) prog" where
  "preflight_probe h ctx = evidence_probe ctx ''preflight_build'' ''NO_PREFLIGHT_EVIDENCE'' BuildPreflightEvidence
     (lh_observe_preflight h (x_request ctx))"

definition preflight_verify :: "'w runtime_host \<Rightarrow> 'w effect_ctx \<Rightarrow> ('w, json) prog" where
  "preflight_verify h ctx = unless_skipped ctx ''preflight_build'' (postcondition ''BUILD_ENVIRONMENT_UNPROVEN''
     (bind (resolve_output ctx ''preflight_build'' BuildPreflightEvidence) (lh_observe_preflight h (x_request ctx))))"

definition source_commit_of :: "'w effect_ctx \<Rightarrow> ('w, json) prog" where
  "source_commit_of ctx = bind (resolve_output ctx ''resolve_source'' ResolvedRuntimeSource)
     (\<lambda>r. ret (attr r ''source_commit''))"

definition fetch_execute :: "'w runtime_host \<Rightarrow> 'w effect_ctx \<Rightarrow> ('w, json) prog" where
  "fetch_execute h ctx = unless_reused ctx (bind (source_commit_of ctx)
     (\<lambda>commit. lh_fetch_exact_commit h (x_request ctx) commit (x_pulse ctx)))"

definition fetch_probe :: "'w runtime_host \<Rightarrow> 'w effect_ctx \<Rightarrow> ('w, probe_result) prog" where
  "fetch_probe h ctx = (if skipped_step ctx ''fetch_source'' then ret noop_probe
     else bind (source_commit_of ctx) (lh_probe_checkout h))"

definition fetch_verify :: "'w runtime_host \<Rightarrow> 'w effect_ctx \<Rightarrow> ('w, json) prog" where
  "fetch_verify h ctx = unless_skipped ctx ''fetch_source''
     (postcondition ''FETCH_TIMEOUT'' (bind (source_commit_of ctx) (lh_probe_checkout h)))"

definition configure_execute :: "'w runtime_host \<Rightarrow> 'w effect_ctx \<Rightarrow> ('w, json) prog" where
  "configure_execute h ctx = unless_reused ctx (bind (source_commit_of ctx)
     (\<lambda>commit. lh_configure_build h (x_request ctx) commit (x_pulse ctx)))"

definition configure_probe :: "'w runtime_host \<Rightarrow> 'w effect_ctx \<Rightarrow> ('w, probe_result) prog" where
  "configure_probe h ctx = evidence_probe ctx ''configure_build'' ''NO_BUILD_ENVIRONMENT'' BuildEnvironmentEvidence
     (lh_probe_build_environment h)"

definition environment_of :: "'w effect_ctx \<Rightarrow> ('w, json) prog" where
  "environment_of ctx = resolve_output ctx ''configure_build'' BuildEnvironmentEvidence"

definition configure_verify :: "'w runtime_host \<Rightarrow> 'w effect_ctx \<Rightarrow> ('w, json) prog" where
  "configure_verify h ctx = unless_skipped ctx ''configure_build'' (postcondition ''BUILD_ENVIRONMENT_UNPROVEN''
     (bind (environment_of ctx) (lh_probe_build_environment h)))"

definition compile_execute :: "'w runtime_host \<Rightarrow> 'w effect_ctx \<Rightarrow> ('w, json) prog" where
  "compile_execute h ctx = unless_reused ctx (bind (environment_of ctx)
     (\<lambda>environment. lh_compile_candidate h environment (x_pulse ctx)))"

definition compile_probe :: "'w runtime_host \<Rightarrow> 'w effect_ctx \<Rightarrow> ('w, probe_result) prog" where
  "compile_probe h ctx = (if skipped_step ctx ''compile_candidate'' then ret noop_probe
     else bind (environment_of ctx) (lh_probe_compilation h))"

definition compile_verify :: "'w runtime_host \<Rightarrow> 'w effect_ctx \<Rightarrow> ('w, json) prog" where
  "compile_verify h ctx = unless_skipped ctx ''compile_candidate'' (postcondition ''CANDIDATE_BUILD_FAILED''
     (bind (environment_of ctx) (lh_probe_compilation h)))"

definition smoke_execute :: "'w runtime_host \<Rightarrow> 'w effect_ctx \<Rightarrow> ('w, json) prog" where
  "smoke_execute h ctx = unless_reused ctx (bind (source_commit_of ctx) (\<lambda>commit.
     bind (environment_of ctx) (\<lambda>environment.
     bind (resolve_output ctx ''compile_candidate'' CandidateBuildEvidence) (\<lambda>candidate.
     lh_smoke_and_register_candidate h (x_request ctx) commit environment candidate (x_operation_id ctx)))))"

definition smoke_probe :: "'w runtime_host \<Rightarrow> 'w effect_ctx \<Rightarrow> ('w, probe_result) prog" where
  "smoke_probe h ctx = evidence_probe ctx ''smoke_candidate'' ''NO_SMOKE_EVIDENCE'' SmokeEvidence
     (lh_observe_candidate_manifest h)"

definition smoke_verify :: "'w runtime_host \<Rightarrow> 'w effect_ctx \<Rightarrow> ('w, json) prog" where
  "smoke_verify h ctx = unless_skipped ctx ''smoke_candidate'' (postcondition ''CANDIDATE_SMOKE_FAILED''
     (bind (resolve_output ctx ''smoke_candidate'' SmokeEvidence) (lh_observe_candidate_manifest h)))"

definition boundary_target :: "'w effect_ctx \<Rightarrow> ('w, json) prog" where
  "boundary_target ctx = bind (smoke_or_none ctx) (\<lambda>smoke. ret (case smoke of
     Some e \<Rightarrow> attr e ''build_id'' | None \<Rightarrow> attr (resolved_output ctx) ''prepared_build_id''))"

definition boundary_execute :: "'w runtime_host \<Rightarrow> 'w effect_ctx \<Rightarrow> ('w, json) prog" where
  "boundary_execute h ctx = bind (boundary_target ctx) (lh_capture_activation_boundary h (x_request ctx))"

definition boundary_verify :: "'w runtime_host \<Rightarrow> 'w effect_ctx \<Rightarrow> ('w, json) prog" where
  "boundary_verify h ctx = bind (smoke_or_none ctx) (\<lambda>_. bind (update_snapshot ctx) (\<lambda>snapshot.
     bind (boundary_target ctx) (\<lambda>target.
     andthen (lh_verify_activation_boundary h (x_request ctx) snapshot target) (ret (JObj [])))))"

definition skipped_exchange :: json where
  "skipped_exchange = JObj [(''classification'', jstr ''SKIPPED_ALREADY_ACTIVE''), (''exchanged_now'', JBool False),
     (''skipped'', JBool True), (''active_build_id_after'', jstr ''''), (''prior_tree'', JNull),
     (''target_tree'', JNull)]"

definition exchange_execute :: "'w runtime_host \<Rightarrow> 'w effect_ctx \<Rightarrow> ('w, json) prog" where
  "exchange_execute h ctx = (if reuse_active_build ctx then ret skipped_exchange
     else bind (update_snapshot ctx) (\<lambda>snapshot. bind (resolve_output ctx ''smoke_candidate'' SmokeEvidence) (\<lambda>smoke.
       lh_exchange_active_tree h snapshot smoke (x_external_effect_id ctx) ''update'')))"

definition exchange_probe :: "'w runtime_host \<Rightarrow> 'w effect_ctx \<Rightarrow> ('w, probe_result) prog" where
  "exchange_probe h ctx =
    (if skipped_step ctx ''exchange_active_tree'' then ret (probed COMPLETE ''SKIPPED_ALREADY_ACTIVE'' None)
     else if reuse_active_build ctx then ret (probed COMPLETE ''UNCHANGED_ACTIVE_BUILD'' (Some (noop_output [])))
     else bind (update_snapshot ctx) (\<lambda>snapshot. bind (resolve_output ctx ''smoke_candidate'' SmokeEvidence) (\<lambda>smoke.
       lh_probe_exchange h snapshot (attr smoke ''build_id'') ''update'')))"

definition exchange_verify :: "'w runtime_host \<Rightarrow> 'w effect_ctx \<Rightarrow> ('w, json) prog" where
  "exchange_verify h ctx =
    (if skipped_step ctx ''exchange_active_tree''
     then andthen (only_if (\<not> already_active ctx)
            (with_target ctx (\<lambda>snapshot target. lh_verify_exchange h snapshot target ''update'')))
          (ret (JObj []))
     else bind (update_snapshot ctx) (\<lambda>snapshot. bind (resolve_output ctx ''smoke_candidate'' SmokeEvidence) (\<lambda>smoke.
       andthen (lh_verify_exchange h snapshot (attr smoke ''build_id'') ''update'') (ret (JObj [])))))"

definition untouched :: "'w effect_ctx \<Rightarrow> bool" where
  "untouched ctx \<longleftrightarrow> already_active ctx \<or> installation_only ctx"

definition handoff_execute :: "'w runtime_host \<Rightarrow> 'w effect_ctx \<Rightarrow> ('w, json) prog" where
  "handoff_execute h ctx = (if untouched ctx then ret (noop_output [])
     else with_target ctx (\<lambda>snapshot target. lh_publish_handoff h snapshot target (x_operation_id ctx) ''update''))"

definition handoff_probe :: "'w runtime_host \<Rightarrow> 'w effect_ctx \<Rightarrow> ('w, probe_result) prog" where
  "handoff_probe h ctx = (if untouched ctx then ret noop_probe
     else with_target ctx (\<lambda>snapshot target. lh_observe_handoff h snapshot target ''update''))"

definition proven_or_noop :: "string \<Rightarrow> ('w, probe_result) prog \<Rightarrow> ('w, json) prog" where
  "proven_or_noop code observe = bind observe (\<lambda>result.
     if pr_reason_code result \<noteq> ''SKIPPED_NOOP_BRANCH'' then require_complete (step_failure code) (JObj []) result
     else ret (JObj []))"

definition handoff_verify :: "'w runtime_host \<Rightarrow> 'w effect_ctx \<Rightarrow> ('w, json) prog" where
  "handoff_verify h ctx = proven_or_noop ''HANDOFF_COMPONENT_PUBLISHED'' (handoff_probe h ctx)"

definition service_execute :: "'w runtime_host \<Rightarrow> 'w effect_ctx \<Rightarrow> ('w, json) prog" where
  "service_execute h ctx = (if untouched ctx then ret (noop_output [])
     else with_target ctx (\<lambda>snapshot target. lh_restart h snapshot target (x_operation_id ctx) ''update''))"

definition service_probe :: "'w runtime_host \<Rightarrow> 'w effect_ctx \<Rightarrow> ('w, probe_result) prog" where
  "service_probe h ctx = (if untouched ctx then ret noop_probe
     else with_target ctx (\<lambda>snapshot target. lh_observe_invocation h snapshot target ''update''))"

definition service_verify :: "'w runtime_host \<Rightarrow> 'w effect_ctx \<Rightarrow> ('w, json) prog" where
  "service_verify h ctx = proven_or_noop ''SERVICE_INVOCATION_UNPROVEN'' (service_probe h ctx)"

definition live_json :: "identity_evidence \<Rightarrow> runtime_inference \<Rightarrow> json" where
  "live_json identity inference =
     JObj [(''identity'', identity_json identity), (''inference'', runtime_inference_json inference)]"

definition live_check :: "identity_evidence \<Rightarrow> runtime_inference \<Rightarrow> ('w, json) prog" where
  "live_check identity inference =
    (if \<not> id_component_ok identity \<or> \<not> id_binary_digest_ok identity \<or> \<not> id_health_ok identity
     then throw (step_failure ''RUNTIME_COMPONENT_MISMATCH'')
     else if \<not> id_model_alias_ok identity \<or> \<not> id_context_ok identity \<or> \<not> id_slots_ok identity
     then throw (step_failure ''RUNTIME_MODEL_MISMATCH'')
     else if \<not> ri_success inference then throw (step_failure ''RUNTIME_INFERENCE_FAILED'')
     else ret (live_json identity inference))"

definition live_ok :: "identity_evidence \<Rightarrow> runtime_inference \<Rightarrow> bool" where
  "live_ok identity inference \<longleftrightarrow> id_component_ok identity \<and> id_binary_digest_ok identity \<and>
     id_model_alias_ok identity \<and> id_context_ok identity \<and> id_slots_ok identity \<and> id_health_ok identity \<and>
     ri_success inference"

definition observe_live :: "'w runtime_host \<Rightarrow> 'w effect_ctx \<Rightarrow> json \<Rightarrow> json \<Rightarrow>
    (identity_evidence \<Rightarrow> runtime_inference \<Rightarrow> ('w, 'a) prog) \<Rightarrow> ('w, 'a) prog" where
  "observe_live h ctx snapshot target f =
     bind (lh_verify_identity h snapshot target (quiet_pulse ctx)) (\<lambda>identity.
     bind (lh_verify_inference h target) (\<lambda>inference. f identity inference))"

definition identity_execute :: "'w runtime_host \<Rightarrow> 'w effect_ctx \<Rightarrow> ('w, json) prog" where
  "identity_execute h ctx = with_target ctx (\<lambda>snapshot target.
     if installation_only ctx
     then bind (lh_observe_initial_installation h snapshot target) (\<lambda>result.
       require_complete (step_failure ''INITIAL_INSTALLATION_UNPROVEN'')
         (case pr_output result of None \<Rightarrow> JObj [] | Some v \<Rightarrow> or_empty v) result)
     else observe_live h ctx snapshot target live_check)"

definition identity_probe :: "'w runtime_host \<Rightarrow> 'w effect_ctx \<Rightarrow> ('w, probe_result) prog" where
  "identity_probe h ctx = with_target ctx (\<lambda>snapshot target.
     if installation_only ctx then lh_observe_initial_installation h snapshot target
     else observe_live h ctx snapshot target (\<lambda>identity inference.
       ret (if live_ok identity inference
            then probed COMPLETE ''RUNTIME_COMPONENT_MISMATCH'' (Some (live_json identity inference))
            else probed REVERTIBLE ''LIVE_IDENTITY_MISMATCH'' None)))"

definition runtime_promote_execute :: "(json \<Rightarrow> exn + int) \<Rightarrow> 'w runtime_host \<Rightarrow> 'w effect_ctx \<Rightarrow> ('w, json) prog" where
  "runtime_promote_execute reading h ctx =
    (if installation_only ctx then ret (noop_output [(''inference_deferred'', JBool True)])
     else bind (update_snapshot ctx) (\<lambda>snapshot.
       if already_active ctx
       then bind (lift (if falsy (attr snapshot ''generation'') then Inr 0
                        else py_int reading (attr snapshot ''generation''))) (\<lambda>generation.
         bind (target_build_id ctx) (\<lambda>target.
         ret (JObj [(''generation_after'', JInt generation), (''promoted_build_id'', target),
           (''rollback_build_id'', attr snapshot ''rollback_build_id''), (''promoted_tree_id'', JNull),
           (''rollback_tree_id'', JNull), (''noop'', JBool True)])))
       else bind (target_build_id ctx) (\<lambda>target. bind (smoke_or_none ctx) (\<lambda>smoke.
         lh_promote h snapshot target smoke (x_operation_id ctx) ''update''))))"

definition runtime_promote_verify :: "'w runtime_host \<Rightarrow> 'w effect_ctx \<Rightarrow> ('w, json) prog" where
  "runtime_promote_verify h ctx = with_target ctx (\<lambda>snapshot target.
     if installation_only ctx
     then postcondition ''INITIAL_INSTALLATION_UNPROVEN'' (lh_observe_initial_installation h snapshot target)
     else postcondition ''ACTIVE_TREE_CHANGED'' (lh_observe_promotion h snapshot target ''update''))"

definition finalize_execute :: "'w runtime_host \<Rightarrow> 'w effect_ctx \<Rightarrow> ('w, json) prog" where
  "finalize_execute h ctx = bind (update_snapshot ctx) (\<lambda>snapshot.
     let promotion_raw = output_of (x_prior_outputs ctx) ''promote_runtime'';
         exchange_raw = output_of (x_prior_outputs ctx) ''exchange_active_tree'' in
     bind (if falsy promotion_raw \<or> is_skipped promotion_raw then ret None
           else bind (lift (construct RuntimePromotionEvidence promotion_raw)) (\<lambda>e. ret (Some e))) (\<lambda>promotion.
     bind (if falsy exchange_raw then ret None
           else bind (lift (construct TreeExchangeEvidence exchange_raw)) (\<lambda>e. ret (Some e))) (\<lambda>exchange.
     bind (target_build_id ctx) (\<lambda>target. lh_finalize_trees h snapshot target promotion exchange ''update''))))"

definition finalize_verify :: "'w runtime_host \<Rightarrow> 'w effect_ctx \<Rightarrow> ('w, json) prog" where
  "finalize_verify h ctx = with_target ctx (\<lambda>snapshot target.
     andthen (bind (postcondition ''RUNTIME_CLEANUP_DEFERRED'' (lh_observe_finalization h snapshot target ''update''))
                (\<lambda>_. ret ()))
     (if installation_only ctx
      then bind (target_build_id ctx) (\<lambda>t.
        postcondition ''INITIAL_INSTALLATION_UNPROVEN'' (lh_observe_initial_installation h snapshot t))
      else ret (JObj [])))"

text \<open>Undoing an exchange: the restoration protocol of both workflows.\<close>

definition restore_runtime :: "'w runtime_host \<Rightarrow> ident \<Rightarrow> string \<Rightarrow> 'w effect_ctx \<Rightarrow> ('w, json) prog" where
  "restore_runtime h boundary mode ctx = bind (resolve_output ctx boundary RuntimeSnapshot) (\<lambda>snapshot.
     lh_restore_prior h snapshot (x_external_effect_id ctx) mode)"

definition probe_runtime_restored :: "'w runtime_host \<Rightarrow> ident \<Rightarrow> string \<Rightarrow> 'w effect_ctx \<Rightarrow> ('w, probe_result) prog" where
  "probe_runtime_restored h boundary mode ctx = bind (resolve_output ctx boundary RuntimeSnapshot) (\<lambda>snapshot.
     lh_observe_restoration h snapshot mode)"

definition verify_runtime_restored :: "'w runtime_host \<Rightarrow> ident \<Rightarrow> string \<Rightarrow> 'w effect_ctx \<Rightarrow> ('w, json) prog" where
  "verify_runtime_restored h boundary mode ctx =
     postcondition ''RUNTIME_RESTORATION_UNCERTAIN'' (probe_runtime_restored h boundary mode ctx)"

section \<open>The update workflow\<close>

definition both_runtime :: "ident list" where
  "both_runtime = [RUNTIME_ACTIVE_RESOURCE, RUNTIME_INSTALLATION_RESOURCE]"

definition runtime_step :: "ident \<Rightarrow> string \<Rightarrow> int \<Rightarrow> ident list \<Rightarrow> ('w effect_ctx \<Rightarrow> ('w, probe_result) prog) \<Rightarrow>
    ('w effect_ctx \<Rightarrow> ('w, json) prog) \<Rightarrow> ('w effect_ctx \<Rightarrow> ('w, json) prog) \<Rightarrow> 'w step_def" where
  "runtime_step key phase position resources probe execute verify =
     declared_step key phase position (\<lambda>_ _. Inr (JObj [])) probe execute verify resources"

definition reversible_exchange :: "'w runtime_host \<Rightarrow> ident \<Rightarrow> string \<Rightarrow> 'w step_def \<Rightarrow> 'w step_def" where
  "reversible_exchange h boundary mode step = step\<lparr>sd_externally_visible := True, sd_critical := True,
     sd_compensate := Some (restore_runtime h boundary mode),
     sd_probe_restoration := Some (probe_runtime_restored h boundary mode),
     sd_verify_restoration := Some (verify_runtime_restored h boundary mode)\<rparr>"

definition update_runtime_steps :: "(json \<Rightarrow> exn + int) \<Rightarrow> 'w runtime_host \<Rightarrow> 'w step_def list" where
  "update_runtime_steps reading h =
    (let install = [RUNTIME_INSTALLATION_RESOURCE];
         undone = reversible_exchange h ''capture_activation_boundary'' ''update'' in
    [runtime_step ''resolve_source'' ''resolve'' 1 install (runtime_source_probe h) (source_execute h) (source_verify h),
     runtime_step ''preflight_build'' ''preflight'' 2 install (preflight_probe h) (preflight_execute h) (preflight_verify h),
     runtime_step ''fetch_source'' ''fetch'' 3 install (fetch_probe h) (fetch_execute h) (fetch_verify h),
     runtime_step ''configure_build'' ''configure'' 4 install (configure_probe h) (configure_execute h) (configure_verify h),
     runtime_step ''compile_candidate'' ''build'' 5 install (compile_probe h) (compile_execute h) (compile_verify h),
     runtime_step ''smoke_candidate'' ''smoke'' 6 install (smoke_probe h) (smoke_execute h) (smoke_verify h),
     runtime_step ''capture_activation_boundary'' ''activation-boundary'' 7 both_runtime
       (\<lambda>_. ret (probed ABSENT ''NO_BOUNDARY_SNAPSHOT'' None)) (boundary_execute h) (boundary_verify h),
     undone (runtime_step ''exchange_active_tree'' ''exchange'' 8 both_runtime
       (exchange_probe h) (exchange_execute h) (exchange_verify h)),
     undone (runtime_step ''publish_component_handoff'' ''handoff'' 9 both_runtime
       (handoff_probe h) (handoff_execute h) (handoff_verify h)),
     undone (runtime_step ''restart_runtime'' ''restart'' 10 both_runtime
       (service_probe h) (service_execute h) (service_verify h)),
     (runtime_step ''verify_runtime'' ''verify'' 11 both_runtime
       (identity_probe h) (identity_execute h) (\<lambda>_. ret (JObj [])))\<lparr>sd_critical := True\<rparr>,
     undone (runtime_step ''promote_runtime'' ''promote'' 12 both_runtime
       (\<lambda>_. ret (probed ABSENT ''PROMOTION_NOT_EVIDENCED'' None)) (runtime_promote_execute reading h)
       (runtime_promote_verify h)),
     runtime_step ''finalize_trees'' ''finalize'' 13 both_runtime
       (\<lambda>_. ret (probed ABSENT ''NO_FINALIZATION_EVIDENCE'' None)) (finalize_execute h) (finalize_verify h)])"

definition update_runtime_terminal :: "json \<Rightarrow> (ident \<rightharpoonup> json) \<Rightarrow> exn + terminal_decision" where
  "update_runtime_terminal request outputs =
    (if attr (or_empty (output_of outputs ''capture_activation_boundary'')) ''installation_only'' = JBool True
     then make_terminal_decision SUCCEEDED ''RUNTIME_INSTALLED'' (JObj [(''model_verification_pending'', JBool True)])
       ''runtime installed; select and activate a model to finish verification''
     else if \<not> falsy (attr (or_empty (output_of outputs ''resolve_source'')) ''already_active'')
     then make_terminal_decision SUCCEEDED ''RUNTIME_ALREADY_ACTIVE''
       (JObj [(''detail'', jstr ''requested build already promoted and live'')])
       ''requested runtime build is already promoted and live''
     else make_terminal_decision SUCCEEDED ''RUNTIME_PROMOTED'' (JObj [])
       ''candidate runtime atomically activated, verified, and promoted'')"

definition build_runtime_update_workflow :: "(json \<Rightarrow> exn + int) \<Rightarrow> 'w runtime_host \<Rightarrow> 'w workflow_def" where
  "build_runtime_update_workflow reading h =
     (declared_workflow RUNTIME_UPDATE decode_runtime_update_request (update_runtime_steps reading h) update_runtime_terminal)
     \<lparr>wf_phase_scoped_resources := True, wf_recovery_barrier_resources := both_runtime\<rparr>"

section \<open>The rollback workflow\<close>

definition rollback_target_of :: "'w effect_ctx \<Rightarrow> ('w, json) prog" where
  "rollback_target_of ctx = resolve_output ctx ''resolve_rollback_target'' RollbackTargetEvidence"

definition rollback_snapshot :: "'w effect_ctx \<Rightarrow> ('w, json) prog" where
  "rollback_snapshot ctx = resolve_output ctx ''capture_rollback_boundary'' RuntimeSnapshot"

definition rollback_smoke :: "'w effect_ctx \<Rightarrow> ('w, json) prog" where
  "rollback_smoke ctx = resolve_output ctx ''smoke_rollback_target'' SmokeEvidence"

definition target_id :: "'w effect_ctx \<Rightarrow> json" where
  "target_id ctx = attr (x_request ctx) ''target_build_id''"

definition rb_resolve_probe :: "'w runtime_host \<Rightarrow> 'w effect_ctx \<Rightarrow> ('w, probe_result) prog" where
  "rb_resolve_probe h ctx =
    (let output = output_of (x_prior_outputs ctx) ''resolve_rollback_target'' in
     if falsy output then ret (probed ABSENT ''NO_TARGET_EVIDENCE'' None)
     else bind (lift (construct RollbackTargetEvidence output)) (lh_observe_rollback_target h (x_request ctx)))"

definition rb_resolve_verify :: "'w runtime_host \<Rightarrow> 'w effect_ctx \<Rightarrow> ('w, json) prog" where
  "rb_resolve_verify h ctx = postcondition ''RUNTIME_ROLLBACK_TARGET_MISSING''
     (bind (rollback_target_of ctx) (lh_observe_rollback_target h (x_request ctx)))"

definition rb_preflight_execute :: "'w runtime_host \<Rightarrow> 'w effect_ctx \<Rightarrow> ('w, json) prog" where
  "rb_preflight_execute h ctx = bind (rollback_target_of ctx) (lh_preflight_rollback h (x_request ctx))"

definition rb_preflight_probe :: "'w runtime_host \<Rightarrow> 'w effect_ctx \<Rightarrow> ('w, probe_result) prog" where
  "rb_preflight_probe h ctx =
    (let output = output_of (x_prior_outputs ctx) ''preflight_rollback'' in
     if falsy output then ret (probed ABSENT ''NO_PREFLIGHT_EVIDENCE'' None)
     else bind (rollback_target_of ctx) (\<lambda>target.
       bind (lift (construct BuildPreflightEvidence output)) (lh_observe_preflight_rollback h (x_request ctx) target)))"

definition rb_smoke_probe :: "'w runtime_host \<Rightarrow> 'w effect_ctx \<Rightarrow> ('w, probe_result) prog" where
  "rb_smoke_probe h ctx =
    (if falsy (output_of (x_prior_outputs ctx) ''smoke_rollback_target'')
     then ret (probed ABSENT ''NO_SMOKE_EVIDENCE'' None)
     else bind (rollback_target_of ctx) (lh_observe_rollback_manifest h))"

definition rb_boundary_verify :: "'w runtime_host \<Rightarrow> 'w effect_ctx \<Rightarrow> ('w, json) prog" where
  "rb_boundary_verify h ctx = bind (rollback_snapshot ctx) (\<lambda>snapshot.
     andthen (lh_verify_activation_boundary h (x_request ctx) snapshot JNull) (ret (JObj [])))"

definition rb_exchange_execute :: "'w runtime_host \<Rightarrow> 'w effect_ctx \<Rightarrow> ('w, json) prog" where
  "rb_exchange_execute h ctx = bind (rollback_snapshot ctx) (\<lambda>snapshot. bind (rollback_smoke ctx) (\<lambda>smoke.
     lh_exchange_active_tree h snapshot smoke (x_external_effect_id ctx) ''rollback''))"

definition rb_exchange_probe :: "'w runtime_host \<Rightarrow> 'w effect_ctx \<Rightarrow> ('w, probe_result) prog" where
  "rb_exchange_probe h ctx = bind (rollback_snapshot ctx) (\<lambda>snapshot.
     lh_probe_exchange h snapshot (target_id ctx) ''rollback'')"

definition rb_exchange_verify :: "'w runtime_host \<Rightarrow> 'w effect_ctx \<Rightarrow> ('w, json) prog" where
  "rb_exchange_verify h ctx = bind (rollback_snapshot ctx) (\<lambda>snapshot.
     andthen (lh_verify_exchange h snapshot (target_id ctx) ''rollback'') (ret (JObj [])))"

definition rb_handoff_execute :: "'w runtime_host \<Rightarrow> 'w effect_ctx \<Rightarrow> ('w, json) prog" where
  "rb_handoff_execute h ctx = bind (rollback_snapshot ctx) (\<lambda>snapshot.
     lh_publish_handoff h snapshot (target_id ctx) (x_operation_id ctx) ''rollback'')"

definition rb_handoff_probe :: "'w runtime_host \<Rightarrow> 'w effect_ctx \<Rightarrow> ('w, probe_result) prog" where
  "rb_handoff_probe h ctx = bind (rollback_snapshot ctx) (\<lambda>snapshot.
     lh_observe_handoff h snapshot (target_id ctx) ''rollback'')"

definition rb_service_execute :: "'w runtime_host \<Rightarrow> 'w effect_ctx \<Rightarrow> ('w, json) prog" where
  "rb_service_execute h ctx = bind (rollback_snapshot ctx) (\<lambda>snapshot.
     lh_restart h snapshot (target_id ctx) (x_operation_id ctx) ''rollback'')"

definition rb_service_probe :: "'w runtime_host \<Rightarrow> 'w effect_ctx \<Rightarrow> ('w, probe_result) prog" where
  "rb_service_probe h ctx = bind (rollback_snapshot ctx) (\<lambda>snapshot.
     lh_observe_invocation h snapshot (target_id ctx) ''rollback'')"

definition rb_identity_execute :: "'w runtime_host \<Rightarrow> 'w effect_ctx \<Rightarrow> ('w, json) prog" where
  "rb_identity_execute h ctx = bind (rollback_snapshot ctx) (\<lambda>snapshot.
     observe_live h ctx snapshot (target_id ctx) live_check)"

definition rb_identity_probe :: "'w runtime_host \<Rightarrow> 'w effect_ctx \<Rightarrow> ('w, probe_result) prog" where
  "rb_identity_probe h ctx = bind (rollback_snapshot ctx) (\<lambda>snapshot.
     observe_live h ctx snapshot (target_id ctx) (\<lambda>identity inference.
       ret (if live_ok identity inference
            then probed COMPLETE ''RESTORED_IDENTITY_VERIFIED'' (Some (live_json identity inference))
            else probed REVERTIBLE ''RESTORED_IDENTITY_MISMATCH'' None)))"

definition rb_promote_execute :: "'w runtime_host \<Rightarrow> 'w effect_ctx \<Rightarrow> ('w, json) prog" where
  "rb_promote_execute h ctx = bind (rollback_snapshot ctx) (\<lambda>snapshot. bind (rollback_smoke ctx) (\<lambda>smoke.
     lh_promote h snapshot (target_id ctx) (Some smoke) (x_operation_id ctx) ''rollback''))"

definition rb_promote_verify :: "'w runtime_host \<Rightarrow> 'w effect_ctx \<Rightarrow> ('w, json) prog" where
  "rb_promote_verify h ctx = bind (rollback_snapshot ctx) (\<lambda>snapshot.
     postcondition ''ACTIVE_TREE_CHANGED'' (lh_observe_promotion h snapshot (target_id ctx) ''rollback''))"

definition evidence_or_none :: "dataclass \<Rightarrow> json \<Rightarrow> ('w, json option) prog" where
  "evidence_or_none c raw =
    (if falsy raw then ret None else bind (lift (construct c raw)) (\<lambda>e. ret (Some e)))"

definition rb_finalize_execute :: "'w runtime_host \<Rightarrow> 'w effect_ctx \<Rightarrow> ('w, json) prog" where
  "rb_finalize_execute h ctx = bind (rollback_snapshot ctx) (\<lambda>snapshot.
     bind (evidence_or_none RuntimePromotionEvidence (output_of (x_prior_outputs ctx) ''promote_rollback'')) (\<lambda>promotion.
     bind (evidence_or_none TreeExchangeEvidence (output_of (x_prior_outputs ctx) ''exchange_active_tree'')) (\<lambda>exchange.
     lh_finalize_trees h snapshot (target_id ctx) promotion exchange ''rollback'')))"

definition rb_finalize_verify :: "'w runtime_host \<Rightarrow> 'w effect_ctx \<Rightarrow> ('w, json) prog" where
  "rb_finalize_verify h ctx = bind (rollback_snapshot ctx) (\<lambda>snapshot.
     postcondition ''RUNTIME_CLEANUP_DEFERRED'' (lh_observe_finalization h snapshot (target_id ctx) ''rollback''))"

definition rollback_runtime_steps :: "'w runtime_host \<Rightarrow> 'w step_def list" where
  "rollback_runtime_steps h =
    (let undone = reversible_exchange h ''capture_rollback_boundary'' ''rollback'' in
    [runtime_step ''resolve_rollback_target'' ''resolve-target'' 1 both_runtime (rb_resolve_probe h)
       (\<lambda>ctx. lh_resolve_rollback_target h (x_request ctx)) (rb_resolve_verify h),
     runtime_step ''preflight_rollback'' ''preflight'' 2 both_runtime (rb_preflight_probe h)
       (rb_preflight_execute h) (\<lambda>ctx. postcondition ''BUILD_ENVIRONMENT_UNPROVEN'' (rb_preflight_probe h ctx)),
     runtime_step ''smoke_rollback_target'' ''smoke'' 3 both_runtime (rb_smoke_probe h)
       (\<lambda>ctx. bind (rollback_target_of ctx) (lh_smoke_rollback_target h))
       (\<lambda>ctx. postcondition ''CANDIDATE_SMOKE_FAILED'' (rb_smoke_probe h ctx)),
     runtime_step ''capture_rollback_boundary'' ''activation-boundary'' 4 both_runtime
       (\<lambda>_. ret (probed ABSENT ''NO_BOUNDARY_SNAPSHOT'' None))
       (\<lambda>ctx. lh_capture_activation_boundary h (x_request ctx) JNull) (rb_boundary_verify h),
     undone (runtime_step ''exchange_active_tree'' ''exchange'' 5 both_runtime
       (rb_exchange_probe h) (rb_exchange_execute h) (rb_exchange_verify h)),
     undone (runtime_step ''publish_component_handoff'' ''handoff'' 6 both_runtime
       (rb_handoff_probe h) (rb_handoff_execute h)
       (\<lambda>ctx. postcondition ''HANDOFF_COMPONENT_PUBLISHED'' (rb_handoff_probe h ctx))),
     undone (runtime_step ''restart_runtime'' ''restart'' 7 both_runtime
       (rb_service_probe h) (rb_service_execute h)
       (\<lambda>ctx. postcondition ''SERVICE_INVOCATION_UNPROVEN'' (rb_service_probe h ctx))),
     (runtime_step ''verify_runtime'' ''verify'' 8 both_runtime
       (rb_identity_probe h) (rb_identity_execute h) (\<lambda>_. ret (JObj [])))\<lparr>sd_critical := True\<rparr>,
     undone (runtime_step ''promote_rollback'' ''promote'' 9 both_runtime
       (\<lambda>_. ret (probed ABSENT ''PROMOTION_NOT_EVIDENCED'' None)) (rb_promote_execute h) (rb_promote_verify h)),
     runtime_step ''finalize_trees'' ''finalize'' 10 both_runtime
       (\<lambda>_. ret (probed ABSENT ''NO_FINALIZATION_EVIDENCE'' None)) (rb_finalize_execute h) (rb_finalize_verify h)])"

definition rollback_runtime_terminal :: "json \<Rightarrow> (ident \<rightharpoonup> json) \<Rightarrow> exn + terminal_decision" where
  "rollback_runtime_terminal request outputs =
     make_terminal_decision SUCCEEDED ''RUNTIME_RESTORED''
       (JObj [(''restored_build'', attr request ''target_build_id'')]) ''runtime restored and live-verified''"

definition build_runtime_rollback_workflow :: "'w runtime_host \<Rightarrow> 'w workflow_def" where
  "build_runtime_rollback_workflow h =
     (declared_workflow RUNTIME_ROLLBACK decode_runtime_rollback_request (rollback_runtime_steps h) rollback_runtime_terminal)
     \<lparr>wf_phase_scoped_resources := True, wf_recovery_barrier_resources := both_runtime\<rparr>"

end
