(* ===== verification/Production.thy ===== *)
theory Production
  imports Activation Acquisition Model_Remove Storage_Cleanup Backup Calibration
    Application_Update Integration_Setup Runtime_Lifecycle
begin

text \<open>
  The composition of the durable workflows (\<^verbatim>\<open>app.py\<close>): one registry with the
  twelve workflows over their host adapters, frozen before the first use. \<open>MODEL_CONVERT\<close>
  is a known type without a workflow.
\<close>

record 'w hosts =
  on_activation :: "'w activation_host"
  on_acquisition :: "'w acquisition_host"
  on_runtime :: "'w runtime_host"
  on_remove :: "'w remove_host"
  on_backup :: "'w backup_create_host"
  on_restore :: "'w backup_restore_host"
  on_calibration :: "'w calibration_host"
  on_cleanup :: "'w cleanup_host"
  on_update :: "'w update_host"
  on_integration :: "'w integration_host"

definition production_workflows :: "conversions \<Rightarrow> 'w hosts \<Rightarrow> 'w workflow_def list" where
  "production_workflows c hs =
    [build_activation_workflow (on_activation hs),
     build_acquire_workflow (py_shown c) (py_reading c) (on_acquisition hs),
     build_import_workflow (py_shown c) (py_reading c) (on_acquisition hs),
     build_runtime_update_workflow (py_reading c) (on_runtime hs),
     build_runtime_rollback_workflow (on_runtime hs),
     build_remove_workflow (py_shown c) (on_remove hs),
     build_backup_create_workflow (py_shown c) (on_backup hs),
     build_backup_restore_workflow (py_shown c) (on_restore hs),
     build_calibration_workflow c (on_calibration hs),
     build_storage_cleanup_workflow (py_shown c) (py_reading c) (on_cleanup hs),
     build_application_update_workflow (py_shown c) (on_update hs),
     build_integration_setup_workflow (py_shown c) (on_integration hs)]"

fun register_all :: "'w registry \<Rightarrow> 'w workflow_def list \<Rightarrow> exn + 'w registry" where
  "register_all reg [] = Inr reg"
| "register_all reg (w # ws) =
    (case check_workflow w of
       Inl e \<Rightarrow> Inl e
     | Inr _ \<Rightarrow> (case register reg w of Inl e \<Rightarrow> Inl e | Inr reg' \<Rightarrow> register_all reg' ws))"

definition production_registry :: "conversions \<Rightarrow> 'w hosts \<Rightarrow> exn + 'w registry" where
  "production_registry c hs =
    (case register_all empty_registry (production_workflows c hs) of
       Inl e \<Rightarrow> Inl e
     | Inr reg \<Rightarrow> Inr (freeze reg))"

section \<open>The declarations are well formed\<close>

text \<open>
  A compensation never comes without the probe and the verification of what it restores; a
  step that is visible outside and may have to be undone has one.
\<close>

definition undo_declared :: "'w step_def \<Rightarrow> bool" where
  "undo_declared step \<longleftrightarrow>
     (sd_compensate step = None \<longleftrightarrow> sd_verify_restoration step = None) \<and>
     (sd_compensate step = None \<longleftrightarrow> sd_probe_restoration step = None) \<and>
     (sd_externally_visible step \<and> sd_effect_disposition step = ''REVERSIBLE'' \<longrightarrow> sd_compensate step \<noteq> None)"

lemmas step_builders = activation_step_def restorable_def acquisition_step_def with_compensation_def remove_step_def
  mode_step_def backup_step_def measure_step_def update_step_def undone_by_def visibly_critical_def
  setup_step_def runtime_step_def reversible_exchange_def declared_step_def

lemmas step_lists = activation_steps_def build_steps_def remove_steps_def cleanup_steps_def
  backup_create_steps_def backup_restore_steps_def calibration_steps_def application_update_steps_def
  integration_steps_def update_runtime_steps_def rollback_runtime_steps_def

lemmas workflow_builders = build_activation_workflow_def build_acquire_workflow_def build_import_workflow_def
  build_runtime_update_workflow_def build_runtime_rollback_workflow_def build_remove_workflow_def
  build_backup_create_workflow_def build_backup_restore_workflow_def build_calibration_workflow_def
  build_storage_cleanup_workflow_def build_application_update_workflow_def
  build_integration_setup_workflow_def declared_workflow_def

lemma measured: "map f [0..<MAX_CANDIDATES] = [f 0, f (Suc 0), f (Suc (Suc 0))]"
  by (simp add: MAX_CANDIDATES_def numeral_3_eq_3)

lemma measure_keys: "measure_key 0 = ''measure_candidate_1''" "measure_key (Suc 0) = ''measure_candidate_2''"
  "measure_key (Suc (Suc 0)) = ''measure_candidate_3''"
  by code_simp+

lemma mode_keys: "map ascii_lower ''QUARANTINE'' = ''quarantine''" "map ascii_lower ''RESTORE'' = ''restore''"
  "map ascii_lower ''PURGE'' = ''purge''"
  by code_simp+

lemma declared_workflow_ok:
  "check_workflow w = Inr () \<and> (\<forall>step \<in> set (wf_steps w). check_step_def step = Inr () \<and>
     undo_declared step \<and> sd_resources step \<noteq> [])"
  if "w \<in> set (production_workflows c hs)" for w :: "'w workflow_def"
proof -
  have *: "list_all (\<lambda>w. check_workflow w = Inr () \<and> list_all (\<lambda>step. check_step_def step = Inr () \<and>
     undo_declared step \<and> sd_resources step \<noteq> []) (wf_steps w)) (production_workflows c hs)"
    by (simp add: production_workflows_def workflow_builders step_lists step_builders check_workflow_def Let_def
        check_step_def_def undo_declared_def measured measure_keys mode_keys ACTIVATION_RESOURCE_def
        CLEANUP_RESOURCES_def INTEGRATION_RESOURCES_def UPDATE_RESOURCES_def both_runtime_def)
  with that show ?thesis by (auto simp: list_all_iff)
qed

lemma production_keys:
  "map workflow_key (production_workflows c hs) = map (\<lambda>t. (t, 1, 1))
     [MODEL_ACTIVATE, MODEL_ACQUIRE, MODEL_IMPORT, RUNTIME_UPDATE, RUNTIME_ROLLBACK, MODEL_REMOVE, BACKUP_CREATE,
      BACKUP_RESTORE, PROFILE_CALIBRATE, STORAGE_CLEANUP, APPLICATION_UPDATE, INTEGRATION_SETUP]"
  by (simp add: production_workflows_def workflow_builders workflow_key_def)

lemma register_all_Inr:
  assumes "\<forall>w \<in> set ws. check_workflow w = Inr ()" and "\<not> r_frozen reg"
    and "distinct (map workflow_key (r_workflows reg @ ws))"
  shows "register_all reg ws = Inr (reg\<lparr>r_workflows := r_workflows reg @ ws\<rparr>)"
  using assms
proof (induction ws arbitrary: reg)
  case (Cons w ws)
  have "register reg w = Inr (reg\<lparr>r_workflows := r_workflows reg @ [w]\<rparr>)"
    using Cons.prems(2,3) by (auto simp: register_def)
  with Cons show ?case by simp
qed simp

lemma production_registry_run:
  "production_registry c hs = Inr \<lparr>r_workflows = production_workflows c hs, r_frozen = True\<rparr>"
proof -
  have "distinct (map workflow_key (production_workflows c hs))"
    by (simp add: production_keys)
  then show ?thesis
    using declared_workflow_ok [of _ c hs]
    by (simp add: production_registry_def register_all_Inr empty_registry_def freeze_def)
qed

text \<open>
  C31 The composed registry is complete and sound: every registration succeeds, the result is
  frozen, each workflow of the composition is found under its own type at version one, model
  conversion has none, and every workflow is ordered, declares valid steps that each name
  their resources, and pairs every compensation with the probe and the verification of what
  it restores; a reversible step that is visible outside always has one.
\<close>

theorem production_registry_is_complete:
  "\<exists>reg. production_registry c hs = Inr reg \<and> r_frozen reg \<and>
     map wf_type (r_workflows reg) =
       [MODEL_ACTIVATE, MODEL_ACQUIRE, MODEL_IMPORT, RUNTIME_UPDATE, RUNTIME_ROLLBACK, MODEL_REMOVE, BACKUP_CREATE,
        BACKUP_RESTORE, PROFILE_CALIBRATE, STORAGE_CLEANUP, APPLICATION_UPDATE, INTEGRATION_SETUP] \<and>
     list_all (\<lambda>w. lookup_workflow reg (wf_type w) 1 1 = Inr w \<and> check_workflow w = Inr () \<and>
       list_all (\<lambda>step. check_step_def step = Inr () \<and> undo_declared step \<and> sd_resources step \<noteq> []) (wf_steps w))
       (r_workflows reg) \<and>
     lookup_workflow reg MODEL_CONVERT 1 1 = Inl WorkflowVersionUnavailable"
proof -
  let ?reg = "\<lparr>r_workflows = production_workflows c hs, r_frozen = True\<rparr>"
  have key: "workflow_key w = (wf_type w, 1, 1)" if "w \<in> set (production_workflows c hs)" for w
  proof -
    have "workflow_key w \<in> set (map workflow_key (production_workflows c hs))" using that by simp
    then show ?thesis unfolding production_keys by (auto simp: workflow_key_def)
  qed
  have "lookup_workflow ?reg (wf_type w) 1 1 = Inr w" if "w \<in> set (production_workflows c hs)" for w
    using row_with_in_distinct [of workflow_key _ w] key [OF that] that
    by (simp add: lookup_workflow_def production_keys)
  moreover have "map wf_type (production_workflows c hs) =
      map fst (map workflow_key (production_workflows c hs))"
    by (simp add: workflow_key_def comp_def)
  moreover have "row_with workflow_key (production_workflows c hs) (MODEL_CONVERT, 1, 1) = None"
    unfolding row_with_None_iff set_map [symmetric] production_keys by simp
  ultimately show ?thesis
    using declared_workflow_ok [of _ c hs]
    by (simp add: production_registry_run production_keys list_all_iff lookup_workflow_def [of _ MODEL_CONVERT])
qed

end
