(* ===== verification/Request_Facts.thy ===== *)
theory Request_Facts
  imports Production
begin

text \<open>
  A request is decoded twice: when it is enqueued, and again from the stored row when a
  worker claims the operation. The decoders agree: what was accepted and persisted is
  accepted unchanged.
\<close>

section \<open>Texts\<close>

lemma truncated_idem [simp]: "truncated (truncated s) = truncated s"
  by (rule truncated_id) (rule truncated_length)

lemma blank_truncated: "blank (truncated s) \<Longrightarrow> blank s"
  by (auto simp: truncated_def blank_def TRUNCATION_MARKER_def py_space_def split: if_splits)

lemma jstr_stored: "length t \<le> MAX_STRING_CHARS \<Longrightarrow> stored_value (jstr t) = jstr t"
  by (simp add: jstr_def cps_def truncated_id)

lemma one_of_stored:
  assumes "one_of names v" and "list_all (\<lambda>t. length t \<le> MAX_STRING_CHARS) names"
  shows "stored_value v = v"
  using assms by (auto simp: one_of_def list_all_iff jstr_stored)

lemma stored_absent_or:
  "absent_or (text_within n) v \<Longrightarrow> n \<le> MAX_STRING_CHARS \<Longrightarrow> stored_value v = v"
  "absent_or (short_text n) v \<Longrightarrow> n \<le> MAX_STRING_CHARS \<Longrightarrow> stored_value v = v"
  "absent_or (int_within lo hi) v \<Longrightarrow> stored_value v = v" "absent_or (int_from lo) v \<Longrightarrow> stored_value v = v"
  by (auto simp: absent_or_def dest: stored_value_within stored_value_short stored_value_int)

lemmas stored_checked = stored_value_within stored_value_short stored_value_int stored_absent_or

section \<open>Flat requests\<close>

text \<open>A decoder whose requests are flat and come back as themselves.\<close>

lemma flat_round_trip:
  assumes "sanitize_payload m (JObj kvs) = Inr w" and "list_all (\<lambda>(k, v). flat v) kvs"
    and "distinct (map fst kvs)" and "d (JObj (map (\<lambda>(k, v). (k, stored_value v)) kvs)) =
      Inr (JObj (map (\<lambda>(k, v). (k, stored_value v)) kvs))"
  shows "d w = Inr w"
  using sanitize_flat_object [OF assms(1-3)] assms(4) by simp

lemma activation_round_trip:
  assumes "decode_activation_request p = Inr r" and "sanitize_payload m r = Inr w"
  shows "decode_activation_request w = Inr w"
proof -
  from assms(1) obtain model_name ctx_size slots profile_id revision requested_by where
    r: "r = JObj [(''model_alias'', model_name), (''context_per_slot'', ctx_size), (''parallel_slots'', slots),
      (''profile_id'', profile_id), (''expected_runtime_revision'', revision), (''requested_by'', requested_by)]"
    and c: "short_text 256 model_name" "absent_or (int_within 512 262144) ctx_size" "absent_or (int_within 1 8) slots"
      "absent_or (text_within 256) profile_id" "absent_or (int_from 1) revision" "one_of REQUESTED_BY_VALUES requested_by"
    by (auto simp: decode_activation_request_def decode_simps Let_def)
  have same: "stored_value model_name = model_name" "stored_value ctx_size = ctx_size" "stored_value slots = slots"
    "stored_value profile_id = profile_id" "stored_value revision = revision" "stored_value requested_by = requested_by"
    using c by (auto intro: stored_checked one_of_stored simp: MAX_STRING_CHARS_def REQUESTED_BY_VALUES_def)
  have "flat model_name" "flat ctx_size" "flat slots" "flat profile_id" "flat revision" "flat requested_by"
    using c by (auto intro: flat_checked)
  then show ?thesis
    using assms(2) c unfolding r
    by (intro flat_round_trip [OF assms(2) [unfolded r]])
      (simp_all add: same decode_activation_request_def on_object_def closed_def requires_def decode_simps
        activation_fields_def)
qed

lemma acquire_round_trip:
  assumes "decode_acquire_request shown p = Inr r" and "sanitize_payload m r = Inr w"
  shows "decode_acquire_request shown w = Inr w"
proof -
  from assms(1) obtain model_id quantization fingerprint requested_by where
    r: "r = JObj [(''model_id'', model_id), (''quantization'', quantization),
      (''catalog_entry_fingerprint'', JStr fingerprint), (''requested_by'', JStr requested_by)]"
    and c: "short_text 128 model_id" "short_text 128 quantization"
    by (auto simp: decode_acquire_request_def decode_simps Let_def)
  have same: "stored_value model_id = model_id" "stored_value quantization = quantization"
    using c by (auto intro: stored_checked simp: MAX_STRING_CHARS_def)
  have "flat model_id" "flat quantization"
    using c by (auto intro: flat_checked)
  then show ?thesis
    using assms(2) c unfolding r
    by (intro flat_round_trip [OF assms(2) [unfolded r]])
      (simp_all add: same decode_acquire_request_def on_object_def closed_def requires_def decode_simps)
qed

lemma import_round_trip:
  assumes "decode_import_request shown p = Inr r" and "sanitize_payload m r = Inr w"
  shows "decode_import_request shown w = Inr w"
proof -
  from assms(1) obtain path model_name display_name quantization requested_by where
    r: "r = JObj [(''source_path'', path), (''alias'', model_name), (''display_name'', display_name),
      (''quantization'', quantization), (''requested_by'', JStr (take 64 requested_by))]"
    and c: "nonblank_text path" "\<not> malformed_path path" "absolute_path path" "absent_or (short_text 128) model_name"
      "absent_or (text_within 128) display_name" "absent_or (text_within 128) quantization"
    by (auto simp: decode_import_request_def decode_simps Let_def)
  have "text_within 1024 path"
    using c(1,2) by (cases path) auto
  then have same: "stored_value path = path" "stored_value model_name = model_name"
    "stored_value display_name = display_name" "stored_value quantization = quantization"
    "truncated (take 64 requested_by) = take 64 requested_by"
    and "flat path" "flat model_name" "flat display_name" "flat quantization"
    using c by (auto intro: stored_checked flat_checked truncated_id simp: MAX_STRING_CHARS_def)
  then show ?thesis
    using assms(2) c unfolding r
    by (intro flat_round_trip [OF assms(2) [unfolded r]])
      (simp_all add: decode_import_request_def on_object_def closed_def requires_def decode_simps)
qed

lemma remove_round_trip:
  assumes "decode_remove_request shown p = Inr r" and "sanitize_payload m r = Inr w"
  shows "decode_remove_request shown w = Inr w"
proof -
  from assms(1) obtain model_name requested_by where
    r: "r = JObj [(''alias'', model_name), (''requested_by'', JStr requested_by)]" and c: "short_text 128 model_name"
    by (auto simp: decode_remove_request_def decode_simps)
  have same: "stored_value model_name = model_name" and "flat model_name"
    using c by (auto intro: stored_checked flat_checked simp: MAX_STRING_CHARS_def)
  then show ?thesis
    using assms(2) c unfolding r
    by (intro flat_round_trip [OF assms(2) [unfolded r]])
      (simp_all add: decode_remove_request_def on_object_def closed_def requires_def decode_simps)
qed

lemma backup_create_round_trip:
  assumes "decode_backup_create_request shown p = Inr r" and "sanitize_payload m r = Inr w"
  shows "decode_backup_create_request shown w = Inr w"
proof -
  from assms(1) obtain label requested_by where
    r: "r = JObj [(''destination_label'', label), (''include_models'', JBool False), (''include_runtime'', JBool False),
      (''encrypt'', JBool False), (''requested_by'', JStr requested_by)]" and c: "short_text 512 label"
    by (auto simp: decode_backup_create_request_def decode_simps Let_def)
  have same: "stored_value label = label" and "flat label"
    using c by (auto intro: stored_checked flat_checked simp: MAX_STRING_CHARS_def)
  then show ?thesis
    using assms(2) c unfolding r
    by (intro flat_round_trip [OF assms(2) [unfolded r]])
      (simp_all add: decode_backup_create_request_def on_object_def closed_def requires_def decode_simps Let_def)
qed

lemma backup_restore_round_trip:
  assumes "decode_backup_restore_request shown p = Inr r" and "sanitize_payload m r = Inr w"
  shows "decode_backup_restore_request shown w = Inr w"
proof -
  from assms(1) obtain backup_id digest requested_by where
    r: "r = JObj [(''backup_id'', JStr backup_id), (''confirmation_digest'', digest),
      (''requested_by'', JStr requested_by)]" and c: "\<not> blank backup_id" "confirmation_digest digest"
    by (auto simp: decode_backup_restore_request_def decode_simps elim: backup_identity.elims)
  have "text_within 64 digest" using c(2) by (cases digest) auto
  then have same: "stored_value digest = digest" and "flat digest" and "\<not> blank (truncated backup_id)"
    using c by (auto intro: stored_checked flat_checked dest: blank_truncated simp: MAX_STRING_CHARS_def)
  then show ?thesis
    using assms(2) c unfolding r
    by (intro flat_round_trip [OF assms(2) [unfolded r]])
      (simp_all add: decode_backup_restore_request_def on_object_def closed_def requires_def decode_simps)
qed

lemma runtime_text_within:
  "source_ref v \<Longrightarrow> text_within 128 v" "valid_build_id v \<Longrightarrow> text_within 128 v"
  "absent_or source_ref v \<Longrightarrow> absent_or (text_within 128) v"
  "absent_or valid_build_id v \<Longrightarrow> absent_or (text_within 128) v"
  by (cases v; auto simp: build_id_text_def absent_or_def)+

lemma runtime_update_round_trip:
  assumes "decode_runtime_update_request p = Inr r" and "sanitize_payload m r = Inr w"
  shows "decode_runtime_update_request w = Inr w"
proof -
  from assms(1) obtain requested_by ref expected where
    r: "r = JObj [(''requested_by'', requested_by), (''requested_ref'', ref), (''expected_active_build_id'', expected)]"
    and c: "one_of RUNTIME_REQUESTED_BY requested_by" "absent_or source_ref ref" "absent_or valid_build_id expected"
    by (auto simp: decode_runtime_update_request_def decode_simps Let_def)
  have same: "stored_value requested_by = requested_by" "stored_value ref = ref" "stored_value expected = expected"
    and "flat requested_by" "flat ref" "flat expected"
    using c by (auto intro: stored_checked flat_checked one_of_stored dest!: runtime_text_within
        simp: MAX_STRING_CHARS_def RUNTIME_REQUESTED_BY_def)
  then show ?thesis
    using assms(2) c unfolding r
    by (intro flat_round_trip [OF assms(2) [unfolded r]])
      (simp_all add: decode_runtime_update_request_def on_object_def closed_def requires_def decode_simps)
qed

lemma runtime_rollback_round_trip:
  assumes "decode_runtime_rollback_request p = Inr r" and "sanitize_payload m r = Inr w"
  shows "decode_runtime_rollback_request w = Inr w"
proof -
  from assms(1) obtain requested_by expected target where
    r: "r = JObj [(''expected_active_build_id'', expected), (''target_build_id'', target), (''requested_by'', requested_by)]"
    and c: "one_of RUNTIME_REQUESTED_BY requested_by" "valid_build_id expected" "valid_build_id target"
    by (auto simp: decode_runtime_rollback_request_def decode_simps Let_def)
  have same: "stored_value requested_by = requested_by" "stored_value expected = expected" "stored_value target = target"
    and "flat requested_by" "flat expected" "flat target"
    using c by (auto intro: stored_checked flat_checked one_of_stored dest!: runtime_text_within
        simp: MAX_STRING_CHARS_def RUNTIME_REQUESTED_BY_def)
  then show ?thesis
    using assms(2) c unfolding r
    by (intro flat_round_trip [OF assms(2) [unfolded r]])
      (simp_all add: decode_runtime_rollback_request_def on_object_def closed_def requires_def decode_simps)
qed

section \<open>Nested requests\<close>

text \<open>A value without repeated keys whose texts are within the limit is stored as it is.\<close>

fun tidy :: "json \<Rightarrow> bool" where
  "tidy (JObj kvs) \<longleftrightarrow> distinct (map fst kvs) \<and> list_all (\<lambda>(k, v). tidy v) kvs"
| "tidy (JList xs) \<longleftrightarrow> list_all tidy xs"
| "tidy (JStr s) \<longleftrightarrow> length s \<le> MAX_STRING_CHARS"
| "tidy v \<longleftrightarrow> True"

lemma sanitize_tidy:
  "sanitize_tree d v = Inr w \<Longrightarrow> tidy v \<Longrightarrow> w = v"
  "sanitize_items d kvs acc = Inr r \<Longrightarrow> list_all (\<lambda>(k, v). tidy v) kvs \<Longrightarrow>
     distinct (map fst (acc @ kvs)) \<Longrightarrow> r = acc @ kvs"
  "sanitize_elems d xs = Inr ys \<Longrightarrow> list_all tidy xs \<Longrightarrow> ys = xs"
proof (induction d v and d kvs acc and d xs arbitrary: w and r and ys
    rule: sanitize_tree_sanitize_items_sanitize_elems.induct)
  case (1 d v)
  then show ?case
    by (cases v) (fastforce simp: sanitize_tree.simps [of d] truncated_id split: if_splits sum.splits)+
next
  case (3 d k v kvs acc)
  from "3.prems" obtain v' where k: "\<not> secret_like k" and v: "sanitize_tree (Suc d) v = Inr v'"
    and r: "sanitize_items d kvs (AList.update k v' acc) = Inr r"
    by (auto split: if_splits sum.splits)
  from "3.IH"(1) [OF k v] "3.prems"(2) have same: "v' = v" by simp
  have "AList.update k v' acc = acc @ [(k, v)]"
    using "3.prems"(3) by (subst alist_update_fresh) (auto simp: same)
  with "3.IH"(2) [OF k v r] "3.prems"(2,3) show ?case by simp
qed (auto split: sum.splits)

lemma tidy_round_trip:
  assumes "sanitize_payload m r = Inr w" and "tidy r" and "d r = Inr r"
  shows "d w = Inr w"
  using assms sanitize_tidy(1) [of 0 r w] by (auto simp: sanitize_payload_def split: sum.splits if_splits)

lemma tidy_checked:
  "text_within n v \<Longrightarrow> n \<le> MAX_STRING_CHARS \<Longrightarrow> tidy v" "short_text n v \<Longrightarrow> n \<le> MAX_STRING_CHARS \<Longrightarrow> tidy v"
  "int_from lo v \<Longrightarrow> tidy v" "int_within lo hi v \<Longrightarrow> tidy v" "sha256_digest v \<Longrightarrow> tidy v"
  "absent_or sha256_digest v \<Longrightarrow> tidy v" "opaque v \<Longrightarrow> tidy v" "absent_or opaque v \<Longrightarrow> tidy v"
  "surface_name v \<Longrightarrow> tidy v" "count_within hi v \<Longrightarrow> tidy v" "is_flag v \<Longrightarrow> tidy v" "is_bool v \<Longrightarrow> tidy v"
  "absent_or (text_within n) v \<Longrightarrow> n \<le> MAX_STRING_CHARS \<Longrightarrow> tidy v"
  by (cases v; auto simp: absent_or_def MAX_STRING_CHARS_def elim: opaque.elims surface_name.elims)+

lemma one_of_tidy: "one_of names v \<Longrightarrow> list_all (\<lambda>t. length t \<le> MAX_STRING_CHARS) names \<Longrightarrow> tidy v"
  by (auto simp: one_of_def list_all_iff jstr_def cps_def)

subsection \<open>Calibration\<close>

lemma strip_idem [simp]: "py_strip (py_strip s) = py_strip s"
proof -
  have "dropWhile py_space (py_strip s) = py_strip s"
  proof (cases "dropWhile py_space s")
    case Nil
    then show ?thesis unfolding py_strip_def by (simp only: rev.simps dropWhile.simps)
  next
    case (Cons c t)
    then have "\<not> py_space c" by (metis dropWhile_eq_Cons_conv)
    then show ?thesis
      unfolding py_strip_def Cons by (simp add: dropWhile_append dropWhile_eq_self_iff)
  qed
  moreover have "dropWhile py_space (rev (py_strip s)) = rev (py_strip s)"
    by (simp add: py_strip_def)
  ultimately show ?thesis
    unfolding py_strip_def [of "py_strip s"] by simp
qed

lemma strip_length: "length (py_strip s) \<le> length s"
  unfolding py_strip_def by (metis length_dropWhile_le length_rev le_trans)

lemma list_all_dropWhile: "list_all P (dropWhile P s) = list_all P s"
  by (induction s) auto

lemma blank_strip [simp]: "blank (py_strip s) = blank s"
  by (simp add: py_strip_def blank_def list_all_dropWhile)

lemma short_stripped: "short_text n v \<Longrightarrow> short_text n (stripped v)"
  by (cases v) (auto intro: le_trans [OF strip_length])

lemma stripped_idem [simp]: "stripped (stripped v) = stripped v"
  by (cases v) simp_all

lemma calibration_round_trip:
  assumes "decode_calibration_request p = Inr r" and "sanitize_payload m r = Inr w"
  shows "decode_calibration_request w = Inr w"
proof -
  from assms(1) obtain profile_id revision model_alias policy accept_tight requested_by where
    r: "r = JObj [(''profile_id'', stripped profile_id), (''expected_profile_revision'', revision),
      (''model_alias'', stripped model_alias), (''candidate_policy'', policy),
      (''accept_tight'', accept_tight), (''requested_by'', stripped requested_by)]"
    and c: "short_text 64 (stripped profile_id)" "int_from 1 revision" "short_text 128 (stripped model_alias)"
      "one_of CANDIDATE_POLICIES policy" "is_bool accept_tight" "short_text 64 (stripped requested_by)"
    and h: "hashable policy"
    by (auto simp: decode_calibration_request_def decode_simps Let_def short_stripped split: if_splits)
  have "tidy r"
    using c unfolding r
    by (auto intro: tidy_checked one_of_tidy simp: MAX_STRING_CHARS_def CANDIDATE_POLICIES_def)
  moreover have "decode_calibration_request r = Inr r"
    using c h unfolding r
    by (simp add: decode_calibration_request_def on_object_def closed_def requires_def decode_simps Let_def)
  ultimately show ?thesis by (rule tidy_round_trip [OF assms(2)])
qed

subsection \<open>Application update\<close>

lemma one_of_text: "one_of names v \<Longrightarrow> \<exists>t \<in> set names. v = jstr t"
  by (auto simp: one_of_def)

lemma application_update_round_trip:
  assumes "decode_application_update_request shown p = Inr r" and "sanitize_payload m r = Inr w"
  shows "decode_application_update_request shown w = Inr w"
proof -
  from assms(1) obtain mode release current prior generation preview confirmation surface where
    r: "r = JObj [(''mode'', mode), (''release_set_digest'', release),
          (''expected_current_installation_id'', current), (''expected_previous_installation_id'', prior),
          (''expected_pointer_generation'', generation), (''preview_digest'', preview),
          (''confirmation_digest'', confirmation), (''requested_by'', surface)]"
    and c: "one_of UPDATE_MODES mode" "absent_or sha256_digest prior" "int_within 0 (2 ^ 63 - 1) generation"
      "surface_name surface" "sha256_digest release" "sha256_digest current" "mode = jstr ''ROLLBACK'' \<longrightarrow> release = prior"
      "release \<noteq> current" "sha256_digest preview" "sha256_digest confirmation"
    by (auto simp: decode_application_update_request_def decode_simps Let_def)
  have "tidy r"
    using c unfolding r
    by (auto intro: tidy_checked one_of_tidy simp: MAX_STRING_CHARS_def UPDATE_MODES_def)
  moreover have "mode = jstr ''APPLY'' \<or> mode = jstr ''ROLLBACK''"
    using c(1) by (auto simp: one_of_def UPDATE_MODES_def)
  then have "upper_name shown mode = mode"
    by (elim disjE) (simp_all add: upper_name_def jstr_def cps_def py_upper_def upper_cp_def)
  then have "decode_application_update_request shown r = Inr r"
    using c unfolding r
    by (simp add: decode_application_update_request_def on_object_def closed_def requires_def decode_simps Let_def)
  ultimately show ?thesis by (rule tidy_round_trip [OF assms(2)])
qed

end
