(* ===== verification/Stored_Requests.thy ===== *)
theory Stored_Requests
  imports Request_Facts
begin

text \<open>
  The two nested requests come back as they were stored, and with them every request of
  the composition.
\<close>

section \<open>Storage cleanup\<close>

lemma text_or_empty_text [simp]: "text_or_empty shown (text_or_empty shown' v) = text_or_empty shown' v"
  by (simp add: text_or_empty_def)

lemma upper_name_mode: "one_of MODES v \<Longrightarrow> upper_name shown v = v"
  by (auto simp: one_of_def MODES_def upper_name_def jstr_def cps_def py_upper_def upper_cp_def)

text \<open>A decoded target decodes to itself wherever its identity is new.\<close>

lemma decode_target_again:
  assumes "decode_target shown seen raw = Inr t"
  shows "attr t ''target_id'' \<notin> set seen" "tidy t" "is_object t"
    "attr t ''target_id'' \<notin> set seen' \<Longrightarrow> decode_target shown seen' t = Inr t"
proof -
  from assms obtain tid kind name digest size files owner qop retention where
    t: "t = JObj [(''target_id'', tid), (''kind'', text_or_empty shown kind), (''relative_name'', name),
          (''expected_tree_digest'', text_or_empty shown digest), (''expected_bytes'', size), (''expected_files'', files),
          (''owner_operation_id'', owner), (''quarantine_operation_id'', qop), (''retention_until'', retention)]"
    and c: "opaque tid" "tid \<notin> set seen" "one_of TARGET_KINDS (text_or_empty shown kind)"
      "sha256_digest (text_or_empty shown digest)" "count_within (2 ^ 50) size" "count_within 4096 files"
      "absent_or opaque qop" "absent_or (text_within 32) retention" "opaque name" "opaque owner"
    by (auto simp: decode_target_def decode_simps Let_def)
  have tid: "attr t ''target_id'' = tid"
    by (simp add: t attr_def get_field_def get_or_def)
  show "attr t ''target_id'' \<notin> set seen"
    using c(2) unfolding tid .
  show "is_object t"
    by (simp add: t is_object_def)
  show "tidy t"
    using c unfolding t
    by (auto intro: tidy_checked one_of_tidy simp: MAX_STRING_CHARS_def TARGET_KINDS_def)
  show "decode_target shown seen' t = Inr t" if "attr t ''target_id'' \<notin> set seen'"
    using that [unfolded tid] c unfolding t
    by (simp add: decode_target_def is_object_def target_fields_def closed_def requires_def decode_simps Let_def)
qed

lemma decode_targets_again:
  "decode_targets shown seen raws = Inr ts \<Longrightarrow>
     decode_targets shown seen ts = Inr ts \<and> list_all tidy ts \<and> length ts = length raws"
proof (induction raws arbitrary: seen ts)
  case (Cons raw raws)
  then obtain t ts' where "ts = t # ts'" and t: "decode_target shown seen raw = Inr t"
    and "decode_targets shown (attr t ''target_id'' # seen) raws = Inr ts'"
    by (auto simp: decode_simps)
  with Cons.IH decode_target_again [OF t] show ?case by (auto simp: sum_bind_def)
qed simp

lemma cleanup_round_trip:
  assumes "decode_cleanup_request shown p = Inr r" and "sanitize_payload m r = Inr w"
  shows "decode_cleanup_request shown w = Inr w"
proof -
  from assms(1) obtain mode raws targets digest requested_by where
    r: "r = JObj [(''mode'', mode), (''targets'', JList targets), (''preview_digest'', text_or_empty shown digest),
          (''requested_by'', requested_by)]"
    and c: "one_of MODES mode" "sha256_digest (text_or_empty shown digest)" "target_list raws"
      "decode_targets shown [] (list_of raws) = Inr targets" "list_all (cleanup_matches_mode mode) targets"
      "opaque requested_by"
    by (auto simp: decode_cleanup_request_def decode_simps Let_def)
  note again = decode_targets_again [OF c(4)]
  have "target_list (JList targets)"
    using c(3) again by (cases raws) auto
  have "tidy r"
    using c again unfolding r
    by (auto intro: tidy_checked one_of_tidy simp: MAX_STRING_CHARS_def MODES_def)
  moreover have "decode_cleanup_request shown r = Inr r"
    using c again \<open>target_list (JList targets)\<close> unfolding r
    by (simp add: decode_cleanup_request_def on_object_def closed_def requires_def decode_simps Let_def
        upper_name_mode sum_bind_def del: target_list.simps)
  ultimately show ?thesis by (rule tidy_round_trip [OF assms(2)])
qed

section \<open>Connection setup\<close>

text \<open>The words of a text, joined by one space, are its words again.\<close>

lemma words_from_word: "list_all (\<lambda>c. \<not> py_space c) v \<Longrightarrow> words_from w (v @ s) = words_from (rev v @ w) s"
  by (induction v arbitrary: w) auto

lemma words_from_words:
  "list_all (\<lambda>c. \<not> py_space c) w \<Longrightarrow>
     list_all (\<lambda>v. v \<noteq> [] \<and> list_all (\<lambda>c. \<not> py_space c) v) (words_from w s)"
proof (induction w s rule: words_from.induct)
  case (2 w c s)
  then show ?case by (cases "py_space c"; cases "w = []") simp_all
qed simp

lemma words_of_joined:
  "list_all (\<lambda>v. v \<noteq> [] \<and> list_all (\<lambda>c. \<not> py_space c) v) ws \<Longrightarrow> words_from [] (joined 32 ws) = ws"
proof (induction ws)
  case (Cons v ws)
  have "py_space 32" by (simp add: py_space_def)
  show ?case
  proof (cases ws)
    case Nil
    with Cons.prems show ?thesis using words_from_word [of v "[]" "[]"] by simp
  next
    case (Cons v' ws')
    with Cons.prems Cons.IH \<open>py_space 32\<close> show ?thesis
      using words_from_word [of v "[]" "32 # joined 32 ws"] by simp
  qed
qed simp

lemma spaced_words_Nil [simp]: "spaced_words [] = []"
  by (simp add: spaced_words_def)

lemma spaced_words_idem [simp]: "spaced_words (spaced_words s) = spaced_words s"
  unfolding spaced_words_def by (subst words_of_joined) (simp_all add: words_from_words)

lemma label_text_idem [simp]: "spaced_words (label_text v) = label_text v"
  by (cases v) simp_all

lemma sorted_keys_idem: "sorted_keys (sorted_keys ks) = sorted_keys ks"
  by (rule sorted_distinct_set_unique) simp_all

lemma normalized_again [simp]: "normalized shown (JList (map JStr (normalized shown' v))) = normalized shown' v"
  by (simp add: normalized_def comp_def sorted_keys_idem)

lemma text_of_text [simp]: "s \<noteq> [] \<Longrightarrow> text_of shown (JStr s) fallback = s"
  by (cases s) (simp_all add: text_of_def)

lemma flag_tidy: "is_flag v \<Longrightarrow> tidy v"
  by (cases v) simp_all

lemma intent_upper: "s \<in> set (map (\<lambda>p. cps (fst p)) CLIENT_KIND_FOR_INTENT) \<Longrightarrow> py_upper s = s \<and> s \<noteq> [] \<and> length s \<le> 12"
  by (auto simp: CLIENT_KIND_FOR_INTENT_def cps_def py_upper_def upper_cp_def)

lemma tidy_names:
  "list_all (\<lambda>s. length s \<le> MAX_STRING_CHARS) ns \<Longrightarrow> tidy (JList (map JStr ns))"
  by (simp add: list_all_iff)

lemma requester_length: "requester s \<Longrightarrow> s \<noteq> [] \<and> length s \<le> 64"
  by (cases s) simp_all

lemma named_nonempty: "client_identity s \<Longrightarrow> s \<noteq> []" "public_alias s \<Longrightarrow> s \<noteq> []" "requester s \<Longrightarrow> s \<noteq> []"
  by (auto simp: client_identity_def public_alias_def)

lemma list_up_to_normalized: "list_up_to n v \<Longrightarrow> list_up_to n (JList (map JStr (normalized shown v)))"
  by (cases v) (simp_all add: normalized_def sorted_keys_def, metis le_trans length_map length_remdups_leq)

lemma integration_round_trip:
  assumes "decode_integration_setup_request shown p = Inr r" and "sanitize_payload m r = Inr w"
  shows "decode_integration_setup_request shown w = Inr w"
proof -
  obtain kvs where p: "p = JObj kvs"
    using assms(1) unfolding decode_integration_setup_request_def on_object_Inr by blast
  let ?field = "get_field kvs"
  let ?intent = "py_upper (text_of shown (?field ''intent'') '''')"
  let ?client_id = "text_of shown (?field ''client_id'') ''''"
  let ?webui = "text_of shown (?field ''webui_client_id'') ''''"
  let ?public = "text_of shown (?field ''public_alias'') ''''"
  let ?requested_by = "text_of shown (?field ''requested_by'') ''gui''"
  let ?label = "?field ''client_label''" and ?kind = "?field ''client_kind''"
  let ?consumers = "?field ''baseline_gateway_consumers''" and ?client_ids = "?field ''baseline_client_ids''"
  have r: "r = JObj [(''intent'', JStr ?intent), (''client_id'', JStr ?client_id),
          (''client_label'', JStr (label_text ?label)), (''client_kind'', JStr (label_text ?kind)),
          (''webui_client_id'', JStr ?webui), (''public_alias'', JStr ?public),
          (''require_tailnet'', ?field ''require_tailnet''),
          (''baseline_client_ids'', JList (map JStr (normalized shown ?client_ids))),
          (''baseline_access_enabled'', ?field ''baseline_access_enabled''),
          (''baseline_model_active'', ?field ''baseline_model_active''),
          (''baseline_gateway_consumers'', JList (map JStr (normalized shown ?consumers))),
          (''baseline_openwebui_running'', ?field ''baseline_openwebui_running''),
          (''baseline_sharing_enabled'', ?field ''baseline_sharing_enabled''),
          (''requested_by'', JStr ?requested_by)]"
    and c: "?intent \<in> set (map (\<lambda>p. cps (fst p)) CLIENT_KIND_FOR_INTENT)" "client_identity ?client_id"
      "client_identity ?webui" "public_alias ?public" "is_flag (?field ''require_tailnet'')"
      "is_flag (?field ''baseline_access_enabled'')" "is_flag (?field ''baseline_model_active'')"
      "is_flag (?field ''baseline_openwebui_running'')" "is_flag (?field ''baseline_sharing_enabled'')"
      "list_up_to 3 ?consumers"
      "set (normalized shown ?consumers) \<subseteq> set (map cps [''client'', ''openwebui'', ''sharing''])"
      "list_up_to 32 ?client_ids"
      "list_all (\<lambda>s. client_identity s \<or> s = cps ''legacy-install'') (normalized shown ?client_ids)"
      "requester ?requested_by" "label_within 24 ?kind" "kind_matches ?intent (label_text ?kind)"
      "(?intent = cps ''OPENWEBUI'') = (?client_id = ?webui)" "label_within 80 ?label"
    using assms(1) by (simp_all add: p decode_integration_setup_request_def decode_simps Let_def flag_names_def)
  have intent: "py_upper (text_of shown (JStr ?intent) '''') = ?intent" "length ?intent \<le> 12"
    using intent_upper [OF c(1)] by simp_all
  have ids: "text_of shown (JStr ?client_id) '''' = ?client_id" "text_of shown (JStr ?webui) '''' = ?webui"
    "text_of shown (JStr ?public) '''' = ?public" "text_of shown (JStr ?requested_by) ''gui'' = ?requested_by"
    using c(2-4,14) by (simp_all add: named_nonempty)
  have names: "list_up_to 3 (JList (map JStr (normalized shown ?consumers)))"
    "list_up_to 32 (JList (map JStr (normalized shown ?client_ids)))"
    by (rule list_up_to_normalized, rule c)+
  have labels: "label_within 24 (JStr (label_text ?kind))" "label_within 80 (JStr (label_text ?label))"
    using c(15,18) by (simp_all add: label_within_def)
  have "list_all (\<lambda>s. length s \<le> MAX_STRING_CHARS) (normalized shown ?consumers)"
    "list_all (\<lambda>s. length s \<le> MAX_STRING_CHARS) (normalized shown ?client_ids)"
    using c(11,13) by (auto simp: list_all_iff client_identity_def cps_def MAX_STRING_CHARS_def subset_iff)
  note names_tidy = this [THEN tidy_names]
  have "tidy r"
    using c(2-9) names_tidy intent(2) requester_length [OF c(14)] c(15,18) unfolding r
    by (simp add: flag_tidy client_identity_def public_alias_def label_within_def MAX_STRING_CHARS_def)
  moreover have "decode_integration_setup_request shown r = Inr r"
    using c intent names ids labels unfolding r
    by (simp add: decode_integration_setup_request_def on_object_def closed_def requires_def decode_simps Let_def
        setup_fields_def flag_names_def del: list_up_to.simps)
  ultimately show ?thesis by (rule tidy_round_trip [OF assms(2)])
qed

section \<open>The composition\<close>

lemmas round_trips = activation_round_trip acquire_round_trip import_round_trip remove_round_trip
  backup_create_round_trip backup_restore_round_trip runtime_update_round_trip runtime_rollback_round_trip
  calibration_round_trip application_update_round_trip cleanup_round_trip integration_round_trip

text \<open>
  C32 Whatever request a workflow of the composition accepts and the enqueue service stores,
  the worker that later decodes the stored row accepts too, and it gets exactly the request
  that was stored: no workflow can be enqueued with a request its own decoder then refuses or
  reads differently.
\<close>

theorem stored_requests_decode_again:
  "w \<in> set (production_workflows c hs) \<Longrightarrow> wf_decode_request w payload = Inr request \<Longrightarrow>
     sanitize_payload limit request = Inr stored \<Longrightarrow> wf_decode_request w stored = Inr stored"
  by (auto simp: production_workflows_def workflow_builders intro: round_trips)

end
