(* ===== verification/Connection_Setup.thy ===== *)
theory Connection_Setup
  imports Payload_Size Liveness Stored_Requests
begin

text \<open>
  The connection workflow run by the engine, from the queued row to the released leases: the
  composition of the request decoder, the step declarations, the payload limits and the
  engine.
\<close>

section \<open>What a decoded request holds\<close>

lemma attr_simps [simp]:
  "attr (JObj ((k, v) # kvs)) k' = (if k' = k then v else attr (JObj kvs) k')"
  "attr (JObj []) k' = JNull"
  by (simp_all add: attr_def decode_simps)

lemma setup_request_fields:
  assumes "decode_integration_setup_request shown p = Inr r"
  shows "\<exists>s. attr r ''intent'' = JStr s \<and> s \<in> set (map (\<lambda>p. cps (fst p)) CLIENT_KIND_FOR_INTENT)"
    "\<exists>s. attr r ''client_id'' = JStr s \<and> client_identity s"
    "\<exists>s. attr r ''webui_client_id'' = JStr s \<and> client_identity s"
    "\<exists>s. attr r ''public_alias'' = JStr s \<and> public_alias s"
    "k \<in> set flag_names \<Longrightarrow> is_flag (attr r k)"
    "\<exists>ns. attr r ''baseline_client_ids'' = JList (map JStr ns) \<and> length ns \<le> 32 \<and>
       list_all (\<lambda>s. client_identity s \<or> s = cps ''legacy-install'') ns"
    "\<exists>ns. attr r ''baseline_gateway_consumers'' = JList (map JStr ns) \<and> length ns \<le> 3 \<and>
       set ns \<subseteq> set (map cps [''client'', ''openwebui'', ''sharing''])"
proof -
  obtain kvs where p: "p = JObj kvs"
    using assms unfolding decode_integration_setup_request_def on_object_Inr by blast
  note facts = assms [unfolded p decode_integration_setup_request_def, simplified decode_simps Let_def flag_names_def]
  show "\<exists>s. attr r ''intent'' = JStr s \<and> s \<in> set (map (\<lambda>p. cps (fst p)) CLIENT_KIND_FOR_INTENT)"
    using facts by (elim exE conjE) (simp only: sum.inject, hypsubst, simp)
  show "\<exists>s. attr r ''client_id'' = JStr s \<and> client_identity s"
    using facts by (elim exE conjE) (simp only: sum.inject, hypsubst, simp)
  show "\<exists>s. attr r ''webui_client_id'' = JStr s \<and> client_identity s"
    using facts by (elim exE conjE) (simp only: sum.inject, hypsubst, simp)
  show "\<exists>s. attr r ''public_alias'' = JStr s \<and> public_alias s"
    using facts by (elim exE conjE) (simp only: sum.inject, hypsubst, simp)
  show "k \<in> set flag_names \<Longrightarrow> is_flag (attr r k)"
    using facts by (elim exE conjE) (simp only: sum.inject, hypsubst, auto simp: flag_names_def)
  have up_to: "list_up_to n v \<Longrightarrow> length (normalized shown v) \<le> n" for n v
    using list_up_to_normalized [of n v shown] by simp
  show "\<exists>ns. attr r ''baseline_client_ids'' = JList (map JStr ns) \<and> length ns \<le> 32 \<and>
       list_all (\<lambda>s. client_identity s \<or> s = cps ''legacy-install'') ns"
    using facts by (elim exE conjE) (simp only: sum.inject, hypsubst, simp add: up_to, blast intro: up_to)
  show "\<exists>ns. attr r ''baseline_gateway_consumers'' = JList (map JStr ns) \<and> length ns \<le> 3 \<and>
       set ns \<subseteq> set (map cps [''client'', ''openwebui'', ''sharing''])"
    using facts by (elim exE conjE) (simp only: sum.inject, hypsubst, simp add: up_to, blast intro: up_to)
qed

section \<open>Small values\<close>

definition small_value :: "nat \<Rightarrow> json \<Rightarrow> bool" where
  "small_value n v \<longleftrightarrow> ascii_value v \<and> clean_at 1 v \<and> size_bound v \<le> n"

definition plain_key :: "string \<Rightarrow> bool" where
  "plain_key k \<longleftrightarrow> \<not> secret_like k \<and> ascii (cps k) \<and> length k \<le> 32"

lemma fits_object:
  assumes "list_all (\<lambda>(k, v). plain_key k \<and> small_value n v) kvs" and "distinct (map fst kvs)"
    and "length kvs \<le> 5" and "5 * n + 1000 \<le> m"
  shows "fits m (JObj kvs)"
proof (rule fits_ascii)
  show "clean_at 0 (JObj kvs)"
    using assms(1-3) by (auto simp: list_all_iff plain_key_def small_value_def MAX_KEYS_PER_OBJECT_def)
  show "ascii_value (JObj kvs)"
    using assms(1) by (auto simp: list_all_iff plain_key_def small_value_def)
  have "sum_list (map (\<lambda>(k, v). 4 + 6 * length k + size_bound v) kvs) \<le> sum_list (map (\<lambda>_. 196 + n) kvs)"
    using assms(1) by (fastforce simp: list_all_iff plain_key_def small_value_def intro!: sum_list_mono)
  also have "\<dots> \<le> 5 * (196 + n)"
    using mult_le_mono1 [OF assms(3), of "196 + n"] by (simp add: sum_list_triv)
  finally show "size_bound (JObj kvs) \<le> m"
    using assms(4) by simp
qed

lemma small_text: "ascii s \<Longrightarrow> length s \<le> 128 \<Longrightarrow> 800 \<le> n \<Longrightarrow> small_value n (JStr s)"
  by (simp add: small_value_def MAX_DEPTH_def MAX_STRING_CHARS_def)

lemma small_flag: "is_flag v \<Longrightarrow> 800 \<le> n \<Longrightarrow> small_value n v"
  by (cases v) (simp_all add: small_value_def MAX_DEPTH_def)

lemma ascii_identity: "client_identity s \<Longrightarrow> ascii s \<and> length s = 32"
  by (auto simp: client_identity_def ascii_def list_all_iff hex_char_def)

lemma ascii_alias: "public_alias s \<Longrightarrow> ascii s \<and> length s \<le> 128"
  by (auto simp: public_alias_def ascii_def list_all_iff alphanumeric_def cps_def)

lemma ascii_intent: "s \<in> set (map (\<lambda>p. cps (fst p)) CLIENT_KIND_FOR_INTENT) \<Longrightarrow> ascii s \<and> length s \<le> 12"
  by (auto simp: CLIENT_KIND_FOR_INTENT_def cps_def)

lemma small_names:
  assumes "length ns \<le> 32" and "list_all (\<lambda>s. ascii s \<and> length s \<le> 32) ns"
  shows "small_value 6500 (JList (map JStr ns))"
proof -
  have "sum_list (map (\<lambda>s. size_bound (JStr s) + 1) ns) \<le> sum_list (map (\<lambda>_. 195) ns)"
    using assms(2) by (fastforce simp: list_all_iff intro!: sum_list_mono)
  also have "\<dots> \<le> 195 * 32" using assms(1) by (simp add: sum_list_triv)
  finally have "size_bound (JList (map JStr ns)) \<le> 6500" by (simp add: comp_def)
  with assms(2) show ?thesis
    by (simp add: small_value_def list_all_iff comp_def MAX_DEPTH_def MAX_STRING_CHARS_def) fastforce
qed

lemma ascii_legacy: "ascii (cps ''legacy-install'') \<and> length (cps ''legacy-install'') \<le> 32"
  by (simp add: cps_def)

lemma ascii_client: "client_identity s \<or> s = cps ''legacy-install'' \<Longrightarrow> ascii s \<and> length s \<le> 32"
  using ascii_legacy ascii_identity by auto

lemma setup_fields_small:
  assumes "decode_integration_setup_request shown p = Inr r"
  shows "800 \<le> n \<Longrightarrow> k \<in> set ([''intent'', ''client_id'', ''webui_client_id'', ''public_alias''] @ flag_names) \<Longrightarrow>
      small_value n (attr r k)"
    "small_value 6500 (attr r ''baseline_client_ids'')" "small_value 6500 (attr r ''baseline_gateway_consumers'')"
proof -
  note fields = setup_request_fields [OF assms]
  show "small_value n (attr r k)" if n: "800 \<le> n"
    and "k \<in> set ([''intent'', ''client_id'', ''webui_client_id'', ''public_alias''] @ flag_names)"
  proof -
    have "small_value n (attr r ''intent'')"
      using fields(1) ascii_intent n by (fastforce intro!: small_text simp del: set_map)
    moreover have "small_value n (attr r ''client_id'')" "small_value n (attr r ''webui_client_id'')"
      "small_value n (attr r ''public_alias'')"
      using fields(2-4) ascii_identity ascii_alias n by (fastforce intro!: small_text)+
    moreover have "small_value n (attr r k)" if "k \<in> set flag_names"
      using small_flag fields(5) n that by blast
    ultimately show ?thesis using that(2) by auto
  qed
  show "small_value 6500 (attr r ''baseline_client_ids'')"
  proof -
    obtain ns where ns: "attr r ''baseline_client_ids'' = JList (map JStr ns)" "length ns \<le> 32"
      and "list_all (\<lambda>s. client_identity s \<or> s = cps ''legacy-install'') ns" using fields(6) by blast
    then have "list_all (\<lambda>s. ascii s \<and> length s \<le> 32) ns"
      unfolding list_all_iff using ascii_client by blast
    then show ?thesis unfolding ns(1) by (rule small_names [OF ns(2)])
  qed
  show "small_value 6500 (attr r ''baseline_gateway_consumers'')"
  proof -
    obtain ns where ns: "attr r ''baseline_gateway_consumers'' = JList (map JStr ns)" "length ns \<le> 3"
      and sub: "set ns \<subseteq> set (map cps [''client'', ''openwebui'', ''sharing''])" using fields(7) by blast
    have "list_all (\<lambda>s. ascii s \<and> length s \<le> 32) (map cps [''client'', ''openwebui'', ''sharing''])"
      by (simp add: cps_def)
    then have "list_all (\<lambda>s. ascii s \<and> length s \<le> 32) ns"
      unfolding list_all_iff using sub by blast
    with ns(2) show ?thesis unfolding ns(1) by (intro small_names) simp_all
  qed
qed

section \<open>The steps\<close>

lemma small_jstr: "ascii (cps t) \<Longrightarrow> length t \<le> 128 \<Longrightarrow> 800 \<le> n \<Longrightarrow> small_value n (jstr t)"
  using small_text [of "cps t" n] by (simp add: jstr_def cps_def)

lemma plain_keys:
  "list_all plain_key [''client_id'', ''webui_client_id'', ''intent'', ''baseline_client_ids'',
     ''baseline_access_enabled'', ''public_alias'', ''baseline_active'', ''baseline_consumers'', ''baseline_running'',
     ''required'', ''baseline_enabled'', ''require_tailnet'', ''external_effect_id'', ''phase'', ''current'',
     ''local_ready'', ''tailnet_ready'']"
  by (simp add: plain_key_def cps_def) code_simp

text \<open>What is asked of a host: an action returns a persistable value and its probe then reports it complete.\<close>

definition acts :: "'w engine \<Rightarrow> ident \<Rightarrow> instant \<Rightarrow> ('w effect_ctx \<Rightarrow> ('w, json) prog) \<Rightarrow>
    ('w effect_ctx \<Rightarrow> ('w, probe_result) prog) \<Rightarrow> bool" where
  "acts g oid t1 action probe \<longleftrightarrow> (\<forall>ctx st ph held.
     runs (sit g oid t1 st ph held) (action ctx) (\<lambda>out d. good_output out \<and> sit g oid t1 st ph held d) \<and>
     runs (sit g oid t1 st ph held) (probe ctx) (\<lambda>r d. pr_classification r = COMPLETE \<and> sit g oid t1 st ph held d))"

definition host_works :: "'w engine \<Rightarrow> ident \<Rightarrow> instant \<Rightarrow> 'w integration_host \<Rightarrow> bool" where
  "host_works g oid t1 h \<longleftrightarrow>
     acts g oid t1 (ih_ensure_clients h) (ih_probe_clients h) \<and>
     acts g oid t1 (ih_start_model h) (ih_probe_model h) \<and>
     acts g oid t1 (ih_start_gateway h) (ih_probe_gateway h) \<and>
     acts g oid t1 (ih_start_openwebui h) (ih_probe_openwebui h) \<and>
     acts g oid t1 (ih_publish_tailnet h) (ih_probe_tailnet h) \<and>
     acts g oid t1 (ih_verify_client h) (ih_probe_client_verification h)"

definition plain_identifiers :: "env \<Rightarrow> bool" where
  "plain_identifiers v \<longleftrightarrow> (\<forall>n. ascii (cps (e_uuid v n)) \<and> length (e_uuid v n) \<le> 128)"

lemma runs_False: "runs (\<lambda>d. False) m Q"
  by (simp add: runs_def)

lemma runs_proven:
  assumes "acts g oid t1 action probe"
  shows "runs (sit g oid t1 st ph held) (setup_proven code probe ctx) (\<lambda>_. sit g oid t1 st ph held)"
  unfolding setup_proven_def
  by (rule runs_bind [where A = "\<lambda>r d. pr_classification r = COMPLETE \<and> sit g oid t1 st ph held d"])
    (use assms in \<open>auto simp: acts_def require_complete_def intro!: runs_conj runs_ret runs_False\<close>)

lemma setup_step_runs:
  assumes "plain_identifiers (en_env g)" and "acts g oid t1 (sd_execute x) probe"
    and "sd_verify x = setup_proven code probe"
    and "\<And>prior. \<exists>kvs. sd_derive_input x request prior = Inr (JObj kvs) \<and> distinct (map fst kvs) \<and> length kvs \<le> 5 \<and>
       list_all (\<lambda>(k, v). plain_key k \<and> small_value 6500 v) kvs"
    and "ascii (cps (sd_phase x))" and "length (sd_phase x) \<le> 128" and "0 \<le> sd_sequence x" and "sd_sequence x < 10"
  shows "step_succeeds g oid t1 request x"
proof -
  have "small_value 800 (JInt (sd_sequence x))"
    using assms(7,8) by (simp add: small_value_def MAX_DEPTH_def dumps_int_def digits.simps)
  then have "fits EVENT_DETAIL_MAX_BYTES (JObj [(''phase'', jstr (sd_phase x)), (''current'', JInt (sd_sequence x))])"
    using assms(5,6) plain_keys by (intro fits_object [where n = 800]) (simp_all add: small_jstr EVENT_DETAIL_MAX_BYTES_def)
  moreover have "fits EVENT_DETAIL_MAX_BYTES (JObj [(''external_effect_id'', jstr (e_uuid (en_env g) n)),
      (''phase'', jstr (sd_phase x))])" for n
    using assms(1,5,6) plain_keys
    by (intro fits_object [where n = 800]) (simp_all add: small_jstr plain_identifiers_def EVENT_DETAIL_MAX_BYTES_def)
  moreover have "\<exists>v. sd_derive_input x request prior = Inr v \<and> fits REQUEST_MAX_BYTES v" for prior
  proof -
    obtain kvs where "sd_derive_input x request prior = Inr (JObj kvs)" "distinct (map fst kvs)" "length kvs \<le> 5"
      "list_all (\<lambda>(k, v). plain_key k \<and> small_value 6500 v) kvs" using assms(4) by blast
    then show ?thesis by (auto intro!: fits_object [where n = 6500] simp: REQUEST_MAX_BYTES_def)
  qed
  ultimately show ?thesis
    using assms(2) runs_proven [OF assms(2)] unfolding step_succeeds_def assms(3) by (auto simp: acts_def)
qed

lemma setup_step_succeeds:
  assumes "acts g oid t1 action probe" and "plain_identifiers (en_env g)"
    and "list_all (\<lambda>(name, source). plain_key name \<and> small_value 6500 (attr request source)) inputs"
    and "distinct (map fst inputs)" and "length inputs \<le> 5" and "ascii (cps phase)" and "length phase \<le> 128"
    and "0 \<le> position" and "position < 10"
  shows "step_succeeds g oid t1 request
    (setup_step key phase position inputs code undo_code action probe undo probe_undone)"
  by (rule setup_step_runs [OF assms(2), of oid t1 _ probe code])
    (use assms in \<open>simp_all add: setup_step_def declared_step_def comp_def case_prod_beta' list_all_iff\<close>)

lemma integration_steps_succeed:
  assumes "decode_integration_setup_request shown p = Inr request" and "host_works g oid t1 h"
    and "plain_identifiers (en_env g)"
  shows "list_all (step_succeeds g oid t1 request) (integration_steps h)"
proof -
  note small = setup_fields_small [OF assms(1)]
  have flags: "list_all (\<lambda>k. small_value 6500 (attr request k)) flag_names"
    using small(1) by (simp add: list_all_iff)
  have names: "list_all (\<lambda>k. small_value 6500 (attr request k)) [''intent'', ''client_id'', ''webui_client_id'', ''public_alias'']"
    using small(1) by (simp add: list_all_iff)
  have "step_succeeds g oid t1 request ((declared_step ''verify_client'' ''verify'' 6
       (\<lambda>request prior. Inr (JObj (map (\<lambda>k. (k, attr request k)) [''client_id'', ''public_alias'', ''require_tailnet''])))
       (ih_probe_client_verification h) (ih_verify_client h)
       (setup_proven ''CLIENT_TEST_FAILED'' (ih_probe_client_verification h)) INTEGRATION_RESOURCES)
       \<lparr>sd_effect_disposition := ''HIDDEN_DURABLE''\<rparr>)"
    by (rule setup_step_runs [OF assms(3), of oid t1 _ "ih_probe_client_verification h" "''CLIENT_TEST_FAILED''"])
      (use assms(2) flags names plain_keys in \<open>simp_all add: declared_step_def host_works_def flag_names_def cps_def\<close>)
  then show ?thesis
    using assms(2,3) flags names small(2,3) plain_keys unfolding integration_steps_def list.pred_inject
    by (intro conjI setup_step_succeeds) (simp_all add: host_works_def flag_names_def cps_def)
qed

section \<open>The whole run\<close>

lemma integration_ready:
  assumes "decode_integration_setup_request shown p = Inr request"
  shows "decides_success (build_integration_setup_workflow shown h) request"
proof -
  have "small_value 800 (attr request k)" if "k \<in> {''intent'', ''client_id'', ''public_alias''}" for k
    using setup_fields_small(1) [OF assms, of 800 k] that by auto
  then have "fits EVENT_DETAIL_MAX_BYTES (JObj (map (\<lambda>k. (k, attr request k)) [''intent'', ''client_id'', ''public_alias''] @
      [(''local_ready'', JBool b), (''tailnet_ready'', JBool c)]))" for b c
    using plain_keys by (intro fits_object [where n = 800]) (simp_all add: small_flag EVENT_DETAIL_MAX_BYTES_def)
  then show ?thesis
    by (simp add: decides_success_def build_integration_setup_workflow_def declared_workflow_def
        integration_terminal_def make_terminal_decision_def Let_def)
qed

text \<open>
  C2 A queued connection setup ends with the client connected. Suppose the clock stays within
  one time to live, no call crashes, the stored request decodes, every resource is free, and
  the host works: each of its actions returns a persistable value and its probe then reports
  the action complete. Then one run of \<^verbatim>\<open>execute_one\<close> ends the operation
  \<^verbatim>\<open>SUCCEEDED\<close> with all six steps verified and every lease given back. No step
  input, event or result can exceed a payload limit, whatever the request.
\<close>

theorem connection_setup_succeeds:
  fixes g :: "'w engine" and s :: "'w sys"
  assumes "calm g t0 t1" and "plain_identifiers (en_env g)" and "6 < en_fuel g" and "keys_ok (db s)"
    and "op_lookup (db s) oid = Some r" and "o_state r = QUEUED" and "o_cancel_requested_at r = None"
    and "lookup_workflow (en_registry g) (o_type r) (o_request_version r) (o_recovery_policy_version r) =
      Inr (build_integration_setup_workflow shown h)"
    and "decode_integration_setup_request shown (o_request_json r) = Inr request" and "host_works g oid t1 h"
    and "list_all (\<lambda>k. map_option s_state (step_lookup (db s) oid k) = Some S_PENDING) (map sd_key (integration_steps h))"
    and "list_all (\<lambda>k. lease_free (db s) k t0) INTEGRATION_RESOURCES"
  shows "\<exists>out s'. execute_one g oid s = (Inr out, s') \<and> oc_kind out = COMPLETED \<and>
     map_option o_state (op_lookup (db s') oid) = Some SUCCEEDED \<and>
     list_all (\<lambda>k. map_option s_state (step_lookup (db s') oid k) = Some S_VERIFIED)
       [''ensure_clients'', ''start_model'', ''start_gateway'', ''start_openwebui'', ''publish_tailnet'', ''verify_client''] \<and>
     list_all (\<lambda>k. lease_lookup (db s') k = None) INTEGRATION_RESOURCES"
proof -
  let ?w = "build_integration_setup_workflow shown h"
  have steps: "wf_steps ?w = integration_steps h"
    by (simp add: build_integration_setup_workflow_def declared_workflow_def)
  have keys: "map sd_key (integration_steps h) =
      [''ensure_clients'', ''start_model'', ''start_gateway'', ''start_openwebui'', ''publish_tailnet'', ''verify_client'']"
    by (simp add: integration_steps_def setup_step_def declared_step_def)
  have resources: "set (all_resources ?w) = set INTEGRATION_RESOURCES"
    unfolding all_resources_set steps by (simp add: integration_steps_def setup_step_def declared_step_def)
  have check: "check_workflow ?w = Inr ()"
    unfolding check_workflow_def steps by (simp add: integration_steps_def setup_step_def declared_step_def)
  have "admits g oid t1 ?w (o_request_json r) request"
    using assms(9) by (simp add: admits_def build_integration_setup_workflow_def declared_workflow_def) (auto intro: runs_ret)
  moreover have "wf_steps ?w \<noteq> []" "length (wf_steps ?w) < en_fuel g"
    using arg_cong [OF keys, of length] assms(3) by (auto simp: steps)
  moreover have "\<forall>x \<in> set (wf_steps ?w). step_succeeds g oid t1 request x \<and>
      map_option s_state (step_lookup (db s) oid (sd_key x)) = Some S_PENDING"
    using integration_steps_succeed [OF assms(9,10,2)] assms(11) unfolding steps by (auto simp: list_all_iff)
  moreover have "\<forall>k \<in> set (all_resources ?w). lease_free (db s) k t0"
    using assms(12) unfolding resources by (simp add: list_all_iff)
  ultimately obtain out s' where "execute_one g oid s = (Inr out, s')" "oc_kind out = COMPLETED"
    "map_option o_state (op_lookup (db s') oid) = Some SUCCEEDED"
    "\<forall>x \<in> set (wf_steps ?w). map_option s_state (step_lookup (db s') oid (sd_key x)) = Some S_VERIFIED"
    "\<forall>k \<in> set (all_resources ?w). lease_lookup (db s') k = None"
    using queued_operation_runs [OF assms(1,4-8) check _ integration_ready [OF assms(9)]] by blast
  then show ?thesis
    unfolding keys [symmetric] by (intro exI [of _ out] exI [of _ s']) (simp add: steps resources list_all_iff)
qed

end
