(* ===== verification/Workflow_Promises.thy ===== *)
theory Workflow_Promises
  imports Stored_Requests
begin

text \<open>
  What the concrete workflows promise whatever their hosts do: which host method a step can
  reach, when a step may claim success, and what the terminal decisions say.
\<close>

section \<open>Activation\<close>

text \<open>
  A candidate whose identity is not proven is never restarted. When the observation right
  before the restart does not report the candidate complete, the step fails with
  \<^verbatim>\<open>ARTIFACT_IDENTITY_CHANGED\<close> in the state the observation left, and no host that
  differs in its restart method alone makes a difference: the method is not called.
\<close>

theorem unproven_candidate_is_never_restarted:
  assumes "candidate_from_output (or_empty (output_of (x_prior_outputs ctx) ''resolve_candidate'')) = Inr candidate"
    and "ah_observe_candidate h (x_request ctx) candidate (x_pulse ctx) s = (Inr identity, s')"
    and "pr_classification identity \<noteq> COMPLETE"
  shows "restart_execute (h\<lparr>ah_restart_candidate := restart\<rparr>) ctx s =
    (Inl (step_failure ''ARTIFACT_IDENTITY_CHANGED''), s')"
  using assms by (simp add: restart_execute_def candidate_of_def prog_simps)

lemma probed_simps [simp]:
  "pr_classification (probed c r v) = c" "pr_reason_code (probed c r v) = r" "pr_output (probed c r v) = v"
  by (simp_all add: probed_def)

text \<open>
  An interrupted publication counts as done only when the running service serves the
  candidate: the probe of the publication step reports \<^verbatim>\<open>COMPLETE\<close> exactly when the
  host has observed the published handoff complete and, after it, the restarted runtime
  complete with the candidate verified.
\<close>

theorem publication_needs_the_running_candidate:
  "(\<exists>result. publish_probe h ctx s = (Inr result, s') \<and> pr_classification result = COMPLETE) \<longleftrightarrow>
   (\<exists>candidate prior handoff runtime s1.
      candidate_from_output (or_empty (output_of (x_prior_outputs ctx) ''resolve_candidate'')) = Inr candidate \<and>
      prior_from_output (or_empty (output_of (x_prior_outputs ctx) ''capture_prior'')) = Inr prior \<and>
      ah_observe_handoff h candidate prior s = (Inr handoff, s1) \<and> pr_classification handoff = COMPLETE \<and>
      ah_observe_restart h candidate prior (x_pulse ctx) s1 = (Inr runtime, s') \<and>
      pr_classification runtime = COMPLETE \<and> pr_reason_code runtime = ''CANDIDATE_RUNTIME_VERIFIED'')"
  unfolding publish_probe_def candidate_of_def prior_of_def
  by (auto simp: prog_simps split: sum.splits prod.splits if_splits)

section \<open>Observing steps\<close>

text \<open>
  A step that only observes has two readings of the same evidence: its execution, and the
  probe that classifies it after an interruption.
\<close>

lemma require_complete_Inr:
  "bind m (require_complete e v) s = (Inr out, s') \<longleftrightarrow>
     (\<exists>result. m s = (Inr result, s') \<and> pr_classification result = COMPLETE \<and> out = v)"
  by (auto simp: bind_run require_complete_def prog_simps split: sum.splits prod.splits)

lemma live_check_run:
  "live_check identity inference s =
     (if live_ok identity inference then (Inr (live_json identity inference), s)
      else (Inl (step_failure
        (if \<not> id_component_ok identity \<or> \<not> id_binary_digest_ok identity \<or> \<not> id_health_ok identity
         then ''RUNTIME_COMPONENT_MISMATCH''
         else if \<not> id_model_alias_ok identity \<or> \<not> id_context_ok identity \<or> \<not> id_slots_ok identity
         then ''RUNTIME_MODEL_MISMATCH'' else ''RUNTIME_INFERENCE_FAILED'')), s))"
  by (auto simp: live_check_def live_ok_def prog_simps)

text \<open>
  C30 Execution and recovery agree on the steps that verify the running system. The execution
  of the runtime verification (of an update and of a rollback) and of the health and
  inference checks of an activation returns exactly when the probe that would classify the
  step after a crash reports \<^verbatim>\<open>COMPLETE\<close>, in the same final state: no step is
  accepted by recovery that a plain run would have failed, and the other way round.
\<close>

theorem recovery_agrees_with_execution:
  fixes h :: "'w runtime_host" and a :: "'w activation_host"
  shows "((\<exists>out. identity_execute h ctx s = (Inr out, s')) \<longleftrightarrow>
      (\<exists>r. identity_probe h ctx s = (Inr r, s') \<and> pr_classification r = COMPLETE)) \<and>
    ((\<exists>out. rb_identity_execute h ctx s = (Inr out, s')) \<longleftrightarrow>
      (\<exists>r. rb_identity_probe h ctx s = (Inr r, s') \<and> pr_classification r = COMPLETE)) \<and>
    ((\<exists>out. health_execute a ctx s = (Inr out, s')) \<longleftrightarrow>
      (\<exists>r. health_probe a ctx s = (Inr r, s') \<and> pr_classification r = COMPLETE)) \<and>
    ((\<exists>out. inference_execute a ctx s = (Inr out, s')) \<longleftrightarrow>
      (\<exists>r. inference_probe a ctx s = (Inr r, s') \<and> pr_classification r = COMPLETE))"
  by (intro conjI; auto simp: identity_execute_def identity_probe_def rb_identity_execute_def rb_identity_probe_def
      health_execute_def health_probe_def inference_execute_def inference_probe_def with_target_def
      observe_live_def require_complete_def live_check_run prog_simps split: sum.splits prod.splits if_splits)

section \<open>Acquisition\<close>

definition verdict_of :: "'w effect_ctx \<Rightarrow> exn + json" where
  "verdict_of ctx = sum_bind (validation_evidence (or_empty (attr (or_empty (output_of (x_prior_outputs ctx)
     ''validate_candidate'')) ''validation''))) (\<lambda>v. Inr (attr v ''verdict''))"

text \<open>
  A candidate that failed validation is never published. With any verdict but
  \<^verbatim>\<open>ok\<close> the publication step runs the quarantine alone, whatever the host's publishing
  method would do; and whatever the rest of the outputs say, a publication that reports
  itself quarantined ends the operation \<^verbatim>\<open>FAILED_SAFE\<close>.
\<close>

theorem rejected_candidate_is_quarantined:
  assumes "verdict_of ctx = Inr verdict" and "verdict \<noteq> jstr ''ok''"
  shows "acquire_publish_execute (h\<lparr>qh_publish_or_reuse := publish\<rparr>) ctx =
      wrapped ''publication'' (qh_quarantine_candidate h ctx) \<and>
    (attr (or_empty (attr (or_empty (output_of outputs ''publish_artifact'')) ''publication'')) ''disposition'' =
       jstr ''quarantined'' \<longrightarrow>
     map_sum id td_state (acquisition_terminal request outputs) = Inr FAILED_SAFE)"
proof -
  obtain v where "validation_evidence (or_empty (attr (or_empty (output_of (x_prior_outputs ctx)
      ''validate_candidate'')) ''validation'')) = Inr v" and "attr v ''verdict'' = verdict"
    using assms(1) by (auto simp: verdict_of_def decode_simps)
  then have "acquire_publish_execute (h\<lparr>qh_publish_or_reuse := publish\<rparr>) ctx =
      wrapped ''publication'' (qh_quarantine_candidate h ctx)"
    using assms(2) by (intro ext) (simp add: acquire_publish_execute_def prog_simps)
  then show ?thesis
    by (simp add: acquisition_terminal_def decide_acquisition_terminal_def Let_def make_terminal_decision_def)
qed

section \<open>Calibration\<close>

lemma better_trans:
  "better a b \<Longrightarrow> \<not> better a c \<Longrightarrow> \<not> better b c" "\<not> better a b \<Longrightarrow> \<not> better b c \<Longrightarrow> \<not> better a c"
  by (auto simp: better_def)

definition beaten_by :: "(json \<Rightarrow> exn + int \<times> int) \<Rightarrow> int \<times> int \<Rightarrow> json \<Rightarrow> bool" where
  "beaten_by key best_key x \<longleftrightarrow> (\<exists>k. key x = Inr k \<and> \<not> better k best_key)"

lemma beaten_byI: "key x = Inr k \<Longrightarrow> \<not> better k best_key \<Longrightarrow> beaten_by key best_key x"
  by (simp add: beaten_by_def)

lemma best_Inr:
  assumes "best key cand k xs = Inr v" and "key cand = Inr k"
  shows "v \<in> set (cand # xs) \<and> (\<exists>kv. key v = Inr kv \<and> list_all (beaten_by key kv) (cand # xs))"
  using assms
proof (induction xs arbitrary: cand k)
  case (Cons x xs)
  then obtain kx where kx: "key x = Inr kx"
    and v: "(if better kx k then best key x kx xs else best key cand k xs) = Inr v"
    by (auto simp: decode_simps)
  show ?case
  proof (cases "better kx k")
    case True
    with v have "best key x kx xs = Inr v" by simp
    from Cons.IH [OF this kx] obtain kv where kv: "v \<in> set (x # xs)" "key v = Inr kv"
      "list_all (beaten_by key kv) (x # xs)" by blast
    then have "\<not> better kx kv" using kx by (simp add: beaten_by_def)
    with True have "\<not> better k kv" by (rule better_trans)
    with kv beaten_byI [of key cand k kv, OF Cons.prems(2)] show ?thesis by auto
  next
    case False
    with v have "best key cand k xs = Inr v" by simp
    from Cons.IH [OF this Cons.prems(2)] obtain kv where kv: "v \<in> set (cand # xs)" "key v = Inr kv"
      "list_all (beaten_by key kv) (cand # xs)" by blast
    then have "\<not> better k kv" using Cons.prems(2) by (simp add: beaten_by_def)
    with False have "\<not> better kx kv" by (rule better_trans)
    with kv beaten_byI [of key x kx kv, OF kx] show ?thesis by auto
  qed
qed (auto simp: better_def beaten_by_def)

text \<open>
  The calibration proposes the fastest complete candidate. A winner is one of the complete
  measurements, no complete measurement has a greater generation rate or the same rate under
  a lower index, and there is no winner only when nothing is complete.
\<close>

theorem winner_is_the_fastest:
  assumes "winner rate reading outputs = Inr w"
  shows "case w of
      None \<Rightarrow> completed_results outputs = []
    | Some v \<Rightarrow> v \<in> set (completed_results outputs) \<and> (\<exists>best_key. rank rate reading v = Inr best_key \<and>
        list_all (beaten_by (rank rate reading) best_key) (completed_results outputs))"
proof (cases "completed_results outputs")
  case (Cons x xs)
  with assms obtain k v where "rank rate reading x = Inr k" "best (rank rate reading) x k xs = Inr v" "w = Some v"
    by (auto simp: winner_def decode_simps)
  with best_Inr [of "rank rate reading" x k xs v] Cons show ?thesis by simp
qed (use assms in \<open>simp add: winner_def\<close>)

section \<open>Runtime updates that reuse a build\<close>

text \<open>
  An update whose build is already there builds and exchanges nothing. In the reuse branch
  the executions of the preflight, fetch, configure, compile, smoke and exchange steps return
  a skipped output at once, with the state untouched, for every host.
\<close>

theorem reused_build_touches_nothing:
  assumes "reuse_active_build ctx"
  shows "list_all (\<lambda>execute. \<exists>out. is_skipped out \<and> (\<forall>(h :: 'w runtime_host) s. execute h ctx s = (Inr out, s)))
    [preflight_execute, fetch_execute, configure_execute, compile_execute, smoke_execute, exchange_execute]"
  using assms
  by (auto simp: preflight_execute_def fetch_execute_def configure_execute_def compile_execute_def smoke_execute_def
      exchange_execute_def unless_reused_def noop_output_def skipped_exchange_def is_skipped_def is_object_def
      attr_def get_field_def get_or_def prog_simps)

section \<open>Defects on the reuse branch\<close>

lemma construct_missing:
  "k \<in> set (fst c) \<Longrightarrow> k \<notin> fst ` set kvs \<Longrightarrow> construct c (JObj kvs) = Inl (python_error ''TypeError'')"
  by (auto simp: construct_def typed_object_def)

text \<open>
  An update of the reuse branch that is interrupted in its exchange step cannot finish. The
  probe reports the step complete with the output \<^verbatim>\<open>{"skipped": true}\<close>, which becomes
  the step's recovered output; the final step reads it as an exchange evidence, whose required
  fields it lacks, so it raises for every host: with a boundary snapshot and a promotion in
  order, the exception is the \<^verbatim>\<open>TypeError\<close> of the constructor.
\<close>

theorem recovered_skip_breaks_finalize:
  assumes "reuse_active_build ctx" and "\<not> skipped_step ctx ''exchange_active_tree''"
  shows "\<exists>out. exchange_probe h ctx s = (Inr (probed COMPLETE ''UNCHANGED_ACTIVE_BUILD'' (Some out)), s) \<and>
    (x_prior_outputs ctx' ''exchange_active_tree'' = Some out \<longrightarrow>
       (\<exists>e. finalize_execute h' ctx' s' = (Inl e, s')) \<and>
       (construct RuntimeSnapshot (or_empty (output_of (x_prior_outputs ctx') ''capture_activation_boundary'')) = Inr b \<longrightarrow>
        falsy (output_of (x_prior_outputs ctx') ''promote_runtime'') \<longrightarrow>
        finalize_execute h' ctx' s' = (Inl (python_error ''TypeError''), s')))"
proof -
  let ?out = "noop_output []"
  have "exchange_probe h ctx s = (Inr (probed COMPLETE ''UNCHANGED_ACTIVE_BUILD'' (Some ?out)), s)"
    using assms by (simp add: exchange_probe_def prog_simps)
  moreover have bad: "construct TreeExchangeEvidence ?out = Inl (python_error ''TypeError'')"
    unfolding noop_output_def
    by (rule construct_missing [of "''classification''"]) (simp_all add: TreeExchangeEvidence_def)
  moreover have "\<not> falsy ?out" by (simp add: noop_output_def)
  ultimately show ?thesis
    by (intro exI [of _ ?out])
      (auto simp: finalize_execute_def update_snapshot_def resolve_output_def prog_simps Let_def
        output_of_def [of "x_prior_outputs ctx'" "''exchange_active_tree''"] split: sum.splits)
qed

text \<open>
  An update of the reuse branch that is interrupted in its compile step cannot be probed.
  The configure step left the skipped output, the probe of the compile step reads it as a
  build environment and raises \<^verbatim>\<open>TypeError\<close>, for every host.
\<close>

theorem skipped_configure_breaks_compile_probe:
  assumes "configure_execute h ctx s = (Inr out, s')" and "reuse_active_build ctx"
    and "x_prior_outputs ctx' ''configure_build'' = Some out" and "\<not> skipped_step ctx' ''compile_candidate''"
  shows "compile_probe h' ctx' t = (Inl (python_error ''TypeError''), t)"
proof -
  have out: "out = noop_output []"
    using assms(1,2) by (simp add: configure_execute_def unless_reused_def prog_simps)
  have "construct BuildEnvironmentEvidence out = Inl (python_error ''TypeError'')"
    unfolding out noop_output_def
    by (rule construct_missing [of "''recipe_version''"]) (simp_all add: BuildEnvironmentEvidence_def)
  with assms(3,4) show ?thesis
    by (simp add: compile_probe_def environment_of_def resolve_output_def output_of_def or_empty_def out
        noop_output_def prog_simps)
qed

end
