(* ===== verification/Lease_Refinement.thy ===== *)
theory Lease_Refinement
  imports Lease_Facts
begin

text \<open>
  What the lease table promises, as a table of locks: a resource is free or locked by one
  operation for one owner under a generation until an instant. The lease repository
  implements it: after every sequence of requests the rows show exactly the table the
  specification computes, and a request is refused exactly when the specification refuses it.
\<close>

section \<open>The specification\<close>

record lock =
  lk_operation :: ident
  lk_owner :: ident
  lk_generation :: int
  lk_until :: instant

type_synonym lock_table = "ident \<rightharpoonup> lock"

datatype lock_request =
    AcquireLock ident ident ident int
  | RenewLock ident ident int int
  | FreeLock ident ident int

text \<open>\<open>ops\<close> gives the state of each known operation; a lock of one that awaits recovery is a barrier.\<close>

definition held_by :: "lock_table \<Rightarrow> ident \<Rightarrow> ident \<Rightarrow> int \<Rightarrow> bool" where
  "held_by L key owner generation \<longleftrightarrow> (case L key of None \<Rightarrow> False
     | Some t \<Rightarrow> lk_owner t = owner \<and> lk_generation t = generation)"

definition grantable :: "(ident \<Rightarrow> op_state option) \<Rightarrow> instant \<Rightarrow> lock option \<Rightarrow> bool" where
  "grantable ops now l \<longleftrightarrow> (case l of None \<Rightarrow> True
     | Some t \<Rightarrow> lk_until t \<le> now \<and> ops (lk_operation t) \<noteq> Some RECOVERY_REQUIRED)"

fun lock_step :: "(ident \<Rightarrow> op_state option) \<Rightarrow> instant \<Rightarrow> lock_request \<Rightarrow> lock_table \<Rightarrow> lock_table option" where
  "lock_step ops now (AcquireLock key oid owner ttl) L =
     (if ops oid = None \<or> \<not> grantable ops now (L key) then None
      else Some (L(key \<mapsto> \<lparr>lk_operation = oid, lk_owner = owner,
        lk_generation = (case L key of None \<Rightarrow> 1 | Some t \<Rightarrow> lk_generation t + 1), lk_until = now + ttl\<rparr>)))"
| "lock_step ops now (RenewLock key owner generation ttl) L =
     (if held_by L key owner generation then Some (L(key := map_option (lk_until_update (\<lambda>_. now + ttl)) (L key)))
      else None)"
| "lock_step ops now (FreeLock key owner generation) L =
     (if held_by L key owner generation then Some (L(key := None)) else None)"

text \<open>A refused request leaves the table as it is.\<close>

definition lock_next :: "(ident \<Rightarrow> op_state option) \<Rightarrow> instant \<times> lock_request \<Rightarrow> lock_table \<Rightarrow> lock_table" where
  "lock_next ops a L = (case lock_step ops (fst a) (snd a) L of None \<Rightarrow> L | Some L' \<Rightarrow> L')"

definition lock_run :: "(ident \<Rightarrow> op_state option) \<Rightarrow> (instant \<times> lock_request) list \<Rightarrow> lock_table \<Rightarrow> lock_table" where
  "lock_run ops as L = fold (lock_next ops) as L"

section \<open>The implementation\<close>

definition lock_of :: "lease_row \<Rightarrow> lock" where
  "lock_of l = \<lparr>lk_operation = l_operation_id l, lk_owner = l_owner l,
     lk_generation = l_lease_revision l, lk_until = l_expires_at l\<rparr>"

definition locks :: "db \<Rightarrow> lock_table" where
  "locks d key = map_option lock_of (lease_lookup d key)"

definition op_states :: "db \<Rightarrow> ident \<Rightarrow> op_state option" where
  "op_states d oid = map_option o_state (op_lookup d oid)"

fun perform :: "env \<Rightarrow> lock_request \<Rightarrow> ('w, unit) prog" where
  "perform v (AcquireLock key oid owner ttl) = bind (acquire v key oid owner ttl) (\<lambda>_. ret ())"
| "perform v (RenewLock key owner generation ttl) = bind (heartbeat v key owner generation ttl) (\<lambda>_. ret ())"
| "perform v (FreeLock key owner generation) = release key owner generation"

fun perform_all :: "env \<Rightarrow> lock_request list \<Rightarrow> 'w sys \<Rightarrow> 'w sys" where
  "perform_all v [] s = s"
| "perform_all v (a # as) s = perform_all v as (snd (perform v a s))"

fun timed :: "env \<Rightarrow> lock_request list \<Rightarrow> 'w sys \<Rightarrow> (instant \<times> lock_request) list" where
  "timed v [] s = []"
| "timed v (a # as) s = (e_clock v (clock_reads s), a) # timed v as (snd (perform v a s))"

section \<open>One request\<close>

lemma locks_with_lease:
  "locks (with_lease key oid owner now ttl d) = (locks d)(key \<mapsto> \<lparr>lk_operation = oid, lk_owner = owner,
     lk_generation = (case locks d key of None \<Rightarrow> 1 | Some t \<Rightarrow> lk_generation t + 1), lk_until = now + ttl\<rparr>)"
  by (rule ext) (auto simp: locks_def with_lease_lookup lock_of_def split: option.splits)

lemma grantable_free: "grantable (op_states d) now (locks d key) = lease_free d key now"
  by (auto simp: grantable_def locks_def lock_of_def lease_free_def owning_operation_state_def op_states_def
      split: option.splits)

lemma held_by_locks:
  "held_by (locks d) key owner generation \<longleftrightarrow>
     (\<exists>l. lease_lookup d key = Some l \<and> l_owner l = owner \<and> l_lease_revision l = generation)"
  by (auto simp: held_by_def locks_def lock_of_def split: option.splits)

definition answers :: "lock_table option \<Rightarrow> db \<Rightarrow> exn + unit \<Rightarrow> db \<Rightarrow> bool" where
  "answers spec d r d' \<longleftrightarrow> (case spec of
     None \<Rightarrow> (\<exists>c. r = Inl (OperationConflict c)) \<and> locks d' = locks d
   | Some L \<Rightarrow> r = Inr () \<and> locks d' = L) \<and> keys_ok d' \<and> op_states d' = op_states d"

lemma perform_acquire:
  assumes "keys_ok (db s)" and "perform v (AcquireLock key oid owner ttl) s = (r, s')"
  shows "answers (lock_step (op_states (db s)) (e_clock v (clock_reads s)) (AcquireLock key oid owner ttl) (locks (db s)))
     (db s) r (db s')"
proof (cases "op_lookup (db s) oid")
  case None
  with assms show ?thesis
    by (simp add: answers_def op_states_def acquire_def bind_run andthen_run require_known_run)
      (auto simp: op_states_def)
next
  case (Some row)
  let ?now = "e_clock v (clock_reads s)"
  have "keys_ok (with_lease key oid owner ?now ttl (db s))" if "lease_free (db s) key ?now"
  proof -
    let ?s1 = "s\<lparr>clock_reads := Suc (clock_reads s), db := with_lease key oid owner ?now ttl (db s)\<rparr>"
    have "snd (acquire v key oid owner ttl s) = ?s1"
      using that by (simp add: acquire_run [OF Some] Let_def lease_free_def split: option.splits)
    moreover have "on_db keys_kept s (snd (acquire v key oid owner ttl s))"
      using keys.guar_acquire [of v key oid owner ttl] unfolding guar_def by blast
    ultimately have "on_db keys_kept s ?s1" by simp
    with assms(1) show ?thesis by (simp add: on_db_def keys_kept_def)
  qed
  moreover have "op_states (with_lease key oid owner ?now ttl (db s)) = op_states (db s)"
    by (rule ext) (simp add: op_states_def)
  ultimately show ?thesis
    using assms Some
    by (auto simp: answers_def acquire_run [OF Some] bind_run ret_run Let_def grantable_free locks_with_lease
        lease_free_def op_states_def split: option.splits if_splits)
qed

lemma no_match:
  assumes "keys_ok d" and "\<not> (\<exists>l. lease_lookup d key = Some l \<and> l_owner l = owner \<and> l_lease_revision l = n)"
    and "l \<in> set (operation_leases d)"
  shows "\<not> lease_matches key owner n l"
  using assms keys_ok_lease [OF assms(1,3)] by (auto simp: lease_matches_def)

lemma perform_renew:
  fixes s :: "'w sys"
  assumes "keys_ok (db s)" and "perform v (RenewLock key owner generation ttl) s = (r, s')"
  shows "answers (lock_step (op_states (db s)) (e_clock v (clock_reads s)) (RenewLock key owner generation ttl) (locks (db s)))
     (db s) r (db s')"
proof (cases "\<exists>l. lease_lookup (db s) key = Some l \<and> l_owner l = owner \<and> l_lease_revision l = generation")
  case True
  then obtain l where l: "lease_lookup (db s) key = Some l" "l_owner l = owner" "l_lease_revision l = generation"
    by blast
  obtain lease s1 where run: "heartbeat v key owner generation ttl s = (Inr lease, s1)" and ok: "keys_ok (db s1)"
    and ops: "operations (db s1) = operations (db s)"
    using heartbeat_own [OF assms(1) l] by blast
  from heartbeat_renews_own_lease [OF assms(1) run] l
  have "lease_lookup (db s1) key = Some (l\<lparr>l_heartbeat_at := e_clock v (clock_reads s),
      l_expires_at := e_clock v (clock_reads s) + ttl\<rparr>)"
    and "\<And>k. k \<noteq> key \<Longrightarrow> lease_lookup (db s1) k = lease_lookup (db s) k"
    by auto
  then have "locks (db s1) = (locks (db s))(key := map_option (lk_until_update (\<lambda>_. e_clock v (clock_reads s) + ttl))
      (locks (db s) key))"
    by (intro ext) (simp add: locks_def lock_of_def l(1))
  moreover have "op_states (db s1) = op_states (db s)"
    by (rule ext) (simp add: op_states_def op_lookup_def ops)
  ultimately show ?thesis
    using assms(2) run ok l by (auto simp: answers_def held_by_locks bind_run ret_run)
next
  case False
  note none = no_match [OF assms(1) False]
  have "(db s)\<lparr>operation_leases := rows_updated (lease_matches key owner generation) f (operation_leases (db s))\<rparr> = db s" for f
    using none by (simp add: rows_updated_id)
  with assms none False show ?thesis
    by (auto simp: answers_def held_by_locks heartbeat_def bind_run andthen_run clock_run read_db_def write_db_def
        throw_run)
qed

lemma perform_free:
  assumes "keys_ok (db s)" and "perform v (FreeLock key owner generation) s = (r, s')"
  shows "answers (lock_step (op_states (db s)) (e_clock v (clock_reads s)) (FreeLock key owner generation) (locks (db s)))
     (db s) r (db s')"
proof (cases "\<exists>l. lease_lookup (db s) key = Some l \<and> l_owner l = owner \<and> l_lease_revision l = generation")
  case True
  then obtain l where l: "lease_lookup (db s) key = Some l" "l_owner l = owner" "l_lease_revision l = generation"
    by blast
  from one_matching_lease [OF assms(1) l] assms(2) have r: "r = Inr ()"
    by (simp add: release_def bind_run andthen_run read_db_def write_db_def ret_run)
  with assms(2) have run: "release key owner generation s = (Inr (), s')" by simp
  from release_Inr [OF assms(1) run] have "locks (db s') = (locks (db s))(key := None)"
    and "op_states (db s') = op_states (db s)" and "keys_ok (db s')"
    by (auto simp: locks_def op_states_def op_lookup_def)
  with r True show ?thesis by (simp add: answers_def held_by_locks)
next
  case False
  note none = no_match [OF assms(1) False]
  have "(db s)\<lparr>operation_leases := filter (\<lambda>l. \<not> lease_matches key owner generation l) (operation_leases (db s))\<rparr> = db s"
    using none by (simp add: filter_id_conv)
  with assms none False show ?thesis
    by (auto simp: answers_def held_by_locks release_def bind_run andthen_run read_db_def write_db_def throw_run)
qed

lemma perform_answers:
  assumes "keys_ok (db s)" and "perform v a s = (r, s')"
  shows "answers (lock_step (op_states (db s)) (e_clock v (clock_reads s)) a (locks (db s))) (db s) r (db s')"
proof (cases a)
  case (AcquireLock key oid owner ttl)
  from perform_acquire [OF assms [unfolded this]] show ?thesis by (simp only: AcquireLock)
next
  case (RenewLock key owner generation ttl)
  from perform_renew [OF assms [unfolded this]] show ?thesis by (simp only: RenewLock)
next
  case (FreeLock key owner generation)
  from perform_free [OF assms [unfolded this]] show ?thesis by (simp only: FreeLock)
qed

section \<open>Every sequence of requests\<close>

lemma lock_next_answers: "answers (lock_step ops now a (locks d)) d r d' \<Longrightarrow> locks d' = lock_next ops (now, a) (locks d)"
  by (auto simp: answers_def lock_next_def split: option.splits)

lemma lock_run_simps:
  "lock_run ops [] L = L" "lock_run ops (a # as) L = lock_run ops as (lock_next ops a L)"
  by (simp_all add: lock_run_def)

lemma perform_all_locks:
  assumes "keys_ok (db s)"
  shows "locks (db (perform_all v as s)) = lock_run (op_states (db s)) (timed v as s) (locks (db s))"
  using assms
proof (induction as arbitrary: s)
  case (Cons a as)
  obtain r s' where run: "perform v a s = (r, s')" by (cases "perform v a s")
  note answer = perform_answers [OF Cons.prems run]
  then have "keys_ok (db s')" "op_states (db s') = op_states (db s)" by (auto simp: answers_def)
  with Cons.IH [of s'] lock_next_answers [OF answer] show ?case by (simp add: run lock_run_simps)
qed (simp add: lock_run_simps)

text \<open>
  C8 The lease repository implements the table of locks. A request made of well formed tables
  is granted exactly when the specification grants it and is refused with a conflict
  otherwise, and after any sequence of requests, whoever makes them and whenever, the rows
  show exactly the table the specification computes from the first one.
\<close>

theorem leases_refine_locks:
  assumes "keys_ok (db s)"
  shows "(lock_step (op_states (db s)) (e_clock v (clock_reads s)) a (locks (db s)) = None \<longleftrightarrow>
      (\<exists>c. fst (perform v a s) = Inl (OperationConflict c))) \<and>
    locks (db (perform_all v as s)) = lock_run (op_states (db s)) (timed v as s) (locks (db s))"
  using perform_answers [OF assms, of v a "fst (perform v a s)" "snd (perform v a s)"] perform_all_locks [OF assms]
  by (auto simp: answers_def split: option.splits)

section \<open>What the locks promise\<close>

text \<open>Requests that leave a lock alone: they come before its end and do not free or shorten it.\<close>

fun spares :: "ident \<Rightarrow> ident \<Rightarrow> int \<Rightarrow> instant \<Rightarrow> instant \<times> lock_request \<Rightarrow> bool" where
  "spares key owner generation expiry (now, FreeLock k w n) \<longleftrightarrow>
     now < expiry \<and> \<not> (k = key \<and> w = owner \<and> n = generation)"
| "spares key owner generation expiry (now, RenewLock k w n ttl) \<longleftrightarrow>
     now < expiry \<and> (k = key \<longrightarrow> w = owner \<longrightarrow> n = generation \<longrightarrow> expiry \<le> now + ttl)"
| "spares key owner generation expiry (now, AcquireLock k i w ttl) \<longleftrightarrow> now < expiry"

definition locked :: "lock_table \<Rightarrow> ident \<Rightarrow> ident \<Rightarrow> ident \<Rightarrow> int \<Rightarrow> instant \<Rightarrow> bool" where
  "locked L key oid owner generation expiry \<longleftrightarrow> (\<exists>t. L key = Some t \<and> lk_operation t = oid \<and>
     lk_owner t = owner \<and> lk_generation t = generation \<and> expiry \<le> lk_until t)"

lemma lock_next_respects:
  "locked L key oid owner generation expiry \<Longrightarrow> spares key owner generation expiry a \<Longrightarrow>
     locked (lock_next ops a L) key oid owner generation expiry"
  by (cases "(key, owner, generation, expiry, a)" rule: spares.cases)
    (auto simp: locked_def lock_next_def grantable_def held_by_def split: option.splits if_splits)

lemma lock_run_respects:
  "locked L key oid owner generation expiry \<Longrightarrow> list_all (spares key owner generation expiry) as \<Longrightarrow>
     locked (lock_run ops as L) key oid owner generation expiry"
  by (induction as arbitrary: L) (auto simp: lock_run_simps lock_next_respects)

lemma locked_owns:
  "locked (locks d) key oid owner generation expiry \<Longrightarrow> now < expiry \<Longrightarrow> owns d key oid owner generation now"
  by (auto simp: locked_def locks_def lock_of_def owns_def split: option.splits)

text \<open>
  A lease is safe until it expires. Whatever requests anybody makes before that instant,
  the operation that holds the lease under its generation still passes the fence, unless one
  of the requests is its own: a release, or a heartbeat that shortens the lease.
\<close>

theorem unexpired_lease_survives:
  assumes "keys_ok (db s)" and "lease_lookup (db s) key = Some l"
    and "list_all (spares key (l_owner l) (l_lease_revision l) (l_expires_at l)) (timed v as s)"
    and "now < l_expires_at l"
  shows "owns (db (perform_all v as s)) key (l_operation_id l) (l_owner l) (l_lease_revision l) now"
proof (rule locked_owns [OF _ assms(4)])
  have "locked (locks (db s)) key (l_operation_id l) (l_owner l) (l_lease_revision l) (l_expires_at l)"
    by (simp add: locked_def locks_def lock_of_def assms(2))
  then show "locked (locks (db (perform_all v as s))) key (l_operation_id l) (l_owner l) (l_lease_revision l)
      (l_expires_at l)"
    unfolding perform_all_locks [OF assms(1)] by (rule lock_run_respects [OF _ assms(3)])
qed

end
