(* ===== verification/Workflow_Witnesses.thy ===== *)
theory Workflow_Witnesses
  imports Witnesses Connection_Setup Workflow_Promises Lease_Refinement
begin

text \<open>
  The properties of the concrete workflows and of the table of locks, applied to a small
  installation: a host whose every action works and whose every probe is sure of it, and the
  rows of one queued connection setup.
\<close>

section \<open>Objects\<close>

definition proven :: probe_result where
  "proven = probed COMPLETE ''PROVEN'' None"

definition sample_integration :: "'w integration_host" where
  "sample_integration = \<lparr>ih_ensure_clients = (\<lambda>_. ret (JObj [])),
     ih_probe_clients = (\<lambda>_. ret proven),
     ih_remove_created_clients = (\<lambda>_. ret (JObj [])),
     ih_probe_clients_restored = (\<lambda>_. ret proven),
     ih_start_model = (\<lambda>_. ret (JObj [])),
     ih_probe_model = (\<lambda>_. ret proven),
     ih_restore_model = (\<lambda>_. ret (JObj [])),
     ih_probe_model_restored = (\<lambda>_. ret proven),
     ih_start_gateway = (\<lambda>_. ret (JObj [])),
     ih_probe_gateway = (\<lambda>_. ret proven),
     ih_restore_gateway = (\<lambda>_. ret (JObj [])),
     ih_probe_gateway_restored = (\<lambda>_. ret proven),
     ih_start_openwebui = (\<lambda>_. ret (JObj [])),
     ih_probe_openwebui = (\<lambda>_. ret proven),
     ih_restore_openwebui = (\<lambda>_. ret (JObj [])),
     ih_probe_openwebui_restored = (\<lambda>_. ret proven),
     ih_publish_tailnet = (\<lambda>_. ret (JObj [])),
     ih_probe_tailnet = (\<lambda>_. ret proven),
     ih_restore_tailnet = (\<lambda>_. ret (JObj [])),
     ih_probe_tailnet_restored = (\<lambda>_. ret proven),
     ih_verify_client = (\<lambda>_. ret (JObj [])),
     ih_probe_client_verification = (\<lambda>_. ret proven)\<rparr>"

definition sample_payload :: json where
  "sample_payload = JObj [(''intent'', jstr ''OPENWEBUI''), (''client_id'', jstr (replicate 32 (CHR ''a''))),
     (''client_label'', jstr ''browser''), (''client_kind'', jstr ''openwebui''),
     (''webui_client_id'', jstr (replicate 32 (CHR ''a''))), (''public_alias'', jstr ''local''),
     (''require_tailnet'', JBool False), (''baseline_client_ids'', JList []),
     (''baseline_access_enabled'', JBool False), (''baseline_model_active'', JBool False),
     (''baseline_gateway_consumers'', JList []), (''baseline_openwebui_running'', JBool False),
     (''baseline_sharing_enabled'', JBool False), (''requested_by'', jstr ''gui'')]"

definition shown_empty :: "json \<Rightarrow> pystr" where
  "shown_empty = (\<lambda>_. [])"

abbreviation sample_setup :: "unit workflow_def" where
  "sample_setup \<equiv> build_integration_setup_workflow shown_empty sample_integration"

definition setup_engine :: "unit engine" where
  "setup_engine = sample_engine\<lparr>en_registry := \<lparr>r_workflows = [sample_setup], r_frozen = True\<rparr>\<rparr>"

definition setup_op :: op_row where
  "setup_op = sample_op\<lparr>o_type := INTEGRATION_SETUP, o_request_json := sample_payload\<rparr>"

definition setup_sys :: "unit sys" where
  "setup_sys = sample_sys setup_op (map (\<lambda>step. pending_row ''op'' (sd_key step) (sd_sequence step) 1 None)
     (integration_steps (sample_integration :: unit integration_host))) []"

section \<open>A connection setup\<close>

lemma sample_texts:
  "py_upper (cps ''OPENWEBUI'') = cps ''OPENWEBUI''" "spaced_words (cps ''browser'') = cps ''browser''"
  "spaced_words (cps ''openwebui'') = cps ''openwebui''" "client_identity (cps (replicate 32 (CHR ''a'')))"
  "public_alias (cps ''local'')" "requester (cps ''gui'')" "normalized shown (JList []) = []"
  "label_within 24 (jstr ''openwebui'')" "label_within 80 (jstr ''browser'')"
  by (simp_all add: cps_def py_upper_def upper_cp_def spaced_words_def py_space_def client_identity_def hex_char_def
      public_alias_def alphanumeric_def normalized_def sorted_keys_def label_within_def jstr_def list_all_iff)

lemma sample_payload_decodes: "\<exists>r. decode_integration_setup_request shown_empty sample_payload = Inr r"
proof -
  have given: "text_of shown_empty (jstr t) fallback = cps t" if "t \<noteq> []" for t fallback
    using that by (cases t) (simp_all add: text_of_def jstr_def cps_def)
  have kind: "kind_matches (cps ''OPENWEBUI'') (cps ''openwebui'')"
    by (simp add: kind_matches_def CLIENT_KIND_FOR_INTENT_def)
  have intent: "cps ''OPENWEBUI'' \<in> set (map (\<lambda>p. cps (fst p)) CLIENT_KIND_FOR_INTENT)"
    by (simp add: CLIENT_KIND_FOR_INTENT_def)
  have label: "label_text (jstr t) = spaced_words (cps t)" for t
    by (simp add: jstr_def cps_def)
  show ?thesis
    using intent unfolding sample_payload_def
    by (simp add: decode_integration_setup_request_def decode_simps Let_def given sample_texts kind label
        setup_fields_def flag_names_def)
qed

lemma acts_proven: "acts g oid t1 (\<lambda>_. ret (JObj [])) (\<lambda>_. ret proven)"
proof -
  have "good_output (JObj [])"
    by (simp add: good_output_def or_empty_def fits_def payload_eval)
  moreover have "pr_classification proven = COMPLETE" by (simp add: proven_def)
  ultimately show ?thesis by (auto simp: acts_def intro!: runs_ret)
qed

lemma sample_integration_works: "host_works g oid t1 sample_integration"
  by (simp add: host_works_def sample_integration_def acts_proven)

theorem connection_setup_succeeds_witness:
  "\<exists>out s'. execute_one setup_engine ''op'' setup_sys = (Inr out, s') \<and> oc_kind out = COMPLETED \<and>
     map_option o_state (op_lookup (db s') ''op'') = Some SUCCEEDED \<and>
     map_option s_state (step_lookup (db s') ''op'' ''verify_client'') = Some S_VERIFIED"
proof -
  obtain request where decoded: "decode_integration_setup_request shown_empty sample_payload = Inr request"
    using sample_payload_decodes by blast
  have calm: "calm setup_engine 100 130"
    using sample_calm by (simp add: calm_def setup_engine_def)
  have uuids: "plain_identifiers (en_env setup_engine)"
    by (simp add: plain_identifiers_def setup_engine_def sample_engine_def sample_env_def cps_def)
  have fuel: "6 < en_fuel setup_engine"
    by (simp add: setup_engine_def sample_engine_def)
  have rows: "keys_ok (db setup_sys)"
    by (simp add: keys_ok_def setup_sys_def sample_sys_def setup_op_def sample_op_def pending_row_def step_key_of_def
        integration_steps_def setup_step_def declared_step_def)
  have op: "op_lookup (db setup_sys) ''op'' = Some setup_op" "o_state setup_op = QUEUED"
    "o_cancel_requested_at setup_op = None"
    by (simp_all add: setup_sys_def sample_sys_def op_lookup_def setup_op_def sample_op_def)
  have flow: "lookup_workflow (en_registry setup_engine) (o_type setup_op) (o_request_version setup_op)
      (o_recovery_policy_version setup_op) = Inr sample_setup"
    by (simp add: lookup_workflow_def setup_engine_def workflow_key_def setup_op_def sample_op_def
        build_integration_setup_workflow_def declared_workflow_def)
  have request: "decode_integration_setup_request shown_empty (o_request_json setup_op) = Inr request"
    by (simp add: setup_op_def decoded)
  have pending: "list_all (\<lambda>k. map_option s_state (step_lookup (db setup_sys) ''op'' k) = Some S_PENDING)
      (map sd_key (integration_steps (sample_integration :: unit integration_host)))"
    by (simp add: setup_sys_def sample_sys_def step_lookup_def step_key_of_def pending_row_def
        integration_steps_def setup_step_def declared_step_def)
  have free: "list_all (\<lambda>k. lease_free (db setup_sys) k 100) INTEGRATION_RESOURCES"
    by (simp add: list_all_iff lease_free_def lease_lookup_def setup_sys_def sample_sys_def)
  from connection_setup_succeeds [OF calm uuids fuel rows op flow request sample_integration_works pending free]
  show ?thesis by auto
qed

section \<open>Steps of other workflows\<close>

text \<open>The context of a step whose predecessors left the given outputs.\<close>

definition after_outputs :: "(ident \<times> json) list \<Rightarrow> unit effect_ctx" where
  "after_outputs outputs = (row_ctx sample_engine ''op'' (sample_row S_RUNNING) ''load'' (map_of outputs) (JObj []) [])"

lemma after_outputs_simps [simp]:
  "x_prior_outputs (after_outputs outputs) = map_of outputs" "x_request (after_outputs outputs) = JObj []"
  by (simp_all add: after_outputs_def row_ctx_def)

definition chosen :: json where
  "chosen = JObj (map (\<lambda>k. (k, jstr ''q4'')) candidate_required)"

text \<open>A host to which the candidate's file is gone.\<close>

definition wary_host :: "unit activation_host" where
  "wary_host = undefined\<lparr>ah_observe_candidate := \<lambda>_ _ _. ret (probed ABSENT ''FILE_GONE'' None)\<rparr>"

theorem unproven_candidate_is_never_restarted_witness:
  "restart_execute (wary_host\<lparr>ah_restart_candidate := (\<lambda>_ _ _ _. ret \<lparr>re_restarted_now = True, re_was_already_active = False\<rparr>)\<rparr>)
     (after_outputs [(''resolve_candidate'', chosen)]) fresh_sys =
     (Inl (step_failure ''ARTIFACT_IDENTITY_CHANGED''), fresh_sys)"
proof -
  have "case candidate_from_output chosen of Inr c \<Rightarrow> True | Inl e \<Rightarrow> False"
    by code_simp
  then obtain c where "candidate_from_output chosen = Inr c" by (auto split: sum.splits)
  moreover have "or_empty chosen = chosen" "chosen \<noteq> JObj []"
    by (simp_all add: chosen_def or_empty_def candidate_required_def)
  ultimately show ?thesis
    by (intro unproven_candidate_is_never_restarted [where candidate = c and identity = "probed ABSENT ''FILE_GONE'' None"])
      (simp_all add: output_of_def wary_host_def ret_run)
qed

definition measured_at :: "int \<Rightarrow> json" where
  "measured_at rate = JObj [(''status'', jstr ''COMPLETE''), (''candidate_index'', JInt rate),
     (''generation_per_second'', JInt rate)]"

fun whole_rate :: "json \<Rightarrow> int" where
  "whole_rate (JInt n) = n"
| "whole_rate v = 0"

theorem winner_is_the_fastest_witness:
  "winner whole_rate (\<lambda>_. Inr 0) (map_of [(''measure_candidate_1'', measured_at 1), (''measure_candidate_2'', measured_at 3),
      (''measure_candidate_3'', measured_at 2)]) = Inr (Some (measured_at 3)) \<and>
   list_all (beaten_by (rank whole_rate (\<lambda>_. Inr 0)) (3, -3)) [measured_at 1, measured_at 3, measured_at 2]"
proof -
  let ?o = "map_of [(''measure_candidate_1'', measured_at 1), (''measure_candidate_2'', measured_at 3),
      (''measure_candidate_3'', measured_at 2)]"
  have all: "completed_results ?o = [measured_at 1, measured_at 3, measured_at 2]"
    by (simp add: completed_results_def measured measure_keys output_of_def complete_result_def measured_at_def is_object_def)
  have key: "rank whole_rate (\<lambda>_. Inr 0) (measured_at n) = Inr (n, - n)" for n
    by (simp add: rank_def measured_at_def sum_bind_def)
  have run: "winner whole_rate (\<lambda>_. Inr 0) ?o = Inr (Some (measured_at 3))"
    unfolding winner_def all by (simp add: key sum_bind_def better_def)
  from winner_is_the_fastest [OF run] have "list_all (beaten_by (rank whole_rate (\<lambda>_. Inr 0)) (3, -3))
      [measured_at 1, measured_at 3, measured_at 2]"
    unfolding all by (simp add: key)
  with run show ?thesis by blast
qed

definition reusing :: "(ident \<times> json) list" where
  "reusing = [(''resolve_source'', JObj [(''already_active'', JBool True)])]"

lemma reusing_facts:
  "reuse_active_build (after_outputs reusing)" "\<not> skipped_step (after_outputs reusing) ''exchange_active_tree''"
  "output_of (map_of reusing) k = (if k = ''resolve_source'' then JObj [(''already_active'', JBool True)] else JNull)"
  by (simp_all add: reuse_active_build_def already_active_def resolved_output_def reusing_def output_of_def or_empty_def
      skipped_step_def is_skipped_def is_object_def)

definition interrupted :: "unit effect_ctx" where
  "interrupted = after_outputs ([(''exchange_active_tree'', noop_output []),
     (''capture_activation_boundary'', JObj [(''service_state'', jstr ''STOPPED'')])] @ reusing)"

theorem recovered_skip_breaks_finalize_witness:
  "exchange_probe (undefined :: unit runtime_host) (after_outputs reusing) fresh_sys =
     (Inr (probed COMPLETE ''UNCHANGED_ACTIVE_BUILD'' (Some (noop_output []))), fresh_sys) \<and>
   finalize_execute (undefined :: unit runtime_host) interrupted fresh_sys = (Inl (python_error ''TypeError''), fresh_sys)"
proof -
  obtain b where boundary: "construct RuntimeSnapshot (or_empty (output_of (x_prior_outputs interrupted)
      ''capture_activation_boundary'')) = Inr b"
    by (simp add: interrupted_def construct_def typed_object_def RuntimeSnapshot_def output_of_def or_empty_def)
  have promotion: "falsy (output_of (x_prior_outputs interrupted) ''promote_runtime'')"
    by (simp add: interrupted_def reusing_def output_of_def)
  have run: "exchange_probe (undefined :: unit runtime_host) (after_outputs reusing) fresh_sys =
      (Inr (probed COMPLETE ''UNCHANGED_ACTIVE_BUILD'' (Some (noop_output []))), fresh_sys)"
    by (simp add: exchange_probe_def reusing_facts ret_run)
  have exchanged: "x_prior_outputs interrupted ''exchange_active_tree'' = Some (noop_output [])"
    by (simp add: interrupted_def)
  from recovered_skip_breaks_finalize [OF reusing_facts(1,2), of undefined fresh_sys interrupted undefined fresh_sys b]
    boundary promotion exchanged
  show ?thesis by (simp add: run probed_def)
qed

section \<open>Stored requests and locks\<close>

definition removal :: json where
  "removal = JObj [(''alias'', jstr ''q4''), (''requested_by'', jstr ''cli'')]"

theorem stored_requests_decode_again_witness:
  "\<forall>h. wf_decode_request (build_remove_workflow shown_empty (h :: unit remove_host)) removal = Inr removal"
proof
  fix h :: "unit remove_host"
  let ?c = "\<lparr>py_shown = shown_empty, py_reading = \<lambda>_. Inr 0, py_rate = \<lambda>_. 0\<rparr>"
  let ?hs = "undefined\<lparr>on_remove := h\<rparr>" and ?w = "build_remove_workflow shown_empty h"
  have among: "?w \<in> set (production_workflows ?c ?hs)" by (simp add: production_workflows_def)
  have decoded: "wf_decode_request ?w (JObj [(''alias'', jstr ''q4'')]) = Inr removal"
    by (simp add: build_remove_workflow_def declared_workflow_def decode_remove_request_def on_object_def closed_def
        requires_def decode_simps removal_def jstr_def cps_def blank_def py_space_def)
  have stored: "sanitize_payload REQUEST_MAX_BYTES removal = Inr removal"
    by (simp add: payload_eval removal_def)
  from stored_requests_decode_again [OF among decoded stored]
  show "wf_decode_request ?w removal = Inr removal" .
qed

text \<open>The lease of the sample operation, while another worker asks for the resource.\<close>

abbreviation rival_request :: lock_request where
  "rival_request \<equiv> AcquireLock ''gpu'' ''op'' ''w2'' 60"

theorem leases_refine_locks_witness:
  "(\<exists>c. fst (perform sample_env rival_request running_sys) = Inl (OperationConflict c)) \<and>
   locks (db (perform_all sample_env [rival_request, FreeLock ''gpu'' ''w1'' 1, rival_request] running_sys)) ''gpu'' =
     Some \<lparr>lk_operation = ''op'', lk_owner = ''w2'', lk_generation = 1, lk_until = 160\<rparr>"
proof -
  have lock: "locks (db running_sys) ''gpu'' =
      Some \<lparr>lk_operation = ''op'', lk_owner = ''w1'', lk_generation = 1, lk_until = 130\<rparr>"
    by (simp add: locks_def leased_lookup lock_of_def)
  have state: "op_states (db running_sys) ''op'' = Some RUNNING"
    by (simp add: op_states_def sample_op_lookup)
  have refused: "lock_step (op_states (db running_sys)) 100 rival_request (locks (db running_sys)) = None"
    by (simp add: lock grantable_def)
  note spec = leases_refine_locks [OF sample_keys(2) [of "in_state RUNNING" S_RUNNING "''gpu''" "''w1''" 130], of sample_env rival_request
      "[rival_request, FreeLock ''gpu'' ''w1'' 1, rival_request]"]
  from spec refused show ?thesis
    by (simp add: lock_run_def lock_next_def lock state grantable_def held_by_def)
qed

end
