(* ===== verification/Optimize.thy ===== *)
theory Optimize
  imports Requests Complex_Main
begin

text \<open>
  The reversible tuning of the appliance (\<^verbatim>\<open>optimize.py\<close>, with
  \<^verbatim>\<open>privilege.py\<close> and the acknowledgment check of \<^verbatim>\<open>disclaimer.py\<close>):
  the settings and their validation, the edit of the governor's configuration file, and the
  commands that apply and revert each group of settings. Commands, files and the privileges
  of the process are parameters; the state dictionary the functions mutate is part of the
  state.
\<close>

section \<open>The appliance\<close>

text \<open>
  The row of \<^verbatim>\<open>thermal_state\<close>, the state dictionary of the running command and
  whatever the host is.
\<close>

record thermal_row =
  tr_latch :: pystr
  tr_baseline :: "fields option"

record 'h plant =
  latch_row :: "thermal_row option"
  draft :: fields
  host :: 'h

type_synonym ('h, 'a) plant_prog = "('h plant, 'a) prog"

text \<open>
  A command returns its standard output; with the flag set, a failing command raises. A file
  is read as its text; \<open>mc_database\<close> asks whether the database under a directory is a file.
  \<open>mc_int\<close> and \<open>mc_float\<close> are what \<^verbatim>\<open>int\<close> and
  \<^verbatim>\<open>float\<close> make of a text or a float, a float being the number it denotes;
  \<open>mc_celsius\<close> is the float division of a sensor reading by a thousand and
  \<open>mc_tenths\<close> rounds a temperature for display; \<open>mc_log_path\<close> is the
  path of \<^verbatim>\<open>llama-server.log\<close> in a directory.
\<close>

record 'h machine =
  mc_run :: "pystr list \<Rightarrow> bool \<Rightarrow> 'h \<Rightarrow> (exn + pystr) \<times> 'h"
  mc_exists :: "string \<Rightarrow> 'h \<Rightarrow> (exn + bool) \<times> 'h"
  mc_read :: "string \<Rightarrow> 'h \<Rightarrow> (exn + pystr) \<times> 'h"
  mc_temp_file :: "pystr \<Rightarrow> 'h \<Rightarrow> (exn + pystr) \<times> 'h"
  mc_unlink :: "pystr \<Rightarrow> 'h \<Rightarrow> (exn + unit) \<times> 'h"
  mc_database :: "pystr \<Rightarrow> 'h \<Rightarrow> (exn + bool) \<times> 'h"
  mc_sensor :: "'h \<Rightarrow> (exn + pystr option list) \<times> 'h"
  mc_is_root :: bool
  mc_pkexec :: bool
  mc_sudo :: bool
  mc_log_path :: "pystr \<Rightarrow> pystr"
  mc_shown :: "json \<Rightarrow> pystr"
  mc_int :: "json \<Rightarrow> exn + int"
  mc_float :: "json \<Rightarrow> exn + rat"
  mc_celsius :: "int \<Rightarrow> rat"
  mc_tenths :: "rat \<Rightarrow> rat"

definition on_host :: "('h \<Rightarrow> (exn + 'a) \<times> 'h) \<Rightarrow> ('h, 'a) plant_prog" where
  "on_host f s = (case f (host (world s)) of (r, h) \<Rightarrow> (r, s\<lparr>world := (world s)\<lparr>host := h\<rparr>\<rparr>))"

definition read_draft :: "(fields \<Rightarrow> 'a) \<Rightarrow> ('h, 'a) plant_prog" where
  "read_draft f s = (Inr (f (draft (world s))), s)"

definition write_draft :: "(fields \<Rightarrow> fields) \<Rightarrow> ('h, unit) plant_prog" where
  "write_draft f s = (Inr (), s\<lparr>world := (world s)\<lparr>draft := f (draft (world s))\<rparr>\<rparr>)"

definition set_draft :: "string \<Rightarrow> json \<Rightarrow> ('h, unit) plant_prog" where
  "set_draft k v = write_draft (AList.update k v)"

definition drop_draft :: "string \<Rightarrow> ('h, unit) plant_prog" where
  "drop_draft k = write_draft (AList.delete k)"

definition runtime_error :: exn where
  "runtime_error = python_error ''RuntimeError''"

definition value_error :: exn where
  "value_error = python_error ''ValueError''"

text \<open>\<^verbatim>\<open>dict.update\<close> with the items of another dictionary.\<close>

definition updated_with :: "fields \<Rightarrow> fields \<Rightarrow> fields" where
  "updated_with kvs news = fold (\<lambda>(k, v). AList.update k v) news kvs"

section \<open>Privileges\<close>

definition elevated :: "'h machine \<Rightarrow> pystr list \<Rightarrow> exn + pystr list" where
  "elevated m command =
    (if mc_is_root m then Inr command
     else if mc_pkexec m then Inr (cps ''pkexec'' # command)
     else if mc_sudo m then Inr (cps ''sudo'' # command)
     else Inl (python_error ''PermissionError''))"

definition run :: "'h machine \<Rightarrow> pystr list \<Rightarrow> bool \<Rightarrow> ('h, pystr) plant_prog" where
  "run m command check = on_host (mc_run m command check)"

definition run_elevated :: "'h machine \<Rightarrow> pystr list \<Rightarrow> bool \<Rightarrow> ('h, unit) plant_prog" where
  "run_elevated m command check =
     bind (lift (elevated m command)) (\<lambda>c. bind (run m c check) (\<lambda>_. ret ()))"

definition require_acknowledgment :: "('h, unit) plant_prog" where
  "require_acknowledgment = bind (read_draft (\<lambda>d. get_field d ''disclaimer_ack'')) (\<lambda>ack.
     if falsy ack then throw (python_error ''PermissionError'') else ret ())"

section \<open>Settings\<close>

definition TRIMMABLE_SERVICES :: "string list" where
  "TRIMMABLE_SERVICES = [''input-remapper.service'', ''ds-inhibit.service'', ''displaylink.service'',
     ''dmemcg-booster-system.service'', ''uresourced.service'']"

definition GOVERNOR_PROFILES :: "(string \<times> fields) list" where
  "GOVERNOR_PROFILES = [(''custom'', []),
     (''cool-quiet'', [(''gpu_min_mhz'', JInt 500), (''gpu_max_mhz'', JInt 1400)]),
     (''balanced'', [(''gpu_min_mhz'', JInt 500), (''gpu_max_mhz'', JInt 1850)]),
     (''maximum'', [(''gpu_min_mhz'', JInt 800), (''gpu_max_mhz'', JInt 2000)])]"

definition DEFAULT_OPTIMIZATIONS :: fields where
  "DEFAULT_OPTIMIZATIONS = [(''runtime_enabled'', JBool True), (''flash_attention'', jstr ''auto''),
     (''batch_size'', JInt 1024), (''ubatch_size'', JInt 256), (''kv_cache_type'', jstr ''q8_0''),
     (''parallel_slots'', JInt 4), (''gpu_tuning_enabled'', JBool False), (''gpu_min_mhz'', JInt 500),
     (''gpu_max_mhz'', JInt 1850), (''thermal_throttle_c'', JInt 85), (''thermal_recovery_c'', JInt 75),
     (''memory_enabled'', JBool False), (''swappiness'', JInt 100), (''safeguards_enabled'', JBool False),
     (''restart_window_sec'', JInt 300), (''restart_burst'', JInt 3), (''restart_delay_sec'', JInt 10),
     (''log_max_mib'', JInt 100), (''trim_services_enabled'', JBool False),
     (''trim_services'', JObj (map (\<lambda>unit. (unit, JBool False)) TRIMMABLE_SERVICES)),
     (''governor_profile'', jstr ''balanced''), (''thermal_watchdog_enabled'', JBool False),
     (''thermal_stop_c'', JInt 95), (''threads'', JInt 0), (''fast_sync'', JBool False)]"

text \<open>
  One item of the given settings. A value for the trimmed services that is a dictionary is
  merged into the one held, anything else replaces it; merging into what is no dictionary
  cannot happen, because a dictionary has each key once.
\<close>

definition merge_setting :: "string \<times> json \<Rightarrow> fields \<Rightarrow> fields" where
  "merge_setting kv result = (case kv of (k, v) \<Rightarrow>
     if k = ''gpu_enabled'' then result
     else if k = ''trim_services'' \<and> is_object v
     then AList.update k (JObj (updated_with (object_fields (get_field result k)) (object_fields v))) result
     else AList.update k v result)"

definition normalized_fields :: "fields \<Rightarrow> fields" where
  "normalized_fields settings =
    (let merged = fold merge_setting settings DEFAULT_OPTIMIZATIONS;
         legacy = (if ''gpu_tuning_enabled'' \<in> fst ` set settings then JNull else get_field settings ''gpu_enabled'') in
     if legacy = JNull then merged
     else AList.update ''gpu_tuning_enabled'' (JBool (\<not> falsy legacy)) merged)"

definition normalized_settings :: "json \<Rightarrow> exn + fields" where
  "normalized_settings settings =
    (if falsy settings then Inr DEFAULT_OPTIMIZATIONS
     else case settings of JObj kvs \<Rightarrow> Inr (normalized_fields kvs) | _ \<Rightarrow> Inl (python_error ''AttributeError''))"

definition caught_as_value_error :: "exn \<Rightarrow> bool" where
  "caught_as_value_error e \<longleftrightarrow> exn_class e \<in> {''KeyError'', ''TypeError'', ''ValueError''}"

definition bounded_int :: "'h machine \<Rightarrow> fields \<Rightarrow> string \<Rightarrow> int \<Rightarrow> int \<Rightarrow> exn + int" where
  "bounded_int m settings key low high =
    (case (if key \<in> fst ` set settings then py_int (mc_int m) (get_field settings key) else Inl KeyError) of
       Inl e \<Rightarrow> Inl (if caught_as_value_error e then value_error else e)
     | Inr n \<Rightarrow> if low \<le> n \<and> n \<le> high then Inr n else Inl value_error)"

text \<open>Membership in a set of texts raises for a value that cannot be hashed.\<close>

definition among :: "string list \<Rightarrow> json \<Rightarrow> exn + bool" where
  "among names v = (case v of JList _ \<Rightarrow> Inl (python_error ''TypeError'') | JObj _ \<Rightarrow> Inl (python_error ''TypeError'')
     | _ \<Rightarrow> Inr (one_of names v))"

definition check :: "bool \<Rightarrow> exn + 'a \<Rightarrow> exn + 'a" where
  "check b r = (if b then r else Inl value_error)"

definition profile_fields :: "json \<Rightarrow> fields" where
  "profile_fields profile = concat (map (\<lambda>(name, kvs). if jstr name = profile then kvs else []) GOVERNOR_PROFILES)"

definition known_trims :: "json \<Rightarrow> bool" where
  "known_trims v \<longleftrightarrow> is_object v \<and> fst ` set (object_fields v) \<subseteq> set TRIMMABLE_SERVICES"

definition validate_settings :: "'h machine \<Rightarrow> json \<Rightarrow> exn + fields" where
  "validate_settings m settings =
     sum_bind (normalized_settings settings) (\<lambda>result.
     sum_bind (among [''auto'', ''on'', ''off''] (get_field result ''flash_attention'')) (\<lambda>flash. check flash (
     sum_bind (among [''q8_0'', ''q4_0''] (get_field result ''kv_cache_type'')) (\<lambda>cache. check cache (
     sum_bind (bounded_int m result ''parallel_slots'' 1 8) (\<lambda>_.
     sum_bind (bounded_int m result ''batch_size'' 128 2048) (\<lambda>batch.
     sum_bind (bounded_int m result ''ubatch_size'' 64 512) (\<lambda>ubatch.
     check (batch mod 64 = 0 \<and> ubatch mod 64 = 0) (check (ubatch \<le> batch) (
     sum_bind (bounded_int m result ''gpu_min_mhz'' 500 1200) (\<lambda>minimum.
     sum_bind (bounded_int m result ''gpu_max_mhz'' 1000 2000) (\<lambda>maximum.
     check (minimum < maximum) (
     let profile = get_or result ''governor_profile'' (jstr ''balanced'') in
     sum_bind (among (map fst GOVERNOR_PROFILES) profile) (\<lambda>known. check known (
     let chosen = (if profile \<noteq> jstr ''custom'' then updated_with result (profile_fields profile) else result) in
     sum_bind (bounded_int m chosen ''threads'' 0 64) (\<lambda>_.
     let synced = AList.update ''fast_sync'' (JBool (\<not> falsy (get_field chosen ''fast_sync''))) chosen in
     sum_bind (bounded_int m synced ''thermal_throttle_c'' 75 90) (\<lambda>throttle.
     sum_bind (bounded_int m synced ''thermal_recovery_c'' 60 85) (\<lambda>recovery.
     check (recovery \<le> throttle - 5) (
     sum_bind (bounded_int m synced ''thermal_stop_c'' 80 110) (\<lambda>stop.
     check (throttle < stop) (
     let watched = AList.update ''thermal_watchdog_enabled''
           (JBool (\<not> falsy (get_field synced ''thermal_watchdog_enabled''))) synced in
     sum_bind (bounded_int m watched ''swappiness'' 10 200) (\<lambda>_.
     sum_bind (bounded_int m watched ''restart_window_sec'' 60 900) (\<lambda>_.
     sum_bind (bounded_int m watched ''restart_burst'' 1 10) (\<lambda>_.
     sum_bind (bounded_int m watched ''restart_delay_sec'' 5 60) (\<lambda>_.
     sum_bind (bounded_int m watched ''log_max_mib'' 10 500) (\<lambda>_.
     check (known_trims (get_field watched ''trim_services'')) (Inr watched)))))))))))))))))))))))))))"

section \<open>Editing the governor's configuration\<close>

definition line_break :: "nat \<Rightarrow> bool" where
  "line_break c \<longleftrightarrow> c \<in> {10, 11, 12, 13, 28, 29, 30, 133, 8232, 8233}"

text \<open>\<^verbatim>\<open>str.splitlines(keepends=True)\<close>.\<close>

fun split_lines :: "pystr \<Rightarrow> pystr \<Rightarrow> pystr list" where
  "split_lines w [] = (if w = [] then [] else [rev w])"
| "split_lines w (c # s) =
    (if c = 13 \<and> s \<noteq> [] \<and> hd s = 10 then rev (10 # 13 # w) # split_lines [] (tl s)
     else if line_break c then rev (c # w) # split_lines [] s
     else split_lines (c # w) s)"

definition trailing :: "(nat \<Rightarrow> bool) \<Rightarrow> pystr \<Rightarrow> pystr" where
  "trailing P s = rev (takeWhile P (rev s))"

definition without_trailing :: "(nat \<Rightarrow> bool) \<Rightarrow> pystr \<Rightarrow> pystr" where
  "without_trailing P s = rev (dropWhile P (rev s))"

text \<open>
  The pattern of one assignment: blanks, the key, blanks, the sign, blanks; then the value,
  which is replaced; then the blanks and the comment after it. Both parts that are kept are
  returned.
\<close>

definition spaced_after :: "pystr \<Rightarrow> pystr \<Rightarrow> (pystr \<times> pystr) option" where
  "spaced_after token s =
    (let rest = dropWhile py_space s in
     if take (length token) rest = token
     then Some (takeWhile py_space s @ token, drop (length token) rest) else None)"

definition assignment_parts :: "pystr \<Rightarrow> pystr \<Rightarrow> (pystr \<times> pystr) option" where
  "assignment_parts key line =
    (case spaced_after key line of
       None \<Rightarrow> None
     | Some (before, rest) \<Rightarrow>
        (case spaced_after (cps ''='') rest of
           None \<Rightarrow> None
         | Some (sign, rest) \<Rightarrow>
            (let held = dropWhile py_space rest; body = takeWhile (\<lambda>c. c \<noteq> 35) held in
             Some (before @ sign @ takeWhile py_space rest,
               trailing py_space body @ dropWhile (\<lambda>c. c \<noteq> 35) held))))"

definition section_header :: "pystr \<Rightarrow> bool" where
  "section_header s \<longleftrightarrow> s \<noteq> [] \<and> hd s = 91 \<and> List.last s = 93"

definition assigned :: "pystr \<Rightarrow> pystr \<Rightarrow> pystr \<Rightarrow> pystr option" where
  "assigned key value line =
    (case assignment_parts key (without_trailing (\<lambda>c. c = 10 \<or> c = 13) line) of
       None \<Rightarrow> None
     | Some (before, after) \<Rightarrow>
         Some (before @ value @ after @ (if line \<noteq> [] \<and> List.last line = 10 then [10] else [])))"

fun edited_lines :: "pystr \<Rightarrow> pystr \<Rightarrow> pystr \<Rightarrow> bool \<Rightarrow> pystr list \<Rightarrow> pystr list option" where
  "edited_lines header key value active [] = None"
| "edited_lines header key value active (line # lines) =
    (if section_header (py_strip line)
     then map_option ((#) line) (edited_lines header key value (py_strip line = header) lines)
     else case (if active then assigned key value line else None) of
         Some changed \<Rightarrow> Some (changed # lines)
       | None \<Rightarrow> map_option ((#) line) (edited_lines header key value active lines))"

definition update_toml_value :: "pystr \<Rightarrow> string \<Rightarrow> string \<Rightarrow> int \<Rightarrow> exn + pystr" where
  "update_toml_value text_given section_name key value =
    (case edited_lines (cps (''['' @ section_name @ '']'')) (cps key) (dumps_int value) False (split_lines [] text_given) of
       None \<Rightarrow> Inl value_error
     | Some lines \<Rightarrow> Inr (concat lines))"

section \<open>Applying and reverting\<close>

definition CYAN_CONFIG :: string where
  "CYAN_CONFIG = ''/etc/cyan-skillfish-governor-smu/config.toml''"
definition CYAN_BACKUP :: string where
  "CYAN_BACKUP = ''/etc/cyan-skillfish-governor-smu/config.toml.bc250-original''"
definition CYAN_SERVICE :: string where
  "CYAN_SERVICE = ''cyan-skillfish-governor-smu.service''"
definition SYSCTL_CONFIG :: string where
  "SYSCTL_CONFIG = ''/etc/sysctl.d/99-bc250-llm-mode.conf''"
definition LOGROTATE_CONFIG :: string where
  "LOGROTATE_CONFIG = ''/etc/logrotate.d/bc250-llm-mode''"

text \<open>The temporary file is removed whatever the installing command does.\<close>

definition install_text :: "'h machine \<Rightarrow> string \<Rightarrow> pystr \<Rightarrow> ('h, unit) plant_prog" where
  "install_text m path content = bind (on_host (mc_temp_file m content)) (\<lambda>name s.
     case run_elevated m (map cps [''install'', ''-D'', ''-m'', ''0644''] @ [name, cps path]) True s of
       (r, s') \<Rightarrow> (r, snd (on_host (mc_unlink m name) s')))"

definition GPU_EDITS :: "(string \<times> string \<times> string) list" where
  "GPU_EDITS = [(''frequency-range'', ''min'', ''gpu_min_mhz''), (''frequency-range'', ''max'', ''gpu_max_mhz''),
     (''temperature'', ''throttling'', ''thermal_throttle_c''),
     (''temperature'', ''throttling_recovery'', ''thermal_recovery_c'')]"

fun edited_config :: "'h machine \<Rightarrow> fields \<Rightarrow> (string \<times> string \<times> string) list \<Rightarrow> pystr \<Rightarrow> exn + pystr" where
  "edited_config m settings [] content = Inr content"
| "edited_config m settings ((section_name, key, setting) # edits) content =
     sum_bind (py_int (mc_int m) (get_field settings setting)) (\<lambda>n.
     sum_bind (update_toml_value content section_name key n) (edited_config m settings edits))"

definition apply_gpu :: "'h machine \<Rightarrow> fields \<Rightarrow> ('h, unit) plant_prog" where
  "apply_gpu m settings = bind (on_host (mc_exists m CYAN_CONFIG)) (\<lambda>present.
     if \<not> present then throw runtime_error
     else bind (on_host (mc_exists m CYAN_BACKUP)) (\<lambda>saved.
       andthen (only_if (\<not> saved) (run_elevated m
          (map cps [''cp'', ''--preserve=mode,ownership,timestamps'', CYAN_CONFIG, CYAN_BACKUP]) True))
      (andthen (set_draft ''gpu_optimizer_applied'' (JBool True))
      (bind (on_host (mc_read m CYAN_CONFIG)) (\<lambda>content.
       bind (lift (edited_config m settings GPU_EDITS content)) (\<lambda>edited.
       bind (on_host (mc_read m CYAN_CONFIG)) (\<lambda>current.
         only_if (edited \<noteq> current)
           (andthen (install_text m CYAN_CONFIG edited)
             (run_elevated m (map cps [''systemctl'', ''restart'', CYAN_SERVICE]) True)))))))))"

definition revert_gpu :: "'h machine \<Rightarrow> ('h, unit) plant_prog" where
  "revert_gpu m = bind (read_draft (\<lambda>d. get_field d ''gpu_optimizer_applied'')) (\<lambda>applied.
     if falsy applied then ret ()
     else bind (on_host (mc_exists m CYAN_BACKUP)) (\<lambda>saved.
       andthen (only_if saved
         (andthen (run_elevated m (map cps [''cp'', ''--preserve=mode,ownership,timestamps'', CYAN_BACKUP, CYAN_CONFIG]) True)
         (andthen (run_elevated m (map cps [''rm'', ''-f'', CYAN_BACKUP]) True)
           (run_elevated m (map cps [''systemctl'', ''restart'', CYAN_SERVICE]) False))))
       (set_draft ''gpu_optimizer_applied'' (JBool False))))"

definition unit_status :: "'h machine \<Rightarrow> string \<Rightarrow> ('h, json) plant_prog" where
  "unit_status m unit = bind (run m (map cps [''systemctl'', ''is-enabled'', unit]) False) (\<lambda>enabled.
     bind (run m (map cps [''systemctl'', ''is-active'', unit]) False) (\<lambda>active.
       ret (JObj [(''enabled'', JBool (py_strip enabled = cps ''enabled'')),
          (''active'', JBool (py_strip active = cps ''active''))])))"

text \<open>\<^verbatim>\<open>dict(value)\<close> of a dictionary or of something empty.\<close>

definition as_dict :: "json \<Rightarrow> exn + fields" where
  "as_dict v = (case v of JObj kvs \<Rightarrow> Inr kvs
     | _ \<Rightarrow> if v = JList [] \<or> v = JStr [] then Inr [] else Inl (python_error ''TypeError''))"

fun trim_units :: "'h machine \<Rightarrow> fields \<Rightarrow> string list \<Rightarrow> fields \<Rightarrow> ('h, fields) plant_prog" where
  "trim_units m selected [] previous = ret previous"
| "trim_units m selected (unit # remaining) previous =
    (if \<not> falsy (get_field selected unit)
     then bind (if unit \<in> fst ` set previous then ret previous
            else bind (unit_status m unit) (\<lambda>v. ret (AList.update unit v previous))) (\<lambda>previous.
       andthen (run_elevated m (map cps [''systemctl'', ''stop'', unit]) False)
      (andthen (run_elevated m (map cps [''systemctl'', ''disable'', unit]) False)
        (trim_units m selected remaining previous)))
     else if unit \<in> fst ` set previous
     then (let status = get_field previous unit in
       andthen (only_if (\<not> falsy (attr status ''enabled''))
         (run_elevated m (map cps [''systemctl'', ''enable'', unit]) False))
      (andthen (only_if (\<not> falsy (attr status ''active''))
         (run_elevated m (map cps [''systemctl'', ''start'', unit]) False))
        (trim_units m selected remaining (AList.delete unit previous))))
     else trim_units m selected remaining previous)"

definition apply_service_trim :: "'h machine \<Rightarrow> fields \<Rightarrow> ('h, unit) plant_prog" where
  "apply_service_trim m settings =
     bind (read_draft (\<lambda>d. get_or d ''optimization_service_previous'' (JObj []))) (\<lambda>v.
     bind (lift (as_dict v)) (\<lambda>previous.
     bind (trim_units m (if falsy (get_field settings ''trim_services_enabled'') then []
         else object_fields (get_field settings ''trim_services'')) TRIMMABLE_SERVICES previous) (\<lambda>previous.
       set_draft ''optimization_service_previous'' (JObj previous))))"

definition swappiness_text :: "int \<Rightarrow> pystr" where
  "swappiness_text n = cps ''# Managed by BC250 LLM MODE'' @ [10] @ cps ''vm.swappiness='' @ dumps_int n @ [10]"

text \<open>The kernel's value, 60 when it cannot be read as a number.\<close>

definition original_swappiness :: "'h machine \<Rightarrow> ('h, json) plant_prog" where
  "original_swappiness m = handle
     (bind (on_host (mc_read m ''/proc/sys/vm/swappiness'')) (\<lambda>text_read.
       bind (lift (py_int (mc_int m) (JStr (py_strip text_read)))) (\<lambda>n. ret (JInt n))))
     (\<lambda>e. if exn_class e \<in> {''OSError'', ''ValueError''} then Some (ret (JInt 60)) else None)"

definition apply_memory :: "'h machine \<Rightarrow> fields \<Rightarrow> ('h, unit) plant_prog" where
  "apply_memory m settings =
     bind (read_draft (\<lambda>d. ''optimization_original_swappiness'' \<in> fst ` set d)) (\<lambda>saved.
     if \<not> falsy (get_field settings ''memory_enabled'')
     then andthen (only_if (\<not> saved) (bind (original_swappiness m) (set_draft ''optimization_original_swappiness'')))
      (bind (lift (py_int (mc_int m) (get_field settings ''swappiness''))) (\<lambda>n.
         andthen (install_text m SYSCTL_CONFIG (swappiness_text n))
           (run_elevated m [cps ''sysctl'', cps ''-w'', cps ''vm.swappiness='' @ dumps_int n] True)))
     else if saved
     then bind (read_draft (\<lambda>d. get_field d ''optimization_original_swappiness'')) (\<lambda>v.
       andthen (drop_draft ''optimization_original_swappiness'')
      (bind (lift (py_int (mc_int m) v)) (\<lambda>n.
         andthen (run_elevated m [cps ''sysctl'', cps ''-w'', cps ''vm.swappiness='' @ dumps_int n] False)
         (bind (on_host (mc_exists m SYSCTL_CONFIG)) (\<lambda>present.
           only_if present (run_elevated m (map cps [''rm'', ''-f'', SYSCTL_CONFIG]) False))))))
     else ret ())"

definition logrotate_text :: "pystr \<Rightarrow> int \<Rightarrow> pystr" where
  "logrotate_text server_log n = server_log @ cps '' {'' @ [10] @ cps ''    size '' @ dumps_int n @ cps ''M'' @ [10] @
     concat (map (\<lambda>l. cps (''    '' @ l) @ [10]) [''rotate 3'', ''compress'', ''copytruncate'', ''missingok'', ''notifempty'']) @
     cps ''}'' @ [10]"

text \<open>
  \<^verbatim>\<open>state.get(key, default)\<close> computes the default first, so an ordinary user
  needs the key \<^verbatim>\<open>logs_dir\<close> even when the log file is named.
\<close>

definition server_log :: "'h machine \<Rightarrow> fields \<Rightarrow> exn + pystr" where
  "server_log m d =
     sum_bind (if mc_is_root m then Inr (cps ''/root/llama-server.log'')
       else if ''logs_dir'' \<in> fst ` set d
       then Inr (mc_log_path m (py_str (mc_shown m) (get_field d ''logs_dir''))) else Inl KeyError) (\<lambda>fallback.
     Inr (py_str (mc_shown m) (get_or d ''server_log'' (JStr fallback))))"

definition apply_log_rotation :: "'h machine \<Rightarrow> fields \<Rightarrow> ('h, unit) plant_prog" where
  "apply_log_rotation m settings =
    (if \<not> falsy (get_field settings ''safeguards_enabled'')
     then bind (read_draft (server_log m)) (\<lambda>r. bind (lift r) (\<lambda>path.
       bind (lift (py_int (mc_int m) (get_field settings ''log_max_mib''))) (\<lambda>n.
         andthen (install_text m LOGROTATE_CONFIG (logrotate_text path n))
           (set_draft ''optimization_logrotate_applied'' (JBool True)))))
     else bind (read_draft (\<lambda>d. get_field d ''optimization_logrotate_applied'')) (\<lambda>applied.
       if falsy applied then ret ()
       else bind (on_host (mc_exists m LOGROTATE_CONFIG)) (\<lambda>present.
         andthen (only_if present (run_elevated m (map cps [''rm'', ''-f'', LOGROTATE_CONFIG]) False))
           (set_draft ''optimization_logrotate_applied'' (JBool False)))))"

definition apply_optimizations :: "'h machine \<Rightarrow> json \<Rightarrow> ('h, unit) plant_prog" where
  "apply_optimizations m settings = andthen require_acknowledgment
     (bind (lift (validate_settings m settings)) (\<lambda>checked.
       andthen (if falsy (get_field checked ''gpu_tuning_enabled'') then revert_gpu m else apply_gpu m checked)
      (andthen (apply_service_trim m checked)
      (andthen (apply_memory m checked)
      (andthen (apply_log_rotation m checked)
      (andthen (set_draft ''optimizations'' (JObj checked))
      (andthen (set_draft ''optimizations_applied'' (JBool True))
      (bind (read_draft (\<lambda>d. get_or d ''setup_phase'' (JInt 0))) (\<lambda>phase.
       bind (lift (py_int (mc_int m) phase)) (\<lambda>n.
         set_draft ''setup_phase'' (JInt (max n 6)))))))))))) "

definition revert_optimizations :: "'h machine \<Rightarrow> ('h, unit) plant_prog" where
  "revert_optimizations m = bind (read_draft (\<lambda>d. get_field d ''optimizations'')) (\<lambda>stored.
     bind (lift (normalized_settings stored)) (\<lambda>settings.
      let cleared = updated_with settings (map (\<lambda>k. (k, JBool False))
            [''gpu_tuning_enabled'', ''memory_enabled'', ''safeguards_enabled'', ''trim_services_enabled'']) in
       andthen (revert_gpu m)
      (andthen (apply_service_trim m cleared)
      (andthen (apply_memory m cleared)
      (andthen (apply_log_rotation m cleared)
        (set_draft ''optimizations_applied'' (JBool False)))))))"

text \<open>The two entry points of the thermal watchdog.\<close>

definition apply_gpu_clock_limit :: "'h machine \<Rightarrow> int \<Rightarrow> ('h, unit) plant_prog" where
  "apply_gpu_clock_limit m max_mhz = bind (read_draft (\<lambda>d. get_field d ''optimizations'')) (\<lambda>stored.
     bind (lift (normalized_settings stored)) (\<lambda>settings.
       apply_optimizations m (JObj (updated_with settings [(''gpu_tuning_enabled'', JBool True),
         (''governor_profile'', jstr ''custom''), (''gpu_max_mhz'', JInt max_mhz)]))))"

definition restore_gpu_profile :: "'h machine \<Rightarrow> json \<Rightarrow> ('h, unit) plant_prog" where
  "restore_gpu_profile m settings = andthen require_acknowledgment
     (bind (lift (validate_settings m settings)) (\<lambda>checked.
      let tuned = AList.update ''gpu_tuning_enabled'' (JBool True) checked in
       andthen (apply_gpu m tuned)
      (andthen (set_draft ''optimizations'' (JObj tuned))
        (set_draft ''optimizations_applied'' (JBool True)))))"

end
