(* ===== verification/Thermals.thy ===== *)
theory Thermals
  imports Optimize
begin

text \<open>
  The thermal watchdog (\<^verbatim>\<open>thermals.py\<close>), the service that alone writes the
  thermal latch (\<^verbatim>\<open>ThermalStateService\<close> of \<^verbatim>\<open>services.py\<close> over the
  repository of \<^verbatim>\<open>repositories.py\<close>), the commands with which the model service is
  observed and stopped and the check before every start (\<^verbatim>\<open>server.py\<close>). A poll reads
  the latch, the settings and the sensor, decides, makes the decision durable and acts.
  Lines written for people are left out.
\<close>

section \<open>The durable latch\<close>

definition NOMINAL :: pystr where "NOMINAL = cps ''nominal''"
definition THROTTLED :: pystr where "THROTTLED = cps ''throttled''"
definition STOPPED :: pystr where "STOPPED = cps ''stopped''"

text \<open>
  \<open>te_open\<close> gives the row the n-th unit of work finds, which other processes may have
  changed, or the exception that opening it raises; \<open>te_stamp\<close> formats an instant and
  \<open>te_message\<close> is the text of an exception.
\<close>

record thermal_env =
  te_env :: env
  te_open :: "nat \<Rightarrow> thermal_row option \<Rightarrow> exn + thermal_row option"
  te_stamp :: "instant \<Rightarrow> pystr"
  te_message :: "exn \<Rightarrow> pystr"

definition with_row :: "thermal_row option \<Rightarrow> 'h plant sys \<Rightarrow> 'h plant sys" where
  "with_row row s = s\<lparr>world := (world s)\<lparr>latch_row := row\<rparr>\<rparr>"

definition thermal_unit :: "thermal_env \<Rightarrow> ('h, 'a) plant_prog \<Rightarrow> ('h, 'a) plant_prog" where
  "thermal_unit v body s =
    (let n = units s; s0 = s\<lparr>units := Suc n\<rparr> in
     case te_open v n (latch_row (world s)) of
       Inl e \<Rightarrow> (Inl e, s0)
     | Inr row \<Rightarrow>
         (case body (with_row row s0) of
            (Inl e, s1) \<Rightarrow> (Inl e, with_row row s1)
          | (Inr x, s1) \<Rightarrow>
              (case e_commit (te_env v) n of
                 Some e \<Rightarrow> (Inl e, with_row row s1)
               | None \<Rightarrow> (Inr x, s1))))"

definition get_row :: "('h, thermal_row) plant_prog" where
  "get_row s = (Inr (case latch_row (world s) of
      None \<Rightarrow> \<lparr>tr_latch = NOMINAL, tr_baseline = None\<rparr> | Some row \<Rightarrow> row), s)"

text \<open>An empty baseline is stored as no baseline.\<close>

definition set_row :: "pystr \<Rightarrow> fields option \<Rightarrow> ('h, unit) plant_prog" where
  "set_row latch baseline s = (Inr (), with_row (Some \<lparr>tr_latch = latch,
     tr_baseline = (if baseline = Some [] then None else baseline)\<rparr>) s)"

definition current :: "thermal_env \<Rightarrow> ('h, thermal_row) plant_prog" where
  "current v = thermal_unit v get_row"

datatype baseline_change = KeepBaseline | ClearBaseline | SetBaseline fields | AnnotateBaseline fields

definition latch_protected :: exn where
  "latch_protected = python_error ''ThermalLatchProtected''"

fun changed_baseline :: "baseline_change \<Rightarrow> fields option \<Rightarrow> fields option" where
  "changed_baseline KeepBaseline b = b"
| "changed_baseline ClearBaseline b = None"
| "changed_baseline (SetBaseline kvs) b = Some kvs"
| "changed_baseline (AnnotateBaseline kvs) b = Some (updated_with (case b of None \<Rightarrow> [] | Some old \<Rightarrow> old) kvs)"

definition apply_latch :: "thermal_env \<Rightarrow> pystr option \<Rightarrow> baseline_change \<Rightarrow> bool \<Rightarrow> ('h, thermal_row) plant_prog" where
  "apply_latch v latch change allow_from_stopped = thermal_unit v (bind get_row (\<lambda>row.
     let held = (if tr_latch row = [] then NOMINAL else tr_latch row) in
     if held = STOPPED \<and> \<not> allow_from_stopped \<and> latch \<noteq> None \<and> latch \<noteq> Some STOPPED then throw latch_protected
     else let latch' = (case latch of None \<Rightarrow> held | Some l \<Rightarrow> l); baseline = changed_baseline change (tr_baseline row) in
       andthen (set_row latch' baseline) (ret \<lparr>tr_latch = latch', tr_baseline = baseline\<rparr>)))"

definition ensure_throttle :: "thermal_env \<Rightarrow> fields \<Rightarrow> ('h, thermal_row) plant_prog" where
  "ensure_throttle v baseline = apply_latch v (Some THROTTLED) (SetBaseline baseline) False"

definition mark_hold :: "thermal_env \<Rightarrow> ('h, thermal_row) plant_prog" where
  "mark_hold v = apply_latch v (Some THROTTLED) KeepBaseline False"

definition mark_nominal :: "thermal_env \<Rightarrow> bool \<Rightarrow> ('h, thermal_row) plant_prog" where
  "mark_nominal v clear = apply_latch v (Some NOMINAL) (if clear then ClearBaseline else KeepBaseline) False"

definition mark_stopped :: "thermal_env \<Rightarrow> ('h, thermal_row) plant_prog" where
  "mark_stopped v = apply_latch v (Some STOPPED) KeepBaseline False"

definition record_stop_outcome :: "thermal_env \<Rightarrow> string \<Rightarrow> ('h, thermal_row) plant_prog" where
  "record_stop_outcome v outcome =
    (if outcome \<notin> {''confirmed'', ''pending'', ''failed''} then throw value_error
     else bind (clock (te_env v)) (\<lambda>now. apply_latch v None
       (AnnotateBaseline [(''stop_outcome'', jstr outcome), (''stop_observed_at'', JStr (te_stamp v now))]) False))"

definition annotate_restore_failure :: "thermal_env \<Rightarrow> pystr \<Rightarrow> ('h, thermal_row) plant_prog" where
  "annotate_restore_failure v message = apply_latch v None (AnnotateBaseline [(''last_restore_error'', JStr message)]) False"

definition reset_to_nominal :: "thermal_env \<Rightarrow> ('h, thermal_row) plant_prog" where
  "reset_to_nominal v = apply_latch v (Some NOMINAL) ClearBaseline True"

section \<open>The model service\<close>

definition unit_property :: "'h machine \<Rightarrow> pystr \<Rightarrow> string \<Rightarrow> ('h, pystr) plant_prog" where
  "unit_property m service property =
     bind (run m [cps ''systemctl'', cps ''show'', service, cps (''--property='' @ property), cps ''--value''] False)
       (\<lambda>shown. ret (py_strip shown))"

definition or_text :: "pystr \<Rightarrow> string \<Rightarrow> json" where
  "or_text s fallback = (if s = [] then jstr fallback else JStr s)"

definition service_status :: "'h machine \<Rightarrow> ('h, fields) plant_prog" where
  "service_status m =
     bind (read_draft (\<lambda>d. py_str (mc_shown m) (get_or d ''service_name'' (jstr ''bc250-llm.service'')))) (\<lambda>service.
     bind (unit_property m service ''LoadState'') (\<lambda>load.
     let missing = (load = cps ''not-found'');
         field = (\<lambda>property absent. if missing then ret (cps absent) else unit_property m service property) in
     bind (field ''ActiveState'' ''inactive'') (\<lambda>active.
     bind (field ''SubState'' ''dead'') (\<lambda>sub.
     bind (field ''UnitFileState'' ''disabled'') (\<lambda>unit_file.
       ret [(''service'', JStr service), (''installed'', JBool (load \<noteq> [] \<and> \<not> missing)),
         (''load_state'', or_text load ''unknown''), (''active'', JBool (active = cps ''active'')),
         (''active_state'', or_text active ''unknown''), (''sub_state'', or_text sub ''unknown''),
         (''enabled'', JBool (unit_file \<in> set (map cps [''enabled'', ''enabled-runtime'', ''static'']))),
         (''unit_file_state'', or_text unit_file ''unknown'')])))))"

definition stop_service :: "'h machine \<Rightarrow> ('h, fields) plant_prog" where
  "stop_service m =
     bind (read_draft (\<lambda>d. if ''service_name'' \<in> fst ` set d
       then Inr (py_str (mc_shown m) (get_field d ''service_name'')) else Inl KeyError)) (\<lambda>r.
     bind (lift r) (\<lambda>service.
       andthen (run_elevated m [cps ''systemctl'', cps ''stop'', service] False)
      (andthen (run_elevated m [cps ''systemctl'', cps ''reset-failed'', service] False)
        (service_status m))))"

section \<open>Decisions\<close>

text \<open>The first sensor with a number; a sensor that is empty or holds no number is passed over.\<close>

fun first_reading :: "'h machine \<Rightarrow> pystr option list \<Rightarrow> exn + rat option" where
  "first_reading m [] = Inr None"
| "first_reading m (r # rs) = (case r of
     None \<Rightarrow> first_reading m rs
   | Some raw \<Rightarrow>
      (if raw = [] then first_reading m rs
       else case py_int (mc_int m) (JStr raw) of
           Inr n \<Rightarrow> Inr (Some (mc_celsius m n))
         | Inl e \<Rightarrow> if exn_class e = ''ValueError'' then first_reading m rs else Inl e))"

definition read_gpu_temperature :: "'h machine \<Rightarrow> ('h, rat option) plant_prog" where
  "read_gpu_temperature m = bind (on_host (mc_sensor m)) (\<lambda>readings. lift (first_reading m readings))"

definition thermal_action :: "pystr \<Rightarrow> rat \<Rightarrow> rat \<Rightarrow> rat \<Rightarrow> rat option \<Rightarrow> string" where
  "thermal_action state temp throttle recovery stop =
    (if state = STOPPED then ''stop''
     else if (case stop of None \<Rightarrow> False | Some limit \<Rightarrow> limit \<le> temp) then ''stop''
     else if state = THROTTLED then (if temp \<le> recovery then ''resume'' else ''hold'')
     else if throttle \<le> temp then ''throttle'' else ''ok'')"

fun py_float :: "'h machine \<Rightarrow> json \<Rightarrow> exn + rat" where
  "py_float m (JInt n) = Inr (of_int n)"
| "py_float m (JBool b) = Inr (if b then 1 else 0)"
| "py_float m (JFloat t) = mc_float m (JFloat t)"
| "py_float m (JStr s) = mc_float m (JStr s)"
| "py_float m v = Inl (python_error ''TypeError'')"

definition float_setting :: "'h machine \<Rightarrow> fields \<Rightarrow> string \<Rightarrow> exn + rat" where
  "float_setting m settings k =
    (if k \<in> fst ` set settings then py_float m (get_field settings k) else Inl KeyError)"

definition int_setting :: "'h machine \<Rightarrow> fields \<Rightarrow> string \<Rightarrow> exn + int" where
  "int_setting m settings k =
    (if k \<in> fst ` set settings then py_int (mc_int m) (get_field settings k) else Inl KeyError)"

definition cool_max_mhz :: "'h machine \<Rightarrow> fields \<Rightarrow> exn + int" where
  "cool_max_mhz m settings =
     sum_bind (py_int (mc_int m) (get_or settings ''gpu_max_mhz'' (JInt 1850))) (\<lambda>ceiling.
     sum_bind (py_int (mc_int m) (get_or settings ''gpu_min_mhz'' (JInt 500))) (\<lambda>lowest.
       Inr (max (lowest + 200) (min ceiling 1400))))"

section \<open>The store behind a handle\<close>

text \<open>
  A handle with a database has the thermal service; the composed application also has the
  observed platform, a reader of the whole model and a producer of notifications.
\<close>

record 'h store =
  so_database :: bool
  so_gpu_tuning :: "bool option"
  so_read_model :: "('h \<Rightarrow> (exn + fields) \<times> 'h) option"
  so_load :: "('h \<Rightarrow> (exn + fields) \<times> 'h) option"
  so_notify :: "(pystr \<Rightarrow> 'h \<Rightarrow> (exn + unit) \<times> 'h) option"

definition baseline_json :: "fields option \<Rightarrow> json" where
  "baseline_json b = (case b of None \<Rightarrow> JNull | Some kvs \<Rightarrow> JObj kvs)"

text \<open>The model a reader returns carries the latch and the baseline of the row (\<^verbatim>\<open>queries.py\<close>).\<close>

definition loaded_with_latch :: "thermal_env \<Rightarrow> ('h \<Rightarrow> (exn + fields) \<times> 'h) \<Rightarrow> ('h, fields) plant_prog" where
  "loaded_with_latch v f = bind (current v) (\<lambda>row. bind (on_host f) (\<lambda>d.
     ret (AList.update ''thermal_watchdog_baseline'' (baseline_json (tr_baseline row))
       (AList.update ''thermal_watchdog_state'' (JStr (tr_latch row)) d))))"

definition with_service :: "'h store \<Rightarrow> ('h, thermal_row) plant_prog \<Rightarrow> ('h, unit) plant_prog" where
  "with_service so m = (if so_database so then bind m (\<lambda>_. ret ()) else ret ())"

definition gpu_throttle_available :: "'h store \<Rightarrow> fields \<Rightarrow> bool" where
  "gpu_throttle_available so settings = (case so_gpu_tuning so of
     Some b \<Rightarrow> b | None \<Rightarrow> \<not> falsy (get_field settings ''gpu_tuning_enabled''))"

definition swallow :: "('h, unit) plant_prog \<Rightarrow> ('h, unit) plant_prog" where
  "swallow m = handle m (\<lambda>e. if is_exception e then Some (ret ()) else None)"

definition notify_transition :: "'h store \<Rightarrow> pystr \<Rightarrow> ('h, unit) plant_prog" where
  "notify_transition so latch = (case so_notify so of None \<Rightarrow> ret () | Some f \<Rightarrow> swallow (on_host (f latch)))"

definition persist_stopped :: "thermal_env \<Rightarrow> 'h store \<Rightarrow> ('h, unit) plant_prog" where
  "persist_stopped v so = andthen (with_service so (mark_stopped v)) (set_draft ''thermal_watchdog_state'' (JStr STOPPED))"

section \<open>One poll\<close>

record poll_result =
  po_state :: pystr
  po_temperature :: "rat option"
  po_action :: string
  po_detail :: fields

definition enforce_latched_stop :: "thermal_env \<Rightarrow> 'h machine \<Rightarrow> 'h store \<Rightarrow> rat option \<Rightarrow> ('h, poll_result) plant_prog" where
  "enforce_latched_stop v m so temperature =
     bind (handle (service_status m) (\<lambda>e. if is_exception e then Some (ret []) else None)) (\<lambda>observed.
     bind (handle
        (if one_of [''inactive'', ''failed''] (get_field observed ''active_state'') then ret ''confirmed''
         else bind (stop_service m) (\<lambda>after.
           ret (if get_field after ''active'' = JBool False then ''confirmed'' else ''pending'')))
        (\<lambda>e. if is_exception e then Some (ret ''failed'') else None)) (\<lambda>outcome.
     andthen (with_service so (record_stop_outcome v outcome))
       (ret \<lparr>po_state = (if temperature = None then cps ''latched'' else STOPPED), po_temperature = temperature,
          po_action = (if temperature = None then ''latched'' else ''stop''),
          po_detail = [(''stop_outcome'', jstr outcome), (''inactive_confirmed'', JBool (outcome = ''confirmed''))]\<rparr>)))"

definition shown_poll :: "'h machine \<Rightarrow> pystr \<Rightarrow> rat \<Rightarrow> string \<Rightarrow> fields \<Rightarrow> poll_result" where
  "shown_poll m state temp action detail =
     \<lparr>po_state = state, po_temperature = Some (mc_tenths m temp), po_action = action, po_detail = detail\<rparr>"

definition draft_baseline :: "fields \<Rightarrow> json" where
  "draft_baseline d = get_field d ''thermal_watchdog_baseline''"

definition finish_poll :: "'h machine \<Rightarrow> 'h store \<Rightarrow> pystr \<Rightarrow> pystr \<Rightarrow> rat \<Rightarrow> string \<Rightarrow> ('h, poll_result) plant_prog" where
  "finish_poll m so before state temp action =
     andthen (set_draft ''thermal_watchdog_state'' (JStr state))
    (andthen (only_if (action = ''throttle'' \<and> before \<noteq> THROTTLED) (notify_transition so THROTTLED))
    (bind (read_draft draft_baseline) (\<lambda>baseline.
       ret (shown_poll m state temp action
         (if falsy baseline then [] else [(''baseline_preserved'', JBool True)])))))"

definition capture_baseline :: "thermal_env \<Rightarrow> 'h machine \<Rightarrow> 'h store \<Rightarrow> fields \<Rightarrow> ('h, unit) plant_prog" where
  "capture_baseline v m so settings =
     bind (lift (int_setting m settings ''gpu_max_mhz'')) (\<lambda>highest.
     bind (lift (int_setting m settings ''gpu_min_mhz'')) (\<lambda>lowest.
      let baseline = [(''gpu_max_mhz'', JInt highest), (''gpu_min_mhz'', JInt lowest),
            (''governor_profile'', get_or settings ''governor_profile'' (jstr ''balanced''))] in
       andthen (with_service so (ensure_throttle v baseline))
         (set_draft ''thermal_watchdog_baseline'' (JObj baseline))))"

definition throttle_poll :: "thermal_env \<Rightarrow> 'h machine \<Rightarrow> 'h store \<Rightarrow> fields \<Rightarrow> pystr \<Rightarrow> rat \<Rightarrow> ('h, poll_result) plant_prog" where
  "throttle_poll v m so settings before temp =
    (if \<not> gpu_throttle_available so settings
     then andthen (with_service so (mark_hold v))
         (andthen (set_draft ''thermal_watchdog_state'' (JStr THROTTLED))
         (andthen (only_if (before \<noteq> THROTTLED) (notify_transition so THROTTLED))
           (ret (shown_poll m THROTTLED temp ''throttle'' [(''clock_limit_applied'', JBool False),
              (''warning'', jstr ''GPU clock throttling is unavailable on this host'')]))))
     else bind (read_draft draft_baseline) (\<lambda>baseline.
       andthen (only_if (falsy baseline) (capture_baseline v m so settings))
      (bind (lift (cool_max_mhz m settings)) (\<lambda>cool.
       andthen (apply_gpu_clock_limit m cool)
      (andthen (with_service so (mark_hold v))
        (finish_poll m so before THROTTLED temp ''throttle''))))))"

text \<open>The settings with the saved graphics profile, as far as the baseline holds one.\<close>

definition restored_settings :: "'h machine \<Rightarrow> fields \<Rightarrow> fields \<Rightarrow> exn + fields" where
  "restored_settings m settings baseline =
     sum_bind (py_int (mc_int m) (get_or baseline ''gpu_min_mhz'' (get_field settings ''gpu_min_mhz''))) (\<lambda>lowest.
     sum_bind (py_int (mc_int m) (get_or baseline ''gpu_max_mhz'' (get_field settings ''gpu_max_mhz''))) (\<lambda>highest.
       Inr (updated_with settings
         [(''governor_profile'', get_or baseline ''governor_profile'' (get_or settings ''governor_profile'' (jstr ''balanced''))),
          (''gpu_min_mhz'', JInt lowest), (''gpu_max_mhz'', JInt highest)])))"

definition restore_or_annotate :: "thermal_env \<Rightarrow> 'h machine \<Rightarrow> 'h store \<Rightarrow> fields \<Rightarrow> ('h, unit) plant_prog" where
  "restore_or_annotate v m so restored = handle (restore_gpu_profile m (JObj restored)) (\<lambda>e.
     if is_exception e
     then Some (andthen (with_service so (annotate_restore_failure v (te_message v e))) (throw e)) else None)"

definition resume_poll :: "thermal_env \<Rightarrow> 'h machine \<Rightarrow> 'h store \<Rightarrow> pystr \<Rightarrow> rat \<Rightarrow> ('h, poll_result) plant_prog" where
  "resume_poll v m so before temp = bind (read_draft draft_baseline) (\<lambda>baseline.
     if falsy baseline
     then andthen (with_service so (mark_nominal v True))
         (andthen (set_draft ''thermal_watchdog_state'' (JStr NOMINAL))
           (ret (shown_poll m NOMINAL temp ''resume'' [(''clock_limit_applied'', JBool False)])))
     else bind (read_draft (\<lambda>d. get_field d ''optimizations'')) (\<lambda>stored.
       bind (lift (normalized_settings stored)) (\<lambda>settings.
       bind (lift (restored_settings m settings (object_fields baseline))) (\<lambda>restored.
         andthen (restore_or_annotate v m so restored)
        (andthen (with_service so (mark_nominal v True))
        (andthen (drop_draft ''thermal_watchdog_baseline'')
          (finish_poll m so before NOMINAL temp ''resume'')))))))"

definition stop_poll :: "thermal_env \<Rightarrow> 'h machine \<Rightarrow> 'h store \<Rightarrow> rat \<Rightarrow> ('h, poll_result) plant_prog" where
  "stop_poll v m so temp = andthen (persist_stopped v so)
     (bind (enforce_latched_stop v m so (Some (mc_tenths m temp))) (\<lambda>result.
       andthen (notify_transition so STOPPED) (ret result)))"

definition other_poll :: "thermal_env \<Rightarrow> 'h machine \<Rightarrow> 'h store \<Rightarrow> pystr \<Rightarrow> rat \<Rightarrow> string \<Rightarrow> ('h, poll_result) plant_prog" where
  "other_poll v m so before temp action =
     andthen (only_if (action = ''hold'') (with_service so (mark_hold v)))
       (finish_poll m so before (if action = ''hold'' then THROTTLED else before) temp action)"

definition refresh_draft :: "thermal_env \<Rightarrow> 'h store \<Rightarrow> ('h, unit) plant_prog" where
  "refresh_draft v so =
     andthen (case so_read_model so of None \<Rightarrow> ret ()
       | Some f \<Rightarrow> bind (loaded_with_latch v f) (\<lambda>d. set_draft ''optimizations'' (get_field d ''optimizations'')))
     (if so_database so
      then bind (current v) (\<lambda>row. andthen (set_draft ''thermal_watchdog_state'' (JStr (tr_latch row)))
        (set_draft ''thermal_watchdog_baseline'' (baseline_json (tr_baseline row))))
      else ret ())"

definition act_on :: "thermal_env \<Rightarrow> 'h machine \<Rightarrow> 'h store \<Rightarrow> fields \<Rightarrow> pystr \<Rightarrow> rat \<Rightarrow> string \<Rightarrow> ('h, poll_result) plant_prog" where
  "act_on v m so settings before temp action =
    (if action = ''throttle'' then throttle_poll v m so settings before temp
     else if action = ''resume'' then resume_poll v m so before temp
     else if action = ''stop'' then stop_poll v m so temp
     else other_poll v m so before temp action)"

definition run_watchdog_once :: "thermal_env \<Rightarrow> 'h machine \<Rightarrow> 'h store \<Rightarrow> ('h, poll_result) plant_prog" where
  "run_watchdog_once v m so = andthen (refresh_draft v so)
    (bind (read_draft (\<lambda>d. get_field d ''optimizations'')) (\<lambda>stored.
     bind (lift (normalized_settings stored)) (\<lambda>settings.
     bind (read_draft (\<lambda>d. py_str (mc_shown m) (get_or d ''thermal_watchdog_state'' (JStr NOMINAL)))) (\<lambda>before.
     if before = STOPPED then enforce_latched_stop v m so None
     else if falsy (get_field settings ''thermal_watchdog_enabled'')
     then ret \<lparr>po_state = cps ''disabled'', po_temperature = None, po_action = ''none'', po_detail = []\<rparr>
     else bind (read_gpu_temperature m) (\<lambda>reading. case reading of
         None \<Rightarrow> ret \<lparr>po_state = cps ''degraded'', po_temperature = None, po_action = ''none'',
           po_detail = [(''warning'', jstr ''Thermal watchdog is enabled but no GPU temperature sensor is readable.'')]\<rparr>
       | Some temp \<Rightarrow>
          bind (lift (float_setting m settings ''thermal_throttle_c'')) (\<lambda>throttle.
          bind (lift (float_setting m settings ''thermal_recovery_c'')) (\<lambda>recovery.
          bind (lift (float_setting m settings ''thermal_stop_c'')) (\<lambda>stop.
            act_on v m so settings before temp (thermal_action before temp throttle recovery (Some stop))))))))))"

section \<open>Reset, the loop, the start\<close>

definition clear_latch :: "thermal_env \<Rightarrow> 'h machine \<Rightarrow> 'h store \<Rightarrow> fields \<Rightarrow> rat option \<Rightarrow> ('h, rat option) plant_prog" where
  "clear_latch v m so settings reading = bind (read_draft draft_baseline) (\<lambda>baseline.
     andthen (if falsy baseline then ret ()
       else bind (lift (restored_settings m settings (object_fields baseline))) (restore_or_annotate v m so))
    (andthen (with_service so (reset_to_nominal v))
    (andthen (drop_draft ''thermal_watchdog_baseline'')
    (andthen (set_draft ''thermal_watchdog_state'' (JStr NOMINAL))
      (ret (map_option (mc_tenths m) reading))))))"

definition reset_latch :: "thermal_env \<Rightarrow> 'h machine \<Rightarrow> 'h store \<Rightarrow> bool \<Rightarrow> ('h, rat option) plant_prog" where
  "reset_latch v m so require_safe_temperature =
     bind (read_draft (\<lambda>d. get_field d ''optimizations'')) (\<lambda>stored.
     bind (lift (normalized_settings stored)) (\<lambda>settings.
     bind (read_gpu_temperature m) (\<lambda>reading.
     andthen (if \<not> require_safe_temperature then ret ()
       else bind (lift (float_setting m settings ''thermal_recovery_c'')) (\<lambda>recovery. case reading of
           None \<Rightarrow> throw runtime_error
         | Some temp \<Rightarrow> if recovery < temp then throw runtime_error else ret ()))
       (clear_latch v m so settings reading))))"

text \<open>
  The watch loop, for a number of rounds; without a limit the code runs it forever. The pause
  between two rounds changes nothing.
\<close>

fun watch_loop :: "thermal_env \<Rightarrow> 'h machine \<Rightarrow> 'h store \<Rightarrow> nat \<Rightarrow> ('h, unit) plant_prog" where
  "watch_loop v m so 0 = ret ()"
| "watch_loop v m so (Suc n) =
     andthen (case (case so_read_model so of None \<Rightarrow> so_load so | loader \<Rightarrow> loader) of
         None \<Rightarrow> ret () | Some f \<Rightarrow> bind (loaded_with_latch v f) (\<lambda>d. write_draft (\<lambda>_. d)))
    (andthen (run_watchdog_once v m so) (watch_loop v m so n))"

text \<open>
  The part of \<^verbatim>\<open>require_safe_start\<close> that reads the latch: from the database when
  the state names its directory, from the state itself otherwise.
\<close>

definition require_safe_latch :: "thermal_env \<Rightarrow> 'h machine \<Rightarrow> ('h, unit) plant_prog" where
  "require_safe_latch v m = bind (read_draft (\<lambda>d. get_field d ''app_dir'')) (\<lambda>app_dir.
     bind (if falsy app_dir then read_draft (\<lambda>d. get_or d ''thermal_watchdog_state'' (JStr NOMINAL))
       else bind (on_host (mc_database m (py_str (mc_shown m) app_dir))) (\<lambda>present.
         if \<not> present then throw latch_protected
         else bind (current v) (\<lambda>row. ret (JStr (tr_latch row))))) (\<lambda>latch.
     if latch = JStr STOPPED then throw latch_protected else ret ()))"

end
