(* ===== verification/Thermal_Facts.thy ===== *)
theory Thermal_Facts
  imports Thermals
begin

text \<open>
  What the thermal watchdog promises. The first part is the interface: a relation on the
  durable row that every command of the thermal service keeps is kept by every poll and by
  the watch loop, whatever the host does and whoever else runs the same commands.
\<close>

section \<open>Commands on the row\<close>

definition profile_keys :: "string list" where
  "profile_keys = [''gpu_max_mhz'', ''gpu_min_mhz'', ''governor_profile'']"

definition row_of :: "thermal_row option \<Rightarrow> thermal_row" where
  "row_of r = (case r of None \<Rightarrow> \<lparr>tr_latch = NOMINAL, tr_baseline = None\<rparr> | Some row \<Rightarrow> row)"

definition held_latch :: "thermal_row option \<Rightarrow> pystr" where
  "held_latch r = (if tr_latch (row_of r) = [] then NOMINAL else tr_latch (row_of r))"

definition stored_baseline :: "fields option \<Rightarrow> fields option" where
  "stored_baseline b = (if b = Some [] then None else b)"

definition next_row :: "thermal_row option \<Rightarrow> pystr option \<Rightarrow> baseline_change \<Rightarrow> thermal_row" where
  "next_row r latch change = \<lparr>tr_latch = (case latch of None \<Rightarrow> held_latch r | Some l \<Rightarrow> l),
     tr_baseline = stored_baseline (changed_baseline change (tr_baseline (row_of r)))\<rparr>"

definition refused :: "thermal_row option \<Rightarrow> pystr option \<Rightarrow> bool" where
  "refused r latch \<longleftrightarrow> held_latch r = STOPPED \<and> latch \<noteq> None \<and> latch \<noteq> Some STOPPED"

text \<open>The changes the commands of the service make, apart from the reset.\<close>

definition is_command :: "pystr option \<Rightarrow> baseline_change \<Rightarrow> bool" where
  "is_command latch change \<longleftrightarrow> (case latch of
     None \<Rightarrow> (\<exists>kvs. change = AnnotateBaseline kvs \<and> set profile_keys \<inter> fst ` set kvs = {})
   | Some l \<Rightarrow> l = THROTTLED \<and> (change = KeepBaseline \<or> (\<exists>kvs. change = SetBaseline kvs)) \<or>
       l = NOMINAL \<and> (change = KeepBaseline \<or> change = ClearBaseline) \<or> l = STOPPED \<and> change = KeepBaseline)"

lemma latch_names [simp]:
  "NOMINAL \<noteq> STOPPED" "THROTTLED \<noteq> STOPPED" "NOMINAL \<noteq> THROTTLED" "STOPPED \<noteq> NOMINAL" "STOPPED \<noteq> THROTTLED"
  "THROTTLED \<noteq> NOMINAL" "NOMINAL \<noteq> []" "THROTTLED \<noteq> []" "STOPPED \<noteq> []"
  by (simp_all add: NOMINAL_def THROTTLED_def STOPPED_def cps_def)

abbreviation the_row :: "'h plant sys \<Rightarrow> thermal_row option" where
  "the_row s \<equiv> latch_row (world s)"

lemma with_row_row [simp]: "the_row (with_row row s) = row"
  by (simp add: with_row_def)

lemma get_row_run: "get_row s = (Inr (row_of (the_row s)), s)"
  by (simp add: get_row_def row_of_def)

lemma apply_latch_cases:
  assumes "apply_latch v latch change allow s = (r, s')"
  shows "(\<exists>e. te_open v (units s) (the_row s) = Inl e \<and> r = Inl e \<and> the_row s' = the_row s) \<or>
    (\<exists>row. te_open v (units s) (the_row s) = Inr row \<and>
       (refused row latch \<and> \<not> allow \<and> r = Inl latch_protected \<and> the_row s' = row \<or>
        (\<exists>e. e_commit (te_env v) (units s) = Some e \<and> r = Inl e \<and> the_row s' = row) \<or>
        \<not> (refused row latch \<and> \<not> allow) \<and> e_commit (te_env v) (units s) = None \<and> (\<exists>x. r = Inr x) \<and>
          the_row s' = Some (next_row row latch change)))"
proof (cases "te_open v (units s) (the_row s)")
  case (Inl e)
  with assms show ?thesis by (auto simp: apply_latch_def thermal_unit_def)
next
  case (Inr row)
  let ?held = "held_latch row" and ?s0 = "with_row row (s\<lparr>units := Suc (units s)\<rparr>)"
  have unit: "thermal_unit v body s = (case body ?s0 of (Inl e, s1) \<Rightarrow> (Inl e, with_row row s1)
      | (Inr x, s1) \<Rightarrow> (case e_commit (te_env v) (units s) of Some e \<Rightarrow> (Inl e, with_row row s1) | None \<Rightarrow> (Inr x, s1)))" for body
    by (simp add: thermal_unit_def Inr Let_def)
  have body: "bind get_row f ?s0 = f (row_of row) ?s0" for f
    by (simp add: bind_run get_row_run)
  show ?thesis
    using assms unfolding apply_latch_def unit body Let_def held_latch_def [symmetric]
    by (auto simp: Inr refused_def next_row_def stored_baseline_def set_row_def prog_simps
        split: if_splits option.splits)
qed

section \<open>Relations every command keeps\<close>

definition on_row :: "(thermal_row option \<Rightarrow> thermal_row option \<Rightarrow> bool) \<Rightarrow> 'h plant sys \<Rightarrow> 'h plant sys \<Rightarrow> bool" where
  "on_row P s s' \<longleftrightarrow> P (the_row s) (the_row s')"

definition others_keep :: "(thermal_row option \<Rightarrow> thermal_row option \<Rightarrow> bool) \<Rightarrow> thermal_env \<Rightarrow> bool" where
  "others_keep P v \<longleftrightarrow> (\<forall>n r r'. te_open v n r = Inr r' \<longrightarrow> P r r')"

text \<open>What touches no row keeps every reflexive relation; the commands keep a promise.\<close>

locale row_frame =
  fixes P :: "thermal_row option \<Rightarrow> thermal_row option \<Rightarrow> bool"
  assumes P_refl: "P r r"
    and P_trans: "P r r' \<Longrightarrow> P r' r'' \<Longrightarrow> P r r''"

sublocale row_frame \<subseteq> flow "on_row P :: 'h plant sys \<Rightarrow> 'h plant sys \<Rightarrow> bool"
  by unfold_locales (auto simp: on_row_def intro: P_refl P_trans)

locale row_promise = row_frame P for P +
  assumes command_write: "is_command latch change \<Longrightarrow> \<not> refused r latch \<Longrightarrow> P r (Some (next_row r latch change))"

context row_frame
begin

lemma others_keepD: "others_keep P v \<Longrightarrow> te_open v n r = Inr r' \<Longrightarrow> P r r'"
  by (auto simp: others_keep_def)

lemma guar_same_row: "(\<And>s. the_row (snd (m s)) = the_row s) \<Longrightarrow> guar (on_row P) m"
  by (simp add: guar_def on_row_def P_refl)

lemma guar_on_host [guar_intros]: "guar (on_row P) (on_host f)"
  by (rule guar_same_row) (simp add: on_host_def split: prod.split)

lemma guar_read_draft [guar_intros]: "guar (on_row P) (read_draft f)"
  by (rule guar_same_row) (simp add: read_draft_def)

lemma guar_write_draft [guar_intros]: "guar (on_row P) (write_draft f)"
  by (rule guar_same_row) (simp add: write_draft_def)

lemma guar_set_draft [guar_intros]: "guar (on_row P) (set_draft k x)"
  by (simp add: set_draft_def guar_write_draft)

lemma guar_drop_draft [guar_intros]: "guar (on_row P) (drop_draft k)"
  by (simp add: drop_draft_def guar_write_draft)

lemma guar_now [guar_intros]: "guar (on_row P) (clock e)"
  by (rule guar_same_row) (simp add: clock_def)

lemma guar_current [guar_intros]: "others_keep P v \<Longrightarrow> guar (on_row P) (current v)"
  by (rule guarI) (auto simp: current_def thermal_unit_def get_row_def on_row_def Let_def
      intro: P_refl dest: others_keepD split: sum.splits option.splits prod.splits)

lemma guar_run [guar_intros]: "guar (on_row P) (run m c b)" "guar (on_row P) (run_elevated m c b)"
  unfolding run_elevated_def run_def by (intro guar_intros)+

lemma guar_install_text [guar_intros]: "guar (on_row P) (install_text m path content)"
proof -
  have "guar (on_row P) (\<lambda>s. case run_elevated m c b s of (r, s') \<Rightarrow> (r, snd (on_host (mc_unlink m name) s')))"
    for c b name
  proof (rule guarI)
    fix s r s'
    assume run: "(case run_elevated m c b s of (r, s') \<Rightarrow> (r, snd (on_host (mc_unlink m name) s'))) = (r, s')"
    obtain q s1 where one: "run_elevated m c b s = (q, s1)" by (cases "run_elevated m c b s")
    have "on_row P s s1" using guarD [OF guar_run(2) one] .
    moreover have "on_row P s1 (snd (on_host (mc_unlink m name) s1))"
      using guar_on_host [of "mc_unlink m name"] unfolding guar_def by blast
    ultimately show "on_row P s s'" using run one by (auto intro: trans_R)
  qed
  then show ?thesis unfolding install_text_def by (intro guar_intros)
qed

lemma guar_gpu [guar_intros]: "guar (on_row P) (apply_gpu m settings)" "guar (on_row P) (revert_gpu m)"
  unfolding apply_gpu_def revert_gpu_def by (intro guar_intros)+

lemma guar_trim_units [guar_intros]: "guar (on_row P) (trim_units m selected us previous)"
proof (induction us arbitrary: previous)
  case (Cons u us)
  then show ?case unfolding trim_units.simps unit_status_def by (intro guar_intros)
qed (simp add: guar_ret)

lemma guar_swappiness [guar_intros]: "guar (on_row P) (original_swappiness m)"
  unfolding original_swappiness_def by (intro guar_handle guar_intros) (auto split: if_splits intro: guar_ret)

lemma guar_apply_parts [guar_intros]:
  "guar (on_row P) (apply_service_trim m settings)" "guar (on_row P) (apply_memory m settings)"
  "guar (on_row P) (apply_log_rotation m settings)" "guar (on_row P) require_acknowledgment"
  unfolding apply_service_trim_def apply_memory_def apply_log_rotation_def require_acknowledgment_def
  by (intro guar_intros)+

lemma guar_optimize [guar_intros]:
  "guar (on_row P) (apply_optimizations m j)" "guar (on_row P) (apply_gpu_clock_limit m n)"
  "guar (on_row P) (restore_gpu_profile m j)"
  unfolding apply_gpu_clock_limit_def apply_optimizations_def restore_gpu_profile_def by (intro guar_intros)+

lemma guar_service [guar_intros]:
  "guar (on_row P) (service_status m)" "guar (on_row P) (stop_service m)"
  unfolding stop_service_def service_status_def unit_property_def Let_def by (intro guar_intros)+

lemma guar_with_service [guar_intros]: "guar (on_row P) m \<Longrightarrow> guar (on_row P) (with_service so m)"
  unfolding with_service_def by (intro guar_intros)

lemma guar_notify [guar_intros]: "guar (on_row P) (notify_transition so latch)"
  unfolding notify_transition_def swallow_def by (intro guar_intros)

lemma guar_loaded [guar_intros]: "others_keep P v \<Longrightarrow> guar (on_row P) (loaded_with_latch v f)"
  unfolding loaded_with_latch_def by (intro guar_intros)

lemma guar_finish [guar_intros]: "guar (on_row P) (finish_poll m so before state temp action)"
  unfolding finish_poll_def by (intro guar_intros)

end

context row_promise
begin

lemma guar_apply_latch:
  assumes "others_keep P v" and "is_command latch change"
  shows "guar (on_row P) (apply_latch v latch change False)"
proof (rule guarI)
  fix s :: "'h plant sys" and r s'
  assume "apply_latch v latch change False s = (r, s')"
  from apply_latch_cases [OF this] command_write [OF assms(2)] show "on_row P s s'"
    by (auto simp: on_row_def intro: P_refl P_trans dest: others_keepD [OF assms(1)])
qed

lemma guar_commands [guar_intros]:
  "others_keep P v \<Longrightarrow> guar (on_row P) (ensure_throttle v b)" "others_keep P v \<Longrightarrow> guar (on_row P) (mark_hold v)" "others_keep P v \<Longrightarrow> guar (on_row P) (mark_nominal v clear)"
  "others_keep P v \<Longrightarrow> guar (on_row P) (mark_stopped v)" "others_keep P v \<Longrightarrow> guar (on_row P) (record_stop_outcome v outcome)"
  "others_keep P v \<Longrightarrow> guar (on_row P) (annotate_restore_failure v message)"
  unfolding ensure_throttle_def mark_hold_def mark_nominal_def mark_stopped_def record_stop_outcome_def
    annotate_restore_failure_def
  by (intro guar_intros guar_apply_latch; simp add: is_command_def profile_keys_def)+

lemma guar_enforce [guar_intros]: "others_keep P v \<Longrightarrow> guar (on_row P) (enforce_latched_stop v m so t)"
  unfolding enforce_latched_stop_def by (intro guar_intros)

lemma guar_restore [guar_intros]: "others_keep P v \<Longrightarrow> guar (on_row P) (restore_or_annotate v m so restored)"
  unfolding restore_or_annotate_def by (intro guar_intros)

lemma guar_act [guar_intros]: "others_keep P v \<Longrightarrow> guar (on_row P) (act_on v m so settings before temp action)"
  unfolding act_on_def throttle_poll_def resume_poll_def stop_poll_def other_poll_def capture_baseline_def
    persist_stopped_def Let_def
  by (intro guar_intros)

lemma guar_poll [guar_intros]: "others_keep P v \<Longrightarrow> guar (on_row P) (run_watchdog_once v m so)"
  unfolding run_watchdog_once_def refresh_draft_def read_gpu_temperature_def by (intro guar_intros)

lemma guar_watch_loop: "others_keep P v \<Longrightarrow> guar (on_row P) (watch_loop v m so n)"
proof (induction n)
  case (Suc n)
  then show ?case unfolding watch_loop.simps by (intro guar_intros)
qed (simp add: guar_ret)

end

interpretation same: row_frame "(=)"
  by unfold_locales auto

section \<open>The stopped latch\<close>

definition saved_profile :: "fields option \<Rightarrow> json list" where
  "saved_profile b = map (get_field (case b of None \<Rightarrow> [] | Some kvs \<Rightarrow> kvs)) profile_keys"

text \<open>A stop stays latched and keeps the saved graphics profile.\<close>

definition keeps_stop :: "thermal_row option \<Rightarrow> thermal_row option \<Rightarrow> bool" where
  "keeps_stop r r' \<longleftrightarrow> (held_latch r = STOPPED \<longrightarrow> held_latch r' = STOPPED \<and>
     saved_profile (tr_baseline (row_of r')) = saved_profile (tr_baseline (row_of r)))"

lemma get_field_update: "get_field (AList.update k x kvs) k' = (if k' = k then x else get_field kvs k')"
  by (simp add: get_field_def get_or_def update_conv')

lemma get_field_updated: "k \<notin> fst ` set news \<Longrightarrow> get_field (updated_with kvs news) k = get_field kvs k"
  unfolding updated_with_def by (induction news arbitrary: kvs) (auto simp: get_field_update)

lemma saved_profile_stored [simp]: "saved_profile (stored_baseline b) = saved_profile b"
  by (simp add: saved_profile_def stored_baseline_def)

lemma saved_profile_annotated:
  assumes "set profile_keys \<inter> fst ` set kvs = {}"
  shows "saved_profile (changed_baseline (AnnotateBaseline kvs) b) = saved_profile b"
  using assms by (auto simp: saved_profile_def intro!: get_field_updated split: option.splits)

lemma keeps_stop_write:
  assumes "is_command latch change" and "\<not> refused r latch"
  shows "keeps_stop r (Some (next_row r latch change))"
  unfolding keeps_stop_def
proof
  assume stop: "held_latch r = STOPPED"
  then have latch: "latch = None \<or> latch = Some STOPPED"
    using assms(2) by (auto simp: refused_def)
  then have "held_latch (Some (next_row r latch change)) = STOPPED"
    using stop by (auto simp: held_latch_def [of "Some x" for x] next_row_def row_of_def)
  moreover have "saved_profile (changed_baseline change (tr_baseline (row_of r))) = saved_profile (tr_baseline (row_of r))"
    using assms(1) latch by (auto simp: is_command_def saved_profile_annotated simp del: changed_baseline.simps(4))
  ultimately show "held_latch (Some (next_row r latch change)) = STOPPED \<and>
      saved_profile (tr_baseline (row_of (Some (next_row r latch change)))) = saved_profile (tr_baseline (row_of r))"
    by (simp add: row_of_def [of "Some x" for x] next_row_def)
qed

interpretation stop: row_promise keeps_stop
proof unfold_locales
  show "keeps_stop r (Some (next_row r latch change))" if "is_command latch change" "\<not> refused r latch" for latch change r
    using keeps_stop_write [OF that] .
qed (auto simp: keeps_stop_def)

text \<open>
  C14 A thermal stop holds until somebody resets it. From a row that is latched
  \<^verbatim>\<open>stopped\<close>, with other processes that make no reset, any number of rounds of the
  watch loop, whatever the sensor, the commands and the settings do, leaves the row latched
  with the saved graphics profile unchanged, and the check before every start of the model
  service refuses.
\<close>

theorem stop_holds_until_reset:
  fixes s :: "'h plant sys"
  assumes "others_keep keeps_stop v" and "held_latch (the_row s) = STOPPED" and "watch_loop v m so n s = (r, s')"
    and "\<not> falsy (get_field d ''app_dir'')"
  shows "held_latch (the_row s') = STOPPED \<and>
     saved_profile (tr_baseline (row_of (the_row s'))) = saved_profile (tr_baseline (row_of (the_row s))) \<and>
     (\<exists>e. fst (require_safe_latch v m (s'\<lparr>world := (world s')\<lparr>draft := d\<rparr>\<rparr>)) = Inl e)"
proof -
  have kept: "keeps_stop (the_row s) (the_row s')"
    using guarD [OF stop.guar_watch_loop [OF assms(1)] assms(3)] by (simp add: on_row_def)
  have "\<exists>e. fst (require_safe_latch v m t) = Inl e" if "the_row t = the_row s'" "draft (world t) = d" for t :: "'h plant sys"
  proof -
    have opened: "tr_latch (row_of row) = STOPPED" if "te_open v k (the_row s') = Inr row" for k row
      using stop.others_keepD [OF assms(1) that] kept assms(2) by (auto simp: keeps_stop_def held_latch_def split: if_splits)
    show ?thesis
      using that assms(4) opened
      by (auto simp: require_safe_latch_def read_draft_def on_host_def current_def thermal_unit_def get_row_run
          prog_simps Let_def split: sum.splits option.splits prod.splits)
  qed
  then show ?thesis using kept assms(2) by (simp add: keeps_stop_def)
qed

section \<open>Resetting the latch\<close>

text \<open>No other process, and every unit of work commits.\<close>

definition alone :: "thermal_env \<Rightarrow> bool" where
  "alone v \<longleftrightarrow> (\<forall>n r. te_open v n r = Inr r) \<and> (\<forall>n. e_commit (te_env v) n = None)"

lemma alone_keeps: "alone v \<Longrightarrow> others_keep keeps_stop v"
  by (simp add: alone_def others_keep_def keeps_stop_def)

lemma reset_to_nominal_cases:
  assumes "others_keep keeps_stop v" and "reset_to_nominal v s = (r, s')"
  shows "case r of Inr x \<Rightarrow> the_row s' = Some \<lparr>tr_latch = NOMINAL, tr_baseline = None\<rparr>
     | Inl e \<Rightarrow> keeps_stop (the_row s) (the_row s')"
  using apply_latch_cases [OF assms(2) [unfolded reset_to_nominal_def]] stop.others_keepD [OF assms(1)] stop.P_refl
  by (auto simp: next_row_def stored_baseline_def)

lemma clear_latch_cases:
  assumes "others_keep keeps_stop v" and "clear_latch v m so settings reading s = (r, s')"
  shows "case r of Inr x \<Rightarrow> so_database so \<longrightarrow> the_row s' = Some \<lparr>tr_latch = NOMINAL, tr_baseline = None\<rparr>
     | Inl e \<Rightarrow> keeps_stop (the_row s) (the_row s')"
proof -
  let ?b = "draft_baseline (draft (world s))"
  let ?restore = "if falsy ?b then ret () else bind (lift (restored_settings m settings (object_fields ?b)))
    (restore_or_annotate v m so)"
  obtain q s1 where restore: "?restore s = (q, s1)" by (cases "?restore s")
  have "guar (on_row keeps_stop) ?restore"
    by (intro guar_intros stop.guar_if stop.guar_ret stop.guar_bind stop.guar_lift stop.guar_restore assms(1))
  from guarD [OF this restore] have kept: "keeps_stop (the_row s) (the_row s1)" by (simp add: on_row_def)
  obtain q2 s2 where reset: "reset_to_nominal v s1 = (q2, s2)" by (cases "reset_to_nominal v s1")
  note row = reset_to_nominal_cases [OF assms(1) reset]
  show ?thesis
    using assms(2) kept row stop.P_trans [of "the_row s" "the_row s1" "the_row s2"]
    by (cases q; cases q2; cases "so_database so")
      (auto simp: clear_latch_def read_draft_def bind_run andthen_run restore reset with_service_def ret_run
        drop_draft_def set_draft_def write_draft_def)
qed

definition safe_to_reset :: "'h machine \<Rightarrow> 'h plant sys \<Rightarrow> bool" where
  "safe_to_reset m s \<longleftrightarrow> (\<exists>settings recovery readings h temp.
     normalized_settings (get_field (draft (world s)) ''optimizations'') = Inr settings \<and>
     float_setting m settings ''thermal_recovery_c'' = Inr recovery \<and>
     mc_sensor m (host (world s)) = (Inr readings, h) \<and> first_reading m readings = Inr (Some temp) \<and>
     temp \<le> recovery)"

text \<open>
  C15 A reset that returns has seen a safe temperature, and one that raises resets nothing. If
  the reset returns, a sensor gave a temperature at or below the recovery point, and the row
  is nominal without a baseline. If it raises, a latched stop is still latched with the
  saved graphics profile; and when no sensor gave a safe temperature the row is untouched.
\<close>

theorem reset_needs_a_safe_temperature:
  assumes "others_keep keeps_stop v"
  shows "case reset_latch v m so True s of
     (Inr t, s') \<Rightarrow> safe_to_reset m s \<and>
        (so_database so \<longrightarrow> the_row s' = Some \<lparr>tr_latch = NOMINAL, tr_baseline = None\<rparr>)
   | (Inl e, s') \<Rightarrow> keeps_stop (the_row s) (the_row s') \<and> (safe_to_reset m s \<or> the_row s' = the_row s)"
proof -
  obtain r s' where run: "reset_latch v m so True s = (r, s')" by (cases "reset_latch v m so True s")
  let ?stored = "get_field (draft (world s)) ''optimizations''"
  show ?thesis
  proof (cases "safe_to_reset m s")
    case True
    then obtain settings recovery readings h temp where *: "normalized_settings ?stored = Inr settings"
      "float_setting m settings ''thermal_recovery_c'' = Inr recovery" "mc_sensor m (host (world s)) = (Inr readings, h)"
      "first_reading m readings = Inr (Some temp)" "temp \<le> recovery"
      by (auto simp: safe_to_reset_def)
    let ?s1 = "s\<lparr>world := (world s)\<lparr>host := h\<rparr>\<rparr>"
    have "clear_latch v m so settings (Some temp) ?s1 = (r, s')"
      using run *
      by (simp add: reset_latch_def read_draft_def read_gpu_temperature_def on_host_def prog_simps)
    from clear_latch_cases [OF assms this] True show ?thesis
      unfolding run by (cases r) simp_all
  next
    case False
    obtain q h where sensor: "mc_sensor m (host (world s)) = (q, h)" by (cases "mc_sensor m (host (world s))")
    have "\<exists>e. r = Inl e \<and> the_row s' = the_row s"
    proof (cases "normalized_settings ?stored")
      case (Inr settings)
      note unsafe = False [unfolded safe_to_reset_def Inr sensor, simplified]
      show ?thesis
        using run Inr sensor unsafe
        by (auto simp: reset_latch_def read_draft_def read_gpu_temperature_def on_host_def prog_simps
            split: sum.splits option.splits if_splits dest: sym [of "Inl x" for x])
    qed (use run in \<open>auto simp: reset_latch_def read_draft_def prog_simps\<close>)
    then show ?thesis using False unfolding run by (auto simp: stop.P_refl)
  qed
qed

section \<open>A machine without the governor\<close>

definition no_governor :: "'h machine \<Rightarrow> bool" where
  "no_governor m \<longleftrightarrow> (\<forall>h. mc_exists m CYAN_CONFIG h = (Inr False, h))"

lemma restore_without_governor:
  assumes "no_governor m"
  shows "\<exists>e. fst (restore_gpu_profile m j s) = Inl e"
  using assms
  by (auto simp: restore_gpu_profile_def require_acknowledgment_def apply_gpu_def no_governor_def on_host_def read_draft_def
      prog_simps Let_def split: sum.splits)

lemma handle_fails:
  assumes "\<exists>e. fst (m s) = Inl e" and "\<And>e n t. h e = Some n \<Longrightarrow> \<exists>e'. fst (n t) = Inl e'"
  shows "\<exists>e. fst (handle m h s) = Inl e"
proof -
  obtain e s' where run: "m s = (Inl e, s')" using assms(1) by (cases "m s") auto
  show ?thesis using assms(2) [of e] by (auto simp: handle_def run split: option.split)
qed

lemma restore_or_annotate_fails:
  "no_governor m \<Longrightarrow> \<exists>e. fst (restore_or_annotate v m so restored s) = Inl e"
  unfolding restore_or_annotate_def
  by (rule handle_fails)
    (auto simp: restore_without_governor prog_simps split: if_splits sum.splits prod.splits)

lemma apply_latch_alone:
  fixes s :: "'h plant sys"
  assumes "alone v" and "\<not> refused (the_row s) latch"
  shows "apply_latch v latch change allow s = (Inr \<lparr>tr_latch = tr_latch (next_row (the_row s) latch change),
       tr_baseline = changed_baseline change (tr_baseline (row_of (the_row s)))\<rparr>,
     with_row (Some (next_row (the_row s) latch change)) (s\<lparr>units := Suc (units s)\<rparr>))"
proof -
  let ?row = "the_row s"
  have unit: "thermal_unit v body s = (case body (with_row ?row (s\<lparr>units := Suc (units s)\<rparr>)) of
      (Inl e, s1) \<Rightarrow> (Inl e, with_row ?row s1) | (Inr x, s1) \<Rightarrow> (Inr x, s1))" for body
    using assms(1) by (auto simp: thermal_unit_def alone_def Let_def split: sum.splits prod.splits)
  have body: "bind get_row f (with_row ?row s0) = f (row_of ?row) (with_row ?row s0)" for f and s0 :: "'h plant sys"
    by (simp add: bind_run get_row_run)
  show ?thesis
    using assms(2) unfolding apply_latch_def unit body Let_def held_latch_def [symmetric]
    by (auto simp: refused_def next_row_def stored_baseline_def set_row_def prog_simps with_row_def split: option.splits)
qed

lemma with_same_row: "with_row (the_row s) s = s"
  by (simp add: with_row_def)

lemma current_alone:
  "alone v \<Longrightarrow> current v s = (Inr (row_of (the_row s)), s\<lparr>units := Suc (units s)\<rparr>)"
  using with_same_row [of "s\<lparr>units := Suc (units s)\<rparr>"]
  by (simp add: current_def thermal_unit_def get_row_run alone_def Let_def)

lemma draft_simps [simp]:
  "the_row (s\<lparr>world := (world s)\<lparr>draft := d\<rparr>\<rparr>) = the_row s"
  "draft (world (s\<lparr>world := (world s)\<lparr>draft := d\<rparr>\<rparr>)) = d"
  by simp_all

lemma refresh_alone:
  assumes "alone v" and "so_database so" and "refresh_draft v so s = (Inr u, s1)"
  shows "the_row s1 = the_row s" and "get_field (draft (world s1)) ''thermal_watchdog_state'' = JStr (tr_latch (row_of (the_row s)))"
    and "draft_baseline (draft (world s1)) = baseline_json (tr_baseline (row_of (the_row s)))"
    and "''thermal_watchdog_state'' \<in> fst ` set (draft (world s1))"
  using assms
  by (auto simp: refresh_draft_def loaded_with_latch_def current_alone on_host_def set_draft_def write_draft_def prog_simps
      draft_baseline_def get_field_update update_keys dom_update split: option.splits sum.splits prod.splits)

lemma held_stopped: "held_latch r = STOPPED \<longleftrightarrow> tr_latch (row_of r) = STOPPED"
  using latch_names(9) by (auto simp: held_latch_def dest: sym)

lemma keeps_stopD: "keeps_stop r r' \<Longrightarrow> held_latch r = STOPPED \<Longrightarrow> held_latch r' = STOPPED"
  by (simp add: keeps_stop_def)

text \<open>What a poll does once the draft is fresh.\<close>

definition poll_body :: "thermal_env \<Rightarrow> 'h machine \<Rightarrow> 'h store \<Rightarrow> fields \<Rightarrow> pystr \<Rightarrow> ('h, poll_result) plant_prog" where
  "poll_body v m so settings before = bind (read_gpu_temperature m) (\<lambda>reading. case reading of
       None \<Rightarrow> ret \<lparr>po_state = cps ''degraded'', po_temperature = None, po_action = ''none'',
         po_detail = [(''warning'', jstr ''Thermal watchdog is enabled but no GPU temperature sensor is readable.'')]\<rparr>
     | Some temp \<Rightarrow>
        bind (lift (float_setting m settings ''thermal_throttle_c'')) (\<lambda>throttle.
        bind (lift (float_setting m settings ''thermal_recovery_c'')) (\<lambda>recovery.
        bind (lift (float_setting m settings ''thermal_stop_c'')) (\<lambda>stop.
          act_on v m so settings before temp (thermal_action before temp throttle recovery (Some stop))))))"

lemma poll_run:
  assumes "alone v" and "so_database so" and "refresh_draft v so s = (Inr u, s1)"
    and "normalized_settings (get_field (draft (world s1)) ''optimizations'') = Inr settings"
  shows "run_watchdog_once v m so s =
    (let before = tr_latch (row_of (the_row s)) in
     if before = STOPPED then enforce_latched_stop v m so None s1
     else if falsy (get_field settings ''thermal_watchdog_enabled'')
     then (Inr \<lparr>po_state = cps ''disabled'', po_temperature = None, po_action = ''none'', po_detail = []\<rparr>, s1)
     else poll_body v m so settings before s1)"
proof -
  have "get_or (draft (world s1)) ''thermal_watchdog_state'' (JStr NOMINAL) = JStr (tr_latch (row_of (the_row s)))"
    using refresh_alone(2,4) [OF assms(1-3)] by (auto simp: get_field_def get_or_def split: option.splits)
  then show ?thesis
    using assms(3,4) by (simp add: run_watchdog_once_def poll_body_def read_draft_def prog_simps Let_def)
qed

lemma poll_of_stopped:
  assumes "alone v" and "so_database so" and "held_latch (the_row s) = STOPPED" and "run_watchdog_once v m so s = (Inr p, s')"
  shows "\<exists>s1. held_latch (the_row s1) = STOPPED \<and> enforce_latched_stop v m so None s1 = (Inr p, s')"
proof -
  obtain u s1 where fresh: "refresh_draft v so s = (Inr u, s1)"
    using assms(4) by (cases "refresh_draft v so s"; cases "fst (refresh_draft v so s)")
      (auto simp: run_watchdog_once_def andthen_run)
  obtain settings where "normalized_settings (get_field (draft (world s1)) ''optimizations'') = Inr settings"
    using assms(4) by (cases "normalized_settings (get_field (draft (world s1)) ''optimizations'')")
      (auto simp: run_watchdog_once_def andthen_run fresh read_draft_def prog_simps)
  from poll_run [OF assms(1,2) fresh this, of m] refresh_alone(1) [OF assms(1,2) fresh] assms(3,4) show ?thesis
    by (intro exI [of _ s1]) (simp add: held_stopped)
qed

lemma update_nonempty [simp]: "AList.update k x kvs \<noteq> []"
  by (cases kvs) auto

lemma enforce_records:
  fixes s :: "'h plant sys"
  assumes "alone v" and "so_database so" and "held_latch (the_row s) = STOPPED"
    and "enforce_latched_stop v m so t s = (Inr p, s')"
  shows "\<exists>kvs. tr_baseline (row_of (the_row s')) = Some kvs \<and> kvs \<noteq> []"
proof -
  let ?observe = "handle (service_status m) (\<lambda>e. if is_exception e then Some (ret []) else None) :: ('h, fields) plant_prog"
  let ?stop = "\<lambda>observed. handle
      (if one_of [''inactive'', ''failed''] (get_field observed ''active_state'') then ret ''confirmed''
       else bind (stop_service m) (\<lambda>after. ret (if get_field after ''active'' = JBool False then ''confirmed'' else ''pending'')))
      (\<lambda>e. if is_exception e then Some (ret ''failed'') else None) :: ('h, string) plant_prog"
  obtain observed s1 where observed: "?observe s = (Inr observed, s1)"
    using assms(4) by (cases "?observe s"; cases "fst (?observe s)") (auto simp: enforce_latched_stop_def bind_run)
  obtain outcome s2 where outcome: "?stop observed s1 = (Inr outcome, s2)"
    using assms(4) observed by (cases "?stop observed s1"; cases "fst (?stop observed s1)")
      (auto simp: enforce_latched_stop_def bind_run)
  have "guar (on_row keeps_stop) ?observe" "guar (on_row keeps_stop) (?stop observed)"
    by (intro stop.guar_handle_exception stop.guar_if stop.guar_bind stop.guar_service stop.guar_ret)+
  from guarD [OF this(1) observed] guarD [OF this(2) outcome]
  have "held_latch (the_row s2) = STOPPED"
    using assms(3) by (auto simp: on_row_def dest: keeps_stopD)
  moreover have "record_stop_outcome v outcome s2 = (case outcome \<in> {''confirmed'', ''pending'', ''failed''} of
      False \<Rightarrow> (Inl value_error, s2) | True \<Rightarrow> record_stop_outcome v outcome s2)"
    by (simp add: record_stop_outcome_def prog_simps)
  ultimately show ?thesis
    using assms(1,2,4) observed outcome
    by (auto simp: enforce_latched_stop_def with_service_def record_stop_outcome_def clock_def prog_simps
        apply_latch_alone refused_def next_row_def stored_baseline_def updated_with_def row_of_def [of "Some x" for x]
        split: if_splits)
qed

text \<open>
  A host without the governor cannot leave a thermal stop. After one poll of a stopped
  latch, a reset in a state that carries the baseline of the row raises, with or without the
  temperature check, whatever the settings and the sensor; the latch is still stopped. The
  poll has written the outcome of the stop into the baseline, which the reset then takes for
  a saved graphics profile it must restore.
\<close>

theorem reset_without_governor_fails:
  assumes "alone v" and "so_database so" and "no_governor m" and "held_latch (the_row s) = STOPPED"
    and "run_watchdog_once v m so s = (Inr p, s1)" and "the_row s2 = the_row s1"
    and "draft_baseline (draft (world s2)) = baseline_json (tr_baseline (row_of (the_row s1)))"
  shows "\<exists>e s3. reset_latch v m so safely s2 = (Inl e, s3) \<and> held_latch (the_row s3) = STOPPED"
proof -
  obtain s0 where "held_latch (the_row s0) = STOPPED" "enforce_latched_stop v m so None s0 = (Inr p, s1)"
    using poll_of_stopped [OF assms(1,2,4,5)] by blast
  from enforce_records [OF assms(1,2) this] obtain kvs where "tr_baseline (row_of (the_row s1)) = Some kvs" "kvs \<noteq> []"
    by blast
  then have baseline: "\<not> falsy (draft_baseline (draft (world s2)))"
    by (simp add: assms(7) baseline_json_def)
  have stopped: "held_latch (the_row s2) = STOPPED"
    using guarD [OF stop.guar_poll [OF alone_keeps [OF assms(1)]] assms(5)] assms(4,6)
    by (auto simp: on_row_def dest: keeps_stopD)
  have cleared: "\<exists>e s3. clear_latch v m so settings reading t = (Inl e, s3) \<and> held_latch (the_row s3) = STOPPED"
    if "the_row t = the_row s2" "draft (world t) = draft (world s2)" for settings reading t
  proof -
    have never: "restore_or_annotate v m so restored t \<noteq> (Inr x, t')" for restored x t'
      using restore_or_annotate_fails [OF assms(3), of v so restored t] by auto
    have "\<exists>e. fst (clear_latch v m so settings reading t) = Inl e"
      using baseline that(2)
      by (auto simp: clear_latch_def read_draft_def prog_simps never split: sum.splits prod.splits)
    then obtain e s3 where run: "clear_latch v m so settings reading t = (Inl e, s3)"
      by (cases "clear_latch v m so settings reading t") auto
    from clear_latch_cases [OF alone_keeps [OF assms(1)] run] that(1) stopped run show ?thesis
      by (auto dest: keeps_stopD)
  qed
  show ?thesis
    using cleared stopped
    by (auto simp: reset_latch_def read_draft_def read_gpu_temperature_def on_host_def prog_simps
        split: sum.splits prod.splits option.splits if_splits)
qed

section \<open>Polls\<close>

text \<open>
  A poll that gets as far as a decision: the fresh draft, the enabled settings, a sensor
  reading and the three thresholds; \<open>s2\<close> is the state in which it acts.
\<close>

definition sees :: "thermal_env \<Rightarrow> 'h machine \<Rightarrow> 'h store \<Rightarrow> 'h plant sys \<Rightarrow> 'h plant sys \<Rightarrow> fields \<Rightarrow>
    rat \<Rightarrow> rat \<Rightarrow> rat \<Rightarrow> rat \<Rightarrow> bool" where
  "sees v m so s s2 settings temp throttle recovery stop \<longleftrightarrow> (\<exists>s1 readings h.
     refresh_draft v so s = (Inr (), s1) \<and>
     normalized_settings (get_field (draft (world s1)) ''optimizations'') = Inr settings \<and>
     \<not> falsy (get_field settings ''thermal_watchdog_enabled'') \<and>
     mc_sensor m (host (world s1)) = (Inr readings, h) \<and> first_reading m readings = Inr (Some temp) \<and>
     float_setting m settings ''thermal_throttle_c'' = Inr throttle \<and>
     float_setting m settings ''thermal_recovery_c'' = Inr recovery \<and>
     float_setting m settings ''thermal_stop_c'' = Inr stop \<and>
     s2 = s1\<lparr>world := (world s1)\<lparr>host := h\<rparr>\<rparr>)"

lemma poll_acts:
  assumes "alone v" and "so_database so" and "sees v m so s s2 settings temp throttle recovery stop"
    and "tr_latch (row_of (the_row s)) \<noteq> STOPPED"
  shows "run_watchdog_once v m so s = act_on v m so settings (tr_latch (row_of (the_row s))) temp
     (thermal_action (tr_latch (row_of (the_row s))) temp throttle recovery (Some stop)) s2"
    and "the_row s2 = the_row s" and "draft_baseline (draft (world s2)) = baseline_json (tr_baseline (row_of (the_row s)))"
    and "normalized_settings (get_field (draft (world s2)) ''optimizations'') = Inr settings"
proof -
  obtain s1 readings h where fresh: "refresh_draft v so s = (Inr (), s1)"
    and settings: "normalized_settings (get_field (draft (world s1)) ''optimizations'') = Inr settings"
    and on: "\<not> falsy (get_field settings ''thermal_watchdog_enabled'')"
    and sensor: "mc_sensor m (host (world s1)) = (Inr readings, h)" "first_reading m readings = Inr (Some temp)"
    and floats: "float_setting m settings ''thermal_throttle_c'' = Inr throttle"
      "float_setting m settings ''thermal_recovery_c'' = Inr recovery" "float_setting m settings ''thermal_stop_c'' = Inr stop"
    and s2: "s2 = s1\<lparr>world := (world s1)\<lparr>host := h\<rparr>\<rparr>"
    using assms(3) unfolding sees_def by blast
  note row = refresh_alone [OF assms(1,2) fresh]
  show "the_row s2 = the_row s" "draft_baseline (draft (world s2)) = baseline_json (tr_baseline (row_of (the_row s)))"
    "normalized_settings (get_field (draft (world s2)) ''optimizations'') = Inr settings"
    using row(1,3) settings by (simp_all add: s2)
  show "run_watchdog_once v m so s = act_on v m so settings (tr_latch (row_of (the_row s))) temp
     (thermal_action (tr_latch (row_of (the_row s))) temp throttle recovery (Some stop)) s2"
    using poll_run [OF assms(1,2) fresh settings, of m] assms(4) on
    by (simp add: poll_body_def read_gpu_temperature_def on_host_def sensor floats s2 prog_simps Let_def)
qed

lemma next_row_simps:
  "tr_latch (next_row r (Some l) change) = l" "tr_baseline (next_row r latch KeepBaseline) = stored_baseline (tr_baseline (row_of r))"
  "row_of (Some x) = x"
  by (simp_all add: next_row_def row_of_def)


text \<open>
  A throttle that was interrupted is never applied. Once the latch says throttled, a poll
  that reads any temperature between the recovery and the stop point runs no command at all:
  it returns the action \<^verbatim>\<open>hold\<close>, the host is as the sensor left it, and the row is
  throttled with its baseline. The row says throttled from before the clock limit is
  applied, so after a limit that failed or a crash in between nothing applies it again.
\<close>

theorem throttled_poll_runs_no_command:
  fixes s :: "'h plant sys"
  assumes "alone v" and "so_database so" and "sees v m so s s2 settings temp throttle recovery stop"
    and "tr_latch (row_of (the_row s)) = THROTTLED" and "recovery < temp" and "temp < stop"
  shows "\<exists>p s'. run_watchdog_once v m so s = (Inr p, s') \<and> po_action p = ''hold'' \<and> po_state p = THROTTLED \<and>
     host (world s') = host (world s2) \<and> tr_latch (row_of (the_row s')) = THROTTLED \<and>
     saved_profile (tr_baseline (row_of (the_row s'))) = saved_profile (tr_baseline (row_of (the_row s)))"
proof -
  have latch: "tr_latch (row_of (the_row s)) \<noteq> STOPPED" using assms(4) by simp
  note acts = poll_acts [OF assms(1-3) latch]
  have run: "run_watchdog_once v m so s = other_poll v m so THROTTLED temp ''hold'' s2"
    using assms(4-6) unfolding acts(1) by (simp add: act_on_def thermal_action_def)
  have "\<not> refused (the_row s2) (Some THROTTLED)"
    using assms(4) acts(2) by (simp add: refused_def held_stopped)
  from apply_latch_alone [OF assms(1) this, of KeepBaseline False] show ?thesis
    unfolding run using assms(2)
    by (simp add: other_poll_def finish_poll_def only_if_def with_service_def mark_hold_def set_draft_def write_draft_def
        read_draft_def shown_poll_def prog_simps next_row_simps acts(2) with_row_def)
qed

text \<open>The profile a throttle saves: the clocks and the governor of the settings.\<close>

definition profile_of :: "'h machine \<Rightarrow> fields \<Rightarrow> exn + json list" where
  "profile_of m settings =
     sum_bind (int_setting m settings ''gpu_max_mhz'') (\<lambda>highest.
     sum_bind (int_setting m settings ''gpu_min_mhz'') (\<lambda>lowest.
       Inr [JInt highest, JInt lowest, get_or settings ''governor_profile'' (jstr ''balanced'')]))"

lemma guar_clock_limit_same: "apply_gpu_clock_limit m n s = (r, s') \<Longrightarrow> the_row s' = the_row s"
  using guarD [OF same.guar_optimize(2) [of m n]] by (fastforce simp: on_row_def)

text \<open>
  The graphics profile is saved before the clocks are touched. When a poll on a nominal row
  without a baseline reads a temperature at or above the throttle point, and the clocks can
  be limited, then whatever the commands do, even if they raise or the process dies, the row
  is throttled and its baseline is the profile of the settings in force.
\<close>

theorem throttle_saves_the_profile_first:
  fixes s :: "'h plant sys"
  assumes "alone v" and "so_database so" and "sees v m so s s2 settings temp throttle recovery stop"
    and "tr_latch (row_of (the_row s)) = NOMINAL" and "tr_baseline (row_of (the_row s)) = None"
    and "throttle \<le> temp" and "temp < stop" and "gpu_throttle_available so settings"
    and "profile_of m settings = Inr profile" and "run_watchdog_once v m so s = (r, s')"
  shows "tr_latch (row_of (the_row s')) = THROTTLED \<and> saved_profile (tr_baseline (row_of (the_row s'))) = profile"
proof -
  have latch: "tr_latch (row_of (the_row s)) \<noteq> STOPPED" using assms(4) by simp
  note acts = poll_acts [OF assms(1-3) latch]
  have run: "throttle_poll v m so settings NOMINAL temp s2 = (r, s')"
    using assms(4,6,7,10) unfolding acts(1) by (simp add: act_on_def thermal_action_def)
  have free: "\<not> refused (the_row t) (Some THROTTLED)" if "tr_latch (row_of (the_row t)) = NOMINAL \<or>
      tr_latch (row_of (the_row t)) = THROTTLED" for t :: "'h plant sys"
    using that by (auto simp: refused_def held_stopped)
  obtain highest lowest where ints: "int_setting m settings ''gpu_max_mhz'' = Inr highest"
    "int_setting m settings ''gpu_min_mhz'' = Inr lowest"
    and profile: "profile = [JInt highest, JInt lowest, get_or settings ''governor_profile'' (jstr ''balanced'')]"
    using assms(9) by (auto simp: profile_of_def decode_simps)
  let ?b = "[(''gpu_max_mhz'', JInt highest), (''gpu_min_mhz'', JInt lowest),
      (''governor_profile'', get_or settings ''governor_profile'' (jstr ''balanced''))]"
  have saved: "saved_profile (Some ?b) = profile"
    by (simp add: saved_profile_def profile_keys_def profile get_field_def get_or_simps)
  obtain s3 where captured: "capture_baseline v m so settings s2 = (Inr (), s3)"
    and row: "the_row s3 = Some \<lparr>tr_latch = THROTTLED, tr_baseline = Some ?b\<rparr>"
    using assms(2,4) apply_latch_alone [OF assms(1) free, of s2 "SetBaseline ?b" False] acts(2)
    by (auto simp: capture_baseline_def with_service_def ensure_throttle_def set_draft_def write_draft_def prog_simps ints
        Let_def next_row_def stored_baseline_def)
  have baseline: "falsy (draft_baseline (draft (world s2)))"
    by (simp add: acts(3) assms(5) baseline_json_def)
  show ?thesis
  proof (cases "cool_max_mhz m settings")
    case (Inl e)
    then have "the_row s' = the_row s3"
      using run assms(8) baseline captured
      by (auto simp: throttle_poll_def read_draft_def only_if_def prog_simps)
    then show ?thesis using row saved by (simp add: row_of_def)
  next
    case (Inr cool)
    obtain q s4 where limit: "apply_gpu_clock_limit m cool s3 = (q, s4)" by (cases "apply_gpu_clock_limit m cool s3")
    have row4: "the_row s4 = the_row s3" by (rule guar_clock_limit_same [OF limit])
    have "tr_latch (row_of (the_row s')) = THROTTLED \<and> tr_baseline (row_of (the_row s')) = Some ?b"
    proof (cases q)
      case (Inl e)
      with run assms(8) baseline captured Inr limit row row4 show ?thesis
        by (auto simp: throttle_poll_def read_draft_def only_if_def prog_simps row_of_def)
    next
      case q: (Inr u)
      let ?finish = "finish_poll m so NOMINAL THROTTLED temp ''throttle''"
      have hold: "mark_hold v s4 = (Inr \<lparr>tr_latch = THROTTLED, tr_baseline = Some ?b\<rparr>,
          with_row (Some \<lparr>tr_latch = THROTTLED, tr_baseline = Some ?b\<rparr>) (s4\<lparr>units := Suc (units s4)\<rparr>))"
        using apply_latch_alone [OF assms(1) free, of s4 KeepBaseline False] row row4
        by (simp add: mark_hold_def next_row_def row_of_def stored_baseline_def)
      have "?finish (with_row (Some \<lparr>tr_latch = THROTTLED, tr_baseline = Some ?b\<rparr>) (s4\<lparr>units := Suc (units s4)\<rparr>)) = (r, s')"
        using run assms(2,8) baseline captured Inr limit q hold
        by (simp add: throttle_poll_def read_draft_def only_if_def with_service_def prog_simps)
      from guarD [OF same.guar_finish this] show ?thesis
        by (auto simp: on_row_def row_of_def dest!: sym [of "Some x" for x])
    qed
    then show ?thesis using saved by simp
  qed
qed

text \<open>
  A saved profile is given up only after it was restored. When a poll on a throttled row
  with a baseline reads a temperature at or below the recovery point, then either it
  returns, and the settings with the saved profile were applied without an exception and the
  row is nominal without a baseline; or it raises, and the row is still throttled with the
  saved profile.
\<close>

theorem resume_restores_the_profile:
  fixes s :: "'h plant sys"
  assumes "alone v" and "so_database so" and "sees v m so s s2 settings temp throttle recovery stop"
    and "tr_latch (row_of (the_row s)) = THROTTLED" and "tr_baseline (row_of (the_row s)) = Some saved" and "saved \<noteq> []"
    and "temp \<le> recovery" and "temp < stop"
  shows "case run_watchdog_once v m so s of
     (Inr p, s') \<Rightarrow> the_row s' = Some \<lparr>tr_latch = NOMINAL, tr_baseline = None\<rparr> \<and>
       (\<exists>restored s3. restored_settings m settings saved = Inr restored \<and>
          restore_gpu_profile m (JObj restored) s2 = (Inr (), s3))
   | (Inl e, s') \<Rightarrow> tr_latch (row_of (the_row s')) = THROTTLED \<and>
       saved_profile (tr_baseline (row_of (the_row s'))) = saved_profile (Some saved)"
proof -
  have latch: "tr_latch (row_of (the_row s)) \<noteq> STOPPED" using assms(4) by simp
  note acts = poll_acts [OF assms(1-3) latch]
  have run: "run_watchdog_once v m so s = resume_poll v m so THROTTLED temp s2"
    using assms(4,7,8) unfolding acts(1) by (simp add: act_on_def thermal_action_def)
  have baseline: "draft_baseline (draft (world s2)) = JObj saved" "\<not> falsy (JObj saved)"
    using assms(5,6) acts(3) by (simp_all add: baseline_json_def)
  have kept: "tr_latch (row_of (the_row s2)) = THROTTLED" "tr_baseline (row_of (the_row s2)) = Some saved"
    using acts(2) assms(4,5) by simp_all
  show ?thesis
  proof (cases "restored_settings m settings saved")
    case (Inl e)
    then show ?thesis
      using kept unfolding run by (simp add: resume_poll_def read_draft_def prog_simps baseline acts(4) assms(6))
  next
    case (Inr restored)
    obtain q s3 where restore: "restore_gpu_profile m (JObj restored) s2 = (q, s3)"
      by (cases "restore_gpu_profile m (JObj restored) s2")
    have row: "the_row s3 = the_row s2"
      using guarD [OF same.guar_optimize(3) restore] by (simp add: on_row_def)
    have free: "\<not> refused (the_row s3) l" for l
      using kept row by (simp add: refused_def held_stopped)
    show ?thesis
    proof (cases q)
      case (Inl e)
      have "the_row (snd (restore_or_annotate v m so restored s2)) \<in> {the_row s3,
          Some (next_row (the_row s3) None (AnnotateBaseline [(''last_restore_error'', JStr (te_message v e))]))}"
        using assms(2) apply_latch_alone [OF assms(1) free, of None _ False]
        by (auto simp: restore_or_annotate_def handle_def restore Inl with_service_def annotate_restore_failure_def prog_simps)
      moreover have "fst (restore_or_annotate v m so restored s2) = Inl e"
        using assms(2) apply_latch_alone [OF assms(1) free, of None _ False]
        by (auto simp: restore_or_annotate_def handle_def restore Inl with_service_def annotate_restore_failure_def prog_simps)
      moreover have "saved_profile (changed_baseline (AnnotateBaseline [(''last_restore_error'', x)]) (Some saved)) =
          saved_profile (Some saved)" for x
        by (rule saved_profile_annotated) (simp add: profile_keys_def)
      ultimately show ?thesis
        using kept row Inr unfolding run
        by (cases "restore_or_annotate v m so restored s2")
          (auto simp: resume_poll_def read_draft_def prog_simps baseline acts(4) assms(6) next_row_def row_of_def [of "Some x" for x]
            held_latch_def)
    next
      case q: (Inr u)
      have "restore_or_annotate v m so restored s2 = (Inr u, s3)"
        by (simp add: restore_or_annotate_def handle_def restore q)
      then show ?thesis
        using assms(2) apply_latch_alone [OF assms(1) free, of "Some NOMINAL" ClearBaseline False] Inr restore q unfolding run
        by (auto simp: resume_poll_def read_draft_def prog_simps baseline acts(4) assms(6) with_service_def mark_nominal_def
            drop_draft_def set_draft_def write_draft_def finish_poll_def only_if_def shown_poll_def next_row_def
            stored_baseline_def with_row_def)
    qed
  qed
qed

end
