(* ===== verification/Optimize_Facts.thy ===== *)
theory Optimize_Facts
  imports Thermal_Facts
begin

text \<open>
  What accepted settings guarantee: bounded clocks and thresholds with a gap between
  throttling and recovery, and what the watchdog's clock cap makes of them.
\<close>

section \<open>Accepted settings\<close>

lemma check_Inr: "check b r = Inr x \<longleftrightarrow> b \<and> r = Inr x"
  by (simp add: check_def)

lemma bounded_int_Inr:
  "bounded_int m s k low high = Inr n \<longleftrightarrow> int_setting m s k = Inr n \<and> low \<le> n \<and> n \<le> high"
  by (auto simp: bounded_int_def int_setting_def split: sum.splits if_splits)

lemma int_setting_update: "k' \<noteq> k \<Longrightarrow> int_setting m (AList.update k' x s) k = int_setting m s k"
  by (auto simp: int_setting_def get_field_update dom_update)

lemma int_setting_updated: "k \<notin> fst ` set news \<Longrightarrow> int_setting m (updated_with s news) k = int_setting m s k"
  unfolding updated_with_def by (induction news arbitrary: s) (auto simp: int_setting_update)

lemma profile_fields_keys: "fst ` set (profile_fields p) \<subseteq> {''gpu_min_mhz'', ''gpu_max_mhz''}"
  by (auto simp: profile_fields_def GOVERNOR_PROFILES_def)

lemma among_Inr: "among names v = Inr b \<Longrightarrow> b = one_of names v"
  by (cases v) (auto simp: among_def)

lemma profile_clocks:
  assumes "one_of (map fst GOVERNOR_PROFILES) p" and "p \<noteq> jstr ''custom''"
  shows "\<exists>low high. profile_fields p = [(''gpu_min_mhz'', JInt low), (''gpu_max_mhz'', JInt high)] \<and>
     500 \<le> low \<and> low + 200 \<le> high \<and> 1400 \<le> high \<and> high \<le> 2000 \<and> low \<le> 1200"
  using assms by (auto simp: one_of_def GOVERNOR_PROFILES_def profile_fields_def jstr_def cps_def)

text \<open>The stages between the normalized and the accepted settings.\<close>

definition chosen_profile :: "fields \<Rightarrow> json" where
  "chosen_profile result = get_or result ''governor_profile'' (jstr ''balanced'')"

definition with_profile :: "fields \<Rightarrow> fields" where
  "with_profile result = (if chosen_profile result \<noteq> jstr ''custom''
     then updated_with result (profile_fields (chosen_profile result)) else result)"

definition synced :: "fields \<Rightarrow> fields" where
  "synced chosen = AList.update ''fast_sync'' (JBool (\<not> falsy (get_field chosen ''fast_sync''))) chosen"

definition flagged :: "fields \<Rightarrow> fields" where
  "flagged chosen = AList.update ''thermal_watchdog_enabled''
     (JBool (\<not> falsy (get_field (synced chosen) ''thermal_watchdog_enabled''))) (synced chosen)"

lemma int_setting_synced: "k \<noteq> ''fast_sync'' \<Longrightarrow> int_setting m (synced chosen) k = int_setting m chosen k"
  by (simp add: synced_def int_setting_update)

lemma int_setting_flagged:
  "k \<noteq> ''fast_sync'' \<Longrightarrow> k \<noteq> ''thermal_watchdog_enabled'' \<Longrightarrow> int_setting m (flagged chosen) k = int_setting m chosen k"
  by (simp add: flagged_def int_setting_update int_setting_synced)

lemma accepted_parts:
  assumes "validate_settings m j = Inr s"
  obtains result batch ubatch minimum maximum known throttle recovery stop where
    "normalized_settings j = Inr result"
    "int_setting m result ''batch_size'' = Inr batch" "128 \<le> batch" "batch \<le> 2048"
    "int_setting m result ''ubatch_size'' = Inr ubatch" "64 \<le> ubatch" "ubatch \<le> 512"
    "batch mod 64 = 0" "ubatch mod 64 = 0" "ubatch \<le> batch"
    "int_setting m result ''gpu_min_mhz'' = Inr minimum" "500 \<le> minimum" "minimum \<le> 1200"
    "int_setting m result ''gpu_max_mhz'' = Inr maximum" "1000 \<le> maximum" "maximum \<le> 2000" "minimum < maximum"
    "among (map fst GOVERNOR_PROFILES) (chosen_profile result) = Inr known" "known"
    "int_setting m (synced (with_profile result)) ''thermal_throttle_c'' = Inr throttle" "throttle \<le> 90"
    "int_setting m (synced (with_profile result)) ''thermal_recovery_c'' = Inr recovery" "60 \<le> recovery" "recovery \<le> throttle - 5"
    "int_setting m (synced (with_profile result)) ''thermal_stop_c'' = Inr stop" "throttle < stop" "stop \<le> 110"
    "flagged (with_profile result) = s"
  using assms
  unfolding validate_settings_def chosen_profile_def [symmetric] with_profile_def [symmetric] Let_def
    synced_def [symmetric] flagged_def [symmetric] sum_bind_Inr check_Inr bounded_int_Inr sum.inject
  by (elim exE conjE) (rule that; assumption)

lemma accepted_settings_bounds:
  assumes "validate_settings m j = Inr s"
  shows "\<exists>low high batch ubatch throttle recovery stop.
     int_setting m s ''gpu_min_mhz'' = Inr low \<and> int_setting m s ''gpu_max_mhz'' = Inr high \<and>
     int_setting m s ''batch_size'' = Inr batch \<and> int_setting m s ''ubatch_size'' = Inr ubatch \<and>
     int_setting m s ''thermal_throttle_c'' = Inr throttle \<and> int_setting m s ''thermal_recovery_c'' = Inr recovery \<and>
     int_setting m s ''thermal_stop_c'' = Inr stop \<and>
     500 \<le> low \<and> low \<le> 1200 \<and> low < high \<and> 1000 \<le> high \<and> high \<le> 2000 \<and>
     64 \<le> ubatch \<and> ubatch \<le> batch \<and> batch \<le> 2048 \<and> 64 dvd batch \<and> 64 dvd ubatch \<and>
     60 \<le> recovery \<and> recovery + 5 \<le> throttle \<and> throttle \<le> 90 \<and> throttle < stop \<and> stop \<le> 110"
proof -
  from assms obtain result batch ubatch minimum maximum known throttle recovery stop where
    "normalized_settings j = Inr result"
    and batch: "int_setting m result ''batch_size'' = Inr batch" "128 \<le> batch" "batch \<le> 2048"
    and ubatch: "int_setting m result ''ubatch_size'' = Inr ubatch" "64 \<le> ubatch" "ubatch \<le> 512"
    and mods: "batch mod 64 = 0" "ubatch mod 64 = 0" "ubatch \<le> batch"
    and clocks: "int_setting m result ''gpu_min_mhz'' = Inr minimum" "500 \<le> minimum" "minimum \<le> 1200"
      "int_setting m result ''gpu_max_mhz'' = Inr maximum" "1000 \<le> maximum" "maximum \<le> 2000" "minimum < maximum"
    and among: "among (map fst GOVERNOR_PROFILES) (chosen_profile result) = Inr known" "known"
    and raw: "int_setting m (synced (with_profile result)) ''thermal_throttle_c'' = Inr throttle" "throttle \<le> 90"
      "int_setting m (synced (with_profile result)) ''thermal_recovery_c'' = Inr recovery" "60 \<le> recovery" "recovery \<le> throttle - 5"
      "int_setting m (synced (with_profile result)) ''thermal_stop_c'' = Inr stop" "throttle < stop" "stop \<le> 110"
    and s: "flagged (with_profile result) = s"
    by (rule accepted_parts)
  have dvds: "64 dvd batch" "64 dvd ubatch"
    using mods(1,2) by (simp_all add: dvd_eq_mod_eq_0)
  have known: "one_of (map fst GOVERNOR_PROFILES) (chosen_profile result)"
    using among among_Inr by blast
  show ?thesis
  proof (cases "chosen_profile result = jstr ''custom''")
    case True
    then have "with_profile result = result" by (simp add: with_profile_def)
    then have "int_setting m s ''gpu_min_mhz'' = Inr minimum" "int_setting m s ''gpu_max_mhz'' = Inr maximum"
      "int_setting m s ''batch_size'' = Inr batch" "int_setting m s ''ubatch_size'' = Inr ubatch"
      "int_setting m s ''thermal_throttle_c'' = Inr throttle" "int_setting m s ''thermal_recovery_c'' = Inr recovery"
      "int_setting m s ''thermal_stop_c'' = Inr stop"
      using clocks(1,4) batch(1) ubatch(1) raw(1,3,6)
      by (simp_all add: s [symmetric] int_setting_flagged int_setting_synced)
    with batch(2,3) ubatch(2,3) mods(3) clocks(2,3,5-) raw(2,4,5,7,8) dvds show ?thesis
      by (intro exI conjI) (assumption | linarith)+
  next
    case False
    from profile_clocks [OF known this] obtain low high where
      profile: "profile_fields (chosen_profile result) = [(''gpu_min_mhz'', JInt low), (''gpu_max_mhz'', JInt high)]"
      and bounds: "500 \<le> low" "low + 200 \<le> high" "1400 \<le> high" "high \<le> 2000" "low \<le> 1200" by blast
    have "int_setting m (with_profile result) ''gpu_min_mhz'' = Inr low" "int_setting m (with_profile result) ''gpu_max_mhz'' = Inr high"
      using False by (simp_all add: with_profile_def profile updated_with_def int_setting_def get_field_update dom_update)
    moreover have "int_setting m (with_profile result) k = int_setting m result k" if "k = ''batch_size'' \<or> k = ''ubatch_size''" for k
      using that by (auto simp: with_profile_def profile intro!: int_setting_updated)
    ultimately have "int_setting m s ''gpu_min_mhz'' = Inr low" "int_setting m s ''gpu_max_mhz'' = Inr high"
      "int_setting m s ''batch_size'' = Inr batch" "int_setting m s ''ubatch_size'' = Inr ubatch"
      "int_setting m s ''thermal_throttle_c'' = Inr throttle" "int_setting m s ''thermal_recovery_c'' = Inr recovery"
      "int_setting m s ''thermal_stop_c'' = Inr stop"
      using batch(1) ubatch(1) raw(1,3,6)
      by (simp_all add: s [symmetric] int_setting_flagged int_setting_synced)
    with batch(2,3) ubatch(2,3) mods(3) bounds raw(2,4,5,7,8) dvds show ?thesis
      by (intro exI conjI) (assumption | linarith)+
  qed
qed

text \<open>
  C25 Accepted settings are within the hardware's limits. Whatever a validation accepts has
  clocks with 500 \<open>\<le>\<close> minimum < maximum \<open>\<le>\<close> 2000, batches that are
  multiples of 64, the micro batch no larger than the batch, and thermal points with recovery
  at least five degrees below throttling and stopping above it.
\<close>

theorem accepted_settings_are_bounded:
  assumes "validate_settings m j = Inr s"
  shows "\<exists>low high batch ubatch throttle recovery stop.
     int_setting m s ''gpu_min_mhz'' = Inr low \<and> int_setting m s ''gpu_max_mhz'' = Inr high \<and>
     int_setting m s ''batch_size'' = Inr batch \<and> int_setting m s ''ubatch_size'' = Inr ubatch \<and>
     int_setting m s ''thermal_throttle_c'' = Inr throttle \<and> int_setting m s ''thermal_recovery_c'' = Inr recovery \<and>
     int_setting m s ''thermal_stop_c'' = Inr stop \<and>
     500 \<le> low \<and> low \<le> 1200 \<and> low < high \<and> 1000 \<le> high \<and> high \<le> 2000 \<and>
     64 \<le> ubatch \<and> ubatch \<le> batch \<and> batch \<le> 2048 \<and> 64 dvd batch \<and> 64 dvd ubatch \<and>
     60 \<le> recovery \<and> recovery + 5 \<le> throttle \<and> throttle \<le> 90 \<and> throttle < stop \<and> stop \<le> 110"
  using accepted_settings_bounds [OF assms] .

section \<open>The band between recovery and throttling\<close>

text \<open>The latch after a poll that acts, and how often a series of temperatures changes it.\<close>

definition latch_after :: "pystr \<Rightarrow> string \<Rightarrow> pystr" where
  "latch_after st action = (if action = ''throttle'' \<or> action = ''hold'' then THROTTLED
     else if action = ''resume'' then NOMINAL else if action = ''stop'' then STOPPED else st)"

fun latch_changes :: "(pystr \<Rightarrow> rat \<Rightarrow> string) \<Rightarrow> pystr \<Rightarrow> rat list \<Rightarrow> nat" where
  "latch_changes act st [] = 0"
| "latch_changes act st (t # ts) =
    (if latch_after st (act st t) = st then 0 else 1) + latch_changes act (latch_after st (act st t)) ts"

lemma cool_after_throttle:
  "\<forall>t \<in> set ts. recovery < t \<and> t < stop \<Longrightarrow>
     latch_changes (\<lambda>st t. thermal_action st t throttle recovery (Some stop)) THROTTLED ts = 0"
  by (induction ts) (auto simp: thermal_action_def latch_after_def)

lemma warm_after_resume:
  "\<forall>t \<in> set ts. t < throttle \<and> t < stop \<Longrightarrow>
     latch_changes (\<lambda>st t. thermal_action st t throttle recovery (Some stop)) NOMINAL ts = 0"
  by (induction ts) (auto simp: thermal_action_def latch_after_def)

lemma few_changes:
  assumes "recovery + 5 \<le> throttle" and "st = NOMINAL \<or> st = THROTTLED" and "\<forall>t \<in> set ts. t < stop"
    and "\<forall>t \<in> set ts. \<forall>t' \<in> set ts. t - t' < 5"
  shows "latch_changes (\<lambda>st t. thermal_action st t throttle recovery (Some stop)) st ts \<le> 1"
  using assms(2-)
proof (induction ts arbitrary: st)
  case (Cons t ts)
  let ?act = "\<lambda>st t. thermal_action st t throttle recovery (Some stop)"
  have rest: "latch_changes ?act st ts \<le> 1" using Cons.IH [of st] Cons.prems by simp
  have near: "t' - t < 5" "t - t' < 5" if "t' \<in> set ts" for t' using Cons.prems(3) that by auto
  have "?act st t \<noteq> ''stop''" using Cons.prems(1,2) by (auto simp: thermal_action_def)
  then consider "latch_after st (?act st t) = st" | "st = NOMINAL" "throttle \<le> t" "?act st t = ''throttle''"
    | "st = THROTTLED" "t \<le> recovery" "?act st t = ''resume''"
    using Cons.prems(1,2) by (auto simp: thermal_action_def latch_after_def split: if_splits)
  then show ?case
  proof cases
    case 1
    then show ?thesis using rest by simp
  next
    case 2
    have "recovery < t' \<and> t' < stop" if "t' \<in> set ts" for t'
      using near(2) [OF that] 2(2) assms(1) Cons.prems(2) that by (auto simp: algebra_simps)
    then show ?thesis using cool_after_throttle [of ts recovery stop throttle] 2 by (simp add: latch_after_def)
  next
    case 3
    have "t' < throttle \<and> t' < stop" if "t' \<in> set ts" for t'
      using near(1) [OF that] 3(2) assms(1) Cons.prems(2) that by (auto simp: algebra_simps)
    then show ?thesis using warm_after_resume [of ts throttle stop recovery] 3 by (simp add: latch_after_def)
  qed
qed simp

text \<open>
  The watchdog does not flutter. With accepted integer thresholds, a series of
  temperatures that stays below the stop point and within a window of less than five degrees
  changes the latch at most once, however long it is and wherever it starts.
\<close>

theorem small_swings_change_the_latch_once:
  assumes "validate_settings m j = Inr s"
    and "get_field s ''thermal_throttle_c'' = JInt throttle" and "get_field s ''thermal_recovery_c'' = JInt recovery"
    and "st = NOMINAL \<or> st = THROTTLED" and "\<forall>t \<in> set ts. t < stop" and "\<forall>t \<in> set ts. \<forall>t' \<in> set ts. t - t' < 5"
  shows "latch_changes (\<lambda>st t. thermal_action st t (of_int throttle) (of_int recovery) (Some stop)) st ts \<le> 1"
proof -
  from accepted_settings_bounds [OF assms(1)] have "recovery + 5 \<le> throttle"
    using assms(2,3) by (auto simp: int_setting_def split: if_splits)
  then have "(of_int recovery :: rat) + 5 \<le> of_int throttle"
    using of_int_le_iff [of "recovery + 5" throttle, where 'a = rat] by simp
  from few_changes [OF this assms(4-6)] show ?thesis .
qed

section \<open>The clock cap\<close>

text \<open>
  The cap of the watchdog can lie above the clock it should cap. From accepted settings it
  lies above the minimum clock and at most at 1400, and it is at most the configured maximum
  exactly when the maximum is at least 200 above the minimum; otherwise throttling a hot
  machine raises its maximum clock.
\<close>

theorem clock_cap_bounds:
  assumes "validate_settings m j = Inr s" and "int_setting m s ''gpu_min_mhz'' = Inr low"
    and "int_setting m s ''gpu_max_mhz'' = Inr high"
  shows "\<exists>cool. cool_max_mhz m s = Inr cool \<and> low < cool \<and> cool \<le> 1400 \<and> (cool \<le> high \<longleftrightarrow> low + 200 \<le> high)"
proof -
  from accepted_settings_bounds [OF assms(1)] have "low \<le> 1200" "low < high"
    using assms(2,3) by auto
  moreover have "get_or s ''gpu_min_mhz'' d = get_field s ''gpu_min_mhz''" "get_or s ''gpu_max_mhz'' d = get_field s ''gpu_max_mhz''" for d
    using assms(2,3) by (auto simp: int_setting_def get_field_def get_or_def map_of_eq_None_iff split: if_splits option.splits)
  ultimately show ?thesis
    using assms(2,3) by (auto simp: cool_max_mhz_def int_setting_def decode_simps sum_bind_def split: if_splits)
qed

end
