(* ===== verification/Thermal_Witnesses.thy ===== *)
theory Thermal_Witnesses
  imports Samples Optimize_Facts
begin

text \<open>
  A small appliance on which the properties of the thermal watchdog and of the settings are
  applied: one sensor with a fixed reading, commands that print nothing, no governor.
\<close>

section \<open>The appliance\<close>

definition sample_thermal :: thermal_env where
  "sample_thermal = \<lparr>te_env = sample_env, te_open = (\<lambda>_ r. Inr r), te_stamp = (\<lambda>_. []), te_message = (\<lambda>_. [])\<rparr>"

definition sample_machine :: "int \<Rightarrow> unit machine" where
  "sample_machine n = \<lparr>mc_run = (\<lambda>_ _ h. (Inr [], h)), mc_exists = (\<lambda>_ h. (Inr False, h)),
     mc_read = (\<lambda>_ h. (Inr [], h)), mc_temp_file = (\<lambda>_ h. (Inr [], h)), mc_unlink = (\<lambda>_ h. (Inr (), h)),
     mc_database = (\<lambda>_ h. (Inr True, h)), mc_sensor = (\<lambda>h. (Inr [Some [57]], h)), mc_is_root = True,
     mc_pkexec = False, mc_sudo = False, mc_log_path = (\<lambda>d. d), mc_shown = (\<lambda>_. []),
     mc_int = (\<lambda>_. Inr n), mc_float = (\<lambda>_. Inr 0), mc_celsius = (\<lambda>n. of_int n / 1000), mc_tenths = (\<lambda>t. t)\<rparr>"

definition sample_store :: "unit store" where
  "sample_store = \<lparr>so_database = True, so_gpu_tuning = Some True, so_read_model = None, so_load = None, so_notify = None\<rparr>"

definition watch_settings :: fields where
  "watch_settings = [(''thermal_watchdog_enabled'', JBool True)]"

definition plant_sys :: "thermal_row option \<Rightarrow> unit plant sys" where
  "plant_sys row =
     \<lparr>db = \<lparr>operations = [], operation_steps = [], operation_events = [],
        operation_leases = [], worker_lock = None, next_cursor = 1\<rparr>,
      world = \<lparr>latch_row = row, draft = [(''optimizations'', JObj watch_settings)], host = ()\<rparr>,
      clock_reads = 0, uuid_reads = 0, units = 0, pulses = [], calls = []\<rparr>"

definition saved_row :: "pystr \<Rightarrow> thermal_row option" where
  "saved_row latch = Some \<lparr>tr_latch = latch, tr_baseline = Some [(''gpu_max_mhz'', JInt 1850),
     (''gpu_min_mhz'', JInt 500), (''governor_profile'', jstr ''balanced'')]\<rparr>"

lemmas sample_plant = sample_thermal_def sample_machine_def sample_store_def plant_sys_def saved_row_def

lemma sample_alone: "alone sample_thermal"
  by (simp add: alone_def sample_thermal_def sample_env_def)

lemma sample_others: "others_keep keeps_stop sample_thermal"
  by (rule alone_keeps [OF sample_alone])

lemma sample_database: "so_database sample_store"
  by (simp add: sample_store_def)

lemma plant_row [simp]: "the_row (plant_sys row) = row"
  by (simp add: plant_sys_def)

lemma saved_row_simps [simp]:
  "tr_latch (row_of (saved_row l)) = l" "l \<noteq> [] \<Longrightarrow> held_latch (saved_row l) = l"
  by (simp_all add: saved_row_def row_of_def held_latch_def)

lemma watched: "normalized_settings (JObj watch_settings) = Inr (normalized_fields watch_settings)"
  by (simp add: normalized_settings_def watch_settings_def)

lemma sample_sees:
  "sees sample_thermal (sample_machine n) sample_store (plant_sys row) (snd (refresh_draft sample_thermal sample_store (plant_sys row)))
     (normalized_fields watch_settings) (of_int n / 1000) 85 75 95"
proof -
  let ?s = "plant_sys row" and ?m = "sample_machine n"
  let ?s1 = "snd (refresh_draft sample_thermal sample_store ?s)"
  have 1: "refresh_draft sample_thermal sample_store ?s = (Inr (), ?s1)" "get_field (draft (world ?s1)) ''optimizations'' = JObj watch_settings"
    by (simp_all add: refresh_draft_def sample_store_def current_def thermal_unit_def sample_thermal_def sample_env_def
        prog_simps get_row_run set_draft_def write_draft_def plant_sys_def with_row_def Let_def get_field_update)
      (simp add: decode_simps)
  have 2: "\<not> falsy (get_field (normalized_fields watch_settings) ''thermal_watchdog_enabled'')"
    "float_setting ?m (normalized_fields watch_settings) ''thermal_throttle_c'' = Inr 85"
    "float_setting ?m (normalized_fields watch_settings) ''thermal_recovery_c'' = Inr 75"
    "float_setting ?m (normalized_fields watch_settings) ''thermal_stop_c'' = Inr 95"
    by (simp_all add: normalized_fields_def watch_settings_def merge_setting_def DEFAULT_OPTIMIZATIONS_def decode_simps
        float_setting_def)
  have 3: "mc_sensor ?m h = (Inr [Some [57]], h)" "first_reading ?m [Some [57]] = Inr (Some (of_int n / 1000))" for h
    by (simp_all add: sample_machine_def)
  show ?thesis
    unfolding sees_def using 1 2 3 watched by (intro exI [of _ ?s1] exI [of _ "[Some [57]]"] exI [of _ "()"]) simp
qed

section \<open>The latch\<close>

theorem stop_holds_until_reset_witness:
  "held_latch (the_row (snd (watch_loop sample_thermal (sample_machine 99000) sample_store 7 (plant_sys (saved_row STOPPED))))) = STOPPED"
  using stop_holds_until_reset [OF sample_others _ surjective_pairing, of "plant_sys (saved_row STOPPED)"
      "[(''app_dir'', jstr ''/srv'')]" "sample_machine 99000" sample_store 7]
  by (simp add: decode_simps cps_def jstr_def)

theorem reset_needs_a_safe_temperature_witness:
  "case reset_latch sample_thermal (sample_machine 80000) sample_store True (plant_sys (saved_row STOPPED)) of
     (Inr t, s') \<Rightarrow> safe_to_reset (sample_machine 80000) (plant_sys (saved_row STOPPED)) \<and>
        the_row s' = Some \<lparr>tr_latch = NOMINAL, tr_baseline = None\<rparr>
   | (Inl e, s') \<Rightarrow> keeps_stop (saved_row STOPPED) (the_row s') \<and>
       (safe_to_reset (sample_machine 80000) (plant_sys (saved_row STOPPED)) \<or> the_row s' = saved_row STOPPED)"
  using reset_needs_a_safe_temperature [OF sample_others, where m = "sample_machine 80000" and so = sample_store and
      s = "plant_sys (saved_row STOPPED)"] sample_database
  by (auto split: sum.splits prod.splits)


theorem throttled_poll_runs_no_command_witness:
  "\<exists>p s'. run_watchdog_once sample_thermal (sample_machine 90000) sample_store (plant_sys (saved_row THROTTLED)) = (Inr p, s') \<and>
     po_action p = ''hold'' \<and> tr_latch (row_of (the_row s')) = THROTTLED"
  using throttled_poll_runs_no_command [OF sample_alone sample_database sample_sees [of 90000 "saved_row THROTTLED"]]
  by auto

theorem throttle_saves_the_profile_first_witness:
  "saved_profile (tr_baseline (row_of (the_row (snd (run_watchdog_once sample_thermal (sample_machine 90000) sample_store
     (plant_sys None)))))) = [JInt 1850, JInt 500, jstr ''balanced'']"
proof -
  have nominal: "tr_latch (row_of (the_row (plant_sys None))) = NOMINAL" "tr_baseline (row_of (the_row (plant_sys None))) = None"
    by (simp_all add: row_of_def)
  have profile: "profile_of (sample_machine 90000) (normalized_fields watch_settings) = Inr [JInt 1850, JInt 500, jstr ''balanced'']"
    by (simp add: profile_of_def normalized_fields_def watch_settings_def merge_setting_def DEFAULT_OPTIMIZATIONS_def decode_simps
        int_setting_def sum_bind_def)
  have available: "gpu_throttle_available sample_store (normalized_fields watch_settings)"
    by (simp add: gpu_throttle_available_def sample_store_def)
  from throttle_saves_the_profile_first [OF sample_alone sample_database sample_sees [of 90000 None] nominal _ _ available profile
      surjective_pairing]
  show ?thesis by simp
qed

theorem resume_restores_the_profile_witness:
  "case run_watchdog_once sample_thermal (sample_machine 60000) sample_store (plant_sys (saved_row THROTTLED)) of
     (Inr p, s') \<Rightarrow> the_row s' = Some \<lparr>tr_latch = NOMINAL, tr_baseline = None\<rparr>
   | (Inl e, s') \<Rightarrow> tr_latch (row_of (the_row s')) = THROTTLED \<and>
       saved_profile (tr_baseline (row_of (the_row s'))) = saved_profile (tr_baseline (row_of (saved_row THROTTLED)))"
proof -
  obtain saved where row: "tr_baseline (row_of (the_row (plant_sys (saved_row THROTTLED)))) = Some saved" "saved \<noteq> []"
    by (simp add: saved_row_def row_of_def)
  from resume_restores_the_profile [OF sample_alone sample_database sample_sees [of 60000 "saved_row THROTTLED"] _ row] row
  show ?thesis by (auto split: sum.splits prod.splits)
qed

section \<open>The reset without a governor\<close>

abbreviation stopped_poll :: "(exn + poll_result) \<times> unit plant sys" where
  "stopped_poll \<equiv> run_watchdog_once sample_thermal (sample_machine 40000) sample_store (plant_sys (saved_row STOPPED))"

lemma sample_run: "run (sample_machine n) c b s = (Inr [], s)"
  by (simp add: run_def on_host_def sample_machine_def)

lemma sample_status: "\<exists>status. service_status (sample_machine n) s = (Inr status, s) \<and> get_field status ''active_state'' = jstr ''unknown''"
  by (simp add: service_status_def unit_property_def read_draft_def prog_simps sample_run py_strip_def or_text_def cps_def
      decode_simps)

lemma sample_elevated: "run_elevated (sample_machine n) c b s = (Inr (), s)"
proof -
  have "elevated (sample_machine n) c = Inr c" by (simp add: elevated_def sample_machine_def)
  then show ?thesis by (simp add: run_elevated_def prog_simps sample_run)
qed

lemma sample_stop: "case stop_service (sample_machine n) s of (Inl e, s') \<Rightarrow> is_exception e \<and> s' = s | (Inr x, s') \<Rightarrow> s' = s"
  using sample_status [of n s]
  by (auto simp: stop_service_def read_draft_def prog_simps sample_elevated is_exception_def)

lemma stopped_poll_returns: "\<exists>p. fst stopped_poll = Inr p"
proof -
  let ?m = "sample_machine 40000" and ?s = "plant_sys (saved_row STOPPED)"
  obtain s1 where fresh: "refresh_draft sample_thermal sample_store ?s = (Inr (), s1)"
    and settings: "normalized_settings (get_field (draft (world s1)) ''optimizations'') = Inr (normalized_fields watch_settings)"
    using sample_sees [of 40000 "saved_row STOPPED"] unfolding sees_def by blast
  have "\<exists>p. fst (enforce_latched_stop sample_thermal ?m sample_store None s1) = Inr p"
  proof -
    obtain status where status: "service_status ?m s1 = (Inr status, s1)" "get_field status ''active_state'' = jstr ''unknown''"
      using sample_status by blast
    have "\<not> one_of [''inactive'', ''failed''] (get_field status ''active_state'')"
      by (simp add: status one_of_def jstr_def cps_def)
    then show ?thesis
      using status sample_stop [where n = 40000 and s = s1]
      by (cases "stop_service ?m s1"; cases "fst (stop_service ?m s1)")
        (auto simp: enforce_latched_stop_def handle_def prog_simps with_service_def sample_database record_stop_outcome_def
          clock_def apply_latch_alone [OF sample_alone] refused_def)
  qed
  then show ?thesis
    using poll_run [OF sample_alone sample_database fresh settings, of ?m] by (simp add: Let_def)
qed

abbreviation reloaded :: "unit plant sys" where
  "reloaded \<equiv> (snd stopped_poll)\<lparr>world := (world (snd stopped_poll))\<lparr>draft :=
     [(''thermal_watchdog_baseline'', baseline_json (tr_baseline (row_of (the_row (snd stopped_poll)))))]\<rparr>\<rparr>"

theorem reset_without_governor_fails_witness:
  "\<exists>e s3. reset_latch sample_thermal (sample_machine 40000) sample_store True reloaded = (Inl e, s3) \<and>
     held_latch (the_row s3) = STOPPED"
proof -
  have "no_governor (sample_machine 40000)"
    by (simp add: no_governor_def sample_machine_def)
  moreover obtain p where "fst stopped_poll = Inr p" using stopped_poll_returns by blast
  ultimately show ?thesis
    using reset_without_governor_fails [OF sample_alone sample_database, of "sample_machine 40000" "plant_sys (saved_row STOPPED)"
        p "snd stopped_poll" reloaded "True"]
    by (simp add: prod_eq_iff draft_baseline_def decode_simps)
qed

section \<open>The settings\<close>

definition narrow_fields :: fields where
  "narrow_fields = [(''governor_profile'', jstr ''custom''), (''gpu_min_mhz'', JInt 1200), (''gpu_max_mhz'', JInt 1300)]"

abbreviation narrow_settings :: json where
  "narrow_settings \<equiv> JObj narrow_fields"

lemma narrow_normalized:
  "normalized_settings narrow_settings = Inr (normalized_fields narrow_fields)"
  by (simp add: normalized_settings_def narrow_fields_def)

lemma narrow_explicit:
  "normalized_fields narrow_fields = [(''runtime_enabled'', JBool True), (''flash_attention'', jstr ''auto''),
     (''batch_size'', JInt 1024), (''ubatch_size'', JInt 256), (''kv_cache_type'', jstr ''q8_0''),
     (''parallel_slots'', JInt 4), (''gpu_tuning_enabled'', JBool False), (''gpu_min_mhz'', JInt 1200),
     (''gpu_max_mhz'', JInt 1300), (''thermal_throttle_c'', JInt 85), (''thermal_recovery_c'', JInt 75),
     (''memory_enabled'', JBool False), (''swappiness'', JInt 100), (''safeguards_enabled'', JBool False),
     (''restart_window_sec'', JInt 300), (''restart_burst'', JInt 3), (''restart_delay_sec'', JInt 10),
     (''log_max_mib'', JInt 100), (''trim_services_enabled'', JBool False),
     (''trim_services'', JObj (map (\<lambda>unit. (unit, JBool False)) TRIMMABLE_SERVICES)),
     (''governor_profile'', jstr ''custom''), (''thermal_watchdog_enabled'', JBool False),
     (''thermal_stop_c'', JInt 95), (''threads'', JInt 0), (''fast_sync'', JBool False)]"
  by (simp add: normalized_fields_def narrow_fields_def merge_setting_def DEFAULT_OPTIMIZATIONS_def decode_simps)

lemma narrow_gets:
  "get_or (normalized_fields narrow_fields) ''parallel_slots'' d = JInt 4"
  "get_or (normalized_fields narrow_fields) ''batch_size'' d = JInt 1024"
  "get_or (normalized_fields narrow_fields) ''ubatch_size'' d = JInt 256"
  "get_or (normalized_fields narrow_fields) ''gpu_min_mhz'' d = JInt 1200"
  "get_or (normalized_fields narrow_fields) ''gpu_max_mhz'' d = JInt 1300"
  "get_or (normalized_fields narrow_fields) ''threads'' d = JInt 0"
  "get_or (normalized_fields narrow_fields) ''thermal_throttle_c'' d = JInt 85"
  "get_or (normalized_fields narrow_fields) ''thermal_recovery_c'' d = JInt 75"
  "get_or (normalized_fields narrow_fields) ''thermal_stop_c'' d = JInt 95"
  "get_or (normalized_fields narrow_fields) ''swappiness'' d = JInt 100"
  "get_or (normalized_fields narrow_fields) ''restart_window_sec'' d = JInt 300"
  "get_or (normalized_fields narrow_fields) ''restart_burst'' d = JInt 3"
  "get_or (normalized_fields narrow_fields) ''restart_delay_sec'' d = JInt 10"
  "get_or (normalized_fields narrow_fields) ''log_max_mib'' d = JInt 100"
  "get_or (normalized_fields narrow_fields) ''flash_attention'' d = jstr ''auto''"
  "get_or (normalized_fields narrow_fields) ''kv_cache_type'' d = jstr ''q8_0''"
  "get_or (normalized_fields narrow_fields) ''governor_profile'' d = jstr ''custom''"
  "get_or (normalized_fields narrow_fields) ''trim_services'' d = JObj (map (\<lambda>unit. (unit, JBool False)) TRIMMABLE_SERVICES)"
  by (simp_all add: narrow_explicit decode_simps)

lemma int_setting_get:
  assumes "\<And>d. get_or kvs k d = JInt n"
  shows "int_setting m kvs k = Inr n"
  using assms [of JNull] assms [of "JBool True"]
  by (force simp: int_setting_def get_field_def get_or_def dest: map_of_SomeD split: option.splits)

lemmas narrow_ints = narrow_gets(1-14) [THEN int_setting_get]
lemmas narrow_texts = narrow_gets narrow_gets [where d = JNull, folded get_field_def]

lemma narrow_accepted:
  "validate_settings m narrow_settings = Inr (flagged (normalized_fields narrow_fields))"
proof -
  let ?r = "normalized_fields narrow_fields"
  have custom: "chosen_profile ?r = jstr ''custom''" "with_profile ?r = ?r"
    by (simp_all add: with_profile_def chosen_profile_def narrow_texts)
  have known: "among [''auto'', ''on'', ''off''] (jstr ''auto'') = Inr True" "among [''q8_0'', ''q4_0''] (jstr ''q8_0'') = Inr True"
    "among (map fst GOVERNOR_PROFILES) (jstr ''custom'') = Inr True"
    by (simp_all add: among_def one_of_def GOVERNOR_PROFILES_def jstr_def)
  have trims: "known_trims (get_field (flagged ?r) ''trim_services'')"
    by (simp add: flagged_def synced_def get_field_update narrow_texts known_trims_def is_object_def image_image)
  show ?thesis
    unfolding validate_settings_def chosen_profile_def [symmetric] with_profile_def [symmetric] Let_def
      synced_def [symmetric] flagged_def [symmetric] sum_bind_Inr check_Inr bounded_int_Inr narrow_normalized
    by (auto simp: custom known trims narrow_texts narrow_ints int_setting_synced int_setting_flagged)
qed

theorem accepted_settings_are_bounded_witness:
  "\<exists>s low high. validate_settings (sample_machine 0) narrow_settings = Inr s \<and>
     int_setting (sample_machine 0) s ''gpu_min_mhz'' = Inr low \<and> int_setting (sample_machine 0) s ''gpu_max_mhz'' = Inr high \<and>
     500 \<le> low \<and> low < high \<and> high \<le> 2000"
  using narrow_accepted accepted_settings_are_bounded [OF narrow_accepted [of "sample_machine 0"]] by blast

theorem small_swings_change_the_latch_once_witness:
  "latch_changes (\<lambda>st t. thermal_action st t 85 75 (Some 95)) NOMINAL [82, 86, 84, 86, 83] \<le> 1"
proof -
  have "get_field (flagged (normalized_fields narrow_fields)) ''thermal_throttle_c'' = JInt 85"
    "get_field (flagged (normalized_fields narrow_fields)) ''thermal_recovery_c'' = JInt 75"
    by (simp_all add: flagged_def synced_def get_field_update narrow_texts)
  from small_swings_change_the_latch_once [OF narrow_accepted this, of NOMINAL "[82, 86, 84, 86, 83]" 95]
  show ?thesis by simp
qed

theorem clock_cap_bounds_witness:
  "\<exists>s cool. validate_settings (sample_machine 0) narrow_settings = Inr s \<and> cool_max_mhz (sample_machine 0) s = Inr cool \<and>
     int_setting (sample_machine 0) s ''gpu_max_mhz'' = Inr 1300 \<and> 1300 < cool"
proof -
  have ints: "int_setting (sample_machine 0) (flagged (normalized_fields narrow_fields)) ''gpu_min_mhz'' = Inr 1200"
    "int_setting (sample_machine 0) (flagged (normalized_fields narrow_fields)) ''gpu_max_mhz'' = Inr 1300"
    by (simp_all add: int_setting_flagged narrow_ints)
  from clock_cap_bounds [OF narrow_accepted ints] ints(2) narrow_accepted show ?thesis by force
qed

end
