(* ===== verification/Clients.thy ===== *)
theory Clients
  imports Requests "HOL-Library.Product_Lexorder"
begin

text \<open>
  The named clients of the private API: their rows and generations of secrets
  (\<^verbatim>\<open>connection_credentials.py\<close>), the commands that publish, rotate and revoke a
  secret together with its file, and the store that resolves a presented secret to a client
  (\<^verbatim>\<open>connection_setup.py\<close>). Only fingerprints are in the tables.
\<close>

section \<open>Tables and files\<close>

record client_row =
  cl_id :: ident
  cl_label :: pystr
  cl_kind :: string
  cl_scopes :: "string list"
  cl_fingerprint :: string
  cl_generation :: int
  cl_storage :: string
  cl_created_at :: instant
  cl_rotated_at :: "instant option"
  cl_revoked_at :: "instant option"
  cl_last_used_at :: "instant option"
  cl_last_endpoint :: "string option"
  cl_revision :: int

datatype secret_state = ACTIVE | OVERLAP | RETIRED

record secret_row =
  se_client :: ident
  se_generation :: int
  se_fingerprint :: string
  se_state :: secret_state
  se_created_at :: instant
  se_overlap_expires_at :: "instant option"
  se_retired_at :: "instant option"

record access_row =
  ac_enabled :: bool
  ac_disabled_at :: "instant option"
  ac_revision :: int

record client_db =
  clients :: "client_row list"
  secrets :: "secret_row list"
  access :: access_row

text \<open>A secret file, by what its reader looks at; a text that is not UTF-8 is no text.\<close>

datatype secret_path = LegacyFile | ClientFile ident int

record secret_file =
  sf_text :: "pystr option"
  sf_bytes :: nat
  sf_regular :: bool
  sf_link :: bool
  sf_mode :: nat

type_synonym secret_files = "secret_path \<Rightarrow> secret_file option"

record 'h desk =
  client_tables :: client_db
  secret_files :: secret_files
  file_ops :: nat
  beyond :: 'h

type_synonym ('h, 'a) desk_prog = "('h desk, 'a) prog"

text \<open>
  \<open>ce_open\<close> gives the tables the n-th unit of work finds and \<open>ce_disk\<close> the files the
  n-th file operation finds, as other processes have left them. \<open>ce_dir\<close> is the exception
  of preparing the directory, \<open>ce_write\<close> an exception of writing together with what it
  leaves of the file, \<open>ce_unlink\<close> whether removing a file works. \<open>ce_secret\<close> draws a
  secret; \<open>ce_fingerprint\<close> and \<open>ce_casefold\<close> are SHA-256 in hexadecimal and
  \<^verbatim>\<open>str.casefold\<close>.
\<close>

record client_env =
  ce_env :: env
  ce_open :: "nat \<Rightarrow> client_db \<Rightarrow> exn + client_db"
  ce_disk :: "nat \<Rightarrow> secret_files \<Rightarrow> secret_files"
  ce_dir :: "nat \<Rightarrow> exn option"
  ce_write :: "nat \<Rightarrow> pystr \<Rightarrow> (exn \<times> secret_file option) option"
  ce_unlink :: "nat \<Rightarrow> secret_path \<Rightarrow> bool"
  ce_secret :: "nat \<Rightarrow> pystr"
  ce_fingerprint :: "pystr \<Rightarrow> string"
  ce_casefold :: "pystr \<Rightarrow> pystr"

definition with_tables :: "client_db \<Rightarrow> 'h desk sys \<Rightarrow> 'h desk sys" where
  "with_tables d s = s\<lparr>world := (world s)\<lparr>client_tables := d\<rparr>\<rparr>"

definition client_unit :: "client_env \<Rightarrow> ('h, 'a) desk_prog \<Rightarrow> ('h, 'a) desk_prog" where
  "client_unit v body s =
    (let n = units s; s0 = s\<lparr>units := Suc n\<rparr> in
     case ce_open v n (client_tables (world s)) of
       Inl e \<Rightarrow> (Inl e, s0)
     | Inr d \<Rightarrow>
         (case body (with_tables d s0) of
            (Inl e, s1) \<Rightarrow> (Inl e, with_tables d s1)
          | (Inr x, s1) \<Rightarrow>
              (case e_commit (ce_env v) n of
                 Some e \<Rightarrow> (Inl e, with_tables d s1)
               | None \<Rightarrow> (Inr x, s1))))"

definition read_tables :: "(client_db \<Rightarrow> 'a) \<Rightarrow> ('h, 'a) desk_prog" where
  "read_tables f s = (Inr (f (client_tables (world s))), s)"

definition write_tables :: "(client_db \<Rightarrow> client_db) \<Rightarrow> ('h, unit) desk_prog" where
  "write_tables f s = (Inr (), with_tables (f (client_tables (world s))) s)"

definition on_files :: "client_env \<Rightarrow> (nat \<Rightarrow> secret_files \<Rightarrow> (exn + 'a) \<times> secret_files) \<Rightarrow> ('h, 'a) desk_prog" where
  "on_files v f s = (case f (file_ops (world s)) (ce_disk v (file_ops (world s)) (secret_files (world s))) of
     (r, files) \<Rightarrow> (r, s\<lparr>world := (world s)\<lparr>secret_files := files, file_ops := Suc (file_ops (world s))\<rparr>\<rparr>))"

section \<open>Validation\<close>

definition credential_error :: exn where
  "credential_error = python_error ''ConnectionCredentialError''"

definition repository_conflict :: exn where
  "repository_conflict = python_error ''RepositoryConflict''"

definition CLIENT_KINDS :: "string list" where
  "CLIENT_KINDS = [''openwebui'', ''pocketpal'', ''openai'', ''curl'', ''sse'']"
definition CLIENT_SCOPES :: "string list" where
  "CLIENT_SCOPES = [''models:list'', ''inference:read'', ''inference:stream'']"
definition ENDPOINT_CLASSES :: "string list" where
  "ENDPOINT_CLASSES = [''models'', ''chat'', ''stream'']"
definition MAX_ACTIVE_CLIENTS :: nat where "MAX_ACTIVE_CLIENTS = 32"
definition MAX_SECRET_LEN :: nat where "MAX_SECRET_LEN = 512"

definition requires_valid :: "bool \<Rightarrow> exn + 'a \<Rightarrow> exn + 'a" where
  "requires_valid b r = (if b then r else Inl credential_error)"

definition normalize_label :: "pystr \<Rightarrow> exn + pystr" where
  "normalize_label value =
    (let label = spaced_words (py_strip value) in
     requires_valid (1 \<le> length label \<and> length label \<le> 80)
      (requires_valid (list_all (\<lambda>c. 32 \<le> c \<and> c \<noteq> 127) label) (Inr label)))"

text \<open>
  \<^verbatim>\<open>str.lower\<close> as far as a comparison with ASCII names can tell; the Kelvin sign
  is the only other code point whose lower case is ASCII.
\<close>

definition py_lower :: "pystr \<Rightarrow> pystr" where
  "py_lower s = map (\<lambda>c. if 65 \<le> c \<and> c \<le> 90 then c + 32 else if c = 8490 then 107 else c) s"

definition normalize_kind :: "pystr \<Rightarrow> exn + string" where
  "normalize_kind value = (case find (\<lambda>k. cps k = py_lower (py_strip value)) CLIENT_KINDS of
     None \<Rightarrow> Inl credential_error | Some k \<Rightarrow> Inr k)"

definition normalize_scopes :: "pystr list \<Rightarrow> exn + string list" where
  "normalize_scopes values =
    (let requested = map py_strip values in
     requires_valid (requested \<noteq> [] \<and> set requested \<subseteq> set (map cps CLIENT_SCOPES))
       (Inr (filter (\<lambda>scope. cps scope \<in> set requested) CLIENT_SCOPES)))"

definition hex_of_length :: "nat \<Rightarrow> string \<Rightarrow> bool" where
  "hex_of_length n s \<longleftrightarrow> length s = n \<and> list_all (\<lambda>c. hex_char (of_char c)) s"

definition validate_client_id :: "ident \<Rightarrow> exn + ident" where
  "validate_client_id value = requires_valid (hex_of_length 32 value) (Inr value)"

definition validate_fingerprint :: "string \<Rightarrow> exn + string" where
  "validate_fingerprint value = requires_valid (hex_of_length 64 value) (Inr value)"

section \<open>The repository of clients\<close>

definition get_client :: "ident \<Rightarrow> client_db \<Rightarrow> client_row option" where
  "get_client k d = row_with cl_id (clients d) k"

definition active_clients :: "client_db \<Rightarrow> client_row list" where
  "active_clients d = filter (\<lambda>c. cl_revoked_at c = None) (clients d)"

text \<open>
  What the constraints of the schema refuse: a client identifier or a fingerprint that is
  known, a generation a client has, and the label of another active client up to ASCII case.
\<close>

definition ascii_lower_cp :: "pystr \<Rightarrow> pystr" where
  "ascii_lower_cp s = map (\<lambda>c. if 65 \<le> c \<and> c \<le> 90 then c + 32 else c) s"

definition client_clash :: "ident \<Rightarrow> pystr \<Rightarrow> client_db \<Rightarrow> bool" where
  "client_clash k label d \<longleftrightarrow> get_client k d \<noteq> None \<or>
     ascii_lower_cp label \<in> (\<lambda>c. ascii_lower_cp (cl_label c)) ` set (active_clients d)"

definition secret_clash :: "ident \<Rightarrow> int \<Rightarrow> string \<Rightarrow> client_db \<Rightarrow> bool" where
  "secret_clash k generation fingerprint d \<longleftrightarrow>
     list_ex (\<lambda>x. se_fingerprint x = fingerprint \<or> se_client x = k \<and> se_generation x = generation) (secrets d)"

definition new_client :: "ident \<Rightarrow> pystr \<Rightarrow> string \<Rightarrow> string list \<Rightarrow> string \<Rightarrow> instant \<Rightarrow> client_row" where
  "new_client k label kind scopes fingerprint now = \<lparr>cl_id = k, cl_label = label, cl_kind = kind, cl_scopes = scopes,
     cl_fingerprint = fingerprint, cl_generation = 1, cl_storage = ''managed'', cl_created_at = now,
     cl_rotated_at = None, cl_revoked_at = None, cl_last_used_at = None, cl_last_endpoint = None, cl_revision = 1\<rparr>"

definition new_secret :: "ident \<Rightarrow> int \<Rightarrow> string \<Rightarrow> instant \<Rightarrow> secret_row" where
  "new_secret k generation fingerprint now = \<lparr>se_client = k, se_generation = generation, se_fingerprint = fingerprint,
     se_state = ACTIVE, se_created_at = now, se_overlap_expires_at = None, se_retired_at = None\<rparr>"

definition insert_secret :: "ident \<Rightarrow> int \<Rightarrow> string \<Rightarrow> instant \<Rightarrow> ('h, unit) desk_prog" where
  "insert_secret k generation fingerprint now = bind (read_tables (secret_clash k generation fingerprint)) (\<lambda>clash.
     if clash then throw repository_conflict
     else write_tables (\<lambda>d. d\<lparr>secrets := secrets d @ [new_secret k generation fingerprint now]\<rparr>))"

definition create_client :: "client_env \<Rightarrow> ident \<Rightarrow> pystr \<Rightarrow> pystr \<Rightarrow> pystr list \<Rightarrow> string \<Rightarrow> ('h, client_row) desk_prog" where
  "create_client v k label kind scopes fingerprint =
     bind (lift (validate_client_id k)) (\<lambda>k.
     bind (lift (normalize_label label)) (\<lambda>label.
     bind (lift (normalize_kind kind)) (\<lambda>kind.
     bind (lift (normalize_scopes scopes)) (\<lambda>scopes.
     bind (lift (validate_fingerprint fingerprint)) (\<lambda>fingerprint.
     bind (read_tables active_clients) (\<lambda>active.
     if MAX_ACTIVE_CLIENTS \<le> length active then throw credential_error
     else if ce_casefold v label \<in> (\<lambda>c. ce_casefold v (cl_label c)) ` set active then throw credential_error
     else bind (clock (ce_env v)) (\<lambda>now.
      bind (read_tables (client_clash k label)) (\<lambda>clash.
      if clash then throw repository_conflict
      else andthen (write_tables (\<lambda>d. d\<lparr>clients := clients d @ [new_client k label kind scopes fingerprint now]\<rparr>))
       (andthen (insert_secret k 1 fingerprint now)
         (bind (read_tables (get_client k)) assert_some))))))))))"

text \<open>A row that must be there at a revision.\<close>

definition current_client :: "ident \<Rightarrow> int \<Rightarrow> (client_row \<Rightarrow> bool) \<Rightarrow> ('h, client_row) desk_prog" where
  "current_client k expected_revision usable = bind (read_tables (get_client k)) (\<lambda>c. case c of
     None \<Rightarrow> throw repository_conflict
   | Some row \<Rightarrow> if \<not> usable row \<or> cl_revision row \<noteq> expected_revision then throw repository_conflict else ret row)"

definition update_client :: "ident \<Rightarrow> (client_row \<Rightarrow> bool) \<Rightarrow> (client_row \<Rightarrow> client_row) \<Rightarrow> ('h, client_row) desk_prog" where
  "update_client k fits f = bind (read_tables (\<lambda>d. list_ex (\<lambda>c. cl_id c = k \<and> fits c) (clients d))) (\<lambda>hit.
     if \<not> hit then throw repository_conflict
     else andthen (write_tables (\<lambda>d. d\<lparr>clients := rows_updated (\<lambda>c. cl_id c = k \<and> fits c)
         (\<lambda>c. (f c)\<lparr>cl_revision := cl_revision c + 1\<rparr>) (clients d)\<rparr>))
       (bind (read_tables (get_client k)) assert_some))"

definition superseded :: "instant \<Rightarrow> instant option \<Rightarrow> secret_row \<Rightarrow> secret_row" where
  "superseded now overlap x = x\<lparr>se_state := (if overlap = None then RETIRED else OVERLAP),
     se_overlap_expires_at := overlap, se_retired_at := (if overlap = None then Some now else None)\<rparr>"

definition rotate_row :: "client_env \<Rightarrow> ident \<Rightarrow> int \<Rightarrow> string \<Rightarrow> int \<Rightarrow> instant option \<Rightarrow> ('h, client_row) desk_prog" where
  "rotate_row v k expected_revision fingerprint generation overlap =
     bind (lift (validate_fingerprint fingerprint)) (\<lambda>fingerprint.
     bind (current_client k expected_revision (\<lambda>c. cl_revoked_at c = None)) (\<lambda>current.
     if generation \<noteq> cl_generation current + 1 then throw credential_error
     else bind (clock (ce_env v)) (\<lambda>now.
      andthen (write_tables (\<lambda>d. d\<lparr>secrets := rows_updated
         (\<lambda>x. se_client x = k \<and> se_generation x = cl_generation current \<and> se_state x = ACTIVE)
         (superseded now overlap) (secrets d)\<rparr>))
     (andthen (insert_secret k generation fingerprint now)
       (update_client k (\<lambda>c. cl_revision c = expected_revision \<and> cl_revoked_at c = None)
         (\<lambda>c. c\<lparr>cl_fingerprint := fingerprint, cl_generation := generation, cl_storage := ''managed'',
            cl_rotated_at := Some now\<rparr>))))))"

text \<open>\<^verbatim>\<open>COALESCE(old, new)\<close>.\<close>

definition or_now :: "instant option \<Rightarrow> instant \<Rightarrow> instant option" where
  "or_now t now = (case t of None \<Rightarrow> Some now | Some x \<Rightarrow> Some x)"

definition retired :: "instant \<Rightarrow> secret_row \<Rightarrow> secret_row" where
  "retired now x = x\<lparr>se_state := RETIRED, se_retired_at := or_now (se_retired_at x) now, se_overlap_expires_at := None\<rparr>"

definition revoke_row :: "client_env \<Rightarrow> ident \<Rightarrow> int \<Rightarrow> ('h, client_row) desk_prog" where
  "revoke_row v k expected_revision =
     bind (current_client k expected_revision (\<lambda>_. True)) (\<lambda>_.
     bind (clock (ce_env v)) (\<lambda>now.
     andthen (bind (update_client k (\<lambda>c. cl_revision c = expected_revision)
         (\<lambda>c. c\<lparr>cl_revoked_at := or_now (cl_revoked_at c) now\<rparr>)) (\<lambda>_. ret ()))
    (andthen (write_tables (\<lambda>d. d\<lparr>secrets := rows_updated (\<lambda>x. se_client x = k \<and> se_state x \<noteq> RETIRED) (retired now) (secrets d)\<rparr>))
       (bind (read_tables (get_client k)) assert_some))))"

definition record_use_row :: "client_env \<Rightarrow> ident \<Rightarrow> string \<Rightarrow> int \<Rightarrow> ('h, client_row) desk_prog" where
  "record_use_row v k endpoint expected_revision =
    (if endpoint \<notin> set ENDPOINT_CLASSES then throw credential_error
     else bind (clock (ce_env v)) (\<lambda>now.
       update_client k (\<lambda>c. cl_revision c = expected_revision \<and> cl_revoked_at c = None)
         (\<lambda>c. c\<lparr>cl_last_used_at := Some now, cl_last_endpoint := Some endpoint\<rparr>)))"

definition eligible :: "instant \<Rightarrow> secret_row \<Rightarrow> bool" where
  "eligible now x \<longleftrightarrow> se_state x = ACTIVE \<or>
     se_state x = OVERLAP \<and> (case se_overlap_expires_at x of None \<Rightarrow> False | Some t \<Rightarrow> now < t)"

definition authentication_fingerprints :: "instant \<Rightarrow> client_db \<Rightarrow> (client_row \<times> secret_row) list" where
  "authentication_fingerprints now d =
    (if ac_enabled (access d)
     then sort_key (\<lambda>(c, x). (cl_id c, se_generation x))
       (filter (\<lambda>(c, x). se_client x = cl_id c \<and> eligible now x) (List.product (active_clients d) (secrets d)))
     else [])"

section \<open>The access switch\<close>

definition update_access :: "int \<Rightarrow> (access_row \<Rightarrow> access_row) \<Rightarrow> ('h, unit) desk_prog" where
  "update_access expected_revision f = bind (read_tables (\<lambda>d. ac_revision (access d))) (\<lambda>revision.
     if revision \<noteq> expected_revision then throw repository_conflict
     else write_tables (\<lambda>d. d\<lparr>access := (f (access d))\<lparr>ac_revision := revision + 1\<rparr>\<rparr>))"

definition disable_rows :: "client_env \<Rightarrow> int \<Rightarrow> ('h, access_row) desk_prog" where
  "disable_rows v expected_revision = bind (clock (ce_env v)) (\<lambda>now.
     andthen (update_access expected_revision (\<lambda>a. a\<lparr>ac_enabled := False, ac_disabled_at := Some now\<rparr>))
    (andthen (write_tables (\<lambda>d. d\<lparr>
         clients := rows_updated (\<lambda>c. cl_revoked_at c = None)
           (\<lambda>c. c\<lparr>cl_revoked_at := Some now, cl_revision := cl_revision c + 1\<rparr>) (clients d),
         secrets := rows_updated (\<lambda>x. se_state x \<noteq> RETIRED) (retired now) (secrets d)\<rparr>))
       (read_tables access)))"

definition enable_row :: "int \<Rightarrow> ('h, access_row) desk_prog" where
  "enable_row expected_revision =
     andthen (update_access expected_revision (\<lambda>a. a\<lparr>ac_enabled := True, ac_disabled_at := None\<rparr>)) (read_tables access)"

section \<open>Secret files\<close>

definition path_of :: "ident \<Rightarrow> int \<Rightarrow> string \<Rightarrow> exn + secret_path" where
  "path_of k generation storage =
    (if storage = ''legacy-singleton'' then Inr LegacyFile
     else sum_bind (validate_client_id k) (\<lambda>k.
       requires_valid (1 \<le> generation \<and> generation \<le> 1000000) (Inr (ClientFile k generation))))"

definition secret_written :: "pystr \<Rightarrow> secret_file" where
  "secret_written secret = \<lparr>sf_text = Some secret, sf_bytes = utf8_size secret, sf_regular = True, sf_link = False, sf_mode = 384\<rparr>"

definition ensure_secret_dir :: "client_env \<Rightarrow> ('h, unit) desk_prog" where
  "ensure_secret_dir v = on_files v (\<lambda>n files. (case ce_dir v n of Some e \<Rightarrow> Inl e | None \<Rightarrow> Inr (), files))"

text \<open>The file must not exist; a failed write leaves what it leaves.\<close>

definition publish_secret :: "client_env \<Rightarrow> secret_path \<Rightarrow> pystr \<Rightarrow> ('h, unit) desk_prog" where
  "publish_secret v path secret =
    (if \<not> (8 \<le> length secret \<and> length secret \<le> MAX_SECRET_LEN) then throw credential_error
     else andthen (ensure_secret_dir v) (on_files v (\<lambda>n files.
       if files path \<noteq> None then (Inl (python_error ''FileExistsError''), files)
       else case ce_write v n secret of
           None \<Rightarrow> (Inr (), files(path \<mapsto> secret_written secret))
         | Some (e, left) \<Rightarrow> (Inl e, files(path := left)))))"

definition unlink_secret :: "client_env \<Rightarrow> secret_path \<Rightarrow> ('h, unit) desk_prog" where
  "unlink_secret v path = on_files v (\<lambda>n files. (Inr (), if ce_unlink v n path then files(path := None) else files))"

definition sized :: "secret_file \<Rightarrow> bool" where
  "sized f \<longleftrightarrow> 8 \<le> sf_bytes f \<and> sf_bytes f \<le> MAX_SECRET_LEN"

definition read_secret :: "client_env \<Rightarrow> client_row \<Rightarrow> ('h, pystr option) desk_prog" where
  "read_secret v c = bind (lift (path_of (cl_id c) (cl_generation c) (cl_storage c))) (\<lambda>path.
     on_files v (\<lambda>n files. (Inr (case files path of
         None \<Rightarrow> None
       | Some f \<Rightarrow>
          (if sf_link f \<or> \<not> sf_regular f \<or> sf_mode f mod 64 \<noteq> 0 \<or> \<not> sized f then None
           else case sf_text f of
               None \<Rightarrow> None
             | Some t \<Rightarrow> if ce_fingerprint v (py_strip t) = cl_fingerprint c then Some (py_strip t) else None)), files)))"

section \<open>Commands\<close>

record command_result =
  cr_action :: string
  cr_client :: client_row
  cr_secret :: "pystr option"

definition draw_secret :: "client_env \<Rightarrow> ('h, pystr) desk_prog" where
  "draw_secret v s = (Inr (ce_secret v (uuid_reads s)), s\<lparr>uuid_reads := Suc (uuid_reads s)\<rparr>)"

text \<open>\<^verbatim>\<open>except BaseException\<close>: clean up and raise again; a dead process does neither.\<close>

definition cleaning_up :: "('h, 'a) desk_prog \<Rightarrow> ('h, unit) desk_prog \<Rightarrow> ('h, 'a) desk_prog" where
  "cleaning_up m cleanup = handle m (\<lambda>e. if is_exception e then Some (andthen cleanup (throw e)) else None)"

definition add_client :: "client_env \<Rightarrow> pystr \<Rightarrow> pystr \<Rightarrow> pystr list \<Rightarrow> ident option \<Rightarrow> ('h, command_result) desk_prog" where
  "add_client v label kind scopes chosen_id = bind (case chosen_id of Some k \<Rightarrow> if k = [] then uuid_factory (ce_env v) else ret k
       | None \<Rightarrow> uuid_factory (ce_env v)) (\<lambda>k.
     bind (draw_secret v) (\<lambda>secret.
     bind (lift (path_of k 1 ''managed'')) (\<lambda>path.
     andthen (publish_secret v path secret)
    (bind (cleaning_up (client_unit v (create_client v k label kind scopes (ce_fingerprint v secret)))
         (unlink_secret v path)) (\<lambda>row.
       ret \<lparr>cr_action = ''created'', cr_client = row, cr_secret = Some secret\<rparr>)))))"

text \<open>The secret of a file that a dead run left behind.\<close>

definition orphan_secret :: "secret_file \<Rightarrow> exn + pystr" where
  "orphan_secret f =
    (if sf_link f \<or> \<not> sf_regular f \<or> sf_mode f \<noteq> 384 \<or> \<not> sized f then Inl credential_error
     else case sf_text f of
         None \<Rightarrow> Inl credential_error
       | Some t \<Rightarrow> requires_valid (8 \<le> length (py_strip t) \<and> length (py_strip t) \<le> MAX_SECRET_LEN) (Inr (py_strip t)))"

definition look_at :: "client_env \<Rightarrow> secret_path \<Rightarrow> ('h, secret_file option) desk_prog" where
  "look_at v path = on_files v (\<lambda>n files. (Inr (files path), files))"

definition ensure_client :: "client_env \<Rightarrow> ident \<Rightarrow> pystr \<Rightarrow> pystr \<Rightarrow> pystr list \<Rightarrow> ('h, command_result) desk_prog" where
  "ensure_client v k label kind scopes =
     bind (lift (validate_client_id k)) (\<lambda>k.
     bind (lift (normalize_label label)) (\<lambda>label.
     bind (lift (normalize_kind kind)) (\<lambda>kind.
     bind (lift (normalize_scopes scopes)) (\<lambda>scopes.
     andthen (ensure_secret_dir v)
    (bind (client_unit v (read_tables (get_client k))) (\<lambda>existing. case existing of
       Some row \<Rightarrow>
        (if cl_revoked_at row \<noteq> None \<or> cl_label row \<noteq> label \<or> cl_kind row \<noteq> kind \<or> cl_scopes row \<noteq> scopes
         then throw credential_error
         else bind (read_secret v row) (\<lambda>secret.
           if secret = None then throw credential_error
           else ret \<lparr>cr_action = ''reused'', cr_client = row, cr_secret = None\<rparr>))
     | None \<Rightarrow>
         bind (lift (path_of k 1 ''managed'')) (\<lambda>path.
         bind (look_at v path) (\<lambda>found.
         let create = (\<lambda>secret. client_unit v
               (create_client v k label (cps kind) (map cps scopes) (ce_fingerprint v secret))) in
         case found of
           Some f \<Rightarrow> bind (lift (orphan_secret f)) (\<lambda>secret. bind (create secret) (\<lambda>row.
             ret \<lparr>cr_action = ''created'', cr_client = row, cr_secret = None\<rparr>))
         | None \<Rightarrow> bind (draw_secret v) (\<lambda>secret. andthen (publish_secret v path secret)
            (bind (cleaning_up (create secret) (unlink_secret v path)) (\<lambda>row.
             ret \<lparr>cr_action = ''created'', cr_client = row, cr_secret = Some secret\<rparr>)))))))))))"

definition rotate_client :: "client_env \<Rightarrow> ident \<Rightarrow> int \<Rightarrow> int \<Rightarrow> ('h, command_result) desk_prog" where
  "rotate_client v k expected_revision overlap_seconds =
    (if \<not> (0 \<le> overlap_seconds \<and> overlap_seconds \<le> 900) then throw credential_error
     else bind (client_unit v (read_tables (get_client k))) (\<lambda>prior. case prior of
       None \<Rightarrow> throw repository_conflict
     | Some row \<Rightarrow>
        (let generation = cl_generation row + 1 in
         bind (draw_secret v) (\<lambda>secret.
         bind (lift (path_of k generation ''managed'')) (\<lambda>path.
         andthen (publish_secret v path secret)
        (bind (if overlap_seconds = 0 then ret None
           else bind (clock (ce_env v)) (\<lambda>now. ret (Some (now + overlap_seconds)))) (\<lambda>overlap.
         bind (cleaning_up (client_unit v (rotate_row v k expected_revision (ce_fingerprint v secret) generation overlap))
           (unlink_secret v path)) (\<lambda>changed.
         andthen (if overlap_seconds \<noteq> 0 then ret ()
           else bind (lift (path_of k (cl_generation row) (cl_storage row))) (unlink_secret v))
          (ret \<lparr>cr_action = ''rotated'', cr_client = changed, cr_secret = Some secret\<rparr>))))))))) "

definition revoke_client :: "client_env \<Rightarrow> ident \<Rightarrow> int \<Rightarrow> ('h, command_result) desk_prog" where
  "revoke_client v k expected_revision =
     bind (client_unit v (bind (read_tables (get_client k)) (\<lambda>prior.
       bind (revoke_row v k expected_revision) (\<lambda>row. ret (prior, row))))) (\<lambda>(prior, row).
     andthen (case prior of None \<Rightarrow> ret ()
       | Some c \<Rightarrow> foreach [1..cl_generation c] (\<lambda>generation.
           bind (lift (path_of k generation (cl_storage c))) (unlink_secret v)))
       (ret \<lparr>cr_action = ''revoked'', cr_client = row, cr_secret = None\<rparr>))"

text \<open>Every secret file is removed, as far as removing works, and then the legacy one.\<close>

definition disable_all :: "client_env \<Rightarrow> int \<Rightarrow> ('h, access_row) desk_prog" where
  "disable_all v expected_revision = bind (client_unit v (disable_rows v expected_revision)) (\<lambda>state.
     andthen (on_files v (\<lambda>n files. (Inr (), \<lambda>path. if path \<noteq> LegacyFile \<and> ce_unlink v n path then None else files path)))
    (andthen (unlink_secret v LegacyFile) (ret state)))"

fun count_readable :: "client_env \<Rightarrow> client_row list \<Rightarrow> ('h, nat) desk_prog" where
  "count_readable v [] = ret 0"
| "count_readable v (c # cs) = bind (read_secret v c) (\<lambda>secret. bind (count_readable v cs) (\<lambda>n.
     ret (if secret = None then n else Suc n)))"

record client_readiness =
  rd_enabled :: bool
  rd_active_clients :: nat
  rd_ready_clients :: nat
  rd_revision :: int

definition client_readiness :: "client_env \<Rightarrow> ('h, client_readiness) desk_prog" where
  "client_readiness v = bind (client_unit v (read_tables (\<lambda>d. (active_clients d, access d)))) (\<lambda>(rows, a).
     bind (count_readable v rows) (\<lambda>ready. ret \<lparr>rd_enabled = ac_enabled a, rd_active_clients = length rows,
       rd_ready_clients = ready, rd_revision = ac_revision a\<rparr>))"

definition enable_for_sharing :: "client_env \<Rightarrow> int \<Rightarrow> ('h, access_row) desk_prog" where
  "enable_for_sharing v expected_revision = bind (client_readiness v) (\<lambda>readiness.
     if rd_ready_clients readiness < 1 then throw credential_error
     else client_unit v (enable_row expected_revision))"

definition secret_for_probe :: "client_env \<Rightarrow> ident \<Rightarrow> ('h, pystr) desk_prog" where
  "secret_for_probe v k = bind (client_unit v (read_tables (\<lambda>d. (get_client k d, access d)))) (\<lambda>(found, a).
     case found of
       None \<Rightarrow> throw credential_error
     | Some row \<Rightarrow>
        (if cl_revoked_at row \<noteq> None \<or> \<not> ac_enabled a then throw credential_error
         else bind (read_secret v row) (\<lambda>secret. case secret of None \<Rightarrow> throw credential_error | Some t \<Rightarrow> ret t)))"

section \<open>Resolving a presented secret\<close>

text \<open>Every eligible fingerprint is compared; the last match counts.\<close>

definition matching :: "string \<Rightarrow> (client_row \<times> secret_row) list \<Rightarrow> (ident \<times> string list) option" where
  "matching fingerprint candidates = fold (\<lambda>(c, x) found.
     if se_fingerprint x = fingerprint then Some (cl_id c, cl_scopes c) else found) candidates None"

definition authenticate :: "client_env \<Rightarrow> pystr \<Rightarrow> ('h, (ident \<times> string list) option) desk_prog" where
  "authenticate v presented =
    (if \<not> (1 \<le> length presented \<and> length presented \<le> MAX_SECRET_LEN) then ret None
     else client_unit v (bind (clock (ce_env v)) (\<lambda>now. bind (read_tables (authentication_fingerprints now)) (\<lambda>candidates.
       ret (matching (ce_fingerprint v presented) candidates)))))"

definition record_use :: "client_env \<Rightarrow> ident \<Rightarrow> string \<Rightarrow> ('h, unit) desk_prog" where
  "record_use v k endpoint = handle
     (client_unit v (bind (read_tables (get_client k)) (\<lambda>found. case found of
        None \<Rightarrow> ret ()
      | Some row \<Rightarrow>
         (if cl_revoked_at row \<noteq> None then ret ()
          else bind (if cl_last_used_at row \<noteq> None \<and> cl_last_endpoint row = Some endpoint
              then bind (clock (ce_env v)) (\<lambda>now. ret (case cl_last_used_at row of None \<Rightarrow> False | Some t \<Rightarrow> now - t < 60))
              else ret False) (\<lambda>fresh.
            if fresh then ret ()
            else bind (record_use_row v k endpoint (cl_revision row)) (\<lambda>_. ret ()))))))
     (\<lambda>e. if e = repository_conflict then Some (ret ()) else None)"

end
