(* ===== verification/Problem_Details.thy ===== *)
theory Problem_Details
  imports Requests
begin

text \<open>
  The stable problem codes of the user and protocol surfaces
  (\<^verbatim>\<open>problem_details.py\<close>): the catalog and the error object a client of the
  private API receives. No field carries anything of a request.
\<close>

record problem_detail =
  pd_code :: string
  pd_category :: string
  pd_severity :: string
  pd_title :: string
  pd_user_message :: string
  pd_component :: string
  pd_safe_action_id :: string
  pd_safe_action_label :: string
  pd_technical_summary :: string
  pd_request_id :: "pystr option"

definition problem :: "string \<Rightarrow> string \<Rightarrow> string \<Rightarrow> string \<Rightarrow> string \<Rightarrow> string \<Rightarrow> string \<Rightarrow> string \<Rightarrow> string \<Rightarrow> problem_detail" where
  "problem code category severity title user_message component action_id action_label technical =
     \<lparr>pd_code = code, pd_category = category, pd_severity = severity, pd_title = title, pd_user_message = user_message,
       pd_component = component, pd_safe_action_id = action_id, pd_safe_action_label = action_label,
       pd_technical_summary = technical, pd_request_id = None\<rparr>"

definition PROBLEM_CATALOG :: "problem_detail list" where
  "PROBLEM_CATALOG =
    [problem ''MODEL_NOT_SELECTED'' ''readiness'' ''warning'' ''Choose a model''
       ''Choose an installed model before starting a connection.''
       ''model'' ''choose-model'' ''Choose a model''
       ''No selected model identity is available.'',
     problem ''MODEL_NOT_RUNNING'' ''readiness'' ''warning'' ''Model is stopped''
       ''Start the selected model, then try again.''
       ''model'' ''start-model'' ''Start model''
       ''The model process is not active.'',
     problem ''MODEL_ABSENT'' ''readiness'' ''warning'' ''No model is installed''
       ''Choose and install a model before connecting another device.''
       ''model'' ''choose-model'' ''Choose a model''
       ''No installed model identity is available.'',
     problem ''MODEL_STOPPED'' ''readiness'' ''warning'' ''Model is stopped''
       ''Start the selected model, then run the connection check.''
       ''model'' ''start-model'' ''Start model''
       ''The selected model process is stopped.'',
     problem ''MODEL_IDENTITY_MISMATCH'' ''readiness'' ''error'' ''Different model is running''
       ''Reconcile the running model before sharing it.''
       ''model'' ''reconcile-model'' ''Reconcile model''
       ''Observed and expected model identities differ.'',
     problem ''MODEL_WARMING'' ''readiness'' ''info'' ''Model is warming up''
       ''Wait for startup verification to finish.''
       ''model'' ''view-activity'' ''View Activity''
       ''Model startup has not reached verified inference.'',
     problem ''GATEWAY_NOT_INSTALLED'' ''readiness'' ''warning'' ''Private API is not installed''
       ''Install the private API service for this application slot.''
       ''gateway'' ''install-gateway'' ''Install private API''
       ''The managed gateway unit is absent.'',
     problem ''GATEWAY_NOT_RUNNING'' ''readiness'' ''warning'' ''Private API is stopped''
       ''Start private API access for this boot.''
       ''gateway'' ''start-gateway'' ''Start private API''
       ''The managed gateway process is not active.'',
     problem ''GATEWAY_STOPPED'' ''readiness'' ''warning'' ''Private API is stopped''
       ''Start the authenticated gateway for this boot.''
       ''gateway'' ''start-gateway'' ''Start private API''
       ''The gateway process is stopped.'',
     problem ''GATEWAY_CREDENTIAL_REQUIRED'' ''authentication'' ''warning'' ''Client key required''
       ''Create a separate client key for this device or app.''
       ''gateway'' ''create-client'' ''Create client key''
       ''No active named client is selected.'',
     problem ''GATEWAY_BACKEND_UNVERIFIED'' ''upstream'' ''error'' ''Model backend is not ready''
       ''Start or reconcile the selected model, then retry.''
       ''gateway'' ''reconcile-model'' ''Check model''
       ''The gateway could not verify its expected backend identity.'',
     problem ''AUTH_MISSING'' ''authentication'' ''warning'' ''API key is missing''
       ''Enter this app's named API key in the client and retry.''
       ''gateway'' ''configure-api-key'' ''Enter API key''
       ''No Bearer credential was presented.'',
     problem ''AUTH_INVALID'' ''authentication'' ''warning'' ''API key was rejected''
       ''Use the key created for this app, or rotate that app's key.''
       ''gateway'' ''rotate-client'' ''Check or rotate key''
       ''The Bearer credential did not match an active generation.'',
     problem ''SCOPE_NOT_GRANTED'' ''authorization'' ''warning'' ''Client permission is missing''
       ''Create a client key with the required model permission.''
       ''gateway'' ''review-client'' ''Review client access''
       ''The authenticated client lacks the required capability scope.'',
     problem ''ENDPOINT_UNSUPPORTED'' ''compatibility'' ''warning'' ''Endpoint is not supported''
       ''Configure the app for Chat Completions at the displayed /v1 Base URL.''
       ''gateway'' ''show-connection-card'' ''Show compatible settings''
       ''The authenticated request targeted a known unsupported inference endpoint.'',
     problem ''ENDPOINT_FORBIDDEN'' ''security'' ''error'' ''Endpoint is private''
       ''Use only the displayed model API endpoints.''
       ''gateway'' ''show-connection-card'' ''Show supported endpoints''
       ''The requested path is outside the public inference surface.'',
     problem ''REQUEST_TOO_LARGE'' ''request'' ''warning'' ''Request is too large''
       ''Reduce the request or context size and retry.''
       ''gateway'' ''reduce-request'' ''Reduce request''
       ''A configured request bound was exceeded.'',
     problem ''REQUEST_HEADERS_TOO_LARGE'' ''request'' ''warning'' ''Request headers are too large''
       ''Remove unnecessary client headers and retry.''
       ''gateway'' ''reduce-headers'' ''Reduce headers''
       ''The aggregate request-header bound was exceeded.'',
     problem ''INVALID_REQUEST'' ''request'' ''warning'' ''Request is invalid''
       ''Check the client's OpenAI-compatible request settings and retry.''
       ''gateway'' ''review-request'' ''Review request''
       ''The request body did not satisfy the bounded JSON contract.'',
     problem ''RATE_LIMITED'' ''capacity'' ''warning'' ''Too many requests''
       ''Wait briefly, then retry with fewer concurrent requests.''
       ''gateway'' ''retry-later'' ''Retry later''
       ''The per-client request or concurrency bound was reached.'',
     problem ''OPENWEBUI_START_FAILED'' ''openwebui'' ''error'' ''Open WebUI did not start''
       ''Open Activity for the safe rollback result, then retry.''
       ''openwebui'' ''view-activity'' ''View Activity''
       ''Open WebUI convergence did not complete.'',
     problem ''OPENWEBUI_WARMING'' ''openwebui'' ''info'' ''Open WebUI is starting''
       ''Wait for its HTTP and provider checks to finish.''
       ''openwebui'' ''view-activity'' ''View Activity''
       ''Open WebUI has not completed readiness checks.'',
     problem ''OPENWEBUI_PROVIDER_STALE'' ''openwebui'' ''warning'' ''Open WebUI provider needs repair''
       ''Run Open WebUI setup again to reconcile its named provider.''
       ''openwebui'' ''setup-openwebui'' ''Reconfigure Open WebUI''
       ''The provider receipt does not match the current configuration identity.'',
     problem ''OPENWEBUI_MODEL_MISSING'' ''openwebui'' ''warning'' ''Model is missing in Open WebUI''
       ''Run Open WebUI setup after starting the selected model.''
       ''openwebui'' ''setup-openwebui'' ''Reconfigure Open WebUI''
       ''The selected public model alias was not discovered.'',
     problem ''TAILSCALE_DISCONNECTED'' ''network'' ''warning'' ''Private network is disconnected''
       ''Connect Tailscale on this BC-250, then retry.''
       ''tailscale'' ''connect-tailscale'' ''Connect Tailscale''
       ''The local node is not connected to its tailnet.'',
     problem ''SERVE_MAPPING_MISSING'' ''network'' ''warning'' ''Private address is not published''
       ''Publish the reviewed private HTTPS mappings.''
       ''serve'' ''configure-serve'' ''Configure private sharing''
       ''The required Tailscale Serve mapping is absent.'',
     problem ''SERVE_MAPPING_MISMATCH'' ''network'' ''error'' ''Private address has changed''
       ''Reconcile the reviewed private HTTPS mappings.''
       ''serve'' ''configure-serve'' ''Repair private sharing''
       ''Observed Serve mappings differ from the closed topology.'',
     problem ''PUBLIC_FUNNEL_ENABLED'' ''security'' ''error'' ''Public access must be disabled''
       ''Disable public Funnel exposure before continuing.''
       ''serve'' ''disable-funnel'' ''Disable public access''
       ''A public Funnel mapping was observed.'',
     problem ''FUNNEL_MUST_BE_DISABLED'' ''security'' ''error'' ''Public access must be disabled''
       ''Disable public Funnel exposure before continuing.''
       ''serve'' ''disable-funnel'' ''Disable public access''
       ''A public Funnel mapping was observed.'',
     problem ''STREAM_INTERRUPTED'' ''upstream'' ''warning'' ''Response stream was interrupted''
       ''Retry once; if it repeats, check the model and private API status.''
       ''gateway'' ''retry-stream'' ''Retry response''
       ''The upstream stream ended before normal completion.'',
     problem ''UPSTREAM_TIMEOUT'' ''upstream'' ''error'' ''Model response timed out''
       ''Reduce the request or use a smaller model, then retry.''
       ''gateway'' ''reduce-request'' ''Reduce request''
       ''The bounded upstream deadline expired.'',
     problem ''UPSTREAM_FAILED'' ''upstream'' ''error'' ''Model request failed''
       ''Check the selected model, then retry.''
       ''gateway'' ''check-model'' ''Check model''
       ''The upstream request failed without exposing internal details.'',
     problem ''CLIENT_VERIFICATION_STALE'' ''verification'' ''warning'' ''Connection check is stale''
       ''Run the guided connection check again.''
       ''connections'' ''test-client'' ''Run connection check''
       ''The prior client evidence exceeded its freshness bound.'',
     problem ''CLIENT_VERIFICATION_FAILED'' ''verification'' ''error'' ''Connection check failed''
       ''Review the failed check, fix it, and retry.''
       ''connections'' ''test-client'' ''Retry connection check''
       ''A required client probe failed.'',
     problem ''CLIENT_VERIFICATION_INVALIDATED'' ''verification'' ''warning'' ''Connection changed''
       ''A dependency changed; run the connection check again.''
       ''connections'' ''test-client'' ''Run connection check''
       ''The prior evidence no longer matches dependency identity.'',
     problem ''RECOVERY_REQUIRED'' ''recovery'' ''error'' ''Recovery needs attention''
       ''Open Activity and complete the guided recovery action.''
       ''operations'' ''view-activity'' ''View Activity''
       ''A durable operation could not prove a safe terminal state.'',
     problem ''OPERATION_DEADLINE_EXCEEDED'' ''operations'' ''error'' ''Task is taking too long''
       ''Open Activity to review the current phase and its safe recovery action.''
       ''operations'' ''view-activity'' ''View Activity''
       ''The named finite operation deadline expired without a durable checkpoint.'',
     problem ''OPERATION_FAILED'' ''operations'' ''error'' ''Task stopped safely''
       ''Open Activity to review the recorded problem and safe next action.''
       ''operations'' ''view-activity'' ''View Activity''
       ''A durable operation reached a safe failure state without a public failure code.'',
     problem ''GATEWAY_INTERNAL'' ''internal'' ''error'' ''Private API request failed''
       ''Retry once; if it repeats, open Activity for redacted details.''
       ''gateway'' ''retry-request'' ''Retry request''
       ''The gateway failed closed on an internal adapter error.'']"

definition UNKNOWN_PROBLEM :: problem_detail where
  "UNKNOWN_PROBLEM = problem ''UNKNOWN_PROBLEM'' ''unknown'' ''error'' ''Action could not be completed''
       ''Open Activity for redacted details and a safe next action.''
       ''application'' ''view-activity'' ''View Activity''
       ''An unrecognized problem code was reported.''"

text \<open>The pattern of a request identifier: 1 to 128 letters, digits, dots, underscores and dashes.\<close>

definition safe_request_id :: "pystr \<Rightarrow> bool" where
  "safe_request_id s \<longleftrightarrow> 1 \<le> length s \<and> length s \<le> 128 \<and> list_all (\<lambda>c. alphanumeric c \<or> c \<in> {45, 46, 95}) s"

definition problem_detail :: "string \<Rightarrow> pystr \<Rightarrow> problem_detail" where
  "problem_detail code request_id =
    (case find (\<lambda>p. pd_code p = code) PROBLEM_CATALOG of None \<Rightarrow> UNKNOWN_PROBLEM | Some p \<Rightarrow> p)
      \<lparr>pd_request_id := (if safe_request_id request_id then Some request_id else None)\<rparr>"

definition openai_error_type :: "string \<Rightarrow> string" where
  "openai_error_type category =
    (if category = ''authentication'' then ''authentication_error''
     else if category = ''authorization'' then ''permission_error''
     else if category = ''capacity'' then ''rate_limit_error''
     else if category = ''request'' \<or> category = ''compatibility'' then ''invalid_request_error''
     else ''server_error'')"

definition openai_error :: "problem_detail \<Rightarrow> json" where
  "openai_error p = JObj
     [(''error'', JObj [(''message'', jstr (pd_user_message p)), (''type'', jstr (openai_error_type (pd_category p))),
        (''param'', JNull), (''code'', jstr (pd_code p))]),
      (''request_id'', (case pd_request_id p of None \<Rightarrow> JNull | Some r \<Rightarrow> JStr r))]"

end
