(* ===== verification/Gateway.thy ===== *)
theory Gateway
  imports Clients Problem_Details Complex_Main
begin

text \<open>
  The authenticated gateway in front of the model (\<^verbatim>\<open>gateway.py\<close>, with the
  routes of \<^verbatim>\<open>client_compatibility.py\<close>): who may do what, how much at a time, and
  what reaches the backend. The memory of one gateway process (slots, counters, audit) is
  part of the state; the backend, the network and the clock are parameters. Every operation
  of the rate limiter and of the audit is one step; the source finds a limiter row under one
  lock and changes it under another.
\<close>

section \<open>The memory of the process\<close>

type_synonym bytes = "nat list"

record client_rate =
  ra_window_start :: rat
  ra_count :: int
  ra_tokens :: int
  ra_inflight :: int

record audit_event =
  au_seq :: nat
  au_at :: rat
  au_actor :: pystr
  au_scope :: string
  au_request_id :: pystr
  au_method :: pystr
  au_path :: pystr
  au_outcome :: string
  au_status :: int

text \<open>
  A call of the backend, with the principal it is made for. The list is an observation of
  the model: no program reads it.
\<close>

record upstream_call =
  up_principal :: pystr
  up_method :: pystr
  up_path :: pystr
  up_body :: bytes

record 'h gate =
  limiter :: "(pystr \<times> client_rate) list"
  audit_seq :: nat
  audit_log :: "audit_event list"
  monotonic_reads :: nat
  credential_slot :: string
  upstream :: "upstream_call list"
  around :: 'h

type_synonym ('h, 'a) gate_prog = "('h gate, 'a) desk_prog"

text \<open>
  A streamed answer of the backend: its status, whether its content is sent as it is, its
  content type, what \<^verbatim>\<open>int\<close> makes of its declared length, and its chunks until an
  exception or the end.
\<close>

record stream_reply =
  sr_status :: int
  sr_identity :: bool
  sr_content_type :: "pystr option"
  sr_length :: "exn + int"
  sr_chunks :: "bytes list"
  sr_broken :: "exn option"

text \<open>
  \<open>ga_named\<close> is the store of named clients; without one the single credential is used.
  \<open>ga_loads\<close> and \<open>ga_dumps\<close> are \<^verbatim>\<open>json.loads\<close> of bytes, whose
  decoding errors are instances of \<^verbatim>\<open>ValueError\<close>, and the bytes of
  \<^verbatim>\<open>json.dumps\<close>; \<open>ga_deadline\<close> says whether the stream's deadline has passed at a
  chunk and \<open>ga_write\<close> is the exception of writing to the client.
\<close>

record 'h gate_env =
  ga_env :: env
  ga_now :: "nat \<Rightarrow> rat"
  ga_time :: "nat \<Rightarrow> rat"
  ga_named :: "client_env option"
  ga_fingerprint :: "pystr \<Rightarrow> string"
  ga_allowed :: "string list"
  ga_ready :: "'h \<Rightarrow> (exn + bool) \<times> 'h"
  ga_loads :: "bytes \<Rightarrow> exn + json"
  ga_dumps :: "json \<Rightarrow> bytes"
  ga_backend :: "pystr \<Rightarrow> pystr \<Rightarrow> bytes \<Rightarrow> 'h \<Rightarrow> (exn + stream_reply) \<times> 'h"
  ga_deadline :: "nat \<Rightarrow> bool"
  ga_write :: "nat \<Rightarrow> exn option"
  ga_max_events :: nat
  ga_max_response :: nat

definition read_gate :: "('h gate \<Rightarrow> 'a) \<Rightarrow> ('h, 'a) gate_prog" where
  "read_gate f s = (Inr (f (beyond (world s))), s)"

definition write_gate :: "('h gate \<Rightarrow> 'h gate) \<Rightarrow> ('h, unit) gate_prog" where
  "write_gate f s = (Inr (), s\<lparr>world := (world s)\<lparr>beyond := f (beyond (world s))\<rparr>\<rparr>)"

definition outside :: "('h \<Rightarrow> (exn + 'a) \<times> 'h) \<Rightarrow> ('h, 'a) gate_prog" where
  "outside f s = (case f (around (beyond (world s))) of (r, h) \<Rightarrow>
     (r, s\<lparr>world := (world s)\<lparr>beyond := (beyond (world s))\<lparr>around := h\<rparr>\<rparr>\<rparr>))"

definition monotonic :: "'h gate_env \<Rightarrow> ('h, rat) gate_prog" where
  "monotonic g = bind (read_gate monotonic_reads) (\<lambda>n.
     andthen (write_gate (\<lambda>m. m\<lparr>monotonic_reads := Suc n\<rparr>)) (ret (ga_now g n)))"

section \<open>Bounds\<close>

definition MAX_BODY_BYTES :: nat where "MAX_BODY_BYTES = 4 * 1024 * 1024"
definition MAX_CONTEXT_TOKENS :: int where "MAX_CONTEXT_TOKENS = 131072"
definition MAX_GENERATED_TOKENS :: int where "MAX_GENERATED_TOKENS = 8192"
definition MAX_HEADER_BYTES :: nat where "MAX_HEADER_BYTES = 64 * 1024"
definition MAX_REQUEST_RATE :: int where "MAX_REQUEST_RATE = 20"
definition RATE_WINDOW_S :: rat where "RATE_WINDOW_S = 60"
definition MAX_CONCURRENT :: int where "MAX_CONCURRENT = 4"
definition CLIENT_TOKEN_ALLOWANCE :: int where "CLIENT_TOKEN_ALLOWANCE = 128 * 1024"
definition MAX_RATE_CLIENTS :: nat where "MAX_RATE_CLIENTS = 256"

section \<open>Audit\<close>

definition audit_record :: "'h gate_env \<Rightarrow> pystr \<Rightarrow> string \<Rightarrow> pystr \<Rightarrow> pystr \<Rightarrow> pystr \<Rightarrow> string \<Rightarrow> int \<Rightarrow> ('h, unit) gate_prog" where
  "audit_record g actor scope request_id method path outcome status = write_gate (\<lambda>m.
     let n = Suc (audit_seq m);
         events = audit_log m @ [\<lparr>au_seq = n, au_at = ga_time g n, au_actor = actor, au_scope = scope,
           au_request_id = request_id, au_method = method, au_path = path, au_outcome = outcome, au_status = status\<rparr>] in
     m\<lparr>audit_seq := n, audit_log := drop (length events - ga_max_events g) events\<rparr>)"

section \<open>The single credential\<close>

definition single_is_valid :: "'h gate_env \<Rightarrow> pystr \<Rightarrow> ('h, bool) gate_prog" where
  "single_is_valid g presented =
    (if \<not> (1 \<le> length presented \<and> length presented \<le> MAX_SECRET_LEN) then ret False
     else read_gate (\<lambda>m. credential_slot m \<noteq> [] \<and> ga_fingerprint g presented = credential_slot m))"

definition single_provision :: "'h gate_env \<Rightarrow> pystr \<Rightarrow> ('h, unit) gate_prog" where
  "single_provision g secret =
    (if \<not> (8 \<le> length secret \<and> length secret \<le> MAX_SECRET_LEN) then throw (python_error ''ValueError'')
     else write_gate (\<lambda>m. m\<lparr>credential_slot := ga_fingerprint g secret\<rparr>))"

definition single_rotate :: "'h gate_env \<Rightarrow> pystr \<Rightarrow> pystr \<Rightarrow> ('h, unit) gate_prog" where
  "single_rotate g old_secret replacement = bind (single_is_valid g old_secret) (\<lambda>valid.
     if \<not> valid then throw (python_error ''PermissionError'') else single_provision g replacement)"

definition single_revoke :: "('h, unit) gate_prog" where
  "single_revoke = write_gate (\<lambda>m. m\<lparr>credential_slot := []\<rparr>)"

section \<open>Routes\<close>

text \<open>The path without its query and its final slashes.\<close>

definition clean_path :: "pystr \<Rightarrow> pystr" where
  "clean_path path = (let c = rev (dropWhile (\<lambda>c. c = 47) (rev (takeWhile (\<lambda>c. c \<noteq> 63) path))) in
     if c = [] then [47] else c)"

definition gateway_route_classification :: "pystr \<Rightarrow> string" where
  "gateway_route_classification path = (let clean = clean_path path in
     if clean = cps ''/v1/models'' then ''models:list''
     else if clean = cps ''/v1/chat/completions'' then ''inference:read''
     else if clean \<in> cps ` {''/v1/embeddings'', ''/v1/completions'', ''/v1/responses''} then ''unsupported-inference''
     else ''management'')"

definition classify_path :: "pystr \<Rightarrow> string" where
  "classify_path path = (let clean = clean_path path in
     if clean = cps ''/health'' then ''health'' else gateway_route_classification clean)"

definition undecodable :: "exn \<Rightarrow> bool" where
  "undecodable e \<longleftrightarrow> exn_class e = ''ValueError'' \<or> exn_class e = ''TypeError''"

text \<open>A decoded body that is no dictionary has no \<^verbatim>\<open>get\<close>.\<close>

definition parse_stream :: "'h gate_env \<Rightarrow> bytes \<Rightarrow> exn + bool" where
  "parse_stream g body =
    (if MAX_BODY_BYTES < length body then Inr False
     else case ga_loads g body of
         Inl e \<Rightarrow> if undecodable e then Inr False else Inl e
       | Inr (JObj kvs) \<Rightarrow> Inr (\<not> falsy (get_field kvs ''stream''))
       | Inr _ \<Rightarrow> Inl (python_error ''AttributeError''))"

definition required_scope :: "'h gate_env \<Rightarrow> string \<Rightarrow> bytes \<Rightarrow> exn + string" where
  "required_scope g classification body =
    (if classification = ''inference:read''
     then sum_bind (parse_stream g body) (\<lambda>stream. Inr (if stream then ''inference:stream'' else ''inference:read''))
     else Inr classification)"

section \<open>Decisions\<close>

record decision =
  de_allow :: bool
  de_outcome :: string
  de_scope :: "string option"
  de_status :: int
  de_principal :: "pystr option"
  de_problem :: "string option"

definition denied :: "string \<Rightarrow> int \<Rightarrow> string \<Rightarrow> string option \<Rightarrow> pystr option \<Rightarrow> decision" where
  "denied outcome status code scope caller = \<lparr>de_allow = False, de_outcome = outcome, de_scope = scope,
     de_status = status, de_principal = caller, de_problem = Some code\<rparr>"

definition allowed :: "string option \<Rightarrow> pystr option \<Rightarrow> decision" where
  "allowed scope caller = \<lparr>de_allow = True, de_outcome = ''ok'', de_scope = scope, de_status = 200,
     de_principal = caller, de_problem = None\<rparr>"

text \<open>
  The presented secret resolved to the scopes granted and the caller, if it has one; the
  refusal otherwise names the caller only for the store of named clients.
\<close>

definition identify :: "'h gate_env \<Rightarrow> pystr \<Rightarrow> ('h, (string list \<times> pystr option) option) gate_prog" where
  "identify g presented = (case ga_named g of
     Some v \<Rightarrow> bind (authenticate v presented) (\<lambda>identity. ret (case identity of
         None \<Rightarrow> None | Some (k, scopes) \<Rightarrow> Some (scopes, Some (cps k))))
   | None \<Rightarrow> bind (single_is_valid g presented) (\<lambda>valid.
         ret (if valid then Some (ga_allowed g, None) else None)))"

definition authorize :: "'h gate_env \<Rightarrow> pystr \<Rightarrow> bytes \<Rightarrow> nat \<Rightarrow> pystr \<Rightarrow> ('h, decision) gate_prog" where
  "authorize g path body header_bytes presented =
    (if MAX_HEADER_BYTES < header_bytes then ret (denied ''malformed'' 431 ''REQUEST_HEADERS_TOO_LARGE'' None None)
     else if classify_path path = ''health'' then ret (allowed None None)
     else if classify_path path = ''management'' then ret (denied ''denied'' 403 ''ENDPOINT_FORBIDDEN'' None None)
     else bind (identify g presented) (\<lambda>identity. case identity of
         None \<Rightarrow> ret (denied ''denied'' 401 (if presented = [] then ''AUTH_MISSING'' else ''AUTH_INVALID'') None
           (if ga_named g = None then None else Some (cps ''unauthenticated'')))
       | Some (granted, caller) \<Rightarrow>
          (if classify_path path = ''unsupported-inference''
           then ret (denied ''denied'' 404 ''ENDPOINT_UNSUPPORTED'' None caller)
           else if MAX_BODY_BYTES < length body then ret (denied ''denied'' 413 ''REQUEST_TOO_LARGE'' None caller)
           else bind (lift (required_scope g (classify_path path) body)) (\<lambda>required. ret
             (if required \<notin> set granted then denied ''denied'' 403 ''SCOPE_NOT_GRANTED'' (Some required) caller
              else allowed (Some required) caller)))))"

definition blank_bytes :: "bytes \<Rightarrow> bool" where
  "blank_bytes body \<longleftrightarrow> list_all (\<lambda>c. 9 \<le> c \<and> c \<le> 13 \<or> c = 32) body"

definition context_given :: "fields \<Rightarrow> json" where
  "context_given kvs = (if falsy (get_field kvs ''n_ctx'') then get_field kvs ''context_length'' else get_field kvs ''n_ctx'')"

definition too_large_context :: "json \<Rightarrow> bool" where
  "too_large_context v \<longleftrightarrow> (case v of JInt n \<Rightarrow> MAX_CONTEXT_TOKENS < n | _ \<Rightarrow> False)"

definition validate_body_bounds :: "'h gate_env \<Rightarrow> bytes \<Rightarrow> exn + decision" where
  "validate_body_bounds g body = (case ga_loads g body of
     Inl e \<Rightarrow> if \<not> undecodable e then Inl e
       else Inr (if blank_bytes body then allowed None None else denied ''malformed'' 400 ''INVALID_REQUEST'' None None)
   | Inr (JObj kvs) \<Rightarrow> Inr (case get_field kvs ''max_tokens'' of
        JNull \<Rightarrow> if too_large_context (context_given kvs) then denied ''denied'' 400 ''REQUEST_TOO_LARGE'' None None
          else allowed None None
      | JInt n \<Rightarrow> if n \<le> 0 then denied ''denied'' 400 ''INVALID_REQUEST'' None None
          else if MAX_GENERATED_TOKENS < n then denied ''denied'' 400 ''REQUEST_TOO_LARGE'' None None
          else if too_large_context (context_given kvs) then denied ''denied'' 400 ''REQUEST_TOO_LARGE'' None None
          else allowed None None
      | _ \<Rightarrow> denied ''malformed'' 400 ''INVALID_REQUEST'' None None)
   | Inr _ \<Rightarrow> Inr (denied ''malformed'' 400 ''INVALID_REQUEST'' None None))"

section \<open>The rate limiter\<close>

definition fresh_rate :: "rat \<Rightarrow> client_rate" where
  "fresh_rate now = \<lparr>ra_window_start = now, ra_count = 0, ra_tokens = 0, ra_inflight = 0\<rparr>"

text \<open>An idle row whose window has passed is dropped; the clock is read for idle rows only.\<close>

fun retained_rates :: "'h gate_env \<Rightarrow> (pystr \<times> client_rate) list \<Rightarrow> ('h, (pystr \<times> client_rate) list) gate_prog" where
  "retained_rates g [] = ret []"
| "retained_rates g ((k, r) # rows) =
     bind (if ra_inflight r = 0 then bind (monotonic g) (\<lambda>now. ret (RATE_WINDOW_S \<le> now - ra_window_start r)) else ret False)
       (\<lambda>drop_it. bind (retained_rates g rows) (\<lambda>kept. ret (if drop_it then kept else (k, r) # kept)))"

definition admission_limit :: exn where
  "admission_limit = python_error ''ValueError''"

definition rate_row :: "'h gate_env \<Rightarrow> pystr \<Rightarrow> ('h, client_rate) gate_prog" where
  "rate_row g k = bind (read_gate limiter) (\<lambda>rows. case map_of rows k of
     Some r \<Rightarrow> ret r
   | None \<Rightarrow>
       andthen (if length rows < MAX_RATE_CLIENTS then ret ()
         else bind (retained_rates g rows) (\<lambda>kept. andthen (write_gate (\<lambda>m. m\<lparr>limiter := kept\<rparr>))
           (if MAX_RATE_CLIENTS \<le> length kept then throw admission_limit else ret ())))
      (bind (monotonic g) (\<lambda>now.
       andthen (write_gate (\<lambda>m. m\<lparr>limiter := limiter m @ [(k, fresh_rate now)]\<rparr>)) (ret (fresh_rate now)))))"

definition put_rate :: "pystr \<Rightarrow> client_rate \<Rightarrow> ('h, unit) gate_prog" where
  "put_rate k r = write_gate (\<lambda>m. m\<lparr>limiter := AList.update k r (limiter m)\<rparr>)"

text \<open>A window that has passed resets the counters and never the reservations.\<close>

definition rate_window :: "'h gate_env \<Rightarrow> client_rate \<Rightarrow> ('h, client_rate) gate_prog" where
  "rate_window g r = bind (monotonic g) (\<lambda>now.
     if RATE_WINDOW_S \<le> now - ra_window_start r
     then bind (monotonic g) (\<lambda>start. ret (r\<lparr>ra_window_start := start, ra_count := 0, ra_tokens := 0\<rparr>))
     else ret r)"

definition rate_check :: "'h gate_env \<Rightarrow> pystr \<Rightarrow> ('h, bool) gate_prog" where
  "rate_check g k = handle (bind (rate_row g k) (\<lambda>r. bind (rate_window g r) (\<lambda>r.
       if MAX_CONCURRENT \<le> ra_inflight r then andthen (put_rate k r) (ret False)
       else if MAX_REQUEST_RATE \<le> ra_count r then andthen (put_rate k r) (ret False)
       else andthen (put_rate k (r\<lparr>ra_inflight := ra_inflight r + 1, ra_count := ra_count r + 1\<rparr>)) (ret True))))
     (\<lambda>e. if e = admission_limit then Some (ret False) else None)"

definition rate_release :: "'h gate_env \<Rightarrow> pystr \<Rightarrow> ('h, unit) gate_prog" where
  "rate_release g k = bind (rate_row g k) (\<lambda>r. put_rate k (r\<lparr>ra_inflight := max 0 (ra_inflight r - 1)\<rparr>))"

definition charge_tokens :: "'h gate_env \<Rightarrow> pystr \<Rightarrow> int \<Rightarrow> ('h, bool) gate_prog" where
  "charge_tokens g k amount = bind (rate_row g k) (\<lambda>r.
     if CLIENT_TOKEN_ALLOWANCE < ra_tokens r + amount then ret False
     else andthen (put_rate k (r\<lparr>ra_tokens := ra_tokens r + amount\<rparr>)) (ret True))"

section \<open>Preparing and finishing a request\<close>

record prepared =
  pr_decision :: decision
  pr_principal :: pystr
  pr_scope :: "string option"
  pr_rate_acquired :: bool

definition settled :: "decision \<Rightarrow> pystr \<Rightarrow> string option \<Rightarrow> prepared" where
  "settled d caller scope = \<lparr>pr_decision = d, pr_principal = caller, pr_scope = scope, pr_rate_acquired = False\<rparr>"

definition scope_name :: "string option \<Rightarrow> string" where
  "scope_name scope = (case scope of None \<Rightarrow> ''n/a'' | Some t \<Rightarrow> t)"

text \<open>A denial is audited when it is made.\<close>

definition refuse :: "'h gate_env \<Rightarrow> decision \<Rightarrow> pystr \<Rightarrow> string option \<Rightarrow> pystr \<Rightarrow> pystr \<Rightarrow> pystr \<Rightarrow> ('h, prepared) gate_prog" where
  "refuse g d caller scope request_id method path =
     andthen (audit_record g caller (scope_name scope) request_id method path (de_outcome d) (de_status d))
       (ret (settled d caller scope))"

definition requested_tokens :: "json \<Rightarrow> exn + int" where
  "requested_tokens v = (case v of JObj kvs \<Rightarrow>
       (let n = get_field kvs ''max_tokens'' in
        if falsy n then Inr MAX_GENERATED_TOKENS else py_int (\<lambda>_. Inl (python_error ''ValueError'')) n)
     | _ \<Rightarrow> Inl (python_error ''AttributeError''))"

definition token_allowance :: "'h gate_env \<Rightarrow> bytes \<Rightarrow> exn + int" where
  "token_allowance g body = sum_bind (ga_loads g body) (\<lambda>payload. sum_bind (requested_tokens payload) (\<lambda>n.
     Inr (int (length body div 4) + n)))"

definition reserve :: "'h gate_env \<Rightarrow> pystr \<Rightarrow> string option \<Rightarrow> bytes \<Rightarrow> ('h, bool) gate_prog" where
  "reserve g caller scope body = bind (rate_check g caller) (\<lambda>ok.
     if ok \<and> scope \<in> {Some ''inference:read'', Some ''inference:stream''}
     then bind (lift (token_allowance g body)) (\<lambda>amount. bind (charge_tokens g caller amount) (\<lambda>charged.
       if charged then ret True else andthen (rate_release g caller) (ret False)))
     else ret ok)"

definition principal_of :: "decision \<Rightarrow> pystr \<Rightarrow> pystr" where
  "principal_of d client = (case de_principal d of None \<Rightarrow> client | Some p \<Rightarrow> if p = [] then client else p)"

definition bounded_decision :: "'h gate_env \<Rightarrow> decision \<Rightarrow> pystr \<Rightarrow> bytes \<Rightarrow> exn + decision" where
  "bounded_decision g d caller body =
    (if de_outcome d = ''ok'' \<and> de_scope d \<noteq> None
     then sum_bind (validate_body_bounds g body) (\<lambda>bounds. Inr (if de_allow bounds then d
       else bounds\<lparr>de_scope := de_scope d, de_principal := Some caller\<rparr>))
     else Inr d)"

definition prepare_request :: "'h gate_env \<Rightarrow> pystr \<Rightarrow> pystr \<Rightarrow> pystr \<Rightarrow> pystr \<Rightarrow> nat \<Rightarrow> bytes \<Rightarrow> pystr \<Rightarrow> ('h, prepared) gate_prog" where
  "prepare_request g request_id client method path header_bytes body presented =
     bind (authorize g path body header_bytes presented) (\<lambda>first.
     let scope = de_scope first; caller = principal_of first client in
     bind (lift (bounded_decision g first caller body)) (\<lambda>d.
     if \<not> de_allow d then refuse g d caller scope request_id method path
     else if classify_path path = ''health'' then ret (settled d caller scope)
     else bind (outside (ga_ready g)) (\<lambda>ready.
       if \<not> ready then refuse g (denied ''backend'' 503 ''GATEWAY_BACKEND_UNVERIFIED'' scope (Some caller))
         caller scope request_id method path
       else bind (reserve g caller scope body) (\<lambda>ok.
         if \<not> ok then refuse g (denied ''rate_limited'' 429 ''RATE_LIMITED'' scope (Some caller))
           caller scope request_id method path
         else ret ((settled d caller scope)\<lparr>pr_rate_acquired := True\<rparr>)))))"

definition endpoint_of :: "string \<Rightarrow> string" where
  "endpoint_of scope = (if scope = ''models:list'' then ''models'' else if scope = ''inference:stream'' then ''stream'' else ''chat'')"

text \<open>Recording a use can only fail silently; the single credential records none.\<close>

definition record_gateway_use :: "'h gate_env \<Rightarrow> pystr \<Rightarrow> string \<Rightarrow> ('h, unit) gate_prog" where
  "record_gateway_use g caller scope = (case ga_named g of None \<Rightarrow> ret ()
     | Some v \<Rightarrow> handle (record_use v (map char_of caller) (endpoint_of scope))
         (\<lambda>e. if is_exception e then Some (ret ()) else None))"

definition finish_request :: "'h gate_env \<Rightarrow> prepared \<Rightarrow> pystr \<Rightarrow> pystr \<Rightarrow> pystr \<Rightarrow> string \<Rightarrow> int \<Rightarrow> ('h, unit) gate_prog" where
  "finish_request g p request_id method path outcome status =
     andthen (only_if (pr_rate_acquired p) (rate_release g (pr_principal p)))
    (andthen (audit_record g (pr_principal p) (scope_name (pr_scope p)) request_id method path outcome status)
      (only_if (outcome = ''ok'' \<and> 200 \<le> status \<and> status < 400)
        (case pr_scope p of None \<Rightarrow> ret () | Some scope \<Rightarrow> record_gateway_use g (pr_principal p) scope)))"

section \<open>The backend\<close>

text \<open>A chat request without \<^verbatim>\<open>max_tokens\<close> is given the bound.\<close>

definition bounded_request_body :: "'h gate_env \<Rightarrow> pystr \<Rightarrow> bytes \<Rightarrow> exn + bytes" where
  "bounded_request_body g path body =
    (if clean_path path \<noteq> cps ''/v1/chat/completions'' then Inr body
     else case ga_loads g body of
         Inl e \<Rightarrow> Inl e
       | Inr (JObj kvs) \<Rightarrow> Inr (ga_dumps g (JObj (if ''max_tokens'' \<in> fst ` set kvs then kvs
           else kvs @ [(''max_tokens'', JInt MAX_GENERATED_TOKENS)])))
       | Inr _ \<Rightarrow> Inl (python_error ''AttributeError''))"

definition open_backend_stream :: "'h gate_env \<Rightarrow> pystr \<Rightarrow> pystr \<Rightarrow> pystr \<Rightarrow> bytes \<Rightarrow> ('h, stream_reply) gate_prog" where
  "open_backend_stream g caller method path body = bind (lift (bounded_request_body g path body)) (\<lambda>content.
     let target = takeWhile (\<lambda>c. c \<noteq> 63) path in
     andthen (write_gate (\<lambda>m. m\<lparr>upstream := upstream m @
        [\<lparr>up_principal = caller, up_method = method, up_path = target, up_body = content\<rparr>]\<rparr>))
    (bind (outside (ga_backend g method target content)) (\<lambda>reply.
       if \<not> sr_identity reply then throw (python_error ''ValueError'') else ret reply)))"

definition proxy_request :: "'h gate_env \<Rightarrow> pystr \<Rightarrow> pystr \<Rightarrow> pystr \<Rightarrow> bytes \<Rightarrow> ('h, int \<times> bytes) gate_prog" where
  "proxy_request g caller method path body = bind (open_backend_stream g caller method path body) (\<lambda>reply.
     if ga_max_response g < length (concat (sr_chunks reply)) then throw (python_error ''ValueError'')
     else case sr_broken reply of Some e \<Rightarrow> throw e | None \<Rightarrow> ret (sr_status reply, concat (sr_chunks reply)))"

definition problem_body :: "'h gate_env \<Rightarrow> string \<Rightarrow> pystr \<Rightarrow> bytes" where
  "problem_body g code request_id = ga_dumps g (openai_error (problem_detail code request_id))"

text \<open>What becomes of a whole answer: the status and body sent, and the outcome audited.\<close>

definition relayed :: "'h gate_env \<Rightarrow> pystr \<Rightarrow> int \<times> bytes \<Rightarrow> int \<times> bytes \<times> string" where
  "relayed g request_id answer = (case answer of (status, content) \<Rightarrow>
     if ga_max_response g < length content then (502, problem_body g ''UPSTREAM_FAILED'' request_id, ''backend'')
     else if 500 \<le> status then (status, problem_body g ''UPSTREAM_FAILED'' request_id, ''backend'')
     else if 400 \<le> status then (status, problem_body g ''INVALID_REQUEST'' request_id, ''malformed'')
     else (status, content, ''ok''))"

definition forwarded :: "'h gate_env \<Rightarrow> pystr \<Rightarrow> pystr \<Rightarrow> pystr \<Rightarrow> pystr \<Rightarrow> bytes \<Rightarrow> ('h, int \<times> bytes \<times> string) gate_prog" where
  "forwarded g caller request_id method path body = handle
     (bind (proxy_request g caller method path body) (\<lambda>answer. ret (relayed g request_id answer)))
     (\<lambda>e. if is_exception e then Some (ret (502, problem_body g ''UPSTREAM_FAILED'' request_id, ''backend'')) else None)"

definition health_body :: "'h gate_env \<Rightarrow> bool \<Rightarrow> bool \<Rightarrow> bytes" where
  "health_body g ready verified = ga_dumps g (JObj [(''status'', jstr (if ready then ''ready'' else ''degraded'')),
     (''api_version'', JInt 1), (''backend_identity'', jstr (if verified then ''verified'' else ''unverified''))])"

definition problem_code_of :: "decision \<Rightarrow> string" where
  "problem_code_of d = (case de_problem d of None \<Rightarrow> ''GATEWAY_INTERNAL'' | Some c \<Rightarrow> if c = [] then ''GATEWAY_INTERNAL'' else c)"

definition handle_request :: "'h gate_env \<Rightarrow> pystr \<Rightarrow> pystr \<Rightarrow> pystr \<Rightarrow> pystr \<Rightarrow> nat \<Rightarrow> bytes \<Rightarrow> pystr \<Rightarrow> ('h, int \<times> bytes) gate_prog" where
  "handle_request g request_id client method path header_bytes body presented =
     bind (prepare_request g request_id client method path header_bytes body presented) (\<lambda>p.
     let d = pr_decision p in
     if \<not> de_allow d then ret (de_status d, problem_body g (problem_code_of d) request_id)
     else if classify_path path = ''health''
     then bind (outside (ga_ready g)) (\<lambda>ready. bind (outside (ga_ready g)) (\<lambda>verified.
       ret (200, health_body g ready verified)))
     else bind (forwarded g (pr_principal p) request_id method path body) (\<lambda>(status, content, outcome).
       andthen (finish_request g p request_id method path outcome status)
      (bind (lift (parse_stream g body)) (\<lambda>_. ret (status, content)))))"

section \<open>Streaming\<close>

text \<open>
  The end of a stream: the chunks delivered after the headers, or the problem sent instead of
  them, with the outcome and the status audited.
\<close>

record stream_end =
  en_chunks :: "bytes list option"
  en_problem :: "string option"
  en_outcome :: string
  en_status :: int

definition client_gone :: "exn \<Rightarrow> bool" where
  "client_gone e \<longleftrightarrow> exn_class e = ''BrokenPipeError'' \<or> exn_class e = ''ConnectionResetError''"

fun pump :: "'h gate_env \<Rightarrow> int \<Rightarrow> nat \<Rightarrow> nat \<Rightarrow> bytes list \<Rightarrow> exn option \<Rightarrow> bytes list \<Rightarrow> stream_end" where
  "pump g status n sent [] broken delivered = (case broken of
     Some e \<Rightarrow> \<lparr>en_chunks = Some delivered, en_problem = None,
       en_outcome = (if client_gone e then ''client_closed'' else ''backend''), en_status = status\<rparr>
   | None \<Rightarrow> \<lparr>en_chunks = Some delivered, en_problem = None,
       en_outcome = (if 200 \<le> status \<and> status < 400 then ''ok'' else ''backend''), en_status = status\<rparr>)"
| "pump g status n sent (c # cs) broken delivered =
    (if ga_deadline g n then \<lparr>en_chunks = Some delivered, en_problem = None, en_outcome = ''backend'', en_status = status\<rparr>
     else if ga_max_response g < sent + length c
     then \<lparr>en_chunks = Some delivered, en_problem = None, en_outcome = ''backend'', en_status = 502\<rparr>
     else case ga_write g n of
         Some e \<Rightarrow> \<lparr>en_chunks = Some delivered, en_problem = None,
           en_outcome = (if client_gone e then ''client_closed'' else ''backend''), en_status = status\<rparr>
       | None \<Rightarrow> pump g status (Suc n) (sent + length c) cs broken (delivered @ [c]))"

definition event_stream :: "pystr option \<Rightarrow> bool" where
  "event_stream t \<longleftrightarrow> (case t of None \<Rightarrow> True
     | Some c \<Rightarrow> take (length ''text/event-stream'') (py_lower c) = cps ''text/event-stream'')"

definition upstream_failed :: stream_end where
  "upstream_failed = \<lparr>en_chunks = None, en_problem = Some ''UPSTREAM_FAILED'', en_outcome = ''backend'', en_status = 502\<rparr>"

definition streamed :: "'h gate_env \<Rightarrow> stream_reply \<Rightarrow> stream_end" where
  "streamed g r =
    (if 500 \<le> sr_status r then upstream_failed
     else if 400 \<le> sr_status r
     then \<lparr>en_chunks = None, en_problem = Some ''INVALID_REQUEST'', en_outcome = ''malformed'', en_status = 400\<rparr>
     else if \<not> event_stream (sr_content_type r) then upstream_failed
     else case sr_length r of
         Inl e \<Rightarrow> upstream_failed
       | Inr n \<Rightarrow> if int (ga_max_response g) < n then upstream_failed
           else pump g (sr_status r) 0 0 (sr_chunks r) (sr_broken r) [])"

record reply =
  rp_status :: int
  rp_body :: bytes
  rp_chunks :: "bytes list option"
  rp_authenticate :: bool

definition plain_reply :: "int \<Rightarrow> bytes \<Rightarrow> reply" where
  "plain_reply status content = \<lparr>rp_status = status, rp_body = content, rp_chunks = None, rp_authenticate = (status = 401)\<rparr>"

definition stream_reply_of :: "'h gate_env \<Rightarrow> pystr \<Rightarrow> stream_end \<Rightarrow> reply" where
  "stream_reply_of g request_id e = (case en_chunks e of
     Some cs \<Rightarrow> \<lparr>rp_status = en_status e, rp_body = [], rp_chunks = Some cs, rp_authenticate = False\<rparr>
   | None \<Rightarrow> \<lparr>rp_status = en_status e, rp_body = problem_body g (the (en_problem e)) request_id, rp_chunks = None,
       rp_authenticate = False\<rparr>)"

definition run_stream :: "'h gate_env \<Rightarrow> pystr \<Rightarrow> pystr \<Rightarrow> pystr \<Rightarrow> pystr \<Rightarrow> nat \<Rightarrow> bytes \<Rightarrow> pystr \<Rightarrow> ('h, reply) gate_prog" where
  "run_stream g request_id client method path header_bytes body presented =
     bind (prepare_request g request_id client method path header_bytes body presented) (\<lambda>p.
     let d = pr_decision p in
     if \<not> de_allow d then ret (plain_reply (de_status d) (problem_body g (problem_code_of d) request_id))
     else bind (handle (bind (open_backend_stream g (pr_principal p) method path body) (\<lambda>r. ret (streamed g r)))
         (\<lambda>e. if is_exception e
           then Some (ret (if client_gone e then upstream_failed\<lparr>en_outcome := ''client_closed''\<rparr> else upstream_failed)) else None))
       (\<lambda>e. andthen (finish_request g p request_id method path (en_outcome e) (en_status e))
         (ret (stream_reply_of g request_id e))))"

section \<open>One request from the socket\<close>

text \<open>
  A request as it is read: the headers with their names in lower case, every length header,
  whether there is a transfer encoding or an expectation, and the bytes that arrive in time.
\<close>

record request =
  rq_method :: pystr
  rq_path :: pystr
  rq_headers :: "(pystr \<times> pystr) list"
  rq_lengths :: "pystr list"
  rq_encoded :: bool
  rq_expects :: bool
  rq_wire :: bytes

definition digits_value :: "pystr \<Rightarrow> nat" where
  "digits_value s = fold (\<lambda>c n. 10 * n + (c - 48)) s 0"

datatype body_read = BodyRead bytes | BodyTooLarge | BodyInvalid

definition read_body :: "request \<Rightarrow> body_read" where
  "read_body rq =
    (if rq_encoded rq \<or> 1 < length (rq_lengths rq) \<or> rq_expects rq then BodyInvalid
     else let raw = (case rq_lengths rq of [] \<Rightarrow> [48] | r # _ \<Rightarrow> r) in
       if raw = [] \<or> \<not> list_all (\<lambda>c. 48 \<le> c \<and> c \<le> 57) raw \<or> 10 < length raw then BodyInvalid
       else if MAX_BODY_BYTES < digits_value raw then BodyTooLarge
       else if length (rq_wire rq) < digits_value raw then BodyInvalid
       else BodyRead (take (digits_value raw) (rq_wire rq)))"

definition header_of :: "request \<Rightarrow> string \<Rightarrow> pystr" where
  "header_of rq name = (case map_of (rq_headers rq) (cps name) of None \<Rightarrow> [] | Some v \<Rightarrow> v)"

definition presented_token :: "request \<Rightarrow> pystr" where
  "presented_token rq = (let t = header_of rq ''authorization'' in
     if take 7 (py_lower t) = cps ''bearer '' then py_strip (drop 7 t) else t)"

definition actor_of :: "request \<Rightarrow> pystr" where
  "actor_of rq = (if header_of rq ''x-gateway-client'' \<noteq> [] then header_of rq ''x-gateway-client''
     else if header_of rq ''x-forwarded-for'' \<noteq> [] then header_of rq ''x-forwarded-for'' else cps ''unknown'')"

definition header_size :: "request \<Rightarrow> nat" where
  "header_size rq = sum_list (map (\<lambda>(k, v). length k + length v + 2) (rq_headers rq)) + 16"

definition request_id_of :: "'h gate_env \<Rightarrow> ('h, pystr) gate_prog" where
  "request_id_of g = bind (uuid_factory (ga_env g)) (\<lambda>k. ret (cps k))"

definition buffered :: "'h gate_env \<Rightarrow> request \<Rightarrow> bytes \<Rightarrow> ('h, reply) gate_prog" where
  "buffered g rq body = handle
     (bind (request_id_of g) (\<lambda>request_id.
      bind (handle_request g request_id (actor_of rq) (rq_method rq) (rq_path rq) (header_size rq) body (presented_token rq))
        (\<lambda>(status, content). ret (plain_reply status content))))
     (\<lambda>e. if is_exception e
       then Some (bind (request_id_of g) (\<lambda>request_id. ret (plain_reply 502 (problem_body g ''GATEWAY_INTERNAL'' request_id))))
       else None)"

text \<open>An exception that escapes closes the connection without an answer.\<close>

definition serve :: "'h gate_env \<Rightarrow> request \<Rightarrow> ('h, reply) gate_prog" where
  "serve g rq = (case read_body rq of
     BodyTooLarge \<Rightarrow> bind (request_id_of g) (\<lambda>request_id. ret (plain_reply 413 (problem_body g ''REQUEST_TOO_LARGE'' request_id)))
   | BodyInvalid \<Rightarrow> bind (request_id_of g) (\<lambda>request_id. ret (plain_reply 400 (problem_body g ''INVALID_REQUEST'' request_id)))
   | BodyRead body \<Rightarrow>
       bind (if classify_path (rq_path rq) = ''inference:read'' then lift (parse_stream g body) else ret False) (\<lambda>stream.
         if \<not> stream then buffered g rq body
         else bind (request_id_of g) (\<lambda>request_id. run_stream g request_id (actor_of rq) (rq_method rq) (rq_path rq)
           (header_size rq) body (presented_token rq))))"

end
