(* ===== verification/Client_Facts.thy ===== *)
theory Client_Facts
  imports Clients
begin

text \<open>
  What the store of named clients promises. Every command makes at most one lawful write of
  the tables as it finds them (\<open>client_write\<close>), so a relation that lawful writes keep is
  kept by every command; the well-formedness of the tables and the finality of a revocation
  are such relations.
\<close>

section \<open>Lawful writes\<close>

abbreviation the_tables :: "'h desk sys \<Rightarrow> client_db" where
  "the_tables s \<equiv> client_tables (world s)"

definition bump :: "(client_row \<Rightarrow> client_row) \<Rightarrow> client_row \<Rightarrow> client_row" where
  "bump f c = (f c)\<lparr>cl_revision := cl_revision c + 1\<rparr>"

definition rotation :: "string \<Rightarrow> int \<Rightarrow> instant \<Rightarrow> client_row \<Rightarrow> client_row" where
  "rotation fingerprint generation now c = c\<lparr>cl_fingerprint := fingerprint, cl_generation := generation,
     cl_storage := ''managed'', cl_rotated_at := Some now\<rparr>"

inductive client_write :: "client_db \<Rightarrow> client_db \<Rightarrow> bool" where
  created: "get_client k d = None \<Longrightarrow> \<not> secret_clash k 1 fingerprint d \<Longrightarrow> k \<noteq> [] \<Longrightarrow>
    length (active_clients d) < MAX_ACTIVE_CLIENTS \<Longrightarrow>
    client_write d (d\<lparr>clients := clients d @ [new_client k label kind scopes fingerprint now],
      secrets := secrets d @ [new_secret k 1 fingerprint now]\<rparr>)"
| rotated: "get_client k d = Some c \<Longrightarrow> cl_revoked_at c = None \<Longrightarrow> \<not> secret_clash k (cl_generation c + 1) fingerprint d \<Longrightarrow>
    client_write d (d\<lparr>
      clients := rows_updated (\<lambda>x. cl_id x = k \<and> cl_revision x = cl_revision c \<and> cl_revoked_at x = None)
        (bump (rotation fingerprint (cl_generation c + 1) now)) (clients d),
      secrets := rows_updated (\<lambda>x. se_client x = k \<and> se_generation x = cl_generation c \<and> se_state x = ACTIVE)
        (superseded now overlap) (secrets d) @ [new_secret k (cl_generation c + 1) fingerprint now]\<rparr>)"
| revoked: "get_client k d = Some c \<Longrightarrow>
    client_write d (d\<lparr>
      clients := rows_updated (\<lambda>x. cl_id x = k \<and> cl_revision x = cl_revision c)
        (bump (\<lambda>c. c\<lparr>cl_revoked_at := or_now (cl_revoked_at c) now\<rparr>)) (clients d),
      secrets := rows_updated (\<lambda>x. se_client x = k \<and> se_state x \<noteq> RETIRED) (retired now) (secrets d)\<rparr>)"
| used: "get_client k d = Some c \<Longrightarrow> cl_revoked_at c = None \<Longrightarrow>
    client_write d (d\<lparr>clients := rows_updated (\<lambda>x. cl_id x = k \<and> cl_revision x = cl_revision c \<and> cl_revoked_at x = None)
      (bump (\<lambda>c. c\<lparr>cl_last_used_at := Some now, cl_last_endpoint := Some endpoint\<rparr>)) (clients d)\<rparr>)"
| disabled: "client_write d (d\<lparr>
      access := (access d)\<lparr>ac_enabled := False, ac_disabled_at := Some now, ac_revision := ac_revision (access d) + 1\<rparr>,
      clients := rows_updated (\<lambda>c. cl_revoked_at c = None)
        (\<lambda>c. c\<lparr>cl_revoked_at := Some now, cl_revision := cl_revision c + 1\<rparr>) (clients d),
      secrets := rows_updated (\<lambda>x. se_state x \<noteq> RETIRED) (retired now) (secrets d)\<rparr>)"
| enabled: "client_write d (d\<lparr>access := (access d)\<lparr>ac_enabled := True, ac_disabled_at := None,
      ac_revision := ac_revision (access d) + 1\<rparr>\<rparr>)"

inductive_cases client_writeE: "client_write d d'"

section \<open>The repository writes lawfully\<close>

lemma with_tables_simps [simp]:
  "the_tables (with_tables d s) = d" "with_tables d (with_tables d' s) = with_tables d s"
  by (simp_all add: with_tables_def)

lemma read_tables_run [prog_simps]: "read_tables f s = (Inr (f (the_tables s)), s)"
  by (simp add: read_tables_def)

lemma write_tables_run [prog_simps]: "write_tables f s = (Inr (), with_tables (f (the_tables s)) s)"
  by (simp add: write_tables_def)

lemma clock_tables [simp]: "the_tables (snd (clock v s)) = the_tables s"
  by (simp add: clock_def)

lemma get_client_id: "get_client k d = Some c \<Longrightarrow> cl_id c = k"
  unfolding get_client_def by (rule row_with_key)

lemma get_client_mem: "get_client k d = Some c \<Longrightarrow> c \<in> set (clients d)"
  unfolding get_client_def by (blast dest: row_with_SomeD)

lemma secret_clash_updated:
  assumes "\<And>x. se_fingerprint (f x) = se_fingerprint x" and "\<And>x. se_client (f x) = se_client x"
    and "\<And>x. se_generation (f x) = se_generation x"
  shows "secret_clash k g fp (d\<lparr>secrets := rows_updated p f xs\<rparr>) = secret_clash k g fp (d\<lparr>secrets := xs\<rparr>)"
  using assms by (induction xs) (auto simp: secret_clash_def rows_updated_def)

lemma bind_Inr: "bind m f s = (Inr x, s') \<longleftrightarrow> (\<exists>y s1. m s = (Inr y, s1) \<and> f y s1 = (Inr x, s'))"
  by (auto simp: bind_def split: prod.splits sum.splits)

lemma andthen_Inr: "andthen m n s = (Inr x, s') \<longleftrightarrow> (\<exists>y s1. m s = (Inr y, s1) \<and> n s1 = (Inr x, s'))"
  by (simp add: andthen_def bind_Inr)

lemma assert_some_result: "assert_some o' s = (Inr x, s') \<longleftrightarrow> o' = Some x \<and> s' = s"
  by (cases o') (auto simp: prog_simps)

lemma clock_Inr: "clock v s = (Inr x, s') \<longleftrightarrow> x = e_clock v (clock_reads s) \<and> s' = s\<lparr>clock_reads := Suc (clock_reads s)\<rparr>"
  by (auto simp: clock_def)

lemma ret_Inr: "ret y s = (Inr x, s') \<longleftrightarrow> x = y \<and> s' = s"
  by (auto simp: prog_simps)

lemma throw_Inr: "throw e s = (Inr x, s') \<longleftrightarrow> False"
  by (simp add: prog_simps)

lemma lift_Inr: "lift r s = (Inr x, s') \<longleftrightarrow> r = Inr x \<and> s' = s"
  by (auto simp: prog_simps)

lemma read_tables_Inr: "read_tables f s = (Inr x, s') \<longleftrightarrow> x = f (the_tables s) \<and> s' = s"
  by (auto simp: read_tables_run)

lemma write_tables_Inr: "write_tables f s = (Inr x, s') \<longleftrightarrow> s' = with_tables (f (the_tables s)) s"
  by (auto simp: write_tables_run)

lemma requires_valid_Inr: "requires_valid b r = Inr x \<longleftrightarrow> b \<and> r = Inr x"
  by (simp add: requires_valid_def)

lemmas returns = bind_Inr andthen_Inr assert_some_result clock_Inr ret_Inr throw_Inr lift_Inr read_tables_Inr
  write_tables_Inr requires_valid_Inr

lemma insert_secret_Inr:
  "insert_secret k g fp now s = (Inr x, s') \<longleftrightarrow> \<not> secret_clash k g fp (the_tables s) \<and>
     s' = with_tables ((the_tables s)\<lparr>secrets := secrets (the_tables s) @ [new_secret k g fp now]\<rparr>) s"
  by (auto simp: insert_secret_def returns split: if_splits)

lemma secret_clash_clients [simp]: "secret_clash k g fp (d\<lparr>clients := xs\<rparr>) = secret_clash k g fp d"
  by (simp add: secret_clash_def)

lemma create_client_writes:
  assumes "create_client v k label kind scopes fingerprint s = (Inr row, s')"
  shows "client_write (the_tables s) (the_tables s')"
proof -
  from assms obtain label' kind' scopes' now where
    run: "hex_of_length 32 k" "hex_of_length 64 fingerprint" "length (active_clients (the_tables s)) < MAX_ACTIVE_CLIENTS"
      "\<not> client_clash k label' (the_tables s)" "\<not> secret_clash k 1 fingerprint (the_tables s)"
    and after: "the_tables s' = (the_tables s)\<lparr>clients := clients (the_tables s) @ [new_client k label' kind' scopes' fingerprint now],
        secrets := secrets (the_tables s) @ [new_secret k 1 fingerprint now]\<rparr>"
    unfolding create_client_def
    by (auto simp: returns insert_secret_Inr validate_client_id_def validate_fingerprint_def not_le split: if_splits)
  show ?thesis
    unfolding after by (rule created) (use run in \<open>auto simp: client_clash_def hex_of_length_def\<close>)
qed

lemma update_client_Inr:
  assumes "update_client k fits f s = (Inr row, s')"
  shows "the_tables s' = (the_tables s)\<lparr>clients := rows_updated (\<lambda>c. cl_id c = k \<and> fits c) (bump f) (clients (the_tables s))\<rparr>"
  using assms unfolding update_client_def bump_def by (auto simp: returns split: if_splits)

lemma current_client_Inr:
  "current_client k rv usable s = (Inr c, s') \<longleftrightarrow>
     s' = s \<and> get_client k (the_tables s) = Some c \<and> usable c \<and> cl_revision c = rv"
  by (auto simp: current_client_def prog_simps split: option.splits if_splits)

lemma rotate_row_writes:
  assumes "rotate_row v k rv fingerprint generation overlap s = (Inr row, s')"
  shows "client_write (the_tables s) (the_tables s')"
proof -
  let ?d = "the_tables s"
  from assms obtain c now where
    run: "get_client k ?d = Some c" "cl_revoked_at c = None" "cl_revision c = rv" "generation = cl_generation c + 1"
      "hex_of_length 64 fingerprint"
      "\<not> secret_clash k generation fingerprint (?d\<lparr>secrets := rows_updated (\<lambda>x. se_client x = k \<and>
         se_generation x = cl_generation c \<and> se_state x = ACTIVE) (superseded now overlap) (secrets ?d)\<rparr>)"
    and after: "the_tables s' = ?d\<lparr>
      clients := rows_updated (\<lambda>x. cl_id x = k \<and> cl_revision x = cl_revision c \<and> cl_revoked_at x = None)
        (bump (rotation fingerprint (cl_generation c + 1) now)) (clients ?d),
      secrets := rows_updated (\<lambda>x. se_client x = k \<and> se_generation x = cl_generation c \<and> se_state x = ACTIVE)
        (superseded now overlap) (secrets ?d) @ [new_secret k (cl_generation c + 1) fingerprint now]\<rparr>"
    unfolding rotate_row_def
    by (auto simp: returns insert_secret_Inr current_client_Inr validate_fingerprint_def rotation_def [abs_def]
        dest!: update_client_Inr split: if_splits)
  have "\<not> secret_clash k (cl_generation c + 1) fingerprint ?d"
    using run(4,6) by (simp add: secret_clash_updated superseded_def)
  with run(1,2,5) show ?thesis unfolding after by (intro rotated)
qed

lemma revoke_row_writes:
  assumes "revoke_row v k rv s = (Inr row, s')"
  shows "client_write (the_tables s) (the_tables s')"
proof -
  from assms obtain c now where "get_client k (the_tables s) = Some c"
    "the_tables s' = (the_tables s)\<lparr>
      clients := rows_updated (\<lambda>x. cl_id x = k \<and> cl_revision x = cl_revision c)
        (bump (\<lambda>c. c\<lparr>cl_revoked_at := or_now (cl_revoked_at c) now\<rparr>)) (clients (the_tables s)),
      secrets := rows_updated (\<lambda>x. se_client x = k \<and> se_state x \<noteq> RETIRED) (retired now) (secrets (the_tables s))\<rparr>"
    unfolding revoke_row_def by (auto simp: returns current_client_Inr dest!: update_client_Inr)
  then show ?thesis using revoked [of k "the_tables s" c now] by simp
qed

lemma record_use_row_writes:
  assumes "record_use_row v k endpoint (cl_revision c) s = (Inr row, s')"
    and "get_client k (the_tables s) = Some c" and "cl_revoked_at c = None"
  shows "client_write (the_tables s) (the_tables s')"
proof -
  from assms(1) obtain now where "the_tables s' = (the_tables s)\<lparr>
      clients := rows_updated (\<lambda>x. cl_id x = k \<and> cl_revision x = cl_revision c \<and> cl_revoked_at x = None)
      (bump (\<lambda>c. c\<lparr>cl_last_used_at := Some now, cl_last_endpoint := Some endpoint\<rparr>)) (clients (the_tables s))\<rparr>"
    unfolding record_use_row_def by (auto simp: returns dest!: update_client_Inr split: if_splits)
  with assms(2,3) show ?thesis by (simp add: used)
qed

lemma disable_rows_writes:
  "disable_rows v rv s = (Inr a, s') \<Longrightarrow> client_write (the_tables s) (the_tables s')"
  unfolding disable_rows_def update_access_def
  by (auto simp: returns intro!: disabled split: if_splits)

lemma enable_row_writes:
  "enable_row rv s = (Inr a, s') \<Longrightarrow> client_write (the_tables s) (the_tables s')"
  unfolding enable_row_def update_access_def
  by (auto simp: returns intro!: enabled split: if_splits)

section \<open>Every command writes lawfully\<close>

definition on_tables :: "(client_db \<Rightarrow> client_db \<Rightarrow> bool) \<Rightarrow> 'h desk sys \<Rightarrow> 'h desk sys \<Rightarrow> bool" where
  "on_tables P s s' \<longleftrightarrow> P (the_tables s) (the_tables s')"

definition others_write :: "(client_db \<Rightarrow> client_db \<Rightarrow> bool) \<Rightarrow> client_env \<Rightarrow> bool" where
  "others_write P v \<longleftrightarrow> (\<forall>n d d'. ce_open v n d = Inr d' \<longrightarrow> P d d')"

locale client_frame =
  fixes P :: "client_db \<Rightarrow> client_db \<Rightarrow> bool"
  assumes P_refl: "P d d"
    and P_trans: "P d d' \<Longrightarrow> P d' d'' \<Longrightarrow> P d d''"

sublocale client_frame \<subseteq> flow "on_tables P :: 'h desk sys \<Rightarrow> 'h desk sys \<Rightarrow> bool"
  by unfold_locales (auto simp: on_tables_def intro: P_refl P_trans)

locale client_promise = client_frame P for P +
  assumes lawful_write: "client_write d d' \<Longrightarrow> P d d'"

context client_frame
begin

lemma guar_same_tables: "(\<And>s. the_tables (snd (m s)) = the_tables s) \<Longrightarrow> guar (on_tables P) m"
  by (simp add: guar_def on_tables_def P_refl)

lemma guar_on_files [guar_intros]: "guar (on_tables P) (on_files v f)"
  by (rule guar_same_tables) (simp add: on_files_def split: prod.split)

lemma guar_now [guar_intros]: "guar (on_tables P) (clock e)" "guar (on_tables P) (uuid_factory e)"
  "guar (on_tables P) (draw_secret v)"
  by (auto intro!: guar_same_tables simp: clock_def uuid_factory_def draw_secret_def)

lemma guar_client_unit:
  assumes "others_write P v"
    and "\<And>s x s'. body s = (Inr x, s') \<Longrightarrow> P (the_tables s) (the_tables s')"
  shows "guar (on_tables P) (client_unit v body)"
proof (rule guarI)
  fix s r s'
  assume run: "client_unit v body s = (r, s')"
  let ?s0 = "s\<lparr>units := Suc (units s)\<rparr>"
  show "on_tables P s s'"
  proof (cases "ce_open v (units s) (the_tables s)")
    case (Inl e)
    with run show ?thesis by (auto simp: client_unit_def on_tables_def P_refl)
  next
    case (Inr d)
    then have d: "P (the_tables s) d" using assms(1) by (auto simp: others_write_def)
    obtain q s1 where body: "body (with_tables d ?s0) = (q, s1)" by (cases "body (with_tables d ?s0)")
    have "q = Inr x \<Longrightarrow> P (the_tables s) (the_tables s1)" for x
      using assms(2) [of "with_tables d ?s0" x s1] body d by (auto intro: P_trans)
    with run Inr body d show ?thesis
      by (auto simp: client_unit_def on_tables_def Let_def split: sum.splits option.splits)
  qed
qed

lemma guar_read_only [guar_intros]: "others_write P v \<Longrightarrow> guar (on_tables P) (client_unit v (read_tables f))"
  by (rule guar_client_unit) (auto simp: returns P_refl)

lemma guar_files [guar_intros]:
  "guar (on_tables P) (ensure_secret_dir v)" "guar (on_tables P) (publish_secret v path secret)"
  "guar (on_tables P) (unlink_secret v path)" "guar (on_tables P) (look_at v path)" "guar (on_tables P) (read_secret v c)"
  unfolding ensure_secret_dir_def publish_secret_def unlink_secret_def look_at_def read_secret_def
  by (intro guar_intros)+

lemma guar_cleaning_up [guar_intros]:
  "guar (on_tables P) m \<Longrightarrow> guar (on_tables P) c \<Longrightarrow> guar (on_tables P) (cleaning_up m c)"
  unfolding cleaning_up_def by (intro guar_intros)

lemma guar_count_readable [guar_intros]: "guar (on_tables P) (count_readable v cs)"
  by (induction cs) (simp_all, (intro guar_intros)+)

lemma guar_reading [guar_intros]:
  "others_write P v \<Longrightarrow> guar (on_tables P) (client_readiness v)"
  "others_write P v \<Longrightarrow> guar (on_tables P) (secret_for_probe v k)"
  unfolding client_readiness_def secret_for_probe_def by (intro guar_intros; assumption)+

lemma guar_authenticate [guar_intros]: "others_write P v \<Longrightarrow> guar (on_tables P) (authenticate v secret)"
  unfolding authenticate_def by (intro guar_intros guar_client_unit) (auto simp: returns P_refl)

end

context client_promise
begin

lemma guar_create [guar_intros]:
  "others_write P v \<Longrightarrow> guar (on_tables P) (client_unit v (create_client v k label kind scopes fp))"
  by (rule guar_client_unit) (auto dest: create_client_writes intro: lawful_write)

lemma guar_rotate_row [guar_intros]:
  "others_write P v \<Longrightarrow> guar (on_tables P) (client_unit v (rotate_row v k rv fp g overlap))"
  by (rule guar_client_unit) (auto dest: rotate_row_writes intro: lawful_write)

lemma guar_commands [guar_intros]:
  "others_write P v \<Longrightarrow> guar (on_tables P) (add_client v label kind scopes chosen)"
  "others_write P v \<Longrightarrow> guar (on_tables P) (ensure_client v k label kind scopes)"
  "others_write P v \<Longrightarrow> guar (on_tables P) (rotate_client v k rv seconds)"
  unfolding add_client_def ensure_client_def rotate_client_def Let_def by (intro guar_intros; assumption?)+

lemma guar_switch [guar_intros]:
  "others_write P v \<Longrightarrow> guar (on_tables P) (disable_all v rv)"
  "others_write P v \<Longrightarrow> guar (on_tables P) (enable_for_sharing v rv)"
  unfolding disable_all_def enable_for_sharing_def
  by (intro guar_intros guar_client_unit;
      auto dest: disable_rows_writes enable_row_writes intro: lawful_write)+

lemma guar_revoke [guar_intros]: "others_write P v \<Longrightarrow> guar (on_tables P) (revoke_client v k rv)"
  unfolding revoke_client_def
  by (intro guar_intros guar_client_unit; auto simp: returns dest!: revoke_row_writes intro: lawful_write)+

lemma guar_record_use [guar_intros]: "others_write P v \<Longrightarrow> guar (on_tables P) (record_use v k endpoint)"
  unfolding record_use_def
  by (intro guar_handle guar_client_unit;
      auto simp: returns intro: P_refl lawful_write dest!: record_use_row_writes
        intro!: guar_ret split: option.splits if_splits)

end

section \<open>Well-formed tables\<close>

text \<open>
  A secret belongs to a client and to one of its generations; a revoked client has only
  retired secrets, and of the others exactly the current generation is active.
\<close>

definition secret_fits :: "client_row \<Rightarrow> secret_row \<Rightarrow> bool" where
  "secret_fits c x \<longleftrightarrow> se_client x = cl_id c \<and> 1 \<le> se_generation x \<and> se_generation x \<le> cl_generation c \<and>
     (cl_revoked_at c \<noteq> None \<longrightarrow> se_state x = RETIRED) \<and> (se_state x = ACTIVE \<longrightarrow> se_generation x = cl_generation c)"

definition is_current :: "client_row \<Rightarrow> secret_row \<Rightarrow> bool" where
  "is_current c x \<longleftrightarrow> se_client x = cl_id c \<and> se_generation x = cl_generation c \<and>
     se_fingerprint x = cl_fingerprint c \<and> se_state x = ACTIVE"

definition tables_ok :: "client_db \<Rightarrow> bool" where
  "tables_ok d \<longleftrightarrow> distinct (map cl_id (clients d)) \<and> [] \<notin> set (map cl_id (clients d)) \<and> distinct (map se_fingerprint (secrets d)) \<and>
     distinct (map (\<lambda>x. (se_client x, se_generation x)) (secrets d)) \<and>
     (\<forall>x\<in>set (secrets d). \<exists>c\<in>set (clients d). secret_fits c x) \<and>
     (\<forall>c\<in>set (clients d). cl_revoked_at c = None \<longrightarrow> (\<exists>x\<in>set (secrets d). is_current c x)) \<and>
     length (active_clients d) \<le> MAX_ACTIVE_CLIENTS"

lemma set_rows_updated: "set (rows_updated p f rows) = (\<lambda>r. if p r then f r else r) ` set rows"
  by (simp add: rows_updated_def)

lemma distinct_rows_updated:
  "(\<And>r. key (f r) = key r) \<Longrightarrow> distinct (map key (rows_updated p f rows)) = distinct (map key rows)"
  by (simp add: rows_updated_keys)

lemma active_count_kept:
  assumes "\<And>c. p c \<Longrightarrow> cl_revoked_at (f c) = None \<Longrightarrow> cl_revoked_at c = None"
  shows "length (active_clients (d\<lparr>clients := rows_updated p f xs\<rparr>)) \<le> length (active_clients (d\<lparr>clients := xs\<rparr>))"
  using assms by (induction xs) (auto simp: active_clients_def rows_updated_def)

lemma active_clients_secrets [simp]:
  "active_clients (d\<lparr>secrets := ys\<rparr>) = active_clients d" "active_clients (d\<lparr>access := a\<rparr>) = active_clients d"
  by (simp_all add: active_clients_def)

lemma get_client_unique: "tables_ok d \<Longrightarrow> c \<in> set (clients d) \<Longrightarrow> get_client (cl_id c) d = Some c"
  unfolding get_client_def tables_ok_def by (blast intro: row_with_in_distinct)

lemma tables_okI:
  assumes "distinct (map cl_id cs)" and "[] \<notin> set (map cl_id cs)" and "distinct (map se_fingerprint xs)"
    and "distinct (map (\<lambda>x. (se_client x, se_generation x)) xs)"
    and "\<forall>x\<in>set xs. \<exists>c\<in>set cs. secret_fits c x"
    and "\<forall>c\<in>set cs. cl_revoked_at c = None \<longrightarrow> (\<exists>x\<in>set xs. is_current c x)"
    and "length (active_clients (d\<lparr>clients := cs\<rparr>)) \<le> MAX_ACTIVE_CLIENTS"
  shows "tables_ok (d\<lparr>clients := cs, secrets := xs\<rparr>)"
  using assms by (simp add: tables_ok_def active_clients_def)

lemma rotated_ok:
  assumes ok: "tables_ok d" and c: "get_client k d = Some c" "cl_revoked_at c = None"
    and new: "\<not> secret_clash k (cl_generation c + 1) fp d"
  shows "tables_ok (d\<lparr>
      clients := rows_updated (\<lambda>x. cl_id x = k \<and> cl_revision x = cl_revision c \<and> cl_revoked_at x = None)
        (bump (rotation fp (cl_generation c + 1) now)) (clients d),
      secrets := rows_updated (\<lambda>x. se_client x = k \<and> se_generation x = cl_generation c \<and> se_state x = ACTIVE)
        (superseded now overlap) (secrets d) @ [new_secret k (cl_generation c + 1) fp now]\<rparr>)"
proof -
  let ?p = "\<lambda>x. cl_id x = k \<and> cl_revision x = cl_revision c \<and> cl_revoked_at x = None"
  let ?f = "bump (rotation fp (cl_generation c + 1) now)"
  let ?q = "\<lambda>x. se_client x = k \<and> se_generation x = cl_generation c \<and> se_state x = ACTIVE"
  let ?h = "superseded now overlap"
  let ?old = "\<lambda>x. if ?q x then ?h x else x" and ?row = "\<lambda>x. if ?p x then ?f x else x"
  have id: "cl_id c = k" "c \<in> set (clients d)" using c by (auto dest: get_client_id get_client_mem)
  have only: "x = c" if "x \<in> set (clients d)" "cl_id x = k" for x
    using get_client_unique [OF ok that(1)] c(1) that(2) by simp
  have row: "?row x = (if x = c then ?f c else x)" if "x \<in> set (clients d)" for x
  proof (cases "x = c")
    case False
    with only [OF that] have "cl_id x \<noteq> k" by blast
    with False show ?thesis by simp
  qed (use c id in simp)
  have kept: "se_client (?old x) = se_client x" "se_generation (?old x) = se_generation x"
    "se_fingerprint (?old x) = se_fingerprint x" for x
    by (auto simp: superseded_def)
  have fresh: "se_fingerprint x \<noteq> fp" "se_client x = k \<Longrightarrow> se_generation x \<noteq> cl_generation c + 1"
    if "x \<in> set (secrets d)" for x
    using new that by (auto simp: secret_clash_def list_ex_iff)
  have fits_old: "secret_fits (?row y) (?old x)" if "x \<in> set (secrets d)" "y \<in> set (clients d)" "secret_fits y x" for x y
    using that fresh(2) [OF that(1)] row [OF that(2)] c id
    by (auto simp: secret_fits_def bump_def rotation_def superseded_def)
  have current_kept: "is_current y (?old x)" if "y \<noteq> c" "y \<in> set (clients d)" "is_current y x" for x y
  proof -
    have "cl_id y \<noteq> k" using that(1) only [OF that(2)] by blast
    with that(3) show ?thesis by (simp add: is_current_def)
  qed
  have current_new: "is_current (?f c) (new_secret k (cl_generation c + 1) fp now)"
    by (simp add: is_current_def bump_def rotation_def new_secret_def id)
  have fits_new: "secret_fits (?f c) (new_secret k (cl_generation c + 1) fp now)"
  proof -
    obtain x where "x \<in> set (secrets d)" "is_current c x"
      using ok c(2) id(2) unfolding tables_ok_def by blast
    moreover then obtain y where "y \<in> set (clients d)" "secret_fits y x"
      using ok unfolding tables_ok_def by blast
    ultimately show ?thesis using c
      by (auto simp: secret_fits_def is_current_def bump_def rotation_def new_secret_def id)
  qed
  let ?cs = "rows_updated ?p ?f (clients d)"
  let ?new = "new_secret k (cl_generation c + 1) fp now"
  let ?xs = "rows_updated ?q ?h (secrets d) @ [?new]"
  have in_cs: "?row y \<in> set ?cs" if "y \<in> set (clients d)" for y
    using that by (auto simp: set_rows_updated)
  have in_xs: "?new \<in> set ?xs" "x \<in> set (secrets d) \<Longrightarrow> ?old x \<in> set ?xs" for x
    by (auto simp: set_rows_updated)
  have c_in: "?f c \<in> set ?cs" using in_cs [OF id(2)] unfolding row [OF id(2)] by simp
  have same_ids: "map cl_id ?cs = map cl_id (clients d)"
    by (rule rows_updated_keys) (simp add: bump_def rotation_def)
  have ids: "distinct (map cl_id ?cs)" "[] \<notin> set (map cl_id ?cs)"
    using ok unfolding same_ids by (simp_all add: tables_ok_def)
  have old_fps: "map se_fingerprint (rows_updated ?q ?h (secrets d)) = map se_fingerprint (secrets d)"
    by (rule rows_updated_keys) (simp add: superseded_def)
  have fps: "distinct (map se_fingerprint ?xs)"
    using ok fresh(1) unfolding map_append old_fps by (auto simp: tables_ok_def new_secret_def)
  have old_gens: "map (\<lambda>x. (se_client x, se_generation x)) (rows_updated ?q ?h (secrets d)) =
      map (\<lambda>x. (se_client x, se_generation x)) (secrets d)"
    by (rule rows_updated_keys) (simp add: superseded_def)
  have gens: "distinct (map (\<lambda>x. (se_client x, se_generation x)) ?xs)"
    using ok unfolding map_append old_gens by (auto simp: tables_ok_def new_secret_def dest: fresh(2))
  have fits: "\<forall>z\<in>set ?xs. \<exists>y\<in>set ?cs. secret_fits y z"
  proof
    fix z assume "z \<in> set ?xs"
    then consider "z = ?new" | x where "x \<in> set (secrets d)" "z = ?old x"
      by (auto simp: set_rows_updated)
    then show "\<exists>y\<in>set ?cs. secret_fits y z"
    proof cases
      case 1
      with fits_new c_in show ?thesis by blast
    next
      case 2
      from ok 2(1) obtain y where "y \<in> set (clients d)" "secret_fits y x" by (auto simp: tables_ok_def)
      with fits_old [OF 2(1)] 2(2) in_cs show ?thesis by blast
    qed
  qed
  have current: "\<forall>z\<in>set ?cs. cl_revoked_at z = None \<longrightarrow> (\<exists>x\<in>set ?xs. is_current z x)"
  proof (intro ballI impI)
    fix z assume "z \<in> set ?cs" and active: "cl_revoked_at z = None"
    then obtain y where y: "y \<in> set (clients d)" "z = ?row y" by (auto simp: set_rows_updated)
    show "\<exists>x\<in>set ?xs. is_current z x"
    proof (cases "y = c")
      case True
      then have "z = ?f c" using y(2) unfolding row [OF y(1)] by simp
      with current_new in_xs(1) show ?thesis by blast
    next
      case False
      then have z: "z = y" using row [OF y(1)] y(2) by simp
      with y active ok obtain x where "x \<in> set (secrets d)" "is_current y x" by (auto simp: tables_ok_def)
      from current_kept [OF False y(1) this(2)] in_xs(2) [OF this(1)] z show ?thesis by blast
    qed
  qed
  have few: "length (active_clients (d\<lparr>clients := ?cs\<rparr>)) \<le> MAX_ACTIVE_CLIENTS"
    using active_count_kept [where p = ?p and f = ?f and d = d and xs = "clients d"] ok
    by (simp add: tables_ok_def bump_def rotation_def)
  show ?thesis by (rule tables_okI [OF ids fps gens fits current few])
qed

lemma created_ok:
  assumes ok: "tables_ok d" and new: "get_client k d = None" "\<not> secret_clash k 1 fp d" and id: "k \<noteq> []"
    and few: "length (active_clients d) < MAX_ACTIVE_CLIENTS"
  shows "tables_ok (d\<lparr>clients := clients d @ [new_client k label kind scopes fp now],
      secrets := secrets d @ [new_secret k 1 fp now]\<rparr>)"
proof (rule tables_okI)
  let ?c = "new_client k label kind scopes fp now" and ?x = "new_secret k 1 fp now"
  show "distinct (map cl_id (clients d @ [?c]))" "[] \<notin> set (map cl_id (clients d @ [?c]))"
    using ok new(1) id by (auto simp: tables_ok_def new_client_def get_client_def row_with_None_iff)
  show "distinct (map se_fingerprint (secrets d @ [?x]))"
    "distinct (map (\<lambda>x. (se_client x, se_generation x)) (secrets d @ [?x]))"
    using ok new(2) by (auto simp: tables_ok_def new_secret_def secret_clash_def list_ex_iff)
  have "secret_fits ?c ?x" "is_current ?c ?x"
    by (simp_all add: secret_fits_def is_current_def new_client_def new_secret_def)
  then show "\<forall>x\<in>set (secrets d @ [?x]). \<exists>c\<in>set (clients d @ [?c]). secret_fits c x"
    "\<forall>c\<in>set (clients d @ [?c]). cl_revoked_at c = None \<longrightarrow> (\<exists>x\<in>set (secrets d @ [?x]). is_current c x)"
    using ok by (auto simp: tables_ok_def)
  show "length (active_clients (d\<lparr>clients := clients d @ [?c]\<rparr>)) \<le> MAX_ACTIVE_CLIENTS"
    using few by (simp add: active_clients_def new_client_def)
qed

text \<open>Retiring the secrets of the clients that an update revokes, and of no other.\<close>

lemma revoking_ok:
  assumes ok: "tables_ok d"
    and client: "\<And>c. cl_id (f c) = cl_id c" "\<And>c. cl_generation (f c) = cl_generation c"
      "\<And>c. cl_fingerprint (f c) = cl_fingerprint c" "\<And>c. cl_revoked_at c \<noteq> None \<Longrightarrow> cl_revoked_at (f c) \<noteq> None"
    and same: "\<And>c x. c \<in> set (clients d) \<Longrightarrow> x \<in> set (secrets d) \<Longrightarrow> se_client x = cl_id c \<Longrightarrow>
      se_state x \<noteq> RETIRED \<Longrightarrow> cl_revoked_at c = None \<Longrightarrow> q x \<longleftrightarrow> p c \<and> cl_revoked_at (f c) \<noteq> None"
  shows "tables_ok (d\<lparr>clients := rows_updated p f (clients d), secrets := rows_updated q (retired now) (secrets d)\<rparr>)"
proof (rule tables_okI)
  let ?cs = "rows_updated p f (clients d)" and ?xs = "rows_updated q (retired now) (secrets d)"
  let ?row = "\<lambda>c. if p c then f c else c" and ?old = "\<lambda>x. if q x then retired now x else x"
  have same_ids: "map cl_id ?cs = map cl_id (clients d)"
    by (rule rows_updated_keys) (simp add: client)
  show "distinct (map cl_id ?cs)" "[] \<notin> set (map cl_id ?cs)"
    using ok unfolding same_ids by (simp_all add: tables_ok_def)
  show "distinct (map se_fingerprint ?xs)"
    "distinct (map (\<lambda>x. (se_client x, se_generation x)) ?xs)"
    using ok by (simp_all add: tables_ok_def distinct_rows_updated retired_def)
  have fits: "secret_fits (?row c) (?old x)"
    if "c \<in> set (clients d)" "x \<in> set (secrets d)" "secret_fits c x" for c x
    using that same [OF that(1,2)] client by (auto simp: secret_fits_def retired_def)
  show "\<forall>x\<in>set ?xs. \<exists>c\<in>set ?cs. secret_fits c x"
    using ok fits unfolding set_rows_updated tables_ok_def by blast
  have current: "is_current (?row c) (?old x)"
    if "c \<in> set (clients d)" "x \<in> set (secrets d)" "cl_revoked_at (?row c) = None" "is_current c x" for c x
  proof -
    have "cl_revoked_at c = None" using that(3) client(4) [of c] by (cases "cl_revoked_at c") (auto split: if_splits)
    with same [OF that(1,2)] that(3,4) have "\<not> q x" by (auto simp: is_current_def split: if_splits)
    with that(4) client show ?thesis by (simp add: is_current_def)
  qed
  show "\<forall>c\<in>set ?cs. cl_revoked_at c = None \<longrightarrow> (\<exists>x\<in>set ?xs. is_current c x)"
  proof (unfold set_rows_updated, intro ballI impI, elim imageE)
    fix z c assume z: "cl_revoked_at z = None" "z = ?row c" "c \<in> set (clients d)"
    then have "cl_revoked_at c = None" using client(4) [of c] by (cases "cl_revoked_at c") (auto split: if_splits)
    with ok z(3) obtain x where x: "x \<in> set (secrets d)" "is_current c x" by (auto simp: tables_ok_def)
    with current [OF z(3) x(1)] z(1,2) have "is_current z (?old x)" by simp
    with x(1) show "\<exists>x\<in>?old ` set (secrets d). is_current z x" by blast
  qed
  show "length (active_clients (d\<lparr>clients := ?cs\<rparr>)) \<le> MAX_ACTIVE_CLIENTS"
    using active_count_kept [where p = p and f = f and d = d and xs = "clients d"] ok client(4)
    by (fastforce simp: tables_ok_def)
qed

lemma client_write_ok: "client_write d d' \<Longrightarrow> tables_ok d \<Longrightarrow> tables_ok d'"
proof (induction rule: client_write.induct)
  case created
  then show ?case by (simp add: created_ok)
next
  case rotated
  then show ?case by (simp add: rotated_ok)
next
  case (revoked k d c now)
  then have c: "cl_id c = k" by (simp add: get_client_id)
  have only: "x = c" if "x \<in> set (clients d)" "cl_id x = k" for x
    using get_client_unique [OF revoked.prems that(1)] revoked.hyps that(2) by simp
  show ?case
    by (rule revoking_ok [OF revoked.prems])
      (use only in \<open>auto simp: bump_def or_now_def c split: option.splits\<close>)
next
  case (used k d c endpoint now)
  let ?p = "\<lambda>x. cl_id x = k \<and> cl_revision x = cl_revision c \<and> cl_revoked_at x = None"
  let ?f = "bump (\<lambda>c. c\<lparr>cl_last_used_at := Some now, cl_last_endpoint := Some endpoint\<rparr>)"
  have "tables_ok (d\<lparr>clients := rows_updated ?p ?f (clients d),
      secrets := rows_updated (\<lambda>_. False) (retired now) (secrets d)\<rparr>)"
    by (rule revoking_ok [OF used.prems]) (auto simp: bump_def)
  then show ?case by (simp add: rows_updated_def)
next
  case (disabled d now)
  have "tables_ok (d\<lparr>clients := rows_updated (\<lambda>c. cl_revoked_at c = None)
        (\<lambda>c. c\<lparr>cl_revoked_at := Some now, cl_revision := cl_revision c + 1\<rparr>) (clients d),
      secrets := rows_updated (\<lambda>x. se_state x \<noteq> RETIRED) (retired now) (secrets d)\<rparr>)"
    by (rule revoking_ok [OF disabled.prems]) auto
  then show ?case by (simp add: tables_ok_def active_clients_def)
next
  case (enabled d)
  then show ?case by (simp add: tables_ok_def active_clients_def)
qed

section \<open>What a revocation leaves for good\<close>

definition barred :: "string \<Rightarrow> client_db \<Rightarrow> bool" where
  "barred fp d \<longleftrightarrow> (\<exists>x\<in>set (secrets d). se_fingerprint x = fp \<and> se_state x = RETIRED)"

definition shut :: "ident \<Rightarrow> client_db \<Rightarrow> bool" where
  "shut k d \<longleftrightarrow> (\<exists>c\<in>set (clients d). cl_id c = k \<and> cl_revoked_at c \<noteq> None)"

definition stays_revoked :: "client_db \<Rightarrow> client_db \<Rightarrow> bool" where
  "stays_revoked d d' \<longleftrightarrow> (tables_ok d \<longrightarrow> tables_ok d' \<and>
     (\<forall>fp. barred fp d \<longrightarrow> barred fp d') \<and> (\<forall>k. shut k d \<longrightarrow> shut k d'))"

lemma retired_stay:
  assumes "\<And>x. se_state x = RETIRED \<Longrightarrow> q x \<Longrightarrow> se_fingerprint (h x) = se_fingerprint x \<and> se_state (h x) = RETIRED"
    and "\<exists>x\<in>set xs. se_fingerprint x = fp \<and> se_state x = RETIRED"
  shows "\<exists>x\<in>set (rows_updated q h xs). se_fingerprint x = fp \<and> se_state x = RETIRED"
  using assms by (induction xs) (auto simp: rows_updated_def)

lemma revoked_stay:
  assumes "\<And>c. cl_revoked_at c \<noteq> None \<Longrightarrow> p c \<Longrightarrow> cl_id (f c) = cl_id c \<and> cl_revoked_at (f c) \<noteq> None"
    and "\<exists>c\<in>set cs. cl_id c = k \<and> cl_revoked_at c \<noteq> None"
  shows "\<exists>c\<in>set (rows_updated p f cs). cl_id c = k \<and> cl_revoked_at c \<noteq> None"
  using assms by (induction cs) (auto simp: rows_updated_def)

lemma client_write_barred: "client_write d d' \<Longrightarrow> barred fp d \<Longrightarrow> barred fp d'"
proof (induction rule: client_write.induct)
  case rotated
  then show ?case by (auto simp: barred_def intro!: disjI2 retired_stay)
next
  case revoked
  then show ?case by (auto simp: barred_def retired_def intro!: retired_stay)
next
  case disabled
  then show ?case by (auto simp: barred_def intro!: retired_stay)
qed (auto simp: barred_def)

lemma client_write_shut: "client_write d d' \<Longrightarrow> shut k d \<Longrightarrow> shut k d'"
proof (induction rule: client_write.induct)
  case rotated
  then show ?case unfolding shut_def by (simp del: not_None_eq) (rule revoked_stay, auto)
next
  case revoked
  then show ?case unfolding shut_def
    by (simp del: not_None_eq) (rule revoked_stay, auto simp: bump_def or_now_def)
next
  case used
  then show ?case unfolding shut_def by (simp del: not_None_eq) (rule revoked_stay, auto)
next
  case disabled
  then show ?case unfolding shut_def by (simp del: not_None_eq) (rule revoked_stay, auto)
qed (auto simp: shut_def)

lemma client_write_stays: "client_write d d' \<Longrightarrow> stays_revoked d d'"
  by (auto simp: stays_revoked_def intro: client_write_ok client_write_barred client_write_shut)

interpretation well_formed: client_promise "\<lambda>d d'. tables_ok d \<longrightarrow> tables_ok d'"
  by unfold_locales (auto intro: client_write_ok)

interpretation revocation: client_promise stays_revoked
  by unfold_locales (auto simp: stays_revoked_def intro: client_write_ok client_write_barred client_write_shut)

end
