(* ===== verification/Client_Promises.thy ===== *)
theory Client_Promises
  imports Client_Facts
begin

text \<open>
  What the store of named clients promises to the people and the gateway that use it: who a
  presented secret is, what issuing, rotating and revoking do to that answer, and what a
  run of any commands keeps.
\<close>

section \<open>Who a secret is\<close>

definition holder :: "instant \<Rightarrow> string \<Rightarrow> client_db \<Rightarrow> client_row \<Rightarrow> bool" where
  "holder now fp d c \<longleftrightarrow> c \<in> set (clients d) \<and> cl_revoked_at c = None \<and>
     (\<exists>x\<in>set (secrets d). se_client x = cl_id c \<and> se_fingerprint x = fp \<and> eligible now x)"

lemma matching_fold:
  "fold (\<lambda>(c, x) found. if se_fingerprint x = fp then Some (cl_id c, cl_scopes c) else found) ps start =
    (case filter (\<lambda>(c, x). se_fingerprint x = fp) (rev ps) of [] \<Rightarrow> start | (c, x) # _ \<Rightarrow> Some (cl_id c, cl_scopes c))"
  by (induction ps arbitrary: start) (auto split: list.splits)

lemma matching_None: "matching fp ps = None \<longleftrightarrow> (\<forall>(c, x)\<in>set ps. se_fingerprint x \<noteq> fp)"
proof -
  have "matching fp ps = None \<longleftrightarrow> filter (\<lambda>(c, x). se_fingerprint x = fp) (rev ps) = []"
    unfolding matching_def matching_fold by (auto split: list.splits)
  then show ?thesis by (auto simp: filter_empty_conv)
qed

lemma matching_Some:
  assumes "matching fp ps = Some who"
  obtains c x where "(c, x) \<in> set ps" "se_fingerprint x = fp" "who = (cl_id c, cl_scopes c)"
proof -
  from assms obtain c x rest where
    "filter (\<lambda>(c, x). se_fingerprint x = fp) (rev ps) = (c, x) # rest" "who = (cl_id c, cl_scopes c)"
    unfolding matching_def matching_fold by (auto split: list.splits)
  moreover from this(1) have "(c, x) \<in> set (filter (\<lambda>(c, x). se_fingerprint x = fp) (rev ps))" by simp
  then have "(c, x) \<in> set ps" "se_fingerprint x = fp" by simp_all
  ultimately show thesis using that by blast
qed

lemma candidates: "(c, x) \<in> set (authentication_fingerprints now d) \<longleftrightarrow> ac_enabled (access d) \<and>
    c \<in> set (clients d) \<and> cl_revoked_at c = None \<and> x \<in> set (secrets d) \<and> se_client x = cl_id c \<and> eligible now x"
  by (auto simp: authentication_fingerprints_def active_clients_def)

lemma holder_unique:
  assumes "tables_ok d" and "holder now fp d c" and "holder now' fp d c'"
  shows "c = c'"
proof -
  from assms(2,3) obtain x y where x: "x \<in> set (secrets d)" "se_client x = cl_id c" "se_fingerprint x = fp"
    and y: "y \<in> set (secrets d)" "se_client y = cl_id c'" "se_fingerprint y = fp"
    by (auto simp: holder_def)
  have "inj_on se_fingerprint (set (secrets d))" using assms(1) by (simp add: tables_ok_def distinct_map)
  with x y have "x = y" by (auto dest: inj_onD)
  with x y have "cl_id c = cl_id c'" by simp
  moreover have "c \<in> set (clients d)" "c' \<in> set (clients d)" using assms(2,3) by (auto simp: holder_def)
  ultimately show ?thesis using get_client_unique [OF assms(1)] by (metis option.inject)
qed

lemma matching_holder:
  assumes "tables_ok d"
  shows "matching fp (authentication_fingerprints now d) = Some who \<longleftrightarrow>
    ac_enabled (access d) \<and> (\<exists>c. holder now fp d c \<and> who = (cl_id c, cl_scopes c))"
proof
  assume "matching fp (authentication_fingerprints now d) = Some who"
  then show "ac_enabled (access d) \<and> (\<exists>c. holder now fp d c \<and> who = (cl_id c, cl_scopes c))"
    by (rule matching_Some) (auto simp: candidates holder_def)
next
  assume "ac_enabled (access d) \<and> (\<exists>c. holder now fp d c \<and> who = (cl_id c, cl_scopes c))"
  then obtain c where enabled: "ac_enabled (access d)" and c: "holder now fp d c" "who = (cl_id c, cl_scopes c)" by blast
  then obtain x where "(c, x) \<in> set (authentication_fingerprints now d)" "se_fingerprint x = fp"
    by (auto simp: candidates holder_def)
  then obtain found where found: "matching fp (authentication_fingerprints now d) = Some found"
    by (metis (mono_tags, lifting) case_prodD matching_None not_None_eq)
  then obtain c' where "holder now fp d c'" "found = (cl_id c', cl_scopes c')"
    by (rule matching_Some) (auto simp: candidates holder_def)
  with holder_unique [OF assms c(1)] c(2) found show "matching fp (authentication_fingerprints now d) = Some who" by blast
qed

lemma authenticate_Inr:
  assumes "authenticate v presented s = (Inr found, s')"
  shows "found = None \<and> \<not> (1 \<le> length presented \<and> length presented \<le> MAX_SECRET_LEN) \<or>
    (1 \<le> length presented \<and> length presented \<le> MAX_SECRET_LEN \<and> (\<exists>d. ce_open v (units s) (the_tables s) = Inr d \<and>
       found = matching (ce_fingerprint v presented)
         (authentication_fingerprints (e_clock (ce_env v) (clock_reads s)) d)))"
  using assms unfolding authenticate_def
  by (auto simp: prog_simps client_unit_def clock_def read_tables_def with_tables_def Let_def
      split: if_splits sum.splits option.splits)

section \<open>A run of any commands\<close>

datatype client_request = AddClient pystr pystr "pystr list" "ident option"
  | EnsureClient ident pystr pystr "pystr list" | RotateClient ident int int | RevokeClient ident int
  | DisableAll int | EnableSharing int | ProbeSecret ident | Authenticate pystr | UseClient ident string

text \<open>A command's answer and its exception are its caller's; the next command runs in any case.\<close>

definition forgotten :: "('h, 'a) desk_prog \<Rightarrow> ('h, unit) desk_prog" where
  "forgotten m = handle (bind m (\<lambda>_. ret ())) (\<lambda>_. Some (ret ()))"

fun perform :: "client_env \<Rightarrow> client_request \<Rightarrow> ('h, unit) desk_prog" where
  "perform v (AddClient label kind scopes chosen) = forgotten (add_client v label kind scopes chosen)"
| "perform v (EnsureClient k label kind scopes) = forgotten (ensure_client v k label kind scopes)"
| "perform v (RotateClient k rv seconds) = forgotten (rotate_client v k rv seconds)"
| "perform v (RevokeClient k rv) = forgotten (revoke_client v k rv)"
| "perform v (DisableAll rv) = forgotten (disable_all v rv)"
| "perform v (EnableSharing rv) = forgotten (enable_for_sharing v rv)"
| "perform v (ProbeSecret k) = forgotten (secret_for_probe v k)"
| "perform v (Authenticate secret) = forgotten (authenticate v secret)"
| "perform v (UseClient k endpoint) = forgotten (record_use v k endpoint)"

definition client_session :: "client_env \<Rightarrow> client_request list \<Rightarrow> ('h, unit) desk_prog" where
  "client_session v requests = foreach requests (perform v)"

context client_promise
begin

lemma guar_forgotten [guar_intros]: "guar (on_tables P) m \<Longrightarrow> guar (on_tables P) (forgotten m)"
  unfolding forgotten_def by (intro guar_handle guar_intros) (auto intro: guar_ret)

lemma guar_session: "others_write P v \<Longrightarrow> guar (on_tables P) (client_session v requests)"
  unfolding client_session_def
proof (rule guar_foreach)
  fix r assume "others_write P v"
  then show "guar (on_tables P) (perform v r)" by (cases r) (simp_all, (intro guar_intros; assumption)+)
qed

end

section \<open>Revocation\<close>

lemma client_unit_Inr: "client_unit v body s = (Inr x, s') \<longleftrightarrow>
   (\<exists>d. ce_open v (units s) (the_tables s) = Inr d \<and> e_commit (ce_env v) (units s) = None \<and>
      body (with_tables d (s\<lparr>units := Suc (units s)\<rparr>)) = (Inr x, s'))"
  by (auto simp: client_unit_def Let_def split: sum.splits option.splits prod.splits)

lemma barred_holder: "tables_ok d \<Longrightarrow> barred fp d \<Longrightarrow> \<not> holder now fp d c"
  unfolding barred_def holder_def tables_ok_def distinct_map eligible_def by (auto dest: inj_onD)

lemma shut_holder: "tables_ok d \<Longrightarrow> shut (cl_id c) d \<Longrightarrow> \<not> holder now fp d c"
  unfolding shut_def holder_def by (metis get_client_unique option.inject)

text \<open>What the tables hold when a revocation returns.\<close>

interpretation untouched: client_frame "(=)"
  by unfold_locales auto

lemma untouchedD: "guar (on_tables (=)) m \<Longrightarrow> m s = (r, s') \<Longrightarrow> the_tables s' = the_tables s"
  by (auto dest: guarD simp: on_tables_def)

lemma retired_row: "se_client (if q then retired now x else x) = k \<Longrightarrow> (se_client x = k \<Longrightarrow> \<not> q \<Longrightarrow> se_state x = RETIRED) \<Longrightarrow>
    se_state (if q then retired now x else x) = RETIRED"
  by (cases q) (simp_all add: retired_def)

lemma all_retired: "x \<in> set (rows_updated (\<lambda>x. se_client x = k \<and> se_state x \<noteq> RETIRED) (retired now) xs) \<Longrightarrow>
    se_client x = k \<Longrightarrow> se_state x = RETIRED"
  unfolding set_rows_updated by (elim imageE) (simp only:, rule retired_row, assumption, blast)

lemma revoke_row_result:
  assumes "revoke_row v k rv s = (Inr row, s')"
  shows "shut k (the_tables s')" and "\<forall>x\<in>set (secrets (the_tables s')). se_client x = k \<longrightarrow> se_state x = RETIRED"
proof -
  let ?d = "the_tables s" and ?f = "\<lambda>now. bump (\<lambda>c. c\<lparr>cl_revoked_at := or_now (cl_revoked_at c) now\<rparr>)"
  from assms obtain c now where c: "get_client k ?d = Some c"
    and after: "the_tables s' = ?d\<lparr>
        clients := rows_updated (\<lambda>x. cl_id x = k \<and> cl_revision x = cl_revision c) (?f now) (clients ?d),
        secrets := rows_updated (\<lambda>x. se_client x = k \<and> se_state x \<noteq> RETIRED) (retired now) (secrets ?d)\<rparr>"
    unfolding revoke_row_def by (auto simp: returns current_client_Inr dest!: update_client_Inr)
  let ?row = "\<lambda>x. if cl_id x = k \<and> cl_revision x = cl_revision c then ?f now x else x"
  have id: "c \<in> set (clients ?d)" "cl_id c = k" using c by (auto dest: get_client_id get_client_mem)
  then have "?row c \<in> set (clients (the_tables s'))" by (auto simp: after set_rows_updated)
  moreover have "cl_id (?row c) = k" using id by (simp add: bump_def)
  moreover have "cl_revoked_at (?row c) \<noteq> None" using id by (simp add: bump_def or_now_def split: option.split)
  ultimately show "shut k (the_tables s')" unfolding shut_def by blast
  show "\<forall>x\<in>set (secrets (the_tables s')). se_client x = k \<longrightarrow> se_state x = RETIRED"
    using all_retired [of _ k now "secrets ?d"] by (simp add: after)
qed

lemma revoke_client_result:
  assumes "revoke_client v k rv s = (Inr res, s')"
  shows "shut k (the_tables s')" and "\<forall>x\<in>set (secrets (the_tables s')). se_client x = k \<longrightarrow> se_state x = RETIRED"
proof -
  let ?tail = "\<lambda>row prior. andthen (case prior of None \<Rightarrow> ret ()
       | Some c \<Rightarrow> foreach [1..cl_generation c] (\<lambda>generation.
           bind (lift (path_of k generation (cl_storage c))) (unlink_secret v)))
       (ret \<lparr>cr_action = ''revoked'', cr_client = row, cr_secret = None\<rparr>)"
  have "guar (on_tables (=)) (?tail row prior)" for row prior
    by (intro guar_intros)
  note same = untouchedD [OF this]
  from assms [unfolded revoke_client_def bind_Inr [where m = "client_unit v x" for x]] obtain pr s2 where
    body: "client_unit v (bind (read_tables (get_client k)) (\<lambda>prior. bind (revoke_row v k rv) (\<lambda>row. ret (prior, row)))) s = (Inr pr, s2)"
    and rest: "?tail (snd pr) (fst pr) s2 = (Inr res, s')"
    by (auto simp only: case_prod_beta)
  from body obtain s1 row where unit: "revoke_row v k rv s1 = (Inr row, s2)"
    by (auto simp: bind_Inr client_unit_Inr ret_Inr read_tables_Inr)
  have tables: "the_tables s' = the_tables s2" using same [OF rest] .
  show "shut k (the_tables s')" "\<forall>x\<in>set (secrets (the_tables s')). se_client x = k \<longrightarrow> se_state x = RETIRED"
    unfolding tables using revoke_row_result [OF unit] by blast+
qed

text \<open>
  A revocation is final: after it, no secret resolves to the client, and no secret the client
  ever had resolves to anybody.
\<close>

lemma revocation_is_final:
  assumes "others_write stays_revoked v" and "tables_ok (the_tables s)"
    and "revoke_client v k rv s = (Inr res, s1)"
    and "stays_revoked (the_tables s1) (the_tables s2)"
    and "authenticate v secret s2 = (Inr found, s3)"
  shows "(\<forall>scopes. found \<noteq> Some (k, scopes)) \<and>
    (\<forall>x\<in>set (secrets (the_tables s1)). se_client x = k \<and> se_fingerprint x = ce_fingerprint v secret \<longrightarrow> found = None)"
proof -
  have ok1: "tables_ok (the_tables s1)"
    using guarD [OF revocation.guar_revoke [OF assms(1)] assms(3)] assms(2) by (simp add: on_tables_def stays_revoked_def)
  show ?thesis
  proof (cases found)
    case (Some who)
    with authenticate_Inr [OF assms(5)] obtain d now where d: "ce_open v (units s2) (the_tables s2) = Inr d"
      and m: "matching (ce_fingerprint v secret) (authentication_fingerprints now d) = Some who" by auto
    have "stays_revoked (the_tables s2) d" using assms(1) d by (auto simp: others_write_def)
    with assms(4) have all: "stays_revoked (the_tables s1) d" by (auto simp: stays_revoked_def)
    with ok1 have ok: "tables_ok d" by (simp add: stays_revoked_def)
    from m obtain c where c: "holder now (ce_fingerprint v secret) d c" "who = (cl_id c, cl_scopes c)"
      by (auto simp: matching_holder [OF ok])
    have "shut k d" using all ok1 revoke_client_result(1) [OF assms(3)] by (simp add: stays_revoked_def)
    with shut_holder [OF ok] c(1) have "cl_id c \<noteq> k" by blast
    moreover have "\<not> barred (ce_fingerprint v secret) d" using barred_holder [OF ok] c(1) by blast
    then have "\<not> barred (ce_fingerprint v secret) (the_tables s1)"
      using all ok1 by (auto simp: stays_revoked_def)
    ultimately show ?thesis
      using revoke_client_result(2) [OF assms(3)] Some c(2) by (auto simp: barred_def)
  qed simp
qed

text \<open>
  (invariant): whatever commands run, in whatever order, and however they end, the tables
  stay well formed: identifiers, fingerprints and generations are unique, a revoked client
  has only retired secrets, every other client has exactly its current generation active,
  and at most 32 clients are active.
\<close>

theorem commands_keep_the_tables:
  assumes "others_write (\<lambda>d d'. tables_ok d \<longrightarrow> tables_ok d') v" and "tables_ok (the_tables s)"
  shows "tables_ok (the_tables (snd (client_session v requests s)))"
proof -
  obtain r s' where "client_session v requests s = (r, s')" by (cases "client_session v requests s")
  from guarD [OF well_formed.guar_session [OF assms(1)] this] this assms(2) show ?thesis
    by (simp add: on_tables_def)
qed

section \<open>Authentication and rotation\<close>

definition readable :: "pystr \<Rightarrow> bool" where
  "readable presented \<longleftrightarrow> 1 \<le> length presented \<and> length presented \<le> MAX_SECRET_LEN"

lemma eligible_iff: "eligible now x \<longleftrightarrow> se_state x = ACTIVE \<or>
    se_state x = OVERLAP \<and> (\<exists>t. se_overlap_expires_at x = Some t \<and> now < t)"
  by (cases "se_overlap_expires_at x") (simp_all add: eligible_def)

lemma authenticate_run:
  assumes "ce_open v (units s) (the_tables s) = Inr d" and "e_commit (ce_env v) (units s) = None"
  shows "fst (authenticate v presented s) = Inr (if readable presented
     then matching (ce_fingerprint v presented) (authentication_fingerprints (e_clock (ce_env v) (clock_reads s)) d) else None)"
  using assms unfolding authenticate_def readable_def
  by (simp add: prog_simps client_unit_def clock_def read_tables_def with_tables_def Let_def)

text \<open>
  C27 (functional): on well formed tables a presented secret resolves to a client exactly when
  sharing is enabled, the client is not revoked, and one of its secrets has the fingerprint
  and is active or still in its overlap; nothing else resolves, and to nobody else.
\<close>

theorem authentication_is_exact:
  assumes "tables_ok d" and "ce_open v (units s) (the_tables s) = Inr d"
    and "e_commit (ce_env v) (units s) = None"
  shows "fst (authenticate v presented s) = Inr (Some (k, scopes)) \<longleftrightarrow>
    readable presented \<and> ac_enabled (access d) \<and>
    (\<exists>c x. c \<in> set (clients d) \<and> cl_id c = k \<and> cl_scopes c = scopes \<and> cl_revoked_at c = None \<and>
       x \<in> set (secrets d) \<and> se_client x = k \<and> se_fingerprint x = ce_fingerprint v presented \<and>
       (se_state x = ACTIVE \<or> se_state x = OVERLAP \<and>
         (\<exists>t. se_overlap_expires_at x = Some t \<and> e_clock (ce_env v) (clock_reads s) < t)))"
  unfolding authenticate_run [OF assms(2,3)]
  by (simp add: matching_holder [OF assms(1)] holder_def eligible_iff) blast

lemma cleaning_up_Inr: "cleaning_up m c s = (Inr x, s') \<longleftrightarrow> m s = (Inr x, s')"
  by (auto simp: cleaning_up_def handle_def prog_simps split: prod.splits sum.splits)

lemma draw_secret_Inr: "draw_secret v s = (Inr x, s') \<longleftrightarrow>
   x = ce_secret v (uuid_reads s) \<and> s' = s\<lparr>uuid_reads := Suc (uuid_reads s)\<rparr>"
  by (auto simp: draw_secret_def)

definition same_desk :: "'h desk sys \<Rightarrow> 'h desk sys \<Rightarrow> bool" where
  "same_desk s s' \<longleftrightarrow> the_tables s' = the_tables s \<and> clock_reads s' = clock_reads s \<and> units s' = units s"

lemma on_files_same: "on_files v f s = (r, s') \<Longrightarrow> same_desk s s'"
  by (auto simp: on_files_def same_desk_def split: prod.splits)

lemma publish_secret_Inr:
  assumes "publish_secret v path secret s = (Inr u, s')"
  shows "same_desk s s' \<and> 8 \<le> length secret \<and> length secret \<le> MAX_SECRET_LEN"
  using assms unfolding publish_secret_def ensure_secret_dir_def
  by (auto simp: returns same_desk_def dest!: on_files_same split: if_splits)

lemma unlink_secret_Inr: "unlink_secret v path s = (r, s') \<Longrightarrow> same_desk s s'"
  by (simp add: unlink_secret_def on_files_same)

text \<open>Nobody else writes the tables.\<close>

definition undisturbed :: "client_env \<Rightarrow> bool" where
  "undisturbed v \<longleftrightarrow> (\<forall>n d. ce_open v n d = Inr d) \<and> (\<forall>n. e_commit (ce_env v) n = None)"

lemma rotate_row_Inr:
  assumes "rotate_row v k rv fp g overlap s = (Inr row, s')"
  shows "\<exists>c. get_client k (the_tables s) = Some c \<and> cl_revoked_at c = None \<and> cl_revision c = rv \<and>
     g = cl_generation c + 1 \<and> \<not> secret_clash k g fp (the_tables s) \<and>
     the_tables s' = (the_tables s)\<lparr>
      clients := rows_updated (\<lambda>x. cl_id x = k \<and> cl_revision x = rv \<and> cl_revoked_at x = None)
        (bump (rotation fp g (e_clock (ce_env v) (clock_reads s)))) (clients (the_tables s)),
      secrets := rows_updated (\<lambda>x. se_client x = k \<and> se_generation x = cl_generation c \<and> se_state x = ACTIVE)
        (superseded (e_clock (ce_env v) (clock_reads s)) overlap) (secrets (the_tables s)) @
        [new_secret k g fp (e_clock (ce_env v) (clock_reads s))]\<rparr>"
  using assms unfolding rotate_row_def
  by (auto simp: returns insert_secret_Inr current_client_Inr validate_fingerprint_def rotation_def [abs_def]
      secret_clash_updated superseded_def dest!: update_client_Inr split: if_splits)

lemma rotate_client_result:
  assumes "undisturbed v" and "rotate_client v k rv seconds s = (Inr res, s')"
  shows "\<exists>c secret now. get_client k (the_tables s) = Some c \<and> cl_revoked_at c = None \<and> cl_revision c = rv \<and>
     cr_secret res = Some secret \<and> 8 \<le> length secret \<and> length secret \<le> MAX_SECRET_LEN \<and>
     \<not> secret_clash k (cl_generation c + 1) (ce_fingerprint v secret) (the_tables s) \<and> 0 \<le> seconds \<and>
     the_tables s' = (the_tables s)\<lparr>
      clients := rows_updated (\<lambda>x. cl_id x = k \<and> cl_revision x = rv \<and> cl_revoked_at x = None)
        (bump (rotation (ce_fingerprint v secret) (cl_generation c + 1) now)) (clients (the_tables s)),
      secrets := rows_updated (\<lambda>x. se_client x = k \<and> se_generation x = cl_generation c \<and> se_state x = ACTIVE)
        (superseded now (if seconds = 0 then None else Some (e_clock (ce_env v) (clock_reads s) + seconds)))
        (secrets (the_tables s)) @ [new_secret k (cl_generation c + 1) (ce_fingerprint v secret) now]\<rparr>"
proof -
  have open_ok: "ce_open v n d = Inr d" "e_commit (ce_env v) n = None" for n d
    using assms(1) by (simp_all add: undisturbed_def)
  from assms(2) obtain c where seconds: "0 \<le> seconds" "seconds \<le> 900" and c: "get_client k (the_tables s) = Some c"
    unfolding rotate_client_def
    by (auto simp: bind_Inr throw_Inr client_unit_Inr read_tables_Inr open_ok split: if_splits option.splits)
  define s1 where "s1 = with_tables (the_tables s) (s\<lparr>units := Suc (units s)\<rparr>)"
  have unit: "client_unit v (read_tables (get_client k)) s = (Inr (Some c), s1)"
    by (simp add: client_unit_Inr read_tables_Inr open_ok c s1_def)
  define secret where "secret = ce_secret v (uuid_reads s1)"
  let ?g = "cl_generation c + 1" and ?overlap = "if seconds = 0 then ret None
      else bind (clock (ce_env v)) (\<lambda>now. ret (Some (now + seconds)))"
  from assms(2) seconds obtain path u s2 overlap s3 row s4 tail where
    publish: "publish_secret v path secret (s1\<lparr>uuid_reads := Suc (uuid_reads s1)\<rparr>) = (Inr u, s2)"
    and overlap: "?overlap s2 = (Inr overlap, s3)"
    and rotate: "client_unit v (rotate_row v k rv (ce_fingerprint v secret) ?g overlap) s3 = (Inr row, s4)"
    and rest: "(if seconds \<noteq> 0 then ret () else bind (lift (path_of k (cl_generation c) (cl_storage c))) (unlink_secret v)) s4 = (Inr tail, s')"
    and res: "res = \<lparr>cr_action = ''rotated'', cr_client = row, cr_secret = Some secret\<rparr>"
    unfolding rotate_client_def
    by (simp add: Let_def bind_Inr andthen_Inr lift_Inr ret_Inr draw_secret_Inr cleaning_up_Inr secret_def unit) blast
  have "same_desk (s1\<lparr>uuid_reads := Suc (uuid_reads s1)\<rparr>) s2" "8 \<le> length secret" "length secret \<le> MAX_SECRET_LEN"
    using publish_secret_Inr [OF publish] by simp_all
  then have s2: "the_tables s2 = the_tables s" "clock_reads s2 = clock_reads s"
    by (simp_all add: same_desk_def s1_def with_tables_def)
  have "overlap = (if seconds = 0 then None else Some (e_clock (ce_env v) (clock_reads s) + seconds)) \<and> the_tables s3 = the_tables s"
    using overlap s2 by (auto simp: bind_Inr ret_Inr clock_Inr split: if_splits)
  then have s3: "the_tables s3 = the_tables s"
    and deadline: "overlap = (if seconds = 0 then None else Some (e_clock (ce_env v) (clock_reads s) + seconds))" by simp_all
  have quiet: "guar (on_tables (=)) (if seconds \<noteq> 0 then ret () else bind (lift (path_of k (cl_generation c) (cl_storage c))) (unlink_secret v))"
    by (intro guar_intros)
  have after: "the_tables s' = the_tables s4" using untouchedD [OF quiet, OF rest] .
  from rotate obtain s5 where row: "rotate_row v k rv (ce_fingerprint v secret) ?g overlap s5 = (Inr row, s4)"
    and s5: "the_tables s5 = the_tables s"
    by (auto simp: client_unit_Inr open_ok s3)
  from rotate_row_Inr [OF row] s5 c seconds deadline res after \<open>8 \<le> length secret\<close> \<open>length secret \<le> MAX_SECRET_LEN\<close>
  show ?thesis by (intro exI [of _ c] exI [of _ secret] exI [of _ "e_clock (ce_env v) (clock_reads s5)"]) simp
qed

text \<open>The row of a fingerprint decides.\<close>

lemma secret_decides:
  assumes ok: "tables_ok d" and x: "x \<in> set (secrets d)" and c: "c \<in> set (clients d)" "se_client x = cl_id c"
  shows "matching (se_fingerprint x) (authentication_fingerprints now d) =
    (if ac_enabled (access d) \<and> cl_revoked_at c = None \<and> eligible now x then Some (cl_id c, cl_scopes c) else None)"
proof (cases "ac_enabled (access d) \<and> cl_revoked_at c = None \<and> eligible now x")
  case True
  with x c have "holder now (se_fingerprint x) d c" by (auto simp: holder_def)
  with True matching_holder [OF ok] show ?thesis by simp blast
next
  case False
  have "who = x" if "who \<in> set (secrets d)" "se_fingerprint who = se_fingerprint x" for who
    using ok x that by (auto simp: tables_ok_def distinct_map dest: inj_onD)
  moreover have "c' = c" if "c' \<in> set (clients d)" "cl_id c' = cl_id c" for c'
    using get_client_unique [OF ok] that c(1) by (metis option.inject)
  ultimately have "\<not> (ac_enabled (access d) \<and> holder now (se_fingerprint x) d c')" for c'
    using False c unfolding holder_def by metis
  then have "matching (se_fingerprint x) (authentication_fingerprints now d) \<noteq> Some found" for found
    using matching_holder [OF ok] by blast
  with False show ?thesis by (metis not_None_eq)
qed

lemma others_undisturbed: "undisturbed v \<Longrightarrow> (\<And>d. P d d) \<Longrightarrow> others_write P v"
  by (auto simp: undisturbed_def others_write_def)

text \<open>
  C28 (roundtrip): the secret a rotation returns is the client's from then on, and the one it
  replaces resolves to the client exactly until the overlap that was asked for ends, which is
  at once when none was.
\<close>

theorem rotation_replaces_the_secret:
  fixes s s1 :: "'h desk sys"
  assumes alone: "undisturbed v" and ok: "tables_ok (the_tables s)" and enabled: "ac_enabled (access (the_tables s))"
    and run: "rotate_client v k rv seconds s = (Inr res, s1)"
  shows "\<exists>c secret. get_client k (the_tables s) = Some c \<and> cr_secret res = Some secret \<and>
    (\<forall>s2 :: 'h desk sys. the_tables s2 = the_tables s1 \<longrightarrow>
       fst (authenticate v secret s2) = Inr (Some (k, cl_scopes c)) \<and>
       (\<forall>old. readable old \<and> ce_fingerprint v old = cl_fingerprint c \<longrightarrow>
          fst (authenticate v old s2) = Inr (if seconds \<noteq> 0 \<and>
             e_clock (ce_env v) (clock_reads s2) < e_clock (ce_env v) (clock_reads s) + seconds
           then Some (k, cl_scopes c) else None)))"
proof -
  let ?d = "the_tables s" and ?d1 = "the_tables s1"
  from rotate_client_result [OF alone run] obtain c secret now where c: "get_client k ?d = Some c" "cl_revoked_at c = None" "cl_revision c = rv"
    and secret: "cr_secret res = Some secret" "readable secret"
    and d1: "?d1 = ?d\<lparr>
      clients := rows_updated (\<lambda>x. cl_id x = k \<and> cl_revision x = rv \<and> cl_revoked_at x = None)
        (bump (rotation (ce_fingerprint v secret) (cl_generation c + 1) now)) (clients ?d),
      secrets := rows_updated (\<lambda>x. se_client x = k \<and> se_generation x = cl_generation c \<and> se_state x = ACTIVE)
        (superseded now (if seconds = 0 then None else Some (e_clock (ce_env v) (clock_reads s) + seconds)))
        (secrets ?d) @ [new_secret k (cl_generation c + 1) (ce_fingerprint v secret) now]\<rparr>"
    unfolding readable_def by force
  let ?c = "bump (rotation (ce_fingerprint v secret) (cl_generation c + 1) now) c"
  have open_ok: "ce_open v n d = Inr d" "e_commit (ce_env v) n = None" for n d
    using alone by (simp_all add: undisturbed_def)
  have keep: "others_write (\<lambda>d d'. tables_ok d \<longrightarrow> tables_ok d') v" using alone by (rule others_undisturbed) simp
  have ok1: "tables_ok ?d1"
    using guarD [OF well_formed.guar_commands(3) [OF keep] run] ok by (simp add: on_tables_def)
  have id: "c \<in> set (clients ?d)" "cl_id c = k" using c(1) by (auto dest: get_client_id get_client_mem)
  let ?row = "\<lambda>x. if cl_id x = k \<and> cl_revision x = rv \<and> cl_revoked_at x = None
      then bump (rotation (ce_fingerprint v secret) (cl_generation c + 1) now) x else x"
  have "?row c \<in> set (clients ?d1)" using id(1) by (simp add: d1 set_rows_updated)
  moreover have "?row c = ?c" using id c by simp
  ultimately have c1: "?c \<in> set (clients ?d1)" by (simp only:)
  have c1_facts: "cl_id ?c = k" "cl_scopes ?c = cl_scopes c" "cl_revoked_at ?c = None"
    using id c by (simp_all add: bump_def rotation_def)
  have on: "ac_enabled (access ?d1)" using enabled by (simp add: d1)
  let ?new = "new_secret k (cl_generation c + 1) (ce_fingerprint v secret) now"
  have new: "matching (ce_fingerprint v secret) (authentication_fingerprints t ?d1) = Some (k, cl_scopes c)" for t
    using secret_decides [OF ok1, of ?new ?c] c1 c1_facts on by (simp add: d1 new_secret_def eligible_iff)
  obtain x where x: "x \<in> set (secrets ?d)" "is_current c x"
    using ok id(1) c(2) by (auto simp: tables_ok_def)
  let ?x = "superseded now (if seconds = 0 then None else Some (e_clock (ce_env v) (clock_reads s) + seconds)) x"
  let ?old = "\<lambda>x. if se_client x = k \<and> se_generation x = cl_generation c \<and> se_state x = ACTIVE then
      superseded now (if seconds = 0 then None else Some (e_clock (ce_env v) (clock_reads s) + seconds)) x else x"
  have "?old x \<in> set (secrets ?d1)" using x(1) by (simp add: d1 set_rows_updated)
  moreover have "?old x = ?x" using x(2) id by (simp add: is_current_def)
  ultimately have x1: "?x \<in> set (secrets ?d1)" by (simp only:)
  have x1_facts: "se_client ?x = cl_id ?c" "se_fingerprint ?x = cl_fingerprint c"
    using x(2) id c1_facts by (simp_all add: is_current_def superseded_def)
  have old: "matching (cl_fingerprint c) (authentication_fingerprints t ?d1) =
     (if seconds \<noteq> 0 \<and> t < e_clock (ce_env v) (clock_reads s) + seconds then Some (k, cl_scopes c) else None)" for t
    using secret_decides [OF ok1 x1 c1 x1_facts(1)] c1_facts on unfolding x1_facts(2)
    by (simp add: eligible_iff superseded_def)
  show ?thesis
  proof (intro exI conjI allI impI)
    show "get_client k ?d = Some c" "cr_secret res = Some secret" by fact+
    fix s2 :: "'h desk sys" assume s2: "the_tables s2 = ?d1"
    note auth = authenticate_run [OF open_ok(1) open_ok(2), of _ s2, unfolded s2]
    show "fst (authenticate v secret s2) = Inr (Some (k, cl_scopes c))"
      using auth secret(2) new by simp
    fix old assume "readable old \<and> ce_fingerprint v old = cl_fingerprint c"
    then show "fst (authenticate v old s2) = Inr (if seconds \<noteq> 0 \<and>
             e_clock (ce_env v) (clock_reads s2) < e_clock (ce_env v) (clock_reads s) + seconds
           then Some (k, cl_scopes c) else None)"
      using auth old by simp
  qed
qed

section \<open>A rotation that dies between its file and its commit\<close>

text \<open>The file of the next generation is there and the tables do not know it.\<close>

definition stranded :: "ident \<Rightarrow> 'h desk sys \<Rightarrow> bool" where
  "stranded k s \<longleftrightarrow> (\<exists>c. get_client k (the_tables s) = Some c \<and>
     secret_files (world s) (ClientFile k (cl_generation c + 1)) \<noteq> None)"

definition quiet_disk :: "client_env \<Rightarrow> bool" where
  "quiet_disk v \<longleftrightarrow> (\<forall>n files. ce_disk v n files = files)"

lemma on_files_quiet: "quiet_disk v \<Longrightarrow> on_files v f s =
   (fst (f (file_ops (world s)) (secret_files (world s))),
    s\<lparr>world := (world s)\<lparr>secret_files := snd (f (file_ops (world s)) (secret_files (world s))),
      file_ops := Suc (file_ops (world s))\<rparr>\<rparr>)"
  by (simp add: on_files_def quiet_disk_def split: prod.split)

lemma path_of_managed: "path_of k g ''managed'' = Inr path \<Longrightarrow> path = ClientFile k g"
  by (auto simp: path_of_def validate_client_id_def requires_valid_def sum_bind_def split: if_splits)

lemma publish_over_file:
  assumes "quiet_disk v" and "secret_files (world s) path \<noteq> None"
  shows "\<exists>e s'. publish_secret v path secret s = (Inl e, s') \<and> the_tables s' = the_tables s \<and>
     secret_files (world s') = secret_files (world s)"
proof -
  have dir: "ensure_secret_dir v s = (case ce_dir v (file_ops (world s)) of Some e \<Rightarrow> Inl e | None \<Rightarrow> Inr (),
      s\<lparr>world := (world s)\<lparr>file_ops := Suc (file_ops (world s))\<rparr>\<rparr>)"
    by (simp add: ensure_secret_dir_def on_files_quiet [OF assms(1)])
  show ?thesis
    using assms(2) unfolding publish_secret_def
    by (cases "ce_dir v (file_ops (world s))")
      (auto simp: prog_simps dir on_files_quiet [OF assms(1)])
qed

lemma stranded_rotation:
  assumes "undisturbed v" and "quiet_disk v" and "stranded k s"
  shows "\<exists>e s'. rotate_client v k rv seconds s = (Inl e, s') \<and> stranded k s'"
proof -
  from assms(3) obtain c where c: "get_client k (the_tables s) = Some c"
    and there: "secret_files (world s) (ClientFile k (cl_generation c + 1)) \<noteq> None"
    by (auto simp: stranded_def)
  define s1 where "s1 = with_tables (the_tables s) (s\<lparr>units := Suc (units s)\<rparr>)"
  have unit: "client_unit v (read_tables (get_client k)) s = (Inr (Some c), s1)"
    using assms(1) by (simp add: client_unit_Inr read_tables_Inr undisturbed_def c s1_def)
  let ?s2 = "s1\<lparr>uuid_reads := Suc (uuid_reads s1)\<rparr>" and ?secret = "ce_secret v (uuid_reads s1)"
  have draw: "draw_secret v s1 = (Inr ?secret, ?s2)" by (simp add: draw_secret_def)
  have s2: "the_tables ?s2 = the_tables s" "secret_files (world ?s2) = secret_files (world s)"
    by (simp_all add: s1_def with_tables_def)
  show ?thesis
  proof (cases "path_of k (cl_generation c + 1) ''managed''")
    case (Inl e)
    with unit draw s2 c there show ?thesis
      by (auto simp: rotate_client_def prog_simps Let_def stranded_def)
  next
    case (Inr path)
    then have path: "path = ClientFile k (cl_generation c + 1)" by (rule path_of_managed)
    obtain e s3 where publish: "publish_secret v path ?secret ?s2 = (Inl e, s3)"
        "the_tables s3 = the_tables s" "secret_files (world s3) = secret_files (world s)"
      using publish_over_file [OF assms(2), of ?s2 path ?secret] there s2 path by auto
    from unit draw c there Inr publish show ?thesis
      by (auto simp: rotate_client_def prog_simps Let_def stranded_def)
  qed
qed

definition rotations :: "client_env \<Rightarrow> ident \<Rightarrow> (int \<times> int) list \<Rightarrow> ('h, unit) desk_prog" where
  "rotations v k attempts = foreach attempts (\<lambda>(rv, seconds). forgotten (rotate_client v k rv seconds))"

lemma stranded_rotations:
  "undisturbed v \<Longrightarrow> quiet_disk v \<Longrightarrow> stranded k s \<Longrightarrow> stranded k (snd (rotations v k attempts s))"
proof (induction attempts arbitrary: s)
  case (Cons a attempts)
  obtain rv seconds where a: "a = (rv, seconds)" by fastforce
  obtain e s' where "rotate_client v k rv seconds s = (Inl e, s')" "stranded k s'"
    using stranded_rotation [OF Cons.prems] by blast
  with Cons.IH [OF Cons.prems(1,2) this(2)] show ?case
    by (simp add: rotations_def a prog_simps forgotten_def handle_def)
qed (simp add: rotations_def prog_simps)

definition writes_work :: "client_env \<Rightarrow> bool" where
  "writes_work v \<longleftrightarrow> (\<forall>n. ce_dir v n = None) \<and> (\<forall>n t. ce_write v n t = None)"

lemma publish_run:
  assumes "quiet_disk v" and "writes_work v" and "publish_secret v path secret s = (r, s')"
  shows "r = Inl credential_error \<or> r = Inl (python_error ''FileExistsError'') \<or>
    (r = Inr () \<and> the_tables s' = the_tables s \<and> secret_files (world s') path \<noteq> None)"
proof -
  have dir: "ensure_secret_dir v s = (Inr (), s\<lparr>world := (world s)\<lparr>file_ops := Suc (file_ops (world s))\<rparr>\<rparr>)"
    using assms(2) by (simp add: ensure_secret_dir_def on_files_quiet [OF assms(1)] writes_work_def)
  show ?thesis
    using assms(2,3) unfolding publish_secret_def writes_work_def
    by (auto simp: prog_simps dir on_files_quiet [OF assms(1)] split: if_splits)
qed

lemma client_unit_Inl:
  assumes "client_unit v body s = (Inl e, s')" and "\<And>n d. ce_open v n d = Inr d"
  shows "the_tables s' = the_tables s"
  using assms by (auto simp: client_unit_def Let_def split: sum.splits option.splits prod.splits)

definition files_kept :: "'h desk sys \<Rightarrow> 'h desk sys \<Rightarrow> bool" where
  "files_kept s s' \<longleftrightarrow> secret_files (world s') = secret_files (world s)"

interpretation kept_files: flow files_kept
  by unfold_locales (auto simp: files_kept_def)

lemma files_kept_basics [guar_intros]:
  "guar files_kept (read_tables f)" "guar files_kept (write_tables g)" "guar files_kept (clock e)"
  by (simp_all add: guar_def files_kept_def read_tables_def write_tables_def clock_def with_tables_def)

lemma rotate_row_files [guar_intros]: "guar files_kept (rotate_row v k rv fp g overlap)"
  unfolding rotate_row_def current_client_def insert_secret_def update_client_def by (intro guar_intros)

lemma client_unit_files:
  assumes "guar files_kept body"
  shows "guar files_kept (client_unit v body)"
proof (rule guarI)
  fix s r s' assume "client_unit v body s = (r, s')"
  then show "files_kept s s'"
    by (auto simp: client_unit_def Let_def files_kept_def with_tables_def
        dest!: guarD [OF assms] split: sum.splits option.splits prod.splits)
qed

lemma dead_rotation:
  assumes opens: "\<And>n d. ce_open v n d = Inr d" and alive: "e_commit (ce_env v) (units s) = None"
    and disk: "quiet_disk v" "writes_work v"
    and run: "rotate_client v k rv seconds s = (Inl ProcessDeath, s1)"
  shows "the_tables s1 = the_tables s \<and> stranded k s1"
proof -
  have no: "credential_error \<noteq> ProcessDeath" "repository_conflict \<noteq> ProcessDeath"
    "python_error c \<noteq> ProcessDeath" for c
    by (simp_all add: credential_error_def repository_conflict_def python_error_def)
  define sa where "sa = with_tables (the_tables s) (s\<lparr>units := Suc (units s)\<rparr>)"
  have unit: "client_unit v (read_tables (get_client k)) s = (Inr (get_client k (the_tables s)), sa)"
    using opens alive by (simp add: client_unit_Inr read_tables_Inr sa_def)
  let ?sb = "sa\<lparr>uuid_reads := Suc (uuid_reads sa)\<rparr>" and ?secret = "ce_secret v (uuid_reads sa)"
  have draw: "draw_secret v sa = (Inr ?secret, ?sb)" by (simp add: draw_secret_def)
  have seconds: "0 \<le> seconds" "seconds \<le> 900" using run no(1)
    by (auto simp: rotate_client_def prog_simps split: if_splits)
  obtain c where c: "get_client k (the_tables s) = Some c"
    using run no(2) seconds unit by (cases "get_client k (the_tables s)") (auto simp: rotate_client_def prog_simps)
  let ?g = "cl_generation c + 1"
  obtain path where path: "path_of k ?g ''managed'' = Inr path"
    using run no(1) seconds unit c draw
    by (cases "path_of k ?g ''managed''")
      (auto simp: rotate_client_def prog_simps Let_def path_of_def sum_bind_def validate_client_id_def requires_valid_def split: if_splits)
  have at: "path = ClientFile k ?g" using path by (rule path_of_managed)
  obtain q s2 where publish: "publish_secret v path ?secret ?sb = (q, s2)"
    by (cases "publish_secret v path ?secret ?sb")
  have start: "rotate_client v k rv seconds s = (case q of Inl e \<Rightarrow> (Inl e, s2) | Inr u \<Rightarrow>
     bind (if seconds = 0 then ret None else bind (clock (ce_env v)) (\<lambda>now. ret (Some (now + seconds)))) (\<lambda>overlap.
       bind (cleaning_up (client_unit v (rotate_row v k rv (ce_fingerprint v ?secret) ?g overlap)) (unlink_secret v path)) (\<lambda>changed.
         andthen (if seconds \<noteq> 0 then ret () else bind (lift (path_of k (cl_generation c) (cl_storage c))) (unlink_secret v))
          (ret \<lparr>cr_action = ''rotated'', cr_client = changed, cr_secret = Some ?secret\<rparr>))) s2)"
    using seconds unit c draw path publish by (simp add: rotate_client_def prog_simps Let_def split: sum.split)
  from publish_run [OF disk publish] start run no no [symmetric] have q: "q = Inr ()"
    and s2: "the_tables s2 = the_tables ?sb" "secret_files (world s2) path \<noteq> None" by auto
  define overlap where "overlap = (if seconds = 0 then None else Some (e_clock (ce_env v) (clock_reads s2) + seconds))"
  define s3 where "s3 = (if seconds = 0 then s2 else s2\<lparr>clock_reads := Suc (clock_reads s2)\<rparr>)"
  have clock: "(if seconds = 0 then ret None else bind (clock (ce_env v)) (\<lambda>now. ret (Some (now + seconds)))) s2 = (Inr overlap, s3)"
    by (simp add: overlap_def s3_def prog_simps clock_def)
  let ?unit = "client_unit v (rotate_row v k rv (ce_fingerprint v ?secret) ?g overlap)"
  obtain q3 s4 where rotate: "?unit s3 = (q3, s4)" by (cases "?unit s3")
  have tail: "fst (bind (lift (path_of k (cl_generation c) (cl_storage c))) (unlink_secret v) x) \<noteq> Inl ProcessDeath" for x
    using no(1) by (auto simp: prog_simps unlink_secret_def on_files_def path_of_def sum_bind_def validate_client_id_def requires_valid_def)
  have cleanup: "fst (unlink_secret v path x) = Inr ()" for x
    by (simp add: unlink_secret_def on_files_def split: prod.split)
  have dead: "q3 = Inl ProcessDeath \<and> s1 = s4"
  proof (cases q3)
    case (Inl e)
    then show ?thesis
      using run start q clock rotate cleanup [of s4]
      by (cases "is_exception e")
        (auto simp: bind_run cleaning_up_def handle_def prog_simps is_exception_def split: prod.splits sum.splits)
  next
    case (Inr row)
    then show ?thesis
      using run start q clock rotate tail [of s4]
      by (auto simp: bind_run cleaning_up_def handle_def prog_simps split: prod.splits sum.splits if_splits)
  qed
  then have "the_tables s4 = the_tables s3" using client_unit_Inl [OF _ opens] rotate by blast
  moreover have "the_tables s3 = the_tables s" using s2(1) by (simp add: s3_def sa_def)
  moreover have "secret_files (world s4) = secret_files (world s3)"
    using guarD [OF client_unit_files [OF rotate_row_files] rotate] by (simp add: files_kept_def)
  moreover have "secret_files (world s3) path \<noteq> None" using s2(2) by (simp add: s3_def)
  ultimately show ?thesis using dead c at by (auto simp: stranded_def)
qed

text \<open>
  C37 (error): a rotation whose process dies between writing the file of the new secret and
  its commit blocks the client: the tables are unchanged, and however often the rotation is
  tried again, it raises, since the file it would write exists.
\<close>

theorem dead_rotation_blocks_the_client:
  assumes "\<And>n d. ce_open v n d = Inr d" and "e_commit (ce_env v) (units s) = None"
    and "quiet_disk v" and "writes_work v"
    and "rotate_client v k rv seconds s = (Inl ProcessDeath, s1)"
    and "undisturbed v'" and "quiet_disk v'"
  shows "the_tables s1 = the_tables s \<and>
    (\<exists>e. fst (rotate_client v' k rv' seconds' (snd (rotations v' k attempts s1))) = Inl e)"
proof -
  note dead = dead_rotation [OF assms(1-5)]
  have "stranded k (snd (rotations v' k attempts s1))"
    using stranded_rotations [OF assms(6,7)] dead by blast
  then obtain e s2 where "rotate_client v' k rv' seconds' (snd (rotations v' k attempts s1)) = (Inl e, s2)"
    using stranded_rotation [OF assms(6,7)] by blast
  with dead show ?thesis by simp
qed

end
