(* ===== verification/Gateway_Facts.thy ===== *)
theory Gateway_Facts
  imports Gateway Client_Promises
begin

text \<open>
  The gateway's memory under its own operations. Part one is the interface: a relation on the
  memory that the limiter, the audit and a call of the backend keep is kept by every request.
  Part two is the arithmetic of the limiter: its rows stay within their bounds, and a slot
  that is taken is given back.
\<close>

section \<open>Relations on the memory\<close>

abbreviation the_gate :: "'h gate desk sys \<Rightarrow> 'h gate" where
  "the_gate s \<equiv> beyond (world s)"

definition on_gate :: "('h gate \<Rightarrow> 'h gate \<Rightarrow> bool) \<Rightarrow> 'h gate desk sys \<Rightarrow> 'h gate desk sys \<Rightarrow> bool" where
  "on_gate G s s' \<longleftrightarrow> G (the_gate s) (the_gate s')"

lemma guar_weaken: "guar R m \<Longrightarrow> (\<And>s s'. R s s' \<Longrightarrow> R' s s') \<Longrightarrow> guar R' m"
  by (auto simp: guar_def)

text \<open>What is under the gateway does not touch its memory.\<close>

definition beyond_kept :: "'h desk sys \<Rightarrow> 'h desk sys \<Rightarrow> bool" where
  "beyond_kept s s' \<longleftrightarrow> beyond (world s') = beyond (world s)"

interpretation under: flow beyond_kept
  by unfold_locales (auto simp: beyond_kept_def)

lemma beyond_kept_basics [guar_intros]:
  "guar beyond_kept (read_tables f)" "guar beyond_kept (write_tables h)" "guar beyond_kept (clock e)"
  "guar beyond_kept (uuid_factory e)"
  by (simp_all add: guar_def beyond_kept_def read_tables_def write_tables_def clock_def uuid_factory_def with_tables_def)

lemma beyond_kept_unit [guar_intros]:
  assumes "guar beyond_kept body"
  shows "guar beyond_kept (client_unit v body)"
proof (rule guarI)
  fix s r s' assume "client_unit v body s = (r, s')"
  then show "beyond_kept s s'"
    by (auto simp: client_unit_def Let_def beyond_kept_def with_tables_def
        dest!: guarD [OF assms] split: sum.splits option.splits prod.splits)
qed

lemma beyond_kept_client [guar_intros]:
  "guar beyond_kept (authenticate v presented)" "guar beyond_kept (record_use v k endpoint)"
proof -
  show "guar beyond_kept (authenticate v presented)"
    unfolding authenticate_def by (intro guar_intros)
  show "guar beyond_kept (record_use v k endpoint)"
    unfolding record_use_def record_use_row_def update_client_def
    by (intro under.guar_handle guar_intros) (auto intro: guar_intros split: if_splits)
qed

locale gate_frame =
  fixes G :: "'h gate \<Rightarrow> 'h gate \<Rightarrow> bool"
  assumes G_quiet: "limiter m' = limiter m \<Longrightarrow> audit_log m' = audit_log m \<Longrightarrow> upstream m' = upstream m \<Longrightarrow> G m m'"
    and G_trans: "G m m' \<Longrightarrow> G m' m'' \<Longrightarrow> G m m''"

sublocale gate_frame \<subseteq> flow "on_gate G"
  by unfold_locales (auto simp: on_gate_def intro: G_quiet G_trans)

context gate_frame
begin

lemma guar_beyond: "guar beyond_kept m \<Longrightarrow> guar (on_gate G) m"
  by (erule guar_weaken) (simp add: beyond_kept_def on_gate_def G_quiet)

lemma guar_basics [guar_intros]:
  "guar (on_gate G) (read_gate f)" "guar (on_gate G) (outside h)" "guar (on_gate G) (monotonic g)"
  "guar (on_gate G) (uuid_factory e)" "guar (on_gate G) (authenticate v presented)"
  "guar (on_gate G) (record_use v k endpoint)"
proof -
  show "guar (on_gate G) (read_gate f)" by (simp add: guar_def read_gate_def on_gate_def G_quiet)
  show "guar (on_gate G) (outside h)" by (auto simp: guar_def outside_def on_gate_def intro: G_quiet split: prod.split)
  show "guar (on_gate G) (monotonic g)"
    by (auto simp: guar_def monotonic_def read_gate_def write_gate_def on_gate_def prog_simps intro: G_quiet)
qed (intro guar_beyond guar_intros)+

lemma guar_identify [guar_intros]: "guar (on_gate G) (identify g presented)" "guar (on_gate G) (request_id_of g)"
  "guar (on_gate G) (record_gateway_use g caller scope)"
  unfolding identify_def single_is_valid_def request_id_of_def record_gateway_use_def by (intro guar_intros)+

lemma guar_authorize [guar_intros]: "guar (on_gate G) (authorize g path body header_bytes presented)"
  unfolding authorize_def by (intro guar_intros)

end

lemma guar_case_body:
  "(\<And>body. guar R (f body)) \<Longrightarrow> guar R m \<Longrightarrow> guar R n \<Longrightarrow>
    guar R (case x of BodyRead body \<Rightarrow> f body | BodyTooLarge \<Rightarrow> m | BodyInvalid \<Rightarrow> n)"
  by (cases x) simp_all

text \<open>
  What the limiter and the audit keep, the work before and after a call keeps; what a call of
  the backend keeps as well, a whole request keeps.
\<close>

locale gate_work = gate_frame G for G :: "'h gate \<Rightarrow> 'h gate \<Rightarrow> bool" +
  fixes g :: "'h gate_env"
  assumes audits [guar_intros]: "guar (on_gate G) (audit_record g actor scope request_id method path outcome status)"
    and checks [guar_intros]: "guar (on_gate G) (rate_check g k)"
    and releases [guar_intros]: "guar (on_gate G) (rate_release g k)"
    and charges [guar_intros]: "guar (on_gate G) (charge_tokens g k amount)"
begin

lemma guar_prepare [guar_intros]:
  "guar (on_gate G) (prepare_request g request_id client method path header_bytes body presented)"
  unfolding prepare_request_def refuse_def reserve_def Let_def by (intro guar_intros)

lemma guar_finish [guar_intros]: "guar (on_gate G) (finish_request g p request_id method path outcome status)"
  unfolding finish_request_def by (intro guar_intros)

end

locale gate_promise = gate_work G g for G :: "'h gate \<Rightarrow> 'h gate \<Rightarrow> bool" and g :: "'h gate_env" +
  assumes called: "G m (m\<lparr>upstream := upstream m @ [c]\<rparr>)"
begin

lemma guar_call [guar_intros]: "guar (on_gate G) (write_gate (\<lambda>m. m\<lparr>upstream := upstream m @ [c]\<rparr>))"
  by (simp add: guar_def write_gate_def on_gate_def called)

lemma guar_open [guar_intros]: "guar (on_gate G) (open_backend_stream g caller method path body)"
  unfolding open_backend_stream_def Let_def by (intro guar_intros)

lemma guar_forwarded [guar_intros]: "guar (on_gate G) (forwarded g caller request_id method path body)"
  unfolding forwarded_def proxy_request_def by (intro guar_intros)

lemma guar_requests [guar_intros]:
  "guar (on_gate G) (handle_request g request_id client method path header_bytes body presented)"
  "guar (on_gate G) (run_stream g request_id client method path header_bytes body presented)"
  unfolding handle_request_def run_stream_def Let_def by (intro guar_intros)+

lemma guar_serve [guar_intros]: "guar (on_gate G) (serve g rq)"
  unfolding serve_def buffered_def by (intro guar_case_body guar_intros)

end

section \<open>The rows of the limiter\<close>

definition rate_ok :: "client_rate \<Rightarrow> bool" where
  "rate_ok r \<longleftrightarrow> 0 \<le> ra_inflight r \<and> ra_inflight r \<le> MAX_CONCURRENT \<and> 0 \<le> ra_count r \<and>
     ra_count r \<le> MAX_REQUEST_RATE \<and> ra_tokens r \<le> CLIENT_TOKEN_ALLOWANCE"

definition rates_ok :: "(pystr \<times> client_rate) list \<Rightarrow> bool" where
  "rates_ok rows \<longleftrightarrow> distinct (map fst rows) \<and> length rows \<le> MAX_RATE_CLIENTS \<and> (\<forall>(k, r)\<in>set rows. rate_ok r)"

definition inflight :: "(pystr \<times> client_rate) list \<Rightarrow> pystr \<Rightarrow> int" where
  "inflight rows k = (case map_of rows k of None \<Rightarrow> 0 | Some r \<Rightarrow> ra_inflight r)"

lemmas limits = MAX_CONCURRENT_def MAX_REQUEST_RATE_def CLIENT_TOKEN_ALLOWANCE_def

lemma rates_ok_row: "rates_ok rows \<Longrightarrow> map_of rows k = Some r \<Longrightarrow> rate_ok r"
  unfolding rates_ok_def by (auto dest: map_of_SomeD)

lemma inflight_bounds: "rates_ok rows \<Longrightarrow> 0 \<le> inflight rows k \<and> inflight rows k \<le> MAX_CONCURRENT"
  by (auto simp: inflight_def rate_ok_def limits dest: rates_ok_row split: option.split)

lemma subseq_subset: "subseq kept rows \<Longrightarrow> set kept \<subseteq> set rows"
  by (auto elim: list_emb_set)

lemma rates_ok_subseq: "rates_ok rows \<Longrightarrow> subseq kept rows \<Longrightarrow> rates_ok kept"
proof -
  assume ok: "rates_ok rows" and sub: "subseq kept rows"
  have "subseq (map fst kept) (map fst rows)" using sub by (rule subseq_map)
  then have "distinct (map fst kept)" using ok subseq_conv_nths [of "map fst kept"] by (auto simp: rates_ok_def distinct_nthsI)
  moreover have "length kept \<le> length rows" using sub by (rule list_emb_length)
  moreover have "set kept \<subseteq> set rows" using sub by (rule subseq_subset)
  ultimately show "rates_ok kept" using ok by (auto simp: rates_ok_def)
qed

lemma rates_ok_update:
  assumes "rates_ok rows" and "rate_ok r" and "map_of rows k = Some r0"
  shows "rates_ok (AList.update k r rows)" and "inflight (AList.update k r rows) = (inflight rows)(k := ra_inflight r)"
proof -
  have k: "k \<in> fst ` set rows" using assms(3) by (metis fst_conv image_eqI map_of_SomeD)
  have "length (AList.update k r rows) = length rows" using k by (induction rows) auto
  moreover have "set (AList.update k r rows) \<subseteq> insert (k, r) (set rows)" by (induction rows) auto
  ultimately show "rates_ok (AList.update k r rows)"
    using assms(1,2) by (fastforce simp: rates_ok_def distinct_update)
  show "inflight (AList.update k r rows) = (inflight rows)(k := ra_inflight r)"
    by (rule ext) (simp add: inflight_def update_conv')
qed

text \<open>A limiter program: whatever it does to the rows, the rest of the observed memory stays.\<close>

definition on_rates :: "((pystr \<times> client_rate) list \<Rightarrow> exn + 'a \<Rightarrow> (pystr \<times> client_rate) list \<Rightarrow> bool) \<Rightarrow>
    ('h, 'a) gate_prog \<Rightarrow> bool" where
  "on_rates S m \<longleftrightarrow> (\<forall>s q s'. m s = (q, s') \<longrightarrow>
     audit_log (the_gate s') = audit_log (the_gate s) \<and> upstream (the_gate s') = upstream (the_gate s) \<and>
     (rates_ok (limiter (the_gate s)) \<longrightarrow> rates_ok (limiter (the_gate s')) \<and> S (limiter (the_gate s)) q (limiter (the_gate s'))))"

lemma on_ratesD:
  "on_rates S m \<Longrightarrow> m s = (q, s') \<Longrightarrow> rates_ok (limiter (the_gate s)) \<Longrightarrow>
     rates_ok (limiter (the_gate s')) \<and> S (limiter (the_gate s)) q (limiter (the_gate s'))"
  "on_rates S m \<Longrightarrow> m s = (q, s') \<Longrightarrow>
     audit_log (the_gate s') = audit_log (the_gate s) \<and> upstream (the_gate s') = upstream (the_gate s)"
  by (auto simp: on_rates_def)

lemma on_rates_bind:
  assumes "on_rates S m" and "\<And>x. on_rates (T x) (f x)"
    and "\<And>rows e rows'. S rows (Inl e) rows' \<Longrightarrow> U rows (Inl e) rows'"
    and "\<And>rows x rows' q rows''. rates_ok rows' \<Longrightarrow> S rows (Inr x) rows' \<Longrightarrow> T x rows' q rows'' \<Longrightarrow> U rows q rows''"
  shows "on_rates U (bind m f)"
  unfolding on_rates_def
proof (intro allI impI)
  fix s q s' assume run: "bind m f s = (q, s')"
  obtain p s1 where m: "m s = (p, s1)" by (cases "m s")
  show "audit_log (the_gate s') = audit_log (the_gate s) \<and> upstream (the_gate s') = upstream (the_gate s) \<and>
     (rates_ok (limiter (the_gate s)) \<longrightarrow> rates_ok (limiter (the_gate s')) \<and> U (limiter (the_gate s)) q (limiter (the_gate s')))"
  proof (cases p)
    case (Inl e)
    with run m on_ratesD [OF assms(1) m] assms(3) show ?thesis by (auto simp: bind_def)
  next
    case (Inr x)
    with run m have f: "f x s1 = (q, s')" by (simp add: bind_def)
    with m Inr on_ratesD [OF assms(1) m] on_ratesD [OF assms(2) f] assms(4) show ?thesis by auto
  qed
qed

lemma monotonic_gate: "monotonic g s = (Inr (ga_now g (monotonic_reads (the_gate s))),
    s\<lparr>world := (world s)\<lparr>beyond := (the_gate s)\<lparr>monotonic_reads := Suc (monotonic_reads (the_gate s))\<rparr>\<rparr>\<rparr>)"
  by (simp add: monotonic_def read_gate_def write_gate_def prog_simps)

lemma retained_rates_result:
  assumes "retained_rates g rows s = (q, s')"
  shows "\<exists>kept n. q = Inr kept \<and> the_gate s' = (the_gate s)\<lparr>monotonic_reads := n\<rparr> \<and> subseq kept rows \<and>
    (\<forall>(k, r)\<in>set rows. ra_inflight r \<noteq> 0 \<longrightarrow> (k, r) \<in> set kept)"
  using assms
proof (induction rows arbitrary: q s s')
  case Nil
  then show ?case by (auto simp: prog_simps intro!: exI [of _ "monotonic_reads (the_gate s)"])
next
  case (Cons row rows)
  obtain k r where row: "row = (k, r)" by fastforce
  show ?case
  proof (cases "ra_inflight r = 0")
    case True
    let ?s = "snd (monotonic g s)"
    obtain q1 s1 where rest: "retained_rates g rows ?s = (q1, s1)" by (cases "retained_rates g rows ?s")
    from Cons.IH [OF this] obtain kept n where "q1 = Inr kept" "the_gate s1 = (the_gate ?s)\<lparr>monotonic_reads := n\<rparr>"
        "subseq kept rows" "\<forall>(k, r)\<in>set rows. ra_inflight r \<noteq> 0 \<longrightarrow> (k, r) \<in> set kept" by blast
    with Cons.prems rest True show ?thesis
      by (auto simp: row prog_simps monotonic_gate split: if_splits)
  next
    case False
    obtain q1 s1 where rest: "retained_rates g rows s = (q1, s1)" by (cases "retained_rates g rows s")
    from Cons.IH [OF this] obtain kept n where "q1 = Inr kept" "the_gate s1 = (the_gate s)\<lparr>monotonic_reads := n\<rparr>"
        "subseq kept rows" "\<forall>(k, r)\<in>set rows. ra_inflight r \<noteq> 0 \<longrightarrow> (k, r) \<in> set kept" by blast
    with Cons.prems rest False show ?thesis
      by (auto simp: row prog_simps)
  qed
qed

lemma inflight_retained:
  assumes "rates_ok rows" and "subseq kept rows" and "\<forall>(k, r)\<in>set rows. ra_inflight r \<noteq> 0 \<longrightarrow> (k, r) \<in> set kept"
  shows "inflight kept = inflight rows"
proof
  fix k
  have dist: "distinct (map fst rows)" "distinct (map fst kept)"
    using assms(1) rates_ok_subseq [OF assms(1,2)] by (auto simp: rates_ok_def)
  have from_kept: "map_of rows k = Some r" if "map_of kept k = Some r" for r
    using that dist list_emb_set [OF assms(2)] by (auto simp: map_of_eq_Some_iff)
  show "inflight kept k = inflight rows k"
  proof (cases "map_of rows k")
    case None
    then show ?thesis using from_kept by (cases "map_of kept k") (auto simp: inflight_def)
  next
    case (Some r)
    show ?thesis
    proof (cases "ra_inflight r = 0")
      case True
      then show ?thesis using from_kept Some by (cases "map_of kept k") (auto simp: inflight_def)
    next
      case False
      with Some assms(3) dist have "map_of kept k = Some r" by (fastforce simp: map_of_eq_Some_iff)
      with Some show ?thesis by (simp add: inflight_def)
    qed
  qed
qed

section \<open>Admission, release and charge\<close>

lemma fresh_rate_ok: "rate_ok (fresh_rate now)"
  by (simp add: rate_ok_def fresh_rate_def limits)

lemma rates_ok_fresh:
  assumes "rates_ok rows" and "map_of rows k = None" and "length rows < MAX_RATE_CLIENTS"
  shows "rates_ok (rows @ [(k, fresh_rate now)])" and "inflight (rows @ [(k, fresh_rate now)]) = inflight rows"
    and "map_of (rows @ [(k, fresh_rate now)]) k = Some (fresh_rate now)"
proof -
  show "rates_ok (rows @ [(k, fresh_rate now)])"
    using assms by (auto simp: rates_ok_def fresh_rate_ok map_of_eq_None_iff)
  show "inflight (rows @ [(k, fresh_rate now)]) = inflight rows"
    using assms(2) by (auto simp: inflight_def map_add_def fresh_rate_def split: option.split)
  show "map_of (rows @ [(k, fresh_rate now)]) k = Some (fresh_rate now)"
    using assms(2) by (simp add: map_add_def)
qed

definition found_row :: "pystr \<Rightarrow> (pystr \<times> client_rate) list \<Rightarrow> exn + client_rate \<Rightarrow> (pystr \<times> client_rate) list \<Rightarrow> bool" where
  "found_row k rows q rows' \<longleftrightarrow> inflight rows' = inflight rows \<and>
     (case q of Inr r \<Rightarrow> map_of rows' k = Some r | Inl e \<Rightarrow> e = admission_limit \<and> map_of rows k = None)"

lemma rate_row_finds: "on_rates (found_row k) (rate_row g k)"
  unfolding on_rates_def
proof (intro allI impI)
  fix s q s' assume run: "rate_row g k s = (q, s')"
  let ?rows = "limiter (the_gate s)"
  show "audit_log (the_gate s') = audit_log (the_gate s) \<and> upstream (the_gate s') = upstream (the_gate s) \<and>
     (rates_ok ?rows \<longrightarrow> rates_ok (limiter (the_gate s')) \<and> found_row k ?rows q (limiter (the_gate s')))"
  proof (cases "map_of ?rows k")
    case (Some r)
    with run show ?thesis by (auto simp: rate_row_def prog_simps read_gate_def found_row_def)
  next
    case None
    show ?thesis
    proof (cases "length ?rows < MAX_RATE_CLIENTS")
      case True
      let ?now = "ga_now g (monotonic_reads (the_gate s))"
      have q: "q = Inr (fresh_rate ?now)"
        and gate: "the_gate s' = (the_gate s)\<lparr>monotonic_reads := Suc (monotonic_reads (the_gate s)),
          limiter := ?rows @ [(k, fresh_rate ?now)]\<rparr>"
        using run None True by (auto simp: rate_row_def prog_simps read_gate_def write_gate_def monotonic_gate)
      show ?thesis
        using rates_ok_fresh [OF _ None True, of ?now] by (simp add: q gate found_row_def del: map_of_append)
    next
      case False
      obtain q1 s1 where kept: "retained_rates g ?rows s = (q1, s1)" by (cases "retained_rates g ?rows s")
      from retained_rates_result [OF kept] obtain rows n where q1: "q1 = Inr rows"
        and s1: "the_gate s1 = (the_gate s)\<lparr>monotonic_reads := n\<rparr>"
        and rows: "subseq rows ?rows" "\<forall>(k, r)\<in>set ?rows. ra_inflight r \<noteq> 0 \<longrightarrow> (k, r) \<in> set rows" by blast
      have absent: "map_of rows k = None"
        using None image_mono [OF subseq_subset [OF rows(1)], of fst] unfolding map_of_eq_None_iff by blast
      note ok = rates_ok_subseq [OF _ rows(1)] inflight_retained [OF _ rows]
      show ?thesis
      proof (cases "length rows < MAX_RATE_CLIENTS")
        case True
        let ?now = "ga_now g n"
        have q: "q = Inr (fresh_rate ?now)"
          and gate: "the_gate s' = (the_gate s)\<lparr>monotonic_reads := Suc n, limiter := rows @ [(k, fresh_rate ?now)]\<rparr>"
          using run None False kept q1 s1 True
          by (auto simp: rate_row_def prog_simps read_gate_def write_gate_def monotonic_gate)
        show ?thesis
          using rates_ok_fresh [OF _ absent True, of ?now] ok by (simp add: q gate found_row_def del: map_of_append)
      next
        case full: False
        with run None False kept q1 s1 ok show ?thesis
          by (auto simp: rate_row_def prog_simps read_gate_def write_gate_def found_row_def)
      qed
    qed
  qed
qed

lemma put_rate_result: "put_rate k r s = (Inr (), s\<lparr>world := (world s)\<lparr>beyond :=
    (the_gate s)\<lparr>limiter := AList.update k r (limiter (the_gate s))\<rparr>\<rparr>\<rparr>)"
  by (simp add: put_rate_def write_gate_def)

lemma rate_window_result:
  "\<exists>r' n. rate_window g r s = (Inr r', s\<lparr>world := (world s)\<lparr>beyond := (the_gate s)\<lparr>monotonic_reads := n\<rparr>\<rparr>\<rparr>) \<and>
     ra_inflight r' = ra_inflight r \<and> (rate_ok r \<longrightarrow> rate_ok r')"
  by (auto simp: rate_window_def prog_simps monotonic_gate rate_ok_def limits intro!: exI)

definition checked :: "pystr \<Rightarrow> (pystr \<times> client_rate) list \<Rightarrow> exn + bool \<Rightarrow> (pystr \<times> client_rate) list \<Rightarrow> bool" where
  "checked k rows q rows' \<longleftrightarrow> (case q of Inl e \<Rightarrow> False
     | Inr ok \<Rightarrow> inflight rows' = (if ok then (inflight rows)(k := inflight rows k + 1) else inflight rows))"

lemma held_row:
  assumes "rate_row g k s = (Inr r, s1)" and "rates_ok (limiter (the_gate s))"
  shows "rates_ok (limiter (the_gate s1))" and "rate_ok r" and "ra_inflight r = inflight (limiter (the_gate s)) k"
    and "inflight (limiter (the_gate s1)) = inflight (limiter (the_gate s))"
    and "rate_ok x \<Longrightarrow> rates_ok (AList.update k x (limiter (the_gate s1)))"
    and "rate_ok x \<Longrightarrow> inflight (AList.update k x (limiter (the_gate s1))) =
      (inflight (limiter (the_gate s)))(k := ra_inflight x)"
proof -
  have r: "map_of (limiter (the_gate s1)) k = Some r"
    using on_ratesD(1) [OF rate_row_finds assms(1,2)] by (simp add: found_row_def)
  show ok: "rates_ok (limiter (the_gate s1))"
    and same: "inflight (limiter (the_gate s1)) = inflight (limiter (the_gate s))"
    using on_ratesD(1) [OF rate_row_finds assms(1,2)] by (simp_all add: found_row_def)
  show "rate_ok r" using ok r by (rule rates_ok_row)
  show "ra_inflight r = inflight (limiter (the_gate s)) k" unfolding same [symmetric] by (simp add: inflight_def r)
  show "rate_ok x \<Longrightarrow> rates_ok (AList.update k x (limiter (the_gate s1)))" using rates_ok_update(1) [OF ok _ r] .
  show "rate_ok x \<Longrightarrow> inflight (AList.update k x (limiter (the_gate s1))) =
      (inflight (limiter (the_gate s)))(k := ra_inflight x)"
    using rates_ok_update(2) [OF ok _ r] same by simp
qed

lemma rate_row_frame: "rate_row g k s = (q, s1) \<Longrightarrow>
    audit_log (the_gate s1) = audit_log (the_gate s) \<and> upstream (the_gate s1) = upstream (the_gate s)"
  by (rule on_ratesD(2) [OF rate_row_finds])

lemma rate_row_raises:
  assumes "rate_row g k s = (Inl e, s1)" and "rates_ok (limiter (the_gate s))"
  shows "e = admission_limit \<and> map_of (limiter (the_gate s)) k = None \<and> rates_ok (limiter (the_gate s1)) \<and>
    inflight (limiter (the_gate s1)) = inflight (limiter (the_gate s))"
  using on_ratesD(1) [OF rate_row_finds assms] by (simp add: found_row_def)

text \<open>A limiter operation that finds the row and then decides by it.\<close>

lemma on_rates_row:
  assumes "\<And>s q s' r s1. rate_row g k s = (Inr r, s1) \<Longrightarrow> f r s1 = (q, s') \<Longrightarrow>
      audit_log (the_gate s') = audit_log (the_gate s1) \<and> upstream (the_gate s') = upstream (the_gate s1) \<and>
      (rates_ok (limiter (the_gate s)) \<longrightarrow> rates_ok (limiter (the_gate s')) \<and> S (limiter (the_gate s)) q (limiter (the_gate s')))"
    and "\<And>rows rows'. map_of rows k = None \<Longrightarrow> inflight rows' = inflight rows \<Longrightarrow> S rows (Inl admission_limit) rows'"
  shows "on_rates S (bind (rate_row g k) f)"
  unfolding on_rates_def
proof (intro allI impI)
  fix s q s' assume run: "bind (rate_row g k) f s = (q, s')"
  obtain p s1 where row: "rate_row g k s = (p, s1)" by (cases "rate_row g k s")
  show "audit_log (the_gate s') = audit_log (the_gate s) \<and> upstream (the_gate s') = upstream (the_gate s) \<and>
     (rates_ok (limiter (the_gate s)) \<longrightarrow> rates_ok (limiter (the_gate s')) \<and> S (limiter (the_gate s)) q (limiter (the_gate s')))"
  proof (cases p)
    case (Inl e)
    with run row have "q = Inl e" "s' = s1" by (simp_all add: bind_def)
    with row Inl show ?thesis using rate_row_raises assms(2) rate_row_frame by metis
  next
    case (Inr r)
    with run row have f: "f r s1 = (q, s')" by (simp add: bind_def)
    show ?thesis using assms(1) [OF row [unfolded Inr] f] rate_row_frame [OF row] by simp
  qed
qed

lemma rate_check_counts: "on_rates (checked k) (rate_check g k)"
proof -
  let ?S = "\<lambda>rows q rows'. checked k rows q rows' \<or> q = Inl admission_limit \<and> inflight rows' = inflight rows"
  let ?body = "bind (rate_row g k) (\<lambda>r. bind (rate_window g r) (\<lambda>r.
       if MAX_CONCURRENT \<le> ra_inflight r then andthen (put_rate k r) (ret False)
       else if MAX_REQUEST_RATE \<le> ra_count r then andthen (put_rate k r) (ret False)
       else andthen (put_rate k (r\<lparr>ra_inflight := ra_inflight r + 1, ra_count := ra_count r + 1\<rparr>)) (ret True)))"
  have body: "on_rates ?S ?body"
  proof (rule on_rates_row)
    fix s q s' r s1
    assume row: "rate_row g k s = (Inr r, s1)"
      and run: "bind (rate_window g r) (\<lambda>r.
       if MAX_CONCURRENT \<le> ra_inflight r then andthen (put_rate k r) (ret False)
       else if MAX_REQUEST_RATE \<le> ra_count r then andthen (put_rate k r) (ret False)
       else andthen (put_rate k (r\<lparr>ra_inflight := ra_inflight r + 1, ra_count := ra_count r + 1\<rparr>)) (ret True)) s1 = (q, s')"
    let ?rows = "limiter (the_gate s)"
    obtain r' n where window: "rate_window g r s1 = (Inr r', s1\<lparr>world := (world s1)\<lparr>beyond := (the_gate s1)\<lparr>monotonic_reads := n\<rparr>\<rparr>\<rparr>)"
      and r': "ra_inflight r' = ra_inflight r" "rate_ok r \<longrightarrow> rate_ok r'"
      using rate_window_result by blast
    let ?full = "MAX_CONCURRENT \<le> ra_inflight r' \<or> MAX_REQUEST_RATE \<le> ra_count r'"
    let ?x = "if ?full then r' else r'\<lparr>ra_inflight := ra_inflight r' + 1, ra_count := ra_count r' + 1\<rparr>"
    have q: "q = Inr (\<not> ?full)"
      and gate: "the_gate s' = (the_gate s1)\<lparr>monotonic_reads := n, limiter := AList.update k ?x (limiter (the_gate s1))\<rparr>"
      using run window by (auto simp: prog_simps put_rate_result split: if_splits)
    have "rates_ok (limiter (the_gate s')) \<and> checked k ?rows q (limiter (the_gate s'))" if ok: "rates_ok ?rows"
    proof -
      note held = held_row [OF row ok]
      have x: "rate_ok ?x" using held(2) r'(2) by (auto simp: rate_ok_def)
      have "checked k ?rows q (AList.update k ?x (limiter (the_gate s1)))"
        unfolding checked_def q held(6) [OF x] using held(3) r'(1) by (auto simp: fun_eq_iff)
      with held(5) [OF x] show ?thesis by (simp add: gate)
    qed
    with gate show "audit_log (the_gate s') = audit_log (the_gate s1) \<and> upstream (the_gate s') = upstream (the_gate s1) \<and>
      (rates_ok ?rows \<longrightarrow> rates_ok (limiter (the_gate s')) \<and>
        (checked k ?rows q (limiter (the_gate s')) \<or> q = Inl admission_limit \<and> inflight (limiter (the_gate s')) = inflight ?rows))"
      by simp
  qed simp
  show ?thesis
    unfolding on_rates_def
  proof (intro allI impI)
    fix s q s' assume run: "rate_check g k s = (q, s')"
    let ?rows = "limiter (the_gate s)"
    obtain p s1 where p: "?body s = (p, s1)" by (cases "?body s")
    from run p have s': "s' = s1" and q: "q = (if p = Inl admission_limit then Inr False else p)"
      by (auto simp: rate_check_def handle_def prog_simps split: sum.splits if_splits)
    have "checked k ?rows q (limiter (the_gate s1))" if "rates_ok ?rows"
      using on_ratesD(1) [OF body p that] unfolding q by (cases p) (auto simp: checked_def split: if_splits)
    with on_ratesD [OF body p] show "audit_log (the_gate s') = audit_log (the_gate s) \<and> upstream (the_gate s') = upstream (the_gate s) \<and>
        (rates_ok ?rows \<longrightarrow> rates_ok (limiter (the_gate s')) \<and> checked k ?rows q (limiter (the_gate s')))"
      unfolding s' by blast
  qed
qed

definition released :: "pystr \<Rightarrow> (pystr \<times> client_rate) list \<Rightarrow> exn + unit \<Rightarrow> (pystr \<times> client_rate) list \<Rightarrow> bool" where
  "released k rows q rows' \<longleftrightarrow> (case q of Inl e \<Rightarrow> inflight rows' = inflight rows \<and> map_of rows k = None
     | Inr _ \<Rightarrow> inflight rows' = (inflight rows)(k := max 0 (inflight rows k - 1)))"

lemma rate_release_counts: "on_rates (released k) (rate_release g k)"
  unfolding rate_release_def
proof (rule on_rates_row)
  fix s q s' r s1
  assume row: "rate_row g k s = (Inr r, s1)" and run: "put_rate k (r\<lparr>ra_inflight := max 0 (ra_inflight r - 1)\<rparr>) s1 = (q, s')"
  let ?rows = "limiter (the_gate s)" and ?x = "r\<lparr>ra_inflight := max 0 (ra_inflight r - 1)\<rparr>"
  have q: "q = Inr ()" and gate: "the_gate s' = (the_gate s1)\<lparr>limiter := AList.update k ?x (limiter (the_gate s1))\<rparr>"
    using run by (auto simp: put_rate_result)
  have "rates_ok (limiter (the_gate s')) \<and> released k ?rows q (limiter (the_gate s'))" if ok: "rates_ok ?rows"
  proof -
    note held = held_row [OF row ok]
    have x: "rate_ok ?x" using held(2) by (auto simp: rate_ok_def)
    show ?thesis using held(5,6) [OF x] held(3) by (simp add: gate q released_def)
  qed
  with gate show "audit_log (the_gate s') = audit_log (the_gate s1) \<and> upstream (the_gate s') = upstream (the_gate s1) \<and>
      (rates_ok ?rows \<longrightarrow> rates_ok (limiter (the_gate s')) \<and> released k ?rows q (limiter (the_gate s')))"
    by simp
qed (simp add: released_def)

definition charged :: "pystr \<Rightarrow> (pystr \<times> client_rate) list \<Rightarrow> exn + bool \<Rightarrow> (pystr \<times> client_rate) list \<Rightarrow> bool" where
  "charged k rows q rows' \<longleftrightarrow> inflight rows' = inflight rows \<and> (\<forall>e. q = Inl e \<longrightarrow> map_of rows k = None)"

lemma charge_tokens_counts: "on_rates (charged k) (charge_tokens g k amount)"
  unfolding charge_tokens_def
proof (rule on_rates_row)
  fix s q s' r s1
  assume row: "rate_row g k s = (Inr r, s1)"
    and run: "(if CLIENT_TOKEN_ALLOWANCE < ra_tokens r + amount then ret False
     else andthen (put_rate k (r\<lparr>ra_tokens := ra_tokens r + amount\<rparr>)) (ret True)) s1 = (q, s')"
  let ?rows = "limiter (the_gate s)" and ?x = "r\<lparr>ra_tokens := ra_tokens r + amount\<rparr>"
  show "audit_log (the_gate s') = audit_log (the_gate s1) \<and> upstream (the_gate s') = upstream (the_gate s1) \<and>
      (rates_ok ?rows \<longrightarrow> rates_ok (limiter (the_gate s')) \<and> charged k ?rows q (limiter (the_gate s')))"
  proof (cases "CLIENT_TOKEN_ALLOWANCE < ra_tokens r + amount")
    case True
    then have "q = Inr False" "s' = s1" using run by (auto simp: prog_simps)
    then show ?thesis using held_row(1,4) [OF row] by (simp add: charged_def)
  next
    case False
    then have q: "q = Inr True" and gate: "the_gate s' = (the_gate s1)\<lparr>limiter := AList.update k ?x (limiter (the_gate s1))\<rparr>"
      using run by (auto simp: put_rate_result prog_simps split: if_splits)
    have "rates_ok (limiter (the_gate s')) \<and> charged k ?rows q (limiter (the_gate s'))" if ok: "rates_ok ?rows"
    proof -
      note held = held_row [OF row ok]
      have x: "rate_ok ?x" using held(2) False by (auto simp: rate_ok_def)
      show ?thesis using held(5,6) [OF x] held(3) by (simp add: gate q charged_def fun_eq_iff)
    qed
    with gate show ?thesis by simp
  qed
qed (simp add: charged_def)

section \<open>Bounded memory\<close>

definition memory_ok :: "'h gate_env \<Rightarrow> 'h gate \<Rightarrow> bool" where
  "memory_ok g m \<longleftrightarrow> rates_ok (limiter m) \<and> length (audit_log m) \<le> ga_max_events g"

definition keeps_memory :: "'h gate_env \<Rightarrow> 'h gate \<Rightarrow> 'h gate \<Rightarrow> bool" where
  "keeps_memory g m m' \<longleftrightarrow> (memory_ok g m \<longrightarrow> memory_ok g m')"

lemma on_rates_memory: "on_rates S m \<Longrightarrow> guar (on_gate (keeps_memory g)) m"
  by (rule guarI) (auto simp: on_gate_def keeps_memory_def memory_ok_def dest: on_ratesD)

interpretation memory: gate_promise "keeps_memory g" g for g :: "'h gate_env"
proof (unfold_locales, goal_cases)
  case (3 actor scope request_id verb path outcome status)
  show ?case
    by (auto simp: guar_def on_gate_def keeps_memory_def memory_ok_def audit_record_def write_gate_def Let_def)
next
  case 4
  show ?case by (rule on_rates_memory [OF rate_check_counts])
next
  case 5
  show ?case by (rule on_rates_memory [OF rate_release_counts])
next
  case 6
  show ?case by (rule on_rates_memory [OF charge_tokens_counts])
qed (auto simp: keeps_memory_def memory_ok_def)

section \<open>Slots are given back\<close>

definition slots :: "((pystr \<Rightarrow> int) \<Rightarrow> exn + 'a \<Rightarrow> (pystr \<Rightarrow> int) \<Rightarrow> bool) \<Rightarrow> ('h, 'a) gate_prog \<Rightarrow> bool" where
  "slots S m \<longleftrightarrow> (\<forall>s q s'. m s = (q, s') \<longrightarrow> rates_ok (limiter (the_gate s)) \<longrightarrow>
     rates_ok (limiter (the_gate s')) \<and> S (inflight (limiter (the_gate s))) q (inflight (limiter (the_gate s'))))"

lemma slotsD: "slots S m \<Longrightarrow> m s = (q, s') \<Longrightarrow> rates_ok (limiter (the_gate s)) \<Longrightarrow>
    rates_ok (limiter (the_gate s')) \<and> S (inflight (limiter (the_gate s))) q (inflight (limiter (the_gate s')))"
  by (simp add: slots_def)

lemma slots_bind_yields:
  assumes "slots S m" and "yields P m" and "\<And>x. P x \<Longrightarrow> slots (T x) (f x)"
    and "\<And>i e i'. S i (Inl e) i' \<Longrightarrow> U i (Inl e) i'"
    and "\<And>i x i' q i''. \<forall>k. 0 \<le> i k \<Longrightarrow> S i (Inr x) i' \<Longrightarrow> T x i' q i'' \<Longrightarrow> U i q i''"
  shows "slots U (bind m f)"
  unfolding slots_def
proof (intro allI impI)
  fix s q s' assume run: "bind m f s = (q, s')" and ok: "rates_ok (limiter (the_gate s))"
  obtain p s1 where m: "m s = (p, s1)" by (cases "m s")
  note first = slotsD [OF assms(1) m ok]
  show "rates_ok (limiter (the_gate s')) \<and> U (inflight (limiter (the_gate s))) q (inflight (limiter (the_gate s')))"
  proof (cases p)
    case (Inl e)
    with run m first assms(4) show ?thesis by (auto simp: bind_def)
  next
    case (Inr x)
    with run m have f: "f x s1 = (q, s')" by (simp add: bind_def)
    have "P x" using yieldsD [OF assms(2)] m Inr by blast
    have "\<forall>k. 0 \<le> inflight (limiter (the_gate s)) k" using inflight_bounds [OF ok] by blast
    with slotsD [OF assms(3) [OF \<open>P x\<close>] f] first Inr assms(5) show ?thesis by blast
  qed
qed

lemma slots_bind:
  assumes "slots S m" and "\<And>x. slots (T x) (f x)"
    and "\<And>i e i'. S i (Inl e) i' \<Longrightarrow> U i (Inl e) i'"
    and "\<And>i x i' q i''. \<forall>k. 0 \<le> i k \<Longrightarrow> S i (Inr x) i' \<Longrightarrow> T x i' q i'' \<Longrightarrow> U i q i''"
  shows "slots U (bind m f)"
  by (rule slots_bind_yields [OF assms(1) _ assms(2), where P = "\<lambda>_. True"]) (auto simp: yields_def intro: assms(3,4))

definition same_slots :: "'h gate \<Rightarrow> 'h gate \<Rightarrow> bool" where
  "same_slots m m' \<longleftrightarrow> (rates_ok (limiter m) \<longrightarrow> rates_ok (limiter m') \<and> inflight (limiter m') = inflight (limiter m))"

interpretation steady: gate_frame same_slots
  by unfold_locales (auto simp: same_slots_def)

lemma slots_same: "guar (on_gate same_slots) m \<Longrightarrow> slots (\<lambda>i q i'. i' = i) m"
  unfolding slots_def on_gate_def same_slots_def by (blast dest: guarD)

lemma slots_bind_same:
  assumes "guar (on_gate same_slots) m" and "\<And>x. slots U (f x)" and "\<And>i e. U i (Inl e) i"
  shows "slots U (bind m f)"
  by (rule slots_bind [OF slots_same [OF assms(1)] assms(2)]) (auto intro: assms(3))

lemma slots_weaken: "slots S m \<Longrightarrow> (\<And>i q i'. S i q i' \<Longrightarrow> U i q i') \<Longrightarrow> slots U m"
  by (auto simp: slots_def)

lemma audit_steady [guar_intros]:
  "guar (on_gate same_slots) (audit_record g actor scope request_id method path outcome status)"
  by (auto simp: guar_def on_gate_def same_slots_def audit_record_def write_gate_def Let_def)

lemma call_steady [guar_intros]:
  "guar (on_gate same_slots) (write_gate (\<lambda>m. m\<lparr>upstream := upstream m @ [c]\<rparr>))"
  by (auto simp: guar_def on_gate_def same_slots_def write_gate_def)

lemma forwarded_steady [guar_intros]:
  "guar (on_gate same_slots) (open_backend_stream g caller method path body)"
  "guar (on_gate same_slots) (forwarded g caller request_id method path body)"
  unfolding forwarded_def proxy_request_def open_backend_stream_def Let_def by (intro guar_intros)+

definition taken :: "pystr \<Rightarrow> (pystr \<Rightarrow> int) \<Rightarrow> pystr \<Rightarrow> int" where
  "taken k i = i(k := i k + 1)"

lemma check_slots: "slots (\<lambda>i q i'. \<exists>ok. q = Inr ok \<and> i' = (if ok then taken k i else i)) (rate_check g k)"
  unfolding slots_def
proof (intro allI impI)
  fix s q s' assume "rate_check g k s = (q, s')" and "rates_ok (limiter (the_gate s))"
  from on_ratesD(1) [OF rate_check_counts this] show "rates_ok (limiter (the_gate s')) \<and>
    (\<exists>ok. q = Inr ok \<and> inflight (limiter (the_gate s')) = (if ok then taken k (inflight (limiter (the_gate s))) else inflight (limiter (the_gate s))))"
    by (auto simp: checked_def taken_def split: sum.splits)
qed

lemma inflight_absent: "map_of rows k = None \<Longrightarrow> inflight rows k = 0"
  by (simp add: inflight_def)

lemma release_slots: "slots (\<lambda>i q i'. 0 < i k \<longrightarrow> i' = i(k := i k - 1) \<and> q = Inr ()) (rate_release g k)"
  unfolding slots_def
proof (intro allI impI)
  fix s q s' assume "rate_release g k s = (q, s')" and "rates_ok (limiter (the_gate s))"
  from on_ratesD(1) [OF rate_release_counts this] show "rates_ok (limiter (the_gate s')) \<and>
    (0 < inflight (limiter (the_gate s)) k \<longrightarrow> inflight (limiter (the_gate s')) =
      (inflight (limiter (the_gate s)))(k := inflight (limiter (the_gate s)) k - 1) \<and> q = Inr ())"
    by (auto simp: released_def inflight_absent split: sum.splits)
qed

lemma charge_slots: "slots (\<lambda>i q i'. i' = i \<and> (0 < i k \<longrightarrow> (\<exists>b. q = Inr b))) (charge_tokens g k amount)"
  unfolding slots_def
proof (intro allI impI)
  fix s q s' assume "charge_tokens g k amount s = (q, s')" and "rates_ok (limiter (the_gate s))"
  from on_ratesD(1) [OF charge_tokens_counts this] show "rates_ok (limiter (the_gate s')) \<and>
    inflight (limiter (the_gate s')) = inflight (limiter (the_gate s)) \<and> (0 < inflight (limiter (the_gate s)) k \<longrightarrow> (\<exists>b. q = Inr b))"
    by (cases q) (auto simp: charged_def inflight_absent)
qed

section \<open>A request gives its slot back\<close>

lemma ret_slots: "slots (\<lambda>i q i'. i' = i \<and> q = Inr x) (ret x)"
  by (auto simp: slots_def prog_simps)

lemma lift_slots: "slots (\<lambda>i q i'. i' = i \<and> q = r) (lift r)"
  by (auto simp: slots_def prog_simps)

lemma slots_if: "(b \<Longrightarrow> slots S m) \<Longrightarrow> (\<not> b \<Longrightarrow> slots S n) \<Longrightarrow> slots S (if b then m else n)"
  by simp

text \<open>What the body must be for the reservation to count its tokens.\<close>

definition countable :: "'h gate_env \<Rightarrow> string option \<Rightarrow> bytes \<Rightarrow> bool" where
  "countable g scope body \<longleftrightarrow> (scope \<in> {Some ''inference:read'', Some ''inference:stream''} \<longrightarrow>
     (\<exists>n. token_allowance g body = Inr n))"

text \<open>A reservation that raises has taken its slot.\<close>

definition reserved :: "bool \<Rightarrow> pystr \<Rightarrow> (pystr \<Rightarrow> int) \<Rightarrow> exn + bool \<Rightarrow> (pystr \<Rightarrow> int) \<Rightarrow> bool" where
  "reserved leaky k i q i' \<longleftrightarrow> (case q of Inr ok \<Rightarrow> i' = (if ok then taken k i else i) | Inl e \<Rightarrow> leaky \<and> i' = taken k i)"

lemma reserve_slots: "slots (reserved (\<not> countable g scope body) k) (reserve g k scope body)"
  unfolding reserve_def
proof (rule slots_bind [OF check_slots])
  fix ok
  let ?charge = "\<lambda>amount. bind (charge_tokens g k amount) (\<lambda>charged.
       if charged then ret True else andthen (rate_release g k) (ret False))"
  have release: "slots (\<lambda>i q i'. 0 < i k \<longrightarrow> i' = i(k := i k - 1) \<and> q = Inr False) (andthen (rate_release g k) (ret False))"
    unfolding andthen_def by (rule slots_bind [OF release_slots ret_slots]) auto
  have charge: "slots (\<lambda>i q i'. 0 < i k \<longrightarrow> (\<exists>b. q = Inr b \<and> i' = (if b then i else i(k := i k - 1)))) (?charge amount)" for amount
  proof (rule slots_bind [OF charge_slots])
    fix charged :: bool
    show "slots (\<lambda>i q i'. 0 < i k \<longrightarrow> q = Inr charged \<and> i' = (if charged then i else i(k := i k - 1)))
      (if charged then ret True else andthen (rate_release g k) (ret False))"
      by (rule slots_if) (rule slots_weaken [OF ret_slots] slots_weaken [OF release]; simp)+
  qed auto
  let ?T = "\<lambda>i q i'. if ok then 0 < i k \<longrightarrow> (case q of Inr b \<Rightarrow> i' = (if b then i else i(k := i k - 1))
      | Inl e \<Rightarrow> \<not> countable g scope body \<and> i' = i) else q = Inr ok \<and> i' = i"
  show "slots ?T (if ok \<and> scope \<in> {Some ''inference:read'', Some ''inference:stream''}
     then bind (lift (token_allowance g body)) ?charge else ret ok)"
  proof (rule slots_if)
    assume b: "ok \<and> scope \<in> {Some ''inference:read'', Some ''inference:stream''}"
    show "slots ?T (bind (lift (token_allowance g body)) ?charge)"
    proof (cases "token_allowance g body")
      case (Inl e)
      then have "bind (lift (token_allowance g body)) ?charge = throw e"
        by (intro ext) (simp add: bind_def lift_def throw_def)
      moreover have "\<not> countable g scope body" using b Inl by (auto simp: countable_def)
      ultimately show ?thesis using b by (auto simp: slots_def prog_simps)
    next
      case (Inr n)
      then have "bind (lift (token_allowance g body)) ?charge = ?charge n"
        by (intro ext) (simp add: bind_def lift_def)
      then show ?thesis using b by (auto intro!: slots_weaken [OF charge])
    qed
  qed (rule slots_weaken [OF ret_slots], auto)
next
  fix i ok i' and q :: "exn + bool" and i''
  assume nonneg: "\<forall>k. 0 \<le> i k" and first: "\<exists>ok'. Inr ok = Inr ok' \<and> i' = (if ok' then taken k i else i)"
    and second: "if ok then 0 < i' k \<longrightarrow> (case q of Inr b \<Rightarrow> i'' = (if b then i' else i'(k := i' k - 1))
      | Inl e \<Rightarrow> \<not> countable g scope body \<and> i'' = i') else q = Inr ok \<and> i'' = i'"
  show "reserved (\<not> countable g scope body) k i q i''"
  proof (cases ok)
    case True
    with first have i': "i' = taken k i" by auto
    have pos: "0 < i' k" using nonneg i' by (simp add: taken_def add_nonneg_pos)
    have restored: "i'(k := i' k - 1) = i" by (simp add: i' taken_def)
    from second True pos i' restored show ?thesis by (auto simp: reserved_def split: sum.splits if_splits)
  qed (use first second in \<open>auto simp: reserved_def\<close>)
qed simp

lemma bounded_body_counts:
  assumes "validate_body_bounds g body = Inr b" and "de_allow b" and "\<not> blank_bytes body"
  shows "\<exists>n. token_allowance g body = Inr n"
proof (cases "ga_loads g body")
  case (Inl e)
  with assms show ?thesis by (auto simp: validate_body_bounds_def denied_def split: if_splits)
next
  case (Inr j)
  with assms show ?thesis
    by (cases j) (auto simp: validate_body_bounds_def denied_def token_allowance_def requested_tokens_def sum_bind_def
        Let_def py_int.simps split: json.splits if_splits)
qed

lemma classify_no_stream: "classify_path path \<noteq> ''inference:stream''"
  by (simp add: classify_path_def gateway_route_classification_def Let_def)

definition sound_decision :: "pystr \<Rightarrow> decision \<Rightarrow> bool" where
  "sound_decision path d \<longleftrightarrow> (de_allow d \<longrightarrow> de_outcome d = ''ok'') \<and>
     (de_scope d \<in> {Some ''inference:read'', Some ''inference:stream''} \<longrightarrow> classify_path path = ''inference:read'')"

lemma required_scope_path:
  "required_scope g (classify_path path) body = Inr r \<Longrightarrow>
    r \<in> {''inference:read'', ''inference:stream''} \<longrightarrow> classify_path path = ''inference:read''"
  using classify_no_stream [of path] by (auto simp: required_scope_def split: if_splits)

lemma yields_lift: "(\<And>x. r = Inr x \<Longrightarrow> P x) \<Longrightarrow> yields P (lift r)"
  by (simp add: yields_def lift_def)

lemma authorize_ok: "yields (sound_decision path) (authorize g path body header_bytes presented)"
proof -
  have final: "yields (sound_decision path) (bind (lift (required_scope g (classify_path path) body)) (\<lambda>required. ret
      (if required \<notin> set granted then denied a b c (Some required) caller else allowed (Some required) caller)))"
    for granted a b c caller
    by (rule yields_bind2 [OF yields_lift yields_ret, where Q = "\<lambda>r. r \<in> {''inference:read'', ''inference:stream''} \<longrightarrow> classify_path path = ''inference:read''"])
      (erule required_scope_path, simp add: sound_decision_def denied_def allowed_def)
  show ?thesis
    unfolding authorize_def
    by (intro yields_if yields_bind yields_ret)
      (auto simp: sound_decision_def denied_def allowed_def intro!: yields_if yields_ret final split: option.split)
qed

text \<open>A request for inference must have a body that is not blank.\<close>

definition has_body :: "pystr \<Rightarrow> bytes \<Rightarrow> bool" where
  "has_body path body \<longleftrightarrow> (classify_path path = ''inference:read'' \<longrightarrow> \<not> blank_bytes body)"

lemma bounded_decision_countable:
  assumes "bounded_decision g first caller body = Inr d" and "de_allow d" and "de_outcome first = ''ok''"
    and "sound_decision path first" and "has_body path body"
  shows "countable g (de_scope first) body"
proof (cases "de_scope first \<in> {Some ''inference:read'', Some ''inference:stream''}")
  case False
  then show ?thesis by (simp add: countable_def)
next
  case True
  then have full: "\<not> blank_bytes body" using assms(4,5) by (simp add: sound_decision_def has_body_def)
  from True assms(1,3) obtain b where "validate_body_bounds g body = Inr b" "d = (if de_allow b then first
      else b\<lparr>de_scope := de_scope first, de_principal := Some caller\<rparr>)"
    by (auto simp: bounded_decision_def sum_bind_Inr split: if_splits)
  moreover from this assms(2) have "de_allow b" by (auto split: if_splits)
  ultimately show ?thesis using bounded_body_counts full by (auto simp: countable_def)
qed

lemma identify_steady: "guar (on_gate same_slots) (authorize g path body header_bytes presented)"
  by (intro guar_intros)

definition leaked :: "bool \<Rightarrow> (pystr \<Rightarrow> int) \<Rightarrow> (pystr \<Rightarrow> int) \<Rightarrow> bool" where
  "leaked leaky i i' \<longleftrightarrow> i' = i \<or> leaky \<and> (\<exists>k. i' = taken k i)"

definition prepared_slots :: "bool \<Rightarrow> pystr \<Rightarrow> (pystr \<Rightarrow> int) \<Rightarrow> exn + prepared \<Rightarrow> (pystr \<Rightarrow> int) \<Rightarrow> bool" where
  "prepared_slots leaky path i q i' \<longleftrightarrow> (case q of Inl e \<Rightarrow> leaked leaky i i' | Inr p \<Rightarrow>
     pr_rate_acquired p = (de_allow (pr_decision p) \<and> classify_path path \<noteq> ''health'') \<and>
     i' = (if pr_rate_acquired p then taken (pr_principal p) i else i))"

lemma prepared_taken: "prepared_slots leaky path i (Inr ((settled d k scope)\<lparr>pr_rate_acquired := True\<rparr>)) i' \<longleftrightarrow>
    de_allow d \<and> classify_path path \<noteq> ''health'' \<and> i' = taken k i"
  by (auto simp: prepared_slots_def settled_def)

lemma refuse_slots:
  "\<not> de_allow d \<Longrightarrow> slots (prepared_slots leaky path) (refuse g d caller scope request_id method path)"
  unfolding refuse_def andthen_def
  by (rule slots_bind [OF slots_same [OF audit_steady] ret_slots]) (auto simp: prepared_slots_def settled_def leaked_def)

lemma prepare_slots:
  assumes "leaky \<longleftrightarrow> \<not> has_body path body"
  shows "slots (prepared_slots leaky path) (prepare_request g request_id client method path header_bytes body presented)"
  unfolding prepare_request_def Let_def
proof (rule slots_bind_yields [OF slots_same [OF identify_steady] authorize_ok])
  fix first assume ok: "sound_decision path first"
  let ?caller = "principal_of first client" and ?scope = "de_scope first"
  let ?rest = "\<lambda>d. if \<not> de_allow d then refuse g d ?caller ?scope request_id method path
     else if classify_path path = ''health'' then ret (settled d ?caller ?scope)
     else bind (outside (ga_ready g)) (\<lambda>ready.
       if \<not> ready then refuse g (denied ''backend'' 503 ''GATEWAY_BACKEND_UNVERIFIED'' ?scope (Some ?caller))
         ?caller ?scope request_id method path
       else bind (reserve g ?caller ?scope body) (\<lambda>ok.
         if \<not> ok then refuse g (denied ''rate_limited'' 429 ''RATE_LIMITED'' ?scope (Some ?caller))
           ?caller ?scope request_id method path
         else ret ((settled d ?caller ?scope)\<lparr>pr_rate_acquired := True\<rparr>)))"
  have refused: "slots (prepared_slots leaky path) (refuse g (denied a b c e f) ?caller ?scope request_id method path)" for a b c e f
    by (rule refuse_slots) (simp add: denied_def)
  have rest: "slots (prepared_slots leaky path) (?rest d)" if d: "bounded_decision g first ?caller body = Inr d" for d
  proof (intro slots_if)
    assume "\<not> de_allow d"
    then show "slots (prepared_slots leaky path) (refuse g d ?caller ?scope request_id method path)" by (rule refuse_slots)
  next
    assume "\<not> \<not> de_allow d" and health: "classify_path path = ''health''"
    show "slots (prepared_slots leaky path) (ret (settled d ?caller ?scope))"
      by (rule slots_weaken [OF ret_slots]) (auto simp: prepared_slots_def settled_def health)
  next
    assume allow: "\<not> \<not> de_allow d" and other: "classify_path path \<noteq> ''health''"
    have "de_outcome first = ''ok''"
      using d allow ok by (auto simp: bounded_decision_def sound_decision_def split: if_splits)
    then have count: "\<not> countable g ?scope body \<Longrightarrow> leaky" using bounded_decision_countable [OF d] allow ok assms by blast
    show "slots (prepared_slots leaky path) (bind (outside (ga_ready g)) (\<lambda>ready.
       if \<not> ready then refuse g (denied ''backend'' 503 ''GATEWAY_BACKEND_UNVERIFIED'' ?scope (Some ?caller))
         ?caller ?scope request_id method path
       else bind (reserve g ?caller ?scope body) (\<lambda>ok.
         if \<not> ok then refuse g (denied ''rate_limited'' 429 ''RATE_LIMITED'' ?scope (Some ?caller))
           ?caller ?scope request_id method path
         else ret ((settled d ?caller ?scope)\<lparr>pr_rate_acquired := True\<rparr>))))"
    proof (rule slots_bind_same [OF steady.guar_basics(2)])
      fix ready
      show "slots (prepared_slots leaky path) (if \<not> ready then refuse g (denied ''backend'' 503 ''GATEWAY_BACKEND_UNVERIFIED'' ?scope (Some ?caller))
         ?caller ?scope request_id method path
       else bind (reserve g ?caller ?scope body) (\<lambda>ok.
         if \<not> ok then refuse g (denied ''rate_limited'' 429 ''RATE_LIMITED'' ?scope (Some ?caller))
           ?caller ?scope request_id method path
         else ret ((settled d ?caller ?scope)\<lparr>pr_rate_acquired := True\<rparr>)))"
      proof (intro slots_if refused, rule slots_bind [OF reserve_slots])
        fix okay :: bool
        show "slots (\<lambda>i q i'. if okay then i' = i \<and> q = Inr ((settled d ?caller ?scope)\<lparr>pr_rate_acquired := True\<rparr>)
            else prepared_slots leaky path i q i')
          (if \<not> okay then refuse g (denied ''rate_limited'' 429 ''RATE_LIMITED'' ?scope (Some ?caller))
             ?caller ?scope request_id method path
           else ret ((settled d ?caller ?scope)\<lparr>pr_rate_acquired := True\<rparr>))"
          by (rule slots_if) (rule slots_weaken [OF refused] slots_weaken [OF ret_slots]; simp)+
      next
        fix i e i' assume "reserved (\<not> countable g ?scope body) ?caller i (Inl e) i'"
        then show "prepared_slots leaky path i (Inl e) i'" using count by (auto simp: reserved_def prepared_slots_def leaked_def)
      qed (use allow other in \<open>auto simp: prepared_taken reserved_def split: if_splits\<close>)
    qed (simp add: prepared_slots_def leaked_def)
  qed
  show "slots (prepared_slots leaky path) (bind (lift (bounded_decision g first ?caller body)) ?rest)"
  proof (cases "bounded_decision g first ?caller body")
    case (Inl e)
    then have "bind (lift (bounded_decision g first ?caller body)) ?rest = throw e"
      by (intro ext) (simp add: bind_def lift_def throw_def)
    then show ?thesis by (simp add: slots_def prog_simps prepared_slots_def leaked_def)
  next
    case (Inr d)
    then have "bind (lift (bounded_decision g first ?caller body)) ?rest = ?rest d"
      by (intro ext) (simp add: bind_def lift_def)
    then show ?thesis using rest [OF Inr] by simp
  qed
qed (auto simp: prepared_slots_def leaked_def)

lemma finish_slots:
  "slots (\<lambda>i q i'. pr_rate_acquired p \<and> 0 < i (pr_principal p) \<longrightarrow> i' = i(pr_principal p := i (pr_principal p) - 1))
    (finish_request g p request_id method path outcome status)"
proof -
  let ?S = "\<lambda>i q i'. pr_rate_acquired p \<and> 0 < i (pr_principal p) \<longrightarrow> i' = i(pr_principal p := i (pr_principal p) - 1)"
  have release: "slots ?S (only_if (pr_rate_acquired p) (rate_release g (pr_principal p)))"
    unfolding only_if_def
    by (rule slots_if) (rule slots_weaken [OF release_slots] slots_weaken [OF ret_slots]; simp)+
  have rest: "guar (on_gate same_slots) (andthen (audit_record g (pr_principal p) (scope_name (pr_scope p)) request_id method path outcome status)
      (only_if (outcome = ''ok'' \<and> 200 \<le> status \<and> status < 400)
        (case pr_scope p of None \<Rightarrow> ret () | Some scope \<Rightarrow> record_gateway_use g (pr_principal p) scope)))"
    by (intro guar_intros)
  show ?thesis
    unfolding finish_request_def andthen_def [of "only_if (pr_rate_acquired p) x" for x]
    by (rule slots_bind [OF release slots_same [OF rest]]) auto
qed

lemma forwarded_raises: "fst (forwarded g caller request_id method path body s) = Inl e \<Longrightarrow> \<not> is_exception e"
  by (auto simp: forwarded_def handle_def prog_simps split: sum.splits prod.splits if_splits)

text \<open>
  A request that ends, even by an exception, leaves every count of slots as it was, unless its
  reservation raised; a process that dies may keep the slot it has taken.
\<close>

definition settled_up :: "bool \<Rightarrow> (pystr \<Rightarrow> int) \<Rightarrow> exn + 'a \<Rightarrow> (pystr \<Rightarrow> int) \<Rightarrow> bool" where
  "settled_up leaky i q i' \<longleftrightarrow> leaked (leaky \<or> (\<exists>e. q = Inl e \<and> \<not> is_exception e)) i i'"

lemma settled_same [simp]: "settled_up leaky i q i"
  by (simp add: settled_up_def leaked_def)

lemma leaked_minus: "leaked True (i(k := i k - 1)) i"
  unfolding leaked_def by (intro disjI2 conjI exI [of _ k]) (simp_all add: taken_def)

lemma leaked_mono: "leaked a i i' \<Longrightarrow> (a \<Longrightarrow> b) \<Longrightarrow> leaked b i i'"
  by (auto simp: leaked_def)

lemma slots_Inl:
  assumes "slots S m" and "\<And>s e s'. m s = (Inl e, s') \<Longrightarrow> P e"
  shows "slots (\<lambda>i q i'. S i q i' \<and> (\<forall>e. q = Inl e \<longrightarrow> P e)) m"
  using assms unfolding slots_def by blast

lemma taken_back: "0 \<le> i k \<Longrightarrow> 0 < taken k i k \<and> (taken k i)(k := taken k i k - 1) = i"
  by (simp add: taken_def add_nonneg_pos)

definition gives_back :: "bool \<Rightarrow> pystr \<Rightarrow> (pystr \<Rightarrow> int) \<Rightarrow> exn + 'a \<Rightarrow> (pystr \<Rightarrow> int) \<Rightarrow> bool" where
  "gives_back leaky k i q i' \<longleftrightarrow> (0 < i k \<longrightarrow> settled_up leaky (i(k := i k - 1)) q i')"

definition consistent :: "pystr \<Rightarrow> prepared \<Rightarrow> bool" where
  "consistent path p \<longleftrightarrow> pr_rate_acquired p = (de_allow (pr_decision p) \<and> classify_path path \<noteq> ''health'')"

lemma after_prepare:
  assumes "leaky \<longleftrightarrow> \<not> has_body path body"
    and "\<And>p. slots (\<lambda>i q i'. consistent path p \<longrightarrow>
      (if pr_rate_acquired p then gives_back leaky (pr_principal p) i q i' else settled_up leaky i q i')) (f p)"
  shows "slots (settled_up leaky) (bind (prepare_request g request_id client method path header_bytes body presented) f)"
proof (rule slots_bind [OF prepare_slots [OF assms(1)] assms(2)])
  fix i :: "pystr \<Rightarrow> int" and p i' q i''
  assume nonneg: "\<forall>k. 0 \<le> i k" and first: "prepared_slots leaky path i (Inr p) i'"
    and second: "consistent path p \<longrightarrow> (if pr_rate_acquired p then gives_back leaky (pr_principal p) i' q i'' else settled_up leaky i' q i'')"
  from first have "consistent path p" by (simp add: prepared_slots_def consistent_def)
  with first second taken_back [of i "pr_principal p"] nonneg show "settled_up leaky i q i''"
    by (auto simp: prepared_slots_def gives_back_def split: if_splits)
qed (auto simp: prepared_slots_def settled_up_def intro: leaked_mono)

lemma slots_trivial: "guar (on_gate same_slots) m \<Longrightarrow> (\<And>i q. U i q i) \<Longrightarrow> slots U m"
  by (rule slots_weaken [OF slots_same]) auto

text \<open>Work on the backend, then the finish.\<close>

lemma work_slots:
  assumes "guar (on_gate same_slots) m" and "\<And>s e. fst (m s) = Inl e \<Longrightarrow> \<not> is_exception e"
    and "\<And>x. slots (\<lambda>i q i'. pr_rate_acquired p \<and> 0 < i (pr_principal p) \<longrightarrow> i' = i(pr_principal p := i (pr_principal p) - 1)) (f x)"
  shows "slots (\<lambda>i q i'. pr_rate_acquired p \<longrightarrow> gives_back leaky (pr_principal p) i q i') (bind m f)"
proof (rule slots_bind [OF _ assms(3)])
  show "slots (\<lambda>i q i'. i' = i \<and> (\<forall>e. q = Inl e \<longrightarrow> \<not> is_exception e)) m"
    by (rule slots_Inl [OF slots_same [OF assms(1)]]) (metis fst_conv assms(2))
next
  fix i :: "pystr \<Rightarrow> int" and e and i' :: "pystr \<Rightarrow> int"
  assume "i' = i \<and> (\<forall>e'. Inl e = Inl e' \<longrightarrow> \<not> is_exception e')"
  then show "pr_rate_acquired p \<longrightarrow> gives_back leaky (pr_principal p) i (Inl e) i'"
    by (simp add: gives_back_def settled_up_def leaked_minus)
qed (auto simp: gives_back_def)

lemma finish_then_slots:
  assumes "guar (on_gate same_slots) m"
  shows "slots (\<lambda>i q i'. pr_rate_acquired p \<and> 0 < i (pr_principal p) \<longrightarrow> i' = i(pr_principal p := i (pr_principal p) - 1))
    (andthen (finish_request g p request_id method path outcome status) m)"
  unfolding andthen_def by (rule slots_bind [OF finish_slots slots_same [OF assms]]) auto

lemma handle_request_slots:
  assumes "leaky \<longleftrightarrow> \<not> has_body path body"
  shows "slots (settled_up leaky) (handle_request g request_id client method path header_bytes body presented)"
  unfolding handle_request_def Let_def
proof (rule after_prepare [OF assms], intro slots_if)
  fix p :: prepared
  assume "\<not> de_allow (pr_decision p)"
  then show "slots (\<lambda>i q i'. consistent path p \<longrightarrow> (if pr_rate_acquired p then gives_back leaky (pr_principal p) i q i' else settled_up leaky i q i'))
    (ret (de_status (pr_decision p), problem_body g (problem_code_of (pr_decision p)) request_id))"
    by (intro slots_trivial guar_intros) (simp add: consistent_def settled_up_def split: sum.split)
next
  fix p :: prepared
  assume "classify_path path = ''health''"
  then show "slots (\<lambda>i q i'. consistent path p \<longrightarrow> (if pr_rate_acquired p then gives_back leaky (pr_principal p) i q i' else settled_up leaky i q i'))
    (bind (outside (ga_ready g)) (\<lambda>ready. bind (outside (ga_ready g)) (\<lambda>verified. ret (200, health_body g ready verified))))"
    by (intro slots_trivial guar_intros) (simp add: consistent_def settled_up_def split: sum.split)
next
  fix p :: prepared
  assume allow: "\<not> \<not> de_allow (pr_decision p)" "classify_path path \<noteq> ''health''"
  show "slots (\<lambda>i q i'. consistent path p \<longrightarrow> (if pr_rate_acquired p then gives_back leaky (pr_principal p) i q i' else settled_up leaky i q i'))
    (bind (forwarded g (pr_principal p) request_id method path body) (\<lambda>(status, content, outcome).
       andthen (finish_request g p request_id method path outcome status)
      (bind (lift (parse_stream g body)) (\<lambda>_. ret (status, content)))))"
  proof (rule slots_weaken [OF work_slots [OF forwarded_steady(2) forwarded_raises]])
    fix x :: "int \<times> bytes \<times> string"
    have tail: "guar (on_gate same_slots) (bind (lift (parse_stream g body)) (\<lambda>_. ret (status, content)))" for status :: int and content :: bytes
      by (intro guar_intros)
    show "slots (\<lambda>i q i'. pr_rate_acquired p \<and> 0 < i (pr_principal p) \<longrightarrow> i' = i(pr_principal p := i (pr_principal p) - 1))
      (case x of (status, content, outcome) \<Rightarrow> andthen (finish_request g p request_id method path outcome status)
        (bind (lift (parse_stream g body)) (\<lambda>_. ret (status, content))))"
      by (cases x) (simp add: finish_then_slots [OF tail])
  qed (use allow in \<open>auto simp: consistent_def\<close>)
qed

lemma run_stream_slots:
  assumes "leaky \<longleftrightarrow> \<not> has_body path body" and "classify_path path \<noteq> ''health''"
  shows "slots (settled_up leaky) (run_stream g request_id client method path header_bytes body presented)"
  unfolding run_stream_def Let_def
proof (rule after_prepare [OF assms(1)], intro slots_if)
  fix p :: prepared
  assume "\<not> de_allow (pr_decision p)"
  then show "slots (\<lambda>i q i'. consistent path p \<longrightarrow> (if pr_rate_acquired p then gives_back leaky (pr_principal p) i q i' else settled_up leaky i q i'))
    (ret (plain_reply (de_status (pr_decision p)) (problem_body g (problem_code_of (pr_decision p)) request_id)))"
    by (intro slots_trivial guar_intros) (simp add: consistent_def settled_up_def split: sum.split)
next
  fix p :: prepared
  assume allow: "\<not> \<not> de_allow (pr_decision p)"
  let ?stream = "handle (bind (open_backend_stream g (pr_principal p) method path body) (\<lambda>r. ret (streamed g r)))
         (\<lambda>e. if is_exception e
           then Some (ret (if client_gone e then upstream_failed\<lparr>en_outcome := ''client_closed''\<rparr> else upstream_failed)) else None)"
  have steady: "guar (on_gate same_slots) ?stream" by (intro guar_intros)
  have raises: "fst (?stream s) = Inl e \<Longrightarrow> \<not> is_exception e" for s e
    by (auto simp: handle_def prog_simps split: sum.splits prod.splits if_splits)
  show "slots (\<lambda>i q i'. consistent path p \<longrightarrow> (if pr_rate_acquired p then gives_back leaky (pr_principal p) i q i' else settled_up leaky i q i'))
    (bind ?stream (\<lambda>e. andthen (finish_request g p request_id method path (en_outcome e) (en_status e))
         (ret (stream_reply_of g request_id e))))"
  proof (rule slots_weaken [OF work_slots [OF steady raises]])
    fix e :: stream_end
    have "guar (on_gate same_slots) (ret (stream_reply_of g request_id e))" by (intro guar_intros)
    then show "slots (\<lambda>i q i'. pr_rate_acquired p \<and> 0 < i (pr_principal p) \<longrightarrow> i' = i(pr_principal p := i (pr_principal p) - 1))
      (andthen (finish_request g p request_id method path (en_outcome e) (en_status e)) (ret (stream_reply_of g request_id e)))"
      by (rule finish_then_slots)
  qed (use allow assms(2) in \<open>auto simp: consistent_def\<close>)
qed

lemma slots_handle:
  assumes "slots (settled_up leaky) m" and "\<And>e n. h e = Some n \<Longrightarrow> is_exception e \<and> guar (on_gate same_slots) n"
  shows "slots (settled_up leaky) (handle m h)"
  unfolding slots_def
proof (intro allI impI)
  fix s q s' assume run: "handle m h s = (q, s')" and ok: "rates_ok (limiter (the_gate s))"
  obtain p s1 where m: "m s = (p, s1)" by (cases "m s")
  note first = slotsD [OF assms(1) m ok]
  show "rates_ok (limiter (the_gate s')) \<and> settled_up leaky (inflight (limiter (the_gate s))) q (inflight (limiter (the_gate s')))"
  proof (cases "\<exists>e n. p = Inl e \<and> h e = Some n")
    case True
    then obtain e n where p: "p = Inl e" and n: "h e = Some n" by blast
    with run m have "n s1 = (q, s')" by (simp add: handle_def)
    from assms(2) [OF n] have "slots (\<lambda>i q i'. i' = i) n" by (blast intro: slots_same)
    from slotsD [OF this \<open>n s1 = (q, s')\<close>] first have
      "rates_ok (limiter (the_gate s'))" "inflight (limiter (the_gate s')) = inflight (limiter (the_gate s1))" by blast+
    with first p assms(2) [OF n] show ?thesis by (auto simp: settled_up_def intro: leaked_mono)
  next
    case False
    with run m have "q = p" "s' = s1" by (auto simp: handle_def split: sum.splits option.splits)
    with first show ?thesis by simp
  qed
qed

lemma slots_after_same:
  assumes "guar (on_gate same_slots) m" and "\<And>x. slots (settled_up leaky) (f x)"
  shows "slots (settled_up leaky) (bind m f)"
  by (rule slots_bind_same [OF assms]) simp

lemma slots_settled_same: "guar (on_gate same_slots) m \<Longrightarrow> slots (settled_up leaky) m"
  by (rule slots_trivial) simp_all

lemma buffered_slots:
  assumes "leaky \<longleftrightarrow> \<not> has_body (rq_path rq) body"
  shows "slots (settled_up leaky) (buffered g rq body)"
  unfolding buffered_def
proof (rule slots_handle)
  show "slots (settled_up leaky) (bind (request_id_of g) (\<lambda>request_id.
      bind (handle_request g request_id (actor_of rq) (rq_method rq) (rq_path rq) (header_size rq) body (presented_token rq))
        (\<lambda>(status, content). ret (plain_reply status content))))"
  proof (rule slots_after_same [OF steady.guar_identify(2)])
    fix request_id
    show "slots (settled_up leaky) (bind (handle_request g request_id (actor_of rq) (rq_method rq) (rq_path rq) (header_size rq) body (presented_token rq))
        (\<lambda>(status, content). ret (plain_reply status content)))"
    proof (rule slots_bind [OF handle_request_slots [OF assms]])
      show "slots (\<lambda>i q i'. i' = i \<and> (\<exists>r. q = Inr r)) (case x of (status, content) \<Rightarrow> ret (plain_reply status content))" for x
        by (cases x) (auto intro: slots_weaken [OF ret_slots])
    qed (auto simp: settled_up_def)
  qed
next
  fix e n assume "(if is_exception e
       then Some (bind (request_id_of g) (\<lambda>request_id. ret (plain_reply 502 (problem_body g ''GATEWAY_INTERNAL'' request_id))))
       else None) = Some n"
  moreover have "guar (on_gate same_slots) (bind (request_id_of g) (\<lambda>request_id. ret (plain_reply 502 (problem_body g ''GATEWAY_INTERNAL'' request_id))))"
    by (intro guar_intros)
  ultimately show "is_exception e \<and> guar (on_gate same_slots) n" by (auto split: if_splits)
qed

text \<open>A request for inference without a body is the leak.\<close>

definition bodyless :: "request \<Rightarrow> bool" where
  "bodyless rq \<longleftrightarrow> (case read_body rq of BodyRead body \<Rightarrow> \<not> has_body (rq_path rq) body | _ \<Rightarrow> False)"

lemma serve_slots: "slots (settled_up (bodyless rq)) (serve g rq)"
proof -
  have refused: "slots (settled_up (bodyless rq)) (bind (request_id_of g) (\<lambda>request_id. ret (plain_reply n (problem_body g c request_id))))" for n c
    by (intro slots_settled_same guar_intros)
  show ?thesis
  proof (cases "read_body rq")
    case (BodyRead body)
    then have leaky: "bodyless rq \<longleftrightarrow> \<not> has_body (rq_path rq) body" by (simp add: bodyless_def)
    have "slots (settled_up (bodyless rq)) (bind (if classify_path (rq_path rq) = ''inference:read'' then lift (parse_stream g body) else ret False) (\<lambda>stream.
         if \<not> stream then buffered g rq body
         else bind (request_id_of g) (\<lambda>request_id. run_stream g request_id (actor_of rq) (rq_method rq) (rq_path rq)
           (header_size rq) body (presented_token rq))))"
    proof (cases "classify_path (rq_path rq) = ''inference:read''")
      case True
      then have path: "classify_path (rq_path rq) \<noteq> ''health''" by simp
      show ?thesis
        by (intro slots_after_same slots_if buffered_slots [OF leaky] run_stream_slots [OF leaky path] guar_intros)
    next
      case False
      then show ?thesis by (simp add: buffered_slots [OF leaky])
    qed
    with BodyRead show ?thesis by (simp add: serve_def)
  qed (simp_all add: serve_def refused)
qed

end
