(* ===== verification/Gateway_Promises.thy ===== *)
theory Gateway_Promises
  imports Gateway_Facts
begin

text \<open>
  What the gateway promises: who reaches the backend, how much a caller can hold, and what a
  request leaves behind, for one request and for any traffic of requests and commands.
\<close>

section \<open>Nothing but a call of the backend reaches it\<close>

lemma on_rates_upstream: "on_rates S m \<Longrightarrow> guar (on_gate (\<lambda>m m'. upstream m' = upstream m)) m"
  by (rule guarI) (simp add: on_gate_def on_ratesD(2))

interpretation silent: gate_work "\<lambda>m m'. upstream m' = upstream m" g for g :: "'h gate_env"
proof (unfold_locales, goal_cases)
  case (3 actor scope request_id verb path outcome status)
  show ?case by (simp add: guar_def on_gate_def audit_record_def write_gate_def Let_def)
next
  case 4
  show ?case by (rule on_rates_upstream [OF rate_check_counts])
next
  case 5
  show ?case by (rule on_rates_upstream [OF rate_release_counts])
next
  case 6
  show ?case by (rule on_rates_upstream [OF charge_tokens_counts])
qed simp_all

lemma silentD: "guar (on_gate (\<lambda>m m'. upstream m' = upstream m)) m \<Longrightarrow> m s = (r, s') \<Longrightarrow>
    upstream (the_gate s') = upstream (the_gate s)"
  by (auto dest: guarD simp: on_gate_def)

definition call_made :: "'h gate_env \<Rightarrow> pystr \<Rightarrow> pystr \<Rightarrow> pystr \<Rightarrow> bytes \<Rightarrow> upstream_call \<Rightarrow> bool" where
  "call_made g caller method path body c \<longleftrightarrow> up_principal c = caller \<and> up_method c = method \<and>
     up_path c = takeWhile (\<lambda>c. c \<noteq> 63) path \<and> bounded_request_body g path body = Inr (up_body c)"

text \<open>At most one call, and that one as described.\<close>

definition calls_once :: "(upstream_call \<Rightarrow> bool) \<Rightarrow> 'h gate desk sys \<Rightarrow> 'h gate desk sys \<Rightarrow> bool" where
  "calls_once P s s' \<longleftrightarrow> upstream (the_gate s') = upstream (the_gate s) \<or>
     (\<exists>c. P c \<and> upstream (the_gate s') = upstream (the_gate s) @ [c])"

lemma guar_branch: "(b \<Longrightarrow> guar R m) \<Longrightarrow> (\<not> b \<Longrightarrow> guar R n) \<Longrightarrow> guar R (if b then m else n)"
  by simp

lemma calls_first:
  assumes "guar (calls_once P) m" and "\<And>x. guar (on_gate (\<lambda>m m'. upstream m' = upstream m)) (f x)"
  shows "guar (calls_once P) (bind m f)"
proof (rule guarI)
  fix s r s' assume run: "bind m f s = (r, s')"
  obtain p s1 where m: "m s = (p, s1)" by (cases "m s")
  note first = guarD [OF assms(1) m]
  show "calls_once P s s'"
  proof (cases p)
    case (Inl e)
    with run m first show ?thesis by (simp add: bind_def)
  next
    case (Inr x)
    with run m have "f x s1 = (r, s')" by (simp add: bind_def)
    with silentD [OF assms(2)] have "upstream (the_gate s') = upstream (the_gate s1)" by blast
    with first show ?thesis by (simp add: calls_once_def)
  qed
qed

lemma calls_later:
  assumes "guar (on_gate (\<lambda>m m'. upstream m' = upstream m)) m" and "\<And>x. guar (calls_once P) (f x)"
  shows "guar (calls_once P) (bind m f)"
proof (rule guarI)
  fix s r s' assume run: "bind m f s = (r, s')"
  obtain p s1 where m: "m s = (p, s1)" by (cases "m s")
  note first = silentD [OF assms(1) m]
  show "calls_once P s s'"
  proof (cases p)
    case (Inl e)
    with run m first show ?thesis by (simp add: bind_def calls_once_def)
  next
    case (Inr x)
    with run m have "f x s1 = (r, s')" by (simp add: bind_def)
    with guarD [OF assms(2)] have "calls_once P s1 s'" by blast
    with first show ?thesis by (simp add: calls_once_def)
  qed
qed

lemma calls_none: "guar (on_gate (\<lambda>m m'. upstream m' = upstream m)) m \<Longrightarrow> guar (calls_once P) m"
  by (erule guar_weaken) (simp add: on_gate_def calls_once_def)

lemma calls_handle:
  assumes "guar (calls_once P) m" and "\<And>e n. h e = Some n \<Longrightarrow> guar (on_gate (\<lambda>m m'. upstream m' = upstream m)) n"
  shows "guar (calls_once P) (handle m h)"
proof (rule guarI)
  fix s r s' assume run: "handle m h s = (r, s')"
  obtain p s1 where m: "m s = (p, s1)" by (cases "m s")
  note first = guarD [OF assms(1) m]
  show "calls_once P s s'"
  proof (cases "\<exists>e n. p = Inl e \<and> h e = Some n")
    case True
    then obtain e n where "p = Inl e" "h e = Some n" by blast
    with run m have "n s1 = (r, s')" by (simp add: handle_def)
    with silentD [OF assms(2) [OF \<open>h e = Some n\<close>]] first show ?thesis by (simp add: calls_once_def)
  next
    case False
    with run m have "s' = s1" by (auto simp: handle_def split: sum.splits option.splits)
    with first show ?thesis by simp
  qed
qed

lemma open_calls: "guar (calls_once (call_made g caller method path body)) (open_backend_stream g caller method path body)"
proof (cases "bounded_request_body g path body")
  case (Inl e)
  then have "open_backend_stream g caller method path body = throw e"
    by (intro ext) (simp add: open_backend_stream_def prog_simps)
  then show ?thesis by (simp add: guar_def prog_simps calls_once_def)
next
  case (Inr content)
  let ?target = "takeWhile (\<lambda>c. c \<noteq> 63) path"
  let ?c = "\<lparr>up_principal = caller, up_method = method, up_path = ?target, up_body = content\<rparr>"
  let ?rest = "bind (outside (ga_backend g method ?target content)) (\<lambda>reply.
       if \<not> sr_identity reply then throw (python_error ''ValueError'') else ret reply)"
  have eq: "open_backend_stream g caller method path body =
      bind (write_gate (\<lambda>m. m\<lparr>upstream := upstream m @ [?c]\<rparr>)) (\<lambda>_. ?rest)"
    by (intro ext) (simp add: open_backend_stream_def Inr Let_def prog_simps)
  have call: "guar (calls_once (call_made g caller method path body)) (write_gate (\<lambda>m. m\<lparr>upstream := upstream m @ [?c]\<rparr>))"
    by (auto simp: guar_def calls_once_def write_gate_def call_made_def Inr)
  have rest: "guar (on_gate (\<lambda>m m'. upstream m' = upstream m)) ?rest" by (intro guar_intros)
  show ?thesis unfolding eq by (rule calls_first [OF call rest])
qed

lemma forwarded_calls: "guar (calls_once (call_made g caller method path body)) (forwarded g caller request_id method path body)"
  unfolding forwarded_def proxy_request_def
  by (rule calls_handle, intro calls_first open_calls guar_intros) (auto intro: guar_intros split: if_splits)

section \<open>Who is let through\<close>

definition principal_name :: "pystr option \<Rightarrow> pystr \<Rightarrow> pystr" where
  "principal_name caller client = (case caller of None \<Rightarrow> client | Some k \<Rightarrow> if k = [] then client else k)"

definition let_through :: "'h gate_env \<Rightarrow> pystr \<Rightarrow> bytes \<Rightarrow> pystr \<Rightarrow> 'h gate desk sys \<Rightarrow> pystr option \<Rightarrow> bool" where
  "let_through g path body presented s caller \<longleftrightarrow> (\<exists>granted scope.
     length body \<le> MAX_BODY_BYTES \<and> classify_path path \<in> {''models:list'', ''inference:read''} \<and>
     fst (identify g presented s) = Inr (Some (granted, caller)) \<and>
     required_scope g (classify_path path) body = Inr scope \<and> scope \<in> set granted)"

lemma classify_values: "classify_path path \<in> {''health'', ''models:list'', ''inference:read'', ''unsupported-inference'', ''management''}"
  by (simp add: classify_path_def gateway_route_classification_def Let_def)

lemma authorize_lets:
  assumes "authorize g path body header_bytes presented s = (Inr d, s')" and "de_allow d" and "classify_path path \<noteq> ''health''"
  shows "\<exists>caller. let_through g path body presented s caller \<and> principal_of d client = principal_name caller client"
proof -
  obtain q s1 where id: "identify g presented s = (q, s1)" by (cases "identify g presented s")
  from assms id obtain granted caller scope where "q = Inr (Some (granted, caller))" "length body \<le> MAX_BODY_BYTES"
      "classify_path path \<noteq> ''management''" "classify_path path \<noteq> ''unsupported-inference''"
      "required_scope g (classify_path path) body = Inr scope" "scope \<in> set granted" "d = allowed (Some scope) caller"
    by (auto simp: authorize_def prog_simps denied_def split: if_splits sum.splits option.splits prod.splits)
  then show ?thesis
    using id assms(3) classify_values [of path]
    by (intro exI [of _ caller]) (auto simp: let_through_def principal_of_def principal_name_def allowed_def)
qed

lemma refuse_result: "refuse g d caller scope request_id method path s = (Inr p, s') \<Longrightarrow> pr_decision p = d"
  by (auto simp: refuse_def audit_record_def write_gate_def settled_def prog_simps Let_def)

lemma authorize_under [guar_intros]: "guar beyond_kept (authorize g path body header_bytes presented)"
proof -
  have "guar beyond_kept (read_gate f)" for f :: "'h gate \<Rightarrow> 'z"
    by (simp add: guar_def read_gate_def beyond_kept_def)
  then have "guar beyond_kept (identify g presented)"
    unfolding identify_def single_is_valid_def by (intro guar_intros)
  then show ?thesis unfolding authorize_def by (intro guar_intros)
qed

text \<open>A request that is let through finds the backend ready and a slot free.\<close>

definition has_room :: "'h gate desk sys \<Rightarrow> pystr \<Rightarrow> bool" where
  "has_room s k \<longleftrightarrow> (rates_ok (limiter (the_gate s)) \<longrightarrow> inflight (limiter (the_gate s)) k < MAX_CONCURRENT)"

lemma prepare_lets:
  assumes "prepare_request g request_id client method path header_bytes body presented s = (Inr p, s')"
    and "de_allow (pr_decision p)" and "classify_path path \<noteq> ''health''"
  shows "\<exists>caller. let_through g path body presented s caller \<and> pr_principal p = principal_name caller client \<and>
    fst (ga_ready g (around (the_gate s))) = Inr True \<and> has_room s (pr_principal p)"
proof -
  have room: "has_room s (pr_principal p)"
    unfolding has_room_def
  proof
    assume ok: "rates_ok (limiter (the_gate s))"
    from slotsD [OF prepare_slots [OF refl] assms(1) ok] assms(2,3)
    have "rates_ok (limiter (the_gate s'))"
      and "inflight (limiter (the_gate s')) = taken (pr_principal p) (inflight (limiter (the_gate s)))"
      by (simp_all add: prepared_slots_def)
    with inflight_bounds [of "limiter (the_gate s')" "pr_principal p"]
    show "inflight (limiter (the_gate s)) (pr_principal p) < MAX_CONCURRENT" by (simp add: taken_def)
  qed
  obtain q s1 where auth: "authorize g path body header_bytes presented s = (q, s1)"
    by (cases "authorize g path body header_bytes presented s")
  from assms(1) auth obtain first where q: "q = Inr first" by (cases q) (auto simp: prepare_request_def prog_simps Let_def)
  let ?caller = "principal_of first client" and ?scope = "de_scope first"
  from assms(1) auth q obtain d where d: "bounded_decision g first ?caller body = Inr d"
    by (cases "bounded_decision g first ?caller body") (auto simp: prepare_request_def prog_simps Let_def)
  have start: "(if \<not> de_allow d then refuse g d ?caller ?scope request_id method path
     else if classify_path path = ''health'' then ret (settled d ?caller ?scope)
     else bind (outside (ga_ready g)) (\<lambda>ready.
       if \<not> ready then refuse g (denied ''backend'' 503 ''GATEWAY_BACKEND_UNVERIFIED'' ?scope (Some ?caller))
         ?caller ?scope request_id method path
       else bind (reserve g ?caller ?scope body) (\<lambda>ok.
         if \<not> ok then refuse g (denied ''rate_limited'' 429 ''RATE_LIMITED'' ?scope (Some ?caller))
           ?caller ?scope request_id method path
         else ret ((settled d ?caller ?scope)\<lparr>pr_rate_acquired := True\<rparr>)))) s1 = (Inr p, s')"
    using assms(1) auth q d by (simp add: prepare_request_def bind_run [of "authorize g path body header_bytes presented"]
      bind_run [of "lift r" for r] Let_def lift_def)
  with assms(2) have allow: "de_allow d" by (auto dest: refuse_result split: if_splits)
  have ready: "fst (ga_ready g (around (the_gate s1))) = Inr True"
  proof (rule ccontr)
    assume "fst (ga_ready g (around (the_gate s1))) \<noteq> Inr True"
    then consider e where "fst (ga_ready g (around (the_gate s1))) = Inl e" | "fst (ga_ready g (around (the_gate s1))) = Inr False"
      by (cases "fst (ga_ready g (around (the_gate s1)))") auto
    then show False
      using start allow assms(2,3)
      by cases (auto simp: bind_run outside_def denied_def dest!: refuse_result split: prod.splits)
  qed
  have "pr_principal p = ?caller"
    using start allow assms(2,3)
    by (auto simp: bind_Inr ret_Inr settled_def denied_def dest!: refuse_result split: if_splits)
  moreover have "de_allow first" using d allow by (auto simp: bounded_decision_def sum_bind_Inr split: if_splits)
  moreover have "the_gate s1 = the_gate s" using guarD [OF authorize_under auth] by (simp add: beyond_kept_def)
  ultimately show ?thesis using authorize_lets [OF auth [unfolded q] _ assms(3)] ready room by metis
qed

definition allowed_call :: "'h gate_env \<Rightarrow> pystr \<Rightarrow> pystr \<Rightarrow> pystr \<Rightarrow> bytes \<Rightarrow> pystr \<Rightarrow> 'h gate desk sys \<Rightarrow> upstream_call \<Rightarrow> bool" where
  "allowed_call g client method path body presented s c \<longleftrightarrow> (\<exists>caller. let_through g path body presented s caller \<and>
     fst (ga_ready g (around (the_gate s))) = Inr True \<and> has_room s (principal_name caller client) \<and>
     call_made g (principal_name caller client) method path body c)"

text \<open>Preparing decides; what follows for an allowed request makes at most the one call.\<close>

lemma calls_after_prepare:
  assumes "bind (prepare_request g request_id client method path header_bytes body presented) f s = (r, s')"
    and "\<And>p. \<not> de_allow (pr_decision p) \<or> classify_path path = ''health'' \<Longrightarrow> guar (on_gate (\<lambda>m m'. upstream m' = upstream m)) (f p)"
    and "\<And>p. guar (calls_once (call_made g (pr_principal p) method path body)) (f p)"
  shows "calls_once (allowed_call g client method path body presented s) s s'"
proof -
  let ?prepare = "prepare_request g request_id client method path header_bytes body presented"
  obtain q s1 where prepare: "?prepare s = (q, s1)" by (cases "?prepare s")
  note same = silentD [OF silent.guar_prepare prepare]
  show ?thesis
  proof (cases q)
    case (Inl e)
    with assms(1) prepare same show ?thesis by (simp add: bind_def calls_once_def)
  next
    case (Inr p)
    with assms(1) prepare have f: "f p s1 = (r, s')" by (simp add: bind_def)
    show ?thesis
    proof (cases "\<not> de_allow (pr_decision p) \<or> classify_path path = ''health''")
      case True
      from silentD [OF assms(2) [OF this] f] same show ?thesis by (simp add: calls_once_def)
    next
      case False
      then obtain caller where "let_through g path body presented s caller" "pr_principal p = principal_name caller client"
          "fst (ga_ready g (around (the_gate s))) = Inr True" "has_room s (pr_principal p)"
        using prepare_lets [OF prepare [unfolded Inr]] by blast
      then have "call_made g (pr_principal p) method path body c \<Longrightarrow> allowed_call g client method path body presented s c" for c
        by (auto simp: allowed_call_def)
      with guarD [OF assms(3) f] same show ?thesis by (auto simp: calls_once_def)
    qed
  qed
qed

lemma handle_request_calls:
  assumes "handle_request g request_id client method path header_bytes body presented s = (r, s')"
  shows "calls_once (allowed_call g client method path body presented s) s s'"
proof (rule calls_after_prepare [OF assms [unfolded handle_request_def Let_def]], goal_cases)
  case (1 p)
  then show ?case by (cases "de_allow (pr_decision p)") (simp_all, (intro guar_intros)+)
next
  case (2 p)
  have call: "guar (calls_once (call_made g (pr_principal p) method path body))
    (bind (forwarded g (pr_principal p) request_id method path body) (\<lambda>(status, content, outcome).
       andthen (finish_request g p request_id method path outcome status)
      (bind (lift (parse_stream g body)) (\<lambda>_. ret (status, content)))))"
    by (rule calls_first [OF forwarded_calls]) (auto intro!: guar_intros split: prod.split)
  show ?case by (intro guar_branch call calls_none guar_intros)
qed

lemma run_stream_calls:
  assumes "run_stream g request_id client method path header_bytes body presented s = (r, s')"
    and "classify_path path \<noteq> ''health''"
  shows "calls_once (allowed_call g client method path body presented s) s s'"
proof (rule calls_after_prepare [OF assms(1) [unfolded run_stream_def Let_def]], goal_cases)
  case (1 p)
  with assms(2) show ?case by simp (intro guar_intros)
next
  case (2 p)
  let ?stream = "handle (bind (open_backend_stream g (pr_principal p) method path body) (\<lambda>r. ret (streamed g r)))
         (\<lambda>e. if is_exception e
           then Some (ret (if client_gone e then upstream_failed\<lparr>en_outcome := ''client_closed''\<rparr> else upstream_failed)) else None)"
  have stream: "guar (calls_once (call_made g (pr_principal p) method path body)) ?stream"
    by (rule calls_handle [OF calls_first [OF open_calls]]) (auto intro: guar_intros split: if_splits)
  show ?case
  proof (rule guar_branch)
    show "guar (calls_once (call_made g (pr_principal p) method path body))
      (bind ?stream (\<lambda>e. andthen (finish_request g p request_id method path (en_outcome e) (en_status e))
         (ret (stream_reply_of g request_id e))))"
      by (rule calls_first [OF stream]) (intro guar_intros)
  qed (intro calls_none guar_intros)
qed

definition authorized_call :: "'h gate_env \<Rightarrow> request \<Rightarrow> 'h gate desk sys \<Rightarrow> upstream_call \<Rightarrow> bool" where
  "authorized_call g rq s c \<longleftrightarrow> (\<exists>body. read_body rq = BodyRead body \<and>
     allowed_call g (actor_of rq) (rq_method rq) (rq_path rq) body (presented_token rq) s c)"

lemma identify_uuid: "fst (identify g presented (s\<lparr>uuid_reads := n\<rparr>)) = fst (identify g presented s)"
proof (cases "ga_named g")
  case None
  then show ?thesis by (simp add: identify_def single_is_valid_def read_gate_def prog_simps)
next
  case (Some v)
  have "fst (authenticate v presented (s\<lparr>uuid_reads := n\<rparr>)) = fst (authenticate v presented s)"
    by (simp add: authenticate_def client_unit_def prog_simps clock_def read_tables_def with_tables_def Let_def
        split: sum.split option.split)
  with Some show ?thesis
    by (cases "authenticate v presented (s\<lparr>uuid_reads := n\<rparr>)"; cases "authenticate v presented s")
      (auto simp: identify_def prog_simps split: sum.split option.split)
qed

lemma allowed_call_uuid:
  "allowed_call g client method path body presented (s\<lparr>uuid_reads := n\<rparr>) c \<longleftrightarrow> allowed_call g client method path body presented s c"
  by (simp add: allowed_call_def let_through_def identify_uuid has_room_def)

lemma request_id_run: "request_id_of g s = (Inr (cps (e_uuid (ga_env g) (uuid_reads s))), s\<lparr>uuid_reads := Suc (uuid_reads s)\<rparr>)"
  by (simp add: request_id_of_def uuid_factory_def prog_simps)

lemma buffered_calls:
  assumes "buffered g rq body s = (r, s')"
  shows "calls_once (allowed_call g (actor_of rq) (rq_method rq) (rq_path rq) body (presented_token rq) s) s s'"
proof -
  let ?s0 = "s\<lparr>uuid_reads := Suc (uuid_reads s)\<rparr>" and ?id = "cps (e_uuid (ga_env g) (uuid_reads s))"
  let ?handle = "handle_request g ?id (actor_of rq) (rq_method rq) (rq_path rq) (header_size rq) body (presented_token rq)"
  obtain q s1 where run: "?handle ?s0 = (q, s1)" by (cases "?handle ?s0")
  have "upstream (the_gate s') = upstream (the_gate s1)"
    using assms run by (auto simp: buffered_def handle_def prog_simps request_id_run split: sum.splits prod.splits if_splits)
  with handle_request_calls [OF run] show ?thesis by (simp add: calls_once_def allowed_call_uuid)
qed

lemma serve_calls:
  assumes "serve g rq s = (r, s')"
  shows "calls_once (authorized_call g rq s) s s'"
proof (cases "read_body rq")
  case (BodyRead body)
  have weaken: "calls_once (allowed_call g (actor_of rq) (rq_method rq) (rq_path rq) body (presented_token rq) s) s s' \<Longrightarrow> ?thesis"
    using BodyRead by (auto simp: calls_once_def authorized_call_def)
  let ?inference = "classify_path (rq_path rq) = ''inference:read''"
  obtain q s0 where first: "(if ?inference then lift (parse_stream g body) else ret False) s = (q, s0)"
    by (cases "(if ?inference then lift (parse_stream g body) else ret False) s")
  then have s0: "s0 = s" by (auto simp: prog_simps split: if_splits)
  show ?thesis
  proof (cases q)
    case (Inl e)
    with assms BodyRead first s0 show ?thesis by (auto simp: serve_def bind_def calls_once_def)
  next
    case (Inr stream)
    show ?thesis
    proof (cases stream)
      case False
      with assms BodyRead first Inr s0 have "buffered g rq body s = (r, s')" by (simp add: serve_def bind_def)
      then show ?thesis by (rule weaken [OF buffered_calls])
    next
      case True
      with first Inr have "?inference" by (auto simp: prog_simps split: if_splits)
      then have path: "classify_path (rq_path rq) \<noteq> ''health''" by simp
      let ?s0 = "s\<lparr>uuid_reads := Suc (uuid_reads s)\<rparr>"
      from assms BodyRead first Inr s0 True have
        "run_stream g (cps (e_uuid (ga_env g) (uuid_reads s))) (actor_of rq) (rq_method rq) (rq_path rq) (header_size rq)
          body (presented_token rq) ?s0 = (r, s')"
        by (simp add: serve_def bind_def request_id_run)
      from run_stream_calls [OF this path] show ?thesis
        by (intro weaken) (simp add: calls_once_def allowed_call_uuid)
    qed
  qed
qed (use assms in \<open>auto simp: serve_def prog_simps request_id_run calls_once_def\<close>)


section \<open>Traffic\<close>

datatype event = Command client_request | Request request

definition traffic :: "'h gate_env \<Rightarrow> client_env \<Rightarrow> event list \<Rightarrow> ('h, unit) gate_prog" where
  "traffic g v es = foreach es (\<lambda>e. case e of Command r \<Rightarrow> perform v r | Request rq \<Rightarrow> forgotten (serve g rq))"

lemma forgotten_state: "snd (forgotten m s) = snd (m s)"
  by (simp add: forgotten_def handle_def prog_simps split: prod.split sum.split)

lemma forgotten_returns: "fst (forgotten m s) = Inr ()"
  by (simp add: forgotten_def handle_def prog_simps split: prod.split sum.split)

lemma perform_returns: "fst (perform v r s) = Inr ()"
  by (cases r) (simp_all add: forgotten_returns)

lemma traffic_Cons: "traffic g v (e # es) s = traffic g v es
    (case e of Command r \<Rightarrow> snd (perform v r s) | Request rq \<Rightarrow> snd (serve g rq s))"
proof (cases e)
  case (Command r)
  obtain s1 where "perform v r s = (Inr (), s1)" using perform_returns [of v r s] by (metis prod.collapse)
  with Command show ?thesis by (simp add: traffic_def prog_simps)
next
  case (Request rq)
  obtain s1 where s1: "forgotten (serve g rq) s = (Inr (), s1)"
    using forgotten_returns [of "serve g rq" s] by (metis prod.collapse)
  with forgotten_state [of "serve g rq" s] Request show ?thesis by (simp add: traffic_def prog_simps)
qed

lemma traffic_Nil: "traffic g v [] s = (Inr (), s)"
  by (simp add: traffic_def prog_simps)

lemma beyond_files [guar_intros]: "guar beyond_kept (on_files v f)" "guar beyond_kept (draw_secret v)"
  by (simp_all add: guar_def on_files_def draw_secret_def beyond_kept_def split: prod.split)

lemma beyond_path [guar_intros]:
  "guar beyond_kept (publish_secret v path secret)" "guar beyond_kept (unlink_secret v path)"
  "guar beyond_kept (look_at v path)" "guar beyond_kept (read_secret v c)" "guar beyond_kept (ensure_secret_dir v)"
  unfolding publish_secret_def unlink_secret_def look_at_def read_secret_def ensure_secret_dir_def
  by (intro guar_intros)+

lemma beyond_cleaning [guar_intros]:
  "guar beyond_kept m \<Longrightarrow> guar beyond_kept c \<Longrightarrow> guar beyond_kept (cleaning_up m c)"
  unfolding cleaning_up_def by (intro guar_intros)

lemma beyond_rows [guar_intros]:
  "guar beyond_kept (create_client v k label kind scopes fp)" "guar beyond_kept (rotate_row v k rv fp n overlap)"
  "guar beyond_kept (revoke_row v k rv)" "guar beyond_kept (disable_rows v rv)" "guar beyond_kept (enable_row rv)"
  unfolding create_client_def rotate_row_def revoke_row_def disable_rows_def enable_row_def
    insert_secret_def current_client_def update_client_def update_access_def
  by (intro guar_intros)+

lemma beyond_counts [guar_intros]: "guar beyond_kept (count_readable v cs)"
  by (induction cs) (simp_all, (intro guar_intros)+)

lemma beyond_commands [guar_intros]:
  "guar beyond_kept (add_client v label kind scopes chosen)" "guar beyond_kept (ensure_client v k label kind scopes)"
  "guar beyond_kept (rotate_client v k rv seconds)" "guar beyond_kept (revoke_client v k rv)"
  "guar beyond_kept (disable_all v rv)" "guar beyond_kept (enable_for_sharing v rv)" "guar beyond_kept (secret_for_probe v k)"
  unfolding add_client_def ensure_client_def rotate_client_def revoke_client_def disable_all_def enable_for_sharing_def
    client_readiness_def secret_for_probe_def Let_def
  by (intro guar_intros)+

lemma beyond_forgotten [guar_intros]: "guar beyond_kept m \<Longrightarrow> guar beyond_kept (forgotten m)"
  unfolding forgotten_def by (intro under.guar_handle guar_intros) (auto intro: guar_intros)

lemma beyond_perform: "guar beyond_kept (perform v r)"
  by (cases r) (simp_all, (intro guar_intros)+)

lemma perform_gate: "the_gate (snd (perform v r s)) = the_gate s"
  using guarD [OF beyond_perform, of v r s] by (cases "perform v r s") (auto simp: beyond_kept_def)

text \<open>The gateway writes the tables of the clients only by their commands.\<close>

context client_promise
begin

lemma guar_gate_basics [guar_intros]:
  "guar (on_tables P) (read_gate f)" "guar (on_tables P) (write_gate h)" "guar (on_tables P) (outside b)"
  "guar (on_tables P) (monotonic g)"
  unfolding monotonic_def
  by (auto simp: guar_def on_tables_def read_gate_def write_gate_def outside_def prog_simps P_refl split: prod.split)

lemma guar_retained [guar_intros]: "guar (on_tables P) (retained_rates g rows)"
proof (induction rows)
  case (Cons row rows)
  obtain k r where "row = (k, r)" by fastforce
  with Cons show ?case by simp (intro conjI impI guar_intros)
qed (simp add: guar_ret)

lemma guar_rate_row [guar_intros]: "guar (on_tables P) (rate_row g k)"
  unfolding rate_row_def by (intro guar_intros)

lemma guar_limiter [guar_intros]: "guar (on_tables P) (rate_check g k)" "guar (on_tables P) (rate_release g k)"
  "guar (on_tables P) (charge_tokens g k n)"
  unfolding rate_check_def rate_release_def charge_tokens_def put_rate_def rate_window_def
  by (intro guar_handle guar_intros; auto split: if_splits intro: guar_intros)+

lemma guar_identify_tables [guar_intros]: "others_write P v \<Longrightarrow> ga_named g = Some v \<Longrightarrow> guar (on_tables P) (identify g presented)"
  unfolding identify_def by simp (intro guar_intros)

lemma guar_use_tables [guar_intros]:
  "others_write P v \<Longrightarrow> ga_named g = Some v \<Longrightarrow> guar (on_tables P) (record_gateway_use g caller scope)"
  unfolding record_gateway_use_def by simp (intro guar_intros)

lemma guar_serve_tables: "others_write P v \<Longrightarrow> ga_named g = Some v \<Longrightarrow> guar (on_tables P) (serve g rq)"
  unfolding serve_def buffered_def handle_request_def run_stream_def prepare_request_def finish_request_def
    forwarded_def proxy_request_def open_backend_stream_def authorize_def refuse_def reserve_def audit_record_def
    request_id_of_def Let_def
  by (intro guar_case_body guar_intros; assumption?)

lemma guar_perform: "others_write P v \<Longrightarrow> guar (on_tables P) (perform v r)"
  by (cases r) (simp_all, (intro guar_intros; assumption)+)

lemma traffic_tables:
  assumes "others_write P v" and "ga_named g = Some v"
  shows "P (the_tables s) (the_tables (snd (traffic g v es s)))"
proof (induction es arbitrary: s)
  case Nil
  then show ?case by (simp add: traffic_Nil P_refl)
next
  case (Cons e es)
  have "P (the_tables s) (the_tables (case e of Command r \<Rightarrow> snd (perform v r s) | Request rq \<Rightarrow> snd (serve g rq s)))"
    using guar_perform [OF assms(1)] guar_serve_tables [OF assms] by (auto simp: guar_def on_tables_def split: event.split)
  with Cons.IH show ?case unfolding traffic_Cons by (blast intro: P_trans)
qed

end

lemma cps_eq [simp]: "cps a = cps b \<longleftrightarrow> a = b"
  by (simp add: cps_def inj_map_eq_map [OF inj_of_char])

text \<open>A call for a client means that a secret of that client was presented.\<close>

lemma call_names_a_holder:
  assumes named: "ga_named g = Some v" and writes: "others_write stays_revoked v" and ok: "tables_ok (the_tables s)"
    and call: "authorized_call g rq s c"
  shows "\<exists>d now row. stays_revoked (the_tables s) d \<and> holder now (ce_fingerprint v (presented_token rq)) d row \<and>
    up_principal c = cps (cl_id row)"
proof -
  from call obtain granted caller where id: "fst (identify g (presented_token rq) s) = Inr (Some (granted, caller))"
    and c: "up_principal c = principal_name caller (actor_of rq)"
    unfolding authorized_call_def allowed_call_def let_through_def call_made_def by blast
  obtain q s1 where auth: "authenticate v (presented_token rq) s = (q, s1)" by (cases "authenticate v (presented_token rq) s")
  from id auth named obtain k where q: "q = Inr (Some (k, granted))" and caller: "caller = Some (cps k)"
    by (auto simp: identify_def bind_def ret_def split: sum.splits option.splits)
  from authenticate_Inr [OF auth [unfolded q]] obtain d now where d: "ce_open v (units s) (the_tables s) = Inr d"
    and m: "matching (ce_fingerprint v (presented_token rq)) (authentication_fingerprints now d) = Some (k, granted)" by auto
  have stays: "stays_revoked (the_tables s) d" using writes d by (auto simp: others_write_def)
  with ok have ok1: "tables_ok d" by (simp add: stays_revoked_def)
  from m obtain row where row: "holder now (ce_fingerprint v (presented_token rq)) d row" "k = cl_id row"
    by (auto simp: matching_holder [OF ok1])
  then have "cl_id row \<in> set (map cl_id (clients d))" by (auto simp: holder_def)
  with ok1 have "cl_id row \<noteq> []" unfolding tables_ok_def by metis
  then have "up_principal c = cps (cl_id row)" using c caller row(2) by (simp add: principal_name_def cps_def)
  with stays row(1) show ?thesis by blast
qed

lemma traffic_calls:
  assumes "ga_named g = Some v" and "others_write stays_revoked v" and "tables_ok (the_tables s)" and "shut k (the_tables s)"
  shows "\<exists>new. upstream (the_gate (snd (traffic g v es s))) = upstream (the_gate s) @ new \<and>
    (\<forall>c\<in>set new. up_principal c \<noteq> cps k)"
  using assms(3,4)
proof (induction es arbitrary: s)
  case Nil
  then show ?case by (simp add: traffic_Nil)
next
  case (Cons e es)
  let ?next = "case e of Command r \<Rightarrow> snd (perform v r s) | Request rq \<Rightarrow> snd (serve g rq s)"
  have "stays_revoked (the_tables s) (the_tables ?next)"
    using revocation.traffic_tables [OF assms(2,1), of s "[e]"] by (simp add: traffic_Cons traffic_Nil)
  then have next_ok: "tables_ok (the_tables ?next)" "shut k (the_tables ?next)"
    using Cons.prems by (simp_all add: stays_revoked_def)
  have first: "\<exists>new. upstream (the_gate ?next) = upstream (the_gate s) @ new \<and> (\<forall>c\<in>set new. up_principal c \<noteq> cps k)"
  proof (cases e)
    case (Command r)
    then show ?thesis by (simp add: perform_gate)
  next
    case (Request rq)
    obtain q s1 where run: "serve g rq s = (q, s1)" by (cases "serve g rq s")
    have "up_principal c \<noteq> cps k" if call: "authorized_call g rq s c" for c
    proof -
      obtain d now row where d: "stays_revoked (the_tables s) d" "holder now (ce_fingerprint v (presented_token rq)) d row"
          "up_principal c = cps (cl_id row)"
        using call_names_a_holder [OF assms(1,2) Cons.prems(1) call] by blast
      then have "tables_ok d" "shut k d" using Cons.prems by (simp_all add: stays_revoked_def)
      with shut_holder d(2) have "cl_id row \<noteq> k" by blast
      with d(3) show ?thesis by simp
    qed
    with serve_calls [OF run] run Request show ?thesis by (auto simp: calls_once_def)
  qed
  from Cons.IH [OF next_ok] obtain new where "upstream (the_gate (snd (traffic g v es ?next))) = upstream (the_gate ?next) @ new"
      "\<forall>c\<in>set new. up_principal c \<noteq> cps k" by blast
  with first show ?case unfolding traffic_Cons by fastforce
qed

text \<open>
  C12 (safety): once a client's revocation has returned, no traffic, of whatever requests and
  commands in whatever order, makes another call of the backend for that client.
\<close>

theorem revoked_client_never_reaches_the_backend:
  assumes "ga_named g = Some v" and "others_write stays_revoked v" and "tables_ok (the_tables s)"
    and "revoke_client v k rv s = (Inr res, s1)"
    and "traffic g v es s1 = (r, s2)"
  shows "\<exists>new. upstream (the_gate s2) = upstream (the_gate s1) @ new \<and> (\<forall>c\<in>set new. up_principal c \<noteq> cps k)"
proof -
  have "stays_revoked (the_tables s) (the_tables s1)"
    using guarD [OF revocation.guar_revoke [OF assms(2)] assms(4)] by (simp add: on_tables_def)
  then have "tables_ok (the_tables s1)" using assms(3) by (simp add: stays_revoked_def)
  from traffic_calls [OF assms(1,2) this revoke_client_result(1) [OF assms(4)]] assms(5) show ?thesis
    by (metis snd_conv)
qed

section \<open>What the gateway keeps\<close>

text \<open>
  C22 (invariant): whatever the traffic, the memory of the gateway stays within its bounds: at
  most 256 rows of distinct callers, each with at most 4 requests in flight, 20 in its window
  and its token allowance charged, and at most the configured number of audit events.
\<close>

theorem gateway_memory_is_bounded:
  assumes "memory_ok g (the_gate s)"
  shows "memory_ok g (the_gate (snd (traffic g v es s)))"
  using assms
proof (induction es arbitrary: s)
  case Nil
  then show ?case by (simp add: traffic_Nil)
next
  case (Cons e es)
  have "keeps_memory g (the_gate s) (the_gate (snd (serve g rq s)))" for rq
    using memory.guar_serve [of g rq] by (simp add: guar_def on_gate_def)
  then show ?case
    unfolding traffic_Cons using Cons.prems
    by (cases e) (auto simp: perform_gate keeps_memory_def intro: Cons.IH)
qed


section \<open>A caller without slots\<close>

lemma call_has_room: "authorized_call g rq s c \<Longrightarrow> has_room s (up_principal c)"
  unfolding authorized_call_def allowed_call_def call_made_def by auto

text \<open>
  (error): a slot that is lost is lost for good. A caller with all of its four slots taken
  between requests makes no call of the backend again, whatever the traffic.
\<close>

theorem caller_without_slots_is_locked_out:
  assumes "rates_ok (limiter (the_gate s))" and "inflight (limiter (the_gate s)) k = MAX_CONCURRENT"
  shows "inflight (limiter (the_gate (snd (traffic g v es s)))) k = MAX_CONCURRENT \<and>
    (\<exists>new. upstream (the_gate (snd (traffic g v es s))) = upstream (the_gate s) @ new \<and> (\<forall>c\<in>set new. up_principal c \<noteq> k))"
  using assms
proof (induction es arbitrary: s)
  case Nil
  then show ?case by (simp add: traffic_Nil)
next
  case (Cons e es)
  let ?next = "case e of Command r \<Rightarrow> snd (perform v r s) | Request rq \<Rightarrow> snd (serve g rq s)"
  have first: "rates_ok (limiter (the_gate ?next)) \<and> inflight (limiter (the_gate ?next)) k = MAX_CONCURRENT \<and>
    (\<exists>new. upstream (the_gate ?next) = upstream (the_gate s) @ new \<and> (\<forall>c\<in>set new. up_principal c \<noteq> k))"
  proof (cases e)
    case (Command r)
    with Cons.prems show ?thesis by (simp add: perform_gate)
  next
    case (Request rq)
    obtain q s1 where run: "serve g rq s = (q, s1)" by (cases "serve g rq s")
    from slotsD [OF serve_slots run Cons.prems(1)] have ok: "rates_ok (limiter (the_gate s1))"
      and up: "settled_up (bodyless rq) (inflight (limiter (the_gate s))) q (inflight (limiter (the_gate s1)))" by blast+
    from up have "inflight (limiter (the_gate s)) k \<le> inflight (limiter (the_gate s1)) k"
      by (auto simp: settled_up_def leaked_def taken_def)
    with Cons.prems(2) inflight_bounds [OF ok, of k] have "inflight (limiter (the_gate s1)) k = MAX_CONCURRENT" by simp
    moreover have "up_principal c \<noteq> k" if "authorized_call g rq s c" for c
      using call_has_room [OF that] Cons.prems by (auto simp: has_room_def)
    ultimately show ?thesis using serve_calls [OF run] ok run Request by (auto simp: calls_once_def)
  qed
  from Cons.IH [of ?next] first show ?case unfolding traffic_Cons by fastforce
qed

section \<open>Requests at the same time\<close>

text \<open>
  Requests are served on threads of their own. The relation interleaves the calls of the
  limiter they make, each as one step, with any other work; it counts for each caller the
  requests that were admitted and have not finished.
\<close>

inductive at_once :: "'h gate_env \<Rightarrow> (pystr \<Rightarrow> nat) \<Rightarrow> 'h gate desk sys \<Rightarrow> bool" for g where
  started: "limiter (the_gate s) = [] \<Longrightarrow> at_once g (\<lambda>_. 0) s"
| elsewhere: "at_once g w s \<Longrightarrow> limiter (the_gate s') = limiter (the_gate s) \<Longrightarrow> at_once g w s'"
| admitted: "at_once g w s \<Longrightarrow> rate_check g k s = (Inr True, s') \<Longrightarrow> at_once g (w(k := w k + 1)) s'"
| turned_away: "at_once g w s \<Longrightarrow> rate_check g k s = (Inr False, s') \<Longrightarrow> at_once g w s'"
| tokens: "at_once g w s \<Longrightarrow> charge_tokens g k n s = (q, s') \<Longrightarrow> at_once g w s'"
| finished: "at_once g w s \<Longrightarrow> 0 < w k \<Longrightarrow> rate_release g k s = (q, s') \<Longrightarrow> at_once g (w(k := w k - 1)) s'"


section \<open>A request for inference without a body\<close>

definition room :: "(pystr \<times> client_rate) list \<Rightarrow> pystr \<Rightarrow> bool" where
  "room rows k \<longleftrightarrow> (case map_of rows k of None \<Rightarrow> length rows < MAX_RATE_CLIENTS
     | Some r \<Rightarrow> ra_inflight r < MAX_CONCURRENT \<and> ra_count r < MAX_REQUEST_RATE)"

lemma rate_window_room:
  assumes "ra_inflight r < MAX_CONCURRENT" and "ra_count r < MAX_REQUEST_RATE" and "rate_window g r s = (Inr r', s')"
  shows "ra_inflight r' < MAX_CONCURRENT \<and> ra_count r' < MAX_REQUEST_RATE"
  using assms by (auto simp: rate_window_def prog_simps monotonic_gate MAX_REQUEST_RATE_def split: if_splits)

lemma check_room:
  assumes "room (limiter (the_gate s)) k"
  shows "fst (rate_check g k s) = Inr True"
proof -
  obtain r s1 where row: "rate_row g k s = (Inr r, s1)" and r: "ra_inflight r < MAX_CONCURRENT" "ra_count r < MAX_REQUEST_RATE"
  proof (cases "map_of (limiter (the_gate s)) k")
    case None
    then obtain s1 where "rate_row g k s = (Inr (fresh_rate (ga_now g (monotonic_reads (the_gate s)))), s1)"
      using assms by (simp add: room_def rate_row_def prog_simps read_gate_def write_gate_def monotonic_gate)
    then show ?thesis by (rule that) (simp_all add: fresh_rate_def limits)
  next
    case (Some r)
    then show ?thesis using assms by (intro that [of r s]) (simp_all add: room_def rate_row_def prog_simps read_gate_def)
  qed
  obtain r' s2 where window: "rate_window g r s1 = (Inr r', s2)" using rate_window_result by blast
  with rate_window_room [OF r window] row show ?thesis
    by (simp add: rate_check_def handle_def prog_simps put_rate_result)
qed

lemma read_body_bounded: "read_body rq = BodyRead body \<Longrightarrow> length body \<le> MAX_BODY_BYTES"
  by (auto simp: read_body_def Let_def split: if_splits)

lemma undecodable_exception: "undecodable e \<Longrightarrow> is_exception e"
  by (cases e) (auto simp: undecodable_def is_exception_def)

lemma blank_prepare:
  assumes ok: "rates_ok (limiter (the_gate s))" and path: "classify_path path = ''inference:read''"
    and body: "blank_bytes body" "length body \<le> MAX_BODY_BYTES" "ga_loads g body = Inl e" "undecodable e"
    and small: "header_bytes \<le> MAX_HEADER_BYTES"
    and id: "fst (identify g presented s) = Inr (Some (granted, caller))" "''inference:read'' \<in> set granted"
    and ready: "fst (ga_ready g (around (the_gate s))) = Inr True"
    and free: "room (limiter (the_gate s)) (principal_name caller client)"
  shows "\<exists>s'. prepare_request g request_id client method path header_bytes body presented s = (Inl e, s') \<and>
    rates_ok (limiter (the_gate s')) \<and>
    inflight (limiter (the_gate s')) = taken (principal_name caller client) (inflight (limiter (the_gate s)))"
proof -
  let ?k = "principal_name caller client" and ?d = "allowed (Some ''inference:read'') caller"
  have stream: "parse_stream g body = Inr False" using body by (simp add: parse_stream_def)
  obtain s1 where ident: "identify g presented s = (Inr (Some (granted, caller)), s1)" using id(1) by (metis prod.collapse)
  have auth: "authorize g path body header_bytes presented s = (Inr ?d, s1)"
    using small path body id ident stream
    by (simp add: authorize_def prog_simps required_scope_def sum_bind_def)
  have s1: "the_gate s1 = the_gate s" using guarD [OF authorize_under auth] by (simp add: beyond_kept_def)
  have k: "principal_of ?d client = ?k" by (simp add: principal_of_def principal_name_def allowed_def)
  have bounds: "bounded_decision g ?d ?k body = Inr ?d"
    using body by (simp add: bounded_decision_def allowed_def validate_body_bounds_def sum_bind_def)
  obtain s2 where s2: "outside (ga_ready g) s1 = (Inr True, s2)" and same: "limiter (the_gate s2) = limiter (the_gate s)"
  proof -
    obtain h where "ga_ready g (around (the_gate s1)) = (Inr True, h)" using ready s1 by (metis prod.collapse)
    then show thesis using s1 by (intro that [of "snd (outside (ga_ready g) s1)"]) (simp_all add: outside_def)
  qed
  obtain s3 where check: "rate_check g ?k s2 = (Inr True, s3)"
    using check_room [of s2 ?k g] free same by (metis prod.collapse)
  have s3: "rates_ok (limiter (the_gate s3))" "inflight (limiter (the_gate s3)) = taken ?k (inflight (limiter (the_gate s)))"
    using slotsD [OF check_slots check] ok same by auto
  have "reserve g ?k (Some ''inference:read'') body s2 = (Inl e, s3)"
    using check body by (simp add: reserve_def prog_simps token_allowance_def sum_bind_def)
  with auth bounds k path s2 have "prepare_request g request_id client method path header_bytes body presented s = (Inl e, s3)"
    by (simp add: prepare_request_def prog_simps Let_def allowed_def)
  with s3 show ?thesis by blast
qed

text \<open>
  C36 (error): a request for inference that is authorized and has a blank body is answered as an
  internal error, and the slot it took is never given back: the tokens are counted from the
  decoded body after the slot is taken.
\<close>

theorem blank_request_loses_its_slot:
  assumes "rates_ok (limiter (the_gate s))" and "classify_path (rq_path rq) = ''inference:read''"
    and "read_body rq = BodyRead body" and "blank_bytes body" and "ga_loads g body = Inl e" and "undecodable e"
    and "header_size rq \<le> MAX_HEADER_BYTES"
    and "fst (identify g (presented_token rq) s) = Inr (Some (granted, caller))" and "''inference:read'' \<in> set granted"
    and "fst (ga_ready g (around (the_gate s))) = Inr True"
    and "room (limiter (the_gate s)) (principal_name caller (actor_of rq))"
  shows "inflight (limiter (the_gate (snd (serve g rq s)))) =
      taken (principal_name caller (actor_of rq)) (inflight (limiter (the_gate s))) \<and>
    (\<exists>reply. fst (serve g rq s) = Inr reply \<and> rp_status reply = 502)"
proof -
  let ?s0 = "s\<lparr>uuid_reads := Suc (uuid_reads s)\<rparr>" and ?id = "cps (e_uuid (ga_env g) (uuid_reads s))"
  let ?prepare = "prepare_request g ?id (actor_of rq) (rq_method rq) (rq_path rq) (header_size rq) body (presented_token rq)"
  have "fst (identify g (presented_token rq) ?s0) = Inr (Some (granted, caller))" using assms(8) by (simp add: identify_uuid)
  then obtain s' where prepare: "?prepare ?s0 = (Inl e, s')"
    and s': "inflight (limiter (the_gate s')) = taken (principal_name caller (actor_of rq)) (inflight (limiter (the_gate s)))"
    using blank_prepare [of ?s0 "rq_path rq" body g e "header_size rq" "presented_token rq" granted caller "actor_of rq" ?id "rq_method rq"]
      assms read_body_bounded [OF assms(3)] by auto
  have "parse_stream g body = Inr False" using assms(5,6) read_body_bounded [OF assms(3)] by (simp add: parse_stream_def)
  with prepare undecodable_exception [OF assms(6)] assms(2,3)
  have "serve g rq s = (Inr (plain_reply 502 (problem_body g ''GATEWAY_INTERNAL'' (cps (e_uuid (ga_env g) (uuid_reads s'))))),
      s'\<lparr>uuid_reads := Suc (uuid_reads s')\<rparr>)"
    by (simp add: serve_def buffered_def handle_def prog_simps request_id_run handle_request_def Let_def)
  with s' show ?thesis by (simp add: plain_reply_def)
qed

section \<open>How much a request may generate\<close>

lemma get_field_absent: "k \<notin> fst ` set kvs \<Longrightarrow> get_field (kvs @ [(k, x)]) k = x"
  by (induction kvs) (auto simp: get_field_def get_or_def)

text \<open>
  C24 (bounds): a chat request that passes the bounds is sent with at most 8192 tokens to
  generate, its own number or the one the gateway adds; the only way past the bound is to
  send an explicit null, which is sent on as it is.
\<close>

theorem forwarded_generation_is_bounded:
  assumes "validate_body_bounds g body = Inr d" and "de_allow d" and "ga_loads g body = Inr (JObj kvs)"
    and "clean_path path = cps ''/v1/chat/completions''" and "bounded_request_body g path body = Inr content"
  shows "\<exists>sent. content = ga_dumps g (JObj sent) \<and>
    ((\<exists>n. get_field sent ''max_tokens'' = JInt n \<and> 1 \<le> n \<and> n \<le> 8192) \<or>
     sent = kvs \<and> ''max_tokens'' \<in> fst ` set kvs \<and> get_field kvs ''max_tokens'' = JNull)"
proof (cases "''max_tokens'' \<in> fst ` set kvs")
  case True
  with assms(3-5) have "content = ga_dumps g (JObj kvs)" by (simp add: bounded_request_body_def)
  moreover have "get_field kvs ''max_tokens'' = JNull \<or> (\<exists>n. get_field kvs ''max_tokens'' = JInt n \<and> 1 \<le> n \<and> n \<le> 8192)"
    using assms(1-3) by (auto simp: validate_body_bounds_def denied_def MAX_GENERATED_TOKENS_def split: json.splits if_splits)
  ultimately show ?thesis using True by (intro exI [of _ kvs]) auto
next
  case False
  let ?sent = "kvs @ [(''max_tokens'', JInt MAX_GENERATED_TOKENS)]"
  from False assms(3-5) have "content = ga_dumps g (JObj ?sent)" by (simp add: bounded_request_body_def)
  moreover have "get_field ?sent ''max_tokens'' = JInt 8192"
    using get_field_absent [OF False] by (simp add: MAX_GENERATED_TOKENS_def)
  ultimately show ?thesis by (intro exI [of _ ?sent]) simp
qed

end
