(* ===== verification/Gateway_Witnesses.thy ===== *)
theory Gateway_Witnesses
  imports Gateway_Promises
begin

text \<open>
  A small private service on which the properties of the clients and of the gateway are
  applied: one client with one active secret, a disk and tables nobody else touches, a
  backend that answers every request with two bytes.
\<close>

section \<open>The service\<close>

definition web :: ident where
  "web = replicate 32 CHR ''a''"

definition old_secret :: pystr where "old_secret = cps ''old-secret''"
definition next_secret :: pystr where "next_secret = cps ''new-secret''"
definition old_print :: string where "old_print = replicate 64 CHR ''0''"
definition next_print :: string where "next_print = replicate 64 CHR ''1''"

definition keeper_clock :: "(nat \<Rightarrow> exn option) \<Rightarrow> env" where
  "keeper_clock commits = \<lparr>e_clock = (\<lambda>n. 100), e_uuid = (\<lambda>_. ''request''), e_open = (\<lambda>_ _ d. Inr d), e_commit = commits\<rparr>"

definition keeper_with :: "(nat \<Rightarrow> exn option) \<Rightarrow> client_env" where
  "keeper_with commits = \<lparr>ce_env = keeper_clock commits, ce_open = (\<lambda>_ d. Inr d), ce_disk = (\<lambda>_ f. f), ce_dir = (\<lambda>_. None),
     ce_write = (\<lambda>_ _. None), ce_unlink = (\<lambda>_ _. True), ce_secret = (\<lambda>_. next_secret),
     ce_fingerprint = (\<lambda>t. if t = old_secret then old_print else next_print), ce_casefold = (\<lambda>t. t)\<rparr>"

abbreviation keeper :: client_env where
  "keeper \<equiv> keeper_with (\<lambda>_. None)"

definition web_row :: client_row where
  "web_row = \<lparr>cl_id = web, cl_label = cps ''Web'', cl_kind = ''openwebui'', cl_scopes = CLIENT_SCOPES,
     cl_fingerprint = old_print, cl_generation = 1, cl_storage = ''managed'', cl_created_at = 50, cl_rotated_at = None,
     cl_revoked_at = None, cl_last_used_at = None, cl_last_endpoint = None, cl_revision = 1\<rparr>"

definition web_tables :: client_db where
  "web_tables = \<lparr>clients = [web_row], secrets = [new_secret web 1 old_print 50],
     access = \<lparr>ac_enabled = True, ac_disabled_at = None, ac_revision = 1\<rparr>\<rparr>"

definition quiet_gate :: "(pystr \<times> client_rate) list \<Rightarrow> unit gate" where
  "quiet_gate rows = \<lparr>limiter = rows, audit_seq = 0, audit_log = [], monotonic_reads = 0, credential_slot = [],
     upstream = [], around = ()\<rparr>"

definition service_sys :: "(pystr \<times> client_rate) list \<Rightarrow> unit gate desk sys" where
  "service_sys rows = \<lparr>db = \<lparr>operations = [], operation_steps = [], operation_events = [],
        operation_leases = [], worker_lock = None, next_cursor = 1\<rparr>,
      world = \<lparr>client_tables = web_tables, secret_files = (\<lambda>_. None), file_ops = 0, beyond = quiet_gate rows\<rparr>,
      clock_reads = 0, uuid_reads = 0, units = 0, pulses = [], calls = []\<rparr>"

definition two_bytes :: stream_reply where
  "two_bytes = \<lparr>sr_status = 200, sr_identity = True, sr_content_type = None, sr_length = Inr 2,
     sr_chunks = [[111, 107]], sr_broken = None\<rparr>"

definition front :: "unit gate_env" where
  "front = \<lparr>ga_env = keeper_clock (\<lambda>_. None), ga_now = (\<lambda>_. 0), ga_time = (\<lambda>_. 0), ga_named = Some keeper,
     ga_fingerprint = (\<lambda>_. []), ga_allowed = [], ga_ready = (\<lambda>h. (Inr True, h)),
     ga_loads = (\<lambda>b. if b = [] then Inl (python_error ''ValueError'') else Inr (JObj [])), ga_dumps = (\<lambda>_. []),
     ga_backend = (\<lambda>_ _ _ h. (Inr two_bytes, h)), ga_deadline = (\<lambda>_. False), ga_write = (\<lambda>_. None),
     ga_max_events = 10, ga_max_response = 100\<rparr>"

definition asking :: "string \<Rightarrow> request" where
  "asking path = \<lparr>rq_method = cps ''POST'', rq_path = cps path, rq_headers = [(cps ''authorization'', old_secret)],
     rq_lengths = [], rq_encoded = False, rq_expects = False, rq_wire = []\<rparr>"

lemma keeper_simps [simp]:
  "ce_env (keeper_with c) = keeper_clock c" "ce_open (keeper_with c) n d = Inr d" "ce_disk (keeper_with c) n f = f"
  "ce_dir (keeper_with c) n = None" "ce_write (keeper_with c) n t = None" "ce_unlink (keeper_with c) n p = True"
  "ce_secret (keeper_with c) n = next_secret" "ce_fingerprint (keeper_with c) old_secret = old_print"
  "ce_fingerprint (keeper_with c) next_secret = next_print" "e_clock (keeper_clock c) n = 100"
  "e_commit (keeper_clock c) = c" "e_uuid (keeper_clock c) n = ''request''"
  by (simp_all add: keeper_with_def keeper_clock_def old_secret_def next_secret_def cps_def)

lemma service_simps [simp]:
  "the_tables (service_sys rows) = web_tables" "the_gate (service_sys rows) = quiet_gate rows"
  "units (service_sys rows) = 0" "clock_reads (service_sys rows) = 0" "uuid_reads (service_sys rows) = 0"
  "secret_files (world (service_sys rows)) = (\<lambda>_. None)" "file_ops (world (service_sys rows)) = 0"
  "limiter (quiet_gate rows) = rows" "audit_log (quiet_gate rows) = []" "upstream (quiet_gate rows) = []"
  "around (quiet_gate rows) = ()" "monotonic_reads (quiet_gate rows) = 0"
  by (simp_all add: service_sys_def quiet_gate_def)

lemma prints_differ [simp]: "old_print \<noteq> next_print" "next_print \<noteq> old_print"
  by (simp_all add: old_print_def next_print_def)

lemma web_hex [simp]: "hex_of_length 32 web" "hex_of_length 64 old_print" "hex_of_length 64 next_print"
  by (simp_all add: hex_of_length_def web_def old_print_def next_print_def list_all_iff hex_char_def)

lemma web_get [simp]: "get_client web web_tables = Some web_row"
  by (simp add: get_client_def web_tables_def web_row_def)

lemma web_row_simps [simp]: "cl_id web_row = web" "cl_generation web_row = 1" "cl_revision web_row = 1"
  "cl_revoked_at web_row = None" "cl_storage web_row = ''managed''" "cl_fingerprint web_row = old_print"
  "cl_scopes web_row = CLIENT_SCOPES"
  by (simp_all add: web_row_def)

lemma web_ok: "tables_ok web_tables"
  by (simp add: tables_ok_def web_tables_def secret_fits_def is_current_def new_secret_def active_clients_def
      MAX_ACTIVE_CLIENTS_def web_def)

lemma keeper_alone: "undisturbed keeper" "quiet_disk (keeper_with c)" "writes_work (keeper_with c)"
  by (simp_all add: undisturbed_def quiet_disk_def writes_work_def)

section \<open>Clients\<close>

lemma web_revoked: "\<exists>res s1. revoke_client keeper web 1 (service_sys []) = (Inr res, s1)"
proof -
  have up: "[1..1::int] = [1]" by (simp add: upto.simps)
  have after: "get_client web (web_tables\<lparr>clients := [c]\<rparr>) = Some c" if "cl_id c = web" for c
    using that by (simp add: get_client_def)
  show ?thesis
    by (simp add: revoke_client_def revoke_row_def update_client_def current_client_def client_unit_def prog_simps
        read_tables_run write_tables_run clock_def with_tables_def up path_of_def sum_bind_def validate_client_id_def requires_valid_def
        unlink_secret_def on_files_def Let_def web_tables_def rows_updated_def get_client_def)
qed

theorem revoked_client_never_reaches_the_backend_witness:
  "\<exists>s1. snd (revoke_client keeper web 1 (service_sys [])) = s1 \<and> 
    (\<exists>new. upstream (the_gate (snd (traffic front keeper [Request (asking ''/v1/models'')] s1))) = upstream (the_gate s1) @ new \<and>
      (\<forall>c\<in>set new. up_principal c \<noteq> cps web))"
proof -
  obtain res s1 where run: "revoke_client keeper web 1 (service_sys []) = (Inr res, s1)" using web_revoked by blast
  obtain r s2 where later: "traffic front keeper [Request (asking ''/v1/models'')] s1 = (r, s2)" by fastforce
  have "ga_named front = Some keeper" by (simp add: front_def)
  moreover have "others_write stays_revoked keeper"
    by (rule others_undisturbed [OF keeper_alone(1)]) (simp add: stays_revoked_def)
  moreover have "tables_ok (the_tables (service_sys []))" using web_ok by simp
  ultimately have "\<exists>new. upstream (the_gate s2) = upstream (the_gate s1) @ new \<and> (\<forall>c\<in>set new. up_principal c \<noteq> cps web)"
    using run later by (rule revoked_client_never_reaches_the_backend)
  with run later show ?thesis by simp
qed

lemma auth_web:
  "authentication_fingerprints now web_tables = [(web_row, new_secret web 1 old_print 50)]"
  by (simp add: authentication_fingerprints_def web_tables_def active_clients_def eligible_def new_secret_def)

lemma front_simps [simp]:
  "ga_named front = Some keeper" "ga_ready front h = (Inr True, h)" "ga_env front = keeper_clock (\<lambda>_. None)"
  "ga_loads front [] = Inl (python_error ''ValueError'')" "ga_loads front (b # bs) = Inr (JObj [])" "ga_dumps front j = []"
  "ga_backend front m t c h = (Inr two_bytes, h)" "ga_max_events front = 10" "ga_max_response front = 100" "ga_now front n = 0"
  by (simp_all add: front_def)

lemma known_secret: "length old_secret = 10" "1 \<le> length old_secret \<and> length old_secret \<le> MAX_SECRET_LEN"
  by (simp_all add: old_secret_def cps_def MAX_SECRET_LEN_def)

lemma web_known: "fst (identify front old_secret (service_sys rows)) = Inr (Some (CLIENT_SCOPES, Some (cps web)))"
  using known_secret
  by (simp add: identify_def authenticate_def client_unit_def prog_simps clock_def
      read_tables_def with_tables_def auth_web matching_def new_secret_def Let_def)

lemma asking_simps [simp]:
  "presented_token (asking path) = old_secret" "actor_of (asking path) = cps ''unknown''" "rq_path (asking path) = cps path"
  "read_body (asking path) = BodyRead []" "header_size (asking path) = 41" "rq_method (asking path) = cps ''POST''"
  by (simp_all add: asking_def presented_token_def header_of_def py_lower_def cps_def old_secret_def actor_of_def
      read_body_def digits_value_def MAX_BODY_BYTES_def header_size_def Let_def)

lemma paths [simp]:
  "classify_path (cps ''/v1/models'') = ''models:list''" "classify_path (cps ''/v1/chat/completions'') = ''inference:read''"
  by (simp_all add: classify_path_def gateway_route_classification_def clean_path_def cps_def Let_def)

lemma web_name [simp]: "cps web \<noteq> []" "map char_of (cps web) = web"
  by (simp add: cps_def web_def) (simp add: cps_def comp_def)

lemma web_lists [simp]: "clients web_tables = [web_row]" "secrets web_tables = [new_secret web 1 old_print 50]"
  "cl_last_used_at web_row = None" "ac_enabled (access web_tables) = True"
  by (simp_all add: web_tables_def web_row_def)

lemma models_reply: "\<exists>reply. fst (serve front (asking ''/v1/models'') (service_sys [])) = Inr reply"
  using known_secret
  by (simp add: serve_def buffered_def handle_def prog_simps request_id_run handle_request_def prepare_request_def authorize_def
      Let_def MAX_HEADER_BYTES_def MAX_BODY_BYTES_def identify_def authenticate_def client_unit_def clock_def
      read_tables_run write_tables_run with_tables_def auth_web matching_def new_secret_def required_scope_def sum_bind_def CLIENT_SCOPES_def allowed_def
      bounded_decision_def validate_body_bounds_def undecodable_def python_error_def blank_bytes_def principal_of_def
      outside_def reserve_def rate_check_def rate_row_def read_gate_def write_gate_def monotonic_gate rate_window_def fresh_rate_def
      MAX_RATE_CLIENTS_def limits put_rate_def RATE_WINDOW_S_def settled_def forwarded_def proxy_request_def open_backend_stream_def
      bounded_request_body_def clean_path_def two_bytes_def relayed_def finish_request_def rate_release_def only_if_def
      audit_record_def record_gateway_use_def record_use_def record_use_row_def update_client_def endpoint_of_def ENDPOINT_CLASSES_def
      rows_updated_def get_client_def parse_stream_def is_exception_def)

lemma empty_rates [simp]: "rates_ok []"
  by (simp add: rates_ok_def)

section \<open>The properties of the clients\<close>

theorem commands_keep_the_tables_witness:
  "tables_ok (the_tables (snd (client_session keeper [RotateClient web 1 0, DisableAll 1] (service_sys []))))"
proof (rule commands_keep_the_tables)
  show "others_write (\<lambda>d d'. tables_ok d \<longrightarrow> tables_ok d') keeper"
    by (rule others_undisturbed [OF keeper_alone(1)]) simp
qed (simp add: web_ok)

theorem authentication_is_exact_witness:
  "fst (authenticate keeper old_secret (service_sys [])) = Inr (Some (web, CLIENT_SCOPES))"
proof -
  have "ce_open keeper (units (service_sys [])) (the_tables (service_sys [])) = Inr web_tables"
    "e_commit (ce_env keeper) (units (service_sys [])) = None" by simp_all
  from authentication_is_exact [OF web_ok this, of old_secret web CLIENT_SCOPES] show ?thesis
    using known_secret by (simp add: readable_def new_secret_def)
qed

lemma new_length [simp]: "8 \<le> length next_secret" "length next_secret \<le> MAX_SECRET_LEN"
  by (simp_all add: next_secret_def cps_def MAX_SECRET_LEN_def)

lemmas rotating = rotate_client_def client_unit_def rotate_row_def current_client_def insert_secret_def update_client_def
  prog_simps read_tables_run write_tables_run clock_def with_tables_def path_of_def sum_bind_def validate_client_id_def
  validate_fingerprint_def requires_valid_def draw_secret_def publish_secret_def ensure_secret_dir_def unlink_secret_def
  on_files_def cleaning_up_def handle_def Let_def rows_updated_def get_client_def secret_clash_def new_secret_def superseded_def

lemma web_rotates: "\<exists>res s1. rotate_client keeper web 1 0 (service_sys []) = (Inr res, s1) \<and> cr_secret res = Some next_secret"
  by (simp add: rotating)

definition dying :: client_env where
  "dying = keeper_with (\<lambda>n. if n = 1 then Some ProcessDeath else None)"

lemma web_dies: "\<exists>s1. rotate_client dying web 1 0 (service_sys []) = (Inl ProcessDeath, s1)"
  by (simp add: rotating dying_def is_exception_def)

theorem rotation_replaces_the_secret_witness:
  "\<exists>res s1. rotate_client keeper web 1 0 (service_sys []) = (Inr res, s1) \<and> cr_secret res = Some next_secret \<and>
     fst (authenticate keeper next_secret s1) = Inr (Some (web, CLIENT_SCOPES)) \<and>
     fst (authenticate keeper old_secret s1) = Inr None"
proof -
  obtain res s1 where run: "rotate_client keeper web 1 0 (service_sys []) = (Inr res, s1)"
    and secret: "cr_secret res = Some next_secret" using web_rotates by blast
  have "tables_ok (the_tables (service_sys []))" "ac_enabled (access (the_tables (service_sys [])))" by (simp_all add: web_ok)
  from rotation_replaces_the_secret [OF keeper_alone(1) this run] obtain c secret where
    c: "get_client web web_tables = Some c" "cr_secret res = Some secret"
    and now: "fst (authenticate keeper secret s1) = Inr (Some (web, cl_scopes c))"
    and past: "readable old_secret \<and> ce_fingerprint keeper old_secret = cl_fingerprint c \<longrightarrow> fst (authenticate keeper old_secret s1) = Inr None"
    by auto
  with run secret known_secret show ?thesis by (simp add: readable_def)
qed

theorem dead_rotation_blocks_the_client_witness:
  "\<exists>s1. rotate_client dying web 1 0 (service_sys []) = (Inl ProcessDeath, s1) \<and>
    (\<exists>e. fst (rotate_client keeper web 1 0 (snd (rotations keeper web [(1, 0), (1, 60)] s1))) = Inl e)"
proof -
  obtain s1 where run: "rotate_client dying web 1 0 (service_sys []) = (Inl ProcessDeath, s1)" using web_dies by blast
  have "ce_open dying n d = Inr d" "e_commit (ce_env dying) (units (service_sys [])) = None" "quiet_disk dying" "writes_work dying" for n d
    by (simp_all add: dying_def keeper_alone)
  from dead_rotation_blocks_the_client [OF this run keeper_alone(1,2)] run show ?thesis by blast
qed

section \<open>The properties of the gateway\<close>


theorem gateway_memory_is_bounded_witness:
  "memory_ok front (the_gate (snd (traffic front keeper [Request (asking ''/v1/models''), Command (RevokeClient web 1),
     Request (asking ''/v1/models'')] (service_sys []))))"
  by (rule gateway_memory_is_bounded) (simp add: memory_ok_def)



definition full_rate :: client_rate where
  "full_rate = \<lparr>ra_window_start = 0, ra_count = 4, ra_tokens = 0, ra_inflight = 4\<rparr>"

theorem caller_without_slots_is_locked_out_witness:
  "\<exists>new. upstream (the_gate (snd (traffic front keeper [Request (asking ''/v1/models'')] (service_sys [(cps web, full_rate)])))) = new \<and>
    (\<forall>c\<in>set new. up_principal c \<noteq> cps web)"
proof -
  have "rates_ok (limiter (the_gate (service_sys [(cps web, full_rate)])))"
    "inflight (limiter (the_gate (service_sys [(cps web, full_rate)]))) (cps web) = MAX_CONCURRENT"
    by (simp_all add: rates_ok_def rate_ok_def full_rate_def inflight_def limits MAX_RATE_CLIENTS_def)
  from caller_without_slots_is_locked_out [OF this, of front keeper "[Request (asking ''/v1/models'')]"] show ?thesis by auto
qed

theorem blank_request_loses_its_slot_witness:
  "inflight (limiter (the_gate (snd (serve front (asking ''/v1/chat/completions'') (service_sys []))))) (cps web) = 1"
proof -
  let ?rq = "asking ''/v1/chat/completions''" and ?s = "service_sys []"
  have "fst (identify front (presented_token ?rq) ?s) = Inr (Some (CLIENT_SCOPES, Some (cps web)))" by (simp add: web_known)
  moreover have "''inference:read'' \<in> set CLIENT_SCOPES" by (simp add: CLIENT_SCOPES_def)
  moreover have "undecodable (python_error ''ValueError'')" by (simp add: undecodable_def python_error_def)
  ultimately show ?thesis
    using blank_request_loses_its_slot [of ?s ?rq "[]" front "python_error ''ValueError''" CLIENT_SCOPES "Some (cps web)"]
    by (simp add: blank_bytes_def MAX_HEADER_BYTES_def room_def principal_name_def MAX_RATE_CLIENTS_def inflight_def taken_def)
qed

theorem forwarded_generation_is_bounded_witness:
  "\<exists>sent. bounded_request_body front (cps ''/v1/chat/completions'') [123] = Inr (ga_dumps front (JObj sent)) \<and>
    (\<exists>n. get_field sent ''max_tokens'' = JInt n \<and> 1 \<le> n \<and> n \<le> 8192)"
proof -
  have "validate_body_bounds front [123] = Inr (allowed None None)"
    by (simp add: validate_body_bounds_def get_field_def get_or_def context_given_def too_large_context_def)
  moreover have "de_allow (allowed None None)" by (simp add: allowed_def)
  moreover have "ga_loads front [123] = Inr (JObj [])" by simp
  moreover have "clean_path (cps ''/v1/chat/completions'') = cps ''/v1/chat/completions''"
    by (simp add: clean_path_def cps_def Let_def)
  moreover from this obtain content where "bounded_request_body front (cps ''/v1/chat/completions'') [123] = Inr content"
    by (simp add: bounded_request_body_def)
  ultimately show ?thesis using forwarded_generation_is_bounded by fastforce
qed

end
