(* ===== verification/Pointers.thy ===== *)
theory Pointers
  imports Requests
begin

text \<open>
  Which installed release is the current one: two relative symbolic links in the application
  directory, replaced one after the other (\<^verbatim>\<open>application_pointer_helper.py\<close>), and the
  publisher that promotes a staged release, moves the links, writes the receipt, and takes a
  publication back (\<^verbatim>\<open>application_publisher.py\<close>). Every file operation may raise or be
  the last one of its process, before or after it took effect.
\<close>

section \<open>The application directory\<close>

datatype link_entry = Symlink string | NoLink

text \<open>
  A receipt by what its reader looks at: whether it is a regular file, how long it is, and
  what decoding makes of it. A release is a directory with a receipt, or something else.
\<close>

record release_receipt =
  rr_regular :: bool
  rr_bytes :: nat
  rr_value :: "exn + json"

datatype release_entry = ReleaseDir "release_receipt option" | NoDirectory

record shelf =
  links :: "string \<rightharpoonup> link_entry"
  releases :: "string \<rightharpoonup> release_entry"
  stages :: "string \<rightharpoonup> release_entry"
  pointer_receipts :: "string \<rightharpoonup> json"
  disk_ops :: nat

type_synonym 'a shelf_prog = "(shelf, 'a) prog"

text \<open>
  \<open>pe_fault\<close> gives the exception the n-th file operation raises, and whether it took effect
  before. \<open>pe_hook\<close> is the crash hook. \<open>pe_root\<close>, \<open>pe_releases\<close>, \<open>pe_device\<close> and
  \<open>pe_stage_device\<close> say whether the application directory is a real directory, the releases
  are one in it, and both, or a stage and the releases, are on one device. \<open>pe_helper\<close> is the
  digest of the helper's source, \<open>pe_digest\<close> the SHA-256 of a receipt's text.
\<close>

record pointer_env =
  pe_fault :: "nat \<Rightarrow> (exn \<times> bool) option"
  pe_hook :: "string \<Rightarrow> exn option"
  pe_root :: bool
  pe_releases :: bool
  pe_device :: bool
  pe_stage_device :: bool
  pe_helper :: string
  pe_digest :: "json \<Rightarrow> string"

definition on_shelf :: "(shelf \<Rightarrow> shelf) \<Rightarrow> shelf sys \<Rightarrow> shelf sys" where
  "on_shelf f s = s\<lparr>world := f (world s)\<rparr>"

text \<open>One file operation: \<open>f\<close> answers and changes the directory, or refuses.\<close>

definition disk_op :: "pointer_env \<Rightarrow> (shelf \<Rightarrow> (exn + 'a) \<times> shelf) \<Rightarrow> 'a shelf_prog" where
  "disk_op v f s =
    (let w = world s; counted = (\<lambda>w. w\<lparr>disk_ops := Suc (disk_ops w)\<rparr>) in
     case pe_fault v (disk_ops w) of
       None \<Rightarrow> (case f w of (r, w') \<Rightarrow> (r, on_shelf (\<lambda>_. counted w') s))
     | Some (e, happened) \<Rightarrow> (Inl e, on_shelf (\<lambda>_. counted (if happened then snd (f w) else w)) s))"

definition observing :: "pointer_env \<Rightarrow> (shelf \<Rightarrow> 'a) \<Rightarrow> 'a shelf_prog" where
  "observing v f = disk_op v (\<lambda>w. (Inr (f w), w))"

text \<open>\<^verbatim>\<open>try/finally\<close>: a dead process runs no cleanup.\<close>

definition finally_do :: "('w, 'a) prog \<Rightarrow> ('w, unit) prog \<Rightarrow> ('w, 'a) prog" where
  "finally_do m cleanup s = (case m s of
     (Inl e, s') \<Rightarrow> if is_exception e then andthen cleanup (throw e) s' else (Inl e, s')
   | (Inr x, s') \<Rightarrow> andthen cleanup (ret x) s')"

definition pointer_refusal :: "string \<Rightarrow> exn" where
  "pointer_refusal code = StepFailed ''PointerRefusal'' (Some code) False False"

definition refuse_unless :: "bool \<Rightarrow> string \<Rightarrow> unit shelf_prog" where
  "refuse_unless ok code = (if ok then ret () else throw (pointer_refusal code))"

section \<open>Releases\<close>

definition release_digest :: "string \<Rightarrow> bool" where
  "release_digest s \<longleftrightarrow> length s = 64 \<and> list_all (\<lambda>c. hex_char (of_char c)) s"

definition slug_char :: "char \<Rightarrow> bool" where
  "slug_char c \<longleftrightarrow> alphanumeric (of_char c) \<or> c \<in> set ''._-''"

fun operation_name :: "string \<Rightarrow> bool" where
  "operation_name [] = False"
| "operation_name (c # s) = (alphanumeric (of_char c) \<and> list_all slug_char s \<and> length s \<le> 127)"

text \<open>Python's equality with one: \<^verbatim>\<open>True == 1\<close> and \<^verbatim>\<open>1.0 == 1\<close>.\<close>

fun equals_one :: "json \<Rightarrow> bool" where
  "equals_one (JInt n) = (n = 1)"
| "equals_one (JBool b) = b"
| "equals_one (JFloat t) = (t = ''1.0'')"
| "equals_one v = False"

definition receipt_of :: "string \<Rightarrow> release_receipt \<Rightarrow> bool" where
  "receipt_of identity r \<longleftrightarrow> rr_regular r \<and> rr_bytes r \<le> 32 * 1024 \<and>
     (case rr_value r of
        Inr (JObj kvs) \<Rightarrow> get_field kvs ''release_set_digest'' = jstr identity \<and> equals_one (get_field kvs ''schema_version'')
      | _ \<Rightarrow> False)"

definition genuine :: "string \<Rightarrow> release_entry option \<Rightarrow> bool" where
  "genuine identity e \<longleftrightarrow> (case e of Some (ReleaseDir (Some r)) \<Rightarrow> receipt_of identity r | _ \<Rightarrow> False)"

definition validate_root :: "pointer_env \<Rightarrow> unit shelf_prog" where
  "validate_root v = andthen (refuse_unless (pe_root v) ''POINTER_ROOT_REFUSED'')
    (andthen (refuse_unless (pe_releases v) ''RELEASE_ROOT_REFUSED'')
      (refuse_unless (pe_device v) ''POINTER_CROSS_DEVICE''))"

definition verify_release :: "pointer_env \<Rightarrow> string \<Rightarrow> unit shelf_prog" where
  "verify_release v identity = andthen (refuse_unless (release_digest identity) ''RELEASE_IDENTITY_REFUSED'')
     (bind (observing v (\<lambda>w. releases w identity)) (\<lambda>e. case e of
        Some (ReleaseDir r) \<Rightarrow> refuse_unless (genuine identity e) ''RELEASE_RECEIPT_INVALID''
      | _ \<Rightarrow> throw (pointer_refusal ''RELEASE_DIRECTORY_REFUSED'')))"

section \<open>Reading the links\<close>

definition target_of :: "string \<Rightarrow> string" where
  "target_of identity = ''releases/'' @ identity"

text \<open>The identity a link's text names, if it has the form of one.\<close>

definition identity_of :: "string \<Rightarrow> string option" where
  "identity_of target = (let identity = drop (length ''releases/'') target in
     if target = target_of identity \<and> release_digest identity then Some identity else None)"

definition read_pointer :: "pointer_env \<Rightarrow> string \<Rightarrow> string option shelf_prog" where
  "read_pointer v name = bind (observing v (\<lambda>w. links w name)) (\<lambda>e. case e of
     None \<Rightarrow> ret None
   | Some NoLink \<Rightarrow> throw (pointer_refusal ''POINTER_NOT_SYMLINK'')
   | Some (Symlink target) \<Rightarrow>
      (case identity_of target of
         None \<Rightarrow> throw (pointer_refusal ''POINTER_TARGET_REFUSED'')
       | Some identity \<Rightarrow> andthen (verify_release v identity) (ret (Some identity))))"

record pointers =
  pt_current :: "string option"
  pt_previous :: "string option"

definition observe_pointers :: "pointer_env \<Rightarrow> pointers shelf_prog" where
  "observe_pointers v = andthen (validate_root v)
    (bind (read_pointer v ''current'') (\<lambda>current. bind (read_pointer v ''previous'') (\<lambda>previous.
      ret \<lparr>pt_current = current, pt_previous = previous\<rparr>)))"

text \<open>\<^verbatim>\<open>COMPLETE\<close> is \<open>PUBLISHED\<close> here and \<^verbatim>\<open>ABSENT\<close> is \<open>UNPUBLISHED\<close>.\<close>

datatype pointer_state = PUBLISHED | PREPARED | UNPUBLISHED | UNCERTAIN_POINTERS

definition classify_pointer_state :: "pointers \<Rightarrow> string \<Rightarrow> string \<Rightarrow> string option \<Rightarrow> pointer_state" where
  "classify_pointer_state p candidate expected_current expected_previous =
    (if pt_current p = Some candidate \<and> pt_previous p = Some expected_current then PUBLISHED
     else if pt_current p = Some expected_current \<and> pt_previous p = Some expected_current then PREPARED
     else if pt_current p = Some expected_current \<and> pt_previous p = expected_previous then UNPUBLISHED
     else UNCERTAIN_POINTERS)"

section \<open>Moving the links\<close>

definition temp_of :: "string \<Rightarrow> string \<Rightarrow> string" where
  "temp_of name operation = ''.'' @ name @ ''.'' @ operation @ ''.tmp''"

definition remove_link :: "pointer_env \<Rightarrow> string \<Rightarrow> unit shelf_prog" where
  "remove_link v name = disk_op v (\<lambda>w. (Inr (), w\<lparr>links := (links w)(name := None)\<rparr>))"

text \<open>A link of an earlier attempt is removed; anything else in its place stops the publication.\<close>

definition clear_temp :: "pointer_env \<Rightarrow> string \<Rightarrow> unit shelf_prog" where
  "clear_temp v name = bind (observing v (\<lambda>w. links w name)) (\<lambda>e. case e of
     None \<Rightarrow> ret ()
   | Some NoLink \<Rightarrow> throw (pointer_refusal ''POINTER_TEMP_REFUSED'')
   | Some (Symlink t) \<Rightarrow> remove_link v name)"

definition make_link :: "pointer_env \<Rightarrow> string \<Rightarrow> string \<Rightarrow> unit shelf_prog" where
  "make_link v name target = disk_op v (\<lambda>w. case links w name of
     None \<Rightarrow> (Inr (), w\<lparr>links := (links w)(name \<mapsto> Symlink target)\<rparr>)
   | Some e \<Rightarrow> (Inl (python_error ''FileExistsError''), w))"

definition replace_link :: "pointer_env \<Rightarrow> string \<Rightarrow> string \<Rightarrow> unit shelf_prog" where
  "replace_link v source target = disk_op v (\<lambda>w. case links w source of
     None \<Rightarrow> (Inl (python_error ''FileNotFoundError''), w)
   | Some e \<Rightarrow> (Inr (), w\<lparr>links := (links w)(source := None, target \<mapsto> e)\<rparr>))"

definition fsync_directory :: "pointer_env \<Rightarrow> unit shelf_prog" where
  "fsync_directory v = disk_op v (\<lambda>w. (Inr (), w))"

definition crash_hook :: "pointer_env \<Rightarrow> string \<Rightarrow> unit shelf_prog" where
  "crash_hook v point = (case pe_hook v point of None \<Rightarrow> ret () | Some e \<Rightarrow> throw e)"

text \<open>One of the two replacements: the new link is made aside and renamed over the old one.\<close>

definition move_link :: "pointer_env \<Rightarrow> string \<Rightarrow> string \<Rightarrow> string \<Rightarrow> string \<Rightarrow> unit shelf_prog" where
  "move_link v operation name identity point = andthen (make_link v (temp_of name operation) (target_of identity))
    (andthen (replace_link v (temp_of name operation) name)
    (andthen (fsync_directory v) (crash_hook v point)))"

text \<open>The final cleanup passes over what cannot be removed.\<close>

definition os_error :: "exn \<Rightarrow> bool" where
  "os_error e \<longleftrightarrow> exn_class e \<in> {''OSError'', ''FileNotFoundError'', ''FileExistsError'', ''PermissionError''}"

definition drop_temp :: "pointer_env \<Rightarrow> string \<Rightarrow> unit shelf_prog" where
  "drop_temp v name = bind (observing v (\<lambda>w. links w name)) (\<lambda>e. case e of
     Some (Symlink t) \<Rightarrow> handle (remove_link v name) (\<lambda>e. if os_error e then Some (ret ()) else None)
   | _ \<Rightarrow> ret ())"

definition publish_pointer_set :: "pointer_env \<Rightarrow> string \<Rightarrow> string \<Rightarrow> string option \<Rightarrow> string \<Rightarrow> pointers shelf_prog" where
  "publish_pointer_set v candidate expected_current expected_previous operation =
     andthen (refuse_unless (operation_name operation) ''OPERATION_IDENTITY_REFUSED'')
    (andthen (validate_root v)
    (andthen (verify_release v candidate)
    (andthen (verify_release v expected_current)
    (andthen (case expected_previous of None \<Rightarrow> ret () | Some p \<Rightarrow> verify_release v p)
    (bind (observe_pointers v) (\<lambda>observed.
     let state = classify_pointer_state observed candidate expected_current expected_previous in
     if state = PUBLISHED then ret observed
     else andthen (refuse_unless (state = UNPUBLISHED \<or> state = PREPARED) ''POINTER_IDENTITY_MISMATCH'')
      (andthen (clear_temp v (temp_of ''previous'' operation))
      (andthen (clear_temp v (temp_of ''current'' operation))
      (andthen (finally_do
         (andthen (only_if (state = UNPUBLISHED) (move_link v operation ''previous'' expected_current ''after_previous_replace''))
           (move_link v operation ''current'' candidate ''after_current_replace''))
         (andthen (drop_temp v (temp_of ''previous'' operation)) (drop_temp v (temp_of ''current'' operation))))
      (bind (observe_pointers v) (\<lambda>final.
       andthen (refuse_unless (classify_pointer_state final candidate expected_current expected_previous = PUBLISHED)
         ''POINTER_PUBLICATION_UNCERTAIN'')
         (ret final)))))))))))) "

text \<open>
  The artifact runs in a process of its own: the arguments of its command line, the program
  first, and what its \<^verbatim>\<open>main\<close> makes of them.
\<close>

definition build_pointer_helper_invocation :: "string \<Rightarrow> string \<Rightarrow> string \<Rightarrow> string \<Rightarrow> string option \<Rightarrow> string \<Rightarrow> string list" where
  "build_pointer_helper_invocation helper root candidate expected_current expected_previous operation =
     [''python3'', helper, root, candidate, expected_current,
      (case expected_previous of None \<Rightarrow> ''-'' | Some p \<Rightarrow> if p = [] then ''-'' else p), operation]"

fun pointer_helper_main :: "(string \<Rightarrow> pointer_env) \<Rightarrow> string list \<Rightarrow> unit shelf_prog" where
  "pointer_helper_main v [_, root, candidate, current, previous, operation] =
     bind (publish_pointer_set (v root) candidate current (if previous = ''-'' then None else Some previous) operation) (\<lambda>_. ret ())"
| "pointer_helper_main v argv = throw (StepFailed ''SystemExit'' None False False)"

section \<open>The publisher\<close>

record publish_request =
  pq_operation :: string
  pq_candidate :: string
  pq_current :: string
  pq_previous :: "string option"
  pq_generation :: int
  pq_stage :: "string option"

record publish_result =
  ps_candidate :: string
  ps_previous :: string
  ps_generation :: int
  ps_receipt :: string
  ps_recovered :: bool

definition stage_name :: "string option \<Rightarrow> bool" where
  "stage_name s \<longleftrightarrow> (case s of None \<Rightarrow> False | Some n \<Rightarrow> operation_name n)"

text \<open>
  A release that is in its place is kept; otherwise the stage is renamed to it, never over
  anything.
\<close>

definition promote_stage :: "pointer_env \<Rightarrow> publish_request \<Rightarrow> unit shelf_prog" where
  "promote_stage v q =
     andthen (refuse_unless (release_digest (pq_candidate q)) ''RELEASE_IDENTITY_REFUSED'')
    (bind (observing v (\<lambda>w. releases w (pq_candidate q))) (\<lambda>present.
     if present \<noteq> None then refuse_unless (genuine (pq_candidate q) present) ''RELEASE_DIRECTORY_REFUSED''
     else andthen (refuse_unless (stage_name (pq_stage q)) ''STAGING_IDENTITY_MISMATCH'')
      (bind (observing v (\<lambda>w. stages w (the (pq_stage q)))) (\<lambda>stage.
       andthen (refuse_unless (genuine (pq_candidate q) stage) ''STAGING_IDENTITY_MISMATCH'')
      (andthen (refuse_unless (pe_stage_device v) ''POINTER_CROSS_DEVICE'')
      (andthen (disk_op v (\<lambda>w. if releases w (pq_candidate q) \<noteq> None then (Inl (pointer_refusal ''RELEASE_DIRECTORY_COLLISION''), w)
         else (Inr (), w\<lparr>releases := (releases w)(pq_candidate q := stages w (the (pq_stage q))),
           stages := (stages w)(the (pq_stage q) := None)\<rparr>)))
       (fsync_directory v)))))))"

definition receipt_body :: "pointer_env \<Rightarrow> publish_request \<Rightarrow> json" where
  "receipt_body v q = JObj
     [(''schema_version'', JInt 1), (''operation_id'', jstr (pq_operation q)),
      (''candidate_installation_id'', jstr (pq_candidate q)),
      (''prior_current_installation_id'', jstr (pq_current q)),
      (''prior_previous_installation_id'', (case pq_previous q of None \<Rightarrow> JNull | Some p \<Rightarrow> jstr p)),
      (''pointer_generation'', JInt (pq_generation q + 1)),
      (''helper_digest'', jstr (pe_helper v))]"

definition write_receipt :: "pointer_env \<Rightarrow> publish_request \<Rightarrow> unit shelf_prog" where
  "write_receipt v q = andthen (refuse_unless (operation_name (pq_operation q)) ''OPERATION_IDENTITY_REFUSED'')
     (disk_op v (\<lambda>w. (Inr (), w\<lparr>pointer_receipts := (pointer_receipts w)(pq_operation q \<mapsto> receipt_body v q)\<rparr>)))"

definition publish_pointers :: "pointer_env \<Rightarrow> publish_request \<Rightarrow> publish_result shelf_prog" where
  "publish_pointers v q =
     andthen (promote_stage v q)
    (bind (observe_pointers v) (\<lambda>before.
     andthen (bind (publish_pointer_set v (pq_candidate q) (pq_current q) (pq_previous q) (pq_operation q)) (\<lambda>_. ret ()))
    (andthen (write_receipt v q)
     (ret \<lparr>ps_candidate = pq_candidate q, ps_previous = pq_current q, ps_generation = pq_generation q + 1,
       ps_receipt = pe_digest v (receipt_body v q),
       ps_recovered = classify_pointer_state before (pq_candidate q) (pq_current q) (pq_previous q) \<in> {PREPARED, PUBLISHED}\<rparr>))))"

definition probe_pointers :: "pointer_env \<Rightarrow> publish_request \<Rightarrow> (pointer_state \<times> pointers) shelf_prog" where
  "probe_pointers v q = bind (observe_pointers v) (\<lambda>p.
     ret (classify_pointer_state p (pq_candidate q) (pq_current q) (pq_previous q), p))"

text \<open>The request that takes a publication back: the same move in the other direction.\<close>

definition rollback_of :: "publish_request \<Rightarrow> publish_request" where
  "rollback_of q = \<lparr>pq_operation = pq_operation q @ ''.rollback'', pq_candidate = pq_current q, pq_current = pq_candidate q,
     pq_previous = Some (pq_current q), pq_generation = pq_generation q + 1, pq_stage = None\<rparr>"

definition restore_pointers :: "pointer_env \<Rightarrow> publish_request \<Rightarrow> publish_result shelf_prog" where
  "restore_pointers v q = bind (probe_pointers v q) (\<lambda>(state, p).
     if state = UNPUBLISHED
     then ret \<lparr>ps_candidate = pq_current q, ps_previous = (case pq_previous q of None \<Rightarrow> pq_candidate q
         | Some x \<Rightarrow> if x = [] then pq_candidate q else x),
       ps_generation = pq_generation q, ps_receipt = replicate 64 CHR ''0'', ps_recovered = True\<rparr>
     else if state \<noteq> PUBLISHED then throw (pointer_refusal ''POINTER_ROLLBACK_UNCERTAIN'')
     else publish_pointers v (rollback_of q))"

definition probe_pointers_restored :: "pointer_env \<Rightarrow> publish_request \<Rightarrow> bool shelf_prog" where
  "probe_pointers_restored v q = bind (observe_pointers v) (\<lambda>p.
     ret (pt_current p = Some (pq_current q) \<and> pt_previous p = Some (pq_candidate q) \<or>
       pt_current p = Some (pq_current q) \<and> pt_previous p = pq_previous q))"

end
