(* ===== verification/Pointer_Facts.thy ===== *)
theory Pointer_Facts
  imports Pointers
begin

text \<open>
  Publishing a release and taking it back, whatever fails in between: what an attempt can leave
  of the two links, that the next attempt carries on from there, and where it cannot.
\<close>

text \<open>The arguments of an invocation are read back as the publication it was built for.\<close>

lemma invocation_runs_publication:
  assumes "previous \<noteq> Some ''-''" and "previous \<noteq> Some []"
  shows "pointer_helper_main v (tl (build_pointer_helper_invocation helper root candidate current previous operation)) =
    bind (publish_pointer_set (v root) candidate current previous operation) (\<lambda>_. ret ())"
  using assms by (auto simp: build_pointer_helper_invocation_def split: option.splits)

section \<open>What programs keep of the directory\<close>

definition on_world :: "(shelf \<Rightarrow> shelf \<Rightarrow> bool) \<Rightarrow> shelf sys \<Rightarrow> shelf sys \<Rightarrow> bool" where
  "on_world R s s' \<longleftrightarrow> R (world s) (world s')"

text \<open>
  A relation that ignores the count of file operations, and so is kept by every program that
  looks only. The links of an operation's own, in the second locale, may come and go.
\<close>

locale shelf_frame =
  fixes R :: "shelf \<Rightarrow> shelf \<Rightarrow> bool"
  assumes same: "R w w"
    and further: "R w w' \<Longrightarrow> R w' w'' \<Longrightarrow> R w w''"
    and count_free: "R w w' \<Longrightarrow> R w (w'\<lparr>disk_ops := n\<rparr>)"
begin

lemma flow: "flow (on_world R)"
  by unfold_locales (auto simp: on_world_def intro: same further)

end

sublocale shelf_frame \<subseteq> flow "on_world R"
  by (rule flow)

context shelf_frame
begin

lemma guar_disk_op:
  assumes "\<And>w. R w (snd (f w))"
  shows "guar (on_world R) (disk_op v f)"
proof (rule guarI)
  fix s r s'
  assume "disk_op v f s = (r, s')"
  with assms [of "world s"] show "on_world R s s'"
    by (auto simp: disk_op_def on_world_def on_shelf_def Let_def
        intro: count_free count_free [OF same] same split: option.splits prod.splits if_splits)
qed

lemma guar_observing [guar_intros]: "guar (on_world R) (observing v f)"
  unfolding observing_def by (rule guar_disk_op) (simp add: same)

lemma guar_refuse [guar_intros]: "guar (on_world R) (refuse_unless ok code)"
  by (simp add: refuse_unless_def guar_ret guar_throw)

lemma guar_verify [guar_intros]: "guar (on_world R) (verify_release v identity)"
  unfolding verify_release_def by (intro guar_intros) (auto intro: guar_intros split: option.split release_entry.split)

lemma guar_read_pointer [guar_intros]: "guar (on_world R) (read_pointer v name)"
  unfolding read_pointer_def by (intro guar_intros) (auto intro!: guar_intros split: option.split link_entry.split)

lemma guar_observe [guar_intros]: "guar (on_world R) (observe_pointers v)"
  unfolding observe_pointers_def validate_root_def by (intro guar_intros)

lemma guar_root [guar_intros]: "guar (on_world R) (validate_root v)"
  unfolding validate_root_def by (intro guar_intros)

lemma guar_fsync [guar_intros]: "guar (on_world R) (fsync_directory v)"
  unfolding fsync_directory_def by (rule guar_disk_op) (simp add: same)

lemma guar_hook [guar_intros]: "guar (on_world R) (crash_hook v point)"
  by (simp add: crash_hook_def guar_ret guar_throw split: option.split)

end

locale shelf_keeper = shelf_frame +
  fixes aside :: "string set"
  assumes own_links: "n \<in> aside \<Longrightarrow> e \<noteq> Some NoLink \<Longrightarrow> R w (w\<lparr>links := (links w)(n := e)\<rparr>)"
begin

lemma guar_clear [guar_intros]: "n \<in> aside \<Longrightarrow> guar (on_world R) (clear_temp v n)"
  unfolding clear_temp_def remove_link_def
  by (intro guar_intros) (auto intro!: guar_intros guar_disk_op own_links split: option.split link_entry.split)

lemma guar_drop [guar_intros]: "n \<in> aside \<Longrightarrow> guar (on_world R) (drop_temp v n)"
  unfolding drop_temp_def remove_link_def
  by (intro guar_intros) (auto intro!: guar_intros guar_handle guar_disk_op own_links split: option.split link_entry.split if_splits)

lemma guar_make [guar_intros]: "n \<in> aside \<Longrightarrow> guar (on_world R) (make_link v n t)"
  unfolding make_link_def by (rule guar_disk_op) (auto simp: same own_links split: option.split)

end

section \<open>The links of an operation\<close>

definition temps :: "string \<Rightarrow> string set" where
  "temps operation = {temp_of ''previous'' operation, temp_of ''current'' operation}"

lemma temp_names [simp]:
  "temp_of name operation \<noteq> ''current''" "temp_of name operation \<noteq> ''previous''"
  "''current'' \<noteq> temp_of name operation" "''previous'' \<noteq> temp_of name operation"
  "temp_of ''previous'' operation \<noteq> temp_of ''current'' operation"
  "temp_of ''current'' operation \<noteq> temp_of ''previous'' operation"
  by (simp_all add: temp_of_def)

text \<open>Nothing but links is in the place of an operation's links.\<close>

definition unobstructed :: "string \<Rightarrow> shelf \<Rightarrow> bool" where
  "unobstructed operation w \<longleftrightarrow> (\<forall>n\<in>temps operation. links w n \<noteq> Some NoLink)"

text \<open>The directory but for the links of one operation and the count of operations.\<close>

definition same_but_temps :: "string \<Rightarrow> shelf \<Rightarrow> shelf \<Rightarrow> bool" where
  "same_but_temps operation w w' \<longleftrightarrow> releases w' = releases w \<and> stages w' = stages w \<and>
     pointer_receipts w' = pointer_receipts w \<and> (\<forall>n. n \<notin> temps operation \<longrightarrow> links w' n = links w n) \<and>
     (unobstructed operation w \<longrightarrow> unobstructed operation w')"

interpretation aside: shelf_keeper "same_but_temps operation" "temps operation" for operation
  by unfold_locales (auto simp: same_but_temps_def unobstructed_def)

text \<open>The directory but for the count of operations.\<close>

definition same_shelf :: "shelf \<Rightarrow> shelf \<Rightarrow> bool" where
  "same_shelf w w' \<longleftrightarrow> links w' = links w \<and> releases w' = releases w \<and> stages w' = stages w \<and>
     pointer_receipts w' = pointer_receipts w"

interpretation looking: shelf_frame same_shelf
  by unfold_locales (auto simp: same_shelf_def)

lemma looked: "guar (on_world same_shelf) m \<Longrightarrow> m s = (r, s') \<Longrightarrow> same_shelf (world s) (world s')"
  by (auto dest: guarD simp: on_world_def)

lemma set_aside: "guar (on_world (same_but_temps operation)) m \<Longrightarrow> m s = (r, s') \<Longrightarrow>
    same_but_temps operation (world s) (world s')"
  by (auto dest: guarD simp: on_world_def)

text \<open>What the two links say.\<close>

definition link_to :: "string option \<Rightarrow> link_entry option" where
  "link_to identity = map_option (\<lambda>i. Symlink (target_of i)) identity"

definition shows_pair :: "shelf \<Rightarrow> string option \<Rightarrow> string option \<Rightarrow> bool" where
  "shows_pair w current previous \<longleftrightarrow> links w ''current'' = link_to current \<and> links w ''previous'' = link_to previous"

lemma shows_pair_frames:
  "same_shelf w w' \<Longrightarrow> shows_pair w' c p = shows_pair w c p"
  "same_but_temps operation w w' \<Longrightarrow> shows_pair w' c p = shows_pair w c p"
  by (auto simp: same_shelf_def same_but_temps_def shows_pair_def temps_def)

lemma identity_of_target: "release_digest i \<Longrightarrow> identity_of (target_of i) = Some i"
  by (simp add: identity_of_def target_of_def Let_def)

lemma identity_ofD: "identity_of t = Some i \<Longrightarrow> target_of i = t"
  by (auto simp: identity_of_def Let_def split: if_splits)

lemma link_to_simps [simp]: "link_to None = None" "link_to (Some i) = Some (Symlink (target_of i))"
  by (simp_all add: link_to_def)

lemma link_to_eq [simp]:
  "link_to x = Some (Symlink (target_of i)) \<longleftrightarrow> x = Some i" "Some (Symlink (target_of i)) = link_to x \<longleftrightarrow> x = Some i"
  by (cases x; auto simp: link_to_def target_of_def)+

lemma target_of_inject [simp]: "target_of i = target_of j \<longleftrightarrow> i = j"
  by (simp add: target_of_def)

lemma link_to_inject [simp]: "link_to i = link_to j \<longleftrightarrow> i = j"
  by (cases i; cases j) (auto simp: link_to_def)

section \<open>What is read\<close>

lemma observing_Inr: "observing v f s = (Inr x, s') \<Longrightarrow> x = f (world s)"
  by (auto simp: observing_def disk_op_def Let_def on_shelf_def split: option.splits prod.splits)

lemma refuse_Inr: "refuse_unless ok code s = (Inr x, s') \<longleftrightarrow> ok \<and> s' = s"
  by (auto simp: refuse_unless_def prog_simps)

lemma verify_release_Inr:
  assumes "verify_release v i s = (Inr x, s')"
  shows "release_digest i" and "genuine i (releases (world s) i)"
proof -
  from assms show "release_digest i"
    by (auto simp: verify_release_def andthen_run refuse_unless_def throw_run split: if_splits)
  from assms obtain e s1 where e: "observing v (\<lambda>w. releases w i) s = (Inr e, s1)"
      and rest: "(case e of Some (ReleaseDir r) \<Rightarrow> refuse_unless (genuine i e) ''RELEASE_RECEIPT_INVALID''
        | _ \<Rightarrow> throw (pointer_refusal ''RELEASE_DIRECTORY_REFUSED'')) s1 = (Inr x, s')"
    by (auto simp: verify_release_def andthen_run bind_run refuse_unless_def prog_simps split: prod.splits sum.splits if_splits)
  from observing_Inr [OF e] rest show "genuine i (releases (world s) i)"
    by (auto simp: refuse_unless_def prog_simps split: option.splits release_entry.splits if_splits)
qed

lemma read_pointer_Inr:
  assumes "read_pointer v name s = (Inr x, s')"
  shows "links (world s) name = link_to x" and "\<And>i. x = Some i \<Longrightarrow> release_digest i \<and> genuine i (releases (world s) i)"
proof -
  from assms obtain e s1 where e: "observing v (\<lambda>w. links w name) s = (Inr e, s1)"
      and rest: "(case e of None \<Rightarrow> ret None | Some NoLink \<Rightarrow> throw (pointer_refusal ''POINTER_NOT_SYMLINK'')
        | Some (Symlink target) \<Rightarrow> (case identity_of target of
            None \<Rightarrow> throw (pointer_refusal ''POINTER_TARGET_REFUSED'')
          | Some identity \<Rightarrow> andthen (verify_release v identity) (ret (Some identity)))) s1 = (Inr x, s')"
    by (auto simp: read_pointer_def bind_run split: prod.splits sum.splits)
  have same: "same_shelf (world s) (world s1)"
    using looked [OF looking.guar_observing e] .
  show "links (world s) name = link_to x"
  proof (cases "\<exists>t. e = Some (Symlink t)")
    case True
    then obtain t where t: "e = Some (Symlink t)" by blast
    with rest obtain i where "identity_of t = Some i" "x = Some i"
      by (auto simp: prog_simps split: option.splits prod.splits sum.splits)
    with t observing_Inr [OF e] show ?thesis by (simp add: identity_ofD)
  next
    case False
    with rest observing_Inr [OF e] show ?thesis
      by (auto simp: prog_simps split: option.splits link_entry.splits)
  qed
  fix i
  assume "x = Some i"
  with rest obtain s2 where "verify_release v i s1 = (Inr (), s2)"
    by (auto simp: prog_simps split: option.splits link_entry.splits prod.splits sum.splits)
  with verify_release_Inr [of v i s1 "()" s2] same show "release_digest i \<and> genuine i (releases (world s) i)"
    by (simp add: same_shelf_def)
qed

lemma observe_Inr:
  assumes "observe_pointers v s = (Inr p, s')"
  shows "shows_pair (world s) (pt_current p) (pt_previous p)"
    and "\<And>i. pt_current p = Some i \<Longrightarrow> release_digest i \<and> genuine i (releases (world s) i)"
proof -
  from assms obtain s0 s1 s2 c q where root: "validate_root v s = (Inr (), s0)"
      and c: "read_pointer v ''current'' s0 = (Inr c, s1)" and q: "read_pointer v ''previous'' s1 = (Inr q, s2)"
      and p: "p = \<lparr>pt_current = c, pt_previous = q\<rparr>"
    by (auto simp: observe_pointers_def prog_simps split: prod.splits sum.splits)
  note same = looked [OF looking.guar_root root] looked [OF looking.guar_read_pointer c]
  show "shows_pair (world s) (pt_current p) (pt_previous p)"
    using read_pointer_Inr(1) [OF c] read_pointer_Inr(1) [OF q] same p by (simp add: shows_pair_def same_shelf_def)
  show "\<And>i. pt_current p = Some i \<Longrightarrow> release_digest i \<and> genuine i (releases (world s) i)"
    using read_pointer_Inr(2) [OF c] same p by (simp add: same_shelf_def)
qed

section \<open>One replacement\<close>

text \<open>However it ends, a replacement changes its link to the new target or not at all.\<close>

lemma make_link_Inr: "make_link v n t s = (Inr x, s') \<Longrightarrow> links (world s') n = Some (Symlink t)"
  by (auto simp: make_link_def disk_op_def Let_def on_shelf_def split: option.splits prod.splits if_splits)

lemma replace_link_cases:
  assumes "replace_link v src n s = (r, s')" and "links (world s) src = Some e" and "src \<noteq> n"
  shows "releases (world s') = releases (world s)" and "stages (world s') = stages (world s)"
    and "pointer_receipts (world s') = pointer_receipts (world s)"
    and "k \<noteq> src \<Longrightarrow> k \<noteq> n \<Longrightarrow> links (world s') k = links (world s) k"
    and "links (world s') n = links (world s) n \<or> links (world s') n = Some e"
    and "links (world s') src = links (world s) src \<or> links (world s') src = None"
    and "r = Inr () \<Longrightarrow> links (world s') n = Some e"
  using assms by (auto simp: replace_link_def disk_op_def Let_def on_shelf_def split: option.splits prod.splits if_splits)

lemma move_link_cases:
  assumes run: "move_link v operation name i point s = (r, s')" and name: "name \<in> {''current'', ''previous''}"
  shows "releases (world s') = releases (world s) \<and> stages (world s') = stages (world s) \<and>
    pointer_receipts (world s') = pointer_receipts (world s) \<and>
    (unobstructed operation (world s) \<longrightarrow> unobstructed operation (world s'))"
    and "k \<notin> temps operation \<Longrightarrow> k \<noteq> name \<Longrightarrow> links (world s') k = links (world s) k"
    and "links (world s') name = links (world s) name \<or> links (world s') name = link_to (Some i)"
    and "r = Inr () \<Longrightarrow> links (world s') name = link_to (Some i)"
proof -
  let ?t = "temp_of name operation"
  have t: "?t \<in> temps operation" "?t \<noteq> name" using name by (auto simp: temps_def)
  obtain r1 s1 where made: "make_link v ?t (target_of i) s = (r1, s1)" by (cases "make_link v ?t (target_of i) s")
  have first: "same_but_temps operation (world s) (world s1)"
    using set_aside [OF aside.guar_make [OF t(1)] made] .
  have rest: "r = r1 \<and> s' = s1" if "r1 = Inl e" for e
    using run made that by (auto simp: move_link_def prog_simps)
  have done_part: "releases (world s') = releases (world s1) \<and> stages (world s') = stages (world s1) \<and>
      pointer_receipts (world s') = pointer_receipts (world s1) \<and>
      (unobstructed operation (world s1) \<longrightarrow> unobstructed operation (world s')) \<and>
      (k \<notin> temps operation \<longrightarrow> k \<noteq> name \<longrightarrow> links (world s') k = links (world s1) k) \<and>
      (links (world s') name = links (world s1) name \<or> links (world s') name = link_to (Some i)) \<and>
      (r = Inr () \<longrightarrow> links (world s') name = link_to (Some i))" if "r1 = Inr u" for u k
  proof -
    obtain r2 s2 where moved: "replace_link v ?t name s1 = (r2, s2)" by (cases "replace_link v ?t name s1")
    note cases = replace_link_cases [OF moved make_link_Inr [OF made [unfolded that]] t(2)]
    have "s' = s2 \<and> r = r2 \<or> r2 = Inr () \<and> same_shelf (world s2) (world s')"
    proof (cases r2)
      case (Inl e)
      with run made moved that show ?thesis by (auto simp: move_link_def prog_simps)
    next
      case (Inr u')
      have "guar (on_world same_shelf) (andthen (fsync_directory v) (crash_hook v point))"
        by (intro guar_intros)
      moreover have "andthen (fsync_directory v) (crash_hook v point) s2 = (r, s')"
        using run made moved that Inr by (simp add: move_link_def andthen_run)
      ultimately show ?thesis using looked Inr by auto
    qed
    then have end_state: "releases (world s') = releases (world s2) \<and> stages (world s') = stages (world s2) \<and>
        pointer_receipts (world s') = pointer_receipts (world s2) \<and> links (world s') = links (world s2) \<and>
        (r = Inr () \<longrightarrow> r2 = Inr ())"
      by (auto simp: same_shelf_def)
    have "k \<notin> temps operation \<longrightarrow> k \<noteq> name \<longrightarrow> links (world s2) k = links (world s1) k"
    proof (intro impI)
      assume k: "k \<notin> temps operation" "k \<noteq> name"
      with t(1) have "k \<noteq> ?t" by auto
      from cases(4) [OF this k(2)] show "links (world s2) k = links (world s1) k" .
    qed
    moreover have "unobstructed operation (world s1) \<longrightarrow> unobstructed operation (world s2)"
      unfolding unobstructed_def
    proof (intro impI ballI)
      fix n
      assume clean: "\<forall>n\<in>temps operation. links (world s1) n \<noteq> Some NoLink" and n: "n \<in> temps operation"
      then have "n \<noteq> name" using name by (auto simp: temps_def)
      with cases(4) [of n] cases(6) clean n show "links (world s2) n \<noteq> Some NoLink" by (cases "n = ?t") auto
    qed
    ultimately show ?thesis using end_state cases(1-3,5,7) by (simp add: link_to_def unobstructed_def)
  qed
  from first rest done_part t show "releases (world s') = releases (world s) \<and> stages (world s') = stages (world s) \<and>
      pointer_receipts (world s') = pointer_receipts (world s) \<and>
      (unobstructed operation (world s) \<longrightarrow> unobstructed operation (world s'))"
    by (cases r1) (auto simp: same_but_temps_def)
  from first rest done_part t show "links (world s') k = links (world s) k" if "k \<notin> temps operation" "k \<noteq> name"
    using that by (cases r1) (auto simp: same_but_temps_def)
  have out: "name \<notin> temps operation" using name by (auto simp: temps_def)
  from first rest done_part out show "links (world s') name = links (world s) name \<or> links (world s') name = link_to (Some i)"
    by (cases r1) (auto simp: same_but_temps_def)
  from rest done_part show "links (world s') name = link_to (Some i)" if "r = Inr ()"
    using that by (cases r1) auto
qed

section \<open>One attempt\<close>

text \<open>The three pairs a publication passes through.\<close>

definition underway :: "string \<Rightarrow> string \<Rightarrow> string option \<Rightarrow> shelf \<Rightarrow> bool" where
  "underway candidate current previous w \<longleftrightarrow> shows_pair w (Some current) previous \<or>
     shows_pair w (Some current) (Some current) \<or> shows_pair w (Some candidate) (Some current)"

text \<open>
  What an attempt may do: nothing but its own links and the two pointers, and those only along
  the three pairs; a pair that is none of them stays.
\<close>

definition attempted :: "string \<Rightarrow> string \<Rightarrow> string \<Rightarrow> string option \<Rightarrow> shelf \<Rightarrow> shelf \<Rightarrow> bool" where
  "attempted operation candidate current previous w w' \<longleftrightarrow>
     releases w' = releases w \<and> stages w' = stages w \<and> pointer_receipts w' = pointer_receipts w \<and>
     (unobstructed operation w \<longrightarrow> unobstructed operation w') \<and>
     (\<forall>n. n \<notin> temps operation \<longrightarrow> n \<notin> {''current'', ''previous''} \<longrightarrow> links w' n = links w n) \<and>
     (underway candidate current previous w \<longrightarrow> underway candidate current previous w') \<and>
     (\<not> underway candidate current previous w \<longrightarrow>
       links w' ''current'' = links w ''current'' \<and> links w' ''previous'' = links w ''previous'')"

lemma attempted_aside: "same_but_temps operation w w' \<Longrightarrow> attempted operation candidate current previous w w'"
  by (auto simp: attempted_def same_but_temps_def underway_def shows_pair_def temps_def)

interpretation attempt: shelf_keeper "attempted operation candidate current previous" "temps operation"
  for operation candidate current previous
proof (unfold_locales, goal_cases)
  case (2 w w' w'')
  have "\<not> underway candidate current previous w \<Longrightarrow> \<not> underway candidate current previous w'"
    using 2(1) by (simp add: attempted_def underway_def shows_pair_def)
  with 2 show ?case by (cases "underway candidate current previous w") (simp_all add: attempted_def)
next
  case (3 w w' n)
  then show ?case by (simp add: attempted_def underway_def shows_pair_def unobstructed_def)
next
  case (4 n w e)
  then show ?case by (intro attempted_aside aside.own_links)
qed (simp_all add: attempted_def)

lemma finally_cases:
  assumes "finally_do m c s = (r, s')"
  obtains (clean) q s1 where "m s = (q, s1)" "r = q" "s' = s1" | (cleaned) q s1 t where "m s = (q, s1)" "c s1 = (t, s')"
  using assms that by (auto simp: finally_do_def prog_simps split: prod.splits sum.splits if_splits)

lemma replacements_attempt:
  assumes run: "andthen (only_if (state = UNPUBLISHED) (move_link v operation ''previous'' current point))
      (move_link v operation ''current'' candidate point') s = (r, s')"
    and pair: "state = UNPUBLISHED \<and> shows_pair (world s) (Some current) previous \<or>
      state = PREPARED \<and> shows_pair (world s) (Some current) (Some current)"
  shows "attempted operation candidate current previous (world s) (world s')"
proof -
  have second: "attempted operation candidate current previous (world t) (world t')"
    if "move_link v operation ''current'' candidate point' t = (q, t')" "shows_pair (world t) (Some current) (Some current)" for t q t'
    using move_link_cases [OF that(1)] that(2)
    by (auto simp: attempted_def underway_def shows_pair_def temps_def)
  show ?thesis
  proof (cases "state = UNPUBLISHED")
    case False
    with pair run second show ?thesis by (auto simp: only_if_def prog_simps)
  next
    case True
    with pair have here: "shows_pair (world s) (Some current) previous" by simp
    obtain q t where first: "move_link v operation ''previous'' current point s = (q, t)"
      by (cases "move_link v operation ''previous'' current point s")
    note moved = move_link_cases [OF first]
    have one: "attempted operation candidate current previous (world s) (world t)"
      using moved here by (auto simp: attempted_def underway_def shows_pair_def temps_def)
    show ?thesis
    proof (cases q)
      case (Inl e)
      with run first True one show ?thesis by (simp add: only_if_def prog_simps)
    next
      case (Inr u)
      with moved here have "shows_pair (world t) (Some current) (Some current)"
        by (simp add: shows_pair_def temps_def)
      with run first True Inr second have "attempted operation candidate current previous (world t) (world s')"
        by (simp add: only_if_def prog_simps)
      with one show ?thesis by (rule attempt.further)
    qed
  qed
qed

lemma classify_pair:
  assumes "shows_pair w (pt_current p) (pt_previous p)"
  shows "classify_pointer_state p candidate current previous = PUBLISHED \<longleftrightarrow> shows_pair w (Some candidate) (Some current)"
    and "classify_pointer_state p candidate current previous = PREPARED \<Longrightarrow> shows_pair w (Some current) (Some current)"
    and "classify_pointer_state p candidate current previous = UNPUBLISHED \<Longrightarrow> shows_pair w (Some current) previous"
proof -
  have pair: "shows_pair w c q \<longleftrightarrow> pt_current p = c \<and> pt_previous p = q" for c q
    using assms by (simp add: shows_pair_def)
  show "classify_pointer_state p candidate current previous = PUBLISHED \<longleftrightarrow> shows_pair w (Some candidate) (Some current)"
    "classify_pointer_state p candidate current previous = PREPARED \<Longrightarrow> shows_pair w (Some current) (Some current)"
    "classify_pointer_state p candidate current previous = UNPUBLISHED \<Longrightarrow> shows_pair w (Some current) previous"
    unfolding pair by (auto simp: classify_pointer_state_def split: if_splits)
qed

lemma bind_cases:
  assumes "bind m f s = (r, s')"
  obtains (raised) e where "m s = (Inl e, s')" "r = Inl e" | (went_on) x t where "m s = (Inr x, t)" "f x t = (r, s')"
  using assms that by (auto simp: bind_def split: prod.splits sum.splits)

text \<open>An attempt after its observation.\<close>

definition proceed :: "pointer_env \<Rightarrow> string \<Rightarrow> string \<Rightarrow> string option \<Rightarrow> string \<Rightarrow> pointers \<Rightarrow> pointers shelf_prog" where
  "proceed v candidate current previous operation observed =
    (let state = classify_pointer_state observed candidate current previous in
     if state = PUBLISHED then ret observed
     else andthen (refuse_unless (state = UNPUBLISHED \<or> state = PREPARED) ''POINTER_IDENTITY_MISMATCH'')
      (andthen (clear_temp v (temp_of ''previous'' operation))
      (andthen (clear_temp v (temp_of ''current'' operation))
      (andthen (finally_do
         (andthen (only_if (state = UNPUBLISHED) (move_link v operation ''previous'' current ''after_previous_replace''))
           (move_link v operation ''current'' candidate ''after_current_replace''))
         (andthen (drop_temp v (temp_of ''previous'' operation)) (drop_temp v (temp_of ''current'' operation))))
      (bind (observe_pointers v) (\<lambda>final.
       andthen (refuse_unless (classify_pointer_state final candidate current previous = PUBLISHED)
         ''POINTER_PUBLICATION_UNCERTAIN'')
         (ret final)))))))"

definition checks :: "pointer_env \<Rightarrow> string \<Rightarrow> string \<Rightarrow> string option \<Rightarrow> string \<Rightarrow> unit shelf_prog" where
  "checks v candidate current previous operation =
     andthen (refuse_unless (operation_name operation) ''OPERATION_IDENTITY_REFUSED'')
    (andthen (validate_root v)
    (andthen (verify_release v candidate)
    (andthen (verify_release v current) (case previous of None \<Rightarrow> ret () | Some p \<Rightarrow> verify_release v p))))"

lemma publish_pointer_set_parts:
  "publish_pointer_set v candidate current previous operation =
     andthen (checks v candidate current previous operation)
       (bind (observe_pointers v) (proceed v candidate current previous operation))"
  by (simp add: publish_pointer_set_def checks_def proceed_def [abs_def] andthen_def bind_assoc)

lemma proceed_attempt:
  assumes run: "proceed v candidate current previous operation observed s = (r, s')"
    and pair: "shows_pair (world s) (pt_current observed) (pt_previous observed)"
  shows "attempted operation candidate current previous (world s) (world s')"
    and "r = Inr p \<Longrightarrow> shows_pair (world s') (Some candidate) (Some current)"
proof -
  let ?state = "classify_pointer_state observed candidate current previous"
  let ?go = "andthen (only_if (?state = UNPUBLISHED) (move_link v operation ''previous'' current ''after_previous_replace''))
      (move_link v operation ''current'' candidate ''after_current_replace'')"
  let ?sweep = "andthen (drop_temp v (temp_of ''previous'' operation)) (drop_temp v (temp_of ''current'' operation))"
  let ?check = "bind (observe_pointers v) (\<lambda>final. andthen
      (refuse_unless (classify_pointer_state final candidate current previous = PUBLISHED) ''POINTER_PUBLICATION_UNCERTAIN'')
      (ret final))"
  let ?T = "attempted operation candidate current previous"
  have own: "temp_of ''previous'' operation \<in> temps operation" "temp_of ''current'' operation \<in> temps operation"
    by (simp_all add: temps_def)
  have checked: "?T (world t) (world t') \<and> (q = Inr p \<longrightarrow> shows_pair (world t') (Some candidate) (Some current))"
    if c: "?check t = (q, t')" for q t t' p
  proof -
    have "guar (on_world same_shelf) ?check" by (intro guar_intros)
    from looked [OF this c] have same: "same_shelf (world t) (world t')" .
    have "shows_pair (world t) (Some candidate) (Some current)" if "q = Inr p"
    proof -
      from c that obtain final t1 where final: "observe_pointers v t = (Inr final, t1)"
          and "classify_pointer_state final candidate current previous = PUBLISHED"
        by (auto simp: bind_run andthen_run refuse_unless_def prog_simps split: prod.splits sum.splits if_splits)
      with classify_pair(1) [OF observe_Inr(1) [OF final]] show ?thesis by blast
    qed
    with same show ?thesis
      by (auto simp: attempted_def same_shelf_def underway_def shows_pair_def unobstructed_def)
  qed
  have worked: "?T (world t) (world t')"
    if go: "finally_do ?go ?sweep t = (q, t')"
      and "?state = UNPUBLISHED \<and> shows_pair (world t) (Some current) previous \<or>
        ?state = PREPARED \<and> shows_pair (world t) (Some current) (Some current)" for q t t'
    using go
  proof (cases rule: finally_cases)
    case (clean q' s1)
    with replacements_attempt [OF clean(1) that(2)] show ?thesis by simp
  next
    case (cleaned q' s1 x)
    have "guar (on_world (same_but_temps operation)) ?sweep" by (intro guar_intros own)
    from attempted_aside [OF set_aside [OF this cleaned(2)]] replacements_attempt [OF cleaned(1) that(2)]
    show ?thesis by (blast intro: attempt.further)
  qed
  have "?T (world s) (world s') \<and> (r = Inr p \<longrightarrow> shows_pair (world s') (Some candidate) (Some current))" for p
  proof (cases "?state = PUBLISHED")
    case True
    with run classify_pair(1) [OF pair] show ?thesis
      by (auto simp: proceed_def Let_def prog_simps attempt.same)
  next
    case False
    show ?thesis
    proof (cases "?state = UNPUBLISHED \<or> ?state = PREPARED")
      case refused: False
      with run False show ?thesis
        by (auto simp: proceed_def Let_def refuse_unless_def andthen_def throw_run attempt.same)
    next
      case True
      let ?clear = "andthen (clear_temp v (temp_of ''previous'' operation)) (clear_temp v (temp_of ''current'' operation))"
      have whole: "bind ?clear (\<lambda>_. bind (finally_do ?go ?sweep) (\<lambda>_. ?check)) s = (r, s')"
        using run True False by (simp add: proceed_def Let_def refuse_unless_def andthen_def bind_assoc)
      have cleared: "guar (on_world (same_but_temps operation)) ?clear" by (intro guar_intros own)
      from whole show ?thesis
      proof (cases rule: bind_cases)
        case (raised e)
        with attempted_aside [OF set_aside [OF cleared raised(1)]] show ?thesis by simp
      next
        case (went_on x t)
        note first = set_aside [OF cleared went_on(1)]
        have state: "?state = UNPUBLISHED \<and> shows_pair (world t) (Some current) previous \<or>
            ?state = PREPARED \<and> shows_pair (world t) (Some current) (Some current)"
          using True classify_pair(2,3) [OF pair] shows_pair_frames(2) [OF first] by blast
        from went_on(2) show ?thesis
        proof (cases rule: bind_cases)
          case (raised e)
          with worked [OF raised(1) state] attempted_aside [OF first] show ?thesis by (blast intro: attempt.further)
        next
          case (went_on x' t')
          from worked [OF went_on(1) state] attempted_aside [OF first] checked [OF went_on(2)]
          show ?thesis by (blast intro: attempt.further)
        qed
      qed
    qed
  qed
  then show "?T (world s) (world s')" "r = Inr p \<Longrightarrow> shows_pair (world s') (Some candidate) (Some current)" by blast+
qed

lemma checks_looking: "guar (on_world same_shelf) (checks v candidate current previous operation)"
  unfolding checks_def by (intro guar_intros)

lemma same_shelf_attempted: "same_shelf w w' \<Longrightarrow> attempted operation candidate current previous w w'"
  by (auto simp: attempted_def same_shelf_def underway_def shows_pair_def unobstructed_def)

lemma publish_set_attempt:
  assumes "publish_pointer_set v candidate current previous operation s = (r, s')"
  shows "attempted operation candidate current previous (world s) (world s')"
    and "r = Inr p \<Longrightarrow> shows_pair (world s') (Some candidate) (Some current)"
    and "same_shelf (world s) (world s') \<and> (\<forall>p. r \<noteq> Inr p) \<or>
      (\<forall>i\<in>{candidate, current}. release_digest i \<and> genuine i (releases (world s) i))"
proof -
  have "attempted operation candidate current previous (world s) (world s') \<and>
      (r = Inr p \<longrightarrow> shows_pair (world s') (Some candidate) (Some current)) \<and>
      (same_shelf (world s) (world s') \<and> (\<forall>p. r \<noteq> Inr p) \<or>
        (\<forall>i\<in>{candidate, current}. release_digest i \<and> genuine i (releases (world s) i)))" for p
    using assms unfolding publish_pointer_set_parts andthen_def
  proof (cases rule: bind_cases)
    case (raised e)
    with looked [OF checks_looking raised(1)] show ?thesis by (simp add: same_shelf_attempted)
  next
    case (went_on x t)
    note first = looked [OF checks_looking went_on(1)]
    have known: "\<forall>i\<in>{candidate, current}. release_digest i \<and> genuine i (releases (world s) i)"
    proof -
      from went_on(1) obtain s0 s1 s2 s3 where "validate_root v s = (Inr (), s1)"
          and c: "verify_release v candidate s1 = (Inr (), s2)" and d: "verify_release v current s2 = (Inr (), s3)"
        by (auto simp: checks_def andthen_run refuse_unless_def prog_simps split: prod.splits sum.splits if_splits)
      with verify_release_Inr [OF c] verify_release_Inr [OF d] looked [OF looking.guar_root] looked [OF looking.guar_verify c]
      show ?thesis by (fastforce simp: same_shelf_def)
    qed
    from went_on(2) show ?thesis
    proof (cases rule: bind_cases)
      case (raised e)
      with looked [OF looking.guar_observe raised(1)] first
      show ?thesis by (auto intro: same_shelf_attempted looking.further)
    next
      case (went_on observed t')
      note second = looked [OF looking.guar_observe went_on(1)]
      have "shows_pair (world t') (pt_current observed) (pt_previous observed)"
        using observe_Inr(1) [OF went_on(1)] shows_pair_frames(1) [OF second] by simp
      from proceed_attempt [OF went_on(2) this] same_shelf_attempted [OF first] same_shelf_attempted [OF second] known
      show ?thesis by (blast intro: attempt.further)
    qed
  qed
  then show "attempted operation candidate current previous (world s) (world s')"
    "r = Inr p \<Longrightarrow> shows_pair (world s') (Some candidate) (Some current)"
    "same_shelf (world s) (world s') \<and> (\<forall>p. r \<noteq> Inr p) \<or>
      (\<forall>i\<in>{candidate, current}. release_digest i \<and> genuine i (releases (world s) i))"
    by blast+
qed

end
