(* ===== verification/Pointer_Promises.thy ===== *)
theory Pointer_Promises
  imports Pointer_Facts
begin

text \<open>
  The publisher over any sequence of attempts: the working release is never lost, the next
  undisturbed attempt completes the publication, taking it back brings the old release back,
  and the one interruption from which neither gets on.
\<close>

section \<open>What a publisher keeps\<close>

text \<open>The current link names a release that is there.\<close>

definition works :: "shelf \<Rightarrow> bool" where
  "works w \<longleftrightarrow> (\<exists>i. links w ''current'' = link_to (Some i) \<and> release_digest i \<and> genuine i (releases w i))"

text \<open>The candidate is in its place, or its stage still is.\<close>

definition available :: "publish_request \<Rightarrow> shelf \<Rightarrow> bool" where
  "available q w \<longleftrightarrow> genuine (pq_candidate q) (releases w (pq_candidate q)) \<or>
     releases w (pq_candidate q) = None \<and> stage_name (pq_stage q) \<and> genuine (pq_candidate q) (stages w (the (pq_stage q)))"

definition publishing :: "publish_request \<Rightarrow> shelf \<Rightarrow> bool" where
  "publishing q = underway (pq_candidate q) (pq_current q) (pq_previous q)"

definition carried :: "publish_request \<Rightarrow> shelf \<Rightarrow> shelf \<Rightarrow> bool" where
  "carried q w w' \<longleftrightarrow> (\<forall>i e. releases w i = Some e \<longrightarrow> releases w' i = Some e) \<and>
     (available q w \<longrightarrow> available q w') \<and>
     (unobstructed (pq_operation q) w \<longrightarrow> unobstructed (pq_operation q) w') \<and>
     (publishing q w \<longrightarrow> publishing q w') \<and>
     (\<not> publishing q w \<longrightarrow> links w' ''current'' = links w ''current'' \<and> links w' ''previous'' = links w ''previous'') \<and>
     (works w \<longrightarrow> works w')"

lemma genuine_present: "genuine i e \<Longrightarrow> \<exists>x. e = Some x"
  by (cases e) (auto simp: genuine_def)

lemma works_kept:
  assumes "works w" and "links w' ''current'' = links w ''current''"
    and "\<And>i e. releases w i = Some e \<Longrightarrow> releases w' i = Some e"
  shows "works w'"
proof -
  from assms(1) obtain i where i: "links w ''current'' = link_to (Some i)" "release_digest i" "genuine i (releases w i)"
    by (auto simp: works_def)
  with genuine_present [OF i(3)] assms(2,3) show ?thesis by (auto simp: works_def)
qed

lemma publishing_links:
  "links w' ''current'' = links w ''current'' \<Longrightarrow> links w' ''previous'' = links w ''previous'' \<Longrightarrow> publishing q w' = publishing q w"
  by (simp add: publishing_def underway_def shows_pair_def)

lemma same_but_temps_carried: "same_but_temps (pq_operation q) w w' \<Longrightarrow> carried q w w'"
  by (auto simp: carried_def same_but_temps_def available_def publishing_def underway_def shows_pair_def works_def temps_def)

interpretation carry: shelf_keeper "carried q" "temps (pq_operation q)" for q
proof (unfold_locales, goal_cases)
  case (2 w w' w'')
  have "\<not> publishing q w \<Longrightarrow> \<not> publishing q w'"
    using 2(1) publishing_links [of w' w q] by (simp add: carried_def)
  with 2 show ?case by (cases "publishing q w") (simp_all add: carried_def)
next
  case (3 w w' n)
  then show ?case
    by (simp add: carried_def available_def publishing_def underway_def shows_pair_def works_def unobstructed_def)
next
  case (4 n w e)
  then show ?case by (intro same_but_temps_carried aside.own_links)
qed (simp add: carried_def)

lemma publish_set_carried:
  assumes "publish_pointer_set v (pq_candidate q) (pq_current q) (pq_previous q) (pq_operation q) s = (r, s')"
  shows "carried q (world s) (world s')"
proof -
  let ?w = "world s" and ?w' = "world s'"
  note kept = publish_set_attempt(1) [OF assms]
  have releases: "releases ?w' = releases ?w" using kept by (simp add: attempted_def)
  have "works ?w'" if w: "works ?w"
  proof (cases "links ?w' ''current'' = links ?w ''current''")
    case True
    with w releases show ?thesis by (auto intro: works_kept)
  next
    case False
    with kept have "underway (pq_candidate q) (pq_current q) (pq_previous q) ?w'" by (auto simp: attempted_def)
    moreover have "\<forall>i\<in>{pq_candidate q, pq_current q}. release_digest i \<and> genuine i (releases ?w i)"
      using publish_set_attempt(3) [OF assms] False by (auto simp: same_shelf_def)
    ultimately show ?thesis using releases by (auto simp: works_def underway_def shows_pair_def)
  qed
  with kept show ?thesis by (auto simp: carried_def attempted_def available_def publishing_def)
qed

lemma promote_carried: "guar (on_world (carried q)) (promote_stage v q)"
  unfolding promote_stage_def
  by (intro guar_intros carry.guar_disk_op)
    (auto simp: carry.same carried_def available_def publishing_def underway_def shows_pair_def unobstructed_def
      genuine_def works_def split: option.splits)

lemma publish_carried: "guar (on_world (carried q)) (publish_pointers v q)"
proof -
  have "guar (on_world (carried q)) (publish_pointer_set v (pq_candidate q) (pq_current q) (pq_previous q) (pq_operation q))"
    by (rule guarI) (simp add: on_world_def publish_set_carried)
  then show ?thesis
    unfolding publish_pointers_def write_receipt_def
    by (intro guar_intros carry.guar_disk_op promote_carried)
      (auto simp: carried_def available_def publishing_def underway_def shows_pair_def unobstructed_def works_def)
qed

text \<open>Attempts, each with its own faults, until the process of each ends.\<close>

definition publish_attempts :: "pointer_env list \<Rightarrow> publish_request \<Rightarrow> shelf sys \<Rightarrow> shelf sys" where
  "publish_attempts vs q s = fold (\<lambda>v s. snd (publish_pointers v q s)) vs s"

lemma attempts_carried: "carried q (world s) (world (publish_attempts vs q s))"
proof (induction vs arbitrary: s)
  case Nil
  then show ?case by (simp add: publish_attempts_def carry.same)
next
  case (Cons v vs)
  have "carried q (world s) (world (snd (publish_pointers v q s)))"
    using publish_carried by (simp add: guar_def on_world_def)
  from carry.further [OF this Cons.IH] show ?case by (simp add: publish_attempts_def)
qed

text \<open>
  C9 (safety): however many attempts to publish a release are interrupted, wherever, the
  current link names a release that is there, the links are one of the three pairs of the
  publication, and no release is lost.
\<close>

theorem working_release_survives:
  assumes "works (world s)" and "shows_pair (world s) (Some (pq_current q)) (pq_previous q)"
  shows "works (world (publish_attempts vs q s)) \<and>
    (\<exists>p \<in> {(pq_current q, pq_previous q), (pq_current q, Some (pq_current q)), (pq_candidate q, Some (pq_current q))}.
       shows_pair (world (publish_attempts vs q s)) (Some (fst p)) (snd p)) \<and>
    (\<forall>i e. releases (world s) i = Some e \<longrightarrow> releases (world (publish_attempts vs q s)) i = Some e)"
  using attempts_carried [of q s vs] assms by (auto simp: carried_def publishing_def underway_def)

section \<open>An undisturbed attempt\<close>

definition calm_disk :: "pointer_env \<Rightarrow> bool" where
  "calm_disk v \<longleftrightarrow> (\<forall>n. pe_fault v n = None) \<and> pe_root v \<and> pe_releases v \<and> pe_device v \<and> pe_stage_device v"

definition lives :: "pointer_env \<Rightarrow> bool" where
  "lives v \<longleftrightarrow> (\<forall>p. pe_hook v p = None)"

text \<open>From every directory with \<open>P\<close> the program returns, and what it returns has \<open>Q\<close>.\<close>

definition delivers :: "(shelf \<Rightarrow> bool) \<Rightarrow> 'a shelf_prog \<Rightarrow> ('a \<Rightarrow> shelf \<Rightarrow> bool) \<Rightarrow> bool" where
  "delivers P m Q \<longleftrightarrow> (\<forall>s. P (world s) \<longrightarrow> (\<exists>x s'. m s = (Inr x, s') \<and> Q x (world s')))"

lemma delivers_ret: "delivers (Q x) (ret x) Q"
  by (simp add: delivers_def prog_simps)

lemma delivers_bind: "delivers P m Q \<Longrightarrow> (\<And>x. delivers (Q x) (f x) S) \<Longrightarrow> delivers P (bind m f) S"
  by (fastforce simp: delivers_def bind_def split: prod.splits sum.splits)

lemma delivers_andthen: "delivers P m (\<lambda>_. Q) \<Longrightarrow> delivers Q n S \<Longrightarrow> delivers P (andthen m n) S"
  unfolding andthen_def by (rule delivers_bind)

lemma delivers_pre: "delivers P m Q \<Longrightarrow> (\<And>w. P' w \<Longrightarrow> P w) \<Longrightarrow> delivers P' m Q"
  by (auto simp: delivers_def)

lemma delivers_post: "delivers P m Q \<Longrightarrow> (\<And>x w. Q x w \<Longrightarrow> Q' x w) \<Longrightarrow> delivers P m Q'"
  by (fastforce simp: delivers_def)

lemma delivers_case: "(\<And>w. P w \<Longrightarrow> c) \<Longrightarrow> (c \<Longrightarrow> delivers P m Q) \<Longrightarrow> delivers P m Q"
  by (fastforce simp: delivers_def)

lemma delivers_finally:
  assumes "delivers P m (\<lambda>x. S x)" and "\<And>x. delivers (S x) c (\<lambda>_. Q x)"
  shows "delivers P (finally_do m c) Q"
  using assms by (fastforce simp: delivers_def finally_do_def prog_simps split: prod.splits sum.splits)

lemma delivers_refuse: "ok \<Longrightarrow> delivers P (refuse_unless ok code) (\<lambda>_. P)"
  by (simp add: delivers_def refuse_unless_def prog_simps)

lemma delivers_disk_op:
  assumes "calm_disk v" and "\<And>w. P w \<Longrightarrow> \<exists>x. fst (f w) = Inr x \<and> Q x ((snd (f w))\<lparr>disk_ops := Suc (disk_ops (snd (f w)))\<rparr>)"
  shows "delivers P (disk_op v f) Q"
  unfolding delivers_def
proof (intro allI impI)
  fix s :: "shelf sys"
  assume "P (world s)"
  from assms(2) [OF this] obtain x where x: "fst (f (world s)) = Inr x"
      "Q x ((snd (f (world s)))\<lparr>disk_ops := Suc (disk_ops (snd (f (world s))))\<rparr>)" by blast
  have "pe_fault v (disk_ops (world s)) = None" using assms(1) by (simp add: calm_disk_def)
  then have "disk_op v f s = (Inr x, on_shelf (\<lambda>_. (snd (f (world s)))\<lparr>disk_ops := Suc (disk_ops (snd (f (world s))))\<rparr>) s)"
    using x(1) by (cases "f (world s)") (simp add: disk_op_def Let_def)
  with x(2) show "\<exists>x s'. disk_op v f s = (Inr x, s') \<and> Q x (world s')"
    by (simp add: on_shelf_def)
qed

text \<open>The releases, the two pointers and the two links of an operation.\<close>

definition laid :: "(string \<rightharpoonup> release_entry) \<Rightarrow> string option \<Rightarrow> string option \<Rightarrow> string \<Rightarrow> link_entry option \<Rightarrow> link_entry option \<Rightarrow>
    shelf \<Rightarrow> bool" where
  "laid rel current previous operation t1 t2 w \<longleftrightarrow> releases w = rel \<and> shows_pair w current previous \<and>
     links w (temp_of ''previous'' operation) = t1 \<and> links w (temp_of ''current'' operation) = t2"

definition known :: "(string \<rightharpoonup> release_entry) \<Rightarrow> string \<Rightarrow> bool" where
  "known rel i \<longleftrightarrow> release_digest i \<and> genuine i (rel i)"

lemma laid_count [simp]: "laid rel c p oper t1 t2 (w\<lparr>disk_ops := n\<rparr>) = laid rel c p oper t1 t2 w"
  by (simp add: laid_def shows_pair_def)

lemma delivers_observing:
  "calm_disk v \<Longrightarrow> (\<And>w n. P (w\<lparr>disk_ops := n\<rparr>) = P w) \<Longrightarrow> (\<And>w n. f (w\<lparr>disk_ops := n\<rparr>) = f w) \<Longrightarrow>
    delivers P (observing v f) (\<lambda>x w. P w \<and> x = f w)"
  unfolding observing_def by (rule delivers_disk_op) auto

lemma delivers_verify:
  assumes "calm_disk v" and "known rel i"
  shows "delivers (laid rel c p oper t1 t2) (verify_release v i) (\<lambda>_. laid rel c p oper t1 t2)"
  unfolding verify_release_def
proof (rule delivers_andthen [OF delivers_refuse])
  show "release_digest i" using assms(2) by (simp add: known_def)
  show "delivers (laid rel c p oper t1 t2)
     (bind (observing v (\<lambda>w. releases w i)) (\<lambda>e. case e of
        Some (ReleaseDir r) \<Rightarrow> refuse_unless (genuine i e) ''RELEASE_RECEIPT_INVALID''
      | _ \<Rightarrow> throw (pointer_refusal ''RELEASE_DIRECTORY_REFUSED''))) (\<lambda>_. laid rel c p oper t1 t2)"
  proof (rule delivers_bind [OF delivers_observing [OF assms(1)]])
    fix e
    show "delivers (\<lambda>w. laid rel c p oper t1 t2 w \<and> e = releases w i) (case e of
        Some (ReleaseDir r) \<Rightarrow> refuse_unless (genuine i e) ''RELEASE_RECEIPT_INVALID''
      | _ \<Rightarrow> throw (pointer_refusal ''RELEASE_DIRECTORY_REFUSED'')) (\<lambda>_. laid rel c p oper t1 t2)"
    proof (rule delivers_case [where c = "e = rel i"])
      assume e: "e = rel i"
      then have "genuine i e" using assms(2) by (simp add: known_def)
      moreover from this obtain r where "e = Some (ReleaseDir r)"
        by (auto simp: genuine_def split: option.splits release_entry.splits)
      ultimately show "delivers (\<lambda>w. laid rel c p oper t1 t2 w \<and> e = releases w i) (case e of
          Some (ReleaseDir r) \<Rightarrow> refuse_unless (genuine i e) ''RELEASE_RECEIPT_INVALID''
        | _ \<Rightarrow> throw (pointer_refusal ''RELEASE_DIRECTORY_REFUSED'')) (\<lambda>_. laid rel c p oper t1 t2)"
        by (simp add: delivers_def refuse_unless_def prog_simps)
    qed (simp add: laid_def)
  qed simp_all
qed

lemma delivers_read:
  assumes "calm_disk v" and "\<And>i. x = Some i \<Longrightarrow> known rel i"
    and "\<And>w. laid rel c p oper t1 t2 w \<Longrightarrow> links w name = link_to x"
  shows "delivers (laid rel c p oper t1 t2) (read_pointer v name) (\<lambda>y w. laid rel c p oper t1 t2 w \<and> y = x)"
  unfolding read_pointer_def
proof (rule delivers_bind [OF delivers_observing [OF assms(1)]])
  fix e
  let ?k = "case e of None \<Rightarrow> ret None | Some NoLink \<Rightarrow> throw (pointer_refusal ''POINTER_NOT_SYMLINK'')
    | Some (Symlink target) \<Rightarrow> (case identity_of target of
        None \<Rightarrow> throw (pointer_refusal ''POINTER_TARGET_REFUSED'')
      | Some identity \<Rightarrow> andthen (verify_release v identity) (ret (Some identity)))"
  show "delivers (\<lambda>w. laid rel c p oper t1 t2 w \<and> e = links w name) ?k (\<lambda>y w. laid rel c p oper t1 t2 w \<and> y = x)"
  proof (rule delivers_case [where c = "e = link_to x"])
    assume e: "e = link_to x"
    show "delivers (\<lambda>w. laid rel c p oper t1 t2 w \<and> e = links w name) ?k (\<lambda>y w. laid rel c p oper t1 t2 w \<and> y = x)"
    proof (cases x)
      case None
      with e show ?thesis by (simp add: delivers_def prog_simps)
    next
      case (Some i)
      with assms(2) have i: "known rel i" by simp
      with e Some have "?k = andthen (verify_release v i) (ret (Some i))"
        by (simp add: known_def identity_of_target)
      moreover have "delivers (laid rel c p oper t1 t2) (andthen (verify_release v i) (ret (Some i)))
          (\<lambda>y w. laid rel c p oper t1 t2 w \<and> y = x)"
        using Some by (intro delivers_andthen [OF delivers_verify [OF assms(1) i]]) (simp add: delivers_def prog_simps)
      ultimately show ?thesis by (auto intro: delivers_pre)
    qed
  qed (use assms(3) in simp)
qed simp_all

lemma delivers_root:
  "calm_disk v \<Longrightarrow> delivers P (validate_root v) (\<lambda>_. P)"
  by (simp add: delivers_def validate_root_def refuse_unless_def calm_disk_def prog_simps)

lemma delivers_observe:
  assumes "calm_disk v" and "\<And>i. c = Some i \<Longrightarrow> known rel i" and "\<And>i. p = Some i \<Longrightarrow> known rel i"
  shows "delivers (laid rel c p oper t1 t2) (observe_pointers v)
    (\<lambda>x w. laid rel c p oper t1 t2 w \<and> x = \<lparr>pt_current = c, pt_previous = p\<rparr>)"
  unfolding observe_pointers_def
proof (rule delivers_andthen [OF delivers_root [OF assms(1)]], rule delivers_bind [OF delivers_read [OF assms(1,2)]])
  fix x
  have "delivers (laid rel c p oper t1 t2)
      (bind (read_pointer v ''previous'') (\<lambda>previous. ret \<lparr>pt_current = c, pt_previous = previous\<rparr>))
      (\<lambda>x w. laid rel c p oper t1 t2 w \<and> x = \<lparr>pt_current = c, pt_previous = p\<rparr>)"
    by (rule delivers_bind [OF delivers_read [OF assms(1,3)]])
      (auto simp: delivers_def prog_simps laid_def shows_pair_def)
  then show "delivers (\<lambda>w. laid rel c p oper t1 t2 w \<and> x = c)
      (bind (read_pointer v ''previous'') (\<lambda>previous. ret \<lparr>pt_current = x, pt_previous = previous\<rparr>))
      (\<lambda>x w. laid rel c p oper t1 t2 w \<and> x = \<lparr>pt_current = c, pt_previous = p\<rparr>)"
    by (auto simp: delivers_def)
qed (simp_all add: laid_def shows_pair_def)

lemma calm_op:
  "calm_disk v \<Longrightarrow> disk_op v f s = (case f (world s) of (r, w) \<Rightarrow> (r, s\<lparr>world := w\<lparr>disk_ops := Suc (disk_ops w)\<rparr>\<rparr>))"
  by (simp add: disk_op_def calm_disk_def Let_def on_shelf_def)

lemmas laid_simps = laid_def shows_pair_def prog_simps observing_def

lemma delivers_clear:
  assumes "calm_disk v"
  shows "t1 \<noteq> Some NoLink \<Longrightarrow>
      delivers (laid rel c p oper t1 t2) (clear_temp v (temp_of ''previous'' oper)) (\<lambda>_. laid rel c p oper None t2)"
    and "t2 \<noteq> Some NoLink \<Longrightarrow>
      delivers (laid rel c p oper t1 t2) (clear_temp v (temp_of ''current'' oper)) (\<lambda>_. laid rel c p oper t1 None)"
  unfolding delivers_def clear_temp_def remove_link_def
  by (auto simp: laid_simps calm_op [OF assms] split: option.splits link_entry.splits)

lemma delivers_drop:
  assumes "calm_disk v"
  shows "delivers (laid rel c p oper None None) (drop_temp v (temp_of ''previous'' oper)) (\<lambda>_. laid rel c p oper None None)"
    and "delivers (laid rel c p oper None None) (drop_temp v (temp_of ''current'' oper)) (\<lambda>_. laid rel c p oper None None)"
  unfolding delivers_def drop_temp_def
  by (auto simp: laid_simps calm_op [OF assms])

lemma delivers_move:
  assumes "calm_disk v" and "pe_hook v point = None"
  shows "delivers (laid rel c p oper None t2) (move_link v oper ''previous'' i point) (\<lambda>_. laid rel c (Some i) oper None t2)"
    and "delivers (laid rel c p oper t1 None) (move_link v oper ''current'' i point) (\<lambda>_. laid rel (Some i) p oper t1 None)"
proof -
  have hook: "crash_hook v point = ret ()" using assms by (simp add: crash_hook_def)
  show "delivers (laid rel c p oper None t2) (move_link v oper ''previous'' i point) (\<lambda>_. laid rel c (Some i) oper None t2)"
    "delivers (laid rel c p oper t1 None) (move_link v oper ''current'' i point) (\<lambda>_. laid rel (Some i) p oper t1 None)"
    unfolding delivers_def move_link_def make_link_def replace_link_def fsync_directory_def hook
    by (auto simp: laid_simps calm_op [OF assms(1)])
qed

lemma delivers_checks:
  assumes "calm_disk v" and "operation_name oper" and "known rel cand" and "known rel cur" and "\<And>i. prev = Some i \<Longrightarrow> known rel i"
  shows "delivers (laid rel c p oper t1 t2) (checks v cand cur prev oper) (\<lambda>_. laid rel c p oper t1 t2)"
  unfolding checks_def
  by (rule delivers_andthen [OF delivers_refuse [OF assms(2)]],
      rule delivers_andthen [OF delivers_root [OF assms(1)]],
      rule delivers_andthen [OF delivers_verify [OF assms(1,3)]],
      rule delivers_andthen [OF delivers_verify [OF assms(1,4)]])
    (cases prev, simp add: delivers_def prog_simps, simp add: delivers_verify [OF assms(1)] assms(5))

text \<open>From each of the three pairs an undisturbed attempt completes the publication.\<close>

lemma delivers_publication:
  assumes calm: "calm_disk v" and lives: "lives v" and oper: "operation_name oper" and cand: "known rel cand" and cur: "known rel cur"
    and prev: "\<And>i. prev = Some i \<Longrightarrow> known rel i" and t: "t1 \<noteq> Some NoLink" "t2 \<noteq> Some NoLink"
    and pair: "(c, p) \<in> {(Some cur, prev), (Some cur, Some cur), (Some cand, Some cur)}"
  shows "delivers (laid rel c p oper t1 t2) (publish_pointer_set v cand cur prev oper)
    (\<lambda>_ w. releases w = rel \<and> shows_pair w (Some cand) (Some cur))"
proof -
  let ?goal = "\<lambda>_ w. releases w = rel \<and> shows_pair w (Some cand) (Some cur)"
  let ?seen = "\<lparr>pt_current = c, pt_previous = p\<rparr>"
  let ?state = "classify_pointer_state ?seen cand cur prev"
  from pair cand cur prev have ends: "\<And>i. c = Some i \<Longrightarrow> known rel i" "\<And>i. p = Some i \<Longrightarrow> known rel i" by auto
  have state: "?state = PUBLISHED \<and> c = Some cand \<and> p = Some cur \<or> ?state = PREPARED \<and> c = Some cur \<and> p = Some cur \<or>
      ?state = UNPUBLISHED \<and> c = Some cur \<and> p = prev"
    using pair by (auto simp: classify_pointer_state_def)
  have hook: "pe_hook v point = None" for point using lives by (simp add: lives_def)
  let ?both = "laid rel (Some cand) (Some cur) oper None None"
  have final: "delivers ?both (bind (observe_pointers v) (\<lambda>final. andthen
      (refuse_unless (classify_pointer_state final cand cur prev = PUBLISHED) ''POINTER_PUBLICATION_UNCERTAIN'') (ret final))) ?goal"
    by (rule delivers_bind [OF delivers_observe [OF calm]])
      (use cand cur in \<open>auto simp: delivers_def prog_simps refuse_unless_def classify_pointer_state_def laid_def\<close>)
  have second: "delivers (laid rel (Some cur) (Some cur) oper None None)
      (move_link v oper ''current'' cand ''after_current_replace'') (\<lambda>_. ?both)"
    by (rule delivers_move(2) [OF calm hook])
  have moves: "delivers (laid rel c p oper None None)
      (andthen (only_if (?state = UNPUBLISHED) (move_link v oper ''previous'' cur ''after_previous_replace''))
        (move_link v oper ''current'' cand ''after_current_replace'')) (\<lambda>_. ?both)" if "?state \<noteq> PUBLISHED"
  proof (cases "?state = UNPUBLISHED")
    case True
    with state have "c = Some cur" by auto
    with True delivers_andthen [OF delivers_move(1) [OF calm hook] second] show ?thesis by (simp add: only_if_def)
  next
    case False
    with state that second show ?thesis by (auto simp: only_if_def delivers_def prog_simps)
  qed
  have "delivers (laid rel c p oper t1 t2) (proceed v cand cur prev oper ?seen) ?goal"
  proof (cases "?state = PUBLISHED")
    case True
    with state show ?thesis by (auto simp: proceed_def delivers_def prog_simps laid_def)
  next
    case False
    show ?thesis
      unfolding proceed_def Let_def if_not_P [OF False]
      by (rule delivers_andthen [OF delivers_refuse], use state False in blast,
          rule delivers_andthen [OF delivers_clear(1) [OF calm t(1)]],
          rule delivers_andthen [OF delivers_clear(2) [OF calm t(2)]],
          rule delivers_andthen [OF delivers_finally [OF moves [OF False]
            delivers_andthen [OF delivers_drop(1) [OF calm] delivers_drop(2) [OF calm]]]],
          rule final)
  qed
  then have "delivers (\<lambda>w. laid rel c p oper t1 t2 w \<and> x = ?seen) (proceed v cand cur prev oper x) ?goal" for x
    by (auto simp: delivers_def)
  then show ?thesis
    unfolding publish_pointer_set_parts
    by (intro delivers_andthen [OF delivers_checks [OF calm oper cand cur prev]]
        delivers_bind [OF delivers_observe [OF calm ends]]) assumption+
qed

lemma delivers_ex: "(\<And>a. delivers (P a) m Q) \<Longrightarrow> delivers (\<lambda>w. \<exists>a. P a w) m Q"
  by (fastforce simp: delivers_def)

definition extends :: "(string \<rightharpoonup> release_entry) \<Rightarrow> (string \<rightharpoonup> release_entry) \<Rightarrow> bool" where
  "extends rel rel' \<longleftrightarrow> (\<forall>i e. rel i = Some e \<longrightarrow> rel' i = Some e)"

lemma extends_refl: "extends rel rel"
  by (simp add: extends_def)

lemma known_extends: "known rel i \<Longrightarrow> extends rel rel' \<Longrightarrow> known rel' i"
  using genuine_present by (fastforce simp: known_def extends_def)

lemma delivers_promote:
  assumes calm: "calm_disk v" and digest: "release_digest (pq_candidate q)"
  shows "delivers (\<lambda>w. laid rel c p oper t1 t2 w \<and> available q w) (promote_stage v q)
    (\<lambda>_ w. \<exists>rel'. extends rel rel' \<and> known rel' (pq_candidate q) \<and> laid rel' c p oper t1 t2 w)"
  unfolding delivers_def
proof (intro allI impI)
  fix s :: "shelf sys"
  assume pre: "laid rel c p oper t1 t2 (world s) \<and> available q (world s)"
  let ?cand = "pq_candidate q"
  show "\<exists>x s'. promote_stage v q s = (Inr x, s') \<and>
      (\<exists>rel'. extends rel rel' \<and> known rel' ?cand \<and> laid rel' c p oper t1 t2 (world s'))"
  proof (cases "rel ?cand")
    case None
    with pre have stage: "stage_name (pq_stage q)" "genuine ?cand (stages (world s) (the (pq_stage q)))"
      by (auto simp: available_def laid_def genuine_def)
    let ?rel = "rel(?cand := stages (world s) (the (pq_stage q)))"
    have "extends rel ?rel \<and> known ?rel ?cand" using None stage digest by (simp add: extends_def known_def)
    moreover obtain s' where "promote_stage v q s = (Inr (), s')" "laid ?rel c p oper t1 t2 (world s')"
      using None pre stage digest calm
      by (auto simp: promote_stage_def refuse_unless_def fsync_directory_def laid_simps calm_op [OF calm] calm_disk_def)
    ultimately show ?thesis by blast
  next
    case (Some e)
    with pre digest have "known rel ?cand" by (auto simp: available_def laid_def known_def)
    moreover obtain s' where "promote_stage v q s = (Inr (), s')" "laid rel c p oper t1 t2 (world s')"
      using Some pre digest calm
      by (auto simp: promote_stage_def refuse_unless_def laid_simps calm_op [OF calm] available_def)
    ultimately show ?thesis using extends_refl by blast
  qed
qed

lemma publishes:
  fixes s :: "shelf sys"
  assumes calm: "calm_disk v" and lives: "lives v" and oper: "operation_name (pq_operation q)" and digest: "release_digest (pq_candidate q)"
    and cur: "known (releases (world s)) (pq_current q)"
    and prev: "\<And>i. pq_previous q = Some i \<Longrightarrow> known (releases (world s)) i"
    and available: "available q (world s)" and clean: "unobstructed (pq_operation q) (world s)"
    and pair: "publishing q (world s)"
  shows "\<exists>res s'. publish_pointers v q s = (Inr res, s') \<and>
    shows_pair (world s') (Some (pq_candidate q)) (Some (pq_current q)) \<and>
    pointer_receipts (world s') (pq_operation q) = Some (receipt_body v q) \<and> ps_generation res = pq_generation q + 1"
proof -
  let ?cand = "pq_candidate q" and ?cur = "pq_current q" and ?prev = "pq_previous q" and ?op = "pq_operation q"
  let ?rel = "releases (world s)"
  obtain c p where cp: "shows_pair (world s) c p" "(c, p) \<in> {(Some ?cur, ?prev), (Some ?cur, Some ?cur), (Some ?cand, Some ?cur)}"
    using pair by (auto simp: publishing_def underway_def)
  define t1 t2 where "t1 = links (world s) (temp_of ''previous'' ?op)" and "t2 = links (world s) (temp_of ''current'' ?op)"
  have t: "t1 \<noteq> Some NoLink" "t2 \<noteq> Some NoLink" using clean by (auto simp: t1_def t2_def unobstructed_def temps_def)
  let ?after = "\<lambda>_ w. shows_pair w (Some ?cand) (Some ?cur)"
  let ?Q = "\<lambda>res w. shows_pair w (Some ?cand) (Some ?cur) \<and> pointer_receipts w ?op = Some (receipt_body v q) \<and>
      ps_generation res = pq_generation q + 1"
  have go_on: "delivers (laid rel c p ?op t1 t2) (bind (observe_pointers v) (\<lambda>before.
       andthen (bind (publish_pointer_set v ?cand ?cur ?prev ?op) (\<lambda>_. ret ()))
      (andthen (write_receipt v q)
       (ret \<lparr>ps_candidate = ?cand, ps_previous = ?cur, ps_generation = pq_generation q + 1, ps_receipt = pe_digest v (receipt_body v q),
         ps_recovered = classify_pointer_state before ?cand ?cur ?prev \<in> {PREPARED, PUBLISHED}\<rparr>)))) ?Q"
    if rel: "extends ?rel rel" "known rel ?cand" for rel
  proof -
    have ends: "\<And>i. c = Some i \<Longrightarrow> known rel i" "\<And>i. p = Some i \<Longrightarrow> known rel i"
      using cp(2) rel(2) known_extends [OF cur rel(1)] known_extends [OF prev rel(1)] by auto
    have set: "delivers (laid rel c p ?op t1 t2) (publish_pointer_set v ?cand ?cur ?prev ?op)
        (\<lambda>_ w. releases w = rel \<and> shows_pair w (Some ?cand) (Some ?cur))"
      by (rule delivers_publication [OF calm lives oper rel(2) known_extends [OF cur rel(1)] known_extends [OF prev rel(1)] t cp(2)])
    have receipt: "delivers (\<lambda>w. shows_pair w (Some ?cand) (Some ?cur)) (write_receipt v q)
        (\<lambda>_ w. shows_pair w (Some ?cand) (Some ?cur) \<and> pointer_receipts w ?op = Some (receipt_body v q))"
      using oper by (auto simp: delivers_def write_receipt_def refuse_unless_def laid_simps calm_op [OF calm])
    have written: "delivers (laid rel c p ?op t1 t2) (bind (publish_pointer_set v ?cand ?cur ?prev ?op) (\<lambda>_. ret ()))
        (\<lambda>_ w. shows_pair w (Some ?cand) (Some ?cur))"
      by (rule delivers_bind [OF set]) (auto simp: delivers_def prog_simps)
    show ?thesis
    proof (rule delivers_bind [OF delivers_observe [OF calm ends]])
      fix before
      have "delivers (laid rel c p ?op t1 t2) (andthen (bind (publish_pointer_set v ?cand ?cur ?prev ?op) (\<lambda>_. ret ()))
        (andthen (write_receipt v q)
         (ret \<lparr>ps_candidate = ?cand, ps_previous = ?cur, ps_generation = pq_generation q + 1, ps_receipt = pe_digest v (receipt_body v q),
           ps_recovered = classify_pointer_state before ?cand ?cur ?prev \<in> {PREPARED, PUBLISHED}\<rparr>))) ?Q"
        by (rule delivers_andthen [OF written], rule delivers_andthen [OF receipt]) (simp add: delivers_def prog_simps)
      then show "delivers (\<lambda>w. laid rel c p ?op t1 t2 w \<and> before = \<lparr>pt_current = c, pt_previous = p\<rparr>)
        (andthen (bind (publish_pointer_set v ?cand ?cur ?prev ?op) (\<lambda>_. ret ()))
        (andthen (write_receipt v q)
         (ret \<lparr>ps_candidate = ?cand, ps_previous = ?cur, ps_generation = pq_generation q + 1, ps_receipt = pe_digest v (receipt_body v q),
           ps_recovered = classify_pointer_state before ?cand ?cur ?prev \<in> {PREPARED, PUBLISHED}\<rparr>))) ?Q"
        by (rule delivers_pre) simp
    qed
  qed
  have "delivers (\<lambda>w. laid ?rel c p ?op t1 t2 w \<and> available q w) (publish_pointers v q) ?Q"
    unfolding publish_pointers_def
  proof (rule delivers_andthen [OF delivers_promote [OF calm digest]], rule delivers_ex)
    fix rel
    show "delivers (\<lambda>w. extends ?rel rel \<and> known rel ?cand \<and> laid rel c p ?op t1 t2 w) (bind (observe_pointers v) (\<lambda>before.
       andthen (bind (publish_pointer_set v ?cand ?cur ?prev ?op) (\<lambda>_. ret ()))
      (andthen (write_receipt v q)
       (ret \<lparr>ps_candidate = ?cand, ps_previous = ?cur, ps_generation = pq_generation q + 1, ps_receipt = pe_digest v (receipt_body v q),
         ps_recovered = classify_pointer_state before ?cand ?cur ?prev \<in> {PREPARED, PUBLISHED}\<rparr>)))) ?Q"
      by (rule delivers_case [where c = "extends ?rel rel \<and> known rel ?cand"], simp)
        (rule delivers_pre [OF go_on], auto)
  qed
  moreover have "laid ?rel c p ?op t1 t2 (world s)" using cp(1) by (simp add: laid_def t1_def t2_def)
  ultimately show ?thesis using available by (fastforce simp: delivers_def)
qed

text \<open>
  C10 (liveness): however many attempts were interrupted, the next undisturbed one returns with
  the candidate as the current release, the old one as the previous, and the receipt written.
\<close>

theorem publication_carries_on:
  assumes "shows_pair (world s) (Some (pq_current q)) (pq_previous q)"
    and "known (releases (world s)) (pq_current q)" and "\<And>i. pq_previous q = Some i \<Longrightarrow> known (releases (world s)) i"
    and "release_digest (pq_candidate q)" and "available q (world s)"
    and "operation_name (pq_operation q)" and "unobstructed (pq_operation q) (world s)"
    and "calm_disk v" and "lives v"
  shows "\<exists>res s'. publish_pointers v q (publish_attempts vs q s) = (Inr res, s') \<and>
    shows_pair (world s') (Some (pq_candidate q)) (Some (pq_current q)) \<and>
    pointer_receipts (world s') (pq_operation q) = Some (receipt_body v q) \<and> ps_generation res = pq_generation q + 1"
proof (rule publishes)
  let ?s = "publish_attempts vs q s"
  have kept: "carried q (world s) (world ?s)" by (rule attempts_carried)
  then have more: "extends (releases (world s)) (releases (world ?s))" by (simp add: carried_def extends_def)
  from known_extends [OF assms(2) more] show "known (releases (world ?s)) (pq_current q)" .
  from known_extends [OF assms(3) more] show "pq_previous q = Some i \<Longrightarrow> known (releases (world ?s)) i" for i .
  from kept assms show "available q (world ?s)" "unobstructed (pq_operation q) (world ?s)" "publishing q (world ?s)"
    by (auto simp: carried_def publishing_def underway_def)
qed (use assms in simp_all)

section \<open>Taking a publication back\<close>

lemma rollback_simps [simp]:
  "pq_candidate (rollback_of q) = pq_current q" "pq_current (rollback_of q) = pq_candidate q"
  "pq_previous (rollback_of q) = Some (pq_current q)" "pq_operation (rollback_of q) = pq_operation q @ ''.rollback''"
  "pq_generation (rollback_of q) = pq_generation q + 1" "pq_stage (rollback_of q) = None"
  by (simp_all add: rollback_of_def)

lemma laid_here: "shows_pair (world s) c p \<Longrightarrow>
    laid (releases (world s)) c p oper (links (world s) (temp_of ''previous'' oper)) (links (world s) (temp_of ''current'' oper)) (world s)"
  by (simp add: laid_def)

lemma probed:
  assumes "calm_disk v" and "shows_pair (world s) c p"
    and "\<And>i. c = Some i \<Longrightarrow> known (releases (world s)) i" and "\<And>i. p = Some i \<Longrightarrow> known (releases (world s)) i"
  obtains s' where "observe_pointers v s = (Inr \<lparr>pt_current = c, pt_previous = p\<rparr>, s')" and "same_shelf (world s) (world s')"
proof -
  from delivers_observe [OF assms(1,3,4)] laid_here [OF assms(2)]
  obtain s' where run: "observe_pointers v s = (Inr \<lparr>pt_current = c, pt_previous = p\<rparr>, s')"
    unfolding delivers_def by blast
  from that [OF run looked [OF looking.guar_observe run]] show thesis .
qed

text \<open>
  C29 (roundtrip): taking a publication back brings the old release back as the current one, and
  the check of the restoration then says so.
\<close>

theorem publication_is_taken_back:
  assumes "calm_disk v" and "lives v" and "shows_pair (world s) (Some (pq_candidate q)) (Some (pq_current q))"
    and "known (releases (world s)) (pq_candidate q)" and "known (releases (world s)) (pq_current q)"
    and "operation_name (pq_operation q @ ''.rollback'')" and "unobstructed (pq_operation q @ ''.rollback'') (world s)"
    and "pq_candidate q \<noteq> pq_current q"
  shows "\<exists>res s' s2. restore_pointers v q s = (Inr res, s') \<and> ps_generation res = pq_generation q + 2 \<and>
    shows_pair (world s') (Some (pq_current q)) (Some (pq_candidate q)) \<and>
    probe_pointers_restored v q s' = (Inr True, s2)"
proof -
  let ?cand = "pq_candidate q" and ?cur = "pq_current q"
  obtain s1 where seen: "observe_pointers v s = (Inr \<lparr>pt_current = Some ?cand, pt_previous = Some ?cur\<rparr>, s1)"
      and same: "same_shelf (world s) (world s1)"
    using probed [OF assms(1,3)] assms(4,5) by blast
  have step: "restore_pointers v q s = publish_pointers v (rollback_of q) s1"
    using seen by (simp add: restore_pointers_def probe_pointers_def bind_run prog_simps classify_pointer_state_def)
  have pair: "shows_pair (world s1) (Some ?cand) (Some ?cur)" using shows_pair_frames(1) [OF same] assms(3) by simp
  have rel: "releases (world s1) = releases (world s)" using same by (simp add: same_shelf_def)
  obtain res s' where run: "publish_pointers v (rollback_of q) s1 = (Inr res, s')"
      and pair': "shows_pair (world s') (Some ?cur) (Some ?cand)" and gen: "ps_generation res = pq_generation q + 2"
    using publishes [of v "rollback_of q" s1] assms pair rel same
    by (auto simp: publishing_def underway_def available_def known_def same_shelf_def unobstructed_def)
  have "carried (rollback_of q) (world s1) (world s')"
    using publish_carried [of "rollback_of q" v] run by (auto simp: on_world_def dest: guarD)
  then have "extends (releases (world s)) (releases (world s'))" using rel by (simp add: carried_def extends_def)
  note known' = known_extends [OF assms(4) this] known_extends [OF assms(5) this]
  obtain s2 where "observe_pointers v s' = (Inr \<lparr>pt_current = Some ?cur, pt_previous = Some ?cand\<rparr>, s2)"
    using probed [OF assms(1) pair'] known' by blast
  then have "probe_pointers_restored v q s' = (Inr True, s2)"
    by (simp add: probe_pointers_restored_def bind_run prog_simps)
  with step run pair' gen show ?thesis by auto
qed

section \<open>A restoration that dies\<close>

definition ends_with :: "exn \<Rightarrow> (shelf \<Rightarrow> bool) \<Rightarrow> 'a shelf_prog \<Rightarrow> (shelf \<Rightarrow> bool) \<Rightarrow> bool" where
  "ends_with e P m Q \<longleftrightarrow> (\<forall>s. P (world s) \<longrightarrow> (\<exists>s'. m s = (Inl e, s') \<and> Q (world s')))"

lemma ends_bind: "ends_with e P m Q \<Longrightarrow> ends_with e P (bind m f) Q"
  by (fastforce simp: ends_with_def bind_def split: prod.splits sum.splits)

lemma ends_andthen: "ends_with e P m Q \<Longrightarrow> ends_with e P (andthen m n) Q"
  unfolding andthen_def by (rule ends_bind)

lemma ends_later: "delivers P m Q \<Longrightarrow> (\<And>x. ends_with e (Q x) (f x) S) \<Longrightarrow> ends_with e P (bind m f) S"
  by (fastforce simp: delivers_def ends_with_def bind_def split: prod.splits sum.splits)

lemma ends_after: "delivers P m (\<lambda>_. Q) \<Longrightarrow> ends_with e Q n S \<Longrightarrow> ends_with e P (andthen m n) S"
  unfolding andthen_def by (rule ends_later)

lemma ends_finally: "ends_with e P m Q \<Longrightarrow> \<not> is_exception e \<Longrightarrow> ends_with e P (finally_do m c) Q"
  by (fastforce simp: ends_with_def finally_do_def split: prod.splits sum.splits)

lemma ends_case: "(\<And>w. P w \<Longrightarrow> c) \<Longrightarrow> (c \<Longrightarrow> ends_with e P m Q) \<Longrightarrow> ends_with e P m Q"
  by (fastforce simp: ends_with_def)

lemma move_dies:
  assumes "calm_disk v" and "pe_hook v point = Some e"
  shows "ends_with e (laid rel c p oper None t2) (move_link v oper ''previous'' i point) (laid rel c (Some i) oper None t2)"
  using assms(2) unfolding ends_with_def move_link_def make_link_def replace_link_def fsync_directory_def crash_hook_def
  by (auto simp: laid_simps calm_op [OF assms(1)])

text \<open>A publication whose process dies between its two replacements leaves both links on the old release.\<close>

lemma publication_dies:
  assumes calm: "calm_disk v" and death: "pe_hook v ''after_previous_replace'' = Some ProcessDeath"
    and oper: "operation_name oper" and rel: "known rel cand" "known rel cur" "\<And>i. prev = Some i \<Longrightarrow> known rel i"
    and t: "t1 \<noteq> Some NoLink" "t2 \<noteq> Some NoLink" and new: "cand \<noteq> cur" "prev \<noteq> Some cur"
  shows "ends_with ProcessDeath (laid rel (Some cur) prev oper t1 t2) (publish_pointer_set v cand cur prev oper)
    (\<lambda>w. shows_pair w (Some cur) (Some cur))"
proof -
  let ?seen = "\<lparr>pt_current = Some cur, pt_previous = prev\<rparr>" and ?Q = "\<lambda>w. shows_pair w (Some cur) (Some cur)"
  have state: "classify_pointer_state ?seen cand cur prev = UNPUBLISHED" using new by (simp add: classify_pointer_state_def)
  have die: "ends_with ProcessDeath (laid rel (Some cur) prev oper None None)
      (move_link v oper ''previous'' cur ''after_previous_replace'') ?Q"
    using move_dies [OF calm death, of rel "Some cur" prev oper None cur] by (fastforce simp: ends_with_def laid_def)
  have "ends_with ProcessDeath (laid rel (Some cur) prev oper t1 t2) (proceed v cand cur prev oper ?seen) ?Q"
    unfolding proceed_def Let_def state
    by (simp add: only_if_def, rule ends_after [OF delivers_refuse], simp,
        rule ends_after [OF delivers_clear(1) [OF calm t(1)]], rule ends_after [OF delivers_clear(2) [OF calm t(2)]],
        rule ends_andthen, rule ends_finally, rule ends_andthen [OF die])
      (simp add: is_exception_def)
  then have "ends_with ProcessDeath (\<lambda>w. laid rel (Some cur) prev oper t1 t2 w \<and> x = ?seen) (proceed v cand cur prev oper x) ?Q" for x
    by (auto simp: ends_with_def)
  then show ?thesis
    unfolding publish_pointer_set_parts
    by (intro ends_after [OF delivers_checks [OF calm oper rel]] ends_later [OF delivers_observe [OF calm]])
      (use rel in auto)
qed

text \<open>With both links on the candidate every probe is uncertain.\<close>

lemma both_on_candidate:
  fixes s :: "shelf sys"
  assumes pair: "shows_pair (world s) (Some (pq_candidate q)) (Some (pq_candidate q))" and new: "pq_candidate q \<noteq> pq_current q"
  shows "\<exists>e s'. restore_pointers v q s = (Inl e, s') \<and> same_shelf (world s) (world s')"
    and "\<exists>e s'. publish_pointer_set v (pq_candidate q) (pq_current q) (pq_previous q) oper s = (Inl e, s') \<and> same_shelf (world s) (world s')"
    and "fst (probe_pointers_restored v q s) \<noteq> Inr True"
proof -
  have seen: "x = \<lparr>pt_current = Some (pq_candidate q), pt_previous = Some (pq_candidate q)\<rparr>"
    if "observe_pointers v t = (Inr x, t')" "same_shelf (world s) (world t)" for x t t'
    using observe_Inr(1) [OF that(1)] shows_pair_frames(1) [OF that(2)] pair by (cases x) (auto simp: shows_pair_def)
  have verdict: "classify_pointer_state \<lparr>pt_current = Some (pq_candidate q), pt_previous = Some (pq_candidate q)\<rparr>
      (pq_candidate q) (pq_current q) (pq_previous q) = UNCERTAIN_POINTERS"
    using new by (auto simp: classify_pointer_state_def)
  show "\<exists>e s'. restore_pointers v q s = (Inl e, s') \<and> same_shelf (world s) (world s')"
  proof (cases "observe_pointers v s")
    case (Pair r t)
    note same = looked [OF looking.guar_observe Pair]
    show ?thesis
    proof (cases r)
      case (Inr x)
      from seen [OF Pair [unfolded Inr] looking.same] have x: "x = \<lparr>pt_current = Some (pq_candidate q), pt_previous = Some (pq_candidate q)\<rparr>" .
      have "restore_pointers v q s = (Inl (pointer_refusal ''POINTER_ROLLBACK_UNCERTAIN''), t)"
        using Pair Inr x verdict by (simp add: restore_pointers_def probe_pointers_def bind_run prog_simps)
      with same show ?thesis by blast
    qed (use Pair same in \<open>auto simp: restore_pointers_def probe_pointers_def bind_run\<close>)
  qed
  show "fst (probe_pointers_restored v q s) \<noteq> Inr True"
  proof (cases "observe_pointers v s")
    case (Pair r t)
    show ?thesis
    proof (cases r)
      case (Inr x)
      from seen [OF Pair [unfolded Inr] looking.same] have x: "x = \<lparr>pt_current = Some (pq_candidate q), pt_previous = Some (pq_candidate q)\<rparr>" .
      with Pair Inr new show ?thesis by (simp add: probe_pointers_restored_def bind_run prog_simps)
    qed (use Pair in \<open>simp add: probe_pointers_restored_def bind_run\<close>)
  qed
  show "\<exists>e s'. publish_pointer_set v (pq_candidate q) (pq_current q) (pq_previous q) oper s = (Inl e, s') \<and> same_shelf (world s) (world s')"
  proof (cases "publish_pointer_set v (pq_candidate q) (pq_current q) (pq_previous q) oper s")
    case (Pair r t)
    then have "\<exists>e. r = Inl e \<and> same_shelf (world s) (world t)"
      unfolding publish_pointer_set_parts andthen_def
    proof (cases rule: bind_cases)
      case (raised e)
      with looked [OF checks_looking raised(1)] show ?thesis by simp
    next
      case (went_on u t1)
      note one = looked [OF checks_looking went_on(1)]
      from went_on(2) show ?thesis
      proof (cases rule: bind_cases)
        case (raised e)
        with looking.further [OF one looked [OF looking.guar_observe raised(1)]] show ?thesis by simp
      next
        case (went_on x t2)
        have "proceed v (pq_candidate q) (pq_current q) (pq_previous q) oper x t2 = (Inl (pointer_refusal ''POINTER_IDENTITY_MISMATCH''), t2)"
          using seen [OF went_on(1) one] verdict by (simp add: proceed_def refuse_unless_def prog_simps)
        with went_on(2) looking.further [OF one looked [OF looking.guar_observe went_on(1)]] show ?thesis by auto
      qed
    qed
    with Pair show ?thesis by auto
  qed
qed

text \<open>
  What further attempts do: each publishes again or takes back again, with its own faults.
\<close>

definition publish_again :: "publish_request \<Rightarrow> pointer_env \<times> bool \<Rightarrow> shelf sys \<Rightarrow> shelf sys" where
  "publish_again q a s = (if snd a then snd (publish_pointers (fst a) q s) else snd (restore_pointers (fst a) q s))"

lemma publish_stuck:
  fixes s :: "shelf sys"
  assumes "shows_pair (world s) (Some (pq_candidate q)) (Some (pq_candidate q))" and "pq_candidate q \<noteq> pq_current q"
  shows "\<exists>e s'. publish_pointers v q s = (Inl e, s') \<and> shows_pair (world s') (Some (pq_candidate q)) (Some (pq_candidate q))"
proof -
  let ?both = "\<lambda>s. shows_pair (world s) (Some (pq_candidate q)) (Some (pq_candidate q))"
  have keep: "?both t" if "carried q (world s) (world t)" for t
    using that assms by (auto simp: carried_def publishing_def underway_def shows_pair_def)
  obtain r t where run: "publish_pointers v q s = (r, t)" by (cases "publish_pointers v q s")
  with publish_carried [of q v] have "carried q (world s) (world t)" by (auto simp: on_world_def dest: guarD)
  moreover have "\<exists>e. r = Inl e"
    using run unfolding publish_pointers_def andthen_def
  proof (cases rule: bind_cases)
    case (went_on u t1)
    have one: "?both t1"
      using promote_carried [of q v] went_on(1) by (intro keep) (auto simp: on_world_def dest: guarD)
    from went_on(2) show ?thesis
    proof (cases rule: bind_cases)
      case (went_on x t2)
      from looked [OF looking.guar_observe went_on(1)] one have "?both t2" by (simp add: shows_pair_frames(1))
      from both_on_candidate(2) [OF this assms(2), of v "pq_operation q"] went_on(2) show ?thesis
        by (auto simp: bind_def)
    qed simp
  qed simp
  ultimately show ?thesis using run keep by blast
qed

lemma publisher_dies:
  assumes calm: "calm_disk v" and death: "pe_hook v ''after_previous_replace'' = Some ProcessDeath"
    and oper: "operation_name (pq_operation q)" and digest: "release_digest (pq_candidate q)"
    and cur: "known rel (pq_current q)" and prev: "\<And>i. pq_previous q = Some i \<Longrightarrow> known rel i"
    and t: "t1 \<noteq> Some NoLink" "t2 \<noteq> Some NoLink"
    and new: "pq_candidate q \<noteq> pq_current q" "pq_previous q \<noteq> Some (pq_current q)"
  shows "ends_with ProcessDeath (\<lambda>w. laid rel (Some (pq_current q)) (pq_previous q) (pq_operation q) t1 t2 w \<and> available q w)
    (publish_pointers v q) (\<lambda>w. shows_pair w (Some (pq_current q)) (Some (pq_current q)))"
  unfolding publish_pointers_def
proof (rule ends_after [OF delivers_promote [OF calm digest]])
  let ?Q = "\<lambda>w. shows_pair w (Some (pq_current q)) (Some (pq_current q))"
  let ?rest = "\<lambda>before. andthen (bind (publish_pointer_set v (pq_candidate q) (pq_current q) (pq_previous q) (pq_operation q)) (\<lambda>_. ret ()))
      (andthen (write_receipt v q)
       (ret \<lparr>ps_candidate = pq_candidate q, ps_previous = pq_current q, ps_generation = pq_generation q + 1,
         ps_receipt = pe_digest v (receipt_body v q),
         ps_recovered = classify_pointer_state before (pq_candidate q) (pq_current q) (pq_previous q) \<in> {PREPARED, PUBLISHED}\<rparr>))"
  have "ends_with ProcessDeath (laid r (Some (pq_current q)) (pq_previous q) (pq_operation q) t1 t2)
      (bind (observe_pointers v) ?rest) ?Q" if r: "extends rel r" "known r (pq_candidate q)" for r
  proof -
    note rel = known_extends [OF cur r(1)] known_extends [OF prev r(1)]
    have "ends_with ProcessDeath (laid r (Some (pq_current q)) (pq_previous q) (pq_operation q) t1 t2) (?rest before) ?Q" for before
      by (intro ends_andthen ends_bind publication_dies [OF calm death oper r(2) rel t new])
    then have "ends_with ProcessDeath (\<lambda>w. laid r (Some (pq_current q)) (pq_previous q) (pq_operation q) t1 t2 w \<and> x) (?rest before) ?Q"
      for before x by (auto simp: ends_with_def)
    then show ?thesis
      by (intro ends_later [OF delivers_observe [OF calm]]) (use rel in auto)
  qed
  then show "ends_with ProcessDeath (\<lambda>w. \<exists>r. extends rel r \<and> known r (pq_candidate q) \<and>
      laid r (Some (pq_current q)) (pq_previous q) (pq_operation q) t1 t2 w) (bind (observe_pointers v) ?rest) ?Q"
    by (fastforce simp: ends_with_def)
qed

lemma stays_stuck:
  fixes s :: "shelf sys"
  assumes "shows_pair (world s) (Some (pq_candidate q)) (Some (pq_candidate q))" and "pq_candidate q \<noteq> pq_current q"
  shows "shows_pair (world (fold (publish_again q) attempts s)) (Some (pq_candidate q)) (Some (pq_candidate q))"
  using assms(1)
proof (induction attempts arbitrary: s)
  case (Cons a attempts)
  obtain e s' where "restore_pointers (fst a) q s = (Inl e, s')" "same_shelf (world s) (world s')"
    using both_on_candidate(1) [OF Cons.prems assms(2)] by blast
  moreover obtain e' s'' where "publish_pointers (fst a) q s = (Inl e', s'')"
      "shows_pair (world s'') (Some (pq_candidate q)) (Some (pq_candidate q))"
    using publish_stuck [OF Cons.prems assms(2)] by blast
  ultimately have "shows_pair (world (publish_again q a s)) (Some (pq_candidate q)) (Some (pq_candidate q))"
    using Cons.prems shows_pair_frames(1) by (auto simp: publish_again_def)
  from Cons.IH [OF this] show ?case by simp
qed simp

text \<open>
  C38 (error): a restoration whose process dies between its two replacements leaves both links
  on the candidate, and from there nothing gets on: however often it is tried again to take the
  publication back, or to publish, it raises, and the restoration never counts as complete.
\<close>

theorem dead_restoration_is_stuck:
  fixes s :: "shelf sys"
  assumes "calm_disk v" and "pe_hook v ''after_previous_replace'' = Some ProcessDeath"
    and "shows_pair (world s) (Some (pq_candidate q)) (Some (pq_current q))"
    and "known (releases (world s)) (pq_candidate q)" and "known (releases (world s)) (pq_current q)"
    and "operation_name (pq_operation q @ ''.rollback'')" and "unobstructed (pq_operation q @ ''.rollback'') (world s)"
    and "pq_candidate q \<noteq> pq_current q"
  shows "\<exists>s1. restore_pointers v q s = (Inl ProcessDeath, s1) \<and>
    (\<forall>attempts v'. let s2 = fold (publish_again q) attempts s1 in
       (\<exists>e. fst (restore_pointers v' q s2) = Inl e) \<and> (\<exists>e. fst (publish_pointers v' q s2) = Inl e) \<and>
       fst (probe_pointers_restored v' q s2) \<noteq> Inr True)"
proof -
  let ?cand = "pq_candidate q" and ?cur = "pq_current q" and ?op = "pq_operation q @ ''.rollback''"
  obtain s0 where seen: "observe_pointers v s = (Inr \<lparr>pt_current = Some ?cand, pt_previous = Some ?cur\<rparr>, s0)"
      and same: "same_shelf (world s) (world s0)"
    using probed [OF assms(1,3)] assms(4,5) by blast
  have step: "restore_pointers v q s = publish_pointers v (rollback_of q) s0"
    using seen by (simp add: restore_pointers_def probe_pointers_def bind_run prog_simps classify_pointer_state_def)
  have t: "links (world s0) (temp_of n ?op) \<noteq> Some NoLink" if "temp_of n ?op \<in> temps ?op" for n
    using assms(7) same that by (auto simp: unobstructed_def same_shelf_def)
  have "ends_with ProcessDeath (\<lambda>w. laid (releases (world s)) (Some ?cand) (Some ?cur) ?op
      (links (world s0) (temp_of ''previous'' ?op)) (links (world s0) (temp_of ''current'' ?op)) w \<and> available (rollback_of q) w)
      (publish_pointers v (rollback_of q)) (\<lambda>w. shows_pair w (Some ?cand) (Some ?cand))"
    using publisher_dies [OF assms(1,2), of "rollback_of q"] assms(4-8) t by (simp add: known_def temps_def)
  moreover have "laid (releases (world s)) (Some ?cand) (Some ?cur) ?op (links (world s0) (temp_of ''previous'' ?op))
      (links (world s0) (temp_of ''current'' ?op)) (world s0)" and "available (rollback_of q) (world s0)"
    using assms(3,5) same shows_pair_frames(1) [OF same]
    by (auto simp: laid_def same_shelf_def available_def known_def)
  ultimately obtain s1 where died: "publish_pointers v (rollback_of q) s0 = (Inl ProcessDeath, s1)"
      and both: "shows_pair (world s1) (Some ?cand) (Some ?cand)"
    unfolding ends_with_def by blast
  have "(\<exists>e. fst (restore_pointers v' q s2) = Inl e) \<and> (\<exists>e. fst (publish_pointers v' q s2) = Inl e) \<and>
      fst (probe_pointers_restored v' q s2) \<noteq> Inr True" if "s2 = fold (publish_again q) attempts s1" for attempts v' s2
    using both_on_candidate(1,3) [OF stays_stuck [OF both assms(8)] assms(8)] publish_stuck [OF stays_stuck [OF both assms(8)] assms(8)]
    unfolding that by (metis fst_conv)
  with step died show ?thesis by (auto simp: Let_def)
qed

end
