(* ===== verification/Pointer_Witnesses.thy ===== *)
theory Pointer_Witnesses
  imports Pointer_Promises
begin

text \<open>
  A concrete application directory with three releases and a stage, at which the properties of
  the publisher are applied.
\<close>

definition release_name :: "char \<Rightarrow> string" where
  "release_name c = replicate 64 c"

definition receipt_for :: "string \<Rightarrow> release_receipt" where
  "receipt_for identity = \<lparr>rr_regular = True, rr_bytes = 200,
     rr_value = Inr (JObj [(''schema_version'', JInt 1), (''release_set_digest'', jstr identity)])\<rparr>"

definition release_at :: "string \<Rightarrow> release_entry" where
  "release_at identity = ReleaseDir (Some (receipt_for identity))"

abbreviation old_release :: string where "old_release \<equiv> release_name CHR ''a''"
abbreviation older_release :: string where "older_release \<equiv> release_name CHR ''b''"
abbreviation new_release :: string where "new_release \<equiv> release_name CHR ''c''"

definition installed :: shelf where
  "installed = \<lparr>links = [''current'' \<mapsto> Symlink (target_of old_release), ''previous'' \<mapsto> Symlink (target_of older_release)],
     releases = [old_release \<mapsto> release_at old_release, older_release \<mapsto> release_at older_release],
     stages = [''stage-1'' \<mapsto> release_at new_release], pointer_receipts = Map.empty, disk_ops = 0\<rparr>"

text \<open>The same after the publication.\<close>

definition updated :: shelf where
  "updated = installed\<lparr>links := [''current'' \<mapsto> Symlink (target_of new_release), ''previous'' \<mapsto> Symlink (target_of old_release)],
     releases := (releases installed)(new_release \<mapsto> release_at new_release), stages := Map.empty\<rparr>"

definition holding :: "shelf \<Rightarrow> shelf sys" where
  "holding w = \<lparr>db = empty_db, world = w, clock_reads = 0, uuid_reads = 0, units = 0, pulses = [], calls = []\<rparr>"

definition update_request :: publish_request where
  "update_request = \<lparr>pq_operation = ''op-7'', pq_candidate = new_release, pq_current = old_release,
     pq_previous = Some older_release, pq_generation = 4, pq_stage = Some ''stage-1''\<rparr>"

text \<open>A disk without faults, one that dies at its ninth operation, and a process that dies in between.\<close>

definition sound_disk :: pointer_env where
  "sound_disk = \<lparr>pe_fault = \<lambda>_. None, pe_hook = \<lambda>_. None, pe_root = True, pe_releases = True, pe_device = True,
     pe_stage_device = True, pe_helper = ''helper'', pe_digest = \<lambda>_. ''digest''\<rparr>"

definition failing_disk :: pointer_env where
  "failing_disk = sound_disk\<lparr>pe_fault := \<lambda>n. if n = 8 then Some (ProcessDeath, True) else None\<rparr>"

definition dying_between :: pointer_env where
  "dying_between = sound_disk\<lparr>pe_hook := \<lambda>p. if p = ''after_previous_replace'' then Some ProcessDeath else None\<rparr>"

lemma release_names_differ [simp]: "release_name c = release_name d \<longleftrightarrow> c = d"
  by (simp add: release_name_def)

lemma releases_known [simp]:
  "c \<in> {CHR ''a'', CHR ''b'', CHR ''c''} \<Longrightarrow> release_digest (release_name c)"
  "genuine i (Some (release_at i))"
  by (auto simp: release_digest_def release_name_def list_all_iff hex_char_def genuine_def release_at_def receipt_of_def
      receipt_for_def get_field_def get_or_def)

lemma directory_simps [simp]:
  "world (holding w) = w" "links installed ''current'' = Some (Symlink (target_of old_release))"
  "links installed ''previous'' = Some (Symlink (target_of older_release))"
  "releases installed old_release = Some (release_at old_release)"
  "releases installed older_release = Some (release_at older_release)"
  "releases installed new_release = None" "stages installed ''stage-1'' = Some (release_at new_release)"
  "links updated ''current'' = Some (Symlink (target_of new_release))"
  "links updated ''previous'' = Some (Symlink (target_of old_release))"
  "releases updated new_release = Some (release_at new_release)"
  "releases updated old_release = Some (release_at old_release)"
  by (simp_all add: holding_def installed_def updated_def)

lemma request_simps [simp]:
  "pq_operation update_request = ''op-7''" "pq_candidate update_request = new_release" "pq_current update_request = old_release"
  "pq_previous update_request = Some older_release" "pq_generation update_request = 4" "pq_stage update_request = Some ''stage-1''"
  by (simp_all add: update_request_def)

lemma names_simps [simp]:
  "operation_name ''op-7''" "operation_name ''op-7.rollback''" "stage_name (Some ''stage-1'')"
  by (simp_all add: stage_name_def slug_char_def alphanumeric_def)

lemma unobstructed_simps [simp]: "unobstructed operation installed" "unobstructed operation updated"
  by (auto simp: unobstructed_def temps_def installed_def updated_def)

lemma disks [simp]: "calm_disk sound_disk" "lives sound_disk" "calm_disk dying_between"
    "pe_hook dying_between ''after_previous_replace'' = Some ProcessDeath"
  by (simp_all add: calm_disk_def lives_def sound_disk_def dying_between_def)

lemma installed_pair [simp]: "shows_pair installed (Some old_release) (Some older_release)"
    "shows_pair updated (Some new_release) (Some old_release)"
  by (simp_all add: shows_pair_def)

theorem working_release_survives_witness:
  "works (world (publish_attempts [failing_disk, dying_between] update_request (holding installed)))"
  using working_release_survives [of "holding installed" update_request "[failing_disk, dying_between]"]
  by (auto simp: works_def)

theorem publication_carries_on_witness:
  "\<exists>res s'. publish_pointers sound_disk update_request
       (publish_attempts [failing_disk, dying_between] update_request (holding installed)) = (Inr res, s') \<and>
     shows_pair (world s') (Some new_release) (Some old_release) \<and> ps_generation res = 5"
  using publication_carries_on [of "holding installed" update_request sound_disk "[failing_disk, dying_between]"]
  by (auto simp: known_def available_def slug_char_def alphanumeric_def)

theorem publication_is_taken_back_witness:
  "\<exists>res s' s2. restore_pointers sound_disk update_request (holding updated) = (Inr res, s') \<and>
     shows_pair (world s') (Some old_release) (Some new_release) \<and>
     probe_pointers_restored sound_disk update_request s' = (Inr True, s2)"
  using publication_is_taken_back [of sound_disk "holding updated" update_request]
  by (auto simp: known_def slug_char_def alphanumeric_def)

theorem dead_restoration_is_stuck_witness:
  "\<exists>s1. restore_pointers dying_between update_request (holding updated) = (Inl ProcessDeath, s1) \<and>
     (\<exists>e. fst (restore_pointers sound_disk update_request s1) = Inl e)"
  using dead_restoration_is_stuck [of dying_between "holding updated" update_request]
  by (auto simp: known_def Let_def slug_char_def alphanumeric_def dest: spec [where x = "[]"])

end
