(* ===== verification/Release_Policy.thy ===== *)
theory Release_Policy
  imports Requests "HOL-Library.Product_Lexorder"
begin

text \<open>
  What a release is judged by: the policy with its closed vocabularies
  (\<^verbatim>\<open>release_policy.py\<close>), the artifacts of a candidate
  (\<^verbatim>\<open>release_artifacts.py\<close>), the informational state
  (\<^verbatim>\<open>release_state.py\<close>), and the digests that bind them together.
\<close>

section \<open>What surrounds the gate\<close>

text \<open>
  \<open>re_sha\<close> is SHA-256 of a text's UTF-8 bytes in hexadecimal, \<open>re_iso\<close> is
  \<^verbatim>\<open>datetime.fromisoformat\<close> (nothing when it raises \<^verbatim>\<open>ValueError\<close>), an aware
  instant being a count of microseconds. \<open>re_clock\<close> is the clock at the n-th reading,
  \<open>re_shown\<close> the text of a list or a dictionary, \<open>re_word\<close> says which code points beyond
  ASCII are alphanumeric.
\<close>

datatype iso_instant = Naive | Aware int

record release_env =
  re_sha :: "pystr \<Rightarrow> string"
  re_iso :: "pystr \<Rightarrow> iso_instant option"
  re_clock :: "nat \<Rightarrow> int"
  re_shown :: "json \<Rightarrow> pystr"
  re_word :: "nat \<Rightarrow> bool"

definition value_refused :: exn where
  "value_refused = python_error ''ValueError''"

definition type_error :: exn where
  "type_error = python_error ''TypeError''"

section \<open>The ASCII encoder\<close>

text \<open>\<^verbatim>\<open>json.dumps(value, sort_keys=True)\<close>, which escapes everything beyond printable ASCII.\<close>

definition unicode_escape :: "nat \<Rightarrow> pystr" where
  "unicode_escape n = [92, 117, hex_digit (n div 4096 mod 16), hex_digit (n div 256 mod 16),
     hex_digit (n div 16 mod 16), hex_digit (n mod 16)]"

definition ascii_escape :: "nat \<Rightarrow> pystr" where
  "ascii_escape c =
    (if c = 34 \<or> c = 92 \<or> c < 32 \<and> c \<in> {8, 9, 10, 12, 13} then escape_cp c
     else if 32 \<le> c \<and> c \<le> 126 then [c]
     else if c < 65536 then unicode_escape c
     else unicode_escape (55296 + (c - 65536) div 1024) @ unicode_escape (56320 + (c - 65536) mod 1024))"

definition ascii_text :: "pystr \<Rightarrow> pystr" where
  "ascii_text s = 34 # concat (map ascii_escape s) @ [34]"

fun separated :: "pystr \<Rightarrow> pystr list \<Rightarrow> pystr" where
  "separated sep [] = []"
| "separated sep [t] = t"
| "separated sep (t # ts) = t @ sep @ separated sep ts"

fun ascii_dumps :: "pystr \<Rightarrow> pystr \<Rightarrow> json \<Rightarrow> pystr" where
  "ascii_dumps sep col JNull = cps ''null''"
| "ascii_dumps sep col (JBool b) = cps (if b then ''true'' else ''false'')"
| "ascii_dumps sep col (JInt n) = dumps_int n"
| "ascii_dumps sep col (JFloat t) = cps t"
| "ascii_dumps sep col (JStr s) = ascii_text s"
| "ascii_dumps sep col (JList xs) = 91 # separated sep (map (ascii_dumps sep col) xs) @ [93]"
| "ascii_dumps sep col (JObj kvs) =
     123 # separated sep (map snd (sort_key fst
       (map (\<lambda>(k, v). (k, ascii_text (cps k) @ col @ ascii_dumps sep col v)) kvs))) @ [125]"
| "ascii_dumps sep col (JOther t) = []"

text \<open>What is no JSON value makes the encoder raise.\<close>

fun encodable :: "json \<Rightarrow> bool" where
  "encodable (JOther t) = False"
| "encodable (JList xs) = list_all encodable xs"
| "encodable (JObj kvs) = list_all (\<lambda>(k, v). encodable v) kvs"
| "encodable v = True"

definition compact_dumps :: "json \<Rightarrow> pystr" where
  "compact_dumps = ascii_dumps (cps '','') (cps '':'')"

definition sha256_of :: "release_env \<Rightarrow> json \<Rightarrow> pystr" where
  "sha256_of v body = cps ''sha256:'' @ cps (re_sha v (compact_dumps body))"

section \<open>The policy\<close>

definition APPROVED_VERIFICATION_MECHANISMS :: "string list" where
  "APPROVED_VERIFICATION_MECHANISMS = [''sigstore-bundle'', ''gh-attestation'']"

definition EVIDENCE_KINDS :: "string list" where
  "EVIDENCE_KINDS =
    [''SOURCE_CHECKOUT'', ''DEFAULT_TEST_SUITE'', ''SLOW_SECURITY_STRESS'', ''CLEAN_WHEEL_SMOKE'',
     ''UPGRADE_MATRIX'', ''BACKUP_RESTORE_HARDWARE'', ''SBOM'', ''BUILD_PROVENANCE'',
     ''ARTIFACT_ATTESTATION'', ''PACKAGE_PUBLISH_ATTESTATION'', ''CONTAINER_IDENTITY'',
     ''HARDWARE_QUALIFICATION'', ''SOAK_TEST'', ''SECURITY_REVIEW'', ''HUMAN_ACCEPTANCE'',
     ''KNOWN_LIMITATION_ACCEPTANCE'', ''DOCUMENTATION_RECONCILIATION'', ''RELEASE_APPROVAL'']"

definition LIMITATION_CLASSES :: "string list" where
  "LIMITATION_CLASSES = [''SUPPORTED_OPTIONAL'', ''EXPERIMENTAL'', ''DEFERRED_NOT_ADVERTISED'']"

definition KIND_TO_GATE_CODE :: "(string \<times> string) list" where
  "KIND_TO_GATE_CODE =
    [(''SOURCE_CHECKOUT'', ''REPOSITORY_NOT_PUBLISHED''),
     (''DEFAULT_TEST_SUITE'', ''TEST_EVIDENCE_MISSING''),
     (''SLOW_SECURITY_STRESS'', ''TEST_EVIDENCE_MISSING''),
     (''CLEAN_WHEEL_SMOKE'', ''CLEAN_WHEEL_EVIDENCE_MISSING''),
     (''UPGRADE_MATRIX'', ''TEST_EVIDENCE_MISSING''),
     (''BACKUP_RESTORE_HARDWARE'', ''BACKUP_RESTORE_EVIDENCE_MISSING''),
     (''SBOM'', ''SBOM_MISSING_OR_MISMATCHED''),
     (''BUILD_PROVENANCE'', ''PROVENANCE_MISSING_OR_MISMATCHED''),
     (''ARTIFACT_ATTESTATION'', ''SIGNATURE_MISSING_OR_INVALID''),
     (''PACKAGE_PUBLISH_ATTESTATION'', ''SIGNATURE_MISSING_OR_INVALID''),
     (''CONTAINER_IDENTITY'', ''SIGNATURE_MISSING_OR_INVALID''),
     (''HARDWARE_QUALIFICATION'', ''HARDWARE_QUALIFICATION_MISSING''),
     (''SOAK_TEST'', ''SOAK_EVIDENCE_MISSING''),
     (''SECURITY_REVIEW'', ''SECURITY_REVIEW_MISSING''),
     (''HUMAN_ACCEPTANCE'', ''HUMAN_ACCEPTANCE_MISSING''),
     (''DOCUMENTATION_RECONCILIATION'', ''DOCUMENTATION_DRIFT''),
     (''RELEASE_APPROVAL'', ''MILESTONE_EVIDENCE_MISSING'')]"

definition RC_REQUIRED_KINDS :: "string list" where
  "RC_REQUIRED_KINDS = [''DEFAULT_TEST_SUITE'', ''SLOW_SECURITY_STRESS'', ''CLEAN_WHEEL_SMOKE'',
     ''UPGRADE_MATRIX'', ''DOCUMENTATION_RECONCILIATION'']"

definition ONE_ZERO_REQUIRED_KINDS :: "string list" where
  "ONE_ZERO_REQUIRED_KINDS = map fst KIND_TO_GATE_CODE"

record capability_policy =
  ca_capability :: string
  ca_classification :: string
  ca_reason :: string

record release_policy =
  po_version :: int
  po_rc_kinds :: "string list"
  po_one_zero_kinds :: "string list"
  po_capabilities :: "capability_policy list"
  po_mechanisms :: "string list"
  po_max_age :: int
  po_min_soak :: int

definition capability_to_dict :: "capability_policy \<Rightarrow> json" where
  "capability_to_dict c = JObj [(''capability'', jstr (ca_capability c)),
     (''classification'', jstr (ca_classification c)), (''reason'', jstr (ca_reason c))]"

definition mandatory_capabilities :: "release_policy \<Rightarrow> string list" where
  "mandatory_capabilities p =
     map ca_capability (filter (\<lambda>c. ca_classification c = ''MANDATORY_FOR_1_0'') (po_capabilities p))"

definition limitation_capabilities :: "release_policy \<Rightarrow> string list" where
  "limitation_capabilities p =
     map ca_capability (filter (\<lambda>c. ca_classification c \<in> set LIMITATION_CLASSES) (po_capabilities p))"

definition classified_capabilities :: "release_policy \<Rightarrow> string list" where
  "classified_capabilities p = map ca_capability (po_capabilities p)"

definition gate_code_for :: "string \<Rightarrow> string option" where
  "gate_code_for kind = map_of KIND_TO_GATE_CODE kind"

definition jnames :: "string list \<Rightarrow> json" where
  "jnames names = JList (map jstr (sorted_keys names))"

definition policy_to_dict :: "release_policy \<Rightarrow> json" where
  "policy_to_dict p = JObj
     [(''release_policy_version'', JInt (po_version p)),
      (''rc_required_kinds'', jnames (po_rc_kinds p)),
      (''one_zero_required_kinds'', jnames (po_one_zero_kinds p)),
      (''capabilities'', JList (map capability_to_dict (po_capabilities p))),
      (''approved_verification_mechanisms'', jnames (po_mechanisms p)),
      (''max_evidence_age_days'', JInt (po_max_age p)),
      (''min_soak_hours'', JInt (po_min_soak p))]"

definition policy_digest :: "release_env \<Rightarrow> release_policy \<Rightarrow> pystr" where
  "policy_digest v p = sha256_of v (policy_to_dict p)"

definition default_release_policy :: release_policy where
  "default_release_policy =
    \<lparr>po_version = 3, po_rc_kinds = RC_REQUIRED_KINDS, po_one_zero_kinds = ONE_ZERO_REQUIRED_KINDS,
     po_capabilities =
       [\<lparr>ca_capability = ''backup-restore-publish'', ca_classification = ''MANDATORY_FOR_1_0'',
          ca_reason = ''durable backup create/restore publication is required '' @
            ''for 1.0 (REL-004); implemented by C2, so hardware '' @
            ''qualification evidence is tracked by the evidence gate''\<rparr>,
        \<lparr>ca_capability = ''model-conversion'', ca_classification = ''DEFERRED_NOT_ADVERTISED'',
          ca_reason = ''no pinned, verified converter ships in this build '' @
            ''(REL-008); C7 scope decision DEFERRED_NOT_ADVERTISED, '' @
            ''requires an accepted-limitation record''\<rparr>],
     po_mechanisms = APPROVED_VERIFICATION_MECHANISMS, po_max_age = 90, po_min_soak = 24\<rparr>"

section \<open>Artifacts\<close>

record artifact =
  ar_name :: pystr
  ar_sha256 :: pystr
  ar_size :: int
  ar_media_type :: pystr
  ar_role :: pystr

definition artifact_to_dict :: "artifact \<Rightarrow> json" where
  "artifact_to_dict a = JObj [(''name'', JStr (ar_name a)), (''sha256'', JStr (ar_sha256 a)),
     (''size'', JInt (ar_size a)), (''media_type'', JStr (ar_media_type a)), (''role'', JStr (ar_role a))]"

text \<open>The inventory's digest is over its pairs of name and content, in order.\<close>

definition subject_pairs :: "artifact list \<Rightarrow> (pystr \<times> pystr) list" where
  "subject_pairs artifacts = sort (map (\<lambda>a. (ar_name a, ar_sha256 a)) artifacts)"

definition inventory_digest :: "release_env \<Rightarrow> artifact list \<Rightarrow> pystr" where
  "inventory_digest v artifacts =
     sha256_of v (JList (map (\<lambda>(name, sha). JList [JStr name, JStr sha]) (subject_pairs artifacts)))"

definition inventory_to_dict :: "release_env \<Rightarrow> artifact list \<Rightarrow> json" where
  "inventory_to_dict v artifacts = JObj [(''inventory_schema_version'', JInt 2),
     (''artifacts'', JList (map artifact_to_dict artifacts)),
     (''inventory_digest'', JStr (inventory_digest v artifacts))]"

section \<open>The informational state\<close>

definition KNOWN_UNAVAILABLE_CAPABILITIES :: "string list" where
  "KNOWN_UNAVAILABLE_CAPABILITIES = [''model-conversion'']"

record release_state =
  rs_version :: string
  rs_channel :: string
  rs_schema :: int
  rs_milestones :: bool
  rs_hardware :: bool
  rs_acceptance :: bool
  rs_security :: bool

definition blocking_gaps :: "release_state \<Rightarrow> string list" where
  "blocking_gaps r =
     (if rs_milestones r then [] else [''milestone exit gates not all green/evidence-linked'']) @
     (if rs_hardware r then [] else [''hardware qualification + soak pending'']) @
     (if rs_acceptance r then [] else [''human acceptance pending'']) @
     (if rs_security r then [] else [''security review sign-off pending''])"

definition unavailable_mandatory_capabilities :: "string list" where
  "unavailable_mandatory_capabilities =
     sorted_keys (filter (\<lambda>c. c \<in> set (mandatory_capabilities default_release_policy)) KNOWN_UNAVAILABLE_CAPABILITIES)"

definition unclassified_limitations :: "string list" where
  "unclassified_limitations =
     sort (filter (\<lambda>c. c \<notin> set (classified_capabilities default_release_policy)) KNOWN_UNAVAILABLE_CAPABILITIES)"

definition may_tag_1_0_0 :: "release_state \<Rightarrow> bool" where
  "may_tag_1_0_0 r = False"

end
