(* ===== verification/Release_Evidence.thy ===== *)
theory Release_Evidence
  imports Release_Policy
begin

text \<open>
  Release evidence (\<^verbatim>\<open>release_evidence.py\<close>): the validation of one record in its pinned
  order, the verification of an attestation, and the rules for a set of records. A verdict is an
  exception, a rejection code, or nothing, which accepts. Codes are the texts of the source's
  enumerations.
\<close>

section \<open>Verdicts\<close>

type_synonym verdict = "exn + string option"

definition accepted :: verdict where
  "accepted = Inr None"

definition rejected_with :: "string \<Rightarrow> verdict" where
  "rejected_with code = Inr (Some code)"

definition reject_if :: "bool \<Rightarrow> string \<Rightarrow> verdict \<Rightarrow> verdict" where
  "reject_if b code r = (if b then rejected_with code else r)"

definition and_if_accepted :: "verdict \<Rightarrow> verdict \<Rightarrow> verdict" where
  "and_if_accepted a r = (if a = accepted then r else a)"

section \<open>Texts\<close>

fun is_text :: "json \<Rightarrow> bool" where
  "is_text (JStr s) = True"
| "is_text v = False"

fun is_list :: "json \<Rightarrow> bool" where
  "is_list (JList xs) = True"
| "is_list v = False"

fun is_integer :: "json \<Rightarrow> bool" where
  "is_integer (JInt n) = True"
| "is_integer (JBool b) = True"
| "is_integer v = False"

text \<open>The field of a record whose type was checked.\<close>

fun the_text :: "json \<Rightarrow> pystr" where
  "the_text (JStr s) = s"
| "the_text v = []"

definition text_in :: "fields \<Rightarrow> string \<Rightarrow> pystr" where
  "text_in kvs k = the_text (get_field kvs k)"

definition can_hash :: "json \<Rightarrow> bool" where
  "can_hash v \<longleftrightarrow> \<not> is_list v \<and> \<not> is_object v"

fun non_empty_str :: "json \<Rightarrow> bool" where
  "non_empty_str (JStr s) = (\<not> blank s)"
| "non_empty_str v = False"

definition named :: "string list \<Rightarrow> pystr \<Rightarrow> bool" where
  "named names s \<longleftrightarrow> s \<in> set (map cps names)"

definition bare_digest :: "pystr \<Rightarrow> pystr" where
  "bare_digest s = (if prefix (cps ''sha256:'') s then drop 7 s else s)"

definition hex_any_case :: "nat \<Rightarrow> bool" where
  "hex_any_case c \<longleftrightarrow> hex_char c \<or> 65 \<le> c \<and> c \<le> 70"

fun is_full_sha256 :: "json \<Rightarrow> bool" where
  "is_full_sha256 (JStr s) = (length (bare_digest s) = 64 \<and> list_all hex_any_case (bare_digest s))"
| "is_full_sha256 v = False"

text \<open>\<^verbatim>\<open>Z\<close> stands for the offset zero; a naive instant is none.\<close>

definition zulu_offset :: "pystr \<Rightarrow> pystr" where
  "zulu_offset s = concat (map (\<lambda>c. if c = 90 then cps ''+00:00'' else [c]) s)"

fun parse_ts :: "release_env \<Rightarrow> json \<Rightarrow> int option" where
  "parse_ts v (JStr s) = (case re_iso v (zulu_offset s) of Some (Aware t) \<Rightarrow> Some t | _ \<Rightarrow> None)"
| "parse_ts v x = None"

section \<open>Secrets\<close>

fun within :: "'a list \<Rightarrow> 'a list \<Rightarrow> bool" where
  "within needle [] = (needle = [])"
| "within needle (c # hay) = (prefix needle (c # hay) \<or> within needle hay)"

definition FORBIDDEN_FRAGMENTS :: "string list" where
  "FORBIDDEN_FRAGMENTS = [''secret'', ''token'', ''password'', ''passphrase'', ''api_key'', ''apikey'',
     ''credential'', ''private_key'', ''prompt'', ''completion'']"

definition SECRET_TRIGGERS :: "string list" where
  "SECRET_TRIGGERS = [''hf_'', ''ghp_'', ''-----BEGIN'', ''Bearer'', ''://'']"

definition SECRET_SCAN_CAP :: nat where "SECRET_SCAN_CAP = 65536"

text \<open>A pattern looks at the code point before a position and at the text from there on.\<close>

type_synonym cp_pattern = "nat option \<Rightarrow> pystr \<Rightarrow> bool"

fun searched :: "cp_pattern \<Rightarrow> nat option \<Rightarrow> pystr \<Rightarrow> bool" where
  "searched p before [] = False"
| "searched p before (c # s) = (p before (c # s) \<or> searched p (Some c) s)"

definition run_of :: "(nat \<Rightarrow> bool) \<Rightarrow> nat \<Rightarrow> pystr \<Rightarrow> bool" where
  "run_of p n s \<longleftrightarrow> n \<le> length (takeWhile p s)"

definition access_key :: "string \<Rightarrow> cp_pattern" where
  "access_key lead before s \<longleftrightarrow> prefix (cps lead) s \<and> run_of alphanumeric 20 (drop (length lead) s)"

definition pem_key :: cp_pattern where
  "pem_key before s \<longleftrightarrow> prefix (cps ''-----BEGIN '') s \<and>
     (let rest = drop 11 s; label = takeWhile (\<lambda>c. 65 \<le> c \<and> c \<le> 90 \<or> c = 32) rest in
      list_ex (\<lambda>k. prefix (cps ''PRIVATE KEY-----'') (drop k rest)) [0..<Suc (length label)])"

definition word_cp :: "release_env \<Rightarrow> nat \<Rightarrow> bool" where
  "word_cp v c \<longleftrightarrow> alphanumeric c \<or> c = 95 \<or> 128 \<le> c \<and> re_word v c"

definition bearer_token :: "release_env \<Rightarrow> cp_pattern" where
  "bearer_token v before s \<longleftrightarrow> (case before of None \<Rightarrow> True | Some c \<Rightarrow> \<not> word_cp v c) \<and>
     prefix (cps ''Bearer'') s \<and> run_of py_space 1 (drop 6 s) \<and>
     run_of (\<lambda>c. alphanumeric c \<or> c \<in> {45, 46, 95}) 8 (dropWhile py_space (drop 6 s))"

text \<open>\<^verbatim>\<open>scheme://user:password@\<close>.\<close>

definition url_userinfo :: cp_pattern where
  "url_userinfo before s \<longleftrightarrow>
     (case s of [] \<Rightarrow> False
      | c # rest \<Rightarrow> 97 \<le> c \<and> c \<le> 122 \<and>
         (let after = dropWhile (\<lambda>c. 97 \<le> c \<and> c \<le> 122 \<or> 48 \<le> c \<and> c \<le> 57 \<or> c \<in> {43, 45, 46}) rest;
              user = drop 3 after;
              in_user = (\<lambda>c. c \<noteq> 47 \<and> c \<noteq> 58 \<and> c \<noteq> 64 \<and> \<not> py_space c);
              colon = dropWhile in_user user;
              in_password = (\<lambda>c. c \<noteq> 64 \<and> \<not> py_space c) in
          prefix (cps ''://'') after \<and> run_of in_user 1 user \<and> prefix [58] colon \<and>
          run_of in_password 1 (drop 1 colon) \<and> prefix [64] (dropWhile in_password (drop 1 colon))))"

definition SECRET_VALUE_PATTERNS :: "release_env \<Rightarrow> cp_pattern list" where
  "SECRET_VALUE_PATTERNS v = [access_key ''hf_'', access_key ''ghp_'', pem_key, bearer_token v, url_userinfo]"

definition secret_text :: "release_env \<Rightarrow> pystr \<Rightarrow> bool" where
  "secret_text v s \<longleftrightarrow> list_ex (\<lambda>trigger. within (cps trigger) s) SECRET_TRIGGERS \<and>
     list_ex (\<lambda>p. searched p None (take SECRET_SCAN_CAP s)) (SECRET_VALUE_PATTERNS v)"

definition forbidden_key :: "string \<Rightarrow> bool" where
  "forbidden_key k \<longleftrightarrow> list_ex (\<lambda>fragment. contains fragment (map ascii_lower k)) FORBIDDEN_FRAGMENTS"

fun contains_secret :: "release_env \<Rightarrow> json \<Rightarrow> bool" where
  "contains_secret v (JObj kvs) = list_ex (\<lambda>(k, x). forbidden_key k \<or> contains_secret v x) kvs"
| "contains_secret v (JList xs) = list_ex (contains_secret v) xs"
| "contains_secret v (JStr s) = secret_text v s"
| "contains_secret v x = False"

section \<open>Bounds\<close>

definition MAX_STRING_LEN :: nat where "MAX_STRING_LEN = 32768"
definition MAX_NESTING_DEPTH :: nat where "MAX_NESTING_DEPTH = 16"
definition MAX_MEASUREMENT_KEYS :: nat where "MAX_MEASUREMENT_KEYS = 64"
definition MAX_SUBJECTS :: nat where "MAX_SUBJECTS = 64"
definition MAX_ATTACHMENTS :: nat where "MAX_ATTACHMENTS = 32"
definition MAX_RECORD_BYTES :: nat where "MAX_RECORD_BYTES = 1000000"

fun bounds_violation :: "nat \<Rightarrow> json \<Rightarrow> bool" where
  "bounds_violation depth (JStr s) = (depth > MAX_NESTING_DEPTH \<or> length s > MAX_STRING_LEN)"
| "bounds_violation depth (JObj kvs) = (depth > MAX_NESTING_DEPTH \<or>
     list_ex (\<lambda>(k, x). Suc depth > MAX_NESTING_DEPTH \<or> length k > MAX_STRING_LEN \<or> bounds_violation (Suc depth) x) kvs)"
| "bounds_violation depth (JList xs) = (depth > MAX_NESTING_DEPTH \<or> list_ex (bounds_violation (Suc depth)) xs)"
| "bounds_violation depth x = (depth > MAX_NESTING_DEPTH)"

text \<open>An attachment must be an object, and its path relative and without steps upwards.\<close>

fun parts_at :: "nat \<Rightarrow> pystr \<Rightarrow> pystr \<Rightarrow> pystr list" where
  "parts_at sep w [] = [rev w]"
| "parts_at sep w (c # s) = (if c = sep then rev w # parts_at sep [] s else parts_at sep (c # w) s)"

definition split_at :: "nat \<Rightarrow> pystr \<Rightarrow> pystr list" where
  "split_at sep s = parts_at sep [] s"

fun escaping_attachment :: "release_env \<Rightarrow> json \<Rightarrow> bool" where
  "escaping_attachment v (JObj kvs) =
    (let hint = get_field kvs ''location_hint''; name = get_field kvs ''name'';
         loc = (if \<not> falsy hint then py_str (re_shown v) hint else if \<not> falsy name then py_str (re_shown v) name else []) in
     loc \<noteq> [] \<and> (length loc > 512 \<or> prefix [47] loc \<or> prefix [92] loc \<or>
       cps ''..'' \<in> set (split_at 47 (map (\<lambda>c. if c = 92 then 47 else c) loc))))"
| "escaping_attachment v x = True"

section \<open>Contracts of the kinds\<close>

fun is_count_from :: "int \<Rightarrow> json \<Rightarrow> bool" where
  "is_count_from lo (JInt n) = (lo \<le> n)"
| "is_count_from lo v = False"

fun test_suite_contract :: "json \<Rightarrow> json \<Rightarrow> bool" where
  "test_suite_contract (JInt collected) (JInt passed) = (1 \<le> collected \<and> 0 \<le> passed \<and> passed \<le> collected)"
| "test_suite_contract x y = False"

text \<open>
  A float, by the text \<^verbatim>\<open>repr\<close> gives it, that is at least one: no sign, a first digit
  that is not zero, no negative exponent; or infinity.
\<close>

definition float_from_one :: "string \<Rightarrow> bool" where
  "float_from_one t \<longleftrightarrow> t = ''inf'' \<or> t \<noteq> [] \<and> hd t \<in> set ''123456789'' \<and> \<not> contains ''e-'' t"

fun number_from_one :: "json \<Rightarrow> bool" where
  "number_from_one (JInt n) = (1 \<le> n)"
| "number_from_one (JFloat t) = float_from_one t"
| "number_from_one v = False"

definition kind_contract :: "pystr \<Rightarrow> fields \<Rightarrow> bool" where
  "kind_contract kind m =
    (let has = (\<lambda>k. non_empty_str (get_field m k)); counted = (\<lambda>k. is_count_from 1 (get_field m k)) in
     if named [''DEFAULT_TEST_SUITE'', ''SLOW_SECURITY_STRESS'', ''UPGRADE_MATRIX''] kind
       then test_suite_contract (get_field m ''collected'') (get_field m ''passed'')
     else if kind = cps ''CLEAN_WHEEL_SMOKE'' then get_field m ''smoke_result'' = jstr ''PASS''
     else if kind = cps ''SBOM'' then counted ''component_count''
     else if kind = cps ''BUILD_PROVENANCE'' then has ''builder''
     else if named [''ARTIFACT_ATTESTATION'', ''PACKAGE_PUBLISH_ATTESTATION''] kind then has ''attestation_format''
     else if kind = cps ''CONTAINER_IDENTITY'' then has ''image_ref''
     else if kind = cps ''BACKUP_RESTORE_HARDWARE'' then get_field m ''round_trip_result'' = jstr ''PASS''
     else if kind = cps ''HARDWARE_QUALIFICATION'' then has ''hardware_model''
     else if kind = cps ''SOAK_TEST'' then number_from_one (get_field m ''duration_hours'')
     else if kind = cps ''SECURITY_REVIEW'' then has ''review_scope''
     else if kind = cps ''HUMAN_ACCEPTANCE'' then has ''acceptance_scope''
     else if kind = cps ''KNOWN_LIMITATION_ACCEPTANCE'' then has ''capability''
     else if kind = cps ''DOCUMENTATION_RECONCILIATION'' then counted ''documents_checked''
     else if kind = cps ''SOURCE_CHECKOUT'' then get_field m ''checkout_clean'' = JBool True
     else if kind = cps ''RELEASE_APPROVAL'' then has ''approver_role''
     else True)"

section \<open>One record\<close>

definition MANDATORY_FIELDS :: "string list" where
  "MANDATORY_FIELDS =
    [''evidence_schema_version'', ''evidence_id'', ''kind'', ''release_candidate_version'', ''source_repository'',
     ''source_commit'', ''policy_digest'', ''artifact_inventory_digest'', ''artifact_subjects'', ''issuer'',
     ''issued_at'', ''expires_at'', ''environment'', ''result'', ''measurements'', ''attachments'',
     ''verification'', ''supersedes_evidence_id'']"

definition ARTIFACT_BOUND_KINDS :: "string list" where
  "ARTIFACT_BOUND_KINDS = [''CLEAN_WHEEL_SMOKE'', ''SBOM'', ''BUILD_PROVENANCE'', ''ARTIFACT_ATTESTATION'', ''RELEASE_APPROVAL'']"

definition ISSUER_TYPES :: "string list" where
  "ISSUER_TYPES = [''ci'', ''human'', ''tool'', ''service'']"

definition ENVIRONMENT_FIELDS :: "string list" where
  "ENVIRONMENT_FIELDS = [''os'', ''architecture'', ''python'', ''runner'']"

definition VERIFICATION_FIELDS :: "string list" where
  "VERIFICATION_FIELDS = [''mechanism'', ''subject'', ''verifier'', ''verified_at'', ''bundle_digest'']"

definition field_types :: "(string \<times> (json \<Rightarrow> bool)) list" where
  "field_types =
    [(''evidence_schema_version'', is_integer), (''evidence_id'', is_text), (''kind'', is_text),
     (''release_candidate_version'', is_text), (''source_repository'', is_text), (''source_commit'', is_text),
     (''policy_digest'', is_text), (''artifact_inventory_digest'', is_text), (''artifact_subjects'', is_list),
     (''issuer'', is_object), (''issued_at'', is_text), (''expires_at'', absent_or is_text),
     (''environment'', is_object), (''result'', is_text), (''measurements'', is_object),
     (''attachments'', is_list), (''verification'', is_object), (''supersedes_evidence_id'', absent_or is_text)]"

text \<open>Python's equality with two: \<^verbatim>\<open>2.0 == 2\<close>.\<close>

fun equals_two :: "json \<Rightarrow> bool" where
  "equals_two (JInt n) = (n = 2)"
| "equals_two (JFloat t) = (t = ''2.0'')"
| "equals_two v = False"

text \<open>Sections 1 to 4: the envelope.\<close>

definition envelope_verdict :: "fields \<Rightarrow> verdict" where
  "envelope_verdict kvs =
     reject_if (map_of kvs ''evidence_schema_version'' = None) ''MISSING_FIELD''
    (reject_if (\<not> equals_two (get_field kvs ''evidence_schema_version'')) ''SCHEMA_VERSION_MISMATCH''
    (reject_if (\<not> list_all (\<lambda>(k, x). k \<in> set MANDATORY_FIELDS) kvs) ''UNKNOWN_FIELD''
    (reject_if (\<not> list_all (\<lambda>k. map_of kvs k \<noteq> None) MANDATORY_FIELDS) ''MISSING_FIELD''
    (reject_if (\<not> list_all (\<lambda>(k, ok). ok (get_field kvs k)) field_types) ''BAD_FIELD_TYPE'' accepted))))"

text \<open>What a record must be bound to, and the time it is judged at.\<close>

record release_binding =
  bi_version :: pystr
  bi_commit :: pystr
  bi_policy :: pystr

text \<open>Sections 5 to 10: content, vocabulary, result and binding.\<close>

definition content_verdict :: "release_binding \<Rightarrow> fields \<Rightarrow> verdict" where
  "content_verdict b kvs =
     reject_if (blank (text_in kvs ''evidence_id'')) ''EMPTY_FIELD''
    (reject_if (named ARTIFACT_BOUND_KINDS (text_in kvs ''kind'') \<and> list_of (get_field kvs ''artifact_subjects'') = []) ''EMPTY_FIELD''
    (reject_if (\<not> named EVIDENCE_KINDS (text_in kvs ''kind'')) ''UNKNOWN_KIND''
    (reject_if (text_in kvs ''result'' \<noteq> cps ''PASS'') ''RESULT_NOT_PASS''
    (reject_if (text_in kvs ''release_candidate_version'' \<noteq> bi_version b) ''VERSION_MISMATCH''
    (reject_if (text_in kvs ''source_commit'' \<noteq> bi_commit b) ''SOURCE_COMMIT_MISMATCH''
    (reject_if (text_in kvs ''policy_digest'' \<noteq> bi_policy b) ''POLICY_DIGEST_MISMATCH'' accepted))))))"

text \<open>Section 11: timestamps, and the record's place in the set.\<close>

definition time_verdict :: "release_env \<Rightarrow> int \<Rightarrow> json list \<Rightarrow> pystr list \<Rightarrow> fields \<Rightarrow> verdict" where
  "time_verdict v now superseded seen kvs =
    (let issued = parse_ts v (get_field kvs ''issued_at''); expires = get_field kvs ''expires_at'' in
     reject_if (issued = None \<or> the issued > now) ''BAD_TIMESTAMP''
    (reject_if (expires \<noteq> JNull \<and> parse_ts v expires = None) ''BAD_TIMESTAMP''
    (reject_if (expires \<noteq> JNull \<and> the (parse_ts v expires) \<le> now) ''EXPIRED''
    (reject_if (text_in kvs ''evidence_id'' \<in> set seen) ''DUPLICATE''
    (reject_if (get_field kvs ''evidence_id'' \<in> set superseded) ''SUPERSEDED'' accepted)))))"

text \<open>Sections 12 to 15: secrets, bounds, attachments, digests of the subjects.\<close>

definition subject_digest_ok :: "json \<Rightarrow> bool" where
  "subject_digest_ok x \<longleftrightarrow> is_object x \<and> is_full_sha256 (get_field (object_fields x) ''sha256'')"

definition scan_verdict :: "release_env \<Rightarrow> fields \<Rightarrow> verdict" where
  "scan_verdict v kvs =
     reject_if (contains_secret v (JObj kvs)) ''SECRET_MATERIAL''
    (reject_if (bounds_violation 0 (JObj kvs)) ''RECORD_OVERSIZE''
    (reject_if (length (object_fields (get_field kvs ''measurements'')) > MAX_MEASUREMENT_KEYS) ''RECORD_OVERSIZE''
    (reject_if (length (list_of (get_field kvs ''artifact_subjects'')) > MAX_SUBJECTS) ''RECORD_OVERSIZE''
    (reject_if (length (list_of (get_field kvs ''attachments'')) > MAX_ATTACHMENTS) ''RECORD_OVERSIZE''
    (reject_if (\<not> encodable (JObj kvs)) ''BAD_FIELD_TYPE''
    (reject_if (length (ascii_dumps (cps '', '') (cps '': '') (JObj kvs)) > MAX_RECORD_BYTES) ''RECORD_OVERSIZE''
    (reject_if (list_ex (escaping_attachment v) (list_of (get_field kvs ''attachments''))) ''PATH_TRAVERSAL''
    (reject_if (\<not> list_all subject_digest_ok (list_of (get_field kvs ''artifact_subjects''))) ''BAD_DIGEST'' accepted))))))))"

text \<open>
  Sections 16 and 17: issuer, environment, verification, contract. The membership test of the
  issuer's type raises on a list or an object.
\<close>

definition exactly_fields :: "string list \<Rightarrow> fields \<Rightarrow> bool" where
  "exactly_fields names kvs \<longleftrightarrow> set (map fst kvs) = set names"

definition issuer_verdict :: "fields \<Rightarrow> verdict" where
  "issuer_verdict issuer =
    (if \<not> exactly_fields [''type'', ''identity''] issuer then rejected_with ''BAD_ISSUER''
     else if \<not> can_hash (get_field issuer ''type'') then Inl type_error
     else reject_if (\<not> one_of ISSUER_TYPES (get_field issuer ''type'')) ''BAD_ISSUER''
      (reject_if (\<not> non_empty_str (get_field issuer ''identity'')) ''BAD_ISSUER'' accepted))"

definition environment_verdict :: "fields \<Rightarrow> verdict" where
  "environment_verdict env =
     reject_if (\<not> exactly_fields ENVIRONMENT_FIELDS env) ''BAD_ENVIRONMENT''
    (reject_if (\<not> list_all (\<lambda>k. non_empty_str (get_field env k)) ENVIRONMENT_FIELDS) ''BAD_ENVIRONMENT'' accepted)"

definition verification_verdict :: "release_env \<Rightarrow> int \<Rightarrow> string list \<Rightarrow> fields \<Rightarrow> verdict" where
  "verification_verdict v now mechanisms ver =
    (let verified_at = parse_ts v (get_field ver ''verified_at'') in
     reject_if (\<not> exactly_fields VERIFICATION_FIELDS ver) ''BAD_VERIFICATION''
    (reject_if (\<not> non_empty_str (get_field ver ''mechanism'') \<or> \<not> one_of mechanisms (get_field ver ''mechanism'')) ''BAD_VERIFICATION''
    (reject_if (\<not> is_full_sha256 (get_field ver ''subject'')) ''BAD_VERIFICATION''
    (reject_if (\<not> non_empty_str (get_field ver ''verifier'')) ''BAD_VERIFICATION''
    (reject_if (verified_at = None \<or> the verified_at > now) ''BAD_VERIFICATION''
    (reject_if (\<not> is_full_sha256 (get_field ver ''bundle_digest'')) ''BAD_VERIFICATION'' accepted))))))"

definition structure_verdict :: "release_env \<Rightarrow> int \<Rightarrow> string list \<Rightarrow> fields \<Rightarrow> verdict" where
  "structure_verdict v now mechanisms kvs =
     and_if_accepted (issuer_verdict (object_fields (get_field kvs ''issuer'')))
    (and_if_accepted (environment_verdict (object_fields (get_field kvs ''environment'')))
    (and_if_accepted (verification_verdict v now mechanisms (object_fields (get_field kvs ''verification'')))
    (reject_if (\<not> kind_contract (text_in kvs ''kind'') (object_fields (get_field kvs ''measurements''))) ''KIND_CONTRACT_UNMET'' accepted)))"

definition validate_evidence_record ::
  "release_env \<Rightarrow> int \<Rightarrow> string list \<Rightarrow> release_binding \<Rightarrow> json list \<Rightarrow> pystr list \<Rightarrow> json \<Rightarrow> verdict" where
  "validate_evidence_record v now mechanisms b superseded seen item =
    (case item of
       JObj kvs \<Rightarrow>
         and_if_accepted (envelope_verdict kvs)
        (and_if_accepted (content_verdict b kvs)
        (and_if_accepted (time_verdict v now superseded seen kvs)
        (and_if_accepted (scan_verdict v kvs)
         (structure_verdict v now mechanisms kvs))))
     | _ \<Rightarrow> rejected_with ''MALFORMED'')"

section \<open>Attestations\<close>

text \<open>
  A verified record is made by \<open>verify_evidence_attestation\<close> alone: the constructor asks for the
  module's private key.
\<close>

record verified_record =
  ve_record :: json
  ve_mechanism :: json
  ve_verifier :: json
  ve_verified_at :: json
  ve_bundle_digest :: json

definition verification_error :: "string \<Rightarrow> exn" where
  "verification_error code = StepFailed ''EvidenceVerificationError'' (Some code) False False"

definition bundle_digest_of :: "release_env \<Rightarrow> json \<Rightarrow> exn + pystr" where
  "bundle_digest_of v payload = (if encodable payload then Inr (sha256_of v payload) else Inl type_error)"

definition subject_sha :: "release_env \<Rightarrow> json \<Rightarrow> pystr" where
  "subject_sha v subject = bare_digest (the_text (text_or_empty (re_shown v) (get_field (object_fields subject) ''sha256'')))"

text \<open>The checks of a bundle against a record that was accepted, given the digest of the payload.\<close>

definition bundle_verdict :: "release_env \<Rightarrow> fields \<Rightarrow> fields \<Rightarrow> verdict" where
  "bundle_verdict v kvs bundle =
    (let ver = object_fields (get_field kvs ''verification''); subject = text_in ver ''subject'' in
     reject_if (get_field bundle ''mechanism'' \<noteq> get_field ver ''mechanism'') ''BAD_VERIFICATION''
    (reject_if (get_field bundle ''subject'' \<notin> {JStr subject, JStr (bare_digest subject)}) ''SUBJECT_MISMATCH''
    (reject_if (bare_digest subject \<notin> set (map (subject_sha v) (list_of (get_field kvs ''artifact_subjects'')))) ''SUBJECT_MISMATCH''
    (if \<not> is_object (get_field bundle ''payload'') then rejected_with ''UNVERIFIED_ATTESTATION''
     else case bundle_digest_of v (get_field bundle ''payload'') of
       Inl e \<Rightarrow> Inl e
     | Inr digest \<Rightarrow> reject_if (get_field bundle ''bundle_digest'' \<noteq> JStr digest) ''UNVERIFIED_ATTESTATION'' accepted))))"

definition verify_evidence_attestation ::
  "release_env \<Rightarrow> int \<Rightarrow> string list \<Rightarrow> release_binding \<Rightarrow> json \<Rightarrow> json \<Rightarrow> exn + verified_record" where
  "verify_evidence_attestation v now mechanisms b item bundle =
    (let kvs = object_fields item; ver = object_fields (get_field kvs ''verification'') in
     case and_if_accepted (validate_evidence_record v now mechanisms b [] [] item)
       (if is_object bundle then bundle_verdict v kvs (object_fields bundle) else rejected_with ''UNVERIFIED_ATTESTATION'') of
       Inl e \<Rightarrow> Inl e
     | Inr (Some code) \<Rightarrow> Inl (verification_error code)
     | Inr None \<Rightarrow> Inr \<lparr>ve_record = item, ve_mechanism = get_field ver ''mechanism'', ve_verifier = get_field ver ''verifier'',
         ve_verified_at = get_field ver ''verified_at'', ve_bundle_digest = get_field ver ''bundle_digest''\<rparr>)"

section \<open>Sets of records\<close>

datatype evidence_item = Verified verified_record | Raw json

fun unwrapped :: "evidence_item \<Rightarrow> json" where
  "unwrapped (Verified r) = ve_record r"
| "unwrapped (Raw x) = x"

text \<open>A target that cannot be put in a set raises.\<close>

fun collect_superseded_ids :: "evidence_item list \<Rightarrow> exn + json list" where
  "collect_superseded_ids [] = Inr []"
| "collect_superseded_ids (item # items) =
    (let target = attr (unwrapped item) ''supersedes_evidence_id'' in
     if falsy target then collect_superseded_ids items
     else if \<not> can_hash target then Inl type_error
     else case collect_superseded_ids items of Inl e \<Rightarrow> Inl e | Inr ids \<Rightarrow> Inr (target # ids))"

text \<open>
  The rules for a set, over records bound to a candidate, as the release tooling uses them. The
  first pass keeps the records that are valid by themselves; \<open>ticks\<close> is read for each.
\<close>

definition set_problem :: "string \<Rightarrow> pystr \<Rightarrow> pystr" where
  "set_problem code subject = cps code @ 58 # subject"

definition record_at :: "nat \<Rightarrow> pystr" where
  "record_at index = cps ''record['' @ dumps_int (int index) @ [93]"

definition label_of :: "release_env \<Rightarrow> json \<Rightarrow> pystr \<Rightarrow> pystr" where
  "label_of v item otherwise = (let x = attr item ''evidence_id'' in if falsy x then otherwise else py_str (re_shown v) x)"

fun valid_entries :: "release_env \<Rightarrow> (nat \<Rightarrow> int) \<Rightarrow> release_binding \<Rightarrow> nat \<Rightarrow> evidence_item list \<Rightarrow> exn + fields list \<times> pystr list" where
  "valid_entries v ticks b index [] = Inr ([], [])"
| "valid_entries v ticks b index (item # items) =
    (case (if is_object (unwrapped item) then validate_evidence_record v (ticks index) APPROVED_VERIFICATION_MECHANISMS b [] [] (unwrapped item)
           else rejected_with ''MALFORMED'') of
       Inl e \<Rightarrow> Inl e
     | Inr verdict \<Rightarrow>
        (case valid_entries v ticks b (Suc index) items of
           Inl e \<Rightarrow> Inl e
         | Inr (parsed, problems) \<Rightarrow> Inr (case verdict of
             None \<Rightarrow> (object_fields (unwrapped item) # parsed, problems)
           | Some code \<Rightarrow> (parsed, set_problem code (label_of v (unwrapped item) (record_at index)) # problems))))"

definition entry_id :: "fields \<Rightarrow> pystr" where
  "entry_id kvs = text_in kvs ''evidence_id''"

definition entry_target :: "fields \<Rightarrow> pystr" where
  "entry_target kvs = text_in kvs ''supersedes_evidence_id''"

definition entry_kind :: "fields \<Rightarrow> pystr" where
  "entry_kind kvs = text_in kvs ''kind''"

text \<open>\<^verbatim>\<open>by_id\<close>: a later record replaces an earlier one with its identifier.\<close>

definition by_id :: "fields list \<Rightarrow> pystr \<rightharpoonup> fields" where
  "by_id parsed = map_of (rev (map (\<lambda>r. (entry_id r, r)) parsed))"

definition repeated_ids :: "fields list \<Rightarrow> pystr list" where
  "repeated_ids parsed = (let ids = map entry_id parsed in
     sorted_keys (filter (\<lambda>i. length (filter (\<lambda>j. j = i) ids) > 1) ids))"

definition target_problem :: "fields list \<Rightarrow> fields \<Rightarrow> pystr list" where
  "target_problem parsed r =
    (if entry_target r = [] then []
     else case by_id parsed (entry_target r) of
       None \<Rightarrow> [set_problem ''SUPERSEDED_UNKNOWN_TARGET'' (entry_id r)]
     | Some t \<Rightarrow> if entry_kind t \<noteq> entry_kind r then [set_problem ''SUPERSESSION_INVALID'' (entry_id r)] else [])"

definition target_problems :: "fields list \<Rightarrow> pystr list" where
  "target_problems parsed = concat (map (target_problem parsed) parsed)"

text \<open>
  The walk along the supersessions from one record, which ends at a record it has seen or at one
  that supersedes nothing in the set.
\<close>

function cycles_from :: "fields list \<Rightarrow> pystr list \<Rightarrow> pystr \<Rightarrow> bool" where
  "cycles_from parsed chain current =
    (if current = [] then False
     else case by_id parsed current of
       None \<Rightarrow> False
     | Some r \<Rightarrow> if current \<in> set chain then True else cycles_from parsed (current # chain) (entry_target r))"
  by pat_completeness auto

termination
proof (relation "measure (\<lambda>(parsed, chain, current). card (entry_id ` set parsed - set chain))")
  fix parsed chain current r
  assume "by_id parsed current = Some r" and "current \<notin> set chain"
  then have "current \<in> entry_id ` set parsed - set chain"
    using map_of_SomeD [of "rev (map (\<lambda>r. (entry_id r, r)) parsed)"] by (fastforce simp: by_id_def)
  then have "card (entry_id ` set parsed - set (current # chain)) < card (entry_id ` set parsed - set chain)"
    by (intro psubset_card_mono) auto
  then show "((parsed, current # chain, entry_target r), parsed, chain, current)
    \<in> measure (\<lambda>(parsed, chain, current). card (entry_id ` set parsed - set chain))" by simp
qed simp

declare cycles_from.simps [simp del]

definition cycle_problems :: "fields list \<Rightarrow> pystr list" where
  "cycle_problems parsed =
     map (\<lambda>r. set_problem ''SUPERSESSION_CYCLE'' (entry_id r)) (filter (\<lambda>r. cycles_from parsed [] (entry_id r)) parsed)"

definition current_entries :: "fields list \<Rightarrow> pystr \<Rightarrow> fields list" where
  "current_entries parsed kind =
     filter (\<lambda>r. entry_kind r = kind \<and> entry_id r \<notin> set (map entry_target parsed)) parsed"

definition coverage_problems :: "fields list \<Rightarrow> pystr list" where
  "coverage_problems parsed = concat (map (\<lambda>kind.
     if length (filter (\<lambda>r. entry_kind r = kind) parsed) > 1 \<and> length (current_entries parsed kind) > 1
     then [set_problem ''DUPLICATE_COVERAGE'' kind] else []) (sorted_keys (map entry_kind parsed)))"

definition validate_evidence_set :: "release_env \<Rightarrow> (nat \<Rightarrow> int) \<Rightarrow> release_binding \<Rightarrow> evidence_item list \<Rightarrow> exn + bool \<times> pystr list" where
  "validate_evidence_set v ticks b items =
    (case valid_entries v ticks b 0 items of
       Inl e \<Rightarrow> Inl e
     | Inr (parsed, problems) \<Rightarrow>
        (let all = problems @ map (set_problem ''DUPLICATE_EVIDENCE_ID'') (repeated_ids parsed) @ target_problems parsed @
           cycle_problems parsed @ coverage_problems parsed in
         Inr (all = [], all)))"

end
