(* ===== verification/Release_Gate.thy ===== *)
theory Release_Gate
  imports Release_Evidence
begin

text \<open>
  The evaluator (\<^verbatim>\<open>release_gate.py\<close>), the manifest derived from its decision
  (\<^verbatim>\<open>release_manifest.py\<close>), and the command line around both
  (\<^verbatim>\<open>tools/release\<close>): who decides whether a candidate may be released, and on what.
\<close>

section \<open>The candidate\<close>

definition final_version :: "pystr \<Rightarrow> bool" where
  "final_version version \<longleftrightarrow> list_all (\<lambda>part. part \<noteq> [] \<and> list_all (\<lambda>c. 48 \<le> c \<and> c \<le> 57) part) (split_at 46 version)"

definition final_tag_ref :: "pystr \<Rightarrow> pystr" where
  "final_tag_ref version = cps ''refs/tags/v'' @ version"

record candidate =
  cd_version :: pystr
  cd_commit :: pystr
  cd_ref :: pystr
  cd_repository :: pystr
  cd_policy :: pystr

definition candidate_ok :: "candidate \<Rightarrow> bool" where
  "candidate_ok c \<longleftrightarrow>
     cd_version c \<noteq> [] \<and> length (cd_version c) \<le> 64 \<and> \<not> list_ex py_space (cd_version c) \<and>
     length (cd_commit c) = 40 \<and> list_all hex_char (cd_commit c) \<and> set (cd_commit c) \<noteq> {48} \<and>
     prefix (cps ''refs/'') (cd_ref c) \<and> length (cd_ref c) \<le> 256 \<and> cps ''..'' \<notin> set (split_at 47 (cd_ref c)) \<and>
     cd_repository c \<noteq> [] \<and> length (cd_repository c) \<le> 256 \<and>
     prefix (cps ''sha256:'') (cd_policy c) \<and> length (drop 7 (cd_policy c)) = 64 \<and> list_all hex_char (drop 7 (cd_policy c))"

text \<open>The construction: what is no text, or not of its form, is refused with \<^verbatim>\<open>ValueError\<close>.\<close>

fun candidate_identity :: "json \<Rightarrow> json \<Rightarrow> json \<Rightarrow> json \<Rightarrow> json \<Rightarrow> exn + candidate" where
  "candidate_identity (JStr version) (JStr commit) (JStr ref) (JStr repository) (JStr policy) =
    (let c = \<lparr>cd_version = version, cd_commit = commit, cd_ref = ref, cd_repository = repository, cd_policy = policy\<rparr> in
     if candidate_ok c then Inr c else Inl value_refused)"
| "candidate_identity version commit ref repository policy = Inl value_refused"

definition final_ref_violation :: "candidate \<Rightarrow> bool" where
  "final_ref_violation c \<longleftrightarrow> final_version (cd_version c) \<and> cd_ref c \<noteq> final_tag_ref (cd_version c)"

definition binding_of :: "candidate \<Rightarrow> release_binding" where
  "binding_of c = \<lparr>bi_version = cd_version c, bi_commit = cd_commit c, bi_policy = cd_policy c\<rparr>"

section \<open>The decision\<close>

record gate_decision =
  de_rc :: bool
  de_one_zero :: bool
  de_blocking :: "string list"
  de_explanations :: "string list"
  de_limitations :: "string list"
  de_version :: pystr
  de_commit :: pystr
  de_ref :: pystr
  de_repository :: pystr
  de_inventory :: pystr
  de_used :: "pystr list"
  de_rejected :: "(pystr \<times> string) list"
  de_policy :: pystr

text \<open>Nobody but the evaluator, which holds the key, constructs an eligible decision.\<close>

definition release_decision :: "bool \<Rightarrow> gate_decision \<Rightarrow> exn + gate_decision" where
  "release_decision key d = (if (de_rc d \<or> de_one_zero d) \<and> \<not> key then Inl value_refused else Inr d)"

definition decision_to_dict :: "gate_decision \<Rightarrow> json" where
  "decision_to_dict d = JObj
     [(''decision_schema_version'', JInt 3), (''eligible_for_rc'', JBool (de_rc d)), (''eligible_for_1_0_0'', JBool (de_one_zero d)),
      (''blocking_codes'', JList (map jstr (de_blocking d))), (''blocking_explanations'', JList (map jstr (de_explanations d))),
      (''accepted_limitations'', JList (map jstr (de_limitations d))), (''candidate_version'', JStr (de_version d)),
      (''source_commit'', JStr (de_commit d)), (''source_ref'', JStr (de_ref d)), (''repository'', JStr (de_repository d)),
      (''inventory_digest'', JStr (de_inventory d)), (''evidence_used'', JList (map JStr (de_used d))),
      (''evidence_rejected'', JList (map (\<lambda>(rid, code). JList [JStr rid, jstr code]) (de_rejected d))),
      (''policy_digest'', JStr (de_policy d))]"

definition EXPLANATIONS :: "(string \<times> string) list" where
  "EXPLANATIONS =
    [(''MILESTONE_EVIDENCE_MISSING'', ''release approval/milestone evidence is missing''),
     (''TEST_EVIDENCE_MISSING'', ''default/slow/upgrade test evidence is missing''),
     (''CLEAN_WHEEL_EVIDENCE_MISSING'', ''clean-wheel smoke evidence is missing''),
     (''SBOM_MISSING_OR_MISMATCHED'', ''SBOM evidence is missing or does not match the artifacts''),
     (''PROVENANCE_MISSING_OR_MISMATCHED'', ''build provenance evidence is missing or mismatched''),
     (''SIGNATURE_MISSING_OR_INVALID'', ''artifact/publish attestation or signature is missing or invalid''),
     (''BACKUP_RESTORE_EVIDENCE_MISSING'', ''backup/restore hardware evidence is missing''),
     (''HARDWARE_QUALIFICATION_MISSING'', ''hardware qualification evidence is missing''),
     (''SOAK_EVIDENCE_MISSING'', ''soak-test evidence is missing''),
     (''SECURITY_REVIEW_MISSING'', ''security review evidence is missing''),
     (''HUMAN_ACCEPTANCE_MISSING'', ''human acceptance evidence is missing''),
     (''CAPABILITY_UNAVAILABLE'', ''a mandatory capability is still unavailable''),
     (''LIMITATION_ACCEPTANCE_MISSING'', ''a declared limitation lacks a reviewed acceptance record''),
     (''DOCUMENTATION_DRIFT'', ''documentation reconciliation evidence is missing''),
     (''REPOSITORY_NOT_PUBLISHED'', ''source-checkout/published-repository evidence is missing''),
     (''CANDIDATE_REF_MISMATCH'', ''a final release must run from its exact protected tag refs/tags/v<version>''),
     (''POLICY_DIGEST_MISMATCH'', ''the candidate's policy digest does not match the evaluating policy'')]"

definition explained :: "string \<Rightarrow> string" where
  "explained code = (case map_of EXPLANATIONS code of None \<Rightarrow> code | Some t \<Rightarrow> t)"

section \<open>Judging the items\<close>

text \<open>
  What the loop accumulates. The identifiers it has seen are those it accepted. \<open>gs_ticks\<close>
  counts the readings of the clock, one for each validation.
\<close>

record gate_state =
  gs_ids :: "pystr list"
  gs_kinds :: "pystr list"
  gs_covered :: "pystr list"
  gs_rejected :: "(pystr \<times> string) list"
  gs_ticks :: nat

definition fresh_gate :: gate_state where
  "fresh_gate = \<lparr>gs_ids = [], gs_kinds = [], gs_covered = [], gs_rejected = [], gs_ticks = 0\<rparr>"

definition rid_of :: "release_env \<Rightarrow> json \<Rightarrow> pystr" where
  "rid_of v item = (if is_object item then label_of v item (cps ''<missing-id>'') else cps ''<malformed>'')"

text \<open>The record must be bound to this inventory, and every subject be an artifact of it.\<close>

definition inventory_verdict :: "release_env \<Rightarrow> artifact list \<Rightarrow> fields \<Rightarrow> verdict" where
  "inventory_verdict v artifacts kvs =
     reject_if (get_field kvs ''artifact_inventory_digest'' \<noteq> JStr (inventory_digest v artifacts)) ''INVENTORY_DIGEST_MISMATCH''
    (reject_if (\<not> list_all (\<lambda>x. subject_sha v x \<in> set (map ar_sha256 artifacts)) (list_of (get_field kvs ''artifact_subjects'')))
       ''ARTIFACT_SUBJECT_MISMATCH'' accepted)"

definition item_verdict ::
  "release_env \<Rightarrow> candidate \<Rightarrow> artifact list \<Rightarrow> release_policy \<Rightarrow> json list \<Rightarrow> nat \<Rightarrow> pystr list \<Rightarrow> verified_record \<Rightarrow> verdict" where
  "item_verdict v c artifacts p superseded tick seen r =
     and_if_accepted
       (validate_evidence_record v (re_clock v tick) (po_mechanisms p) (binding_of c) superseded seen (ve_record r))
       (inventory_verdict v artifacts (object_fields (ve_record r)))"

text \<open>The limitation an accepted acceptance covers.\<close>

definition covered_by :: "release_env \<Rightarrow> fields \<Rightarrow> pystr list" where
  "covered_by v kvs =
    (let covered = attr (get_field kvs ''measurements'') ''capability'' in
     if entry_kind kvs = cps ''KNOWN_LIMITATION_ACCEPTANCE'' \<and> \<not> falsy covered then [py_str (re_shown v) covered] else [])"

definition rejecting :: "pystr \<Rightarrow> string \<Rightarrow> gate_state \<Rightarrow> gate_state" where
  "rejecting rid code g = g\<lparr>gs_rejected := gs_rejected g @ [(rid, code)]\<rparr>"

fun judge_item ::
  "release_env \<Rightarrow> candidate \<Rightarrow> artifact list \<Rightarrow> release_policy \<Rightarrow> json list \<Rightarrow> evidence_item \<Rightarrow> gate_state \<Rightarrow> exn + gate_state" where
  "judge_item v c artifacts p superseded (Raw x) g = Inr (rejecting (rid_of v x) ''NOT_VERIFIED'' g)"
| "judge_item v c artifacts p superseded (Verified r) g =
    (let kvs = object_fields (ve_record r); rid = rid_of v (ve_record r); g' = g\<lparr>gs_ticks := Suc (gs_ticks g)\<rparr> in
     case item_verdict v c artifacts p superseded (gs_ticks g) (gs_ids g) r of
       Inl e \<Rightarrow> Inl e
     | Inr (Some code) \<Rightarrow> Inr (rejecting rid code g')
     | Inr None \<Rightarrow> Inr (g'\<lparr>gs_ids := gs_ids g @ [rid], gs_kinds := gs_kinds g @ [entry_kind kvs],
         gs_covered := gs_covered g @ covered_by v kvs\<rparr>))"

fun judge_items ::
  "release_env \<Rightarrow> candidate \<Rightarrow> artifact list \<Rightarrow> release_policy \<Rightarrow> json list \<Rightarrow> evidence_item list \<Rightarrow> gate_state \<Rightarrow> exn + gate_state" where
  "judge_items v c artifacts p superseded [] g = Inr g"
| "judge_items v c artifacts p superseded (item # items) g =
    (case judge_item v c artifacts p superseded item g of
       Inl e \<Rightarrow> Inl e
     | Inr g' \<Rightarrow> judge_items v c artifacts p superseded items g')"

section \<open>Deciding\<close>

definition missing_gates :: "string list \<Rightarrow> pystr list \<Rightarrow> string list" where
  "missing_gates required kinds =
     map (\<lambda>k. the (gate_code_for k)) (filter (\<lambda>k. cps k \<notin> set kinds \<and> gate_code_for k \<noteq> None) required)"

definition blocking_of :: "release_env \<Rightarrow> candidate \<Rightarrow> release_policy \<Rightarrow> gate_state \<Rightarrow> string list" where
  "blocking_of v c p g =
     (if cd_policy c \<noteq> policy_digest v p then [''POLICY_DIGEST_MISMATCH''] else []) @
     (if final_ref_violation c then [''CANDIDATE_REF_MISMATCH''] else []) @
     missing_gates (po_one_zero_kinds p) (gs_kinds g) @
     (if set (mandatory_capabilities p) \<inter> set KNOWN_UNAVAILABLE_CAPABILITIES \<noteq> {} then [''CAPABILITY_UNAVAILABLE''] else []) @
     (if list_all (\<lambda>l. cps l \<in> set (gs_covered g)) (limitation_capabilities p) then [] else [''LIMITATION_ACCEPTANCE_MISSING''])"

definition decided :: "release_env \<Rightarrow> candidate \<Rightarrow> artifact list \<Rightarrow> release_policy \<Rightarrow> gate_state \<Rightarrow> gate_decision" where
  "decided v c artifacts p g =
    (let blocking = blocking_of v c p g; codes = sorted_keys blocking in
     \<lparr>de_rc = (missing_gates (po_rc_kinds p) (gs_kinds g) = [] \<and> blocking = []),
      de_one_zero = (blocking = []),
      de_blocking = codes, de_explanations = map explained codes,
      de_limitations = filter (\<lambda>l. cps l \<in> set (gs_covered g)) (sorted_keys (limitation_capabilities p)),
      de_version = cd_version c, de_commit = cd_commit c, de_ref = cd_ref c, de_repository = cd_repository c,
      de_inventory = inventory_digest v artifacts, de_used = sort (gs_ids g), de_rejected = sort (gs_rejected g),
      de_policy = policy_digest v p\<rparr>)"

definition evaluate_release ::
  "release_env \<Rightarrow> evidence_item list \<Rightarrow> candidate \<Rightarrow> artifact list \<Rightarrow> release_policy option \<Rightarrow> exn + gate_decision" where
  "evaluate_release v evidence c artifacts policy =
    (let p = (case policy of None \<Rightarrow> default_release_policy | Some p \<Rightarrow> p) in
     case collect_superseded_ids evidence of
       Inl e \<Rightarrow> Inl e
     | Inr superseded \<Rightarrow>
        (case judge_items v c artifacts p superseded evidence fresh_gate of
           Inl e \<Rightarrow> Inl e
         | Inr g \<Rightarrow> release_decision True (decided v c artifacts p g)))"

section \<open>The manifest\<close>

definition release_manifest_body :: "release_env \<Rightarrow> gate_decision \<Rightarrow> artifact list \<Rightarrow> string option \<Rightarrow> bool \<Rightarrow> fields" where
  "release_manifest_body v d artifacts sbom final =
     [(''manifest_schema_version'', JInt 3),
      (''release_status'', jstr (if de_one_zero d then ''QUALIFIED'' else ''BLOCKED'')),
      (''qualification_level'', jstr (if final then ''final'' else ''draft'')),
      (''version'', JStr (de_version d)), (''source_commit'', JStr (de_commit d)), (''source_ref'', JStr (de_ref d)),
      (''repository'', JStr (de_repository d)), (''policy_digest'', JStr (de_policy d)),
      (''inventory'', JObj [(''inventory_schema_version'', JInt 2),
         (''artifacts'', JList (map artifact_to_dict (filter (\<lambda>a. ar_name a \<noteq> cps ''release-manifest.json'') artifacts))),
         (''inventory_digest'', JStr (inventory_digest v artifacts))]),
      (''inventory_digest'', JStr (de_inventory d)), (''sbom_digest'', jopt sbom),
      (''eligible_for_rc'', JBool (de_rc d)), (''eligible_for_1_0_0'', JBool (de_one_zero d)),
      (''blocking_codes'', JList (map jstr (de_blocking d))), (''evidence_used'', JList (map JStr (de_used d)))]"

definition build_release_manifest :: "release_env \<Rightarrow> gate_decision \<Rightarrow> artifact list \<Rightarrow> string option \<Rightarrow> bool \<Rightarrow> exn + json" where
  "build_release_manifest v d artifacts sbom final =
    (if final \<and> \<not> de_one_zero d then Inl value_refused
     else let body = release_manifest_body v d artifacts sbom final in
       Inr (JObj (body @ [(''manifest_digest'', JStr (sha256_of v (JObj body)))])))"

section \<open>The release tooling\<close>

text \<open>
  A file under the evidence directory, by what reading it gives: no regular file, its size, an
  error of reading, the value its text decodes to.
\<close>

record evidence_file =
  ef_name :: pystr
  ef_regular :: bool
  ef_bytes :: nat
  ef_error :: "string option"
  ef_value :: "json option"

definition read_evidence_file :: "evidence_file \<Rightarrow> json option \<times> string" where
  "read_evidence_file f =
    (if \<not> ef_regular f then (None, ''not-a-file'')
     else if ef_bytes f > 1000000 then (None, ''too-large'')
     else case ef_error f of Some cls \<Rightarrow> (None, ''unreadable:'' @ cls)
     | None \<Rightarrow> (case ef_value f of None \<Rightarrow> (None, ''invalid-json'')
       | Some x \<Rightarrow> if is_object x then (Some x, []) else (None, ''not-an-object'')))"

fun load_evidence_files :: "evidence_file list \<Rightarrow> json list \<times> (pystr \<times> string) list" where
  "load_evidence_files [] = ([], [])"
| "load_evidence_files (f # fs) = (case load_evidence_files fs of (records, errors) \<Rightarrow>
     (case read_evidence_file f of
        (Some x, reason) \<Rightarrow> (x # records, errors)
      | (None, reason) \<Rightarrow> (records, (ef_name f, reason) # errors)))"

definition load_evidence_dir :: "evidence_file list option \<Rightarrow> json list \<times> (pystr \<times> string) list" where
  "load_evidence_dir dir = (case dir of None \<Rightarrow> ([], [(cps ''<dir>'', ''missing-evidence-dir'')]) | Some fs \<Rightarrow> load_evidence_files fs)"

text \<open>An entry of the artifact directory that is no directory itself.\<close>

record dist_file =
  df_name :: pystr
  df_regular :: bool
  df_size :: int
  df_sha256 :: pystr

definition role_for :: "pystr \<Rightarrow> pystr" where
  "role_for name =
    (if name = cps ''checksums.sha256'' then cps ''checksums''
     else if name = cps ''sbom.cdx.json'' then cps ''cyclonedx-sbom''
     else if name = cps ''release-manifest.json'' then cps ''release-manifest''
     else if suffix (cps ''.whl'') name then cps ''python-wheel''
     else if suffix (cps ''.tar.gz'') name then cps ''python-sdist'' else [])"

definition media_type_for :: "pystr \<Rightarrow> pystr" where
  "media_type_for name =
    (if suffix (cps ''.whl'') name then cps ''application/vnd.pypi.wheel.v1''
     else if suffix (cps ''.tar.gz'') name \<or> suffix (cps ''.tgz'') name then cps ''application/gzip''
     else if suffix (cps ''.json'') name then cps ''application/json''
     else if suffix (cps ''.txt'') name \<or> suffix (cps ''.sha256'') name then cps ''text/plain''
     else cps ''application/octet-stream'')"

fun inventory_of :: "pystr list \<Rightarrow> dist_file list \<Rightarrow> exn + artifact list" where
  "inventory_of roles [] = Inr []"
| "inventory_of roles (f # fs) =
    (let role = role_for (df_name f) in
     if \<not> df_regular f \<or> df_size f > 4 * 1024 * 1024 * 1024 then Inl value_refused
     else if role \<noteq> [] \<and> role \<in> set roles then Inl value_refused
     else case inventory_of (if role = [] then roles else role # roles) fs of
       Inl e \<Rightarrow> Inl e
     | Inr as \<Rightarrow> Inr (\<lparr>ar_name = df_name f, ar_sha256 = df_sha256 f, ar_size = df_size f,
         ar_media_type = media_type_for (df_name f), ar_role = role\<rparr> # as))"

text \<open>The directory's files in the order of their names; no directory, no artifacts.\<close>

definition build_inventory :: "dist_file list option \<Rightarrow> exn + artifact list" where
  "build_inventory dir = (case dir of None \<Rightarrow> Inr []
     | Some fs \<Rightarrow> if length fs > 64 then Inl value_refused else inventory_of [] (sort_key df_name fs))"

record release_args =
  ra_candidate :: pystr
  ra_commit :: pystr
  ra_ref :: pystr
  ra_repository :: pystr
  ra_evidence :: "evidence_file list option option"
  ra_artifacts :: "dist_file list option"
  ra_final :: bool
  ra_sbom :: "string option"

definition loaded_evidence :: "release_args \<Rightarrow> json list" where
  "loaded_evidence a = (case ra_evidence a of None \<Rightarrow> [] | Some dir \<Rightarrow> fst (load_evidence_dir dir))"

text \<open>What both commands begin with; a refused identity or inventory ends them with 2.\<close>

definition tool_decision :: "release_env \<Rightarrow> release_args \<Rightarrow> exn + (gate_decision \<times> artifact list) option" where
  "tool_decision v a =
    (case candidate_identity (JStr (ra_candidate a)) (JStr (ra_commit a)) (JStr (ra_ref a)) (JStr (ra_repository a))
        (JStr (policy_digest v default_release_policy)) of
       Inl e \<Rightarrow> Inr None
     | Inr c \<Rightarrow> (case build_inventory (ra_artifacts a) of
         Inl e \<Rightarrow> Inr None
       | Inr artifacts \<Rightarrow>
          (case evaluate_release v (map Raw (loaded_evidence a)) c artifacts (Some default_release_policy) of
             Inl e \<Rightarrow> Inl e
           | Inr d \<Rightarrow> Inr (Some (d, artifacts)))))"

definition cmd_evaluate :: "release_env \<Rightarrow> release_args \<Rightarrow> exn + int" where
  "cmd_evaluate v a = (case tool_decision v a of
       Inl e \<Rightarrow> Inl e
     | Inr None \<Rightarrow> Inr 2
     | Inr (Some (d, artifacts)) \<Rightarrow> Inr (if (if ra_final a then de_one_zero d else de_rc d) then 0 else 1))"

text \<open>The exit code and the manifest it writes, when it writes one.\<close>

definition cmd_manifest :: "release_env \<Rightarrow> release_args \<Rightarrow> exn + int \<times> json option" where
  "cmd_manifest v a = (case tool_decision v a of
       Inl e \<Rightarrow> Inl e
     | Inr None \<Rightarrow> Inr (2, None)
     | Inr (Some (d, artifacts)) \<Rightarrow>
        (case build_release_manifest v d artifacts (ra_sbom a) (ra_final a) of
           Inl e \<Rightarrow> Inr (1, None)
         | Inr doc \<Rightarrow> Inr (0, Some doc)))"

definition cmd_validate :: "release_env \<Rightarrow> (nat \<Rightarrow> nat \<Rightarrow> int) \<Rightarrow> release_args \<Rightarrow> exn + int" where
  "cmd_validate v ticks a =
    (case load_evidence_dir (case ra_evidence a of None \<Rightarrow> None | Some dir \<Rightarrow> dir) of (records, errors) \<Rightarrow>
     let b = \<lparr>bi_version = ra_candidate a, bi_commit = ra_commit a, bi_policy = policy_digest v default_release_policy\<rparr> in
     case valid_entries v (ticks 0) b 0 (map Raw records) of
       Inl e \<Rightarrow> Inl e
     | Inr (parsed, problems) \<Rightarrow>
        (case validate_evidence_set v (ticks 1) b (map Raw records) of
           Inl e \<Rightarrow> Inl e
         | Inr (ok, all) \<Rightarrow> Inr (if errors = [] \<and> problems = [] \<and> ok then 0 else 1)))"

section \<open>The checkout\<close>

text \<open>
  The files of the workspace in order, as \<^verbatim>\<open>rglob\<close> lists them; \<open>posix\<close> is the form
  \<^verbatim>\<open>Path.as_posix\<close> gives a tracked path. The result is the verdict, every untracked file,
  and those that block.
\<close>

definition DEFAULT_BUILD_INPUT_PREFIXES :: "string list" where
  "DEFAULT_BUILD_INPUT_PREFIXES = [''bc250_llm_mode/'', ''tools/'', ''release/'', ''.github/'', ''pyproject.toml'']"

definition strip_slashes :: "pystr \<Rightarrow> pystr" where
  "strip_slashes p = rev (dropWhile (\<lambda>c. c = 47) (rev p))"

definition check_release_checkout ::
  "(pystr \<Rightarrow> pystr) \<Rightarrow> pystr list \<Rightarrow> pystr list \<Rightarrow> pystr list option \<Rightarrow> bool \<Rightarrow> bool \<times> pystr list \<times> pystr list" where
  "check_release_checkout posix files tracked inputs diagnostics =
    (let untracked = filter (\<lambda>f. f \<notin> set (map posix tracked)) files;
         blocking = (case inputs of None \<Rightarrow> untracked
           | Some ps \<Rightarrow> filter (\<lambda>u. list_ex (\<lambda>p. u = strip_slashes p \<or> prefix (strip_slashes p @ [47]) u) ps) untracked) in
     if diagnostics then (True, untracked, []) else (blocking = [], untracked, blocking))"

end
