(* ===== verification/Release_Facts.thy ===== *)
theory Release_Facts
  imports Release_Gate "HOL-Library.Multiset"
begin

text \<open>
  What an accepted record is, how the evaluator accumulates, and that the order of the evidence
  and the reading of the clock play no part where identifiers differ.
\<close>

section \<open>Verdicts\<close>

named_theorems verdict_simps "when a chain of checks accepts"

lemma reject_if_accepted [verdict_simps]: "reject_if b code r = accepted \<longleftrightarrow> \<not> b \<and> r = accepted"
  by (simp add: reject_if_def rejected_with_def accepted_def)

lemma and_if_accepted_accepted [verdict_simps]: "and_if_accepted a r = accepted \<longleftrightarrow> a = accepted \<and> r = accepted"
  by (simp add: and_if_accepted_def)

lemma rejected_not_accepted [verdict_simps]: "rejected_with code \<noteq> accepted"
  by (simp add: rejected_with_def accepted_def)

lemma raised_not_accepted [verdict_simps]: "Inl e \<noteq> accepted"
  by (simp add: accepted_def)

text \<open>The one exception a validation can end with.\<close>

definition raises_only :: "verdict \<Rightarrow> bool" where
  "raises_only a \<longleftrightarrow> (\<forall>e. a = Inl e \<longrightarrow> e = type_error)"

lemma raises_only_intros [intro, simp]:
  "raises_only accepted" "raises_only (rejected_with code)" "raises_only (Inl type_error)"
  by (simp_all add: raises_only_def accepted_def rejected_with_def)

lemma raises_only_reject_if [simp]: "raises_only r \<Longrightarrow> raises_only (reject_if b code r)"
  by (simp add: reject_if_def)

lemma raises_only_and [simp]: "raises_only a \<Longrightarrow> raises_only r \<Longrightarrow> raises_only (and_if_accepted a r)"
  by (simp add: and_if_accepted_def)

lemma issuer_raises_only [simp]: "raises_only (issuer_verdict issuer)"
  by (simp add: issuer_verdict_def)

lemma record_raises_only:
  "raises_only (envelope_verdict kvs)" "raises_only (content_verdict b kvs)" "raises_only (time_verdict v now superseded seen kvs)"
  "raises_only (scan_verdict v kvs)" "raises_only (environment_verdict env)" "raises_only (verification_verdict v now ms ver)"
  by (simp_all add: envelope_verdict_def content_verdict_def time_verdict_def scan_verdict_def environment_verdict_def
      verification_verdict_def Let_def)

lemma validate_raises_only: "raises_only (validate_evidence_record v now ms b superseded seen item)"
proof (cases item)
  case (JObj kvs)
  have "raises_only (structure_verdict v now ms kvs)"
    unfolding structure_verdict_def by (intro raises_only_and raises_only_reject_if raises_only_intros issuer_raises_only record_raises_only)
  then show ?thesis
    unfolding validate_evidence_record_def JObj json.case by (intro raises_only_and record_raises_only)
qed (simp_all add: validate_evidence_record_def)

lemma item_verdict_raises_only: "raises_only (item_verdict v c artifacts p superseded tick seen r)"
  unfolding item_verdict_def inventory_verdict_def by (intro raises_only_and raises_only_reject_if raises_only_intros validate_raises_only)

section \<open>Accepted records\<close>

lemma envelope_types:
  assumes "envelope_verdict kvs = accepted" and "(k, ok) \<in> set field_types"
  shows "ok (get_field kvs k)"
  using assms by (auto simp: envelope_verdict_def verdict_simps list_all_iff)

lemma the_text_is: "is_text x \<Longrightarrow> x = JStr (the_text x)"
  by (cases x) auto

lemma envelope_text:
  assumes "envelope_verdict kvs = accepted"
    and "k \<in> {''evidence_id'', ''kind'', ''release_candidate_version'', ''source_commit'', ''policy_digest'', ''result''}"
  shows "get_field kvs k = JStr (text_in kvs k)"
proof -
  have "(k, is_text) \<in> set field_types"
    using assms(2) unfolding field_types_def by (elim insertE emptyE) simp_all
  from the_text_is [OF envelope_types [OF assms(1) this]] show ?thesis by (simp add: text_in_def)
qed

text \<open>
  A record that proves something of a candidate at an instant: it passed, names the candidate,
  the policy and the inventory, is in its time, its subjects are artifacts of the inventory, an
  approved mechanism verified it, it keeps the contract of its kind and holds no secret.
\<close>

definition sound_record :: "release_env \<Rightarrow> int \<Rightarrow> candidate \<Rightarrow> artifact list \<Rightarrow> release_policy \<Rightarrow> fields \<Rightarrow> bool" where
  "sound_record v now c artifacts p kvs \<longleftrightarrow>
     (let ver = object_fields (get_field kvs ''verification'') in
      get_field kvs ''result'' = jstr ''PASS'' \<and>
      get_field kvs ''release_candidate_version'' = JStr (cd_version c) \<and>
      get_field kvs ''source_commit'' = JStr (cd_commit c) \<and>
      get_field kvs ''policy_digest'' = JStr (cd_policy c) \<and>
      get_field kvs ''artifact_inventory_digest'' = JStr (inventory_digest v artifacts) \<and>
      (\<exists>t. parse_ts v (get_field kvs ''issued_at'') = Some t \<and> t \<le> now) \<and>
      (get_field kvs ''expires_at'' = JNull \<or> (\<exists>t. parse_ts v (get_field kvs ''expires_at'') = Some t \<and> now < t)) \<and>
      (\<forall>x \<in> set (list_of (get_field kvs ''artifact_subjects'')). subject_sha v x \<in> ar_sha256 ` set artifacts) \<and>
      one_of (po_mechanisms p) (get_field ver ''mechanism'') \<and>
      (\<exists>t. parse_ts v (get_field ver ''verified_at'') = Some t \<and> t \<le> now) \<and>
      kind_contract (entry_kind kvs) (object_fields (get_field kvs ''measurements'')) \<and>
      \<not> contains_secret v (JObj kvs))"

lemma accepted_record_parts:
  assumes "item_verdict v c artifacts p superseded tick seen r = accepted"
  obtains kvs where "ve_record r = JObj kvs" "envelope_verdict kvs = accepted" "content_verdict (binding_of c) kvs = accepted"
    "time_verdict v (re_clock v tick) superseded seen kvs = accepted" "scan_verdict v kvs = accepted"
    "structure_verdict v (re_clock v tick) (po_mechanisms p) kvs = accepted" "inventory_verdict v artifacts kvs = accepted"
  using assms by (cases "ve_record r") (auto simp: item_verdict_def validate_evidence_record_def verdict_simps)

lemma accepted_is_sound:
  assumes "item_verdict v c artifacts p superseded tick seen r = accepted"
  shows "sound_record v (re_clock v tick) c artifacts p (object_fields (ve_record r)) \<and>
    attr (ve_record r) ''evidence_id'' \<notin> set superseded"
proof -
  obtain kvs where r: "ve_record r = JObj kvs" and env: "envelope_verdict kvs = accepted"
    and content: "content_verdict (binding_of c) kvs = accepted"
    and time: "time_verdict v (re_clock v tick) superseded seen kvs = accepted" and scan: "scan_verdict v kvs = accepted"
    and build: "structure_verdict v (re_clock v tick) (po_mechanisms p) kvs = accepted"
    and inventory: "inventory_verdict v artifacts kvs = accepted"
    using assms by (rule accepted_record_parts)
  have texts: "get_field kvs ''result'' = jstr ''PASS''" "get_field kvs ''release_candidate_version'' = JStr (cd_version c)"
    "get_field kvs ''source_commit'' = JStr (cd_commit c)" "get_field kvs ''policy_digest'' = JStr (cd_policy c)"
    using content envelope_text [OF env] by (auto simp: content_verdict_def verdict_simps binding_of_def jstr_def)
  show ?thesis
    using texts time scan build inventory
    by (auto simp: r sound_record_def Let_def time_verdict_def scan_verdict_def structure_verdict_def verification_verdict_def
        inventory_verdict_def verdict_simps list_all_iff attr_def entry_kind_def)
qed

section \<open>What the loop accumulates\<close>

text \<open>Every kind and every limitation it counts comes from an item it accepted.\<close>

definition accepts :: "release_env \<Rightarrow> candidate \<Rightarrow> artifact list \<Rightarrow> release_policy \<Rightarrow> json list \<Rightarrow> evidence_item list \<Rightarrow> fields \<Rightarrow> bool" where
  "accepts v c artifacts p superseded items kvs \<longleftrightarrow> (\<exists>r tick seen. Verified r \<in> set items \<and> kvs = object_fields (ve_record r) \<and>
     item_verdict v c artifacts p superseded tick seen r = accepted)"

lemma accepts_more: "accepts v c artifacts p superseded items kvs \<Longrightarrow> set items \<subseteq> set items' \<Longrightarrow> accepts v c artifacts p superseded items' kvs"
  by (auto simp: accepts_def)

lemma judge_item_cases:
  assumes "judge_item v c artifacts p superseded item g = Inr h"
  obtains (rejects) "gs_kinds h = gs_kinds g" "gs_covered h = gs_covered g"
  | (counts) kvs where "accepts v c artifacts p superseded [item] kvs" "gs_kinds h = gs_kinds g @ [entry_kind kvs]"
      "gs_covered h = gs_covered g @ covered_by v kvs"
proof (cases item)
  case (Raw x)
  with assms rejects show ?thesis by (auto simp: rejecting_def)
next
  case (Verified r)
  then consider (no) code where "item_verdict v c artifacts p superseded (gs_ticks g) (gs_ids g) r = Inr (Some code)"
    | (yes) "item_verdict v c artifacts p superseded (gs_ticks g) (gs_ids g) r = Inr None"
    using assms by (auto simp: Let_def split: sum.splits option.splits)
  then show ?thesis
  proof cases
    case no
    with Verified assms rejects show ?thesis by (auto simp: rejecting_def Let_def)
  next
    case yes
    then have "accepts v c artifacts p superseded [item] (object_fields (ve_record r))"
      unfolding accepts_def accepted_def using Verified by auto
    with yes Verified assms counts show ?thesis by (auto simp: Let_def)
  qed
qed

lemma judge_items_counts:
  assumes "judge_items v c artifacts p superseded items g = Inr g'"
  shows "(kind \<in> set (gs_kinds g') \<longrightarrow> kind \<in> set (gs_kinds g) \<or>
      (\<exists>kvs. accepts v c artifacts p superseded items kvs \<and> entry_kind kvs = kind)) \<and>
    (l \<in> set (gs_covered g') \<longrightarrow> l \<in> set (gs_covered g) \<or>
      (\<exists>kvs. accepts v c artifacts p superseded items kvs \<and> l \<in> set (covered_by v kvs)))"
  using assms
proof (induction items arbitrary: g)
  case (Cons item items)
  from Cons.prems obtain h where h: "judge_item v c artifacts p superseded item g = Inr h"
    and rest: "judge_items v c artifacts p superseded items h = Inr g'" by (auto split: sum.splits)
  have more: "accepts v c artifacts p superseded items kvs \<Longrightarrow> accepts v c artifacts p superseded (item # items) kvs"
    "accepts v c artifacts p superseded [item] kvs \<Longrightarrow> accepts v c artifacts p superseded (item # items) kvs" for kvs
    by (auto elim!: accepts_more)
  from Cons.IH [OF rest] h more show ?case
    by (elim judge_item_cases) auto
qed simp

end
