(* ===== verification/Release_Promises.thy ===== *)
theory Release_Promises
  imports Release_Facts
begin

text \<open>
  What the release gate promises: an eligible decision is proven by its evidence and does not
  depend on its order, a set of records without problems is consistent. And what it does not:
  the payload of an attestation is bound to nothing, and the tooling never qualifies anything.
\<close>

section \<open>Eligibility is proven\<close>

definition unsuperseded :: "evidence_item list \<Rightarrow> fields \<Rightarrow> bool" where
  "unsuperseded evidence kvs \<longleftrightarrow>
     (\<forall>item \<in> set evidence. attr (unwrapped item) ''supersedes_evidence_id'' \<noteq> get_field kvs ''evidence_id'')"

definition proven_by :: "release_env \<Rightarrow> candidate \<Rightarrow> artifact list \<Rightarrow> release_policy \<Rightarrow> evidence_item list \<Rightarrow> fields \<Rightarrow> bool" where
  "proven_by v c artifacts p evidence kvs \<longleftrightarrow> (\<exists>r tick. Verified r \<in> set evidence \<and> kvs = object_fields (ve_record r) \<and>
     sound_record v (re_clock v tick) c artifacts p kvs \<and> unsuperseded evidence kvs)"

lemma collected:
  assumes "collect_superseded_ids items = Inr ids"
  shows "set ids = {x. \<not> falsy x \<and> (\<exists>item \<in> set items. attr (unwrapped item) ''supersedes_evidence_id'' = x)}"
  using assms by (induction items arbitrary: ids) (auto simp: Let_def split: if_splits sum.splits)

lemma accepted_id_is_text:
  assumes "item_verdict v c artifacts p superseded tick seen r = accepted"
  shows "get_field (object_fields (ve_record r)) ''evidence_id'' = JStr (entry_id (object_fields (ve_record r)))"
    and "entry_id (object_fields (ve_record r)) \<noteq> []"
proof -
  obtain kvs where r: "ve_record r = JObj kvs" "envelope_verdict kvs = accepted" "content_verdict (binding_of c) kvs = accepted"
    using assms by (rule accepted_record_parts)
  from envelope_text [OF r(2)] show "get_field (object_fields (ve_record r)) ''evidence_id'' = JStr (entry_id (object_fields (ve_record r)))"
    by (simp add: r(1) entry_id_def)
  from r show "entry_id (object_fields (ve_record r)) \<noteq> []"
    by (auto simp: content_verdict_def verdict_simps entry_id_def blank_def)
qed

lemma accepts_proves:
  assumes "accepts v c artifacts p superseded evidence kvs" and "collect_superseded_ids evidence = Inr superseded"
  shows "proven_by v c artifacts p evidence kvs"
proof -
  from assms(1) obtain r tick seen where r: "Verified r \<in> set evidence" "kvs = object_fields (ve_record r)"
    and ok: "item_verdict v c artifacts p superseded tick seen r = accepted" by (auto simp: accepts_def)
  have "\<not> falsy (get_field kvs ''evidence_id'')" using accepted_id_is_text [OF ok] r(2) by simp
  then have "unsuperseded evidence kvs"
    using accepted_is_sound [OF ok] collected [OF assms(2)] r(2) by (auto simp: unsuperseded_def attr_def)
  with accepted_is_sound [OF ok] r show ?thesis unfolding proven_by_def by blast
qed

lemma evaluated:
  assumes "evaluate_release v evidence c artifacts (Some p) = Inr d"
  obtains superseded g where "collect_superseded_ids evidence = Inr superseded"
    "judge_items v c artifacts p superseded evidence fresh_gate = Inr g" "d = decided v c artifacts p g"
  using assms by (auto simp: evaluate_release_def release_decision_def split: sum.splits if_splits)

lemma no_missing_gates: "missing_gates required kinds = [] \<longleftrightarrow> (\<forall>k \<in> set required. cps k \<in> set kinds \<or> gate_code_for k = None)"
  by (auto simp: missing_gates_def filter_empty_conv)

text \<open>
  C17 (safety): a candidate is eligible for 1.0.0 only if its policy digest is that of the
  evaluating policy, a final version is at its protected tag, every required kind with a gate and
  every declared limitation is proven by a verified record that passed, is bound to this
  candidate, policy and inventory, is in its time and superseded by no record of the evidence,
  and no mandatory capability is unavailable.
\<close>

theorem eligible_release_is_proven:
  assumes "evaluate_release v evidence c artifacts (Some p) = Inr d" and "de_one_zero d"
  shows "cd_policy c = policy_digest v p \<and> \<not> final_ref_violation c \<and>
    (\<forall>kind \<in> set (po_one_zero_kinds p). gate_code_for kind \<noteq> None \<longrightarrow>
      (\<exists>kvs. proven_by v c artifacts p evidence kvs \<and> entry_kind kvs = cps kind)) \<and>
    (\<forall>l \<in> set (limitation_capabilities p). \<exists>kvs. proven_by v c artifacts p evidence kvs \<and>
      entry_kind kvs = cps ''KNOWN_LIMITATION_ACCEPTANCE'' \<and> cps l \<in> set (covered_by v kvs)) \<and>
    set (mandatory_capabilities p) \<inter> set KNOWN_UNAVAILABLE_CAPABILITIES = {} \<and> de_inventory d = inventory_digest v artifacts"
proof -
  from assms(1) obtain superseded g where ids: "collect_superseded_ids evidence = Inr superseded"
    and run: "judge_items v c artifacts p superseded evidence fresh_gate = Inr g" and d: "d = decided v c artifacts p g"
    by (rule evaluated)
  from assms(2) d have free: "blocking_of v c p g = []" by (simp add: decided_def Let_def)
  have kinds: "\<exists>kvs. proven_by v c artifacts p evidence kvs \<and> entry_kind kvs = cps kind" if "cps kind \<in> set (gs_kinds g)" for kind
  proof -
    from that judge_items_counts [OF run, where kind = "cps kind" and l = "[]"] obtain kvs
      where "accepts v c artifacts p superseded evidence kvs" "entry_kind kvs = cps kind" by (auto simp: fresh_gate_def)
    with accepts_proves [OF _ ids] show ?thesis by blast
  qed
  have limits: "\<exists>kvs. proven_by v c artifacts p evidence kvs \<and>
      entry_kind kvs = cps ''KNOWN_LIMITATION_ACCEPTANCE'' \<and> l \<in> set (covered_by v kvs)" if "l \<in> set (gs_covered g)" for l
  proof -
    from that judge_items_counts [OF run, where kind = "[]" and l = l] obtain kvs
      where "accepts v c artifacts p superseded evidence kvs" "l \<in> set (covered_by v kvs)" by (auto simp: fresh_gate_def)
    moreover from this(2) have "entry_kind kvs = cps ''KNOWN_LIMITATION_ACCEPTANCE''"
      by (auto simp: covered_by_def Let_def split: if_splits)
    ultimately show ?thesis using accepts_proves [OF _ ids] by blast
  qed
  from free show ?thesis
    using kinds limits by (auto simp: blocking_of_def no_missing_gates list_all_iff d decided_def Let_def split: if_splits)
qed

section \<open>The order of the evidence\<close>

definition item_id :: "evidence_item \<Rightarrow> pystr list" where
  "item_id item = (case item of Raw x \<Rightarrow> [] | Verified r \<Rightarrow> [entry_id (object_fields (ve_record r))])"

definition verified_ids :: "evidence_item list \<Rightarrow> pystr list" where
  "verified_ids items = concat (map item_id items)"

definition steady :: "release_env \<Rightarrow> bool" where
  "steady v \<longleftrightarrow> (\<forall>n. re_clock v n = re_clock v 0)"

lemma validate_unseen:
  assumes "text_in (object_fields item) ''evidence_id'' \<notin> set seen"
  shows "validate_evidence_record v now ms b superseded seen item = validate_evidence_record v now ms b superseded [] item"
  using assms by (cases item) (simp_all add: validate_evidence_record_def time_verdict_def Let_def)

lemma validate_superseded_set:
  "set s = set s' \<Longrightarrow> validate_evidence_record v now ms b s seen item = validate_evidence_record v now ms b s' seen item"
  by (cases item) (simp_all add: validate_evidence_record_def time_verdict_def Let_def)

text \<open>What one item adds, judged alone.\<close>

definition judged_alone :: "release_env \<Rightarrow> candidate \<Rightarrow> artifact list \<Rightarrow> release_policy \<Rightarrow> json list \<Rightarrow> evidence_item \<Rightarrow> exn + gate_state" where
  "judged_alone v c artifacts p superseded item = judge_item v c artifacts p superseded item fresh_gate"

lemma judged_alone_set: "set s = set s' \<Longrightarrow> judged_alone v c artifacts p s item = judged_alone v c artifacts p s' item"
  by (cases item) (simp_all add: judged_alone_def item_verdict_def validate_superseded_set [of s s'] Let_def)

definition added :: "gate_state \<Rightarrow> gate_state \<Rightarrow> gate_state" where
  "added g d = \<lparr>gs_ids = gs_ids g @ gs_ids d, gs_kinds = gs_kinds g @ gs_kinds d, gs_covered = gs_covered g @ gs_covered d,
     gs_rejected = gs_rejected g @ gs_rejected d, gs_ticks = gs_ticks g + gs_ticks d\<rparr>"

lemma judge_item_adds:
  assumes "steady v" and "set (item_id item) \<inter> set (gs_ids g) = {}"
  shows "judge_item v c artifacts p superseded item g = map_sum id (added g) (judged_alone v c artifacts p superseded item)"
proof (cases item)
  case (Raw x)
  then show ?thesis by (simp add: judged_alone_def rejecting_def added_def fresh_gate_def)
next
  case (Verified r)
  have "re_clock v (gs_ticks g) = re_clock v 0" using assms(1) by (simp add: steady_def)
  then have "item_verdict v c artifacts p superseded (gs_ticks g) (gs_ids g) r = item_verdict v c artifacts p superseded 0 [] r"
    using assms(2) Verified
    by (simp add: item_verdict_def item_id_def entry_id_def validate_unseen [where seen = "gs_ids g"])
  then show ?thesis
    by (simp add: Verified judged_alone_def fresh_gate_def Let_def added_def rejecting_def split: sum.split option.split)
qed

lemma judged_alone_ids:
  assumes "judged_alone v c artifacts p superseded item = Inr d"
  shows "set (gs_ids d) \<subseteq> set (item_id item)"
proof (cases item)
  case (Raw x)
  with assms show ?thesis by (auto simp: judged_alone_def rejecting_def fresh_gate_def)
next
  case (Verified r)
  show ?thesis
  proof (cases "item_verdict v c artifacts p superseded 0 [] r = accepted")
    case True
    from accepted_id_is_text [OF this] have "rid_of v (ve_record r) = entry_id (object_fields (ve_record r))"
      by (cases "ve_record r") (auto simp: rid_of_def label_of_def attr_def is_object_def get_field_def get_or_def)
    with True Verified assms show ?thesis
      by (auto simp: judged_alone_def fresh_gate_def Let_def item_id_def accepted_def)
  next
    case False
    with Verified assms show ?thesis
      by (auto simp: judged_alone_def fresh_gate_def Let_def rejecting_def accepted_def split: sum.splits option.splits)
  qed
qed

lemma judged_alone_raises: "judged_alone v c artifacts p superseded item = Inl e \<Longrightarrow> e = type_error"
  using item_verdict_raises_only
  by (cases item) (auto simp: judged_alone_def Let_def raises_only_def split: sum.splits option.splits)

definition outcome_alone :: "release_env \<Rightarrow> candidate \<Rightarrow> artifact list \<Rightarrow> release_policy \<Rightarrow> json list \<Rightarrow> evidence_item \<Rightarrow> gate_state" where
  "outcome_alone v c artifacts p superseded item = (case judged_alone v c artifacts p superseded item of Inl e \<Rightarrow> fresh_gate | Inr d \<Rightarrow> d)"

definition gathered :: "('a \<Rightarrow> gate_state) \<Rightarrow> gate_state \<Rightarrow> 'a list \<Rightarrow> gate_state" where
  "gathered f g items = foldl added g (map f items)"

lemma judge_items_gather:
  assumes "steady v" and "distinct (verified_ids items)" and "set (verified_ids items) \<inter> set (gs_ids g) = {}"
  shows "judge_items v c artifacts p superseded items g =
    (if \<exists>item \<in> set items. isl (judged_alone v c artifacts p superseded item) then Inl type_error
     else Inr (gathered (outcome_alone v c artifacts p superseded) g items))"
  using assms(2,3)
proof (induction items arbitrary: g)
  case Nil
  then show ?case by (simp add: gathered_def)
next
  case (Cons item items)
  from Cons.prems have item: "set (item_id item) \<inter> set (gs_ids g) = {}" and ids: "distinct (verified_ids items)"
    "set (item_id item) \<inter> set (verified_ids items) = {}" by (auto simp: verified_ids_def)
  show ?case
  proof (cases "judged_alone v c artifacts p superseded item")
    case (Inl e)
    with judged_alone_raises [OF Inl] judge_item_adds [OF assms(1) item] show ?thesis by simp
  next
    case (Inr d)
    have "set (verified_ids items) \<inter> set (gs_ids (added g d)) = {}"
      using Cons.prems(2) ids(2) judged_alone_ids [OF Inr] by (auto simp: added_def verified_ids_def)
    from Cons.IH [OF ids(1) this] have "judge_items v c artifacts p superseded items (added g d) =
      (if \<exists>item \<in> set items. isl (judged_alone v c artifacts p superseded item) then Inl type_error
       else Inr (gathered (outcome_alone v c artifacts p superseded) (added g d) items))" .
    moreover have "outcome_alone v c artifacts p superseded item = d" by (simp add: outcome_alone_def Inr)
    ultimately show ?thesis
      by (simp add: judge_item_adds [OF assms(1) item] Inr gathered_def)
  qed
qed

lemma gathered_parts:
  "gs_ids (gathered f g items) = gs_ids g @ concat (map (\<lambda>i. gs_ids (f i)) items)"
  "gs_kinds (gathered f g items) = gs_kinds g @ concat (map (\<lambda>i. gs_kinds (f i)) items)"
  "gs_covered (gathered f g items) = gs_covered g @ concat (map (\<lambda>i. gs_covered (f i)) items)"
  "gs_rejected (gathered f g items) = gs_rejected g @ concat (map (\<lambda>i. gs_rejected (f i)) items)"
  by (induction items arbitrary: g) (simp_all add: gathered_def added_def)

lemma mset_concat_map: "mset xs = mset ys \<Longrightarrow> mset (concat (map f xs)) = mset (concat (map f ys))"
  by (metis mset_concat mset_map sum_mset_sum_list map_map)

lemma sort_same: "mset xs = mset ys \<Longrightarrow> sort xs = sort (ys :: 'a :: linorder list)"
  by (rule properties_for_sort) simp_all

lemma decided_same:
  assumes "mset (gs_ids g) = mset (gs_ids g')" "set (gs_kinds g) = set (gs_kinds g')"
    "set (gs_covered g) = set (gs_covered g')" "mset (gs_rejected g) = mset (gs_rejected g')"
  shows "decided v c artifacts p g = decided v c artifacts p g'"
  using assms sort_same [OF assms(1)] sort_same [OF assms(4)]
  by (simp add: decided_def blocking_of_def missing_gates_def Let_def)

lemma collected_same:
  assumes "mset items = mset items'" and "collect_superseded_ids items = Inr ids"
  obtains ids' where "collect_superseded_ids items' = Inr ids'" "set ids' = set ids"
proof -
  have total: "(\<exists>ids. collect_superseded_ids xs = Inr ids) \<longleftrightarrow>
    (\<forall>item \<in> set xs. falsy (attr (unwrapped item) ''supersedes_evidence_id'') \<or> can_hash (attr (unwrapped item) ''supersedes_evidence_id''))" for xs
    by (induction xs) (auto simp: Let_def split: sum.splits)
  have same: "set items = set items'" using assms(1) by (metis set_mset_mset)
  with total [of items] total [of items'] assms(2) obtain ids' where "collect_superseded_ids items' = Inr ids'" by auto
  with collected [OF this] collected [OF assms(2)] same that show ?thesis by simp
qed

lemma collect_raises: "collect_superseded_ids items = Inl e \<Longrightarrow> e = type_error"
  by (induction items) (auto simp: Let_def split: if_splits sum.splits)

text \<open>
  C18 (equivalence): on evidence whose verified records have different identifiers, and with a
  clock that stands still, the decision is a function of the evidence as a multiset.
\<close>

theorem decision_ignores_order:
  assumes "steady v" and "distinct (verified_ids evidence)" and "mset evidence = mset evidence'"
  shows "evaluate_release v evidence c artifacts policy = evaluate_release v evidence' c artifacts policy"
proof -
  define p where "p = (case policy of None \<Rightarrow> default_release_policy | Some p \<Rightarrow> p)"
  have same: "set evidence = set evidence'" using assms(3) by (metis set_mset_mset)
  have distinct': "distinct (verified_ids evidence')"
    using assms(2) mset_concat_map [OF assms(3), of item_id] unfolding verified_ids_def by (metis mset_eq_imp_distinct_iff)
  show ?thesis
  proof (cases "collect_superseded_ids evidence")
    case (Inl e)
    then have "collect_superseded_ids evidence' = Inl type_error"
      using collected_same [OF assms(3) [symmetric]] collect_raises by (metis Inl_Inr_False obj_sumE)
    with Inl collect_raises [OF Inl] show ?thesis by (simp add: evaluate_release_def)
  next
    case (Inr ids)
    with assms(3) obtain ids' where ids': "collect_superseded_ids evidence' = Inr ids'" "set ids' = set ids"
      by (rule collected_same)
    let ?f = "outcome_alone v c artifacts p ids"
    have outcome_alone: "outcome_alone v c artifacts p ids' = ?f" "judged_alone v c artifacts p ids' = judged_alone v c artifacts p ids"
      using judged_alone_set [OF ids'(2)] by (auto simp: outcome_alone_def)
    have "decided v c artifacts p (gathered ?f fresh_gate evidence) = decided v c artifacts p (gathered ?f fresh_gate evidence')"
      by (rule decided_same) (use same in \<open>simp_all add: gathered_parts mset_concat_map [OF assms(3)]\<close>)
    then show ?thesis
      unfolding evaluate_release_def Inr ids'(1) p_def [symmetric] Let_def sum.case
      by (simp add: judge_items_gather [OF assms(1,2)] judge_items_gather [OF assms(1) distinct'] outcome_alone same fresh_gate_def)
  qed
qed

section \<open>Sets without problems\<close>

text \<open>A record is current when no record of the set supersedes it.\<close>

definition superseding :: "fields list \<Rightarrow> (pystr \<times> pystr) set" where
  "superseding parsed = {(entry_id r, entry_target r) | r. r \<in> set parsed \<and> entry_target r \<noteq> []}"

definition consistent_set :: "fields list \<Rightarrow> bool" where
  "consistent_set parsed \<longleftrightarrow> distinct (map entry_id parsed) \<and>
     (\<forall>r \<in> set parsed. entry_target r \<noteq> [] \<longrightarrow> (\<exists>t \<in> set parsed. entry_id t = entry_target r \<and> entry_kind t = entry_kind r)) \<and>
     acyclic (superseding parsed) \<and>
     (\<forall>kind \<in> entry_kind ` set parsed. \<exists>!r. r \<in> set parsed \<and> entry_kind r = kind \<and> entry_id r \<notin> entry_target ` set parsed)"

lemma by_id_Some: "by_id parsed i = Some r \<Longrightarrow> r \<in> set parsed \<and> entry_id r = i"
  unfolding by_id_def by (drule map_of_SomeD) auto

lemma by_id_distinct:
  assumes "distinct (map entry_id parsed)" and "r \<in> set parsed"
  shows "by_id parsed (entry_id r) = Some r"
proof -
  have "distinct (map fst (rev (map (\<lambda>r. (entry_id r, r)) parsed)))"
    using assms(1) by (simp add: rev_map [symmetric] comp_def)
  then show ?thesis unfolding by_id_def using assms(2) by (intro map_of_is_SomeI) auto
qed

lemma no_repeated_ids: "repeated_ids parsed = [] \<Longrightarrow> distinct (map entry_id parsed)"
proof (rule ccontr)
  assume none: "repeated_ids parsed = []" and twice: "\<not> distinct (map entry_id parsed)"
  let ?ids = "map entry_id parsed"
  from twice obtain xs ys zs i where split: "?ids = xs @ [i] @ ys @ [i] @ zs" using not_distinct_decomp by blast
  then have "length (filter (\<lambda>j. j = i) ?ids) > 1" by simp
  moreover have "i \<in> set ?ids" using split by auto
  ultimately have "i \<in> set (repeated_ids parsed)" by (auto simp: repeated_ids_def Let_def)
  with none show False by simp
qed

lemma walk_accessible:
  assumes "\<not> cycles_from parsed chain current" and "distinct (map entry_id parsed)" and "[] \<notin> entry_id ` set parsed"
  shows "current \<in> Wellfounded.acc ((superseding parsed)\<inverse>)"
  using assms
proof (induction parsed chain current rule: cycles_from.induct)
  case (1 parsed chain current)
  show ?case
  proof (rule accI)
    fix t
    assume "(t, current) \<in> (superseding parsed)\<inverse>"
    then obtain r where r: "r \<in> set parsed" "entry_id r = current" "entry_target r = t"
      by (auto simp: superseding_def)
    then have found: "by_id parsed current = Some r" and "current \<noteq> []"
      using by_id_distinct [OF "1.prems"(2)] "1.prems"(3) by (blast, metis image_eqI)
    with "1.prems"(1) have "current \<notin> set chain" and "\<not> cycles_from parsed (current # chain) (entry_target r)"
      by (simp_all add: cycles_from.simps [of parsed chain current] split: if_splits)
    with "1.IH" \<open>current \<noteq> []\<close> found "1.prems" r(3) show "t \<in> Wellfounded.acc ((superseding parsed)\<inverse>)" by blast
  qed
qed

lemma no_cycles:
  assumes "cycle_problems parsed = []" and "distinct (map entry_id parsed)" and "[] \<notin> entry_id ` set parsed"
  shows "acyclic (superseding parsed)"
proof -
  have "i \<in> Wellfounded.acc ((superseding parsed)\<inverse>)" for i
  proof (cases "i \<in> entry_id ` set parsed")
    case True
    with assms(1) have "\<not> cycles_from parsed [] i" by (auto simp: cycle_problems_def filter_empty_conv)
    with assms show ?thesis by (intro walk_accessible) auto
  next
    case False
    then show ?thesis by (auto simp: superseding_def intro: accI)
  qed
  then have "wf ((superseding parsed)\<inverse>)" by (intro acc_wfI) auto
  then show ?thesis using wf_acyclic acyclic_converse by blast
qed

lemma targets_present:
  assumes "target_problems parsed = []" and "r \<in> set parsed" and "entry_target r \<noteq> []"
  shows "\<exists>t \<in> set parsed. entry_id t = entry_target r \<and> entry_kind t = entry_kind r"
proof -
  have "target_problem parsed r = []" using assms(1,2) by (simp add: target_problems_def)
  with assms(3) obtain t where "by_id parsed (entry_target r) = Some t" "entry_kind t = entry_kind r"
    by (auto simp: target_problem_def split: option.splits if_splits)
  with by_id_Some show ?thesis by blast
qed

lemma at_most_one_current:
  assumes "coverage_problems parsed = []" and "r \<in> set parsed" "r' \<in> set parsed" "entry_kind r = entry_kind r'"
    and "entry_id r \<notin> entry_target ` set parsed" "entry_id r' \<notin> entry_target ` set parsed"
  shows "r = r'"
proof (rule ccontr)
  assume "r \<noteq> r'"
  let ?kind = "entry_kind r'"
  have "{r, r'} \<subseteq> set (current_entries parsed ?kind)" using assms by (auto simp: current_entries_def)
  then have "card {r, r'} \<le> length (current_entries parsed ?kind)"
    by (meson List.finite_set card_length card_mono le_trans)
  with \<open>r \<noteq> r'\<close> have "length (current_entries parsed ?kind) > 1" by simp
  moreover have "length (current_entries parsed ?kind) \<le> length (filter (\<lambda>r. entry_kind r = ?kind) parsed)"
  proof -
    have "current_entries parsed ?kind =
        filter (\<lambda>r. entry_id r \<notin> set (map entry_target parsed)) (filter (\<lambda>r. entry_kind r = ?kind) parsed)"
      by (simp add: current_entries_def conj_commute)
    then show ?thesis using length_filter_le by metis
  qed
  ultimately have "set_problem ''DUPLICATE_COVERAGE'' ?kind \<in> set (coverage_problems parsed)"
    using assms(3) by (auto simp: coverage_problems_def intro!: bexI [of _ r'])
  with assms(1) show False by simp
qed

lemma some_current:
  assumes "acyclic (superseding parsed)" and "r \<in> set parsed" and "[] \<notin> entry_id ` set parsed"
    and targets: "\<And>r. r \<in> set parsed \<Longrightarrow> entry_target r \<noteq> [] \<Longrightarrow>
      \<exists>t \<in> set parsed. entry_id t = entry_target r \<and> entry_kind t = entry_kind r"
    and distinct: "distinct (map entry_id parsed)"
  shows "\<exists>c \<in> set parsed. entry_kind c = entry_kind r \<and> entry_id c \<notin> entry_target ` set parsed"
proof -
  have "finite (superseding parsed)"
    by (rule finite_subset [of _ "(\<lambda>r. (entry_id r, entry_target r)) ` set parsed"]) (auto simp: superseding_def)
  with assms(1) have "wf (superseding parsed)" by (simp add: finite_acyclic_wf)
  moreover have "entry_id r \<in> entry_id ` {c \<in> set parsed. entry_kind c = entry_kind r}" using assms(2) by auto
  ultimately obtain i where i: "i \<in> entry_id ` {c \<in> set parsed. entry_kind c = entry_kind r}"
    and least: "\<And>j. (j, i) \<in> superseding parsed \<Longrightarrow> j \<notin> entry_id ` {c \<in> set parsed. entry_kind c = entry_kind r}"
    by (rule wfE_min) blast
  from i obtain c where c: "c \<in> set parsed" "entry_kind c = entry_kind r" "entry_id c = i" by auto
  have "i \<notin> entry_target ` set parsed"
  proof
    assume "i \<in> entry_target ` set parsed"
    then obtain s where s: "s \<in> set parsed" "entry_target s = i" by auto
    with c assms(3) have "(entry_id s, i) \<in> superseding parsed" by (force simp: superseding_def)
    moreover from targets [OF s(1)] s(2) c assms(3) obtain t where "t \<in> set parsed" "entry_id t = i" "entry_kind t = entry_kind s" by force
    then have "entry_kind s = entry_kind r"
      using c distinct by (metis by_id_distinct option.inject)
    ultimately show False using least s(1) by blast
  qed
  with c show ?thesis by blast
qed

text \<open>Every record of a set that passes the first pass without a problem is valid by itself.\<close>

lemma all_valid:
  assumes "valid_entries v ticks b index items = Inr (parsed, [])"
  shows "parsed = map (\<lambda>item. object_fields (unwrapped item)) items \<and>
    (\<forall>item \<in> set items. \<exists>n. validate_evidence_record v (ticks n) APPROVED_VERIFICATION_MECHANISMS b [] [] (unwrapped item) = accepted)"
  using assms
proof (induction items arbitrary: index parsed)
  case (Cons item items)
  then obtain rest where rest: "valid_entries v ticks b (Suc index) items = Inr (rest, [])"
    and item: "validate_evidence_record v (ticks index) APPROVED_VERIFICATION_MECHANISMS b [] [] (unwrapped item) = accepted"
    and "parsed = object_fields (unwrapped item) # rest"
    by (auto simp: rejected_with_def accepted_def split: sum.splits option.splits if_splits)
  with Cons.IH [OF rest] show ?case by auto
qed simp

lemma valid_id_nonempty:
  "validate_evidence_record v now ms b superseded seen item = accepted \<Longrightarrow> entry_id (object_fields item) \<noteq> []"
  by (cases item) (auto simp: validate_evidence_record_def content_verdict_def verdict_simps entry_id_def blank_def)

text \<open>
  C19 (functional): a set of evidence without problems consists of records that are valid by
  themselves, with different identifiers; every supersession is of a record of the set and of its
  kind, no supersession is circular, and of every kind there is exactly one current record.
\<close>

theorem accepted_set_is_consistent:
  assumes "validate_evidence_set v ticks b items = Inr (True, problems)"
  shows "problems = [] \<and> consistent_set (map (\<lambda>item. object_fields (unwrapped item)) items) \<and>
    (\<forall>item \<in> set items. \<exists>n. validate_evidence_record v (ticks n) APPROVED_VERIFICATION_MECHANISMS b [] [] (unwrapped item) = accepted)"
proof -
  let ?parsed = "map (\<lambda>item. object_fields (unwrapped item)) items"
  from assms obtain parsed where run: "valid_entries v ticks b 0 items = Inr (parsed, [])"
    and none: "repeated_ids parsed = []" "target_problems parsed = []" "cycle_problems parsed = []" "coverage_problems parsed = []"
    and "problems = []"
    by (auto simp: validate_evidence_set_def Let_def split: sum.splits)
  from all_valid [OF run] have parsed: "parsed = ?parsed" and valid: "\<forall>item \<in> set items. \<exists>n.
      validate_evidence_record v (ticks n) APPROVED_VERIFICATION_MECHANISMS b [] [] (unwrapped item) = accepted" by auto
  have ids: "[] \<notin> entry_id ` set parsed"
  proof
    assume "[] \<in> entry_id ` set parsed"
    then obtain item where "item \<in> set items" "entry_id (object_fields (unwrapped item)) = []" using parsed by auto
    with valid show False using valid_id_nonempty by blast
  qed
  note distinct = no_repeated_ids [OF none(1)]
  note acyclic = no_cycles [OF none(3) distinct ids]
  have "\<exists>!r. r \<in> set parsed \<and> entry_kind r = kind \<and> entry_id r \<notin> entry_target ` set parsed" if "kind \<in> entry_kind ` set parsed" for kind
    using that some_current [OF acyclic _ ids targets_present [OF none(2)] distinct] at_most_one_current [OF none(4)]
    by (elim imageE) metis
  then have "consistent_set parsed"
    unfolding consistent_set_def using distinct acyclic targets_present [OF none(2)] by blast
  with \<open>problems = []\<close> valid parsed show ?thesis by simp
qed

section \<open>What binds nothing\<close>

text \<open>The bundle an attestation offers, with another payload and the digest of that payload.\<close>

definition with_payload :: "release_env \<Rightarrow> fields \<Rightarrow> json \<Rightarrow> json" where
  "with_payload v payload bundle = JObj
     [(''mechanism'', attr bundle ''mechanism''), (''subject'', attr bundle ''subject''), (''payload'', JObj payload),
      (''bundle_digest'', JStr (sha256_of v (JObj payload)))]"

text \<open>
  C39 (error): a record verified with one bundle is verified just so with any other payload in
  its place, although the record names the digest of its bundle.
\<close>

theorem attestation_payload_is_unbound:
  assumes "verify_evidence_attestation v now ms b item bundle = Inr r" and "encodable (JObj payload)"
  shows "verify_evidence_attestation v now ms b item (with_payload v payload bundle) = Inr r"
proof -
  let ?kvs = "object_fields item"
  from assms(1) have valid: "validate_evidence_record v now ms b [] [] item = accepted"
    and old: "bundle_verdict v ?kvs (object_fields bundle) = accepted"
    by (auto simp: verify_evidence_attestation_def Let_def and_if_accepted_def accepted_def rejected_with_def
        split: if_splits sum.splits option.splits)
  have new: "bundle_verdict v ?kvs (object_fields (with_payload v payload bundle)) = accepted"
    using old assms(2)
    by (simp add: bundle_verdict_def Let_def verdict_simps with_payload_def get_field_def get_or_def attr_def bundle_digest_of_def is_object_def
        del: encodable.simps)
  have "is_object (with_payload v payload bundle)" by (simp add: with_payload_def is_object_def)
  with assms(1) valid new show ?thesis
    by (auto simp: verify_evidence_attestation_def Let_def and_if_accepted_def accepted_def rejected_with_def
        split: if_splits sum.splits option.splits)
qed

text \<open>Raw records count for nothing.\<close>

lemma judge_raw: "judge_items v c artifacts p superseded (map Raw xs) g = Inr g' \<Longrightarrow> gs_kinds g' = gs_kinds g"
proof (induction xs arbitrary: g)
  case (Cons x xs)
  then show ?case by (auto simp: rejecting_def dest: Cons.IH)
qed simp

lemma raw_decision:
  assumes "evaluate_release v (map Raw xs) c artifacts (Some p) = Inr d"
    and "kind \<in> set (po_one_zero_kinds p)" and "gate_code_for kind \<noteq> None"
  shows "\<not> de_one_zero d \<and> \<not> de_rc d"
proof -
  from assms(1) obtain superseded g where "judge_items v c artifacts p superseded (map Raw xs) fresh_gate = Inr g"
    and d: "d = decided v c artifacts p g" by (rule evaluated)
  from judge_raw [OF this(1)] have "gs_kinds g = []" by (simp add: fresh_gate_def)
  with assms(2,3) have "missing_gates (po_one_zero_kinds p) (gs_kinds g) \<noteq> []" by (auto simp: no_missing_gates)
  then show ?thesis by (simp add: d decided_def blocking_of_def Let_def)
qed

lemma tool_never_eligible:
  assumes "tool_decision v a = Inr (Some (d, artifacts))"
  shows "\<not> de_one_zero d \<and> \<not> de_rc d"
  using assms raw_decision [where p = default_release_policy and kind = "''SBOM''"]
  by (auto simp: tool_decision_def default_release_policy_def ONE_ZERO_REQUIRED_KINDS_def KIND_TO_GATE_CODE_def gate_code_for_def
      split: sum.splits)

text \<open>
  C40 (error): the release tooling hands the evaluator the records as it read them, so it never
  qualifies a candidate: no evaluation ends with success at any level, no final manifest is made,
  and every manifest it writes is of a blocked draft.
\<close>

theorem tooling_never_qualifies:
  "cmd_evaluate v a \<noteq> Inr 0 \<and>
   (\<forall>code doc. cmd_manifest v a = Inr (code, Some doc) \<longrightarrow>
      \<not> ra_final a \<and> attr doc ''release_status'' = jstr ''BLOCKED'' \<and> attr doc ''qualification_level'' = jstr ''draft'')"
  using tool_never_eligible [of v a]
  by (auto simp: cmd_evaluate_def cmd_manifest_def build_release_manifest_def release_manifest_body_def Let_def attr_def
      get_field_def get_or_def split: sum.splits option.splits if_splits)

text \<open>With the default policy a release candidate needs what a final release needs.\<close>

lemma rc_needs_everything:
  assumes "set (po_rc_kinds p) \<subseteq> set (po_one_zero_kinds p)" and "evaluate_release v evidence c artifacts (Some p) = Inr d"
  shows "de_rc d = de_one_zero d"
proof -
  from assms(2) obtain superseded g where d: "d = decided v c artifacts p g" by (rule evaluated)
  have "missing_gates (po_one_zero_kinds p) (gs_kinds g) = [] \<Longrightarrow> missing_gates (po_rc_kinds p) (gs_kinds g) = []"
    using assms(1) by (auto simp: no_missing_gates)
  then show ?thesis by (auto simp: d decided_def blocking_of_def Let_def)
qed

end
