(* ===== verification/Release_Witnesses.thy ===== *)
theory Release_Witnesses
  imports Release_Promises
begin

text \<open>
  A small policy, a candidate and two verified records that satisfy it, at which the properties
  of the gate are applied.
\<close>

section \<open>The size of an encoding\<close>

fun dump_bound :: "json \<Rightarrow> nat" where
  "dump_bound (JStr s) = 2 + 12 * length s"
| "dump_bound (JInt n) = length (dumps_int n)"
| "dump_bound (JFloat t) = length t"
| "dump_bound (JList xs) = 2 + sum_list (map (\<lambda>x. dump_bound x + 2) xs)"
| "dump_bound (JObj kvs) = 2 + sum_list (map (\<lambda>(k, v). 6 + 12 * length k + dump_bound v) kvs)"
| "dump_bound v = 5"

lemma length_ascii_escape: "length (ascii_escape c) \<le> 12"
  by (simp add: ascii_escape_def escape_cp_def unicode_escape_def cps_def)

lemma length_ascii_text: "length (ascii_text s) \<le> 2 + 12 * length s"
proof -
  have "length (concat (map ascii_escape s)) \<le> 12 * length s"
  proof (induction s)
    case (Cons c s)
    with length_ascii_escape [of c] show ?case by simp
  qed simp
  then show ?thesis by (simp add: ascii_text_def)
qed

lemma length_separated: "length (separated sep ts) \<le> sum_list (map (\<lambda>t. length t + length sep) ts)"
  by (induction sep ts rule: separated.induct) auto

lemma sum_over_sorted: "(sum_list (map g (sort_key f xs)) :: nat) = sum_list (map g xs)"
  by (metis mset_map mset_sort sum_mset_sum_list)

lemma length_dumps:
  assumes "length sep \<le> 2" and "length col \<le> 2"
  shows "length (ascii_dumps sep col v) \<le> dump_bound v"
proof (induction v)
  case (JStr s)
  then show ?case using length_ascii_text by simp
next
  case (JList xs)
  have "length (ascii_dumps sep col x) + length sep \<le> dump_bound x + 2" if "x \<in> set xs" for x
    using JList [OF that] assms(1) by simp
  then have "sum_list (map (\<lambda>t. length t + length sep) (map (ascii_dumps sep col) xs)) \<le> sum_list (map (\<lambda>x. dump_bound x + 2) xs)"
    unfolding map_map comp_def by (rule sum_list_mono)
  with length_separated [of sep "map (ascii_dumps sep col) xs"] show ?case by simp
next
  case (JObj kvs)
  let ?item = "\<lambda>(k, v). (k, ascii_text (cps k) @ col @ ascii_dumps sep col v)"
  have one: "length (snd (?item kv)) + length sep \<le> (case kv of (k, v) \<Rightarrow> 6 + 12 * length k + dump_bound v)" if "kv \<in> set kvs" for kv
  proof -
    obtain k v where kv: "kv = (k, v)" by (cases kv)
    have "length (ascii_dumps sep col v) \<le> dump_bound v" using JObj [of kv v] that kv by simp
    with length_ascii_text [of "cps k"] assms show ?thesis by (simp add: kv cps_def)
  qed
  have "sum_list (map (\<lambda>t. length t + length sep) (map snd (sort_key fst (map ?item kvs)))) =
      sum_list (map (\<lambda>kv. length (snd (?item kv)) + length sep) kvs)"
    by (simp only: map_map sum_over_sorted comp_def)
  also have "\<dots> \<le> sum_list (map (\<lambda>(k, v). 6 + 12 * length k + dump_bound v) kvs)"
    by (rule sum_list_mono) (rule one)
  finally show ?case using length_separated [of sep "map snd (sort_key fst (map ?item kvs))"] by simp
qed (simp_all add: cps_def)

section \<open>The installation\<close>

definition sample_digest :: pystr where
  "sample_digest = replicate 64 97"

definition release_sample :: release_env where
  "release_sample = \<lparr>re_sha = \<lambda>_. replicate 64 CHR ''a'', re_iso = \<lambda>s. if s = cps ''2026'' then Some (Aware 5) else None,
     re_clock = \<lambda>_. 9, re_shown = \<lambda>_. [], re_word = \<lambda>_. False\<rparr>"

definition small_policy :: release_policy where
  "small_policy = \<lparr>po_version = 3, po_rc_kinds = [], po_one_zero_kinds = [''SECURITY_REVIEW''],
     po_capabilities = [\<lparr>ca_capability = ''conversion'', ca_classification = ''EXPERIMENTAL'', ca_reason = []\<rparr>],
     po_mechanisms = APPROVED_VERIFICATION_MECHANISMS, po_max_age = 90, po_min_soak = 24\<rparr>"

definition sample_candidate :: candidate where
  "sample_candidate = \<lparr>cd_version = cps ''1.0'', cd_commit = cps ''c'', cd_ref = cps ''refs/tags/v1.0'',
     cd_repository = cps ''local'', cd_policy = cps ''sha256:'' @ sample_digest\<rparr>"

definition sample_evidence :: "string \<Rightarrow> string \<Rightarrow> fields \<Rightarrow> fields" where
  "sample_evidence i kind measurements =
    [(''evidence_schema_version'', JInt 2), (''evidence_id'', jstr i), (''kind'', jstr kind),
     (''release_candidate_version'', jstr ''1.0''), (''source_repository'', jstr ''local''), (''source_commit'', jstr ''c''),
     (''policy_digest'', JStr (cps ''sha256:'' @ sample_digest)), (''artifact_inventory_digest'', JStr (cps ''sha256:'' @ sample_digest)),
     (''artifact_subjects'', JList [JObj [(''sha256'', JStr sample_digest)]]), (''issuer'', JObj [(''type'', jstr ''ci''), (''identity'', jstr ''x'')]),
     (''issued_at'', jstr ''2026''), (''expires_at'', JNull),
     (''environment'', JObj [(''os'', jstr ''x''), (''architecture'', jstr ''x''), (''python'', jstr ''x''), (''runner'', jstr ''x'')]),
     (''result'', jstr ''PASS''), (''measurements'', JObj measurements), (''attachments'', JList []),
     (''verification'', JObj [(''mechanism'', jstr ''gh-attestation''), (''subject'', JStr sample_digest), (''verifier'', jstr ''x''),
        (''verified_at'', jstr ''2026''), (''bundle_digest'', JStr sample_digest)]),
     (''supersedes_evidence_id'', JNull)]"

definition verified_sample :: "json \<Rightarrow> evidence_item" where
  "verified_sample x = Verified \<lparr>ve_record = x, ve_mechanism = jstr ''gh-attestation'', ve_verifier = jstr ''x'',
     ve_verified_at = jstr ''2026'', ve_bundle_digest = JStr sample_digest\<rparr>"

definition sample_artifacts :: "artifact list" where
  "sample_artifacts = [\<lparr>ar_name = cps ''w.whl'', ar_sha256 = sample_digest, ar_size = 1, ar_media_type = [],
     ar_role = cps ''python-wheel''\<rparr>]"

definition review :: fields where
  "review = sample_evidence ''a'' ''SECURITY_REVIEW'' [(''review_scope'', jstr ''x'')]"

definition acceptance :: fields where
  "acceptance = sample_evidence ''b'' ''KNOWN_LIMITATION_ACCEPTANCE'' [(''capability'', jstr ''conversion'')]"

lemmas sample_defs = release_sample_def small_policy_def sample_candidate_def sample_evidence_def review_def acceptance_def

text \<open>The digest text is too plain to hold a secret.\<close>

lemma within_replicate: "\<not> prefix [c] needle \<Longrightarrow> needle \<noteq> [] \<Longrightarrow> \<not> within needle (replicate n c)"
proof (induction n)
  case (Suc n)
  then show ?case by (cases needle) auto
qed simp

lemma not_prefix_replicate [simp]: "c \<noteq> d \<Longrightarrow> \<not> prefix (c # s) (replicate n d)"
  by (cases n) auto

lemma digest_plain [simp]: "\<not> secret_text v sample_digest"
  unfolding secret_text_def sample_digest_def SECRET_TRIGGERS_def by (simp add: within_replicate cps_def)

lemma prefixed_plain [simp]: "\<not> secret_text v (cps ''sha256:'' @ sample_digest)"
  unfolding secret_text_def sample_digest_def SECRET_TRIGGERS_def by (simp add: within_replicate cps_def)

lemma digest_full [simp]: "is_full_sha256 (JStr sample_digest)" "length sample_digest = 64"
  by (simp_all add: bare_digest_def sample_digest_def cps_def hex_any_case_def hex_char_def list_all_iff)

lemma sha_sample: "sha256_of release_sample x = cps ''sha256:'' @ sample_digest"
  by (simp add: sha256_of_def release_sample_def sample_digest_def cps_def)

text \<open>Records of this shape are accepted when their measurements are in order.\<close>

lemma sample_envelope: "envelope_verdict (sample_evidence i kind m) = accepted"
  by (simp add: envelope_verdict_def verdict_simps sample_evidence_def get_field_def get_or_def MANDATORY_FIELDS_def field_types_def
      is_object_def absent_or_def jstr_def)

lemma sample_content:
  assumes "\<not> blank (cps i)" and "named EVIDENCE_KINDS (cps kind)" and "\<not> named ARTIFACT_BOUND_KINDS (cps kind)"
  shows "content_verdict (binding_of sample_candidate) (sample_evidence i kind m) = accepted"
  using assms
  by (simp add: content_verdict_def verdict_simps sample_evidence_def text_in_def get_field_def get_or_def jstr_def binding_of_def
      sample_candidate_def)

lemma sample_time: "time_verdict release_sample 9 [] [] (sample_evidence i kind m) = accepted"
  by (simp add: time_verdict_def verdict_simps sample_evidence_def get_field_def get_or_def jstr_def release_sample_def zulu_offset_def cps_def)

lemma sample_structure:
  assumes "kind_contract (cps kind) m"
  shows "structure_verdict release_sample 9 APPROVED_VERIFICATION_MECHANISMS (sample_evidence i kind m) = accepted"
  using assms
  by (simp add: structure_verdict_def verdict_simps issuer_verdict_def environment_verdict_def verification_verdict_def
      sample_evidence_def text_in_def get_field_def get_or_def jstr_def release_sample_def zulu_offset_def cps_def exactly_fields_def
      VERIFICATION_FIELDS_def ENVIRONMENT_FIELDS_def ISSUER_TYPES_def can_hash_def is_object_def one_of_def blank_def py_space_def
      APPROVED_VERIFICATION_MECHANISMS_def
      del: is_full_sha256.simps)

lemma sample_scan:
  assumes "\<not> contains_secret release_sample (JObj m)" and "\<not> secret_text release_sample (cps i)" and "\<not> secret_text release_sample (cps kind)"
    and "\<not> bounds_violation 1 (JObj m)" and "encodable (JObj m)" and "length m \<le> 4" and "dump_bound (JObj m) \<le> 10000"
    and "length i \<le> 99" and "length kind \<le> 99"
  shows "scan_verdict release_sample (sample_evidence i kind m) = accepted"
proof -
  let ?kvs = "sample_evidence i kind m"
  have plain: "\<not> secret_text release_sample (cps t)" if "t \<in> {''1.0'', ''local'', ''c'', ''ci'', ''x'', ''2026'', ''PASS'', ''gh-attestation''}" for t
    using that by (auto simp: secret_text_def SECRET_TRIGGERS_def cps_def)
  have secret: "\<not> contains_secret release_sample (JObj ?kvs)"
    using assms plain
    by (simp add: sample_evidence_def jstr_def forbidden_key_def FORBIDDEN_FRAGMENTS_def ascii_lower_def)
  have bounds: "\<not> bounds_violation 0 (JObj ?kvs)"
    using assms
    by (simp add: sample_evidence_def jstr_def MAX_NESTING_DEPTH_def MAX_STRING_LEN_def cps_def)
  have "dump_bound (JObj ?kvs) \<le> 1000000"
    using assms by (simp add: sample_evidence_def jstr_def cps_def dumps_int_def digits.simps)
  with length_dumps [of "cps '', ''" "cps '': ''" "JObj ?kvs"] have size: "length (ascii_dumps (cps '', '') (cps '': '') (JObj ?kvs)) \<le> 1000000"
    by (simp add: cps_def)
  have encodes: "encodable (JObj ?kvs)"
    using assms by (simp add: sample_evidence_def jstr_def)
  have parts: "object_fields (get_field ?kvs ''measurements'') = m" "list_of (get_field ?kvs ''artifact_subjects'') = [JObj [(''sha256'', JStr sample_digest)]]"
    "list_of (get_field ?kvs ''attachments'') = []"
    by (simp_all add: sample_evidence_def get_field_def get_or_def)
  have subject: "subject_digest_ok (JObj [(''sha256'', JStr sample_digest)])"
    by (simp add: subject_digest_ok_def is_object_def get_field_def get_or_def del: is_full_sha256.simps)
  show ?thesis
    unfolding scan_verdict_def verdict_simps parts
    using secret bounds size encodes subject assms(6)
    by (simp add: MAX_MEASUREMENT_KEYS_def MAX_SUBJECTS_def MAX_ATTACHMENTS_def MAX_RECORD_BYTES_def del: contains_secret.simps
        bounds_violation.simps encodable.simps ascii_dumps.simps)
qed

lemma sample_inventory: "inventory_verdict release_sample sample_artifacts (sample_evidence i kind m) = accepted"
proof -
  have "take 7 sample_digest = replicate 7 97" by (simp add: sample_digest_def)
  then have "bare_digest sample_digest = sample_digest"
    by (simp add: bare_digest_def sample_digest_def cps_def)
  moreover have "sample_digest \<noteq> []" by (simp add: sample_digest_def)
  ultimately show ?thesis
    by (simp add: inventory_verdict_def verdict_simps sample_evidence_def get_field_def get_or_def inventory_digest_def sha_sample
        sample_artifacts_def subject_sha_def text_or_empty_def)
qed

lemma sample_valid:
  assumes "kv \<in> {(review, ''a'', ''SECURITY_REVIEW''), (acceptance, ''b'', ''KNOWN_LIMITATION_ACCEPTANCE'')}"
  shows "validate_evidence_record release_sample 9 APPROVED_VERIFICATION_MECHANISMS (binding_of sample_candidate) [] [] (JObj (fst kv)) = accepted"
proof -
  from assms obtain m where kv: "fst kv = sample_evidence (fst (snd kv)) (snd (snd kv)) m"
    and m: "kv = (review, ''a'', ''SECURITY_REVIEW'') \<and> m = [(''review_scope'', jstr ''x'')] \<or>
      kv = (acceptance, ''b'', ''KNOWN_LIMITATION_ACCEPTANCE'') \<and> m = [(''capability'', jstr ''conversion'')]"
    by (auto simp: review_def acceptance_def)
  have content: "content_verdict (binding_of sample_candidate) (fst kv) = accepted"
    unfolding kv by (rule sample_content) (use m in \<open>auto simp: blank_def py_space_def cps_def named_def EVIDENCE_KINDS_def ARTIFACT_BOUND_KINDS_def\<close>)
  have scan: "scan_verdict release_sample (fst kv) = accepted"
    unfolding kv
    by (rule sample_scan) (use m in \<open>auto simp: jstr_def forbidden_key_def FORBIDDEN_FRAGMENTS_def ascii_lower_def secret_text_def
      SECRET_TRIGGERS_def cps_def MAX_NESTING_DEPTH_def MAX_STRING_LEN_def\<close>)
  have build: "structure_verdict release_sample 9 APPROVED_VERIFICATION_MECHANISMS (fst kv) = accepted"
    unfolding kv by (rule sample_structure) (use m in \<open>auto simp: kind_contract_def Let_def named_def cps_def get_field_def get_or_def
      jstr_def blank_def py_space_def\<close>)
  have "envelope_verdict (fst kv) = accepted" "time_verdict release_sample 9 [] [] (fst kv) = accepted"
    unfolding kv by (rule sample_envelope sample_time)+
  with content scan build show ?thesis
    by (simp add: validate_evidence_record_def and_if_accepted_def)
qed

section \<open>Witnesses\<close>

definition sample_items :: "evidence_item list" where
  "sample_items = [verified_sample (JObj review), verified_sample (JObj acceptance)]"

lemma sample_ids [simp]: "entry_id review = cps ''a''" "entry_id acceptance = cps ''b''"
  "entry_kind review = cps ''SECURITY_REVIEW''" "entry_kind acceptance = cps ''KNOWN_LIMITATION_ACCEPTANCE''"
  "entry_target review = []" "entry_target acceptance = []"
  "get_field review ''supersedes_evidence_id'' = JNull" "get_field acceptance ''supersedes_evidence_id'' = JNull"
  "get_field acceptance ''measurements'' = JObj [(''capability'', jstr ''conversion'')]"
  by (simp_all add: entry_id_def entry_kind_def entry_target_def text_in_def review_def acceptance_def sample_evidence_def
      get_field_def get_or_def jstr_def)

lemma sample_steady: "steady release_sample"
  by (simp add: steady_def release_sample_def)

lemma sample_item_verdict:
  "item_verdict release_sample sample_candidate sample_artifacts small_policy [] n []
     \<lparr>ve_record = JObj review, ve_mechanism = x, ve_verifier = y, ve_verified_at = z, ve_bundle_digest = u\<rparr> = accepted"
  "item_verdict release_sample sample_candidate sample_artifacts small_policy [] n []
     \<lparr>ve_record = JObj acceptance, ve_mechanism = x, ve_verifier = y, ve_verified_at = z, ve_bundle_digest = u\<rparr> = accepted"
  using sample_valid [of "(review, ''a'', ''SECURITY_REVIEW'')"] sample_valid [of "(acceptance, ''b'', ''KNOWN_LIMITATION_ACCEPTANCE'')"]
    sample_inventory
  by (simp_all add: item_verdict_def small_policy_def verdict_simps review_def acceptance_def) (simp_all add: release_sample_def)

lemma sample_rid: "rid_of release_sample (JObj review) = cps ''a''" "rid_of release_sample (JObj acceptance) = cps ''b''"
  by (simp_all add: rid_of_def label_of_def is_object_def attr_def review_def acceptance_def sample_evidence_def get_field_def get_or_def
      jstr_def cps_def)

lemma sample_judged_alone:
  "judged_alone release_sample sample_candidate sample_artifacts small_policy [] (verified_sample (JObj review)) =
     Inr \<lparr>gs_ids = [cps ''a''], gs_kinds = [cps ''SECURITY_REVIEW''], gs_covered = [], gs_rejected = [], gs_ticks = 1\<rparr>"
  "judged_alone release_sample sample_candidate sample_artifacts small_policy [] (verified_sample (JObj acceptance)) =
     Inr \<lparr>gs_ids = [cps ''b''], gs_kinds = [cps ''KNOWN_LIMITATION_ACCEPTANCE''], gs_covered = [cps ''conversion''],
       gs_rejected = [], gs_ticks = 1\<rparr>"
  by (simp_all add: judged_alone_def verified_sample_def fresh_gate_def sample_item_verdict [unfolded accepted_def] sample_rid Let_def
      covered_by_def attr_def) (simp_all add: cps_def jstr_def get_field_def get_or_def)

lemma sample_judged:
  "judge_items release_sample sample_candidate sample_artifacts small_policy [] sample_items fresh_gate =
     Inr \<lparr>gs_ids = [cps ''a'', cps ''b''], gs_kinds = [cps ''SECURITY_REVIEW'', cps ''KNOWN_LIMITATION_ACCEPTANCE''],
       gs_covered = [cps ''conversion''], gs_rejected = [], gs_ticks = 2\<rparr>"
proof -
  have "distinct (verified_ids sample_items)"
    by (simp add: sample_items_def verified_ids_def item_id_def verified_sample_def cps_def)
  from judge_items_gather [OF sample_steady this, where g = fresh_gate and superseded = "[]" and c = sample_candidate
      and artifacts = sample_artifacts and p = small_policy]
  show ?thesis
    by (simp add: sample_items_def sample_judged_alone outcome_alone_def gathered_def added_def del: judge_items.simps) (simp add: fresh_gate_def)
qed

lemma sample_evaluation:
  "\<exists>d. evaluate_release release_sample sample_items sample_candidate sample_artifacts (Some small_policy) = Inr d \<and> de_one_zero d"
proof -
  have targets: "collect_superseded_ids sample_items = Inr []"
    by (simp add: sample_items_def verified_sample_def attr_def)
  have "\<not> final_ref_violation sample_candidate"
    by (simp add: final_ref_violation_def sample_candidate_def final_tag_ref_def cps_def)
  then have "blocking_of release_sample sample_candidate small_policy \<lparr>gs_ids = [cps ''a'', cps ''b''],
      gs_kinds = [cps ''SECURITY_REVIEW'', cps ''KNOWN_LIMITATION_ACCEPTANCE''], gs_covered = [cps ''conversion''], gs_rejected = [],
      gs_ticks = 2\<rparr> = []"
    by (simp add: blocking_of_def policy_digest_def sha_sample missing_gates_def mandatory_capabilities_def limitation_capabilities_def
        LIMITATION_CLASSES_def small_policy_def) (simp add: sample_candidate_def)
  then show ?thesis
    by (simp add: evaluate_release_def targets sample_judged release_decision_def decided_def Let_def)
qed

theorem eligible_release_is_proven_witness:
  "\<exists>kvs. proven_by release_sample sample_candidate sample_artifacts small_policy sample_items kvs \<and> entry_kind kvs = cps ''SECURITY_REVIEW''"
proof -
  obtain d where "evaluate_release release_sample sample_items sample_candidate sample_artifacts (Some small_policy) = Inr d" "de_one_zero d"
    using sample_evaluation by blast
  from eligible_release_is_proven [OF this] show ?thesis
    by (simp add: small_policy_def gate_code_for_def KIND_TO_GATE_CODE_def)
qed

theorem decision_ignores_order_witness:
  "evaluate_release release_sample sample_items sample_candidate sample_artifacts None =
   evaluate_release release_sample (rev sample_items) sample_candidate sample_artifacts None"
  by (rule decision_ignores_order [OF sample_steady])
    (simp_all add: sample_items_def verified_ids_def item_id_def verified_sample_def cps_def)

lemma ends_at_once: "by_id parsed i = Some r \<Longrightarrow> entry_target r = [] \<Longrightarrow> \<not> cycles_from parsed [] i"
  by (subst cycles_from.simps) (simp add: cycles_from.simps [where current = "[]"])

theorem accepted_set_is_consistent_witness:
  "consistent_set [review, acceptance]"
proof -
  let ?parsed = "[review, acceptance]"
  have valid: "valid_entries release_sample (\<lambda>_. 9) (binding_of sample_candidate) 0 sample_items = Inr (?parsed, [])"
    using sample_valid [of "(review, ''a'', ''SECURITY_REVIEW'')"] sample_valid [of "(acceptance, ''b'', ''KNOWN_LIMITATION_ACCEPTANCE'')"]
    by (simp add: sample_items_def verified_sample_def is_object_def accepted_def)
  have "repeated_ids ?parsed = []" by (simp add: repeated_ids_def cps_def)
  moreover have "target_problems ?parsed = []" by (simp add: target_problems_def target_problem_def)
  moreover have "cycle_problems ?parsed = []"
    by (simp add: cycle_problems_def ends_at_once [where r = review] ends_at_once [where r = acceptance] by_id_def cps_def)
  moreover have "coverage_problems ?parsed = []"
    by (simp add: coverage_problems_def cps_def)
  ultimately have "validate_evidence_set release_sample (\<lambda>_. 9) (binding_of sample_candidate) sample_items = Inr (True, [])"
    by (simp add: validate_evidence_set_def valid Let_def)
  from accepted_set_is_consistent [OF this] show ?thesis by (simp add: sample_items_def verified_sample_def)
qed

definition sample_bundle :: json where
  "sample_bundle = JObj [(''mechanism'', jstr ''gh-attestation''), (''subject'', JStr sample_digest), (''payload'', JObj []),
     (''bundle_digest'', JStr (cps ''sha256:'' @ sample_digest))]"

theorem attestation_payload_is_unbound_witness:
  "\<exists>r. verify_evidence_attestation release_sample 9 APPROVED_VERIFICATION_MECHANISMS (binding_of sample_candidate) (JObj review)
     (with_payload release_sample [(''anything'', JBool True)] sample_bundle) = Inr r"
proof -
  have "\<exists>r. verify_evidence_attestation release_sample 9 APPROVED_VERIFICATION_MECHANISMS (binding_of sample_candidate) (JObj review)
     sample_bundle = Inr r"
  proof -
    have "bare_digest sample_digest = sample_digest" by (simp add: bare_digest_def sample_digest_def cps_def)
    moreover have "sample_digest \<noteq> []" by (simp add: sample_digest_def)
    ultimately have "bundle_verdict release_sample review (object_fields sample_bundle) = accepted"
      by (simp add: bundle_verdict_def verdict_simps sample_bundle_def review_def sample_evidence_def get_field_def get_or_def text_in_def
          is_object_def bundle_digest_of_def sha_sample subject_sha_def text_or_empty_def)
    with sample_valid [of "(review, ''a'', ''SECURITY_REVIEW'')"] show ?thesis
      by (simp add: verify_evidence_attestation_def and_if_accepted_def accepted_def is_object_def sample_bundle_def Let_def)
  qed
  then show ?thesis using attestation_payload_is_unbound [where payload = "[(''anything'', JBool True)]"] by fastforce
qed

definition sample_args :: release_args where
  "sample_args = \<lparr>ra_candidate = cps ''1.0'', ra_commit = replicate 40 97, ra_ref = cps ''refs/tags/v1.0'', ra_repository = cps ''local'',
     ra_evidence = None, ra_artifacts = None, ra_final = False, ra_sbom = None\<rparr>"

theorem tooling_never_qualifies_witness:
  "\<exists>doc. cmd_manifest release_sample sample_args = Inr (0, Some doc) \<and> attr doc ''release_status'' = jstr ''BLOCKED''"
proof -
  have "\<exists>d. tool_decision release_sample sample_args = Inr (Some (d, []))"
    by (simp add: tool_decision_def sample_args_def candidate_ok_def policy_digest_def sha_sample build_inventory_def loaded_evidence_def
        evaluate_release_def release_decision_def split_at_def cps_def sample_digest_def py_space_def hex_char_def list_all_iff list_ex_iff)
  then obtain d where d: "tool_decision release_sample sample_args = Inr (Some (d, []))" by blast
  have "\<not> ra_final sample_args" by (simp add: sample_args_def)
  with d have "\<exists>doc. cmd_manifest release_sample sample_args = Inr (0, Some doc)"
    by (simp add: cmd_manifest_def build_release_manifest_def Let_def)
  then show ?thesis using tooling_never_qualifies [of release_sample sample_args] by blast
qed

end
