(* ===== verification/Chat_Context.thy ===== *)
theory Chat_Context
  imports Requests
begin

text \<open>
  What of a conversation reaches the model (\<^verbatim>\<open>chat_context.py\<close>): the pinned
  instructions and the newest complete turns that fit, found by a binary search over the
  beginnings of the user's turns. A tokenizer counts when it can; an estimate replaces it
  otherwise.
\<close>

section \<open>Messages and counts\<close>

text \<open>The content is nothing when it is no text.\<close>

record chat_message =
  ms_role :: string
  ms_content :: "pystr option"

definition MAX_MESSAGES :: nat where "MAX_MESSAGES = 500"
definition MAX_CONTEXT_BYTES :: nat where "MAX_CONTEXT_BYTES = 4 * 1024 * 1024"
definition MAX_MESSAGE_BYTES :: nat where "MAX_MESSAGE_BYTES = 256 * 1024"
definition MAX_CONVERSATION :: nat where "MAX_CONVERSATION = 2010"

definition content_of :: "chat_message \<Rightarrow> pystr" where
  "content_of m = (case ms_content m of None \<Rightarrow> [] | Some s \<Rightarrow> s)"

definition message_bytes :: "chat_message \<Rightarrow> nat" where
  "message_bytes m = utf8_size (content_of m)"

definition message_cost :: "chat_message \<Rightarrow> nat" where
  "message_cost m = max 1 ((message_bytes m + 2) div 3) + 12"

definition estimate_tokens :: "chat_message list \<Rightarrow> int" where
  "estimate_tokens ms = int (sum_list (map message_cost ms)) + 8"

text \<open>A counter answers a number or raises; the one the service gives caches its answers.\<close>

type_synonym token_counter = "chat_message list \<Rightarrow> exn + int"

record context_plan =
  cp_messages :: "chat_message list"
  cp_included :: "nat list"
  cp_excluded :: "nat list"
  cp_tokens :: int
  cp_limit :: int
  cp_response :: int
  cp_estimated :: bool

definition plan_fits :: "context_plan \<Rightarrow> bool" where
  "plan_fits p \<longleftrightarrow> cp_tokens p \<le> cp_limit p"

definition context_error :: exn where
  "context_error = python_error ''ValueError''"

section \<open>Candidates\<close>

definition pinned :: "chat_message list \<Rightarrow> nat \<Rightarrow> bool" where
  "pinned items i \<longleftrightarrow> ms_role (items ! i) = ''system''"

definition turn_starts :: "chat_message list \<Rightarrow> nat list" where
  "turn_starts items = (let users = filter (\<lambda>i. ms_role (items ! i) = ''user'') [0..<length items] in
     if users = [] then [length items] else users)"

definition kept_indices :: "chat_message list \<Rightarrow> nat \<Rightarrow> nat list" where
  "kept_indices items start = filter (\<lambda>i. pinned items i \<or> start \<le> i) [0..<length items]"

definition kept_messages :: "chat_message list \<Rightarrow> nat \<Rightarrow> chat_message list" where
  "kept_messages items start = map (\<lambda>i. items ! i) (kept_indices items start)"

definition within_request :: "chat_message list \<Rightarrow> bool" where
  "within_request ms \<longleftrightarrow> length ms \<le> MAX_MESSAGES \<and> sum_list (map message_bytes ms) \<le> MAX_CONTEXT_BYTES \<and>
     list_all (\<lambda>m. message_bytes m \<le> MAX_MESSAGE_BYTES) ms"

text \<open>The count of a candidate, over the context when it is beyond a request's bounds.\<close>

definition candidate_count :: "token_counter option \<Rightarrow> int \<Rightarrow> chat_message list \<Rightarrow> exn + int" where
  "candidate_count counter context_size ms =
    (case (if \<not> within_request ms then Inr (context_size + 1)
           else case counter of None \<Rightarrow> Inr (estimate_tokens ms) | Some f \<Rightarrow> f ms) of
       Inl e \<Rightarrow> Inl e
     | Inr n \<Rightarrow> if n < 0 then Inl context_error else Inr n)"

definition candidate_fits :: "int \<Rightarrow> chat_message list \<Rightarrow> int \<Rightarrow> bool" where
  "candidate_fits limit ms n \<longleftrightarrow> within_request ms \<and> n \<le> limit"

section \<open>The search\<close>

function search_start :: "token_counter option \<Rightarrow> int \<Rightarrow> int \<Rightarrow> chat_message list \<Rightarrow> nat list \<Rightarrow> nat \<Rightarrow> nat \<Rightarrow> exn + nat" where
  "search_start counter context_size limit items starts low high =
    (if low < high then
       (let middle = (low + high) div 2; ms = kept_messages items (starts ! middle) in
        case candidate_count counter context_size ms of
          Inl e \<Rightarrow> Inl e
        | Inr n \<Rightarrow>
           if candidate_fits limit ms n then search_start counter context_size limit items starts low middle
           else search_start counter context_size limit items starts (Suc middle) high)
     else Inr low)"
  by pat_completeness auto

termination
  by (relation "measure (\<lambda>(_, _, _, _, _, low, high). high - low)") auto

declare search_start.simps [simp del]

definition plan_from :: "token_counter option \<Rightarrow> int \<Rightarrow> int \<Rightarrow> chat_message list \<Rightarrow> nat \<Rightarrow> int \<Rightarrow> context_plan" where
  "plan_from counter limit reserve items start n =
     \<lparr>cp_messages = kept_messages items start, cp_included = kept_indices items start,
      cp_excluded = filter (\<lambda>i. i \<notin> set (kept_indices items start)) [0..<length items],
      cp_tokens = n, cp_limit = limit, cp_response = reserve, cp_estimated = (counter = None)\<rparr>"

definition valid_conversation :: "chat_message list \<Rightarrow> bool" where
  "valid_conversation items \<longleftrightarrow> length items \<le> MAX_CONVERSATION \<and>
     list_all (\<lambda>m. ms_role m \<in> {''system'', ''user'', ''assistant''} \<and> ms_content m \<noteq> None) items"

text \<open>A lone surrogate has no UTF-8 encoding: \<^verbatim>\<open>UnicodeEncodeError\<close> is a \<^verbatim>\<open>ValueError\<close>.\<close>

definition encodable_conversation :: "chat_message list \<Rightarrow> bool" where
  "encodable_conversation items \<longleftrightarrow> list_all (\<lambda>m. \<not> list_ex surrogate (content_of m)) items"

definition bounded_reserve :: "int \<Rightarrow> int \<Rightarrow> int" where
  "bounded_reserve context_size reserve = min reserve (max 64 (context_size div 2))"

definition select_context :: "token_counter option \<Rightarrow> chat_message list \<Rightarrow> int \<Rightarrow> int \<Rightarrow> exn + context_plan" where
  "select_context counter items context_size asked =
    (let reserve = bounded_reserve context_size asked; limit = context_size - reserve; starts = turn_starts items in
     if context_size \<le> 0 \<or> asked \<le> 0 \<or> context_size \<le> reserve \<or> \<not> valid_conversation items \<or> \<not> encodable_conversation items
     then Inl context_error
     else let first = kept_messages items (starts ! 0) in
       case candidate_count counter context_size first of
         Inl e \<Rightarrow> Inl e
       | Inr n \<Rightarrow>
          if candidate_fits limit first n then Inr (plan_from counter limit reserve items (starts ! 0) n)
          else case search_start counter context_size limit items starts 0 (length starts - 1) of
            Inl e \<Rightarrow> Inl e
          | Inr k \<Rightarrow>
             (case candidate_count counter context_size (kept_messages items (starts ! k)) of
                Inl e \<Rightarrow> Inl e
              | Inr n' \<Rightarrow> Inr (plan_from counter limit reserve items (starts ! k) n')))"

section \<open>The service\<close>

text \<open>
  \<open>cc_template\<close> and \<open>cc_tokenize\<close> are the two calls of the model's server: the fields of
  the object it answers, or the exception the call ends with (a refused connection, the
  deadline, a response beyond its bounds, no object, a cancellation). \<open>cc_transport\<close> says which
  exceptions are errors of the system or of the HTTP library, \<open>cc_cancelled\<close> is the exception of
  a cancellation that was asked for when the count has failed.
\<close>

record context_service =
  cc_template :: "chat_message list \<Rightarrow> exn + fields"
  cc_tokenize :: "pystr \<Rightarrow> exn + fields"
  cc_transport :: "exn \<Rightarrow> bool"
  cc_cancelled :: "exn option"

definition MAX_TOKENS :: nat where "MAX_TOKENS = 1000000"

fun token_id :: "json \<Rightarrow> bool" where
  "token_id (JInt t) \<longleftrightarrow> 0 \<le> t"
| "token_id v \<longleftrightarrow> False"

definition tokenizer_count :: "context_service \<Rightarrow> token_counter" where
  "tokenizer_count v selected =
    (case cc_template v selected of
       Inl e \<Rightarrow> Inl e
     | Inr rendered \<Rightarrow>
        (case get_field rendered ''prompt'' of
           JStr prompt \<Rightarrow>
             if list_ex surrogate prompt then Inl (python_error ''UnicodeEncodeError'')
             else if MAX_CONTEXT_BYTES < utf8_size prompt then Inl context_error
             else (case cc_tokenize v prompt of
               Inl e \<Rightarrow> Inl e
             | Inr result \<Rightarrow>
                (case get_field result ''tokens'' of
                   JList tokens \<Rightarrow> if MAX_TOKENS < length tokens \<or> \<not> list_all token_id tokens then Inl context_error
                     else Inr (int (length tokens))
                 | _ \<Rightarrow> Inl context_error))
         | _ \<Rightarrow> Inl context_error))"

definition tokenizer_failure :: "context_service \<Rightarrow> exn \<Rightarrow> bool" where
  "tokenizer_failure v e \<longleftrightarrow> cc_transport v e \<or>
     exn_class e \<in> {''ValueError'', ''UnicodeEncodeError'', ''UnicodeDecodeError'', ''JSONDecodeError'', ''TypeError''}"

definition prepare_context :: "context_service \<Rightarrow> int \<Rightarrow> int \<Rightarrow> chat_message list \<Rightarrow> int \<Rightarrow> exn + context_plan" where
  "prepare_context v current_ctx server_port items response =
    (let context_size = (if current_ctx = 0 then 8192 else current_ctx);
         port = (if server_port = 0 then 8080 else server_port) in
     if \<not> (1 \<le> port \<and> port \<le> 65535) then Inl context_error
     else case select_context (Some (tokenizer_count v)) items context_size response of
       Inr p \<Rightarrow> Inr p
     | Inl e \<Rightarrow>
        if \<not> tokenizer_failure v e then Inl e
        else case cc_cancelled v of
          Some c \<Rightarrow> Inl c
        | None \<Rightarrow> select_context None items context_size response)"

end
