(* ===== verification/Chat_Promises.thy ===== *)
theory Chat_Promises
  imports Chat_Context
begin

text \<open>
  The binary search finds the longest suffix of turns that fits, for every counter that counts
  less when less is kept, and asks the counter a dozen times at most.
\<close>

section \<open>Keeping less\<close>

lemma kept_less:
  assumes "s \<le> s'"
  shows "kept_indices items s' = filter (\<lambda>i. pinned items i \<or> s' \<le> i) (kept_indices items s)"
  using assms by (auto simp: kept_indices_def intro!: filter_cong)

lemma filtered_sum: "sum_list (map f (filter P xs)) \<le> (sum_list (map f xs) :: nat)"
  by (induction xs) auto

lemma kept_messages_less:
  assumes "s \<le> s'"
  shows "length (kept_messages items s') \<le> length (kept_messages items s)"
    and "sum_list (map f (kept_messages items s')) \<le> (sum_list (map f (kept_messages items s)) :: nat)"
    and "set (kept_messages items s') \<subseteq> set (kept_messages items s)"
  using filtered_sum [where f = "\<lambda>i. f (items ! i)" and P = "\<lambda>i. pinned items i \<or> s' \<le> i" and xs = "kept_indices items s"]
  by (auto simp: kept_messages_def kept_less [OF assms] comp_def)

lemma within_less: "s \<le> s' \<Longrightarrow> within_request (kept_messages items s) \<Longrightarrow> within_request (kept_messages items s')"
  using kept_messages_less(1,3) [of s s' items] kept_messages_less(2) [of s s' message_bytes items]
  by (fastforce simp: within_request_def list_all_iff)

text \<open>A counter that never fails and counts no more when less is kept.\<close>

definition orderly :: "token_counter option \<Rightarrow> chat_message list \<Rightarrow> bool" where
  "orderly counter items \<longleftrightarrow> (case counter of None \<Rightarrow> True
     | Some f \<Rightarrow> (\<forall>s s'. s \<le> s' \<longrightarrow> (\<exists>n n'. f (kept_messages items s) = Inr n \<and> f (kept_messages items s') = Inr n' \<and> 0 \<le> n' \<and> n' \<le> n)))"

lemma orderlyD:
  assumes "orderly (Some f) items" and "s \<le> s'"
  obtains n n' where "f (kept_messages items s) = Inr n" "f (kept_messages items s') = Inr n'" "0 \<le> n'" "n' \<le> n"
  using assms unfolding orderly_def option.case by blast

lemma orderly_count: "orderly (Some f) items \<Longrightarrow> \<exists>n. f (kept_messages items s) = Inr n \<and> 0 \<le> n"
  by (erule orderlyD [OF _ order_refl, where s = s]) auto

definition count_at :: "token_counter option \<Rightarrow> int \<Rightarrow> chat_message list \<Rightarrow> nat \<Rightarrow> int" where
  "count_at counter context_size items s = (case candidate_count counter context_size (kept_messages items s) of Inl e \<Rightarrow> 0 | Inr n \<Rightarrow> n)"

definition fits_at :: "token_counter option \<Rightarrow> int \<Rightarrow> int \<Rightarrow> chat_message list \<Rightarrow> nat \<Rightarrow> bool" where
  "fits_at counter context_size limit items s \<longleftrightarrow>
     candidate_fits limit (kept_messages items s) (count_at counter context_size items s)"

lemma counted:
  assumes "orderly counter items" and "0 < context_size"
  shows "candidate_count counter context_size (kept_messages items s) = Inr (count_at counter context_size items s)"
proof (cases counter)
  case None
  then show ?thesis using assms(2) by (simp add: candidate_count_def count_at_def estimate_tokens_def)
next
  case (Some f)
  then obtain n where "f (kept_messages items s) = Inr n" "0 \<le> n"
    using assms(1) orderly_count by blast
  with Some assms(2) show ?thesis by (simp add: candidate_count_def count_at_def)
qed

lemma count_within:
  assumes "orderly counter items" and "0 < context_size" and "within_request (kept_messages items s)"
  shows "(case counter of None \<Rightarrow> count_at counter context_size items s = estimate_tokens (kept_messages items s)
    | Some f \<Rightarrow> f (kept_messages items s) = Inr (count_at counter context_size items s))"
  using counted [OF assms(1,2), of s] assms(3)
  by (auto simp: candidate_count_def split: option.splits sum.splits if_splits)

lemma fits_less:
  assumes "orderly counter items" and "0 < context_size" and "s \<le> s'" and "fits_at counter context_size limit items s"
  shows "fits_at counter context_size limit items s'"
proof -
  from assms(4) have here: "within_request (kept_messages items s)" "count_at counter context_size items s \<le> limit"
    by (simp_all add: fits_at_def candidate_fits_def)
  from within_less [OF assms(3) here(1)] have there: "within_request (kept_messages items s')" .
  have "count_at counter context_size items s' \<le> count_at counter context_size items s"
  proof (cases counter)
    case None
    then show ?thesis
      using count_within [OF assms(1,2) here(1)] count_within [OF assms(1,2) there] kept_messages_less(2) [OF assms(3), where f = message_cost]
      by (simp add: estimate_tokens_def)
  next
    case (Some f)
    from assms(1) obtain n n' where "f (kept_messages items s) = Inr n" "f (kept_messages items s') = Inr n'" "n' \<le> n"
      unfolding Some by (rule orderlyD [OF _ assms(3)])
    with Some show ?thesis using count_within [OF assms(1,2) here(1)] count_within [OF assms(1,2) there] by simp
  qed
  with here(2) there show ?thesis by (simp add: fits_at_def candidate_fits_def)
qed

section \<open>The search\<close>

lemma search_finds:
  assumes "orderly counter items" and "0 < context_size"
    and "\<And>i j. i \<le> j \<Longrightarrow> j \<le> high \<Longrightarrow> starts ! i \<le> starts ! j" and "low \<le> high"
  shows "\<exists>k. search_start counter context_size limit items starts low high = Inr k \<and> low \<le> k \<and> k \<le> high \<and>
    (\<forall>j. low \<le> j \<longrightarrow> j < k \<longrightarrow> \<not> fits_at counter context_size limit items (starts ! j)) \<and>
    (k < high \<longrightarrow> fits_at counter context_size limit items (starts ! k))"
  using assms
proof (induction counter context_size limit items starts low high rule: search_start.induct)
  case (1 counter context_size limit items starts low high)
  let ?fits = "\<lambda>j. fits_at counter context_size limit items (starts ! j)"
  let ?middle = "(low + high) div 2"
  let ?n = "count_at counter context_size items (starts ! ?middle)"
  note step = search_start.simps [of counter context_size limit items starts low high]
  note count = counted [OF "1.prems"(1,2), of "starts ! ?middle"]
  show ?case
  proof (cases "low < high")
    case False
    then have "search_start counter context_size limit items starts low high = Inr low" by (subst step) simp
    with False "1.prems"(4) show ?thesis by auto
  next
    case True
    then have middle: "low \<le> ?middle" "?middle < high" by auto
    have up: "?fits j'" if "?fits j" "j \<le> j'" "j' \<le> high" for j j'
      using fits_less [OF "1.prems"(1,2) "1.prems"(3) [OF that(2,3)] that(1)] .
    show ?thesis
    proof (cases "?fits ?middle")
      case fits: True
      then have next_step: "search_start counter context_size limit items starts low high =
          search_start counter context_size limit items starts low ?middle"
        using True by (simp add: step count fits_at_def Let_def)
      have "\<exists>k. search_start counter context_size limit items starts low ?middle = Inr k \<and> low \<le> k \<and> k \<le> ?middle \<and>
          (\<forall>j. low \<le> j \<longrightarrow> j < k \<longrightarrow> \<not> ?fits j) \<and> (k < ?middle \<longrightarrow> ?fits k)"
        by (rule "1.IH"(1) [OF True refl refl count])
          (use fits "1.prems" middle in \<open>auto simp: fits_at_def\<close>)
      with next_step fits middle show ?thesis by (metis le_neq_implies_less less_imp_le order_trans)
    next
      case miss: False
      then have next_step: "search_start counter context_size limit items starts low high =
          search_start counter context_size limit items starts (Suc ?middle) high"
        using True by (simp add: step count fits_at_def Let_def)
      have "\<exists>k. search_start counter context_size limit items starts (Suc ?middle) high = Inr k \<and> Suc ?middle \<le> k \<and> k \<le> high \<and>
          (\<forall>j. Suc ?middle \<le> j \<longrightarrow> j < k \<longrightarrow> \<not> ?fits j) \<and> (k < high \<longrightarrow> ?fits k)"
        by (rule "1.IH"(2) [OF True refl refl count])
          (use miss "1.prems" middle in \<open>auto simp: fits_at_def\<close>)
      then obtain k where k: "search_start counter context_size limit items starts (Suc ?middle) high = Inr k" "Suc ?middle \<le> k" "k \<le> high"
        "\<And>j. Suc ?middle \<le> j \<Longrightarrow> j < k \<Longrightarrow> \<not> ?fits j" "k < high \<Longrightarrow> ?fits k" by blast
      have "\<not> ?fits j" if "low \<le> j" "j < k" for j
      proof (cases "Suc ?middle \<le> j")
        case True
        with k(4) that show ?thesis by blast
      next
        case False
        with up [of j ?middle] miss middle show ?thesis by auto
      qed
      with next_step k middle show ?thesis by auto
    qed
  qed
qed

section \<open>The selection\<close>

lemma turn_starts_nonempty: "turn_starts items \<noteq> []"
  by (simp add: turn_starts_def Let_def)

lemma turn_starts_ascend: "i \<le> j \<Longrightarrow> j < length (turn_starts items) \<Longrightarrow> turn_starts items ! i \<le> turn_starts items ! j"
proof -
  have "sorted (turn_starts items)" by (auto simp: turn_starts_def Let_def intro: sorted_wrt_filter)
  then show "i \<le> j \<Longrightarrow> j < length (turn_starts items) \<Longrightarrow> turn_starts items ! i \<le> turn_starts items ! j"
    by (rule sorted_nth_mono)
qed

text \<open>
  The specification: of the beginnings of turns, in order, the first from which everything fits,
  or the last when none does.
\<close>

definition longest_suffix :: "(nat \<Rightarrow> bool) \<Rightarrow> nat list \<Rightarrow> nat" where
  "longest_suffix fits starts = (case find fits starts of None \<Rightarrow> last starts | Some s \<Rightarrow> s)"

definition reference_context :: "token_counter option \<Rightarrow> chat_message list \<Rightarrow> int \<Rightarrow> int \<Rightarrow> exn + context_plan" where
  "reference_context counter items context_size asked =
    (let reserve = bounded_reserve context_size asked; limit = context_size - reserve in
     if context_size \<le> 0 \<or> asked \<le> 0 \<or> context_size \<le> reserve \<or> \<not> valid_conversation items \<or> \<not> encodable_conversation items
     then Inl context_error
     else let start = longest_suffix (fits_at counter context_size limit items) (turn_starts items) in
       Inr (plan_from counter limit reserve items start (count_at counter context_size items start)))"

lemma longest_suffix_at:
  assumes "k < length starts" and "\<And>j. j < k \<Longrightarrow> \<not> fits (starts ! j)" and "fits (starts ! k) \<or> Suc k = length starts"
  shows "longest_suffix fits starts = starts ! k"
proof (cases "fits (starts ! k)")
  case True
  with assms(1,2) have "find fits starts = Some (starts ! k)" by (auto simp: find_Some_iff)
  then show ?thesis by (simp add: longest_suffix_def)
next
  case False
  with assms(2,3) have "\<not> fits (starts ! i)" if "i < length starts" for i using that by (metis less_antisym)
  then have "find fits starts = None" by (auto simp: find_None_iff in_set_conv_nth)
  moreover have "last starts = starts ! k" using assms(3) False by (metis diff_Suc_1 last_conv_nth length_0_conv old.nat.distinct(1))
  ultimately show ?thesis by (simp add: longest_suffix_def)
qed

text \<open>
  C21 (equivalence): with the estimate, and with every counter that counts no more when less is
  kept, the binary search selects what the linear search of the specification selects: the pinned
  messages and the longest suffix of complete turns that fits, or the newest turn alone when
  none does.
\<close>

theorem selection_is_the_longest_suffix:
  assumes "orderly counter items"
  shows "select_context counter items context_size asked = reference_context counter items context_size asked"
proof -
  define reserve where "reserve = bounded_reserve context_size asked"
  define limit where "limit = context_size - reserve"
  let ?starts = "turn_starts items"
  let ?fits = "\<lambda>j. fits_at counter context_size limit items (?starts ! j)"
  let ?bad = "context_size \<le> 0 \<or> asked \<le> 0 \<or> context_size \<le> reserve \<or> \<not> valid_conversation items \<or> \<not> encodable_conversation items"
  show ?thesis
  proof (cases ?bad)
    case True
    then show ?thesis unfolding select_context_def reference_context_def Let_def reserve_def by simp
  next
    case good: False
    then have size: "0 < context_size" by simp
    note count = counted [OF assms size]
    have nonempty: "0 < length ?starts" using turn_starts_nonempty by simp
    have ascend: "?starts ! i \<le> ?starts ! j" if "i \<le> j" "j \<le> length ?starts - 1" for i j
    proof -
      have "j < length ?starts" using that(2) nonempty by linarith
      with that(1) show ?thesis by (rule turn_starts_ascend)
    qed
    from search_finds [OF assms size ascend le0] obtain k
      where k: "search_start counter context_size limit items ?starts 0 (length ?starts - 1) = Inr k" "k \<le> length ?starts - 1"
      "\<And>j. j < k \<Longrightarrow> \<not> ?fits j" "k < length ?starts - 1 \<Longrightarrow> ?fits k" by blast
    have "longest_suffix (fits_at counter context_size limit items) ?starts = ?starts ! (if ?fits 0 then 0 else k)"
    proof (rule longest_suffix_at)
      from k(2) nonempty have at_end: "k < length ?starts" "k < length ?starts - 1 \<or> Suc k = length ?starts" by linarith+
      then show "(if ?fits 0 then 0 else k) < length ?starts" using nonempty by simp
      show "?fits (if ?fits 0 then 0 else k) \<or> Suc (if ?fits 0 then 0 else k) = length ?starts"
        using at_end(2) k(4) by (cases "?fits 0") auto
      show "\<not> ?fits j" if "j < (if ?fits 0 then 0 else k)" for j
        using that k(3) by (cases "?fits 0") auto
    qed
    then show ?thesis
      using good k(1) unfolding select_context_def reference_context_def Let_def reserve_def [symmetric] limit_def [symmetric]
      by (simp add: count fits_at_def)
  qed
qed

section \<open>How often the counter is asked\<close>

lemma search_asks:
  assumes "high - low < 2 ^ d"
  shows "\<exists>asked. length asked \<le> d \<and> (\<forall>g. (\<forall>ms \<in> set asked. g ms = f ms) \<longrightarrow>
    search_start (Some g) context_size limit items starts low high = search_start (Some f) context_size limit items starts low high)"
  using assms
proof (induction d arbitrary: low high)
  case 0
  then show ?case by (intro exI [of _ "[]"]) (simp add: search_start.simps [where low = low])
next
  case (Suc d)
  let ?middle = "(low + high) div 2"
  let ?ms = "kept_messages items (starts ! ?middle)"
  have halves: "?middle - low < 2 ^ d" "high - Suc ?middle < 2 ^ d" using Suc.prems by auto
  obtain left right where left: "length left \<le> d" "\<And>g. (\<forall>ms \<in> set left. g ms = f ms) \<Longrightarrow>
      search_start (Some g) context_size limit items starts low ?middle = search_start (Some f) context_size limit items starts low ?middle"
    and right: "length right \<le> d" "\<And>g. (\<forall>ms \<in> set right. g ms = f ms) \<Longrightarrow>
      search_start (Some g) context_size limit items starts (Suc ?middle) high = search_start (Some f) context_size limit items starts (Suc ?middle) high"
    using Suc.IH [OF halves(1)] Suc.IH [OF halves(2)] by blast
  define asked where "asked = ?ms # (case candidate_count (Some f) context_size ?ms of Inl e \<Rightarrow> []
    | Inr n \<Rightarrow> if candidate_fits limit ?ms n then left else right)"
  have "search_start (Some g) context_size limit items starts low high = search_start (Some f) context_size limit items starts low high"
    if same: "\<forall>ms \<in> set asked. g ms = f ms" for g
  proof -
    have count: "candidate_count (Some g) context_size ?ms = candidate_count (Some f) context_size ?ms"
      using same by (simp add: asked_def candidate_count_def)
    note steps = search_start.simps [of "Some g" context_size limit items starts low high]
      search_start.simps [of "Some f" context_size limit items starts low high]
    show ?thesis
    proof (cases "candidate_count (Some f) context_size ?ms")
      case (Inl e)
      with count show ?thesis by (simp add: steps Let_def)
    next
      case (Inr n)
      show ?thesis
      proof (cases "candidate_fits limit ?ms n")
        case True
        with same Inr have "\<forall>ms \<in> set left. g ms = f ms" by (simp add: asked_def)
        from left(2) [OF this] True show ?thesis unfolding steps Let_def count Inr sum.case by simp
      next
        case False
        with same Inr have "\<forall>ms \<in> set right. g ms = f ms" by (simp add: asked_def)
        from right(2) [OF this] False show ?thesis unfolding steps Let_def count Inr sum.case by simp
      qed
    qed
  qed
  moreover have "length asked \<le> Suc d" using left(1) right(1) by (auto simp: asked_def split: sum.split)
  ultimately show ?case by blast
qed

text \<open>
  (bounds): however long the conversation, a tokenizer is asked about thirteen selections at
  most: the answers to any other question do not change the plan.
\<close>

theorem few_selections_are_counted:
  "\<exists>asked. length asked \<le> 13 \<and> (\<forall>g. (\<forall>ms \<in> set asked. g ms = f ms) \<longrightarrow>
     select_context (Some g) items context_size response = select_context (Some f) items context_size response)"
proof (cases "length items \<le> MAX_CONVERSATION")
  case False
  then have "select_context (Some g) items context_size response = Inl context_error" for g
    by (simp add: select_context_def Let_def valid_conversation_def)
  then show ?thesis by (intro exI [of _ "[]"]) simp
next
  case True
  define limit where "limit = context_size - bounded_reserve context_size response"
  let ?starts = "turn_starts items"
  let ?kept = "\<lambda>k. kept_messages items (?starts ! k)"
  have "length ?starts \<le> max 1 (length items)"
    by (auto simp: turn_starts_def Let_def intro: order_trans [OF length_filter_le])
  with True have "length ?starts - 1 - 0 < 2 ^ 11" by (simp add: MAX_CONVERSATION_def)
  from search_asks [OF this, of f context_size limit items ?starts] obtain asked where asked: "length asked \<le> 11"
    "\<And>g. (\<forall>ms \<in> set asked. g ms = f ms) \<Longrightarrow> search_start (Some g) context_size limit items ?starts 0 (length ?starts - 1) =
      search_start (Some f) context_size limit items ?starts 0 (length ?starts - 1)" by blast
  define all where "all = ?kept 0 # asked @ (case search_start (Some f) context_size limit items ?starts 0 (length ?starts - 1) of
    Inl e \<Rightarrow> [] | Inr k \<Rightarrow> [?kept k])"
  have "length all \<le> 13" using asked(1) by (auto simp: all_def split: sum.split)
  moreover have "select_context (Some g) items context_size response = select_context (Some f) items context_size response"
    if same: "\<forall>ms \<in> set all. g ms = f ms" for g
  proof -
    have search: "search_start (Some g) context_size limit items ?starts 0 (length ?starts - 1) =
        search_start (Some f) context_size limit items ?starts 0 (length ?starts - 1)"
      by (rule asked(2)) (use same in \<open>auto simp: all_def\<close>)
    have first: "candidate_count (Some g) context_size (?kept 0) = candidate_count (Some f) context_size (?kept 0)"
      using same by (simp add: all_def candidate_count_def)
    have "candidate_count (Some g) context_size (?kept k) = candidate_count (Some f) context_size (?kept k)"
      if "search_start (Some f) context_size limit items ?starts 0 (length ?starts - 1) = Inr k" for k
      using same that by (auto simp: all_def candidate_count_def)
    then show ?thesis
      unfolding select_context_def Let_def limit_def [symmetric] search first
      by (auto simp: plan_from_def split: sum.split)
  qed
  ultimately show ?thesis by blast
qed

section \<open>Witnesses\<close>

definition one_each :: token_counter where
  "one_each ms = Inr (int (length ms))"

lemma one_each_orderly: "orderly (Some one_each) items"
  using kept_messages_less(1) by (auto simp: orderly_def one_each_def)

definition short_talk :: "chat_message list" where
  "short_talk = [\<lparr>ms_role = ''system'', ms_content = Some (cps ''x'')\<rparr>, \<lparr>ms_role = ''user'', ms_content = Some (cps ''y'')\<rparr>]"

theorem selection_is_the_longest_suffix_witness:
  "select_context (Some one_each) short_talk 4096 512 = reference_context (Some one_each) short_talk 4096 512"
  by (rule selection_is_the_longest_suffix [OF one_each_orderly])

theorem few_selections_are_counted_witness:
  "\<exists>asked. length asked \<le> 13 \<and> (\<forall>g. (\<forall>ms \<in> set asked. g ms = one_each ms) \<longrightarrow>
     select_context (Some g) short_talk 4096 512 = select_context (Some one_each) short_talk 4096 512)"
  by (rule few_selections_are_counted)

end
