(* ===== verification/Supervisor.thy ===== *)
theory Supervisor
  imports Requests Complex_Main
begin

text \<open>
  The supervisor of a running model: the idle policy it applies
  (\<^verbatim>\<open>idle_policy.py\<close>), what it can tell of the activity of requests, and the loop that
  owns the child process (\<^verbatim>\<open>runtime_policy.py\<close>).
\<close>

section \<open>The idle policy\<close>

record idle_profile =
  ip_profile :: ident
  ip_revision :: int
  ip_policy :: string
  ip_stop_after :: "int option"

text \<open>
  What the decision reads: the profile and revision that run, the idle policy recorded when they
  were applied, the row of the profile as it is now, and whether operations are active.
\<close>

record idle_facts =
  if_profile :: "ident option"
  if_revision :: "int option"
  if_applied :: "idle_profile option"
  if_row :: "idle_profile option"
  if_operations :: bool

datatype idle_action = STOP_NOW | NO_ACTION

record idle_decision =
  id_policy :: string
  id_action :: idle_action
  id_reason :: string
  id_idle :: "int option"
  id_threshold :: "int option"

definition stays :: "string \<Rightarrow> string \<Rightarrow> int option \<Rightarrow> idle_decision" where
  "stays policy reason threshold =
     \<lparr>id_policy = policy, id_action = NO_ACTION, id_reason = reason, id_idle = None, id_threshold = threshold\<rparr>"

definition idle_profile_of :: "idle_facts \<Rightarrow> idle_profile option" where
  "idle_profile_of f = (case if_applied f of
     Some a \<Rightarrow> if Some (ip_profile a) = if_profile f \<and> Some (ip_revision a) = if_revision f then Some a
       else (if text_or (if_profile f) [] = [] then None else if_row f)
   | None \<Rightarrow> if text_or (if_profile f) [] = [] then None else if_row f)"

text \<open>The running revision is not the one the profile has.\<close>

definition stale_profile :: "idle_facts \<Rightarrow> bool" where
  "stale_profile f = (case idle_profile_of f of None \<Rightarrow> False | Some p \<Rightarrow> if_revision f \<noteq> Some (ip_revision p))"

text \<open>
  \<open>requests\<close> is the number of active requests when it is known; an instant is nothing when its
  text has no valid form. Truncation of an idle time to seconds is that of the instants.
\<close>

definition evaluate_idle :: "idle_facts \<Rightarrow> bool \<Rightarrow> instant option \<Rightarrow> instant option \<Rightarrow> bool \<Rightarrow> int option \<Rightarrow> idle_decision" where
  "evaluate_idle f server_active now last_request desktop requests =
    (let profile = idle_profile_of f;
         policy = (case profile of None \<Rightarrow> ''KEEP_LOADED'' | Some p \<Rightarrow> ip_policy p);
         threshold = (case profile of None \<Rightarrow> 0 | Some p \<Rightarrow> (case ip_stop_after p of None \<Rightarrow> 0 | Some m \<Rightarrow> m) * 60) in
     if stale_profile f then stays policy ''APPLIED_PROFILE_REVISION_UNAVAILABLE'' None
     else if \<not> server_active then stays policy ''SERVER_ALREADY_STOPPED'' None
     else if if_operations f then stays policy ''ACTIVE_OPERATION'' None
     else if desktop \<and> policy = ''STOP_ON_DESKTOP''
       then \<lparr>id_policy = policy, id_action = STOP_NOW, id_reason = ''DESKTOP_MODE'', id_idle = None, id_threshold = None\<rparr>
     else if policy = ''STOP_ON_DESKTOP'' then stays policy ''WAITING_FOR_DESKTOP'' None
     else if policy = ''KEEP_LOADED'' then stays policy ''KEEP_LOADED_CURRENT_BOOT'' None
     else case requests of
       None \<Rightarrow> stays policy ''REQUEST_ACTIVITY_UNKNOWN'' (Some threshold)
     | Some n \<Rightarrow>
        if 0 < n then stays policy ''REQUESTS_ACTIVE'' (Some threshold)
        else case (last_request, now) of
          (Some observed, Some t) \<Rightarrow>
            (let idle = max 0 (t - observed) in
             if idle < threshold then \<lparr>id_policy = policy, id_action = NO_ACTION, id_reason = ''IDLE_INTERVAL_NOT_REACHED'',
               id_idle = Some idle, id_threshold = Some threshold\<rparr>
             else \<lparr>id_policy = policy, id_action = STOP_NOW, id_reason = ''STOP_AFTER_ELAPSED'',
               id_idle = Some idle, id_threshold = Some threshold\<rparr>)
        | _ \<Rightarrow> stays policy ''REQUEST_ACTIVITY_UNKNOWN'' (Some threshold))"

section \<open>Activity of requests\<close>

text \<open>
  The counters of the backend, by the words of each line of its metrics page; \<open>float_of\<close> is
  \<^verbatim>\<open>float\<close> of a text: an exception, no finite number, or the number.
\<close>

datatype metric = NotFinite | Number rat

definition METRIC_NAMES :: "string list" where
  "METRIC_NAMES = [''llamacpp:requests_processing'', ''llamacpp:requests_deferred'',
     ''llamacpp:prompt_tokens_total'', ''llamacpp:tokens_predicted_total'']"

fun read_metrics :: "(pystr \<Rightarrow> metric option) \<Rightarrow> pystr list list \<Rightarrow> (pystr \<times> metric) list \<Rightarrow> (pystr \<times> metric) list option" where
  "read_metrics float_of [] values = Some values"
| "read_metrics float_of (words # lines) values =
    (case words of
       [] \<Rightarrow> read_metrics float_of lines values
     | name # rest \<Rightarrow>
        if prefix [35] name \<or> name \<notin> set (map cps METRIC_NAMES) then read_metrics float_of lines values
        else if length rest \<noteq> 1 \<or> name \<in> fst ` set values then None
        else case float_of (hd rest) of None \<Rightarrow> None | Some x \<Rightarrow> read_metrics float_of lines ((name, x) # values))"

record activity =
  av_active :: int
  av_counter :: "rat \<times> rat"

fun counted_metric :: "metric option \<Rightarrow> rat option" where
  "counted_metric (Some (Number x)) = (if x < 0 then None else Some x)"
| "counted_metric m = None"

definition request_activity :: "(pystr \<Rightarrow> metric option) \<Rightarrow> pystr list list option \<Rightarrow> activity option" where
  "request_activity float_of page =
    (case page of None \<Rightarrow> None
     | Some lines \<Rightarrow> (case read_metrics float_of lines [] of None \<Rightarrow> None
       | Some values \<Rightarrow>
          (let metric_of = (\<lambda>name. counted_metric (map_of values (cps name))) in
           case (metric_of ''llamacpp:requests_processing'', metric_of ''llamacpp:requests_deferred'',
               metric_of ''llamacpp:prompt_tokens_total'', metric_of ''llamacpp:tokens_predicted_total'') of
             (Some processing, Some deferred, Some prompt, Some generated) \<Rightarrow>
               if processing = of_int \<lfloor>processing\<rfloor> \<and> deferred = of_int \<lfloor>deferred\<rfloor>
               then Some \<lparr>av_active = \<lfloor>processing\<rfloor> + \<lfloor>deferred\<rfloor>, av_counter = (prompt, generated)\<rparr> else None
           | _ \<Rightarrow> None)))"

section \<open>The loop\<close>

text \<open>
  One round as the surroundings answer it: the poll of the child, the settings and the
  activity they show, the round of the thermal watchdog, two readings of the clock, the facts
  of the idle decision and whether the server is active, the stop, the status file, the mark of
  the latch, and the wait for the child. An exception stands for each call that may raise.
\<close>

record watch_report =
  wr_state :: string

record supervisor_round =
  sr_poll :: "int option"
  sr_model :: "exn option"
  sr_watch :: "exn + watch_report"
  sr_activity :: "activity option"
  sr_seen_at :: instant
  sr_facts :: "exn + idle_facts"
  sr_server :: "exn + bool"
  sr_now :: instant
  sr_stop :: "exn option"
  sr_status :: "exn option"
  sr_mark :: "exn option"
  sr_wait :: "int option"

datatype supervisor_effect = Stopped_Server | Marked_Stopped | Terminated | Killed

record supervision =
  su_counter :: "(rat \<times> rat) option"
  su_last :: "instant option"
  su_log :: "supervisor_effect list"

text \<open>How the loop ended: the child's exit code, an exception, or not yet.\<close>

datatype supervisor_end = Exited int | Raised exn | Running

definition logged :: "supervisor_effect \<Rightarrow> supervision \<Rightarrow> supervision" where
  "logged e s = s\<lparr>su_log := su_log s @ [e]\<rparr>"

definition observed_round :: "supervisor_round \<Rightarrow> supervision \<Rightarrow> supervision" where
  "observed_round r s = (case sr_activity r of
     None \<Rightarrow> s\<lparr>su_counter := None\<rparr>
   | Some a \<Rightarrow> s\<lparr>su_last := (if av_active a \<noteq> 0 \<or> Some (av_counter a) \<noteq> su_counter s then Some (sr_seen_at r) else su_last s),
       su_counter := Some (av_counter a)\<rparr>)"

definition idle_decision_of :: "supervisor_round \<Rightarrow> supervision \<Rightarrow> idle_facts \<Rightarrow> bool \<Rightarrow> idle_decision" where
  "idle_decision_of r s facts active =
     evaluate_idle facts active (Some (sr_now r)) (su_last s) False (map_option av_active (sr_activity r))"

text \<open>
  \<^verbatim>\<open>enforce_once\<close>: the stop is the one effect of the policy. The question whether the
  server is active is asked after the facts are read.
\<close>

definition enforce_idle :: "supervisor_round \<Rightarrow> supervision \<Rightarrow> exn option \<times> supervision" where
  "enforce_idle r s = (case sr_facts r of
     Inl e \<Rightarrow> (Some e, s)
   | Inr facts \<Rightarrow>
      if stale_profile facts then (None, s)
      else case sr_server r of
        Inl e \<Rightarrow> (Some e, s)
      | Inr active \<Rightarrow> if id_action (idle_decision_of r s facts active) = STOP_NOW
          then (sr_stop r, logged Stopped_Server s) else (None, s))"

text \<open>The body of one round, up to an exception or the wait.\<close>

definition round_end :: "supervisor_round \<Rightarrow> supervisor_end" where
  "round_end r = (case sr_wait r of None \<Rightarrow> Running | Some code \<Rightarrow> Exited code)"

definition degraded_end :: "supervisor_round \<Rightarrow> supervision \<Rightarrow> supervisor_end \<times> supervision" where
  "degraded_end r s = (case sr_mark r of
     Some e \<Rightarrow> (Raised e, s)
   | None \<Rightarrow> (round_end r, logged Terminated (logged Marked_Stopped s)))"

definition supervised_round :: "supervisor_round \<Rightarrow> supervision \<Rightarrow> supervisor_end \<times> supervision" where
  "supervised_round r s =
    (case sr_model r of Some e \<Rightarrow> (Raised e, s)
     | None \<Rightarrow> (case sr_watch r of Inl e \<Rightarrow> (Raised e, s)
       | Inr report \<Rightarrow>
          (case enforce_idle r (observed_round r s) of
             (Some e, s') \<Rightarrow> (Raised e, s')
           | (None, s') \<Rightarrow> (case sr_status r of Some e \<Rightarrow> (Raised e, s')
             | None \<Rightarrow> if wr_state report = ''degraded'' then degraded_end r s' else (round_end r, s')))))"

fun supervise :: "supervisor_round list \<Rightarrow> supervision \<Rightarrow> supervisor_end \<times> supervision" where
  "supervise [] s = (Running, s)"
| "supervise (r # rs) s =
    (case sr_poll r of Some code \<Rightarrow> (Exited code, s)
     | None \<Rightarrow> (case supervised_round r s of
         (Running, s') \<Rightarrow> supervise rs s'
       | ended \<Rightarrow> ended))"

text \<open>
  The cleanup: \<open>fin_poll\<close> and \<open>fin_wait\<close> say whether the child is gone before it and after the
  termination, \<open>fin_killed\<close> whether it is gone after it was killed.
\<close>

record final_answers =
  fin_poll :: "int option"
  fin_wait :: "int option"
  fin_killed :: "int option"

definition timeout_expired :: exn where
  "timeout_expired = python_error ''TimeoutExpired''"

definition finish_child :: "final_answers \<Rightarrow> supervisor_end \<times> supervision \<Rightarrow> supervisor_end \<times> supervision" where
  "finish_child f ended = (case ended of (e, s) \<Rightarrow>
     (case fin_poll f of Some code \<Rightarrow> (e, s)
      | None \<Rightarrow> (case fin_wait f of Some code \<Rightarrow> (e, logged Terminated s)
        | None \<Rightarrow> (case fin_killed f of Some code \<Rightarrow> (e, logged Killed (logged Terminated s))
          | None \<Rightarrow> (Raised timeout_expired, logged Killed (logged Terminated s))))))"

text \<open>
  The checks before the child is started: the safe start, the sensor of an enabled watchdog,
  and half a gibibyte of memory when it can be read.
\<close>

record start_answers =
  sa_compose :: "exn option"
  sa_enabled :: bool
  sa_sensor :: bool
  sa_memory :: "int option"
  sa_spawn :: "exn option"

definition start_check :: "start_answers \<Rightarrow> exn option" where
  "start_check a =
    (case sa_compose a of Some e \<Rightarrow> Some e
     | None \<Rightarrow> if sa_enabled a \<and> \<not> sa_sensor a then Some (python_error ''RuntimeError'')
       else (case sa_memory a of
           Some n \<Rightarrow> if n < 512 * 1024 * 1024 then Some (python_error ''RuntimeError'') else sa_spawn a
         | None \<Rightarrow> sa_spawn a))"

definition run_supervisor :: "start_answers \<Rightarrow> supervisor_round list \<Rightarrow> final_answers \<Rightarrow> supervisor_end \<times> supervision" where
  "run_supervisor a rounds f =
    (let s = \<lparr>su_counter = None, su_last = None, su_log = []\<rparr> in
     case start_check a of
       Some e \<Rightarrow> (Raised e, s)
     | None \<Rightarrow> (case supervise rounds s of
         (Running, s') \<Rightarrow> (Running, s')
       | ended \<Rightarrow> finish_child f ended))"

section \<open>The heartbeat\<close>

text \<open>
  The status file as its reader finds it: its fields, or nothing when it cannot be read, is too
  large or no object; the present boot, time and identity of a process.
\<close>

record heartbeat_file =
  hb_boot :: string
  hb_monotonic :: int
  hb_pid :: int
  hb_start :: "string option"

definition live_heartbeat :: "string \<Rightarrow> int \<Rightarrow> (int \<Rightarrow> string option) \<Rightarrow> heartbeat_file option \<Rightarrow> bool" where
  "live_heartbeat boot now process_start h = (case h of None \<Rightarrow> False
     | Some b \<Rightarrow> hb_boot b = boot \<and> 0 \<le> now - hb_monotonic b \<and> now - hb_monotonic b \<le> 15 \<and>
         text_or (hb_start b) [] \<noteq> [] \<and> hb_start b = process_start (hb_pid b))"

end
