(* ===== verification/Supervisor_Promises.thy ===== *)
theory Supervisor_Promises
  imports Supervisor
begin

text \<open>
  The supervisor stops an idle server only after it has seen idleness, without a gap, for as
  long as the profile that runs asks for.
\<close>

section \<open>What a stop has seen\<close>

definition fresh_supervision :: supervision where
  "fresh_supervision = \<lparr>su_counter = None, su_last = None, su_log = []\<rparr>"

text \<open>From round \<open>m\<close> to round \<open>n\<close> every round saw no request and the counters of round \<open>m\<close>.\<close>

definition quiet_since :: "supervisor_round list \<Rightarrow> nat \<Rightarrow> nat \<Rightarrow> bool" where
  "quiet_since rounds m n \<longleftrightarrow> (\<exists>b. sr_activity (rounds ! m) = Some b \<and>
     (\<forall>i. m < i \<longrightarrow> i \<le> n \<longrightarrow> (\<exists>a. sr_activity (rounds ! i) = Some a \<and> av_active a = 0 \<and> av_counter a = av_counter b)))"

text \<open>The state after some rounds: what it remembers, it has seen.\<close>

definition remembers :: "supervisor_round list \<Rightarrow> supervision \<Rightarrow> bool" where
  "remembers seen s \<longleftrightarrow> (\<forall>c. su_counter s = Some c \<longrightarrow> (\<exists>m < length seen. \<exists>b. su_last s = Some (sr_seen_at (seen ! m)) \<and>
     sr_activity (seen ! m) = Some b \<and> av_counter b = c \<and> quiet_since seen m (length seen - 1)))"

lemma remembers_observed:
  assumes "remembers seen s"
  shows "remembers (seen @ [r]) (observed_round r s)"
proof (cases "sr_activity r")
  case None
  then show ?thesis by (simp add: remembers_def observed_round_def)
next
  case (Some a)
  show ?thesis
  proof (cases "av_active a \<noteq> 0 \<or> Some (av_counter a) \<noteq> su_counter s")
    case True
    then show ?thesis
      using Some by (auto simp: remembers_def observed_round_def quiet_since_def nth_append intro!: exI [of _ "length seen"])
  next
    case False
    then have "su_counter s = Some (av_counter a)" by simp
    with assms obtain m b where m: "m < length seen" "su_last s = Some (sr_seen_at (seen ! m))" "sr_activity (seen ! m) = Some b"
      "av_counter b = av_counter a" and quiet: "quiet_since seen m (length seen - 1)"
      unfolding remembers_def by blast
    have "quiet_since (seen @ [r]) m (length seen)"
      unfolding quiet_since_def
    proof (rule exI [of _ b], intro conjI allI impI)
      show "sr_activity ((seen @ [r]) ! m) = Some b" using m by (simp add: nth_append)
      fix i
      assume i: "m < i" "i \<le> length seen"
      show "\<exists>a. sr_activity ((seen @ [r]) ! i) = Some a \<and> av_active a = 0 \<and> av_counter a = av_counter b"
      proof (cases "i = length seen")
        case True
        with Some False m(4) show ?thesis by (simp add: nth_append)
      next
        case inside: False
        with i quiet m(3) show ?thesis by (auto simp: quiet_since_def nth_append)
      qed
    qed
    with False Some m show ?thesis
      by (auto simp: remembers_def observed_round_def nth_append intro!: exI [of _ m])
  qed
qed

text \<open>A stop at round \<open>n\<close> is for a profile that runs, and idleness since a round \<open>m\<close>.\<close>

definition justified_stop :: "supervisor_round list \<Rightarrow> nat \<Rightarrow> bool" where
  "justified_stop rounds n \<longleftrightarrow> (\<exists>facts p m threshold. sr_facts (rounds ! n) = Inr facts \<and> idle_profile_of facts = Some p \<and>
     if_revision facts = Some (ip_revision p) \<and> \<not> if_operations facts \<and> ip_policy p \<notin> {''KEEP_LOADED'', ''STOP_ON_DESKTOP''} \<and>
     threshold = (case ip_stop_after p of None \<Rightarrow> 0 | Some k \<Rightarrow> k) * 60 \<and>
     m \<le> n \<and> quiet_since rounds m n \<and> threshold \<le> max 0 (sr_now (rounds ! n) - sr_seen_at (rounds ! m)))"

lemma stop_decision:
  assumes "id_action (evaluate_idle f active (Some t) seen_at False requests) = STOP_NOW" and "\<not> stale_profile f"
  obtains p observed where "idle_profile_of f = Some p" "if_revision f = Some (ip_revision p)" "\<not> if_operations f"
    "ip_policy p \<notin> {''KEEP_LOADED'', ''STOP_ON_DESKTOP''}" "seen_at = Some observed" "requests \<noteq> None"
    "(case ip_stop_after p of None \<Rightarrow> 0 | Some k \<Rightarrow> k) * 60 \<le> max 0 (t - observed)"
  using assms
  by (auto simp: evaluate_idle_def stale_profile_def stays_def Let_def split: if_splits option.splits)

lemma enforce_stops:
  assumes "enforce_idle r s = (e, s')" and "Stopped_Server \<in> set (su_log s')" and "Stopped_Server \<notin> set (su_log s)"
  obtains facts active where "sr_facts r = Inr facts" "\<not> stale_profile facts"
    "id_action (idle_decision_of r s facts active) = STOP_NOW"
  using assms by (auto simp: enforce_idle_def split: sum.splits if_splits)

lemma round_stops:
  assumes "supervised_round r s = (e, s')" and "Stopped_Server \<in> set (su_log s')" and "Stopped_Server \<notin> set (su_log s)"
    and "remembers seen s"
  shows "justified_stop (seen @ [r]) (length seen)"
proof -
  let ?o = "observed_round r s"
  have same: "su_log ?o = su_log s" by (simp add: observed_round_def split: option.split)
  obtain x s'' where enforced: "enforce_idle r ?o = (x, s'')" by fastforce
  with assms(1,2) have "Stopped_Server \<in> set (su_log s'')"
    using assms(3) same
    by (auto simp: supervised_round_def degraded_end_def logged_def split: option.splits sum.splits if_splits)
  with enforced assms(3) same obtain facts active where f: "sr_facts r = Inr facts" "\<not> stale_profile facts"
    "id_action (idle_decision_of r ?o facts active) = STOP_NOW"
    by (auto elim: enforce_stops)
  from stop_decision [OF f(3) [unfolded idle_decision_of_def] f(2)] obtain p observed
    where p: "idle_profile_of facts = Some p" "if_revision facts = Some (ip_revision p)" "\<not> if_operations facts"
      "ip_policy p \<notin> {''KEEP_LOADED'', ''STOP_ON_DESKTOP''}" "su_last ?o = Some observed" "sr_activity r \<noteq> None"
      "(case ip_stop_after p of None \<Rightarrow> 0 | Some k \<Rightarrow> k) * 60 \<le> max 0 (sr_now r - observed)" by (auto simp: option.map_disc_iff)
  from p(6) obtain a where "sr_activity r = Some a" by blast
  then have "su_counter ?o = Some (av_counter a)" by (simp add: observed_round_def)
  with remembers_observed [OF assms(4), of r] p(5) obtain m where m: "m < length (seen @ [r])" "observed = sr_seen_at ((seen @ [r]) ! m)"
    "quiet_since (seen @ [r]) m (length seen)" by (fastforce simp: remembers_def)
  from p m f(1) show ?thesis
    unfolding justified_stop_def by (intro exI [of _ facts] exI [of _ p] exI [of _ m]) (simp add: nth_append_length)
qed

lemma round_remembers:
  assumes "supervised_round r s = (Running, s')" and "remembers seen s"
  shows "remembers (seen @ [r]) s'"
proof -
  have "su_counter s' = su_counter (observed_round r s) \<and> su_last s' = su_last (observed_round r s)"
    using assms(1)
    by (auto simp: supervised_round_def enforce_idle_def degraded_end_def logged_def split: option.splits sum.splits if_splits)
  with remembers_observed [OF assms(2), of r] show ?thesis by (simp add: remembers_def)
qed

lemma quiet_append: "quiet_since xs m n \<Longrightarrow> n < length xs \<Longrightarrow> m \<le> n \<Longrightarrow> quiet_since (xs @ ys) m n"
  by (auto simp: quiet_since_def nth_append)

lemma justified_append: "justified_stop xs n \<Longrightarrow> n < length xs \<Longrightarrow> justified_stop (xs @ ys) n"
  unfolding justified_stop_def using quiet_append by (fastforce simp: nth_append)

lemma supervise_stops:
  assumes "supervise rounds s = (e, s')" and "Stopped_Server \<in> set (su_log s')" and "Stopped_Server \<notin> set (su_log s)"
    and "remembers seen s"
  shows "\<exists>n < length (seen @ rounds). justified_stop (seen @ rounds) n"
  using assms
proof (induction rounds arbitrary: s seen)
  case (Cons r rounds)
  obtain x s1 where round: "supervised_round r s = (x, s1)" by fastforce
  show ?case
  proof (cases "Stopped_Server \<in> set (su_log s1)")
    case True
    from round_stops [OF round True Cons.prems(3,4)] have "justified_stop ((seen @ [r]) @ rounds) (length seen)"
      by (rule justified_append) simp
    then show ?thesis by (intro exI [of _ "length seen"]) simp
  next
    case False
    with Cons.prems(1,2,3) round have x: "x = Running" and rest: "supervise rounds s1 = (e, s')"
      by (auto split: option.splits supervisor_end.splits)
    from Cons.IH [OF rest Cons.prems(2) False round_remembers [OF round [unfolded x] Cons.prems(4)]] show ?thesis by simp
  qed
qed auto


section \<open>The end of the child\<close>

text \<open>However the loop ends, the child is seen gone, or it was terminated, or killed.\<close>

lemma child_is_ended:
  assumes "run_supervisor a rounds f = (e, s)" and "start_check a = None" and "e \<noteq> Running"
  shows "fin_poll f \<noteq> None \<or> (\<exists>log. su_log s = log @ [Terminated]) \<or> (\<exists>log. su_log s = log @ [Terminated, Killed])"
  using assms by (auto simp: run_supervisor_def finish_child_def logged_def Let_def split: prod.splits supervisor_end.splits option.splits)

text \<open>A degraded round that ends without an exception has stopped the latch and the child.\<close>

lemma degraded_round_stops:
  assumes "supervised_round r s = (e, s')" and "sr_watch r = Inr report" and "wr_state report = ''degraded''" and "\<And>x. e \<noteq> Raised x"
  shows "\<exists>log. su_log s' = log @ [Marked_Stopped, Terminated]"
  using assms by (auto simp: supervised_round_def degraded_end_def logged_def split: option.splits prod.splits)

section \<open>Witness\<close>

definition idle_round :: "instant \<Rightarrow> supervisor_round" where
  "idle_round t = \<lparr>sr_poll = None, sr_model = None, sr_watch = Inr \<lparr>wr_state = ''nominal''\<rparr>,
     sr_activity = Some \<lparr>av_active = 0, av_counter = (3, 4)\<rparr>, sr_seen_at = t,
     sr_facts = Inr \<lparr>if_profile = Some ''p'', if_revision = Some 2,
       if_applied = Some \<lparr>ip_profile = ''p'', ip_revision = 2, ip_policy = ''STOP_AFTER'', ip_stop_after = Some 5\<rparr>,
       if_row = None, if_operations = False\<rparr>,
     sr_server = Inr True, sr_now = t, sr_stop = None, sr_status = None, sr_mark = None, sr_wait = None\<rparr>"


end
