(* ===== verification/Spec2Isabelle.thy ===== *)
theory Spec2Isabelle
  imports Witnesses Workflow_Witnesses Thermal_Witnesses Gateway_Witnesses Pointer_Witnesses
    Release_Witnesses Chat_Promises Supervisor_Promises
begin

text \<open>
  The durable operation engine of \<^verbatim>\<open>bc250_llm_mode\<close>.

  The program runs language models on one appliance. Everything it does that takes long or
  changes the machine (activating a model, downloading one, installing a runtime, a backup,
  an update) is an \<^emph>\<open>operation\<close>: a row in SQLite with a list of steps. Operations are
  enqueued by commands, run by a worker under a worker host, fenced by leases on named
  resources, and commanded (cancel, resume, retry, recover, dismiss) from any process.
  A crash at any instant leaves rows from which another worker can carry on.

  Theories, in the order of the code:

  \<^item> \<open>Prelude\<close>: tables as lists of rows, ordered key lists, theorem collections.
  \<^item> \<open>Payload\<close> models \<^verbatim>\<open>operations/validation.py\<close>: JSON values as trees,
    sanitizing, the canonical encoding and its byte budget.
  \<^item> \<open>Op_Model\<close> models \<^verbatim>\<open>operations/model.py\<close>, \<^verbatim>\<open>operations/recovery.py\<close>
    and the policy of \<^verbatim>\<open>operations/progress.py\<close>: enumerations, the two transition
    tables, records, exceptions, the recovery decision table, the progress throttle.
  \<^item> \<open>Store\<close> models \<^verbatim>\<open>unit_of_work.py\<close> and the tables: a program maps the
    system state to a value or an exception and a new state; \<open>begin_unit\<close> runs one on
    the tables as the other processes left them and restores them when it raises.
  \<^item> \<open>Operation_Repository\<close>, \<open>Step_Repository\<close> and \<open>Lease_Repository\<close> model
    \<^verbatim>\<open>operations/repositories.py\<close>, an SQL statement as a conditional rewrite of rows
    with its row count.
  \<^item> \<open>Workflow\<close> models \<^verbatim>\<open>operations/workflow.py\<close>: declarations, their
    construction check, the registry and the enqueue service.
  \<^item> \<open>Engine\<close> and \<open>Executor\<close> model \<^verbatim>\<open>operations/engine.py\<close>: claim, step
    protocol, verification, failure classification, compensation, cancellation, pause,
    recovery of an interrupted step, completion.
  \<^item> \<open>Requests\<close> holds what the concrete workflows share: the checks of a request decoder,
    Python's text conversions, dataclass construction. \<open>Activation\<close>, \<open>Acquisition\<close>,
    \<open>Model_Remove\<close>, \<open>Storage_Cleanup\<close>, \<open>Backup\<close>, \<open>Calibration\<close>,
    \<open>Application_Update\<close>, \<open>Integration_Setup\<close> and \<open>Runtime_Lifecycle\<close> each model the file
    of \<^verbatim>\<open>operations/\<close> with that name: the closed request, the evidence objects, the host
    port, the callables of every step and the terminal decision. \<open>Production\<close> composes
    the twelve workflows into the registry of \<^verbatim>\<open>app.py\<close>.
  \<^item> \<open>Command_Service\<close> models \<^verbatim>\<open>operations/command_service.py\<close>; \<open>Worker\<close>
    models \<^verbatim>\<open>operations/worker.py\<close> and \<^verbatim>\<open>operations/worker_host.py\<close>;
    \<open>Progress_Reporter\<close> the reporter of \<^verbatim>\<open>operations/progress.py\<close>.
  \<^item> \<open>Optimize\<close> models \<^verbatim>\<open>optimize.py\<close> (settings, their validation, the edit of the
    governor's configuration, applying and reverting) with \<^verbatim>\<open>privilege.py\<close>;
    \<open>Thermals\<close> models \<^verbatim>\<open>thermals.py\<close>: the latch service over its durable row, one
    poll of the watchdog, the reset and the watch loop. Their state is a \<open>plant\<close>: the row of
    \<^verbatim>\<open>thermal_state\<close>, the state dictionary the functions mutate, and the host.
  \<^item> \<open>Clients\<close> models \<^verbatim>\<open>connection_credentials.py\<close> and the commands and the
    authentication store of \<^verbatim>\<open>connection_setup.py\<close>: named clients, generations of their
    secrets, the access switch, and one file for each secret. \<open>Problem_Details\<close> models
    \<^verbatim>\<open>problem_details.py\<close>, \<open>Gateway\<close> models \<^verbatim>\<open>gateway.py\<close>: the policy, the
    rate limiter, the audit, and one request from the socket to the backend and back. The
    state of the gateway lies on that of the clients: a request authenticates against their
    tables, which the commands change between any two requests.

  \<^item> \<open>Pointers\<close> models \<^verbatim>\<open>application_pointer_helper.py\<close> and
    \<^verbatim>\<open>application_publisher.py\<close>: the releases, the two links \<^verbatim>\<open>current\<close> and
    \<^verbatim>\<open>previous\<close>, their replacement one after the other, the promotion of a stage, the
    publication and its restoration. The state is a \<open>shelf\<close>; each file operation may fail or
    be the last of its process, before or after it took effect, as \<open>pe_fault\<close> says.

  \<^item> \<open>Release_Policy\<close>, \<open>Release_Evidence\<close> and \<open>Release_Gate\<close> model the
    \<^verbatim>\<open>release_*.py\<close> modules with the command line \<^verbatim>\<open>tools/release\<close>: the policy
    and its digests, one evidence record in its pinned order of checks, attestations, sets of
    records, the evaluator that alone decides eligibility, and the manifest of its decision.

  \<^item> \<open>Chat_Context\<close> models \<^verbatim>\<open>chat_context.py\<close>: which messages of a
    conversation reach the model. \<open>Supervisor\<close> models \<^verbatim>\<open>idle_policy.py\<close> and
    \<^verbatim>\<open>runtime_policy.py\<close>: the decision to stop an idle server, and the loop that owns
    the server's process, each round as its surroundings answer it.

  What surrounds the program is a parameter. The environment gives the clock reading and the
  identifier of each call, what other processes do to the tables between two units of work
  (\<open>e_open\<close>) and whether a commit fails (\<open>e_commit\<close>). The callables of a workflow's steps,
  the profile access lock, the crash hook and the terminal observer are programs that the
  engine is given. Theorems about a whole run ask of them only what the program itself
  promises.

  The machine under the watchdog is a record of programs as well (\<open>mc_run\<close> runs a command,
  \<open>mc_sensor\<close> reads the temperature inputs), and the thermal environment says what other
  processes do to the latch between two units of work. A float is the rational it denotes.

  A workflow's host adapter is a parameter too: a record with one program per method of the
  port, which may raise, change the world or answer anything. What Python makes of a value
  that is not of the expected type (\<^verbatim>\<open>str\<close> of a list, \<^verbatim>\<open>int\<close> or
  \<^verbatim>\<open>float\<close> of a text) is given by the functions \<open>py_shown\<close>, \<open>py_reading\<close> and
  \<open>py_rate\<close>; no theorem restricts them.

  How the proofs are organised:

  \<^item> \<open>Store_Contract\<close> is the interface between the repositories and every promise about the
    tables: a locale whose assumptions are the row-level writes and whose client lemmas say
    that every repository operation keeps the relation. \<open>Engine_Promise\<close> and
    \<open>Surface_Promise\<close> prove once, for any such relation, that the engine, the commands, the
    worker and the host keep it. \<open>Promises\<close> and \<open>Call_Log\<close> interpret the contract on the
    relations that matter: rows evolve along the transition table, keys stay unique, history
    only grows, effects follow their intent.
  \<^item> \<open>Repository_Facts\<close> and \<open>Lease_Facts\<close>: the functional behaviour of each repository
    operation, on its success and its error branches.
  \<^item> \<open>Model_Facts\<close>: the state machines as inductive step relations, the decision table, the
    payload rules. \<open>Workflow_Facts\<close>: declarations, registry, enqueueing.
  \<^item> \<open>Engine_Facts\<close>: fences, barrier, failure paths of single engine methods.
    \<open>Guarantees\<close>: whole runs of engine and host. \<open>Completion\<close> and \<open>Liveness\<close>: total
    correctness triples, up to a queued operation that succeeds in one run.
  \<^item> \<open>Lease_Refinement\<close>: a table of locks as the abstract specification of the leases, and the
    simulation that the repository implements it over every sequence of requests.
  \<^item> \<open>Request_Facts\<close> and \<open>Stored_Requests\<close>: decoding, sanitizing and decoding again agree,
    workflow by workflow and for the composition. \<open>Payload_Size\<close>: a structural bound on the
    encoded size of ASCII payloads, so that events and inputs of a step are known to fit.
  \<^item> \<open>Workflow_Promises\<close>: what single steps and terminal decisions of the workflows promise
    for every host. \<open>Connection_Setup\<close>: the connection workflow under the engine, from the
    queued row to success.
  \<^item> \<open>Thermal_Facts\<close>: the locale \<open>row_promise\<close> (a relation on the latch row that every command
    of the latch service keeps) and its client lemmas up to the watch loop, the stop that holds
    until a reset, the order of persisting and acting, what a reset needs. \<open>Optimize_Facts\<close>:
    the bounds of accepted settings, the band between the thresholds, the clock cap.
  \<^item> \<open>Client_Facts\<close> and \<open>Client_Promises\<close>: the locale of a relation that every write to the
    clients' tables keeps, what a command that succeeds has done, who a secret resolves to,
    revocation and rotation. \<open>Gateway_Facts\<close> and \<open>Gateway_Promises\<close>: the same for the
    gateway's memory, the balance of slots over a request, and what holds over all traffic of
    requests and commands: which calls reach the backend, and for whom.
  \<^item> \<open>Pointer_Facts\<close> and \<open>Pointer_Promises\<close>: the locales of relations on the application
    directory that every file operation keeps, what interrupted attempts can leave, and triples
    for an undisturbed attempt: it carries on from whatever they left.
  \<^item> \<open>Release_Facts\<close> and \<open>Release_Promises\<close>: what an accepted record is, that the
    evaluator counts nothing else, that the order of the evidence plays no part, that a set
    without problems has one current record of each kind, and what binds nothing.
  \<^item> \<open>Chat_Promises\<close>: the binary search selects the longest suffix of turns that fits, as
    the linear reference definition does, and asks for few counts. \<open>Supervisor_Promises\<close>: an
    invariant of the supervisor's memory over the rounds it has seen, and from it what an idle
    stop has seen; the end of the child. Both theories hold their witnesses.
  \<^item> \<open>Divergences\<close>: behaviours the code's comments do not announce.
  \<^item> \<open>Samples\<close>, \<open>Witnesses\<close>, \<open>Workflow_Witnesses\<close>, \<open>Thermal_Witnesses\<close>,
    \<open>Gateway_Witnesses\<close>, \<open>Pointer_Witnesses\<close> and \<open>Release_Witnesses\<close>: a concrete installation at which each property with hypotheses is applied.

  Fuel. The step loop of the engine is bounded by \<open>en_fuel\<close>: each round verifies a step,
  records a terminal outcome or returns, so any fuel above the number of steps (and at least
  three, for the attempts of \<open>ensure_running\<close>) is enough, which the liveness theorem proves
  for the loop it states. The loops of worker and host, endless by design, take a number of
  rounds; their theorems hold for every number.

  Not modelled: the host adapters behind the ports (files, subprocesses, systemd, HTTP), SQL
  parsing and schema migrations, the profile lock file, the sentences meant for people, the
  graphical and command line surfaces, sockets and threads of the gateway, downloads and
  system services.
\<close>

end
